(* ===== verification/Prelude.thy ===== *)
theory Prelude
  imports Main "HOL-Library.Word"
begin

text \<open>
  Vocabulary shared by every component: bytes and machine words, the little-endian layout that
  packed C structures have on the wire, C strings, and the result type in which undefined
  behaviour of the C code (an access outside an object, a read of an uninitialised object, a NULL
  or dangling pointer) is a value.
\<close>

unbundle bit_operations_syntax

type_synonym byte = "8 word"
type_synonym bytes = "byte list"
type_synonym u16 = "16 word"
type_synonym u32 = "32 word"
type_synonym u64 = "64 word"

named_theorems codec_simps "evaluation of the wire codecs"

section \<open>Results of C code\<close>

datatype ub =
    OutOfBounds
  | Uninitialised
  | NullDeref
  | UseAfterFree
  | BadCast
  | DivByZero
  | SignedOverflow

type_synonym 'a result = "ub + 'a"

primrec rbind :: "'e + 'a \<Rightarrow> ('a \<Rightarrow> 'e + 'b) \<Rightarrow> 'e + 'b" where
  "rbind (Inl e) f = Inl e"
| "rbind (Inr x) f = f x"

lemma rbind_Inr_right [simp]: "rbind m Inr = m"
  by (cases m) simp_all

lemma rbind_assoc: "rbind (rbind m f) g = rbind m (\<lambda>x. rbind (f x) g)"
  by (cases m) simp_all

lemma rbind_eq_Inr_iff: "rbind m f = Inr y \<longleftrightarrow> (\<exists>x. m = Inr x \<and> f x = Inr y)"
  by (cases m) simp_all

lemma rbind_cong [fundef_cong]:
  "m = m' \<Longrightarrow> (\<And>x. m' = Inr x \<Longrightarrow> f x = f' x) \<Longrightarrow> rbind m f = rbind m' f'"
  by (cases m') simp_all

text \<open>\<open>succeeds m P\<close>: the computation has no undefined behaviour and its result satisfies \<open>P\<close>.\<close>

definition succeeds :: "'e + 'a \<Rightarrow> ('a \<Rightarrow> bool) \<Rightarrow> bool" where
  "succeeds m P \<longleftrightarrow> (case m of Inl _ \<Rightarrow> False | Inr x \<Rightarrow> P x)"

lemma succeeds_Inr [simp]: "succeeds (Inr x) P = P x"
  by (simp add: succeeds_def)

lemma succeeds_Inl [simp]: "\<not> succeeds (Inl e) P"
  by (simp add: succeeds_def)

lemma succeeds_bind [simp]: "succeeds (rbind m k) P = succeeds m (\<lambda>x. succeeds (k x) P)"
  by (cases m) simp_all

lemma succeeds_iff: "succeeds m P \<longleftrightarrow> (\<exists>x. m = Inr x \<and> P x)"
  by (cases m) simp_all

lemma succeeds_mono: "succeeds m P \<Longrightarrow> (\<And>x. P x \<Longrightarrow> Q x) \<Longrightarrow> succeeds m Q"
  by (cases m) simp_all

section \<open>Little-endian words\<close>

primrec le_bytes :: "nat \<Rightarrow> 'a::len word \<Rightarrow> bytes" where
  "le_bytes 0 w = []"
| "le_bytes (Suc n) w = ucast w # le_bytes n (drop_bit 8 w)"

primrec le_word :: "bytes \<Rightarrow> 'a::len word" where
  "le_word [] = 0"
| "le_word (b # bs) = or (ucast b) (push_bit 8 (le_word bs))"

lemma le_bytes_numeral [simp]:
  "le_bytes (numeral k) w = ucast w # le_bytes (pred_numeral k) (drop_bit 8 w)"
  by (simp add: numeral_eq_Suc)

lemma length_le_bytes [simp]: "length (le_bytes n w) = n"
  by (induction n arbitrary: w) simp_all

lemma le_word_le_bytes: "le_word (le_bytes n w) = take_bit (8 * n) w"
proof (induction n arbitrary: w)
  case (Suc n)
  show ?case
    by (rule bit_eqI) (auto simp: Suc bit_simps not_less)
qed simp

lemma bit_le_word: "bit (le_word bs :: 'a::len word) n \<Longrightarrow> n < 8 * length bs"
  by (induction bs arbitrary: n) (auto simp: bit_simps dest: bit_imp_le_length, fastforce)

lemma le_bytes_le_word:
  "8 * length bs \<le> LENGTH('a) \<Longrightarrow> le_bytes (length bs) (le_word bs :: 'a::len word) = bs"
proof (induction bs)
  case (Cons b bs)
  let ?w = "le_word bs :: 'a word"
  have "bit ?w n \<Longrightarrow> 8 + n < LENGTH('a)" for n
    using bit_le_word [of bs n, where 'a = 'a] Cons.prems by simp
  then have "drop_bit 8 (or (ucast b) (push_bit 8 ?w)) = ?w"
    by (intro bit_eqI) (auto simp: bit_simps add.commute dest: bit_imp_le_length)
  moreover have "ucast (or (ucast b) (push_bit 8 ?w)) = b"
    using Cons.prems by (intro bit_eqI) (auto simp: bit_simps)
  ultimately show ?case
    using Cons by simp
qed simp

abbreviation enc8 :: "byte \<Rightarrow> bytes" where "enc8 w \<equiv> [w]"
definition enc16 :: "u16 \<Rightarrow> bytes" where "enc16 w = le_bytes 2 w"
definition enc32 :: "u32 \<Rightarrow> bytes" where "enc32 w = le_bytes 4 w"
definition enc64 :: "u64 \<Rightarrow> bytes" where "enc64 w = le_bytes 8 w"
definition dec16 :: "bytes \<Rightarrow> u16" where "dec16 bs = le_word (take 2 bs)"
definition dec32 :: "bytes \<Rightarrow> u32" where "dec32 bs = le_word (take 4 bs)"
definition dec64 :: "bytes \<Rightarrow> u64" where "dec64 bs = le_word (take 8 bs)"

lemma length_enc [simp]:
  "length (enc16 w) = 2" "length (enc32 x) = 4" "length (enc64 y) = 8"
  by (simp_all only: enc16_def enc32_def enc64_def length_le_bytes)

lemma enc_neq_Nil [simp]: "enc16 w \<noteq> []" "enc32 x \<noteq> []" "enc64 y \<noteq> []"
  using length_enc by (metis list.size(3) zero_neq_numeral)+

lemma take_bit_word_full: "LENGTH('a) \<le> n \<Longrightarrow> take_bit n (w :: 'a::len word) = w"
  by (rule bit_eqI) (auto simp: bit_simps)

lemma le_word_full: "LENGTH('a) \<le> 8 * n \<Longrightarrow> le_word (le_bytes n w) = (w :: 'a::len word)"
  by (simp add: le_word_le_bytes take_bit_word_full)

lemma dec_enc [simp]:
  "dec16 (enc16 w @ r) = w" "dec32 (enc32 x @ r) = x" "dec64 (enc64 y @ r) = y"
  unfolding dec16_def dec32_def dec64_def enc16_def enc32_def enc64_def
  by (simp_all only: take_append length_le_bytes diff_self_eq_0 take_0 append_Nil2 take_all order_refl)
    (rule le_word_full, simp)+

lemma dec_enc' [simp]:
  "dec16 (enc16 w) = w" "dec32 (enc32 x) = x" "dec64 (enc64 y) = y"
  using dec_enc [where r = "[]"] by simp_all

lemma drop_enc [simp]:
  "drop 2 (enc16 w @ r) = r" "drop 4 (enc32 x @ r) = r" "drop 8 (enc64 y @ r) = r"
  by simp_all

lemma enc16_inj: "enc16 w = enc16 w' \<longleftrightarrow> w = w'"
  by (metis dec_enc'(1))

lemma enc32_inj: "enc32 w = enc32 w' \<longleftrightarrow> w = w'"
  by (metis dec_enc'(2))

lemma enc64_inj: "enc64 w = enc64 w' \<longleftrightarrow> w = w'"
  by (metis dec_enc'(3))

lemma take_dec16 [simp]: "2 \<le> n \<Longrightarrow> dec16 (take n bs) = dec16 bs"
  by (simp add: dec16_def min_def)

lemma take_dec32 [simp]: "4 \<le> n \<Longrightarrow> dec32 (take n bs) = dec32 bs"
  by (simp add: dec32_def min_def)

lemma take_dec64 [simp]: "8 \<le> n \<Longrightarrow> dec64 (take n bs) = dec64 bs"
  by (simp add: dec64_def min_def)

section \<open>C strings\<close>

text \<open>
  A NUL-terminated string is the list of its bytes before the terminator, so that \<open>strlen\<close> is
  \<open>length\<close>. \<open>c_strncpy n s\<close> is the content of an \<open>n\<close>-byte array after \<open>strncpy (dst, s, n)\<close>:
  at most \<open>n\<close> bytes of the string, the rest of the array zeroed.
\<close>

definition c_strncpy :: "nat \<Rightarrow> bytes \<Rightarrow> bytes" where
  "c_strncpy n s = take n (s @ replicate n 0)"

definition c_str :: "bytes \<Rightarrow> bytes" where
  "c_str mem = takeWhile (\<lambda>b. b \<noteq> 0) mem"

definition c_is_str :: "bytes \<Rightarrow> bool" where
  "c_is_str s \<longleftrightarrow> 0 \<notin> set s"

lemma length_c_strncpy [simp]: "length (c_strncpy n s) = n"
  by (simp add: c_strncpy_def)

lemma c_strncpy_exact: "c_strncpy (Suc (length s)) s = s @ [0]"
  by (simp add: c_strncpy_def)

lemma c_str_strncpy:
  assumes "c_is_str s" "length s < n"
  shows "c_str (c_strncpy n s @ r) = s"
proof -
  have "c_strncpy n s @ r = s @ 0 # (replicate (n - length s - 1) 0 @ r)"
    using assms(2) by (cases "n - length s") (auto simp: c_strncpy_def min_def)
  moreover have "\<forall>b \<in> set s. b \<noteq> 0"
    using assms(1) by (auto simp: c_is_str_def)
  ultimately show ?thesis
    by (simp add: c_str_def takeWhile_append2)
qed

lemma c_is_str_c_str [simp]: "c_is_str (c_str m)"
  by (auto simp: c_is_str_def c_str_def dest: set_takeWhileD)

lemma c_str_id: "c_is_str s \<Longrightarrow> c_str s = s"
  by (simp add: c_is_str_def c_str_def takeWhile_eq_all_conv)
     (metis)

section \<open>Byte arrays\<close>

text \<open>\<open>mem_write m k bs\<close> is \<open>memcpy (&m[k], bs, length bs)\<close> on an object large enough for it.\<close>

definition mem_write :: "bytes \<Rightarrow> nat \<Rightarrow> bytes \<Rightarrow> bytes" where
  "mem_write m k bs = take k m @ bs @ drop (k + length bs) m"

definition mem_read :: "bytes \<Rightarrow> nat \<Rightarrow> nat \<Rightarrow> bytes" where
  "mem_read m k n = take n (drop k m)"

lemma length_mem_write [simp]:
  "k + length bs \<le> length m \<Longrightarrow> length (mem_write m k bs) = length m"
  by (simp add: mem_write_def)

lemma take_mem_write [simp]:
  "k + length bs \<le> length m \<Longrightarrow> take (k + length bs) (mem_write m k bs) = take k m @ bs"
  by (cases bs) (auto simp: mem_write_def min_def)

lemma take_mem_write' [simp]:
  "k + length bs \<le> length m \<Longrightarrow> take (length bs + k) (mem_write m k bs) = take k m @ bs"
  by (metis add.commute take_mem_write)

lemma take_mem_write_before [simp]:
  "j \<le> k \<Longrightarrow> k \<le> length m \<Longrightarrow> take j (mem_write m k bs) = take j m"
  by (simp add: mem_write_def min_def)

lemma drop_mem_write_after [simp]:
  "k + length bs \<le> j \<Longrightarrow> k \<le> length m \<Longrightarrow> drop j (mem_write m k bs) = drop j m"
  by (simp add: mem_write_def min_def)

lemma length_mem_read [simp]: "k + n \<le> length m \<Longrightarrow> length (mem_read m k n) = n"
  by (simp add: mem_read_def)

lemma mem_read_write_same [simp]:
  "k + length bs \<le> length m \<Longrightarrow> n = length bs \<Longrightarrow> mem_read (mem_write m k bs) k n = bs"
  by (simp add: mem_write_def mem_read_def min_def)

section \<open>Lists of lists\<close>

lemma distinct_concat_nth:
  "(\<And>i. i < length xss \<Longrightarrow> distinct (xss ! i)) \<Longrightarrow>
   (\<And>i j x. i < length xss \<Longrightarrow> j < length xss \<Longrightarrow> x \<in> set (xss ! i) \<Longrightarrow> x \<in> set (xss ! j) \<Longrightarrow> i = j) \<Longrightarrow>
   distinct (concat xss)"
proof (induction xss)
  case (Cons xs xss)
  have "distinct (concat xss)"
  proof (rule Cons.IH)
    show "distinct (xss ! i)" if "i < length xss" for i
      using Cons.prems(1) [of "Suc i"] that by simp
    show "i = j" if "i < length xss" "j < length xss" "x \<in> set (xss ! i)" "x \<in> set (xss ! j)" for i j x
      using Cons.prems(2) [of "Suc i" "Suc j" x] that by simp
  qed
  moreover have "set xs \<inter> set (concat xss) = {}"
  proof -
    have False if "x \<in> set xs" "j < length xss" "x \<in> set (xss ! j)" for x j
      using Cons.prems(2) [of 0 "Suc j" x] that by simp
    then show ?thesis by (auto simp: in_set_conv_nth [of _ xss])
  qed
  ultimately show ?case
    using Cons.prems(1) [of 0] by simp
qed simp

lemma distinct_filter_nth:
  "(\<And>i j. i < length xs \<Longrightarrow> j < length xs \<Longrightarrow> P (xs ! i) \<Longrightarrow> xs ! i = xs ! j \<Longrightarrow> i = j) \<Longrightarrow>
   distinct (filter P xs)"
proof (induction xs)
  case (Cons x xs)
  have "distinct (filter P xs)"
  proof (rule Cons.IH)
    show "i = j" if "i < length xs" "j < length xs" "P (xs ! i)" "xs ! i = xs ! j" for i j
      using Cons.prems [of "Suc i" "Suc j"] that by simp
  qed
  moreover have "x \<notin> set xs" if "P x"
    using Cons.prems [of 0 "Suc _"] that by (fastforce simp: in_set_conv_nth)
  ultimately show ?case by simp
qed simp

end
