(* ===== verification/PacketStream.thy ===== *)
theory PacketStream
  imports Prelude
begin

text \<open>
  \<open>src/common/packet/packet_stream.c\<close>: a cursor over a caller-supplied memory object through which
  every packet and every object stored in Redis is written and read. The object may be larger than
  the declared size of the stream; reads by pointer (\<open>packetStreamGetCurrentBuffer\<close>) see all of it.
  \<open>position\<close> is an \<open>unsigned int\<close>, so its additions are written modulo $2^{32}$; \<open>sizeExcepted\<close> is
  an \<open>int\<close> updated modulo $2^{32}$.

  The second half states what clients rely on: \<open>ps_appends s bs s'\<close> says that \<open>s'\<close> is \<open>s\<close> with
  exactly the bytes \<open>bs\<close> appended, \<open>ps_reads s n s'\<close> that exactly \<open>n\<close> bytes were consumed, and
  the locale \<open>ps_serializer\<close> is the contract of a \<open>...SerializeSPacket\<close> function together with its
  \<open>...GetSPacketSize\<close>.
\<close>

named_theorems stream_intros "composition of stream steps"

record PacketStream =
  ps_buffer :: bytes
  ps_size :: nat
  ps_position :: nat
  ps_sizeExcepted :: u32
  ps_function :: "string option"

definition packetStreamInit :: "bytes \<Rightarrow> nat \<Rightarrow> PacketStream" where
  "packetStreamInit buffer sz =
     \<lparr> ps_buffer = buffer, ps_size = sz, ps_position = 0, ps_sizeExcepted = 0, ps_function = None \<rparr>"

definition packetStreamAppend :: "PacketStream \<Rightarrow> bytes \<Rightarrow> PacketStream" where
  "packetStreamAppend self data =
     (if ps_position self + length data > ps_size self then self
      else self \<lparr> ps_buffer := mem_write (ps_buffer self) (ps_position self) data,
                  ps_position := (ps_position self + length data) mod 2 ^ 32,
                  ps_sizeExcepted := ps_sizeExcepted self - of_nat (length data) \<rparr>)"

text \<open>The destination of \<open>packetStreamGet\<close> is left untouched when the read is refused: \<open>None\<close>.\<close>

definition packetStreamGet :: "PacketStream \<Rightarrow> nat \<Rightarrow> bytes option \<times> PacketStream" where
  "packetStreamGet self dataSize =
     (if ps_position self + dataSize > ps_size self then (None, self)
      else (Some (mem_read (ps_buffer self) (ps_position self) dataSize),
            self \<lparr> ps_position := (ps_position self + dataSize) mod 2 ^ 32,
                   ps_sizeExcepted := ps_sizeExcepted self - of_nat dataSize \<rparr>))"

definition packetStreamGetCurrentBuffer :: "PacketStream \<Rightarrow> bytes" where
  "packetStreamGetCurrentBuffer self = drop (ps_position self) (ps_buffer self)"

definition packetStreamGetBuffer :: "PacketStream \<Rightarrow> bytes" where
  "packetStreamGetBuffer self = ps_buffer self"

definition packetStreamAddOffset :: "PacketStream \<Rightarrow> nat \<Rightarrow> PacketStream" where
  "packetStreamAddOffset self offset =
     self \<lparr> ps_position := (ps_position self + offset) mod 2 ^ 32 \<rparr>"

definition packetStreamGetSize :: "PacketStream \<Rightarrow> nat" where
  "packetStreamGetSize self = ps_position self"

definition packetStreamResetPosition :: "PacketStream \<Rightarrow> PacketStream" where
  "packetStreamResetPosition self = self \<lparr> ps_position := 0 \<rparr>"

definition packetStreamDebugStart :: "PacketStream \<Rightarrow> nat \<Rightarrow> string \<Rightarrow> PacketStream" where
  "packetStreamDebugStart self sizeExcepted fn =
     self \<lparr> ps_sizeExcepted := of_nat sizeExcepted, ps_function := Some fn \<rparr>"

definition packetStreamDebugEnd :: "PacketStream \<Rightarrow> bool" where
  "packetStreamDebugEnd self \<longleftrightarrow> ps_sizeExcepted self = 0"

section \<open>Well-formed streams and their views\<close>

definition ps_wf :: "PacketStream \<Rightarrow> bool" where
  "ps_wf s \<longleftrightarrow> ps_position s \<le> ps_size s \<and> ps_size s \<le> length (ps_buffer s) \<and> ps_size s < 2 ^ 32"

definition ps_written :: "PacketStream \<Rightarrow> bytes" where
  "ps_written s = take (ps_position s) (ps_buffer s)"

definition ps_room :: "PacketStream \<Rightarrow> nat" where
  "ps_room s = ps_size s - ps_position s"

abbreviation ps_ahead :: "PacketStream \<Rightarrow> bytes" where
  "ps_ahead s \<equiv> packetStreamGetCurrentBuffer s"

definition ps_appends :: "PacketStream \<Rightarrow> bytes \<Rightarrow> PacketStream \<Rightarrow> bool" where
  "ps_appends s bs s' \<longleftrightarrow> ps_wf s' \<and> ps_size s' = ps_size s
     \<and> length (ps_buffer s') = length (ps_buffer s)
     \<and> ps_position s' = ps_position s + length bs
     \<and> ps_written s' = ps_written s @ bs
     \<and> ps_ahead s' = drop (length bs) (ps_ahead s)"

definition ps_reads :: "PacketStream \<Rightarrow> nat \<Rightarrow> PacketStream \<Rightarrow> bool" where
  "ps_reads s n s' \<longleftrightarrow> ps_wf s' \<and> ps_size s' = ps_size s \<and> ps_buffer s' = ps_buffer s
     \<and> ps_position s' = ps_position s + n"

text \<open>\<open>ps_next s bs tail\<close>: the stream is about to deliver \<open>bs\<close>, and \<open>tail\<close> is the memory behind them.\<close>

definition ps_next :: "PacketStream \<Rightarrow> bytes \<Rightarrow> bytes \<Rightarrow> bool" where
  "ps_next s bs tail \<longleftrightarrow> ps_wf s \<and> ps_ahead s = bs @ tail \<and> length bs \<le> ps_room s"

lemma ps_wf_init: "sz \<le> length buf \<Longrightarrow> sz < 2 ^ 32 \<Longrightarrow> ps_wf (packetStreamInit buf sz)"
  by (simp add: ps_wf_def packetStreamInit_def)

lemma ps_appends_wf [dest]: "ps_appends s bs s' \<Longrightarrow> ps_wf s'"
  by (simp add: ps_appends_def)

lemma ps_appends_room: "ps_appends s bs s' \<Longrightarrow> ps_room s' = ps_room s - length bs"
  by (simp add: ps_appends_def ps_room_def)

lemma ps_appends_Nil [simp, stream_intros]: "ps_wf s \<Longrightarrow> ps_appends s [] s"
  by (simp add: ps_appends_def)

lemma ps_appends_trans:
  "ps_appends s bs t \<Longrightarrow> ps_appends t cs u \<Longrightarrow> ps_appends s (bs @ cs) u"
  by (auto simp: ps_appends_def add.commute)

lemma ps_appends_buffer:
  assumes "ps_appends s bs s'"
  shows "ps_buffer s' = ps_written s @ bs @ drop (length bs) (ps_ahead s)"
proof -
  have "ps_buffer s' = ps_written s' @ ps_ahead s'"
    by (simp add: ps_written_def packetStreamGetCurrentBuffer_def)
  then show ?thesis
    using assms by (simp add: ps_appends_def)
qed

text \<open>Writing a fresh stream and going back to its start.\<close>

lemma ps_next_written:
  assumes "ps_appends (packetStreamInit (buf @ guard) n) bs s'" "length buf = length bs" "n = length bs"
  shows "ps_next (packetStreamResetPosition s') bs guard"
  using ps_appends_buffer [OF assms(1)] assms
  by (auto simp: ps_next_def ps_appends_def packetStreamResetPosition_def packetStreamInit_def
      ps_wf_def packetStreamGetCurrentBuffer_def ps_room_def ps_written_def)

text \<open>Two consecutive steps: the form in which serializers are composed.\<close>

lemma ps_appends_comp:
  assumes "ps_appends s bs t" and "length (bs @ cs) \<le> ps_room s"
    and "ps_wf t \<Longrightarrow> length cs \<le> ps_room t \<Longrightarrow> ps_appends t cs u"
  shows "ps_appends s (bs @ cs) u"
proof (rule ps_appends_trans [OF assms(1) assms(3)])
  show "ps_wf t" using assms(1) by auto
  show "length cs \<le> ps_room t"
    using assms(2) ps_appends_room [OF assms(1)] by simp
qed

lemma packetStreamAppend_appends:
  assumes "ps_wf s" "length bs \<le> ps_room s"
  shows "ps_appends s bs (packetStreamAppend s bs)"
proof -
  have "ps_position s + length bs \<le> length (ps_buffer s)"
    and "ps_position s + length bs \<le> ps_size s" "ps_position s + length bs < 2 ^ 32"
    using assms by (auto simp: ps_wf_def ps_room_def)
  then show ?thesis
    using assms
    by (simp add: packetStreamAppend_def ps_appends_def ps_wf_def ps_written_def
        packetStreamGetCurrentBuffer_def add.commute [of _ "length bs"])
qed

lemma packetStreamAppend_refused:
  "ps_position s \<le> ps_size s \<Longrightarrow> ps_room s < length bs \<Longrightarrow> packetStreamAppend s bs = s"
  by (simp add: packetStreamAppend_def ps_room_def)

lemma packetStreamAppend_debug:
  "length bs \<le> ps_room s \<Longrightarrow> ps_position s \<le> ps_size s \<Longrightarrow>
   ps_sizeExcepted (packetStreamAppend s bs) = ps_sizeExcepted s - of_nat (length bs)"
  by (auto simp: packetStreamAppend_def ps_room_def)

lemma packetStreamAppend_wf [simp]:
  assumes "ps_wf s"
  shows "ps_wf (packetStreamAppend s bs)"
proof (cases "length bs \<le> ps_room s")
  case True
  then show ?thesis
    using packetStreamAppend_appends [OF assms] by auto
next
  case False
  then show ?thesis
    using assms by (simp add: packetStreamAppend_refused ps_wf_def)
qed

lemma debugStart_simps [simp]:
  "ps_wf (packetStreamDebugStart s n f) = ps_wf s"
  "ps_room (packetStreamDebugStart s n f) = ps_room s"
  "ps_appends (packetStreamDebugStart s n f) bs s' = ps_appends s bs s'"
  "ps_reads (packetStreamDebugStart s n f) k s' = ps_reads s k s'"
  "ps_ahead (packetStreamDebugStart s n f) = ps_ahead s"
  "ps_position (packetStreamDebugStart s n f) = ps_position s"
  "ps_size (packetStreamDebugStart s n f) = ps_size s"
  "ps_buffer (packetStreamDebugStart s n f) = ps_buffer s"
  "ps_sizeExcepted (packetStreamDebugStart s n f) = of_nat n"
  by (simp_all add: packetStreamDebugStart_def ps_wf_def ps_room_def ps_appends_def ps_reads_def
      ps_written_def packetStreamGetCurrentBuffer_def)

section \<open>Reading\<close>

lemma ps_reads_wf [dest]: "ps_reads s n s' \<Longrightarrow> ps_wf s'"
  by (simp add: ps_reads_def)

lemma ps_reads_0 [simp]: "ps_wf s \<Longrightarrow> ps_reads s 0 s"
  by (simp add: ps_reads_def)

lemma ps_reads_trans: "ps_reads s n t \<Longrightarrow> ps_reads t m u \<Longrightarrow> ps_reads s (n + m) u"
  by (simp add: ps_reads_def)

lemma ps_reads_room: "ps_reads s n t \<Longrightarrow> ps_room t = ps_room s - n"
  by (simp add: ps_reads_def ps_room_def)

lemma ps_reads_ahead: "ps_reads s n t \<Longrightarrow> ps_ahead t = drop n (ps_ahead s)"
  by (simp add: ps_reads_def packetStreamGetCurrentBuffer_def add.commute)

lemma packetStreamGet_ok:
  assumes "ps_wf s" "n \<le> ps_room s"
  obtains t where "packetStreamGet s n = (Some (take n (ps_ahead s)), t)" "ps_reads s n t"
proof -
  have "ps_position s + n \<le> ps_size s" "ps_position s + n < 2 ^ 32"
    using assms by (auto simp: ps_wf_def ps_room_def)
  then show thesis
    using assms
    by (intro that) (auto simp: packetStreamGet_def mem_read_def packetStreamGetCurrentBuffer_def
        ps_reads_def ps_wf_def)
qed

lemma packetStreamGet_refused:
  "ps_position s \<le> ps_size s \<Longrightarrow> ps_room s < n \<Longrightarrow> packetStreamGet s n = (None, s)"
  by (simp add: packetStreamGet_def ps_room_def)

lemma packetStreamGet_reads:
  "ps_wf s \<Longrightarrow> packetStreamGet s n = (Some bs, t) \<Longrightarrow> ps_reads s n t \<and> length bs = n"
  by (auto simp: packetStreamGet_def ps_reads_def ps_wf_def split: if_splits)

lemma packetStreamGet_wf:
  "ps_wf s \<Longrightarrow> packetStreamGet s n = (r, t) \<Longrightarrow> ps_wf t"
  by (auto simp: packetStreamGet_def ps_wf_def split: if_splits)

lemma ps_next_get:
  assumes "ps_next s (bs @ cs) tail" "n = length bs"
  obtains t where "packetStreamGet s n = (Some bs, t)" "ps_reads s n t" "ps_next t cs tail"
proof -
  have *: "ps_wf s" "n \<le> ps_room s" using assms by (auto simp: ps_next_def)
  from packetStreamGet_ok [OF *] obtain t
    where t: "packetStreamGet s n = (Some (take n (ps_ahead s)), t)" "ps_reads s n t" .
  have "ps_next t cs tail"
    using assms t(2) by (auto simp: ps_next_def ps_reads_ahead ps_reads_room)
  then show thesis
    using that t assms by (simp add: ps_next_def)
qed

lemma ps_next_debugStart [simp]: "ps_next (packetStreamDebugStart s n f) bs tail = ps_next s bs tail"
  by (simp add: ps_next_def)

lemma ps_next_reads: "ps_next s (bs @ cs) tail \<Longrightarrow> ps_reads s (length bs) t \<Longrightarrow> ps_next t cs tail"
  by (auto simp: ps_next_def ps_reads_ahead ps_reads_room)

section \<open>The serializer contract\<close>

locale ps_serializer =
  fixes ser :: "'a \<Rightarrow> PacketStream \<Rightarrow> PacketStream"
    and enc :: "'a \<Rightarrow> bytes"
    and sz :: "'a \<Rightarrow> nat"
  assumes ser_appends: "ps_wf s \<Longrightarrow> length (enc x) \<le> ps_room s \<Longrightarrow> ps_appends s (enc x) (ser x s)"
    and sz_enc: "sz x = length (enc x)"
begin

lemma fold_appends:
  "ps_wf s \<Longrightarrow> length (concat (map enc xs)) \<le> ps_room s \<Longrightarrow>
   ps_appends s (concat (map enc xs)) (fold ser xs s)"
proof (induction xs arbitrary: s)
  case (Cons x xs)
  then have "ps_appends s (enc x) (ser x s)"
    by (intro ser_appends) auto
  then show ?case
    using Cons by (auto intro!: ps_appends_comp)
qed simp

lemma sum_sz: "sum_list (map sz xs) = length (concat (map enc xs))"
  by (simp add: length_concat comp_def sz_enc cong: map_cong)

text \<open>A fresh stream over a buffer of exactly the announced size ends up holding exactly the encoding.\<close>

lemma exact_fit:
  assumes "length buf = sz x" "sz x < 2 ^ 32"
  shows "ps_buffer (ser x (packetStreamInit buf (sz x))) = enc x"
    and "packetStreamGetSize (ser x (packetStreamInit buf (sz x))) = sz x"
proof -
  let ?s = "packetStreamInit buf (sz x)"
  have "ps_appends ?s (enc x) (ser x ?s)"
    using assms by (intro ser_appends ps_wf_init)
      (simp_all add: ps_room_def packetStreamInit_def sz_enc)
  then show "ps_buffer (ser x ?s) = enc x" "packetStreamGetSize (ser x ?s) = sz x"
    using assms
    by (auto simp: ps_appends_def ps_written_def packetStreamInit_def packetStreamGetSize_def sz_enc)
qed

end

end
