(* ===== verification/CFormat.thy ===== *)
theory CFormat
  imports Prelude
begin

text \<open>
  The parts of \<open>snprintf\<close> and \<open>strtoull\<close> with which the servers build the keys of their hash tables
  and of Redis: unpadded hexadecimal and decimal conversion and zero-padded upper-case bytes. A key
  is truncated to the size of its buffer, as \<open>snprintf\<close> does.
\<close>

definition hexDigit :: "nat \<Rightarrow> char" where
  "hexDigit d = ''0123456789abcdef'' ! d"

definition hexDigitUpper :: "nat \<Rightarrow> char" where
  "hexDigitUpper d = ''0123456789ABCDEF'' ! d"

definition hexValue :: "char \<Rightarrow> nat option" where
  "hexValue c =
     (let n = (of_char c :: nat) in
      if 48 \<le> n \<and> n \<le> 57 then Some (n - 48)
      else if 97 \<le> n \<and> n \<le> 102 then Some (n - 87)
      else if 65 \<le> n \<and> n \<le> 70 then Some (n - 55)
      else None)"

text \<open>\<open>%x\<close>, \<open>%llx\<close>, \<open>%I64x\<close>\<close>

fun fmtHex :: "nat \<Rightarrow> string" where
  "fmtHex n = (if n < 16 then [hexDigit n] else fmtHex (n div 16) @ [hexDigit (n mod 16)])"

text \<open>\<open>%d\<close>, \<open>%I64d\<close> of a non-negative number\<close>

definition decDigit :: "nat \<Rightarrow> char" where
  "decDigit d = ''0123456789'' ! d"

fun fmtDec :: "nat \<Rightarrow> string" where
  "fmtDec n = (if n < 10 then [decDigit n] else fmtDec (n div 10) @ [decDigit (n mod 10)])"

definition fmtInt :: "int \<Rightarrow> string" where
  "fmtInt n = (if n < 0 then ''-'' @ fmtDec (nat (- n)) else fmtDec (nat n))"

text \<open>\<open>%02X\<close> of a byte\<close>

definition fmtByteHex :: "byte \<Rightarrow> string" where
  "fmtByteHex b = [hexDigitUpper (unat b div 16), hexDigitUpper (unat b mod 16)]"

text \<open>\<open>strtoull (s, NULL, 16)\<close> on a string without prefix, sign or leading blanks: the longest
  prefix of hexadecimal digits, saturating at the largest value.\<close>

definition hexNumber :: "string \<Rightarrow> nat" where
  "hexNumber s = foldl (\<lambda>acc c. 16 * acc + the (hexValue c)) 0 s"

definition strtoull16 :: "string \<Rightarrow> u64" where
  "strtoull16 s =
     (let n = hexNumber (takeWhile (\<lambda>c. hexValue c \<noteq> None) s) in
      if n < 2 ^ 64 then of_nat n else -1)"

definition c_snprintf :: "nat \<Rightarrow> string \<Rightarrow> string" where
  "c_snprintf bufSize s = take (bufSize - 1) s"

declare fmtHex.simps [simp del] fmtDec.simps [simp del]

lemma nat_less16_cases:
  "d < (16::nat) \<Longrightarrow> d \<in> {0,1,2,3,4,5,6,7,8,9,10,11,12,13,14,15}"
  by (simp add: numeral_eq_Suc less_Suc_eq)

lemma hexValue_hexDigit [simp]: "d < 16 \<Longrightarrow> hexValue (hexDigit d) = Some d"
  by (drule nat_less16_cases) (auto simp: hexValue_def hexDigit_def Let_def)

lemma hexValue_hexDigitUpper [simp]: "d < 16 \<Longrightarrow> hexValue (hexDigitUpper d) = Some d"
  by (drule nat_less16_cases) (auto simp: hexValue_def hexDigitUpper_def Let_def)

lemma hexNumber_append: "hexNumber (s @ [c]) = 16 * hexNumber s + the (hexValue c)"
  by (simp add: hexNumber_def)

lemma hexNumber_fmtHex: "hexNumber (fmtHex n) = n"
proof (induction n rule: fmtHex.induct)
  case (1 n)
  show ?case
    using 1 by (subst fmtHex.simps) (auto simp: hexNumber_append, simp add: hexNumber_def)
qed

lemma fmtHex_inj: "fmtHex n = fmtHex m \<longleftrightarrow> n = m"
  by (metis hexNumber_fmtHex)

lemma length_fmtHex: "n < 16 ^ Suc k \<Longrightarrow> length (fmtHex n) \<le> Suc k"
proof (induction k arbitrary: n)
  case (Suc k)
  have "n div 16 < 16 ^ Suc k"
    using Suc.prems by (simp add: less_mult_imp_div_less)
  then show ?case
    using Suc.IH by (subst fmtHex.simps) auto
qed (subst fmtHex.simps, simp)

lemma length_fmtDec: "n < 10 ^ Suc k \<Longrightarrow> length (fmtDec n) \<le> Suc k"
proof (induction k arbitrary: n)
  case (Suc k)
  have "n div 10 < 10 ^ Suc k"
    using Suc.prems by (simp add: less_mult_imp_div_less)
  then show ?case
    using Suc.IH by (subst fmtDec.simps) auto
qed (subst fmtDec.simps, simp)

lemma fmtHex_less: "n < 16 ^ length (fmtHex n)"
proof (induction n rule: fmtHex.induct)
  case (1 n)
  show ?case
    using 1 by (subst fmtHex.simps) (auto simp: not_less div_less_iff_less_mult mult.commute)
qed

lemma hexValue_fmtHex: "c \<in> set (fmtHex n) \<Longrightarrow> hexValue c \<noteq> None"
proof (induction n rule: fmtHex.induct)
  case (1 n)
  then show ?case
    by (subst (asm) (2) fmtHex.simps) (auto split: if_splits)
qed

text \<open>A 64-bit number printed in hexadecimal into a 17-byte buffer is never truncated, so the keys
  are injective.\<close>

definition hexKey64 :: "u64 \<Rightarrow> string" where
  "hexKey64 w = c_snprintf 17 (fmtHex (unat w))"

lemma hexKey64_full: "hexKey64 w = fmtHex (unat w)"
proof -
  have "unat w < 16 ^ Suc 15"
    using unsigned_less [of w] by simp
  then have "length (fmtHex (unat w)) \<le> 16"
    using length_fmtHex by fastforce
  then show ?thesis
    by (simp add: hexKey64_def c_snprintf_def)
qed

lemma hexKey64_inj [simp]: "hexKey64 w = hexKey64 w' \<longleftrightarrow> w = w'"
  by (simp add: hexKey64_full fmtHex_inj unsigned_word_eqI word_unat_eq_iff)

lemma strtoull16_hexKey64: "strtoull16 (hexKey64 w) = w"
proof -
  have "unat w < 2 ^ 64"
    using unsigned_less [of w] by simp
  moreover have eq: "takeWhile (\<lambda>c. hexValue c \<noteq> None) (fmtHex (unat w)) = fmtHex (unat w)"
    using hexValue_fmtHex by (simp add: takeWhile_eq_all_conv)
  ultimately show ?thesis
    unfolding strtoull16_def hexKey64_full eq hexNumber_fmtHex Let_def by simp
qed

end
