(* ===== verification/Actor.thy ===== *)
theory Actor
  imports PacketStream CFormat
begin

text \<open>
  \<open>src/common/actor/actor.c\<close> and \<open>actor_factory.c\<close>: an actor is an object of the game world known by a
  64-bit identifier, unique because the factory takes it from a counter. The identifier, printed in
  hexadecimal, is the key of every table that holds actors.
\<close>

record Actor =
  actor_uid :: u64

definition actorInit :: "u64 \<Rightarrow> Actor" where
  "actorInit uid = \<lparr> actor_uid = uid \<rparr>"

definition actorGetUId :: "Actor \<Rightarrow> u64" where
  "actorGetUId self = actor_uid self"

definition actorGenKey :: "u64 \<Rightarrow> string" where
  "actorGenKey uid = c_snprintf 17 (fmtHex (unat uid))"

definition actorGetSPacketSize :: "Actor \<Rightarrow> nat" where
  "actorGetSPacketSize self = 8"

definition actorSerializeSPacket :: "Actor \<Rightarrow> PacketStream \<Rightarrow> PacketStream" where
  "actorSerializeSPacket self stream =
     packetStreamAppend
       (packetStreamDebugStart stream (actorGetSPacketSize self) ''actorSerializeSPacket'')
       (enc64 (actor_uid self))"

definition actorUnserializeSPacket :: "PacketStream \<Rightarrow> bool \<times> Actor \<times> PacketStream" where
  "actorUnserializeSPacket stream =
     (let self = actorInit (-1);
          stream = packetStreamDebugStart stream (actorGetSPacketSize self) ''actorUnserializeSPacket'' in
      case packetStreamGet stream 8 of
        (None, stream) \<Rightarrow> (True, self, stream)
      | (Some bs, stream) \<Rightarrow> (True, self \<lparr> actor_uid := dec64 bs \<rparr>, stream))"

text \<open>The factory's state is its counter.\<close>

record ActorFactory =
  af_id :: u64

definition actorFactoryInit :: "ActorFactory \<Rightarrow> Actor \<times> ActorFactory" where
  "actorFactoryInit self = (actorInit (af_id self), self \<lparr> af_id := af_id self + 1 \<rparr>)"

definition actorFactoryCreate :: "ActorFactory \<Rightarrow> Actor \<times> ActorFactory" where
  "actorFactoryCreate self = actorFactoryInit self"

primrec actorFactoryRun :: "nat \<Rightarrow> ActorFactory \<Rightarrow> Actor list \<times> ActorFactory" where
  "actorFactoryRun 0 self = ([], self)"
| "actorFactoryRun (Suc n) self =
     (let (a, self) = actorFactoryInit self; (as, self) = actorFactoryRun n self in (a # as, self))"

interpretation actor_ser: ps_serializer
  "actorSerializeSPacket" "\<lambda>a. enc64 (actor_uid a)" "actorGetSPacketSize"
proof
  show "ps_wf s \<Longrightarrow> length (enc64 (actor_uid x)) \<le> ps_room s \<Longrightarrow>
        ps_appends s (enc64 (actor_uid x)) (actorSerializeSPacket x s)" for s x
    using packetStreamAppend_appends [of "packetStreamDebugStart s n f" for n f]
    by (simp add: actorSerializeSPacket_def)
qed (simp add: actorGetSPacketSize_def)

lemma actor_unser:
  assumes "ps_next s (enc64 (actor_uid a) @ cs) tail"
  shows "\<exists>t. actorUnserializeSPacket s = (True, a, t) \<and> ps_next t cs tail"
proof -
  let ?s = "packetStreamDebugStart s 8 ''actorUnserializeSPacket''"
  have "ps_next ?s (enc64 (actor_uid a) @ cs) tail" using assms by simp
  then obtain t where "packetStreamGet ?s 8 = (Some (enc64 (actor_uid a)), t)" "ps_next t cs tail"
    by (rule ps_next_get) simp
  then show ?thesis
    by (intro exI [of _ t]) (simp add: actorUnserializeSPacket_def actorGetSPacketSize_def
        actorInit_def Let_def)
qed

lemma actorGenKey_hexKey64: "actorGenKey uid = hexKey64 uid"
  by (simp add: actorGenKey_def hexKey64_def)

lemma actorGenKey_inj [simp]: "actorGenKey a = actorGenKey b \<longleftrightarrow> a = b"
  by (simp add: actorGenKey_hexKey64)

lemma actorFactoryRun_uids:
  "map actor_uid (fst (actorFactoryRun n self)) = map (\<lambda>i. af_id self + of_nat i) [0..<n]"
proof (induction n arbitrary: self)
  case (Suc n)
  show ?case
    using Suc.IH [of "self \<lparr> af_id := af_id self + 1 \<rparr>"]
    by (simp add: actorFactoryInit_def actorInit_def split_beta Let_def upt_conv_Cons
        map_Suc_upt [symmetric] comp_def add.assoc del: upt_Suc)
qed simp

text \<open>Until its counter has wrapped around, the actor factory never gives the same identifier
  twice, so that actors have different table keys.\<close>

theorem actorFactory_unique:
  assumes "n \<le> 2 ^ 64"
  shows "distinct (map (actorGenKey \<circ> actor_uid) (fst (actorFactoryRun n self)))"
proof -
  have "inj_on (\<lambda>i. af_id self + of_nat i :: u64) {0..<n}"
    using assms by (auto simp: inj_on_def word_of_nat_eq_iff take_bit_nat_eq_self)
  then have "distinct (map actor_uid (fst (actorFactoryRun n self)))"
    by (simp add: actorFactoryRun_uids distinct_map)
  then show ?thesis
    by (simp add: distinct_map inj_on_def comp_def)
qed

theorem actorFactory_unique_witness:
  "distinct (map (actorGenKey \<circ> actor_uid) (fst (actorFactoryRun 3 \<lparr> af_id = -1 \<rparr>)))"
  by (rule actorFactory_unique) simp

end
