(* ===== verification/Property.thy ===== *)
theory Property
  imports PacketStream
begin

text \<open>
  \<open>src/common/property/property.c\<close>: optional item properties. A property is a pointer, NULL when
  the item does not have it: a \<open>float *\<close> is an optional 32-bit pattern (a float is only copied,
  never computed with), a \<open>char *\<close> an optional C string. A present property is written as a packed
  structure that starts with its identifier; an absent one writes nothing, and the reader recognises
  its absence by looking at the two bytes at the cursor.

  Allocation succeeds. \<open>propertyStringUnserializeSPacket\<close> passes the length of the block it has just
  allocated to the diagnostic counter of the stream; that block is taken to be zeroed, and nothing
  but the counter depends on it. A value with no terminator is reported where it is copied.
\<close>

type_synonym PropertyId = u16
type_synonym float_ptr = "u32 option"
type_synonym str_ptr = "bytes option"

definition PropertyFloatCPacket :: "PropertyId \<Rightarrow> u32 \<Rightarrow> bytes" where
  "PropertyFloatCPacket pid value = enc16 pid @ enc32 value"

definition PropertyFloatSPacket :: "PropertyId \<Rightarrow> u32 \<Rightarrow> bytes" where
  "PropertyFloatSPacket pid value = enc16 pid @ enc32 value"

definition PropertyStringCPacket :: "PropertyId \<Rightarrow> u16 \<Rightarrow> bytes \<Rightarrow> bytes" where
  "PropertyStringCPacket pid sz value = enc16 pid @ enc16 sz @ value"

definition PropertyStringSPacket :: "PropertyId \<Rightarrow> u16 \<Rightarrow> bytes \<Rightarrow> bytes" where
  "PropertyStringSPacket pid sz value = enc16 pid @ enc16 sz @ value"

definition propertyFloatGetCPacketSize :: "float_ptr \<Rightarrow> nat" where
  "propertyFloatGetCPacketSize value = (case value of None \<Rightarrow> 0 | Some _ \<Rightarrow> 6)"

definition propertyStringGetCPacketSize :: "str_ptr \<Rightarrow> nat" where
  "propertyStringGetCPacketSize value =
     (case value of None \<Rightarrow> 0 | Some s \<Rightarrow> let valueSize = length s + 1 in 4 + valueSize)"

definition propertyFloatGetSPacketSize :: "float_ptr \<Rightarrow> nat" where
  "propertyFloatGetSPacketSize value = (case value of None \<Rightarrow> 0 | Some _ \<Rightarrow> 6)"

definition propertyStringGetSPacketSize :: "str_ptr \<Rightarrow> nat" where
  "propertyStringGetSPacketSize value =
     (case value of None \<Rightarrow> 0 | Some s \<Rightarrow> let valueSize = length s + 1 in 4 + valueSize)"

definition propertyFloatSerializeCPacket ::
    "PropertyId \<Rightarrow> float_ptr \<Rightarrow> PacketStream \<Rightarrow> PacketStream" where
  "propertyFloatSerializeCPacket pid value stream =
     (case value of None \<Rightarrow> stream
      | Some f \<Rightarrow> packetStreamAppend stream (PropertyFloatCPacket pid f))"

definition propertyStringSerializeCPacket ::
    "PropertyId \<Rightarrow> str_ptr \<Rightarrow> PacketStream \<Rightarrow> PacketStream" where
  "propertyStringSerializeCPacket pid value stream =
     (case value of None \<Rightarrow> stream
      | Some s \<Rightarrow>
          let valueSize = length s + 1 in
          packetStreamAppend stream
            (PropertyStringCPacket pid (of_nat valueSize) (c_strncpy valueSize s)))"

definition propertyFloatSerializeSPacket ::
    "PropertyId \<Rightarrow> float_ptr \<Rightarrow> PacketStream \<Rightarrow> PacketStream" where
  "propertyFloatSerializeSPacket pid value stream =
     (case value of None \<Rightarrow> stream
      | Some f \<Rightarrow>
          packetStreamAppend
            (packetStreamDebugStart stream (propertyFloatGetSPacketSize value)
               ''propertyFloatSerializeSPacket'')
            (PropertyFloatSPacket pid f))"

definition propertyStringSerializeSPacket ::
    "PropertyId \<Rightarrow> str_ptr \<Rightarrow> PacketStream \<Rightarrow> PacketStream" where
  "propertyStringSerializeSPacket pid value stream =
     (case value of None \<Rightarrow> stream
      | Some s \<Rightarrow>
          let valueSize = length s + 1 in
          packetStreamAppend
            (packetStreamDebugStart stream (propertyStringGetSPacketSize value)
               ''propertyStringSerializeSPacket'')
            (PropertyStringSPacket pid (of_nat valueSize) (c_strncpy valueSize s)))"

definition propertyFloatUnserializeSPacket ::
    "PropertyId \<Rightarrow> float_ptr \<Rightarrow> PacketStream \<Rightarrow> (bool \<times> float_ptr \<times> PacketStream) result" where
  "propertyFloatUnserializeSPacket pid value stream =
     (let packet = packetStreamGetCurrentBuffer stream in
      if length packet < 2 then Inl OutOfBounds
      else if dec16 packet \<noteq> pid then Inr (True, value, stream)
      else
        let value' = (case value of None \<Rightarrow> Some 0 | Some f \<Rightarrow> Some f);
            stream = packetStreamDebugStart stream (propertyFloatGetSPacketSize value')
                       ''propertyFloatUnserializeSPacket'' in
        case packetStreamGet stream 6 of
          (None, _) \<Rightarrow> Inl Uninitialised
        | (Some output, stream) \<Rightarrow> Inr (True, Some (dec32 (drop 2 output)), stream))"

definition propertyStringUnserializeSPacket ::
    "PropertyId \<Rightarrow> str_ptr \<Rightarrow> PacketStream \<Rightarrow> (bool \<times> str_ptr \<times> PacketStream) result" where
  "propertyStringUnserializeSPacket pid value stream =
     (let packet = packetStreamGetCurrentBuffer stream in
      if length packet < 2 then Inl OutOfBounds
      else if dec16 packet \<noteq> pid then Inr (True, value, stream)
      else if length packet < 4 then Inl OutOfBounds
      else
        let valueSize = unat (dec16 (drop 2 packet));
            value' = (case value of None \<Rightarrow> Some [] | Some s \<Rightarrow> Some s);
            stream = packetStreamDebugStart stream (propertyStringGetSPacketSize value')
                       ''propertyStringUnserializeSPacket'' in
        case packetStreamGet stream (4 + valueSize) of
          (None, _) \<Rightarrow> Inl Uninitialised
        | (Some output, stream) \<Rightarrow>
            let outputValue = drop 4 output in
            if 0 \<notin> set outputValue then Inl OutOfBounds
            else Inr (True, Some (c_str (c_strncpy valueSize outputValue)), stream))"

section \<open>Encodings\<close>

definition propFloatEnc :: "PropertyId \<Rightarrow> float_ptr \<Rightarrow> bytes" where
  "propFloatEnc pid value = (case value of None \<Rightarrow> [] | Some f \<Rightarrow> enc16 pid @ enc32 f)"

definition propStringEnc :: "PropertyId \<Rightarrow> str_ptr \<Rightarrow> bytes" where
  "propStringEnc pid value =
     (case value of None \<Rightarrow> [] | Some s \<Rightarrow> enc16 pid @ enc16 (of_nat (length s + 1)) @ s @ [0])"

text \<open>A string property the wire format can carry: a C string whose size field does not wrap.\<close>

definition strOk :: "str_ptr \<Rightarrow> bool" where
  "strOk value \<longleftrightarrow> (case value of None \<Rightarrow> True | Some s \<Rightarrow> c_is_str s \<and> length s + 1 < 2 ^ 16)"

text \<open>The memory ahead of the cursor does not begin with the identifier \<open>pid\<close>.\<close>

definition notTagged :: "PropertyId \<Rightarrow> bytes \<Rightarrow> bool" where
  "notTagged pid m \<longleftrightarrow> 2 \<le> length m \<and> dec16 m \<noteq> pid"

lemma length_propEnc [simp]:
  "length (propFloatEnc pid f) = propertyFloatGetSPacketSize f"
  "length (propStringEnc pid s) = propertyStringGetSPacketSize s"
  by (simp_all add: propFloatEnc_def propStringEnc_def propertyFloatGetSPacketSize_def
      propertyStringGetSPacketSize_def Let_def split: option.split)

lemma notTagged_enc [simp]:
  "pid \<noteq> pid' \<Longrightarrow> notTagged pid m \<Longrightarrow> notTagged pid (propFloatEnc pid' f @ m)"
  "pid \<noteq> pid' \<Longrightarrow> notTagged pid m \<Longrightarrow> notTagged pid (propStringEnc pid' s @ m)"
  by (auto simp: notTagged_def propFloatEnc_def propStringEnc_def split: option.splits)

text \<open>Every property serializer meets the contract of the stream.\<close>

interpretation float_prop: ps_serializer
  "\<lambda>f. propertyFloatSerializeSPacket pid f" "propFloatEnc pid" "propertyFloatGetSPacketSize"
  for pid :: PropertyId
proof
  show "ps_wf s \<Longrightarrow> length (propFloatEnc pid x) \<le> ps_room s \<Longrightarrow>
        ps_appends s (propFloatEnc pid x) (propertyFloatSerializeSPacket pid x s)" for s x
    using packetStreamAppend_appends [of "packetStreamDebugStart s n f" for n f]
    by (cases x) (simp_all add: propFloatEnc_def propertyFloatSerializeSPacket_def PropertyFloatSPacket_def)
qed simp

interpretation string_prop: ps_serializer
  "\<lambda>v. propertyStringSerializeSPacket pid v" "propStringEnc pid" "propertyStringGetSPacketSize"
  for pid :: PropertyId
proof
  show "ps_wf s \<Longrightarrow> length (propStringEnc pid x) \<le> ps_room s \<Longrightarrow>
        ps_appends s (propStringEnc pid x) (propertyStringSerializeSPacket pid x s)" for s x
    using packetStreamAppend_appends [of "packetStreamDebugStart s n f" for n f]
    by (cases x) (simp_all add: propStringEnc_def propertyStringSerializeSPacket_def
        PropertyStringSPacket_def c_strncpy_exact)
qed simp

text \<open>The client encoding is the same byte for byte.\<close>

lemma propertyFloatSerializeCPacket_appends:
  "ps_wf s \<Longrightarrow> length (propFloatEnc pid x) \<le> ps_room s \<Longrightarrow>
   ps_appends s (propFloatEnc pid x) (propertyFloatSerializeCPacket pid x s)"
  using packetStreamAppend_appends [of s]
  by (cases x) (simp_all add: propFloatEnc_def propertyFloatSerializeCPacket_def PropertyFloatCPacket_def)

lemma propertyStringSerializeCPacket_appends:
  "ps_wf s \<Longrightarrow> length (propStringEnc pid x) \<le> ps_room s \<Longrightarrow>
   ps_appends s (propStringEnc pid x) (propertyStringSerializeCPacket pid x s)"
  using packetStreamAppend_appends [of s]
  by (cases x) (simp_all add: propStringEnc_def propertyStringSerializeCPacket_def
      PropertyStringCPacket_def c_strncpy_exact)

lemma propertyCPacketSize [simp]:
  "propertyFloatGetCPacketSize f = propertyFloatGetSPacketSize f"
  "propertyStringGetCPacketSize v = propertyStringGetSPacketSize v"
  by (simp_all add: propertyFloatGetCPacketSize_def propertyFloatGetSPacketSize_def
      propertyStringGetCPacketSize_def propertyStringGetSPacketSize_def)

section \<open>Reading properties back\<close>

lemma propertyFloat_absent:
  "notTagged pid (ps_ahead s) \<Longrightarrow> propertyFloatUnserializeSPacket pid v s = Inr (True, v, s)"
  by (simp add: notTagged_def propertyFloatUnserializeSPacket_def)

lemma propertyString_absent:
  "notTagged pid (ps_ahead s) \<Longrightarrow> propertyStringUnserializeSPacket pid v s = Inr (True, v, s)"
  by (simp add: notTagged_def propertyStringUnserializeSPacket_def)

text \<open>Reading into a pointer that may already hold a value: the stream's value wins.\<close>

definition ptrMerge :: "'a option \<Rightarrow> 'a option \<Rightarrow> 'a option" where
  "ptrMerge old new = (case new of None \<Rightarrow> old | Some _ \<Rightarrow> new)"

lemma ptrMerge_simps [simp]:
  "ptrMerge None new = new" "ptrMerge old None = old" "ptrMerge old (Some x) = Some x"
  by (simp_all add: ptrMerge_def split: option.split)

lemma succeeds_propertyFloat:
  assumes "ps_next s (propFloatEnc pid f @ cs) tail" and "notTagged pid (cs @ tail)"
    and "\<And>t. ps_next t cs tail \<Longrightarrow> P (True, ptrMerge v f, t)"
  shows "succeeds (propertyFloatUnserializeSPacket pid v s) P"
proof (cases f)
  case None
  then show ?thesis
    using assms(1,2) assms(3) [of s]
    by (simp add: propFloatEnc_def ps_next_def propertyFloat_absent)
next
  case (Some w)
  let ?s = "packetStreamDebugStart s 6 ''propertyFloatUnserializeSPacket''"
  have "ps_next ?s ((enc16 pid @ enc32 w) @ cs) tail"
    using assms(1) Some by (simp add: propFloatEnc_def)
  then obtain t where t: "packetStreamGet ?s 6 = (Some (enc16 pid @ enc32 w), t)" "ps_next t cs tail"
    by (rule ps_next_get) auto
  have "ps_ahead s = enc16 pid @ enc32 w @ cs @ tail"
    using assms(1) Some by (simp add: propFloatEnc_def ps_next_def)
  moreover have "propertyFloatGetSPacketSize (case v of None \<Rightarrow> Some 0 | Some x \<Rightarrow> Some x) = 6"
    by (simp add: propertyFloatGetSPacketSize_def split: option.split)
  ultimately show ?thesis
    using t(1) Some assms(3) [OF t(2)]
    by (simp add: propertyFloatUnserializeSPacket_def Let_def)
qed

lemma succeeds_propertyString:
  assumes "ps_next s (propStringEnc pid v @ cs) tail" and "notTagged pid (cs @ tail)" and "strOk v"
    and "\<And>t. ps_next t cs tail \<Longrightarrow> P (True, ptrMerge old v, t)"
  shows "succeeds (propertyStringUnserializeSPacket pid old s) P"
proof (cases v)
  case None
  then show ?thesis
    using assms(1,2) assms(4) [of s]
    by (simp add: propStringEnc_def ps_next_def propertyString_absent)
next
  case (Some str)
  define dbg where "dbg = propertyStringGetSPacketSize (case old of None \<Rightarrow> Some [] | Some x \<Rightarrow> Some x)"
  let ?s = "packetStreamDebugStart s dbg ''propertyStringUnserializeSPacket''"
  let ?enc = "enc16 pid @ enc16 (of_nat (length str + 1)) @ str @ [0]"
  have str: "c_is_str str" "length str + 1 < 2 ^ 16"
    using assms(3) Some by (auto simp: strOk_def)
  have "ps_next ?s (?enc @ cs) tail"
    using assms Some by (simp add: propStringEnc_def)
  then obtain t where t: "packetStreamGet ?s (5 + length str) = (Some ?enc, t)" "ps_next t cs tail"
    by (rule ps_next_get [where n = "5 + length str"]) (simp_all del: of_nat_Suc of_nat_add)
  have ahead: "ps_ahead s = ?enc @ cs @ tail"
    using assms Some by (simp add: propStringEnc_def ps_next_def)
  have sz: "unat (of_nat (length str + 1) :: u16) = length str + 1"
    using str by (simp add: unsigned_of_nat take_bit_nat_eq_self del: of_nat_Suc of_nat_add)
  have "c_str (c_strncpy (length str + 1) (str @ [0])) = str"
    using c_str_strncpy [OF str(1), of "length str + 1" "[]"]
    by (simp add: c_strncpy_def)
  then show ?thesis
    using t(1) Some ahead sz assms(4) [OF t(2)]
    by (simp add: propertyStringUnserializeSPacket_def dbg_def [symmetric] Let_def
        del: of_nat_add of_nat_Suc)
qed

lemmas succeeds_property = succeeds_propertyFloat succeeds_propertyString

lemmas prop_appends = float_prop.ser_appends string_prop.ser_appends

lemmas cprop_appends = propertyFloatSerializeCPacket_appends propertyStringSerializeCPacket_appends

end
