(* ===== verification/Item.thy ===== *)
theory Item
  imports Actor Property
begin

text \<open>
  \<open>src/common/actor/item/item.h\<close> and \<open>equipable/item_equipable.c\<close>: the part every item has (its
  actor, catalogue identifier, amount, category) and the part every equipable item adds (its slot).
  Pointers to the static catalogue, which is never modified once the servers run, are optional
  values; of its rows the code reads \<open>ItemType\<close> and \<open>GroupName\<close>.
\<close>

record ItemCommonData =
  icd_ClassID :: int
  icd_ItemType :: string

record ItemEquipData =
  ied_ClassID :: int
  ied_GroupName :: string

text \<open>Categories (\<open>ItemCategory_t\<close>).\<close>

abbreviation (input) ITEM_CAT_WEAPON :: byte where "ITEM_CAT_WEAPON \<equiv> 1"
abbreviation (input) ITEM_CAT_ARMOR :: byte where "ITEM_CAT_ARMOR \<equiv> 2"
abbreviation (input) ITEM_CAT_SUBWEAPON :: byte where "ITEM_CAT_SUBWEAPON \<equiv> 3"
abbreviation (input) ITEM_CAT_COSTUME :: byte where "ITEM_CAT_COSTUME \<equiv> 4"
abbreviation (input) ITEM_CAT_ACCESSORY :: byte where "ITEM_CAT_ACCESSORY \<equiv> 5"
abbreviation (input) ITEM_CAT_CONSUMABLE :: byte where "ITEM_CAT_CONSUMABLE \<equiv> 6"
abbreviation (input) ITEM_CAT_GEM :: byte where "ITEM_CAT_GEM \<equiv> 7"
abbreviation (input) ITEM_CAT_MATERIAL :: byte where "ITEM_CAT_MATERIAL \<equiv> 8"
abbreviation (input) ITEM_CAT_CARD :: byte where "ITEM_CAT_CARD \<equiv> 9"
abbreviation (input) ITEM_CAT_COLLECTION :: byte where "ITEM_CAT_COLLECTION \<equiv> 10"
abbreviation (input) ITEM_CAT_BOOK :: byte where "ITEM_CAT_BOOK \<equiv> 11"
abbreviation (input) ITEM_CAT_QUEST :: byte where "ITEM_CAT_QUEST \<equiv> 12"
abbreviation (input) ITEM_CAT_CURRENCY :: byte where "ITEM_CAT_CURRENCY \<equiv> 15"
abbreviation (input) ITEM_CAT_COUNT :: byte where "ITEM_CAT_COUNT \<equiv> 16"

record Item =
  item_actor :: Actor
  item_id :: u32
  item_amount :: u32
  item_category :: byte
  item_commonData :: "ItemCommonData option"

definition itemGetId :: "Item \<Rightarrow> u32" where
  "itemGetId self = item_id self"

definition itemGetAmount :: "Item \<Rightarrow> u32" where
  "itemGetAmount self = item_amount self"

definition itemGetCategory :: "Item \<Rightarrow> byte" where
  "itemGetCategory self = item_category self"

definition itemSetCommonData :: "Item \<Rightarrow> ItemCommonData option \<Rightarrow> Item" where
  "itemSetCommonData self data = self \<lparr> item_commonData := data \<rparr>"

definition itemChildGetSPacketSize :: "Item \<Rightarrow> nat" where
  "itemChildGetSPacketSize self = 9"

definition itemChildSerializeSPacket :: "Item \<Rightarrow> PacketStream \<Rightarrow> PacketStream" where
  "itemChildSerializeSPacket self stream =
     (let stream = packetStreamDebugStart stream (itemChildGetSPacketSize self) ''itemChildSerializeSPacket'';
          stream = packetStreamAppend stream (enc32 (item_id self));
          stream = packetStreamAppend stream (enc32 (item_amount self))
      in packetStreamAppend stream [item_category self])"

text \<open>The destination is an uninitialised local of the caller: a refused read leaves its field unset.\<close>

definition itemChildUnserializeSPacket ::
    "PacketStream \<Rightarrow> (bool \<times> (u32 option \<times> u32 option \<times> byte option) \<times> PacketStream)" where
  "itemChildUnserializeSPacket stream =
     (let stream = packetStreamDebugStart stream 9 ''itemChildUnserializeSPacket'';
          (itemId, stream) = packetStreamGet stream 4;
          (amount, stream) = packetStreamGet stream 4;
          (category, stream) = packetStreamGet stream 1
      in (True, (map_option dec32 itemId, map_option dec32 amount, map_option hd category), stream))"

section \<open>Equipable items\<close>

abbreviation (input) EQSLOT_HAT :: byte where "EQSLOT_HAT \<equiv> 0"
abbreviation (input) EQSLOT_HAT_L :: byte where "EQSLOT_HAT_L \<equiv> 1"
abbreviation (input) EQSLOT_UNKNOWN1 :: byte where "EQSLOT_UNKNOWN1 \<equiv> 2"
abbreviation (input) EQSLOT_BODY_ARMOR :: byte where "EQSLOT_BODY_ARMOR \<equiv> 3"
abbreviation (input) EQSLOT_GLOVES :: byte where "EQSLOT_GLOVES \<equiv> 4"
abbreviation (input) EQSLOT_BOOTS :: byte where "EQSLOT_BOOTS \<equiv> 5"
abbreviation (input) EQSLOT_HELMET :: byte where "EQSLOT_HELMET \<equiv> 6"
abbreviation (input) EQSLOT_BRACELET :: byte where "EQSLOT_BRACELET \<equiv> 7"
abbreviation (input) EQSLOT_WEAPON :: byte where "EQSLOT_WEAPON \<equiv> 8"
abbreviation (input) EQSLOT_SHIELD :: byte where "EQSLOT_SHIELD \<equiv> 9"
abbreviation (input) EQSLOT_COSTUME :: byte where "EQSLOT_COSTUME \<equiv> 10"
abbreviation (input) EQSLOT_UNKNOWN3 :: byte where "EQSLOT_UNKNOWN3 \<equiv> 11"
abbreviation (input) EQSLOT_UNKNOWN4 :: byte where "EQSLOT_UNKNOWN4 \<equiv> 12"
abbreviation (input) EQSLOT_UNKNOWN5 :: byte where "EQSLOT_UNKNOWN5 \<equiv> 13"
abbreviation (input) EQSLOT_LEG_ARMOR :: byte where "EQSLOT_LEG_ARMOR \<equiv> 14"
abbreviation (input) EQSLOT_UNKNOWN6 :: byte where "EQSLOT_UNKNOWN6 \<equiv> 15"
abbreviation (input) EQSLOT_UNKNOWN7 :: byte where "EQSLOT_UNKNOWN7 \<equiv> 16"
abbreviation (input) EQSLOT_RING_LEFT :: byte where "EQSLOT_RING_LEFT \<equiv> 17"
abbreviation (input) EQSLOT_RING_RIGHT :: byte where "EQSLOT_RING_RIGHT \<equiv> 18"
abbreviation (input) EQSLOT_NECKLACE :: byte where "EQSLOT_NECKLACE \<equiv> 19"
abbreviation (input) EQSLOT_COUNT :: byte where "EQSLOT_COUNT \<equiv> 20"
abbreviation (input) EQSLOT_NOSLOT :: byte where "EQSLOT_NOSLOT \<equiv> 21"

record ItemEquipable =
  equipable_item :: Item
  equipable_slot :: byte
  equipable_equipData :: "ItemEquipData option"

definition itemEquipableInit :: "Item \<Rightarrow> ItemEquipData option \<Rightarrow> ItemEquipable" where
  "itemEquipableInit item data =
     \<lparr> equipable_item = item, equipable_slot = EQSLOT_NOSLOT, equipable_equipData = data \<rparr>"

definition itemEquipableGetSlot :: "ItemEquipable \<Rightarrow> byte" where
  "itemEquipableGetSlot self = equipable_slot self"

definition itemEquipableSetEquipData :: "ItemEquipable \<Rightarrow> ItemEquipData option \<Rightarrow> ItemEquipable" where
  "itemEquipableSetEquipData self data = self \<lparr> equipable_equipData := data \<rparr>"

definition itemEquipableGetSPacketSize :: "ItemEquipable \<Rightarrow> nat" where
  "itemEquipableGetSPacketSize self = 1"

definition itemEquipableSerializeSPacket :: "ItemEquipable \<Rightarrow> PacketStream \<Rightarrow> PacketStream" where
  "itemEquipableSerializeSPacket self stream =
     packetStreamAppend
       (packetStreamDebugStart stream (itemEquipableGetSPacketSize self) ''itemEquipableSerializeSPacket'')
       [equipable_slot self]"

definition itemEquipableUnserializeSPacket ::
    "ItemEquipable \<Rightarrow> PacketStream \<Rightarrow> bool \<times> ItemEquipable \<times> PacketStream" where
  "itemEquipableUnserializeSPacket self stream =
     (case packetStreamGet
        (packetStreamDebugStart stream (itemEquipableGetSPacketSize self) ''itemEquipableUnserializeSPacket'') 1 of
        (None, stream) \<Rightarrow> (True, self, stream)
      | (Some bs, stream) \<Rightarrow> (True, self \<lparr> equipable_slot := hd bs \<rparr>, stream))"

section \<open>Encodings\<close>

definition itemChildEnc :: "Item \<Rightarrow> bytes" where
  "itemChildEnc self = enc32 (item_id self) @ enc32 (item_amount self) @ [item_category self]"

interpretation child_ser: ps_serializer
  itemChildSerializeSPacket itemChildEnc itemChildGetSPacketSize
proof
  show "ps_wf s \<Longrightarrow> length (itemChildEnc x) \<le> ps_room s \<Longrightarrow>
        ps_appends s (itemChildEnc x) (itemChildSerializeSPacket x s)" for s x
    unfolding itemChildEnc_def itemChildSerializeSPacket_def Let_def
    by (rule ps_appends_comp [OF _ _ ps_appends_comp], rule packetStreamAppend_appends
        [of "packetStreamDebugStart s n f" for n f, simplified])
      (auto intro!: packetStreamAppend_appends)
qed (simp add: itemChildEnc_def itemChildGetSPacketSize_def)

interpretation equipable_ser: ps_serializer
  itemEquipableSerializeSPacket "\<lambda>x. [equipable_slot x]" itemEquipableGetSPacketSize
proof
  show "ps_wf s \<Longrightarrow> length [equipable_slot x] \<le> ps_room s \<Longrightarrow>
        ps_appends s [equipable_slot x] (itemEquipableSerializeSPacket x s)" for s x
    using packetStreamAppend_appends [of "packetStreamDebugStart s n f" for n f]
    by (simp add: itemEquipableSerializeSPacket_def)
qed (simp add: itemEquipableGetSPacketSize_def)

lemma itemChild_unser:
  assumes "ps_next s (itemChildEnc x @ cs) tail"
  obtains t where "itemChildUnserializeSPacket s =
      (True, (Some (item_id x), Some (item_amount x), Some (item_category x)), t)"
    and "ps_next t cs tail"
proof -
  let ?s = "packetStreamDebugStart s 9 ''itemChildUnserializeSPacket''"
  have "ps_next ?s (enc32 (item_id x) @ enc32 (item_amount x) @ [item_category x] @ cs) tail"
    using assms by (simp add: itemChildEnc_def)
  then obtain t where 1: "packetStreamGet ?s 4 = (Some (enc32 (item_id x)), t)"
    and "ps_next t (enc32 (item_amount x) @ [item_category x] @ cs) tail"
    by (rule ps_next_get) simp
  then obtain u where 2: "packetStreamGet t 4 = (Some (enc32 (item_amount x)), u)"
    and "ps_next u ([item_category x] @ cs) tail"
    by - (rule ps_next_get, assumption, simp)
  then obtain v where 3: "packetStreamGet u 1 = (Some [item_category x], v)"
    and "ps_next v cs tail"
    by - (rule ps_next_get [where n = 1], assumption, simp)
  with 1 2 show thesis
    by (intro that) (simp_all add: itemChildUnserializeSPacket_def)
qed

lemma itemEquipable_unser:
  assumes "ps_next s ([slot] @ cs) tail"
  obtains t where "itemEquipableUnserializeSPacket self s = (True, self \<lparr> equipable_slot := slot \<rparr>, t)"
    and "ps_next t cs tail"
proof -
  let ?s = "packetStreamDebugStart s 1 ''itemEquipableUnserializeSPacket''"
  have "ps_next ?s ([slot] @ cs) tail" using assms by simp
  then obtain t where "packetStreamGet ?s 1 = (Some [slot], t)" "ps_next t cs tail"
    by (rule ps_next_get [where n = 1]) simp
  then show thesis
    by (intro that) (simp_all add: itemEquipableUnserializeSPacket_def itemEquipableGetSPacketSize_def)
qed

end
