(* ===== verification/ItemKinds.thy ===== *)
theory ItemKinds
  imports Item
begin

text \<open>
  The eleven item classes under \<open>src/common/actor/item/common\<close> and \<open>equipable\<close>. Each is a record of
  its base part and its optional properties, with the identifiers of its property table, its size
  functions, its serializers for the client and for the other servers and its reader, in the order
  in which the source writes the properties. \<open>item...Enc\<close> is the byte string a serializer appends,
  \<open>item...TailOk m\<close> says that memory \<open>m\<close> behind the item cannot be taken for one of its properties.
  The packet structures of the classes contain only zero-length arrays, so their size is 0.
\<close>

section \<open>\<^verbatim>\<open>src/common/actor/item/common/consumable/item_consumable.c\<close>\<close>

record ItemConsumable =
  consumable_item :: Item
  consumable_cooldown :: float_ptr

abbreviation (input) ITEM_CONSUMABLE_PROPERTY_ID_COOLDOWN :: PropertyId where "ITEM_CONSUMABLE_PROPERTY_ID_COOLDOWN \<equiv> 3750"
abbreviation (input) sizeof_ItemConsumableSPacket :: nat where "sizeof_ItemConsumableSPacket \<equiv> 0"

definition itemConsumableInit :: "Item \<Rightarrow> ItemConsumable" where
  "itemConsumableInit item = \<lparr> consumable_item = item, consumable_cooldown = None \<rparr>"

definition itemConsumableGetCPacketSize :: "ItemConsumable \<Rightarrow> nat" where
  "itemConsumableGetCPacketSize self =
     propertyFloatGetCPacketSize (consumable_cooldown self)"

definition itemConsumableGetSPacketSize :: "ItemConsumable \<Rightarrow> nat" where
  "itemConsumableGetSPacketSize self =
     sizeof_ItemConsumableSPacket +
     propertyFloatGetSPacketSize (consumable_cooldown self)"

definition itemConsumableSerializeCPacket :: "ItemConsumable \<Rightarrow> PacketStream \<Rightarrow> PacketStream" where
  "itemConsumableSerializeCPacket self stream =
     (propertyFloatSerializeCPacket ITEM_CONSUMABLE_PROPERTY_ID_COOLDOWN (consumable_cooldown self) stream)"

definition itemConsumableSerializeSPacket :: "ItemConsumable \<Rightarrow> PacketStream \<Rightarrow> PacketStream" where
  "itemConsumableSerializeSPacket self stream =
     (propertyFloatSerializeSPacket ITEM_CONSUMABLE_PROPERTY_ID_COOLDOWN (consumable_cooldown self) stream)"

definition itemConsumableUnserializeSPacket ::
    "ItemConsumable \<Rightarrow> PacketStream \<Rightarrow> (bool \<times> ItemConsumable \<times> PacketStream) result" where
  "itemConsumableUnserializeSPacket self stream =
     rbind (propertyFloatUnserializeSPacket ITEM_CONSUMABLE_PROPERTY_ID_COOLDOWN (consumable_cooldown self) stream) (\<lambda>(ok, value, stream).
     let self = self \<lparr> consumable_cooldown := value \<rparr> in
     if \<not> ok then Inr (False, self, stream) else
     Inr (True, self, stream))"

definition itemConsumableEnc :: "ItemConsumable \<Rightarrow> bytes" where
  "itemConsumableEnc self =
     propFloatEnc ITEM_CONSUMABLE_PROPERTY_ID_COOLDOWN (consumable_cooldown self)"

interpretation consumable_ser: ps_serializer
  itemConsumableSerializeSPacket itemConsumableEnc itemConsumableGetSPacketSize
proof
  show "ps_wf s \<Longrightarrow> length (itemConsumableEnc x) \<le> ps_room s \<Longrightarrow>
        ps_appends s (itemConsumableEnc x) (itemConsumableSerializeSPacket x s)" for s x
    unfolding itemConsumableEnc_def itemConsumableSerializeSPacket_def Let_def
    by (rule prop_appends)
qed (simp add: itemConsumableEnc_def itemConsumableGetSPacketSize_def)

lemma itemConsumableSerializeCPacket_appends:
  "ps_wf s \<Longrightarrow> length (itemConsumableEnc x) \<le> ps_room s \<Longrightarrow>
   ps_appends s (itemConsumableEnc x) (itemConsumableSerializeCPacket x s)"
  unfolding itemConsumableEnc_def itemConsumableSerializeCPacket_def Let_def
  by (rule cprop_appends)

lemma itemConsumableCPacketSize: "itemConsumableGetCPacketSize x = length (itemConsumableEnc x)"
  by (simp add: itemConsumableEnc_def itemConsumableGetCPacketSize_def)

definition itemConsumableTailOk :: "bytes \<Rightarrow> bool" where
  "itemConsumableTailOk m \<longleftrightarrow> notTagged 3750 m"

lemma succeeds_itemConsumable:
  assumes "ps_next s (itemConsumableEnc x @ cs) tail" and "itemConsumableTailOk (cs @ tail)"
    and "\<And>t. ps_next t cs tail \<Longrightarrow> P (True, x, t)"
  shows "succeeds (itemConsumableUnserializeSPacket (x \<lparr> consumable_cooldown := None \<rparr>) s) P"
  using assms unfolding itemConsumableUnserializeSPacket_def itemConsumableEnc_def itemConsumableTailOk_def append_assoc
  by (force intro!: succeeds_property simp: notTagged_enc)

lemma itemConsumableInit_blank:
  "itemConsumableInit (consumable_item x) = x \<lparr> consumable_cooldown := None \<rparr>"
  by (cases x; simp add: itemConsumableInit_def)

section \<open>\<^verbatim>\<open>src/common/actor/item/common/quest/item_quest.c\<close>\<close>

record ItemQuest =
  quest_item :: Item
  quest_cooldown :: float_ptr

abbreviation (input) ITEM_QUEST_PROPERTY_ID_COOLDOWN :: PropertyId where "ITEM_QUEST_PROPERTY_ID_COOLDOWN \<equiv> 3750"
abbreviation (input) sizeof_ItemQuestSPacket :: nat where "sizeof_ItemQuestSPacket \<equiv> 0"

definition itemQuestInit :: "Item \<Rightarrow> ItemQuest" where
  "itemQuestInit item = \<lparr> quest_item = item, quest_cooldown = None \<rparr>"

definition itemQuestGetCPacketSize :: "ItemQuest \<Rightarrow> nat" where
  "itemQuestGetCPacketSize self =
     propertyFloatGetCPacketSize (quest_cooldown self)"

definition itemQuestGetSPacketSize :: "ItemQuest \<Rightarrow> nat" where
  "itemQuestGetSPacketSize self =
     sizeof_ItemQuestSPacket +
     propertyFloatGetSPacketSize (quest_cooldown self)"

definition itemQuestSerializeCPacket :: "ItemQuest \<Rightarrow> PacketStream \<Rightarrow> PacketStream" where
  "itemQuestSerializeCPacket self stream =
     (propertyFloatSerializeCPacket ITEM_QUEST_PROPERTY_ID_COOLDOWN (quest_cooldown self) stream)"

definition itemQuestSerializeSPacket :: "ItemQuest \<Rightarrow> PacketStream \<Rightarrow> PacketStream" where
  "itemQuestSerializeSPacket self stream =
     (propertyFloatSerializeSPacket ITEM_QUEST_PROPERTY_ID_COOLDOWN (quest_cooldown self) stream)"

definition itemQuestUnserializeSPacket ::
    "ItemQuest \<Rightarrow> PacketStream \<Rightarrow> (bool \<times> ItemQuest \<times> PacketStream) result" where
  "itemQuestUnserializeSPacket self stream =
     rbind (propertyFloatUnserializeSPacket ITEM_QUEST_PROPERTY_ID_COOLDOWN (quest_cooldown self) stream) (\<lambda>(ok, value, stream).
     let self = self \<lparr> quest_cooldown := value \<rparr> in
     if \<not> ok then Inr (False, self, stream) else
     Inr (True, self, stream))"

definition itemQuestEnc :: "ItemQuest \<Rightarrow> bytes" where
  "itemQuestEnc self =
     propFloatEnc ITEM_QUEST_PROPERTY_ID_COOLDOWN (quest_cooldown self)"

interpretation quest_ser: ps_serializer
  itemQuestSerializeSPacket itemQuestEnc itemQuestGetSPacketSize
proof
  show "ps_wf s \<Longrightarrow> length (itemQuestEnc x) \<le> ps_room s \<Longrightarrow>
        ps_appends s (itemQuestEnc x) (itemQuestSerializeSPacket x s)" for s x
    unfolding itemQuestEnc_def itemQuestSerializeSPacket_def Let_def
    by (rule prop_appends)
qed (simp add: itemQuestEnc_def itemQuestGetSPacketSize_def)

lemma itemQuestSerializeCPacket_appends:
  "ps_wf s \<Longrightarrow> length (itemQuestEnc x) \<le> ps_room s \<Longrightarrow>
   ps_appends s (itemQuestEnc x) (itemQuestSerializeCPacket x s)"
  unfolding itemQuestEnc_def itemQuestSerializeCPacket_def Let_def
  by (rule cprop_appends)

lemma itemQuestCPacketSize: "itemQuestGetCPacketSize x = length (itemQuestEnc x)"
  by (simp add: itemQuestEnc_def itemQuestGetCPacketSize_def)

definition itemQuestTailOk :: "bytes \<Rightarrow> bool" where
  "itemQuestTailOk m \<longleftrightarrow> notTagged 3750 m"

lemma succeeds_itemQuest:
  assumes "ps_next s (itemQuestEnc x @ cs) tail" and "itemQuestTailOk (cs @ tail)"
    and "\<And>t. ps_next t cs tail \<Longrightarrow> P (True, x, t)"
  shows "succeeds (itemQuestUnserializeSPacket (x \<lparr> quest_cooldown := None \<rparr>) s) P"
  using assms unfolding itemQuestUnserializeSPacket_def itemQuestEnc_def itemQuestTailOk_def append_assoc
  by (force intro!: succeeds_property simp: notTagged_enc)

lemma itemQuestInit_blank:
  "itemQuestInit (quest_item x) = x \<lparr> quest_cooldown := None \<rparr>"
  by (cases x; simp add: itemQuestInit_def)

section \<open>\<^verbatim>\<open>src/common/actor/item/common/book/item_book.c\<close>\<close>

record ItemBook =
  book_item :: Item
  book_cooldown :: float_ptr

abbreviation (input) ITEM_BOOK_PROPERTY_ID_COOLDOWN :: PropertyId where "ITEM_BOOK_PROPERTY_ID_COOLDOWN \<equiv> 3750"
abbreviation (input) sizeof_ItemBookSPacket :: nat where "sizeof_ItemBookSPacket \<equiv> 0"

definition itemBookInit :: "Item \<Rightarrow> ItemBook" where
  "itemBookInit item = \<lparr> book_item = item, book_cooldown = None \<rparr>"

definition itemBookGetCPacketSize :: "ItemBook \<Rightarrow> nat" where
  "itemBookGetCPacketSize self =
     propertyFloatGetCPacketSize (book_cooldown self)"

definition itemBookGetSPacketSize :: "ItemBook \<Rightarrow> nat" where
  "itemBookGetSPacketSize self =
     sizeof_ItemBookSPacket +
     propertyFloatGetSPacketSize (book_cooldown self)"

definition itemBookSerializeCPacket :: "ItemBook \<Rightarrow> PacketStream \<Rightarrow> PacketStream" where
  "itemBookSerializeCPacket self stream =
     (propertyFloatSerializeCPacket ITEM_BOOK_PROPERTY_ID_COOLDOWN (book_cooldown self) stream)"

definition itemBookSerializeSPacket :: "ItemBook \<Rightarrow> PacketStream \<Rightarrow> PacketStream" where
  "itemBookSerializeSPacket self stream =
     (propertyFloatSerializeSPacket ITEM_BOOK_PROPERTY_ID_COOLDOWN (book_cooldown self) stream)"

definition itemBookUnserializeSPacket ::
    "ItemBook \<Rightarrow> PacketStream \<Rightarrow> (bool \<times> ItemBook \<times> PacketStream) result" where
  "itemBookUnserializeSPacket self stream =
     rbind (propertyFloatUnserializeSPacket ITEM_BOOK_PROPERTY_ID_COOLDOWN (book_cooldown self) stream) (\<lambda>(ok, value, stream).
     let self = self \<lparr> book_cooldown := value \<rparr> in
     if \<not> ok then Inr (False, self, stream) else
     Inr (True, self, stream))"

definition itemBookEnc :: "ItemBook \<Rightarrow> bytes" where
  "itemBookEnc self =
     propFloatEnc ITEM_BOOK_PROPERTY_ID_COOLDOWN (book_cooldown self)"

interpretation book_ser: ps_serializer
  itemBookSerializeSPacket itemBookEnc itemBookGetSPacketSize
proof
  show "ps_wf s \<Longrightarrow> length (itemBookEnc x) \<le> ps_room s \<Longrightarrow>
        ps_appends s (itemBookEnc x) (itemBookSerializeSPacket x s)" for s x
    unfolding itemBookEnc_def itemBookSerializeSPacket_def Let_def
    by (rule prop_appends)
qed (simp add: itemBookEnc_def itemBookGetSPacketSize_def)

lemma itemBookSerializeCPacket_appends:
  "ps_wf s \<Longrightarrow> length (itemBookEnc x) \<le> ps_room s \<Longrightarrow>
   ps_appends s (itemBookEnc x) (itemBookSerializeCPacket x s)"
  unfolding itemBookEnc_def itemBookSerializeCPacket_def Let_def
  by (rule cprop_appends)

lemma itemBookCPacketSize: "itemBookGetCPacketSize x = length (itemBookEnc x)"
  by (simp add: itemBookEnc_def itemBookGetCPacketSize_def)

definition itemBookTailOk :: "bytes \<Rightarrow> bool" where
  "itemBookTailOk m \<longleftrightarrow> notTagged 3750 m"

lemma succeeds_itemBook:
  assumes "ps_next s (itemBookEnc x @ cs) tail" and "itemBookTailOk (cs @ tail)"
    and "\<And>t. ps_next t cs tail \<Longrightarrow> P (True, x, t)"
  shows "succeeds (itemBookUnserializeSPacket (x \<lparr> book_cooldown := None \<rparr>) s) P"
  using assms unfolding itemBookUnserializeSPacket_def itemBookEnc_def itemBookTailOk_def append_assoc
  by (force intro!: succeeds_property simp: notTagged_enc)

lemma itemBookInit_blank:
  "itemBookInit (book_item x) = x \<lparr> book_cooldown := None \<rparr>"
  by (cases x; simp add: itemBookInit_def)

section \<open>\<^verbatim>\<open>src/common/actor/item/common/material/item_material.c\<close>\<close>

record ItemMaterial =
  material_item :: Item
  material_cooldown :: float_ptr

abbreviation (input) ITEM_MATERIAL_PROPERTY_ID_COOLDOWN :: PropertyId where "ITEM_MATERIAL_PROPERTY_ID_COOLDOWN \<equiv> 3750"
abbreviation (input) sizeof_ItemMaterialSPacket :: nat where "sizeof_ItemMaterialSPacket \<equiv> 0"

definition itemMaterialInit :: "Item \<Rightarrow> ItemMaterial" where
  "itemMaterialInit item = \<lparr> material_item = item, material_cooldown = None \<rparr>"

definition itemMaterialGetCPacketSize :: "ItemMaterial \<Rightarrow> nat" where
  "itemMaterialGetCPacketSize self =
     propertyFloatGetCPacketSize (material_cooldown self)"

definition itemMaterialGetSPacketSize :: "ItemMaterial \<Rightarrow> nat" where
  "itemMaterialGetSPacketSize self =
     sizeof_ItemMaterialSPacket +
     propertyFloatGetSPacketSize (material_cooldown self)"

definition itemMaterialSerializeCPacket :: "ItemMaterial \<Rightarrow> PacketStream \<Rightarrow> PacketStream" where
  "itemMaterialSerializeCPacket self stream =
     (propertyFloatSerializeCPacket ITEM_MATERIAL_PROPERTY_ID_COOLDOWN (material_cooldown self) stream)"

definition itemMaterialSerializeSPacket :: "ItemMaterial \<Rightarrow> PacketStream \<Rightarrow> PacketStream" where
  "itemMaterialSerializeSPacket self stream =
     (propertyFloatSerializeSPacket ITEM_MATERIAL_PROPERTY_ID_COOLDOWN (material_cooldown self) stream)"

definition itemMaterialUnserializeSPacket ::
    "ItemMaterial \<Rightarrow> PacketStream \<Rightarrow> (bool \<times> ItemMaterial \<times> PacketStream) result" where
  "itemMaterialUnserializeSPacket self stream =
     rbind (propertyFloatUnserializeSPacket ITEM_MATERIAL_PROPERTY_ID_COOLDOWN (material_cooldown self) stream) (\<lambda>(ok, value, stream).
     let self = self \<lparr> material_cooldown := value \<rparr> in
     if \<not> ok then Inr (False, self, stream) else
     Inr (True, self, stream))"

definition itemMaterialEnc :: "ItemMaterial \<Rightarrow> bytes" where
  "itemMaterialEnc self =
     propFloatEnc ITEM_MATERIAL_PROPERTY_ID_COOLDOWN (material_cooldown self)"

interpretation material_ser: ps_serializer
  itemMaterialSerializeSPacket itemMaterialEnc itemMaterialGetSPacketSize
proof
  show "ps_wf s \<Longrightarrow> length (itemMaterialEnc x) \<le> ps_room s \<Longrightarrow>
        ps_appends s (itemMaterialEnc x) (itemMaterialSerializeSPacket x s)" for s x
    unfolding itemMaterialEnc_def itemMaterialSerializeSPacket_def Let_def
    by (rule prop_appends)
qed (simp add: itemMaterialEnc_def itemMaterialGetSPacketSize_def)

lemma itemMaterialSerializeCPacket_appends:
  "ps_wf s \<Longrightarrow> length (itemMaterialEnc x) \<le> ps_room s \<Longrightarrow>
   ps_appends s (itemMaterialEnc x) (itemMaterialSerializeCPacket x s)"
  unfolding itemMaterialEnc_def itemMaterialSerializeCPacket_def Let_def
  by (rule cprop_appends)

lemma itemMaterialCPacketSize: "itemMaterialGetCPacketSize x = length (itemMaterialEnc x)"
  by (simp add: itemMaterialEnc_def itemMaterialGetCPacketSize_def)

definition itemMaterialTailOk :: "bytes \<Rightarrow> bool" where
  "itemMaterialTailOk m \<longleftrightarrow> notTagged 3750 m"

lemma succeeds_itemMaterial:
  assumes "ps_next s (itemMaterialEnc x @ cs) tail" and "itemMaterialTailOk (cs @ tail)"
    and "\<And>t. ps_next t cs tail \<Longrightarrow> P (True, x, t)"
  shows "succeeds (itemMaterialUnserializeSPacket (x \<lparr> material_cooldown := None \<rparr>) s) P"
  using assms unfolding itemMaterialUnserializeSPacket_def itemMaterialEnc_def itemMaterialTailOk_def append_assoc
  by (force intro!: succeeds_property simp: notTagged_enc)

lemma itemMaterialInit_blank:
  "itemMaterialInit (material_item x) = x \<lparr> material_cooldown := None \<rparr>"
  by (cases x; simp add: itemMaterialInit_def)

section \<open>\<^verbatim>\<open>src/common/actor/item/common/currency/item_currency.c\<close>\<close>

record ItemCurrency =
  currency_item :: Item
  currency_cooldown :: float_ptr

abbreviation (input) ITEM_CURRENCY_PROPERTY_ID_COOLDOWN :: PropertyId where "ITEM_CURRENCY_PROPERTY_ID_COOLDOWN \<equiv> 3750"
abbreviation (input) sizeof_ItemCurrencySPacket :: nat where "sizeof_ItemCurrencySPacket \<equiv> 0"

definition itemCurrencyInit :: "Item \<Rightarrow> ItemCurrency" where
  "itemCurrencyInit item = \<lparr> currency_item = item, currency_cooldown = None \<rparr>"

definition itemCurrencyGetCPacketSize :: "ItemCurrency \<Rightarrow> nat" where
  "itemCurrencyGetCPacketSize self =
     propertyFloatGetCPacketSize (currency_cooldown self)"

definition itemCurrencyGetSPacketSize :: "ItemCurrency \<Rightarrow> nat" where
  "itemCurrencyGetSPacketSize self =
     sizeof_ItemCurrencySPacket +
     propertyFloatGetSPacketSize (currency_cooldown self)"

definition itemCurrencySerializeCPacket :: "ItemCurrency \<Rightarrow> PacketStream \<Rightarrow> PacketStream" where
  "itemCurrencySerializeCPacket self stream =
     (propertyFloatSerializeCPacket ITEM_CURRENCY_PROPERTY_ID_COOLDOWN (currency_cooldown self) stream)"

definition itemCurrencySerializeSPacket :: "ItemCurrency \<Rightarrow> PacketStream \<Rightarrow> PacketStream" where
  "itemCurrencySerializeSPacket self stream =
     (propertyFloatSerializeSPacket ITEM_CURRENCY_PROPERTY_ID_COOLDOWN (currency_cooldown self) stream)"

definition itemCurrencyUnserializeSPacket ::
    "ItemCurrency \<Rightarrow> PacketStream \<Rightarrow> (bool \<times> ItemCurrency \<times> PacketStream) result" where
  "itemCurrencyUnserializeSPacket self stream =
     rbind (propertyFloatUnserializeSPacket ITEM_CURRENCY_PROPERTY_ID_COOLDOWN (currency_cooldown self) stream) (\<lambda>(ok, value, stream).
     let self = self \<lparr> currency_cooldown := value \<rparr> in
     if \<not> ok then Inr (False, self, stream) else
     Inr (True, self, stream))"

definition itemCurrencyEnc :: "ItemCurrency \<Rightarrow> bytes" where
  "itemCurrencyEnc self =
     propFloatEnc ITEM_CURRENCY_PROPERTY_ID_COOLDOWN (currency_cooldown self)"

interpretation currency_ser: ps_serializer
  itemCurrencySerializeSPacket itemCurrencyEnc itemCurrencyGetSPacketSize
proof
  show "ps_wf s \<Longrightarrow> length (itemCurrencyEnc x) \<le> ps_room s \<Longrightarrow>
        ps_appends s (itemCurrencyEnc x) (itemCurrencySerializeSPacket x s)" for s x
    unfolding itemCurrencyEnc_def itemCurrencySerializeSPacket_def Let_def
    by (rule prop_appends)
qed (simp add: itemCurrencyEnc_def itemCurrencyGetSPacketSize_def)

lemma itemCurrencySerializeCPacket_appends:
  "ps_wf s \<Longrightarrow> length (itemCurrencyEnc x) \<le> ps_room s \<Longrightarrow>
   ps_appends s (itemCurrencyEnc x) (itemCurrencySerializeCPacket x s)"
  unfolding itemCurrencyEnc_def itemCurrencySerializeCPacket_def Let_def
  by (rule cprop_appends)

lemma itemCurrencyCPacketSize: "itemCurrencyGetCPacketSize x = length (itemCurrencyEnc x)"
  by (simp add: itemCurrencyEnc_def itemCurrencyGetCPacketSize_def)

definition itemCurrencyTailOk :: "bytes \<Rightarrow> bool" where
  "itemCurrencyTailOk m \<longleftrightarrow> notTagged 3750 m"

lemma succeeds_itemCurrency:
  assumes "ps_next s (itemCurrencyEnc x @ cs) tail" and "itemCurrencyTailOk (cs @ tail)"
    and "\<And>t. ps_next t cs tail \<Longrightarrow> P (True, x, t)"
  shows "succeeds (itemCurrencyUnserializeSPacket (x \<lparr> currency_cooldown := None \<rparr>) s) P"
  using assms unfolding itemCurrencyUnserializeSPacket_def itemCurrencyEnc_def itemCurrencyTailOk_def append_assoc
  by (force intro!: succeeds_property simp: notTagged_enc)

lemma itemCurrencyInit_blank:
  "itemCurrencyInit (currency_item x) = x \<lparr> currency_cooldown := None \<rparr>"
  by (cases x; simp add: itemCurrencyInit_def)

section \<open>\<^verbatim>\<open>src/common/actor/item/common/gem/item_gem.c\<close>\<close>

record ItemGem =
  gem_item :: Item
  gem_level :: float_ptr
  gem_itemExp :: float_ptr
  gem_cooldown :: float_ptr

abbreviation (input) ITEM_GEM_PROPERTY_ID_LEVEL :: PropertyId where "ITEM_GEM_PROPERTY_ID_LEVEL \<equiv> 3779"
abbreviation (input) ITEM_GEM_PROPERTY_ID_ITEM_EXP :: PropertyId where "ITEM_GEM_PROPERTY_ID_ITEM_EXP \<equiv> 3768"
abbreviation (input) ITEM_GEM_PROPERTY_ID_COOLDOWN :: PropertyId where "ITEM_GEM_PROPERTY_ID_COOLDOWN \<equiv> 3843"
abbreviation (input) sizeof_ItemGemSPacket :: nat where "sizeof_ItemGemSPacket \<equiv> 0"

definition itemGemInit :: "Item \<Rightarrow> ItemGem" where
  "itemGemInit item = \<lparr> gem_item = item, gem_level = None, gem_itemExp = None, gem_cooldown = None \<rparr>"

definition itemGemGetCPacketSize :: "ItemGem \<Rightarrow> nat" where
  "itemGemGetCPacketSize self =
     propertyFloatGetCPacketSize (gem_level self) +
     propertyFloatGetCPacketSize (gem_itemExp self) +
     propertyFloatGetCPacketSize (gem_cooldown self)"

definition itemGemGetSPacketSize :: "ItemGem \<Rightarrow> nat" where
  "itemGemGetSPacketSize self =
     sizeof_ItemGemSPacket +
     propertyFloatGetSPacketSize (gem_level self) +
     propertyFloatGetSPacketSize (gem_itemExp self) +
     propertyFloatGetSPacketSize (gem_cooldown self)"

definition itemGemSerializeCPacket :: "ItemGem \<Rightarrow> PacketStream \<Rightarrow> PacketStream" where
  "itemGemSerializeCPacket self stream =
     (let stream = propertyFloatSerializeCPacket ITEM_GEM_PROPERTY_ID_LEVEL (gem_level self) stream in
      let stream = propertyFloatSerializeCPacket ITEM_GEM_PROPERTY_ID_ITEM_EXP (gem_itemExp self) stream in
      propertyFloatSerializeCPacket ITEM_GEM_PROPERTY_ID_COOLDOWN (gem_cooldown self) stream)"

definition itemGemSerializeSPacket :: "ItemGem \<Rightarrow> PacketStream \<Rightarrow> PacketStream" where
  "itemGemSerializeSPacket self stream =
     (let stream = propertyFloatSerializeSPacket ITEM_GEM_PROPERTY_ID_LEVEL (gem_level self) stream in
      let stream = propertyFloatSerializeSPacket ITEM_GEM_PROPERTY_ID_ITEM_EXP (gem_itemExp self) stream in
      propertyFloatSerializeSPacket ITEM_GEM_PROPERTY_ID_COOLDOWN (gem_cooldown self) stream)"

definition itemGemUnserializeSPacket ::
    "ItemGem \<Rightarrow> PacketStream \<Rightarrow> (bool \<times> ItemGem \<times> PacketStream) result" where
  "itemGemUnserializeSPacket self stream =
     rbind (propertyFloatUnserializeSPacket ITEM_GEM_PROPERTY_ID_LEVEL (gem_level self) stream) (\<lambda>(ok, value, stream).
     let self = self \<lparr> gem_level := value \<rparr> in
     if \<not> ok then Inr (False, self, stream) else
     rbind (propertyFloatUnserializeSPacket ITEM_GEM_PROPERTY_ID_ITEM_EXP (gem_itemExp self) stream) (\<lambda>(ok, value, stream).
     let self = self \<lparr> gem_itemExp := value \<rparr> in
     if \<not> ok then Inr (False, self, stream) else
     rbind (propertyFloatUnserializeSPacket ITEM_GEM_PROPERTY_ID_COOLDOWN (gem_cooldown self) stream) (\<lambda>(ok, value, stream).
     let self = self \<lparr> gem_cooldown := value \<rparr> in
     if \<not> ok then Inr (False, self, stream) else
     Inr (True, self, stream))))"

definition itemGemEnc :: "ItemGem \<Rightarrow> bytes" where
  "itemGemEnc self =
     propFloatEnc ITEM_GEM_PROPERTY_ID_LEVEL (gem_level self) @
     propFloatEnc ITEM_GEM_PROPERTY_ID_ITEM_EXP (gem_itemExp self) @
     propFloatEnc ITEM_GEM_PROPERTY_ID_COOLDOWN (gem_cooldown self)"

interpretation gem_ser: ps_serializer
  itemGemSerializeSPacket itemGemEnc itemGemGetSPacketSize
proof
  show "ps_wf s \<Longrightarrow> length (itemGemEnc x) \<le> ps_room s \<Longrightarrow>
        ps_appends s (itemGemEnc x) (itemGemSerializeSPacket x s)" for s x
    unfolding itemGemEnc_def itemGemSerializeSPacket_def Let_def
    by ((rule ps_appends_comp, rule prop_appends, assumption, simp, simp)+, rule prop_appends; simp)
qed (simp add: itemGemEnc_def itemGemGetSPacketSize_def)

lemma itemGemSerializeCPacket_appends:
  "ps_wf s \<Longrightarrow> length (itemGemEnc x) \<le> ps_room s \<Longrightarrow>
   ps_appends s (itemGemEnc x) (itemGemSerializeCPacket x s)"
  unfolding itemGemEnc_def itemGemSerializeCPacket_def Let_def
  by ((rule ps_appends_comp, rule cprop_appends, assumption, simp, simp)+, rule cprop_appends; simp)

lemma itemGemCPacketSize: "itemGemGetCPacketSize x = length (itemGemEnc x)"
  by (simp add: itemGemEnc_def itemGemGetCPacketSize_def)

definition itemGemTailOk :: "bytes \<Rightarrow> bool" where
  "itemGemTailOk m \<longleftrightarrow> notTagged 3779 m \<and> notTagged 3768 m \<and> notTagged 3843 m"

lemma succeeds_itemGem:
  assumes "ps_next s (itemGemEnc x @ cs) tail" and "itemGemTailOk (cs @ tail)"
    and "\<And>t. ps_next t cs tail \<Longrightarrow> P (True, x, t)"
  shows "succeeds (itemGemUnserializeSPacket (x \<lparr> gem_level := None, gem_itemExp := None, gem_cooldown := None \<rparr>) s) P"
  using assms unfolding itemGemUnserializeSPacket_def itemGemEnc_def itemGemTailOk_def append_assoc
  by (force intro!: succeeds_property simp: notTagged_enc)

lemma itemGemInit_blank:
  "itemGemInit (gem_item x) = x \<lparr> gem_level := None, gem_itemExp := None, gem_cooldown := None \<rparr>"
  by (cases x; simp add: itemGemInit_def)

section \<open>\<^verbatim>\<open>src/common/actor/item/common/card/item_card.c\<close>\<close>

record ItemCard =
  card_item :: Item
  card_level :: float_ptr
  card_cooldown :: float_ptr
  card_itemExp :: float_ptr

abbreviation (input) ITEM_CARD_PROPERTY_ID_LEVEL :: PropertyId where "ITEM_CARD_PROPERTY_ID_LEVEL \<equiv> 3779"
abbreviation (input) ITEM_CARD_PROPERTY_ID_COOLDOWN :: PropertyId where "ITEM_CARD_PROPERTY_ID_COOLDOWN \<equiv> 3750"
abbreviation (input) ITEM_CARD_PROPERTY_ID_ITEM_EXP :: PropertyId where "ITEM_CARD_PROPERTY_ID_ITEM_EXP \<equiv> 3768"
abbreviation (input) sizeof_ItemCardSPacket :: nat where "sizeof_ItemCardSPacket \<equiv> 0"

definition itemCardInit :: "Item \<Rightarrow> ItemCard" where
  "itemCardInit item = \<lparr> card_item = item, card_level = None, card_cooldown = None, card_itemExp = None \<rparr>"

definition itemCardGetCPacketSize :: "ItemCard \<Rightarrow> nat" where
  "itemCardGetCPacketSize self =
     propertyFloatGetCPacketSize (card_level self) +
     propertyFloatGetCPacketSize (card_cooldown self) +
     propertyFloatGetCPacketSize (card_itemExp self)"

definition itemCardGetSPacketSize :: "ItemCard \<Rightarrow> nat" where
  "itemCardGetSPacketSize self =
     sizeof_ItemCardSPacket +
     propertyFloatGetSPacketSize (card_level self) +
     propertyFloatGetSPacketSize (card_cooldown self) +
     propertyFloatGetSPacketSize (card_itemExp self)"

definition itemCardSerializeCPacket :: "ItemCard \<Rightarrow> PacketStream \<Rightarrow> PacketStream" where
  "itemCardSerializeCPacket self stream =
     (let stream = propertyFloatSerializeCPacket ITEM_CARD_PROPERTY_ID_LEVEL (card_level self) stream in
      let stream = propertyFloatSerializeCPacket ITEM_CARD_PROPERTY_ID_COOLDOWN (card_cooldown self) stream in
      propertyFloatSerializeCPacket ITEM_CARD_PROPERTY_ID_ITEM_EXP (card_itemExp self) stream)"

definition itemCardSerializeSPacket :: "ItemCard \<Rightarrow> PacketStream \<Rightarrow> PacketStream" where
  "itemCardSerializeSPacket self stream =
     (let stream = propertyFloatSerializeSPacket ITEM_CARD_PROPERTY_ID_LEVEL (card_level self) stream in
      let stream = propertyFloatSerializeSPacket ITEM_CARD_PROPERTY_ID_COOLDOWN (card_cooldown self) stream in
      propertyFloatSerializeSPacket ITEM_CARD_PROPERTY_ID_ITEM_EXP (card_itemExp self) stream)"

definition itemCardUnserializeSPacket ::
    "ItemCard \<Rightarrow> PacketStream \<Rightarrow> (bool \<times> ItemCard \<times> PacketStream) result" where
  "itemCardUnserializeSPacket self stream =
     rbind (propertyFloatUnserializeSPacket ITEM_CARD_PROPERTY_ID_LEVEL (card_level self) stream) (\<lambda>(ok, value, stream).
     let self = self \<lparr> card_level := value \<rparr> in
     if \<not> ok then Inr (False, self, stream) else
     rbind (propertyFloatUnserializeSPacket ITEM_CARD_PROPERTY_ID_COOLDOWN (card_cooldown self) stream) (\<lambda>(ok, value, stream).
     let self = self \<lparr> card_cooldown := value \<rparr> in
     if \<not> ok then Inr (False, self, stream) else
     rbind (propertyFloatUnserializeSPacket ITEM_CARD_PROPERTY_ID_ITEM_EXP (card_itemExp self) stream) (\<lambda>(ok, value, stream).
     let self = self \<lparr> card_itemExp := value \<rparr> in
     if \<not> ok then Inr (False, self, stream) else
     Inr (True, self, stream))))"

definition itemCardEnc :: "ItemCard \<Rightarrow> bytes" where
  "itemCardEnc self =
     propFloatEnc ITEM_CARD_PROPERTY_ID_LEVEL (card_level self) @
     propFloatEnc ITEM_CARD_PROPERTY_ID_COOLDOWN (card_cooldown self) @
     propFloatEnc ITEM_CARD_PROPERTY_ID_ITEM_EXP (card_itemExp self)"

interpretation card_ser: ps_serializer
  itemCardSerializeSPacket itemCardEnc itemCardGetSPacketSize
proof
  show "ps_wf s \<Longrightarrow> length (itemCardEnc x) \<le> ps_room s \<Longrightarrow>
        ps_appends s (itemCardEnc x) (itemCardSerializeSPacket x s)" for s x
    unfolding itemCardEnc_def itemCardSerializeSPacket_def Let_def
    by ((rule ps_appends_comp, rule prop_appends, assumption, simp, simp)+, rule prop_appends; simp)
qed (simp add: itemCardEnc_def itemCardGetSPacketSize_def)

lemma itemCardSerializeCPacket_appends:
  "ps_wf s \<Longrightarrow> length (itemCardEnc x) \<le> ps_room s \<Longrightarrow>
   ps_appends s (itemCardEnc x) (itemCardSerializeCPacket x s)"
  unfolding itemCardEnc_def itemCardSerializeCPacket_def Let_def
  by ((rule ps_appends_comp, rule cprop_appends, assumption, simp, simp)+, rule cprop_appends; simp)

lemma itemCardCPacketSize: "itemCardGetCPacketSize x = length (itemCardEnc x)"
  by (simp add: itemCardEnc_def itemCardGetCPacketSize_def)

definition itemCardTailOk :: "bytes \<Rightarrow> bool" where
  "itemCardTailOk m \<longleftrightarrow> notTagged 3779 m \<and> notTagged 3750 m \<and> notTagged 3768 m"

lemma succeeds_itemCard:
  assumes "ps_next s (itemCardEnc x @ cs) tail" and "itemCardTailOk (cs @ tail)"
    and "\<And>t. ps_next t cs tail \<Longrightarrow> P (True, x, t)"
  shows "succeeds (itemCardUnserializeSPacket (x \<lparr> card_level := None, card_cooldown := None, card_itemExp := None \<rparr>) s) P"
  using assms unfolding itemCardUnserializeSPacket_def itemCardEnc_def itemCardTailOk_def append_assoc
  by (force intro!: succeeds_property simp: notTagged_enc)

lemma itemCardInit_blank:
  "itemCardInit (card_item x) = x \<lparr> card_level := None, card_cooldown := None, card_itemExp := None \<rparr>"
  by (cases x; simp add: itemCardInit_def)

section \<open>\<^verbatim>\<open>src/common/actor/item/equipable/weapon/item_weapon.c\<close>\<close>

record ItemWeapon =
  weapon_equipable :: ItemEquipable
  weapon_maxAtk :: float_ptr
  weapon_minAtk :: float_ptr
  weapon_cooldown :: float_ptr

abbreviation (input) ITEM_WEAPON_PROPERTY_ID_MAXATK :: PropertyId where "ITEM_WEAPON_PROPERTY_ID_MAXATK \<equiv> 3796"
abbreviation (input) ITEM_WEAPON_PROPERTY_ID_MINATK :: PropertyId where "ITEM_WEAPON_PROPERTY_ID_MINATK \<equiv> 3858"
abbreviation (input) ITEM_WEAPON_PROPERTY_ID_COOLDOWN :: PropertyId where "ITEM_WEAPON_PROPERTY_ID_COOLDOWN \<equiv> 3843"
abbreviation (input) sizeof_ItemWeaponSPacket :: nat where "sizeof_ItemWeaponSPacket \<equiv> 0"

definition itemWeaponInit :: "Item \<Rightarrow> ItemEquipData option \<Rightarrow> ItemWeapon" where
  "itemWeaponInit item data = \<lparr> weapon_equipable = itemEquipableInit item data, weapon_maxAtk = None, weapon_minAtk = None, weapon_cooldown = None \<rparr>"

definition itemWeaponGetCPacketSize :: "ItemWeapon \<Rightarrow> nat" where
  "itemWeaponGetCPacketSize self =
     propertyFloatGetCPacketSize (weapon_maxAtk self) +
     propertyFloatGetCPacketSize (weapon_minAtk self) +
     propertyFloatGetCPacketSize (weapon_cooldown self)"

definition itemWeaponGetSPacketSize :: "ItemWeapon \<Rightarrow> nat" where
  "itemWeaponGetSPacketSize self =
     sizeof_ItemWeaponSPacket +
     propertyFloatGetSPacketSize (weapon_maxAtk self) +
     propertyFloatGetSPacketSize (weapon_minAtk self) +
     propertyFloatGetSPacketSize (weapon_cooldown self)"

definition itemWeaponSerializeCPacket :: "ItemWeapon \<Rightarrow> PacketStream \<Rightarrow> PacketStream" where
  "itemWeaponSerializeCPacket self stream =
     (let stream = propertyFloatSerializeCPacket ITEM_WEAPON_PROPERTY_ID_MAXATK (weapon_maxAtk self) stream in
      let stream = propertyFloatSerializeCPacket ITEM_WEAPON_PROPERTY_ID_MINATK (weapon_minAtk self) stream in
      propertyFloatSerializeCPacket ITEM_WEAPON_PROPERTY_ID_COOLDOWN (weapon_cooldown self) stream)"

definition itemWeaponSerializeSPacket :: "ItemWeapon \<Rightarrow> PacketStream \<Rightarrow> PacketStream" where
  "itemWeaponSerializeSPacket self stream =
     (let stream = propertyFloatSerializeSPacket ITEM_WEAPON_PROPERTY_ID_MAXATK (weapon_maxAtk self) stream in
      let stream = propertyFloatSerializeSPacket ITEM_WEAPON_PROPERTY_ID_MINATK (weapon_minAtk self) stream in
      propertyFloatSerializeSPacket ITEM_WEAPON_PROPERTY_ID_COOLDOWN (weapon_cooldown self) stream)"

definition itemWeaponUnserializeSPacket ::
    "ItemWeapon \<Rightarrow> PacketStream \<Rightarrow> (bool \<times> ItemWeapon \<times> PacketStream) result" where
  "itemWeaponUnserializeSPacket self stream =
     rbind (propertyFloatUnserializeSPacket ITEM_WEAPON_PROPERTY_ID_MAXATK (weapon_maxAtk self) stream) (\<lambda>(ok, value, stream).
     let self = self \<lparr> weapon_maxAtk := value \<rparr> in
     if \<not> ok then Inr (False, self, stream) else
     rbind (propertyFloatUnserializeSPacket ITEM_WEAPON_PROPERTY_ID_MINATK (weapon_minAtk self) stream) (\<lambda>(ok, value, stream).
     let self = self \<lparr> weapon_minAtk := value \<rparr> in
     if \<not> ok then Inr (False, self, stream) else
     rbind (propertyFloatUnserializeSPacket ITEM_WEAPON_PROPERTY_ID_COOLDOWN (weapon_cooldown self) stream) (\<lambda>(ok, value, stream).
     let self = self \<lparr> weapon_cooldown := value \<rparr> in
     if \<not> ok then Inr (False, self, stream) else
     Inr (True, self, stream))))"

definition itemWeaponEnc :: "ItemWeapon \<Rightarrow> bytes" where
  "itemWeaponEnc self =
     propFloatEnc ITEM_WEAPON_PROPERTY_ID_MAXATK (weapon_maxAtk self) @
     propFloatEnc ITEM_WEAPON_PROPERTY_ID_MINATK (weapon_minAtk self) @
     propFloatEnc ITEM_WEAPON_PROPERTY_ID_COOLDOWN (weapon_cooldown self)"

interpretation weapon_ser: ps_serializer
  itemWeaponSerializeSPacket itemWeaponEnc itemWeaponGetSPacketSize
proof
  show "ps_wf s \<Longrightarrow> length (itemWeaponEnc x) \<le> ps_room s \<Longrightarrow>
        ps_appends s (itemWeaponEnc x) (itemWeaponSerializeSPacket x s)" for s x
    unfolding itemWeaponEnc_def itemWeaponSerializeSPacket_def Let_def
    by ((rule ps_appends_comp, rule prop_appends, assumption, simp, simp)+, rule prop_appends; simp)
qed (simp add: itemWeaponEnc_def itemWeaponGetSPacketSize_def)

lemma itemWeaponSerializeCPacket_appends:
  "ps_wf s \<Longrightarrow> length (itemWeaponEnc x) \<le> ps_room s \<Longrightarrow>
   ps_appends s (itemWeaponEnc x) (itemWeaponSerializeCPacket x s)"
  unfolding itemWeaponEnc_def itemWeaponSerializeCPacket_def Let_def
  by ((rule ps_appends_comp, rule cprop_appends, assumption, simp, simp)+, rule cprop_appends; simp)

lemma itemWeaponCPacketSize: "itemWeaponGetCPacketSize x = length (itemWeaponEnc x)"
  by (simp add: itemWeaponEnc_def itemWeaponGetCPacketSize_def)

definition itemWeaponTailOk :: "bytes \<Rightarrow> bool" where
  "itemWeaponTailOk m \<longleftrightarrow> notTagged 3796 m \<and> notTagged 3858 m \<and> notTagged 3843 m"

lemma succeeds_itemWeapon:
  assumes "ps_next s (itemWeaponEnc x @ cs) tail" and "itemWeaponTailOk (cs @ tail)"
    and "\<And>t. ps_next t cs tail \<Longrightarrow> P (True, x, t)"
  shows "succeeds (itemWeaponUnserializeSPacket (x \<lparr> weapon_maxAtk := None, weapon_minAtk := None, weapon_cooldown := None \<rparr>) s) P"
  using assms unfolding itemWeaponUnserializeSPacket_def itemWeaponEnc_def itemWeaponTailOk_def append_assoc
  by (force intro!: succeeds_property simp: notTagged_enc)

lemma itemWeaponInit_blank:
  "(itemWeaponInit it d) \<lparr> weapon_equipable := weapon_equipable x \<rparr> = x \<lparr> weapon_maxAtk := None, weapon_minAtk := None, weapon_cooldown := None \<rparr>"
  "weapon_equipable (itemWeaponInit it d) = itemEquipableInit it d"
  by (cases x; simp add: itemWeaponInit_def)+

section \<open>\<^verbatim>\<open>src/common/actor/item/equipable/subweapon/item_subweapon.c\<close>\<close>

record ItemSubWeapon =
  subweapon_equipable :: ItemEquipable
  subweapon_petPosition :: float_ptr
  subweapon_cooldown :: float_ptr

abbreviation (input) ITEM_SUBWEAPON_PROPERTY_ID_PET_POSITION :: PropertyId where "ITEM_SUBWEAPON_PROPERTY_ID_PET_POSITION \<equiv> 3703"
abbreviation (input) ITEM_SUBWEAPON_PROPERTY_ID_COOLDOWN :: PropertyId where "ITEM_SUBWEAPON_PROPERTY_ID_COOLDOWN \<equiv> 3843"
abbreviation (input) sizeof_ItemSubWeaponSPacket :: nat where "sizeof_ItemSubWeaponSPacket \<equiv> 0"

definition itemSubWeaponInit :: "Item \<Rightarrow> ItemEquipData option \<Rightarrow> ItemSubWeapon" where
  "itemSubWeaponInit item data = \<lparr> subweapon_equipable = itemEquipableInit item data, subweapon_petPosition = None, subweapon_cooldown = None \<rparr>"

definition itemSubWeaponGetCPacketSize :: "ItemSubWeapon \<Rightarrow> nat" where
  "itemSubWeaponGetCPacketSize self =
     propertyFloatGetCPacketSize (subweapon_petPosition self) +
     propertyFloatGetCPacketSize (subweapon_cooldown self)"

definition itemSubWeaponGetSPacketSize :: "ItemSubWeapon \<Rightarrow> nat" where
  "itemSubWeaponGetSPacketSize self =
     sizeof_ItemSubWeaponSPacket +
     propertyFloatGetSPacketSize (subweapon_petPosition self) +
     propertyFloatGetSPacketSize (subweapon_cooldown self)"

definition itemSubWeaponSerializeCPacket :: "ItemSubWeapon \<Rightarrow> PacketStream \<Rightarrow> PacketStream" where
  "itemSubWeaponSerializeCPacket self stream =
     (let stream = propertyFloatSerializeCPacket ITEM_SUBWEAPON_PROPERTY_ID_PET_POSITION (subweapon_petPosition self) stream in
      propertyFloatSerializeCPacket ITEM_SUBWEAPON_PROPERTY_ID_COOLDOWN (subweapon_cooldown self) stream)"

definition itemSubWeaponSerializeSPacket :: "ItemSubWeapon \<Rightarrow> PacketStream \<Rightarrow> PacketStream" where
  "itemSubWeaponSerializeSPacket self stream =
     (let stream = propertyFloatSerializeSPacket ITEM_SUBWEAPON_PROPERTY_ID_PET_POSITION (subweapon_petPosition self) stream in
      propertyFloatSerializeSPacket ITEM_SUBWEAPON_PROPERTY_ID_COOLDOWN (subweapon_cooldown self) stream)"

definition itemSubWeaponUnserializeSPacket ::
    "ItemSubWeapon \<Rightarrow> PacketStream \<Rightarrow> (bool \<times> ItemSubWeapon \<times> PacketStream) result" where
  "itemSubWeaponUnserializeSPacket self stream =
     rbind (propertyFloatUnserializeSPacket ITEM_SUBWEAPON_PROPERTY_ID_PET_POSITION (subweapon_petPosition self) stream) (\<lambda>(ok, value, stream).
     let self = self \<lparr> subweapon_petPosition := value \<rparr> in
     if \<not> ok then Inr (False, self, stream) else
     rbind (propertyFloatUnserializeSPacket ITEM_SUBWEAPON_PROPERTY_ID_COOLDOWN (subweapon_cooldown self) stream) (\<lambda>(ok, value, stream).
     let self = self \<lparr> subweapon_cooldown := value \<rparr> in
     if \<not> ok then Inr (False, self, stream) else
     Inr (True, self, stream)))"

definition itemSubWeaponEnc :: "ItemSubWeapon \<Rightarrow> bytes" where
  "itemSubWeaponEnc self =
     propFloatEnc ITEM_SUBWEAPON_PROPERTY_ID_PET_POSITION (subweapon_petPosition self) @
     propFloatEnc ITEM_SUBWEAPON_PROPERTY_ID_COOLDOWN (subweapon_cooldown self)"

interpretation subweapon_ser: ps_serializer
  itemSubWeaponSerializeSPacket itemSubWeaponEnc itemSubWeaponGetSPacketSize
proof
  show "ps_wf s \<Longrightarrow> length (itemSubWeaponEnc x) \<le> ps_room s \<Longrightarrow>
        ps_appends s (itemSubWeaponEnc x) (itemSubWeaponSerializeSPacket x s)" for s x
    unfolding itemSubWeaponEnc_def itemSubWeaponSerializeSPacket_def Let_def
    by ((rule ps_appends_comp, rule prop_appends, assumption, simp, simp)+, rule prop_appends; simp)
qed (simp add: itemSubWeaponEnc_def itemSubWeaponGetSPacketSize_def)

lemma itemSubWeaponSerializeCPacket_appends:
  "ps_wf s \<Longrightarrow> length (itemSubWeaponEnc x) \<le> ps_room s \<Longrightarrow>
   ps_appends s (itemSubWeaponEnc x) (itemSubWeaponSerializeCPacket x s)"
  unfolding itemSubWeaponEnc_def itemSubWeaponSerializeCPacket_def Let_def
  by ((rule ps_appends_comp, rule cprop_appends, assumption, simp, simp)+, rule cprop_appends; simp)

lemma itemSubWeaponCPacketSize: "itemSubWeaponGetCPacketSize x = length (itemSubWeaponEnc x)"
  by (simp add: itemSubWeaponEnc_def itemSubWeaponGetCPacketSize_def)

definition itemSubWeaponTailOk :: "bytes \<Rightarrow> bool" where
  "itemSubWeaponTailOk m \<longleftrightarrow> notTagged 3703 m \<and> notTagged 3843 m"

lemma succeeds_itemSubWeapon:
  assumes "ps_next s (itemSubWeaponEnc x @ cs) tail" and "itemSubWeaponTailOk (cs @ tail)"
    and "\<And>t. ps_next t cs tail \<Longrightarrow> P (True, x, t)"
  shows "succeeds (itemSubWeaponUnserializeSPacket (x \<lparr> subweapon_petPosition := None, subweapon_cooldown := None \<rparr>) s) P"
  using assms unfolding itemSubWeaponUnserializeSPacket_def itemSubWeaponEnc_def itemSubWeaponTailOk_def append_assoc
  by (force intro!: succeeds_property simp: notTagged_enc)

lemma itemSubWeaponInit_blank:
  "(itemSubWeaponInit it d) \<lparr> subweapon_equipable := subweapon_equipable x \<rparr> = x \<lparr> subweapon_petPosition := None, subweapon_cooldown := None \<rparr>"
  "subweapon_equipable (itemSubWeaponInit it d) = itemEquipableInit it d"
  by (cases x; simp add: itemSubWeaponInit_def)+

section \<open>\<^verbatim>\<open>src/common/actor/item/equipable/armor/item_armor.c\<close>\<close>

record ItemArmor =
  armor_equipable :: ItemEquipable
  armor_def :: float_ptr
  armor_cooldown :: float_ptr
  armor_reinforce :: float_ptr
  armor_memo :: str_ptr
  armor_customName :: str_ptr
  armor_maker :: str_ptr

abbreviation (input) ITEM_ARMOR_PROPERTY_ID_DEF :: PropertyId where "ITEM_ARMOR_PROPERTY_ID_DEF \<equiv> 3792"
abbreviation (input) ITEM_ARMOR_PROPERTY_ID_COOLDOWN :: PropertyId where "ITEM_ARMOR_PROPERTY_ID_COOLDOWN \<equiv> 3843"
abbreviation (input) ITEM_ARMOR_PROPERTY_ID_REINFORCE :: PropertyId where "ITEM_ARMOR_PROPERTY_ID_REINFORCE \<equiv> 3852"
abbreviation (input) ITEM_ARMOR_PROPERTY_ID_MEMO :: PropertyId where "ITEM_ARMOR_PROPERTY_ID_MEMO \<equiv> 3972"
abbreviation (input) ITEM_ARMOR_PROPERTY_ID_CUSTOM_NAME :: PropertyId where "ITEM_ARMOR_PROPERTY_ID_CUSTOM_NAME \<equiv> 3975"
abbreviation (input) ITEM_ARMOR_PROPERTY_ID_MAKER :: PropertyId where "ITEM_ARMOR_PROPERTY_ID_MAKER \<equiv> 3978"
abbreviation (input) sizeof_ItemArmorSPacket :: nat where "sizeof_ItemArmorSPacket \<equiv> 0"

definition itemArmorInit :: "Item \<Rightarrow> ItemEquipData option \<Rightarrow> ItemArmor" where
  "itemArmorInit item data = \<lparr> armor_equipable = itemEquipableInit item data, armor_def = None, armor_cooldown = None, armor_reinforce = None, armor_memo = None, armor_customName = None, armor_maker = None \<rparr>"

definition itemArmorGetCPacketSize :: "ItemArmor \<Rightarrow> nat" where
  "itemArmorGetCPacketSize self =
     propertyFloatGetCPacketSize (armor_def self) +
     propertyFloatGetCPacketSize (armor_cooldown self) +
     propertyFloatGetCPacketSize (armor_reinforce self) +
     propertyStringGetCPacketSize (armor_memo self) +
     propertyStringGetCPacketSize (armor_customName self) +
     propertyStringGetCPacketSize (armor_maker self)"

definition itemArmorGetSPacketSize :: "ItemArmor \<Rightarrow> nat" where
  "itemArmorGetSPacketSize self =
     sizeof_ItemArmorSPacket +
     propertyFloatGetSPacketSize (armor_def self) +
     propertyFloatGetSPacketSize (armor_cooldown self) +
     propertyFloatGetSPacketSize (armor_reinforce self) +
     propertyStringGetSPacketSize (armor_memo self) +
     propertyStringGetSPacketSize (armor_customName self) +
     propertyStringGetSPacketSize (armor_maker self)"

definition itemArmorSerializeCPacket :: "ItemArmor \<Rightarrow> PacketStream \<Rightarrow> PacketStream" where
  "itemArmorSerializeCPacket self stream =
     (let stream = propertyFloatSerializeCPacket ITEM_ARMOR_PROPERTY_ID_DEF (armor_def self) stream in
      let stream = propertyFloatSerializeCPacket ITEM_ARMOR_PROPERTY_ID_COOLDOWN (armor_cooldown self) stream in
      let stream = propertyFloatSerializeCPacket ITEM_ARMOR_PROPERTY_ID_REINFORCE (armor_reinforce self) stream in
      let stream = propertyStringSerializeCPacket ITEM_ARMOR_PROPERTY_ID_MEMO (armor_memo self) stream in
      let stream = propertyStringSerializeCPacket ITEM_ARMOR_PROPERTY_ID_CUSTOM_NAME (armor_customName self) stream in
      propertyStringSerializeCPacket ITEM_ARMOR_PROPERTY_ID_MAKER (armor_maker self) stream)"

definition itemArmorSerializeSPacket :: "ItemArmor \<Rightarrow> PacketStream \<Rightarrow> PacketStream" where
  "itemArmorSerializeSPacket self stream =
     (let stream = propertyFloatSerializeSPacket ITEM_ARMOR_PROPERTY_ID_DEF (armor_def self) stream in
      let stream = propertyFloatSerializeSPacket ITEM_ARMOR_PROPERTY_ID_COOLDOWN (armor_cooldown self) stream in
      let stream = propertyFloatSerializeSPacket ITEM_ARMOR_PROPERTY_ID_REINFORCE (armor_reinforce self) stream in
      let stream = propertyStringSerializeSPacket ITEM_ARMOR_PROPERTY_ID_MEMO (armor_memo self) stream in
      let stream = propertyStringSerializeSPacket ITEM_ARMOR_PROPERTY_ID_CUSTOM_NAME (armor_customName self) stream in
      propertyStringSerializeSPacket ITEM_ARMOR_PROPERTY_ID_MAKER (armor_maker self) stream)"

definition itemArmorUnserializeSPacket ::
    "ItemArmor \<Rightarrow> PacketStream \<Rightarrow> (bool \<times> ItemArmor \<times> PacketStream) result" where
  "itemArmorUnserializeSPacket self stream =
     rbind (propertyFloatUnserializeSPacket ITEM_ARMOR_PROPERTY_ID_DEF (armor_def self) stream) (\<lambda>(ok, value, stream).
     let self = self \<lparr> armor_def := value \<rparr> in
     if \<not> ok then Inr (False, self, stream) else
     rbind (propertyFloatUnserializeSPacket ITEM_ARMOR_PROPERTY_ID_COOLDOWN (armor_cooldown self) stream) (\<lambda>(ok, value, stream).
     let self = self \<lparr> armor_cooldown := value \<rparr> in
     if \<not> ok then Inr (False, self, stream) else
     rbind (propertyFloatUnserializeSPacket ITEM_ARMOR_PROPERTY_ID_REINFORCE (armor_reinforce self) stream) (\<lambda>(ok, value, stream).
     let self = self \<lparr> armor_reinforce := value \<rparr> in
     if \<not> ok then Inr (False, self, stream) else
     rbind (propertyStringUnserializeSPacket ITEM_ARMOR_PROPERTY_ID_MEMO (armor_memo self) stream) (\<lambda>(ok, value, stream).
     let self = self \<lparr> armor_memo := value \<rparr> in
     if \<not> ok then Inr (False, self, stream) else
     rbind (propertyStringUnserializeSPacket ITEM_ARMOR_PROPERTY_ID_CUSTOM_NAME (armor_customName self) stream) (\<lambda>(ok, value, stream).
     let self = self \<lparr> armor_customName := value \<rparr> in
     if \<not> ok then Inr (False, self, stream) else
     rbind (propertyStringUnserializeSPacket ITEM_ARMOR_PROPERTY_ID_MAKER (armor_maker self) stream) (\<lambda>(ok, value, stream).
     let self = self \<lparr> armor_maker := value \<rparr> in
     if \<not> ok then Inr (False, self, stream) else
     Inr (True, self, stream)))))))"

definition itemArmorEnc :: "ItemArmor \<Rightarrow> bytes" where
  "itemArmorEnc self =
     propFloatEnc ITEM_ARMOR_PROPERTY_ID_DEF (armor_def self) @
     propFloatEnc ITEM_ARMOR_PROPERTY_ID_COOLDOWN (armor_cooldown self) @
     propFloatEnc ITEM_ARMOR_PROPERTY_ID_REINFORCE (armor_reinforce self) @
     propStringEnc ITEM_ARMOR_PROPERTY_ID_MEMO (armor_memo self) @
     propStringEnc ITEM_ARMOR_PROPERTY_ID_CUSTOM_NAME (armor_customName self) @
     propStringEnc ITEM_ARMOR_PROPERTY_ID_MAKER (armor_maker self)"

interpretation armor_ser: ps_serializer
  itemArmorSerializeSPacket itemArmorEnc itemArmorGetSPacketSize
proof
  show "ps_wf s \<Longrightarrow> length (itemArmorEnc x) \<le> ps_room s \<Longrightarrow>
        ps_appends s (itemArmorEnc x) (itemArmorSerializeSPacket x s)" for s x
    unfolding itemArmorEnc_def itemArmorSerializeSPacket_def Let_def
    by ((rule ps_appends_comp, rule prop_appends, assumption, simp, simp)+, rule prop_appends; simp)
qed (simp add: itemArmorEnc_def itemArmorGetSPacketSize_def)

lemma itemArmorSerializeCPacket_appends:
  "ps_wf s \<Longrightarrow> length (itemArmorEnc x) \<le> ps_room s \<Longrightarrow>
   ps_appends s (itemArmorEnc x) (itemArmorSerializeCPacket x s)"
  unfolding itemArmorEnc_def itemArmorSerializeCPacket_def Let_def
  by ((rule ps_appends_comp, rule cprop_appends, assumption, simp, simp)+, rule cprop_appends; simp)

lemma itemArmorCPacketSize: "itemArmorGetCPacketSize x = length (itemArmorEnc x)"
  by (simp add: itemArmorEnc_def itemArmorGetCPacketSize_def)

definition itemArmorTailOk :: "bytes \<Rightarrow> bool" where
  "itemArmorTailOk m \<longleftrightarrow> notTagged 3792 m \<and> notTagged 3843 m \<and> notTagged 3852 m \<and> notTagged 3972 m \<and> notTagged 3975 m \<and> notTagged 3978 m"

lemma succeeds_itemArmor:
  assumes "ps_next s (itemArmorEnc x @ cs) tail" and "itemArmorTailOk (cs @ tail)" and "strOk (armor_memo x)" and "strOk (armor_customName x)" and "strOk (armor_maker x)"
    and "\<And>t. ps_next t cs tail \<Longrightarrow> P (True, x, t)"
  shows "succeeds (itemArmorUnserializeSPacket (x \<lparr> armor_def := None, armor_cooldown := None, armor_reinforce := None, armor_memo := None, armor_customName := None, armor_maker := None \<rparr>) s) P"
  using assms unfolding itemArmorUnserializeSPacket_def itemArmorEnc_def itemArmorTailOk_def append_assoc
  by (force intro!: succeeds_property simp: notTagged_enc)

lemma itemArmorInit_blank:
  "(itemArmorInit it d) \<lparr> armor_equipable := armor_equipable x \<rparr> = x \<lparr> armor_def := None, armor_cooldown := None, armor_reinforce := None, armor_memo := None, armor_customName := None, armor_maker := None \<rparr>"
  "armor_equipable (itemArmorInit it d) = itemEquipableInit it d"
  by (cases x; simp add: itemArmorInit_def)+

section \<open>\<^verbatim>\<open>src/common/actor/item/equipable/accessory/item_accessory.c\<close>\<close>

record ItemAccessory =
  accessory_equipable :: ItemEquipable
  accessory_pr :: float_ptr
  accessory_cooldown :: float_ptr

abbreviation (input) ITEM_ACCESSORY_PROPERTY_ID_PR :: PropertyId where "ITEM_ACCESSORY_PROPERTY_ID_PR \<equiv> 3781"
abbreviation (input) ITEM_ACCESSORY_PROPERTY_ID_COOLDOWN :: PropertyId where "ITEM_ACCESSORY_PROPERTY_ID_COOLDOWN \<equiv> 3843"
abbreviation (input) sizeof_ItemAccessorySPacket :: nat where "sizeof_ItemAccessorySPacket \<equiv> 0"

definition itemAccessoryInit :: "Item \<Rightarrow> ItemEquipData option \<Rightarrow> ItemAccessory" where
  "itemAccessoryInit item data = \<lparr> accessory_equipable = itemEquipableInit item data, accessory_pr = None, accessory_cooldown = None \<rparr>"

definition itemAccessoryGetCPacketSize :: "ItemAccessory \<Rightarrow> nat" where
  "itemAccessoryGetCPacketSize self =
     propertyFloatGetCPacketSize (accessory_pr self) +
     propertyFloatGetCPacketSize (accessory_cooldown self)"

definition itemAccessoryGetSPacketSize :: "ItemAccessory \<Rightarrow> nat" where
  "itemAccessoryGetSPacketSize self =
     sizeof_ItemAccessorySPacket +
     propertyFloatGetSPacketSize (accessory_pr self) +
     propertyFloatGetSPacketSize (accessory_cooldown self)"

definition itemAccessorySerializeCPacket :: "ItemAccessory \<Rightarrow> PacketStream \<Rightarrow> PacketStream" where
  "itemAccessorySerializeCPacket self stream =
     (let stream = propertyFloatSerializeCPacket ITEM_ACCESSORY_PROPERTY_ID_PR (accessory_pr self) stream in
      propertyFloatSerializeCPacket ITEM_ACCESSORY_PROPERTY_ID_COOLDOWN (accessory_cooldown self) stream)"

definition itemAccessorySerializeSPacket :: "ItemAccessory \<Rightarrow> PacketStream \<Rightarrow> PacketStream" where
  "itemAccessorySerializeSPacket self stream =
     (let stream = propertyFloatSerializeSPacket ITEM_ACCESSORY_PROPERTY_ID_PR (accessory_pr self) stream in
      propertyFloatSerializeSPacket ITEM_ACCESSORY_PROPERTY_ID_COOLDOWN (accessory_cooldown self) stream)"

definition itemAccessoryUnserializeSPacket ::
    "ItemAccessory \<Rightarrow> PacketStream \<Rightarrow> (bool \<times> ItemAccessory \<times> PacketStream) result" where
  "itemAccessoryUnserializeSPacket self stream =
     rbind (propertyFloatUnserializeSPacket ITEM_ACCESSORY_PROPERTY_ID_PR (accessory_cooldown self) stream) (\<lambda>(ok, value, stream).
     let self = self \<lparr> accessory_cooldown := value \<rparr> in
     if \<not> ok then Inr (False, self, stream) else
     rbind (propertyFloatUnserializeSPacket ITEM_ACCESSORY_PROPERTY_ID_COOLDOWN (accessory_cooldown self) stream) (\<lambda>(ok, value, stream).
     let self = self \<lparr> accessory_cooldown := value \<rparr> in
     if \<not> ok then Inr (False, self, stream) else
     Inr (True, self, stream)))"

definition itemAccessoryEnc :: "ItemAccessory \<Rightarrow> bytes" where
  "itemAccessoryEnc self =
     propFloatEnc ITEM_ACCESSORY_PROPERTY_ID_PR (accessory_pr self) @
     propFloatEnc ITEM_ACCESSORY_PROPERTY_ID_COOLDOWN (accessory_cooldown self)"

interpretation accessory_ser: ps_serializer
  itemAccessorySerializeSPacket itemAccessoryEnc itemAccessoryGetSPacketSize
proof
  show "ps_wf s \<Longrightarrow> length (itemAccessoryEnc x) \<le> ps_room s \<Longrightarrow>
        ps_appends s (itemAccessoryEnc x) (itemAccessorySerializeSPacket x s)" for s x
    unfolding itemAccessoryEnc_def itemAccessorySerializeSPacket_def Let_def
    by ((rule ps_appends_comp, rule prop_appends, assumption, simp, simp)+, rule prop_appends; simp)
qed (simp add: itemAccessoryEnc_def itemAccessoryGetSPacketSize_def)

lemma itemAccessorySerializeCPacket_appends:
  "ps_wf s \<Longrightarrow> length (itemAccessoryEnc x) \<le> ps_room s \<Longrightarrow>
   ps_appends s (itemAccessoryEnc x) (itemAccessorySerializeCPacket x s)"
  unfolding itemAccessoryEnc_def itemAccessorySerializeCPacket_def Let_def
  by ((rule ps_appends_comp, rule cprop_appends, assumption, simp, simp)+, rule cprop_appends; simp)

lemma itemAccessoryCPacketSize: "itemAccessoryGetCPacketSize x = length (itemAccessoryEnc x)"
  by (simp add: itemAccessoryEnc_def itemAccessoryGetCPacketSize_def)

definition itemAccessoryTailOk :: "bytes \<Rightarrow> bool" where
  "itemAccessoryTailOk m \<longleftrightarrow> notTagged 3781 m \<and> notTagged 3843 m"

lemma succeeds_itemAccessory:
  assumes "ps_next s (itemAccessoryEnc x @ cs) tail" and "itemAccessoryTailOk (cs @ tail)"
    and "\<And>t. ps_next t cs tail \<Longrightarrow>
      P (True, x \<lparr> accessory_pr := None, accessory_cooldown := ptrMerge (accessory_pr x) (accessory_cooldown x) \<rparr>, t)"
  shows "succeeds (itemAccessoryUnserializeSPacket (x \<lparr> accessory_pr := None, accessory_cooldown := None \<rparr>) s) P"
  using assms unfolding itemAccessoryUnserializeSPacket_def itemAccessoryEnc_def itemAccessoryTailOk_def append_assoc
  by (force intro!: succeeds_property simp: notTagged_enc)

lemma itemAccessoryInit_blank:
  "(itemAccessoryInit it d) \<lparr> accessory_equipable := accessory_equipable x \<rparr> = x \<lparr> accessory_pr := None, accessory_cooldown := None \<rparr>"
  "accessory_equipable (itemAccessoryInit it d) = itemEquipableInit it d"
  by (cases x; simp add: itemAccessoryInit_def)+

end
