(* ===== verification/Zhash.thy ===== *)
theory Zhash
  imports Main
begin

text \<open>
  The servers keep their tables in \<open>zhash_t\<close> of the CZMQ library, whose code is not part of the
  repository (its header is \<open>src/include/zmq/zhash.h\<close>). Every definition that uses a table takes the
  operations as an argument; the locale \<open>zhash\<close> states what the header documents: \<open>zhash_insert\<close>
  fails with -1 (\<open>None\<close>) when the key is present and inserts otherwise, \<open>zhash_update\<close> replaces,
  \<open>zhash_delete\<close> removes the key if it is there, \<open>zhash_size\<close> counts
  the keys, \<open>zhash_purge\<close> removes them all.
\<close>

record ('h, 'v) zhash_ops =
  zhash_new :: 'h
  zhash_insert :: "'h \<Rightarrow> string \<Rightarrow> 'v \<Rightarrow> 'h option"
  zhash_update :: "'h \<Rightarrow> string \<Rightarrow> 'v \<Rightarrow> 'h"
  zhash_lookup :: "'h \<Rightarrow> string \<Rightarrow> 'v option"
  zhash_delete :: "'h \<Rightarrow> string \<Rightarrow> 'h"
  zhash_size :: "'h \<Rightarrow> nat"
  zhash_purge :: "'h \<Rightarrow> 'h"

locale zhash =
  fixes Z :: "('h, 'v) zhash_ops"
  assumes zh_new: "zhash_lookup Z (zhash_new Z) = Map.empty"
    and zh_insert_dup: "zhash_lookup Z h k = Some v \<Longrightarrow> zhash_insert Z h k w = None"
    and zh_insert: "zhash_lookup Z h k = None \<Longrightarrow>
          \<exists>h'. zhash_insert Z h k w = Some h' \<and> zhash_lookup Z h' = (zhash_lookup Z h)(k \<mapsto> w)"
    and zh_update: "zhash_lookup Z (zhash_update Z h k w) = (zhash_lookup Z h)(k \<mapsto> w)"
    and zh_delete: "zhash_lookup Z (zhash_delete Z h k) = (zhash_lookup Z h)(k := None)"
    and zh_size: "zhash_size Z h = card (dom (zhash_lookup Z h))"
    and zh_purge: "zhash_lookup Z (zhash_purge Z h) = Map.empty"
    and zh_finite: "finite (dom (zhash_lookup Z h))"
begin

lemma zh_insert_Some_iff:
  "zhash_insert Z h k w = Some h' \<Longrightarrow>
   zhash_lookup Z h k = None \<and> zhash_lookup Z h' = (zhash_lookup Z h)(k \<mapsto> w)"
  using zh_insert [of h k w] zh_insert_dup [of h k] by (cases "zhash_lookup Z h k") auto

lemma zh_insert_None_iff: "zhash_insert Z h k w = None \<longleftrightarrow> zhash_lookup Z h k \<noteq> None"
  using zh_insert [of h k w] zh_insert_dup [of h k] by (cases "zhash_lookup Z h k") auto

lemma zh_size_new: "zhash_size Z (zhash_new Z) = 0"
  by (simp add: zh_size zh_new)

lemma zh_size_insert: "zhash_insert Z h k w = Some h' \<Longrightarrow> zhash_size Z h' = Suc (zhash_size Z h)"
  by (drule zh_insert_Some_iff) (simp add: zh_size zh_finite card_insert_if domIff)

lemma zh_size_delete:
  assumes "zhash_lookup Z h k = Some v"
  shows "Suc (zhash_size Z (zhash_delete Z h k)) = zhash_size Z h"
proof -
  have "k \<in> dom (zhash_lookup Z h)"
    using assms by auto
  then show ?thesis
    using card_Suc_Diff1 [OF zh_finite] by (simp add: zh_size zh_delete)
qed

end

text \<open>An association list satisfies the interface: the hypothesis \<open>zhash Z\<close> of the theorems can hold.\<close>

definition al_ops :: "((string \<times> 'v) list, 'v) zhash_ops" where
  "al_ops = \<lparr>
     zhash_new = [],
     zhash_insert = (\<lambda>h k v. if map_of h k = None then Some ((k, v) # h) else None),
     zhash_update = (\<lambda>h k v. (k, v) # h),
     zhash_lookup = map_of,
     zhash_delete = (\<lambda>h k. filter (\<lambda>(k', _). k' \<noteq> k) h),
     zhash_size = (\<lambda>h. length (remdups (map fst h))),
     zhash_purge = (\<lambda>_. []) \<rparr>"

lemma al_ops_simps [simp]:
  "zhash_new al_ops = []"
  "zhash_insert al_ops h k v = (if map_of h k = None then Some ((k, v) # h) else None)"
  "zhash_update al_ops h k v = (k, v) # h"
  "zhash_lookup al_ops = map_of"
  "zhash_delete al_ops h k = filter (\<lambda>(k', _). k' \<noteq> k) h"
  "zhash_size al_ops h = length (remdups (map fst h))"
  "zhash_purge al_ops h = []"
  by (simp_all add: al_ops_def)

lemma map_of_filter_key: "map_of (filter (\<lambda>(k', _). k' \<noteq> k) h) = (map_of h)(k := None)"
  by (induction h) (auto simp: fun_eq_iff)

interpretation al: zhash al_ops
  by unfold_locales
    (auto simp: map_of_filter_key dom_map_of_conv_image_fst length_remdups_card_conv finite_dom_map_of)

end
