(* ===== verification/StaticData.thy ===== *)
theory StaticData
  imports Prelude CFormat Zhash
begin

text \<open>
  \<open>src/common/static_data/static_data.c\<close>: a write-once catalogue. Objects are added under a numeric
  identifier until the catalogue is locked; it can only be queried once it is locked. The key is
  printed into a buffer of \<open>sizeof (StaticDataId) + 1\<close> = 9 bytes although \<open>snprintf\<close> is told 17, so
  an identifier of more than eight hexadecimal digits is a write outside the buffer.
\<close>

record 'h StaticData =
  sd_name :: string
  sd_hashtable :: 'h
  sd_locked :: bool

definition staticDataInit :: "('h, 'v) zhash_ops \<Rightarrow> string \<Rightarrow> 'h StaticData" where
  "staticDataInit Z name = \<lparr> sd_name = name, sd_hashtable = zhash_new Z, sd_locked = False \<rparr>"

definition staticDataLock :: "'h StaticData \<Rightarrow> 'h StaticData" where
  "staticDataLock self = self \<lparr> sd_locked := True \<rparr>"

definition staticDataGenKey :: "u64 \<Rightarrow> string result" where
  "staticDataGenKey sid =
     (let key = c_snprintf (8 * 2 + 1) (fmtHex (unat sid)) in
      if length key + 1 > 8 + 1 then Inl OutOfBounds else Inr key)"

definition staticDataAdd ::
    "('h, 'v) zhash_ops \<Rightarrow> 'h StaticData \<Rightarrow> u64 \<Rightarrow> 'v \<Rightarrow> (bool \<times> 'h StaticData) result" where
  "staticDataAdd Z self sid object =
     (if sd_locked self then Inr (False, self)
      else rbind (staticDataGenKey sid) (\<lambda>key.
        case zhash_insert Z (sd_hashtable self) key object of
          None \<Rightarrow> Inr (False, self)
        | Some table \<Rightarrow> Inr (True, self \<lparr> sd_hashtable := table \<rparr>)))"

text \<open>\<open>None\<close> stands for the return value \<open>false\<close>, which leaves the output pointer unchanged.\<close>

definition staticDataGet ::
    "('h, 'v) zhash_ops \<Rightarrow> 'h StaticData \<Rightarrow> u64 \<Rightarrow> 'v option result" where
  "staticDataGet Z self sid =
     (if \<not> sd_locked self then Inr None
      else rbind (staticDataGenKey sid) (\<lambda>key. Inr (zhash_lookup Z (sd_hashtable self) key)))"

text \<open>The loading loop of \<open>mySqlBuildItemCommonDataDb\<close> and \<open>mySqlBuildItemEquipDataDb\<close>: one object per
  row of the query, under its \<open>ClassID\<close> (an \<open>int\<close>, sign-extended); the first failure abandons the table.\<close>

fun staticDataLoad ::
    "('h, 'v) zhash_ops \<Rightarrow> ('v \<Rightarrow> int) \<Rightarrow> 'v list \<Rightarrow> 'h StaticData \<Rightarrow> 'h StaticData option result" where
  "staticDataLoad Z classId [] db = Inr (Some db)"
| "staticDataLoad Z classId (row # rows) db =
     rbind (staticDataAdd Z db (of_int (classId row)) row) (\<lambda>(ok, db).
       if ok then staticDataLoad Z classId rows db else Inr None)"

definition sd_find :: "('h, 'v) zhash_ops \<Rightarrow> 'h StaticData \<Rightarrow> u64 \<Rightarrow> 'v option" where
  "sd_find Z self sid = zhash_lookup Z (sd_hashtable self) (hexKey64 sid)"

lemma staticDataGenKey_small:
  assumes "sid < 2 ^ 32"
  shows "staticDataGenKey sid = Inr (hexKey64 sid)"
proof -
  have "unat sid < 2 ^ 32"
    using assms by (simp add: word_less_nat_alt)
  then have "length (fmtHex (unat sid)) \<le> 8"
    using length_fmtHex [of "unat sid" 7] by simp
  then show ?thesis
    by (simp add: staticDataGenKey_def hexKey64_def c_snprintf_def Let_def)
qed

context zhash
begin

lemma staticDataAdd_fresh:
  assumes "\<not> sd_locked db" "sid < 2 ^ 32" "sd_find Z db sid = None"
  obtains db' where "staticDataAdd Z db sid v = Inr (True, db')" "\<not> sd_locked db'"
    "sd_find Z db' = (sd_find Z db)(sid \<mapsto> v)"
proof -
  from zh_insert [of "sd_hashtable db" "hexKey64 sid" v] assms(3)
  obtain h where h: "zhash_insert Z (sd_hashtable db) (hexKey64 sid) v = Some h"
    "zhash_lookup Z h = (zhash_lookup Z (sd_hashtable db))(hexKey64 sid \<mapsto> v)"
    by (auto simp: sd_find_def)
  then show thesis
    using assms by (intro that [of "db \<lparr> sd_hashtable := h \<rparr>"])
      (auto simp: staticDataAdd_def staticDataGenKey_small sd_find_def fun_eq_iff)
qed

lemma staticDataAdd_duplicate:
  assumes "\<not> sd_locked db" "sid < 2 ^ 32" "sd_find Z db sid = Some w"
  shows "staticDataAdd Z db sid v = Inr (False, db)"
  using assms zh_insert_dup [of "sd_hashtable db" "hexKey64 sid" w v]
  by (simp add: staticDataAdd_def staticDataGenKey_small sd_find_def)

lemma staticDataLoad_find:
  assumes "\<not> sd_locked db" "distinct (map classId rows)"
    and "\<forall>r \<in> set rows. 0 \<le> classId r \<and> classId r < 2 ^ 31"
    and "\<forall>r \<in> set rows. sd_find Z db (of_int (classId r)) = None"
  shows "\<exists>db'. staticDataLoad Z classId rows db = Inr (Some db') \<and> \<not> sd_locked db' \<and>
    sd_find Z db' = (\<lambda>k. case find (\<lambda>r. of_int (classId r) = k) rows of
       None \<Rightarrow> sd_find Z db k | Some r \<Rightarrow> Some r)"
  using assms
proof (induction rows arbitrary: db)
  case (Cons r rows)
  have small: "(of_int (classId r) :: u64) < 2 ^ 32"
  proof -
    have "0 \<le> classId r" "classId r < 2 ^ 31"
      using Cons.prems(3) by auto
    then show ?thesis
      by (simp add: word_less_nat_alt unsigned_of_int take_bit_int_eq_self)
  qed
  obtain db1 where db1: "staticDataAdd Z db (of_int (classId r)) r = Inr (True, db1)"
    "\<not> sd_locked db1" "sd_find Z db1 = (sd_find Z db)(of_int (classId r) \<mapsto> r)"
    using staticDataAdd_fresh [OF Cons.prems(1) small, of r] Cons.prems(4) by auto
  have ne: "(of_int (classId q) :: u64) \<noteq> of_int (classId r)" if "q \<in> set rows" for q
  proof -
    have "classId q \<noteq> classId r"
      using that Cons.prems(2) by (auto intro: rev_image_eqI)
    moreover have "0 \<le> classId q" "classId q < 2 ^ 31" "0 \<le> classId r" "classId r < 2 ^ 31"
      using that Cons.prems(3) by auto
    ultimately show ?thesis
      by (simp add: word_of_int_eq_iff take_bit_int_eq_self)
  qed
  have "\<exists>db'. staticDataLoad Z classId rows db1 = Inr (Some db') \<and> \<not> sd_locked db' \<and>
    sd_find Z db' = (\<lambda>k. case find (\<lambda>r. of_int (classId r) = k) rows of
       None \<Rightarrow> sd_find Z db1 k | Some r \<Rightarrow> Some r)"
    using Cons.prems ne db1 by (intro Cons.IH) auto
  moreover have "find (\<lambda>q. of_int (classId q) = (of_int (classId r) :: u64)) rows = None"
    using ne by (auto simp: find_None_iff)
  ultimately show ?case
    using db1 by (auto simp: fun_eq_iff split: option.split)
qed auto

end

text \<open>A catalogue loaded from rows with distinct non-negative identifiers and then locked answers
  every query with the row of that identifier, and with failure when there is none; a locked
  catalogue refuses every later addition and stays as it is.\<close>

theorem staticData_load_lock_get:
  assumes "zhash Z" "distinct (map classId rows)"
    and "\<forall>r \<in> set rows. 0 \<le> classId r \<and> classId r < 2 ^ 31"
  shows "\<exists>db. staticDataLoad Z classId rows (staticDataInit Z name) = Inr (Some db)
    \<and> (\<forall>sid < 2 ^ 32. staticDataGet Z (staticDataLock db) sid
          = Inr (find (\<lambda>r. of_int (classId r) = sid) rows))
    \<and> (\<forall>sid v. staticDataAdd Z (staticDataLock db) sid v = Inr (False, staticDataLock db))
    \<and> (\<forall>sid. staticDataGet Z db sid = Inr None)"
proof -
  have init: "\<not> sd_locked (staticDataInit Z name)" "\<forall>k. sd_find Z (staticDataInit Z name) k = None"
    by (simp_all add: staticDataInit_def sd_find_def zhash.zh_new [OF assms(1)])
  with zhash.staticDataLoad_find [OF assms(1), of "staticDataInit Z name" classId rows] assms(2,3)
  obtain db where db: "staticDataLoad Z classId rows (staticDataInit Z name) = Inr (Some db)"
    "\<not> sd_locked db"
    and "sd_find Z db = (\<lambda>k. case find (\<lambda>r. of_int (classId r) = k) rows of
       None \<Rightarrow> sd_find Z (staticDataInit Z name) k | Some r \<Rightarrow> Some r)"
    by blast
  then have find: "sd_find Z db = (\<lambda>k. find (\<lambda>r. of_int (classId r) = k) rows)"
    using init by (auto simp: fun_eq_iff split: option.split)
  show ?thesis
  proof (intro exI conjI allI impI)
    fix sid :: u64
    assume "sid < 2 ^ 32"
    then show "staticDataGet Z (staticDataLock db) sid = Inr (List.find (\<lambda>r. of_int (classId r) = sid) rows)"
      using fun_cong [OF find, of sid]
      by (simp add: staticDataGet_def staticDataLock_def staticDataGenKey_small sd_find_def)
  qed (use db in \<open>auto simp: staticDataAdd_def staticDataLock_def staticDataGet_def\<close>)
qed

theorem staticData_load_lock_get_witness:
  "\<exists>db. staticDataLoad al_ops fst [(7 :: int, ''a''), (3, ''b'')] (staticDataInit al_ops ''items'') = Inr (Some db)
    \<and> (\<forall>sid < 2 ^ 32. staticDataGet al_ops (staticDataLock db) sid
          = Inr (find (\<lambda>r. of_int (fst r) = sid) [(7, ''a''), (3, ''b'')]))
    \<and> (\<forall>sid v. staticDataAdd al_ops (staticDataLock db) sid v = Inr (False, staticDataLock db))
    \<and> (\<forall>sid. staticDataGet al_ops db sid = Inr None)"
  by (rule staticData_load_lock_get) (simp_all add: al.zhash_axioms)

text \<open>A catalogue identifier that needs more than 32 bits, which every negative \<open>ClassID\<close> does,
  makes the key generator write outside its buffer.\<close>

theorem staticDataAdd_overflow:
  assumes "\<not> sd_locked db" "2 ^ 32 \<le> sid"
  shows "staticDataAdd Z db sid v = Inl OutOfBounds"
proof -
  have "length (fmtHex (unat sid)) > 8"
  proof (rule ccontr)
    assume "\<not> length (fmtHex (unat sid)) > 8"
    then have "unat sid < 16 ^ 8"
      using fmtHex_less [of "unat sid"] power_increasing [of "length (fmtHex (unat sid))" 8 "16::nat"]
      by linarith
    then show False
      using assms(2) by (simp add: word_le_nat_alt)
  qed
  then show ?thesis
    using assms(1) by (simp add: staticDataAdd_def staticDataGenKey_def c_snprintf_def Let_def)
qed

theorem staticDataAdd_overflow_witness:
  "staticDataAdd al_ops (staticDataInit al_ops ''items'') (of_int (-1)) ''x'' = Inl OutOfBounds"
  by (rule staticDataAdd_overflow) (simp_all add: staticDataInit_def)

end
