(* ===== verification/ItemObject.thy ===== *)
theory ItemObject
  imports ItemKinds StaticData
begin

text \<open>
  \<open>src/common/actor/item/item.c\<close>: the operations that work on an item of any class. The object behind
  an \<open>Item *\<close> is one of the eleven classes: the constructor of \<open>ItemObject\<close> is what the C code tests
  with \<open>switch (self->category)\<close>. \<open>itemObject_wf\<close> says that the category field agrees with the class;
  \<open>itemNew\<close> establishes it and nothing changes the field afterwards.

  \<open>itemGetSize\<close> leaves the size unset for a byte that names no class, so that \<open>itemNew\<close> allocates a
  block of unknown size: the result \<open>Inl Uninitialised\<close>. Reading an item gets the catalogue rows from
  the item factory, whose catalogues are an argument here.
\<close>

datatype ItemObject =
    ObjConsumable (objConsumable: ItemConsumable)
  | ObjArmor (objArmor: ItemArmor)
  | ObjQuest (objQuest: ItemQuest)
  | ObjBook (objBook: ItemBook)
  | ObjMaterial (objMaterial: ItemMaterial)
  | ObjGem (objGem: ItemGem)
  | ObjWeapon (objWeapon: ItemWeapon)
  | ObjCard (objCard: ItemCard)
  | ObjAccessory (objAccessory: ItemAccessory)
  | ObjSubWeapon (objSubWeapon: ItemSubWeapon)
  | ObjCurrency (objCurrency: ItemCurrency)

definition itemBase :: "ItemObject \<Rightarrow> Item" where
  "itemBase self = (case self of
       ObjConsumable x \<Rightarrow> consumable_item x
     | ObjArmor x \<Rightarrow> equipable_item (armor_equipable x)
     | ObjQuest x \<Rightarrow> quest_item x
     | ObjBook x \<Rightarrow> book_item x
     | ObjMaterial x \<Rightarrow> material_item x
     | ObjGem x \<Rightarrow> gem_item x
     | ObjWeapon x \<Rightarrow> equipable_item (weapon_equipable x)
     | ObjCard x \<Rightarrow> card_item x
     | ObjAccessory x \<Rightarrow> equipable_item (accessory_equipable x)
     | ObjSubWeapon x \<Rightarrow> equipable_item (subweapon_equipable x)
     | ObjCurrency x \<Rightarrow> currency_item x)"

text \<open>The downcast \<open>(ItemEquipable *)\<close>, defined on the four equipable classes.\<close>

definition itemEquipable :: "ItemObject \<Rightarrow> ItemEquipable option" where
  "itemEquipable self = (case self of
       ObjArmor x \<Rightarrow> Some (armor_equipable x)
     | ObjWeapon x \<Rightarrow> Some (weapon_equipable x)
     | ObjAccessory x \<Rightarrow> Some (accessory_equipable x)
     | ObjSubWeapon x \<Rightarrow> Some (subweapon_equipable x)
     | _ \<Rightarrow> None)"

definition itemSetEquipable :: "ItemObject \<Rightarrow> ItemEquipable \<Rightarrow> ItemObject" where
  "itemSetEquipable self e = (case self of
       ObjArmor x \<Rightarrow> ObjArmor (x \<lparr> armor_equipable := e \<rparr>)
     | ObjWeapon x \<Rightarrow> ObjWeapon (x \<lparr> weapon_equipable := e \<rparr>)
     | ObjAccessory x \<Rightarrow> ObjAccessory (x \<lparr> accessory_equipable := e \<rparr>)
     | ObjSubWeapon x \<Rightarrow> ObjSubWeapon (x \<lparr> subweapon_equipable := e \<rparr>)
     | _ \<Rightarrow> self)"

definition itemClass :: "ItemObject \<Rightarrow> byte" where
  "itemClass self = (case self of
       ObjConsumable _ \<Rightarrow> ITEM_CAT_CONSUMABLE
     | ObjArmor _ \<Rightarrow> ITEM_CAT_ARMOR
     | ObjQuest _ \<Rightarrow> ITEM_CAT_QUEST
     | ObjBook _ \<Rightarrow> ITEM_CAT_BOOK
     | ObjMaterial _ \<Rightarrow> ITEM_CAT_MATERIAL
     | ObjGem _ \<Rightarrow> ITEM_CAT_GEM
     | ObjWeapon _ \<Rightarrow> ITEM_CAT_WEAPON
     | ObjCard _ \<Rightarrow> ITEM_CAT_CARD
     | ObjAccessory _ \<Rightarrow> ITEM_CAT_ACCESSORY
     | ObjSubWeapon _ \<Rightarrow> ITEM_CAT_SUBWEAPON
     | ObjCurrency _ \<Rightarrow> ITEM_CAT_CURRENCY)"

definition itemObject_wf :: "ItemObject \<Rightarrow> bool" where
  "itemObject_wf self \<longleftrightarrow> item_category (itemBase self) = itemClass self"

section \<open>Creation\<close>

definition itemGetSize :: "byte \<Rightarrow> bool result" where
  "itemGetSize category =
     (if category \<in> {ITEM_CAT_CONSUMABLE, ITEM_CAT_ARMOR, ITEM_CAT_QUEST, ITEM_CAT_BOOK, ITEM_CAT_MATERIAL,
          ITEM_CAT_GEM, ITEM_CAT_WEAPON, ITEM_CAT_CARD,
          ITEM_CAT_ACCESSORY, ITEM_CAT_SUBWEAPON, ITEM_CAT_CURRENCY}
      then Inr True
      else if category = ITEM_CAT_COUNT then Inr False
      else Inl Uninitialised)"

definition itemInit ::
    "Actor \<Rightarrow> byte \<Rightarrow> u32 \<Rightarrow> u32 \<Rightarrow> ItemCommonData option \<Rightarrow> ItemEquipData option \<Rightarrow> ItemObject option result" where
  "itemInit actor category itemId amount commonData equipData =
     (let itemTmp = \<lparr> item_actor = actor, item_id = itemId, item_amount = amount,
                      item_category = category, item_commonData = commonData \<rparr> in
      if category = ITEM_CAT_CONSUMABLE then Inr (Some (ObjConsumable (itemConsumableInit itemTmp)))
      else if category = ITEM_CAT_ARMOR then Inr (Some (ObjArmor (itemArmorInit itemTmp equipData)))
      else if category = ITEM_CAT_QUEST then Inr (Some (ObjQuest (itemQuestInit itemTmp)))
      else if category = ITEM_CAT_BOOK then Inr (Some (ObjBook (itemBookInit itemTmp)))
      else if category = ITEM_CAT_MATERIAL then Inr (Some (ObjMaterial (itemMaterialInit itemTmp)))
      else if category = ITEM_CAT_GEM then Inr (Some (ObjGem (itemGemInit itemTmp)))
      else if category = ITEM_CAT_WEAPON then Inr (Some (ObjWeapon (itemWeaponInit itemTmp equipData)))
      else if category = ITEM_CAT_CARD then Inr (Some (ObjCard (itemCardInit itemTmp)))
      else if category = ITEM_CAT_ACCESSORY then Inr (Some (ObjAccessory (itemAccessoryInit itemTmp equipData)))
      else if category = ITEM_CAT_SUBWEAPON then Inr (Some (ObjSubWeapon (itemSubWeaponInit itemTmp equipData)))
      else if category = ITEM_CAT_CURRENCY then Inr (Some (ObjCurrency (itemCurrencyInit itemTmp)))
      else if category = ITEM_CAT_COUNT then Inr None
      else Inl Uninitialised)"

definition itemNew ::
    "Actor \<Rightarrow> byte \<Rightarrow> u32 \<Rightarrow> u32 \<Rightarrow> ItemCommonData option \<Rightarrow> ItemEquipData option \<Rightarrow> ItemObject option result" where
  "itemNew actor category itemId amount commonData equipData =
     rbind (itemGetSize category) (\<lambda>ok.
       if ok then itemInit actor category itemId amount commonData equipData else Inr None)"

section \<open>Sizes and serialization\<close>

definition itemGetCPacketSize :: "ItemObject \<Rightarrow> nat" where
  "itemGetCPacketSize self = (case self of
       ObjConsumable x \<Rightarrow> itemConsumableGetCPacketSize x
     | ObjArmor x \<Rightarrow> itemArmorGetCPacketSize x
     | ObjQuest x \<Rightarrow> itemQuestGetCPacketSize x
     | ObjBook x \<Rightarrow> itemBookGetCPacketSize x
     | ObjMaterial x \<Rightarrow> itemMaterialGetCPacketSize x
     | ObjGem x \<Rightarrow> itemGemGetCPacketSize x
     | ObjWeapon x \<Rightarrow> itemWeaponGetCPacketSize x
     | ObjCard x \<Rightarrow> itemCardGetCPacketSize x
     | ObjAccessory x \<Rightarrow> itemAccessoryGetCPacketSize x
     | ObjSubWeapon x \<Rightarrow> itemSubWeaponGetCPacketSize x
     | ObjCurrency x \<Rightarrow> itemCurrencyGetCPacketSize x)"

definition itemSerializeCPacket :: "ItemObject \<Rightarrow> PacketStream \<Rightarrow> PacketStream" where
  "itemSerializeCPacket self stream = (case self of
       ObjConsumable x \<Rightarrow> itemConsumableSerializeCPacket x stream
     | ObjArmor x \<Rightarrow> itemArmorSerializeCPacket x stream
     | ObjQuest x \<Rightarrow> itemQuestSerializeCPacket x stream
     | ObjBook x \<Rightarrow> itemBookSerializeCPacket x stream
     | ObjMaterial x \<Rightarrow> itemMaterialSerializeCPacket x stream
     | ObjGem x \<Rightarrow> itemGemSerializeCPacket x stream
     | ObjWeapon x \<Rightarrow> itemWeaponSerializeCPacket x stream
     | ObjCard x \<Rightarrow> itemCardSerializeCPacket x stream
     | ObjAccessory x \<Rightarrow> itemAccessorySerializeCPacket x stream
     | ObjSubWeapon x \<Rightarrow> itemSubWeaponSerializeCPacket x stream
     | ObjCurrency x \<Rightarrow> itemCurrencySerializeCPacket x stream)"

definition itemGetSPacketSize :: "ItemObject \<Rightarrow> nat" where
  "itemGetSPacketSize self =
     actorGetSPacketSize (item_actor (itemBase self)) + itemChildGetSPacketSize (itemBase self) +
     (case self of
       ObjConsumable x \<Rightarrow> itemConsumableGetSPacketSize x
     | ObjArmor x \<Rightarrow> itemEquipableGetSPacketSize (armor_equipable x) + itemArmorGetSPacketSize x
     | ObjQuest x \<Rightarrow> itemQuestGetSPacketSize x
     | ObjBook x \<Rightarrow> itemBookGetSPacketSize x
     | ObjMaterial x \<Rightarrow> itemMaterialGetSPacketSize x
     | ObjGem x \<Rightarrow> itemGemGetSPacketSize x
     | ObjWeapon x \<Rightarrow> itemEquipableGetSPacketSize (weapon_equipable x) + itemWeaponGetSPacketSize x
     | ObjCard x \<Rightarrow> itemCardGetSPacketSize x
     | ObjAccessory x \<Rightarrow> itemEquipableGetSPacketSize (accessory_equipable x) + itemAccessoryGetSPacketSize x
     | ObjSubWeapon x \<Rightarrow> itemEquipableGetSPacketSize (subweapon_equipable x) + itemSubWeaponGetSPacketSize x
     | ObjCurrency x \<Rightarrow> itemCurrencyGetSPacketSize x)"

definition itemSerializeSPacket :: "ItemObject \<Rightarrow> PacketStream \<Rightarrow> PacketStream" where
  "itemSerializeSPacket self stream =
     (let stream = actorSerializeSPacket (item_actor (itemBase self)) stream;
          stream = itemChildSerializeSPacket (itemBase self) stream
      in case self of
       ObjConsumable x \<Rightarrow> itemConsumableSerializeSPacket x stream
     | ObjArmor x \<Rightarrow> itemArmorSerializeSPacket x
           (itemEquipableSerializeSPacket (armor_equipable x) stream)
     | ObjQuest x \<Rightarrow> itemQuestSerializeSPacket x stream
     | ObjBook x \<Rightarrow> itemBookSerializeSPacket x stream
     | ObjMaterial x \<Rightarrow> itemMaterialSerializeSPacket x stream
     | ObjGem x \<Rightarrow> itemGemSerializeSPacket x stream
     | ObjWeapon x \<Rightarrow> itemWeaponSerializeSPacket x
           (itemEquipableSerializeSPacket (weapon_equipable x) stream)
     | ObjCard x \<Rightarrow> itemCardSerializeSPacket x stream
     | ObjAccessory x \<Rightarrow> itemAccessorySerializeSPacket x
           (itemEquipableSerializeSPacket (accessory_equipable x) stream)
     | ObjSubWeapon x \<Rightarrow> itemSubWeaponSerializeSPacket x
           (itemEquipableSerializeSPacket (subweapon_equipable x) stream)
     | ObjCurrency x \<Rightarrow> itemCurrencySerializeSPacket x stream)"

section \<open>Reading\<close>

text \<open>
  The class-specific part of \<open>itemUnserializeSPacket\<close>. The status of the class reader is computed and
  then overwritten with \<open>true\<close> after the switch, so that it does not influence the result.
\<close>

definition itemUnserializeClass ::
    "ItemEquipData option \<Rightarrow> ItemObject \<Rightarrow> PacketStream \<Rightarrow> (bool \<times> ItemObject \<times> PacketStream) result" where
  "itemUnserializeClass equipData self stream = (case self of
       ObjConsumable x \<Rightarrow>
         rbind (itemConsumableUnserializeSPacket x stream) (\<lambda>(status, x, stream). Inr (status, ObjConsumable x, stream))
     | ObjArmor x \<Rightarrow>
         let (ok, e, stream) = itemEquipableUnserializeSPacket (armor_equipable x) stream;
             x = x \<lparr> armor_equipable := e \<rparr> in
         rbind (if ok then itemArmorUnserializeSPacket x stream else Inr (False, x, stream))
           (\<lambda>(status, x, stream). Inr (status,
             ObjArmor (x \<lparr> armor_equipable := itemEquipableSetEquipData (armor_equipable x) equipData \<rparr>), stream))
     | ObjQuest x \<Rightarrow>
         rbind (itemQuestUnserializeSPacket x stream) (\<lambda>(status, x, stream). Inr (status, ObjQuest x, stream))
     | ObjBook x \<Rightarrow>
         rbind (itemBookUnserializeSPacket x stream) (\<lambda>(status, x, stream). Inr (status, ObjBook x, stream))
     | ObjMaterial x \<Rightarrow>
         rbind (itemMaterialUnserializeSPacket x stream) (\<lambda>(status, x, stream). Inr (status, ObjMaterial x, stream))
     | ObjGem x \<Rightarrow>
         rbind (itemGemUnserializeSPacket x stream) (\<lambda>(status, x, stream). Inr (status, ObjGem x, stream))
     | ObjWeapon x \<Rightarrow>
         let (ok, e, stream) = itemEquipableUnserializeSPacket (weapon_equipable x) stream;
             x = x \<lparr> weapon_equipable := e \<rparr> in
         rbind (if ok then itemWeaponUnserializeSPacket x stream else Inr (False, x, stream))
           (\<lambda>(status, x, stream). Inr (status,
             ObjWeapon (x \<lparr> weapon_equipable := itemEquipableSetEquipData (weapon_equipable x) equipData \<rparr>), stream))
     | ObjCard x \<Rightarrow>
         rbind (itemCardUnserializeSPacket x stream) (\<lambda>(status, x, stream). Inr (status, ObjCard x, stream))
     | ObjAccessory x \<Rightarrow>
         let (ok, e, stream) = itemEquipableUnserializeSPacket (accessory_equipable x) stream;
             x = x \<lparr> accessory_equipable := e \<rparr> in
         rbind (if ok then itemAccessoryUnserializeSPacket x stream else Inr (False, x, stream))
           (\<lambda>(status, x, stream). Inr (status,
             ObjAccessory (x \<lparr> accessory_equipable := itemEquipableSetEquipData (accessory_equipable x) equipData \<rparr>), stream))
     | ObjSubWeapon x \<Rightarrow>
         let (ok, e, stream) = itemEquipableUnserializeSPacket (subweapon_equipable x) stream;
             x = x \<lparr> subweapon_equipable := e \<rparr> in
         rbind (if ok then itemSubWeaponUnserializeSPacket x stream else Inr (False, x, stream))
           (\<lambda>(status, x, stream). Inr (status,
             ObjSubWeapon (x \<lparr> subweapon_equipable := itemEquipableSetEquipData (subweapon_equipable x) equipData \<rparr>), stream))
     | ObjCurrency x \<Rightarrow>
         rbind (itemCurrencyUnserializeSPacket x stream) (\<lambda>(status, x, stream). Inr (status, ObjCurrency x, stream)))"

type_synonym StaticLookup = "u32 \<Rightarrow> (ItemCommonData option \<times> ItemEquipData option) result"

text \<open>\<open>None\<close> is the return value \<open>false\<close>. When \<open>itemNew\<close> refuses the category, the cleanup code prints
  the fields of the item that was not created.\<close>

definition itemUnserializeSPacket ::
    "StaticLookup \<Rightarrow> PacketStream \<Rightarrow> (ItemObject option \<times> PacketStream) result" where
  "itemUnserializeSPacket getStaticData stream =
     (let (ok, actorTmp, stream) = actorUnserializeSPacket stream in
      if \<not> ok then Inr (None, stream) else
      let (ok, (fId, fAmount, fCategory), stream) = itemChildUnserializeSPacket stream in
      if \<not> ok then Inr (None, stream) else
      case (fCategory, fId, fAmount) of
        (Some category, Some itemId, Some amount) \<Rightarrow>
          rbind (getStaticData itemId) (\<lambda>(commonData, equipData).
          rbind (itemNew actorTmp category itemId amount commonData equipData) (\<lambda>newItem.
            case newItem of
              None \<Rightarrow> Inl NullDeref
            | Some self \<Rightarrow>
                rbind (itemUnserializeClass equipData self stream) (\<lambda>(_, self, stream).
                  Inr (Some self, stream))))
      | _ \<Rightarrow> Inl Uninitialised)"

section \<open>Encodings\<close>

definition itemClassEnc :: "ItemObject \<Rightarrow> bytes" where
  "itemClassEnc self = (case self of
       ObjConsumable x \<Rightarrow> itemConsumableEnc x
     | ObjArmor x \<Rightarrow> [equipable_slot (armor_equipable x)] @ itemArmorEnc x
     | ObjQuest x \<Rightarrow> itemQuestEnc x
     | ObjBook x \<Rightarrow> itemBookEnc x
     | ObjMaterial x \<Rightarrow> itemMaterialEnc x
     | ObjGem x \<Rightarrow> itemGemEnc x
     | ObjWeapon x \<Rightarrow> [equipable_slot (weapon_equipable x)] @ itemWeaponEnc x
     | ObjCard x \<Rightarrow> itemCardEnc x
     | ObjAccessory x \<Rightarrow> [equipable_slot (accessory_equipable x)] @ itemAccessoryEnc x
     | ObjSubWeapon x \<Rightarrow> [equipable_slot (subweapon_equipable x)] @ itemSubWeaponEnc x
     | ObjCurrency x \<Rightarrow> itemCurrencyEnc x)"

definition itemEnc :: "ItemObject \<Rightarrow> bytes" where
  "itemEnc self = enc64 (actor_uid (item_actor (itemBase self))) @ itemChildEnc (itemBase self) @ itemClassEnc self"

text \<open>The client form of an item: its properties only.\<close>

definition itemClientEnc :: "ItemObject \<Rightarrow> bytes" where
  "itemClientEnc self = (case self of
       ObjConsumable x \<Rightarrow> itemConsumableEnc x
     | ObjArmor x \<Rightarrow> itemArmorEnc x
     | ObjQuest x \<Rightarrow> itemQuestEnc x
     | ObjBook x \<Rightarrow> itemBookEnc x
     | ObjMaterial x \<Rightarrow> itemMaterialEnc x
     | ObjGem x \<Rightarrow> itemGemEnc x
     | ObjWeapon x \<Rightarrow> itemWeaponEnc x
     | ObjCard x \<Rightarrow> itemCardEnc x
     | ObjAccessory x \<Rightarrow> itemAccessoryEnc x
     | ObjSubWeapon x \<Rightarrow> itemSubWeaponEnc x
     | ObjCurrency x \<Rightarrow> itemCurrencyEnc x)"

text \<open>Memory that cannot be taken for a property of the item that precedes it.\<close>

definition itemTailOk :: "ItemObject \<Rightarrow> bytes \<Rightarrow> bool" where
  "itemTailOk self m = (case self of
       ObjConsumable _ \<Rightarrow> itemConsumableTailOk m
     | ObjArmor _ \<Rightarrow> itemArmorTailOk m
     | ObjQuest _ \<Rightarrow> itemQuestTailOk m
     | ObjBook _ \<Rightarrow> itemBookTailOk m
     | ObjMaterial _ \<Rightarrow> itemMaterialTailOk m
     | ObjGem _ \<Rightarrow> itemGemTailOk m
     | ObjWeapon _ \<Rightarrow> itemWeaponTailOk m
     | ObjCard _ \<Rightarrow> itemCardTailOk m
     | ObjAccessory _ \<Rightarrow> itemAccessoryTailOk m
     | ObjSubWeapon _ \<Rightarrow> itemSubWeaponTailOk m
     | ObjCurrency _ \<Rightarrow> itemCurrencyTailOk m)"

text \<open>String properties within the range of their size field.\<close>

definition itemStringsOk :: "ItemObject \<Rightarrow> bool" where
  "itemStringsOk self = (case self of
       ObjArmor x \<Rightarrow> strOk (armor_memo x) \<and> strOk (armor_customName x) \<and> strOk (armor_maker x)
     | _ \<Rightarrow> True)"

text \<open>What a reader gets back: the accessory reader stores PR in the cooldown field.\<close>

definition itemReadBack :: "ItemObject \<Rightarrow> ItemObject" where
  "itemReadBack self = (case self of
       ObjAccessory x \<Rightarrow> ObjAccessory (x \<lparr> accessory_pr := None,
         accessory_cooldown := ptrMerge (accessory_pr x) (accessory_cooldown x) \<rparr>)
     | _ \<Rightarrow> self)"

text \<open>The catalogue rows an item carries are the ones of its identifier.\<close>

definition itemDataFrom :: "StaticLookup \<Rightarrow> ItemObject \<Rightarrow> bool" where
  "itemDataFrom getStaticData self \<longleftrightarrow>
     (\<exists>equipData. getStaticData (item_id (itemBase self)) = Inr (item_commonData (itemBase self), equipData)
        \<and> (case itemEquipable self of None \<Rightarrow> True | Some e \<Rightarrow> equipable_equipData e = equipData))"

lemmas kind_appends =
  consumable_ser.ser_appends
  armor_ser.ser_appends
  quest_ser.ser_appends
  book_ser.ser_appends
  material_ser.ser_appends
  gem_ser.ser_appends
  weapon_ser.ser_appends
  card_ser.ser_appends
  accessory_ser.ser_appends
  subweapon_ser.ser_appends
  currency_ser.ser_appends

lemmas kind_sizes =
  consumable_ser.sz_enc
  armor_ser.sz_enc
  quest_ser.sz_enc
  book_ser.sz_enc
  material_ser.sz_enc
  gem_ser.sz_enc
  weapon_ser.sz_enc
  card_ser.sz_enc
  accessory_ser.sz_enc
  subweapon_ser.sz_enc
  currency_ser.sz_enc

lemmas kind_cpackets =
  itemConsumableSerializeCPacket_appends
  itemArmorSerializeCPacket_appends
  itemQuestSerializeCPacket_appends
  itemBookSerializeCPacket_appends
  itemMaterialSerializeCPacket_appends
  itemGemSerializeCPacket_appends
  itemWeaponSerializeCPacket_appends
  itemCardSerializeCPacket_appends
  itemAccessorySerializeCPacket_appends
  itemSubWeaponSerializeCPacket_appends
  itemCurrencySerializeCPacket_appends

lemmas kind_csizes =
  itemConsumableCPacketSize
  itemArmorCPacketSize
  itemQuestCPacketSize
  itemBookCPacketSize
  itemMaterialCPacketSize
  itemGemCPacketSize
  itemWeaponCPacketSize
  itemCardCPacketSize
  itemAccessoryCPacketSize
  itemSubWeaponCPacketSize
  itemCurrencyCPacketSize

lemmas kind_reads =
  succeeds_itemConsumable
  succeeds_itemArmor
  succeeds_itemQuest
  succeeds_itemBook
  succeeds_itemMaterial
  succeeds_itemGem
  succeeds_itemWeapon
  succeeds_itemCard
  succeeds_itemAccessory
  succeeds_itemSubWeapon
  succeeds_itemCurrency

lemmas kind_blanks =
  itemConsumableInit_blank
  itemArmorInit_blank
  itemQuestInit_blank
  itemBookInit_blank
  itemMaterialInit_blank
  itemGemInit_blank
  itemWeaponInit_blank
  itemCardInit_blank
  itemAccessoryInit_blank
  itemSubWeaponInit_blank
  itemCurrencyInit_blank

interpretation item_ser: ps_serializer itemSerializeSPacket itemEnc itemGetSPacketSize
proof
  show "ps_wf s \<Longrightarrow> length (itemEnc x) \<le> ps_room s \<Longrightarrow>
        ps_appends s (itemEnc x) (itemSerializeSPacket x s)" for s x
    unfolding itemEnc_def itemSerializeSPacket_def Let_def
    apply (rule ps_appends_comp, rule actor_ser.ser_appends, assumption, simp, simp)
    apply (rule ps_appends_comp, rule child_ser.ser_appends, assumption, simp, simp)
    by (cases x; simp add: itemClassEnc_def del: append_Cons append.simps;
        (rule kind_appends | rule ps_appends_comp, rule equipable_ser.ser_appends, assumption, simp, simp, rule kind_appends); simp)
qed (simp add: itemEnc_def itemGetSPacketSize_def itemClassEnc_def actor_ser.sz_enc child_ser.sz_enc
      equipable_ser.sz_enc kind_sizes split: ItemObject.split)


lemma item_eta:
  "item_category r = c \<Longrightarrow> \<lparr> item_actor = item_actor r, item_id = item_id r, item_amount = item_amount r,
     item_category = c, item_commonData = item_commonData r \<rparr> = r"
  by (cases r) simp

lemma itemInit_class:
  assumes "itemObject_wf x"
  shows "itemNew (item_actor (itemBase x)) (item_category (itemBase x)) i n c d =
    itemInit (item_actor (itemBase x)) (itemClass x) i n c d"
  using assms by (cases x) (simp_all add: itemObject_wf_def itemClass_def itemNew_def itemGetSize_def)

lemma itemEquipable_blank_unser:
  assumes "ps_next s (equipable_slot e # cs) tail" "equipable_equipData e = d"
  shows "\<exists>t. itemEquipableUnserializeSPacket (itemEquipableInit (equipable_item e) d) s = (True, e, t)
    \<and> ps_next t cs tail"
proof -
  have "itemEquipableInit (equipable_item e) d \<lparr> equipable_slot := equipable_slot e \<rparr> = e"
    using assms(2) by (cases e) (simp add: itemEquipableInit_def)
  then show ?thesis
    using itemEquipable_unser [of s "equipable_slot e" cs tail "itemEquipableInit (equipable_item e) d"] assms(1)
    by auto
qed

text \<open>The class reader, on the object that \<open>itemInit\<close> built from the common part.\<close>

lemmas item_class_simps = itemInit_def itemClass_def itemBase_def itemUnserializeClass_def
  itemObject_wf_def itemClassEnc_def itemClientEnc_def itemTailOk_def itemStringsOk_def
  itemReadBack_def itemEquipable_def itemEquipableSetEquipData_def item_eta kind_blanks

lemma itemClassEnc_equipable:
  "itemEquipable x = Some e \<Longrightarrow> itemClassEnc x = equipable_slot e # itemClientEnc x"
  "itemEquipable x = None \<Longrightarrow> itemClassEnc x = itemClientEnc x"
  by (cases x; simp add: itemEquipable_def itemClassEnc_def itemClientEnc_def)+

lemma succeeds_itemClass:
  assumes "ps_next s (itemClassEnc x @ cs) tail" "itemTailOk x (cs @ tail)" "itemStringsOk x"
    and "itemObject_wf x"
    and "case itemEquipable x of None \<Rightarrow> True | Some e \<Rightarrow> equipable_equipData e = d"
    and "\<And>st t. ps_next t cs tail \<Longrightarrow> P (st, itemReadBack x, t)"
  shows "succeeds (itemInit (item_actor (itemBase x)) (itemClass x) (item_id (itemBase x))
      (item_amount (itemBase x)) (item_commonData (itemBase x)) d)
      (\<lambda>obj. case obj of None \<Rightarrow> False | Some y \<Rightarrow> succeeds (itemUnserializeClass d y s) P)"
proof (cases "itemEquipable x")
  case None
  then show ?thesis
    using assms by (cases x; auto simp: item_class_simps intro!: kind_reads)
next
  case (Some e)
  then obtain t where t: "itemEquipableUnserializeSPacket (itemEquipableInit (equipable_item e) d) s = (True, e, t)"
    "ps_next t (itemClientEnc x @ cs) tail"
    using itemEquipable_blank_unser [of s e _ tail d] assms(1,5) by (auto simp: itemClassEnc_equipable)
  show ?thesis
    using Some assms(2-6) t by (cases x; auto simp: item_class_simps intro!: kind_reads)
qed

text \<open>Reading back a written item, at any place of a stream.\<close>

lemma item_unser:
  assumes "ps_next s (itemEnc x @ cs) tail" "itemObject_wf x" "itemDataFrom getStaticData x"
    and "itemStringsOk x" "itemTailOk x (cs @ tail)"
  shows "succeeds (itemUnserializeSPacket getStaticData s)
    (\<lambda>(r, t). r = Some (itemReadBack x) \<and> ps_next t cs tail)"
proof -
  obtain t where t: "actorUnserializeSPacket s = (True, item_actor (itemBase x), t)"
    "ps_next t (itemChildEnc (itemBase x) @ itemClassEnc x @ cs) tail"
    using assms(1) actor_unser [of s "item_actor (itemBase x)"]
    by (auto simp: itemEnc_def)
  obtain u where u: "itemChildUnserializeSPacket t = (True, (Some (item_id (itemBase x)),
      Some (item_amount (itemBase x)), Some (item_category (itemBase x))), u)"
    "ps_next u (itemClassEnc x @ cs) tail"
    using itemChild_unser [OF t(2)] by blast
  obtain d where d: "getStaticData (item_id (itemBase x)) = Inr (item_commonData (itemBase x), d)"
    "case itemEquipable x of None \<Rightarrow> True | Some e \<Rightarrow> equipable_equipData e = d"
    using assms(3) by (auto simp: itemDataFrom_def)
  have "succeeds (itemInit (item_actor (itemBase x)) (itemClass x) (item_id (itemBase x))
      (item_amount (itemBase x)) (item_commonData (itemBase x)) d)
      (\<lambda>obj. case obj of None \<Rightarrow> False | Some y \<Rightarrow> succeeds (itemUnserializeClass d y u)
         (\<lambda>(_, z, t). z = itemReadBack x \<and> ps_next t cs tail))"
    by (rule succeeds_itemClass [OF u(2) assms(5,4,2) d(2)]) simp
  then obtain y where y: "itemInit (item_actor (itemBase x)) (itemClass x) (item_id (itemBase x))
      (item_amount (itemBase x)) (item_commonData (itemBase x)) d = Inr (Some y)"
    "succeeds (itemUnserializeClass d y u) (\<lambda>(_, z, t). z = itemReadBack x \<and> ps_next t cs tail)"
    by (auto simp: succeeds_iff split: option.splits)
  show ?thesis
    using t(1) u(1) d(1) y assms(2)
    by (auto simp: itemUnserializeSPacket_def itemInit_class elim!: succeeds_mono)
qed

lemma itemClientEnc_appends:
  "ps_wf s \<Longrightarrow> length (itemClientEnc x) \<le> ps_room s \<Longrightarrow>
   ps_appends s (itemClientEnc x) (itemSerializeCPacket x s)"
  by (cases x; simp add: itemClientEnc_def itemSerializeCPacket_def kind_cpackets)

lemma itemClientEnc_size: "itemGetCPacketSize x = length (itemClientEnc x)"
  by (cases x; simp add: itemClientEnc_def itemGetCPacketSize_def kind_csizes)

section \<open>Properties\<close>

text \<open>A stream over a buffer of \<open>itemGetSPacketSize\<close> bytes is filled exactly by the server form
  of the item, so the announced size is the written size for every class.\<close>

theorem itemSerializeSPacket_exact:
  assumes "length buf = itemGetSPacketSize x" "itemGetSPacketSize x < 2 ^ 32"
  shows "ps_buffer (itemSerializeSPacket x (packetStreamInit buf (itemGetSPacketSize x))) = itemEnc x
    \<and> packetStreamGetSize (itemSerializeSPacket x (packetStreamInit buf (itemGetSPacketSize x)))
        = itemGetSPacketSize x"
  using item_ser.exact_fit [OF assms] by simp

text \<open>The client form writes exactly \<open>itemGetCPacketSize\<close> bytes, the present properties and nothing
  else, and leaves the rest of the stream alone.\<close>

theorem itemSerializeCPacket_exact:
  assumes "ps_wf s" "itemGetCPacketSize x \<le> ps_room s"
  shows "ps_appends s (itemClientEnc x) (itemSerializeCPacket x s)
    \<and> packetStreamGetSize (itemSerializeCPacket x s) = packetStreamGetSize s + itemGetCPacketSize x"
  using itemClientEnc_appends [OF assms(1), of x] assms(2)
  by (simp add: itemClientEnc_size packetStreamGetSize_def ps_appends_def)


text \<open>An accessory with a PR property does not survive it: the reader stores PR in the
  cooldown, so PR is lost, and the cooldown is wrong unless the item had one of its own.\<close>

theorem itemAccessory_loses_pr:
  assumes "x = ObjAccessory a" "itemObject_wf x" "itemDataFrom getStaticData x"
    and "ps_next s (itemEnc x @ cs) tail" "itemTailOk x (cs @ tail)"
  shows "\<exists>t. itemUnserializeSPacket getStaticData s = Inr (Some (ObjAccessory (a \<lparr> accessory_pr := None,
      accessory_cooldown := (case accessory_cooldown a of None \<Rightarrow> accessory_pr a | Some c \<Rightarrow> Some c) \<rparr>)), t)
    \<and> ps_next t cs tail"
proof -
  have "itemStringsOk x"
    by (simp add: assms(1) itemStringsOk_def)
  with item_unser [OF assms(4,2,3) _ assms(5)] show ?thesis
    by (auto simp: succeeds_iff assms(1) itemReadBack_def ptrMerge_def split: option.splits)
qed

section \<open>The theorems at concrete items\<close>

definition exampleGem :: ItemObject where
  "exampleGem = ObjGem \<lparr> gem_item = \<lparr> item_actor = \<lparr> actor_uid = 7 \<rparr>, item_id = 643501, item_amount = 1,
      item_category = ITEM_CAT_GEM, item_commonData = None \<rparr>,
    gem_level = Some 0x3f800000, gem_itemExp = None, gem_cooldown = Some 0x40000000 \<rparr>"

definition exampleAccessory :: ItemAccessory where
  "exampleAccessory = \<lparr> accessory_equipable = \<lparr> equipable_item = \<lparr> item_actor = \<lparr> actor_uid = 9 \<rparr>,
      item_id = 581001, item_amount = 1, item_category = ITEM_CAT_ACCESSORY, item_commonData = None \<rparr>,
      equipable_slot = EQSLOT_NECKLACE, equipable_equipData = None \<rparr>,
    accessory_pr = Some 0x3f800000, accessory_cooldown = None \<rparr>"

lemmas example_item_simps = exampleGem_def exampleAccessory_def itemObject_wf_def itemBase_def
  itemClass_def itemDataFrom_def itemEquipable_def itemStringsOk_def itemTailOk_def itemGemTailOk_def
  itemAccessoryTailOk_def notTagged_def dec16_def itemGetSPacketSize_def actorGetSPacketSize_def
  itemChildGetSPacketSize_def itemGemGetSPacketSize_def itemGemGetCPacketSize_def
  propertyFloatGetSPacketSize_def itemGetCPacketSize_def

theorem itemSerializeSPacket_exact_witness:
  "ps_buffer (itemSerializeSPacket exampleGem (packetStreamInit (replicate (itemGetSPacketSize exampleGem) 0)
      (itemGetSPacketSize exampleGem))) = itemEnc exampleGem
   \<and> packetStreamGetSize (itemSerializeSPacket exampleGem (packetStreamInit
      (replicate (itemGetSPacketSize exampleGem) 0) (itemGetSPacketSize exampleGem))) = itemGetSPacketSize exampleGem"
  by (rule itemSerializeSPacket_exact) (simp_all add: example_item_simps)

theorem itemSerializeCPacket_exact_witness:
  "ps_appends (packetStreamInit (replicate 20 0) 20) (itemClientEnc exampleGem)
      (itemSerializeCPacket exampleGem (packetStreamInit (replicate 20 0) 20))
   \<and> packetStreamGetSize (itemSerializeCPacket exampleGem (packetStreamInit (replicate 20 0) 20))
      = packetStreamGetSize (packetStreamInit (replicate 20 0) 20) + itemGetCPacketSize exampleGem"
  by (rule itemSerializeCPacket_exact)
    (simp_all add: example_item_simps ps_wf_def packetStreamInit_def ps_room_def)


theorem itemAccessory_loses_pr_witness:
  "\<exists>t. itemUnserializeSPacket (\<lambda>_. Inr (None, None))
      (packetStreamInit (itemEnc (ObjAccessory exampleAccessory) @ [0, 0]) 24)
     = Inr (Some (ObjAccessory (exampleAccessory \<lparr> accessory_pr := None, accessory_cooldown :=
         (case accessory_cooldown exampleAccessory of None \<Rightarrow> accessory_pr exampleAccessory
          | Some c \<Rightarrow> Some c) \<rparr>)), t) \<and> ps_next t [] [0, 0]"
  by (rule itemAccessory_loses_pr [OF refl])
    (simp_all add: example_item_simps ps_next_def ps_wf_def packetStreamInit_def ps_room_def itemEnc_def
      packetStreamGetCurrentBuffer_def itemClassEnc_def itemChildEnc_def itemAccessoryEnc_def)

end
