(* ===== verification/ItemFactory.thy ===== *)
theory ItemFactory
  imports ItemObject
begin

text \<open>
  \<open>src/common/actor/item/item_factory.c\<close>: creation of items from a catalogue identifier. The factory
  holds the two catalogues and the two tables that translate the catalogue's type names into item
  categories. The tables are CZMQ hash tables whose operations are fields of the factory record; the
  pointers into the array \<open>categories\<close> that the code stores in them are represented by the category
  they point to, as \<open>categories[c] = c\<close>.
\<close>

record ('c, 'e, 'k) ItemFactory =
  itf_Zc :: "('c, ItemCommonData) zhash_ops"
  itf_Ze :: "('e, ItemEquipData) zhash_ops"
  itf_Zk :: "('k, byte) zhash_ops"
  itf_itemCommonDatabase :: "'c StaticData"
  itf_itemEquipDatabase :: "'e StaticData"
  itf_categoryEquipTable :: 'k
  itf_categoryCommonTable :: 'k

text \<open>A sequence of \<open>zhash_insert\<close> calls that stops at the first failure.\<close>

fun zhashInsertAll :: "('h, 'v) zhash_ops \<Rightarrow> (string \<times> 'v) list \<Rightarrow> 'h \<Rightarrow> 'h option" where
  "zhashInsertAll Z [] h = Some h"
| "zhashInsertAll Z ((k, v) # kvs) h =
     (case zhash_insert Z h k v of None \<Rightarrow> None | Some h \<Rightarrow> zhashInsertAll Z kvs h)"

definition categoryEquipEntries :: "(string \<times> byte) list" where
  "categoryEquipEntries =
     [(''Armor'', ITEM_CAT_ARMOR), (''Helmet'', ITEM_CAT_ARMOR), (''Weapon'', ITEM_CAT_WEAPON),
      (''Armband'', ITEM_CAT_ARMOR), (''SubWeapon'', ITEM_CAT_SUBWEAPON)]"

definition categoryCommonEntries :: "(string \<times> byte) list" where
  "categoryCommonEntries =
     [(''Consume'', ITEM_CAT_CONSUMABLE), (''Equip'', ITEM_CAT_ARMOR), (''Etc'', ITEM_CAT_ACCESSORY),
      (''Quest'', ITEM_CAT_QUEST), (''Unused'', ITEM_CAT_CURRENCY)]"

definition itemFactoryInitCategoryEquipTable :: "('k, byte) zhash_ops \<Rightarrow> 'k option" where
  "itemFactoryInitCategoryEquipTable Z = zhashInsertAll Z categoryEquipEntries (zhash_new Z)"

definition itemFactoryInitCategoryCommonTable :: "('k, byte) zhash_ops \<Rightarrow> 'k option" where
  "itemFactoryInitCategoryCommonTable Z = zhashInsertAll Z categoryCommonEntries (zhash_new Z)"

definition mySqlBuildItemEquipDataDb ::
    "('e, ItemEquipData) zhash_ops \<Rightarrow> ItemEquipData list \<Rightarrow> 'e StaticData option result" where
  "mySqlBuildItemEquipDataDb Z rows =
     staticDataLoad Z ied_ClassID rows (staticDataInit Z ''itemEquipDataDb'')"

definition mySqlBuildItemCommonDataDb ::
    "('c, ItemCommonData) zhash_ops \<Rightarrow> ItemCommonData list \<Rightarrow> 'c StaticData option result" where
  "mySqlBuildItemCommonDataDb Z rows =
     staticDataLoad Z icd_ClassID rows (staticDataInit Z ''itemCommonDataDb'')"

text \<open>The rows are the results of the two queries over a connection that works. \<open>None\<close> is \<open>false\<close>.\<close>

definition itemFactoryStart ::
    "('c, ItemCommonData) zhash_ops \<Rightarrow> ('e, ItemEquipData) zhash_ops \<Rightarrow> ('k, byte) zhash_ops \<Rightarrow>
     ItemEquipData list \<Rightarrow> ItemCommonData list \<Rightarrow> ('c, 'e, 'k) ItemFactory option result" where
  "itemFactoryStart Zc Ze Zk equipRows commonRows =
     rbind (mySqlBuildItemEquipDataDb Ze equipRows) (\<lambda>equipDb.
       case equipDb of None \<Rightarrow> Inr None | Some equipDb \<Rightarrow>
     rbind (mySqlBuildItemCommonDataDb Zc commonRows) (\<lambda>commonDb.
       case commonDb of None \<Rightarrow> Inr None | Some commonDb \<Rightarrow>
     case itemFactoryInitCategoryEquipTable Zk of None \<Rightarrow> Inr None | Some equipTable \<Rightarrow>
     case itemFactoryInitCategoryCommonTable Zk of None \<Rightarrow> Inr None | Some commonTable \<Rightarrow>
     Inr (Some \<lparr> itf_Zc = Zc, itf_Ze = Ze, itf_Zk = Zk,
       itf_itemCommonDatabase = staticDataLock commonDb, itf_itemEquipDatabase = staticDataLock equipDb,
       itf_categoryEquipTable = equipTable, itf_categoryCommonTable = commonTable \<rparr>)))"

definition itemFactoryGetStaticData :: "('c, 'e, 'k) ItemFactory \<Rightarrow> StaticLookup" where
  "itemFactoryGetStaticData self itemId =
     rbind (staticDataGet (itf_Zc self) (itf_itemCommonDatabase self) (ucast itemId)) (\<lambda>commonData.
     rbind (staticDataGet (itf_Ze self) (itf_itemEquipDatabase self) (ucast itemId)) (\<lambda>equipData.
       Inr (commonData, equipData)))"

definition itemFactoryGetCategoryFromId ::
    "('c, 'e, 'k) ItemFactory \<Rightarrow> ItemCommonData option \<Rightarrow> ItemEquipData option \<Rightarrow> byte option" where
  "itemFactoryGetCategoryFromId self commonData equipData =
     (case commonData of
        None \<Rightarrow>
          (case equipData of
             None \<Rightarrow> None
           | Some e \<Rightarrow> zhash_lookup (itf_Zk self) (itf_categoryEquipTable self) (ied_GroupName e))
      | Some c \<Rightarrow>
          if icd_ItemType c = ''Equip'' then
            (case equipData of
               Some e \<Rightarrow> zhash_lookup (itf_Zk self) (itf_categoryEquipTable self) (ied_GroupName e)
             | None \<Rightarrow> Some ITEM_CAT_ARMOR)
          else zhash_lookup (itf_Zk self) (itf_categoryCommonTable self) (icd_ItemType c))"

definition itemFactoryCreate ::
    "('c, 'e, 'k) ItemFactory \<Rightarrow> ActorFactory \<Rightarrow> u32 \<Rightarrow> u32 \<Rightarrow> (ItemObject option \<times> ActorFactory) result" where
  "itemFactoryCreate self actors itemId amount =
     rbind (itemFactoryGetStaticData self itemId) (\<lambda>(commonData, equipData).
       case itemFactoryGetCategoryFromId self commonData equipData of
         None \<Rightarrow> Inr (None, actors)
       | Some category \<Rightarrow>
           let (actor, actors) = actorFactoryInit actors in
           rbind (itemNew actor category itemId amount commonData equipData) (\<lambda>item.
             Inr (item, actors)))"

text \<open>The result is cast to \<open>ItemEquipable *\<close> and its slot is written, whatever its class is.\<close>

definition itemFactoryCreateEquipable ::
    "('c, 'e, 'k) ItemFactory \<Rightarrow> ActorFactory \<Rightarrow> u32 \<Rightarrow> u32 \<Rightarrow> byte \<Rightarrow> (ItemObject option \<times> ActorFactory) result" where
  "itemFactoryCreateEquipable self actors itemId amount slot =
     rbind (itemFactoryCreate self actors itemId amount) (\<lambda>(item, actors).
       case item of
         None \<Rightarrow> Inr (None, actors)
       | Some obj \<Rightarrow>
           (case itemEquipable obj of
              None \<Rightarrow> Inl BadCast
            | Some e \<Rightarrow> Inr (Some (itemSetEquipable obj (e \<lparr> equipable_slot := slot \<rparr>)), actors)))"

section \<open>Lemmas\<close>

context zhash
begin

lemma zhashInsertAll_fresh:
  "distinct (map fst kvs) \<Longrightarrow> \<forall>k \<in> fst ` set kvs. zhash_lookup Z h k = None \<Longrightarrow>
   \<exists>h'. zhashInsertAll Z kvs h = Some h' \<and> zhash_lookup Z h' = zhash_lookup Z h ++ map_of kvs"
proof (induction kvs arbitrary: h)
  case (Cons kv kvs)
  obtain k v where kv: "kv = (k, v)" by force
  with Cons.prems zh_insert [of h k v] obtain h1 where h1: "zhash_insert Z h k v = Some h1"
    "zhash_lookup Z h1 = (zhash_lookup Z h)(k \<mapsto> v)"
    by auto
  then have "\<exists>h'. zhashInsertAll Z kvs h1 = Some h' \<and> zhash_lookup Z h' = zhash_lookup Z h1 ++ map_of kvs"
    using Cons.prems kv by (intro Cons.IH) auto
  moreover have "map_of kvs k = None"
    using Cons.prems kv by (simp add: map_of_eq_None_iff)
  ultimately show ?case
    using kv h1 by (auto simp: fun_eq_iff map_add_def split: option.split)
qed auto

lemma zhashInsertAll_new:
  "distinct (map fst kvs) \<Longrightarrow>
   \<exists>h'. zhashInsertAll Z kvs (zhash_new Z) = Some h' \<and> zhash_lookup Z h' = map_of kvs"
  using zhashInsertAll_fresh [of kvs "zhash_new Z"] by (simp add: zh_new)

end

lemma itemNew_wf:
  "itemNew a c i n cd ed = Inr (Some x) \<Longrightarrow>
   itemObject_wf x \<and> item_actor (itemBase x) = a \<and> itemClass x = c \<and> item_id (itemBase x) = i
     \<and> item_amount (itemBase x) = n \<and> item_commonData (itemBase x) = cd
     \<and> (case itemEquipable x of None \<Rightarrow> True
        | Some e \<Rightarrow> equipable_equipData e = ed \<and> equipable_slot e = EQSLOT_NOSLOT)"
  by (auto simp: itemNew_def itemGetSize_def itemInit_def itemObject_wf_def itemBase_def itemClass_def
      itemEquipable_def itemEquipableInit_def itemConsumableInit_def itemArmorInit_def itemQuestInit_def
      itemBookInit_def itemMaterialInit_def itemGemInit_def itemWeaponInit_def itemCardInit_def
      itemAccessoryInit_def itemSubWeaponInit_def itemCurrencyInit_def split: if_splits)

lemma itemSetEquipable_wf:
  "itemEquipable x = Some e \<Longrightarrow> item_category (equipable_item e') = item_category (equipable_item e) \<Longrightarrow>
   itemObject_wf x \<Longrightarrow> itemObject_wf (itemSetEquipable x e')"
  by (cases x) (auto simp: itemEquipable_def itemSetEquipable_def itemObject_wf_def itemBase_def itemClass_def)

text \<open>The categories the tables can produce, and only those, are classes of items.\<close>

definition factoryCategories :: "byte set" where
  "factoryCategories = {ITEM_CAT_ARMOR, ITEM_CAT_WEAPON, ITEM_CAT_SUBWEAPON, ITEM_CAT_CONSUMABLE,
     ITEM_CAT_ACCESSORY, ITEM_CAT_QUEST, ITEM_CAT_CURRENCY}"

definition itemFactory_wf :: "('c, 'e, 'k) ItemFactory \<Rightarrow> bool" where
  "itemFactory_wf F \<longleftrightarrow> zhash (itf_Zc F) \<and> zhash (itf_Ze F) \<and> zhash (itf_Zk F)
     \<and> sd_locked (itf_itemCommonDatabase F) \<and> sd_locked (itf_itemEquipDatabase F)
     \<and> zhash_lookup (itf_Zk F) (itf_categoryEquipTable F) = map_of categoryEquipEntries
     \<and> zhash_lookup (itf_Zk F) (itf_categoryCommonTable F) = map_of categoryCommonEntries"

lemma ucast32_small: "(ucast (i :: u32) :: u64) < 2 ^ 32"
proof -
  have "unat i < 2 ^ 32"
    using unsigned_less [of i] by simp
  then have "take_bit 64 (unat i) < 2 ^ 32"
    by (rule le_less_trans [OF take_bit_nat_less_eq_self])
  then show ?thesis
    by (simp add: word_less_nat_alt unsigned_ucast_eq)
qed

lemma itemFactoryGetStaticData_ok:
  "itemFactory_wf F \<Longrightarrow> itemFactoryGetStaticData F i =
     Inr (sd_find (itf_Zc F) (itf_itemCommonDatabase F) (ucast i),
          sd_find (itf_Ze F) (itf_itemEquipDatabase F) (ucast i))"
  by (simp add: itemFactory_wf_def itemFactoryGetStaticData_def staticDataGet_def
      staticDataGenKey_small [OF ucast32_small] sd_find_def)

lemma itemFactoryGetCategory_range:
  "itemFactory_wf F \<Longrightarrow> itemFactoryGetCategoryFromId F c e = Some cat \<Longrightarrow> cat \<in> factoryCategories"
  by (auto simp: itemFactory_wf_def itemFactoryGetCategoryFromId_def factoryCategories_def
      categoryEquipEntries_def categoryCommonEntries_def split: option.splits if_splits)

lemma itemNew_factoryCategory:
  "cat \<in> factoryCategories \<Longrightarrow> \<exists>x. itemNew a cat i n cd ed = Inr (Some x)"
  by (auto simp: factoryCategories_def itemNew_def itemGetSize_def itemInit_def)

section \<open>Properties\<close>

text \<open>A factory that starts is well formed: both catalogues are locked and the two tables hold
  exactly the entries of the source.\<close>

theorem itemFactoryStart_wf:
  assumes "zhash Zc" "zhash Ze" "zhash Zk"
    and "itemFactoryStart Zc Ze Zk equipRows commonRows = Inr (Some F)"
  shows "itemFactory_wf F"
proof -
  obtain t where t: "zhashInsertAll Zk categoryEquipEntries (zhash_new Zk) = Some t"
    "zhash_lookup Zk t = map_of categoryEquipEntries"
    using zhash.zhashInsertAll_new [OF assms(3), of categoryEquipEntries]
    by (auto simp: categoryEquipEntries_def)
  obtain u where u: "zhashInsertAll Zk categoryCommonEntries (zhash_new Zk) = Some u"
    "zhash_lookup Zk u = map_of categoryCommonEntries"
    using zhash.zhashInsertAll_new [OF assms(3), of categoryCommonEntries]
    by (auto simp: categoryCommonEntries_def)
  show ?thesis
    using assms t u
    by (auto simp: itemFactoryStart_def rbind_eq_Inr_iff itemFactoryInitCategoryEquipTable_def
        itemFactoryInitCategoryCommonTable_def itemFactory_wf_def staticDataLock_def
        split: option.splits)
qed

text \<open>Creation never has undefined behaviour. It fails exactly when the catalogues give no
  category, and then takes no identifier from the actor factory; otherwise the new item is well
  formed, carries the next identifier, the requested amount and its own catalogue rows.\<close>

theorem itemFactoryCreate_correct:
  assumes "itemFactory_wf F"
  shows "\<exists>item actors'. itemFactoryCreate F actors i n = Inr (item, actors')
    \<and> (case item of
         None \<Rightarrow> actors' = actors \<and> (\<exists>c e. itemFactoryGetStaticData F i = Inr (c, e)
                    \<and> itemFactoryGetCategoryFromId F c e = None)
       | Some x \<Rightarrow> af_id actors' = af_id actors + 1 \<and> actor_uid (item_actor (itemBase x)) = af_id actors
           \<and> item_id (itemBase x) = i \<and> item_amount (itemBase x) = n
           \<and> itemObject_wf x \<and> itemDataFrom (itemFactoryGetStaticData F) x)"
proof -
  obtain c e where ce: "itemFactoryGetStaticData F i = Inr (c, e)"
    using itemFactoryGetStaticData_ok [OF assms] by blast
  show ?thesis
  proof (cases "itemFactoryGetCategoryFromId F c e")
    case None
    then show ?thesis
      using ce by (simp add: itemFactoryCreate_def)
  next
    case (Some cat)
    then obtain x where x: "itemNew (actorInit (af_id actors)) cat i n c e = Inr (Some x)"
      using itemNew_factoryCategory itemFactoryGetCategory_range [OF assms] by blast
    then show ?thesis
      using ce Some itemNew_wf [OF x]
      by (auto simp: itemFactoryCreate_def actorFactoryInit_def actorInit_def itemDataFrom_def
          split: option.splits)
  qed
qed

text \<open>An equipable item asked for under an identifier of a class without slots is a write
  through a pointer of the wrong class.\<close>

theorem itemFactoryCreateEquipable_misuse:
  assumes "itemFactory_wf F" "sd_find (itf_Zc F) (itf_itemCommonDatabase F) (ucast i) = Some c"
    and "icd_ItemType c \<in> {''Consume'', ''Quest'', ''Unused''}"
  shows "itemFactoryCreateEquipable F actors i n slot = Inl BadCast"
  using assms
  by (auto simp: itemFactoryCreateEquipable_def itemFactoryCreate_def itemFactoryGetStaticData_ok
      itemFactoryGetCategoryFromId_def itemFactory_wf_def categoryCommonEntries_def actorFactoryInit_def
      itemNew_def itemGetSize_def itemInit_def itemEquipable_def)

section \<open>The theorems at a concrete factory\<close>

definition exampleFactory ::
    "((string \<times> ItemCommonData) list, (string \<times> ItemEquipData) list, (string \<times> byte) list) ItemFactory" where
  "exampleFactory = \<lparr> itf_Zc = al_ops, itf_Ze = al_ops, itf_Zk = al_ops,
     itf_itemCommonDatabase = \<lparr> sd_name = ''itemCommonDataDb'',
       sd_hashtable = [(hexKey64 640163, \<lparr> icd_ClassID = 640163, icd_ItemType = ''Consume'' \<rparr>)], sd_locked = True \<rparr>,
     itf_itemEquipDatabase = \<lparr> sd_name = ''itemEquipDataDb'',
       sd_hashtable = [(hexKey64 32043, \<lparr> ied_ClassID = 32043, ied_GroupName = ''Weapon'' \<rparr>)], sd_locked = True \<rparr>,
     itf_categoryEquipTable = categoryEquipEntries, itf_categoryCommonTable = categoryCommonEntries \<rparr>"

lemma exampleFactory_wf: "itemFactory_wf exampleFactory"
  by (simp add: itemFactory_wf_def exampleFactory_def al.zhash_axioms)

lemma exampleFactory_start:
  "itemFactoryStart al_ops al_ops al_ops [] [] = Inr (Some \<lparr> itf_Zc = al_ops, itf_Ze = al_ops,
     itf_Zk = al_ops,
     itf_itemCommonDatabase = \<lparr> sd_name = ''itemCommonDataDb'', sd_hashtable = [], sd_locked = True \<rparr>,
     itf_itemEquipDatabase = \<lparr> sd_name = ''itemEquipDataDb'', sd_hashtable = [], sd_locked = True \<rparr>,
     itf_categoryEquipTable = rev categoryEquipEntries, itf_categoryCommonTable = rev categoryCommonEntries \<rparr>)"
  by (simp add: itemFactoryStart_def mySqlBuildItemEquipDataDb_def mySqlBuildItemCommonDataDb_def
      staticDataInit_def staticDataLock_def itemFactoryInitCategoryEquipTable_def
      itemFactoryInitCategoryCommonTable_def categoryEquipEntries_def categoryCommonEntries_def)

theorem itemFactoryStart_wf_witness:
  "itemFactory_wf (the (projr (itemFactoryStart al_ops al_ops al_ops [] [])))"
  using itemFactoryStart_wf [OF al.zhash_axioms al.zhash_axioms al.zhash_axioms exampleFactory_start]
  by (simp add: exampleFactory_start)

theorem itemFactoryCreate_correct_witness:
  "\<exists>item actors'. itemFactoryCreate exampleFactory \<lparr> af_id = 5 \<rparr> 640163 2 = Inr (item, actors')
    \<and> (case item of
         None \<Rightarrow> actors' = \<lparr> af_id = 5 \<rparr> \<and> (\<exists>c e. itemFactoryGetStaticData exampleFactory 640163 = Inr (c, e)
                    \<and> itemFactoryGetCategoryFromId exampleFactory c e = None)
       | Some x \<Rightarrow> af_id actors' = af_id \<lparr> af_id = 5 \<rparr> + 1 \<and> actor_uid (item_actor (itemBase x)) = af_id \<lparr> af_id = 5 \<rparr>
           \<and> item_id (itemBase x) = 640163 \<and> item_amount (itemBase x) = 2
           \<and> itemObject_wf x \<and> itemDataFrom (itemFactoryGetStaticData exampleFactory) x)"
  by (rule itemFactoryCreate_correct [OF exampleFactory_wf])

theorem itemFactoryCreateEquipable_misuse_witness:
  "itemFactoryCreateEquipable exampleFactory \<lparr> af_id = 5 \<rparr> 640163 1 EQSLOT_WEAPON = Inl BadCast"
proof (rule itemFactoryCreateEquipable_misuse [OF exampleFactory_wf])
  show "sd_find (itf_Zc exampleFactory) (itf_itemCommonDatabase exampleFactory) (ucast (640163 :: u32))
      = Some \<lparr> icd_ClassID = 640163, icd_ItemType = ''Consume'' \<rparr>"
    by (simp add: sd_find_def exampleFactory_def)
qed simp

end
