(* ===== verification/Inventory.thy ===== *)
theory Inventory
  imports ItemFactory
begin

text \<open>
  \<open>src/common/commander/inventory.c\<close>: the items of a commander. An item lives in one of the category
  bags and is found by the key of its actor, or it is equipped in a slot. The bags and the table share
  \<^emph>\<open>handles\<close>, memory cells that hold the pointer to the item, and swapping two items exchanges the
  contents of their handles; so the model has an explicit store of items and handles, in which a freed
  object is absent and using it is an error.

  The bags are CZMQ lists (\<open>zlist_t\<close>), represented by the list of the handles in them.
\<close>

section \<open>The store\<close>

type_synonym addr = nat

record Store =
  st_items :: "addr \<Rightarrow> ItemObject option"
  st_handles :: "addr \<Rightarrow> addr option"
  st_next :: addr

definition derefItem :: "Store \<Rightarrow> addr \<Rightarrow> ItemObject result" where
  "derefItem st a = (case st_items st a of None \<Rightarrow> Inl UseAfterFree | Some x \<Rightarrow> Inr x)"

definition derefHandle :: "Store \<Rightarrow> addr \<Rightarrow> addr result" where
  "derefHandle st h = (case st_handles st h of None \<Rightarrow> Inl UseAfterFree | Some a \<Rightarrow> Inr a)"

definition derefHandleItem :: "Store \<Rightarrow> addr \<Rightarrow> ItemObject result" where
  "derefHandleItem st h = rbind (derefHandle st h) (derefItem st)"

definition allocItem :: "Store \<Rightarrow> ItemObject \<Rightarrow> addr \<times> Store" where
  "allocItem st x = (st_next st, st \<lparr> st_items := (st_items st)(st_next st \<mapsto> x), st_next := Suc (st_next st) \<rparr>)"

definition itemHandleNew :: "Store \<Rightarrow> addr \<Rightarrow> addr \<times> Store" where
  "itemHandleNew st item =
     (st_next st, st \<lparr> st_handles := (st_handles st)(st_next st \<mapsto> item), st_next := Suc (st_next st) \<rparr>)"

text \<open>\<open>free\<close> of an object that is not allocated is an error.\<close>

definition itemDestroy :: "Store \<Rightarrow> addr option \<Rightarrow> Store result" where
  "itemDestroy st self =
     (case self of
        None \<Rightarrow> Inr st
      | Some a \<Rightarrow> rbind (derefItem st a) (\<lambda>_. Inr (st \<lparr> st_items := (st_items st)(a := None) \<rparr>)))"

definition itemHandleFree :: "Store \<Rightarrow> addr \<Rightarrow> Store result" where
  "itemHandleFree st self = rbind (derefHandle st self) (\<lambda>item. itemDestroy st (Some item))"

definition itemHandleDestroy :: "Store \<Rightarrow> addr option \<Rightarrow> Store result" where
  "itemHandleDestroy st self =
     (case self of
        None \<Rightarrow> Inr st
      | Some h \<Rightarrow> rbind (itemHandleFree st h)
                   (\<lambda>st. Inr (st \<lparr> st_handles := (st_handles st)(h := None) \<rparr>)))"

section \<open>The inventory\<close>

record 'h Inventory =
  inv_items :: 'h
  inv_bags :: "addr list list"
  inv_equippedItems :: "addr option list"

definition inventoryInit :: "('h, addr) zhash_ops \<Rightarrow> 'h Inventory" where
  "inventoryInit Z = \<lparr> inv_items = zhash_new Z, inv_bags = replicate (unat ITEM_CAT_COUNT) [],
     inv_equippedItems = replicate (unat EQSLOT_COUNT) None \<rparr>"

definition inventoryGetItemsCount :: "('h, addr) zhash_ops \<Rightarrow> 'h Inventory \<Rightarrow> nat" where
  "inventoryGetItemsCount Z self = zhash_size Z (inv_items self)"

definition inventoryAddItem ::
    "('h, addr) zhash_ops \<Rightarrow> 'h Inventory \<Rightarrow> Store \<Rightarrow> addr \<Rightarrow> (bool \<times> 'h Inventory \<times> Store) result" where
  "inventoryAddItem Z self st itemToAdd =
     rbind (derefItem st itemToAdd) (\<lambda>item.
     let itemCategory = itemGetCategory (itemBase item);
         actorKey = actorGenKey (actorGetUId (item_actor (itemBase item)));
         (itemHandle, st) = itemHandleNew st itemToAdd in
     case zhash_insert Z (inv_items self) actorKey itemHandle of
       None \<Rightarrow> Inr (False, self, st)
     | Some items \<Rightarrow>
         if unat itemCategory < length (inv_bags self) then
           Inr (True, self \<lparr> inv_items := items,
             inv_bags := (inv_bags self)[unat itemCategory := inv_bags self ! unat itemCategory @ [itemHandle]] \<rparr>, st)
         else Inl OutOfBounds)"

definition inventoryRemoveItem ::
    "('h, addr) zhash_ops \<Rightarrow> 'h Inventory \<Rightarrow> Store \<Rightarrow> addr \<Rightarrow> (bool \<times> 'h Inventory \<times> Store) result" where
  "inventoryRemoveItem Z self st itemToRemove =
     rbind (derefItem st itemToRemove) (\<lambda>item.
     let itemCategory = itemGetCategory (itemBase item);
         actorKey = actorGenKey (actorGetUId (item_actor (itemBase item)));
         itemHandle = zhash_lookup Z (inv_items self) actorKey in
     if unat itemCategory < length (inv_bags self) then
       let bag = inv_bags self ! unat itemCategory;
           bag = (case itemHandle of None \<Rightarrow> bag | Some h \<Rightarrow> remove1 h bag) in
       rbind (itemHandleDestroy st itemHandle) (\<lambda>st.
         Inr (True, self \<lparr> inv_bags := (inv_bags self)[unat itemCategory := bag],
                           inv_items := zhash_delete Z (inv_items self) actorKey \<rparr>, st))
     else Inl OutOfBounds)"

text \<open>\<open>None\<close> is \<open>false\<close> with the output pointer set to NULL.\<close>

definition inventoryGetItemByActorId ::
    "('h, addr) zhash_ops \<Rightarrow> 'h Inventory \<Rightarrow> Store \<Rightarrow> u64 \<Rightarrow> addr option result" where
  "inventoryGetItemByActorId Z self st actorId =
     (case zhash_lookup Z (inv_items self) (actorGenKey actorId) of
        None \<Rightarrow> Inr None
      | Some item \<Rightarrow> rbind (derefHandle st item) (\<lambda>a. Inr (Some a)))"

definition inventoryGetFirstItem :: "'h Inventory \<Rightarrow> Store \<Rightarrow> byte \<Rightarrow> addr option result" where
  "inventoryGetFirstItem self st category =
     (if unat category < length (inv_bags self) then
        (case inv_bags self ! unat category of
           [] \<Rightarrow> Inr None
         | itemHandle # _ \<Rightarrow> rbind (derefHandle st itemHandle) (\<lambda>a. Inr (Some a)))
      else Inl OutOfBounds)"

text \<open>The write \<open>item->slot = slot\<close> through an \<open>ItemEquipable *\<close>.\<close>

definition writeSlot :: "Store \<Rightarrow> addr \<Rightarrow> byte \<Rightarrow> Store result" where
  "writeSlot st a slot =
     rbind (derefItem st a) (\<lambda>x.
       case itemEquipable x of
         None \<Rightarrow> Inl BadCast
       | Some e \<Rightarrow> Inr (st \<lparr> st_items :=
           (st_items st)(a \<mapsto> itemSetEquipable x (e \<lparr> equipable_slot := slot \<rparr>)) \<rparr>))"

definition inventoryUnequipItem ::
    "('h, addr) zhash_ops \<Rightarrow> 'h Inventory \<Rightarrow> Store \<Rightarrow> byte \<Rightarrow> (bool \<times> 'h Inventory \<times> Store) result" where
  "inventoryUnequipItem Z self st eqSlot =
     (if length (inv_equippedItems self) \<le> unat eqSlot then Inl OutOfBounds
      else case inv_equippedItems self ! unat eqSlot of
        None \<Rightarrow> Inr (False, self, st)
      | Some itemToUnequip \<Rightarrow>
          rbind (inventoryAddItem Z self st itemToUnequip) (\<lambda>(ok, self, st).
            if \<not> ok then Inr (False, self, st)
            else rbind (writeSlot st itemToUnequip EQSLOT_NOSLOT) (\<lambda>st.
              Inr (True, self \<lparr> inv_equippedItems := (inv_equippedItems self)[unat eqSlot := None] \<rparr>, st))))"

definition inventoryEquipItem ::
    "('h, addr) zhash_ops \<Rightarrow> 'h Inventory \<Rightarrow> Store \<Rightarrow> u64 \<Rightarrow> byte \<Rightarrow> (bool \<times> 'h Inventory \<times> Store) result" where
  "inventoryEquipItem Z self st actorId eqSlot =
     rbind (inventoryGetItemByActorId Z self st actorId) (\<lambda>found.
     case found of
       None \<Rightarrow> Inr (False, self, st)
     | Some itemToEquip \<Rightarrow>
     rbind (derefItem st itemToEquip) (\<lambda>_.
     if length (inv_equippedItems self) \<le> unat eqSlot then Inl OutOfBounds else
     rbind (if inv_equippedItems self ! unat eqSlot \<noteq> None
            then inventoryUnequipItem Z self st eqSlot
            else Inr (True, self, st)) (\<lambda>(ok, self, st).
     if \<not> ok then Inr (False, self, st) else
     let self = self \<lparr> inv_equippedItems := (inv_equippedItems self)[unat eqSlot := Some itemToEquip] \<rparr> in
     rbind (writeSlot st itemToEquip eqSlot) (\<lambda>st.
     rbind (inventoryRemoveItem Z self st itemToEquip) (\<lambda>(ok, self, st).
     if \<not> ok then
       Inr (False, self \<lparr> inv_equippedItems := (inv_equippedItems self)[unat eqSlot := None] \<rparr>, st)
     else Inr (True, self, st))))))"

definition inventorySwapItems ::
    "('h, addr) zhash_ops \<Rightarrow> 'h Inventory \<Rightarrow> Store \<Rightarrow> u64 \<Rightarrow> u64 \<Rightarrow> (bool \<times> Store) result" where
  "inventorySwapItems Z self st actorId1 actorId2 =
     (case (zhash_lookup Z (inv_items self) (actorGenKey actorId1),
            zhash_lookup Z (inv_items self) (actorGenKey actorId2)) of
        (Some item1Handle, Some item2Handle) \<Rightarrow>
          rbind (derefHandle st item1Handle) (\<lambda>a1.
          rbind (derefItem st a1) (\<lambda>x1.
          rbind (derefHandle st item2Handle) (\<lambda>a2.
          rbind (derefItem st a2) (\<lambda>x2.
            if itemGetCategory (itemBase x1) \<noteq> itemGetCategory (itemBase x2) then Inr (False, st)
            else Inr (True, st \<lparr> st_handles :=
                   (st_handles st)(item1Handle \<mapsto> a2, item2Handle \<mapsto> a1) \<rparr>)))))
      | _ \<Rightarrow> Inl NullDeref)"

fun bagIndexLoop :: "Store \<Rightarrow> byte \<Rightarrow> u64 \<Rightarrow> int \<Rightarrow> addr list \<Rightarrow> int result" where
  "bagIndexLoop st category actorId index [] = Inr (-1)"
| "bagIndexLoop st category actorId index (itemHandle # bag) =
     rbind (derefHandleItem st itemHandle) (\<lambda>currentItem.
       if actorId = actorGetUId (item_actor (itemBase currentItem))
       then Inr (5000 * uint category + index)
       else bagIndexLoop st category actorId (index + 1) bag)"

definition inventoryGetBagIndexByActorId :: "'h Inventory \<Rightarrow> Store \<Rightarrow> byte \<Rightarrow> u64 \<Rightarrow> int result" where
  "inventoryGetBagIndexByActorId self st category actorId =
     (if unat category < length (inv_bags self)
      then bagIndexLoop st category actorId 1 (inv_bags self ! unat category)
      else Inl OutOfBounds)"

definition inventoryGetEquipmentCount :: "'h Inventory \<Rightarrow> nat" where
  "inventoryGetEquipmentCount self = length (filter (\<lambda>e. e \<noteq> None) (inv_equippedItems self))"

text \<open>The default of the two last labels is to return an uninitialised variable.\<close>

definition inventoryGetEquipmentEmptySlot :: "byte \<Rightarrow> u32 result" where
  "inventoryGetEquipmentEmptySlot slot =
     (if slot = EQSLOT_HAT then Inr 2
      else if slot = EQSLOT_HAT_L then Inr 2
      else if slot = EQSLOT_UNKNOWN1 then Inr 4
      else if slot = EQSLOT_BODY_ARMOR then Inr 2
      else if slot = EQSLOT_GLOVES then Inr 6
      else if slot = EQSLOT_BOOTS then Inr 7
      else if slot = EQSLOT_HELMET then Inr 10000
      else if slot = EQSLOT_BRACELET then Inr 11000
      else if slot = EQSLOT_WEAPON then Inr 9999996
      else if slot = EQSLOT_SHIELD then Inr 9999996
      else if slot = EQSLOT_COSTUME then Inr 4
      else if slot = EQSLOT_UNKNOWN3 then Inr 9
      else if slot = EQSLOT_UNKNOWN4 then Inr 9
      else if slot = EQSLOT_UNKNOWN5 then Inr 4
      else if slot = EQSLOT_LEG_ARMOR then Inr 8
      else if slot = EQSLOT_UNKNOWN6 then Inr 9
      else if slot = EQSLOT_UNKNOWN7 then Inr 9
      else if slot = EQSLOT_RING_LEFT then Inr 9
      else if slot = EQSLOT_RING_RIGHT then Inr 9
      else if slot = EQSLOT_NECKLACE then Inr 10
      else Inl Uninitialised)"

section \<open>Serialization\<close>

text \<open>The items in the order of the loops: the equipped ones by slot, then the bags by category.\<close>

fun derefAll :: "Store \<Rightarrow> addr list \<Rightarrow> ItemObject list result" where
  "derefAll st [] = Inr []"
| "derefAll st (a # as) = rbind (derefItem st a) (\<lambda>x. rbind (derefAll st as) (\<lambda>xs. Inr (x # xs)))"

fun derefHandles :: "Store \<Rightarrow> addr list \<Rightarrow> ItemObject list result" where
  "derefHandles st [] = Inr []"
| "derefHandles st (h # hs) =
     rbind (derefHandleItem st h) (\<lambda>x. rbind (derefHandles st hs) (\<lambda>xs. Inr (x # xs)))"

definition equippedAddrs :: "'h Inventory \<Rightarrow> addr list" where
  "equippedAddrs self = map the (filter (\<lambda>e. e \<noteq> None) (inv_equippedItems self))"

definition inventoryGetSPacketSize :: "'h Inventory \<Rightarrow> Store \<Rightarrow> nat result" where
  "inventoryGetSPacketSize self st =
     rbind (derefAll st (equippedAddrs self)) (\<lambda>equipped.
     rbind (derefHandles st (concat (inv_bags self))) (\<lambda>items.
       Inr (8 + sum_list (map itemGetSPacketSize equipped) + sum_list (map itemGetSPacketSize items))))"

definition inventorySerializeSPacket ::
    "('h, addr) zhash_ops \<Rightarrow> 'h Inventory \<Rightarrow> Store \<Rightarrow> PacketStream \<Rightarrow> PacketStream result" where
  "inventorySerializeSPacket Z self st stream =
     rbind (inventoryGetSPacketSize self st) (\<lambda>sz.
     let stream = packetStreamDebugStart stream sz ''inventorySerializeSPacket'';
         stream = packetStreamAppend stream (enc32 (of_nat (inventoryGetEquipmentCount self))) in
     rbind (derefAll st (equippedAddrs self)) (\<lambda>equipped.
     let stream = fold itemSerializeSPacket equipped stream;
         stream = packetStreamAppend stream (enc32 (of_nat (inventoryGetItemsCount Z self))) in
     rbind (derefHandles st (concat (inv_bags self))) (\<lambda>items.
     Inr (fold itemSerializeSPacket items stream))))"

fun destroyEquipped :: "Store \<Rightarrow> addr option list \<Rightarrow> Store result" where
  "destroyEquipped st [] = Inr st"
| "destroyEquipped st (e # es) = rbind (itemDestroy st e) (\<lambda>st. destroyEquipped st es)"

fun readEquipped :: "StaticLookup \<Rightarrow> nat \<Rightarrow> addr option list \<Rightarrow> Store \<Rightarrow> PacketStream \<Rightarrow>
    (bool \<times> addr option list \<times> Store \<times> PacketStream) result" where
  "readEquipped gsd 0 eq st stream = Inr (True, eq, st, stream)"
| "readEquipped gsd (Suc n) eq st stream =
     rbind (itemUnserializeSPacket gsd stream) (\<lambda>(item, stream).
     case item of
       None \<Rightarrow> Inr (False, eq, st, stream)
     | Some x \<Rightarrow>
         let (a, st) = allocItem st x in
         (case itemEquipable x of
            None \<Rightarrow> Inl BadCast
          | Some e \<Rightarrow>
              if unat (equipable_slot e) < length eq
              then readEquipped gsd n (eq[unat (equipable_slot e) := Some a]) st stream
              else Inl OutOfBounds))"

fun readBags :: "StaticLookup \<Rightarrow> nat \<Rightarrow> addr list list \<Rightarrow> Store \<Rightarrow> PacketStream \<Rightarrow>
    (bool \<times> addr list list \<times> Store \<times> PacketStream) result" where
  "readBags gsd 0 bags st stream = Inr (True, bags, st, stream)"
| "readBags gsd (Suc n) bags st stream =
     rbind (itemUnserializeSPacket gsd stream) (\<lambda>(item, stream).
     case item of
       None \<Rightarrow> Inr (False, bags, st, stream)
     | Some x \<Rightarrow>
         let (a, st) = allocItem st x;
             (itemHandle, st) = itemHandleNew st a;
             cat = unat (item_category (itemBase x)) in
         if cat < length bags
         then readBags gsd n (bags[cat := bags ! cat @ [itemHandle]]) st stream
         else Inl OutOfBounds)"

definition inventoryUnserializeSPacket ::
    "('h, addr) zhash_ops \<Rightarrow> StaticLookup \<Rightarrow> 'h Inventory \<Rightarrow> Store \<Rightarrow> PacketStream \<Rightarrow>
     (bool \<times> 'h Inventory \<times> Store \<times> PacketStream) result" where
  "inventoryUnserializeSPacket Z gsd self st stream =
     (let stream = packetStreamDebugStart stream (ps_size stream) ''inventoryUnserializeSPacket'' in
      case packetStreamGet stream 4 of
        (None, _) \<Rightarrow> Inl Uninitialised
      | (Some equipmentCount, stream) \<Rightarrow>
      rbind (destroyEquipped st (inv_equippedItems self)) (\<lambda>st.
      rbind (readEquipped gsd (unat (dec32 equipmentCount))
               (replicate (length (inv_equippedItems self)) None) st stream) (\<lambda>(ok, eq, st, stream).
      let self = self \<lparr> inv_equippedItems := eq \<rparr> in
      if \<not> ok then Inr (False, self, st, stream) else
      case packetStreamGet stream 4 of
        (None, _) \<Rightarrow> Inl Uninitialised
      | (Some itemsCount, stream) \<Rightarrow>
      let self = self \<lparr> inv_items := zhash_purge Z (inv_items self) \<rparr> in
      rbind (readBags gsd (unat (dec32 itemsCount)) (replicate (length (inv_bags self)) []) st stream)
        (\<lambda>(ok, bags, st, stream). Inr (ok, self \<lparr> inv_bags := bags \<rparr>, st, stream)))))"

end
