(* ===== verification/InventoryInv.thy ===== *)
theory InventoryInv
  imports Inventory
begin

text \<open>
  The invariant of the inventory and what each operation does to it. \<open>inv_wf\<close> says that the table
  and the bags hold the same handles, each under the key of the item it points to and in the bag of
  that item's category, and that equipped items are allocated, of an equipable class and in no bag.
\<close>

definition handleItem :: "Store \<Rightarrow> addr \<Rightarrow> ItemObject option" where
  "handleItem st h = Option.bind (st_handles st h) (st_items st)"

definition itemUid :: "ItemObject \<Rightarrow> u64" where
  "itemUid x = actor_uid (item_actor (itemBase x))"

definition itemCat :: "ItemObject \<Rightarrow> nat" where
  "itemCat x = unat (item_category (itemBase x))"

definition st_fresh :: "Store \<Rightarrow> bool" where
  "st_fresh st \<longleftrightarrow> (\<forall>a x. st_items st a = Some x \<longrightarrow> a < st_next st) \<and>
                    (\<forall>h a. st_handles st h = Some a \<longrightarrow> h < st_next st)"

definition bags_wf :: "('h, addr) zhash_ops \<Rightarrow> 'h Inventory \<Rightarrow> Store \<Rightarrow> bool" where
  "bags_wf Z iv st \<longleftrightarrow> length (inv_bags iv) = 16 \<and>
     (\<forall>c < 16. distinct (inv_bags iv ! c) \<and>
        (\<forall>h \<in> set (inv_bags iv ! c). \<exists>x. handleItem st h = Some x \<and> itemObject_wf x \<and> itemCat x = c
           \<and> zhash_lookup Z (inv_items iv) (actorGenKey (itemUid x)) = Some h)) \<and>
     (\<forall>k h. zhash_lookup Z (inv_items iv) k = Some h \<longrightarrow>
        (\<exists>x. handleItem st h = Some x \<and> k = actorGenKey (itemUid x) \<and> itemCat x < 16
           \<and> h \<in> set (inv_bags iv ! itemCat x)))"

definition equipped_wf :: "('h, addr) zhash_ops \<Rightarrow> 'h Inventory \<Rightarrow> Store \<Rightarrow> bool" where
  "equipped_wf Z iv st \<longleftrightarrow> length (inv_equippedItems iv) = 20 \<and>
     (\<forall>i < 20. \<forall>a. inv_equippedItems iv ! i = Some a \<longrightarrow>
        (\<exists>x. st_items st a = Some x \<and> itemObject_wf x \<and> itemEquipable x \<noteq> None)
        \<and> (\<forall>k h. zhash_lookup Z (inv_items iv) k = Some h \<longrightarrow> st_handles st h \<noteq> Some a)
        \<and> (\<forall>j < 20. inv_equippedItems iv ! j = Some a \<longrightarrow> j = i))"

definition inv_wf :: "('h, addr) zhash_ops \<Rightarrow> 'h Inventory \<Rightarrow> Store \<Rightarrow> bool" where
  "inv_wf Z iv st \<longleftrightarrow> bags_wf Z iv st \<and> equipped_wf Z iv st \<and> st_fresh st"

text \<open>What a client sees: the item of an identifier.\<close>

definition inv_abs :: "('h, addr) zhash_ops \<Rightarrow> 'h Inventory \<Rightarrow> Store \<Rightarrow> u64 \<Rightarrow> ItemObject option" where
  "inv_abs Z iv st uid =
     Option.bind (zhash_lookup Z (inv_items iv) (actorGenKey uid)) (handleItem st)"

lemma handleItem_Some: "handleItem st h = Some x \<longleftrightarrow> (\<exists>a. st_handles st h = Some a \<and> st_items st a = Some x)"
  by (auto simp: handleItem_def bind_eq_Some_conv)

lemma handleItem_fresh: "st_fresh st \<Longrightarrow> handleItem st h = Some x \<Longrightarrow> h < st_next st"
  by (auto simp: handleItem_Some st_fresh_def)

lemma bags_wfI:
  assumes "length (inv_bags iv) = 16" "\<And>c. c < 16 \<Longrightarrow> distinct (inv_bags iv ! c)"
    and "\<And>c h. c < 16 \<Longrightarrow> h \<in> set (inv_bags iv ! c) \<Longrightarrow> \<exists>x. handleItem st h = Some x \<and> itemObject_wf x
           \<and> itemCat x = c \<and> zhash_lookup Z (inv_items iv) (actorGenKey (itemUid x)) = Some h"
    and "\<And>k h. zhash_lookup Z (inv_items iv) k = Some h \<Longrightarrow> \<exists>x. handleItem st h = Some x
           \<and> k = actorGenKey (itemUid x) \<and> itemCat x < 16 \<and> h \<in> set (inv_bags iv ! itemCat x)"
  shows "bags_wf Z iv st"
  unfolding bags_wf_def using assms by blast

lemma equipped_wfI:
  assumes "length (inv_equippedItems iv) = 20"
    and "\<And>i a. i < 20 \<Longrightarrow> inv_equippedItems iv ! i = Some a \<Longrightarrow>
           \<exists>x. st_items st a = Some x \<and> itemObject_wf x \<and> itemEquipable x \<noteq> None"
    and "\<And>i a k h. i < 20 \<Longrightarrow> inv_equippedItems iv ! i = Some a \<Longrightarrow>
           zhash_lookup Z (inv_items iv) k = Some h \<Longrightarrow> st_handles st h \<noteq> Some a"
    and "\<And>i j a. i < 20 \<Longrightarrow> j < 20 \<Longrightarrow> inv_equippedItems iv ! i = Some a \<Longrightarrow>
           inv_equippedItems iv ! j = Some a \<Longrightarrow> j = i"
  shows "equipped_wf Z iv st"
  unfolding equipped_wf_def using assms by blast

lemma bags_wf_lookup:
  "bags_wf Z iv st \<Longrightarrow> zhash_lookup Z (inv_items iv) k = Some h \<Longrightarrow>
   \<exists>x. handleItem st h = Some x \<and> k = actorGenKey (itemUid x) \<and> itemCat x < 16
     \<and> h \<in> set (inv_bags iv ! itemCat x)"
  by (auto simp: bags_wf_def)

lemma bags_wf_in_bag:
  "bags_wf Z iv st \<Longrightarrow> c < 16 \<Longrightarrow> h \<in> set (inv_bags iv ! c) \<Longrightarrow>
   \<exists>x. handleItem st h = Some x \<and> itemObject_wf x \<and> itemCat x = c
     \<and> zhash_lookup Z (inv_items iv) (actorGenKey (itemUid x)) = Some h"
  by (auto simp: bags_wf_def)

text \<open>Two handles of the table never point to the same item.\<close>

lemma bags_wf_inj:
  assumes "bags_wf Z iv st" "zhash_lookup Z (inv_items iv) k = Some h"
    "zhash_lookup Z (inv_items iv) k' = Some h'" "handleItem st h = handleItem st h'"
  shows "k = k' \<and> h = h'"
  using assms bags_wf_lookup [OF assms(1,2)] bags_wf_lookup [OF assms(1,3)] by auto

lemma equipped_wf_inj:
  "equipped_wf Z iv st \<Longrightarrow> i < 20 \<Longrightarrow> j < 20 \<Longrightarrow> inv_equippedItems iv ! i = Some a \<Longrightarrow>
   inv_equippedItems iv ! j = Some a \<Longrightarrow> j = i"
  unfolding equipped_wf_def by blast

lemma equipped_wf_item:
  "equipped_wf Z iv st \<Longrightarrow> i < 20 \<Longrightarrow> inv_equippedItems iv ! i = Some a \<Longrightarrow>
   (\<exists>x. st_items st a = Some x \<and> itemObject_wf x \<and> itemEquipable x \<noteq> None)
   \<and> (\<forall>k h. zhash_lookup Z (inv_items iv) k = Some h \<longrightarrow> st_handles st h \<noteq> Some a)"
  unfolding equipped_wf_def by blast

lemma inventoryInit_fresh: "zhash Z \<Longrightarrow> st_fresh st \<Longrightarrow> inv_wf Z (inventoryInit Z) st"
  by (simp add: inv_wf_def bags_wf_def equipped_wf_def inventoryInit_def zhash.zh_new)

lemma inventoryInit_wf: "zhash Z \<Longrightarrow> inv_wf Z (inventoryInit Z) \<lparr> st_items = Map.empty, st_handles = Map.empty, st_next = 0 \<rparr>"
  by (simp add: inv_wf_def bags_wf_def equipped_wf_def st_fresh_def inventoryInit_def zhash.zh_new)

lemma inventoryGetItem_wf:
  assumes "bags_wf Z iv st" "inv_abs Z iv st uid = Some x"
  shows "\<exists>a. inventoryGetItemByActorId Z iv st uid = Inr (Some a) \<and> st_items st a = Some x"
  using assms by (auto simp: inv_abs_def inventoryGetItemByActorId_def bind_eq_Some_conv
      handleItem_Some derefHandle_def)

lemma inv_abs_None:
  "bags_wf Z iv st \<Longrightarrow> inv_abs Z iv st uid = None \<longleftrightarrow> zhash_lookup Z (inv_items iv) (actorGenKey uid) = None"
  by (cases "zhash_lookup Z (inv_items iv) (actorGenKey uid)")
    (auto simp: inv_abs_def dest: bags_wf_lookup)

lemma inv_abs_uid: "bags_wf Z iv st \<Longrightarrow> inv_abs Z iv st uid = Some x \<Longrightarrow> itemUid x = uid"
  by (auto simp: inv_abs_def bind_eq_Some_conv dest: bags_wf_lookup)

section \<open>Adding\<close>

lemma inventoryAddItem_steps:
  assumes "zhash Z" "inv_wf Z iv st" "st_items st a = Some x" "itemCat x < 16"
    and "zhash_lookup Z (inv_items iv) (actorGenKey (itemUid x)) = None"
  shows "\<exists>items. inventoryAddItem Z iv st a = Inr (True,
      iv \<lparr> inv_items := items, inv_bags := (inv_bags iv)[itemCat x := inv_bags iv ! itemCat x @ [st_next st]] \<rparr>,
      st \<lparr> st_handles := (st_handles st)(st_next st \<mapsto> a), st_next := Suc (st_next st) \<rparr>)
    \<and> zhash_lookup Z items = (zhash_lookup Z (inv_items iv))(actorGenKey (itemUid x) \<mapsto> st_next st)"
proof -
  obtain items where "zhash_insert Z (inv_items iv) (actorGenKey (itemUid x)) (st_next st) = Some items"
    "zhash_lookup Z items = (zhash_lookup Z (inv_items iv))(actorGenKey (itemUid x) \<mapsto> st_next st)"
    using zhash.zh_insert [OF assms(1,5)] by blast
  moreover have "length (inv_bags iv) = 16"
    using assms(2) by (simp add: inv_wf_def bags_wf_def)
  ultimately show ?thesis
    using assms(3,4) by (intro exI [of _ items]) (simp add: inventoryAddItem_def derefItem_def
        itemHandleNew_def itemGetCategory_def actorGetUId_def itemUid_def itemCat_def Let_def)
qed

lemma bags_wf_add:
  assumes wf: "bags_wf Z iv st" and fresh: "st_fresh st" and x: "st_items st a = Some x" "itemObject_wf x" "itemCat x < 16"
    and new: "zhash_lookup Z (inv_items iv) (actorGenKey (itemUid x)) = None"
    and items: "zhash_lookup Z items = (zhash_lookup Z (inv_items iv))(actorGenKey (itemUid x) \<mapsto> st_next st)"
  shows "bags_wf Z (iv \<lparr> inv_items := items, inv_bags := (inv_bags iv)[itemCat x := inv_bags iv ! itemCat x @ [st_next st]] \<rparr>)
    (st \<lparr> st_handles := (st_handles st)(st_next st \<mapsto> a), st_next := Suc (st_next st) \<rparr>)"
    (is "bags_wf Z ?iv ?st")
proof -
  have old: "handleItem ?st h = handleItem st h" if "h \<noteq> st_next st" for h
    using that by (simp add: handleItem_def)
  have this_h: "handleItem ?st (st_next st) = Some x"
    using x(1) by (simp add: handleItem_def)
  have ne: "h \<noteq> st_next st" if "handleItem st h = Some y" for h y
    using handleItem_fresh [OF fresh that] by simp
  have len: "length (inv_bags iv) = 16"
    using wf by (simp add: bags_wf_def)
  have bag: "\<exists>y. handleItem ?st h = Some y \<and> itemObject_wf y \<and> itemCat y = c
      \<and> zhash_lookup Z items (actorGenKey (itemUid y)) = Some h \<and> h \<noteq> st_next st"
    if "c < 16" "h \<in> set (inv_bags iv ! c)" for c h
    using bags_wf_in_bag [OF wf that] ne old new items by fastforce
  have 1: "distinct (inv_bags ?iv ! c) \<and> (\<forall>h \<in> set (inv_bags ?iv ! c). \<exists>y. handleItem ?st h = Some y
      \<and> itemObject_wf y \<and> itemCat y = c \<and> zhash_lookup Z items (actorGenKey (itemUid y)) = Some h)"
    if "c < 16" for c
  proof (cases "c = itemCat x")
    case True
    then have "inv_bags ?iv ! c = inv_bags iv ! c @ [st_next st]"
      using that len by simp
    moreover have "distinct (inv_bags iv ! c)" "st_next st \<notin> set (inv_bags iv ! c)"
      using wf that bag [OF that] by (auto simp: bags_wf_def)
    moreover have "zhash_lookup Z items (actorGenKey (itemUid x)) = Some (st_next st)"
      using items by simp
    ultimately show ?thesis
      using bag [OF that] this_h x(2) True by (simp only:) fastforce
  next
    case False
    then have "inv_bags ?iv ! c = inv_bags iv ! c" by simp
    moreover have "distinct (inv_bags iv ! c)"
      using wf that by (simp add: bags_wf_def)
    ultimately show ?thesis
      using bag [OF that] by (simp only:) blast
  qed
  have 2: "\<exists>y. handleItem ?st h = Some y \<and> k = actorGenKey (itemUid y) \<and> itemCat y < 16
      \<and> h \<in> set (inv_bags ?iv ! itemCat y)" if "zhash_lookup Z items k = Some h" for k h
  proof (cases "k = actorGenKey (itemUid x)")
    case True
    then show ?thesis
      using that items this_h x(3) len by auto
  next
    case False
    then have "zhash_lookup Z (inv_items iv) k = Some h"
      using that items by simp
    from bags_wf_lookup [OF wf this] obtain y where y: "handleItem st h = Some y"
      "k = actorGenKey (itemUid y)" "itemCat y < 16" "h \<in> set (inv_bags iv ! itemCat y)" by blast
    then have "h \<in> set (inv_bags ?iv ! itemCat y)"
      using len by (cases "itemCat y = itemCat x") auto
    then show ?thesis
      using y old [OF ne [OF y(1)]] by (intro exI [of _ y]) simp
  qed
  show ?thesis
    using len 1 2 by (simp add: bags_wf_def)
qed

lemma equipped_wf_add:
  assumes ew: "equipped_wf Z iv st" and fr: "st_fresh st" and bw: "bags_wf Z iv st"
    and items: "zhash_lookup Z (inv_items iv') = (zhash_lookup Z (inv_items iv))(k \<mapsto> st_next st)"
    and len: "length (inv_equippedItems iv') = 20"
    and eq: "\<And>i b. i < 20 \<Longrightarrow> inv_equippedItems iv' ! i = Some b \<Longrightarrow> inv_equippedItems iv ! i = Some b \<and> b \<noteq> a"
  shows "equipped_wf Z iv'
    (st \<lparr> st_handles := (st_handles st)(st_next st \<mapsto> a), st_next := Suc (st_next st) \<rparr>)"
proof (rule equipped_wfI [OF len])
  fix i b
  assume i: "i < 20" "inv_equippedItems iv' ! i = Some b"
  note old = equipped_wf_item [OF ew i(1), of b] eq [OF i]
  show "\<exists>x. st_items (st \<lparr> st_handles := (st_handles st)(st_next st \<mapsto> a), st_next := Suc (st_next st) \<rparr>) b
      = Some x \<and> itemObject_wf x \<and> itemEquipable x \<noteq> None"
    using old by simp
  show "st_handles (st \<lparr> st_handles := (st_handles st)(st_next st \<mapsto> a), st_next := Suc (st_next st) \<rparr>) h \<noteq> Some b"
    if "zhash_lookup Z (inv_items iv') k' = Some h" for k' h
    using old that items by (auto split: if_splits)
  show "j = i" if "j < 20" "inv_equippedItems iv' ! j = Some b" for j
    using equipped_wf_inj [OF ew i(1) that(1), of b] eq [OF i] eq [OF that] by simp
qed

lemma st_fresh_handle:
  "st_fresh st \<Longrightarrow> st_fresh (st \<lparr> st_handles := (st_handles st)(st_next st \<mapsto> a), st_next := Suc (st_next st) \<rparr>)"
  by (auto simp: st_fresh_def intro: less_SucI)

text \<open>An item the inventory does not know: allocated, well formed, not equipped.\<close>

definition inv_new_item :: "'h Inventory \<Rightarrow> Store \<Rightarrow> addr \<Rightarrow> ItemObject \<Rightarrow> bool" where
  "inv_new_item iv st a x \<longleftrightarrow> st_items st a = Some x \<and> itemObject_wf x \<and> itemCat x < 16
     \<and> a \<notin> Some -` set (inv_equippedItems iv)"

text \<open>An identifier that is in a bag is refused.\<close>

lemma inventoryAddItem_dup:
  assumes "zhash Z" "bags_wf Z iv st" "inv_abs Z iv st (itemUid x) \<noteq> None" "st_items st a = Some x"
  obtains st' where "inventoryAddItem Z iv st a = Inr (False, iv, st')"
proof -
  obtain h where "zhash_lookup Z (inv_items iv) (actorGenKey (itemUid x)) = Some h"
    using assms(3) inv_abs_None [OF assms(2)] by auto
  then have "zhash_insert Z (inv_items iv) (actorGenKey (itemUid x)) v = None" for v
    by (rule zhash.zh_insert_dup [OF assms(1)])
  with assms(4) show thesis
    by (intro that) (simp add: inventoryAddItem_def derefItem_def itemUid_def actorGetUId_def itemHandleNew_def)
qed

text \<open>The inventory and the store with a new item: the invariant holds, and what is found and listed.\<close>

lemma inv_added_wf:
  assumes "inv_wf Z iv st" "inv_new_item iv st a x" "zhash_lookup Z (inv_items iv) (actorGenKey (itemUid x)) = None"
    and items: "zhash_lookup Z items = (zhash_lookup Z (inv_items iv))(actorGenKey (itemUid x) \<mapsto> st_next st)"
  shows "inv_wf Z (iv \<lparr> inv_items := items, inv_bags := (inv_bags iv)[itemCat x := inv_bags iv ! itemCat x @ [st_next st]] \<rparr>)
    (st \<lparr> st_handles := (st_handles st)(st_next st \<mapsto> a), st_next := Suc (st_next st) \<rparr>)" (is "inv_wf Z ?iv ?st")
proof -
  have wf: "bags_wf Z iv st" "equipped_wf Z iv st" "st_fresh st"
    using assms(1) by (simp_all add: inv_wf_def)
  have x: "st_items st a = Some x" "itemObject_wf x" "itemCat x < 16" "a \<notin> Some -` set (inv_equippedItems iv)"
    using assms(2) by (simp_all add: inv_new_item_def)
  have len: "length (inv_equippedItems iv) = 20"
    using wf(2) by (simp add: equipped_wf_def)
  have "equipped_wf Z ?iv ?st"
  proof (rule equipped_wf_add [OF wf(2,3,1)])
    fix i b assume i: "i < 20" "inv_equippedItems ?iv ! i = Some b"
    then show "inv_equippedItems iv ! i = Some b \<and> b \<noteq> a"
      using x(4) len nth_mem [of i "inv_equippedItems iv"] by auto
  qed (use items len in simp_all)
  then show ?thesis
    using bags_wf_add [OF wf(1,3) x(1,2,3) assms(3) items] st_fresh_handle [OF wf(3)] by (simp add: inv_wf_def)
qed

lemma handleItem_added:
  assumes "st_fresh st" "st_items st a = Some x"
  defines "st' \<equiv> st \<lparr> st_handles := (st_handles st)(st_next st \<mapsto> a), st_next := Suc (st_next st) \<rparr>"
  shows "handleItem st h = Some y \<Longrightarrow> handleItem st' h = Some y" "handleItem st' (st_next st) = Some x"
  using handleItem_fresh [OF assms(1)] assms(2) by (auto simp: handleItem_def st'_def)

lemma inv_added_view:
  assumes "inv_wf Z iv st" "inv_new_item iv st a x" "zhash_lookup Z (inv_items iv) (actorGenKey (itemUid x)) = None"
    and items: "zhash_lookup Z items = (zhash_lookup Z (inv_items iv))(actorGenKey (itemUid x) \<mapsto> st_next st)"
  defines "bags \<equiv> (inv_bags iv)[itemCat x := inv_bags iv ! itemCat x @ [st_next st]]"
    and "st' \<equiv> st \<lparr> st_handles := (st_handles st)(st_next st \<mapsto> a), st_next := Suc (st_next st) \<rparr>"
  shows "inv_abs Z (iv \<lparr> inv_items := items, inv_bags := bags \<rparr>) st' = (inv_abs Z iv st)(itemUid x \<mapsto> x)"
    and "map (handleItem st') (bags ! itemCat x) = map (handleItem st) (inv_bags iv ! itemCat x) @ [Some x]"
proof -
  have wf: "bags_wf Z iv st" "st_fresh st" and x: "st_items st a = Some x" "itemCat x < 16"
    using assms(1,2) by (simp_all add: inv_wf_def inv_new_item_def)
  note added = handleItem_added [OF wf(2) x(1), folded st'_def]
  show "inv_abs Z (iv \<lparr> inv_items := items, inv_bags := bags \<rparr>) st' = (inv_abs Z iv st)(itemUid x \<mapsto> x)"
  proof
    fix u
    show "inv_abs Z (iv \<lparr> inv_items := items, inv_bags := bags \<rparr>) st' u = ((inv_abs Z iv st)(itemUid x \<mapsto> x)) u"
    proof (cases "zhash_lookup Z (inv_items iv) (actorGenKey u)")
      case None
      then show ?thesis using items added(2) by (auto simp: inv_abs_def)
    next
      case (Some h)
      then show ?thesis
        using bags_wf_lookup [OF wf(1) Some] items added assms(3) by (auto simp: inv_abs_def)
    qed
  qed
  have "length (inv_bags iv) = 16"
    using wf(1) by (simp add: bags_wf_def)
  then show "map (handleItem st') (bags ! itemCat x) = map (handleItem st) (inv_bags iv ! itemCat x) @ [Some x]"
    using bags_wf_in_bag [OF wf(1) x(2)] added x(2) by (fastforce simp: bags_def)
qed

text \<open>C1: adding an item with a new identifier succeeds, keeps the invariant, makes exactly that
  identifier findable, and puts the item at the end of the bag of its category; with an identifier
  that is already there it fails and the inventory does not change.\<close>

theorem inventoryAddItem_correct:
  assumes "zhash Z" "inv_wf Z iv st" "inv_new_item iv st a x"
  shows "\<exists>ok iv' st'. inventoryAddItem Z iv st a = Inr (ok, iv', st')
    \<and> (if inv_abs Z iv st (itemUid x) = None
       then ok \<and> inv_wf Z iv' st'
            \<and> inv_abs Z iv' st' = (inv_abs Z iv st)(itemUid x \<mapsto> x)
            \<and> map (handleItem st') (inv_bags iv' ! itemCat x) = map (handleItem st) (inv_bags iv ! itemCat x) @ [Some x]
            \<and> inventoryGetItemsCount Z iv' = Suc (inventoryGetItemsCount Z iv)
       else \<not> ok \<and> iv' = iv)"
proof (cases "inv_abs Z iv st (itemUid x) = None")
  case False
  moreover have "bags_wf Z iv st" "st_items st a = Some x"
    using assms(2,3) by (simp_all add: inv_wf_def inv_new_item_def)
  ultimately obtain st' where "inventoryAddItem Z iv st a = Inr (False, iv, st')"
    using inventoryAddItem_dup [OF assms(1)] by blast
  with False show ?thesis
    by (intro exI [of _ False] exI [of _ iv] exI [of _ st']) simp
next
  case True
  have x: "st_items st a = Some x" "itemCat x < 16"
    using assms(3) by (simp_all add: inv_new_item_def)
  have new: "zhash_lookup Z (inv_items iv) (actorGenKey (itemUid x)) = None"
    using True inv_abs_None [of Z iv st] assms(2) by (simp add: inv_wf_def)
  let ?st = "st \<lparr> st_handles := (st_handles st)(st_next st \<mapsto> a), st_next := Suc (st_next st) \<rparr>"
  let ?bags = "(inv_bags iv)[itemCat x := inv_bags iv ! itemCat x @ [st_next st]]"
  from inventoryAddItem_steps [OF assms(1,2) x new] obtain items where
    add: "inventoryAddItem Z iv st a = Inr (True, iv \<lparr> inv_items := items, inv_bags := ?bags \<rparr>, ?st)"
    and items: "zhash_lookup Z items = (zhash_lookup Z (inv_items iv))(actorGenKey (itemUid x) \<mapsto> st_next st)"
    by blast
  have "zhash_size Z items = Suc (zhash_size Z (inv_items iv))"
    using items new by (simp add: zhash.zh_size [OF assms(1)] zhash.zh_finite [OF assms(1)] card_insert_if domIff)
  then show ?thesis
    using True add inv_added_wf [OF assms(2,3) new items] inv_added_view [OF assms(2,3) new items]
    by (intro exI [of _ True] exI [of _ "iv \<lparr> inv_items := items, inv_bags := ?bags \<rparr>"] exI [of _ ?st]) (simp add: inventoryGetItemsCount_def)
qed

section \<open>Removing\<close>

lemma inventoryRemoveItem_steps:
  assumes "zhash Z" "bags_wf Z iv st"
    and "zhash_lookup Z (inv_items iv) (actorGenKey (itemUid x)) = Some h"
    and "st_handles st h = Some a" "st_items st a = Some x" "itemCat x < 16"
  shows "inventoryRemoveItem Z iv st a = Inr (True,
      iv \<lparr> inv_bags := (inv_bags iv)[itemCat x := remove1 h (inv_bags iv ! itemCat x)],
            inv_items := zhash_delete Z (inv_items iv) (actorGenKey (itemUid x)) \<rparr>,
      st \<lparr> st_items := (st_items st)(a := None), st_handles := (st_handles st)(h := None) \<rparr>)"
  using assms by (simp add: inventoryRemoveItem_def derefItem_def derefHandle_def itemHandleDestroy_def
      itemHandleFree_def itemDestroy_def itemGetCategory_def actorGetUId_def itemUid_def itemCat_def
      bags_wf_def Let_def)

lemma inv_wf_remove:
  assumes "zhash Z" and wf: "inv_wf Z iv st"
    and h: "zhash_lookup Z (inv_items iv) (actorGenKey (itemUid x)) = Some h"
    and a: "st_handles st h = Some a" "st_items st a = Some x" "itemCat x < 16"
  defines "iv' \<equiv> iv \<lparr> inv_bags := (inv_bags iv)[itemCat x := remove1 h (inv_bags iv ! itemCat x)],
            inv_items := zhash_delete Z (inv_items iv) (actorGenKey (itemUid x)) \<rparr>"
    and "st' \<equiv> st \<lparr> st_items := (st_items st)(a := None), st_handles := (st_handles st)(h := None) \<rparr>"
  shows "inv_wf Z iv' st'" "inv_abs Z iv' st' = (inv_abs Z iv st)(itemUid x := None)"
proof -
  have bw: "bags_wf Z iv st" and ew: "equipped_wf Z iv st" and fr: "st_fresh st"
    using wf by (simp_all add: inv_wf_def)
  have len: "length (inv_bags iv) = 16"
    using bw by (simp add: bags_wf_def)
  have look: "zhash_lookup Z (inv_items iv') = (zhash_lookup Z (inv_items iv))(actorGenKey (itemUid x) := None)"
    by (simp add: iv'_def zhash.zh_delete [OF assms(1)])
  have hx: "handleItem st h = Some x"
    using a by (simp add: handleItem_def)
  have old: "handleItem st' h' = Some y" if new: "zhash_lookup Z (inv_items iv') k = Some h'" and hy: "handleItem st h' = Some y" for k h' y
  proof -
    have k: "k \<noteq> actorGenKey (itemUid x)" "zhash_lookup Z (inv_items iv) k = Some h'"
      using new look by (auto split: if_splits)
    then have ne: "handleItem st h' \<noteq> handleItem st h"
      using bags_wf_inj [OF bw k(2) h] by auto
    obtain a' where a': "st_handles st h' = Some a'" "st_items st a' = Some y"
      using hy by (auto simp: handleItem_Some)
    with ne hx a have "a' \<noteq> a" "h' \<noteq> h"
      by (auto simp: handleItem_def)
    with a' show ?thesis
      by (simp add: handleItem_def st'_def)
  qed
  have bag: "\<exists>y. handleItem st' h' = Some y \<and> itemObject_wf y \<and> itemCat y = c
      \<and> zhash_lookup Z (inv_items iv') (actorGenKey (itemUid y)) = Some h'"
    if "c < 16" "h' \<in> set (inv_bags iv ! c)" "h' \<noteq> h" for c h'
  proof -
    from bags_wf_in_bag [OF bw that(1,2)] obtain y where y: "handleItem st h' = Some y" "itemObject_wf y"
      "itemCat y = c" "zhash_lookup Z (inv_items iv) (actorGenKey (itemUid y)) = Some h'" by blast
    then have "zhash_lookup Z (inv_items iv') (actorGenKey (itemUid y)) = Some h'"
      using that(3) h look by auto
    then show ?thesis using y old by blast
  qed
  have "h' \<noteq> h" if "c < 16" "h' \<in> set (inv_bags iv' ! c)" for c h'
  proof (cases "c = itemCat x")
    case True
    then show ?thesis using that bw len by (auto simp: iv'_def bags_wf_def)
  next
    case False
    then show ?thesis using that bags_wf_in_bag [OF bw that(1), of h] hx len by (auto simp: iv'_def)
  qed
  moreover have "set (inv_bags iv' ! c) \<subseteq> set (inv_bags iv ! c)" "distinct (inv_bags iv' ! c)" if "c < 16" for c
    using that len bw set_remove1_subset [of h "inv_bags iv ! c"]
    by (cases "c = itemCat x"; auto simp: iv'_def bags_wf_def)+
  moreover have "\<exists>y. handleItem st' h' = Some y \<and> k = actorGenKey (itemUid y) \<and> itemCat y < 16
      \<and> h' \<in> set (inv_bags iv' ! itemCat y)" if "zhash_lookup Z (inv_items iv') k = Some h'" for k h'
  proof -
    have k: "k \<noteq> actorGenKey (itemUid x)" "zhash_lookup Z (inv_items iv) k = Some h'"
      using that look by (auto split: if_splits)
    from bags_wf_lookup [OF bw k(2)] obtain y where y: "handleItem st h' = Some y" "k = actorGenKey (itemUid y)"
      "itemCat y < 16" "h' \<in> set (inv_bags iv ! itemCat y)" by blast
    moreover have "h' \<noteq> h" using bags_wf_inj [OF bw k(2) h] k(1) by auto
    ultimately have "h' \<in> set (inv_bags iv' ! itemCat y)"
      using len by (cases "itemCat y = itemCat x") (auto simp: iv'_def)
    then show ?thesis
      using old [OF that y(1)] y by blast
  qed
  ultimately have "bags_wf Z iv' st'"
    using bag len by (intro bags_wfI) (auto simp: iv'_def subset_iff)
  moreover have "equipped_wf Z iv' st'"
  proof (rule equipped_wfI)
    show "length (inv_equippedItems iv') = 20"
      using ew by (simp add: iv'_def equipped_wf_def)
  next
    fix i b
    assume i: "i < 20" "inv_equippedItems iv' ! i = Some b"
    note eq = equipped_wf_item [OF ew i(1), of b]
    from i eq h a have "b \<noteq> a" by (auto simp: iv'_def)
    then show "\<exists>y. st_items st' b = Some y \<and> itemObject_wf y \<and> itemEquipable y \<noteq> None"
      using eq i by (auto simp: iv'_def st'_def)
    show "st_handles st' h' \<noteq> Some b" if "zhash_lookup Z (inv_items iv') k = Some h'" for k h'
      using eq i that look by (auto simp: iv'_def st'_def split: if_splits)
    show "j = i" if "j < 20" "inv_equippedItems iv' ! j = Some b" for j
      using equipped_wf_inj [OF ew i(1) that(1)] i(2) that(2) by (simp add: iv'_def)
  qed
  moreover have "st_fresh st'"
    using fr by (auto simp: st_fresh_def st'_def split: if_splits)
  ultimately show "inv_wf Z iv' st'"
    by (simp add: inv_wf_def)
  show "inv_abs Z iv' st' = (inv_abs Z iv st)(itemUid x := None)"
  proof
    fix u
    show "inv_abs Z iv' st' u = ((inv_abs Z iv st)(itemUid x := None)) u"
      using old [of "actorGenKey u"] bags_wf_lookup [OF bw, of "actorGenKey u"] look
      by (cases "zhash_lookup Z (inv_items iv) (actorGenKey u)") (auto simp: inv_abs_def)
  qed
qed

lemma inventoryRemoveItem_frees:
  assumes "zhash Z" "inv_wf Z iv st" "inv_abs Z iv st uid = Some x"
    and "inventoryGetItemByActorId Z iv st uid = Inr (Some a)"
  shows "\<exists>iv' st'. inventoryRemoveItem Z iv st a = Inr (True, iv', st')
    \<and> inv_wf Z iv' st' \<and> inv_abs Z iv' st' = (inv_abs Z iv st)(uid := None)
    \<and> derefItem st' a = Inl UseAfterFree \<and> inv_equippedItems iv' = inv_equippedItems iv"
proof -
  have bw: "bags_wf Z iv st" using assms(2) by (simp add: inv_wf_def)
  have uid: "itemUid x = uid" by (rule inv_abs_uid [OF bw assms(3)])
  obtain h where h: "zhash_lookup Z (inv_items iv) (actorGenKey (itemUid x)) = Some h"
    "st_handles st h = Some a" "st_items st a = Some x"
    using assms(3,4) uid by (auto simp: inv_abs_def inventoryGetItemByActorId_def bind_eq_Some_conv
        handleItem_Some derefHandle_def)
  have "itemCat x < 16"
    using bags_wf_lookup [OF bw h(1)] h by (auto simp: handleItem_Some)
  with inventoryRemoveItem_steps [OF assms(1) bw h] inv_wf_remove [OF assms(1,2) h] uid
  show ?thesis
    by (simp add: derefItem_def)
qed

text \<open>C18: removing an item that is in the inventory keeps the invariant and makes exactly its
  identifier unfindable; the item itself is freed, so the caller's pointer to it is dead.\<close>

theorem inventoryRemoveItem_correct:
  assumes "zhash Z" "inv_wf Z iv st" "inv_abs Z iv st uid = Some x"
    and "inventoryGetItemByActorId Z iv st uid = Inr (Some a)"
  shows "\<exists>iv' st'. inventoryRemoveItem Z iv st a = Inr (True, iv', st')
    \<and> inv_wf Z iv' st' \<and> inv_abs Z iv' st' = (inv_abs Z iv st)(uid := None)
    \<and> derefItem st' a = Inl UseAfterFree \<and> inv_equippedItems iv' = inv_equippedItems iv"
  by (rule inventoryRemoveItem_frees [OF assms])

section \<open>Equipping\<close>

lemma itemSetEquipable_simps:
  "itemEquipable x = Some e \<Longrightarrow> equipable_item e' = equipable_item e \<Longrightarrow>
   itemUid (itemSetEquipable x e') = itemUid x \<and> itemCat (itemSetEquipable x e') = itemCat x
   \<and> itemObject_wf (itemSetEquipable x e') = itemObject_wf x
   \<and> itemEquipable (itemSetEquipable x e') = Some e'"
  by (cases x) (auto simp: itemEquipable_def itemSetEquipable_def itemObject_wf_def itemBase_def
      itemClass_def itemUid_def itemCat_def)

lemma itemObject_wf_cat: "itemObject_wf x \<Longrightarrow> itemCat x < 16"
  by (cases x) (auto simp: itemObject_wf_def itemCat_def itemClass_def)

text \<open>Writing the slot of an item changes neither its key nor its bag.\<close>

lemma bags_wf_writeSlot:
  assumes bw: "bags_wf Z iv st" and x: "st_items st a = Some x" "itemEquipable x = Some e" "itemObject_wf x"
  shows "bags_wf Z iv (st \<lparr> st_items := (st_items st)(a \<mapsto> itemSetEquipable x (e \<lparr> equipable_slot := s \<rparr>)) \<rparr>)"
    (is "bags_wf Z iv ?st")
proof -
  have *: "\<exists>y'. handleItem ?st h = Some y' \<and> itemUid y' = itemUid y \<and> itemCat y' = itemCat y
      \<and> (itemObject_wf y \<longrightarrow> itemObject_wf y')" if "handleItem st h = Some y" for h y
  proof (cases "st_handles st h = Some a")
    case True
    then show ?thesis
      using that x itemSetEquipable_simps [OF x(2), of "e \<lparr> equipable_slot := s \<rparr>"]
      by (simp add: handleItem_def)
  next
    case False
    then have "handleItem ?st h = Some y"
      using that by (auto simp: handleItem_Some)
    then show ?thesis by blast
  qed
  show ?thesis
  proof (rule bags_wfI)
    fix c h assume "c < 16" "h \<in> set (inv_bags iv ! c)"
    from bags_wf_in_bag [OF bw this] * show "\<exists>y. handleItem ?st h = Some y \<and> itemObject_wf y
        \<and> itemCat y = c \<and> zhash_lookup Z (inv_items iv) (actorGenKey (itemUid y)) = Some h"
      by metis
  next
    fix k h assume "zhash_lookup Z (inv_items iv) k = Some h"
    from bags_wf_lookup [OF bw this] * show "\<exists>y. handleItem ?st h = Some y \<and> k = actorGenKey (itemUid y)
        \<and> itemCat y < 16 \<and> h \<in> set (inv_bags iv ! itemCat y)"
      by metis
  qed (use bw in \<open>auto simp: bags_wf_def\<close>)
qed

lemma equipped_wf_writeSlot:
  assumes ew: "equipped_wf Z iv st" and x: "st_items st a = Some x" "itemEquipable x = Some e"
  shows "equipped_wf Z iv (st \<lparr> st_items := (st_items st)(a \<mapsto> itemSetEquipable x (e \<lparr> equipable_slot := s \<rparr>)) \<rparr>)"
proof (rule equipped_wfI)
  fix i b assume i: "i < 20" "inv_equippedItems iv ! i = Some b"
  show "\<exists>y. st_items (st \<lparr> st_items := (st_items st)(a \<mapsto> itemSetEquipable x (e \<lparr> equipable_slot := s \<rparr>)) \<rparr>) b
      = Some y \<and> itemObject_wf y \<and> itemEquipable y \<noteq> None"
    using equipped_wf_item [OF ew i] x itemSetEquipable_simps [OF x(2), of "e \<lparr> equipable_slot := s \<rparr>"]
    by auto
  show "j = i" if "j < 20" "inv_equippedItems iv ! j = Some b" for j
    using equipped_wf_inj [OF ew i(1) that(1) i(2) that(2)] .
qed (use ew equipped_wf_item [OF ew] in \<open>auto simp: equipped_wf_def\<close>)

lemma st_fresh_items: "st_fresh st \<Longrightarrow> st_items st a = Some x \<Longrightarrow> st_fresh (st \<lparr> st_items := (st_items st)(a \<mapsto> y) \<rparr>)"
  by (auto simp: st_fresh_def)

lemma bags_wf_equipped [simp]: "bags_wf Z (iv \<lparr> inv_equippedItems := eq \<rparr>) st = bags_wf Z iv st"
  by (simp add: bags_wf_def)

lemma writeSlot_wf:
  fixes s :: byte
  assumes "inv_wf Z iv st" "st_items st a = Some x" "itemEquipable x = Some e" "itemObject_wf x"
  defines "st' \<equiv> st \<lparr> st_items := (st_items st)(a \<mapsto> itemSetEquipable x (e \<lparr> equipable_slot := s \<rparr>)) \<rparr>"
  shows "writeSlot st a s = Inr st'" "inv_wf Z iv st'"
  using assms bags_wf_writeSlot [of Z iv st a x e s] equipped_wf_writeSlot [of Z iv st a x e s]
    st_fresh_items [of st a x]
  by (simp_all add: inv_wf_def writeSlot_def derefItem_def)

text \<open>An unequipped item in its bag again, before its slot is written.\<close>

lemma inv_unequipped_wf:
  assumes "inv_wf Z iv st" "unat slot < 20" "inv_equippedItems iv ! unat slot = Some a" "st_items st a = Some x" "itemObject_wf x"
    and new: "zhash_lookup Z (inv_items iv) (actorGenKey (itemUid x)) = None"
    and items: "zhash_lookup Z items = (zhash_lookup Z (inv_items iv))(actorGenKey (itemUid x) \<mapsto> st_next st)"
  shows "inv_wf Z (iv \<lparr> inv_items := items, inv_bags := (inv_bags iv)[itemCat x := inv_bags iv ! itemCat x @ [st_next st]],
      inv_equippedItems := (inv_equippedItems iv)[unat slot := None] \<rparr>)
    (st \<lparr> st_handles := (st_handles st)(st_next st \<mapsto> a), st_next := Suc (st_next st) \<rparr>)" (is "inv_wf Z ?iv ?st")
proof -
  have bw: "bags_wf Z iv st" and ew: "equipped_wf Z iv st" and fr: "st_fresh st"
    using assms(1) by (simp_all add: inv_wf_def)
  have len: "length (inv_equippedItems iv) = 20"
    using ew by (simp add: equipped_wf_def)
  have "bags_wf Z ?iv ?st"
    using bags_wf_add [OF bw fr assms(4,5) itemObject_wf_cat [OF assms(5)] new items] by simp
  moreover have "equipped_wf Z ?iv ?st"
  proof (rule equipped_wf_add [OF ew fr bw])
    fix i c assume i: "i < 20" "inv_equippedItems ?iv ! i = Some c"
    then have "i \<noteq> unat slot" "inv_equippedItems iv ! i = Some c"
      using len assms(2) by (auto simp: nth_list_update split: if_splits)
    then show "inv_equippedItems iv ! i = Some c \<and> c \<noteq> a"
      using equipped_wf_inj [OF ew assms(2) i(1), of a] assms(3) by auto
  qed (use items len in simp_all)
  ultimately show ?thesis
    using st_fresh_handle [OF fr] by (simp add: inv_wf_def)
qed

text \<open>C11: unequipping an item whose identifier is in no bag keeps the invariant, frees the slot
  and makes the item findable again, with no slot; when the identifier is taken it fails and the
  inventory does not change.\<close>

theorem inventoryUnequipItem_correct:
  assumes "zhash Z" "inv_wf Z iv st" "unat slot < 20"
    and slot: "inv_equippedItems iv ! unat slot = Some a" and xa: "st_items st a = Some x"
  shows "\<exists>ok iv' st'. inventoryUnequipItem Z iv st slot = Inr (ok, iv', st')
    \<and> (if inv_abs Z iv st (itemUid x) = None
       then ok \<and> inv_wf Z iv' st' \<and> inv_equippedItems iv' = (inv_equippedItems iv)[unat slot := None]
         \<and> (\<exists>y. inv_abs Z iv' st' (itemUid x) = Some y \<and> st_items st' a = Some y
              \<and> map_option equipable_slot (itemEquipable y) = Some EQSLOT_NOSLOT)
       else \<not> ok \<and> iv' = iv)"
proof -
  have bw: "bags_wf Z iv st" and ew: "equipped_wf Z iv st"
    using assms(2) by (simp_all add: inv_wf_def)
  have len: "length (inv_equippedItems iv) = 20"
    using ew by (simp add: equipped_wf_def)
  obtain e where x: "itemObject_wf x" "itemEquipable x = Some e"
    using equipped_wf_item [OF ew assms(3) slot] xa by auto
  show ?thesis
  proof (cases "inv_abs Z iv st (itemUid x) = None")
    case False
    then obtain st' where "inventoryAddItem Z iv st a = Inr (False, iv, st')"
      using inventoryAddItem_dup [OF assms(1) bw _ xa] by blast
    then show ?thesis
      using False slot len assms(3) by (intro exI [of _ False] exI [of _ iv] exI [of _ st'])
        (simp add: inventoryUnequipItem_def)
  next
    case True
    have cat: "itemCat x < 16" by (rule itemObject_wf_cat [OF x(1)])
    have new: "zhash_lookup Z (inv_items iv) (actorGenKey (itemUid x)) = None"
      using True inv_abs_None [OF bw] by simp
    let ?st = "st \<lparr> st_handles := (st_handles st)(st_next st \<mapsto> a), st_next := Suc (st_next st) \<rparr>"
    let ?y = "itemSetEquipable x (e \<lparr> equipable_slot := EQSLOT_NOSLOT \<rparr>)"
    let ?st' = "?st \<lparr> st_items := (st_items st)(a \<mapsto> ?y) \<rparr>"
    let ?bags = "(inv_bags iv)[itemCat x := inv_bags iv ! itemCat x @ [st_next st]]"
    from inventoryAddItem_steps [OF assms(1,2) xa cat new] obtain items where
      add: "inventoryAddItem Z iv st a = Inr (True, iv \<lparr> inv_items := items, inv_bags := ?bags \<rparr>, ?st)"
      and items: "zhash_lookup Z items = (zhash_lookup Z (inv_items iv))(actorGenKey (itemUid x) \<mapsto> st_next st)"
      by blast
    let ?iv = "iv \<lparr> inv_items := items, inv_bags := ?bags \<rparr>"
    let ?iv' = "?iv \<lparr> inv_equippedItems := (inv_equippedItems iv)[unat slot := None] \<rparr>"
    have run: "inventoryUnequipItem Z iv st slot = Inr (True, ?iv', ?st')"
      using add slot len assms(3) xa x(2) by (simp add: inventoryUnequipItem_def writeSlot_def derefItem_def)
    have "inv_wf Z ?iv' ?st'"
      using writeSlot_wf(2) [OF inv_unequipped_wf [OF assms(2,3) slot xa x(1) new items] _ x(2,1), of a] xa by simp
    moreover have "inv_abs Z ?iv' ?st' (itemUid x) = Some ?y"
      using items by (simp add: inv_abs_def handleItem_def)
    moreover have "itemEquipable ?y = Some (e \<lparr> equipable_slot := EQSLOT_NOSLOT \<rparr>)"
      using itemSetEquipable_simps [OF x(2)] by simp
    ultimately show ?thesis
      using run True by (intro exI [of _ True] exI [of _ ?iv'] exI [of _ ?st']) simp
  qed
qed

lemma derefAll_dangling:
  "a \<in> set as \<Longrightarrow> st_items st a = None \<Longrightarrow> derefAll st as = Inl UseAfterFree"
  by (induction as) (auto simp: derefItem_def split: option.split)

text \<open>Equipping an item of the bags into an empty slot reports success and leaves in the slot a
  pointer to memory that \<open>inventoryRemoveItem\<close> has freed: every later use of the equipment, such as
  writing the inventory to a packet, is a use after free.\<close>

theorem inventoryEquipItem_dangling:
  assumes "zhash Z" "inv_wf Z iv st" "unat slot < 20" "inv_equippedItems iv ! unat slot = None"
    and "inv_abs Z iv st uid = Some x" "itemEquipable x = Some e"
  shows "\<exists>iv' st' a. inventoryEquipItem Z iv st uid slot = Inr (True, iv', st')
    \<and> inv_equippedItems iv' ! unat slot = Some a \<and> derefItem st' a = Inl UseAfterFree
    \<and> (\<forall>stream. inventorySerializeSPacket Z iv' st' stream = Inl UseAfterFree)"
proof -
  have bw: "bags_wf Z iv st" and ew: "equipped_wf Z iv st"
    using assms(2) by (simp_all add: inv_wf_def)
  have len: "length (inv_equippedItems iv) = 20"
    using ew by (simp add: equipped_wf_def)
  obtain h a where h: "zhash_lookup Z (inv_items iv) (actorGenKey uid) = Some h" "st_handles st h = Some a"
    "st_items st a = Some x"
    using assms(5) by (auto simp: inv_abs_def bind_eq_Some_conv handleItem_Some)
  have x: "itemUid x = uid" "itemCat x < 16" "itemObject_wf x"
    using bags_wf_lookup [OF bw h(1)] bags_wf_in_bag [OF bw] h by (fastforce simp: handleItem_Some)+
  let ?y = "itemSetEquipable x (e \<lparr> equipable_slot := slot \<rparr>)"
  let ?st = "st \<lparr> st_items := (st_items st)(a \<mapsto> ?y) \<rparr>"
  let ?iv = "iv \<lparr> inv_equippedItems := (inv_equippedItems iv)[unat slot := Some a] \<rparr>"
  have y: "itemUid ?y = uid" "itemCat ?y = itemCat x"
    using itemSetEquipable_simps [OF assms(6), of "e \<lparr> equipable_slot := slot \<rparr>"] x by simp_all
  have wr: "writeSlot st a slot = Inr ?st" "bags_wf Z ?iv ?st"
    using writeSlot_wf [OF assms(2) h(3) assms(6) x(3), of slot] by (simp_all add: inv_wf_def)
  let ?iv' = "?iv \<lparr> inv_bags := (inv_bags iv)[itemCat x := remove1 h (inv_bags iv ! itemCat x)],
      inv_items := zhash_delete Z (inv_items iv) (actorGenKey uid) \<rparr>"
  let ?st' = "?st \<lparr> st_items := (st_items ?st)(a := None), st_handles := (st_handles st)(h := None) \<rparr>"
  have "inventoryRemoveItem Z ?iv ?st a = Inr (True, ?iv', ?st')"
    using inventoryRemoveItem_steps [OF assms(1) wr(2), of ?y h a] h x y by simp
  then have run: "inventoryEquipItem Z iv st uid slot = Inr (True, ?iv', ?st')"
    using h assms(3,4) len wr(1)
    by (simp add: inventoryEquipItem_def inventoryGetItemByActorId_def derefHandle_def derefItem_def)
  have "a \<in> set (equippedAddrs ?iv')"
    using assms(3) len set_update_memI [of "unat slot" "inv_equippedItems iv" "Some a"]
    by (force simp: equippedAddrs_def)
  then have "derefAll ?st' (equippedAddrs ?iv') = Inl UseAfterFree"
    by (rule derefAll_dangling) simp
  then have "inventorySerializeSPacket Z ?iv' ?st' stream = Inl UseAfterFree" for stream
    by (simp add: inventorySerializeSPacket_def inventoryGetSPacketSize_def)
  then show ?thesis
    using run assms(3) len by (intro exI [of _ ?iv'] exI [of _ ?st'] exI [of _ a]) (simp add: derefItem_def)
qed

section \<open>Swapping and indexing\<close>

text \<open>Swapping two items of a category exchanges what their identifiers find: the table still has
  the old keys, so each identifier now finds the other item and the invariant is lost.\<close>

theorem inventorySwapItems_keys:
  assumes "inv_wf Z iv st" "inv_abs Z iv st uid1 = Some x1" "inv_abs Z iv st uid2 = Some x2"
    and "itemCat x1 = itemCat x2" "uid1 \<noteq> uid2"
  shows "\<exists>st'. inventorySwapItems Z iv st uid1 uid2 = Inr (True, st')
    \<and> inv_abs Z iv st' uid1 = Some x2 \<and> inv_abs Z iv st' uid2 = Some x1 \<and> \<not> inv_wf Z iv st'"
proof -
  have bw: "bags_wf Z iv st" using assms(1) by (simp add: inv_wf_def)
  obtain h1 a1 where h1: "zhash_lookup Z (inv_items iv) (actorGenKey uid1) = Some h1"
    "st_handles st h1 = Some a1" "st_items st a1 = Some x1"
    using assms(2) by (auto simp: inv_abs_def bind_eq_Some_conv handleItem_Some)
  obtain h2 a2 where h2: "zhash_lookup Z (inv_items iv) (actorGenKey uid2) = Some h2"
    "st_handles st h2 = Some a2" "st_items st a2 = Some x2"
    using assms(3) by (auto simp: inv_abs_def bind_eq_Some_conv handleItem_Some)
  have "h1 \<noteq> h2"
    using bags_wf_inj [OF bw h1(1) h2(1)] assms(5) by auto
  let ?st = "st \<lparr> st_handles := (st_handles st)(h1 \<mapsto> a2, h2 \<mapsto> a1) \<rparr>"
  have swap: "inventorySwapItems Z iv st uid1 uid2 = Inr (True, ?st)"
    using h1 h2 assms(4) by (simp add: inventorySwapItems_def derefHandle_def derefItem_def
        itemGetCategory_def itemCat_def word_unat_eq_iff)
  have abs: "inv_abs Z iv ?st uid1 = Some x2" "inv_abs Z iv ?st uid2 = Some x1"
    using h1 h2 \<open>h1 \<noteq> h2\<close> by (simp_all add: inv_abs_def handleItem_def)
  have "itemUid x2 = uid2"
    by (rule inv_abs_uid [OF bw assms(3)])
  then have "\<not> inv_wf Z iv ?st"
    using abs(1) inv_abs_uid [of Z iv ?st uid1 x2] assms(5) by (auto simp: inv_wf_def)
  with swap abs show ?thesis by blast
qed

text \<open>Swapping dereferences NULL when one of the identifiers is not in the inventory.\<close>

theorem inventorySwapItems_missing:
  assumes "inv_wf Z iv st" "inv_abs Z iv st uid1 = None \<or> inv_abs Z iv st uid2 = None"
  shows "inventorySwapItems Z iv st uid1 uid2 = Inl NullDeref"
  using assms by (auto simp: inv_wf_def inv_abs_None inventorySwapItems_def split: option.splits)

lemma bagIndexLoop_found:
  assumes "k < length bag" "handleItem st (bag ! k) = Some x"
    and "\<forall>h \<in> set bag. \<exists>y. handleItem st h = Some y"
    and "\<forall>j < k. \<forall>y. handleItem st (bag ! j) = Some y \<longrightarrow> itemUid y \<noteq> itemUid x"
  shows "bagIndexLoop st c (itemUid x) i bag = Inr (5000 * uint c + i + int k)"
  using assms
proof (induction bag arbitrary: i k)
  case (Cons h bag)
  obtain y where y: "handleItem st h = Some y" using Cons.prems(3) by auto
  then have d: "derefHandleItem st h = Inr y"
    by (auto simp: derefHandleItem_def derefHandle_def derefItem_def handleItem_Some)
  show ?case
  proof (cases k)
    case 0
    then show ?thesis
      using Cons.prems(2) d y by (simp add: itemUid_def actorGetUId_def)
  next
    case (Suc j)
    have "itemUid y \<noteq> itemUid x"
      using Cons.prems(4) y Suc by auto
    moreover have "bagIndexLoop st c (itemUid x) (i + 1) bag = Inr (5000 * uint c + (i + 1) + int j)"
      using Cons.prems Suc by (intro Cons.IH) auto
    ultimately show ?thesis
      using d Suc by (simp add: itemUid_def actorGetUId_def algebra_simps)
  qed
qed simp

lemma bagIndexLoop_missing:
  assumes "\<forall>h \<in> set bag. \<exists>y. handleItem st h = Some y \<and> itemUid y \<noteq> uid"
  shows "bagIndexLoop st c uid i bag = Inr (-1)"
  using assms by (induction bag arbitrary: i)
    (auto simp: derefHandleItem_def derefHandle_def derefItem_def handleItem_Some itemUid_def actorGetUId_def)

lemma inventoryGetBagIndex_found:
  assumes "bags_wf Z iv st" "unat c < 16" "k < length (inv_bags iv ! unat c)"
    and "handleItem st (inv_bags iv ! unat c ! k) = Some x"
  shows "inventoryGetBagIndexByActorId iv st c (itemUid x) = Inr (5000 * uint c + int k + 1)"
proof -
  let ?bag = "inv_bags iv ! unat c"
  have len: "length (inv_bags iv) = 16" and dist: "distinct ?bag"
    using assms(1,2) by (auto simp: bags_wf_def)
  have inb: "\<exists>y. handleItem st h = Some y \<and> zhash_lookup Z (inv_items iv) (actorGenKey (itemUid y)) = Some h"
    if "h \<in> set ?bag" for h
    using bags_wf_in_bag [OF assms(1,2) that] by blast
  have "itemUid y \<noteq> itemUid x" if "j < k" "handleItem st (?bag ! j) = Some y" for j y
  proof
    assume "itemUid y = itemUid x"
    then have "?bag ! j = ?bag ! k"
      using inb [of "?bag ! j"] inb [of "?bag ! k"] assms(3,4) that by auto
    then show False
      using dist assms(3) that(1) by (auto simp: nth_eq_iff_index_eq)
  qed
  then show ?thesis
    using bagIndexLoop_found [of k ?bag st x c 1] assms(2-4) inb len
    by (fastforce simp: inventoryGetBagIndexByActorId_def)
qed

lemma inventoryGetBagIndex_missing:
  assumes "bags_wf Z iv st" "unat c < 16" "inv_abs Z iv st uid = None"
  shows "inventoryGetBagIndexByActorId iv st c uid = Inr (-1)"
proof -
  have "zhash_lookup Z (inv_items iv) (actorGenKey uid) = None"
    using inv_abs_None [OF assms(1)] assms(3) by simp
  then have "\<exists>y. handleItem st h = Some y \<and> itemUid y \<noteq> uid" if "h \<in> set (inv_bags iv ! unat c)" for h
    using bags_wf_in_bag [OF assms(1,2) that] by auto
  then show ?thesis
    using assms(1,2) by (simp add: inventoryGetBagIndexByActorId_def bagIndexLoop_missing bags_wf_def)
qed

text \<open>The bag index the client is told is 5000 times the category plus the position of the item in
  its bag, counted from 1; it is -1 when the identifier is not in the inventory.\<close>

theorem inventoryGetBagIndex_correct:
  assumes "inv_wf Z iv st" "unat c < 16"
  shows "(\<forall>k x. k < length (inv_bags iv ! unat c) \<and> handleItem st (inv_bags iv ! unat c ! k) = Some x \<longrightarrow>
        inventoryGetBagIndexByActorId iv st c (itemUid x) = Inr (5000 * uint c + int k + 1))
    \<and> (\<forall>uid. inv_abs Z iv st uid = None \<longrightarrow> inventoryGetBagIndexByActorId iv st c uid = Inr (-1))"
  using assms inventoryGetBagIndex_found inventoryGetBagIndex_missing by (auto simp: inv_wf_def)

end
