(* ===== verification/InventorySer.thy ===== *)
theory InventorySer
  imports InventoryInv
begin

text \<open>
  The inventory in a packet stream: what \<open>inventorySerializeSPacket\<close> writes, that its size is the
  announced one, and what \<open>inventoryUnserializeSPacket\<close> gets back. The reader of an item looks at the
  bytes behind it to find out whether an optional property follows; between items these are the low
  bytes of the next actor identifier or of the item count, hence \<open>uidSafe\<close>.
\<close>

definition propertyIds :: "u16 set" where
  "propertyIds = {3750, 3779, 3768, 3843, 3796, 3858, 3703, 3792, 3852, 3972, 3975, 3978, 3781}"

definition uidSafe :: "u64 \<Rightarrow> bool" where
  "uidSafe u \<longleftrightarrow> (ucast u :: u16) \<notin> propertyIds"

definition tailSafe :: "bytes \<Rightarrow> bool" where
  "tailSafe m \<longleftrightarrow> 2 \<le> length m \<and> dec16 m \<notin> propertyIds"

lemma tailSafe_itemTailOk: "tailSafe m \<Longrightarrow> itemTailOk x m"
  by (cases x) (auto simp: tailSafe_def propertyIds_def itemTailOk_def notTagged_def
      itemConsumableTailOk_def itemArmorTailOk_def itemQuestTailOk_def itemBookTailOk_def
      itemMaterialTailOk_def itemGemTailOk_def itemWeaponTailOk_def itemCardTailOk_def
      itemAccessoryTailOk_def itemSubWeaponTailOk_def itemCurrencyTailOk_def)

lemma dec16_le_bytes: "2 \<le> n \<Longrightarrow> dec16 (le_bytes n w @ m) = ucast (w :: 'a::len word)"
proof -
  assume "2 \<le> n"
  then obtain k where n: "n = Suc (Suc k)"
    by (metis add_2_eq_Suc le_Suc_ex)
  show ?thesis
    by (rule bit_eqI) (auto simp: n dec16_def numeral_2_eq_2 bit_simps not_less)
qed

lemma tailSafe_uid: "uidSafe u \<Longrightarrow> tailSafe (enc64 u @ m)"
  by (simp add: uidSafe_def tailSafe_def enc64_def dec16_le_bytes del: le_bytes_numeral)

lemma tailSafe_item: "uidSafe (itemUid x) \<Longrightarrow> tailSafe (itemEnc x @ m)"
  by (simp add: itemEnc_def tailSafe_uid itemUid_def)

lemma tailSafe_count:
  assumes "n < 3703"
  shows "tailSafe (enc32 (of_nat n) @ m)"
proof -
  have "unat (ucast (of_nat n :: u32) :: u16) = n"
    using assms by (simp add: unsigned_ucast_eq unsigned_of_nat take_bit_nat_eq_self)
  then have "(ucast (of_nat n :: u32) :: u16) \<notin> propertyIds"
    using assms by (auto simp: propertyIds_def)
  then show ?thesis
    by (simp add: tailSafe_def enc32_def dec16_le_bytes del: le_bytes_numeral)
qed

section \<open>What is written\<close>

definition invEnc :: "ItemObject list \<Rightarrow> ItemObject list \<Rightarrow> bytes" where
  "invEnc equipped items = enc32 (of_nat (length equipped)) @ concat (map itemEnc equipped)
     @ enc32 (of_nat (length items)) @ concat (map itemEnc items)"

text \<open>The equipped items by slot and the bag items by category.\<close>

definition eqItems :: "'h Inventory \<Rightarrow> Store \<Rightarrow> ItemObject list" where
  "eqItems iv st = map (\<lambda>a. the (st_items st a)) (equippedAddrs iv)"

definition bagItems :: "'h Inventory \<Rightarrow> Store \<Rightarrow> ItemObject list" where
  "bagItems iv st = map (\<lambda>h. the (handleItem st h)) (concat (inv_bags iv))"

lemma derefAll_ok: "\<forall>a \<in> set as. st_items st a \<noteq> None \<Longrightarrow> derefAll st as = Inr (map (\<lambda>a. the (st_items st a)) as)"
  by (induction as) (auto simp: derefItem_def)

lemma derefHandles_ok:
  "\<forall>h \<in> set hs. handleItem st h \<noteq> None \<Longrightarrow> derefHandles st hs = Inr (map (\<lambda>h. the (handleItem st h)) hs)"
  by (induction hs) (auto simp: derefHandleItem_def derefHandle_def derefItem_def handleItem_def
      bind_eq_Some_conv)

lemma equippedAddrs_wf:
  assumes "equipped_wf Z iv st" "a \<in> set (equippedAddrs iv)"
  shows "\<exists>x. st_items st a = Some x \<and> itemObject_wf x \<and> itemEquipable x \<noteq> None"
proof -
  obtain i where "i < 20" "inv_equippedItems iv ! i = Some a"
    using assms by (auto simp: equippedAddrs_def in_set_conv_nth equipped_wf_def)
  then show ?thesis
    using equipped_wf_item [OF assms(1)] by blast
qed

lemma concat_bags_mem:
  assumes "bags_wf Z iv st" "h \<in> set (concat (inv_bags iv))"
  obtains x where "handleItem st h = Some x" "itemObject_wf x" "itemCat x < 16"
    "h \<in> set (inv_bags iv ! itemCat x)" "zhash_lookup Z (inv_items iv) (actorGenKey (itemUid x)) = Some h"
proof -
  have "length (inv_bags iv) = 16"
    using assms(1) by (simp add: bags_wf_def)
  then obtain c where "c < 16" "h \<in> set (inv_bags iv ! c)"
    using assms(2) by (metis in_set_conv_nth set_concat UN_E)
  then show thesis
    using bags_wf_in_bag [OF assms(1)] that by blast
qed

text \<open>The table has one key per handle in the bags: the count that is written is the number of items.\<close>

lemma distinct_concat_bags: "bags_wf Z iv st \<Longrightarrow> distinct (concat (inv_bags iv))"
proof (rule distinct_concat_nth)
  assume bw: "bags_wf Z iv st"
  then have len: "length (inv_bags iv) = 16" by (simp add: bags_wf_def)
  show "i = j" if "i < length (inv_bags iv)" "j < length (inv_bags iv)" "h \<in> set (inv_bags iv ! i)"
    "h \<in> set (inv_bags iv ! j)" for i j h
    using bags_wf_in_bag [OF bw, of i h] bags_wf_in_bag [OF bw, of j h] that len by auto
qed (simp add: bags_wf_def)

lemma items_count:
  assumes "zhash Z" "bags_wf Z iv st"
  shows "inventoryGetItemsCount Z iv = length (concat (inv_bags iv))"
proof -
  let ?key = "\<lambda>h. actorGenKey (itemUid (the (handleItem st h)))"
  let ?hs = "set (concat (inv_bags iv))"
  have "dom (zhash_lookup Z (inv_items iv)) = ?key ` ?hs"
  proof (intro equalityI subsetI)
    fix k assume "k \<in> dom (zhash_lookup Z (inv_items iv))"
    then obtain h where "zhash_lookup Z (inv_items iv) k = Some h" by auto
    from bags_wf_lookup [OF assms(2) this] obtain x where x: "handleItem st h = Some x"
      "k = actorGenKey (itemUid x)" "itemCat x < 16" "h \<in> set (inv_bags iv ! itemCat x)" by blast
    have "h \<in> ?hs"
      using x assms(2) by (auto simp: bags_wf_def)
    then show "k \<in> ?key ` ?hs"
      using x by force
  next
    fix k assume "k \<in> ?key ` ?hs"
    then obtain h where h: "h \<in> ?hs" "k = ?key h" by blast
    from concat_bags_mem [OF assms(2) h(1)] h(2) show "k \<in> dom (zhash_lookup Z (inv_items iv))"
      by (metis domI option.sel)
  qed
  moreover have "inj_on ?key ?hs"
  proof (rule inj_onI)
    fix h h' assume h: "h \<in> ?hs" "h' \<in> ?hs" "?key h = ?key h'"
    obtain x where "handleItem st h = Some x" "zhash_lookup Z (inv_items iv) (actorGenKey (itemUid x)) = Some h"
      using concat_bags_mem [OF assms(2) h(1)] by blast
    moreover obtain x' where "handleItem st h' = Some x'" "zhash_lookup Z (inv_items iv) (actorGenKey (itemUid x')) = Some h'"
      using concat_bags_mem [OF assms(2) h(2)] by blast
    ultimately show "h = h'" using h(3) by simp
  qed
  ultimately show ?thesis
    using distinct_card [OF distinct_concat_bags [OF assms(2)]]
    by (simp add: inventoryGetItemsCount_def zhash.zh_size [OF assms(1)] card_image)
qed

lemma eqItems_count: "inventoryGetEquipmentCount iv = length (eqItems iv st)"
  by (simp add: inventoryGetEquipmentCount_def eqItems_def equippedAddrs_def)

lemma inventorySerialize_ok:
  assumes "zhash Z" "inv_wf Z iv st" "ps_wf s"
    and "length (invEnc (eqItems iv st) (bagItems iv st)) \<le> ps_room s"
  shows "inventoryGetSPacketSize iv st = Inr (length (invEnc (eqItems iv st) (bagItems iv st)))
    \<and> (\<exists>s'. inventorySerializeSPacket Z iv st s = Inr s'
          \<and> ps_appends s (invEnc (eqItems iv st) (bagItems iv st)) s')"
proof
  have bw: "bags_wf Z iv st" and ew: "equipped_wf Z iv st"
    using assms(2) by (simp_all add: inv_wf_def)
  have eq: "derefAll st (equippedAddrs iv) = Inr (eqItems iv st)"
    unfolding eqItems_def using equippedAddrs_wf [OF ew] by (intro derefAll_ok) fastforce
  have bag: "derefHandles st (concat (inv_bags iv)) = Inr (bagItems iv st)"
    unfolding bagItems_def
  proof (intro derefHandles_ok ballI)
    fix h assume "h \<in> set (concat (inv_bags iv))"
    from concat_bags_mem [OF bw this] show "handleItem st h \<noteq> None" by blast
  qed
  have n: "inventoryGetItemsCount Z iv = length (bagItems iv st)"
    using items_count [OF assms(1) bw] by (simp add: bagItems_def)
  show size: "inventoryGetSPacketSize iv st = Inr (length (invEnc (eqItems iv st) (bagItems iv st)))"
    using eq bag by (simp add: inventoryGetSPacketSize_def invEnc_def item_ser.sum_sz)
  let ?s = "packetStreamDebugStart s (length (invEnc (eqItems iv st) (bagItems iv st))) ''inventorySerializeSPacket''"
  let ?s1 = "packetStreamAppend ?s (enc32 (of_nat (length (eqItems iv st))))"
  let ?s2 = "fold itemSerializeSPacket (eqItems iv st) ?s1"
  let ?s3 = "packetStreamAppend ?s2 (enc32 (of_nat (length (bagItems iv st))))"
  let ?s4 = "fold itemSerializeSPacket (bagItems iv st) ?s3"
  have run: "inventorySerializeSPacket Z iv st s = Inr ?s4"
    unfolding inventorySerializeSPacket_def size rbind.simps Let_def eq bag n eqItems_count [of iv st]
    by (rule refl)
  have "ps_appends ?s (invEnc (eqItems iv st) (bagItems iv st)) ?s4"
    unfolding invEnc_def
    apply (rule ps_appends_comp, rule packetStreamAppend_appends)
       apply (use assms(3,4) in \<open>simp_all add: invEnc_def\<close>) [3]
    apply (rule ps_appends_comp, rule item_ser.fold_appends, assumption, simp, simp)
    apply (rule ps_appends_comp, rule packetStreamAppend_appends, assumption, simp, simp)
    apply (rule item_ser.fold_appends, assumption, simp)
    done
  then show "\<exists>s'. inventorySerializeSPacket Z iv st s = Inr s'
      \<and> ps_appends s (invEnc (eqItems iv st) (bagItems iv st)) s'"
    using run by auto
qed

text \<open>C15: a well-formed inventory is written, whatever is in it, as the number of its equipped items,
  these items by slot, the number of its bag items and these items by category; the announced size
  is the written size.\<close>

theorem inventorySerialize_correct:
  assumes "zhash Z" "inv_wf Z iv st" "ps_wf s"
    and "length (invEnc (eqItems iv st) (bagItems iv st)) \<le> ps_room s"
  shows "inventoryGetSPacketSize iv st = Inr (length (invEnc (eqItems iv st) (bagItems iv st)))
    \<and> (\<exists>s'. inventorySerializeSPacket Z iv st s = Inr s'
          \<and> ps_appends s (invEnc (eqItems iv st) (bagItems iv st)) s')"
  using assms by (rule inventorySerialize_ok)

section \<open>What is read back\<close>

text \<open>An item that can be told from what follows it.\<close>

definition itemWire :: "StaticLookup \<Rightarrow> ItemObject \<Rightarrow> bool" where
  "itemWire gsd x \<longleftrightarrow> itemObject_wf x \<and> itemDataFrom gsd x \<and> itemStringsOk x \<and> uidSafe (itemUid x)"

definition itemSlot :: "ItemObject \<Rightarrow> nat" where
  "itemSlot x = (case itemEquipable x of None \<Rightarrow> unat EQSLOT_NOSLOT | Some e \<Rightarrow> unat (equipable_slot e))"

lemma tailSafe_items:
  "\<forall>x \<in> set xs. itemWire gsd x \<Longrightarrow> tailSafe m \<Longrightarrow> tailSafe (concat (map itemEnc xs) @ m)"
  by (cases xs) (simp_all add: itemWire_def tailSafe_item)

lemma itemReadBack_simps [simp]:
  "itemBase (itemReadBack x) = itemBase x"
  "itemEquipable (itemReadBack x) = itemEquipable x"
  "itemCat (itemReadBack x) = itemCat x"
  "itemUid (itemReadBack x) = itemUid x"
  "itemObject_wf (itemReadBack x) = itemObject_wf x"
  by (cases x; simp add: itemReadBack_def itemBase_def itemEquipable_def itemCat_def itemUid_def
      itemObject_wf_def itemClass_def)+

lemma item_unser_wire:
  assumes "ps_next s (itemEnc x @ concat (map itemEnc xs) @ cs) tail" "itemWire gsd x"
    and "\<forall>y \<in> set xs. itemWire gsd y" "tailSafe (cs @ tail)"
  obtains t where "itemUnserializeSPacket gsd s = Inr (Some (itemReadBack x), t)"
    "ps_next t (concat (map itemEnc xs) @ cs) tail"
proof -
  have "itemTailOk x ((concat (map itemEnc xs) @ cs) @ tail)"
    using tailSafe_items [OF assms(3,4)] by (intro tailSafe_itemTailOk) simp
  with item_unser [of s x "concat (map itemEnc xs) @ cs" tail gsd] assms(1,2) that show thesis
    by (auto simp: itemWire_def succeeds_iff)
qed

lemma readEquipped_ok:
  assumes "ps_next s (concat (map itemEnc xs) @ cs) tail" "\<forall>x \<in> set xs. itemWire gsd x" "tailSafe (cs @ tail)"
    and "\<forall>x \<in> set xs. itemEquipable x \<noteq> None \<and> itemSlot x < length eq" "distinct (map itemSlot xs)" "st_fresh st"
  shows "\<exists>eq' st' t. readEquipped gsd (length xs) eq st s = Inr (True, eq', st', t)
    \<and> ps_next t cs tail \<and> st_fresh st' \<and> st_handles st' = st_handles st
    \<and> length eq' = length eq \<and> (\<forall>i. i \<notin> itemSlot ` set xs \<longrightarrow> eq' ! i = eq ! i)
    \<and> (\<forall>a y. st_items st a = Some y \<longrightarrow> st_items st' a = Some y)
    \<and> (\<forall>x \<in> set xs. \<exists>a. eq' ! itemSlot x = Some a \<and> st_items st' a = Some (itemReadBack x))"
  using assms
proof (induction xs arbitrary: s eq st)
  case (Cons x xs)
  obtain t where t: "itemUnserializeSPacket gsd s = Inr (Some (itemReadBack x), t)"
    "ps_next t (concat (map itemEnc xs) @ cs) tail"
    using item_unser_wire [of s x xs cs tail gsd] Cons.prems(1-3) by auto
  let ?eq = "eq[itemSlot x := Some (st_next st)]"
  let ?st = "snd (allocItem st (itemReadBack x))"
  obtain e where e: "itemEquipable x = Some e" "unat (equipable_slot e) = itemSlot x" "itemSlot x < length eq"
    using Cons.prems(4) by (auto simp: itemSlot_def)
  have fresh: "st_fresh ?st" "st_items st (st_next st) = None"
    using Cons.prems(6) by (fastforce simp: st_fresh_def allocItem_def)+
  from Cons.IH [OF t(2) _ Cons.prems(3), of ?eq ?st] Cons.prems fresh(1)
  obtain eq' st' u where IH: "readEquipped gsd (length xs) ?eq ?st t = Inr (True, eq', st', u)"
    "ps_next u cs tail" "st_fresh st'" "st_handles st' = st_handles ?st" "length eq' = length ?eq"
    "\<forall>i. i \<notin> itemSlot ` set xs \<longrightarrow> eq' ! i = ?eq ! i"
    "\<forall>a y. st_items ?st a = Some y \<longrightarrow> st_items st' a = Some y"
    "\<forall>x \<in> set xs. \<exists>a. eq' ! itemSlot x = Some a \<and> st_items st' a = Some (itemReadBack x)"
    by auto
  have "readEquipped gsd (length (x # xs)) eq st s = Inr (True, eq', st', u)"
    using t(1) e IH(1) by (simp add: allocItem_def)
  moreover have "eq' ! itemSlot x = Some (st_next st)"
    using IH(6) Cons.prems(5) e(3) by auto
  moreover have "st_items st' (st_next st) = Some (itemReadBack x)"
    using IH(7) by (simp add: allocItem_def)
  moreover have "st_items st' a = Some y" if "st_items st a = Some y" for a y
    using IH(7) fresh(2) that by (cases "a = st_next st") (auto simp: allocItem_def)
  ultimately show ?case
    using IH by (intro exI [of _ eq'] exI [of _ st'] exI [of _ u]) (auto simp: allocItem_def)
qed auto

lemma readBags_ok:
  assumes "ps_next s (concat (map itemEnc ys) @ cs) tail" "\<forall>y \<in> set ys. itemWire gsd y" "tailSafe (cs @ tail)"
    and "length bags = 16" "st_fresh st"
    and "\<forall>c < 16. \<forall>h \<in> set (bags ! c). handleItem st h \<noteq> None"
  shows "\<exists>bags' st' t. readBags gsd (length ys) bags st s = Inr (True, bags', st', t)
    \<and> ps_next t cs tail \<and> length bags' = 16
    \<and> (\<forall>a y. st_items st a = Some y \<longrightarrow> st_items st' a = Some y)
    \<and> (\<forall>c < 16. map (handleItem st') (bags' ! c) =
         map (handleItem st) (bags ! c) @ map (Some \<circ> itemReadBack) (filter (\<lambda>y. itemCat y = c) ys))"
  using assms
proof (induction ys arbitrary: s bags st)
  case (Cons y ys)
  obtain t where t: "itemUnserializeSPacket gsd s = Inr (Some (itemReadBack y), t)"
    "ps_next t (concat (map itemEnc ys) @ cs) tail"
    using item_unser_wire [of s y ys cs tail gsd] Cons.prems(1-3) by auto
  have cat: "itemCat y < 16"
    using Cons.prems(2) by (intro itemObject_wf_cat) (simp add: itemWire_def)
  let ?st1 = "snd (allocItem st (itemReadBack y))"
  let ?h = "st_next ?st1"
  let ?st2 = "snd (itemHandleNew ?st1 (st_next st))"
  let ?bags = "bags[itemCat y := bags ! itemCat y @ [?h]]"
  have fresh: "st_fresh ?st2" "st_items st (st_next st) = None" "st_handles st ?h = None"
    using Cons.prems(5) by (fastforce simp: st_fresh_def allocItem_def itemHandleNew_def)+
  have old: "handleItem ?st2 h = handleItem st h" if "handleItem st h \<noteq> None" for h
    using that fresh(2,3) by (auto simp: handleItem_def allocItem_def itemHandleNew_def bind_eq_Some_conv)
  have new: "handleItem ?st2 ?h = Some (itemReadBack y)"
    by (simp add: handleItem_def allocItem_def itemHandleNew_def)
  have bag2: "map (handleItem ?st2) (?bags ! c) = map (handleItem st) (bags ! c)
      @ (if itemCat y = c then [Some (itemReadBack y)] else [])" if "c < 16" for c
    using Cons.prems(4,6) that old new by (auto simp: nth_list_update)
  then have "\<forall>c < 16. \<forall>h \<in> set (?bags ! c). handleItem ?st2 h \<noteq> None"
    using Cons.prems(4,6) old new cat by (auto simp: nth_list_update split: if_splits)
  from Cons.IH [OF t(2) _ Cons.prems(3) _ fresh(1) this] Cons.prems
  obtain bags' st' u where IH: "readBags gsd (length ys) ?bags ?st2 t = Inr (True, bags', st', u)"
    "ps_next u cs tail" "length bags' = 16" "\<forall>a z. st_items ?st2 a = Some z \<longrightarrow> st_items st' a = Some z"
    "\<forall>c < 16. map (handleItem st') (bags' ! c) =
         map (handleItem ?st2) (?bags ! c) @ map (Some \<circ> itemReadBack) (filter (\<lambda>y. itemCat y = c) ys)"
    by auto
  have "readBags gsd (length (y # ys)) bags st s = Inr (True, bags', st', u)"
    using t(1) IH(1) cat Cons.prems(4) by (simp add: allocItem_def itemHandleNew_def itemCat_def Let_def)
  moreover have "st_items st' a = Some z" if "st_items st a = Some z" for a z
    using IH(4) fresh(2) that by (cases "a = st_next st") (auto simp: allocItem_def itemHandleNew_def)
  ultimately show ?case
    using IH bag2 by (intro exI [of _ bags'] exI [of _ st'] exI [of _ u]) auto
qed auto

lemma destroyEquipped_ok:
  assumes "\<forall>a. Some a \<in> set eq \<longrightarrow> st_items st a \<noteq> None"
    and "distinct (filter (\<lambda>e. e \<noteq> None) eq)" "st_fresh st"
  shows "\<exists>st'. destroyEquipped st eq = Inr st' \<and> st_fresh st'"
  using assms
proof (induction eq arbitrary: st)
  case (Cons e eq)
  show ?case
  proof (cases e)
    case None
    then show ?thesis
      using Cons by (simp add: itemDestroy_def)
  next
    case (Some a)
    let ?st = "st \<lparr> st_items := (st_items st)(a := None) \<rparr>"
    have "\<exists>st'. destroyEquipped ?st eq = Inr st' \<and> st_fresh st'"
      using Cons.prems Some by (intro Cons.IH) (auto simp: st_fresh_def)
    moreover have "st_items st a \<noteq> None"
      using Cons.prems(1) Some by simp
    ultimately show ?thesis
      using Some by (auto simp: itemDestroy_def derefItem_def)
  qed
qed auto

lemma destroyEquipped_wf:
  assumes "equipped_wf Z iv st" "st_fresh st"
  shows "\<exists>st'. destroyEquipped st (inv_equippedItems iv) = Inr st' \<and> st_fresh st'"
proof (rule destroyEquipped_ok [OF _ _ assms(2)])
  have len: "length (inv_equippedItems iv) = 20"
    using assms(1) by (simp add: equipped_wf_def)
  show "\<forall>a. Some a \<in> set (inv_equippedItems iv) \<longrightarrow> st_items st a \<noteq> None"
    using equipped_wf_item [OF assms(1)] len by (force simp: in_set_conv_nth)
  show "distinct (filter (\<lambda>e. e \<noteq> None) (inv_equippedItems iv))"
  proof (rule distinct_filter_nth)
    show "i = j" if "i < length (inv_equippedItems iv)" "j < length (inv_equippedItems iv)"
      "inv_equippedItems iv ! i \<noteq> None" "inv_equippedItems iv ! i = inv_equippedItems iv ! j" for i j
      using equipped_wf_inj [OF assms(1), of j i] that len by auto
  qed
qed

lemma inventoryUnserialize_ok:
  assumes "zhash Z" "inv_wf Z iv st"
    and "ps_next s (invEnc xs ys @ cs) tail" "tailSafe (cs @ tail)"
    and "\<forall>x \<in> set xs \<union> set ys. itemWire gsd x"
    and "\<forall>x \<in> set xs. itemEquipable x \<noteq> None \<and> itemSlot x < 20" "distinct (map itemSlot xs)"
    and "length ys < 3703"
  shows "\<exists>iv' st' t. inventoryUnserializeSPacket Z gsd iv st s = Inr (True, iv', st', t) \<and> ps_next t cs tail
    \<and> (\<forall>x \<in> set xs. \<exists>a. inv_equippedItems iv' ! itemSlot x = Some a \<and> st_items st' a = Some (itemReadBack x))
    \<and> (\<forall>i < 20. i \<notin> itemSlot ` set xs \<longrightarrow> inv_equippedItems iv' ! i = None)
    \<and> (\<forall>c < 16. map (handleItem st') (inv_bags iv' ! c)
          = map (Some \<circ> itemReadBack) (filter (\<lambda>y. itemCat y = c) ys))
    \<and> (\<forall>uid. inventoryGetItemByActorId Z iv' st' uid = Inr None)
    \<and> inventoryGetItemsCount Z iv' = 0"
proof -
  have ew: "equipped_wf Z iv st" and fr: "st_fresh st"
    using assms(2) by (simp_all add: inv_wf_def)
  have len: "length (inv_equippedItems iv) = 20" "length (inv_bags iv) = 16"
    using assms(2) by (simp_all add: inv_wf_def equipped_wf_def bags_wf_def)
  have "length xs \<le> 20"
  proof -
    have "itemSlot ` set xs \<subseteq> {..<20}" using assms(6) by auto
    then have "card (itemSlot ` set xs) \<le> 20"
      using card_mono [of "{..<20::nat}"] by simp
    then show ?thesis
      using distinct_card [OF assms(7)] by simp
  qed
  then have cnt: "unat (of_nat (length xs) :: u32) = length xs" "unat (of_nat (length ys) :: u32) = length ys"
    using assms(8) by (simp_all add: unsigned_of_nat take_bit_nat_eq_self)
  let ?s = "packetStreamDebugStart s (ps_size s) ''inventoryUnserializeSPacket''"
  let ?rest = "enc32 (of_nat (length ys)) @ concat (map itemEnc ys) @ cs"
  obtain s1 where s1: "packetStreamGet ?s 4 = (Some (enc32 (of_nat (length xs))), s1)"
    "ps_next s1 (concat (map itemEnc xs) @ ?rest) tail"
    using assms(3) ps_next_get [of ?s "enc32 (of_nat (length xs))" "concat (map itemEnc xs) @ ?rest" tail 4]
    by (auto simp: invEnc_def)
  obtain st1 where st1: "destroyEquipped st (inv_equippedItems iv) = Inr st1" "st_fresh st1"
    using destroyEquipped_wf [OF ew fr] by blast
  have "tailSafe (?rest @ tail)"
    using tailSafe_count [OF assms(8)] by simp
  then obtain eq st2 s2 where eq: "readEquipped gsd (length xs) (replicate 20 None) st1 s1 = Inr (True, eq, st2, s2)"
    "ps_next s2 ?rest tail" "st_fresh st2" "length eq = 20" "\<forall>i. i \<notin> itemSlot ` set xs \<longrightarrow> eq ! i = replicate 20 None ! i"
    "\<forall>x \<in> set xs. \<exists>a. eq ! itemSlot x = Some a \<and> st_items st2 a = Some (itemReadBack x)"
    using readEquipped_ok [OF s1(2) _ _ _ assms(7) st1(2), of gsd "replicate 20 None"] assms(5,6) by auto
  obtain s3 where s3: "packetStreamGet s2 4 = (Some (enc32 (of_nat (length ys))), s3)"
    "ps_next s3 (concat (map itemEnc ys) @ cs) tail"
    by (rule ps_next_get [OF eq(2), of 4]) simp
  obtain bags st3 t where bags: "readBags gsd (length ys) (replicate 16 []) st2 s3 = Inr (True, bags, st3, t)"
    "ps_next t cs tail" "length bags = 16" "\<forall>a y. st_items st2 a = Some y \<longrightarrow> st_items st3 a = Some y"
    "\<forall>c < 16. map (handleItem st3) (bags ! c) = map (Some \<circ> itemReadBack) (filter (\<lambda>y. itemCat y = c) ys)"
    using readBags_ok [OF s3(2) _ assms(4) _ eq(3), of gsd "replicate 16 []"] assms(5) by auto
  let ?iv = "iv \<lparr> inv_equippedItems := eq, inv_items := zhash_purge Z (inv_items iv), inv_bags := bags \<rparr>"
  have "inventoryUnserializeSPacket Z gsd iv st s = Inr (True, ?iv, st3, t)"
    using s1(1) st1(1) eq(1) s3(1) bags(1) cnt len by (simp add: inventoryUnserializeSPacket_def)
  moreover have "inventoryGetItemByActorId Z ?iv st3 uid = Inr None" for uid
    by (simp add: inventoryGetItemByActorId_def zhash.zh_purge [OF assms(1)])
  moreover have "inventoryGetItemsCount Z ?iv = 0"
    by (simp add: inventoryGetItemsCount_def zhash.zh_size [OF assms(1)] zhash.zh_purge [OF assms(1)])
  ultimately show ?thesis
    using eq(5,6) bags by (intro exI [of _ ?iv] exI [of _ st3] exI [of _ t]) fastforce
qed


end
