(* ===== verification/InventoryWitness.thy ===== *)
theory InventoryWitness
  imports InventorySer
begin

text \<open>The theorems on the inventory at a concrete one: two weapons in the weapon bag, a third one in
  the weapon slot, and a fourth one outside.\<close>

definition exampleWeapon :: "u64 \<Rightarrow> byte \<Rightarrow> ItemWeapon" where
  "exampleWeapon uid slot = \<lparr> weapon_equipable = \<lparr> equipable_item = \<lparr> item_actor = \<lparr> actor_uid = uid \<rparr>,
      item_id = 101101, item_amount = 1, item_category = ITEM_CAT_WEAPON, item_commonData = None \<rparr>,
      equipable_slot = slot, equipable_equipData = None \<rparr>,
    weapon_maxAtk = Some 0x41200000, weapon_minAtk = None, weapon_cooldown = None \<rparr>"

definition exWeapon :: "u64 \<Rightarrow> byte \<Rightarrow> ItemObject" where
  "exWeapon uid slot = ObjWeapon (exampleWeapon uid slot)"

definition exStore :: Store where
  "exStore = \<lparr> st_items = [0 \<mapsto> exWeapon 1 EQSLOT_NOSLOT, 1 \<mapsto> exWeapon 2 EQSLOT_NOSLOT,
      2 \<mapsto> exWeapon 3 EQSLOT_WEAPON, 3 \<mapsto> exWeapon 4 EQSLOT_NOSLOT],
    st_handles = [4 \<mapsto> 0, 5 \<mapsto> 1], st_next = 6 \<rparr>"

definition exInventory :: "(string \<times> addr) list Inventory" where
  "exInventory = \<lparr> inv_items = [(actorGenKey 1, 4), (actorGenKey 2, 5)],
     inv_bags = (replicate 16 [])[1 := [4, 5]],
     inv_equippedItems = (replicate 20 None)[8 := Some 2] \<rparr>"

lemma exWeapon_simps [simp]:
  "itemUid (exWeapon u s) = u" "itemCat (exWeapon u s) = 1" "itemObject_wf (exWeapon u s)"
  "itemEquipable (exWeapon u s) = Some (weapon_equipable (exampleWeapon u s))"
  "itemReadBack (exWeapon u s) = exWeapon u s" "itemStringsOk (exWeapon u s)"
  "itemSlot (exWeapon u s) = unat s" "itemDataFrom (\<lambda>_. Inr (None, None)) (exWeapon u s)"
  by (simp_all add: exWeapon_def exampleWeapon_def itemUid_def itemCat_def itemObject_wf_def itemBase_def
      itemClass_def itemEquipable_def itemReadBack_def itemStringsOk_def itemSlot_def itemDataFrom_def)

lemma exStore_simps [simp]:
  "st_items exStore 0 = Some (exWeapon 1 EQSLOT_NOSLOT)" "st_items exStore 2 = Some (exWeapon 3 EQSLOT_WEAPON)"
  "st_items exStore 3 = Some (exWeapon 4 EQSLOT_NOSLOT)"
  "handleItem exStore 4 = Some (exWeapon 1 EQSLOT_NOSLOT)" "handleItem exStore 5 = Some (exWeapon 2 EQSLOT_NOSLOT)"
  by (simp_all add: exStore_def handleItem_def)

lemma exInventory_wf: "inv_wf al_ops exInventory exStore"
proof -
  have "bags_wf al_ops exInventory exStore"
    by (rule bags_wfI) (auto simp: exInventory_def nth_list_update split: if_splits)
  moreover have "equipped_wf al_ops exInventory exStore"
    by (rule equipped_wfI) (auto simp: exInventory_def nth_list_update exStore_def split: if_splits)
  moreover have "st_fresh exStore"
    by (auto simp: st_fresh_def exStore_def split: if_splits)
  ultimately show ?thesis
    by (simp add: inv_wf_def)
qed

lemma exInventory_abs [simp]:
  "inv_abs al_ops exInventory exStore 1 = Some (exWeapon 1 EQSLOT_NOSLOT)"
  "inv_abs al_ops exInventory exStore 2 = Some (exWeapon 2 EQSLOT_NOSLOT)"
  "inv_abs al_ops exInventory exStore 3 = None" "inv_abs al_ops exInventory exStore 4 = None"
  by (simp_all add: inv_abs_def exInventory_def)

lemma exInventory_lists:
  "inv_bags exInventory = [[], [4, 5], [], [], [], [], [], [], [], [], [], [], [], [], [], []]"
  "inv_equippedItems exInventory = [None, None, None, None, None, None, None, None, Some 2, None, None,
     None, None, None, None, None, None, None, None, None]"
  unfolding exInventory_def by (simp_all add: numeral_eq_Suc)

theorem inventoryAddItem_correct_witness:
  "\<exists>ok inv' st'. inventoryAddItem al_ops exInventory exStore 3 = Inr (ok, inv', st') \<and> ok
    \<and> inv_wf al_ops inv' st' \<and> inv_abs al_ops inv' st' 4 = Some (exWeapon 4 EQSLOT_NOSLOT)"
proof -
  have "inv_new_item exInventory exStore 3 (exWeapon 4 EQSLOT_NOSLOT)"
    by (auto simp: inv_new_item_def exInventory_def in_set_conv_nth nth_list_update split: if_splits)
  from inventoryAddItem_correct [OF al.zhash_axioms exInventory_wf this] show ?thesis
    by fastforce
qed

theorem inventoryRemoveItem_correct_witness:
  "\<exists>inv' st'. inventoryRemoveItem al_ops exInventory exStore 0 = Inr (True, inv', st')
    \<and> inv_wf al_ops inv' st' \<and> inv_abs al_ops inv' st' = (inv_abs al_ops exInventory exStore)(1 := None)
    \<and> derefItem st' 0 = Inl UseAfterFree \<and> inv_equippedItems inv' = inv_equippedItems exInventory"
  by (rule inventoryRemoveItem_correct [OF al.zhash_axioms exInventory_wf exInventory_abs(1)])
    (simp add: inventoryGetItemByActorId_def exInventory_def derefHandle_def exStore_def)

theorem inventoryUnequipItem_correct_witness:
  "\<exists>ok inv' st'. inventoryUnequipItem al_ops exInventory exStore EQSLOT_WEAPON = Inr (ok, inv', st') \<and> ok
    \<and> inv_wf al_ops inv' st' \<and> inv_equippedItems inv' = (inv_equippedItems exInventory)[8 := None]"
proof -
  have "inv_equippedItems exInventory ! unat EQSLOT_WEAPON = Some 2" "unat EQSLOT_WEAPON < 20"
    by (simp_all add: exInventory_def)
  from inventoryUnequipItem_correct [OF al.zhash_axioms exInventory_wf this(2,1) exStore_simps(2)] show ?thesis
    by auto
qed

theorem inventoryEquipItem_dangling_witness:
  "\<exists>inv' st' a. inventoryEquipItem al_ops exInventory exStore 1 EQSLOT_SHIELD = Inr (True, inv', st')
    \<and> inv_equippedItems inv' ! unat EQSLOT_SHIELD = Some a \<and> derefItem st' a = Inl UseAfterFree
    \<and> (\<forall>stream. inventorySerializeSPacket al_ops inv' st' stream = Inl UseAfterFree)"
  by (rule inventoryEquipItem_dangling [OF al.zhash_axioms exInventory_wf _ _ exInventory_abs(1) exWeapon_simps(4)])
    (simp_all add: exInventory_def)

theorem inventorySwapItems_keys_witness:
  "\<exists>st'. inventorySwapItems al_ops exInventory exStore 1 2 = Inr (True, st')
    \<and> inv_abs al_ops exInventory st' 1 = Some (exWeapon 2 EQSLOT_NOSLOT)
    \<and> inv_abs al_ops exInventory st' 2 = Some (exWeapon 1 EQSLOT_NOSLOT) \<and> \<not> inv_wf al_ops exInventory st'"
  by (rule inventorySwapItems_keys [OF exInventory_wf exInventory_abs(1,2)]) simp_all

theorem inventorySwapItems_missing_witness:
  "inventorySwapItems al_ops exInventory exStore 1 3 = Inl NullDeref"
  by (rule inventorySwapItems_missing [OF exInventory_wf]) simp

theorem inventoryGetBagIndex_correct_witness:
  "inventoryGetBagIndexByActorId exInventory exStore ITEM_CAT_WEAPON 2 = Inr 5002
   \<and> inventoryGetBagIndexByActorId exInventory exStore ITEM_CAT_WEAPON 3 = Inr (-1)"
proof -
  have c: "unat ITEM_CAT_WEAPON < 16" by simp
  note * = inventoryGetBagIndex_correct [OF exInventory_wf c]
  show ?thesis
    using spec [OF spec [OF conjunct1 [OF *], of 1], of "exWeapon 2 EQSLOT_NOSLOT"]
      spec [OF conjunct2 [OF *], of 3]
    by (simp add: exInventory_lists)
qed

theorem inventorySerialize_correct_witness:
  "inventoryGetSPacketSize exInventory exStore = Inr (length (invEnc (eqItems exInventory exStore) (bagItems exInventory exStore)))
    \<and> (\<exists>s'. inventorySerializeSPacket al_ops exInventory exStore (packetStreamInit (replicate 100 0) 100) = Inr s'
          \<and> ps_appends (packetStreamInit (replicate 100 0) 100)
              (invEnc (eqItems exInventory exStore) (bagItems exInventory exStore)) s')"
proof (rule inventorySerialize_correct [OF al.zhash_axioms exInventory_wf])
  have "eqItems exInventory exStore = [exWeapon 3 EQSLOT_WEAPON]"
    "bagItems exInventory exStore = [exWeapon 1 EQSLOT_NOSLOT, exWeapon 2 EQSLOT_NOSLOT]"
    by (simp_all add: eqItems_def equippedAddrs_def bagItems_def exInventory_lists)
  then show "length (invEnc (eqItems exInventory exStore) (bagItems exInventory exStore))
      \<le> ps_room (packetStreamInit (replicate 100 0) 100)"
    by (simp add: invEnc_def itemEnc_def itemChildEnc_def itemClassEnc_def itemWeaponEnc_def exWeapon_def
        exampleWeapon_def propertyFloatGetSPacketSize_def ps_room_def packetStreamInit_def)
qed (simp add: ps_wf_def packetStreamInit_def)


end
