(* ===== verification/Blowfish.thy ===== *)
theory Blowfish
  imports Prelude
begin

text \<open>
  \<open>src/common/crypto/bf\<close>: the Blowfish cipher with 16 rounds, in the generic form of \<open>bf_locl.h\<close> that the
  build selects. \<open>BF_ENC\<close> updates one half from the other; the unrolled rounds of \<open>BF_encrypt\<close> and
  \<open>BF_decrypt\<close> exchange the roles of the halves from line to line, which \<open>bfRounds\<close> does by exchanging
  the components of the pair. The locale \<open>block_cipher\<close> is what the modes of operation need of a
  cipher; it is interpreted on Blowfish under every key.
\<close>

record BF_KEY =
  bf_P :: "u32 list"
  bf_S :: "u32 list"

type_synonym block = "u32 \<times> u32"

definition BF_F :: "u32 list \<Rightarrow> u32 \<Rightarrow> u32" where
  "BF_F S R =
     (xor (S ! unat (and (drop_bit 24 R) 0xff) + S ! (0x100 + unat (and (drop_bit 16 R) 0xff)))
          (S ! (0x200 + unat (and (drop_bit 8 R) 0xff))))
     + S ! (0x300 + unat (and R 0xff))"

definition BF_ENC :: "u32 \<Rightarrow> u32 \<Rightarrow> u32 list \<Rightarrow> u32 \<Rightarrow> u32" where
  "BF_ENC LL R S P = (let LL = xor LL P in xor LL (BF_F S R))"

fun bfRounds :: "u32 list \<Rightarrow> u32 list \<Rightarrow> block \<Rightarrow> block" where
  "bfRounds S [] (l, r) = (l, r)"
| "bfRounds S (p # ps) (l, r) = bfRounds S ps (BF_ENC r l S p, l)"

definition BF_encrypt :: "BF_KEY \<Rightarrow> block \<Rightarrow> block" where
  "BF_encrypt key data =
     (let p = bf_P key; (l, r) = data;
          l = xor l (p ! 0);
          (l, r) = bfRounds (bf_S key)
            [p ! 1, p ! 2, p ! 3, p ! 4, p ! 5, p ! 6, p ! 7, p ! 8,
             p ! 9, p ! 10, p ! 11, p ! 12, p ! 13, p ! 14, p ! 15, p ! 16] (l, r);
          r = xor r (p ! 17)
      in (r, l))"

definition BF_decrypt :: "BF_KEY \<Rightarrow> block \<Rightarrow> block" where
  "BF_decrypt key data =
     (let p = bf_P key; (l, r) = data;
          l = xor l (p ! 17);
          (l, r) = bfRounds (bf_S key)
            [p ! 16, p ! 15, p ! 14, p ! 13, p ! 12, p ! 11, p ! 10, p ! 9,
             p ! 8, p ! 7, p ! 6, p ! 5, p ! 4, p ! 3, p ! 2, p ! 1] (l, r);
          r = xor r (p ! 0)
      in (r, l))"

section \<open>Bytes and blocks\<close>

text \<open>\<open>n2l\<close> and \<open>l2n\<close>: big-endian, unlike the packets.\<close>

definition n2l :: "bytes \<Rightarrow> u32" where
  "n2l c = le_word (rev (take 4 c))"

definition l2n :: "u32 \<Rightarrow> bytes" where
  "l2n l = rev (le_bytes 4 l)"

text \<open>\<open>n2ln\<close> and \<open>l2nn\<close>: the first \<open>n\<close> of the eight bytes, the others read as 0 and not written.\<close>

definition n2ln :: "bytes \<Rightarrow> nat \<Rightarrow> block" where
  "n2ln c n = (let c = take n c @ replicate (8 - n) 0 in (n2l (take 4 c), n2l (drop 4 c)))"

definition l2nn :: "block \<Rightarrow> nat \<Rightarrow> bytes" where
  "l2nn b n = take n (l2n (fst b) @ l2n (snd b))"

definition bytesOfBlock :: "block \<Rightarrow> bytes" where
  "bytesOfBlock b = l2n (fst b) @ l2n (snd b)"

definition blockOfBytes :: "bytes \<Rightarrow> block" where
  "blockOfBytes bs = (n2l (take 4 bs), n2l (take 4 (drop 4 bs)))"

abbreviation (input) BF_ENCRYPT :: bool where "BF_ENCRYPT \<equiv> True"
abbreviation (input) BF_DECRYPT :: bool where "BF_DECRYPT \<equiv> False"

definition BF_ecb_encrypt :: "bytes \<Rightarrow> BF_KEY \<Rightarrow> bool \<Rightarrow> bytes" where
  "BF_ecb_encrypt input key encrypt =
     bytesOfBlock (if encrypt then BF_encrypt key (blockOfBytes input) else BF_decrypt key (blockOfBytes input))"

section \<open>Cipher block chaining\<close>

definition xorBlock :: "block \<Rightarrow> block \<Rightarrow> block" where
  "xorBlock a b = (xor (fst a) (fst b), xor (snd a) (snd b))"

text \<open>The two branches of \<open>BF_cbc_encrypt\<close>, on \<open>length\<close> input bytes; the second component of the
  result is the new initialisation vector. Encryption writes whole blocks, decryption reads whole
  blocks and writes \<open>length\<close> bytes.\<close>

fun cbcEncrypt :: "(block \<Rightarrow> block) \<Rightarrow> block \<Rightarrow> bytes \<Rightarrow> bytes \<times> block" where
  "cbcEncrypt E tout input =
     (if input = [] then ([], tout)
      else if 8 \<le> length input then
        let tout = E (xorBlock (blockOfBytes input) tout);
            (out, ivec) = cbcEncrypt E tout (drop 8 input)
        in (bytesOfBlock tout @ out, ivec)
      else
        let tout = E (xorBlock (n2ln input (length input)) tout)
        in (bytesOfBlock tout, tout))"

fun cbcDecrypt :: "(block \<Rightarrow> block) \<Rightarrow> block \<Rightarrow> nat \<Rightarrow> bytes \<Rightarrow> bytes \<times> block" where
  "cbcDecrypt D xr n input =
     (if n = 0 then ([], xr)
      else if 8 \<le> n then
        let tin = blockOfBytes input; tout = xorBlock (D tin) xr;
            (out, ivec) = cbcDecrypt D tin (n - 8) (drop 8 input)
        in (bytesOfBlock tout @ out, ivec)
      else
        let tin = blockOfBytes input; tout = xorBlock (D tin) xr
        in (l2nn tout n, tin))"

declare cbcEncrypt.simps [simp del] cbcDecrypt.simps [simp del]

definition BF_cbc_encrypt :: "bytes \<Rightarrow> nat \<Rightarrow> BF_KEY \<Rightarrow> bytes \<Rightarrow> bool \<Rightarrow> bytes \<times> bytes" where
  "BF_cbc_encrypt input len schedule ivec encrypt =
     (let (out, iv) = (if encrypt then cbcEncrypt (BF_encrypt schedule) (blockOfBytes ivec) (take len input)
                       else cbcDecrypt (BF_decrypt schedule) (blockOfBytes ivec) len input)
      in (out, bytesOfBlock iv))"

section \<open>The key schedule\<close>

text \<open>The key bytes are read cyclically: the index returns to 0 when it reaches \<open>len\<close>.\<close>

definition nextKeyByte :: "bytes \<Rightarrow> nat \<Rightarrow> nat \<Rightarrow> byte \<times> nat" where
  "nextKeyByte data len d = (data ! d, if d + 1 \<ge> len then 0 else d + 1)"

definition nextKeyWord :: "bytes \<Rightarrow> nat \<Rightarrow> nat \<Rightarrow> u32 \<times> nat" where
  "nextKeyWord data len d =
     (let (b, d) = nextKeyByte data len d; ri = ucast b :: u32;
          (b, d) = nextKeyByte data len d; ri = or (push_bit 8 ri) (ucast b);
          (b, d) = nextKeyByte data len d; ri = or (push_bit 8 ri) (ucast b);
          (b, d) = nextKeyByte data len d; ri = or (push_bit 8 ri) (ucast b)
      in (ri, d))"

fun mixKey :: "bytes \<Rightarrow> nat \<Rightarrow> nat \<Rightarrow> u32 list \<Rightarrow> u32 list" where
  "mixKey data len d [] = []"
| "mixKey data len d (p # ps) =
     (let (ri, d) = nextKeyWord data len d in xor p ri # mixKey data len d ps)"

fun fillP :: "nat list \<Rightarrow> BF_KEY \<times> block \<Rightarrow> BF_KEY \<times> block" where
  "fillP [] kb = kb"
| "fillP (i # is) (key, b) =
     (let b = BF_encrypt key b
      in fillP is (key \<lparr> bf_P := (bf_P key)[i := fst b, i + 1 := snd b] \<rparr>, b))"

fun fillS :: "nat list \<Rightarrow> BF_KEY \<times> block \<Rightarrow> BF_KEY \<times> block" where
  "fillS [] kb = kb"
| "fillS (i # is) (key, b) =
     (let b = BF_encrypt key b
      in fillS is (key \<lparr> bf_S := (bf_S key)[i := fst b, i + 1 := snd b] \<rparr>, b))"

definition evens :: "nat \<Rightarrow> nat list" where
  "evens n = map (\<lambda>i. 2 * i) [0..<n div 2]"

definition BF_set_key_custom_sch :: "BF_KEY \<Rightarrow> nat \<Rightarrow> bytes \<Rightarrow> BF_KEY" where
  "BF_set_key_custom_sch key len data =
     (let len = (if len > (16 + 2) * 4 then (16 + 2) * 4 else len);
          key = key \<lparr> bf_P := mixKey data len 0 (bf_P key) \<rparr>;
          (key, b) = fillP (evens (16 + 2)) (key, (0, 0));
          (key, b) = fillS (evens (4 * 256)) (key, b)
      in key)"

text \<open>\<open>BF_set_key\<close> starts from the constants of \<open>bf_pi.h\<close> instead of the schedule it is given.\<close>

definition BF_set_key :: "BF_KEY \<Rightarrow> nat \<Rightarrow> bytes \<Rightarrow> BF_KEY" where
  "BF_set_key bf_init len data = BF_set_key_custom_sch bf_init len data"

section \<open>Inverses\<close>

lemma xor_cancel [simp]: "xor (xor a b) b = (a :: 'a::len word)"
  by (simp add: ac_simps)

lemma BF_ENC_involution [simp]: "BF_ENC (BF_ENC LL R S P) R S P = LL"
  by (simp add: BF_ENC_def Let_def ac_simps)

lemma bfRounds_pair:
  "bfRounds S [] b = b" "bfRounds S (p # ps) b = bfRounds S ps (BF_ENC (snd b) (fst b) S p, fst b)"
  by (cases b; simp)+

lemma bfRounds_append: "bfRounds S (ps @ qs) b = bfRounds S qs (bfRounds S ps b)"
  by (induction ps arbitrary: b) (simp_all add: bfRounds_pair)

text \<open>Running the rounds backwards on the exchanged halves undoes them.\<close>

lemma bfRounds_rev: "bfRounds S (rev ps) (prod.swap (bfRounds S ps b)) = prod.swap b"
  by (induction ps arbitrary: b) (simp_all add: bfRounds_pair bfRounds_append prod.swap_def)

text \<open>Both directions of the cipher are whitening, rounds, whitening with exchanged halves.\<close>

definition feistel :: "u32 list \<Rightarrow> u32 list \<Rightarrow> u32 \<Rightarrow> u32 \<Rightarrow> block \<Rightarrow> block" where
  "feistel S ps pre post b =
     (let y = bfRounds S ps (xor (fst b) pre, snd b) in (xor (snd y) post, fst y))"

lemma feistel_inverse: "feistel S (rev ps) post pre (feistel S ps pre post b) = b"
proof -
  let ?y = "bfRounds S ps (xor (fst b) pre, snd b)"
  have "bfRounds S (rev ps) (snd ?y, fst ?y) = (snd b, xor (fst b) pre)"
    using bfRounds_rev [of S ps "(xor (fst b) pre, snd b)"] by (simp add: prod.swap_def)
  then show ?thesis
    by (simp add: feistel_def Let_def)
qed

definition bfRoundKeys :: "BF_KEY \<Rightarrow> u32 list" where
  "bfRoundKeys key = map (\<lambda>i. bf_P key ! i) [1, 2, 3, 4, 5, 6, 7, 8, 9, 10, 11, 12, 13, 14, 15, 16]"

lemma BF_encrypt_feistel:
  "BF_encrypt key b = feistel (bf_S key) (bfRoundKeys key) (bf_P key ! 0) (bf_P key ! 17) b"
  unfolding BF_encrypt_def feistel_def bfRoundKeys_def Let_def split_beta fst_conv snd_conv list.map ..

lemma BF_decrypt_feistel:
  "BF_decrypt key b = feistel (bf_S key) (rev (bfRoundKeys key)) (bf_P key ! 17) (bf_P key ! 0) b"
  unfolding BF_decrypt_def feistel_def bfRoundKeys_def Let_def split_beta fst_conv snd_conv list.map
    rev.simps append.simps ..

lemma BF_decrypt_encrypt: "BF_decrypt key (BF_encrypt key b) = b"
  by (simp add: BF_encrypt_feistel BF_decrypt_feistel feistel_inverse)

lemma BF_encrypt_decrypt: "BF_encrypt key (BF_decrypt key b) = b"
  using feistel_inverse [of "bf_S key" "rev (bfRoundKeys key)"]
  by (simp add: BF_encrypt_feistel BF_decrypt_feistel)

lemma length_l2n [simp]: "length (l2n w) = 4"
  by (simp only: l2n_def length_rev length_le_bytes)

lemma n2l_l2n [simp]: "n2l (l2n w) = w"
proof -
  have "le_word (le_bytes 4 w) = w"
    by (rule le_word_full) simp
  then show ?thesis
    unfolding n2l_def l2n_def by (simp only: rev_rev_ident take_all length_rev length_le_bytes order_refl)
qed

lemma l2n_n2l [simp]: "length bs = 4 \<Longrightarrow> l2n (n2l bs) = bs"
  using le_bytes_le_word [of "rev bs", where 'a = 32]
  unfolding n2l_def l2n_def by (simp del: le_bytes_numeral)

lemma length_bytesOfBlock [simp]: "length (bytesOfBlock b) = 8"
  by (simp add: bytesOfBlock_def)

lemma blockOfBytes_append [simp]: "blockOfBytes (bytesOfBlock b @ r) = b"
  by (simp add: blockOfBytes_def bytesOfBlock_def)

lemma blockOfBytes_bytesOfBlock [simp]: "blockOfBytes (bytesOfBlock b) = b"
  using blockOfBytes_append [of b "[]"] by simp

lemma bytesOfBlock_blockOfBytes: "8 \<le> length bs \<Longrightarrow> bytesOfBlock (blockOfBytes bs) = take 8 bs"
  by (simp add: bytesOfBlock_def blockOfBytes_def take_add [of 4 4, simplified])

section \<open>Modes of operation\<close>

text \<open>What the modes need of a block cipher: decryption undoes encryption under the same key.\<close>

locale block_cipher =
  fixes E D :: "block \<Rightarrow> block"
  assumes D_E: "D (E b) = b"
begin

lemma xorBlock_cancel: "xorBlock (xorBlock a b) b = a"
  by (simp add: xorBlock_def)

lemma l2nn_n2ln:
  assumes "length input < 8"
  shows "l2nn (n2ln input (length input)) (length input) = input"
proof -
  let ?c = "input @ replicate (8 - length input) 0"
  have "l2n (n2l (take 4 ?c)) @ l2n (n2l (drop 4 ?c)) = take 4 ?c @ drop 4 ?c"
    using assms by (intro arg_cong2 [where f = append] l2n_n2l) simp_all
  then have eq: "l2n (n2l (take 4 ?c)) @ l2n (n2l (drop 4 ?c)) = ?c"
    by (simp only: append_take_drop_id)
  show ?thesis
    unfolding l2nn_def n2ln_def Let_def fst_conv snd_conv take_all [OF order_refl] eq by simp
qed

lemma cbcEncrypt_unfold:
  "cbcEncrypt E iv [] = ([], iv)"
  "8 \<le> length input \<Longrightarrow> cbcEncrypt E iv input =
     (let t = E (xorBlock (blockOfBytes input) iv); rec = cbcEncrypt E t (drop 8 input)
      in (bytesOfBlock t @ fst rec, snd rec))"
  "input \<noteq> [] \<Longrightarrow> length input < 8 \<Longrightarrow> cbcEncrypt E iv input =
     (let t = E (xorBlock (n2ln input (length input)) iv) in (bytesOfBlock t, t))"
  by (subst cbcEncrypt.simps; auto simp: Let_def split_beta)+

lemma cbcDecrypt_unfold:
  "cbcDecrypt D iv 0 input = ([], iv)"
  "8 \<le> n \<Longrightarrow> cbcDecrypt D iv n input =
     (let rec = cbcDecrypt D (blockOfBytes input) (n - 8) (drop 8 input)
      in (bytesOfBlock (xorBlock (D (blockOfBytes input)) iv) @ fst rec, snd rec))"
  "0 < n \<Longrightarrow> n < 8 \<Longrightarrow> cbcDecrypt D iv n input =
     (l2nn (xorBlock (D (blockOfBytes input)) iv) n, blockOfBytes input)"
  by (subst cbcDecrypt.simps; auto simp: Let_def split_beta)+

lemma cbc_roundtrip:
  "cbcEncrypt E iv input = (c, iv') \<Longrightarrow>
   cbcDecrypt D iv (length input) (c @ r) = (input, iv') \<and> length c = 8 * ((length input + 7) div 8)"
proof (induction "length input" arbitrary: iv input c iv' rule: less_induct)
  case less
  consider "input = []" | "8 \<le> length input" | "input \<noteq> []" "length input < 8"
    by linarith
  then show ?case
  proof cases
    case 1
    then show ?thesis using less.prems by (simp add: cbcEncrypt_unfold cbcDecrypt_unfold)
  next
    case 2
    let ?t = "E (xorBlock (blockOfBytes input) iv)"
    obtain c2 where c2: "cbcEncrypt E ?t (drop 8 input) = (c2, iv')" "c = bytesOfBlock ?t @ c2"
      using less.prems cbcEncrypt_unfold(2) [OF 2, of iv] by (metis fst_conv snd_conv surj_pair)
    have IH: "cbcDecrypt D ?t (length (drop 8 input)) (c2 @ r) = (drop 8 input, iv')"
      "length c2 = 8 * ((length (drop 8 input) + 7) div 8)"
      using less.hyps [OF _ c2(1)] 2 by simp_all
    have blk: "bytesOfBlock (xorBlock (D ?t) iv) = take 8 input"
      using 2 by (simp add: D_E xorBlock_cancel bytesOfBlock_blockOfBytes)
    have "cbcDecrypt D iv (length input) (c @ r) = (take 8 input @ drop 8 input, iv')"
      unfolding cbcDecrypt_unfold(2) [OF 2] Let_def using IH(1) c2(2) blk by simp
    moreover have "(length input + 7) div 8 = Suc ((length input - 8 + 7) div 8)"
      using 2 by linarith
    ultimately show ?thesis
      using IH(2) c2(2) by simp
  next
    case 3
    let ?t = "E (xorBlock (n2ln input (length input)) iv)"
    have c: "c = bytesOfBlock ?t" "iv' = ?t"
      using less.prems 3 by (auto simp: cbcEncrypt_unfold Let_def)
    have "(length input + 7) div 8 = 1"
      using 3 by (cases "length input") auto
    then show ?thesis
      using 3 c by (simp add: cbcDecrypt_unfold D_E xorBlock_cancel l2nn_n2ln)
  qed
qed

end

interpretation bf: block_cipher "BF_encrypt key" "BF_decrypt key" for key
  by unfold_locales (rule BF_decrypt_encrypt)

interpretation bf_inv: block_cipher "BF_decrypt key" "BF_encrypt key" for key
  by unfold_locales (rule BF_encrypt_decrypt)

section \<open>Properties\<close>

text \<open>Under every key the cipher is a bijection of the eight-byte blocks: each direction of
  \<open>BF_ecb_encrypt\<close> undoes the other.\<close>

theorem BF_ecb_inverse:
  assumes "length input = 8"
  shows "BF_ecb_encrypt (BF_ecb_encrypt input key enc) key (\<not> enc) = input"
  using assms by (cases enc) (simp_all add: BF_ecb_encrypt_def bf.D_E bf_inv.D_E bytesOfBlock_blockOfBytes)

theorem BF_ecb_inverse_witness:
  "BF_ecb_encrypt (BF_ecb_encrypt [1, 2, 3, 4, 5, 6, 7, 8] \<lparr> bf_P = replicate 18 3, bf_S = replicate 1024 5 \<rparr> BF_ENCRYPT)
     \<lparr> bf_P = replicate 18 3, bf_S = replicate 1024 5 \<rparr> (\<not> BF_ENCRYPT) = [1, 2, 3, 4, 5, 6, 7, 8]"
  by (rule BF_ecb_inverse) simp

text \<open>Decrypting what CBC mode encrypted, under the same key and initialisation vector, gives the
  input back for every length, also when the last block is partial, and ends with the same vector.\<close>

theorem BF_cbc_roundtrip:
  "fst (BF_cbc_encrypt (fst (BF_cbc_encrypt input (length input) key ivec BF_ENCRYPT)) (length input) key ivec BF_DECRYPT) = input
   \<and> snd (BF_cbc_encrypt (fst (BF_cbc_encrypt input (length input) key ivec BF_ENCRYPT)) (length input) key ivec BF_DECRYPT)
     = snd (BF_cbc_encrypt input (length input) key ivec BF_ENCRYPT)
   \<and> length (fst (BF_cbc_encrypt input (length input) key ivec BF_ENCRYPT)) = 8 * ((length input + 7) div 8)"
proof -
  obtain c iv' where c: "cbcEncrypt (BF_encrypt key) (blockOfBytes ivec) input = (c, iv')"
    by (meson surj_pair)
  from bf.cbc_roundtrip [OF c, of "[]"] show ?thesis
    by (simp add: BF_cbc_encrypt_def c)
qed

section \<open>The key schedule keeps the shape of the key\<close>

definition bfKey_wf :: "BF_KEY \<Rightarrow> bool" where
  "bfKey_wf key \<longleftrightarrow> length (bf_P key) = 18 \<and> length (bf_S key) = 1024"

lemma length_mixKey [simp]: "length (mixKey data len d ps) = length ps"
  by (induction ps arbitrary: d) (simp_all add: split_beta Let_def)

lemma fillP_wf: "bfKey_wf (fst kb) \<Longrightarrow> bfKey_wf (fst (fillP is kb))"
  by (induction "is" kb rule: fillP.induct) (auto simp: Let_def bfKey_wf_def)

lemma fillS_wf: "bfKey_wf (fst kb) \<Longrightarrow> bfKey_wf (fst (fillS is kb))"
  by (induction "is" kb rule: fillS.induct) (auto simp: Let_def bfKey_wf_def)

lemma BF_set_key_custom_sch_wf: "bfKey_wf key \<Longrightarrow> bfKey_wf (BF_set_key_custom_sch key len data)"
  using fillP_wf fillS_wf
  by (simp add: BF_set_key_custom_sch_def Let_def split_beta bfKey_wf_def)

text \<open>The lookups of the rounds stay inside the boxes: an index is at most 0x300 + 0xff.\<close>

lemma BF_F_indices: "unat (and (w :: u32) 0xff) < 0x100"
proof -
  have "and w 0xff = take_bit 8 w"
    by (rule bit_eqI) (auto simp: bit_simps numeral_eq_Suc less_Suc_eq_le le_Suc_eq)
  then show ?thesis
    using take_bit_nat_less_exp [of 8 "unat w"] by (simp add: unsigned_take_bit_eq)
qed

end
