(* ===== verification/Packet.thy ===== *)
theory Packet
  imports Prelude
begin

text \<open>
  \<open>src/common/packet/packet.c\<close> and \<open>packet.h\<close>: the headers of client and server packets. A pointer into
  a received packet is the memory from that point on; its size is a \<open>size_t\<close>, 64 bits wide, which the
  unwrapping functions decrease without a check.
\<close>

abbreviation (input) BF_BLOCK :: nat where "BF_BLOCK \<equiv> 8"

abbreviation (input) sizeof_ClientPacketHeader :: nat where "sizeof_ClientPacketHeader \<equiv> 10"

text \<open>The checksum field is left unset when the packet was not encrypted.\<close>

record ClientPacketHeader =
  cph_type :: u16
  cph_sequence :: u32
  cph_checksum :: "u32 option"

record CryptPacketHeader =
  crh_plainSize :: u16

definition clientPacketUnwrapHeader ::
    "bytes \<Rightarrow> u64 \<Rightarrow> bool \<Rightarrow> (ClientPacketHeader \<times> bytes \<times> u64) result" where
  "clientPacketUnwrapHeader packet packetSize isCrypted =
     (let headerSize = (if isCrypted then 10 else 10 - 4) in
      if length packet < headerSize then Inl OutOfBounds
      else Inr (\<lparr> cph_type = dec16 packet, cph_sequence = dec32 (drop 2 packet),
                  cph_checksum = (if isCrypted then Some (dec32 (drop 6 packet)) else None) \<rparr>,
                drop headerSize packet, packetSize - of_nat headerSize))"

definition cryptPacketGetHeader :: "bytes \<Rightarrow> CryptPacketHeader result" where
  "cryptPacketGetHeader packet =
     (if length packet < 2 then Inl OutOfBounds else Inr \<lparr> crh_plainSize = dec16 packet \<rparr>)"

definition cryptPacketUnwrapHeader :: "bytes \<Rightarrow> u64 \<Rightarrow> (CryptPacketHeader \<times> bytes \<times> u64) result" where
  "cryptPacketUnwrapHeader packet packetSize =
     rbind (cryptPacketGetHeader packet) (\<lambda>header. Inr (header, drop 2 packet, packetSize - 2))"

text \<open>\<open>CHECK_CLIENT_PACKET_SIZE\<close>: the size of the handler's structure, the received size and the size in
  the table of packet types, an \<open>int\<close> from which the header size is subtracted as \<open>size_t\<close>.\<close>

definition checkClientPacketSize :: "nat \<Rightarrow> u64 \<Rightarrow> u32 \<Rightarrow> bool" where
  "checkClientPacketSize sizeofPacket packetSize typeSize \<longleftrightarrow>
     (let clientPacketSize = (scast typeSize :: u64) - of_nat sizeof_ClientPacketHeader in
      \<not> (typeSize \<noteq> 0 \<and> of_nat sizeofPacket \<noteq> clientPacketSize)
      \<and> \<not> (packetSize > of_nat (sizeofPacket + BF_BLOCK) \<or> packetSize < of_nat sizeofPacket))"

section \<open>Server packet headers\<close>

text \<open>The headers as the bytes of the packed structures.\<close>

definition serverPacketHeaderInit :: "u16 \<Rightarrow> bytes" where
  "serverPacketHeaderInit packetType = enc16 packetType @ enc32 (-1)"

definition variableSizePacketHeaderInit :: "u16 \<Rightarrow> u32 \<Rightarrow> bytes" where
  "variableSizePacketHeaderInit packetType packetSize =
     serverPacketHeaderInit packetType @ enc16 (ucast packetSize)"

definition packetNormalHeaderInit :: "u16 \<Rightarrow> u32 \<Rightarrow> u32 \<Rightarrow> bytes" where
  "packetNormalHeaderInit BC_NORMAL subtype packetSize =
     variableSizePacketHeaderInit BC_NORMAL packetSize @ enc32 subtype"

lemma length_headers [simp]:
  "length (serverPacketHeaderInit t) = 6"
  "length (variableSizePacketHeaderInit t n) = 8"
  "length (packetNormalHeaderInit t s n) = 12"
  by (simp_all add: serverPacketHeaderInit_def variableSizePacketHeaderInit_def packetNormalHeaderInit_def)

lemma clientPacketUnwrapHeader_encode:
  assumes "10 \<le> n"
  shows "clientPacketUnwrapHeader (enc16 t @ enc32 s @ enc32 c @ body) n True =
    Inr (\<lparr> cph_type = t, cph_sequence = s, cph_checksum = Some c \<rparr>, body, n - 10)"
  by (simp add: clientPacketUnwrapHeader_def)

text \<open>A packet that is smaller than its header does not make the unwrapping fail: the remaining
  size wraps around to a number near $2^{64}$ while the memory read is beyond what was received.\<close>

theorem clientPacketUnwrapHeader_underflow:
  assumes "packetSize < 6" "6 \<le> length packet"
  shows "\<exists>h. clientPacketUnwrapHeader packet packetSize False = Inr (h, drop 6 packet, packetSize - 6)
    \<and> packetSize - 6 > 2 ^ 64 - 7"
proof -
  have "unat (packetSize - 6) = 2 ^ 64 + unat packetSize - 6"
    using assms(1) by (simp add: unat_sub_if_size word_less_nat_alt word_le_nat_alt size_word_def)
  then have "packetSize - 6 > 2 ^ 64 - 7"
    by (simp add: word_less_nat_alt)
  then show ?thesis
    using assms(2) by (auto simp: clientPacketUnwrapHeader_def)
qed

end
