(* ===== verification/Crypto.thy ===== *)
theory Crypto
  imports Blowfish Packet
begin

text \<open>
  \<open>src/common/crypto/crypto.c\<close>: the cipher of the client's packets. At start the key schedule is
  assembled from four segments of the table \<open>initSchedule\<close> of \<open>schedule.h\<close> and
  mixed with one of the sixteen keys. A packet is preceded by its plain size and is decrypted block
  by block in place; the bytes behind the last whole block stay as they are.
\<close>

definition keyIndex :: nat where "keyIndex = 11"
definition numPoint :: "nat list" where "numPoint = [16, 2, 256, 768]"
definition seekPoint :: "nat list" where "seekPoint = [4, 1056, 24, 284]"

definition keyTable :: "string list" where
  "keyTable =
     [''jvwvqgfghyrqewea'', ''gsqsdafkssqshafd'', ''mmxi0dozaqblnmwo'', ''nyrqvwescuanhanu'',
      ''gbeugfaacudgaxcs'', ''rbneolithqb5yswm'', ''1udgandceoferaxe'', ''qarqvwessdicaqbe'',
      ''2udqaxxxiscogito'', ''affcbjwxymsi0doz'', ''ydigadeath8nnmwd'', ''hsunffalqyrqewes'',
      ''gqbnnmnmymsi0doz'', ''hvwvqgfl1nrqewes'', ''sxqsdafkssqsdafk'', ''ssqsaafsssqsdof6'']"

definition sizeof_BF_KEY :: nat where "sizeof_BF_KEY = 4 * (18 + 1024)"

text \<open>The loop of \<open>cryptoInit\<close> over the segments; \<open>None\<close> is \<open>false\<close>.\<close>

fun cryptoInitLoop :: "bytes \<Rightarrow> (nat \<times> nat) list \<Rightarrow> nat \<Rightarrow> bytes \<Rightarrow> bytes option result" where
  "cryptoInitLoop initSchedule [] offset schedule = Inr (Some schedule)"
| "cryptoInitLoop initSchedule ((num, seek) # segs) offset schedule =
     (if num + offset > 1042 then Inr None
      else if (seek + num) * 4 > length initSchedule \<or> (offset + num) * 4 > length schedule then Inl OutOfBounds
      else cryptoInitLoop initSchedule segs (offset + num)
             (mem_write schedule (offset * 4) (mem_read initSchedule (seek * 4) (num * 4))))"

text \<open>The bytes of the schedule seen as a \<open>BF_KEY\<close> on a little-endian machine.\<close>

fun wordsOfBytes :: "bytes \<Rightarrow> u32 list" where
  "wordsOfBytes bs = (if length bs < 4 then [] else dec32 bs # wordsOfBytes (drop 4 bs))"

declare wordsOfBytes.simps [simp del]

definition keyOfBytes :: "bytes \<Rightarrow> BF_KEY" where
  "keyOfBytes schedule = (let ws = wordsOfBytes schedule in \<lparr> bf_P = take 18 ws, bf_S = drop 18 ws \<rparr>)"

definition cryptoInit :: "bytes \<Rightarrow> BF_KEY option result" where
  "cryptoInit initSchedule =
     (let key = map (\<lambda>c. of_nat (of_char c)) (keyTable ! keyIndex) :: bytes in
      rbind (cryptoInitLoop initSchedule (zip numPoint seekPoint) 0 (replicate sizeof_BF_KEY 0)) (\<lambda>schedule.
        case schedule of
          None \<Rightarrow> Inr None
        | Some schedule \<Rightarrow> Inr (Some (BF_set_key_custom_sch (keyOfBytes schedule) 16 key))))"

fun decryptBlocks :: "BF_KEY \<Rightarrow> nat \<Rightarrow> bytes \<Rightarrow> bytes" where
  "decryptBlocks key 0 packet = packet"
| "decryptBlocks key (Suc blocks) packet =
     BF_ecb_encrypt (take 8 packet) key BF_DECRYPT @ decryptBlocks key blocks (drop 8 packet)"

text \<open>On \<open>false\<close> the two pointers have still been moved behind the header.\<close>

definition cryptoDecryptPacket :: "BF_KEY \<Rightarrow> bytes \<Rightarrow> u64 \<Rightarrow> (bool \<times> bytes \<times> u64) result" where
  "cryptoDecryptPacket schedule packet packetSize =
     rbind (cryptPacketUnwrapHeader packet packetSize) (\<lambda>(cryptHeader, packet, packetSize).
       if packetSize \<noteq> ucast (crh_plainSize cryptHeader) then Inr (False, packet, packetSize)
       else
         let blocks = unat (crh_plainSize cryptHeader) div 8 in
         if length packet < 8 * blocks then Inl OutOfBounds
         else Inr (True, decryptBlocks schedule blocks packet, packetSize))"

section \<open>Lemmas\<close>

lemma wordsOfBytes_unfold:
  "length bs < 4 \<Longrightarrow> wordsOfBytes bs = []" "4 \<le> length bs \<Longrightarrow> wordsOfBytes bs = dec32 bs # wordsOfBytes (drop 4 bs)"
  by (subst wordsOfBytes.simps; simp)+

lemma length_wordsOfBytes: "length (wordsOfBytes bs) = length bs div 4"
proof (induction bs rule: wordsOfBytes.induct)
  case (1 bs)
  then show ?case
    by (cases "length bs < 4") (auto simp: wordsOfBytes_unfold not_less le_div_geq)
qed

lemma cryptoInitLoop_ok:
  assumes "\<forall>(num, seek) \<in> set segs. (seek + num) * 4 \<le> length initSchedule"
    and "offset + sum_list (map fst segs) \<le> 1042" "length schedule = 4 * 1042"
  shows "\<exists>s. cryptoInitLoop initSchedule segs offset schedule = Inr (Some s) \<and> length s = 4 * 1042
    \<and> take (offset * 4) s = take (offset * 4) schedule
    \<and> take (4 * sum_list (map fst segs)) (drop (offset * 4) s)
        = concat (map (\<lambda>(num, seek). mem_read initSchedule (seek * 4) (num * 4)) segs)"
  using assms
proof (induction segs arbitrary: offset schedule)
  case (Cons seg segs)
  obtain num seek where seg: "seg = (num, seek)" by force
  let ?m = "mem_read initSchedule (seek * 4) (num * 4)"
  let ?s1 = "mem_write schedule (offset * 4) ?m"
  have m: "length ?m = num * 4" "offset * 4 + length ?m \<le> length schedule"
    using Cons.prems seg by auto
  obtain s where s: "cryptoInitLoop initSchedule segs (offset + num) ?s1 = Inr (Some s)" "length s = 4 * 1042"
    "take ((offset + num) * 4) s = take ((offset + num) * 4) ?s1"
    "take (4 * sum_list (map fst segs)) (drop ((offset + num) * 4) s)
       = concat (map (\<lambda>(num, seek). mem_read initSchedule (seek * 4) (num * 4)) segs)"
    using Cons.IH [of "offset + num" ?s1] Cons.prems seg m by auto
  have pre: "take ((offset + num) * 4) s = take (offset * 4) schedule @ ?m"
    using s(3) m take_mem_write [of "offset * 4" ?m schedule] by (simp add: distrib_right)
  have "take (offset * 4) s = take (offset * 4) schedule"
    using arg_cong [OF pre, of "take (offset * 4)"] Cons.prems(2,3) seg by (simp add: min_def)
  moreover have "take (num * 4) (drop (offset * 4) s) = ?m"
    using arg_cong [OF pre, of "drop (offset * 4)"] Cons.prems(2,3) seg
    by (simp add: drop_take distrib_right)
  then have "take (4 * (num + sum_list (map fst segs))) (drop (offset * 4) s)
      = ?m @ concat (map (\<lambda>(num, seek). mem_read initSchedule (seek * 4) (num * 4)) segs)"
    using s(4) by (simp add: distrib_left take_add add.commute mult.commute distrib_right)
  moreover have "mem_read initSchedule (seek * 4) (num * 4) = ?m \<and> (seek + num) * 4 \<le> length initSchedule"
    using Cons.prems(1) seg by simp
  ultimately show ?case
    using s(1,2) Cons.prems seg by (intro exI [of _ s]) simp
qed auto

lemma decryptBlocks_encrypted:
  "length plain = 8 * n \<Longrightarrow>
   decryptBlocks key n (concat (map (\<lambda>i. BF_ecb_encrypt (take 8 (drop (8 * i) plain)) key BF_ENCRYPT) [0..<n]) @ rest)
     = plain @ rest"
proof (induction n arbitrary: plain)
  case (Suc n)
  have "map (\<lambda>i. BF_ecb_encrypt (take 8 (drop (8 * i) plain)) key BF_ENCRYPT) [0..<Suc n]
      = BF_ecb_encrypt (take 8 plain) key BF_ENCRYPT
        # map (\<lambda>i. BF_ecb_encrypt (take 8 (drop (8 * i) (drop 8 plain))) key BF_ENCRYPT) [0..<n]"
    by (simp add: upt_conv_Cons map_Suc_upt [symmetric] comp_def add.commute del: upt_Suc)
  moreover have "length (BF_ecb_encrypt x key e) = 8" for x e
    by (simp add: BF_ecb_encrypt_def)
  moreover have "BF_ecb_encrypt (BF_ecb_encrypt (take 8 plain) key BF_ENCRYPT) key BF_DECRYPT = take 8 plain"
    using Suc.prems by (simp add: BF_ecb_encrypt_def bf.D_E bytesOfBlock_blockOfBytes)
  ultimately show ?case
    using Suc.IH [of "drop 8 plain"] Suc.prems by simp
qed simp

lemma length_decryptBlocks: "8 * n \<le> length packet \<Longrightarrow> length (decryptBlocks key n packet) = length packet"
  by (induction n arbitrary: packet) (simp_all add: BF_ecb_encrypt_def)

lemma decryptBlocks_tail: "8 * n \<le> length packet \<Longrightarrow> drop (8 * n) (decryptBlocks key n packet) = drop (8 * n) packet"
proof (induction n arbitrary: packet)
  case (Suc n)
  then show ?case
    using Suc.IH [of "drop 8 packet"] by (simp add: BF_ecb_encrypt_def add.commute)
qed simp

section \<open>Properties\<close>

text \<open>The client's side: the plain text encrypted block by block behind its size.\<close>

definition clientEncryptPacket :: "BF_KEY \<Rightarrow> bytes \<Rightarrow> bytes" where
  "clientEncryptPacket key plain =
     enc16 (of_nat (length plain)) @
     concat (map (\<lambda>i. BF_ecb_encrypt (take 8 (drop (8 * i) plain)) key BF_ENCRYPT) [0..<length plain div 8]) @
     drop (8 * (length plain div 8)) plain"

lemma cryptoDecryptPacket_rest:
  assumes "length plain < 2 ^ 16"
  shows "cryptoDecryptPacket key (clientEncryptPacket key plain @ rest) (of_nat (length plain + 2))
    = Inr (True, plain @ rest, of_nat (length plain))"
proof -
  let ?n = "length plain div 8"
  have blocks: "map (\<lambda>i. BF_ecb_encrypt (take 8 (drop (8 * i) (take (8 * ?n) plain))) key BF_ENCRYPT) [0..<?n]
      = map (\<lambda>i. BF_ecb_encrypt (take 8 (drop (8 * i) plain)) key BF_ENCRYPT) [0..<?n]"
    by (rule map_cong) (auto simp: drop_take take_take)
  have "unat (of_nat (length plain) :: u16) = length plain"
    using assms by (simp add: unsigned_of_nat take_bit_nat_eq_self)
  moreover have "(ucast (of_nat (length plain) :: u16) :: u64) = of_nat (length plain)"
    using assms by (simp add: unsigned_of_nat word_eq_iff_unsigned unsigned_ucast_eq take_bit_nat_eq_self)
  moreover have "decryptBlocks key ?n (concat (map (\<lambda>i. BF_ecb_encrypt (take 8 (drop (8 * i) plain)) key BF_ENCRYPT)
      [0..<?n]) @ drop (8 * ?n) plain @ rest) = plain @ rest"
    using decryptBlocks_encrypted [of "take (8 * ?n) plain" ?n key "drop (8 * ?n) plain @ rest"] blocks
      append_assoc [of "take (8 * ?n) plain" "drop (8 * ?n) plain" rest] by simp
  moreover have "length (concat (map (\<lambda>i. BF_ecb_encrypt (take 8 (drop (8 * i) plain)) key BF_ENCRYPT) [0..<?n])) = 8 * ?n"
    by (simp add: length_concat comp_def BF_ecb_encrypt_def sum_list_triv)
  ultimately show ?thesis
    by (simp add: cryptoDecryptPacket_def clientEncryptPacket_def cryptPacketUnwrapHeader_def cryptPacketGetHeader_def Let_def)
qed

text \<open>C9: a packet that the client encrypted with the same schedule is decrypted to its plain text,
  whatever its length below 64 KiB.\<close>

theorem cryptoDecryptPacket_correct:
  assumes "length plain < 2 ^ 16"
  shows "cryptoDecryptPacket key (clientEncryptPacket key plain) (of_nat (length plain + 2))
    = Inr (True, plain, of_nat (length plain))"
  using cryptoDecryptPacket_rest [OF assms, of key "[]"] by simp

text \<open>A packet is decrypted only when the size in its header is the number of bytes behind the
  header; otherwise it is refused and no byte changes. Decryption never changes the size of the
  packet nor the bytes behind the last whole block.\<close>

theorem cryptoDecryptPacket_size:
  assumes "cryptoDecryptPacket key packet n = Inr (ok, out, m)"
  shows "m = n - 2 \<and> length out = length packet - 2
    \<and> ok = (ucast (dec16 packet) = n - 2)
    \<and> (ok \<or> out = drop 2 packet)
    \<and> drop (8 * (unat (dec16 packet) div 8)) out = drop (2 + 8 * (unat (dec16 packet) div 8)) packet"
  using assms
  by (auto simp: cryptoDecryptPacket_def cryptPacketUnwrapHeader_def cryptPacketGetHeader_def Let_def
      length_decryptBlocks decryptBlocks_tail split: if_splits)

text \<open>With a table of at least 1058 words the schedule is completely initialised: the key used
  for the packets has 18 round keys and four boxes of 256 words, and initialisation succeeds.\<close>

theorem cryptoInit_complete:
  assumes "4 * 1058 \<le> length initSchedule"
  shows "\<exists>key. cryptoInit initSchedule = Inr (Some key) \<and> bfKey_wf key"
proof -
  have "\<forall>(num, seek) \<in> set (zip numPoint seekPoint). (seek + num) * 4 \<le> length initSchedule"
    using assms by (simp add: numPoint_def seekPoint_def)
  then obtain s where s: "cryptoInitLoop initSchedule (zip numPoint seekPoint) 0 (replicate sizeof_BF_KEY 0) = Inr (Some s)"
    "length s = 4 * 1042"
    using cryptoInitLoop_ok [of "zip numPoint seekPoint" initSchedule 0 "replicate sizeof_BF_KEY 0"]
    by (auto simp: numPoint_def seekPoint_def sizeof_BF_KEY_def)
  then have "bfKey_wf (keyOfBytes s)"
    by (simp add: bfKey_wf_def keyOfBytes_def length_wordsOfBytes Let_def)
  with s(1) show ?thesis
    by (simp add: cryptoInit_def BF_set_key_custom_sch_wf)
qed

theorem cryptoInit_complete_witness:
  "\<exists>key. cryptoInit (replicate 4240 1) = Inr (Some key) \<and> bfKey_wf key"
  by (rule cryptoInit_complete) simp

definition exampleKey :: BF_KEY where
  "exampleKey = \<lparr> bf_P = replicate 18 0x01020304, bf_S = replicate 1024 0x0a0b0c0d \<rparr>"

theorem cryptoDecryptPacket_correct_witness:
  "cryptoDecryptPacket exampleKey (clientEncryptPacket exampleKey [1, 2, 3, 4, 5, 6, 7, 8, 9])
     (of_nat (length ([1, 2, 3, 4, 5, 6, 7, 8, 9] :: bytes) + 2))
   = Inr (True, [1, 2, 3, 4, 5, 6, 7, 8, 9], of_nat (length ([1, 2, 3, 4, 5, 6, 7, 8, 9] :: bytes)))"
  by (rule cryptoDecryptPacket_correct) simp

theorem cryptoDecryptPacket_size_witness:
  "(3 :: u64) = 5 - 2 \<and> length ([7, 8, 9] :: bytes) = length ([4, 0, 7, 8, 9] :: bytes) - 2
    \<and> False = (ucast (dec16 [4, 0, 7, 8, 9]) = (5 :: u64) - 2)
    \<and> (False \<or> [7, 8, 9] = drop 2 ([4, 0, 7, 8, 9] :: bytes))
    \<and> drop (8 * (unat (dec16 [4, 0, 7, 8, 9]) div 8)) ([7, 8, 9] :: bytes)
      = drop (2 + 8 * (unat (dec16 [4, 0, 7, 8, 9]) div 8)) [4, 0, 7, 8, 9]"
  by (rule cryptoDecryptPacket_size [of exampleKey])
    (simp add: cryptoDecryptPacket_def cryptPacketUnwrapHeader_def cryptPacketGetHeader_def dec16_def)

theorem clientPacketUnwrapHeader_underflow_witness:
  "\<exists>h. clientPacketUnwrapHeader [1, 0, 0, 0, 0, 0, 9] 3 False = Inr (h, drop 6 [1, 0, 0, 0, 0, 0, 9], 3 - 6)
    \<and> (3 :: u64) - 6 > 2 ^ 64 - 7"
  by (rule clientPacketUnwrapHeader_underflow) simp_all

end
