(* ===== verification/Commander.thy ===== *)
theory Commander
  imports InventorySer
begin

text \<open>
  \<open>src/common/commander/commander.c\<close> and \<open>skills_manager.c\<close>: the commander, its initial state, its image
  in the barrack and the form in which one server hands it to another. Floats are their bit patterns.
  \<open>packetStreamIn\<close> and \<open>packetStreamOut\<close> transfer \<open>sizeof (*(data))\<close> bytes, which for the two name
  arrays is one byte.
\<close>

record PositionXYZ =
  pos_x :: u32
  pos_y :: u32
  pos_z :: u32

record PositionXZ =
  xz_x :: u32
  xz_z :: u32

definition encXYZ :: "PositionXYZ \<Rightarrow> bytes" where
  "encXYZ p = enc32 (pos_x p) @ enc32 (pos_y p) @ enc32 (pos_z p)"

definition decXYZ :: "bytes \<Rightarrow> PositionXYZ" where
  "decXYZ bs = \<lparr> pos_x = dec32 bs, pos_y = dec32 (drop 4 bs), pos_z = dec32 (drop 8 bs) \<rparr>"

definition encXZ :: "PositionXZ \<Rightarrow> bytes" where
  "encXZ p = enc32 (xz_x p) @ enc32 (xz_z p)"

definition decXZ :: "bytes \<Rightarrow> PositionXZ" where
  "decXZ bs = \<lparr> xz_x = dec32 bs, xz_z = dec32 (drop 4 bs) \<rparr>"

record ('h, 'k) Commander =
  co_commanderName :: bytes
  co_familyName :: bytes
  co_gender :: byte
  co_hairId :: byte
  co_pose :: u16
  co_pos :: PositionXYZ
  co_barrackPos :: PositionXYZ
  co_dir :: PositionXZ
  co_classId :: u16
  co_jobId :: u16
  co_accountId :: u64
  co_pcId :: u32
  co_socialInfoId :: u64
  co_commanderId :: u64
  co_mapId :: u16
  co_level :: u32
  co_currentXP :: u32
  co_maxXP :: u32
  co_currentHP :: u32
  co_maxHP :: u32
  co_currentSP :: u16
  co_maxSP :: u16
  co_currentStamina :: u32
  co_maxStamina :: u32
  co_inventory :: "'h Inventory"
  co_skillsManager :: 'k

abbreviation (input) COMMANDER_NAME_SIZE :: nat where "COMMANDER_NAME_SIZE \<equiv> 64"
abbreviation (input) COMMANDER_FAMILY_NAME_SIZE :: nat where "COMMANDER_FAMILY_NAME_SIZE \<equiv> 64"

section \<open>The initial commander\<close>

definition skillsManagerInit :: "('k, 'v) zhash_ops \<Rightarrow> 'k" where
  "skillsManagerInit Z = zhash_new Z"

text \<open>The position is (-623, 260, -1044).\<close>

definition commanderInit :: "('h, addr) zhash_ops \<Rightarrow> ('k, 'v) zhash_ops \<Rightarrow> ('h, 'k) Commander" where
  "commanderInit Z Zs =
     \<lparr> co_commanderName = replicate (COMMANDER_NAME_SIZE + 1) 0, co_familyName = replicate COMMANDER_FAMILY_NAME_SIZE 0,
       co_gender = 2, co_hairId = 0x10, co_pose = 0,
       co_pos = \<lparr> pos_x = 0xC41BC000, pos_y = 0x43820000, pos_z = 0xC4828000 \<rparr>,
       co_barrackPos = \<lparr> pos_x = 0, pos_y = 0, pos_z = 0 \<rparr>, co_dir = \<lparr> xz_x = 0, xz_z = 0 \<rparr>,
       co_classId = 10005, co_jobId = 4001,
       co_accountId = -1, co_pcId = -1, co_socialInfoId = -1, co_commanderId = -1, co_mapId = 0,
       co_level = 1, co_currentXP = 0, co_maxXP = 0xC, co_currentHP = 238, co_maxHP = 238,
       co_currentSP = 105, co_maxSP = 105, co_currentStamina = 25000, co_maxStamina = 25000,
       co_inventory = inventoryInit Z, co_skillsManager = skillsManagerInit Zs \<rparr>"

section \<open>The client's image of a commander\<close>

text \<open>\<open>commanderEquipmentCPacketInit\<close> fills in the same twenty items whatever is equipped.\<close>

definition commanderEquipmentCPacketInit :: bytes where
  "commanderEquipmentCPacketInit = concat (map enc32
     [2, 2, 4, 0x81a9d, 6, 7, 0x2710, 0x2af8, 0x3118d, 0x98967c, 4, 9, 9, 4, 0x7f38d, 9, 9, 9, 9, 0xa])"

text \<open>\<open>memcpy\<close> reads 64 and 65 bytes from the two names.\<close>

definition commanderAppearanceCPacketInit ::
    "bytes \<Rightarrow> bytes \<Rightarrow> u64 \<Rightarrow> u16 \<Rightarrow> u16 \<Rightarrow> byte \<Rightarrow> u32 \<Rightarrow> byte \<Rightarrow> u16 \<Rightarrow> bytes result" where
  "commanderAppearanceCPacketInit familyName commanderName accountId classId jobId gender level hairId pose =
     (if length familyName < COMMANDER_FAMILY_NAME_SIZE \<or> length commanderName < COMMANDER_NAME_SIZE + 1
      then Inl OutOfBounds
      else Inr (take (COMMANDER_NAME_SIZE + 1) commanderName @ take COMMANDER_FAMILY_NAME_SIZE familyName
        @ replicate 7 0 @ enc64 accountId @ enc16 classId @ enc16 0x2022 @ enc16 jobId @ [gender] @ [0]
        @ enc32 level @ commanderEquipmentCPacketInit @ [hairId] @ [0] @ enc16 pose))"

definition commanderAppearance :: "('h, 'k) Commander \<Rightarrow> bytes result" where
  "commanderAppearance c = commanderAppearanceCPacketInit (co_familyName c) (co_commanderName c) (co_accountId c)
     (co_classId c) (co_jobId c) (co_gender c) (co_level c) (co_hairId c) (co_pose c)"

section \<open>Between servers\<close>

abbreviation (input) sizeof_CommanderSPacket :: nat where "sizeof_CommanderSPacket \<equiv> 219"

definition commanderGetSPacketSize :: "('h, 'k) Commander \<Rightarrow> Store \<Rightarrow> nat result" where
  "commanderGetSPacketSize self st =
     rbind (inventoryGetSPacketSize (co_inventory self) st) (\<lambda>n. Inr (sizeof_CommanderSPacket + n))"

text \<open>The two halves of \<open>commanderSerializeSPacket\<close>: the fields and the inventory.\<close>

definition commanderFieldsIn :: "('h, 'k) Commander \<Rightarrow> PacketStream \<Rightarrow> PacketStream" where
  "commanderFieldsIn self stream =
    (let stream = packetStreamAppend stream (take 1 (co_commanderName self));
         stream = packetStreamAppend stream (take 1 (co_familyName self));
         stream = packetStreamAppend stream [co_gender self];
         stream = packetStreamAppend stream [co_hairId self];
         stream = packetStreamAppend stream (enc16 (co_pose self));
         stream = packetStreamAppend stream (encXYZ (co_pos self));
         stream = packetStreamAppend stream (encXZ (co_dir self));
         stream = packetStreamAppend stream (enc16 (co_classId self));
         stream = packetStreamAppend stream (enc16 (co_jobId self));
         stream = packetStreamAppend stream (enc64 (co_accountId self));
         stream = packetStreamAppend stream (enc32 (co_pcId self));
         stream = packetStreamAppend stream (enc64 (co_socialInfoId self));
         stream = packetStreamAppend stream (enc64 (co_commanderId self));
         stream = packetStreamAppend stream (enc16 (co_mapId self));
         stream = packetStreamAppend stream (enc32 (co_level self));
         stream = packetStreamAppend stream (enc32 (co_currentXP self));
         stream = packetStreamAppend stream (enc32 (co_maxXP self));
         stream = packetStreamAppend stream (enc32 (co_currentHP self));
         stream = packetStreamAppend stream (enc32 (co_maxHP self));
         stream = packetStreamAppend stream (enc16 (co_currentSP self));
         stream = packetStreamAppend stream (enc16 (co_maxSP self));
         stream = packetStreamAppend stream (enc32 (co_currentStamina self));
         stream = packetStreamAppend stream (enc32 (co_maxStamina self)) in
     stream)"

definition commanderSerializeSPacket ::
    "('h, addr) zhash_ops \<Rightarrow> ('h, 'k) Commander \<Rightarrow> Store \<Rightarrow> PacketStream \<Rightarrow> PacketStream result" where
  "commanderSerializeSPacket Z self st stream =
     rbind (commanderGetSPacketSize self st) (\<lambda>sz.
     let stream = packetStreamDebugStart stream sz ''commanderSerializeSPacket'';
         stream = commanderFieldsIn self stream in
     inventorySerializeSPacket Z (co_inventory self) st stream)"

text \<open>\<open>packetStreamOut\<close> into an object with the content \<open>old\<close>, which stays when the stream is exhausted.\<close>

definition packetStreamOut :: "PacketStream \<Rightarrow> bytes \<Rightarrow> bytes \<times> PacketStream" where
  "packetStreamOut stream old =
     (case packetStreamGet stream (length old) of
        (None, stream) \<Rightarrow> (old, stream)
      | (Some bs, stream) \<Rightarrow> (bs, stream))"

definition commanderFieldsOut :: "('h, 'k) Commander \<Rightarrow> PacketStream \<Rightarrow> ('h, 'k) Commander \<times> PacketStream" where
  "commanderFieldsOut self stream =
    (let (b, stream) = packetStreamOut stream (take 1 (co_commanderName self));
         self = self \<lparr> co_commanderName := mem_write (co_commanderName self) 0 b \<rparr>;
         (b, stream) = packetStreamOut stream (take 1 (co_familyName self));
         self = self \<lparr> co_familyName := mem_write (co_familyName self) 0 b \<rparr>;
         (b, stream) = packetStreamOut stream ([co_gender self]); self = self \<lparr> co_gender := hd b \<rparr>;
         (b, stream) = packetStreamOut stream ([co_hairId self]); self = self \<lparr> co_hairId := hd b \<rparr>;
         (b, stream) = packetStreamOut stream (enc16 (co_pose self)); self = self \<lparr> co_pose := dec16 b \<rparr>;
         (b, stream) = packetStreamOut stream (encXYZ (co_pos self)); self = self \<lparr> co_pos := decXYZ b \<rparr>;
         (b, stream) = packetStreamOut stream (encXZ (co_dir self)); self = self \<lparr> co_dir := decXZ b \<rparr>;
         (b, stream) = packetStreamOut stream (enc16 (co_classId self)); self = self \<lparr> co_classId := dec16 b \<rparr>;
         (b, stream) = packetStreamOut stream (enc16 (co_jobId self)); self = self \<lparr> co_jobId := dec16 b \<rparr>;
         (b, stream) = packetStreamOut stream (enc64 (co_accountId self)); self = self \<lparr> co_accountId := dec64 b \<rparr>;
         (b, stream) = packetStreamOut stream (enc32 (co_pcId self)); self = self \<lparr> co_pcId := dec32 b \<rparr>;
         (b, stream) = packetStreamOut stream (enc64 (co_socialInfoId self)); self = self \<lparr> co_socialInfoId := dec64 b \<rparr>;
         (b, stream) = packetStreamOut stream (enc64 (co_commanderId self)); self = self \<lparr> co_commanderId := dec64 b \<rparr>;
         (b, stream) = packetStreamOut stream (enc16 (co_mapId self)); self = self \<lparr> co_mapId := dec16 b \<rparr>;
         (b, stream) = packetStreamOut stream (enc32 (co_level self)); self = self \<lparr> co_level := dec32 b \<rparr>;
         (b, stream) = packetStreamOut stream (enc32 (co_currentXP self)); self = self \<lparr> co_currentXP := dec32 b \<rparr>;
         (b, stream) = packetStreamOut stream (enc32 (co_maxXP self)); self = self \<lparr> co_maxXP := dec32 b \<rparr>;
         (b, stream) = packetStreamOut stream (enc32 (co_currentHP self)); self = self \<lparr> co_currentHP := dec32 b \<rparr>;
         (b, stream) = packetStreamOut stream (enc32 (co_maxHP self)); self = self \<lparr> co_maxHP := dec32 b \<rparr>;
         (b, stream) = packetStreamOut stream (enc16 (co_currentSP self)); self = self \<lparr> co_currentSP := dec16 b \<rparr>;
         (b, stream) = packetStreamOut stream (enc16 (co_maxSP self)); self = self \<lparr> co_maxSP := dec16 b \<rparr>;
         (b, stream) = packetStreamOut stream (enc32 (co_currentStamina self)); self = self \<lparr> co_currentStamina := dec32 b \<rparr>;
         (b, stream) = packetStreamOut stream (enc32 (co_maxStamina self)); self = self \<lparr> co_maxStamina := dec32 b \<rparr> in
     (self, stream))"

definition commanderUnserializeSPacket ::
    "('h, addr) zhash_ops \<Rightarrow> ('k, 'v) zhash_ops \<Rightarrow> StaticLookup \<Rightarrow> Store \<Rightarrow> PacketStream \<Rightarrow>
     (bool \<times> ('h, 'k) Commander \<times> Store \<times> PacketStream) result" where
  "commanderUnserializeSPacket Z Zs gsd st stream =
     (let stream = packetStreamDebugStart stream (ps_size stream) ''commanderUnserializeSPacket'';
          (self, stream) = commanderFieldsOut (commanderInit Z Zs) stream in
     rbind (inventoryUnserializeSPacket Z gsd (co_inventory self) st stream) (\<lambda>(ok, iv, st, stream).
       Inr (ok, self \<lparr> co_inventory := iv \<rparr>, st, stream)))"

section \<open>What is transferred\<close>

definition commanderFields :: "('h, 'k) Commander \<Rightarrow> bytes" where
  "commanderFields c =
     take 1 (co_commanderName c) @ take 1 (co_familyName c) @
     [co_gender c] @ [co_hairId c] @ enc16 (co_pose c) @ encXYZ (co_pos c) @ encXZ (co_dir c) @
     enc16 (co_classId c) @ enc16 (co_jobId c) @ enc64 (co_accountId c) @ enc32 (co_pcId c) @
     enc64 (co_socialInfoId c) @ enc64 (co_commanderId c) @ enc16 (co_mapId c) @ enc32
     (co_level c) @ enc32 (co_currentXP c) @ enc32 (co_maxXP c) @ enc32 (co_currentHP c) @
     enc32 (co_maxHP c) @ enc16 (co_currentSP c) @ enc16 (co_maxSP c) @ enc32
     (co_currentStamina c) @ enc32 (co_maxStamina c)"

definition commander_wf :: "('h, addr) zhash_ops \<Rightarrow> ('h, 'k) Commander \<Rightarrow> Store \<Rightarrow> bool" where
  "commander_wf Z c st \<longleftrightarrow> length (co_commanderName c) = 65 \<and> length (co_familyName c) = 64
     \<and> inv_wf Z (co_inventory c) st"

text \<open>What the receiving server gets, apart from the inventory and the skills.\<close>

definition commanderReadBack :: "('h, addr) zhash_ops \<Rightarrow> ('k, 'v) zhash_ops \<Rightarrow> ('h, 'k) Commander \<Rightarrow> ('h, 'k) Commander" where
  "commanderReadBack Z Zs c = c
     \<lparr> co_commanderName := take 1 (co_commanderName c) @ replicate 64 0,
       co_familyName := take 1 (co_familyName c) @ replicate 63 0,
       co_barrackPos := \<lparr> pos_x = 0, pos_y = 0, pos_z = 0 \<rparr>,
       co_inventory := inventoryInit Z, co_skillsManager := zhash_new Zs \<rparr>"

section \<open>Lemmas\<close>

lemma length_encXYZ [simp]: "length (encXYZ p) = 12" "length (encXZ q) = 8"
  by (simp_all add: encXYZ_def encXZ_def)

lemma dec_encXYZ [simp]: "decXYZ (encXYZ p) = p" "decXZ (encXZ q) = q"
  by (simp_all add: decXYZ_def encXYZ_def decXZ_def encXZ_def)

lemma length_commanderFields:
  "commander_wf Z c st \<Longrightarrow> length (commanderFields c) = 92"
  by (simp add: commanderFields_def commander_wf_def)

lemma packetStreamAppend_snoc:
  assumes "ps_appends s bs t" "length (bs @ cs) \<le> ps_room s"
  shows "ps_appends s (bs @ cs) (packetStreamAppend t cs)"
  using assms by (rule ps_appends_comp) (rule packetStreamAppend_appends)

lemma packetStreamOut_next:
  assumes "ps_next s (bs @ cs) tail" "length old = length bs"
  obtains t where "packetStreamOut s old = (bs, t)" "ps_next t cs tail"
proof -
  obtain t where "packetStreamGet s (length bs) = (Some bs, t)" "ps_next t cs tail"
    using ps_next_get [OF assms(1) refl] by blast
  then show thesis
    using that assms(2) by (simp add: packetStreamOut_def)
qed

lemma packetStreamOut_case:
  assumes "ps_next s (bs @ cs) tail" "length old = length bs"
    and "\<And>t. ps_next t cs tail \<Longrightarrow> (case F bs t of (c, u) \<Rightarrow> P c u)"
  shows "case (case packetStreamOut s old of (b, t) \<Rightarrow> F b t) of (c, u) \<Rightarrow> P c u"
  using packetStreamOut_next [OF assms(1,2)] assms(3) by (metis case_prod_conv)

lemma commanderFieldsIn_appends:
  assumes "ps_wf s" "length (commanderFields c) \<le> ps_room s"
  shows "ps_appends s (commanderFields c) (commanderFieldsIn c s)"
proof -
  have "length (commanderFields c) \<le> ps_room s" by fact
  then show ?thesis
    unfolding commanderFieldsIn_def Let_def commanderFields_def append_assoc [symmetric]
    by (intro packetStreamAppend_snoc packetStreamAppend_appends assms(1); simp)
qed

lemma commanderFieldsOut_next:
  assumes "ps_next s (commanderFields c @ cs) tail" "length (co_commanderName c) = 65" "length (co_familyName c) = 64"
    and "length (co_commanderName d) = 65" "length (co_familyName d) = 64"
  shows "case commanderFieldsOut d s of (c', t) \<Rightarrow>
    c' = c \<lparr> co_commanderName := mem_write (co_commanderName d) 0 (take 1 (co_commanderName c)),
             co_familyName := mem_write (co_familyName d) 0 (take 1 (co_familyName c)),
             co_barrackPos := co_barrackPos d, co_inventory := co_inventory d, co_skillsManager := co_skillsManager d \<rparr>
    \<and> ps_next t cs tail"
  by (insert assms(1), unfold commanderFieldsOut_def Let_def commanderFields_def append_assoc)
    ((erule packetStreamOut_case, simp add: assms(2-))+, simp add: assms(2-))

section \<open>Properties\<close>

text \<open>A commander is written as the first byte of each of its names, its other fields and its
  inventory. The announced size counts the whole names and is 127 bytes more than what is written.\<close>

theorem commanderSerialize_short:
  assumes "zhash Z" "commander_wf Z c st" "ps_wf s"
    and "length (commanderFields c @ invEnc (eqItems (co_inventory c) st) (bagItems (co_inventory c) st)) \<le> ps_room s"
  shows "\<exists>s'. commanderSerializeSPacket Z c st s = Inr s'
    \<and> ps_appends s (commanderFields c @ invEnc (eqItems (co_inventory c) st) (bagItems (co_inventory c) st)) s'
    \<and> commanderGetSPacketSize c st = Inr (ps_position s' - ps_position s + 127)"
proof -
  let ?inv = "invEnc (eqItems (co_inventory c) st) (bagItems (co_inventory c) st)"
  let ?s = "packetStreamDebugStart s (219 + length ?inv) ''commanderSerializeSPacket''"
  let ?s1 = "commanderFieldsIn c ?s"
  have wf: "inv_wf Z (co_inventory c) st"
    using assms(2) by (simp add: commander_wf_def)
  have s1: "ps_appends s (commanderFields c) ?s1"
    using commanderFieldsIn_appends [of ?s c] assms(3,4) by simp
  then have room: "ps_wf ?s1" "length ?inv \<le> ps_room ?s1"
    using assms(4) by (auto simp: ps_appends_room)
  from inventorySerialize_ok [OF assms(1) wf room] obtain s' where
    size: "inventoryGetSPacketSize (co_inventory c) st = Inr (length ?inv)"
    and s': "inventorySerializeSPacket Z (co_inventory c) st ?s1 = Inr s'" "ps_appends ?s1 ?inv s'"
    by blast
  then have "ps_appends s (commanderFields c @ ?inv) s'"
    using s1 ps_appends_trans by blast
  then show ?thesis
    using size s'(1) length_commanderFields [OF assms(2)]
    by (auto simp: commanderSerializeSPacket_def commanderGetSPacketSize_def Let_def ps_appends_def)
qed

text \<open>Reading it back gives every field but these: each name is cut to its first byte, the position
  in the barrack is the origin, the skills are empty; the equipment and the bags are restored, but no
  item of the bags can be found by its identifier.\<close>

theorem commander_serialize_unserialize:
  assumes "zhash Z" "commander_wf Z c st" "st_fresh st'"
    and "ps_next s (commanderFields c @ invEnc xs ys @ cs) tail" "tailSafe (cs @ tail)"
    and "\<forall>x \<in> set xs \<union> set ys. itemWire gsd x"
    and "\<forall>x \<in> set xs. itemEquipable x \<noteq> None \<and> itemSlot x < 20" "distinct (map itemSlot xs)"
    and "length ys < 3703"
  shows "\<exists>iv' st'' t.
    commanderUnserializeSPacket Z Zs gsd st' s = Inr (True, commanderReadBack Z Zs c \<lparr> co_inventory := iv' \<rparr>, st'', t)
    \<and> ps_next t cs tail
    \<and> (\<forall>x \<in> set xs. \<exists>a. inv_equippedItems iv' ! itemSlot x = Some a \<and> st_items st'' a = Some (itemReadBack x))
    \<and> (\<forall>n < 16. map (handleItem st'') (inv_bags iv' ! n)
          = map (Some \<circ> itemReadBack) (filter (\<lambda>y. itemCat y = n) ys))
    \<and> (\<forall>uid. inventoryGetItemByActorId Z iv' st'' uid = Inr None)"
proof -
  let ?s = "packetStreamDebugStart s (ps_size s) ''commanderUnserializeSPacket''"
  have names: "length (co_commanderName c) = 65" "length (co_familyName c) = 64"
    using assms(2) by (simp_all add: commander_wf_def)
  obtain c1 t where out: "commanderFieldsOut (commanderInit Z Zs) ?s = (c1, t)"
    by fastforce
  have c1: "c1 = commanderReadBack Z Zs c" and t: "ps_next t (invEnc xs ys @ cs) tail"
    using commanderFieldsOut_next [of ?s c "invEnc xs ys @ cs" tail "commanderInit Z Zs"] assms(4) names out
    by (auto simp: commanderInit_def skillsManagerInit_def commanderReadBack_def mem_write_def)
  have inv: "co_inventory (commanderReadBack Z Zs c) = inventoryInit Z"
    by (simp add: commanderReadBack_def)
  from inventoryUnserialize_ok [OF assms(1) inventoryInit_fresh [OF assms(1,3)] t assms(5-9)]
  obtain iv' st'' u where "inventoryUnserializeSPacket Z gsd (inventoryInit Z) st' t = Inr (True, iv', st'', u)"
    "ps_next u cs tail"
    "\<forall>x \<in> set xs. \<exists>a. inv_equippedItems iv' ! itemSlot x = Some a \<and> st_items st'' a = Some (itemReadBack x)"
    "\<forall>n < 16. map (handleItem st'') (inv_bags iv' ! n) = map (Some \<circ> itemReadBack) (filter (\<lambda>y. itemCat y = n) ys)"
    "\<forall>uid. inventoryGetItemByActorId Z iv' st'' uid = Inr None"
    by blast
  then show ?thesis
    using out c1 inv by (intro exI [of _ iv'] exI [of _ st''] exI [of _ u])
      (simp add: commanderUnserializeSPacket_def)
qed

end
