(* ===== verification/CommanderWitness.thy ===== *)
theory CommanderWitness
  imports Commander InventoryWitness
begin

text \<open>The theorems on commanders at a concrete one, with the inventory of \<open>InventoryWitness\<close>.\<close>

definition exCommander :: "((string \<times> addr) list, (string \<times> nat) list) Commander" where
  "exCommander = commanderInit al_ops al_ops
     \<lparr> co_commanderName := [65, 66, 67] @ replicate 62 0, co_familyName := [68, 69] @ replicate 62 0,
       co_inventory := exInventory \<rparr>"

lemma exCommander_wf: "commander_wf al_ops exCommander exStore"
  using exInventory_wf by (simp add: commander_wf_def exCommander_def)

lemma exCommander_inv [simp]: "co_inventory exCommander = exInventory"
  by (simp add: exCommander_def)

lemma exInventory_enc:
  "eqItems exInventory exStore = [exWeapon 3 EQSLOT_WEAPON]"
  "bagItems exInventory exStore = [exWeapon 1 EQSLOT_NOSLOT, exWeapon 2 EQSLOT_NOSLOT]"
  by (simp_all add: eqItems_def equippedAddrs_def bagItems_def exInventory_lists)

theorem commanderSerialize_short_witness:
  "\<exists>s'. commanderSerializeSPacket al_ops exCommander exStore (packetStreamInit (replicate 200 0) 200) = Inr s'
    \<and> ps_appends (packetStreamInit (replicate 200 0) 200)
        (commanderFields exCommander @ invEnc (eqItems (co_inventory exCommander) exStore) (bagItems (co_inventory exCommander) exStore)) s'
    \<and> commanderGetSPacketSize exCommander exStore
        = Inr (ps_position s' - ps_position (packetStreamInit (replicate 200 0) 200) + 127)"
proof (rule commanderSerialize_short [OF al.zhash_axioms exCommander_wf])
  show "length (commanderFields exCommander @ invEnc (eqItems (co_inventory exCommander) exStore)
      (bagItems (co_inventory exCommander) exStore)) \<le> ps_room (packetStreamInit (replicate 200 0) 200)"
    by (simp add: length_commanderFields [OF exCommander_wf] exInventory_enc invEnc_def itemEnc_def itemChildEnc_def
        itemClassEnc_def itemWeaponEnc_def exWeapon_def exampleWeapon_def propertyFloatGetSPacketSize_def
        ps_room_def packetStreamInit_def)
qed (simp add: ps_wf_def packetStreamInit_def)

theorem commander_serialize_unserialize_witness:
  "\<exists>iv' st'' t. commanderUnserializeSPacket al_ops al_ops (\<lambda>_. Inr (None, None)) exStore
       (packetStreamInit (commanderFields exCommander @ invEnc [exWeapon 3 EQSLOT_WEAPON] [exWeapon 1 EQSLOT_NOSLOT] @ [0, 0]) 148)
     = Inr (True, commanderReadBack al_ops al_ops exCommander \<lparr> co_inventory := iv' \<rparr>, st'', t)
    \<and> co_commanderName (commanderReadBack al_ops al_ops exCommander) = 65 # replicate 64 0
    \<and> (\<exists>a. inv_equippedItems iv' ! 8 = Some a \<and> st_items st'' a = Some (exWeapon 3 EQSLOT_WEAPON))"
proof -
  let ?s = "packetStreamInit (commanderFields exCommander @ invEnc [exWeapon 3 EQSLOT_WEAPON] [exWeapon 1 EQSLOT_NOSLOT] @ [0, 0]) 148"
  have "ps_next ?s (commanderFields exCommander @ invEnc [exWeapon 3 EQSLOT_WEAPON] [exWeapon 1 EQSLOT_NOSLOT] @ []) [0, 0]"
    by (simp add: ps_next_def ps_wf_def packetStreamInit_def packetStreamGetCurrentBuffer_def ps_room_def
        length_commanderFields [OF exCommander_wf] invEnc_def itemEnc_def itemChildEnc_def itemClassEnc_def
        itemWeaponEnc_def exWeapon_def exampleWeapon_def propertyFloatGetSPacketSize_def)
  moreover have "tailSafe ([] @ [0, 0])"
    by (simp add: tailSafe_def propertyIds_def dec16_def)
  moreover have "st_fresh exStore"
    using exInventory_wf by (simp add: inv_wf_def)
  moreover have "co_commanderName (commanderReadBack al_ops al_ops exCommander) = 65 # replicate 64 0"
    by (simp add: commanderReadBack_def exCommander_def)
  ultimately show ?thesis
    using commander_serialize_unserialize [OF al.zhash_axioms exCommander_wf, of exStore ?s "[exWeapon 3 EQSLOT_WEAPON]"
        "[exWeapon 1 EQSLOT_NOSLOT]" "[]" "[0, 0]" "\<lambda>_. Inr (None, None)" al_ops]
    by (auto simp: itemWire_def uidSafe_def propertyIds_def)
qed

end
