(* ===== verification/PacketType.thy ===== *)
theory PacketType
  imports Packet
begin

text \<open>
  \<open>src/common/packet/packet_type.h\<close> and \<open>packet_type.c\<close>: the table of the packet types, in the order of
  \<open>FOREACH_PACKET_TYPE\<close>, and the array \<open>packetTypeInfo\<close> built from it at start, which is indexed by the
  type. A size of 0 stands for a packet of variable size.
\<close>

record PacketTypeEntry =
  pte_id :: int
  pte_size :: int
  pte_name :: string

definition GENERATE_PACKET_TYPE_ENTRY :: "string \<Rightarrow> int \<Rightarrow> int \<Rightarrow> PacketTypeEntry" where
  "GENERATE_PACKET_TYPE_ENTRY name tid sz = \<lparr> pte_id = tid, pte_size = sz, pte_name = name \<rparr>"

definition packetTypes_0 :: "PacketTypeEntry list" where
  "packetTypes_0 =
    [GENERATE_PACKET_TYPE_ENTRY ''CB_LOGIN'' 3 66,
     GENERATE_PACKET_TYPE_ENTRY ''CB_LOGIN_BY_PASSPORT'' 4 1052,
     GENERATE_PACKET_TYPE_ENTRY ''CB_LOGOUT'' 5 10,
     GENERATE_PACKET_TYPE_ENTRY ''CB_START_GAME'' 10 13,
     GENERATE_PACKET_TYPE_ENTRY ''CB_START_BARRACK'' 6 11,
     GENERATE_PACKET_TYPE_ENTRY ''CB_COMMANDER_CREATE'' 7 92,
     GENERATE_PACKET_TYPE_ENTRY ''CB_COMMANDER_DESTROY'' 8 11,
     GENERATE_PACKET_TYPE_ENTRY ''CB_CHECK_CLIENT_INTEGRITY'' 9 74,
     GENERATE_PACKET_TYPE_ENTRY ''CB_ECHO'' 13 30,
     GENERATE_PACKET_TYPE_ENTRY ''CB_BARRACKNAME_CHANGE'' 11 74,
     GENERATE_PACKET_TYPE_ENTRY ''CB_COMMANDER_MOVE'' 12 31,
     GENERATE_PACKET_TYPE_ENTRY ''BC_LOGINOK'' 14 121,
     GENERATE_PACKET_TYPE_ENTRY ''BC_LOGIN_PACKET_RECEIVED'' 15 6,
     GENERATE_PACKET_TYPE_ENTRY ''BC_LOGOUTOK'' 16 6,
     GENERATE_PACKET_TYPE_ENTRY ''BC_START_GAMEOK'' 20 33,
     GENERATE_PACKET_TYPE_ENTRY ''BC_SINGLE_INFO'' 21 317,
     GENERATE_PACKET_TYPE_ENTRY ''BC_COMMANDER_LIST'' 17 0,
     GENERATE_PACKET_TYPE_ENTRY ''BC_COMMANDER_CREATE'' 18 326,
     GENERATE_PACKET_TYPE_ENTRY ''BC_COMMANDER_DESTROY'' 19 7,
     GENERATE_PACKET_TYPE_ENTRY ''BC_MESSAGE'' 22 0,
     GENERATE_PACKET_TYPE_ENTRY ''BC_ECHO'' 23 26,
     GENERATE_PACKET_TYPE_ENTRY ''CB_IES_MODIFY_INFO'' 70 0,
     GENERATE_PACKET_TYPE_ENTRY ''BC_IES_MODIFY_INFO'' 71 0,
     GENERATE_PACKET_TYPE_ENTRY ''BC_IES_MODIFY_LIST'' 72 0,
     GENERATE_PACKET_TYPE_ENTRY ''CB_IES_REVISION_DELETE'' 73 0,
     GENERATE_PACKET_TYPE_ENTRY ''BC_IES_REVISION_DELETE'' 74 0,
     GENERATE_PACKET_TYPE_ENTRY ''BC_MYPAGE_MAP'' 24 0,
     GENERATE_PACKET_TYPE_ENTRY ''BC_BARRACKNAME_CHANGE'' 25 75,
     GENERATE_PACKET_TYPE_ENTRY ''CB_VISIT'' 75 74,
     GENERATE_PACKET_TYPE_ENTRY ''CB_BUY_THEMA'' 76 22,
     GENERATE_PACKET_TYPE_ENTRY ''BC_ACCOUNT_PROP'' 77 0,
     GENERATE_PACKET_TYPE_ENTRY ''CB_CURRENT_BARRACK'' 78 39,
     GENERATE_PACKET_TYPE_ENTRY ''BC_NORMAL'' 79 0,
     GENERATE_PACKET_TYPE_ENTRY ''CB_POSE'' 80 15,
     GENERATE_PACKET_TYPE_ENTRY ''CB_PLACE_CMD'' 81 46,
     GENERATE_PACKET_TYPE_ENTRY ''CB_CHAT'' 82 0,
     GENERATE_PACKET_TYPE_ENTRY ''BC_CHAT'' 83 0,
     GENERATE_PACKET_TYPE_ENTRY ''CB_ECHO_NORMAL'' 84 0,
     GENERATE_PACKET_TYPE_ENTRY ''CB_JUMP'' 85 19,
     GENERATE_PACKET_TYPE_ENTRY ''BC_JUMP'' 86 19,
     GENERATE_PACKET_TYPE_ENTRY ''BC_SERVER_ENTRY'' 87 18,
     GENERATE_PACKET_TYPE_ENTRY ''CB_PET_PC'' 88 26,
     GENERATE_PACKET_TYPE_ENTRY ''CB_DELETE_PET'' 89 18,
     GENERATE_PACKET_TYPE_ENTRY ''CB_REQ_CHANGE_POSTBOX_STATE'' 90 22,
     GENERATE_PACKET_TYPE_ENTRY ''CB_REQ_GET_POSTBOX_ITEM'' 91 30,
     GENERATE_PACKET_TYPE_ENTRY ''BC_WAIT_QUEUE_ORDER'' 92 10,
     GENERATE_PACKET_TYPE_ENTRY ''CB_CANCEL_SERVER_WAIT_QUEUE'' 93 10,
     GENERATE_PACKET_TYPE_ENTRY ''CS_LOGIN'' 2901 64,
     GENERATE_PACKET_TYPE_ENTRY ''SC_NORMAL'' 2902 0,
     GENERATE_PACKET_TYPE_ENTRY ''SC_FROM_INTEGRATE'' 2903 0,
     GENERATE_PACKET_TYPE_ENTRY ''CS_REGISTER_SNS_ID'' 2904 16,
     GENERATE_PACKET_TYPE_ENTRY ''CS_REQ_SNS_PC_INFO'' 2905 0,
     GENERATE_PACKET_TYPE_ENTRY ''CS_REQ_ADD_FRIEND'' 2906 70,
     GENERATE_PACKET_TYPE_ENTRY ''CS_REQ_BLOCK_FRIEND'' 2907 70,
     GENERATE_PACKET_TYPE_ENTRY ''CS_FRIEND_CMD'' 2908 24,
     GENERATE_PACKET_TYPE_ENTRY ''CS_FRIEND_SET_ADDINFO'' 2909 160,
     GENERATE_PACKET_TYPE_ENTRY ''CS_CHAT'' 2910 0,
     GENERATE_PACKET_TYPE_ENTRY ''CS_CREATE_GROUP_CHAT'' 2911 6,
     GENERATE_PACKET_TYPE_ENTRY ''CS_GROUP_CHAT_INVITE'' 2912 78,
     GENERATE_PACKET_TYPE_ENTRY ''CS_REFRESH_GROUP_CHAT'' 2913 6,
     GENERATE_PACKET_TYPE_ENTRY ''CS_CHAT_HISTORY'' 2914 22,
     GENERATE_PACKET_TYPE_ENTRY ''CS_CHAT_READ'' 2915 30,
     GENERATE_PACKET_TYPE_ENTRY ''CS_REMOVE_GROUP_MEMBER'' 2916 14,
     GENERATE_PACKET_TYPE_ENTRY ''CS_ADD_RELATION_SCORE'' 2928 88,
     GENERATE_PACKET_TYPE_ENTRY ''CS_GET_LIKE_COUNT'' 2929 16,
     GENERATE_PACKET_TYPE_ENTRY ''CS_LIKE_IT'' 2925 80,
     GENERATE_PACKET_TYPE_ENTRY ''CS_UNLIKE_IT'' 2926 16,
     GENERATE_PACKET_TYPE_ENTRY ''CS_LIKE_IT_CONFIRM'' 2927 16,
     GENERATE_PACKET_TYPE_ENTRY ''CS_REQ_RELATED_PC_SESSION'' 2917 16,
     GENERATE_PACKET_TYPE_ENTRY ''CS_REDIS_SKILLPOINT'' 2918 22,
     GENERATE_PACKET_TYPE_ENTRY ''CS_PARTY_CLIENT_INFO_SEND'' 2919 0,
     GENERATE_PACKET_TYPE_ENTRY ''CS_NORMAL_GAME_START'' 2920 6,
     GENERATE_PACKET_TYPE_ENTRY ''CS_PVP_COMMAND'' 2921 18,
     GENERATE_PACKET_TYPE_ENTRY ''CS_REQUEST_PVP_RANKING'' 2922 83,
     GENERATE_PACKET_TYPE_ENTRY ''CS_INVITE_PARTY_PVP'' 2923 10,
     GENERATE_PACKET_TYPE_ENTRY ''CS_ACCEPT_PARTY_PVP'' 2924 19,
     GENERATE_PACKET_TYPE_ENTRY ''CZ_CONNECT'' 3001 1164,
     GENERATE_PACKET_TYPE_ENTRY ''CZ_GAME_READY'' 3006 10,
     GENERATE_PACKET_TYPE_ENTRY ''CZ_KEYBOARD_MOVE'' 3166 41,
     GENERATE_PACKET_TYPE_ENTRY ''CZ_EXPECTED_STOP_POS'' 3167 31,
     GENERATE_PACKET_TYPE_ENTRY ''CZ_MOVE_PATH'' 3171 27,
     GENERATE_PACKET_TYPE_ENTRY ''CZ_MOVE_STOP'' 3172 35,
     GENERATE_PACKET_TYPE_ENTRY ''CZ_JUMP'' 3168 11,
     GENERATE_PACKET_TYPE_ENTRY ''CZ_DASHRUN'' 3169 11,
     GENERATE_PACKET_TYPE_ENTRY ''CZ_REST_SIT'' 3173 10,
     GENERATE_PACKET_TYPE_ENTRY ''CZ_ON_AIR'' 3174 10,
     GENERATE_PACKET_TYPE_ENTRY ''CZ_ON_GROUND'' 3175 10,
     GENERATE_PACKET_TYPE_ENTRY ''CZ_SKILL_JUMP_REQ'' 3170 30,
     GENERATE_PACKET_TYPE_ENTRY ''CZ_LOGOUT'' 3008 11,
     GENERATE_PACKET_TYPE_ENTRY ''CZ_MOVE_BARRACK'' 3009 11,
     GENERATE_PACKET_TYPE_ENTRY ''CZ_MOVE_ZONE_OK'' 3004 10,
     GENERATE_PACKET_TYPE_ENTRY ''CZ_MOVEMENT_INFO'' 3176 23,
     GENERATE_PACKET_TYPE_ENTRY ''CZ_SKILL_TARGET'' 3177 19,
     GENERATE_PACKET_TYPE_ENTRY ''CZ_SKILL_TARGET_ANI'' 3178 23,
     GENERATE_PACKET_TYPE_ENTRY ''CZ_SKILL_GROUND'' 3179 61,
     GENERATE_PACKET_TYPE_ENTRY ''CZ_SKILL_SELF'' 3180 35,
     GENERATE_PACKET_TYPE_ENTRY ''CZ_SKILL_CANCEL'' 3181 11,
     GENERATE_PACKET_TYPE_ENTRY ''CZ_HOLD'' 3182 11,
     GENERATE_PACKET_TYPE_ENTRY ''CZ_SHOUT'' 3189 0,
     GENERATE_PACKET_TYPE_ENTRY ''CZ_CHAT'' 3187 0]"

definition packetTypes_1 :: "PacketTypeEntry list" where
  "packetTypes_1 =
    [GENERATE_PACKET_TYPE_ENTRY ''CZ_CHAT_LOG'' 3188 0,
     GENERATE_PACKET_TYPE_ENTRY ''CZ_ITEM_USE'' 3192 22,
     GENERATE_PACKET_TYPE_ENTRY ''CZ_ITEM_USE_TO_ITEM'' 3193 30,
     GENERATE_PACKET_TYPE_ENTRY ''CZ_ITEM_USE_TO_GROUND'' 3194 30,
     GENERATE_PACKET_TYPE_ENTRY ''CZ_ITEM_DROP'' 3190 22,
     GENERATE_PACKET_TYPE_ENTRY ''CZ_ITEM_EQUIP'' 3197 19,
     GENERATE_PACKET_TYPE_ENTRY ''CZ_ITEM_UNEQUIP'' 3198 11,
     GENERATE_PACKET_TYPE_ENTRY ''ZC_CHECK_INVINDEX'' 3199 30,
     GENERATE_PACKET_TYPE_ENTRY ''CZ_ITEM_DELETE'' 3191 0,
     GENERATE_PACKET_TYPE_ENTRY ''CZ_ITEM_BUY'' 3195 0,
     GENERATE_PACKET_TYPE_ENTRY ''CZ_ITEM_SELL'' 3196 0,
     GENERATE_PACKET_TYPE_ENTRY ''CZ_DIALOG_ACK'' 3224 14,
     GENERATE_PACKET_TYPE_ENTRY ''CZ_DIALOG_SELECT'' 3225 11,
     GENERATE_PACKET_TYPE_ENTRY ''CZ_DIALOG_STRINGINPUT'' 3226 138,
     GENERATE_PACKET_TYPE_ENTRY ''CZ_LEAVE_TO_DUNGEON'' 3121 10,
     GENERATE_PACKET_TYPE_ENTRY ''CZ_MOVE_CAMP'' 3245 18,
     GENERATE_PACKET_TYPE_ENTRY ''CZ_CAMPINFO'' 3246 18,
     GENERATE_PACKET_TYPE_ENTRY ''ZC_CAMPINFO'' 3247 18,
     GENERATE_PACKET_TYPE_ENTRY ''CZ_CLICK_TRIGGER'' 3165 15,
     GENERATE_PACKET_TYPE_ENTRY ''CZ_ROTATE'' 3183 18,
     GENERATE_PACKET_TYPE_ENTRY ''CZ_HEAD_ROTATE'' 3184 18,
     GENERATE_PACKET_TYPE_ENTRY ''CZ_TARGET_ROTATE'' 3185 18,
     GENERATE_PACKET_TYPE_ENTRY ''CZ_POSE'' 3186 34,
     GENERATE_PACKET_TYPE_ENTRY ''ZC_ENTER_PC'' 3101 408,
     GENERATE_PACKET_TYPE_ENTRY ''ZC_ENTER_MONSTER'' 3102 0,
     GENERATE_PACKET_TYPE_ENTRY ''ZC_ENTER_DUMMYPC'' 3103 300,
     GENERATE_PACKET_TYPE_ENTRY ''ZC_UPDATED_DUMMYPC'' 3104 258,
     GENERATE_PACKET_TYPE_ENTRY ''ZC_ENTER_ITEM'' 3105 103,
     GENERATE_PACKET_TYPE_ENTRY ''ZC_LEAVE'' 3106 12,
     GENERATE_PACKET_TYPE_ENTRY ''ZC_MOVE_PATH'' 3107 42,
     GENERATE_PACKET_TYPE_ENTRY ''ZC_MOVE_POS'' 3108 42,
     GENERATE_PACKET_TYPE_ENTRY ''ZC_MSPD'' 3111 14,
     GENERATE_PACKET_TYPE_ENTRY ''ZC_MOVE_SPEED'' 3112 18,
     GENERATE_PACKET_TYPE_ENTRY ''ZC_MOVE_DIR'' 3109 40,
     GENERATE_PACKET_TYPE_ENTRY ''ZC_EXPECTED_STOPPOS'' 3110 35,
     GENERATE_PACKET_TYPE_ENTRY ''ZC_MOVE_STOP'' 3113 23,
     GENERATE_PACKET_TYPE_ENTRY ''ZC_REST_SIT'' 3114 11,
     GENERATE_PACKET_TYPE_ENTRY ''ZC_JUMP'' 3115 19,
     GENERATE_PACKET_TYPE_ENTRY ''ZC_JUMP_DIR'' 3116 34,
     GENERATE_PACKET_TYPE_ENTRY ''ZC_ORDER_SKILL_JUMP'' 3117 10,
     GENERATE_PACKET_TYPE_ENTRY ''ZC_SKILL_JUMP'' 3118 38,
     GENERATE_PACKET_TYPE_ENTRY ''ZC_SET_POS'' 3119 22,
     GENERATE_PACKET_TYPE_ENTRY ''ZC_FILE_MOVE'' 3120 46,
     GENERATE_PACKET_TYPE_ENTRY ''ZC_MESSAGE'' 3012 0,
     GENERATE_PACKET_TYPE_ENTRY ''ZC_CONNECT_OK'' 3002 0,
     GENERATE_PACKET_TYPE_ENTRY ''ZC_CONNECT_FAILED'' 3005 0,
     GENERATE_PACKET_TYPE_ENTRY ''ZC_START_GAME'' 3014 26,
     GENERATE_PACKET_TYPE_ENTRY ''ZC_MOVE_ZONE'' 3003 7,
     GENERATE_PACKET_TYPE_ENTRY ''ZC_MOVE_BARRACK'' 3010 6,
     GENERATE_PACKET_TYPE_ENTRY ''ZC_MOVE_ZONE_OK'' 3007 57,
     GENERATE_PACKET_TYPE_ENTRY ''ZC_DEAD'' 3151 0,
     GENERATE_PACKET_TYPE_ENTRY ''ZC_RESURRECT'' 3152 18,
     GENERATE_PACKET_TYPE_ENTRY ''ZC_RESURRECT_DIALOG'' 3154 7,
     GENERATE_PACKET_TYPE_ENTRY ''CZ_RESURRECT'' 3162 11,
     GENERATE_PACKET_TYPE_ENTRY ''ZC_RESURRECT_SAVE_POINT_ACK'' 3163 7,
     GENERATE_PACKET_TYPE_ENTRY ''ZC_RESURRECT_HERE_ACK'' 3164 7,
     GENERATE_PACKET_TYPE_ENTRY ''ZC_UPDATED_PCAPPEARANCE'' 3122 258,
     GENERATE_PACKET_TYPE_ENTRY ''ZC_UPDATED_MONSTERAPPEARANCE'' 3123 0,
     GENERATE_PACKET_TYPE_ENTRY ''ZC_ADD_HP'' 3127 22,
     GENERATE_PACKET_TYPE_ENTRY ''ZC_UPDATE_SP'' 3221 15,
     GENERATE_PACKET_TYPE_ENTRY ''ZC_UPDATE_MHP'' 3223 14,
     GENERATE_PACKET_TYPE_ENTRY ''ZC_EXP_UP'' 3215 14,
     GENERATE_PACKET_TYPE_ENTRY ''ZC_EXP_UP_BY_MONSTER'' 3216 18,
     GENERATE_PACKET_TYPE_ENTRY ''ZC_PC_LEVELUP'' 3217 14,
     GENERATE_PACKET_TYPE_ENTRY ''ZC_PC_STAT_AVG'' 3218 30,
     GENERATE_PACKET_TYPE_ENTRY ''ZC_MAX_EXP_CHANGED'' 3219 18,
     GENERATE_PACKET_TYPE_ENTRY ''ZC_UPDATE_ALL_STATUS'' 3256 26,
     GENERATE_PACKET_TYPE_ENTRY ''ZC_CHANGE_RELATION'' 3153 11,
     GENERATE_PACKET_TYPE_ENTRY ''ZC_QUICK_SLOT_LIST'' 3207 0,
     GENERATE_PACKET_TYPE_ENTRY ''ZC_SKILL_LIST'' 3208 0,
     GENERATE_PACKET_TYPE_ENTRY ''ZC_SKILL_ADD'' 3209 0,
     GENERATE_PACKET_TYPE_ENTRY ''ZC_SKILL_CAST_CANCEL'' 3128 10,
     GENERATE_PACKET_TYPE_ENTRY ''ZC_SKILL_CAST'' 3129 38,
     GENERATE_PACKET_TYPE_ENTRY ''ZC_SKILL_READY'' 3130 50,
     GENERATE_PACKET_TYPE_ENTRY ''ZC_SKILL_USE_CANCEL'' 3132 10,
     GENERATE_PACKET_TYPE_ENTRY ''ZC_SKILL_DISABLE'' 3131 15,
     GENERATE_PACKET_TYPE_ENTRY ''ZC_SKILL_MELEE_TARGET'' 3133 0,
     GENERATE_PACKET_TYPE_ENTRY ''ZC_SKILL_FORCE_TARGET'' 3135 0,
     GENERATE_PACKET_TYPE_ENTRY ''ZC_SKILL_MELEE_GROUND'' 3134 0,
     GENERATE_PACKET_TYPE_ENTRY ''ZC_SKILL_FORCE_GROUND'' 3136 0,
     GENERATE_PACKET_TYPE_ENTRY ''ZC_SKILL_HIT_INFO'' 3137 0,
     GENERATE_PACKET_TYPE_ENTRY ''ZC_ABILITY_LIST'' 3210 0,
     GENERATE_PACKET_TYPE_ENTRY ''CZ_ACTIVE_ABILITY'' 3211 15,
     GENERATE_PACKET_TYPE_ENTRY ''ZC_ACTIVE_ABILITY'' 3212 11,
     GENERATE_PACKET_TYPE_ENTRY ''CZ_DISPEL_DEBUFF_TOGGLE'' 3213 14,
     GENERATE_PACKET_TYPE_ENTRY ''CZ_JUNGTAN_TOGGLE'' 3214 16,
     GENERATE_PACKET_TYPE_ENTRY ''ZC_BUFF_LIST'' 3138 0,
     GENERATE_PACKET_TYPE_ENTRY ''ZC_BUFF_ADD'' 3139 0,
     GENERATE_PACKET_TYPE_ENTRY ''ZC_BUFF_UPDATE'' 3140 0,
     GENERATE_PACKET_TYPE_ENTRY ''ZC_BUFF_REMOVE'' 3141 17,
     GENERATE_PACKET_TYPE_ENTRY ''ZC_BUFF_CLEAR'' 3142 11,
     GENERATE_PACKET_TYPE_ENTRY ''CZ_BUFF_REMOVE'' 3143 14,
     GENERATE_PACKET_TYPE_ENTRY ''CZ_INTE_WARP'' 3144 14,
     GENERATE_PACKET_TYPE_ENTRY ''ZC_HIT_INFO'' 3155 60,
     GENERATE_PACKET_TYPE_ENTRY ''ZC_HEAL_INFO'' 3156 30,
     GENERATE_PACKET_TYPE_ENTRY ''ZC_CAUTION_DAMAGE_INFO'' 3158 15,
     GENERATE_PACKET_TYPE_ENTRY ''ZC_CAUTION_DAMAGE_RELEASE'' 3159 10,
     GENERATE_PACKET_TYPE_ENTRY ''ZC_KNOCKBACK_INFO'' 3160 70,
     GENERATE_PACKET_TYPE_ENTRY ''ZC_KNOCKDOWN_INFO'' 3161 71,
     GENERATE_PACKET_TYPE_ENTRY ''ZC_CHAT'' 3124 0]"

definition packetTypes_2 :: "PacketTypeEntry list" where
  "packetTypes_2 =
    [GENERATE_PACKET_TYPE_ENTRY ''ZC_CHAT_WITH_TEXTCODE'' 3125 14,
     GENERATE_PACKET_TYPE_ENTRY ''ZC_SHOUT'' 3259 0,
     GENERATE_PACKET_TYPE_ENTRY ''ZC_SHOUT_FAILED'' 3260 7,
     GENERATE_PACKET_TYPE_ENTRY ''ZC_TEXT'' 3220 0,
     GENERATE_PACKET_TYPE_ENTRY ''ZC_QUIET'' 3015 7,
     GENERATE_PACKET_TYPE_ENTRY ''ZC_DIALOG_CLOSE'' 3232 6,
     GENERATE_PACKET_TYPE_ENTRY ''ZC_DIALOG_OK'' 3228 0,
     GENERATE_PACKET_TYPE_ENTRY ''ZC_DIALOG_NEXT'' 3229 0,
     GENERATE_PACKET_TYPE_ENTRY ''ZC_DIALOG_SELECT'' 3230 0,
     GENERATE_PACKET_TYPE_ENTRY ''ZC_DIALOG_TRADE'' 3233 39,
     GENERATE_PACKET_TYPE_ENTRY ''ZC_DIALOG_COMMON_TRADE'' 3234 39,
     GENERATE_PACKET_TYPE_ENTRY ''ZC_DIALOG_ITEM_SELECT'' 3231 0,
     GENERATE_PACKET_TYPE_ENTRY ''ZC_DIALOG_NUMBERRANGE'' 3235 0,
     GENERATE_PACKET_TYPE_ENTRY ''ZC_DIALOG_STRINGINPUT'' 3236 0,
     GENERATE_PACKET_TYPE_ENTRY ''ZC_STANCE_CHANGE'' 3126 14,
     GENERATE_PACKET_TYPE_ENTRY ''ZC_ITEM_ADD'' 3203 0,
     GENERATE_PACKET_TYPE_ENTRY ''ZC_ITEM_INVENTORY_LIST'' 3200 0,
     GENERATE_PACKET_TYPE_ENTRY ''ZC_ITEM_INVENTORY_INDEX_LIST'' 3201 0,
     GENERATE_PACKET_TYPE_ENTRY ''ZC_ITEM_EQUIP_LIST'' 3202 0,
     GENERATE_PACKET_TYPE_ENTRY ''ZC_ITEM_REMOVE'' 3204 20,
     GENERATE_PACKET_TYPE_ENTRY ''ZC_ITEM_USE'' 3205 14,
     GENERATE_PACKET_TYPE_ENTRY ''ZC_ITEM_USE_TO_GROUND'' 3206 22,
     GENERATE_PACKET_TYPE_ENTRY ''ZC_RESET_VIEW'' 3013 6,
     GENERATE_PACKET_TYPE_ENTRY ''ZC_RESTORATION'' 3222 12,
     GENERATE_PACKET_TYPE_ENTRY ''ZC_ROTATE'' 3145 20,
     GENERATE_PACKET_TYPE_ENTRY ''ZC_ROTATE_RESERVED'' 3146 18,
     GENERATE_PACKET_TYPE_ENTRY ''ZC_HEAD_ROTATE'' 3147 18,
     GENERATE_PACKET_TYPE_ENTRY ''ZC_TARGET_ROTATE'' 3148 18,
     GENERATE_PACKET_TYPE_ENTRY ''ZC_QUICK_ROTATE'' 3149 18,
     GENERATE_PACKET_TYPE_ENTRY ''ZC_POSE'' 3150 34,
     GENERATE_PACKET_TYPE_ENTRY ''ZC_DUMP_PROPERTY'' 3258 0,
     GENERATE_PACKET_TYPE_ENTRY ''ZC_OBJECT_PROPERTY'' 3257 0,
     GENERATE_PACKET_TYPE_ENTRY ''ZC_ADDON_MSG'' 3237 0,
     GENERATE_PACKET_TYPE_ENTRY ''CZ_UI_EVENT'' 3238 0,
     GENERATE_PACKET_TYPE_ENTRY ''ZC_LOGOUT_OK'' 3011 6,
     GENERATE_PACKET_TYPE_ENTRY ''ZC_PLAY_SOUND'' 3239 15,
     GENERATE_PACKET_TYPE_ENTRY ''ZC_STOP_SOUND'' 3240 14,
     GENERATE_PACKET_TYPE_ENTRY ''ZC_PLAY_MUSICQUEUE'' 3241 14,
     GENERATE_PACKET_TYPE_ENTRY ''ZC_STOP_MUSICQUEUE'' 3242 14,
     GENERATE_PACKET_TYPE_ENTRY ''ZC_PLAY_ANI'' 3243 24,
     GENERATE_PACKET_TYPE_ENTRY ''ZC_CHANGE_ANI'' 3244 44,
     GENERATE_PACKET_TYPE_ENTRY ''ZC_PLAY_ALARMSOUND'' 3252 83,
     GENERATE_PACKET_TYPE_ENTRY ''ZC_STOP_ALARMSOUND'' 3253 10,
     GENERATE_PACKET_TYPE_ENTRY ''ZC_PLAY_EXP_TEXT'' 3254 14,
     GENERATE_PACKET_TYPE_ENTRY ''ZC_PLAY_NAVI_EFFECT'' 3255 150,
     GENERATE_PACKET_TYPE_ENTRY ''CZ_EXCHANGE_REQUEST'' 3261 14,
     GENERATE_PACKET_TYPE_ENTRY ''ZC_EXCHANGE_REQUEST_ACK'' 3262 72,
     GENERATE_PACKET_TYPE_ENTRY ''ZC_EXCHANGE_REQUEST_RECEIVED'' 3263 71,
     GENERATE_PACKET_TYPE_ENTRY ''CZ_EXCHANGE_ACCEPT'' 3264 10,
     GENERATE_PACKET_TYPE_ENTRY ''CZ_EXCHANGE_DECLINE'' 3265 10,
     GENERATE_PACKET_TYPE_ENTRY ''ZC_EXCHANGE_DECLINE_ACK'' 3266 6,
     GENERATE_PACKET_TYPE_ENTRY ''ZC_EXCHANGE_START'' 3267 71,
     GENERATE_PACKET_TYPE_ENTRY ''CZ_EXCHANGE_OFFER'' 3268 30,
     GENERATE_PACKET_TYPE_ENTRY ''ZC_EXCHANGE_OFFER_ACK'' 3269 0,
     GENERATE_PACKET_TYPE_ENTRY ''CZ_EXCHANGE_AGREE'' 3270 10,
     GENERATE_PACKET_TYPE_ENTRY ''ZC_EXCHANGE_AGREE_ACK'' 3271 7,
     GENERATE_PACKET_TYPE_ENTRY ''CZ_EXCHANGE_FINALAGREE'' 3272 10,
     GENERATE_PACKET_TYPE_ENTRY ''ZC_EXCHANGE_FINALAGREE_ACK'' 3273 7,
     GENERATE_PACKET_TYPE_ENTRY ''CZ_EXCHANGE_CANCEL'' 3274 10,
     GENERATE_PACKET_TYPE_ENTRY ''ZC_EXCHANGE_CANCEL_ACK'' 3275 6,
     GENERATE_PACKET_TYPE_ENTRY ''ZC_EXCHANGE_SUCCESS'' 3276 6,
     GENERATE_PACKET_TYPE_ENTRY ''ZC_COOLDOWN_LIST'' 3277 0,
     GENERATE_PACKET_TYPE_ENTRY ''ZC_COOLDOWN_CHANGED'' 3278 22,
     GENERATE_PACKET_TYPE_ENTRY ''ZC_OVERHEAT_CHANGED'' 3279 26,
     GENERATE_PACKET_TYPE_ENTRY ''ZC_TEST_AGENT'' 3280 18,
     GENERATE_PACKET_TYPE_ENTRY ''CZ_COMMON_SHOP_LIST'' 3281 10,
     GENERATE_PACKET_TYPE_ENTRY ''ZC_COMMON_SHOP_LIST'' 3282 8,
     GENERATE_PACKET_TYPE_ENTRY ''ZC_TIME_FACTOR'' 3283 10,
     GENERATE_PACKET_TYPE_ENTRY ''ZC_PARTY_ENTER'' 3284 0,
     GENERATE_PACKET_TYPE_ENTRY ''ZC_PARTY_OUT'' 3285 24,
     GENERATE_PACKET_TYPE_ENTRY ''ZC_PARTY_DESTROY'' 3286 15,
     GENERATE_PACKET_TYPE_ENTRY ''ZC_PARTY_INFO'' 3287 0,
     GENERATE_PACKET_TYPE_ENTRY ''ZC_PARTY_LIST'' 3288 0,
     GENERATE_PACKET_TYPE_ENTRY ''ZC_PARTY_CHAT'' 3289 0,
     GENERATE_PACKET_TYPE_ENTRY ''ZC_PARTY_INST_INFO'' 3290 0,
     GENERATE_PACKET_TYPE_ENTRY ''ZC_CHANGE_EQUIP_DURABILITY'' 3291 11,
     GENERATE_PACKET_TYPE_ENTRY ''CZ_DIALOG_TX'' 3292 0,
     GENERATE_PACKET_TYPE_ENTRY ''CZ_REQ_RECIPE'' 3293 0,
     GENERATE_PACKET_TYPE_ENTRY ''ZC_CUSTOM_DIALOG'' 3294 75,
     GENERATE_PACKET_TYPE_ENTRY ''ZC_SESSION_OBJECTS'' 3295 0,
     GENERATE_PACKET_TYPE_ENTRY ''ZC_SESSION_OBJ_ADD'' 3296 0,
     GENERATE_PACKET_TYPE_ENTRY ''ZC_SESSION_OBJ_REMOVE'' 3297 10,
     GENERATE_PACKET_TYPE_ENTRY ''ZC_SESSION_OBJ_TIME'' 3298 14,
     GENERATE_PACKET_TYPE_ENTRY ''CZ_S_OBJ_VALUE_C'' 3299 24,
     GENERATE_PACKET_TYPE_ENTRY ''CZ_REQ_NORMAL_TX'' 3300 45,
     GENERATE_PACKET_TYPE_ENTRY ''ZC_COMMANDER_LOADER_INFO'' 3301 0,
     GENERATE_PACKET_TYPE_ENTRY ''ZC_MOVE_SINGLE_ZONE'' 3302 18,
     GENERATE_PACKET_TYPE_ENTRY ''ZC_BACKTO_ORIGINAL_SERVER'' 3303 8,
     GENERATE_PACKET_TYPE_ENTRY ''CZ_BACKTO_ORIGINAL_SERVER'' 3304 12,
     GENERATE_PACKET_TYPE_ENTRY ''CZ_REQ_NORMAL_TX_NUMARG'' 3305 0,
     GENERATE_PACKET_TYPE_ENTRY ''ZC_WIKI_LIST'' 3306 0,
     GENERATE_PACKET_TYPE_ENTRY ''ZC_WIKI_ADD'' 3307 22,
     GENERATE_PACKET_TYPE_ENTRY ''CZ_WIKI_GET'' 3308 14,
     GENERATE_PACKET_TYPE_ENTRY ''CZ_WIKI_RECIPE_UPDATE'' 3309 10,
     GENERATE_PACKET_TYPE_ENTRY ''ZC_UI_OPEN'' 3310 39,
     GENERATE_PACKET_TYPE_ENTRY ''ZC_ENABLE_CONTROL'' 3311 11,
     GENERATE_PACKET_TYPE_ENTRY ''ZC_CHANGE_CAMERA'' 3312 31,
     GENERATE_PACKET_TYPE_ENTRY ''ZC_MONSTER_SDR_CHANGED'' 3313 11,
     GENERATE_PACKET_TYPE_ENTRY ''ZC_MOVE_IGNORE_COLLISION'' 3314 30,
     GENERATE_PACKET_TYPE_ENTRY ''ZC_CHANGE_CAMERA_ZOOM'' 3315 34]"

definition packetTypes_3 :: "PacketTypeEntry list" where
  "packetTypes_3 =
    [GENERATE_PACKET_TYPE_ENTRY ''ZC_PLAY_SKILL_ANI'' 3316 82,
     GENERATE_PACKET_TYPE_ENTRY ''ZC_PLAY_SKILL_CAST_ANI'' 3317 30,
     GENERATE_PACKET_TYPE_ENTRY ''CZ_REQ_ITEM_GET'' 3318 14,
     GENERATE_PACKET_TYPE_ENTRY ''ZC_ITEM_GET'' 3319 18,
     GENERATE_PACKET_TYPE_ENTRY ''CZ_GUARD'' 3320 19,
     GENERATE_PACKET_TYPE_ENTRY ''ZC_GUARD'' 3321 19,
     GENERATE_PACKET_TYPE_ENTRY ''ZC_STAMINA'' 3322 10,
     GENERATE_PACKET_TYPE_ENTRY ''ZC_ADD_STAMINA'' 3323 10,
     GENERATE_PACKET_TYPE_ENTRY ''ZC_GM_ORDER'' 3324 10,
     GENERATE_PACKET_TYPE_ENTRY ''ZC_MYPC_ENTER'' 3325 18,
     GENERATE_PACKET_TYPE_ENTRY ''ZC_LOCK_KEY'' 3326 75,
     GENERATE_PACKET_TYPE_ENTRY ''ZC_SAVE_INFO'' 3327 6,
     GENERATE_PACKET_TYPE_ENTRY ''CZ_SAVE_INFO'' 3328 0,
     GENERATE_PACKET_TYPE_ENTRY ''ZC_OPTION_LIST'' 3329 0,
     GENERATE_PACKET_TYPE_ENTRY ''ZC_SKILLMAP_LIST'' 3330 0,
     GENERATE_PACKET_TYPE_ENTRY ''CZ_FOOD_TABLE_TITLE'' 3332 79,
     GENERATE_PACKET_TYPE_ENTRY ''CZ_GIVEITEM_TO_DUMMYPC'' 3331 22,
     GENERATE_PACKET_TYPE_ENTRY ''ZC_SET_LAYER'' 3333 10,
     GENERATE_PACKET_TYPE_ENTRY ''ZC_CREATE_LAYERBOX'' 3334 38,
     GENERATE_PACKET_TYPE_ENTRY ''ZC_RESET_BOX'' 3335 11,
     GENERATE_PACKET_TYPE_ENTRY ''ZC_CREATE_SCROLLLOCKBOX'' 3336 38,
     GENERATE_PACKET_TYPE_ENTRY ''ZC_REMOVE_SCROLLLOCKBOX'' 3337 10,
     GENERATE_PACKET_TYPE_ENTRY ''CZ_DYNAMIC_CASTING_START'' 3338 23,
     GENERATE_PACKET_TYPE_ENTRY ''CZ_DYNAMIC_CASTING_END'' 3339 19,
     GENERATE_PACKET_TYPE_ENTRY ''CZ_SKILL_CANCEL_SCRIPT'' 3340 10,
     GENERATE_PACKET_TYPE_ENTRY ''ZC_LEAVE_TRIGGER'' 3341 6,
     GENERATE_PACKET_TYPE_ENTRY ''ZC_BORN'' 3342 10,
     GENERATE_PACKET_TYPE_ENTRY ''ZC_ACHIEVE_POINT_LIST'' 3343 0,
     GENERATE_PACKET_TYPE_ENTRY ''ZC_ACHIEVE_POINT'' 3344 18,
     GENERATE_PACKET_TYPE_ENTRY ''CZ_ACHIEVE_EQUIP'' 3345 18,
     GENERATE_PACKET_TYPE_ENTRY ''ZC_ACHIEVE_EQUIP'' 3346 22,
     GENERATE_PACKET_TYPE_ENTRY ''CZ_CHANGE_CONFIG'' 3347 18,
     GENERATE_PACKET_TYPE_ENTRY ''CZ_CHANGE_CONFIG_STR'' 3348 34,
     GENERATE_PACKET_TYPE_ENTRY ''ZC_WORLD_MSG'' 3349 43,
     GENERATE_PACKET_TYPE_ENTRY ''ZC_ENABLE_SHOW_ITEM_GET'' 3350 8,
     GENERATE_PACKET_TYPE_ENTRY ''ZC_LOGIN_TIME'' 3351 14,
     GENERATE_PACKET_TYPE_ENTRY ''ZC_GIVE_EXP_TO_PC'' 3352 42,
     GENERATE_PACKET_TYPE_ENTRY ''ZC_LAYER_PC_LIST'' 3353 0,
     GENERATE_PACKET_TYPE_ENTRY ''ZC_LAYER_PC_SOBJ_PROP'' 3354 0,
     GENERATE_PACKET_TYPE_ENTRY ''CZ_CUSTOM_COMMAND'' 3355 26,
     GENERATE_PACKET_TYPE_ENTRY ''CZ_ADD_HELP'' 3509 14,
     GENERATE_PACKET_TYPE_ENTRY ''ZC_LAYER_INFO'' 3356 10,
     GENERATE_PACKET_TYPE_ENTRY ''CZ_CHAT_MACRO'' 3357 146,
     GENERATE_PACKET_TYPE_ENTRY ''ZC_CHAT_MACRO_LIST'' 3358 0,
     GENERATE_PACKET_TYPE_ENTRY ''ZC_RULLET_LIST'' 3359 0,
     GENERATE_PACKET_TYPE_ENTRY ''ZC_QUICKSLOT_REGISTER'' 3360 46,
     GENERATE_PACKET_TYPE_ENTRY ''CZ_QUICKSLOT_LIST'' 3361 0,
     GENERATE_PACKET_TYPE_ENTRY ''CZ_DOUBLE_ITEM_EQUIP'' 3362 28,
     GENERATE_PACKET_TYPE_ENTRY ''ZC_TRICK_PACKET'' 3363 0,
     GENERATE_PACKET_TYPE_ENTRY ''ZC_COOLDOWN_RATE'' 3364 22,
     GENERATE_PACKET_TYPE_ENTRY ''ZC_MAP_REVEAL_LIST'' 3365 0,
     GENERATE_PACKET_TYPE_ENTRY ''CZ_MAP_REVEAL_INFO'' 3366 146,
     GENERATE_PACKET_TYPE_ENTRY ''CZ_MAP_SEARCH_INFO'' 3367 55,
     GENERATE_PACKET_TYPE_ENTRY ''ZC_UI_INFO_LIST'' 3368 0,
     GENERATE_PACKET_TYPE_ENTRY ''ZC_EXEC_CLIENT_SCP'' 3369 0,
     GENERATE_PACKET_TYPE_ENTRY ''ZC_SET_NPC_STATE'' 3370 18,
     GENERATE_PACKET_TYPE_ENTRY ''ZC_NPC_STATE_LIST'' 3371 0,
     GENERATE_PACKET_TYPE_ENTRY ''CZ_QUEST_NPC_STATE_CHECK'' 3372 14,
     GENERATE_PACKET_TYPE_ENTRY ''ZC_RANK_ACHIEVE_ADD'' 3373 14,
     GENERATE_PACKET_TYPE_ENTRY ''CZ_GET_MAP_REVEAL_ACHIEVE'' 3374 10,
     GENERATE_PACKET_TYPE_ENTRY ''CZ_IES_MODIFY_INFO'' 3375 0,
     GENERATE_PACKET_TYPE_ENTRY ''ZC_IES_MODIFY_INFO'' 3376 0,
     GENERATE_PACKET_TYPE_ENTRY ''ZC_IES_MODIFY_LIST'' 3377 0,
     GENERATE_PACKET_TYPE_ENTRY ''CZ_IES_REVISION_DELETE'' 3378 0,
     GENERATE_PACKET_TYPE_ENTRY ''ZC_IES_REVISION_DELETE'' 3379 0,
     GENERATE_PACKET_TYPE_ENTRY ''ZC_EQUIP_ITEM_REMOVE'' 3380 18,
     GENERATE_PACKET_TYPE_ENTRY ''ZC_SOLD_ITEM_LIST'' 3381 0,
     GENERATE_PACKET_TYPE_ENTRY ''CZ_SOLD_ITEM'' 3382 19,
     GENERATE_PACKET_TYPE_ENTRY ''CZ_WAREHOUSE_CMD'' 3383 31,
     GENERATE_PACKET_TYPE_ENTRY ''CZ_SWAP_ETC_INV_CHANGE_INDEX'' 3384 35,
     GENERATE_PACKET_TYPE_ENTRY ''CZ_SORT_INV'' 3385 12,
     GENERATE_PACKET_TYPE_ENTRY ''CZ_CAST_CONTROL_SHOT'' 3386 10,
     GENERATE_PACKET_TYPE_ENTRY ''ZC_PC_PROP_UPDATE'' 3387 9,
     GENERATE_PACKET_TYPE_ENTRY ''CZ_CLIENT_DAMAGE'' 3388 14,
     GENERATE_PACKET_TYPE_ENTRY ''CZ_CLIENT_ATTACK'' 3389 15,
     GENERATE_PACKET_TYPE_ENTRY ''ZC_SYSTEM_MSG'' 3390 0,
     GENERATE_PACKET_TYPE_ENTRY ''ZC_FSM_MOVE'' 3391 0,
     GENERATE_PACKET_TYPE_ENTRY ''CZ_QUEST_CHECK_SAVE'' 3392 50,
     GENERATE_PACKET_TYPE_ENTRY ''CZ_SPRAY_REQ_INFO'' 3393 14,
     GENERATE_PACKET_TYPE_ENTRY ''CZ_SPRAY_DRAW_INFO'' 3394 0,
     GENERATE_PACKET_TYPE_ENTRY ''ZC_SPRAY_ID'' 3395 18,
     GENERATE_PACKET_TYPE_ENTRY ''ZC_SPRAY_DRAW_INFO'' 3396 0,
     GENERATE_PACKET_TYPE_ENTRY ''ZC_MONSTER_LIFETIME'' 3397 14,
     GENERATE_PACKET_TYPE_ENTRY ''ZC_SPRAY_LIKE_LIST'' 3398 0,
     GENERATE_PACKET_TYPE_ENTRY ''ZC_WIKI_COUNT_UPDATE'' 3399 19,
     GENERATE_PACKET_TYPE_ENTRY ''ZC_WIKI_INT_PROP_UPDATE'' 3400 15,
     GENERATE_PACKET_TYPE_ENTRY ''ZC_WIKI_BOOL_PROP_UPDATE'' 3401 12,
     GENERATE_PACKET_TYPE_ENTRY ''CZ_REQ_WIKI_RANK'' 3402 15,
     GENERATE_PACKET_TYPE_ENTRY ''ZC_WIKI_RANK_LIST'' 3403 0,
     GENERATE_PACKET_TYPE_ENTRY ''ZC_SHARED_MSG'' 3404 10,
     GENERATE_PACKET_TYPE_ENTRY ''CZ_REQ_WIKI_PROP_RANK'' 3405 16,
     GENERATE_PACKET_TYPE_ENTRY ''CZ_REQ_TX_ITEM'' 3407 0,
     GENERATE_PACKET_TYPE_ENTRY ''ZC_TEST_DBG'' 3408 0,
     GENERATE_PACKET_TYPE_ENTRY ''ZC_MONSTER_DIST'' 3409 0,
     GENERATE_PACKET_TYPE_ENTRY ''ZC_RESET_SKILL_FORCEID'' 3410 10,
     GENERATE_PACKET_TYPE_ENTRY ''ZC_EMOTICON'' 3411 18,
     GENERATE_PACKET_TYPE_ENTRY ''ZC_SHOW_EMOTICON'' 3412 18,
     GENERATE_PACKET_TYPE_ENTRY ''ZC_TREASUREMARK_BY_MAP'' 3413 0,
     GENERATE_PACKET_TYPE_ENTRY ''ZC_SHOW_MAP'' 3414 0,
     GENERATE_PACKET_TYPE_ENTRY ''ZC_TREASUREMARK_LIST_MAP'' 203 0]"

definition packetTypes_4 :: "PacketTypeEntry list" where
  "packetTypes_4 =
    [GENERATE_PACKET_TYPE_ENTRY ''ZC_FIX_ANIM'' 3248 14,
     GENERATE_PACKET_TYPE_ENTRY ''ZC_MOVE_ANIM'' 3249 12,
     GENERATE_PACKET_TYPE_ENTRY ''CZ_FLEE_OBSTACLE'' 3415 26,
     GENERATE_PACKET_TYPE_ENTRY ''ZC_HOLD_MOVE_PATH'' 3416 11,
     GENERATE_PACKET_TYPE_ENTRY ''ZC_ENTER_HOOK'' 3417 10,
     GENERATE_PACKET_TYPE_ENTRY ''ZC_LEAVE_HOOK'' 3418 10,
     GENERATE_PACKET_TYPE_ENTRY ''ZC_MONSTER_PROPERTY'' 3419 0,
     GENERATE_PACKET_TYPE_ENTRY ''ZC_GROUND_EFFECT'' 3420 50,
     GENERATE_PACKET_TYPE_ENTRY ''ZC_FLY'' 3421 18,
     GENERATE_PACKET_TYPE_ENTRY ''ZC_FLY_MATH'' 3422 22,
     GENERATE_PACKET_TYPE_ENTRY ''ZC_FLY_HEIGHT'' 3423 14,
     GENERATE_PACKET_TYPE_ENTRY ''ZC_UPDATE_SHIELD'' 3424 12,
     GENERATE_PACKET_TYPE_ENTRY ''ZC_UPDATE_MSHIELD'' 3425 12,
     GENERATE_PACKET_TYPE_ENTRY ''ZC_SHOW_MODEL'' 3426 15,
     GENERATE_PACKET_TYPE_ENTRY ''ZC_SKILL_RANGE_DBG'' 3427 58,
     GENERATE_PACKET_TYPE_ENTRY ''ZC_SKILL_RANGE_FAN'' 3428 40,
     GENERATE_PACKET_TYPE_ENTRY ''ZC_SKILL_RANGE_SQUARE'' 3429 40,
     GENERATE_PACKET_TYPE_ENTRY ''ZC_SKILL_RANGE_CIRCLE'' 3430 28,
     GENERATE_PACKET_TYPE_ENTRY ''ZC_SKILL_RANGE_DONUTS'' 3431 32,
     GENERATE_PACKET_TYPE_ENTRY ''ZC_TEAMID'' 3432 11,
     GENERATE_PACKET_TYPE_ENTRY ''ZC_PC'' 3433 0,
     GENERATE_PACKET_TYPE_ENTRY ''CZ_LOG'' 3434 0,
     GENERATE_PACKET_TYPE_ENTRY ''ZC_MOTIONBLUR'' 3435 11,
     GENERATE_PACKET_TYPE_ENTRY ''ZC_PLAY_FORCE'' 3436 78,
     GENERATE_PACKET_TYPE_ENTRY ''ZC_CAST_TARGET'' 3437 14,
     GENERATE_PACKET_TYPE_ENTRY ''ZC_START_INFO'' 3438 0,
     GENERATE_PACKET_TYPE_ENTRY ''ZC_JOB_EXP_UP'' 3439 10,
     GENERATE_PACKET_TYPE_ENTRY ''ZC_JOB_PTS'' 3440 10,
     GENERATE_PACKET_TYPE_ENTRY ''ZC_MON_STAMINA'' 3441 22,
     GENERATE_PACKET_TYPE_ENTRY ''CZ_CUSTOM_SCP'' 3442 14,
     GENERATE_PACKET_TYPE_ENTRY ''ZC_VIEW_FOCUS'' 3443 24,
     GENERATE_PACKET_TYPE_ENTRY ''ZC_HARDCODED_SKILL'' 3444 26,
     GENERATE_PACKET_TYPE_ENTRY ''CZ_HARDCODED_SKILL'' 3445 34,
     GENERATE_PACKET_TYPE_ENTRY ''ZC_FORCE_MOVE'' 3446 30,
     GENERATE_PACKET_TYPE_ENTRY ''ZC_HSKILL_CONTROL'' 3447 22,
     GENERATE_PACKET_TYPE_ENTRY ''ZC_CANCEL_DEADEVENT'' 3448 10,
     GENERATE_PACKET_TYPE_ENTRY ''ZC_ACTION_PKS'' 3449 35,
     GENERATE_PACKET_TYPE_ENTRY ''CZ_HARDCODED_ITEM'' 3450 22,
     GENERATE_PACKET_TYPE_ENTRY ''CZ_BRIQUET'' 3452 30,
     GENERATE_PACKET_TYPE_ENTRY ''CZ_CANCEL_TRANSFORM_SKILL'' 3451 10,
     GENERATE_PACKET_TYPE_ENTRY ''ZC_VIBRATE'' 3453 30,
     GENERATE_PACKET_TYPE_ENTRY ''ZC_COUNTER_MOVE'' 3454 10,
     GENERATE_PACKET_TYPE_ENTRY ''CZ_COUNTER_ATTACK'' 3455 14,
     GENERATE_PACKET_TYPE_ENTRY ''CZ_CLIENT_DIRECT'' 3456 30,
     GENERATE_PACKET_TYPE_ENTRY ''ZC_CLIENT_DIRECT'' 3457 30,
     GENERATE_PACKET_TYPE_ENTRY ''ZC_OWNER'' 3458 14,
     GENERATE_PACKET_TYPE_ENTRY ''ZC_GD_RANK'' 3459 10,
     GENERATE_PACKET_TYPE_ENTRY ''CZ_RUN_BGEVENT'' 3460 74,
     GENERATE_PACKET_TYPE_ENTRY ''ZC_ADD_SKILL_EFFECT'' 3461 18,
     GENERATE_PACKET_TYPE_ENTRY ''ZC_ITEM_DROPABLE'' 3462 10,
     GENERATE_PACKET_TYPE_ENTRY ''CZ_ITEM_DROP_TO_OBJECT'' 3463 26,
     GENERATE_PACKET_TYPE_ENTRY ''ZC_NORMAL'' 3464 0,
     GENERATE_PACKET_TYPE_ENTRY ''CZ_G_QUEST_CHECK'' 3465 14,
     GENERATE_PACKET_TYPE_ENTRY ''ZC_MOVE_PATH_MATH'' 3466 30,
     GENERATE_PACKET_TYPE_ENTRY ''ZC_SHOW_GROUND_ITEM_MARK'' 3483 30,
     GENERATE_PACKET_TYPE_ENTRY ''ZC_HELP_LIST'' 3484 0,
     GENERATE_PACKET_TYPE_ENTRY ''ZC_HELP_ADD'' 3485 11,
     GENERATE_PACKET_TYPE_ENTRY ''ZC_STD_ANIM'' 3250 11,
     GENERATE_PACKET_TYPE_ENTRY ''CZ_CLIENT_HIT_LIST'' 3486 0,
     GENERATE_PACKET_TYPE_ENTRY ''ZC_PC_ATKSTATE'' 3487 11,
     GENERATE_PACKET_TYPE_ENTRY ''CZ_HELP_READ_TYPE'' 3488 18,
     GENERATE_PACKET_TYPE_ENTRY ''CZ_MOVE_PATH_END'' 3489 10,
     GENERATE_PACKET_TYPE_ENTRY ''ZC_COLL_DAMAGE'' 3490 11,
     GENERATE_PACKET_TYPE_ENTRY ''CZ_KEYBOARD_BEAT'' 3491 10,
     GENERATE_PACKET_TYPE_ENTRY ''CZ_MOVEHIT_SCP'' 3492 22,
     GENERATE_PACKET_TYPE_ENTRY ''ZC_SYNC_START'' 3493 10,
     GENERATE_PACKET_TYPE_ENTRY ''ZC_SYNC_END'' 3494 14,
     GENERATE_PACKET_TYPE_ENTRY ''ZC_SYNC_EXEC'' 3495 10,
     GENERATE_PACKET_TYPE_ENTRY ''ZC_SYNC_EXEC_BY_SKILL_TIME'' 3496 18,
     GENERATE_PACKET_TYPE_ENTRY ''CZ_STOP_TIMEACTION'' 3497 11,
     GENERATE_PACKET_TYPE_ENTRY ''CZ_REQ_DUMMYPC_INFO'' 3498 18,
     GENERATE_PACKET_TYPE_ENTRY ''CZ_VISIT_BARRACK'' 3499 74,
     GENERATE_PACKET_TYPE_ENTRY ''CZ_SPC_SKILL_POS'' 3500 22,
     GENERATE_PACKET_TYPE_ENTRY ''CZ_REQ_CHANGEJOB'' 3501 14,
     GENERATE_PACKET_TYPE_ENTRY ''CZ_REQ_MINITEXT'' 3504 266,
     GENERATE_PACKET_TYPE_ENTRY ''ZC_PC_MOVE_STOP'' 3505 35,
     GENERATE_PACKET_TYPE_ENTRY ''CZ_SKILL_TOOL_GROUND_POS'' 3515 26,
     GENERATE_PACKET_TYPE_ENTRY ''CZ_CHANGE_HEAD'' 3502 14,
     GENERATE_PACKET_TYPE_ENTRY ''CZ_CREATE_ARROW_CRAFT'' 3503 14,
     GENERATE_PACKET_TYPE_ENTRY ''CZ_MYPAGE_COMMENT_ADD'' 3467 278,
     GENERATE_PACKET_TYPE_ENTRY ''CZ_MYPAGE_COMMENT_DELETE'' 3468 18,
     GENERATE_PACKET_TYPE_ENTRY ''CZ_GET_TARGET_MYPAGE'' 3470 14,
     GENERATE_PACKET_TYPE_ENTRY ''CZ_ON_MYPAGE_MODE'' 3471 14,
     GENERATE_PACKET_TYPE_ENTRY ''CZ_RESET_SOCIAL_MODE'' 3472 10,
     GENERATE_PACKET_TYPE_ENTRY ''CZ_GUESTPAGE_COMMENT_ADD'' 3469 278,
     GENERATE_PACKET_TYPE_ENTRY ''CZ_GET_TARGET_GUESTPAGE'' 3473 14,
     GENERATE_PACKET_TYPE_ENTRY ''CZ_ADD_SELLMODE_ITEM'' 3474 30,
     GENERATE_PACKET_TYPE_ENTRY ''CZ_DELETE_SELLMODE_ITEM'' 3475 18,
     GENERATE_PACKET_TYPE_ENTRY ''CZ_ON_SELLITEM_MODE'' 3476 14,
     GENERATE_PACKET_TYPE_ENTRY ''CZ_ON_ITEMBUY_MODE'' 3481 0,
     GENERATE_PACKET_TYPE_ENTRY ''ZC_MYPAGE_MAP'' 3477 0,
     GENERATE_PACKET_TYPE_ENTRY ''ZC_GUESTPAGE_MAP'' 3478 0,
     GENERATE_PACKET_TYPE_ENTRY ''ZC_ON_MYPAGE_MODE'' 3479 0,
     GENERATE_PACKET_TYPE_ENTRY ''ZC_RESET_SOCIAL_MODE'' 3480 10,
     GENERATE_PACKET_TYPE_ENTRY ''ZC_ON_BUYITEM_MODE'' 3482 0,
     GENERATE_PACKET_TYPE_ENTRY ''CZ_STOP_ALLPC'' 3506 10,
     GENERATE_PACKET_TYPE_ENTRY ''CZ_COMPLETE_PRELOAD'' 3507 14,
     GENERATE_PACKET_TYPE_ENTRY ''CZ_MGAME_JOIN_CMD'' 3508 46,
     GENERATE_PACKET_TYPE_ENTRY ''ZC_ATTACH_TO_OBJ'' 3510 49,
     GENERATE_PACKET_TYPE_ENTRY ''ZC_DETACH_FROM_OBJ'' 3511 14]"

definition packetTypes_5 :: "PacketTypeEntry list" where
  "packetTypes_5 =
    [GENERATE_PACKET_TYPE_ENTRY ''ZC_RUN_FROM'' 3512 14,
     GENERATE_PACKET_TYPE_ENTRY ''ZC_LOOKAT_OBJ'' 3513 14,
     GENERATE_PACKET_TYPE_ENTRY ''CZ_SKILL_CELL_LIST'' 3514 0,
     GENERATE_PACKET_TYPE_ENTRY ''CZ_DIRECTION_PROCESS'' 3516 18,
     GENERATE_PACKET_TYPE_ENTRY ''CZ_DIRECTION_MOVE_STATE'' 3517 0,
     GENERATE_PACKET_TYPE_ENTRY ''ZC_TO_ALL_CLIENT'' 3518 0,
     GENERATE_PACKET_TYPE_ENTRY ''ZC_TO_CLIENT'' 3519 0,
     GENERATE_PACKET_TYPE_ENTRY ''CZ_REWARD_CMD'' 3520 14,
     GENERATE_PACKET_TYPE_ENTRY ''CZ_PROPERTY_COMPARE'' 3521 15,
     GENERATE_PACKET_TYPE_ENTRY ''ZC_PROPERTY_COMPARE'' 3522 0,
     GENERATE_PACKET_TYPE_ENTRY ''ZC_RECOMMEND_PARTYMEMBER_INFO'' 3587 0,
     GENERATE_PACKET_TYPE_ENTRY ''ZC_FACTION'' 3523 14,
     GENERATE_PACKET_TYPE_ENTRY ''ZC_BEGIN_KILL_LOG'' 3524 6,
     GENERATE_PACKET_TYPE_ENTRY ''ZC_END_KILL_LOG'' 3525 6,
     GENERATE_PACKET_TYPE_ENTRY ''ZC_CLEAR_KILL_LOG'' 3526 6,
     GENERATE_PACKET_TYPE_ENTRY ''CZ_NPC_AUCTION_CMD'' 3527 30,
     GENERATE_PACKET_TYPE_ENTRY ''ZC_DIRECTION_APC'' 3528 22,
     GENERATE_PACKET_TYPE_ENTRY ''ZC_BGMODEL_ANIM_INFO'' 3529 15,
     GENERATE_PACKET_TYPE_ENTRY ''ZC_ATTACH_BY_KNOCKBACK'' 3530 38,
     GENERATE_PACKET_TYPE_ENTRY ''CZ_OBJECT_MOVE'' 3531 30,
     GENERATE_PACKET_TYPE_ENTRY ''CZ_CONTROL_OBJECT_ROTATE'' 3532 22,
     GENERATE_PACKET_TYPE_ENTRY ''CZ_SUMMON_COMMAND'' 3533 18,
     GENERATE_PACKET_TYPE_ENTRY ''CZ_VEHICLE_RIDE'' 3534 15,
     GENERATE_PACKET_TYPE_ENTRY ''CZ_REQ_WIKI_CATEGORY_RANK_PAGE_INFO'' 3535 78,
     GENERATE_PACKET_TYPE_ENTRY ''CZ_REQ_ACHIEVE_RANK_PAGE_INFO'' 3536 78,
     GENERATE_PACKET_TYPE_ENTRY ''CZ_REQ_MONSTER_RANK_INFO'' 3537 74,
     GENERATE_PACKET_TYPE_ENTRY ''ZC_SPC_TRIGGER_EXEC'' 3538 30,
     GENERATE_PACKET_TYPE_ENTRY ''CZ_REQ_MGAME_VIEW'' 3539 18,
     GENERATE_PACKET_TYPE_ENTRY ''CZ_REQ_MGAME_CHAT'' 3540 0,
     GENERATE_PACKET_TYPE_ENTRY ''CZ_TOURNAMENT_GIFT'' 3541 18,
     GENERATE_PACKET_TYPE_ENTRY ''CZ_PARTY_INVITE_ACCEPT'' 3542 79,
     GENERATE_PACKET_TYPE_ENTRY ''CZ_PARTY_INVITE_CANCEL'' 3543 83,
     GENERATE_PACKET_TYPE_ENTRY ''CZ_PARTY_PROP_CHANGE'' 3544 145,
     GENERATE_PACKET_TYPE_ENTRY ''CZ_REQ_MARKET_REGISTER'' 3545 27,
     GENERATE_PACKET_TYPE_ENTRY ''CZ_REQ_MARKET_BUY'' 3546 0,
     GENERATE_PACKET_TYPE_ENTRY ''CZ_REQ_MARKET_LIST'' 3547 162,
     GENERATE_PACKET_TYPE_ENTRY ''CZ_REQ_MY_SELL_LIST'' 3548 14,
     GENERATE_PACKET_TYPE_ENTRY ''CZ_REQ_CABINET_LIST'' 3549 10,
     GENERATE_PACKET_TYPE_ENTRY ''CZ_REQ_GET_CABINET_ITEM'' 3550 26,
     GENERATE_PACKET_TYPE_ENTRY ''CZ_REQ_CANCEL_MARKET_ITEM'' 3551 18,
     GENERATE_PACKET_TYPE_ENTRY ''CZ_OBJ_RECORD_POS'' 3553 0,
     GENERATE_PACKET_TYPE_ENTRY ''CZ_FORMATION_CMD'' 3554 32,
     GENERATE_PACKET_TYPE_ENTRY ''CZ_REGISTER_AUTOSELLER'' 3555 0,
     GENERATE_PACKET_TYPE_ENTRY ''CZ_INV_ITEM_LOCK'' 3552 19,
     GENERATE_PACKET_TYPE_ENTRY ''CZ_OPEN_AUTOSELLER'' 3556 34,
     GENERATE_PACKET_TYPE_ENTRY ''CZ_BUY_AUTOSELLER_ITEMS'' 3557 0,
     GENERATE_PACKET_TYPE_ENTRY ''CZ_SELL_MY_AUTOSELLER_ITEMS'' 3558 0,
     GENERATE_PACKET_TYPE_ENTRY ''CZ_PUZZLE_CRAFT'' 3559 0,
     GENERATE_PACKET_TYPE_ENTRY ''CZ_GET_WIKI_REWARD'' 3406 11,
     GENERATE_PACKET_TYPE_ENTRY ''CZ_PET_EQUIP'' 3560 30,
     GENERATE_PACKET_TYPE_ENTRY ''ZC_FOUND_PARTY_LIST'' 3561 0,
     GENERATE_PACKET_TYPE_ENTRY ''ZC_NEAR_PARTY_LIST'' 3562 0,
     GENERATE_PACKET_TYPE_ENTRY ''ZC_RECOMMEND_PARTY_INFO'' 3563 0,
     GENERATE_PACKET_TYPE_ENTRY ''CZ_REQUEST_SOME_PARTY'' 3564 90,
     GENERATE_PACKET_TYPE_ENTRY ''CZ_REFRESH_MEMBERRECOMMEND_LIST'' 3565 10,
     GENERATE_PACKET_TYPE_ENTRY ''ZC_TO_SOMEWHERE_CLIENT'' 3566 0,
     GENERATE_PACKET_TYPE_ENTRY ''CZ_REVEAL_NPC_STATE'' 3567 14,
     GENERATE_PACKET_TYPE_ENTRY ''CZ_CHANGE_CHANNEL'' 3568 12,
     GENERATE_PACKET_TYPE_ENTRY ''CZ_REQ_CHANNEL_TRAFFICS'' 3569 12,
     GENERATE_PACKET_TYPE_ENTRY ''CZ_BUY_PROPERTYSHOP_ITEM'' 3570 0,
     GENERATE_PACKET_TYPE_ENTRY ''CZ_SKILL_USE_HEIGHT'' 3571 14,
     GENERATE_PACKET_TYPE_ENTRY ''CZ_ACCEPT_PARTY_QUEST'' 3572 20,
     GENERATE_PACKET_TYPE_ENTRY ''CZ_ACCEPT_PARTY_EVENT'' 3573 20,
     GENERATE_PACKET_TYPE_ENTRY ''CZ_DELETE_PARTY_EVENT'' 3574 20,
     GENERATE_PACKET_TYPE_ENTRY ''CZ_PING'' 3575 10,
     GENERATE_PACKET_TYPE_ENTRY ''ZC_PING'' 3576 10,
     GENERATE_PACKET_TYPE_ENTRY ''ZC_XIGNCODE_BUFFER'' 3577 524,
     GENERATE_PACKET_TYPE_ENTRY ''CZ_XIGNCODE_BUFFER'' 3578 524,
     GENERATE_PACKET_TYPE_ENTRY ''CZ_SYSTEM_LOG_SAVE_TO_MONGODB'' 3579 280,
     GENERATE_PACKET_TYPE_ENTRY ''CZ_CHANGE_TITLE'' 3580 74,
     GENERATE_PACKET_TYPE_ENTRY ''CZ_PC_COMMENT_CHANGE'' 3581 0,
     GENERATE_PACKET_TYPE_ENTRY ''CZ_AUTTOSELLER_BUYER_CLOSE'' 3582 18,
     GENERATE_PACKET_TYPE_ENTRY ''CZ_REQ_ITEM_LIST'' 3583 11,
     GENERATE_PACKET_TYPE_ENTRY ''CZ_HIT_MISSILE'' 3584 14,
     GENERATE_PACKET_TYPE_ENTRY ''CZ_I_NEED_PARTY'' 3585 23,
     GENERATE_PACKET_TYPE_ENTRY ''CZ_PARTY_JOIN_BY_LINK'' 3586 19,
     GENERATE_PACKET_TYPE_ENTRY ''CZ_PVP_ZONE_CMD'' 3588 22,
     GENERATE_PACKET_TYPE_ENTRY ''CZ_PVP_CHAT'' 3589 0,
     GENERATE_PACKET_TYPE_ENTRY ''CZ_CARDBATTLE_CMD'' 3590 26,
     GENERATE_PACKET_TYPE_ENTRY ''CZ_REQ_UPDATE_CONTENTS_SESSION'' 3591 10,
     GENERATE_PACKET_TYPE_ENTRY ''CZ_REQ_FRIENDLY_FIGHT'' 3592 15,
     GENERATE_PACKET_TYPE_ENTRY ''CZ_CART_POSITION'' 3593 26,
     GENERATE_PACKET_TYPE_ENTRY ''CZ_REQ_RIDE_CART'' 3594 18,
     GENERATE_PACKET_TYPE_ENTRY ''CZ_DUMMYPC_SKILL_POS'' 3595 26]"

definition FOREACH_PACKET_TYPE :: "PacketTypeEntry list" where
  "FOREACH_PACKET_TYPE = packetTypes_0 @ packetTypes_1 @ packetTypes_2 @ packetTypes_3 @ packetTypes_4 @ packetTypes_5"

text \<open>The enumerator behind the last type, and the number of entries of the array.\<close>

definition PACKET_TYPE_COUNT :: int where
  "PACKET_TYPE_COUNT = pte_id (last FOREACH_PACKET_TYPE) + 1"

definition PACKET_TYPES_MAX_INDEX :: nat where
  "PACKET_TYPES_MAX_INDEX = nat (PACKET_TYPE_COUNT + 1)"

text \<open>The static array is zero before \<open>packetTypeInit\<close> gives every entry a name and copies the matching
  rows of the table over it.\<close>

definition packetTypeInit :: "PacketTypeEntry list" where
  "packetTypeInit =
     map (\<lambda>tid. foldl (\<lambda>e entry. if pte_id entry = int tid then entry else e)
            \<lparr> pte_id = 0, pte_size = 0, pte_name = ''UNKNOWN_PACKET'' \<rparr> FOREACH_PACKET_TYPE)
       [0..<PACKET_TYPES_MAX_INDEX]"

definition packetTypeToString :: "PacketTypeEntry list \<Rightarrow> int \<Rightarrow> string" where
  "packetTypeToString packetTypeInfo type =
     (if type \<le> 0 \<or> type \<ge> PACKET_TYPE_COUNT then ''UNKNOWN_PACKET''
      else pte_name (packetTypeInfo ! nat type))"

section \<open>The table\<close>

lemmas packetTypes_defs = packetTypes_0_def packetTypes_1_def packetTypes_2_def packetTypes_3_def
  packetTypes_4_def packetTypes_5_def

lemmas packetTypes_ids =
  packetTypes_defs [THEN arg_cong [where f = "map pte_id"], unfolded GENERATE_PACKET_TYPE_ENTRY_def list.map PacketTypeEntry.select_convs]

lemma packetTypes_distinct: "distinct (map pte_id FOREACH_PACKET_TYPE)"
  unfolding FOREACH_PACKET_TYPE_def map_append packetTypes_ids append.simps
  by (simp only: distinct.simps list.set insert_iff empty_iff rel_simps simp_thms)

lemma last_Cons2: "last (x # y # zs) = last (y # zs)"
  by simp

lemma packetTypes_count: "PACKET_TYPE_COUNT = 3596"
proof -
  have "last packetTypes_5 = GENERATE_PACKET_TYPE_ENTRY ''CZ_DUMMYPC_SKILL_POS'' 3595 26"
    by (simp only: packetTypes_5_def last_Cons2 last_ConsL)
  moreover have "packetTypes_5 \<noteq> []"
    by (simp add: packetTypes_5_def)
  ultimately show ?thesis
    by (simp add: PACKET_TYPE_COUNT_def FOREACH_PACKET_TYPE_def GENERATE_PACKET_TYPE_ENTRY_def)
qed

lemma packetTypes_range: "list_all (\<lambda>i. 0 < i \<and> i < 3596) (map pte_id FOREACH_PACKET_TYPE)"
  unfolding FOREACH_PACKET_TYPE_def map_append packetTypes_ids append.simps by simp

lemma foldl_no_match: "\<forall>y\<in>set xs. f y \<noteq> t \<Longrightarrow> foldl (\<lambda>e y. if f y = t then y else e) z xs = z"
  by (induction xs arbitrary: z) auto

lemma foldl_match:
  "distinct (map f xs) \<Longrightarrow> x \<in> set xs \<Longrightarrow> foldl (\<lambda>e y. if f y = f x then y else e) z xs = x"
proof (induction xs arbitrary: z)
  case (Cons y ys)
  show ?case
  proof (cases "x = y")
    case True
    then have "\<forall>y'\<in>set ys. f y' \<noteq> f x"
      using Cons.prems by (auto simp: image_iff)
    then show ?thesis
      using True by (simp add: foldl_no_match)
  next
    case False
    then show ?thesis using Cons by auto
  qed
qed simp

lemma packetTypeInit_nth:
  assumes "e \<in> set FOREACH_PACKET_TYPE"
  shows "packetTypeInit ! nat (pte_id e) = e"
proof -
  have "0 < pte_id e" "pte_id e < 3596"
    using packetTypes_range assms by (auto simp: list_all_iff)
  then show ?thesis
    using foldl_match [OF packetTypes_distinct assms]
    by (simp add: packetTypeInit_def PACKET_TYPES_MAX_INDEX_def packetTypes_count)
qed

lemma packetTypeInit_chunk:
  assumes "set es \<subseteq> set FOREACH_PACKET_TYPE"
  shows "list_all (\<lambda>e. packetTypeInit ! nat (pte_id e) = e) es"
  using packetTypeInit_nth assms by (auto simp: list_all_iff)

lemma packetTypeInit_length: "length packetTypeInit = 3597"
  by (simp add: packetTypeInit_def PACKET_TYPES_MAX_INDEX_def packetTypes_count)

text \<open>The entries by number, for the packets of the other theories.\<close>

lemma packetTypeInit_chunks:
  "list_all (\<lambda>e. packetTypeInit ! nat (pte_id e) = e) packetTypes_0"
  "list_all (\<lambda>e. packetTypeInit ! nat (pte_id e) = e) packetTypes_1"
  "list_all (\<lambda>e. packetTypeInit ! nat (pte_id e) = e) packetTypes_2"
  "list_all (\<lambda>e. packetTypeInit ! nat (pte_id e) = e) packetTypes_3"
  "list_all (\<lambda>e. packetTypeInit ! nat (pte_id e) = e) packetTypes_4"
  "list_all (\<lambda>e. packetTypeInit ! nat (pte_id e) = e) packetTypes_5"
  by (rule packetTypeInit_chunk; auto simp: FOREACH_PACKET_TYPE_def)+

lemmas packetTypeInit_entries =
  packetTypeInit_chunks [unfolded packetTypes_defs GENERATE_PACKET_TYPE_ENTRY_def, simplified]

section \<open>Properties\<close>

text \<open>After \<open>packetTypeInit\<close> the array holds at every type number the row of the table with that
  number, and at the other numbers below 3597 an unknown packet of size 0; no two rows share a number.\<close>

theorem packetTypeInit_correct:
  "length packetTypeInit = 3597
   \<and> distinct (map pte_id FOREACH_PACKET_TYPE)
   \<and> list_all (\<lambda>e. packetTypeInit ! nat (pte_id e) = e) FOREACH_PACKET_TYPE
   \<and> list_all (\<lambda>n. int n \<in> set (map pte_id FOREACH_PACKET_TYPE) \<or>
        packetTypeInit ! n = \<lparr> pte_id = 0, pte_size = 0, pte_name = ''UNKNOWN_PACKET'' \<rparr>) [0..<3597]"
proof (intro conjI)
  show "list_all (\<lambda>e. packetTypeInit ! nat (pte_id e) = e) FOREACH_PACKET_TYPE"
    by (rule packetTypeInit_chunk) simp
  show "list_all (\<lambda>n. int n \<in> set (map pte_id FOREACH_PACKET_TYPE) \<or>
        packetTypeInit ! n = \<lparr> pte_id = 0, pte_size = 0, pte_name = ''UNKNOWN_PACKET'' \<rparr>) [0..<3597]"
    unfolding list_all_iff
  proof (intro ballI)
    fix n
    assume n: "n \<in> set [0..<3597]"
    show "int n \<in> set (map pte_id FOREACH_PACKET_TYPE) \<or>
        packetTypeInit ! n = \<lparr> pte_id = 0, pte_size = 0, pte_name = ''UNKNOWN_PACKET'' \<rparr>"
    proof (rule disjCI)
      assume "packetTypeInit ! n \<noteq> \<lparr> pte_id = 0, pte_size = 0, pte_name = ''UNKNOWN_PACKET'' \<rparr>"
      moreover have "packetTypeInit ! n = \<lparr> pte_id = 0, pte_size = 0, pte_name = ''UNKNOWN_PACKET'' \<rparr>"
        if "\<forall>y\<in>set FOREACH_PACKET_TYPE. pte_id y \<noteq> int n"
        using n foldl_no_match [OF that] by (simp add: packetTypeInit_def PACKET_TYPES_MAX_INDEX_def packetTypes_count)
      ultimately show "int n \<in> set (map pte_id FOREACH_PACKET_TYPE)"
        unfolding set_map image_iff by metis
    qed
  qed
qed (rule packetTypes_distinct packetTypeInit_length)+

text \<open>\<open>packetTypeToString\<close> gives the name of the row with the number asked for, and of every other
  number that the packet is unknown, without reading beyond the array.\<close>

theorem packetTypeToString_correct:
  "packetTypeToString packetTypeInit t =
     (case find (\<lambda>e. pte_id e = t) FOREACH_PACKET_TYPE of
        Some e \<Rightarrow> pte_name e | None \<Rightarrow> ''UNKNOWN_PACKET'')"
proof (cases "find (\<lambda>e. pte_id e = t) FOREACH_PACKET_TYPE")
  case None
  then have none: "\<forall>e\<in>set FOREACH_PACKET_TYPE. pte_id e \<noteq> t"
    by (auto simp: find_None_iff)
  show ?thesis
  proof (cases "t \<le> 0 \<or> t \<ge> 3596")
    case False
    then have "packetTypeInit ! nat t = \<lparr> pte_id = 0, pte_size = 0, pte_name = ''UNKNOWN_PACKET'' \<rparr>"
      using foldl_no_match [OF none] by (simp add: nat_less_iff packetTypeInit_def PACKET_TYPES_MAX_INDEX_def packetTypes_count)
    then show ?thesis
      using None False by (simp add: packetTypeToString_def packetTypes_count)
  qed (use None in \<open>simp add: packetTypeToString_def packetTypes_count\<close>)
next
  case (Some e)
  then have e: "e \<in> set FOREACH_PACKET_TYPE" "pte_id e = t"
    by (auto simp: find_Some_iff)
  then have "0 < t" "t < 3596"
    using packetTypes_range by (auto simp: list_all_iff)
  then show ?thesis
    using Some packetTypeInit_nth [OF e(1)] e(2)
    by (simp add: packetTypeToString_def packetTypes_count)
qed

text \<open>The size check of the handlers is exact although it subtracts the header size as \<open>size_t\<close>: it
  accepts a packet whose structure, with the header, has the size of the table (or a size is not given
  there) and that has at most one block of padding. Types whose size is below the header size, as
  \<open>CS_CREATE_GROUP_CHAT\<close>, are refused whatever was received.\<close>

theorem checkClientPacketSize_correct:
  assumes "0 \<le> typeSize" "typeSize < 2 ^ 31" "sizeofPacket < 2 ^ 32"
  shows "checkClientPacketSize sizeofPacket packetSize (of_int typeSize) \<longleftrightarrow>
    (typeSize = 0 \<or> int sizeofPacket + 10 = typeSize)
    \<and> sizeofPacket \<le> unat packetSize \<and> unat packetSize \<le> sizeofPacket + 8"
proof -
  have ext: "(scast (of_int typeSize :: u32) :: u64) = of_int typeSize"
    using assms(1,2) by (simp add: scast_eq signed_of_int signed_take_bit_int_eq_self)
  have zero: "((of_int typeSize :: u32) = 0) = (typeSize = 0)"
    using assms(1,2) word_of_int_eq_iff [of typeSize 0, where 'a = 32] by (simp add: take_bit_int_eq_self)
  have "(of_nat sizeofPacket = (of_int typeSize :: u64) - 10) = (of_int (int sizeofPacket + 10) = (of_int typeSize :: u64))"
    by (simp add: eq_diff_eq)
  also have "\<dots> = (int sizeofPacket + 10 = typeSize)"
    using assms by (simp only: word_of_int_eq_iff) (simp add: take_bit_int_eq_self)
  finally have size: "(of_nat sizeofPacket = (of_int typeSize :: u64) - 10) = (int sizeofPacket + 10 = typeSize)" .
  have "unat (of_nat (sizeofPacket + 8) :: u64) = sizeofPacket + 8" "unat (of_nat sizeofPacket :: u64) = sizeofPacket"
    using assms(3) by (simp_all only: unsigned_of_nat) (simp_all add: take_bit_nat_eq_self)
  then have cmp: "(packetSize > of_nat (sizeofPacket + 8)) = (unat packetSize > sizeofPacket + 8)"
    "(packetSize < of_nat sizeofPacket) = (unat packetSize < sizeofPacket)"
    by (simp_all only: word_less_nat_alt)
  have "checkClientPacketSize sizeofPacket packetSize (of_int typeSize) \<longleftrightarrow>
      \<not> (typeSize \<noteq> 0 \<and> int sizeofPacket + 10 \<noteq> typeSize)
      \<and> \<not> (unat packetSize > sizeofPacket + 8 \<or> unat packetSize < sizeofPacket)"
    unfolding checkClientPacketSize_def Let_def ext zero cmp of_nat_numeral using size by simp
  then show ?thesis
    by auto
qed

theorem checkClientPacketSize_correct_witness:
  "checkClientPacketSize 56 64 (of_int (pte_size (packetTypeInit ! 3))) \<longleftrightarrow>
    (pte_size (packetTypeInit ! 3) = 0 \<or> int 56 + 10 = pte_size (packetTypeInit ! 3))
    \<and> 56 \<le> unat (64 :: u64) \<and> unat (64 :: u64) \<le> 56 + 8"
  by (rule checkClientPacketSize_correct) (simp_all add: packetTypeInit_entries)

end
