(* ===== verification/PacketBuild.thy ===== *)
theory PacketBuild
  imports Commander PacketType
begin

text \<open>
  What the packet builders of the zone and barrack servers share: the reply message, to which a builder
  adds one frame; the byte swapping macros; writing a structure through the current position of a
  stream; compressed contents (\<open>src/common/utils/zlib.c\<close>), where the deflate function of zlib is a
  parameter. \<open>BUILD_REPLY_PACKET\<close> zeroes the packet first, so that a field without an assignment is 0.
\<close>

named_theorems builder_defs "definitions of the packet builders"

definition zmsg_add :: "bytes list \<Rightarrow> bytes \<Rightarrow> bytes list" where
  "zmsg_add msg frame = msg @ [frame]"

definition SWAP_UINT32 :: "u32 \<Rightarrow> u32" where
  "SWAP_UINT32 x = or (or (or (drop_bit 24 x) (drop_bit 8 (and x 0x00FF0000))) (push_bit 8 (and x 0x0000FF00)))
     (push_bit 24 x)"

definition SWAP_UINT16 :: "u16 \<Rightarrow> u16" where
  "SWAP_UINT16 x = or (drop_bit 8 x) (push_bit 8 x)"

text \<open>An assignment to the fields of a packed structure at \<open>packetStreamGetCurrentBuffer\<close>.\<close>

definition packetStreamPoke :: "PacketStream \<Rightarrow> nat \<Rightarrow> bytes \<Rightarrow> PacketStream" where
  "packetStreamPoke s k bs = s \<lparr> ps_buffer := mem_write (ps_buffer s) (ps_position s + k) bs \<rparr>"

section \<open>Compression\<close>

text \<open>
  \<open>deflate\<close> gives the compressed data when they fit into the output buffer of 0x40000 bytes and \<open>None\<close>
  otherwise; then \<open>zlibCompress\<close> returns \<open>false\<close> and leaves the header unset.
\<close>

record Zlib =
  zl_magic :: u16
  zl_size :: u16
  zl_buffer :: bytes

abbreviation (input) ZLIB_MAGIC_HEADER :: u16 where "ZLIB_MAGIC_HEADER \<equiv> 0xFA8D"

definition zlibCompress :: "(bytes \<Rightarrow> bytes option) \<Rightarrow> bytes \<Rightarrow> Zlib option" where
  "zlibCompress deflate data =
     (case deflate data of
        None \<Rightarrow> None
      | Some out \<Rightarrow> Some \<lparr> zl_magic = ZLIB_MAGIC_HEADER, zl_size = of_nat (length out), zl_buffer = out \<rparr>)"

text \<open>\<open>ZLIB_GET_COMPRESSED_PACKET_SIZE\<close>, for a packet that has \<open>headerSize\<close> bytes before its \<open>Zlib\<close>.\<close>

definition zlibPacketSize :: "Zlib \<Rightarrow> nat \<Rightarrow> nat" where
  "zlibPacketSize z headerSize = unat (zl_size z) + 4 + headerSize"

definition zlibBytes :: "Zlib \<Rightarrow> bytes" where
  "zlibBytes z = enc16 (zl_magic z) @ enc16 (zl_size z) @ zl_buffer z"

section \<open>Lemmas\<close>

lemma packetStreamPoke_appends:
  assumes "ps_wf s" "length bs \<le> ps_room s" "n = length bs"
  shows "ps_appends s bs (packetStreamAddOffset (packetStreamPoke s 0 bs) n)"
proof -
  have "ps_position s + length bs \<le> length (ps_buffer s)"
    and "ps_position s + length bs \<le> ps_size s" "ps_position s + length bs < 2 ^ 32"
    using assms by (auto simp: ps_wf_def ps_room_def)
  then show ?thesis
    using assms
    by (simp add: packetStreamPoke_def packetStreamAddOffset_def ps_appends_def ps_wf_def ps_written_def
        packetStreamGetCurrentBuffer_def add.commute [of _ "length bs"])
qed

text \<open>A stream over a zeroed buffer that is filled exactly.\<close>

lemma ps_appends_exact:
  assumes "ps_appends (packetStreamInit buf n) bs s'" "length buf = n" "length bs = n"
  shows "ps_buffer s' = bs"
  using ps_appends_buffer [OF assms(1)] assms(2,3)
  by (simp add: ps_written_def packetStreamInit_def packetStreamGetCurrentBuffer_def)

lemma ps_room_init [simp]: "ps_room (packetStreamInit buf n) = n"
  by (simp add: ps_room_def packetStreamInit_def)

lemma itemSerializeCPacket_buffer:
  "itemGetCPacketSize x < 2 ^ 32 \<Longrightarrow>
   ps_buffer (itemSerializeCPacket x (packetStreamInit (replicate (itemGetCPacketSize x) 0) (itemGetCPacketSize x)))
     = itemClientEnc x"
  by (rule ps_appends_exact [OF itemClientEnc_appends]) (simp_all add: ps_wf_init itemClientEnc_size)

section \<open>What the client expects of a packet\<close>

text \<open>
  The header names the type; a packet whose size is in the table has that size, the others have their
  own size behind the first six bytes.
\<close>

definition serverPacket_ok :: "u16 \<Rightarrow> string \<Rightarrow> bytes \<Rightarrow> bool" where
  "serverPacket_ok ptype name frame \<longleftrightarrow>
     (let e = packetTypeInit ! unat ptype in
      pte_name e = name \<and> dec16 frame = ptype \<and>
      (if pte_size e = 0 then unat (dec16 (drop 6 frame)) = length frame
       else int (length frame) = pte_size e))"

text \<open>A builder adds one good frame to the message.\<close>

definition sends :: "bytes list \<Rightarrow> bytes list \<Rightarrow> u16 \<Rightarrow> string \<Rightarrow> bool" where
  "sends msg msg' ptype name \<longleftrightarrow> (\<exists>frame. msg' = msg @ [frame] \<and> serverPacket_ok ptype name frame)"

lemma sends_add [simp]: "sends msg (zmsg_add msg frame) ptype name = serverPacket_ok ptype name frame"
  by (simp add: sends_def zmsg_add_def)

lemma length_header_bytes [simp]:
  "dec16 (serverPacketHeaderInit t @ r) = t" "drop 6 (serverPacketHeaderInit t @ r) = r"
  "dec16 (variableSizePacketHeaderInit t n @ r) = t" "drop 6 (variableSizePacketHeaderInit t n @ r) = enc16 (ucast n) @ r"
  "dec16 (packetNormalHeaderInit t k n @ r) = t" "drop 6 (packetNormalHeaderInit t k n @ r) = enc16 (ucast n) @ enc32 k @ r"
  "dec16 (serverPacketHeaderInit t) = t" "dec16 (variableSizePacketHeaderInit t n) = t"
  "drop 6 (variableSizePacketHeaderInit t n) = enc16 (ucast n)"
  "drop 6 (packetNormalHeaderInit t k n) = enc16 (ucast n) @ enc32 k"
  by (simp_all add: serverPacketHeaderInit_def variableSizePacketHeaderInit_def packetNormalHeaderInit_def)

end
