(* ===== verification/ZoneBuilder.thy ===== *)
theory ZoneBuilder
  imports PacketBuild
begin

text \<open>
  \<open>src/zone_server/zone_handler/zone_builder.c\<close>: the packets of the zone server, each as the bytes of the
  packed structure that the builder fills in. Floats are bit patterns. The builders
  that send a packet captured from another server out of a hexadecimal dump are in \<open>ZoneDumps\<close>.
\<close>

section \<open>Packet types\<close>

abbreviation (input) ZC_ACHIEVE_POINT_LIST :: u16 where "ZC_ACHIEVE_POINT_LIST \<equiv> 3343"
abbreviation (input) ZC_ADD_HP :: u16 where "ZC_ADD_HP \<equiv> 3127"
abbreviation (input) ZC_ADD_STAMINA :: u16 where "ZC_ADD_STAMINA \<equiv> 3323"
abbreviation (input) ZC_BUFF_ADD :: u16 where "ZC_BUFF_ADD \<equiv> 3139"
abbreviation (input) ZC_CHANGE_CAMERA :: u16 where "ZC_CHANGE_CAMERA \<equiv> 3312"
abbreviation (input) ZC_CHAT :: u16 where "ZC_CHAT \<equiv> 3124"
abbreviation (input) ZC_CHAT_MACRO_LIST :: u16 where "ZC_CHAT_MACRO_LIST \<equiv> 3358"
abbreviation (input) ZC_CONNECT_OK :: u16 where "ZC_CONNECT_OK \<equiv> 3002"
abbreviation (input) ZC_COOLDOWN_LIST :: u16 where "ZC_COOLDOWN_LIST \<equiv> 3277"
abbreviation (input) ZC_ENTER_PC :: u16 where "ZC_ENTER_PC \<equiv> 3101"
abbreviation (input) ZC_GUESTPAGE_MAP :: u16 where "ZC_GUESTPAGE_MAP \<equiv> 3478"
abbreviation (input) ZC_HEAD_ROTATE :: u16 where "ZC_HEAD_ROTATE \<equiv> 3147"
abbreviation (input) ZC_HEAL_INFO :: u16 where "ZC_HEAL_INFO \<equiv> 3156"
abbreviation (input) ZC_ITEM_ADD :: u16 where "ZC_ITEM_ADD \<equiv> 3203"
abbreviation (input) ZC_ITEM_EQUIP_LIST :: u16 where "ZC_ITEM_EQUIP_LIST \<equiv> 3202"
abbreviation (input) ZC_ITEM_INVENTORY_LIST :: u16 where "ZC_ITEM_INVENTORY_LIST \<equiv> 3200"
abbreviation (input) ZC_ITEM_REMOVE :: u16 where "ZC_ITEM_REMOVE \<equiv> 3204"
abbreviation (input) ZC_JOB_PTS :: u16 where "ZC_JOB_PTS \<equiv> 3440"
abbreviation (input) ZC_JUMP :: u16 where "ZC_JUMP \<equiv> 3115"
abbreviation (input) ZC_LEAVE :: u16 where "ZC_LEAVE \<equiv> 3106"
abbreviation (input) ZC_LOGIN_TIME :: u16 where "ZC_LOGIN_TIME \<equiv> 3351"
abbreviation (input) ZC_LOGOUT_OK :: u16 where "ZC_LOGOUT_OK \<equiv> 3011"
abbreviation (input) ZC_MOVE_DIR :: u16 where "ZC_MOVE_DIR \<equiv> 3109"
abbreviation (input) ZC_MOVE_SPEED :: u16 where "ZC_MOVE_SPEED \<equiv> 3112"
abbreviation (input) ZC_MYPAGE_MAP :: u16 where "ZC_MYPAGE_MAP \<equiv> 3477"
abbreviation (input) ZC_MYPC_ENTER :: u16 where "ZC_MYPC_ENTER \<equiv> 3325"
abbreviation (input) ZC_NPC_STATE_LIST :: u16 where "ZC_NPC_STATE_LIST \<equiv> 3371"
abbreviation (input) ZC_OBJECT_PROPERTY :: u16 where "ZC_OBJECT_PROPERTY \<equiv> 3257"
abbreviation (input) ZC_OPTION_LIST :: u16 where "ZC_OPTION_LIST \<equiv> 3329"
abbreviation (input) ZC_PC_LEVELUP :: u16 where "ZC_PC_LEVELUP \<equiv> 3217"
abbreviation (input) ZC_PC_MOVE_STOP :: u16 where "ZC_PC_MOVE_STOP \<equiv> 3505"
abbreviation (input) ZC_PLAY_ANI :: u16 where "ZC_PLAY_ANI \<equiv> 3243"
abbreviation (input) ZC_PLAY_SKILL_CAST_ANI :: u16 where "ZC_PLAY_SKILL_CAST_ANI \<equiv> 3317"
abbreviation (input) ZC_POSE :: u16 where "ZC_POSE \<equiv> 3150"
abbreviation (input) ZC_QUICK_SLOT_LIST :: u16 where "ZC_QUICK_SLOT_LIST \<equiv> 3207"
abbreviation (input) ZC_REST_SIT :: u16 where "ZC_REST_SIT \<equiv> 3114"
abbreviation (input) ZC_ROTATE :: u16 where "ZC_ROTATE \<equiv> 3145"
abbreviation (input) ZC_SET_POS :: u16 where "ZC_SET_POS \<equiv> 3119"
abbreviation (input) ZC_SKILLMAP_LIST :: u16 where "ZC_SKILLMAP_LIST \<equiv> 3330"
abbreviation (input) ZC_SKILL_CAST :: u16 where "ZC_SKILL_CAST \<equiv> 3129"
abbreviation (input) ZC_SKILL_MELEE_GROUND :: u16 where "ZC_SKILL_MELEE_GROUND \<equiv> 3134"
abbreviation (input) ZC_SKILL_RANGE_CIRCLE :: u16 where "ZC_SKILL_RANGE_CIRCLE \<equiv> 3430"
abbreviation (input) ZC_SKILL_RANGE_DBG :: u16 where "ZC_SKILL_RANGE_DBG \<equiv> 3427"
abbreviation (input) ZC_SKILL_RANGE_FAN :: u16 where "ZC_SKILL_RANGE_FAN \<equiv> 3428"
abbreviation (input) ZC_SKILL_RANGE_SQUARE :: u16 where "ZC_SKILL_RANGE_SQUARE \<equiv> 3429"
abbreviation (input) ZC_SKILL_READY :: u16 where "ZC_SKILL_READY \<equiv> 3130"
abbreviation (input) ZC_STAMINA :: u16 where "ZC_STAMINA \<equiv> 3322"
abbreviation (input) ZC_START_GAME :: u16 where "ZC_START_GAME \<equiv> 3014"
abbreviation (input) ZC_START_INFO :: u16 where "ZC_START_INFO \<equiv> 3438"
abbreviation (input) ZC_UI_INFO_LIST :: u16 where "ZC_UI_INFO_LIST \<equiv> 3368"
abbreviation (input) ZC_UPDATE_ALL_STATUS :: u16 where "ZC_UPDATE_ALL_STATUS \<equiv> 3256"
abbreviation (input) ZC_UPDATE_SP :: u16 where "ZC_UPDATE_SP \<equiv> 3221"

section \<open>Packets without an item\<close>

definition zoneBuilderRestSit :: "u32 \<Rightarrow> bytes list \<Rightarrow> bytes list" where
  "zoneBuilderRestSit targetPcId replyMsg = zmsg_add replyMsg
    (enc16 ZC_REST_SIT @ enc32 0 @ enc32 targetPcId @ [0])"

definition zoneBuilderPlayAni :: "bytes list \<Rightarrow> bytes list" where
  "zoneBuilderPlayAni replyMsg = zmsg_add replyMsg
    (serverPacketHeaderInit ZC_PLAY_ANI @ enc32 (SWAP_UINT32 0x48010000) @ enc32
     (SWAP_UINT32 0x27182600) @ [0] @ [0] @ enc32 0 @ enc32 0x3F800000)"

definition zoneBuilderSkillCast :: "u32 \<Rightarrow> u32 \<Rightarrow> PositionXYZ \<Rightarrow> PositionXYZ \<Rightarrow> bytes list \<Rightarrow> bytes list" where
  "zoneBuilderSkillCast targetPcId skillId position1 position2 replyMsg = zmsg_add replyMsg
    (serverPacketHeaderInit ZC_SKILL_CAST @ enc32 targetPcId @ enc16 0xECC7 @ enc16 0 @
     encXYZ position1 @ encXYZ position2)"

definition zoneBuilderPlaySkillCastAni :: "u32 \<Rightarrow> PositionXYZ \<Rightarrow> bytes list \<Rightarrow> bytes list" where
  "zoneBuilderPlaySkillCastAni targetPcId position replyMsg = zmsg_add replyMsg
    (serverPacketHeaderInit ZC_PLAY_SKILL_CAST_ANI @ enc32 targetPcId @ encXYZ position @
     enc16 0xECC7 @ enc16 0 @ enc32 0)"

definition zoneBuilderStamina :: "u32 \<Rightarrow> bytes list \<Rightarrow> bytes list" where
  "zoneBuilderStamina stamina replyMsg = zmsg_add replyMsg
    (enc16 ZC_STAMINA @ enc32 0 @ enc32 stamina)"

definition zoneBuilderAddStamina :: "u32 \<Rightarrow> bytes list \<Rightarrow> bytes list" where
  "zoneBuilderAddStamina stamina replyMsg = zmsg_add replyMsg
    (enc16 ZC_ADD_STAMINA @ enc32 0 @ enc32 stamina)"

definition zoneBuilderUpdateSP :: "u32 \<Rightarrow> u16 \<Rightarrow> bytes list \<Rightarrow> bytes list" where
  "zoneBuilderUpdateSP targetPcId sp replyMsg = zmsg_add replyMsg
    (enc16 ZC_UPDATE_SP @ enc32 0 @ enc32 targetPcId @ enc16 sp @ enc16 0 @ [0])"

definition zoneBuilderUpdateAllStatus :: "u32 \<Rightarrow> u32 \<Rightarrow> u32 \<Rightarrow> u16 \<Rightarrow> u16 \<Rightarrow> bytes list \<Rightarrow> bytes list" where
  "zoneBuilderUpdateAllStatus targetPcId currentHp maxHp currentSp maxSp replyMsg = zmsg_add replyMsg
    (enc16 ZC_UPDATE_ALL_STATUS @ enc32 0 @ enc32 targetPcId @ enc32 currentHp @ enc32 maxHp
     @ enc16 currentSp @ enc16 maxSp @ enc32 0x01)"

definition zoneBuilderPCLevelUp :: "u32 \<Rightarrow> u32 \<Rightarrow> bytes list \<Rightarrow> bytes list" where
  "zoneBuilderPCLevelUp targetPcId level replyMsg = zmsg_add replyMsg
    (enc16 ZC_PC_LEVELUP @ enc32 0 @ enc32 targetPcId @ enc32 level)"

definition zoneBuilderAddHp :: "u32 \<Rightarrow> u32 \<Rightarrow> u32 \<Rightarrow> bytes list \<Rightarrow> bytes list" where
  "zoneBuilderAddHp targetPcId currentHp maxHp replyMsg = zmsg_add replyMsg
    (enc16 ZC_ADD_HP @ enc32 0 @ enc32 targetPcId @ enc32 currentHp @ enc32 maxHp @ enc32 1)"

definition zoneBuilderLeave :: "u32 \<Rightarrow> bytes list \<Rightarrow> bytes list" where
  "zoneBuilderLeave targetPcId replyMsg = zmsg_add replyMsg
    (enc16 ZC_LEAVE @ enc32 0 @ enc32 targetPcId @ enc16 1)"

definition zoneBuilderStartGame :: "u32 \<Rightarrow> u32 \<Rightarrow> u32 \<Rightarrow> u64 \<Rightarrow> bytes list \<Rightarrow> bytes list" where
  "zoneBuilderStartGame timeMultiplier serverAppTimeOffset globalAppTimeOffset serverDateTime replyMsg = zmsg_add replyMsg
    (serverPacketHeaderInit ZC_START_GAME @ enc32 timeMultiplier @ enc32 serverAppTimeOffset
     @ enc32 globalAppTimeOffset @ enc64 serverDateTime)"

definition zoneBuilderQuickSlotList :: "bytes list \<Rightarrow> bytes list" where
  "zoneBuilderQuickSlotList replyMsg = zmsg_add replyMsg
    (serverPacketHeaderInit ZC_QUICK_SLOT_LIST @ enc32 (SWAP_UINT32 0x0C000000) @ enc16 0)"

definition zoneBuilderCooldownList :: "u64 \<Rightarrow> bytes list \<Rightarrow> bytes list" where
  "zoneBuilderCooldownList socialInfoId replyMsg = zmsg_add replyMsg
    (serverPacketHeaderInit ZC_COOLDOWN_LIST @ enc16 0x14 @ enc64 socialInfoId @ enc32 0)"

definition zoneBuilderStartInfo :: "bytes list \<Rightarrow> bytes list" where
  "zoneBuilderStartInfo replyMsg = zmsg_add replyMsg
    (serverPacketHeaderInit ZC_START_INFO @ enc16 0x18 @ enc32 1 @ enc16 0xFA1 @ enc32 0 @
     enc32 0 @ enc16 1)"

definition zoneBuilderSetPos :: "u32 \<Rightarrow> PositionXYZ \<Rightarrow> bytes list \<Rightarrow> bytes list" where
  "zoneBuilderSetPos targetPcId position replyMsg = zmsg_add replyMsg
    (serverPacketHeaderInit ZC_SET_POS @ enc32 targetPcId @ encXYZ position)"

definition zoneBuilderGuestPageMap :: "bytes list \<Rightarrow> bytes list" where
  "zoneBuilderGuestPageMap replyMsg = zmsg_add replyMsg
    (serverPacketHeaderInit ZC_GUESTPAGE_MAP @ enc16 0xD @ enc32 1 @ [0])"

definition zoneBuilderMyPageMap :: "bytes list \<Rightarrow> bytes list" where
  "zoneBuilderMyPageMap replyMsg = zmsg_add replyMsg
    (serverPacketHeaderInit ZC_MYPAGE_MAP @ enc16 0xD @ enc32 1 @ [0])"

definition zoneBuilderNpcStateList :: "bytes list \<Rightarrow> bytes list" where
  "zoneBuilderNpcStateList replyMsg = zmsg_add replyMsg
    (serverPacketHeaderInit ZC_NPC_STATE_LIST @ enc16 0xC @ enc32 0)"

definition zoneBuilderUiInfoList :: "bytes list \<Rightarrow> bytes list" where
  "zoneBuilderUiInfoList replyMsg = zmsg_add replyMsg
    (serverPacketHeaderInit ZC_UI_INFO_LIST @ enc16 0x10 @ enc32 0 @ enc32 0)"

definition zoneBuilderChatMacroList :: "bytes list \<Rightarrow> bytes list" where
  "zoneBuilderChatMacroList replyMsg = zmsg_add replyMsg
    (serverPacketHeaderInit ZC_CHAT_MACRO_LIST @ enc16 0xC @ enc32 0)"

definition zoneBuilderAchievePointList :: "bytes list \<Rightarrow> bytes list" where
  "zoneBuilderAchievePointList replyMsg = zmsg_add replyMsg
    (serverPacketHeaderInit ZC_ACHIEVE_POINT_LIST @ enc16 0xC @ enc32 0)"

definition zoneBuilderSkillmapList :: "bytes list \<Rightarrow> bytes list" where
  "zoneBuilderSkillmapList replyMsg = zmsg_add replyMsg
    (serverPacketHeaderInit ZC_SKILLMAP_LIST @ enc16 0xC @ enc32 0)"

definition zoneBuilderOptionList :: "bytes list \<Rightarrow> bytes list" where
  "zoneBuilderOptionList replyMsg = zmsg_add replyMsg
    (serverPacketHeaderInit ZC_OPTION_LIST @ enc16 9 @ [0])"

definition zoneBuilderMyPCEnter :: "PositionXYZ \<Rightarrow> bytes list \<Rightarrow> bytes list" where
  "zoneBuilderMyPCEnter position replyMsg = zmsg_add replyMsg
    (serverPacketHeaderInit ZC_MYPC_ENTER @ encXYZ position)"

definition zoneBuilderMoveSpeed :: "u32 \<Rightarrow> u32 \<Rightarrow> bytes list \<Rightarrow> bytes list" where
  "zoneBuilderMoveSpeed targetPcId movementSpeed replyMsg = zmsg_add replyMsg
    (serverPacketHeaderInit ZC_MOVE_SPEED @ enc32 targetPcId @ enc32 movementSpeed @ enc32 0)"

definition zoneBuilderJump :: "u32 \<Rightarrow> u32 \<Rightarrow> bytes list \<Rightarrow> bytes list" where
  "zoneBuilderJump targetPcId height replyMsg = zmsg_add replyMsg
    (serverPacketHeaderInit ZC_JUMP @ enc32 targetPcId @ enc32 height @ enc32 0 @ [1])"

definition zoneBuilderMoveDir :: "u32 \<Rightarrow> PositionXYZ \<Rightarrow> PositionXZ \<Rightarrow> u32 \<Rightarrow> bytes list \<Rightarrow> bytes list" where
  "zoneBuilderMoveDir targetPcId position direction timestamp replyMsg = zmsg_add replyMsg
    (serverPacketHeaderInit ZC_MOVE_DIR @ enc32 targetPcId @ encXYZ position @ encXZ
     direction @ [1] @ [0] @ enc32 (SWAP_UINT32 0x00F04101) @ enc32 timestamp)"

definition zoneBuilderPcMoveStop :: "u32 \<Rightarrow> PositionXYZ \<Rightarrow> PositionXZ \<Rightarrow> u32 \<Rightarrow> bytes list \<Rightarrow> bytes list" where
  "zoneBuilderPcMoveStop targetPcId position direction timestamp replyMsg = zmsg_add replyMsg
    (serverPacketHeaderInit ZC_PC_MOVE_STOP @ enc32 targetPcId @ encXYZ position @ [1] @
     encXZ direction @ enc32 timestamp)"

definition zoneBuilderRotateHead :: "u32 \<Rightarrow> PositionXZ \<Rightarrow> bytes list \<Rightarrow> bytes list" where
  "zoneBuilderRotateHead pcId pos replyMsg = zmsg_add replyMsg
    (serverPacketHeaderInit ZC_HEAD_ROTATE @ enc32 pcId @ enc32 (xz_x pos) @ enc32 (xz_z
     pos))"

definition zoneBuilderRotate :: "u32 \<Rightarrow> PositionXZ \<Rightarrow> bytes list \<Rightarrow> bytes list" where
  "zoneBuilderRotate pcId bodyDir replyMsg = zmsg_add replyMsg
    (serverPacketHeaderInit ZC_ROTATE @ enc32 pcId @ encXZ bodyDir @ [0] @ [0])"

definition zoneBuilderLogout :: "bytes list \<Rightarrow> bytes list" where
  "zoneBuilderLogout replyMsg = zmsg_add replyMsg
    (serverPacketHeaderInit ZC_LOGOUT_OK)"

definition zoneBuilderPose :: "u32 \<Rightarrow> u16 \<Rightarrow> PositionXYZ \<Rightarrow> PositionXZ \<Rightarrow> bytes list \<Rightarrow> bytes list" where
  "zoneBuilderPose pcId poseId pos dir replyMsg = zmsg_add replyMsg
    (serverPacketHeaderInit ZC_POSE @ enc32 pcId @ enc16 poseId @ encXYZ pos @ encXZ dir)"

definition zoneBuilderChangeCamera :: "byte \<Rightarrow> PositionXYZ \<Rightarrow> u32 \<Rightarrow> u32 \<Rightarrow> bytes list \<Rightarrow> bytes list" where
  "zoneBuilderChangeCamera mode pos fspd ispd replyMsg = zmsg_add replyMsg
    (serverPacketHeaderInit ZC_CHANGE_CAMERA @ [mode] @ enc32 0 @ encXYZ pos @ enc32 fspd @
     enc32 ispd)"

definition zoneBuilderJobPoints :: "u16 \<Rightarrow> u16 \<Rightarrow> bytes list \<Rightarrow> bytes list" where
  "zoneBuilderJobPoints jobId points replyMsg = zmsg_add replyMsg
    (serverPacketHeaderInit ZC_JOB_PTS @ enc16 jobId @ enc16 points)"

definition zoneBuilderSkillRangeFan :: "u32 \<Rightarrow> PositionXYZ \<Rightarrow> PositionXZ \<Rightarrow> bytes list \<Rightarrow> bytes list" where
  "zoneBuilderSkillRangeFan pcId position direction replyMsg = zmsg_add replyMsg
    (serverPacketHeaderInit ZC_SKILL_RANGE_FAN @ enc32 pcId @ [1] @ [1] @ encXYZ position @
     encXZ direction @ enc32 0 @ enc32 0x3E32B8C7)"

definition zoneBuilderSkillRangeSquare :: "u32 \<Rightarrow> u32 \<Rightarrow> PositionXYZ \<Rightarrow> PositionXYZ \<Rightarrow> bytes list \<Rightarrow> bytes list" where
  "zoneBuilderSkillRangeSquare pcId skillId pos1 pos2 replyMsg = zmsg_add replyMsg
    (serverPacketHeaderInit ZC_SKILL_RANGE_SQUARE @ enc32 pcId @ enc16 0 @ encXYZ pos1 @
     encXYZ pos2 @ enc32 0x41600000)"

definition zoneBuilderSkillRangeCircle :: "bytes list \<Rightarrow> bytes list" where
  "zoneBuilderSkillRangeCircle replyMsg = zmsg_add replyMsg
    (serverPacketHeaderInit ZC_SKILL_RANGE_CIRCLE @ replicate 4 0 @ replicate 12 0 @
     replicate 4 0)"

definition zoneBuilderSkillRangeDbg :: "bytes list \<Rightarrow> bytes list" where
  "zoneBuilderSkillRangeDbg replyMsg = zmsg_add replyMsg
    (serverPacketHeaderInit ZC_SKILL_RANGE_DBG @ replicate 2 0 @ replicate 4 0 @ replicate
     12 0 @ replicate 8 0 @ replicate 24 0)"

definition zoneBuilderSkillMeleeGround :: "u32 \<Rightarrow> u32 \<Rightarrow> PositionXYZ \<Rightarrow> PositionXZ \<Rightarrow> bytes list \<Rightarrow> bytes list" where
  "zoneBuilderSkillMeleeGround pcId skillId position direction replyMsg = zmsg_add replyMsg
    (variableSizePacketHeaderInit ZC_SKILL_MELEE_GROUND 62 @ enc16 (ucast skillId) @ enc16
     162 @ enc32 pcId @ encXZ direction @ enc32 1 @ enc32 0x44160000 @ enc32 0x3F800000 @
     enc32 0xBF800000 @ enc32 (SWAP_UINT32 0x01300B00) @ enc32 (SWAP_UINT32 0x0B0E1900) @
     encXYZ position @ enc16 0)"

definition zoneBuilderHealInfo :: "u32 \<Rightarrow> u32 \<Rightarrow> u32 \<Rightarrow> bytes list \<Rightarrow> bytes list" where
  "zoneBuilderHealInfo pcId amountHealed maxHP replyMsg = zmsg_add replyMsg
    (serverPacketHeaderInit ZC_HEAL_INFO @ enc32 pcId @ enc32 amountHealed @ enc32 maxHP @
     enc32 0 @ replicate 4 0 @ replicate 4 0)"

text \<open>\<open>static int id\<close> counts the packets; the second position is a copy of the first one.\<close>

definition zoneBuilderSkillReady ::
    "u32 \<Rightarrow> u32 \<Rightarrow> u32 \<Rightarrow> PositionXYZ \<Rightarrow> PositionXYZ \<Rightarrow> bytes list \<Rightarrow> u32 \<times> bytes list" where
  "zoneBuilderSkillReady counter targetPcId skillId pos1 pos2 replyMsg = (counter + 1, zmsg_add replyMsg
    (serverPacketHeaderInit ZC_SKILL_READY @ enc32 targetPcId @ enc32 skillId @ enc32 0x3F800000 @
     enc32 counter @ encXYZ pos1 @ encXYZ pos1))"

text \<open>The clock in units of 100 ns since 1601.\<close>

definition getFileTime :: "u64 \<Rightarrow> u64 \<Rightarrow> u64" where
  "getFileTime tv_sec tv_usec = (11644473600 + tv_sec) * 10000000 + tv_usec * 10"

definition zoneBuilderLoginTime :: "u64 \<Rightarrow> u64 \<Rightarrow> bytes list \<Rightarrow> bytes list" where
  "zoneBuilderLoginTime tv_sec tv_usec replyMsg = zmsg_add replyMsg
    (serverPacketHeaderInit ZC_LOGIN_TIME @ enc64 (getFileTime tv_sec tv_usec))"

definition zoneBuilderObjectProperty :: "u64 \<Rightarrow> bytes list \<Rightarrow> bytes list" where
  "zoneBuilderObjectProperty actorId replyMsg = zmsg_add replyMsg
    (variableSizePacketHeaderInit ZC_OBJECT_PROPERTY 76 @ enc64 actorId @
     enc16 (SWAP_UINT16 0x8E10) @ enc32 0x41200000 @ enc16 (SWAP_UINT16 0xA910) @ enc32 0x41F80000 @
     enc16 (SWAP_UINT16 0xAD10) @ enc32 0 @ enc16 (SWAP_UINT16 0x9410) @ enc32 0x40400000 @
     enc16 (SWAP_UINT16 0xAB10) @ enc32 0x40800000 @ enc16 (SWAP_UINT16 0x9210) @ enc32 0x40E00000 @
     enc16 (SWAP_UINT16 0xAA10) @ enc32 0x40C00000 @ enc16 (SWAP_UINT16 0x8311) @ enc32 0x3F800000 @
     enc16 (SWAP_UINT16 0x3311) @ enc32 0x42F20000 @ enc16 (SWAP_UINT16 0x2911) @ enc32 0x436E0000)"

definition zoneBuilderCampInfo :: "u64 \<Rightarrow> bytes list \<Rightarrow> bytes list" where
  "zoneBuilderCampInfo accountId replyMsg = replyMsg"

section \<open>Packets about a commander\<close>

definition zoneBuilderEnterPc :: "('h, 'k) Commander \<Rightarrow> bytes list \<Rightarrow> bytes list result" where
  "zoneBuilderEnterPc commander replyMsg =
    rbind (commanderAppearance commander) (\<lambda>appearance. Inr (zmsg_add replyMsg
    (serverPacketHeaderInit ZC_ENTER_PC @ enc32 (co_pcId commander) @ encXYZ (co_pos commander) @
     enc32 0x3F800000 @ enc32 0 @ enc16 0 @ enc64 (co_socialInfoId commander) @ [0] @ enc32 0x41F80000 @
     enc32 0 @ enc32 (co_currentHP commander) @ enc32 (co_maxHP commander) @
     enc16 (co_currentSP commander) @ enc16 (co_maxSP commander) @
     enc32 (co_currentStamina commander) @ enc32 (co_maxStamina commander) @ [0] @ enc16 0 @
     enc32 (SWAP_UINT32 0xA1860100) @ enc32 (-1) @ [0] @ appearance @
     c_strncpy 49 [78, 111, 110, 101])))"

definition zoneBuilderConnectOk ::
    "byte \<Rightarrow> byte \<Rightarrow> ('h, 'k) Commander \<Rightarrow> bytes list \<Rightarrow> bytes list result" where
  "zoneBuilderConnectOk gameMode accountPrivileges commander replyMsg =
    rbind (commanderAppearance commander) (\<lambda>appearance. Inr (zmsg_add replyMsg
    (variableSizePacketHeaderInit ZC_CONNECT_OK 380 @ [gameMode] @ enc32 (SWAP_UINT32 0xCED3B04C) @
     [accountPrivileges] @ enc16 0xC2 @ enc64 0 @ [0x2A, 0, 0x2A] @ (replicate 40 0x41 @ [0]) @
     enc32 (co_pcId commander) @ enc32 0 @ appearance @ encXYZ (co_pos commander) @
     enc32 (co_currentXP commander) @ enc32 (co_maxXP commander) @ enc32 (co_pcId commander) @
     enc64 (co_socialInfoId commander) @ enc64 (co_commanderId commander) @
     enc32 (co_currentHP commander) @ enc32 (co_maxHP commander) @
     enc16 (co_currentSP commander) @ enc16 (co_maxSP commander) @
     enc32 (co_currentStamina commander) @ enc32 (co_maxStamina commander) @ enc16 0 @ enc16 0)))"

text \<open>The item in the hat slot is dereferenced without a check that there is one.\<close>

definition zoneBuilderChat :: "Store \<Rightarrow> ('h, 'k) Commander \<Rightarrow> bytes \<Rightarrow> bytes list \<Rightarrow> bytes list result" where
  "zoneBuilderChat st commander chatText replyMsg =
    (let chatTextLen = length chatText + 1; equippedItems = inv_equippedItems (co_inventory commander) in
     if length (co_familyName commander) < 64 \<or> length (co_commanderName commander) < 65
        \<or> length equippedItems \<le> unat EQSLOT_HAT then Inl OutOfBounds
     else case equippedItems ! unat EQSLOT_HAT of
       None \<Rightarrow> Inl NullDeref
     | Some hat \<Rightarrow> rbind (derefItem st hat) (\<lambda>item. Inr (zmsg_add replyMsg
         (variableSizePacketHeaderInit ZC_CHAT (of_nat (160 + chatTextLen)) @ enc32 (co_pcId commander) @
          take 64 (co_familyName commander) @ take 65 (co_commanderName commander) @ [0x4F] @
          enc16 (co_jobId commander) @ enc32 1 @ [co_gender commander] @ [co_hairId commander] @ enc16 0 @
          enc32 (itemGetId (itemBase item)) @ enc32 0 @ (chatText @ [0])))))"

text \<open>\<open>strlen\<close> needs a terminated name; \<open>unk1\<close> is assigned twice and \<open>unk2\<close> stays 0.\<close>

definition zoneBuilderBuffAdd :: "u32 \<Rightarrow> ('h, 'k) Commander \<Rightarrow> bytes list \<Rightarrow> bytes list result" where
  "zoneBuilderBuffAdd pcId commander replyMsg =
    (if 0 \<notin> set (co_commanderName commander) then Inl OutOfBounds
     else
       let commanderNameSize = length (c_str (co_commanderName commander)) + 1 in
       Inr (zmsg_add replyMsg
         (variableSizePacketHeaderInit ZC_BUFF_ADD (of_nat (42 + commanderNameSize)) @ enc32 pcId @
          enc32 (SWAP_UINT32 0xFF030000) @ enc64 1 @ enc64 0 @ enc16 (of_nat commanderNameSize) @
          take commanderNameSize (co_commanderName commander) @ enc32 pcId @ enc32 (SWAP_UINT32 0x43910500))))"

section \<open>Packets about items\<close>

definition zoneBuilderItemAdd :: "ItemObject \<Rightarrow> u32 \<Rightarrow> byte \<Rightarrow> bytes list \<Rightarrow> bytes list" where
  "zoneBuilderItemAdd item inventoryIndex addType replyMsg =
    (let propertiesSize = itemGetCPacketSize item;
         stream = itemSerializeCPacket item (packetStreamInit (replicate propertiesSize 0) propertiesSize)
     in zmsg_add replyMsg
    (variableSizePacketHeaderInit ZC_ITEM_ADD (of_nat (36 + propertiesSize)) @
     enc64 (actorGetUId (item_actor (itemBase item))) @ enc32 (itemGetAmount (itemBase item)) @
     enc32 inventoryIndex @ enc32 (itemGetId (itemBase item)) @ enc16 (of_nat propertiesSize) @
     [addType] @ enc32 0 @ [0] @ ps_buffer stream))"

definition zoneBuilderItemRemove :: "ItemObject \<Rightarrow> byte \<Rightarrow> byte \<Rightarrow> bytes list \<Rightarrow> bytes list" where
  "zoneBuilderItemRemove item removalType inventoryType replyMsg = zmsg_add replyMsg
    (serverPacketHeaderInit ZC_ITEM_REMOVE @ enc64 (actorGetUId (item_actor (itemBase item))) @
     enc32 (item_amount (itemBase item)) @ [removalType] @ [inventoryType])"

text \<open>The first loop of \<open>zoneBuilderItemEquipList\<close>: the size of the packet.\<close>

fun equipListSize :: "Store \<Rightarrow> addr option list \<Rightarrow> nat result" where
  "equipListSize st [] = Inr 0"
| "equipListSize st (eqItem # items) =
     rbind (case eqItem of None \<Rightarrow> Inr 0 | Some a \<Rightarrow> rbind (derefItem st a) (\<lambda>x. Inr (itemGetCPacketSize x))) (\<lambda>attrSize.
     rbind (equipListSize st items) (\<lambda>n. Inr (24 + attrSize + n)))"

text \<open>The second loop, which fills the packet through the stream.\<close>

fun equipListFill :: "Store \<Rightarrow> nat \<Rightarrow> addr option list \<Rightarrow> PacketStream \<Rightarrow> PacketStream result" where
  "equipListFill st eqSlot [] stream = Inr stream"
| "equipListFill st eqSlot (eqItem # items) stream =
     rbind (case eqItem of
         None \<Rightarrow> rbind (inventoryGetEquipmentEmptySlot (of_nat eqSlot)) (\<lambda>itemId. Inr (itemId, 0, 0, None))
       | Some a \<Rightarrow> rbind (derefItem st a) (\<lambda>x.
           Inr (itemGetId (itemBase x), itemGetCPacketSize x, actorGetUId (item_actor (itemBase x)), Some x)))
       (\<lambda>(itemId, attrSize, uid, item).
     let stream = packetStreamPoke stream 0
           (enc32 itemId @ enc16 (of_nat attrSize) @ enc16 0 @ enc64 uid @ [of_nat eqSlot] @ [0] @ enc16 0 @ enc32 0);
         stream = packetStreamAddOffset stream 24;
         stream = (if attrSize > 0 then itemSerializeCPacket (the item) stream else stream) in
     equipListFill st (eqSlot + 1) items stream)"

definition zoneBuilderItemEquipList :: "'h Inventory \<Rightarrow> Store \<Rightarrow> bytes list \<Rightarrow> bytes list result" where
  "zoneBuilderItemEquipList inventory st replyMsg =
    rbind (equipListSize st (inv_equippedItems inventory)) (\<lambda>itemsPacketSize.
    let size = 8 + itemsPacketSize;
        stream = packetStreamInit (replicate size 0) size;
        stream = packetStreamPoke stream 0 (variableSizePacketHeaderInit ZC_ITEM_EQUIP_LIST (of_nat size));
        stream = packetStreamAddOffset stream 8 in
    rbind (equipListFill st 0 (inv_equippedItems inventory) stream) (\<lambda>stream.
    Inr (zmsg_add replyMsg (ps_buffer stream))))"

text \<open>
  \<open>zoneBuilderItemInventoryList\<close>: the items of the bags, category by category. The first loop computes
  the size of their entries, the second one fills an uncompressed packet of that size.
\<close>

fun inventoryListSize :: "Store \<Rightarrow> addr list \<Rightarrow> nat result" where
  "inventoryListSize st [] = Inr 0"
| "inventoryListSize st (h # hs) =
     rbind (derefHandleItem st h) (\<lambda>item.
     rbind (inventoryListSize st hs) (\<lambda>n. Inr (32 + itemGetCPacketSize item + n)))"

fun inventoryListFill :: "'h Inventory \<Rightarrow> Store \<Rightarrow> addr list \<Rightarrow> PacketStream \<Rightarrow> PacketStream result" where
  "inventoryListFill inventory st [] stream = Inr stream"
| "inventoryListFill inventory st (h # hs) stream =
     rbind (derefHandleItem st h) (\<lambda>item.
     let attrSize = itemGetCPacketSize item; uid = actorGetUId (item_actor (itemBase item)) in
     rbind (inventoryGetBagIndexByActorId inventory st (itemGetCategory (itemBase item)) uid) (\<lambda>index.
     let stream = packetStreamPoke stream 0
           (enc32 (itemGetId (itemBase item)) @ enc16 (of_nat attrSize) @ enc16 0 @ enc64 uid @
            enc32 (itemGetAmount (itemBase item)) @ enc32 0 @ enc32 (of_int index) @ enc32 0);
         stream = packetStreamAddOffset stream 32;
         stream = (if attrSize > 0 then itemSerializeCPacket item stream else stream) in
     inventoryListFill inventory st hs stream))"

text \<open>The compressed entries follow the number of items; the frame ends where they end.\<close>

definition zoneBuilderItemInventoryList ::
    "('h, addr) zhash_ops \<Rightarrow> (bytes \<Rightarrow> bytes option) \<Rightarrow> 'h Inventory \<Rightarrow> Store \<Rightarrow> bytes list \<Rightarrow> bytes list result" where
  "zoneBuilderItemInventoryList Z deflate inventory st replyMsg =
    (let inventoryCount = inventoryGetItemsCount Z inventory; handles = concat (inv_bags inventory) in
    rbind (inventoryListSize st handles) (\<lambda>totalSize.
    rbind (inventoryListFill inventory st handles (packetStreamInit (replicate totalSize 0) totalSize)) (\<lambda>stream.
    case zlibCompress deflate (ps_buffer stream) of
      None \<Rightarrow> Inl Uninitialised
    | Some zlibData \<Rightarrow>
        let outPacketSize = zlibPacketSize zlibData 12 in
        Inr (zmsg_add replyMsg (take outPacketSize
          (variableSizePacketHeaderInit ZC_ITEM_INVENTORY_LIST (of_nat outPacketSize) @
           enc32 (of_nat inventoryCount) @ zlibBytes zlibData))))))"

end
