(* ===== verification/ZonePackets.thy ===== *)
theory ZonePackets
  imports ZoneBuilder CommanderWitness
begin

text \<open>
  What the packets of the zone server are worth: the sizes announced in the table of packet types or in
  the packet itself, and the contents of the packets about items.
\<close>

lemmas zone_builders =
  zoneBuilderRestSit_def zoneBuilderPlayAni_def zoneBuilderSkillCast_def
  zoneBuilderPlaySkillCastAni_def zoneBuilderStamina_def zoneBuilderAddStamina_def
  zoneBuilderUpdateSP_def zoneBuilderUpdateAllStatus_def zoneBuilderPCLevelUp_def
  zoneBuilderAddHp_def zoneBuilderLeave_def zoneBuilderStartGame_def zoneBuilderQuickSlotList_def
  zoneBuilderCooldownList_def zoneBuilderStartInfo_def zoneBuilderSetPos_def
  zoneBuilderGuestPageMap_def zoneBuilderMyPageMap_def zoneBuilderNpcStateList_def
  zoneBuilderUiInfoList_def zoneBuilderChatMacroList_def zoneBuilderAchievePointList_def
  zoneBuilderSkillmapList_def zoneBuilderOptionList_def zoneBuilderMyPCEnter_def
  zoneBuilderMoveSpeed_def zoneBuilderJump_def zoneBuilderMoveDir_def zoneBuilderPcMoveStop_def
  zoneBuilderRotateHead_def zoneBuilderRotate_def zoneBuilderLogout_def zoneBuilderPose_def
  zoneBuilderChangeCamera_def zoneBuilderJobPoints_def zoneBuilderSkillRangeFan_def
  zoneBuilderSkillRangeSquare_def zoneBuilderSkillRangeCircle_def zoneBuilderSkillRangeDbg_def
  zoneBuilderSkillMeleeGround_def zoneBuilderHealInfo_def zoneBuilderLoginTime_def
  zoneBuilderItemRemove_def zoneBuilderObjectProperty_def zoneBuilderSkillReady_def

lemma dec16_enc: "dec16 (enc32 w @ m) = ucast w" "dec16 (enc64 v @ m) = ucast v"
  unfolding enc32_def enc64_def by (simp_all only: dec16_le_bytes)

lemmas sends_simps = zone_builders serverPacket_ok_def packetTypeInit_entries dec16_enc SWAP_UINT32_def SWAP_UINT16_def
  serverPacketHeaderInit_def

section \<open>Sizes\<close>

text \<open>These builders add one frame to the message, of the type they name and of the size that the
  table of packet types gives for it.\<close>

theorem zoneBuilder_fixed_sizes:
  "sends replyMsg (zoneBuilderRestSit w1 replyMsg) ZC_REST_SIT ''ZC_REST_SIT''
   \<and> sends replyMsg (zoneBuilderPlayAni replyMsg) ZC_PLAY_ANI ''ZC_PLAY_ANI''
   \<and> sends replyMsg (zoneBuilderSkillCast w1 w2 p1 p2 replyMsg) ZC_SKILL_CAST ''ZC_SKILL_CAST''
   \<and> sends replyMsg (zoneBuilderPlaySkillCastAni w1 p1 replyMsg) ZC_PLAY_SKILL_CAST_ANI ''ZC_PLAY_SKILL_CAST_ANI''
   \<and> sends replyMsg (zoneBuilderStamina w1 replyMsg) ZC_STAMINA ''ZC_STAMINA''
   \<and> sends replyMsg (zoneBuilderAddStamina w1 replyMsg) ZC_ADD_STAMINA ''ZC_ADD_STAMINA''
   \<and> sends replyMsg (zoneBuilderUpdateSP w1 h1 replyMsg) ZC_UPDATE_SP ''ZC_UPDATE_SP''
   \<and> sends replyMsg (zoneBuilderUpdateAllStatus w1 w2 w3 h1 h2 replyMsg) ZC_UPDATE_ALL_STATUS ''ZC_UPDATE_ALL_STATUS''
   \<and> sends replyMsg (zoneBuilderPCLevelUp w1 w2 replyMsg) ZC_PC_LEVELUP ''ZC_PC_LEVELUP''
   \<and> sends replyMsg (zoneBuilderAddHp w1 w2 w3 replyMsg) ZC_ADD_HP ''ZC_ADD_HP''
   \<and> sends replyMsg (zoneBuilderLeave w1 replyMsg) ZC_LEAVE ''ZC_LEAVE''
   \<and> sends replyMsg (zoneBuilderStartGame w1 w2 w3 q1 replyMsg) ZC_START_GAME ''ZC_START_GAME''
   \<and> sends replyMsg (zoneBuilderSetPos w1 p1 replyMsg) ZC_SET_POS ''ZC_SET_POS''
   \<and> sends replyMsg (zoneBuilderMyPCEnter p1 replyMsg) ZC_MYPC_ENTER ''ZC_MYPC_ENTER''
   \<and> sends replyMsg (zoneBuilderMoveSpeed w1 w2 replyMsg) ZC_MOVE_SPEED ''ZC_MOVE_SPEED''
   \<and> sends replyMsg (zoneBuilderJump w1 w2 replyMsg) ZC_JUMP ''ZC_JUMP''
   \<and> sends replyMsg (zoneBuilderMoveDir w1 p1 d1 w2 replyMsg) ZC_MOVE_DIR ''ZC_MOVE_DIR''
   \<and> sends replyMsg (zoneBuilderPcMoveStop w1 p1 d1 w2 replyMsg) ZC_PC_MOVE_STOP ''ZC_PC_MOVE_STOP''
   \<and> sends replyMsg (zoneBuilderRotateHead w1 d1 replyMsg) ZC_HEAD_ROTATE ''ZC_HEAD_ROTATE''
   \<and> sends replyMsg (zoneBuilderRotate w1 d1 replyMsg) ZC_ROTATE ''ZC_ROTATE''
   \<and> sends replyMsg (zoneBuilderLogout replyMsg) ZC_LOGOUT_OK ''ZC_LOGOUT_OK''
   \<and> sends replyMsg (zoneBuilderChangeCamera b1 p1 w1 w2 replyMsg) ZC_CHANGE_CAMERA ''ZC_CHANGE_CAMERA''
   \<and> sends replyMsg (zoneBuilderJobPoints h1 h2 replyMsg) ZC_JOB_PTS ''ZC_JOB_PTS''
   \<and> sends replyMsg (zoneBuilderSkillRangeFan w1 p1 d1 replyMsg) ZC_SKILL_RANGE_FAN ''ZC_SKILL_RANGE_FAN''
   \<and> sends replyMsg (zoneBuilderSkillRangeSquare w1 w2 p1 p2 replyMsg) ZC_SKILL_RANGE_SQUARE ''ZC_SKILL_RANGE_SQUARE''
   \<and> sends replyMsg (zoneBuilderHealInfo w1 w2 w3 replyMsg) ZC_HEAL_INFO ''ZC_HEAL_INFO''
   \<and> sends replyMsg (zoneBuilderLoginTime q1 q2 replyMsg) ZC_LOGIN_TIME ''ZC_LOGIN_TIME''
   \<and> sends replyMsg (zoneBuilderItemRemove item b1 b2 replyMsg) ZC_ITEM_REMOVE ''ZC_ITEM_REMOVE''"
  by (simp_all only: zone_builders sends_add)
    (simp_all add: serverPacket_ok_def packetTypeInit_entries)

text \<open>These builders add one frame whose type has no size in the table, and the size that they
  write into the frame is the size of the frame.\<close>

theorem zoneBuilder_variable_sizes:
  "sends replyMsg (zoneBuilderQuickSlotList replyMsg) ZC_QUICK_SLOT_LIST ''ZC_QUICK_SLOT_LIST''
   \<and> sends replyMsg (zoneBuilderCooldownList q1 replyMsg) ZC_COOLDOWN_LIST ''ZC_COOLDOWN_LIST''
   \<and> sends replyMsg (zoneBuilderStartInfo replyMsg) ZC_START_INFO ''ZC_START_INFO''
   \<and> sends replyMsg (zoneBuilderGuestPageMap replyMsg) ZC_GUESTPAGE_MAP ''ZC_GUESTPAGE_MAP''
   \<and> sends replyMsg (zoneBuilderMyPageMap replyMsg) ZC_MYPAGE_MAP ''ZC_MYPAGE_MAP''
   \<and> sends replyMsg (zoneBuilderNpcStateList replyMsg) ZC_NPC_STATE_LIST ''ZC_NPC_STATE_LIST''
   \<and> sends replyMsg (zoneBuilderUiInfoList replyMsg) ZC_UI_INFO_LIST ''ZC_UI_INFO_LIST''
   \<and> sends replyMsg (zoneBuilderChatMacroList replyMsg) ZC_CHAT_MACRO_LIST ''ZC_CHAT_MACRO_LIST''
   \<and> sends replyMsg (zoneBuilderAchievePointList replyMsg) ZC_ACHIEVE_POINT_LIST ''ZC_ACHIEVE_POINT_LIST''
   \<and> sends replyMsg (zoneBuilderSkillmapList replyMsg) ZC_SKILLMAP_LIST ''ZC_SKILLMAP_LIST''
   \<and> sends replyMsg (zoneBuilderOptionList replyMsg) ZC_OPTION_LIST ''ZC_OPTION_LIST''
   \<and> sends replyMsg (zoneBuilderSkillMeleeGround w1 w2 p1 d1 replyMsg) ZC_SKILL_MELEE_GROUND ''ZC_SKILL_MELEE_GROUND''
   \<and> sends replyMsg (zoneBuilderObjectProperty q1 replyMsg) ZC_OBJECT_PROPERTY ''ZC_OBJECT_PROPERTY''"
  by (simp_all only: zone_builders sends_add)
    (simp_all add: serverPacket_ok_def packetTypeInit_entries dec16_enc SWAP_UINT32_def)


text \<open>Five packets do not have the size that the table of packet types gives for them.\<close>

theorem zoneBuilder_wrong_sizes:
  "length (last (snd (zoneBuilderSkillReady w1 w2 w3 p1 p2 replyMsg))) = 46
   \<and> pte_size (packetTypeInit ! unat ZC_SKILL_READY) = 50
   \<and> length (last (zoneBuilderPose w1 h1 p1 d1 replyMsg)) = 32 \<and> pte_size (packetTypeInit ! unat ZC_POSE) = 34
   \<and> length (last (zoneBuilderSkillRangeCircle replyMsg)) = 26
   \<and> pte_size (packetTypeInit ! unat ZC_SKILL_RANGE_CIRCLE) = 28
   \<and> length (last (zoneBuilderSkillRangeDbg replyMsg)) = 56
   \<and> pte_size (packetTypeInit ! unat ZC_SKILL_RANGE_DBG) = 58
   \<and> (\<exists>frame. zoneBuilderEnterPc exCommander replyMsg = Inr (replyMsg @ [frame]) \<and> length frame = 370)
   \<and> pte_size (packetTypeInit ! unat ZC_ENTER_PC) = 408"
  by (simp add: zone_builders zmsg_add_def packetTypeInit_entries zoneBuilderEnterPc_def commanderAppearance_def
      commanderAppearanceCPacketInit_def commanderEquipmentCPacketInit_def exCommander_def commanderInit_def)

text \<open>The packet announcing a skill names the caster's position twice, whatever the target is.\<close>

theorem zoneBuilderSkillReady_positions:
  "mem_read (last (snd (zoneBuilderSkillReady counter pcId skillId pos1 pos2 replyMsg))) 22 12 = encXYZ pos1
   \<and> mem_read (last (snd (zoneBuilderSkillReady counter pcId skillId pos1 pos2 replyMsg))) 34 12 = encXYZ pos1"
  by (simp add: zoneBuilderSkillReady_def zmsg_add_def mem_read_def)

section \<open>Chat\<close>

text \<open>A chat message of a commander without a hat dereferences NULL; with a hat it is one frame of
  the announced size that ends with the text and its terminator.\<close>

theorem zoneBuilderChat_hat:
  assumes "length (co_commanderName c) = 65" "length (co_familyName c) = 64"
    and "length (inv_equippedItems (co_inventory c)) = 20" "length chatText < 60000"
  shows "(inv_equippedItems (co_inventory c) ! 0 = None \<longrightarrow> zoneBuilderChat st c chatText replyMsg = Inl NullDeref)
    \<and> (\<forall>a x. inv_equippedItems (co_inventory c) ! 0 = Some a \<and> st_items st a = Some x \<longrightarrow>
        (\<exists>frame. zoneBuilderChat st c chatText replyMsg = Inr (replyMsg @ [frame])
          \<and> serverPacket_ok ZC_CHAT ''ZC_CHAT'' frame \<and> drop 160 frame = chatText @ [0]
          \<and> dec32 (drop 152 frame) = item_id (itemBase x)))"
proof (intro conjI allI impI)
  assume "inv_equippedItems (co_inventory c) ! 0 = None"
  then show "zoneBuilderChat st c chatText replyMsg = Inl NullDeref"
    using assms by (auto simp: zoneBuilderChat_def Let_def)
next
  fix a x
  assume "inv_equippedItems (co_inventory c) ! 0 = Some a \<and> st_items st a = Some x"
  moreover have "unat (ucast (161 + of_nat (length chatText) :: u32) :: u16) = 161 + length chatText"
  proof -
    have "(161 + of_nat (length chatText) :: u32) = of_nat (161 + length chatText)" by simp
    then show ?thesis
      using assms(4) by (simp only: unsigned_ucast_eq unsigned_of_nat) (simp add: take_bit_nat_eq_self)
  qed
  moreover have "inv_equippedItems (co_inventory c) \<noteq> []"
    using assms(3) by auto
  ultimately show "\<exists>frame. zoneBuilderChat st c chatText replyMsg = Inr (replyMsg @ [frame])
          \<and> serverPacket_ok ZC_CHAT ''ZC_CHAT'' frame \<and> drop 160 frame = chatText @ [0]
          \<and> dec32 (drop 152 frame) = item_id (itemBase x)"
    using assms by (simp add: zoneBuilderChat_def zmsg_add_def derefItem_def serverPacket_ok_def
        packetTypeInit_entries itemGetId_def Let_def)
qed


theorem zoneBuilderChat_hat_witness:
  "zoneBuilderChat exStore exCommander [72, 105] [] = Inl NullDeref"
proof -
  have "inv_equippedItems (co_inventory exCommander) ! 0 = None"
    by (simp add: exInventory_def)
  moreover have "length (co_commanderName exCommander) = 65" "length (co_familyName exCommander) = 64"
    "length (inv_equippedItems (co_inventory exCommander)) = 20"
    by (simp_all add: exCommander_def exInventory_def)
  ultimately show ?thesis
    using zoneBuilderChat_hat [of exCommander "[72, 105]" exStore "[]"] by simp
qed

section \<open>Equipment\<close>

text \<open>The entry of a slot, empty or not, and the entries of the slots from \<open>slot\<close> on.\<close>

definition equipSlotEnc :: "Store \<Rightarrow> nat \<Rightarrow> addr option \<Rightarrow> bytes" where
  "equipSlotEnc st slot e =
     (let (itemId, uid, props) = (case e of
            None \<Rightarrow> (projr (inventoryGetEquipmentEmptySlot (of_nat slot)), 0, [])
          | Some a \<Rightarrow> (itemGetId (itemBase (the (st_items st a))), itemUid (the (st_items st a)),
                       itemClientEnc (the (st_items st a))))
      in enc32 itemId @ enc16 (of_nat (length props)) @ enc16 0 @ enc64 uid @ [of_nat slot] @ [0] @ enc16 0
         @ enc32 0 @ props)"

fun equipEnc :: "Store \<Rightarrow> nat \<Rightarrow> addr option list \<Rightarrow> bytes" where
  "equipEnc st slot [] = []"
| "equipEnc st slot (e # es) = equipSlotEnc st slot e @ equipEnc st (slot + 1) es"

lemma equipListSize_ok:
  "\<forall>a. Some a \<in> set es \<longrightarrow> st_items st a \<noteq> None \<Longrightarrow> equipListSize st es = Inr (length (equipEnc st k es))"
proof (induction es arbitrary: k)
  case (Cons e es)
  then have "equipListSize st es = Inr (length (equipEnc st (Suc k) es))" by simp
  then show ?case
    using Cons.prems
    by (cases e) (auto simp: equipSlotEnc_def derefItem_def itemClientEnc_size)
qed simp

lemma emptySlot_ok: "k < 20 \<Longrightarrow> \<exists>i. inventoryGetEquipmentEmptySlot (of_nat k) = Inr i"
  by (simp add: inventoryGetEquipmentEmptySlot_def less_Suc_eq numeral_eq_Suc) auto

lemma equipListFill_ok:
  assumes "\<forall>a. Some a \<in> set es \<longrightarrow> st_items st a \<noteq> None" "k + length es \<le> 20"
    and "ps_wf s" "length (equipEnc st k es) \<le> ps_room s"
  shows "\<exists>s'. equipListFill st k es s = Inr s' \<and> ps_appends s (equipEnc st k es) s'"
  using assms
proof (induction es arbitrary: k s)
  case (Cons e es)
  let ?slot = "case e of
      None \<Rightarrow> rbind (inventoryGetEquipmentEmptySlot (of_nat k)) (\<lambda>itemId. Inr (itemId, 0, 0, None))
    | Some a \<Rightarrow> rbind (derefItem st a) (\<lambda>x.
        Inr (itemGetId (itemBase x), itemGetCPacketSize x, actorGetUId (item_actor (itemBase x)), Some x))"
  let ?hd = "\<lambda>i n u. enc32 i @ enc16 (of_nat n) @ enc16 0 @ enc64 u @ [of_nat k] @ [0] @ enc16 0 @ enc32 0"
  have "\<exists>i n u x. ?slot = Inr (i, n, u, x)
      \<and> equipSlotEnc st k e = ?hd i n u @ (if 0 < n then itemClientEnc (the x) else [])
      \<and> (0 < n \<longrightarrow> n = itemGetCPacketSize (the x))"
  proof (cases e)
    case None
    then show ?thesis
      using emptySlot_ok [of k] Cons.prems(2) by (auto simp: equipSlotEnc_def)
  next
    case (Some a)
    then obtain y where "st_items st a = Some y"
      using Cons.prems(1) by auto
    then show ?thesis
      using Some by (intro exI [of _ "itemGetId (itemBase y)"] exI [of _ "itemGetCPacketSize y"] exI [of _ "itemUid y"]
          exI [of _ "Some y"]) (simp add: equipSlotEnc_def derefItem_def itemClientEnc_size itemUid_def actorGetUId_def)
  qed
  then obtain i n u x where slot: "?slot = Inr (i, n, u, x)"
    "equipSlotEnc st k e = ?hd i n u @ (if 0 < n then itemClientEnc (the x) else [])"
    "0 < n \<longrightarrow> n = itemGetCPacketSize (the x)"
    by blast
  let ?s1 = "packetStreamAddOffset (packetStreamPoke s 0 (?hd i n u)) 24"
  let ?s2 = "if 0 < n then itemSerializeCPacket (the x) ?s1 else ?s1"
  have room: "length (?hd i n u @ (if 0 < n then itemClientEnc (the x) else []) @ equipEnc st (k + 1) es) \<le> ps_room s"
    using Cons.prems(4) slot(2) by simp
  have s1: "ps_appends s (?hd i n u) ?s1"
    using Cons.prems(3) room by (intro packetStreamPoke_appends) simp_all
  have s2: "ps_appends ?s1 (if 0 < n then itemClientEnc (the x) else []) ?s2"
    using s1 room by (auto intro!: itemClientEnc_appends simp: ps_appends_room)
  have s12: "ps_appends s (equipSlotEnc st k e) ?s2"
    unfolding slot(2) by (rule ps_appends_trans [OF s1 s2])
  then have "\<exists>s'. equipListFill st (k + 1) es ?s2 = Inr s' \<and> ps_appends ?s2 (equipEnc st (k + 1) es) s'"
    using Cons.prems(1,2,4) by (intro Cons.IH) (auto simp: ps_appends_room)
  then show ?case
    using slot(1) s12 ps_appends_trans by (fastforce simp: Let_def)
qed simp

text \<open>The list of the equipment has one entry for each of the twenty slots, in order, with the
  properties of the item in it, and the announced size.\<close>

theorem zoneBuilderItemEquipList_correct:
  assumes "\<forall>a. Some a \<in> set (inv_equippedItems iv) \<longrightarrow> st_items st a \<noteq> None"
    and "length (inv_equippedItems iv) = 20" "length (equipEnc st 0 (inv_equippedItems iv)) < 65528"
  shows "\<exists>frame. zoneBuilderItemEquipList iv st replyMsg = Inr (replyMsg @ [frame])
    \<and> serverPacket_ok ZC_ITEM_EQUIP_LIST ''ZC_ITEM_EQUIP_LIST'' frame
    \<and> drop 8 frame = equipEnc st 0 (inv_equippedItems iv)"
proof -
  let ?items = "inv_equippedItems iv"
  let ?n = "8 + length (equipEnc st 0 ?items)"
  let ?hd = "variableSizePacketHeaderInit ZC_ITEM_EQUIP_LIST (of_nat ?n)"
  let ?s0 = "packetStreamInit (replicate ?n 0) ?n"
  let ?s1 = "packetStreamAddOffset (packetStreamPoke ?s0 0 ?hd) 8"
  have s1: "ps_appends ?s0 ?hd ?s1"
    using assms(3) by (intro packetStreamPoke_appends) (simp_all add: ps_wf_init)
  then obtain s2 where s2: "equipListFill st 0 ?items ?s1 = Inr s2" "ps_appends ?s1 (equipEnc st 0 ?items) s2"
    using equipListFill_ok [of ?items st 0 ?s1] assms(1,2) by (auto simp: ps_appends_room)
  have buf: "ps_buffer s2 = ?hd @ equipEnc st 0 ?items"
    by (rule ps_appends_exact [OF ps_appends_trans [OF s1 s2(2)]]) simp_all
  have "unat (ucast (of_nat ?n :: u32) :: u16) = ?n"
    using assms(3) by (simp only: unsigned_ucast_eq unsigned_of_nat) (simp add: take_bit_nat_eq_self)
  then have "serverPacket_ok ZC_ITEM_EQUIP_LIST ''ZC_ITEM_EQUIP_LIST'' (ps_buffer s2)"
    unfolding buf by (simp add: serverPacket_ok_def packetTypeInit_entries)
  then show ?thesis
    using equipListSize_ok [OF assms(1), of 0] s2(1) buf
    by (simp add: zoneBuilderItemEquipList_def zmsg_add_def Let_def)
qed

theorem zoneBuilderItemEquipList_correct_witness:
  "\<exists>frame. zoneBuilderItemEquipList exInventory exStore [] = Inr ([] @ [frame])
    \<and> serverPacket_ok ZC_ITEM_EQUIP_LIST ''ZC_ITEM_EQUIP_LIST'' frame
    \<and> drop 8 frame = equipEnc exStore 0 (inv_equippedItems exInventory)"
proof (rule zoneBuilderItemEquipList_correct)
  show "\<forall>a. Some a \<in> set (inv_equippedItems exInventory) \<longrightarrow> st_items exStore a \<noteq> None"
    using set_update_subset_insert [of "replicate 20 None" 8 "Some 2"] by (auto simp: exInventory_def)
  show "length (inv_equippedItems exInventory) = 20"
    by (simp add: exInventory_def)
  show "length (equipEnc exStore 0 (inv_equippedItems exInventory)) < 65528"
    by (simp add: exInventory_lists equipSlotEnc_def exWeapon_def exampleWeapon_def itemClientEnc_def itemWeaponEnc_def
        propertyFloatGetSPacketSize_def Let_def)
qed

section \<open>The bags\<close>

definition bagEntryEnc :: "ItemObject \<Rightarrow> int \<Rightarrow> bytes" where
  "bagEntryEnc x index =
     enc32 (itemGetId (itemBase x)) @ enc16 (of_nat (length (itemClientEnc x))) @ enc16 0 @ enc64 (itemUid x) @
     enc32 (itemGetAmount (itemBase x)) @ enc32 0 @ enc32 (of_int index) @ enc32 0 @ itemClientEnc x"

text \<open>The item of a handle and its position, as it is written.\<close>

definition bagHandleEnc :: "'h Inventory \<Rightarrow> Store \<Rightarrow> addr \<Rightarrow> bytes" where
  "bagHandleEnc iv st h =
     (let x = the (handleItem st h)
      in bagEntryEnc x (projr (inventoryGetBagIndexByActorId iv st (item_category (itemBase x)) (itemUid x))))"

definition bagHandle_ok :: "'h Inventory \<Rightarrow> Store \<Rightarrow> addr \<Rightarrow> bool" where
  "bagHandle_ok iv st h \<longleftrightarrow> (\<exists>x i. handleItem st h = Some x
     \<and> inventoryGetBagIndexByActorId iv st (item_category (itemBase x)) (itemUid x) = Inr i)"

lemma derefHandleItem_Some: "handleItem st h = Some x \<Longrightarrow> derefHandleItem st h = Inr x"
  by (auto simp: derefHandleItem_def derefHandle_def derefItem_def handleItem_Some)

lemma inventoryListSize_ok:
  "\<forall>h \<in> set hs. bagHandle_ok iv st h \<Longrightarrow>
   inventoryListSize st hs = Inr (length (concat (map (bagHandleEnc iv st) hs)))"
proof (induction hs)
  case (Cons h hs)
  then obtain x where "handleItem st h = Some x"
    by (auto simp: bagHandle_ok_def)
  then show ?case
    using Cons by (simp add: derefHandleItem_Some bagHandleEnc_def bagEntryEnc_def itemClientEnc_size)
qed simp

lemma inventoryListFill_ok:
  assumes "\<forall>h \<in> set hs. bagHandle_ok iv st h"
    and "ps_wf s" "length (concat (map (bagHandleEnc iv st) hs)) \<le> ps_room s"
  shows "\<exists>s'. inventoryListFill iv st hs s = Inr s' \<and> ps_appends s (concat (map (bagHandleEnc iv st) hs)) s'"
  using assms
proof (induction hs arbitrary: s)
  case (Cons h hs)
  then obtain x i where x: "handleItem st h = Some x"
    "inventoryGetBagIndexByActorId iv st (item_category (itemBase x)) (itemUid x) = Inr i"
    by (auto simp: bagHandle_ok_def)
  let ?hd = "enc32 (itemGetId (itemBase x)) @ enc16 (of_nat (length (itemClientEnc x))) @ enc16 0 @ enc64 (itemUid x) @
     enc32 (itemGetAmount (itemBase x)) @ enc32 0 @ enc32 (of_int i) @ enc32 0"
  have enc: "bagHandleEnc iv st h = ?hd @ itemClientEnc x"
    using x by (simp add: bagHandleEnc_def bagEntryEnc_def)
  let ?s1 = "packetStreamAddOffset (packetStreamPoke s 0 ?hd) 32"
  let ?s2 = "if 0 < itemGetCPacketSize x then itemSerializeCPacket x ?s1 else ?s1"
  have room: "length (?hd @ itemClientEnc x @ concat (map (bagHandleEnc iv st) hs)) \<le> ps_room s"
    using Cons.prems(3) enc by simp
  have s1: "ps_appends s ?hd ?s1"
    using Cons.prems(2) room by (intro packetStreamPoke_appends) simp_all
  have s2: "ps_appends ?s1 (itemClientEnc x) ?s2"
    using s1 room by (auto intro!: itemClientEnc_appends simp: ps_appends_room itemClientEnc_size)
  have s12: "ps_appends s (bagHandleEnc iv st h) ?s2"
    unfolding enc by (rule ps_appends_trans [OF s1 s2])
  then have "\<exists>s'. inventoryListFill iv st hs ?s2 = Inr s' \<and> ps_appends ?s2 (concat (map (bagHandleEnc iv st) hs)) s'"
    using Cons.prems by (intro Cons.IH) (auto simp: ps_appends_room)
  then obtain s' where s': "inventoryListFill iv st hs ?s2 = Inr s'" "ps_appends ?s2 (concat (map (bagHandleEnc iv st) hs)) s'"
    by blast
  have "inventoryListFill iv st (h # hs) s = inventoryListFill iv st hs ?s2"
    using x by (simp add: derefHandleItem_Some itemClientEnc_size itemUid_def actorGetUId_def itemGetCategory_def Let_def)
  then show ?case
    using s' ps_appends_trans [OF s12 s'(2)] by simp
qed simp

lemma bagHandleEnc_index:
  assumes "bags_wf Z iv st" "c < 16" "k < length (inv_bags iv ! c)" "handleItem st (inv_bags iv ! c ! k) = Some x"
  shows "bagHandle_ok iv st (inv_bags iv ! c ! k)
    \<and> bagHandleEnc iv st (inv_bags iv ! c ! k) = bagEntryEnc x (5000 * int c + int k + 1)"
proof -
  have "unat (item_category (itemBase x)) = c"
    using bags_wf_in_bag [OF assms(1,2), of "inv_bags iv ! c ! k"] assms(3,4) by (auto simp: itemCat_def)
  moreover have "uint (item_category (itemBase x)) = int (unat (item_category (itemBase x)))"
    by simp
  ultimately have "inventoryGetBagIndexByActorId iv st (item_category (itemBase x)) (itemUid x) = Inr (5000 * int c + int k + 1)"
    using inventoryGetBagIndex_found [OF assms(1), of "item_category (itemBase x)" k x] assms by simp
  then show ?thesis
    using assms(4) by (simp add: bagHandle_ok_def bagHandleEnc_def)
qed

lemma concat_bags_ok:
  assumes "bags_wf Z iv st" "h \<in> set (concat (inv_bags iv))"
  shows "bagHandle_ok iv st h"
proof -
  obtain x where x: "handleItem st h = Some x" "itemCat x < 16" "h \<in> set (inv_bags iv ! itemCat x)"
    using concat_bags_mem [OF assms] by blast
  then obtain k where "k < length (inv_bags iv ! itemCat x)" "inv_bags iv ! itemCat x ! k = h"
    by (auto simp: in_set_conv_nth)
  then show ?thesis
    using bagHandleEnc_index [OF assms(1) x(2)] x(1) by blast
qed

text \<open>The list of the bags is the number of items and the compressed entries of all of them; the
  entry of an item has its position in its bag, counted from 1, plus 5000 times the category; the
  frame has the announced size as long as the compressed entries are small enough.\<close>

theorem zoneBuilderItemInventoryList_correct:
  assumes "zhash Z" "inv_wf Z iv st"
    and "deflate (concat (map (bagHandleEnc iv st) (concat (inv_bags iv)))) = Some out" "length out < 65000"
    and "length (concat (map (bagHandleEnc iv st) (concat (inv_bags iv)))) < 2 ^ 32"
  shows "(\<exists>frame. zoneBuilderItemInventoryList Z deflate iv st replyMsg = Inr (replyMsg @ [frame])
      \<and> serverPacket_ok ZC_ITEM_INVENTORY_LIST ''ZC_ITEM_INVENTORY_LIST'' frame
      \<and> drop 8 frame = enc32 (of_nat (length (concat (inv_bags iv)))) @ enc16 ZLIB_MAGIC_HEADER
          @ enc16 (of_nat (length out)) @ out)
    \<and> (\<forall>c < 16. \<forall>k < length (inv_bags iv ! c). \<forall>x. handleItem st (inv_bags iv ! c ! k) = Some x \<longrightarrow>
          bagHandleEnc iv st (inv_bags iv ! c ! k) = bagEntryEnc x (5000 * int c + int k + 1))"
proof
  have bw: "bags_wf Z iv st"
    using assms(2) by (simp add: inv_wf_def)
  show "\<forall>c < 16. \<forall>k < length (inv_bags iv ! c). \<forall>x. handleItem st (inv_bags iv ! c ! k) = Some x \<longrightarrow>
          bagHandleEnc iv st (inv_bags iv ! c ! k) = bagEntryEnc x (5000 * int c + int k + 1)"
    using bagHandleEnc_index [OF bw] by blast
  let ?hs = "concat (inv_bags iv)"
  let ?enc = "concat (map (bagHandleEnc iv st) ?hs)"
  have ok: "\<forall>h \<in> set ?hs. bagHandle_ok iv st h"
    using concat_bags_ok [OF bw] by blast
  let ?s = "packetStreamInit (replicate (length ?enc) 0) (length ?enc)"
  obtain s' where s': "inventoryListFill iv st ?hs ?s = Inr s'" "ps_appends ?s ?enc s'"
    using inventoryListFill_ok [OF ok, of ?s] assms(5) by (auto simp: ps_wf_init)
  have buf: "ps_buffer s' = ?enc"
    by (rule ps_appends_exact [OF s'(2)]) simp_all
  have len: "unat (of_nat (length out) :: u16) = length out"
    using assms(4) by (simp add: unsigned_of_nat take_bit_nat_eq_self)
  have size: "unat (ucast (of_nat (length out + 16) :: u32) :: u16) = length out + 16"
    using assms(4) by (simp only: unsigned_ucast_eq unsigned_of_nat) (simp add: take_bit_nat_eq_self)
  let ?frame = "variableSizePacketHeaderInit ZC_ITEM_INVENTORY_LIST (of_nat (length out + 16)) @
      enc32 (of_nat (length ?hs)) @ enc16 ZLIB_MAGIC_HEADER @ enc16 (of_nat (length out)) @ out"
  have "zoneBuilderItemInventoryList Z deflate iv st replyMsg = Inr (replyMsg @ [?frame])"
    unfolding zoneBuilderItemInventoryList_def Let_def items_count [OF assms(1) bw] inventoryListSize_ok [OF ok]
      rbind.simps s'(1) buf zlibCompress_def assms(3) option.case zlibPacketSize_def zlibBytes_def Zlib.select_convs len
    by (simp add: zmsg_add_def add.commute)
  moreover have "serverPacket_ok ZC_ITEM_INVENTORY_LIST ''ZC_ITEM_INVENTORY_LIST'' ?frame"
    using size by (simp add: serverPacket_ok_def packetTypeInit_entries)
  ultimately show "\<exists>frame. zoneBuilderItemInventoryList Z deflate iv st replyMsg = Inr (replyMsg @ [frame])
      \<and> serverPacket_ok ZC_ITEM_INVENTORY_LIST ''ZC_ITEM_INVENTORY_LIST'' frame
      \<and> drop 8 frame = enc32 (of_nat (length ?hs)) @ enc16 ZLIB_MAGIC_HEADER @ enc16 (of_nat (length out)) @ out"
    by (intro exI [of _ ?frame]) simp
qed

theorem zoneBuilderItemInventoryList_correct_witness:
  "\<exists>frame. zoneBuilderItemInventoryList al_ops Some exInventory exStore [] = Inr ([] @ [frame])
      \<and> serverPacket_ok ZC_ITEM_INVENTORY_LIST ''ZC_ITEM_INVENTORY_LIST'' frame"
proof -
  have "length (concat (map (bagHandleEnc exInventory exStore) (concat (inv_bags exInventory)))) < 65000"
    by (simp add: exInventory_lists bagHandleEnc_def bagEntryEnc_def exWeapon_def exampleWeapon_def
        itemClientEnc_def itemWeaponEnc_def
        propertyFloatGetSPacketSize_def Let_def)
  then show ?thesis
    using zoneBuilderItemInventoryList_correct [OF al.zhash_axioms exInventory_wf, of Some _ "[]"] by fastforce
qed


end
