(* ===== verification/BarrackBuilder.thy ===== *)
theory BarrackBuilder
  imports PacketBuild
begin

text \<open>
  \<open>src/barrack_server/barrack_handler/barrack_builder.c\<close>: the packets of the barrack server. The list of
  the commanders of an account is filled in through a stream whose position is moved past the entry
  of an equipped item only, while the size of the packet counts an entry for every slot.
\<close>

section \<open>Packet types\<close>

abbreviation (input) BC_BARRACKNAME_CHANGE :: u16 where "BC_BARRACKNAME_CHANGE \<equiv> 25"
abbreviation (input) BC_COMMANDER_CREATE :: u16 where "BC_COMMANDER_CREATE \<equiv> 18"
abbreviation (input) BC_COMMANDER_DESTROY :: u16 where "BC_COMMANDER_DESTROY \<equiv> 19"
abbreviation (input) BC_COMMANDER_LIST :: u16 where "BC_COMMANDER_LIST \<equiv> 17"
abbreviation (input) BC_LOGINOK :: u16 where "BC_LOGINOK \<equiv> 14"
abbreviation (input) BC_LOGOUTOK :: u16 where "BC_LOGOUTOK \<equiv> 16"
abbreviation (input) BC_MESSAGE :: u16 where "BC_MESSAGE \<equiv> 22"
abbreviation (input) BC_NORMAL :: u16 where "BC_NORMAL \<equiv> 79"
abbreviation (input) BC_SERVER_ENTRY :: u16 where "BC_SERVER_ENTRY \<equiv> 87"
abbreviation (input) BC_START_GAMEOK :: u16 where "BC_START_GAMEOK \<equiv> 20"
abbreviation (input) BC_NORMAL_COMMANDER_MOVE_OK :: u32 where "BC_NORMAL_COMMANDER_MOVE_OK \<equiv> 2"
abbreviation (input) BC_NORMAL_UNKNOWN_1 :: u32 where "BC_NORMAL_UNKNOWN_1 \<equiv> 4"
abbreviation (input) BC_NORMAL_PET_INFORMATION :: u32 where "BC_NORMAL_PET_INFORMATION \<equiv> 8"
abbreviation (input) BC_NORMAL_ZONE_TRAFFIC :: u32 where "BC_NORMAL_ZONE_TRAFFIC \<equiv> 11"

section \<open>Small packets\<close>

definition barrackBuilderLoginOk :: "u64 \<Rightarrow> bytes \<Rightarrow> bytes \<Rightarrow> u32 \<Rightarrow> bytes list \<Rightarrow> bytes list" where
  "barrackBuilderLoginOk accountId accountName sessionKey accountPrivileges replyMsg = zmsg_add replyMsg
    (serverPacketHeaderInit BC_LOGINOK @ enc16 0x3E9 @ enc64 accountId @ c_strncpy 33
     accountName @ enc32 accountPrivileges @ c_strncpy 64 sessionKey @ replicate 4 0)"

definition barrackBuilderStartGameOk :: "u32 \<Rightarrow> u32 \<Rightarrow> u32 \<Rightarrow> u16 \<Rightarrow> byte \<Rightarrow> u64 \<Rightarrow> byte \<Rightarrow> bytes list \<Rightarrow> bytes list" where
  "barrackBuilderStartGameOk zoneServerId zoneServerIp zoneServerPort mapId commanderListId socialInfoId isSingleMap replyMsg = zmsg_add replyMsg
    (serverPacketHeaderInit BC_START_GAMEOK @ enc32 zoneServerId @ enc32 zoneServerIp @
     enc32 zoneServerPort @ enc32 (ucast mapId) @ [commanderListId] @ enc64 socialInfoId @
     [isSingleMap] @ [1])"

definition barrackBuilderCommanderMoveOk :: "u64 \<Rightarrow> u16 \<Rightarrow> PositionXYZ \<Rightarrow> bytes list \<Rightarrow> bytes list" where
  "barrackBuilderCommanderMoveOk accountId commanderListId position replyMsg = zmsg_add replyMsg
    (packetNormalHeaderInit BC_NORMAL BC_NORMAL_COMMANDER_MOVE_OK 33 @ enc64 accountId @ [3]
     @ encXYZ position)"

definition barrackBuilderNormalUnk1 :: "u64 \<Rightarrow> bytes list \<Rightarrow> bytes list" where
  "barrackBuilderNormalUnk1 accountId replyMsg = zmsg_add replyMsg
    (packetNormalHeaderInit BC_NORMAL BC_NORMAL_UNKNOWN_1 29 @ enc64 accountId @ [0] @ enc64
     0)"

definition barrackBuilderServerEntry :: "u32 \<Rightarrow> u32 \<Rightarrow> u16 \<Rightarrow> u16 \<Rightarrow> bytes list \<Rightarrow> bytes list" where
  "barrackBuilderServerEntry ipClientNet ipVirtualClientNet channelPort1 channelPort2 replyMsg = zmsg_add replyMsg
    (serverPacketHeaderInit BC_SERVER_ENTRY @ enc32 ipClientNet @ enc32 ipVirtualClientNet @
     enc16 channelPort1 @ enc16 channelPort2)"

definition barrackBuilderPetInformation :: "bytes list \<Rightarrow> bytes list" where
  "barrackBuilderPetInformation replyMsg = zmsg_add replyMsg
    (packetNormalHeaderInit BC_NORMAL BC_NORMAL_PET_INFORMATION 16 @ enc32 0)"

definition barrackBuilderCommanderDestroy :: "byte \<Rightarrow> bytes list \<Rightarrow> bytes list" where
  "barrackBuilderCommanderDestroy commanderDestroyMask replyMsg = zmsg_add replyMsg
    (serverPacketHeaderInit BC_COMMANDER_DESTROY @ [commanderDestroyMask])"

definition barrackBuilderLogoutOk :: "bytes list \<Rightarrow> bytes list" where
  "barrackBuilderLogoutOk replyMsg = zmsg_add replyMsg
    (serverPacketHeaderInit BC_LOGOUTOK)"

definition barrackBuilderMessage :: "byte \<Rightarrow> bytes \<Rightarrow> bytes list \<Rightarrow> bytes list" where
  "barrackBuilderMessage msgType message replyMsg =
    (let messageLength = length message in zmsg_add replyMsg
    (variableSizePacketHeaderInit BC_MESSAGE (of_nat (49 + (messageLength + 1))) @ [msgType] @ replicate 40 0 @
     c_strncpy (messageLength + 1) message))"

definition barrackBuilderBarrackNameChange :: "u32 \<Rightarrow> bytes \<Rightarrow> bytes list \<Rightarrow> bytes list" where
  "barrackBuilderBarrackNameChange status barrackName replyMsg = zmsg_add replyMsg
    (serverPacketHeaderInit BC_BARRACKNAME_CHANGE @ [if status = 0 then 1 else 0] @ enc32 status @
     c_strncpy 64 barrackName)"

definition barrackBuilderCommanderCreate :: "('h, 'k) Commander \<Rightarrow> byte \<Rightarrow> bytes list \<Rightarrow> bytes list result" where
  "barrackBuilderCommanderCreate commander commandersCount replyMsg =
    rbind (commanderAppearance commander) (\<lambda>appearance. Inr (zmsg_add replyMsg
    (serverPacketHeaderInit BC_COMMANDER_CREATE @ appearance @ enc64 (co_socialInfoId commander) @
     enc16 (ucast commandersCount) @ enc16 (co_mapId commander) @ enc32 (SWAP_UINT32 0x02000000) @ enc32 0 @
     enc32 0xC @ enc32 (SWAP_UINT32 0xC01C761C) @ encXYZ (co_pos commander) @ encXZ (co_dir commander) @
     encXYZ (co_pos commander) @ encXZ \<lparr> xz_x = 0xBF3504F7, xz_z = 0x3F3504F7 \<rparr> @ enc32 0)))"

text \<open>One map with one zone server and ten players, compressed.\<close>

definition barrackBuilderZoneTraffics :: "(bytes \<Rightarrow> bytes option) \<Rightarrow> u16 \<Rightarrow> bytes list \<Rightarrow> bytes list result" where
  "barrackBuilderZoneTraffics deflate mapId replyMsg =
    (let zoneMaxPcCount = 100 :: u32; mapAvailableCount = 1 :: u32; zoneServerCount = 1 :: u32;
         currentPlayersCount = 10 :: u32; zoneServerIndex = 0 :: u32;
         outPacketSize = 4 + 4 * 1 + 4 * 1;
         stream = packetStreamInit (replicate outPacketSize 0) outPacketSize;
         stream = packetStreamAppend stream (take 2 (enc32 zoneMaxPcCount));
         stream = packetStreamAppend stream (take 2 (enc32 mapAvailableCount));
         stream = packetStreamAppend stream (enc16 mapId);
         stream = packetStreamAppend stream (take 2 (enc32 zoneServerCount));
         stream = packetStreamAppend stream (take 2 (enc32 zoneServerIndex));
         stream = packetStreamAppend stream (take 2 (enc32 currentPlayersCount)) in
     case zlibCompress deflate (ps_buffer stream) of
       None \<Rightarrow> Inl Uninitialised
     | Some zlibData \<Rightarrow>
         let outPacketSize = zlibPacketSize zlibData 12 in
         Inr (zmsg_add replyMsg (take outPacketSize
           (packetNormalHeaderInit BC_NORMAL BC_NORMAL_ZONE_TRAFFIC (of_nat outPacketSize) @ zlibBytes zlibData))))"

section \<open>The list of the commanders\<close>

text \<open>The first loop: \<open>sizeof(PropertyCPacket)\<close> is two bytes more than the properties.\<close>

fun propertiesSizeLoop :: "Store \<Rightarrow> addr option list \<Rightarrow> nat result" where
  "propertiesSizeLoop st [] = Inr 0"
| "propertiesSizeLoop st (e # es) =
     rbind (case e of None \<Rightarrow> Inr 0 | Some a \<Rightarrow> rbind (derefItem st a) (\<lambda>x. Inr (itemGetCPacketSize x))) (\<lambda>propSize.
     rbind (propertiesSizeLoop st es) (\<lambda>n. Inr (2 + propSize + n)))"

fun barrackInfoSizeLoop :: "Store \<Rightarrow> ('h, 'k) Commander list \<Rightarrow> nat result" where
  "barrackInfoSizeLoop st [] = Inr 0"
| "barrackInfoSizeLoop st (c # cs) =
     rbind (propertiesSizeLoop st (inv_equippedItems (co_inventory c))) (\<lambda>propertiesSize.
     rbind (barrackInfoSizeLoop st cs) (\<lambda>n. Inr (316 + propertiesSize + n)))"

text \<open>The fields of a commander before its properties.\<close>

definition commanderBarrackInfo :: "('h, 'k) Commander \<Rightarrow> nat \<Rightarrow> bytes result" where
  "commanderBarrackInfo curCommander commanderIndex =
    rbind (commanderAppearance curCommander) (\<lambda>appearance. Inr
    (appearance @ enc64 (co_socialInfoId curCommander) @ enc16 (of_nat (commanderIndex + 1)) @
     enc16 (co_mapId curCommander) @ enc32 (SWAP_UINT32 0x02000000) @ enc32 0 @ enc32 (co_maxXP curCommander) @
     enc32 (SWAP_UINT32 0xC01C761C) @ encXYZ (co_barrackPos curCommander) @ encXZ (co_dir curCommander) @
     encXYZ (co_barrackPos curCommander) @ encXZ (co_dir curCommander) @ enc32 0))"

fun propertiesFill :: "Store \<Rightarrow> addr option list \<Rightarrow> PacketStream \<Rightarrow> PacketStream result" where
  "propertiesFill st [] stream = Inr stream"
| "propertiesFill st (None # es) stream = propertiesFill st es stream"
| "propertiesFill st (Some a # es) stream =
     rbind (derefItem st a) (\<lambda>item.
     let stream = packetStreamPoke stream 0 (enc16 (of_nat (itemGetCPacketSize item)));
         stream = packetStreamAddOffset stream 2;
         stream = itemSerializeCPacket item stream in
     propertiesFill st es stream)"

fun commandersFill :: "Store \<Rightarrow> nat \<Rightarrow> ('h, 'k) Commander list \<Rightarrow> PacketStream \<Rightarrow> PacketStream result" where
  "commandersFill st commanderIndex [] stream = Inr stream"
| "commandersFill st commanderIndex (curCommander # commanders) stream =
     rbind (propertiesSizeLoop st (inv_equippedItems (co_inventory curCommander))) (\<lambda>propertiesSize.
     rbind (commanderBarrackInfo curCommander commanderIndex) (\<lambda>barrackInfo.
     let stream = packetStreamPoke stream 0 barrackInfo;
         stream = packetStreamPoke stream (312 + propertiesSize)
           (enc16 (SWAP_UINT16 0x0100) @ enc16 (co_jobId curCommander));
         stream = packetStreamAddOffset stream 312 in
     rbind (propertiesFill st (inv_equippedItems (co_inventory curCommander)) stream) (\<lambda>stream.
     let stream = packetStreamAddOffset stream 2;
         stream = packetStreamAddOffset stream 2 in
     commandersFill st (commanderIndex + 1) commanders stream)))"

definition barrackBuilderCommanderList ::
    "Store \<Rightarrow> u64 \<Rightarrow> bytes \<Rightarrow> u32 \<Rightarrow> ('h, 'k) Commander list \<Rightarrow> bytes list \<Rightarrow> bytes list result" where
  "barrackBuilderCommanderList st accountId familyName credits commanders replyMsg =
    rbind (barrackInfoSizeLoop st commanders) (\<lambda>commanderBarrackInfoPacketSize.
    let size = 104 + commanderBarrackInfoPacketSize;
        stream = packetStreamInit (replicate size 0) size;
        stream = packetStreamPoke stream 0
          (variableSizePacketHeaderInit BC_COMMANDER_LIST (of_nat size) @ enc64 accountId @ [0] @
           [of_nat (length commanders)] @ c_strncpy 64 familyName @ enc16 0x12 @
           enc16 (SWAP_UINT16 0x9C18) @ enc32 credits @ enc16 (SWAP_UINT16 0x9E18) @ enc32 0 @
           enc16 (SWAP_UINT16 0xA018) @ enc32 0);
        stream = (if commanderBarrackInfoPacketSize > 0 then packetStreamAddOffset stream 102 else stream) in
    rbind (commandersFill st 0 commanders stream) (\<lambda>stream.
    Inr (zmsg_add replyMsg (ps_buffer stream))))"

section \<open>Sizes\<close>

lemmas barrack_builders =
  barrackBuilderLoginOk_def barrackBuilderStartGameOk_def barrackBuilderCommanderMoveOk_def
  barrackBuilderNormalUnk1_def barrackBuilderServerEntry_def barrackBuilderPetInformation_def
  barrackBuilderCommanderDestroy_def barrackBuilderLogoutOk_def barrackBuilderBarrackNameChange_def

text \<open>Each of these builders adds one frame, of the type it names and of the size that the table of
  packet types or the frame itself announces.\<close>

theorem barrackBuilder_sizes:
  "sends replyMsg (barrackBuilderLoginOk q1 s1 s2 w1 replyMsg) BC_LOGINOK ''BC_LOGINOK''
   \<and> sends replyMsg (barrackBuilderStartGameOk w1 w2 w3 h1 b1 q1 b2 replyMsg) BC_START_GAMEOK ''BC_START_GAMEOK''
   \<and> sends replyMsg (barrackBuilderCommanderMoveOk q1 h1 p1 replyMsg) BC_NORMAL ''BC_NORMAL''
   \<and> sends replyMsg (barrackBuilderNormalUnk1 q1 replyMsg) BC_NORMAL ''BC_NORMAL''
   \<and> sends replyMsg (barrackBuilderServerEntry w1 w2 h1 h2 replyMsg) BC_SERVER_ENTRY ''BC_SERVER_ENTRY''
   \<and> sends replyMsg (barrackBuilderPetInformation replyMsg) BC_NORMAL ''BC_NORMAL''
   \<and> sends replyMsg (barrackBuilderCommanderDestroy b1 replyMsg) BC_COMMANDER_DESTROY ''BC_COMMANDER_DESTROY''
   \<and> sends replyMsg (barrackBuilderLogoutOk replyMsg) BC_LOGOUTOK ''BC_LOGOUTOK''
   \<and> sends replyMsg (barrackBuilderBarrackNameChange w1 s1 replyMsg) BC_BARRACKNAME_CHANGE ''BC_BARRACKNAME_CHANGE''"
  by (simp_all only: barrack_builders sends_add)
    (simp_all add: serverPacket_ok_def packetTypeInit_entries)


lemma ps_appends_append:
  assumes "ps_appends s bs t" "length (bs @ cs) \<le> ps_room s"
  shows "ps_appends s (bs @ cs) (packetStreamAppend t cs)"
  by (rule ps_appends_comp [OF assms packetStreamAppend_appends])


text \<open>The packet of a new commander carries the fields of the commander with the position the handler
  gave, but it has 318 bytes where the table of packet types announces 326; a commander whose name buffer
  is too short is read beyond its end.\<close>

theorem barrackBuilderCommanderCreate_size:
  "(length (co_familyName c) < 64 \<or> length (co_commanderName c) < 65) \<and>
      barrackBuilderCommanderCreate c n replyMsg = Inl OutOfBounds
   \<or> (\<exists>frame. barrackBuilderCommanderCreate c n replyMsg = Inr (replyMsg @ [frame])
        \<and> length frame = 318 \<and> pte_size (packetTypeInit ! unat BC_COMMANDER_CREATE) = 326
        \<and> dec16 frame = BC_COMMANDER_CREATE
        \<and> mem_read frame 6 65 = take 65 (co_commanderName c)
        \<and> mem_read frame 246 12 = enc64 (co_socialInfoId c) @ enc16 (ucast n) @ enc16 (co_mapId c))"
proof (cases "length (co_familyName c) < 64 \<or> length (co_commanderName c) < 65")
  case False
  then have "commanderAppearance c = Inr (take 65 (co_commanderName c) @ take 64 (co_familyName c)
        @ replicate 7 0 @ enc64 (co_accountId c) @ enc16 (co_classId c) @ enc16 0x2022 @ enc16 (co_jobId c) @ [co_gender c]
        @ [0] @ enc32 (co_level c) @ commanderEquipmentCPacketInit @ [co_hairId c] @ [0] @ enc16 (co_pose c))"
    by (simp add: commanderAppearance_def commanderAppearanceCPacketInit_def)
  then show ?thesis
    using False
    by (simp add: barrackBuilderCommanderCreate_def zmsg_add_def packetTypeInit_entries mem_read_def
        commanderEquipmentCPacketInit_def)
qed (auto simp: barrackBuilderCommanderCreate_def commanderAppearance_def commanderAppearanceCPacketInit_def)

text \<open>Whatever deflate makes of them, the twelve bytes of the zone traffic are the map with its one
  zone server and ten players, and the packet that carries them announces its own size.\<close>

theorem barrackBuilderZoneTraffics_correct:
  assumes "deflate (enc16 100 @ enc16 1 @ enc16 mapId @ enc16 1 @ enc16 0 @ enc16 10) = Some out" "length out < 65000"
  shows "\<exists>frame. barrackBuilderZoneTraffics deflate mapId replyMsg = Inr (replyMsg @ [frame])
    \<and> serverPacket_ok BC_NORMAL ''BC_NORMAL'' frame
    \<and> drop 12 frame = enc16 ZLIB_MAGIC_HEADER @ enc16 (of_nat (length out)) @ out"
proof -
  let ?bs = "enc16 100 @ enc16 1 @ enc16 mapId @ enc16 1 @ enc16 0 @ enc16 10"
  have take2: "take 2 (enc32 100) = enc16 100" "take 2 (enc32 1) = enc16 1" "take 2 (enc32 0) = enc16 0"
    "take 2 (enc32 10) = enc16 10"
    by code_simp+
  let ?init = "packetStreamInit (replicate 12 0) 12"
  let ?final = "packetStreamAppend (packetStreamAppend (packetStreamAppend (packetStreamAppend (packetStreamAppend
      (packetStreamAppend ?init (enc16 100)) (enc16 1)) (enc16 mapId)) (enc16 1)) (enc16 0)) (enc16 10)"
  have "ps_appends ?init (((((enc16 100 @ enc16 1) @ enc16 mapId) @ enc16 1) @ enc16 0) @ enc16 10) ?final"
    by (rule ps_appends_append [OF ps_appends_append [OF ps_appends_append [OF ps_appends_append [OF ps_appends_append
          [OF packetStreamAppend_appends]]]]]) (simp_all add: ps_wf_init)
  then have "ps_appends ?init ?bs ?final" by simp
  then have buf: "ps_buffer ?final = ?bs"
    by (rule ps_appends_exact) simp_all
  have len: "unat (of_nat (length out) :: u16) = length out"
    using assms(2) by (simp add: unsigned_of_nat take_bit_nat_eq_self)
  have size: "unat (ucast (of_nat (length out + 16) :: u32) :: u16) = length out + 16"
    using assms(2) by (simp only: unsigned_ucast_eq unsigned_of_nat) (simp add: take_bit_nat_eq_self)
  let ?frame = "packetNormalHeaderInit BC_NORMAL BC_NORMAL_ZONE_TRAFFIC (of_nat (length out + 16)) @
      enc16 ZLIB_MAGIC_HEADER @ enc16 (of_nat (length out)) @ out"
  have "barrackBuilderZoneTraffics deflate mapId replyMsg = Inr (replyMsg @ [?frame])"
    using buf assms len unfolding barrackBuilderZoneTraffics_def Let_def take2
    by (simp add: zlibCompress_def zlibPacketSize_def zlibBytes_def zmsg_add_def add.commute)
  moreover have "serverPacket_ok BC_NORMAL ''BC_NORMAL'' ?frame"
    using size by (simp add: serverPacket_ok_def packetTypeInit_entries)
  ultimately show ?thesis
    by (intro exI [of _ ?frame]) simp
qed

theorem barrackBuilderZoneTraffics_correct_witness:
  "\<exists>frame. barrackBuilderZoneTraffics Some 1021 [] = Inr ([] @ [frame])
    \<and> serverPacket_ok BC_NORMAL ''BC_NORMAL'' frame
    \<and> drop 12 frame = enc16 ZLIB_MAGIC_HEADER @ enc16 12
        @ (enc16 100 @ enc16 1 @ enc16 1021 @ enc16 1 @ enc16 0 @ enc16 10)"
  using barrackBuilderZoneTraffics_correct [of Some 1021 _ "[]", OF refl] by simp

section \<open>The layout of the list of commanders\<close>

text \<open>Writing ahead of the position of a stream.\<close>

lemma mem_read_write_other:
  "k + n \<le> j \<Longrightarrow> j \<le> length m \<Longrightarrow> mem_read (mem_write m j bs) k n = mem_read m k n"
  by (simp add: mem_read_def take_drop add.commute)

lemma packetStreamPoke_ahead:
  assumes "ps_wf s" "k + length bs \<le> ps_room s"
  shows "ps_wf (packetStreamPoke s k bs)" "ps_room (packetStreamPoke s k bs) = ps_room s"
    "ps_written (packetStreamPoke s k bs) = ps_written s"
    "ps_ahead (packetStreamPoke s k bs) = mem_write (ps_ahead s) k bs"
    "length (ps_buffer (packetStreamPoke s k bs)) = length (ps_buffer s)"
proof -
  have room: "ps_position s + (k + length bs) \<le> length (ps_buffer s)"
    using assms by (auto simp: ps_wf_def ps_room_def)
  show "ps_wf (packetStreamPoke s k bs)" "ps_room (packetStreamPoke s k bs) = ps_room s"
    "ps_written (packetStreamPoke s k bs) = ps_written s"
    "length (ps_buffer (packetStreamPoke s k bs)) = length (ps_buffer s)"
    using assms room by (simp_all add: ps_wf_def ps_room_def ps_written_def packetStreamPoke_def)
  show "ps_ahead (packetStreamPoke s k bs) = mem_write (ps_ahead s) k bs"
    using room by (simp add: packetStreamPoke_def packetStreamGetCurrentBuffer_def mem_write_def drop_take ac_simps)
qed

lemma packetStreamAddOffset_appends:
  assumes "ps_wf s" "take n (ps_ahead s) = bs" "n \<le> ps_room s"
  shows "ps_appends s bs (packetStreamAddOffset s n)"
proof -
  have "ps_position s + n \<le> length (ps_buffer s)" "ps_position s + n \<le> ps_size s" "ps_position s + n < 2 ^ 32"
    using assms by (auto simp: ps_wf_def ps_room_def)
  moreover have "take (ps_position s + n) (ps_buffer s) = ps_written s @ bs"
    using assms(2) by (simp add: take_add ps_written_def packetStreamGetCurrentBuffer_def)
  moreover have "length bs = n"
    using assms(2) calculation by (auto simp: packetStreamGetCurrentBuffer_def)
  ultimately show ?thesis
    using assms(1) by (simp add: packetStreamAddOffset_def ps_appends_def ps_wf_def ps_written_def
        packetStreamGetCurrentBuffer_def add.commute)
qed

text \<open>The entry of a commander, all of whose slots hold an item.\<close>

definition propEnc :: "Store \<Rightarrow> addr option \<Rightarrow> bytes" where
  "propEnc st e = (let bs = itemClientEnc (the (st_items st (the e))) in enc16 (of_nat (length bs)) @ bs)"

abbreviation propsEnc :: "Store \<Rightarrow> addr option list \<Rightarrow> bytes" where
  "propsEnc st es \<equiv> concat (map (propEnc st) es)"

definition commanderEntryEnc :: "Store \<Rightarrow> nat \<Rightarrow> ('h, 'k) Commander \<Rightarrow> bytes" where
  "commanderEntryEnc st i c =
     projr (commanderBarrackInfo c i) @ propsEnc st (inv_equippedItems (co_inventory c))
     @ enc16 (SWAP_UINT16 0x0100) @ enc16 (co_jobId c)"

definition slots_filled :: "Store \<Rightarrow> addr option list \<Rightarrow> bool" where
  "slots_filled st es \<longleftrightarrow> (\<forall>e \<in> set es. \<exists>a. e = Some a \<and> st_items st a \<noteq> None)"

definition names_ok :: "('h, 'k) Commander \<Rightarrow> bool" where
  "names_ok c \<longleftrightarrow> 64 \<le> length (co_familyName c) \<and> 65 \<le> length (co_commanderName c)"

lemma commanderBarrackInfo_ok:
  "names_ok c \<Longrightarrow> \<exists>info. commanderBarrackInfo c i = Inr info \<and> length info = 312 \<and> take 65 info = take 65 (co_commanderName c)"
  by (simp add: commanderBarrackInfo_def commanderAppearance_def commanderAppearanceCPacketInit_def names_ok_def
      commanderEquipmentCPacketInit_def)

lemma propertiesSizeLoop_filled:
  "slots_filled st es \<Longrightarrow> propertiesSizeLoop st es = Inr (length (propsEnc st es))"
  by (induction es) (auto simp: slots_filled_def derefItem_def itemClientEnc_size propEnc_def Let_def)

lemma propertiesFill_filled:
  assumes "slots_filled st es" "ps_wf s" "length (propsEnc st es) \<le> ps_room s"
  shows "\<exists>s'. propertiesFill st es s = Inr s' \<and> ps_appends s (propsEnc st es) s'"
  using assms
proof (induction es arbitrary: s)
  case (Cons e es)
  then have "\<exists>a x. e = Some a \<and> st_items st a = Some x"
    by (auto simp: slots_filled_def)
  then obtain a x where x: "e = Some a" "st_items st a = Some x" by blast
  let ?hd = "enc16 (of_nat (length (itemClientEnc x)))"
  let ?t = "packetStreamAddOffset (packetStreamPoke s 0 ?hd) 2"
  let ?u = "itemSerializeCPacket x ?t"
  have enc: "propEnc st e = ?hd @ itemClientEnc x"
    using x by (simp add: propEnc_def Let_def)
  have room: "length (?hd @ itemClientEnc x @ propsEnc st es) \<le> ps_room s"
    using Cons.prems(3) enc by simp
  have t: "ps_appends s ?hd ?t"
    using Cons.prems(2) room by (intro packetStreamPoke_appends) simp_all
  have "ps_appends ?t (itemClientEnc x) ?u"
    using t room by (intro itemClientEnc_appends) (auto simp: ps_appends_room)
  then have u: "ps_appends s (?hd @ itemClientEnc x) ?u"
    by (rule ps_appends_trans [OF t])
  have "slots_filled st es" "ps_wf ?u" "length (propsEnc st es) \<le> ps_room ?u"
    using Cons.prems(1) u ps_appends_room [OF u] room by (auto simp: slots_filled_def)
  then obtain s' where s': "propertiesFill st es ?u = Inr s'" "ps_appends ?u (propsEnc st es) s'"
    using Cons.IH [of ?u] by blast
  have "propertiesFill st (e # es) s = propertiesFill st es ?u"
    using x by (simp add: derefItem_def itemClientEnc_size Let_def)
  then show ?case
    using s' ps_appends_trans [OF u s'(2)] enc by simp
qed simp

text \<open>The fields behind the properties are written first, the position passes them last.\<close>

lemma commandersFill_step:
  assumes c: "names_ok c" "slots_filled st (inv_equippedItems (co_inventory c))"
    and s: "ps_wf s" "length (commanderEntryEnc st i c) \<le> ps_room s"
  shows "\<exists>t. commandersFill st i (c # cs) s = commandersFill st (i + 1) cs t \<and> ps_appends s (commanderEntryEnc st i c) t"
proof -
  obtain info where info: "commanderBarrackInfo c i = Inr info" "length info = 312"
    using commanderBarrackInfo_ok [OF c(1)] by blast
  let ?props = "propsEnc st (inv_equippedItems (co_inventory c))"
  let ?last = "enc16 (SWAP_UINT16 0x0100) @ enc16 (co_jobId c)"
  let ?n = "312 + length ?props"
  have enc: "commanderEntryEnc st i c = info @ ?props @ ?last"
    using info by (simp add: commanderEntryEnc_def)
  have room: "?n + 4 \<le> ps_room s"
    using s(2) info(2) by (simp add: enc)
  then have room': "?n + 4 \<le> length (ps_ahead s)"
    using s(1) by (auto simp: ps_room_def ps_wf_def packetStreamGetCurrentBuffer_def)
  let ?p = "packetStreamPoke s 0 info"
  have p: "ps_wf ?p" "ps_room ?p = ps_room s" "ps_written ?p = ps_written s" "ps_ahead ?p = mem_write (ps_ahead s) 0 info"
    using packetStreamPoke_ahead [OF s(1), of 0 info] room info(2) by simp_all
  let ?q = "packetStreamPoke ?p ?n ?last"
  have q: "ps_wf ?q" "ps_room ?q = ps_room s" "ps_written ?q = ps_written s"
    "ps_ahead ?q = info @ mem_write (drop 312 (ps_ahead s)) (length ?props) ?last"
    using packetStreamPoke_ahead [OF p(1), of ?n ?last] p room info(2) by (simp_all add: mem_write_def drop_take)
  have off: "ps_appends ?q info (packetStreamAddOffset ?q 312)"
    using q room info(2) by (intro packetStreamAddOffset_appends) simp_all
  then have ahead: "ps_ahead (packetStreamAddOffset ?q 312) = mem_write (drop 312 (ps_ahead s)) (length ?props) ?last"
    using q(4) info(2) by (simp add: ps_appends_def)
  have wf: "ps_wf (packetStreamAddOffset ?q 312)" "ps_room (packetStreamAddOffset ?q 312) = ps_room s - 312"
    using off q(2) info(2) by (auto simp: ps_appends_room)
  have "length ?props \<le> ps_room (packetStreamAddOffset ?q 312)"
    unfolding wf(2) using room by linarith
  then obtain r where r: "propertiesFill st (inv_equippedItems (co_inventory c)) (packetStreamAddOffset ?q 312) = Inr r"
    "ps_appends (packetStreamAddOffset ?q 312) ?props r"
    using propertiesFill_filled [OF c(2) wf(1)] by blast
  let ?fin = "packetStreamAddOffset (packetStreamAddOffset r 2) 2"
  have "ps_ahead r = ?last @ drop (?n + 4) (ps_ahead s)"
    using r(2) ahead room' by (simp add: ps_appends_def mem_write_def add.commute)
  then have e1: "ps_appends r (enc16 (SWAP_UINT16 0x0100)) (packetStreamAddOffset r 2)"
    using ps_appends_wf [OF r(2)] ps_appends_room [OF r(2)] wf(2) room
    by (intro packetStreamAddOffset_appends) simp_all
  have e2: "ps_appends (packetStreamAddOffset r 2) (enc16 (co_jobId c)) ?fin"
    using e1 \<open>ps_ahead r = _\<close> ps_appends_room [OF r(2)] wf(2) room
    by (intro packetStreamAddOffset_appends) (auto simp: ps_appends_def ps_room_def)
  have "ps_appends ?q (info @ ?props @ enc16 (SWAP_UINT16 0x0100) @ enc16 (co_jobId c)) ?fin"
    by (rule ps_appends_trans [OF off ps_appends_trans [OF r(2) ps_appends_trans [OF e1 e2]]])
  moreover have "drop (length (info @ ?props @ ?last)) (ps_ahead ?q) = drop (length (info @ ?props @ ?last)) (ps_ahead s)"
    using q(4) info(2) room' by (simp add: mem_write_def)
  moreover have "length (ps_buffer ?q) = length (ps_buffer s)"
    using packetStreamPoke_ahead(5) [OF s(1), of 0 info] packetStreamPoke_ahead(5) [OF p(1), of ?n ?last] p(2) room info(2)
    by simp
  ultimately have "ps_appends s (commanderEntryEnc st i c) ?fin"
    unfolding enc using q(3) by (simp add: ps_appends_def packetStreamPoke_def)
  then show ?thesis
    using info r(1) propertiesSizeLoop_filled [OF c(2)] by (auto simp: Let_def)
qed

fun commandersEnc :: "Store \<Rightarrow> nat \<Rightarrow> ('h, 'k) Commander list \<Rightarrow> bytes" where
  "commandersEnc st i [] = []"
| "commandersEnc st i (c # cs) = commanderEntryEnc st i c @ commandersEnc st (i + 1) cs"

definition commander_filled :: "Store \<Rightarrow> ('h, 'k) Commander \<Rightarrow> bool" where
  "commander_filled st c \<longleftrightarrow> names_ok c \<and> slots_filled st (inv_equippedItems (co_inventory c))"

lemma length_commanderEntry:
  "names_ok c \<Longrightarrow> length (commanderEntryEnc st i c) = 316 + length (propsEnc st (inv_equippedItems (co_inventory c)))"
  using commanderBarrackInfo_ok [of c i] by (auto simp: commanderEntryEnc_def)

lemma barrackInfoSizeLoop_filled:
  "list_all (commander_filled st) cs \<Longrightarrow> barrackInfoSizeLoop st cs = Inr (length (commandersEnc st i cs))"
proof (induction cs arbitrary: i)
  case (Cons c cs)
  then have "barrackInfoSizeLoop st cs = Inr (length (commandersEnc st (Suc i) cs))" by simp
  then show ?case
    using Cons.prems by (simp add: commander_filled_def propertiesSizeLoop_filled length_commanderEntry)
qed simp

lemma commandersFill_filled:
  assumes "list_all (commander_filled st) cs" "ps_wf s" "length (commandersEnc st i cs) \<le> ps_room s"
  shows "\<exists>s'. commandersFill st i cs s = Inr s' \<and> ps_appends s (commandersEnc st i cs) s'"
  using assms
proof (induction cs arbitrary: i s)
  case (Cons c cs)
  then obtain t where t: "commandersFill st i (c # cs) s = commandersFill st (i + 1) cs t"
    "ps_appends s (commanderEntryEnc st i c) t"
    using commandersFill_step [of c st s i cs] by (auto simp: commander_filled_def)
  then have "\<exists>s'. commandersFill st (i + 1) cs t = Inr s' \<and> ps_appends t (commandersEnc st (i + 1) cs) s'"
    using Cons.prems by (intro Cons.IH) (auto simp: ps_appends_room)
  then show ?case
    using t ps_appends_trans [OF t(2)] by auto
qed simp

text \<open>The fields before the commanders.\<close>

definition commanderListHeader :: "nat \<Rightarrow> u64 \<Rightarrow> nat \<Rightarrow> bytes \<Rightarrow> u32 \<Rightarrow> bytes" where
  "commanderListHeader frameSize accountId n familyName credits =
     variableSizePacketHeaderInit BC_COMMANDER_LIST (of_nat frameSize) @ enc64 accountId @ [0] @ [of_nat n]
     @ c_strncpy 64 familyName @ enc16 0x12 @ enc16 (SWAP_UINT16 0x9C18) @ enc32 credits
     @ enc16 (SWAP_UINT16 0x9E18) @ enc32 0 @ enc16 (SWAP_UINT16 0xA018) @ enc32 0"

lemma length_commanderListHeader [simp]: "length (commanderListHeader frameSize a n f cr) = 102"
  by (simp add: commanderListHeader_def)

text \<open>When every slot of every commander holds an item, the list is the header and one entry after
  the other, and the frame has the announced size.\<close>

theorem barrackBuilderCommanderList_filled:
  assumes "list_all (commander_filled st) commanders" "length (commandersEnc st 0 commanders) < 65000"
  shows "\<exists>frame. barrackBuilderCommanderList st accountId familyName credits commanders replyMsg = Inr (replyMsg @ [frame])
    \<and> serverPacket_ok BC_COMMANDER_LIST ''BC_COMMANDER_LIST'' frame
    \<and> frame = commanderListHeader (length frame) accountId (length commanders) familyName credits
        @ commandersEnc st 0 commanders @ [0, 0]"
proof -
  let ?enc = "commandersEnc st 0 commanders"
  let ?n = "104 + length ?enc"
  let ?hd = "commanderListHeader ?n accountId (length commanders) familyName credits"
  let ?init = "packetStreamInit (replicate ?n 0) ?n"
  let ?off = "if length ?enc > 0 then packetStreamAddOffset (packetStreamPoke ?init 0 ?hd) 102 else packetStreamPoke ?init 0 ?hd"
  have wf: "ps_wf ?init"
    using assms(2) by (simp add: ps_wf_init)
  have two: "replicate 2 (0 :: byte) = [0, 0]"
    by (simp add: numeral_2_eq_2)
  have hd: "ps_appends ?init ?hd (packetStreamAddOffset (packetStreamPoke ?init 0 ?hd) 102)"
    using wf by (intro packetStreamPoke_appends) simp_all
  have "\<exists>s'. commandersFill st 0 commanders ?off = Inr s' \<and> ps_buffer s' = ?hd @ ?enc @ [0, 0]"
  proof (cases "commanders = []")
    case True
    then show ?thesis
      by (simp add: packetStreamPoke_def packetStreamInit_def mem_write_def two)
  next
    case False
    then have pos: "length ?enc > 0"
      using assms(1) by (cases commanders) (simp_all add: commander_filled_def length_commanderEntry)
    obtain s' where s': "commandersFill st 0 commanders ?off = Inr s'"
      "ps_appends (packetStreamAddOffset (packetStreamPoke ?init 0 ?hd) 102) ?enc s'"
      using commandersFill_filled [OF assms(1), of ?off 0] hd pos by (auto simp: ps_appends_room)
    have "ps_buffer s' = ?hd @ ?enc @ [0, 0]"
      using ps_appends_buffer [OF ps_appends_trans [OF hd s'(2)]]
      by (simp add: ps_written_def packetStreamInit_def packetStreamGetCurrentBuffer_def two)
    then show ?thesis
      using s'(1) by blast
  qed
  then obtain s' where s': "commandersFill st 0 commanders ?off = Inr s'" "ps_buffer s' = ?hd @ ?enc @ [0, 0]"
    by blast
  have size: "unat (ucast (of_nat ?n :: u32) :: u16) = ?n"
    using assms(2) by (simp only: unsigned_ucast_eq unsigned_of_nat) (simp add: take_bit_nat_eq_self)
  have "barrackBuilderCommanderList st accountId familyName credits commanders replyMsg = Inr (replyMsg @ [ps_buffer s'])"
    unfolding barrackBuilderCommanderList_def barrackInfoSizeLoop_filled [OF assms(1), of 0] rbind.simps Let_def
      commanderListHeader_def [symmetric] s'(1) zmsg_add_def ..
  moreover have "serverPacket_ok BC_COMMANDER_LIST ''BC_COMMANDER_LIST'' (ps_buffer s')"
    unfolding s'(2) commanderListHeader_def using size
    by (simp add: serverPacket_ok_def packetTypeInit_entries commanderListHeader_def)
  moreover have "length (ps_buffer s') = ?n"
    using s'(2) by simp
  ultimately show ?thesis
    using s'(2) by auto
qed

text \<open>Of two commanders that wear nothing the second is written 316 bytes behind the first although the
  packet holds 356 bytes for each, so that it overwrites the job of the first with bytes of its name.\<close>

theorem barrackBuilderCommanderList_empty_slots:
  assumes "names_ok c1" "inv_equippedItems (co_inventory c1) = replicate 20 None"
    and "names_ok c2" "inv_equippedItems (co_inventory c2) = replicate 20 None"
  shows "\<exists>frame. barrackBuilderCommanderList st accountId familyName credits [c1, c2] replyMsg = Inr (replyMsg @ [frame])
    \<and> length frame = 104 + 2 * 356
    \<and> commanderBarrackInfo c1 0 = Inr (mem_read frame 102 312)
    \<and> commanderBarrackInfo c2 1 = Inr (mem_read frame (102 + 316) 312)
    \<and> mem_read frame (102 + 354) 2 = mem_read (co_commanderName c2) 38 2"
proof -
  obtain i1 where i1: "commanderBarrackInfo c1 0 = Inr i1" "length i1 = 312"
    using commanderBarrackInfo_ok [OF assms(1)] by blast
  obtain i2 where i2: "commanderBarrackInfo c2 1 = Inr i2" "length i2 = 312" "take 65 i2 = take 65 (co_commanderName c2)"
    using commanderBarrackInfo_ok [OF assms(3)] by blast
  let ?hd = "commanderListHeader 816 accountId 2 familyName credits"
  let ?e1 = "enc16 (SWAP_UINT16 0x0100) @ enc16 (co_jobId c1)"
  let ?e2 = "enc16 (SWAP_UINT16 0x0100) @ enc16 (co_jobId c2)"
  let ?m1 = "mem_write (mem_write (mem_write (replicate 816 0) 0 ?hd) 102 i1) 454 ?e1"
  let ?frame = "mem_write (mem_write ?m1 418 i2) 770 ?e2"
  have size: "propertiesSizeLoop st (replicate 20 None) = Inr 40"
    by (simp add: numeral_eq_Suc)
  have fill: "propertiesFill st (replicate 20 None) s = Inr s" for s
    by (simp add: numeral_eq_Suc)
  have frame: "barrackBuilderCommanderList st accountId familyName credits [c1, c2] replyMsg = Inr (replyMsg @ [?frame])"
    using i1 i2 assms(2,4) size fill
    by (simp add: barrackBuilderCommanderList_def zmsg_add_def packetStreamPoke_def packetStreamAddOffset_def
        packetStreamInit_def commanderListHeader_def Let_def)
  have len: "length ?m1 = 816" "length (mem_write ?m1 418 i2) = 816" "length ?frame = 816"
    using i1(2) i2(2) by simp_all
  have "mem_read ?frame 418 312 = i2"
    using len i2(2) by (simp add: mem_read_write_other)
  moreover have "mem_read ?frame 102 312 = i1"
    using len i1(2) by (simp add: mem_read_write_other)
  moreover have "mem_read ?frame 456 2 = mem_read i2 38 2"
  proof -
    have "mem_read ?frame 456 2 = take 2 (drop 38 (mem_read ?frame 418 312))"
      by (simp add: mem_read_def drop_take)
    then show ?thesis
      using \<open>mem_read ?frame 418 312 = i2\<close> by (simp add: mem_read_def)
  qed
  moreover have "mem_read i2 38 2 = mem_read (co_commanderName c2) 38 2"
    using arg_cong [OF i2(3), of "\<lambda>xs. take 2 (drop 38 xs)"] by (simp add: mem_read_def drop_take)
  ultimately show ?thesis
    using frame len(3) i1(1) i2(1) by (intro exI [of _ ?frame]) simp
qed


definition exNoStore :: Store where
  "exNoStore = \<lparr> st_items = (\<lambda>_. None), st_handles = (\<lambda>_. None), st_next = 0 \<rparr>"

definition exBare :: "((string \<times> addr) list, (string \<times> addr) list) Commander" where
  "exBare = commanderInit al_ops al_ops"

theorem barrackBuilderCommanderList_empty_slots_witness:
  "\<exists>frame. barrackBuilderCommanderList exNoStore 1 [] 0 [exBare, exBare] []
       = Inr ([] @ [frame])
    \<and> length frame = 104 + 2 * 356
    \<and> commanderBarrackInfo exBare 0 = Inr (mem_read frame 102 312)
    \<and> commanderBarrackInfo exBare 1 = Inr (mem_read frame (102 + 316) 312)
    \<and> mem_read frame (102 + 354) 2 = mem_read (co_commanderName exBare) 38 2"
  by (rule barrackBuilderCommanderList_empty_slots)
    (simp_all add: names_ok_def exBare_def commanderInit_def inventoryInit_def)

definition exFilled :: "((string \<times> addr) list, (string \<times> addr) list) Commander" where
  "exFilled = exBare
     \<lparr> co_inventory := (inventoryInit al_ops) \<lparr> inv_equippedItems := replicate 20 (Some 7) \<rparr> \<rparr>"

definition exFilledStore :: Store where
  "exFilledStore = \<lparr> st_items = (\<lambda>_. None)(7 := Some exampleGem), st_handles = (\<lambda>_. None), st_next = 8 \<rparr>"

theorem barrackBuilderCommanderList_filled_witness:
  "\<exists>frame. barrackBuilderCommanderList exFilledStore 1 [] 0 [exFilled] [] = Inr ([] @ [frame])
    \<and> serverPacket_ok BC_COMMANDER_LIST ''BC_COMMANDER_LIST'' frame
    \<and> frame = commanderListHeader (length frame) 1 (length [exFilled]) [] 0 @ commandersEnc exFilledStore 0 [exFilled] @ [0, 0]"
proof (rule barrackBuilderCommanderList_filled)
  have ok: "names_ok exFilled" "slots_filled exFilledStore (inv_equippedItems (co_inventory exFilled))"
    by (auto simp: names_ok_def slots_filled_def exFilled_def exBare_def exFilledStore_def commanderInit_def)
  then show "list_all (commander_filled exFilledStore) [exFilled]"
    by (simp add: commander_filled_def)
  show "length (commandersEnc exFilledStore 0 [exFilled]) < 65000"
    using ok(1) by (simp add: length_commanderEntry exFilled_def exFilledStore_def propEnc_def Let_def length_concat
        sum_list_replicate exampleGem_def itemClientEnc_def itemGemEnc_def propertyFloatGetSPacketSize_def)
qed

end
