(* ===== verification/Zmsg.thy ===== *)
theory Zmsg
  imports Prelude
begin

text \<open>
  Messages of CZMQ as the list of their frames, with the operations the servers use as
  \<open>src/include/zmq/zmsg.h\<close> and \<open>zframe.h\<close> document them, and the header frames of the servers: a
  header is an enumeration constant, so that \<open>PACKET_HEADER\<close> writes four bytes and the receiver reads
  four bytes from the start of the frame.
\<close>

type_synonym frames = "bytes list"

text \<open>\<open>zmsg_wrap\<close> pushes the frame and an empty frame; \<open>zmsg_unwrap\<close> pops a frame, and an empty frame
  behind it.\<close>

definition zmsg_wrap :: "frames \<Rightarrow> bytes \<Rightarrow> frames" where
  "zmsg_wrap msg frame = frame # [] # msg"

fun zmsg_unwrap :: "frames \<Rightarrow> bytes option \<times> frames" where
  "zmsg_unwrap [] = (None, [])"
| "zmsg_unwrap [f] = (Some f, [])"
| "zmsg_unwrap (f # g # msg) = (Some f, if g = [] then msg else g # msg)"

fun zmsg_pop :: "frames \<Rightarrow> bytes option \<times> frames" where
  "zmsg_pop [] = (None, [])"
| "zmsg_pop (f # msg) = (Some f, msg)"

text \<open>\<open>*((type *) zframe_data(frame))\<close> for a type of \<open>n\<close> bytes.\<close>

definition frame_read :: "nat \<Rightarrow> bytes \<Rightarrow> bytes result" where
  "frame_read n frame = (if length frame < n then Inl OutOfBounds else Inr (take n frame))"

lemma frame_read_exact [simp]: "length frame = n \<Longrightarrow> frame_read n frame = Inr frame"
  by (simp add: frame_read_def)

lemma zmsg_unwrap_wrap [simp]: "zmsg_unwrap (zmsg_wrap msg f) = (Some f, msg)"
  by (simp add: zmsg_wrap_def)

section \<open>Searching an array\<close>

text \<open>A loop over an array that remembers the last index with a property.\<close>

fun lastIndex :: "('a \<Rightarrow> bool) \<Rightarrow> nat \<Rightarrow> 'a list \<Rightarrow> nat option \<Rightarrow> nat option" where
  "lastIndex P i [] found = found"
| "lastIndex P i (x # xs) found = lastIndex P (i + 1) xs (if P x then Some i else found)"

lemma lastIndex_None_iff: "lastIndex P i xs None = None \<longleftrightarrow> (\<forall>x \<in> set xs. \<not> P x)"
proof -
  have "lastIndex P i xs found = None \<longleftrightarrow> found = None \<and> (\<forall>x \<in> set xs. \<not> P x)" for found
    by (induction xs arbitrary: i found) auto
  then show ?thesis by simp
qed

lemma lastIndex_Some:
  "lastIndex P i xs None = Some k \<Longrightarrow> i \<le> k \<and> k < i + length xs \<and> P (xs ! (k - i))"
proof -
  have "lastIndex P i xs found = Some k \<Longrightarrow>
      found = Some k \<or> (i \<le> k \<and> k < i + length xs \<and> P (xs ! (k - i)))" for found
  proof (induction xs arbitrary: i found)
    case (Cons x xs)
    have "(if P x then Some i else found) = Some k
        \<or> (Suc i \<le> k \<and> k < Suc i + length xs \<and> P (xs ! (k - Suc i)))"
      using Cons.IH [of "Suc i" "if P x then Some i else found"] Cons.prems by simp
    then show ?case
      by (auto split: if_splits simp: nth_Cons' Suc_diff_le)
  qed simp
  then show "lastIndex P i xs None = Some k \<Longrightarrow> ?thesis" by auto
qed

text \<open>When at most one element has the property, it is the one that is found.\<close>

lemma lastIndex_unique:
  assumes "k < length xs" "P (xs ! k)" "\<And>j. j < length xs \<Longrightarrow> P (xs ! j) \<Longrightarrow> j = k"
  shows "lastIndex P 0 xs None = Some k"
proof (cases "lastIndex P 0 xs None")
  case None
  then show ?thesis
    using assms(1,2) by (auto simp: lastIndex_None_iff)
next
  case (Some j)
  then show ?thesis
    using lastIndex_Some [of P 0 xs j] assms(3) by simp
qed

end
