(* ===== verification/Router.thy ===== *)
theory Router
  imports Zmsg
begin

text \<open>
  \<open>src/common/server/router.c\<close>: the router between the clients and the workers. Its state is the array
  of the workers with the client each of them is serving, the list of the workers that are ready and the
  worker that takes the charge when none is ready. The three handlers of the reactor are functions on
  this state that give the messages they send. What the network decides is an argument: whether a send
  succeeds, whether the monitor and the frontend can be set up, and the file descriptor of a client.
\<close>

section \<open>State\<close>

record WorkerState =
  wk_frame :: "bytes option"
  wk_id :: u16
  wk_client :: "bytes option"

text \<open>\<open>ro_readyWorkers\<close> holds pointers into the array \<open>workers\<close>, here indices; \<open>ro_bound\<close> tells that the
  frontend is bound.\<close>

record Router =
  ro_workers :: "WorkerState list"
  ro_readyWorkers :: "nat list"
  ro_workersReadyCount :: nat
  ro_overloadWorker :: nat
  ro_workersCount :: nat
  ro_bound :: bool

record RouterEnv =
  re_frontend :: bool
  re_backend :: bool
  re_monitor :: bool
  re_init :: bool

datatype RouterOut = ToFrontend frames | ToBackend frames | ToMonitor frames

abbreviation (input) ROUTER_WORKER_READY :: u32 where "ROUTER_WORKER_READY \<equiv> 0"
abbreviation (input) ROUTER_WORKER_NORMAL :: u32 where "ROUTER_WORKER_NORMAL \<equiv> 1"
abbreviation (input) ROUTER_WORKER_MULTICAST :: u32 where "ROUTER_WORKER_MULTICAST \<equiv> 2"
abbreviation (input) ROUTER_WORKER_ERROR :: u32 where "ROUTER_WORKER_ERROR \<equiv> 3"
abbreviation (input) ROUTER_PING :: u32 where "ROUTER_PING \<equiv> 4"
abbreviation (input) ROUTER_PONG :: u32 where "ROUTER_PONG \<equiv> 5"
abbreviation (input) ROUTER_MONITOR_ADD_FD :: u32 where "ROUTER_MONITOR_ADD_FD \<equiv> 0"

definition routerInit :: "nat \<Rightarrow> Router" where
  "routerInit workersCount =
     \<lparr> ro_workers = replicate workersCount \<lparr> wk_frame = None, wk_id = 0, wk_client = None \<rparr>,
       ro_readyWorkers = [], ro_workersReadyCount = 0, ro_overloadWorker = 0,
       ro_workersCount = workersCount, ro_bound = False \<rparr>"

section \<open>Messages of the clients\<close>

definition routerInformMonitor :: "bytes \<Rightarrow> u64 \<Rightarrow> RouterOut" where
  "routerInformMonitor identityClient fdClient =
     ToMonitor [enc32 ROUTER_MONITOR_ADD_FD, enc64 fdClient, identityClient]"

text \<open>The assignment of the client to a worker; \<open>None\<close> when there is no worker at all.\<close>

definition routerAssign :: "bytes \<Rightarrow> Router \<Rightarrow> (bytes option \<times> Router) option result" where
  "routerAssign identityClient self =
    (case (case ro_readyWorkers self of
        workerState # readyWorkers \<Rightarrow>
          Inr (Some (ro_workers self ! workerState, unat (wk_id (ro_workers self ! workerState)),
            self \<lparr> ro_readyWorkers := readyWorkers \<rparr>))
      | [] \<Rightarrow>
          if ro_workersReadyCount self = 0 then Inr None
          else if ro_overloadWorker self < length (ro_workers self)
          then Inr (Some (ro_workers self ! ro_overloadWorker self, ro_overloadWorker self,
            self \<lparr> ro_overloadWorker := (ro_overloadWorker self + 1) mod ro_workersReadyCount self \<rparr>))
          else Inl OutOfBounds) of
       Inl e \<Rightarrow> Inl e
     | Inr None \<Rightarrow> Inr None
     | Inr (Some (worker, workerIdInCharge, self')) \<Rightarrow>
         if workerIdInCharge < length (ro_workers self)
         then Inr (Some (wk_frame worker,
           self' \<lparr> ro_workers := (ro_workers self)[workerIdInCharge :=
             (ro_workers self ! workerIdInCharge) \<lparr> wk_client := Some identityClient \<rparr>] \<rparr>))
         else Inl OutOfBounds)"

text \<open>The worker that serves the client already; the last one in the array if there are several.\<close>

definition routerWorkerOf :: "bytes \<Rightarrow> Router \<Rightarrow> bytes option" where
  "routerWorkerOf identityClient self =
    (case lastIndex (\<lambda>w. wk_client w = Some identityClient) 0 (ro_workers self) None of
       None \<Rightarrow> None
     | Some i \<Rightarrow> wk_frame (ro_workers self ! i))"

definition routerFrontend :: "RouterEnv \<Rightarrow> u64 \<Rightarrow> frames \<Rightarrow> Router \<Rightarrow> (int \<times> RouterOut list \<times> Router) result" where
  "routerFrontend env fdClient msg self =
    (case msg of
       identityClient # data # _ \<Rightarrow>
         if data = [] \<or> fdClient = -1 then Inr (0, [], self)
         else if \<not> re_monitor env then Inr (0, [], self)
         else
           let monitorMsg = routerInformMonitor identityClient fdClient in
           rbind (case routerWorkerOf identityClient self of
               Some frame \<Rightarrow> Inr (Some (Some frame, self))
             | None \<Rightarrow> routerAssign identityClient self) (\<lambda>chosen.
           case chosen of
             None \<Rightarrow> Inr (0, [monitorMsg], self)
           | Some (None, _) \<Rightarrow> Inl NullDeref
           | Some (Some workerStateDest, self) \<Rightarrow>
               if re_backend env then Inr (0, [monitorMsg, ToBackend (zmsg_wrap msg workerStateDest)], self)
               else Inr (-1, [monitorMsg], self))
     | _ \<Rightarrow> Inl NullDeref)"

section \<open>Messages of the workers\<close>

definition routerReady :: "RouterEnv \<Rightarrow> bytes \<Rightarrow> frames \<Rightarrow> Router \<Rightarrow> (bool \<times> Router) result" where
  "routerReady env workerStateFrame msg self =
    (case msg of
       [] \<Rightarrow> Inl NullDeref
     | workerIdFrame # _ \<Rightarrow>
         rbind (frame_read 2 workerIdFrame) (\<lambda>bs.
         let workerId = dec16 bs in
         if unat workerId < length (ro_workers self) then
           let self = self \<lparr> ro_workers := (ro_workers self)[unat workerId :=
                 (ro_workers self ! unat workerId) \<lparr> wk_frame := Some workerStateFrame, wk_id := workerId \<rparr>],
               ro_workersReadyCount := ro_workersReadyCount self + 1 \<rparr> in
           if ro_workersReadyCount self = ro_workersCount self
           then Inr (re_init env, if re_init env then self \<lparr> ro_bound := True \<rparr> else self)
           else Inr (True, self)
         else Inl OutOfBounds))"

text \<open>The replies of a worker: the identity of the client and one frame for each packet.\<close>

definition routerReplies :: "RouterEnv \<Rightarrow> frames \<Rightarrow> bool \<times> RouterOut list" where
  "routerReplies env msg =
    (if length msg = 2 then (if re_frontend env then (True, [ToFrontend msg]) else (False, []))
     else (case msg of
         [] \<Rightarrow> (True, [])
       | identity # packets \<Rightarrow> (True, map (\<lambda>frame. ToFrontend [identity, frame]) packets)))"

text \<open>The worker finished its job.\<close>

definition routerWorkerDone :: "bytes \<Rightarrow> Router \<Rightarrow> (int \<times> Router) result" where
  "routerWorkerDone workerStateFrame self =
    (case lastIndex (\<lambda>w. wk_frame w = Some workerStateFrame) 0 (ro_workers self) None of
       None \<Rightarrow> Inr (-1, self)
     | Some workerState \<Rightarrow>
         let i = unat (wk_id (ro_workers self ! workerState)) in
         if i < length (ro_workers self)
         then Inr (0, self \<lparr> ro_workers := (ro_workers self)[i := (ro_workers self ! i) \<lparr> wk_client := None \<rparr>],
           ro_readyWorkers := ro_readyWorkers self @ [workerState] \<rparr>)
         else Inl OutOfBounds)"

definition routerBackend :: "RouterEnv \<Rightarrow> frames \<Rightarrow> Router \<Rightarrow> (int \<times> RouterOut list \<times> Router) result" where
  "routerBackend env msg self =
    (case zmsg_unwrap msg of
       (None, _) \<Rightarrow> Inr (-1, [], self)
     | (Some workerStateFrame, msg) \<Rightarrow>
    (case zmsg_pop msg of
       (None, _) \<Rightarrow> Inr (-1, [], self)
     | (Some header, msg) \<Rightarrow>
    rbind (frame_read 4 header) (\<lambda>bs.
    let packetHeader = dec32 bs in
    if packetHeader = ROUTER_WORKER_ERROR then Inr (0, [], self)
    else
      rbind (if packetHeader = ROUTER_WORKER_READY
             then rbind (routerReady env workerStateFrame msg self) (\<lambda>(ok, self). Inr (ok, [], self))
             else if packetHeader = ROUTER_WORKER_NORMAL
             then (let (ok, out) = routerReplies env msg in Inr (ok, out, self))
             else Inr (True, [], self)) (\<lambda>(ok, out, self).
      if \<not> ok then Inr (-1, out, self)
      else rbind (routerWorkerDone workerStateFrame self) (\<lambda>(result, self). Inr (result, out, self))))))"

section \<open>Messages of the event server\<close>

definition routerSubscribe :: "frames \<Rightarrow> (int \<times> RouterOut list) result" where
  "routerSubscribe msg =
    (case zmsg_pop msg of
       (None, _) \<Rightarrow> Inr (-1, [])
     | (Some header, msg) \<Rightarrow>
         rbind (frame_read 4 header) (\<lambda>bs.
         if dec32 bs = ROUTER_WORKER_MULTICAST
         then (case msg of
             [] \<Rightarrow> Inr (0, [])
           | dataFrame # identities \<Rightarrow> Inr (0, map (\<lambda>identity. ToFrontend [identity, dataFrame]) identities))
         else Inr (0, [])))"

end
