(* ===== verification/RouterInv.thy ===== *)
theory RouterInv
  imports Router
begin

text \<open>
  The states the router can reach, whatever the clients send, and the invariant that holds in all of
  them. The environment is constrained in what \<open>worker.c\<close> and the sockets guarantee: a worker announces
  itself once, under its own number, and a message carries the identity of the worker that sent it.
\<close>

section \<open>Reachable states\<close>

definition isRegistered :: "Router \<Rightarrow> nat \<Rightarrow> bool" where
  "isRegistered s i \<longleftrightarrow> i < length (ro_workers s) \<and> wk_frame (ro_workers s ! i) \<noteq> None"

definition serves :: "Router \<Rightarrow> nat \<Rightarrow> bytes \<Rightarrow> bool" where
  "serves s i c \<longleftrightarrow> i < length (ro_workers s) \<and> wk_client (ro_workers s ! i) = Some c"

inductive router_step :: "Router \<Rightarrow> RouterOut list \<Rightarrow> Router \<Rightarrow> bool" where
  client: "ro_bound s \<Longrightarrow> routerFrontend env fd [c, d] s = Inr (0, out, s') \<Longrightarrow> router_step s out s'"
| register: "i < length (ro_workers s) \<Longrightarrow> wk_frame (ro_workers s ! i) = None \<Longrightarrow>
    \<forall>w \<in> set (ro_workers s). wk_frame w \<noteq> Some f \<Longrightarrow>
    routerBackend env [f, [], enc32 ROUTER_WORKER_READY, enc16 (of_nat i)] s = Inr (0, out, s') \<Longrightarrow>
    router_step s out s'"
| reply: "isRegistered s i \<Longrightarrow> wk_frame (ro_workers s ! i) = Some f \<Longrightarrow> header \<noteq> ROUTER_WORKER_READY \<Longrightarrow>
    routerBackend env ([f, [], enc32 header] @ msg) s = Inr (0, out, s') \<Longrightarrow> router_step s out s'"
| multicast: "routerSubscribe msg = Inr (0, out) \<Longrightarrow> router_step s out s"

inductive_cases router_stepE: "router_step s out s'"

inductive router_reach :: "nat \<Rightarrow> Router \<Rightarrow> bool" for n where
  init: "n < 65536 \<Longrightarrow> router_reach n (routerInit n)"
| step: "router_reach n s \<Longrightarrow> router_step s out s' \<Longrightarrow> router_reach n s'"

section \<open>The invariant\<close>

text \<open>No value occurs twice in a list of optional values.\<close>

definition distinct_opt :: "'a option list \<Rightarrow> bool" where
  "distinct_opt xs \<longleftrightarrow> (\<forall>i j. i < length xs \<longrightarrow> j < length xs \<longrightarrow> xs ! i \<noteq> None \<longrightarrow> xs ! i = xs ! j \<longrightarrow> i = j)"

lemma distinct_optD:
  "distinct_opt xs \<Longrightarrow> i < length xs \<Longrightarrow> j < length xs \<Longrightarrow> xs ! i = Some x \<Longrightarrow> xs ! j = Some x \<Longrightarrow> i = j"
  by (simp add: distinct_opt_def)

lemma distinct_opt_update:
  assumes "distinct_opt xs" "x = None \<or> x \<notin> set xs"
  shows "distinct_opt (xs[k := x])"
  unfolding distinct_opt_def
proof (intro allI impI)
  fix i j assume ij: "i < length (xs[k := x])" "j < length (xs[k := x])"
    "xs[k := x] ! i \<noteq> None" "xs[k := x] ! i = xs[k := x] ! j"
  then have mem: "xs ! i \<in> set xs" "xs ! j \<in> set xs" by (simp_all add: nth_mem)
  show "i = j"
  proof (cases "i = k \<or> j = k")
    case True
    then show ?thesis
      using ij mem assms(2) by (cases "i = k"; cases "j = k"; cases x) (auto simp: nth_list_update)
  next
    case False
    then show ?thesis
      using ij assms(1) by (auto simp: distinct_opt_def)
  qed
qed

text \<open>Registered workers have their own number, identities and clients are not shared, and only a
  registered worker serves a client.\<close>

definition workers_inv :: "WorkerState list \<Rightarrow> bool" where
  "workers_inv ws \<longleftrightarrow>
     (\<forall>i < length ws. wk_frame (ws ! i) \<noteq> None \<longrightarrow> wk_id (ws ! i) = of_nat i)
     \<and> distinct_opt (map wk_frame ws) \<and> distinct_opt (map wk_client ws)
     \<and> (\<forall>w \<in> set ws. wk_client w \<noteq> None \<longrightarrow> wk_frame w \<noteq> None)"

definition registeredSet :: "WorkerState list \<Rightarrow> nat set" where
  "registeredSet ws = {i. i < length ws \<and> wk_frame (ws ! i) \<noteq> None}"

definition router_inv :: "nat \<Rightarrow> Router \<Rightarrow> bool" where
  "router_inv n s \<longleftrightarrow> n < 65536 \<and> length (ro_workers s) = n \<and> ro_workersCount s = n \<and> workers_inv (ro_workers s)
     \<and> set (ro_readyWorkers s) \<subseteq> registeredSet (ro_workers s)
     \<and> ro_workersReadyCount s = card (registeredSet (ro_workers s))
     \<and> (0 < n \<longrightarrow> ro_overloadWorker s < n)
     \<and> (ro_bound s \<longrightarrow> 0 < n \<and> registeredSet (ro_workers s) = {..<n})"

lemma finite_registered [simp]: "finite (registeredSet ws)"
  by (simp add: registeredSet_def)

lemma registered_le: "card (registeredSet ws) \<le> length ws"
  using card_mono [of "{..<length ws}" "registeredSet ws"] by (auto simp: registeredSet_def)

lemma registered_full: "card (registeredSet ws) = length ws \<Longrightarrow> registeredSet ws = {..<length ws}"
  using card_subset_eq [of "{..<length ws}" "registeredSet ws"] by (auto simp: registeredSet_def)

lemma router_inv_init: "n < 65536 \<Longrightarrow> router_inv n (routerInit n)"
  by (simp add: router_inv_def routerInit_def workers_inv_def registeredSet_def distinct_opt_def)

text \<open>Changing the client of a worker.\<close>

lemma registeredSet_client [simp]:
  "registeredSet (ws[i := (ws ! i) \<lparr> wk_client := c \<rparr>]) = registeredSet ws"
  by (cases "i < length ws") (auto simp: registeredSet_def nth_list_update)

lemma workers_inv_client:
  assumes "workers_inv ws" "c = None \<or> c \<notin> set (map wk_client ws)"
    and "c = None \<or> wk_frame (ws ! i) \<noteq> None"
  shows "workers_inv (ws[i := (ws ! i) \<lparr> wk_client := c \<rparr>])"
proof -
  let ?w = "(ws ! i) \<lparr> wk_client := c \<rparr>"
  have "(map wk_frame ws)[i := wk_frame ?w] = map wk_frame ws"
    by (cases "i < length ws") (simp_all add: list_update_same_conv list_update_beyond)
  moreover have "distinct_opt ((map wk_client ws)[i := c])"
    using assms(1,2) by (intro distinct_opt_update) (auto simp: workers_inv_def)
  moreover have "\<forall>w \<in> set (ws[i := ?w]). wk_client w \<noteq> None \<longrightarrow> wk_frame w \<noteq> None"
    using assms(1,3) set_update_subset_insert [of ws i ?w] by (auto simp: workers_inv_def)
  moreover have "\<forall>k < length ws. wk_frame (ws[i := ?w] ! k) \<noteq> None \<longrightarrow> wk_id (ws[i := ?w] ! k) = of_nat k"
    using assms(1) by (cases "i < length ws") (auto simp: workers_inv_def nth_list_update)
  ultimately show ?thesis
    using assms(1) by (simp add: workers_inv_def map_update)
qed

lemma workers_inv_register:
  assumes "workers_inv ws" "i < length ws" "wk_frame (ws ! i) = None" "Some f \<notin> set (map wk_frame ws)"
  shows "workers_inv (ws[i := (ws ! i) \<lparr> wk_frame := Some f, wk_id := of_nat i \<rparr>])"
    and "registeredSet (ws[i := (ws ! i) \<lparr> wk_frame := Some f, wk_id := of_nat i \<rparr>]) = insert i (registeredSet ws)"
    and "i \<notin> registeredSet ws"
proof -
  let ?w = "(ws ! i) \<lparr> wk_frame := Some f, wk_id := of_nat i \<rparr>"
  have "(map wk_client ws)[i := wk_client ?w] = map wk_client ws"
    using assms(2) by (simp add: list_update_same_conv)
  moreover have "distinct_opt ((map wk_frame ws)[i := Some f])"
    using assms(1,4) by (intro distinct_opt_update) (auto simp: workers_inv_def)
  moreover have "\<forall>w \<in> set (ws[i := ?w]). wk_client w \<noteq> None \<longrightarrow> wk_frame w \<noteq> None"
    using assms(1) set_update_subset_insert [of ws i ?w] by (auto simp: workers_inv_def)
  moreover have "\<forall>k < length ws. wk_frame (ws[i := ?w] ! k) \<noteq> None \<longrightarrow> wk_id (ws[i := ?w] ! k) = of_nat k"
    using assms(1,2) by (auto simp: workers_inv_def nth_list_update)
  ultimately show "workers_inv (ws[i := ?w])"
    using assms(1) by (simp add: workers_inv_def map_update)
  show "registeredSet (ws[i := ?w]) = insert i (registeredSet ws)" "i \<notin> registeredSet ws"
    using assms(2,3) by (auto simp: registeredSet_def nth_list_update)
qed

text \<open>The worker of a client is found.\<close>

lemma routerWorkerOf_serves:
  assumes "workers_inv (ro_workers s)" "serves s i c"
  shows "routerWorkerOf c s = wk_frame (ro_workers s ! i)" "wk_frame (ro_workers s ! i) \<noteq> None"
proof -
  have i: "i < length (ro_workers s)" "wk_client (ro_workers s ! i) = Some c"
    using assms(2) by (simp_all add: serves_def)
  have "lastIndex (\<lambda>w. wk_client w = Some c) 0 (ro_workers s) None = Some i"
  proof (rule lastIndex_unique)
    show "i < length (ro_workers s)" "wk_client (ro_workers s ! i) = Some c"
      by (rule i)+
    fix j assume "j < length (ro_workers s)" "wk_client (ro_workers s ! j) = Some c"
    then show "j = i"
      using i assms(1) distinct_optD [of "map wk_client (ro_workers s)" j i c] by (simp add: workers_inv_def)
  qed
  then show "routerWorkerOf c s = wk_frame (ro_workers s ! i)"
    by (simp add: routerWorkerOf_def)
  have "ro_workers s ! i \<in> set (ro_workers s)"
    using i(1) by simp
  then show "wk_frame (ro_workers s ! i) \<noteq> None"
    using assms(1) i(2) by (auto simp: workers_inv_def)
qed

lemma routerWorkerOf_None:
  assumes "workers_inv (ro_workers s)"
  shows "routerWorkerOf c s = None \<longleftrightarrow> Some c \<notin> set (map wk_client (ro_workers s))"
proof
  assume none: "routerWorkerOf c s = None"
  show "Some c \<notin> set (map wk_client (ro_workers s))"
  proof
    assume "Some c \<in> set (map wk_client (ro_workers s))"
    then obtain i where "serves s i c"
      by (auto simp: serves_def in_set_conv_nth)
    then show False
      using routerWorkerOf_serves [OF assms, of i c] none by simp
  qed
next
  assume "Some c \<notin> set (map wk_client (ro_workers s))"
  then have "lastIndex (\<lambda>w. wk_client w = Some c) 0 (ro_workers s) None = None"
    unfolding lastIndex_None_iff by (auto simp: image_iff)
  then show "routerWorkerOf c s = None"
    by (simp add: routerWorkerOf_def)
qed

lemma routerWorkerDone_registered:
  assumes "router_inv n s" "isRegistered s i" "wk_frame (ro_workers s ! i) = Some f"
  shows "routerWorkerDone f s = Inr (0, s \<lparr> ro_workers := (ro_workers s)[i := (ro_workers s ! i) \<lparr> wk_client := None \<rparr>],
           ro_readyWorkers := ro_readyWorkers s @ [i] \<rparr>)"
proof -
  have i: "i < length (ro_workers s)" "wk_id (ro_workers s ! i) = of_nat i" "i < 65536"
    using assms by (auto simp: isRegistered_def router_inv_def workers_inv_def)
  have inj: "distinct_opt (map wk_frame (ro_workers s))"
    using assms(1) by (simp add: router_inv_def workers_inv_def)
  have "lastIndex (\<lambda>w. wk_frame w = Some f) 0 (ro_workers s) None = Some i"
  proof (rule lastIndex_unique)
    show "i < length (ro_workers s)" "wk_frame (ro_workers s ! i) = Some f"
      by (rule i(1), rule assms(3))
    fix j assume "j < length (ro_workers s)" "wk_frame (ro_workers s ! j) = Some f"
    then show "j = i"
      using i(1) assms(3) distinct_optD [OF inj, of j i f] by simp
  qed
  then show ?thesis
    using i by (simp add: routerWorkerDone_def Let_def unsigned_of_nat take_bit_nat_eq_self)
qed

section \<open>Packets of the clients\<close>

text \<open>The worker that gets the packet of a client: the one that serves it, the first ready one, or the one
  whose turn it is.\<close>

definition routerTarget :: "Router \<Rightarrow> bytes \<Rightarrow> nat \<Rightarrow> bool" where
  "routerTarget s c i \<longleftrightarrow>
     serves s i c
     \<or> (\<forall>j. \<not> serves s j c) \<and> (case ro_readyWorkers s of k # _ \<Rightarrow> i = k | [] \<Rightarrow> i = ro_overloadWorker s)"

definition routerServed :: "Router \<Rightarrow> nat \<Rightarrow> bytes \<Rightarrow> Router" where
  "routerServed s i c = s \<lparr> ro_workers := (ro_workers s)[i := (ro_workers s ! i) \<lparr> wk_client := Some c \<rparr>] \<rparr>"

lemma routerAssign_ok:
  assumes inv: "router_inv n s" and bound: "ro_bound s" and free: "\<forall>j. \<not> serves s j c"
  shows "\<exists>i f s'. routerAssign c s = Inr (Some (Some f, s')) \<and> isRegistered s i
    \<and> wk_frame (ro_workers s ! i) = Some f \<and> routerTarget s c i
    \<and> s' = (routerServed s i c) \<lparr> ro_readyWorkers := tl (ro_readyWorkers s), ro_overloadWorker := ro_overloadWorker s' \<rparr>
    \<and> ro_overloadWorker s' < n"
proof (cases "ro_readyWorkers s")
  case Nil
  have n: "0 < n" "ro_workersReadyCount s = n" "ro_overloadWorker s < n" "length (ro_workers s) = n"
    using inv bound by (auto simp: router_inv_def)
  then have reg: "isRegistered s (ro_overloadWorker s)"
    using inv bound by (auto simp: router_inv_def isRegistered_def registeredSet_def)
  then obtain f where f: "wk_frame (ro_workers s ! ro_overloadWorker s) = Some f"
    by (auto simp: isRegistered_def)
  have "routerTarget s c (ro_overloadWorker s)"
    using free Nil by (simp add: routerTarget_def)
  then show ?thesis
    using Nil n reg f
    by (intro exI [of _ "ro_overloadWorker s"] exI [of _ f]) (simp add: routerAssign_def routerServed_def)
next
  case (Cons k ks)
  have k: "isRegistered s k" "k < 65536" "wk_id (ro_workers s ! k) = of_nat k" "k < length (ro_workers s)"
    using inv Cons by (auto simp: router_inv_def isRegistered_def registeredSet_def workers_inv_def)
  then obtain f where f: "wk_frame (ro_workers s ! k) = Some f"
    by (auto simp: isRegistered_def)
  have "routerTarget s c k"
    using free Cons by (simp add: routerTarget_def)
  moreover have "ro_overloadWorker s < n"
    using inv bound by (auto simp: router_inv_def)
  ultimately show ?thesis
    using Cons k f
    by (intro exI [of _ k] exI [of _ f])
      (simp add: routerAssign_def routerServed_def unsigned_of_nat take_bit_nat_eq_self)
qed

lemma router_inv_served:
  assumes inv: "router_inv n s" and reg: "isRegistered s i" and free: "\<forall>j. \<not> serves s j c"
    and s': "s' = (routerServed s i c) \<lparr> ro_readyWorkers := rs, ro_overloadWorker := ov \<rparr>"
    and "set rs \<subseteq> set (ro_readyWorkers s)" "ov < n"
  shows "router_inv n s'"
proof -
  have "Some c \<notin> set (map wk_client (ro_workers s))"
    using free by (auto simp: serves_def in_set_conv_nth)
  then have "workers_inv ((ro_workers s)[i := (ro_workers s ! i) \<lparr> wk_client := Some c \<rparr>])"
    using inv reg by (intro workers_inv_client) (auto simp: router_inv_def isRegistered_def)
  then show ?thesis
    using inv assms(5,6) unfolding s' by (auto simp: router_inv_def routerServed_def)
qed

text \<open>What the frontend does with a packet, in a state with the invariant.\<close>

lemma routerFrontend_ok:
  assumes inv: "router_inv n s" and bound: "ro_bound s"
    and d: "d \<noteq> []" "fd \<noteq> -1" "re_monitor env" "re_backend env"
  shows "\<exists>i f s'. routerFrontend env fd [c, d] s
        = Inr (0, [routerInformMonitor c fd, ToBackend [f, [], c, d]], s')
    \<and> isRegistered s i \<and> wk_frame (ro_workers s ! i) = Some f \<and> routerTarget s c i
    \<and> serves s' i c \<and> router_inv n s'"
proof (cases "\<exists>i. serves s i c")
  case True
  then obtain i where i: "serves s i c" by blast
  have ws: "workers_inv (ro_workers s)"
    using inv by (simp add: router_inv_def)
  obtain f where f: "wk_frame (ro_workers s ! i) = Some f"
    using routerWorkerOf_serves(2) [OF ws i] by blast
  then have "routerWorkerOf c s = Some f"
    using routerWorkerOf_serves(1) [OF ws i] by simp
  then have "routerFrontend env fd [c, d] s = Inr (0, [routerInformMonitor c fd, ToBackend [f, [], c, d]], s)"
    using d by (simp add: routerFrontend_def zmsg_wrap_def)
  moreover have "isRegistered s i" "routerTarget s c i"
    using i f by (auto simp: isRegistered_def serves_def routerTarget_def)
  ultimately show ?thesis
    using i f inv by blast
next
  case False
  then have free: "\<forall>j. \<not> serves s j c" by blast
  have ws: "workers_inv (ro_workers s)"
    using inv by (simp add: router_inv_def)
  obtain i f s' where a: "routerAssign c s = Inr (Some (Some f, s'))" "isRegistered s i"
    "wk_frame (ro_workers s ! i) = Some f" "routerTarget s c i"
    "s' = (routerServed s i c) \<lparr> ro_readyWorkers := tl (ro_readyWorkers s), ro_overloadWorker := ro_overloadWorker s' \<rparr>"
    "ro_overloadWorker s' < n"
    using routerAssign_ok [OF inv bound free] by blast
  have "routerWorkerOf c s = None"
    using free by (auto simp: routerWorkerOf_None [OF ws] serves_def in_set_conv_nth)
  then have "routerFrontend env fd [c, d] s = Inr (0, [routerInformMonitor c fd, ToBackend [f, [], c, d]], s')"
    using d a(1) by (simp add: routerFrontend_def zmsg_wrap_def)
  moreover have "serves s' i c"
    using a(2) by (subst a(5)) (simp add: serves_def routerServed_def isRegistered_def)
  moreover have "router_inv n s'"
  proof (rule router_inv_served [OF inv a(2) free a(5) _ a(6)])
    show "set (tl (ro_readyWorkers s)) \<subseteq> set (ro_readyWorkers s)"
      by (cases "ro_readyWorkers s") auto
  qed
  ultimately show ?thesis
    using a(2-4) by blast
qed

section \<open>Messages of the workers\<close>

lemma router_inv_done:
  assumes "router_inv n s" "isRegistered s i"
  shows "router_inv n (s \<lparr> ro_workers := (ro_workers s)[i := (ro_workers s ! i) \<lparr> wk_client := None \<rparr>],
           ro_readyWorkers := ro_readyWorkers s @ [i] \<rparr>)"
proof -
  have "i \<in> registeredSet (ro_workers s)"
    using assms(2) by (simp add: isRegistered_def registeredSet_def)
  then show ?thesis
    using assms(1) workers_inv_client [of "ro_workers s" None i] by (auto simp: router_inv_def)
qed

lemma routerBackend_reply:
  assumes inv: "router_inv n s" and i: "isRegistered s i" "wk_frame (ro_workers s ! i) = Some f"
    and ok: "length msg = 2 \<Longrightarrow> re_frontend env"
  shows "routerBackend env ([f, [], enc32 ROUTER_WORKER_NORMAL] @ msg) s =
    Inr (0, map (\<lambda>frame. ToFrontend [hd msg, frame]) (tl msg),
      s \<lparr> ro_workers := (ro_workers s)[i := (ro_workers s ! i) \<lparr> wk_client := None \<rparr>],
          ro_readyWorkers := ro_readyWorkers s @ [i] \<rparr>)"
proof -
  have "routerReplies env msg = (True, map (\<lambda>frame. ToFrontend [hd msg, frame]) (tl msg))"
    using ok by (auto simp: routerReplies_def length_Suc_conv numeral_2_eq_2 split: list.splits)
  then show ?thesis
    using routerWorkerDone_registered [OF inv i] by (simp add: routerBackend_def)
qed

lemma routerBackend_inv:
  assumes inv: "router_inv n s" and i: "isRegistered s i" "wk_frame (ro_workers s ! i) = Some f"
    and h: "header \<noteq> ROUTER_WORKER_READY"
    and b: "routerBackend env ([f, [], enc32 header] @ msg) s = Inr (0, out, s')"
  shows "router_inv n s'"
proof -
  have "s' = s \<or> s' = s \<lparr> ro_workers := (ro_workers s)[i := (ro_workers s ! i) \<lparr> wk_client := None \<rparr>],
           ro_readyWorkers := ro_readyWorkers s @ [i] \<rparr>"
    using b h routerWorkerDone_registered [OF inv i]
    by (auto simp: routerBackend_def split: if_splits prod.splits)
  then show ?thesis
    using inv router_inv_done [OF inv i(1)] by blast
qed

lemma routerBackend_ready:
  "routerReady env f msg s = Inr (True, t) \<Longrightarrow> routerWorkerDone f t = Inr (0, u) \<Longrightarrow>
   routerBackend env ([f, [], enc32 ROUTER_WORKER_READY] @ msg) s = Inr (0, [], u)"
  by (simp add: routerBackend_def)

lemma routerBackend_not_ready:
  "routerReady env f msg s = Inr (False, t) \<Longrightarrow>
   routerBackend env ([f, [], enc32 ROUTER_WORKER_READY] @ msg) s = Inr (-1, [], t)"
  by (simp add: routerBackend_def)

lemma routerBackend_register:
  assumes inv: "router_inv n s" and i: "i < n" "wk_frame (ro_workers s ! i) = None"
    and f: "\<forall>w \<in> set (ro_workers s). wk_frame w \<noteq> Some f"
    and b: "routerBackend env [f, [], enc32 ROUTER_WORKER_READY, enc16 (of_nat i)] s = Inr (0, out, s')"
  shows "router_inv n s'"
proof -
  let ?ws = "(ro_workers s)[i := (ro_workers s ! i) \<lparr> wk_frame := Some f, wk_id := of_nat i \<rparr>]"
  let ?full = "ro_workersReadyCount s + 1 = n"
  let ?t = "s \<lparr> ro_workers := ?ws, ro_workersReadyCount := ro_workersReadyCount s + 1, ro_bound := ?full \<or> ro_bound s \<rparr>"
  have n: "length (ro_workers s) = n" "n < 65536" "ro_workersCount s = n" "workers_inv (ro_workers s)"
    using inv by (simp_all add: router_inv_def)
  have fresh: "Some f \<notin> set (map wk_frame (ro_workers s))"
    using f by auto
  have idx: "unat (of_nat i :: u16) = i"
    using i(1) n(2) by (simp add: unsigned_of_nat take_bit_nat_eq_self)
  have reg: "workers_inv ?ws" "registeredSet ?ws = insert i (registeredSet (ro_workers s))"
    "i \<notin> registeredSet (ro_workers s)"
    using workers_inv_register [OF n(4), of i f] i fresh n(1) by simp_all
  have notbound: "\<not> ro_bound s"
    using inv reg(3) i(1) by (auto simp: router_inv_def)
  have t: "router_inv n ?t"
  proof -
    have "card (registeredSet ?ws) = ro_workersReadyCount s + 1"
      using inv reg(2,3) by (simp add: router_inv_def)
    moreover have "?full \<Longrightarrow> registeredSet ?ws = {..<n}"
      using calculation registered_full [of ?ws] n(1) by simp
    ultimately show ?thesis
      using inv reg(1,2) n notbound i(1) by (auto simp: router_inv_def)
  qed
  have tr: "isRegistered ?t i" "wk_frame (ro_workers ?t ! i) = Some f"
    using i(1) n(1) by (simp_all add: isRegistered_def)
  have d: "routerWorkerDone f ?t = Inr (0, ?t \<lparr> ro_workers := (ro_workers ?t)[i := (ro_workers ?t ! i) \<lparr> wk_client := None \<rparr>],
           ro_readyWorkers := ro_readyWorkers ?t @ [i] \<rparr>)"
    by (rule routerWorkerDone_registered [OF t tr])
  have "s' = ?t \<lparr> ro_workers := (ro_workers ?t)[i := (ro_workers ?t ! i) \<lparr> wk_client := None \<rparr>],
           ro_readyWorkers := ro_readyWorkers ?t @ [i] \<rparr>"
  proof -
    have "routerReady env f [enc16 (of_nat i)] s
        = Inr (\<not> ?full \<or> re_init env, if ?full \<and> \<not> re_init env then ?t \<lparr> ro_bound := False \<rparr> else ?t)"
      using idx n i(1) notbound by (cases s) (simp add: routerReady_def Let_def)
    then show ?thesis
      using b routerBackend_ready [OF _ d, of env "[enc16 (of_nat i)]" s]
        routerBackend_not_ready [of env f "[enc16 (of_nat i)]" s]
      by (cases "?full \<and> \<not> re_init env") auto
  qed
  then show ?thesis
    using router_inv_done [OF t tr(1)] by (simp only:)
qed

section \<open>Properties\<close>

lemma router_reachable_inv_serves:
  "router_inv n s \<Longrightarrow> serves s i c \<Longrightarrow> serves s j c \<Longrightarrow> j = i"
  using distinct_optD [of "map wk_client (ro_workers s)" i j c]
  by (auto simp: serves_def router_inv_def workers_inv_def)

lemma router_step_inv:
  assumes "router_step s out s'" "router_inv n s"
  shows "router_inv n s'"
  using assms(1)
proof cases
  case (client env fd c d)
  show ?thesis
  proof (cases "d = [] \<or> fd = -1 \<or> \<not> re_monitor env \<or> \<not> re_backend env")
    case True
    show ?thesis
    proof (cases "d \<noteq> [] \<and> fd \<noteq> -1 \<and> re_monitor env")
      case False
      then show ?thesis
        using client(2) assms(2) by (auto simp: routerFrontend_def Let_def split: if_splits)
    next
      case sends: True
      then obtain i f t where "routerFrontend (env \<lparr> re_backend := True \<rparr>) fd [c, d] s
          = Inr (0, [routerInformMonitor c fd, ToBackend [f, [], c, d]], t)" "router_inv n t"
        using routerFrontend_ok [OF assms(2) client(1), of d fd "env \<lparr> re_backend := True \<rparr>" c] by auto
      then show ?thesis
        using client sends True
        by (auto simp: routerFrontend_def Let_def rbind_eq_Inr_iff split: option.splits prod.splits if_splits)
    qed
  next
    case False
    then obtain i f t where "routerFrontend env fd [c, d] s
        = Inr (0, [routerInformMonitor c fd, ToBackend [f, [], c, d]], t)" "router_inv n t"
      using routerFrontend_ok [OF assms(2) client(1), of d fd env c] by auto
    then show ?thesis
      using client(2) by simp
  qed
next
  case (register i f env)
  then show ?thesis
    using routerBackend_register [OF assms(2)] assms(2) by (auto simp: router_inv_def)
next
  case (reply i f header env msg)
  then show ?thesis
    using routerBackend_inv [OF assms(2)] by blast
next
  case (multicast msg)
  then show ?thesis
    using assms(2) by simp
qed

lemma router_reach_inv: "router_reach n s \<Longrightarrow> router_inv n s"
proof (induction rule: router_reach.induct)
  case init
  then show ?case by (rule router_inv_init)
next
  case (step s out s')
  then show ?case by (blast intro: router_step_inv)
qed


text \<open>C10: a packet of a client is forwarded to one worker, unchanged and behind the identity of the client:
  to the worker that is serving the client if there is one, otherwise to the first of the ready list,
  otherwise to the worker whose turn it is; from then on that worker serves the client.\<close>

theorem routerFrontend_correct:
  assumes "router_reach n s" "ro_bound s" "d \<noteq> []" "fd \<noteq> -1" "re_monitor env" "re_backend env"
  shows "\<exists>i f s'. routerFrontend env fd [c, d] s
        = Inr (0, [routerInformMonitor c fd, ToBackend [f, [], c, d]], s')
    \<and> isRegistered s i \<and> wk_frame (ro_workers s ! i) = Some f \<and> routerTarget s c i
    \<and> serves s' i c \<and> router_inv n s'"
  by (rule routerFrontend_ok [OF router_reach_inv [OF assms(1)] assms(2-6)])

text \<open>The replies of a worker go to the client it names, one message for each packet in their order; the
  worker then serves nobody and is the last of the ready list.\<close>

theorem routerBackend_correct:
  assumes "router_reach n s" "isRegistered s i" "wk_frame (ro_workers s ! i) = Some f" "re_frontend env"
  shows "\<exists>s'. routerBackend env ([f, [], enc32 ROUTER_WORKER_NORMAL, c] @ packets) s
        = Inr (0, map (\<lambda>frame. ToFrontend [c, frame]) packets, s')
    \<and> (\<forall>c'. \<not> serves s' i c') \<and> ro_readyWorkers s' = ro_readyWorkers s @ [i] \<and> router_inv n s'"
proof -
  have inv: "router_inv n s"
    using assms(1) by (rule router_reach_inv)
  have "i < length (ro_workers s)"
    using assms(2) by (simp add: isRegistered_def)
  then show ?thesis
    using routerBackend_reply [OF inv assms(2,3), of "c # packets" env] assms(4) router_inv_done [OF inv assms(2)]
    by (intro exI) (auto simp: serves_def)
qed

end
