(* ===== verification/RouterOrder.thy ===== *)
theory RouterOrder
  imports RouterInv
begin

text \<open>
  How far the router keeps the packets of a client in order, and the theorems on the router at a concrete
  run with two workers.
\<close>

lemma serves_unchanged:
  "serves (s \<lparr> ro_workers := (ro_workers s)[i := (ro_workers s ! i) \<lparr> wk_client := x \<rparr>], ro_readyWorkers := r \<rparr>) j c
   \<longleftrightarrow> (if i = j then i < length (ro_workers s) \<and> x = Some c else serves s j c)"
  by (auto simp: serves_def nth_list_update)

lemma serves_served:
  "serves ((routerServed s i c) \<lparr> ro_readyWorkers := r, ro_overloadWorker := ov \<rparr>) j c'
   \<longleftrightarrow> (if i = j then i < length (ro_workers s) \<and> c = c' else serves s j c')"
  by (auto simp: serves_def routerServed_def nth_list_update)

text \<open>C21: the packets of a client are not kept in order: when the worker of the client has answered one packet,
  the next packet of the client goes to another ready worker, although earlier packets that were forwarded to the
  first worker may not have been answered; and each answer enters the worker in the ready list again.\<close>

theorem routerFrontend_reorders:
  assumes "router_reach n s" "ro_bound s" "re_monitor env" "re_backend env" "re_frontend env"
    and "serves s i c" "ro_readyWorkers s = k # ks" "k \<noteq> i" "p \<noteq> []" "q \<noteq> []" "fd \<noteq> -1"
  shows "\<exists>f g s' s''. wk_frame (ro_workers s ! i) = Some f \<and> wk_frame (ro_workers s ! k) = Some g \<and> f \<noteq> g
    \<and> routerFrontend env fd [c, p] s = Inr (0, [routerInformMonitor c fd, ToBackend [f, [], c, p]], s)
    \<and> routerBackend env [f, [], enc32 ROUTER_WORKER_NORMAL, c, r] s = Inr (0, [ToFrontend [c, r]], s')
    \<and> routerFrontend env fd [c, q] s' = Inr (0, [routerInformMonitor c fd, ToBackend [g, [], c, q]], s'')
    \<and> routerBackend env [f, [], enc32 ROUTER_WORKER_NORMAL, c, r'] s'' = Inr (0, [ToFrontend [c, r']],
        s'' \<lparr> ro_workers := (ro_workers s'')[i := (ro_workers s'' ! i) \<lparr> wk_client := None \<rparr>],
              ro_readyWorkers := ks @ [i, i] \<rparr>)"
proof -
  have inv: "router_inv n s"
    using assms(1) by (rule router_reach_inv)
  then have ws: "workers_inv (ro_workers s)"
    by (simp add: router_inv_def)
  obtain f where f: "wk_frame (ro_workers s ! i) = Some f"
    using routerWorkerOf_serves(2) [OF ws assms(6)] by blast
  have i: "isRegistered s i"
    using f assms(6) by (simp add: isRegistered_def serves_def)
  have k: "isRegistered s k"
    using inv assms(7) by (auto simp: router_inv_def isRegistered_def registeredSet_def)
  then obtain g where g: "wk_frame (ro_workers s ! k) = Some g"
    by (auto simp: isRegistered_def)
  have fg: "f \<noteq> g"
    using ws i k f g assms(8) distinct_optD [of "map wk_frame (ro_workers s)" i k f]
    by (auto simp: workers_inv_def isRegistered_def)
  have fwd: "routerFrontend env fd [c, p] s = Inr (0, [routerInformMonitor c fd, ToBackend [f, [], c, p]], s)"
    using assms(3,4,9,11) routerWorkerOf_serves(1) [OF ws assms(6)] f
    by (simp add: routerFrontend_def zmsg_wrap_def)
  define s' where "s' = s \<lparr> ro_workers := (ro_workers s)[i := (ro_workers s ! i) \<lparr> wk_client := None \<rparr>],
      ro_readyWorkers := ro_readyWorkers s @ [i] \<rparr>"
  have s': "routerBackend env [f, [], enc32 ROUTER_WORKER_NORMAL, c, r] s = Inr (0, [ToFrontend [c, r]], s')"
    using routerBackend_reply [OF inv i f, of "[c, r]" env] assms(5) by (simp add: s'_def)
  have inv': "router_inv n s'"
    unfolding s'_def by (rule router_inv_done [OF inv i])
  have free: "\<forall>j. \<not> serves s' j c"
    using router_reachable_inv_serves [OF inv assms(6)] by (auto simp: s'_def serves_unchanged)
  have "ro_bound s'" "ro_readyWorkers s' = k # ks @ [i]"
    using assms(2,7) by (simp_all add: s'_def)
  then obtain m h s'' where a: "routerAssign c s' = Inr (Some (Some h, s''))" "wk_frame (ro_workers s' ! m) = Some h"
    "routerTarget s' c m" "s'' = (routerServed s' m c) \<lparr> ro_readyWorkers := ks @ [i], ro_overloadWorker := ro_overloadWorker s'' \<rparr>"
    "isRegistered s' m" "ro_overloadWorker s'' < n"
    using routerAssign_ok [OF inv' _ free] by force
  have m: "m = k" "h = g"
    using a(2,3) free g assms(8) \<open>ro_readyWorkers s' = _\<close>
    by (auto simp: routerTarget_def s'_def)
  have "routerWorkerOf c s' = None"
    using free inv' by (auto simp: routerWorkerOf_None router_inv_def serves_def in_set_conv_nth)
  then have s'': "routerFrontend env fd [c, q] s' = Inr (0, [routerInformMonitor c fd, ToBackend [g, [], c, q]], s'')"
    using assms(3,4,10,11) a(1) m by (simp add: routerFrontend_def zmsg_wrap_def)
  have "router_inv n s''"
    by (rule router_inv_served [OF inv' a(5) free a(4) _ a(6)]) (auto simp: \<open>ro_readyWorkers s' = _\<close>)
  moreover have "isRegistered s'' i" "wk_frame (ro_workers s'' ! i) = Some f" "ro_readyWorkers s'' = ks @ [i]"
    using i f assms(8) m by (subst a(4), simp add: isRegistered_def routerServed_def s'_def)+
  ultimately have "routerBackend env [f, [], enc32 ROUTER_WORKER_NORMAL, c, r'] s'' = Inr (0, [ToFrontend [c, r']],
        s'' \<lparr> ro_workers := (ro_workers s'')[i := (ro_workers s'' ! i) \<lparr> wk_client := None \<rparr>],
              ro_readyWorkers := ks @ [i, i] \<rparr>)"
    using routerBackend_reply [of n s'' i f "[c, r']" env] assms(5) by simp
  with s' s'' fg fwd f g show ?thesis by blast
qed


text \<open>Under overload the client of the worker in charge is evicted: nobody serves it any more although its
  packet may be in progress, so that its next packet goes to whichever worker comes next.\<close>

theorem routerFrontend_evicts:
  assumes "router_reach n s" "ro_bound s" "re_monitor env" "re_backend env"
    and "ro_readyWorkers s = []" "\<forall>j. \<not> serves s j c" "serves s (ro_overloadWorker s) c'" "p \<noteq> []" "fd \<noteq> -1"
  shows "\<exists>f s'. wk_frame (ro_workers s ! ro_overloadWorker s) = Some f
    \<and> routerFrontend env fd [c, p] s = Inr (0, [routerInformMonitor c fd, ToBackend [f, [], c, p]], s')
    \<and> serves s' (ro_overloadWorker s) c \<and> (\<forall>j. \<not> serves s' j c')
    \<and> ro_overloadWorker s' = (ro_overloadWorker s + 1) mod n"
proof -
  have inv: "router_inv n s"
    using assms(1) by (rule router_reach_inv)
  then have ws: "workers_inv (ro_workers s)" and n: "ro_workersReadyCount s = n" "0 < n"
    using assms(2) by (auto simp: router_inv_def)
  let ?i = "ro_overloadWorker s"
  have i: "?i < length (ro_workers s)"
    using assms(7) by (simp add: serves_def)
  obtain f where f: "wk_frame (ro_workers s ! ?i) = Some f"
    using routerWorkerOf_serves(2) [OF ws assms(7)] by blast
  have "c \<noteq> c'"
    using assms(6,7) by auto
  let ?s' = "(routerServed s ?i c) \<lparr> ro_overloadWorker := (?i + 1) mod n \<rparr>"
  have "routerAssign c s = Inr (Some (Some f, ?s'))"
    using assms(5) n i f by (simp add: routerAssign_def routerServed_def)
  moreover have "routerWorkerOf c s = None"
    using assms(6) by (auto simp: routerWorkerOf_None [OF ws] serves_def in_set_conv_nth)
  ultimately have "routerFrontend env fd [c, p] s = Inr (0, [routerInformMonitor c fd, ToBackend [f, [], c, p]], ?s')"
    using assms(3,4,8,9) by (simp add: routerFrontend_def zmsg_wrap_def)
  moreover have "serves ?s' ?i c" "\<not> serves ?s' j c'" for j
    using i \<open>c \<noteq> c'\<close> router_reachable_inv_serves [OF inv assms(7), of j]
    by (auto simp: serves_def routerServed_def nth_list_update)
  ultimately show ?thesis
    using f by (intro exI [of _ f] exI [of _ ?s']) simp
qed

section \<open>A run with two workers\<close>

definition exEnv :: RouterEnv where
  "exEnv = \<lparr> re_frontend = True, re_backend = True, re_monitor = True, re_init = True \<rparr>"

text \<open>Both workers have registered; then the client \<open>[1]\<close> has sent a packet.\<close>

definition exBound :: Router where
  "exBound = \<lparr> ro_workers = [\<lparr> wk_frame = Some [10], wk_id = 0, wk_client = None \<rparr>, \<lparr> wk_frame = Some [11], wk_id = 1, wk_client = None \<rparr>],
     ro_readyWorkers = [0, 1], ro_workersReadyCount = 2, ro_overloadWorker = 0, ro_workersCount = 2, ro_bound = True \<rparr>"

definition exServing :: Router where
  "exServing = exBound \<lparr> ro_workers := [\<lparr> wk_frame = Some [10], wk_id = 0, wk_client = Some [1] \<rparr>,
     \<lparr> wk_frame = Some [11], wk_id = 1, wk_client = None \<rparr>], ro_readyWorkers := [1] \<rparr>"

definition exOverload :: Router where
  "exOverload = exBound \<lparr> ro_workers := [\<lparr> wk_frame = Some [10], wk_id = 0, wk_client = Some [1] \<rparr>,
     \<lparr> wk_frame = Some [11], wk_id = 1, wk_client = Some [2] \<rparr>], ro_readyWorkers := [] \<rparr>"

lemma exBound_reach: "router_reach 2 exBound"
proof -
  define s1 where "s1 = \<lparr> ro_workers = [\<lparr> wk_frame = Some [10], wk_id = 0, wk_client = None \<rparr>, \<lparr> wk_frame = None, wk_id = 0, wk_client = None \<rparr>],
     ro_readyWorkers = [0], ro_workersReadyCount = 1, ro_overloadWorker = 0, ro_workersCount = 2, ro_bound = False \<rparr>"
  have init: "routerInit 2 = \<lparr> ro_workers = [\<lparr> wk_frame = None, wk_id = 0, wk_client = None \<rparr>, \<lparr> wk_frame = None, wk_id = 0, wk_client = None \<rparr>],
     ro_readyWorkers = [], ro_workersReadyCount = 0, ro_overloadWorker = 0, ro_workersCount = 2, ro_bound = False \<rparr>"
    by (simp add: routerInit_def numeral_2_eq_2)
  have "router_step (routerInit 2) [] s1"
    unfolding init by (rule router_step.register [of 0 _ "[10]" exEnv])
      (simp_all add: s1_def routerBackend_def routerReady_def routerWorkerDone_def exEnv_def Let_def)
  moreover have "router_step s1 [] exBound"
    by (rule router_step.register [of 1 _ "[11]" exEnv])
      (simp_all add: s1_def exBound_def routerBackend_def routerReady_def routerWorkerDone_def exEnv_def Let_def)
  ultimately show ?thesis
    using router_reach.init [of 2] by (auto intro: router_reach.step)
qed

lemma exServing_step:
  "routerFrontend exEnv 7 [[1], [9]] exBound = Inr (0, [routerInformMonitor [1] 7, ToBackend [[10], [], [1], [9]]], exServing)"
  by (simp add: routerFrontend_def routerWorkerOf_def routerAssign_def exBound_def exServing_def exEnv_def zmsg_wrap_def)

lemma exOverload_step:
  "routerFrontend exEnv 7 [[2], [9]] exServing = Inr (0, [routerInformMonitor [2] 7, ToBackend [[11], [], [2], [9]]], exOverload)"
  by (simp add: routerFrontend_def routerWorkerOf_def routerAssign_def exBound_def exServing_def exOverload_def exEnv_def
      zmsg_wrap_def)

lemma exServing_reach: "router_reach 2 exServing"
  using exBound_reach exServing_step
  by (auto intro!: router_reach.step [OF exBound_reach] router_step.client simp: exBound_def)

lemma exOverload_reach: "router_reach 2 exOverload"
  using exOverload_step
  by (auto intro!: router_reach.step [OF exServing_reach] router_step.client simp: exServing_def exBound_def)


theorem routerFrontend_correct_witness:
  "\<exists>i f s'. routerFrontend exEnv 7 [[2], [9]] exServing = Inr (0, [routerInformMonitor [2] 7, ToBackend [f, [], [2], [9]]], s')
    \<and> routerTarget exServing [2] i \<and> serves s' i [2]"
  using routerFrontend_correct [OF exServing_reach, of "[9]" 7 exEnv "[2]"]
  by (auto simp: exServing_def exBound_def exEnv_def)

theorem routerBackend_correct_witness:
  "\<exists>s'. routerBackend exEnv ([[10], [], enc32 ROUTER_WORKER_NORMAL, [1]] @ [[20], [21]]) exServing
        = Inr (0, [ToFrontend [[1], [20]], ToFrontend [[1], [21]]], s')
    \<and> ro_readyWorkers s' = [1, 0]"
  using routerBackend_correct [OF exServing_reach, of 0 "[10]" exEnv "[1]" "[[20], [21]]"]
  by (auto simp: isRegistered_def exServing_def exBound_def exEnv_def)

theorem routerFrontend_reorders_witness:
  "\<exists>s' s''. routerFrontend exEnv 7 [[1], [30]] exServing = Inr (0, [routerInformMonitor [1] 7, ToBackend [[10], [], [1], [30]]], exServing)
    \<and> routerBackend exEnv [[10], [], enc32 ROUTER_WORKER_NORMAL, [1], [20]] exServing = Inr (0, [ToFrontend [[1], [20]]], s')
    \<and> routerFrontend exEnv 7 [[1], [31]] s' = Inr (0, [routerInformMonitor [1] 7, ToBackend [[11], [], [1], [31]]], s'')"
proof -
  have "ro_bound exServing" "serves exServing 0 [1]" "ro_readyWorkers exServing = [1]"
    "wk_frame (ro_workers exServing ! 0) = Some [10]" "wk_frame (ro_workers exServing ! 1) = Some [11]"
    by (simp_all add: exServing_def exBound_def serves_def)
  then show ?thesis
    using routerFrontend_reorders [OF exServing_reach, of exEnv 0 "[1]" 1 "[]" "[30]" "[31]" 7 "[20]" "[]"]
    by (auto simp: exEnv_def)
qed

theorem routerFrontend_evicts_witness:
  "\<exists>s'. routerFrontend exEnv 7 [[3], [9]] exOverload = Inr (0, [routerInformMonitor [3] 7, ToBackend [[10], [], [3], [9]]], s')
    \<and> (\<forall>j. \<not> serves s' j [1])"
proof -
  have free: "\<forall>j. \<not> serves exOverload j [3]"
    by (auto simp: serves_def exOverload_def exBound_def nth_Cons split: nat.splits)
  have "ro_bound exOverload" "ro_readyWorkers exOverload = []" "ro_overloadWorker exOverload = 0"
    "serves exOverload 0 [1]" "wk_frame (ro_workers exOverload ! 0) = Some [10]"
    by (simp_all add: exOverload_def exBound_def serves_def)
  then show ?thesis
    using routerFrontend_evicts [OF exOverload_reach, of exEnv "[3]" "[1]" "[9]" 7] free
    by (auto simp: exEnv_def)
qed

end
