(* ===== verification/Graph.thy ===== *)
theory Graph
  imports Zhash Prelude "HOL-Library.Multiset"
begin

text \<open>
  \<open>src/common/graph/graph.c\<close>: the graph in which the event server keeps who sees whom. Nodes and arcs live
  in an explicit heap, since arcs are freed when two nodes are unlinked; a node owns the list of the arcs
  that leave it, and a hash table finds nodes by their keys. The abstract view of a graph gives the multiset
  of the neighbours of each node.
\<close>

section \<open>Heap\<close>

type_synonym gaddr = nat

record 'u GraphNode =
  gn_arcs :: "gaddr list"
  gn_key :: string
  gn_user_data :: 'u

record GraphArc =
  ga_from :: gaddr
  ga_to :: gaddr

record ('h, 'u) Graph =
  g_nodes :: 'h
  g_node :: "gaddr \<Rightarrow> 'u GraphNode option"
  g_arc :: "gaddr \<Rightarrow> GraphArc option"
  g_next :: gaddr

definition derefNode :: "('h, 'u) Graph \<Rightarrow> gaddr \<Rightarrow> 'u GraphNode result" where
  "derefNode self a = (case g_node self a of None \<Rightarrow> Inl UseAfterFree | Some n \<Rightarrow> Inr n)"

definition derefArc :: "('h, 'u) Graph \<Rightarrow> gaddr \<Rightarrow> GraphArc result" where
  "derefArc self r = (case g_arc self r of None \<Rightarrow> Inl UseAfterFree | Some arc \<Rightarrow> Inr arc)"

section \<open>Operations\<close>

definition graphInit :: "('h, gaddr) zhash_ops \<Rightarrow> ('h, 'u) Graph" where
  "graphInit Z = \<lparr> g_nodes = zhash_new Z, g_node = Map.empty, g_arc = Map.empty, g_next = 0 \<rparr>"

definition graphNodeNew :: "('h, 'u) Graph \<Rightarrow> string \<Rightarrow> 'u \<Rightarrow> gaddr \<times> ('h, 'u) Graph" where
  "graphNodeNew self hashKey user_data =
     (g_next self, self \<lparr> g_node := (g_node self)(g_next self \<mapsto>
         \<lparr> gn_arcs = [], gn_key = hashKey, gn_user_data = user_data \<rparr>), g_next := g_next self + 1 \<rparr>)"

definition graphArcNew :: "('h, 'u) Graph \<Rightarrow> gaddr \<Rightarrow> gaddr \<Rightarrow> (gaddr \<times> ('h, 'u) Graph) result" where
  "graphArcNew self from to =
     (let arc = g_next self in
      rbind (derefNode self from) (\<lambda>node.
      Inr (arc, self \<lparr> g_node := (g_node self)(from \<mapsto> node \<lparr> gn_arcs := gn_arcs node @ [arc] \<rparr>),
        g_arc := (g_arc self)(arc \<mapsto> \<lparr> ga_from = from, ga_to = to \<rparr>), g_next := arc + 1 \<rparr>)))"

text \<open>A node that the table does not find by its key is entered in it.\<close>

definition graphEnsureNode :: "('h, gaddr) zhash_ops \<Rightarrow> ('h, 'u) Graph \<Rightarrow> gaddr \<Rightarrow> (bool \<times> ('h, 'u) Graph) result" where
  "graphEnsureNode Z self a =
     rbind (derefNode self a) (\<lambda>node.
     case zhash_lookup Z (g_nodes self) (gn_key node) of
       Some _ \<Rightarrow> Inr (True, self)
     | None \<Rightarrow> (case zhash_insert Z (g_nodes self) (gn_key node) a of
           None \<Rightarrow> Inr (False, self)
         | Some nodes \<Rightarrow> Inr (True, self \<lparr> g_nodes := nodes \<rparr>)))"

definition graphAddArc ::
    "('h, gaddr) zhash_ops \<Rightarrow> ('h, 'u) Graph \<Rightarrow> gaddr \<Rightarrow> gaddr \<Rightarrow> (gaddr option \<times> ('h, 'u) Graph) result" where
  "graphAddArc Z self from to =
     rbind (graphArcNew self from to) (\<lambda>(arc, self).
     rbind (graphEnsureNode Z self from) (\<lambda>(ok, self).
     rbind (if ok then graphEnsureNode Z self to else Inr (False, self)) (\<lambda>(ok, self).
     if ok then Inr (Some arc, self) else Inr (None, self \<lparr> g_arc := (g_arc self)(arc := None) \<rparr>))))"

definition graphLink ::
    "('h, gaddr) zhash_ops \<Rightarrow> ('h, 'u) Graph \<Rightarrow> gaddr \<Rightarrow> gaddr \<Rightarrow> (bool \<times> ('h, 'u) Graph) result" where
  "graphLink Z self node1 node2 =
     rbind (graphAddArc Z self node1 node2) (\<lambda>(arc, self).
     if arc = None then Inr (False, self)
     else rbind (graphAddArc Z self node2 node1) (\<lambda>(arc, self). Inr (arc \<noteq> None, self)))"

fun graphFindArc :: "('h, 'u) Graph \<Rightarrow> gaddr list \<Rightarrow> gaddr \<Rightarrow> gaddr option result" where
  "graphFindArc self [] to = Inr None"
| "graphFindArc self (link # links) to =
     rbind (derefArc self link) (\<lambda>arc. if ga_to arc = to then Inr (Some link) else graphFindArc self links to)"

definition graphNodeGetArc :: "('h, 'u) Graph \<Rightarrow> gaddr \<Rightarrow> gaddr \<Rightarrow> gaddr option result" where
  "graphNodeGetArc self from to = rbind (derefNode self from) (\<lambda>node. graphFindArc self (gn_arcs node) to)"

text \<open>\<open>zlist_remove (node->arcs, arc)\<close>\<close>

definition graphRemoveArc :: "('h, 'u) Graph \<Rightarrow> gaddr \<Rightarrow> gaddr \<Rightarrow> ('h, 'u) Graph result" where
  "graphRemoveArc self a arc =
     rbind (derefNode self a) (\<lambda>node.
     Inr (self \<lparr> g_node := (g_node self)(a \<mapsto> node \<lparr> gn_arcs := remove1 arc (gn_arcs node) \<rparr>) \<rparr>))"

definition graphUnlink :: "('h, 'u) Graph \<Rightarrow> gaddr \<Rightarrow> gaddr \<Rightarrow> (bool \<times> ('h, 'u) Graph) result" where
  "graphUnlink self node1 node2 =
     rbind (graphNodeGetArc self node1 node2) (\<lambda>arc1. case arc1 of
       None \<Rightarrow> Inr (False, self)
     | Some arc1 \<Rightarrow>
     rbind (graphRemoveArc self node1 arc1) (\<lambda>self.
     rbind (graphNodeGetArc self node2 node1) (\<lambda>arc2. case arc2 of
       None \<Rightarrow> Inr (False, self)
     | Some arc2 \<Rightarrow>
     rbind (graphRemoveArc self node2 arc2) (\<lambda>self.
     Inr (True, self \<lparr> g_arc := (g_arc self)(arc1 := None, arc2 := None) \<rparr>)))))"

definition graphGetNode :: "('h, gaddr) zhash_ops \<Rightarrow> ('h, 'u) Graph \<Rightarrow> string \<Rightarrow> gaddr option" where
  "graphGetNode Z self key = zhash_lookup Z (g_nodes self) key"

definition graphInsertNode :: "('h, gaddr) zhash_ops \<Rightarrow> ('h, 'u) Graph \<Rightarrow> gaddr \<Rightarrow> (bool \<times> ('h, 'u) Graph) result" where
  "graphInsertNode Z self a =
     rbind (derefNode self a) (\<lambda>node.
     case zhash_insert Z (g_nodes self) (gn_key node) a of
       None \<Rightarrow> Inr (False, self)
     | Some nodes \<Rightarrow> Inr (True, self \<lparr> g_nodes := nodes \<rparr>))"

section \<open>Termination of the removal of a node\<close>

definition arcsCount :: "('h, 'u) Graph \<Rightarrow> gaddr \<Rightarrow> nat" where
  "arcsCount self a = (case g_node self a of None \<Rightarrow> 0 | Some n \<Rightarrow> length (gn_arcs n))"

lemma graphFindArc_mem: "graphFindArc self rs to = Inr (Some r) \<Longrightarrow> r \<in> set rs"
  by (induction rs) (auto simp: rbind_eq_Inr_iff split: if_splits)

lemma graphRemoveArc_count:
  assumes "graphNodeGetArc self a b = Inr (Some r)" "graphRemoveArc self a r = Inr self'"
  shows "Suc (arcsCount self' a) = arcsCount self a"
proof -
  obtain n where n: "g_node self a = Some n" "r \<in> set (gn_arcs n)"
    using assms(1) by (auto simp: graphNodeGetArc_def derefNode_def rbind_eq_Inr_iff dest: graphFindArc_mem split: option.splits)
  then show ?thesis
    using assms(2) length_pos_if_in_set [OF n(2)]
    by (auto simp: graphRemoveArc_def derefNode_def arcsCount_def length_remove1)
qed

lemma graphRemoveArc_other: "graphRemoveArc self b r = Inr self' \<Longrightarrow> arcsCount self' a \<le> arcsCount self a"
  by (cases "a = b") (auto simp: graphRemoveArc_def derefNode_def arcsCount_def length_remove1 split: option.splits)

lemma graphUnlink_count:
  assumes "graphUnlink self a b = Inr (True, self')"
  shows "arcsCount self' a < arcsCount self a"
proof -
  obtain r s r' s' where u: "graphNodeGetArc self a b = Inr (Some r)" "graphRemoveArc self a r = Inr s"
    "graphRemoveArc s b r' = Inr s'" "self' = s' \<lparr> g_arc := (g_arc s')(r := None, r' := None) \<rparr>"
    using assms by (auto simp: graphUnlink_def rbind_eq_Inr_iff split: option.splits)
  then have "arcsCount self' a = arcsCount s' a"
    by (simp add: arcsCount_def)
  then show ?thesis
    using graphRemoveArc_count [OF u(1,2)] graphRemoveArc_other [OF u(3), of a] by simp
qed

text \<open>\<open>graphRemoveNode\<close>: the loop unlinks the first neighbour until there is none.\<close>

function graphRemoveNode :: "('h, 'u) Graph \<Rightarrow> gaddr \<Rightarrow> (bool \<times> ('h, 'u) Graph) result" where
  "graphRemoveNode self a =
     rbind (derefNode self a) (\<lambda>node. case gn_arcs node of
       [] \<Rightarrow> Inr (True, self)
     | r # _ \<Rightarrow>
         rbind (derefArc self r) (\<lambda>arc.
         rbind (graphUnlink self a (ga_to arc)) (\<lambda>(ok, self').
         if ok then graphRemoveNode self' a else Inr (False, self'))))"
  by pat_completeness auto
termination
  by (relation "measure (\<lambda>(self, a). arcsCount self a)") (auto dest: graphUnlink_count)

declare graphRemoveNode.simps [simp del]

section \<open>Well-formed graphs and their abstract view\<close>

text \<open>Every arc in the list of a node exists, leaves that node and leads to an existing node.\<close>

definition graph_heap :: "('h, 'u) Graph \<Rightarrow> bool" where
  "graph_heap g \<longleftrightarrow>
     (\<forall>a n. g_node g a = Some n \<longrightarrow> distinct (gn_arcs n)
        \<and> (\<forall>r \<in> set (gn_arcs n). \<exists>arc. g_arc g r = Some arc \<and> ga_from arc = a \<and> g_node g (ga_to arc) \<noteq> None))
     \<and> (\<forall>x \<ge> g_next g. g_node g x = None \<and> g_arc g x = None)"

text \<open>The neighbours of a node.\<close>

definition neighbours :: "('h, 'u) Graph \<Rightarrow> gaddr \<Rightarrow> gaddr multiset" where
  "neighbours g a = (case g_node g a of
       None \<Rightarrow> {#}
     | Some n \<Rightarrow> image_mset (\<lambda>r. ga_to (the (g_arc g r))) (mset (gn_arcs n)))"

definition graph_sym :: "('h, 'u) Graph \<Rightarrow> bool" where
  "graph_sym g \<longleftrightarrow> (\<forall>a b. count (neighbours g a) b = count (neighbours g b) a)
     \<and> (\<forall>a. even (count (neighbours g a) a))"

definition graph_live :: "('h, 'u) Graph \<Rightarrow> gaddr \<Rightarrow> bool" where
  "graph_live g a \<longleftrightarrow> g_node g a \<noteq> None"

definition graph_wf :: "('h, 'u) Graph \<Rightarrow> bool" where
  "graph_wf g \<longleftrightarrow> graph_heap g \<and> graph_sym g"

text \<open>The same nodes, with the same keys and data.\<close>

definition same_nodes :: "('h, 'u) Graph \<Rightarrow> ('h, 'u) Graph \<Rightarrow> bool" where
  "same_nodes g g' \<longleftrightarrow> (\<forall>a. map_option (\<lambda>n. n \<lparr> gn_arcs := [] \<rparr>) (g_node g' a) = map_option (\<lambda>n. n \<lparr> gn_arcs := [] \<rparr>) (g_node g a))"

lemma same_nodes_refl [simp]: "same_nodes g g"
  by (simp add: same_nodes_def)

lemma same_nodes_trans: "same_nodes g h \<Longrightarrow> same_nodes h k \<Longrightarrow> same_nodes g k"
  by (simp add: same_nodes_def)

lemma same_nodes_live: "same_nodes g g' \<Longrightarrow> graph_live g' a = graph_live g a"
  unfolding same_nodes_def graph_live_def by (metis map_option_is_None)

lemma graph_heap_arc:
  assumes "graph_heap g" "g_node g a = Some n" "r \<in> set (gn_arcs n)"
  obtains arc where "g_arc g r = Some arc" "ga_from arc = a" "graph_live g (ga_to arc)"
  using assms by (fastforce simp: graph_heap_def graph_live_def)

lemma graph_heap_fresh: "graph_heap g \<Longrightarrow> g_next g \<le> x \<Longrightarrow> g_node g x = None \<and> g_arc g x = None"
  by (simp add: graph_heap_def)

lemma graph_heap_distinct: "graph_heap g \<Longrightarrow> g_node g a = Some n \<Longrightarrow> distinct (gn_arcs n)"
  by (simp add: graph_heap_def)

lemma graph_heapI:
  assumes "\<And>a n. g_node g a = Some n \<Longrightarrow> distinct (gn_arcs n)"
    and "\<And>a n r. g_node g a = Some n \<Longrightarrow> r \<in> set (gn_arcs n) \<Longrightarrow>
      \<exists>arc. g_arc g r = Some arc \<and> ga_from arc = a \<and> graph_live g (ga_to arc)"
    and "\<And>x. g_next g \<le> x \<Longrightarrow> g_node g x = None \<and> g_arc g x = None"
  shows "graph_heap g"
  unfolding graph_heap_def using assms unfolding graph_live_def by blast

text \<open>Adding an arc.\<close>

lemma graphArcNew_ok:
  assumes "graph_heap g" "graph_live g a" "graph_live g b"
  shows "\<exists>g'. graphArcNew g a b = Inr (g_next g, g') \<and> graph_heap g' \<and> same_nodes g g' \<and> g_nodes g' = g_nodes g
    \<and> neighbours g' = (neighbours g)(a := add_mset b (neighbours g a))"
proof -
  obtain n where n: "g_node g a = Some n"
    using assms(2) by (auto simp: graph_live_def)
  let ?r = "g_next g"
  let ?g' = "g \<lparr> g_node := (g_node g)(a \<mapsto> n \<lparr> gn_arcs := gn_arcs n @ [?r] \<rparr>),
        g_arc := (g_arc g)(?r \<mapsto> \<lparr> ga_from = a, ga_to = b \<rparr>), g_next := ?r + 1 \<rparr>"
  have fresh: "r \<noteq> ?r" if "g_node g c = Some m" "r \<in> set (gn_arcs m)" for c m r
    using graph_heap_arc [OF assms(1) that] graph_heap_fresh [OF assms(1), of ?r] by fastforce
  have "a < ?r"
    using n graph_heap_fresh [OF assms(1), of a] by (cases "a < ?r") simp_all
  have live: "graph_live ?g' c" if "graph_live g c" for c
    using that by (simp add: graph_live_def)
  have "graph_heap ?g'"
  proof (rule graph_heapI)
    fix c m assume m: "g_node ?g' c = Some m"
    then obtain m' where m': "g_node g c = Some m'" "gn_arcs m = gn_arcs m' @ (if c = a then [?r] else [])"
      using n by (cases "c = a") auto
    then show "distinct (gn_arcs m)"
      using graph_heap_distinct [OF assms(1) m'(1)] fresh [OF m'(1)] by auto
    fix r assume r: "r \<in> set (gn_arcs m)"
    show "\<exists>arc. g_arc ?g' r = Some arc \<and> ga_from arc = c \<and> graph_live ?g' (ga_to arc)"
    proof (cases "r = ?r")
      case True
      then show ?thesis
        using r m' fresh [OF m'(1)] live [OF assms(3)] by (auto split: if_splits)
    next
      case False
      then have "r \<in> set (gn_arcs m')"
        using r m'(2) by (auto split: if_splits)
      then obtain arc where "g_arc g r = Some arc" "ga_from arc = c" "graph_live g (ga_to arc)"
        using graph_heap_arc [OF assms(1) m'(1)] by blast
      then show ?thesis
        using False live [of "ga_to arc"] by simp
    qed
  next
    fix x assume "g_next ?g' \<le> x"
    then show "g_node ?g' x = None \<and> g_arc ?g' x = None"
      using graph_heap_fresh [OF assms(1), of x] \<open>a < ?r\<close> by simp
  qed
  moreover have "same_nodes g ?g'"
    using n by (simp add: same_nodes_def)
  moreover have "neighbours ?g' c = ((neighbours g)(a := add_mset b (neighbours g a))) c" for c
  proof -
    have "image_mset (\<lambda>r. ga_to (the (((g_arc g)(?r \<mapsto> \<lparr> ga_from = a, ga_to = b \<rparr>)) r))) (mset (gn_arcs m))
        = image_mset (\<lambda>r. ga_to (the (g_arc g r))) (mset (gn_arcs m))" if "g_node g c = Some m" for m
      using fresh [OF that] by (intro image_mset_cong) auto
    then show ?thesis
      using n by (auto simp: neighbours_def split: option.splits)
  qed
  ultimately show ?thesis
    using n by (auto simp: graphArcNew_def derefNode_def fun_eq_iff Let_def)
qed

lemma graphEnsureNode_ok:
  assumes "zhash Z" "graph_live g a"
  shows "\<exists>t. graphEnsureNode Z g a = Inr (True, g \<lparr> g_nodes := t \<rparr>)"
proof -
  obtain n where n: "g_node g a = Some n"
    using assms(2) by (auto simp: graph_live_def)
  show ?thesis
  proof (cases "zhash_lookup Z (g_nodes g) (gn_key n)")
    case None
    then show ?thesis
      using n zhash.zh_insert [OF assms(1) None, of a] by (auto simp: graphEnsureNode_def derefNode_def)
  next
    case (Some b)
    then show ?thesis
      using n by (intro exI [of _ "g_nodes g"]) (simp add: graphEnsureNode_def derefNode_def)
  qed
qed

lemma graph_table_irrelevant [simp]:
  "graph_heap (g \<lparr> g_nodes := t \<rparr>) = graph_heap g" "neighbours (g \<lparr> g_nodes := t \<rparr>) = neighbours g"
  "graph_live (g \<lparr> g_nodes := t \<rparr>) a = graph_live g a" "same_nodes h (g \<lparr> g_nodes := t \<rparr>) = same_nodes h g"
  by (simp_all add: graph_heap_def neighbours_def graph_live_def same_nodes_def fun_eq_iff cong: option.case_cong)

lemma graphAddArc_ok:
  assumes "zhash Z" "graph_heap g" "graph_live g a" "graph_live g b"
  shows "\<exists>r g'. graphAddArc Z g a b = Inr (Some r, g') \<and> graph_heap g' \<and> same_nodes g g'
    \<and> neighbours g' = (neighbours g)(a := add_mset b (neighbours g a))"
proof -
  obtain g1 where g1: "graphArcNew g a b = Inr (g_next g, g1)" "graph_heap g1" "same_nodes g g1"
    "neighbours g1 = (neighbours g)(a := add_mset b (neighbours g a))"
    using graphArcNew_ok [OF assms(2-4)] by blast
  have "graph_live g1 a" "graph_live g1 b"
    using assms(3,4) same_nodes_live [OF g1(3)] by simp_all
  then obtain t where t: "graphEnsureNode Z g1 a = Inr (True, g1 \<lparr> g_nodes := t \<rparr>)"
    using graphEnsureNode_ok [OF assms(1)] by blast
  obtain u where "graphEnsureNode Z (g1 \<lparr> g_nodes := t \<rparr>) b = Inr (True, g1 \<lparr> g_nodes := u \<rparr>)"
    using graphEnsureNode_ok [OF assms(1), of "g1 \<lparr> g_nodes := t \<rparr>" b] \<open>graph_live g1 b\<close> by auto
  then show ?thesis
    using g1 t by (auto simp: graphAddArc_def)
qed

text \<open>Removing an arc from its list, and freeing an arc that is in no list any more.\<close>

lemma graphRemoveArc_ok:
  assumes "graph_heap g" "g_node g a = Some n" "r \<in> set (gn_arcs n)" "g_arc g r = Some arc"
  shows "\<exists>g'. graphRemoveArc g a r = Inr g' \<and> graph_heap g' \<and> same_nodes g g' \<and> g_nodes g' = g_nodes g \<and> g_arc g' = g_arc g
    \<and> (\<forall>c m. g_node g' c = Some m \<longrightarrow> r \<notin> set (gn_arcs m))
    \<and> neighbours g' = (neighbours g)(a := neighbours g a - {#ga_to arc#})"
proof -
  let ?g' = "g \<lparr> g_node := (g_node g)(a \<mapsto> n \<lparr> gn_arcs := remove1 r (gn_arcs n) \<rparr>) \<rparr>"
  have arc_from: "ga_from arc = a"
    using graph_heap_arc [OF assms(1-3)] assms(4) by auto
  have live: "graph_live ?g' c" if "graph_live g c" for c
    using that by (simp add: graph_live_def)
  have old: "\<exists>m'. g_node g c = Some m' \<and> gn_arcs m = (if c = a then remove1 r (gn_arcs m') else gn_arcs m')"
    if "g_node ?g' c = Some m" for c m
    using that assms(2) by (cases "c = a") auto
  have "graph_heap ?g'"
  proof (rule graph_heapI)
    fix c m assume m: "g_node ?g' c = Some m"
    then obtain m' where m': "g_node g c = Some m'" "gn_arcs m = (if c = a then remove1 r (gn_arcs m') else gn_arcs m')"
      using old by blast
    then show "distinct (gn_arcs m)"
      using graph_heap_distinct [OF assms(1) m'(1)] by simp
    fix r' assume "r' \<in> set (gn_arcs m)"
    then have "r' \<in> set (gn_arcs m')"
      using m'(2) set_remove1_subset [of r "gn_arcs m'"] by (auto split: if_splits)
    then obtain arc' where "g_arc g r' = Some arc'" "ga_from arc' = c" "graph_live g (ga_to arc')"
      using graph_heap_arc [OF assms(1) m'(1)] by blast
    then show "\<exists>arc. g_arc ?g' r' = Some arc \<and> ga_from arc = c \<and> graph_live ?g' (ga_to arc)"
      using live [of "ga_to arc'"] by simp
  next
    fix x assume "g_next ?g' \<le> x"
    then show "g_node ?g' x = None \<and> g_arc ?g' x = None"
      using graph_heap_fresh [OF assms(1), of x] assms(2) by (cases "x = a") auto
  qed
  moreover have "same_nodes g ?g'"
    using assms(2) by (simp add: same_nodes_def)
  moreover have "r \<notin> set (gn_arcs m)" if m: "g_node ?g' c = Some m" for c m
  proof (cases "c = a")
    case True
    then show ?thesis
      using m graph_heap_distinct [OF assms(1,2)] by auto
  next
    case False
    then show ?thesis
      using m graph_heap_arc [OF assms(1), of c m r] arc_from assms(4) by auto
  qed
  moreover have "neighbours ?g' = (neighbours g)(a := neighbours g a - {#ga_to arc#})"
    using assms(2-4) by (auto simp: fun_eq_iff neighbours_def image_mset_Diff cong: option.case_cong)
  ultimately show ?thesis
    using assms(2) by (simp add: graphRemoveArc_def derefNode_def)
qed

lemma graph_free_arc:
  assumes "graph_heap g" "\<forall>c m. g_node g c = Some m \<longrightarrow> r \<notin> set (gn_arcs m)"
  shows "graph_heap (g \<lparr> g_arc := (g_arc g)(r := None) \<rparr>)"
    and "neighbours (g \<lparr> g_arc := (g_arc g)(r := None) \<rparr>) = neighbours g"
proof -
  show "graph_heap (g \<lparr> g_arc := (g_arc g)(r := None) \<rparr>)"
    using assms by (fastforce simp: graph_heap_def)
  show "neighbours (g \<lparr> g_arc := (g_arc g)(r := None) \<rparr>) = neighbours g"
    using assms(2) by (auto simp: neighbours_def fun_eq_iff intro!: image_mset_cong split: option.splits)
qed

lemma graphFindArc_ok:
  "\<forall>r \<in> set rs. g_arc g r \<noteq> None \<Longrightarrow>
   \<exists>res. graphFindArc g rs b = Inr res
     \<and> (case res of
          None \<Rightarrow> \<forall>r \<in> set rs. ga_to (the (g_arc g r)) \<noteq> b
        | Some r \<Rightarrow> r \<in> set rs \<and> ga_to (the (g_arc g r)) = b)"
  by (induction rs) (auto simp: derefArc_def split: option.splits)

lemma graphNodeGetArc_ok:
  assumes "graph_heap g" "g_node g a = Some n"
  shows "b \<in># neighbours g a \<Longrightarrow>
      \<exists>r arc. graphNodeGetArc g a b = Inr (Some r) \<and> r \<in> set (gn_arcs n) \<and> g_arc g r = Some arc \<and> ga_to arc = b"
    and "b \<notin># neighbours g a \<Longrightarrow> graphNodeGetArc g a b = Inr None"
proof -
  have arcs: "\<forall>r \<in> set (gn_arcs n). g_arc g r \<noteq> None"
    using graph_heap_arc [OF assms] by blast
  obtain res where res: "graphFindArc g (gn_arcs n) b = Inr res"
    "case res of None \<Rightarrow> \<forall>r \<in> set (gn_arcs n). ga_to (the (g_arc g r)) \<noteq> b
     | Some r \<Rightarrow> r \<in> set (gn_arcs n) \<and> ga_to (the (g_arc g r)) = b"
    using graphFindArc_ok [OF arcs] by blast
  have get: "graphNodeGetArc g a b = Inr res"
    using assms(2) res(1) by (simp add: graphNodeGetArc_def derefNode_def)
  have nb: "b \<in># neighbours g a \<longleftrightarrow> (\<exists>r \<in> set (gn_arcs n). ga_to (the (g_arc g r)) = b)"
    using assms(2) by (auto simp: neighbours_def)
  show "b \<in># neighbours g a \<Longrightarrow>
      \<exists>r arc. graphNodeGetArc g a b = Inr (Some r) \<and> r \<in> set (gn_arcs n) \<and> g_arc g r = Some arc \<and> ga_to arc = b"
    using res(2) get nb arcs by (cases res) fastforce+
  show "b \<notin># neighbours g a \<Longrightarrow> graphNodeGetArc g a b = Inr None"
    using res(2) get nb by (cases res) auto
qed

section \<open>The operations on the abstract view\<close>

type_synonym nbrs = "gaddr \<Rightarrow> gaddr multiset"

definition nbrs_link :: "nbrs \<Rightarrow> gaddr \<Rightarrow> gaddr \<Rightarrow> nbrs" where
  "nbrs_link f a b = (let f = f(a := add_mset b (f a)) in f(b := add_mset a (f b)))"

definition nbrs_unlink :: "nbrs \<Rightarrow> gaddr \<Rightarrow> gaddr \<Rightarrow> nbrs" where
  "nbrs_unlink f a b = (let f = f(a := f a - {#b#}) in f(b := f b - {#a#}))"

definition nbrs_remove :: "nbrs \<Rightarrow> gaddr \<Rightarrow> nbrs" where
  "nbrs_remove f a = (\<lambda>c. if c = a then {#} else filter_mset (\<lambda>x. x \<noteq> a) (f c))"

definition nbrs_sym :: "nbrs \<Rightarrow> bool" where
  "nbrs_sym f \<longleftrightarrow> (\<forall>a b. count (f a) b = count (f b) a) \<and> (\<forall>a. even (count (f a) a))"

lemma graph_sym_nbrs: "graph_sym g = nbrs_sym (neighbours g)"
  by (simp add: graph_sym_def nbrs_sym_def)

lemma nbrs_sym_link: "nbrs_sym f \<Longrightarrow> nbrs_sym (nbrs_link f a b)"
  by (auto simp: nbrs_sym_def nbrs_link_def Let_def)

lemma nbrs_sym_unlink:
  assumes "nbrs_sym f" "b \<in># f a"
  shows "nbrs_sym (nbrs_unlink f a b)" "a \<in># ((f(a := f a - {#b#})) b)"
proof -
  have "0 < count (f a) b" "count (f b) a = count (f a) b"
    using assms by (simp_all add: nbrs_sym_def)
  moreover have two: "2 \<le> count (f a) a" if "a = b"
  proof -
    have "even (count (f a) a)" "0 < count (f a) a"
      using assms that by (simp_all add: nbrs_sym_def)
    then show ?thesis by presburger
  qed
  ultimately show "a \<in># ((f(a := f a - {#b#})) b)"
    by (auto simp: count_greater_zero_iff [symmetric] simp del: count_greater_zero_iff)
  show "nbrs_sym (nbrs_unlink f a b)"
    using assms(1) two \<open>0 < count (f a) b\<close> \<open>count (f b) a = _\<close>
    by (auto simp: nbrs_sym_def nbrs_unlink_def Let_def)
qed

lemma graphLink_ok:
  assumes "zhash Z" "graph_wf g" "graph_live g a" "graph_live g b"
  shows "\<exists>g'. graphLink Z g a b = Inr (True, g') \<and> graph_wf g' \<and> same_nodes g g'
    \<and> neighbours g' = nbrs_link (neighbours g) a b"
proof -
  obtain r g1 where g1: "graphAddArc Z g a b = Inr (Some r, g1)" "graph_heap g1" "same_nodes g g1"
    "neighbours g1 = (neighbours g)(a := add_mset b (neighbours g a))"
    using graphAddArc_ok [OF assms(1) _ assms(3,4)] assms(2) by (auto simp: graph_wf_def)
  moreover have "graph_live g1 b" "graph_live g1 a"
    using assms(3,4) same_nodes_live [OF g1(3)] by simp_all
  ultimately obtain r2 g2 where g2: "graphAddArc Z g1 b a = Inr (Some r2, g2)" "graph_heap g2" "same_nodes g1 g2"
    "neighbours g2 = (neighbours g1)(b := add_mset a (neighbours g1 b))"
    using graphAddArc_ok [OF assms(1) g1(2)] by blast
  have "neighbours g2 = nbrs_link (neighbours g) a b"
    unfolding g2(4) g1(4) nbrs_link_def Let_def ..
  moreover from this have "graph_wf g2"
    using g2(2) assms(2) by (simp add: graph_wf_def graph_sym_nbrs nbrs_sym_link)
  ultimately show ?thesis
    using g1(1) g2(1) same_nodes_trans [OF g1(3) g2(3)] by (auto simp: graphLink_def)
qed

lemma graphUnlink_ok:
  assumes "graph_wf g" "graph_live g a" "graph_live g b" "b \<in># neighbours g a"
  shows "\<exists>g'. graphUnlink g a b = Inr (True, g') \<and> graph_wf g' \<and> same_nodes g g' \<and> g_nodes g' = g_nodes g
    \<and> neighbours g' = nbrs_unlink (neighbours g) a b"
proof -
  have heap: "graph_heap g" and sym: "nbrs_sym (neighbours g)"
    using assms(1) by (simp_all add: graph_wf_def graph_sym_nbrs)
  obtain n where n: "g_node g a = Some n"
    using assms(2) by (auto simp: graph_live_def)
  obtain r arc where r: "graphNodeGetArc g a b = Inr (Some r)" "r \<in> set (gn_arcs n)" "g_arc g r = Some arc" "ga_to arc = b"
    using graphNodeGetArc_ok(1) [OF heap n assms(4)] by blast
  obtain g1 where g1: "graphRemoveArc g a r = Inr g1" "graph_heap g1" "same_nodes g g1" "g_nodes g1 = g_nodes g"
    "\<forall>c m. g_node g1 c = Some m \<longrightarrow> r \<notin> set (gn_arcs m)"
    "neighbours g1 = (neighbours g)(a := neighbours g a - {#b#})"
    using graphRemoveArc_ok [OF heap n r(2,3)] r(4) by blast
  have "graph_live g1 b"
    using assms(3) same_nodes_live [OF g1(3)] by simp
  then obtain m where m: "g_node g1 b = Some m"
    by (auto simp: graph_live_def)
  have "a \<in># neighbours g1 b"
    unfolding g1(6) by (rule nbrs_sym_unlink(2) [OF sym assms(4)])
  then obtain r2 arc2 where r2: "graphNodeGetArc g1 b a = Inr (Some r2)" "r2 \<in> set (gn_arcs m)" "g_arc g1 r2 = Some arc2" "ga_to arc2 = a"
    using graphNodeGetArc_ok(1) [OF g1(2) m] by blast
  obtain g2 where g2: "graphRemoveArc g1 b r2 = Inr g2" "graph_heap g2" "same_nodes g1 g2" "g_nodes g2 = g_nodes g1"
    "\<forall>c m. g_node g2 c = Some m \<longrightarrow> r2 \<notin> set (gn_arcs m)"
    "neighbours g2 = (neighbours g1)(b := neighbours g1 b - {#a#})"
    using graphRemoveArc_ok [OF g1(2) m r2(2,3)] r2(4) by blast
  have r_free: "\<forall>c m. g_node g2 c = Some m \<longrightarrow> r \<notin> set (gn_arcs m)"
    using g1(5) g2(1) m by (auto simp: graphRemoveArc_def derefNode_def split: if_splits dest: notin_set_remove1)
  let ?g3 = "g2 \<lparr> g_arc := (g_arc g2)(r := None) \<rparr>"
  let ?g4 = "g2 \<lparr> g_arc := (g_arc g2)(r := None, r2 := None) \<rparr>"
  have "graph_heap ?g3" "neighbours ?g3 = neighbours g2"
    using graph_free_arc [OF g2(2) r_free] by simp_all
  then have g4: "graph_heap ?g4" "neighbours ?g4 = neighbours g2"
    using graph_free_arc [of ?g3 r2] g2(5) by simp_all
  have nb: "neighbours ?g4 = nbrs_unlink (neighbours g) a b"
    unfolding g4(2) g2(6) g1(6) nbrs_unlink_def Let_def ..
  then have "graph_wf ?g4"
    using g4(1) nbrs_sym_unlink(1) [OF sym assms(4)] by (simp add: graph_wf_def graph_sym_nbrs)
  moreover have "same_nodes g ?g4"
    using same_nodes_trans [OF g1(3) g2(3)] by (simp add: same_nodes_def)
  moreover have "graphUnlink g a b = Inr (True, ?g4)"
    using r(1) g1(1) r2(1) g2(1) by (simp add: graphUnlink_def)
  ultimately show ?thesis
    using nb g1(4) g2(4) by auto
qed

lemma graphUnlink_not_linked:
  assumes "graph_wf g" "graph_live g a" "b \<notin># neighbours g a"
  shows "graphUnlink g a b = Inr (False, g)"
  using assms graphNodeGetArc_ok(2) [of g a _ b]
  by (auto simp: graphUnlink_def graph_wf_def graph_live_def)

lemma graphRemoveNode_ok:
  assumes "graph_wf g" "graph_live g a"
  shows "\<exists>g'. graphRemoveNode g a = Inr (True, g') \<and> graph_wf g' \<and> same_nodes g g' \<and> g_nodes g' = g_nodes g
    \<and> neighbours g' = nbrs_remove (neighbours g) a"
  using assms
proof (induction "arcsCount g a" arbitrary: g rule: less_induct)
  case less
  have heap: "graph_heap g" and sym: "nbrs_sym (neighbours g)"
    using less.prems(1) by (simp_all add: graph_wf_def graph_sym_nbrs)
  obtain n where n: "g_node g a = Some n"
    using less.prems(2) by (auto simp: graph_live_def)
  show ?case
  proof (cases "gn_arcs n")
    case Nil
    then have "neighbours g a = {#}"
      using n by (simp add: neighbours_def)
    moreover have "a \<notin># neighbours g c" for c
      using sym calculation by (simp add: nbrs_sym_def count_eq_zero_iff [symmetric])
    moreover have "filter_mset (\<lambda>x. x \<noteq> a) (neighbours g c) = neighbours g c" for c
      by (rule multiset_eqI) (use calculation(2) [of c] in \<open>auto simp: not_in_iff\<close>)
    ultimately have "neighbours g = nbrs_remove (neighbours g) a"
      by (auto simp: nbrs_remove_def fun_eq_iff)
    moreover have "graphRemoveNode g a = Inr (True, g)"
      using n Nil by (subst graphRemoveNode.simps) (simp add: derefNode_def)
    ultimately show ?thesis
      using less.prems(1) by auto
  next
    case (Cons r rs)
    obtain arc where arc: "g_arc g r = Some arc" "graph_live g (ga_to arc)"
      using graph_heap_arc [OF heap n, of r] Cons by auto
    let ?b = "ga_to arc"
    have b: "?b \<in># neighbours g a"
      using n Cons arc by (simp add: neighbours_def)
    obtain g1 where g1: "graphUnlink g a ?b = Inr (True, g1)" "graph_wf g1" "same_nodes g g1" "g_nodes g1 = g_nodes g"
      "neighbours g1 = nbrs_unlink (neighbours g) a ?b"
      using graphUnlink_ok [OF less.prems arc(2) b] by blast
    have "graph_live g1 a"
      using less.prems(2) same_nodes_live [OF g1(3)] by simp
    then obtain g2 where g2: "graphRemoveNode g1 a = Inr (True, g2)" "graph_wf g2" "same_nodes g1 g2" "g_nodes g2 = g_nodes g1"
      "neighbours g2 = nbrs_remove (neighbours g1) a"
      using less.hyps [OF graphUnlink_count [OF g1(1)] g1(2)] by blast
    have "nbrs_remove (nbrs_unlink (neighbours g) a ?b) a = nbrs_remove (neighbours g) a"
      by (auto simp: nbrs_remove_def nbrs_unlink_def fun_eq_iff Let_def)
    moreover have "graphRemoveNode g a = graphRemoveNode g1 a"
      using n Cons arc(1) g1(1) by (subst graphRemoveNode.simps) (simp add: derefNode_def derefArc_def)
    ultimately show ?thesis
      using g1 g2 same_nodes_trans [OF g1(3) g2(3)] by auto
  qed
qed

section \<open>The node table\<close>

text \<open>The table finds exactly the nodes of the graph, each under its own key.\<close>

definition graph_table :: "('h, gaddr) zhash_ops \<Rightarrow> ('h, 'u) Graph \<Rightarrow> bool" where
  "graph_table Z g \<longleftrightarrow>
     (\<forall>k a. zhash_lookup Z (g_nodes g) k = Some a \<longleftrightarrow> (\<exists>n. g_node g a = Some n \<and> gn_key n = k))"

lemma graph_table_lookup:
  "graph_table Z g \<Longrightarrow> g_node g a = Some n \<Longrightarrow> zhash_lookup Z (g_nodes g) (gn_key n) = Some a"
  by (simp add: graph_table_def)

lemma graph_table_live: "graph_table Z g \<Longrightarrow> zhash_lookup Z (g_nodes g) k = Some a \<Longrightarrow> graph_live g a"
  by (auto simp: graph_table_def graph_live_def)

lemma graph_table_inj:
  "graph_table Z g \<Longrightarrow> zhash_lookup Z (g_nodes g) k = Some a \<Longrightarrow> zhash_lookup Z (g_nodes g) l = Some a \<Longrightarrow> k = l"
  unfolding graph_table_def by (metis option.inject)

lemma same_nodes_key:
  assumes "same_nodes g g'"
  shows "(\<exists>n. g_node g' a = Some n \<and> gn_key n = k) \<longleftrightarrow> (\<exists>n. g_node g a = Some n \<and> gn_key n = k)"
proof -
  have "map_option gn_key (g_node g' a) = map_option gn_key (g_node g a)"
    using arg_cong [OF spec [OF assms [unfolded same_nodes_def], of a], of "map_option gn_key"]
    by (simp add: option.map_comp comp_def)
  then show ?thesis
    by (cases "g_node g' a"; cases "g_node g a") auto
qed

lemma same_nodes_table: "same_nodes g g' \<Longrightarrow> g_nodes g' = g_nodes g \<Longrightarrow> graph_table Z g' = graph_table Z g"
  by (simp only: graph_table_def same_nodes_key)

text \<open>Linking nodes of the table leaves the table alone.\<close>

lemma graphEnsureNode_known:
  "graph_table Z g \<Longrightarrow> graph_live g a \<Longrightarrow> graphEnsureNode Z g a = Inr (True, g)"
  by (auto simp: graphEnsureNode_def derefNode_def graph_live_def graph_table_lookup)

lemma graphAddArc_table:
  assumes "graph_table Z g" "graph_heap g" "graph_live g a" "graph_live g b" "graphAddArc Z g a b = Inr (r, g')"
  shows "g_nodes g' = g_nodes g \<and> graph_table Z g'"
proof -
  obtain g1 where g1: "graphArcNew g a b = Inr (g_next g, g1)" "same_nodes g g1" "g_nodes g1 = g_nodes g"
    using graphArcNew_ok [OF assms(2-4)] by blast
  have t: "graph_table Z g1"
    using assms(1) same_nodes_table [OF g1(2,3)] by blast
  moreover have "graph_live g1 a" "graph_live g1 b"
    using assms(3,4) same_nodes_live [OF g1(2)] by simp_all
  ultimately have "g' = g1"
    using assms(5) g1(1) by (simp add: graphAddArc_def graphEnsureNode_known)
  with t g1(3) show ?thesis by simp
qed

lemma graphLink_table:
  assumes "zhash Z" "graph_wf g" "graph_table Z g" "graph_live g a" "graph_live g b" "graphLink Z g a b = Inr (ok, g')"
  shows "g_nodes g' = g_nodes g \<and> graph_table Z g'"
proof -
  have heap: "graph_heap g"
    using assms(2) by (simp add: graph_wf_def)
  obtain r g1 where g1: "graphAddArc Z g a b = Inr (Some r, g1)" "graph_heap g1" "same_nodes g g1"
    using graphAddArc_ok [OF assms(1) heap assms(4,5)] by blast
  have t: "g_nodes g1 = g_nodes g" "graph_table Z g1"
    using graphAddArc_table [OF assms(3) heap assms(4,5) g1(1)] by simp_all
  obtain r2 where "graphAddArc Z g1 b a = Inr (r2, g')"
    using assms(6) g1(1) by (auto simp: graphLink_def rbind_eq_Inr_iff)
  then show ?thesis
    using graphAddArc_table [OF t(2) g1(2), of b a r2 g'] assms(4,5) t same_nodes_live [OF g1(3)] by simp
qed

section \<open>Properties\<close>

text \<open>C13: the operations on arcs implement the operations on neighbours. Linking two nodes adds each to the
  neighbours of the other; unlinking two linked nodes takes each away again; unlinking two nodes that are
  not linked fails and changes nothing. The graph stays well formed (symmetric, no dangling arc), and the
  nodes keep their keys and data.\<close>

theorem graph_refinement:
  assumes "zhash Z" "graph_wf g" "graph_live g a" "graph_live g b"
  shows "(\<exists>g'. graphLink Z g a b = Inr (True, g') \<and> graph_wf g' \<and> same_nodes g g'
        \<and> neighbours g' = nbrs_link (neighbours g) a b)
    \<and> (\<exists>ok g'. graphUnlink g a b = Inr (ok, g') \<and> graph_wf g' \<and> same_nodes g g' \<and> (ok \<longleftrightarrow> b \<in># neighbours g a)
        \<and> (if ok then neighbours g' = nbrs_unlink (neighbours g) a b else g' = g))"
proof
  show "\<exists>g'. graphLink Z g a b = Inr (True, g') \<and> graph_wf g' \<and> same_nodes g g'
        \<and> neighbours g' = nbrs_link (neighbours g) a b"
    by (rule graphLink_ok [OF assms])
  show "\<exists>ok g'. graphUnlink g a b = Inr (ok, g') \<and> graph_wf g' \<and> same_nodes g g' \<and> (ok \<longleftrightarrow> b \<in># neighbours g a)
        \<and> (if ok then neighbours g' = nbrs_unlink (neighbours g) a b else g' = g)"
  proof (cases "b \<in># neighbours g a")
    case True
    then show ?thesis
      using graphUnlink_ok [OF assms(2-4)] by fastforce
  next
    case False
    then show ?thesis
      using graphUnlink_not_linked [OF assms(2,3)] assms(2) by fastforce
  qed
qed

text \<open>C17: removing a node ends, whatever the graph: in a well-formed graph the loop unlinks the node from all its
  neighbours, those it is linked with several times or with itself included, and leaves every other link.\<close>

theorem graphRemoveNode_terminates:
  assumes "graph_wf g" "graph_live g a"
  shows "\<exists>g'. graphRemoveNode g a = Inr (True, g') \<and> graph_wf g' \<and> same_nodes g g'
    \<and> neighbours g' = nbrs_remove (neighbours g) a"
  using graphRemoveNode_ok [OF assms] by blast

text \<open>A graph of two linked nodes.\<close>

definition exGraph :: "((string \<times> gaddr) list, nat) Graph" where
  "exGraph =
     \<lparr> g_nodes = [(''B'', 1), (''A'', 0)],
       g_node = [0 \<mapsto> \<lparr> gn_arcs = [2], gn_key = ''A'', gn_user_data = 7 \<rparr>,
                 1 \<mapsto> \<lparr> gn_arcs = [3], gn_key = ''B'', gn_user_data = 8 \<rparr>],
       g_arc = [2 \<mapsto> \<lparr> ga_from = 0, ga_to = 1 \<rparr>, 3 \<mapsto> \<lparr> ga_from = 1, ga_to = 0 \<rparr>], g_next = 4 \<rparr>"

lemma exGraph_neighbours: "neighbours exGraph = (\<lambda>_. {#})(0 := {#1#}, 1 := {#0#})"
  by (auto simp: neighbours_def exGraph_def fun_eq_iff)

lemma exGraph_wf: "graph_wf exGraph" "graph_live exGraph 0" "graph_live exGraph 1"
proof -
  have "graph_heap exGraph"
    by (rule graph_heapI) (auto simp: exGraph_def graph_live_def split: if_splits)
  moreover have "nbrs_sym (neighbours exGraph)"
    unfolding exGraph_neighbours nbrs_sym_def by auto
  ultimately show "graph_wf exGraph"
    by (simp add: graph_wf_def graph_sym_nbrs)
qed (simp_all add: exGraph_def graph_live_def)

theorem graph_refinement_witness:
  "\<exists>g'. graphUnlink exGraph 0 1 = Inr (True, g') \<and> neighbours g' = (\<lambda>_. {#})"
proof -
  obtain ok g' where "graphUnlink exGraph 0 1 = Inr (ok, g')" "ok \<longleftrightarrow> 1 \<in># neighbours exGraph 0"
    "if ok then neighbours g' = nbrs_unlink (neighbours exGraph) 0 1 else g' = exGraph"
    using graph_refinement [OF al.zhash_axioms exGraph_wf] by blast
  then show ?thesis
    by (auto simp: exGraph_neighbours nbrs_unlink_def fun_eq_iff)
qed

theorem graphRemoveNode_terminates_witness:
  "\<exists>g'. graphRemoveNode exGraph 0 = Inr (True, g') \<and> neighbours g' = (\<lambda>_. {#})"
proof -
  obtain g' where "graphRemoveNode exGraph 0 = Inr (True, g')" "neighbours g' = nbrs_remove (neighbours exGraph) 0"
    using graphRemoveNode_terminates [OF exGraph_wf(1,2)] by blast
  then show ?thesis
    by (auto simp: exGraph_neighbours nbrs_remove_def fun_eq_iff)
qed

end
