(* ===== verification/SocketSession.thy ===== *)
theory SocketSession
  imports CFormat
begin

text \<open>
  \<open>src/common/session/socket_session.c\<close>: the session of a socket and its key. The key of a client is
  its five-byte ZeroMQ identity in hexadecimal, kept in a buffer of eleven bytes; the event server turns
  keys back into identities to address clients. A key is the string in the buffer.
\<close>

abbreviation (input) SOCKET_SESSION_ID_SIZE :: nat where "SOCKET_SESSION_ID_SIZE \<equiv> 11"

record SocketSession =
  ss_accountId :: u64
  ss_routerId :: u16
  ss_mapId :: u16
  ss_sessionKey :: string
  ss_authenticated :: bool

definition socketSessionInit :: "u64 \<Rightarrow> u16 \<Rightarrow> u16 \<Rightarrow> string \<Rightarrow> bool \<Rightarrow> SocketSession" where
  "socketSessionInit accountId routerId mapId sessionKey authenticated =
     \<lparr> ss_accountId = accountId, ss_routerId = routerId, ss_mapId = mapId, ss_sessionKey = sessionKey,
       ss_authenticated = authenticated \<rparr>"

definition socketSessionGenSessionKey :: "bytes \<Rightarrow> string result" where
  "socketSessionGenSessionKey sessionId =
     (if length sessionId < 5 then Inl OutOfBounds
      else Inr (c_snprintf SOCKET_SESSION_ID_SIZE (concat (map fmtByteHex (take 5 sessionId)))))"

definition socketSessionGenId :: "string \<Rightarrow> bytes" where
  "socketSessionGenId sessionKey =
     (let identity = strtoull16 sessionKey in
      [ucast (and (drop_bit 32 identity) 0xFF), ucast (and (drop_bit 24 identity) 0xFF),
       ucast (and (drop_bit 16 identity) 0xFF), ucast (and (drop_bit 8 identity) 0xFF),
       ucast (and identity 0xFF)])"

section \<open>Keys and identities\<close>

lemma length_fmtByteHex [simp]: "length (fmtByteHex b) = 2"
  by (simp add: fmtByteHex_def)

lemma unat_byte: "unat (b :: byte) < 256"
  using unsigned_less [of b] by simp

lemma hexNumber_fmtBytes:
  "foldl (\<lambda>acc c. 16 * acc + the (hexValue c)) n (concat (map fmtByteHex bs)) = foldl (\<lambda>acc b. 256 * acc + unat b) n bs"
proof (induction bs arbitrary: n)
  case (Cons b bs)
  have "unat b div 16 < 16" "unat b mod 16 < 16"
    using unat_byte [of b] by (auto simp: less_mult_imp_div_less)
  then have "foldl (\<lambda>acc c. 16 * acc + the (hexValue c)) n (fmtByteHex b) = 256 * n + unat b"
    by (simp add: fmtByteHex_def)
  then show ?case
    using Cons.IH by simp
qed simp

lemma hexValue_fmtBytes: "c \<in> set (concat (map fmtByteHex bs)) \<Longrightarrow> hexValue c \<noteq> None"
proof (induction bs)
  case (Cons b bs)
  have "unat b div 16 < 16" "unat b mod 16 < 16"
    using unat_byte [of b] by (auto simp: less_mult_imp_div_less)
  then show ?case
    using Cons by (auto simp: fmtByteHex_def)
qed simp

lemma sessionKey_full:
  assumes "length i = 5"
  shows "socketSessionGenSessionKey i = Inr (concat (map fmtByteHex i))"
proof -
  have "length (concat (map fmtByteHex i)) = 10"
    using assms by (simp add: length_concat comp_def sum_list_triv)
  then show ?thesis
    using assms by (simp add: socketSessionGenSessionKey_def c_snprintf_def)
qed

lemma identity_byte:
  assumes "n < 2 ^ 64"
  shows "ucast (and (drop_bit k (of_nat n :: u64)) 0xFF) = (of_nat (n div 2 ^ k) :: byte)"
proof -
  have "and x 0xFF = take_bit 8 x" for x :: u64
    by (simp add: take_bit_eq_mask mask_eq_exp_minus_1)
  then have "unat (and (drop_bit k (of_nat n :: u64)) 0xFF) = take_bit 8 (n div 2 ^ k)"
    using assms by (simp only: unsigned_take_bit_eq unsigned_drop_bit_eq unsigned_of_nat)
      (simp add: take_bit_nat_eq_self drop_bit_eq_div)
  then have "unat (ucast (and (drop_bit k (of_nat n :: u64)) 0xFF) :: byte) = unat (of_nat (n div 2 ^ k) :: byte)"
    by (simp add: unsigned_ucast_eq unsigned_of_nat)
  then show ?thesis
    by (simp add: word_unat_eq_iff)
qed

lemma sessionKey_genId:
  assumes "length i = 5"
  shows "\<exists>key. socketSessionGenSessionKey i = Inr key \<and> length key + 1 = SOCKET_SESSION_ID_SIZE
    \<and> socketSessionGenId key = i"
proof -
  obtain a b c d e where i: "i = [a, b, c, d, e]"
    using assms by (auto simp: numeral_eq_Suc length_Suc_conv)
  let ?key = "concat (map fmtByteHex i)"
  let ?n = "256 * (256 * (256 * (256 * unat a + unat b) + unat c) + unat d) + unat e"
  have key: "socketSessionGenSessionKey i = Inr ?key"
    by (rule sessionKey_full [OF assms])
  have less: "?n < 2 ^ 64"
    using unat_byte [of a] unat_byte [of b] unat_byte [of c] unat_byte [of d] unat_byte [of e] by simp
  have "takeWhile (\<lambda>c. hexValue c \<noteq> None) ?key = ?key"
    using hexValue_fmtBytes [of _ i] by (simp only: takeWhile_eq_all_conv) blast
  moreover have "hexNumber ?key = ?n"
    using hexNumber_fmtBytes [of 0 i] by (simp add: hexNumber_def i)
  ultimately have num: "strtoull16 ?key = of_nat ?n"
    using less by (simp only: strtoull16_def Let_def if_True)
  have div: "?n div 2 ^ 32 = unat a" "?n div 2 ^ 24 = 256 * unat a + unat b"
    "?n div 2 ^ 16 = 256 * (256 * unat a + unat b) + unat c"
    "?n div 2 ^ 8 = 256 * (256 * (256 * unat a + unat b) + unat c) + unat d"
    using unat_byte [of b] unat_byte [of c] unat_byte [of d] unat_byte [of e] by simp_all
  have last: "ucast (and (of_nat ?n :: u64) 0xFF) = (of_nat ?n :: byte)"
    using identity_byte [OF less, of 0] by simp
  have "socketSessionGenId ?key = [of_nat (?n div 2 ^ 32), of_nat (?n div 2 ^ 24), of_nat (?n div 2 ^ 16),
      of_nat (?n div 2 ^ 8), of_nat ?n]"
    unfolding socketSessionGenId_def Let_def num identity_byte [OF less] last ..
  also have "\<dots> = i"
  proof -
    have z: "(256 :: byte) = 0" "(65536 :: byte) = 0" "(16777216 :: byte) = 0" "(4294967296 :: byte) = 0"
      by simp_all
    show ?thesis
      unfolding div i by (simp add: z)
  qed
  finally have "socketSessionGenId ?key = i" .
  then show ?thesis
    using key assms by (simp add: length_concat comp_def sum_list_triv)
qed

text \<open>The identity of a client survives the trip through its key, so clients have distinct keys and a
  packet addressed by a key reaches the client the key was made for; the key fills its buffer exactly.\<close>

theorem socketSession_key_roundtrip:
  assumes "length i = 5"
  shows "\<exists>key. socketSessionGenSessionKey i = Inr key \<and> length key + 1 = SOCKET_SESSION_ID_SIZE
    \<and> socketSessionGenId key = i"
  by (rule sessionKey_genId [OF assms])

theorem socketSession_key_roundtrip_witness:
  "socketSessionGenSessionKey [0, 0x6B, 0x8B, 0x45, 0x67] = Inr ''006B8B4567''
   \<and> socketSessionGenId ''006B8B4567'' = [0, 0x6B, 0x8B, 0x45, 0x67]"
proof -
  have "socketSessionGenSessionKey [0, 0x6B, 0x8B, 0x45, 0x67] = Inr ''006B8B4567''"
    by code_simp
  then show ?thesis
    using socketSession_key_roundtrip [of "[0, 0x6B, 0x8B, 0x45, 0x67]"] by auto
qed

end
