(* ===== verification/EventServer.thy ===== *)
theory EventServer
  imports Graph Router SocketSession
begin

text \<open>
  \<open>src/common/server/event_server.c\<close>: the event server keeps the graph of the clients that see each other
  and sends packets to clients through the router, which it asks to multicast a frame to a list of
  identities. The state has the graph and the messages sent to the router so far; whether the socket
  accepts a message is a part of it.
\<close>

section \<open>State\<close>

record GraphNodeClient =
  gc_around :: bool

record 'h EventServer =
  es_routerId :: u16
  es_clientsGraph :: "('h, GraphNodeClient) Graph"
  es_router :: "frames list"
  es_accepts :: "frames \<Rightarrow> bool"

abbreviation (input) EVENT_SERVER_EVENT :: u32 where "EVENT_SERVER_EVENT \<equiv> 2"

definition graphNodeClientNew :: GraphNodeClient where
  "graphNodeClientNew = \<lparr> gc_around = False \<rparr>"

definition eventServerInit :: "('h, gaddr) zhash_ops \<Rightarrow> u16 \<Rightarrow> (frames \<Rightarrow> bool) \<Rightarrow> 'h EventServer" where
  "eventServerInit Z routerId accepts =
     \<lparr> es_routerId = routerId, es_clientsGraph = graphInit Z, es_router = [], es_accepts = accepts \<rparr>"

section \<open>Sending\<close>

definition eventServerSend :: "'h EventServer \<Rightarrow> frames \<Rightarrow> bool \<times> 'h EventServer" where
  "eventServerSend self msg =
     (if es_accepts self msg then (True, self \<lparr> es_router := es_router self @ [msg] \<rparr>) else (False, self))"

definition eventServerSendToClients :: "'h EventServer \<Rightarrow> string list \<Rightarrow> frames \<Rightarrow> (bool \<times> 'h EventServer) result" where
  "eventServerSendToClients self clients broadcastMsg =
     (case broadcastMsg of
        [] \<Rightarrow> Inl NullDeref
      | packet # _ \<Rightarrow> Inr (eventServerSend self
          (enc32 ROUTER_WORKER_MULTICAST # packet # map socketSessionGenId clients)))"

definition eventServerSendToClient :: "'h EventServer \<Rightarrow> string \<Rightarrow> bytes \<Rightarrow> bool \<times> 'h EventServer" where
  "eventServerSendToClient self identityKey packet =
     eventServerSend self [enc32 ROUTER_WORKER_MULTICAST, packet, socketSessionGenId identityKey]"

text \<open>
  \<open>eventServerDispatchEvent\<close>, which the workers call: the frames they publish. A \<open>GameEvent\<close> has the key of
  the emitter, a byte of padding, the type and the data; \<open>dataSize\<close> is the size of the union of the data of
  all the events, \<open>pad\<close> the padding.
\<close>

definition eventServerDispatchEvent :: "nat \<Rightarrow> byte \<Rightarrow> bytes \<Rightarrow> u32 \<Rightarrow> bytes \<Rightarrow> frames result" where
  "eventServerDispatchEvent dataSize pad emitterSk eventType event =
     (if length emitterSk < SOCKET_SESSION_ID_SIZE \<or> dataSize < length event then Inl OutOfBounds
      else Inr [enc32 EVENT_SERVER_EVENT, enc32 eventType,
        take SOCKET_SESSION_ID_SIZE emitterSk @ [pad] @ enc32 eventType @ event])"

section \<open>Receiving events\<close>

text \<open>\<open>process\<close> is the \<open>eventServerProcess\<close> of the server: it takes the type and the data of the event.\<close>

definition eventServerHandleEvent ::
    "('s \<Rightarrow> u32 \<Rightarrow> bytes \<Rightarrow> (bool \<times> 's) result) option \<Rightarrow> 's \<Rightarrow> frames \<Rightarrow> (bool \<times> 's) result" where
  "eventServerHandleEvent process self msg =
     (case msg of
        [] \<Rightarrow> Inr (False, self)
      | eventTypeFrame # msg \<Rightarrow>
          rbind (frame_read 4 eventTypeFrame) (\<lambda>bs.
          case msg of
            [] \<Rightarrow> Inl NullDeref
          | eventData # _ \<Rightarrow> (case process of
                None \<Rightarrow> Inr (False, self)
              | Some p \<Rightarrow> p self (dec32 bs) eventData)))"

definition eventServerSubscribe ::
    "('s \<Rightarrow> u32 \<Rightarrow> bytes \<Rightarrow> (bool \<times> 's) result) option \<Rightarrow> 's \<Rightarrow> frames \<Rightarrow> (int \<times> 's) result" where
  "eventServerSubscribe process self msg =
     (case zmsg_pop msg of
        (None, _) \<Rightarrow> Inr (-1, self)
      | (Some header, msg) \<Rightarrow>
          rbind (frame_read 4 header) (\<lambda>bs.
          if dec32 bs = EVENT_SERVER_EVENT
          then rbind (eventServerHandleEvent process self msg) (\<lambda>(ok, self). Inr (if ok then 1 else 0, self))
          else Inr (1, self)))"

lemma eventServerSubscribe_dispatched:
  assumes "eventServerDispatchEvent dataSize pad emitterSk eventType event = Inr msg"
  shows "eventServerSubscribe (Some p) self msg =
    rbind (p self eventType (take SOCKET_SESSION_ID_SIZE emitterSk @ [pad] @ enc32 eventType @ event))
      (\<lambda>(ok, self). Inr (if ok then 1 else 0, self))"
  using assms
  by (auto simp: eventServerSubscribe_def eventServerHandleEvent_def eventServerDispatchEvent_def split: if_splits)

section \<open>The clients\<close>

definition eventServerGetClientNode ::
    "('h, gaddr) zhash_ops \<Rightarrow> 'h EventServer \<Rightarrow> string \<Rightarrow> (gaddr option \<times> 'h EventServer) result" where
  "eventServerGetClientNode Z self sessionKey =
     (case graphGetNode Z (es_clientsGraph self) sessionKey of
        Some clientNode \<Rightarrow> Inr (Some clientNode, self)
      | None \<Rightarrow>
          let (clientNode, g) = graphNodeNew (es_clientsGraph self) sessionKey graphNodeClientNew in
          rbind (graphInsertNode Z g clientNode) (\<lambda>(ok, g).
          Inr (if ok then Some clientNode else None, self \<lparr> es_clientsGraph := g \<rparr>)))"

definition eventServerLinkClients ::
    "('h, gaddr) zhash_ops \<Rightarrow> 'h EventServer \<Rightarrow> gaddr \<Rightarrow> gaddr \<Rightarrow> (bool \<times> 'h EventServer) result" where
  "eventServerLinkClients Z self node1 node2 =
     rbind (graphLink Z (es_clientsGraph self) node1 node2) (\<lambda>(ok, g). Inr (ok, self \<lparr> es_clientsGraph := g \<rparr>))"

definition eventServerUnlinkClients :: "'h EventServer \<Rightarrow> gaddr \<Rightarrow> gaddr \<Rightarrow> (bool \<times> 'h EventServer) result" where
  "eventServerUnlinkClients self node1 node2 =
     rbind (graphUnlink (es_clientsGraph self) node1 node2) (\<lambda>(ok, g). Inr (ok, self \<lparr> es_clientsGraph := g \<rparr>))"

definition eventServerRemoveClient ::
    "('h, gaddr) zhash_ops \<Rightarrow> 'h EventServer \<Rightarrow> string \<Rightarrow> (bool \<times> 'h EventServer) result" where
  "eventServerRemoveClient Z self sessionKey =
     rbind (eventServerGetClientNode Z self sessionKey) (\<lambda>(node, self). case node of
       None \<Rightarrow> Inr (False, self)
     | Some node \<Rightarrow> rbind (graphRemoveNode (es_clientsGraph self) node) (\<lambda>(ok, g). Inr (ok, self \<lparr> es_clientsGraph := g \<rparr>)))"

text \<open>The keys of the nodes that the arcs lead to.\<close>

fun graphArcKeys :: "('h, 'u) Graph \<Rightarrow> gaddr list \<Rightarrow> string list result" where
  "graphArcKeys g [] = Inr []"
| "graphArcKeys g (r # rs) =
     rbind (derefArc g r) (\<lambda>arc.
     rbind (derefNode g (ga_to arc)) (\<lambda>nodeAround.
     rbind (graphArcKeys g rs) (\<lambda>keys. Inr (gn_key nodeAround # keys))))"

definition eventServerGetClientsAround ::
    "('h, gaddr) zhash_ops \<Rightarrow> 'h EventServer \<Rightarrow> string \<Rightarrow> (bool \<times> string list \<times> 'h EventServer) result" where
  "eventServerGetClientsAround Z self sessionKey =
     rbind (eventServerGetClientNode Z self sessionKey) (\<lambda>(node, self). case node of
       None \<Rightarrow> Inr (False, [], self)
     | Some a \<Rightarrow>
         rbind (derefNode (es_clientsGraph self) a) (\<lambda>node.
         rbind (graphArcKeys (es_clientsGraph self) (gn_arcs node)) (\<lambda>clients. Inr (True, clients, self))))"

section \<open>The abstract view\<close>

text \<open>
  What the event server knows: the node of each key, the neighbours of each node and the nodes that are
  marked. The invariant: the graph is well formed, the table has exactly the nodes, no client is its own
  neighbour and no two clients are linked twice.
\<close>

type_synonym 'h clients = "('h, GraphNodeClient) Graph"

definition cg_around :: "'h clients \<Rightarrow> gaddr \<Rightarrow> bool" where
  "cg_around g a = (case map_option gn_user_data (g_node g a) of None \<Rightarrow> False | Some c \<Rightarrow> gc_around c)"

definition nbrs_simple :: "nbrs \<Rightarrow> bool" where
  "nbrs_simple f \<longleftrightarrow> (\<forall>a. a \<notin># f a) \<and> (\<forall>a b. count (f a) b \<le> 1)"

definition cg_inv :: "('h, gaddr) zhash_ops \<Rightarrow> 'h clients \<Rightarrow> bool" where
  "cg_inv Z g \<longleftrightarrow> graph_wf g \<and> graph_table Z g \<and> nbrs_simple (neighbours g)"

text \<open>The clients that see the client with a key.\<close>

definition clientsAround :: "('h, gaddr) zhash_ops \<Rightarrow> 'h clients \<Rightarrow> string \<Rightarrow> string set" where
  "clientsAround Z g k =
     {l. \<exists>a b. graphGetNode Z g k = Some a \<and> graphGetNode Z g l = Some b \<and> b \<in># neighbours g a}"

lemma cg_inv_wf: "cg_inv Z g \<Longrightarrow> graph_wf g" "cg_inv Z g \<Longrightarrow> graph_heap g" "cg_inv Z g \<Longrightarrow> graph_table Z g"
  "cg_inv Z g \<Longrightarrow> nbrs_sym (neighbours g)" "cg_inv Z g \<Longrightarrow> nbrs_simple (neighbours g)"
  by (simp_all add: cg_inv_def graph_wf_def graph_sym_nbrs)

lemma cg_node_inj: "cg_inv Z g \<Longrightarrow> graphGetNode Z g k = Some a \<Longrightarrow> graphGetNode Z g l = Some a \<Longrightarrow> k = l"
  unfolding cg_inv_def graphGetNode_def using graph_table_inj by blast

lemma cg_node_live: "cg_inv Z g \<Longrightarrow> graphGetNode Z g k = Some a \<Longrightarrow> graph_live g a"
  unfolding cg_inv_def graphGetNode_def using graph_table_live by blast

lemma cg_node_key:
  assumes "cg_inv Z g" "graph_live g a"
  obtains n where "g_node g a = Some n" "graphGetNode Z g (gn_key n) = Some a"
  using assms graph_table_lookup [of Z g a] by (fastforce simp: cg_inv_def graph_live_def graphGetNode_def)

lemma nbrs_live:
  assumes "graph_heap g" "b \<in># neighbours g a"
  shows "graph_live g a" "graph_live g b"
proof -
  obtain n where n: "g_node g a = Some n"
    using assms(2) by (cases "g_node g a") (auto simp: neighbours_def)
  then show "graph_live g a"
    by (simp add: graph_live_def)
  obtain r where "r \<in> set (gn_arcs n)" "b = ga_to (the (g_arc g r))"
    using assms(2) n by (auto simp: neighbours_def)
  then show "graph_live g b"
    using graph_heap_arc [OF assms(1) n, of r] by (metis option.sel)
qed

lemma same_nodes_around:
  assumes "same_nodes g g'"
  shows "cg_around g' = cg_around g"
proof
  fix a
  have "map_option (\<lambda>n. n \<lparr> gn_arcs := [] \<rparr>) (g_node g' a) = map_option (\<lambda>n. n \<lparr> gn_arcs := [] \<rparr>) (g_node g a)"
    using assms by (simp add: same_nodes_def)
  from arg_cong [OF this, of "map_option gn_user_data"] show "cg_around g' a = cg_around g a"
    by (simp add: cg_around_def option.map_comp comp_def)
qed

section \<open>The operations keep the invariant\<close>

lemma cg_new_node:
  assumes "zhash Z" "cg_inv Z g" "graphGetNode Z g k = None"
  shows "\<exists>g'. graphInsertNode Z (snd (graphNodeNew g k graphNodeClientNew)) (g_next g) = Inr (True, g')
    \<and> cg_inv Z g' \<and> graphGetNode Z g' = (graphGetNode Z g)(k \<mapsto> g_next g) \<and> neighbours g' = neighbours g
    \<and> cg_around g' = cg_around g"
proof -
  let ?a = "g_next g"
  let ?n = "\<lparr> gn_arcs = [], gn_key = k, gn_user_data = graphNodeClientNew \<rparr>"
  obtain t where t: "zhash_insert Z (g_nodes g) k ?a = Some t" "zhash_lookup Z t = (zhash_lookup Z (g_nodes g))(k \<mapsto> ?a)"
    using zhash.zh_insert [OF assms(1)] assms(3) unfolding graphGetNode_def by blast
  let ?g' = "g \<lparr> g_node := (g_node g)(?a \<mapsto> ?n), g_next := ?a + 1, g_nodes := t \<rparr>"
  have heap: "graph_heap g"
    by (rule cg_inv_wf [OF assms(2)])
  have none: "g_node g ?a = None"
    using graph_heap_fresh [OF heap] by blast
  have nb: "neighbours ?g' = neighbours g"
    using none by (auto simp: neighbours_def fun_eq_iff cong: option.case_cong)
  have "graph_heap ?g'"
  proof (rule graph_heapI)
    fix c m assume m: "g_node ?g' c = Some m"
    then show "distinct (gn_arcs m)"
      using graph_heap_distinct [OF heap] by (auto split: if_splits)
    fix r assume r: "r \<in> set (gn_arcs m)"
    then have "g_node g c = Some m"
      using m by (auto split: if_splits)
    then show "\<exists>arc. g_arc ?g' r = Some arc \<and> ga_from arc = c \<and> graph_live ?g' (ga_to arc)"
      using heap r by (fastforce simp: graph_heap_def graph_live_def)
  next
    fix x assume "g_next ?g' \<le> x"
    then show "g_node ?g' x = None \<and> g_arc ?g' x = None"
      using graph_heap_fresh [OF heap, of x] by simp
  qed
  moreover have "graph_table Z ?g'"
    unfolding graph_table_def
  proof (intro allI)
    fix l b
    have old: "zhash_lookup Z (g_nodes g) l = Some b \<longleftrightarrow> (\<exists>n. g_node g b = Some n \<and> gn_key n = l)" for l b
      using assms(2) by (simp add: cg_inv_def graph_table_def)
    show "zhash_lookup Z (g_nodes ?g') l = Some b \<longleftrightarrow> (\<exists>n. g_node ?g' b = Some n \<and> gn_key n = l)"
      using old [of l b] old [of k b] assms(3) t(2) none by (auto simp: graphGetNode_def)
  qed
  ultimately have "cg_inv Z ?g'"
    using assms(2) nb by (simp add: cg_inv_def graph_wf_def graph_sym_nbrs)
  moreover have "graphInsertNode Z (snd (graphNodeNew g k graphNodeClientNew)) ?a = Inr (True, ?g')"
    using t(1) by (simp add: graphInsertNode_def graphNodeNew_def derefNode_def)
  moreover have "cg_around ?g' = cg_around g"
    using none by (auto simp: cg_around_def graphNodeClientNew_def fun_eq_iff)
  ultimately show ?thesis
    using nb t(2) by (intro exI [of _ ?g']) (simp add: graphGetNode_def fun_eq_iff)
qed

lemma eventServerGetClientNode_ok:
  assumes "zhash Z" "cg_inv Z (es_clientsGraph es)"
  obtains a g' where "eventServerGetClientNode Z es k = Inr (Some a, es \<lparr> es_clientsGraph := g' \<rparr>)" "cg_inv Z g'"
    "graphGetNode Z g' = (graphGetNode Z (es_clientsGraph es))(k \<mapsto> a)" "neighbours g' = neighbours (es_clientsGraph es)"
    "cg_around g' = cg_around (es_clientsGraph es)"
    "graphGetNode Z (es_clientsGraph es) k \<noteq> None \<Longrightarrow> g' = es_clientsGraph es"
proof (cases "graphGetNode Z (es_clientsGraph es) k")
  case None
  obtain g' where "graphInsertNode Z (snd (graphNodeNew (es_clientsGraph es) k graphNodeClientNew)) (g_next (es_clientsGraph es)) = Inr (True, g')"
    "cg_inv Z g'" "graphGetNode Z g' = (graphGetNode Z (es_clientsGraph es))(k \<mapsto> g_next (es_clientsGraph es))"
    "neighbours g' = neighbours (es_clientsGraph es)" "cg_around g' = cg_around (es_clientsGraph es)"
    using cg_new_node [OF assms None] by blast
  then show thesis
    using None that [of "g_next (es_clientsGraph es)" g']
    by (simp add: eventServerGetClientNode_def graphNodeNew_def)
next
  case (Some a)
  then show thesis
    using that [of a "es_clientsGraph es"] assms(2) by (simp add: eventServerGetClientNode_def fun_upd_idem)
qed

lemma nbrs_simple_link: "nbrs_simple f \<Longrightarrow> a \<noteq> b \<Longrightarrow> b \<notin># f a \<Longrightarrow> a \<notin># f b \<Longrightarrow> nbrs_simple (nbrs_link f a b)"
  by (auto simp: nbrs_simple_def nbrs_link_def Let_def not_in_iff)

lemma nbrs_simple_unlink: "nbrs_simple f \<Longrightarrow> nbrs_simple (nbrs_unlink f a b)"
  unfolding nbrs_simple_def nbrs_unlink_def Let_def
  by (auto intro: le_trans [OF diff_le_self] dest: in_diffD)

lemma nbrs_sym_mem: "nbrs_sym f \<Longrightarrow> b \<in># f a \<longleftrightarrow> a \<in># f b"
  by (simp add: nbrs_sym_def count_greater_zero_iff [symmetric] del: count_greater_zero_iff)

lemma cg_link_ok:
  assumes "zhash Z" "cg_inv Z g" "graph_live g a" "graph_live g b" "a \<noteq> b" "b \<notin># neighbours g a"
  obtains g' where "graphLink Z g a b = Inr (True, g')" "cg_inv Z g'" "graphGetNode Z g' = graphGetNode Z g"
    "neighbours g' = nbrs_link (neighbours g) a b" "cg_around g' = cg_around g"
proof -
  have wf: "graph_wf g" and table: "graph_table Z g" and simple: "nbrs_simple (neighbours g)"
    by (rule cg_inv_wf [OF assms(2)])+
  obtain g' where g': "graphLink Z g a b = Inr (True, g')" "graph_wf g'" "same_nodes g g'"
    "neighbours g' = nbrs_link (neighbours g) a b"
    using graphLink_ok [OF assms(1) wf assms(3,4)] by blast
  have t: "g_nodes g' = g_nodes g" "graph_table Z g'"
    using graphLink_table [OF assms(1) wf table assms(3,4) g'(1)] by simp_all
  have "a \<notin># neighbours g b"
    using assms(6) nbrs_sym_mem [OF cg_inv_wf(4) [OF assms(2)]] by blast
  then have "cg_inv Z g'"
    using g'(2,4) t(2) nbrs_simple_link [OF simple assms(5,6)] by (simp add: cg_inv_def)
  then show thesis
    using that g'(1,4) t(1) same_nodes_around [OF g'(3)] by (simp add: graphGetNode_def fun_eq_iff)
qed

lemma cg_unlink_ok:
  assumes "cg_inv Z g" "b \<in># neighbours g a"
  obtains g' where "graphUnlink g a b = Inr (True, g')" "cg_inv Z g'" "graphGetNode Z g' = graphGetNode Z g"
    "neighbours g' = nbrs_unlink (neighbours g) a b" "cg_around g' = cg_around g"
proof -
  have live: "graph_live g a" "graph_live g b"
    using nbrs_live [OF cg_inv_wf(2) [OF assms(1)] assms(2)] by simp_all
  obtain g' where g': "graphUnlink g a b = Inr (True, g')" "graph_wf g'" "same_nodes g g'" "g_nodes g' = g_nodes g"
    "neighbours g' = nbrs_unlink (neighbours g) a b"
    using graphUnlink_ok [OF cg_inv_wf(1) [OF assms(1)] live assms(2)] by blast
  then have "cg_inv Z g'"
    using assms(1) same_nodes_table [OF g'(3,4), of Z] nbrs_simple_unlink by (auto simp: cg_inv_def)
  then show thesis
    using that g' same_nodes_around [OF g'(3)] by (simp add: graphGetNode_def fun_eq_iff)
qed

text \<open>Removing a client takes it away from every neighbour; its node stays in the table.\<close>

lemma nbrs_simple_remove: "nbrs_simple f \<Longrightarrow> nbrs_simple (nbrs_remove f a)"
  unfolding nbrs_simple_def nbrs_remove_def by (auto simp: count_filter_mset)

lemma cg_remove_ok:
  assumes "cg_inv Z g" "graph_live g a"
  obtains g' where "graphRemoveNode g a = Inr (True, g')" "cg_inv Z g'" "graphGetNode Z g' = graphGetNode Z g"
    "neighbours g' = nbrs_remove (neighbours g) a" "cg_around g' = cg_around g"
proof -
  obtain g' where g': "graphRemoveNode g a = Inr (True, g')" "graph_wf g'" "same_nodes g g'" "g_nodes g' = g_nodes g"
    "neighbours g' = nbrs_remove (neighbours g) a"
    using graphRemoveNode_ok [OF cg_inv_wf(1) [OF assms(1)] assms(2)] by blast
  then have "cg_inv Z g'"
    using assms(1) same_nodes_table [OF g'(3,4), of Z] nbrs_simple_remove by (auto simp: cg_inv_def)
  then show thesis
    using that g' same_nodes_around [OF g'(3)] by (simp add: graphGetNode_def fun_eq_iff)
qed

lemma cg_inv_init:
  assumes "zhash Z"
  shows "cg_inv Z (graphInit Z :: 'h clients)"
proof -
  let ?g = "graphInit Z :: 'h clients"
  have nb: "neighbours ?g = (\<lambda>_. {#})"
    by (simp add: neighbours_def graphInit_def fun_eq_iff)
  have "nbrs_sym (neighbours ?g)" "nbrs_simple (neighbours ?g)"
    unfolding nb by (simp_all add: nbrs_sym_def nbrs_simple_def)
  moreover have "graph_heap ?g" "graph_table Z ?g"
    using zhash.zh_new [OF assms] by (simp_all add: graph_heap_def graph_table_def graphInit_def)
  ultimately show ?thesis
    by (simp add: cg_inv_def graph_wf_def graph_sym_nbrs)
qed

section \<open>The clients around\<close>

lemma graphArcKeys_ok:
  assumes "cg_inv Z g" "\<forall>r \<in> set rs. \<exists>arc. g_arc g r = Some arc \<and> graph_live g (ga_to arc)"
  shows "\<exists>ks. graphArcKeys g rs = Inr ks
    \<and> map (graphGetNode Z g) ks = map (\<lambda>r. Some (ga_to (the (g_arc g r)))) rs"
  using assms(2)
proof (induction rs)
  case (Cons r rs)
  obtain arc where arc: "g_arc g r = Some arc" "graph_live g (ga_to arc)"
    using Cons.prems by auto
  obtain n where n: "g_node g (ga_to arc) = Some n" "graphGetNode Z g (gn_key n) = Some (ga_to arc)"
    using cg_node_key [OF assms(1) arc(2)] by blast
  obtain ks where "graphArcKeys g rs = Inr ks" "map (graphGetNode Z g) ks = map (\<lambda>r. Some (ga_to (the (g_arc g r)))) rs"
    using Cons by auto
  then show ?case
    using arc n by (simp add: derefArc_def derefNode_def)
qed simp

lemma distinct_of_keys:
  assumes "distinct (map f ks)"
  shows "distinct ks"
  using assms by (simp add: distinct_map)

lemma nbrs_simple_distinct:
  assumes "nbrs_simple f" "f a = mset xs"
  shows "distinct xs"
proof -
  have "count (mset xs) b \<le> 1" for b
    using assms unfolding nbrs_simple_def by metis
  then have "count (mset xs) b = (if b \<in> set xs then 1 else 0)" for b
    using count_eq_zero_iff [of "mset xs" b] le_antisym [of "count (mset xs) b" 1]
    by (cases "count (mset xs) b") (auto simp: le_Suc_eq)
  then show ?thesis
    by (simp add: distinct_count_atmost_1)
qed

lemma graphArcKeys_around:
  assumes "cg_inv Z g" "graphGetNode Z g k = Some a" "g_node g a = Some n"
  shows "\<exists>ks. graphArcKeys g (gn_arcs n) = Inr ks \<and> distinct ks \<and> set ks = clientsAround Z g k"
proof -
  have heap: "graph_heap g"
    by (rule cg_inv_wf [OF assms(1)])
  have "\<exists>arc. g_arc g r = Some arc \<and> graph_live g (ga_to arc)" if "r \<in> set (gn_arcs n)" for r
    using graph_heap_arc [OF heap assms(3) that] by blast
  then obtain ks where ks: "graphArcKeys g (gn_arcs n) = Inr ks"
    "map (graphGetNode Z g) ks = map (\<lambda>r. Some (ga_to (the (g_arc g r)))) (gn_arcs n)"
    using graphArcKeys_ok [OF assms(1)] by blast
  define to where "to = map (\<lambda>r. ga_to (the (g_arc g r))) (gn_arcs n)"
  have nb: "neighbours g a = mset to"
    using assms(3) by (simp add: neighbours_def to_def)
  have m: "map (graphGetNode Z g) ks = map Some to"
    using ks(2) by (simp add: to_def)
  have "distinct to"
    by (rule nbrs_simple_distinct [OF cg_inv_wf(5) [OF assms(1)] nb])
  then have "distinct (map (graphGetNode Z g) ks)"
    unfolding m by (simp add: distinct_map)
  then have "distinct ks"
    by (rule distinct_of_keys)
  have set: "graphGetNode Z g ` set ks = Some ` set to"
    using arg_cong [OF m, of set] by simp
  have "set ks = clientsAround Z g k"
  proof (rule set_eqI)
    fix l
    show "l \<in> set ks \<longleftrightarrow> l \<in> clientsAround Z g k"
    proof
      assume "l \<in> set ks"
      then obtain b where "b \<in> set to" "graphGetNode Z g l = Some b"
        using set by (metis image_iff)
      then show "l \<in> clientsAround Z g k"
        using assms(2) nb by (auto simp: clientsAround_def)
    next
      assume "l \<in> clientsAround Z g k"
      then obtain b where b: "graphGetNode Z g l = Some b" "b \<in> set to"
        using assms(2) nb by (auto simp: clientsAround_def)
      then obtain l' where "l' \<in> set ks" "graphGetNode Z g l' = Some b"
        using set by (metis image_iff)
      then show "l \<in> set ks"
        using cg_node_inj [OF assms(1) b(1)] by blast
    qed
  qed
  then show ?thesis
    using ks(1) \<open>distinct ks\<close> by blast
qed

lemma cg_view_cong:
  "graphGetNode Z g' k = graphGetNode Z g k \<Longrightarrow> graphGetNode Z g' = graphGetNode Z g \<Longrightarrow> neighbours g' = neighbours g
   \<Longrightarrow> clientsAround Z g' k = clientsAround Z g k"
  by (simp add: clientsAround_def)

text \<open>A node that has just been made has no neighbours.\<close>

lemma clientsAround_new:
  assumes "cg_inv Z g" "cg_inv Z g'" "graphGetNode Z g' = (graphGetNode Z g)(k \<mapsto> a)" "neighbours g' = neighbours g"
    "graphGetNode Z g k \<noteq> None \<Longrightarrow> g' = g"
  shows "clientsAround Z g' l = clientsAround Z g l"
proof (cases "graphGetNode Z g k")
  case None
  have "\<not> graph_live g a"
  proof
    assume "graph_live g a"
    then obtain n where n: "g_node g a = Some n" "graphGetNode Z g (gn_key n) = Some a"
      using cg_node_key [OF assms(1)] by blast
    then have "graphGetNode Z g' (gn_key n) = Some a" "graphGetNode Z g' k = Some a"
      using assms(3) None by (auto split: if_splits)
    then have "gn_key n = k"
      by (rule cg_node_inj [OF assms(2)])
    then show False
      using n(2) None by simp
  qed
  then have out: "b \<notin># neighbours g a" "a \<notin># neighbours g b" for b
    using nbrs_live [OF cg_inv_wf(2) [OF assms(1)]] by blast+
  then show ?thesis
    using None unfolding clientsAround_def assms(3,4) by (auto split: if_splits)
next
  case (Some b)
  then show ?thesis using assms(5) by simp
qed

lemma eventServerGetClientsAround_ok:
  assumes "zhash Z" "cg_inv Z (es_clientsGraph es)"
  obtains ks g' where "eventServerGetClientsAround Z es k = Inr (True, ks, es \<lparr> es_clientsGraph := g' \<rparr>)"
    "cg_inv Z g'" "distinct ks" "set ks = clientsAround Z (es_clientsGraph es) k"
    "clientsAround Z g' = clientsAround Z (es_clientsGraph es)" "graphGetNode Z g' k \<noteq> None"
proof -
  obtain a g' where g': "eventServerGetClientNode Z es k = Inr (Some a, es \<lparr> es_clientsGraph := g' \<rparr>)" "cg_inv Z g'"
    "graphGetNode Z g' = (graphGetNode Z (es_clientsGraph es))(k \<mapsto> a)" "neighbours g' = neighbours (es_clientsGraph es)"
    "graphGetNode Z (es_clientsGraph es) k \<noteq> None \<Longrightarrow> g' = es_clientsGraph es"
    using eventServerGetClientNode_ok [OF assms] by metis
  have a: "graphGetNode Z g' k = Some a"
    by (simp add: g'(3))
  have "graph_live g' a"
    by (rule cg_node_live [OF g'(2) a])
  then obtain n where n: "g_node g' a = Some n"
    by (auto simp: graph_live_def)
  obtain ks where ks: "graphArcKeys g' (gn_arcs n) = Inr ks" "distinct ks" "set ks = clientsAround Z g' k"
    using graphArcKeys_around [OF g'(2) a n] by blast
  have same: "clientsAround Z g' = clientsAround Z (es_clientsGraph es)"
    by (intro ext clientsAround_new [OF assms(2) g'(2-5)])
  show thesis
  proof (rule that [of ks g'])
    show "eventServerGetClientsAround Z es k = Inr (True, ks, es \<lparr> es_clientsGraph := g' \<rparr>)"
      using g'(1) n ks(1) by (simp add: eventServerGetClientsAround_def derefNode_def)
  qed (use g'(2) ks same a in simp_all)
qed

section \<open>Properties\<close>

text \<open>Composed with the router, a packet that the event server sends to clients by their keys goes to the
  identities those keys were made from, in the order of the list, each time as the same bytes.\<close>

theorem eventServerSendToClients_delivers:
  assumes "\<forall>i \<in> set ids. length i = 5" "map socketSessionGenSessionKey ids = map Inr clients" "\<And>m. es_accepts es m"
  shows "\<exists>m. eventServerSendToClients es clients (packet # rest) = Inr (True, es \<lparr> es_router := es_router es @ [m] \<rparr>)
    \<and> routerSubscribe m = Inr (0, map (\<lambda>i. ToFrontend [i, packet]) ids)"
proof -
  have "map socketSessionGenId clients = ids"
    using assms(1,2)
  proof (induction ids arbitrary: clients)
    case (Cons i ids)
    then obtain c cs where "clients = c # cs" "socketSessionGenSessionKey i = Inr c"
      "map socketSessionGenSessionKey ids = map Inr cs"
      by (auto simp: Cons_eq_map_conv)
    moreover obtain key where "socketSessionGenSessionKey i = Inr key" "socketSessionGenId key = i"
      using sessionKey_genId [of i] Cons.prems(1) by auto
    ultimately show ?case
      using Cons.IH [of cs] Cons.prems(1) by simp
  qed simp
  then show ?thesis
    using assms(3)
    by (intro exI [of _ "enc32 ROUTER_WORKER_MULTICAST # packet # ids"])
      (simp add: eventServerSendToClients_def eventServerSend_def routerSubscribe_def)
qed

text \<open>The clients around a client are its neighbours in the graph, each once, and asking for them changes
  no one's neighbours; a client that was not known becomes known and has none.\<close>

theorem eventServerGetClientsAround_correct:
  assumes "zhash Z" "cg_inv Z (es_clientsGraph es)"
  shows "\<exists>ks es'. eventServerGetClientsAround Z es k = Inr (True, ks, es') \<and> cg_inv Z (es_clientsGraph es')
    \<and> distinct ks \<and> set ks = clientsAround Z (es_clientsGraph es) k
    \<and> (\<forall>l. clientsAround Z (es_clientsGraph es') l = clientsAround Z (es_clientsGraph es) l)
    \<and> graphGetNode Z (es_clientsGraph es') k \<noteq> None \<and> es_router es' = es_router es"
  by (rule eventServerGetClientsAround_ok [OF assms, of k]) auto

definition exEventServer :: "((string \<times> gaddr) list) EventServer" where
  "exEventServer = eventServerInit al_ops 1 (\<lambda>_. True)"

theorem eventServerSendToClients_delivers_witness:
  "\<exists>m. eventServerSendToClients exEventServer [''006B8B4567'', ''0000000001''] [[7, 8]]
        = Inr (True, exEventServer \<lparr> es_router := [m] \<rparr>)
     \<and> routerSubscribe m = Inr (0, [ToFrontend [[0, 0x6B, 0x8B, 0x45, 0x67], [7, 8]], ToFrontend [[0, 0, 0, 0, 1], [7, 8]]])"
proof -
  have keys: "map socketSessionGenSessionKey [[0, 0x6B, 0x8B, 0x45, 0x67], [0, 0, 0, 0, 1]]
      = map Inr [''006B8B4567'', ''0000000001'']"
    by code_simp
  show ?thesis
    using eventServerSendToClients_delivers [OF _ keys, of exEventServer "[7, 8]" "[]"]
    by (simp add: exEventServer_def eventServerInit_def)
qed

theorem eventServerGetClientsAround_correct_witness:
  "\<exists>es'. eventServerGetClientsAround al_ops exEventServer ''A'' = Inr (True, [], es')
     \<and> graphGetNode al_ops (es_clientsGraph es') ''A'' \<noteq> None"
proof -
  have "cg_inv al_ops (es_clientsGraph exEventServer)"
    using cg_inv_init [OF al.zhash_axioms] by (simp add: exEventServer_def eventServerInit_def)
  then obtain ks es' where "eventServerGetClientsAround al_ops exEventServer ''A'' = Inr (True, ks, es')"
    "set ks = clientsAround al_ops (es_clientsGraph exEventServer) ''A''" "graphGetNode al_ops (es_clientsGraph es') ''A'' \<noteq> None"
    using eventServerGetClientsAround_correct [OF al.zhash_axioms, of exEventServer "''A''"] by blast
  moreover have "clientsAround al_ops (es_clientsGraph exEventServer) ''A'' = {}"
    by (auto simp: clientsAround_def exEventServer_def eventServerInit_def graphInit_def graphGetNode_def)
  ultimately show ?thesis
    by auto
qed

end
