(* ===== verification/Proximity.thy ===== *)
theory Proximity
  imports EventServer
begin

text \<open>
  The operations of the event server on its graph, seen through the keys of the clients: who sees whom
  (\<open>clientsAround\<close>) and which clients are marked as around (\<open>markedClients\<close>).
\<close>

definition markedClients :: "('h, gaddr) zhash_ops \<Rightarrow> 'h clients \<Rightarrow> string set" where
  "markedClients Z g = {k. \<exists>a. graphGetNode Z g k = Some a \<and> cg_around g a}"

text \<open>\<open>((GraphNodeClient *) node->user_data)->around = v\<close>\<close>

definition graphNodeSetAround :: "'h clients \<Rightarrow> gaddr \<Rightarrow> bool \<Rightarrow> 'h clients result" where
  "graphNodeSetAround g a v =
     rbind (derefNode g a) (\<lambda>node.
     Inr (g \<lparr> g_node := (g_node g)(a \<mapsto> node \<lparr> gn_user_data := (gn_user_data node) \<lparr> gc_around := v \<rparr> \<rparr>) \<rparr>))"

text \<open>The nodes that are known stay known.\<close>

definition keepsNodes :: "('h, gaddr) zhash_ops \<Rightarrow> 'h clients \<Rightarrow> 'h clients \<Rightarrow> bool" where
  "keepsNodes Z g g' \<longleftrightarrow> (\<forall>k a. graphGetNode Z g k = Some a \<longrightarrow> graphGetNode Z g' k = Some a)"

lemma keepsNodes_refl [simp]: "keepsNodes Z g g"
  by (simp add: keepsNodes_def)

lemma keepsNodes_trans: "keepsNodes Z g h \<Longrightarrow> keepsNodes Z h k \<Longrightarrow> keepsNodes Z g k"
  by (simp add: keepsNodes_def)

lemma keepsNodesD: "keepsNodes Z g g' \<Longrightarrow> graphGetNode Z g k = Some a \<Longrightarrow> graphGetNode Z g' k = Some a"
  by (simp add: keepsNodes_def)

lemma clientsAround_iff:
  "cg_inv Z g \<Longrightarrow> graphGetNode Z g k = Some a \<Longrightarrow> graphGetNode Z g l = Some b \<Longrightarrow>
   l \<in> clientsAround Z g k \<longleftrightarrow> b \<in># neighbours g a"
  by (auto simp: clientsAround_def)

lemma clientsAround_known: "l \<in> clientsAround Z g k \<Longrightarrow> graphGetNode Z g k \<noteq> None \<and> graphGetNode Z g l \<noteq> None"
  by (auto simp: clientsAround_def)

lemma clientsAround_sym: "cg_inv Z g \<Longrightarrow> l \<in> clientsAround Z g k \<longleftrightarrow> k \<in> clientsAround Z g l"
  using nbrs_sym_mem [OF cg_inv_wf(4)] by (fastforce simp: clientsAround_def)

lemma clientsAround_irrefl: "cg_inv Z g \<Longrightarrow> k \<notin> clientsAround Z g k"
  using cg_inv_wf(5) by (fastforce simp: clientsAround_def nbrs_simple_def)

lemma markedClients_iff: "graphGetNode Z g k = Some a \<Longrightarrow> k \<in> markedClients Z g \<longleftrightarrow> cg_around g a"
  by (simp add: markedClients_def)

section \<open>Getting a node\<close>

lemma prox_getClientNode:
  assumes "zhash Z" "cg_inv Z (es_clientsGraph es)"
  obtains a g' where "eventServerGetClientNode Z es k = Inr (Some a, es \<lparr> es_clientsGraph := g' \<rparr>)" "cg_inv Z g'"
    "graphGetNode Z g' k = Some a" "keepsNodes Z (es_clientsGraph es) g'"
    "clientsAround Z g' = clientsAround Z (es_clientsGraph es)" "markedClients Z g' = markedClients Z (es_clientsGraph es)"
proof -
  let ?g = "es_clientsGraph es"
  obtain a g' where g': "eventServerGetClientNode Z es k = Inr (Some a, es \<lparr> es_clientsGraph := g' \<rparr>)" "cg_inv Z g'"
    "graphGetNode Z g' = (graphGetNode Z ?g)(k \<mapsto> a)" "neighbours g' = neighbours ?g" "cg_around g' = cg_around ?g"
    "graphGetNode Z ?g k \<noteq> None \<Longrightarrow> g' = ?g"
    using eventServerGetClientNode_ok [OF assms] by blast
  have around: "clientsAround Z g' = clientsAround Z ?g"
    by (intro ext clientsAround_new [OF assms(2) g'(2-4,6)])
  have keeps: "keepsNodes Z ?g g'"
  proof (cases "graphGetNode Z ?g k")
    case None
    then show ?thesis
      using g'(3) by (simp add: keepsNodes_def)
  next
    case (Some b)
    then show ?thesis
      using g'(6) by simp
  qed
  have marked: "markedClients Z g' = markedClients Z ?g"
  proof (cases "graphGetNode Z ?g k")
    case None
    have "\<not> cg_around ?g a"
    proof
      assume "cg_around ?g a"
      then have "graph_live ?g a"
        by (auto simp: cg_around_def graph_live_def split: option.splits)
      then obtain n where "g_node ?g a = Some n" and n: "graphGetNode Z ?g (gn_key n) = Some a"
        by (rule cg_node_key [OF assms(2)])
      have "graphGetNode Z g' (gn_key n) = Some a" "graphGetNode Z g' k = Some a"
        using keepsNodesD [OF keeps n] g'(3) by simp_all
      then have "gn_key n = k"
        by (rule cg_node_inj [OF g'(2)])
      with n None show False by simp
    qed
    show ?thesis
    proof (rule set_eqI)
      fix l
      show "l \<in> markedClients Z g' \<longleftrightarrow> l \<in> markedClients Z ?g"
        using None \<open>\<not> cg_around ?g a\<close> unfolding markedClients_def g'(3,5) by (cases "l = k") auto
    qed
  next
    case (Some b)
    then show ?thesis
      using g'(6) by simp
  qed
  show thesis
    by (rule that [OF g'(1,2) _ keeps around marked]) (simp add: g'(3))
qed

section \<open>Marking\<close>

lemma prox_setAround:
  assumes "cg_inv Z g" "graphGetNode Z g k = Some a"
  obtains g' where "graphNodeSetAround g a v = Inr g'" "cg_inv Z g'" "graphGetNode Z g' = graphGetNode Z g"
    "neighbours g' = neighbours g" "g_arc g' = g_arc g"
    "markedClients Z g' = (if v then insert k (markedClients Z g) else markedClients Z g - {k})"
    "map_option gn_arcs \<circ> g_node g' = map_option gn_arcs \<circ> g_node g"
proof -
  obtain n where n: "g_node g a = Some n"
    using cg_node_live [OF assms] by (auto simp: graph_live_def)
  let ?n = "n \<lparr> gn_user_data := (gn_user_data n) \<lparr> gc_around := v \<rparr> \<rparr>"
  let ?g' = "g \<lparr> g_node := (g_node g)(a \<mapsto> ?n) \<rparr>"
  have nb: "neighbours ?g' = neighbours g"
    using n by (auto simp: neighbours_def fun_eq_iff cong: option.case_cong)
  have live: "graph_live ?g' = graph_live g"
    using n by (auto simp: graph_live_def fun_eq_iff)
  have heap: "graph_heap g"
    by (rule cg_inv_wf [OF assms(1)])
  have old: "\<exists>m'. g_node g c = Some m' \<and> gn_arcs m' = gn_arcs m" if "g_node ?g' c = Some m" for c m
    using that n by (cases "c = a") auto
  have "graph_heap ?g'"
  proof (rule graph_heapI)
    fix c m assume m: "g_node ?g' c = Some m"
    then obtain m' where m': "g_node g c = Some m'" "gn_arcs m' = gn_arcs m"
      using old by blast
    then show "distinct (gn_arcs m)"
      using graph_heap_distinct [OF heap m'(1)] by simp
    fix r assume "r \<in> set (gn_arcs m)"
    then obtain arc where "g_arc g r = Some arc" "ga_from arc = c" "graph_live g (ga_to arc)"
      using graph_heap_arc [OF heap m'(1)] m'(2) by auto
    then show "\<exists>arc. g_arc ?g' r = Some arc \<and> ga_from arc = c \<and> graph_live ?g' (ga_to arc)"
      unfolding live by simp
  next
    fix x assume "g_next ?g' \<le> x"
    then show "g_node ?g' x = None \<and> g_arc ?g' x = None"
      using graph_heap_fresh [OF heap, of x] n by (cases "x = a") auto
  qed
  moreover have "graph_table Z ?g'"
  proof -
    have "(\<exists>m. g_node ?g' c = Some m \<and> gn_key m = l) \<longleftrightarrow> (\<exists>m. g_node g c = Some m \<and> gn_key m = l)" for c l
      using n by auto
    then show ?thesis
      using cg_inv_wf(3) [OF assms(1)] by (simp only: graph_table_def) simp
  qed
  ultimately have "cg_inv Z ?g'"
    using assms(1) nb by (simp add: cg_inv_def graph_wf_def graph_sym_nbrs)
  moreover have "cg_around ?g' = (cg_around g)(a := v)"
    by (auto simp: cg_around_def fun_eq_iff)
  then have "markedClients Z ?g' = (if v then insert k (markedClients Z g) else markedClients Z g - {k})"
    (is "?M = ?N")
  proof (intro set_eqI)
    fix l
    have get: "graphGetNode Z ?g' = graphGetNode Z g"
      by (simp add: graphGetNode_def fun_eq_iff)
    have "l \<in> ?M \<longleftrightarrow> (\<exists>b. graphGetNode Z g l = Some b \<and> (if b = a then v else cg_around g b))"
      unfolding markedClients_def get \<open>cg_around ?g' = _\<close> by auto
    also have "\<dots> \<longleftrightarrow> (if l = k then v else l \<in> markedClients Z g)"
    proof (cases "graphGetNode Z g l")
      case (Some b)
      then have "b = a \<longleftrightarrow> l = k"
        using assms(2) cg_node_inj [OF assms(1) assms(2), of l] by auto
      then show ?thesis
        using Some by (simp add: markedClients_def)
    qed (use assms(2) in \<open>auto simp: markedClients_def\<close>)
    finally show "l \<in> ?M \<longleftrightarrow> l \<in> ?N"
      by simp
  qed
  moreover have "graphNodeSetAround g a v = Inr ?g'"
    using n by (simp add: graphNodeSetAround_def derefNode_def)
  ultimately show thesis
    using that nb n by (simp add: graphGetNode_def fun_eq_iff)
qed

lemma clientsAround_cong: "graphGetNode Z g' = graphGetNode Z g \<Longrightarrow> neighbours g' = neighbours g \<Longrightarrow> clientsAround Z g' = clientsAround Z g"
  by (simp add: clientsAround_def fun_eq_iff)

lemma markedClients_cong: "graphGetNode Z g' = graphGetNode Z g \<Longrightarrow> cg_around g' = cg_around g \<Longrightarrow> markedClients Z g' = markedClients Z g"
  by (simp add: markedClients_def)

section \<open>Linking and unlinking\<close>

lemma prox_link:
  assumes "zhash Z" "cg_inv Z g" "graphGetNode Z g k = Some a" "graphGetNode Z g l = Some b" "k \<noteq> l" "l \<notin> clientsAround Z g k"
  obtains g' where "graphLink Z g a b = Inr (True, g')" "cg_inv Z g'" "graphGetNode Z g' = graphGetNode Z g"
    "clientsAround Z g' = (clientsAround Z g)(k := insert l (clientsAround Z g k), l := insert k (clientsAround Z g l))"
    "markedClients Z g' = markedClients Z g"
proof -
  have ab: "a \<noteq> b"
    using assms(3-5) cg_node_inj [OF assms(2)] by blast
  have nb: "b \<notin># neighbours g a"
    using assms(6) clientsAround_iff [OF assms(2-4)] by simp
  obtain g' where g': "graphLink Z g a b = Inr (True, g')" "cg_inv Z g'" "graphGetNode Z g' = graphGetNode Z g"
    "neighbours g' = nbrs_link (neighbours g) a b" "cg_around g' = cg_around g"
    using cg_link_ok [OF assms(1,2) cg_node_live [OF assms(2,3)] cg_node_live [OF assms(2,4)] ab nb] by blast
  have "clientsAround Z g' m = ((clientsAround Z g)(k := insert l (clientsAround Z g k), l := insert k (clientsAround Z g l))) m" for m
  proof (rule set_eqI)
    fix x
    have inj: "m = k \<longleftrightarrow> c = a" "m = l \<longleftrightarrow> c = b" if "graphGetNode Z g m = Some c" for m c
      using that assms(3,4) cg_node_inj [OF assms(2)] by auto
    show "x \<in> clientsAround Z g' m \<longleftrightarrow> x \<in> ((clientsAround Z g)(k := insert l (clientsAround Z g k), l := insert k (clientsAround Z g l))) m"
    proof (cases "graphGetNode Z g m = None \<or> graphGetNode Z g x = None")
      case True
      then show ?thesis
        using assms(3,4) by (auto simp: clientsAround_def g'(3))
    next
      case False
      then obtain c d where cd: "graphGetNode Z g m = Some c" "graphGetNode Z g x = Some d" by auto
      then have "x \<in> clientsAround Z g' m \<longleftrightarrow> d \<in># nbrs_link (neighbours g) a b c" "x \<in> clientsAround Z g m \<longleftrightarrow> d \<in># neighbours g c"
        by (simp_all add: clientsAround_def g'(3,4))
      then show ?thesis
        using inj [OF cd(1)] inj [OF cd(2)] ab assms(5) by (auto simp: nbrs_link_def Let_def)
    qed
  qed
  then show thesis
    using that [OF g'(1-3)] markedClients_cong [OF g'(3,5)] by (simp add: fun_eq_iff)
qed

lemma prox_unlink:
  assumes "cg_inv Z g" "graphGetNode Z g k = Some a" "graphGetNode Z g l = Some b" "l \<in> clientsAround Z g k"
  obtains g' where "graphUnlink g a b = Inr (True, g')" "cg_inv Z g'" "graphGetNode Z g' = graphGetNode Z g"
    "clientsAround Z g' = (clientsAround Z g)(k := clientsAround Z g k - {l}, l := clientsAround Z g l - {k})"
    "markedClients Z g' = markedClients Z g" "neighbours g' = nbrs_unlink (neighbours g) a b"
proof -
  have kl: "k \<noteq> l"
    using assms(4) clientsAround_irrefl [OF assms(1)] by blast
  have nb: "b \<in># neighbours g a"
    using assms(4) clientsAround_iff [OF assms(1-3)] by simp
  obtain g' where g': "graphUnlink g a b = Inr (True, g')" "cg_inv Z g'" "graphGetNode Z g' = graphGetNode Z g"
    "neighbours g' = nbrs_unlink (neighbours g) a b" "cg_around g' = cg_around g"
    using cg_unlink_ok [OF assms(1) nb] by blast
  have one: "d \<in># neighbours g c - {#e#} \<longleftrightarrow> d \<in># neighbours g c \<and> d \<noteq> e" for c d e
  proof -
    have "count (neighbours g c) d \<le> 1"
      using cg_inv_wf(5) [OF assms(1)] by (simp add: nbrs_simple_def)
    then show ?thesis
      by (auto simp: count_greater_zero_iff [symmetric] simp del: count_greater_zero_iff)
  qed
  have "clientsAround Z g' m = ((clientsAround Z g)(k := clientsAround Z g k - {l}, l := clientsAround Z g l - {k})) m" for m
  proof (rule set_eqI)
    fix x
    have inj: "m = k \<longleftrightarrow> c = a" "m = l \<longleftrightarrow> c = b" if "graphGetNode Z g m = Some c" for m c
      using that assms(2,3) cg_node_inj [OF assms(1)] by auto
    show "x \<in> clientsAround Z g' m \<longleftrightarrow> x \<in> ((clientsAround Z g)(k := clientsAround Z g k - {l}, l := clientsAround Z g l - {k})) m"
    proof (cases "graphGetNode Z g m = None \<or> graphGetNode Z g x = None")
      case True
      then show ?thesis
        using assms(2,3) by (auto simp: clientsAround_def g'(3))
    next
      case False
      then obtain c d where cd: "graphGetNode Z g m = Some c" "graphGetNode Z g x = Some d" by auto
      then have "x \<in> clientsAround Z g' m \<longleftrightarrow> d \<in># nbrs_unlink (neighbours g) a b c" "x \<in> clientsAround Z g m \<longleftrightarrow> d \<in># neighbours g c"
        by (simp_all add: clientsAround_def g'(3,4))
      then show ?thesis
        using inj [OF cd(1)] inj [OF cd(2)] kl one by (auto simp: nbrs_unlink_def Let_def)
    qed
  qed
  then show thesis
    using that [OF g'(1-3)] g'(4) markedClients_cong [OF g'(3,5)] by (simp add: fun_eq_iff)
qed

end
