(* ===== verification/ZoneEvents.thy ===== *)
theory ZoneEvents
  imports Proximity ZoneBuilder
begin

text \<open>
  \<open>src/zone_server/zone_event_server.c\<close> and \<open>src/zone_server/zone_handler/zone_event_handler.c\<close>: the events of
  a zone. \<open>zoneEventServerUpdateClientPosition\<close> compares the neighbours of a client in the graph with the
  clients that Redis finds in its range; the handlers broadcast a packet to the clients around.
\<close>

section \<open>Events\<close>

record ('i, 'k) GameEventUpdatePosition =
  up_mapId :: u16
  up_commander :: "('i, 'k) Commander"
  up_newPosition :: PositionXYZ

datatype ('i, 'k) ZoneEvent =
    CommanderMoveEvent "('i, 'k) GameEventUpdatePosition" PositionXYZ PositionXZ u32
  | RestSitEvent u32
  | JumpEvent "('i, 'k) GameEventUpdatePosition" u32
  | MoveStopEvent "('i, 'k) GameEventUpdatePosition" PositionXYZ PositionXZ u32
  | EnterPcEvent "('i, 'k) GameEventUpdatePosition"
  | ChatEvent "('i, 'k) Commander" bytes
  | HeadRotateEvent u32 PositionXZ
  | RotateEvent u32 PositionXZ
  | LeaveEvent u32
  | PoseEvent u32 u16 PositionXYZ PositionXZ

text \<open>
  What the event server asks: Redis for the keys of the clients in range (\<open>None\<close> if Redis fails) and for
  the commander of the game session of a client, the store of the items of the commanders, and the
  position at which \<open>zlist_next\<close> goes on in a list after \<open>zlist_remove\<close> took an item out of it, which
  \<open>src/include/zmq/zlist.h\<close> leaves open (the arguments are the list before the removal and the item).
\<close>

record ('i, 'k) ZoneEnv =
  ze_clientsWithinRange :: "u16 \<Rightarrow> PositionXZ \<Rightarrow> string \<Rightarrow> string list option"
  ze_currentCommander :: "string \<Rightarrow> ('i, 'k) Commander option"
  ze_store :: Store
  ze_nextAfterRemove :: "gaddr list \<Rightarrow> gaddr \<Rightarrow> nat"

definition PositionXYZToXZ :: "PositionXYZ \<Rightarrow> PositionXZ" where
  "PositionXYZToXZ p = \<lparr> xz_x = pos_x p, xz_z = pos_z p \<rparr>"

section \<open>The update of a position\<close>

fun zeMarkUnvisited :: "'h clients \<Rightarrow> gaddr list \<Rightarrow> 'h clients result" where
  "zeMarkUnvisited g [] = Inr g"
| "zeMarkUnvisited g (r # rs) =
     rbind (derefArc g r) (\<lambda>neighbourArc.
     rbind (graphNodeSetAround g (ga_to neighbourArc) False) (\<lambda>g. zeMarkUnvisited g rs))"

text \<open>The loop over the clients of Redis; the list is \<open>pcEnterList\<close>.\<close>

fun zeCompare ::
    "('h, gaddr) zhash_ops \<Rightarrow> 'h EventServer \<Rightarrow> gaddr \<Rightarrow> string list \<Rightarrow> string list \<Rightarrow>
     (bool \<times> string list \<times> 'h EventServer) result" where
  "zeCompare Z self nodeCurrentClient [] pcEnterList = Inr (True, pcEnterList, self)"
| "zeCompare Z self nodeCurrentClient (sk # sks) pcEnterList =
     rbind (eventServerGetClientNode Z self sk) (\<lambda>(node, self). case node of
       None \<Rightarrow> Inr (False, pcEnterList, self)
     | Some node \<Rightarrow>
         rbind (graphNodeGetArc (es_clientsGraph self) nodeCurrentClient node) (\<lambda>arc.
         rbind (case arc of
             Some _ \<Rightarrow> Inr (pcEnterList, self)
           | None \<Rightarrow> rbind (eventServerLinkClients Z self nodeCurrentClient node) (\<lambda>(_, self).
                Inr (pcEnterList @ [sk], self))) (\<lambda>(pcEnterList, self).
         rbind (graphNodeSetAround (es_clientsGraph self) node True) (\<lambda>g.
         zeCompare Z (self \<lparr> es_clientsGraph := g \<rparr>) nodeCurrentClient sks pcEnterList))))"

definition zmsg_first :: "frames \<Rightarrow> bytes result" where
  "zmsg_first msg = (case msg of [] \<Rightarrow> Inl NullDeref | frame # _ \<Rightarrow> Inr frame)"

text \<open>A packet about each client of the list is sent to the emitter; \<open>skipSelf\<close> tells that the list may
  have the emitter itself, who gets no packet.\<close>

fun zeSendEach ::
    "('i, 'k) ZoneEnv \<Rightarrow> (('i, 'k) Commander \<Rightarrow> frames result) \<Rightarrow> bool \<Rightarrow> 'h EventServer \<Rightarrow> string \<Rightarrow> string list \<Rightarrow>
     (bool \<times> 'h EventServer) result" where
  "zeSendEach env build skipSelf self emitterSk [] = Inr (True, self)"
| "zeSendEach env build skipSelf self emitterSk (sk # sks) =
     (if skipSelf \<and> sk = emitterSk then zeSendEach env build skipSelf self emitterSk sks
      else case ze_currentCommander env sk of
        None \<Rightarrow> Inr (False, self)
      | Some commander \<Rightarrow>
          rbind (build commander) (\<lambda>msg.
          rbind (zmsg_first msg) (\<lambda>frame.
          let (ok, self) = eventServerSendToClient self emitterSk frame in
          if ok then zeSendEach env build skipSelf self emitterSk sks else Inr (False, self))))"

text \<open>
  The loop over the arcs of the current client, which \<open>graphUnlink\<close> shortens on the way: the last argument
  are the arcs from the cursor on. A neighbour that is not marked is unlinked; its key goes to
  \<open>pcLeaveList\<close>, and the loop goes on where \<open>zlist_next\<close> continues in the shortened list. The search for the
  arc of a neighbour cannot fail, since the cursor is at such an arc.
\<close>

definition arcsOf :: "('h, 'u) Graph \<Rightarrow> gaddr \<Rightarrow> gaddr list" where
  "arcsOf g a = (case g_node g a of None \<Rightarrow> [] | Some n \<Rightarrow> gn_arcs n)"

lemma arcsCount_arcsOf: "arcsCount g a = length (arcsOf g a)"
  by (simp add: arcsCount_def arcsOf_def split: option.split)

lemma graphUnlink_found_count:
  assumes "graphNodeGetArc g a b = Inr (Some r)" "graphUnlink g a b = Inr (ok, g')"
  shows "arcsCount g' a < arcsCount g a"
proof -
  obtain g1 where g1: "graphRemoveArc g a r = Inr g1"
    using assms by (auto simp: graphUnlink_def rbind_eq_Inr_iff)
  have "arcsCount g' a \<le> arcsCount g1 a"
    using assms g1 graphRemoveArc_other
    by (fastforce simp: graphUnlink_def rbind_eq_Inr_iff arcsCount_def split: option.splits)
  then show ?thesis
    using graphRemoveArc_count [OF assms(1) g1] by simp
qed

function zeLeaveLoop ::
    "('i, 'k) ZoneEnv \<Rightarrow> 'h EventServer \<Rightarrow> gaddr \<Rightarrow> string list \<Rightarrow> gaddr list \<Rightarrow> (string list \<times> 'h EventServer) result" where
  "zeLeaveLoop env self cur pcLeaveList [] = Inr (pcLeaveList, self)"
| "zeLeaveLoop env self cur pcLeaveList (r # rs) =
     rbind (derefArc (es_clientsGraph self) r) (\<lambda>neighbourArc.
     rbind (derefNode (es_clientsGraph self) (ga_to neighbourArc)) (\<lambda>neighbourNode.
     if gc_around (gn_user_data neighbourNode) then zeLeaveLoop env self cur pcLeaveList rs
     else
       rbind (graphNodeGetArc (es_clientsGraph self) cur (ga_to neighbourArc)) (\<lambda>arc. case arc of
         None \<Rightarrow> Inl NullDeref
       | Some arc \<Rightarrow>
           rbind (eventServerUnlinkClients self cur (ga_to neighbourArc)) (\<lambda>(_, self').
           zeLeaveLoop env self' cur (pcLeaveList @ [gn_key neighbourNode])
             (drop (ze_nextAfterRemove env (arcsOf (es_clientsGraph self) cur) arc) (arcsOf (es_clientsGraph self') cur))))))"
  by pat_completeness auto
termination
  by (relation "(\<lambda>(env, self, cur, l, rs). arcsCount (es_clientsGraph self) cur) <*mlex*> measure (\<lambda>(env, self, cur, l, rs). length rs)")
    (auto simp: mlex_prod_def eventServerUnlinkClients_def rbind_eq_Inr_iff wf_mlex
      dest: graphUnlink_found_count)

text \<open>The part of the update about the clients that come into the range, and the part about those that leave
  it.\<close>

definition zeEnterPhase ::
    "('h, gaddr) zhash_ops \<Rightarrow> ('i, 'k) ZoneEnv \<Rightarrow> 'h EventServer \<Rightarrow> gaddr \<Rightarrow> string \<Rightarrow> ('i, 'k) Commander \<Rightarrow> string list \<Rightarrow>
     (bool \<times> 'h EventServer) result" where
  "zeEnterPhase Z env self cur emitterSk commander redisClientsAround =
     (if redisClientsAround = [] then Inr (True, self)
      else
        rbind (zeCompare Z self cur redisClientsAround []) (\<lambda>(ok, pcEnterList, self).
        if \<not> ok then Inr (False, self)
        else
          rbind (if pcEnterList = [] then Inr (True, self)
            else rbind (zoneBuilderEnterPc commander []) (\<lambda>pcEnterMsg.
              eventServerSendToClients self redisClientsAround pcEnterMsg)) (\<lambda>(ok, self).
          if \<not> ok then Inr (False, self)
          else zeSendEach env (\<lambda>c. zoneBuilderEnterPc c []) True self emitterSk pcEnterList)))"

definition zeLeavePhase ::
    "('i, 'k) ZoneEnv \<Rightarrow> 'h EventServer \<Rightarrow> gaddr \<Rightarrow> string \<Rightarrow> ('i, 'k) Commander \<Rightarrow> (bool \<times> 'h EventServer) result" where
  "zeLeavePhase env self cur emitterSk commander =
     rbind (zeLeaveLoop env self cur [] (arcsOf (es_clientsGraph self) cur)) (\<lambda>(pcLeaveList, self).
     if pcLeaveList = [] then Inr (True, self)
     else
       rbind (eventServerSendToClients self pcLeaveList (zoneBuilderLeave (co_pcId commander) [])) (\<lambda>(ok, self).
       if \<not> ok then Inr (False, self)
       else zeSendEach env (\<lambda>c. Inr (zoneBuilderLeave (co_pcId c) [])) False self emitterSk pcLeaveList))"

text \<open>\<open>_redisClientsAround\<close> is the second component.\<close>

definition zoneEventServerUpdateClientPosition ::
    "('h, gaddr) zhash_ops \<Rightarrow> ('i, 'k) ZoneEnv \<Rightarrow> 'h EventServer \<Rightarrow> string \<Rightarrow> ('i, 'k) GameEventUpdatePosition \<Rightarrow>
     (bool \<times> string list option \<times> 'h EventServer) result" where
  "zoneEventServerUpdateClientPosition Z env self emitterSk updatePosEvent =
    (let commander = up_commander updatePosEvent in
     case ze_clientsWithinRange env (up_mapId updatePosEvent) (PositionXYZToXZ (up_newPosition updatePosEvent)) emitterSk of
       None \<Rightarrow> Inr (False, None, self)
     | Some redisClientsAround \<Rightarrow>
     rbind (eventServerGetClientNode Z self emitterSk) (\<lambda>(node, self). case node of
       None \<Rightarrow> Inl NullDeref
     | Some cur \<Rightarrow>
     rbind (derefNode (es_clientsGraph self) cur) (\<lambda>nodeCurrentClient.
     rbind (zeMarkUnvisited (es_clientsGraph self) (gn_arcs nodeCurrentClient)) (\<lambda>g.
     rbind (zeEnterPhase Z env (self \<lparr> es_clientsGraph := g \<rparr>) cur emitterSk commander redisClientsAround) (\<lambda>(ok, self).
     if \<not> ok then Inr (False, Some redisClientsAround, self)
     else rbind (zeLeavePhase env self cur emitterSk commander) (\<lambda>(ok, self). Inr (ok, Some redisClientsAround, self)))))))"

section \<open>Handlers that broadcast to the clients around\<close>

definition zoneEventHandlerRestSit ::
    "('h, gaddr) zhash_ops \<Rightarrow> 'h EventServer \<Rightarrow> string \<Rightarrow> u32 \<Rightarrow> (bool \<times> 'h EventServer) result" where
  "zoneEventHandlerRestSit Z self emitterSk pcId =
     rbind (eventServerGetClientsAround Z self emitterSk) (\<lambda>(ok, clientsAround, self).
     if \<not> ok then Inr (False, self)
     else eventServerSendToClients self (clientsAround @ [emitterSk]) (zoneBuilderRestSit pcId []))"

definition zoneEventHandlerHeadRotate ::
    "('h, gaddr) zhash_ops \<Rightarrow> 'h EventServer \<Rightarrow> string \<Rightarrow> u32 \<Rightarrow> PositionXZ \<Rightarrow> (bool \<times> 'h EventServer) result" where
  "zoneEventHandlerHeadRotate Z self emitterSk pcId direction =
     rbind (eventServerGetClientsAround Z self emitterSk) (\<lambda>(ok, clientsAround, self).
     if \<not> ok then Inr (False, self)
     else eventServerSendToClients self (clientsAround @ [emitterSk]) (zoneBuilderRotateHead pcId direction []))"

definition zoneEventHandlerRotate ::
    "('h, gaddr) zhash_ops \<Rightarrow> 'h EventServer \<Rightarrow> string \<Rightarrow> u32 \<Rightarrow> PositionXZ \<Rightarrow> (bool \<times> 'h EventServer) result" where
  "zoneEventHandlerRotate Z self emitterSk pcId direction =
     rbind (eventServerGetClientsAround Z self emitterSk) (\<lambda>(ok, clientsAround, self).
     if \<not> ok then Inr (False, self)
     else eventServerSendToClients self (clientsAround @ [emitterSk]) (zoneBuilderRotate pcId direction []))"

definition zoneEventHandlerPose ::
    "('h, gaddr) zhash_ops \<Rightarrow> 'h EventServer \<Rightarrow> string \<Rightarrow> u32 \<Rightarrow> u16 \<Rightarrow> PositionXYZ \<Rightarrow> PositionXZ \<Rightarrow>
     (bool \<times> 'h EventServer) result" where
  "zoneEventHandlerPose Z self emitterSk pcId poseId position direction =
     rbind (eventServerGetClientsAround Z self emitterSk) (\<lambda>(ok, clientsAround, self).
     if \<not> ok then Inr (False, self)
     else eventServerSendToClients self (clientsAround @ [emitterSk]) (zoneBuilderPose pcId poseId position direction []))"

definition zoneEventHandlerChat ::
    "('h, gaddr) zhash_ops \<Rightarrow> Store \<Rightarrow> 'h EventServer \<Rightarrow> string \<Rightarrow> ('i, 'k) Commander \<Rightarrow> bytes \<Rightarrow>
     (bool \<times> 'h EventServer) result" where
  "zoneEventHandlerChat Z st self emitterSk commander chatText =
     rbind (eventServerGetClientsAround Z self emitterSk) (\<lambda>(ok, clientsAround, self).
     if \<not> ok then Inr (False, self)
     else rbind (zoneBuilderChat st commander (c_str chatText) []) (\<lambda>msg.
       eventServerSendToClients self (clientsAround @ [emitterSk]) msg))"

definition zoneEventHandlerLeave ::
    "('h, gaddr) zhash_ops \<Rightarrow> 'h EventServer \<Rightarrow> string \<Rightarrow> u32 \<Rightarrow> (bool \<times> 'h EventServer) result" where
  "zoneEventHandlerLeave Z self emitterSk pcId =
     rbind (eventServerGetClientsAround Z self emitterSk) (\<lambda>(ok, clientsAround, self).
     if \<not> ok then Inr (False, self)
     else rbind (eventServerRemoveClient Z self emitterSk) (\<lambda>(_, self).
       eventServerSendToClients self (clientsAround @ [emitterSk]) (zoneBuilderLeave pcId [])))"

section \<open>Handlers that update the position\<close>

definition zoneEventHandlerEnterPc ::
    "('h, gaddr) zhash_ops \<Rightarrow> ('i, 'k) ZoneEnv \<Rightarrow> 'h EventServer \<Rightarrow> string \<Rightarrow> ('i, 'k) GameEventUpdatePosition \<Rightarrow>
     (bool \<times> 'h EventServer) result" where
  "zoneEventHandlerEnterPc Z env self emitterSk updatePosEvent =
     rbind (zoneEventServerUpdateClientPosition Z env self emitterSk updatePosEvent) (\<lambda>(ok, _, self). Inr (ok, self))"

definition zoneEventHandlerCommanderMove ::
    "('h, gaddr) zhash_ops \<Rightarrow> ('i, 'k) ZoneEnv \<Rightarrow> 'h EventServer \<Rightarrow> string \<Rightarrow> ('i, 'k) GameEventUpdatePosition \<Rightarrow>
     PositionXYZ \<Rightarrow> PositionXZ \<Rightarrow> u32 \<Rightarrow> (bool \<times> 'h EventServer) result" where
  "zoneEventHandlerCommanderMove Z env self emitterSk updatePosEvent position direction timestamp =
     rbind (zoneEventServerUpdateClientPosition Z env self emitterSk updatePosEvent) (\<lambda>(ok, clientsAround, self).
     if \<not> ok then Inr (False, self)
     else case clientsAround of
       None \<Rightarrow> Inl NullDeref
     | Some [] \<Rightarrow> Inr (True, self)
     | Some clients \<Rightarrow> eventServerSendToClients self clients
         (zoneBuilderMoveDir (co_pcId (up_commander updatePosEvent)) position direction timestamp []))"

definition zoneEventHandlerMoveStop ::
    "('h, gaddr) zhash_ops \<Rightarrow> ('i, 'k) ZoneEnv \<Rightarrow> 'h EventServer \<Rightarrow> string \<Rightarrow> ('i, 'k) GameEventUpdatePosition \<Rightarrow>
     PositionXYZ \<Rightarrow> PositionXZ \<Rightarrow> u32 \<Rightarrow> (bool \<times> 'h EventServer) result" where
  "zoneEventHandlerMoveStop Z env self emitterSk updatePosEvent position direction timestamp =
     rbind (zoneEventServerUpdateClientPosition Z env self emitterSk updatePosEvent) (\<lambda>(ok, clientsAround, self).
     if \<not> ok then Inr (False, self)
     else case clientsAround of
       None \<Rightarrow> Inl NullDeref
     | Some [] \<Rightarrow> Inr (True, self)
     | Some clients \<Rightarrow> eventServerSendToClients self clients
         (zoneBuilderPcMoveStop (co_pcId (up_commander updatePosEvent)) position direction timestamp []))"

definition zoneEventHandlerJump ::
    "('h, gaddr) zhash_ops \<Rightarrow> ('i, 'k) ZoneEnv \<Rightarrow> 'h EventServer \<Rightarrow> string \<Rightarrow> ('i, 'k) GameEventUpdatePosition \<Rightarrow>
     u32 \<Rightarrow> (bool \<times> 'h EventServer) result" where
  "zoneEventHandlerJump Z env self emitterSk updatePosEvent height =
     rbind (zoneEventServerUpdateClientPosition Z env self emitterSk updatePosEvent) (\<lambda>(ok, clientsAround, self).
     if \<not> ok then Inr (False, self)
     else case clientsAround of
       None \<Rightarrow> Inl NullDeref
     | Some clients \<Rightarrow> eventServerSendToClients self (clients @ [emitterSk])
         (zoneBuilderJump (co_pcId (up_commander updatePosEvent)) height []))"

section \<open>Dispatch\<close>

abbreviation (input) EVENT_TYPE_ZONE_START :: u32 where "EVENT_TYPE_ZONE_START \<equiv> 0"
abbreviation (input) EVENT_TYPE_ZONE_END :: u32 where "EVENT_TYPE_ZONE_END \<equiv> 11"

fun eventTypeOf :: "('i, 'k) ZoneEvent \<Rightarrow> u32" where
  "eventTypeOf (CommanderMoveEvent _ _ _ _) = 1"
| "eventTypeOf (RestSitEvent _) = 2"
| "eventTypeOf (JumpEvent _ _) = 3"
| "eventTypeOf (MoveStopEvent _ _ _ _) = 4"
| "eventTypeOf (EnterPcEvent _) = 5"
| "eventTypeOf (ChatEvent _ _) = 6"
| "eventTypeOf (HeadRotateEvent _ _) = 7"
| "eventTypeOf (RotateEvent _ _) = 8"
| "eventTypeOf (LeaveEvent _) = 9"
| "eventTypeOf (PoseEvent _ _ _ _) = 10"

text \<open>The handler of a type reads the member of the union that belongs to it.\<close>

fun zoneEventHandlers ::
    "('h, gaddr) zhash_ops \<Rightarrow> ('i, 'k) ZoneEnv \<Rightarrow> 'h EventServer \<Rightarrow> string \<Rightarrow> ('i, 'k) ZoneEvent \<Rightarrow> (bool \<times> 'h EventServer) result" where
  "zoneEventHandlers Z env self sk (CommanderMoveEvent up p d t) = zoneEventHandlerCommanderMove Z env self sk up p d t"
| "zoneEventHandlers Z env self sk (RestSitEvent pcId) = zoneEventHandlerRestSit Z self sk pcId"
| "zoneEventHandlers Z env self sk (JumpEvent up height) = zoneEventHandlerJump Z env self sk up height"
| "zoneEventHandlers Z env self sk (MoveStopEvent up p d t) = zoneEventHandlerMoveStop Z env self sk up p d t"
| "zoneEventHandlers Z env self sk (EnterPcEvent up) = zoneEventHandlerEnterPc Z env self sk up"
| "zoneEventHandlers Z env self sk (ChatEvent c t) = zoneEventHandlerChat Z (ze_store env) self sk c t"
| "zoneEventHandlers Z env self sk (HeadRotateEvent pcId d) = zoneEventHandlerHeadRotate Z self sk pcId d"
| "zoneEventHandlers Z env self sk (RotateEvent pcId d) = zoneEventHandlerRotate Z self sk pcId d"
| "zoneEventHandlers Z env self sk (LeaveEvent pcId) = zoneEventHandlerLeave Z self sk pcId"
| "zoneEventHandlers Z env self sk (PoseEvent pcId i p d) = zoneEventHandlerPose Z self sk pcId i p d"

definition zoneEventServerProcess ::
    "('h, gaddr) zhash_ops \<Rightarrow> ('i, 'k) ZoneEnv \<Rightarrow> 'h EventServer \<Rightarrow> u32 \<Rightarrow> string \<Rightarrow> ('i, 'k) ZoneEvent \<Rightarrow>
     (bool \<times> 'h EventServer) result" where
  "zoneEventServerProcess Z env self type emitterSk event =
     (if type \<le> EVENT_TYPE_ZONE_START \<or> EVENT_TYPE_ZONE_END \<le> type then Inr (False, self)
      else if type = eventTypeOf event then zoneEventHandlers Z env self emitterSk event
      else Inl BadCast)"

end
