(* ===== verification/ZoneUpdate.thy ===== *)
theory ZoneUpdate
  imports ZoneEvents
begin

text \<open>
  Correctness of the events of a zone: the loops of \<open>zoneEventServerUpdateClientPosition\<close> on the keys of the
  clients, and what the handlers send.
\<close>

section \<open>The clients at the end of arcs\<close>

definition keysOfArcs :: "('h, gaddr) zhash_ops \<Rightarrow> 'h clients \<Rightarrow> gaddr list \<Rightarrow> string set" where
  "keysOfArcs Z g rs = {k. \<exists>r \<in> set rs. \<exists>arc. g_arc g r = Some arc \<and> graphGetNode Z g k = Some (ga_to arc)}"

lemma arcsOf_node: "g_node g a = Some n \<Longrightarrow> arcsOf g a = gn_arcs n"
  by (simp add: arcsOf_def)

lemma arcsOf_arc:
  assumes "graph_heap g" "r \<in> set (arcsOf g a)"
  obtains arc where "g_arc g r = Some arc" "ga_from arc = a" "graph_live g (ga_to arc)"
proof -
  obtain n where n: "g_node g a = Some n"
    using assms(2) by (cases "g_node g a") (auto simp: arcsOf_def)
  then have "r \<in> set (gn_arcs n)"
    using assms(2) by (simp add: arcsOf_def)
  then show thesis
    using that graph_heap_arc [OF assms(1) n] by blast
qed

lemma keysOfArcs_all:
  assumes "cg_inv Z g" "graphGetNode Z g k = Some a"
  shows "keysOfArcs Z g (arcsOf g a) = clientsAround Z g k"
proof -
  obtain n where n: "g_node g a = Some n"
    using cg_node_live [OF assms] by (auto simp: graph_live_def)
  have arcs: "\<exists>arc. g_arc g r = Some arc" if "r \<in> set (gn_arcs n)" for r
    using graph_heap_arc [OF cg_inv_wf(2) [OF assms(1)] n that] by blast
  have "b \<in># neighbours g a \<longleftrightarrow> (\<exists>r \<in> set (gn_arcs n). \<exists>arc. g_arc g r = Some arc \<and> ga_to arc = b)" for b
  proof -
    have "b \<in># neighbours g a \<longleftrightarrow> (\<exists>r \<in> set (gn_arcs n). ga_to (the (g_arc g r)) = b)"
      using n by (auto simp: neighbours_def)
    also have "\<dots> \<longleftrightarrow> (\<exists>r \<in> set (gn_arcs n). \<exists>arc. g_arc g r = Some arc \<and> ga_to arc = b)"
      by (rule bex_cong) (use arcs in \<open>fastforce\<close>)+
    finally show ?thesis .
  qed
  then show ?thesis
    using assms(2) n unfolding keysOfArcs_def clientsAround_def arcsOf_node [OF n] by auto
qed

lemma keysOfArcs_Cons:
  assumes "cg_inv Z g" "g_arc g r = Some arc" "graphGetNode Z g k = Some (ga_to arc)"
  shows "keysOfArcs Z g (r # rs) = insert k (keysOfArcs Z g rs)"
proof (rule set_eqI)
  fix l
  have "graphGetNode Z g l = Some (ga_to arc) \<longleftrightarrow> l = k"
    using assms(3) cg_node_inj [OF assms(1) assms(3), of l] by auto
  then show "l \<in> keysOfArcs Z g (r # rs) \<longleftrightarrow> l \<in> insert k (keysOfArcs Z g rs)"
    using assms(2) by (simp add: keysOfArcs_def)
qed

lemma keysOfArcs_Nil [simp]: "keysOfArcs Z g [] = {}"
  by (simp add: keysOfArcs_def)

section \<open>The loops\<close>

lemma zeMarkUnvisited_ok:
  assumes "cg_inv Z g" "\<forall>r \<in> set rs. \<exists>arc. g_arc g r = Some arc \<and> graph_live g (ga_to arc)"
  shows "\<exists>g'. zeMarkUnvisited g rs = Inr g' \<and> cg_inv Z g' \<and> graphGetNode Z g' = graphGetNode Z g
    \<and> clientsAround Z g' = clientsAround Z g \<and> markedClients Z g' = markedClients Z g - keysOfArcs Z g rs"
  using assms
proof (induction rs arbitrary: g)
  case (Cons r rs)
  obtain arc where arc: "g_arc g r = Some arc" "graph_live g (ga_to arc)"
    using Cons.prems(2) by auto
  obtain n where "g_node g (ga_to arc) = Some n" and k: "graphGetNode Z g (gn_key n) = Some (ga_to arc)"
    by (rule cg_node_key [OF Cons.prems(1) arc(2)])
  obtain g1 where g1: "graphNodeSetAround g (ga_to arc) False = Inr g1" "cg_inv Z g1" "graphGetNode Z g1 = graphGetNode Z g"
    "neighbours g1 = neighbours g" "g_arc g1 = g_arc g" "markedClients Z g1 = markedClients Z g - {gn_key n}"
    "map_option gn_arcs \<circ> g_node g1 = map_option gn_arcs \<circ> g_node g"
    using prox_setAround [OF Cons.prems(1) k, of False] by auto
  have live: "graph_live g1 a \<longleftrightarrow> graph_live g a" for a
    using fun_cong [OF g1(7), of a] by (cases "g_node g1 a"; cases "g_node g a") (auto simp: graph_live_def)
  have "\<forall>r \<in> set rs. \<exists>arc. g_arc g1 r = Some arc \<and> graph_live g1 (ga_to arc)"
    using Cons.prems(2) live g1(5) by simp
  then obtain g2 where g2: "zeMarkUnvisited g1 rs = Inr g2" "cg_inv Z g2" "graphGetNode Z g2 = graphGetNode Z g1"
    "clientsAround Z g2 = clientsAround Z g1" "markedClients Z g2 = markedClients Z g1 - keysOfArcs Z g1 rs"
    using Cons.IH [OF g1(2)] by blast
  have "keysOfArcs Z g1 rs = keysOfArcs Z g rs"
    by (simp add: keysOfArcs_def g1(3,5))
  moreover have "clientsAround Z g1 = clientsAround Z g"
    by (rule clientsAround_cong [OF g1(3,4)])
  moreover have "zeMarkUnvisited g (r # rs) = Inr g2"
    using arc(1) g1(1) g2(1) by (simp add: derefArc_def)
  ultimately show ?case
    using g2 g1(3,6) keysOfArcs_Cons [OF Cons.prems(1) arc(1) k, of rs] by auto
qed simp

text \<open>One client of Redis.\<close>

lemma zeCompare_ok:
  assumes "zhash Z" "cg_inv Z (es_clientsGraph es)" "graphGetNode Z (es_clientsGraph es) sk = Some cur" "sk \<notin> set ks"
  shows "\<exists>l g'. zeCompare Z es cur ks acc = Inr (True, acc @ l, es \<lparr> es_clientsGraph := g' \<rparr>) \<and> cg_inv Z g'
    \<and> keepsNodes Z (es_clientsGraph es) g'
    \<and> (\<forall>m. clientsAround Z g' m = (if m = sk then clientsAround Z (es_clientsGraph es) sk \<union> set ks
            else if m \<in> set ks then insert sk (clientsAround Z (es_clientsGraph es) m)
            else clientsAround Z (es_clientsGraph es) m))
    \<and> markedClients Z g' = markedClients Z (es_clientsGraph es) \<union> set ks
    \<and> distinct l \<and> set l = set ks - clientsAround Z (es_clientsGraph es) sk"
  using assms
proof (induction ks arbitrary: es acc)
  case Nil
  then show ?case
    by (intro exI [of _ "[]"] exI [of _ "es_clientsGraph es"]) simp
next
  case (Cons k ks)
  let ?g = "es_clientsGraph es"
  obtain b g1 where g1: "eventServerGetClientNode Z es k = Inr (Some b, es \<lparr> es_clientsGraph := g1 \<rparr>)" "cg_inv Z g1"
    "graphGetNode Z g1 k = Some b" "keepsNodes Z ?g g1" "clientsAround Z g1 = clientsAround Z ?g"
    "markedClients Z g1 = markedClients Z ?g"
    by (rule prox_getClientNode [OF Cons.prems(1,2)])
  have cur: "graphGetNode Z g1 sk = Some cur"
    by (rule keepsNodesD [OF g1(4) Cons.prems(3)])
  have ksk: "k \<noteq> sk"
    using Cons.prems(4) by auto
  obtain n where n: "g_node g1 cur = Some n"
    using cg_node_live [OF g1(2) cur] by (auto simp: graph_live_def)
  have get: "graphNodeGetArc g1 cur b = Inr None" if "k \<notin> clientsAround Z ?g sk"
    using graphNodeGetArc_ok(2) [OF cg_inv_wf(2) [OF g1(2)] n, of b] that clientsAround_iff [OF g1(2) cur g1(3)] g1(5) by simp
  have get2: "\<exists>r. graphNodeGetArc g1 cur b = Inr (Some r)" if "k \<in> clientsAround Z ?g sk"
    using graphNodeGetArc_ok(1) [OF cg_inv_wf(2) [OF g1(2)] n, of b] that clientsAround_iff [OF g1(2) cur g1(3)] g1(5) by auto
  let ?new = "k \<notin> clientsAround Z ?g sk"
  obtain g2 where g2: "rbind (graphNodeGetArc g1 cur b) (\<lambda>arc. case arc of
             Some _ \<Rightarrow> Inr (acc, es \<lparr> es_clientsGraph := g1 \<rparr>)
           | None \<Rightarrow> rbind (eventServerLinkClients Z (es \<lparr> es_clientsGraph := g1 \<rparr>) cur b) (\<lambda>(_, self). Inr (acc @ [k], self)))
      = Inr (acc @ (if ?new then [k] else []), es \<lparr> es_clientsGraph := g2 \<rparr>)"
    "cg_inv Z g2" "graphGetNode Z g2 = graphGetNode Z g1"
    "clientsAround Z g2 = (clientsAround Z ?g)(sk := insert k (clientsAround Z ?g sk), k := insert sk (clientsAround Z ?g k))"
    "markedClients Z g2 = markedClients Z ?g"
  proof (cases ?new)
    case True
    then obtain h where h: "graphLink Z g1 cur b = Inr (True, h)" "cg_inv Z h" "graphGetNode Z h = graphGetNode Z g1"
      "clientsAround Z h = (clientsAround Z g1)(sk := insert k (clientsAround Z g1 sk), k := insert sk (clientsAround Z g1 k))"
      "markedClients Z h = markedClients Z g1"
      using prox_link [OF Cons.prems(1) g1(2) cur g1(3)] ksk g1(5) by metis
    show thesis
      by (rule that [of h]) (use True get h g1 in \<open>simp_all add: eventServerLinkClients_def\<close>)
  next
    case False
    then have "sk \<in> clientsAround Z ?g k"
      using clientsAround_sym [OF Cons.prems(2)] by blast
    then show thesis
      using get2 False g1 by (intro that [of g1]) (auto simp: insert_absorb)
  qed
  obtain g3 where g3: "graphNodeSetAround g2 b True = Inr g3" "cg_inv Z g3" "graphGetNode Z g3 = graphGetNode Z g2"
    "neighbours g3 = neighbours g2" "markedClients Z g3 = insert k (markedClients Z g2)"
    using prox_setAround [OF g2(2), of k b True] g1(3) g2(3) by auto
  have around3: "clientsAround Z g3 = clientsAround Z g2"
    by (rule clientsAround_cong [OF g3(3,4)])
  let ?es3 = "es \<lparr> es_clientsGraph := g3 \<rparr>"
  have keeps: "keepsNodes Z ?g g3"
    using g1(4) g2(3) g3(3) by (simp add: keepsNodes_def)
  obtain l g' where l: "zeCompare Z ?es3 cur ks (acc @ (if ?new then [k] else [])) = Inr (True, (acc @ (if ?new then [k] else [])) @ l, ?es3 \<lparr> es_clientsGraph := g' \<rparr>)"
    "cg_inv Z g'" "keepsNodes Z g3 g'"
    "\<forall>m. clientsAround Z g' m = (if m = sk then clientsAround Z g3 sk \<union> set ks
            else if m \<in> set ks then insert sk (clientsAround Z g3 m) else clientsAround Z g3 m)"
    "markedClients Z g' = markedClients Z g3 \<union> set ks" "distinct l" "set l = set ks - clientsAround Z g3 sk"
    using Cons.IH [of ?es3 "acc @ (if ?new then [k] else [])"] Cons.prems(1,4) g3(2) g2(3) g3(3) cur by auto
  have "zeCompare Z es cur (k # ks) acc = rbind (rbind (graphNodeGetArc g1 cur b) (\<lambda>arc. case arc of
             Some _ \<Rightarrow> Inr (acc, es \<lparr> es_clientsGraph := g1 \<rparr>)
           | None \<Rightarrow> rbind (eventServerLinkClients Z (es \<lparr> es_clientsGraph := g1 \<rparr>) cur b) (\<lambda>(_, self). Inr (acc @ [k], self))))
      (\<lambda>(pcEnterList, self). rbind (graphNodeSetAround (es_clientsGraph self) b True) (\<lambda>g.
         zeCompare Z (self \<lparr> es_clientsGraph := g \<rparr>) cur ks pcEnterList))"
    by (simp add: g1(1) rbind_assoc)
  also have "\<dots> = zeCompare Z ?es3 cur ks (acc @ (if ?new then [k] else []))"
    unfolding g2(1) by (simp add: g3(1))
  finally have res: "zeCompare Z es cur (k # ks) acc = Inr (True, acc @ ((if ?new then [k] else []) @ l), es \<lparr> es_clientsGraph := g' \<rparr>)"
    using l(1) by simp
  show ?case
  proof (intro exI conjI)
    show "zeCompare Z es cur (k # ks) acc = Inr (True, acc @ ((if ?new then [k] else []) @ l), es \<lparr> es_clientsGraph := g' \<rparr>)"
      by (rule res)
    show "keepsNodes Z ?g g'"
      by (rule keepsNodes_trans [OF keeps l(3)])
    show "\<forall>m. clientsAround Z g' m = (if m = sk then clientsAround Z ?g sk \<union> set (k # ks)
            else if m \<in> set (k # ks) then insert sk (clientsAround Z ?g m) else clientsAround Z ?g m)"
      using ksk by (auto simp: l(4) around3 g2(4))
    show "markedClients Z g' = markedClients Z ?g \<union> set (k # ks)"
      using l(5) g3(5) g2(5) by simp
    show "distinct ((if ?new then [k] else []) @ l)"
      using l(6,7) ksk by (auto simp: around3 g2(4))
    show "set ((if ?new then [k] else []) @ l) = set (k # ks) - clientsAround Z ?g sk"
      using l(7) ksk by (auto simp: around3 g2(4))
  qed (rule l(2))
qed

text \<open>Unlinking takes one arc out of the list of the current client and frees no other of its arcs.\<close>

lemma graphUnlink_arcs:
  assumes "graph_heap g" "a \<noteq> b" "graphNodeGetArc g a b = Inr (Some r)" "graphUnlink g a b = Inr (True, g')"
  shows "arcsOf g' a = remove1 r (arcsOf g a)" "\<forall>x \<in> set (arcsOf g' a). g_arc g' x = g_arc g x"
proof -
  obtain g1 r2 g2 where u: "graphRemoveArc g a r = Inr g1" "graphNodeGetArc g1 b a = Inr (Some r2)"
    "graphRemoveArc g1 b r2 = Inr g2" "g' = g2 \<lparr> g_arc := (g_arc g2)(r := None, r2 := None) \<rparr>"
    using assms(3,4) by (auto simp: graphUnlink_def rbind_eq_Inr_iff split: option.splits)
  obtain n where n: "g_node g a = Some n" "g1 = g \<lparr> g_node := (g_node g)(a \<mapsto> n \<lparr> gn_arcs := remove1 r (gn_arcs n) \<rparr>) \<rparr>"
    using u(1) by (auto simp: graphRemoveArc_def derefNode_def rbind_eq_Inr_iff split: option.splits)
  obtain m where m: "g_node g1 b = Some m" "g2 = g1 \<lparr> g_node := (g_node g1)(b \<mapsto> m \<lparr> gn_arcs := remove1 r2 (gn_arcs m) \<rparr>) \<rparr>"
    using u(3) by (auto simp: graphRemoveArc_def derefNode_def rbind_eq_Inr_iff split: option.splits)
  show arcs: "arcsOf g' a = remove1 r (arcsOf g a)"
    using n m assms(2) u(4) by (simp add: arcsOf_def)
  have "g_node g b = Some m" "r2 \<in> set (gn_arcs m)"
    using u(2) m(1) n(2) assms(2) by (auto simp: graphNodeGetArc_def derefNode_def dest: graphFindArc_mem)
  then obtain arc2 where "g_arc g r2 = Some arc2" "ga_from arc2 = b"
    using graph_heap_arc [OF assms(1)] by blast
  then have "r2 \<notin> set (gn_arcs n)"
    using graph_heap_arc [OF assms(1) n(1), of r2] assms(2) by auto
  moreover have "r \<notin> set (remove1 r (gn_arcs n))"
    using graph_heap_distinct [OF assms(1) n(1)] by simp
  ultimately show "\<forall>x \<in> set (arcsOf g' a). g_arc g' x = g_arc g x"
    using n m u(4) unfolding arcs by (auto simp: arcsOf_def dest: notin_set_remove1)
qed

text \<open>The list goes on behind the item that was removed.\<close>

definition continuesBehind :: "('i, 'k) ZoneEnv \<Rightarrow> bool" where
  "continuesBehind env \<longleftrightarrow> (\<forall>xs r ys. r \<notin> set xs \<longrightarrow> ze_nextAfterRemove env (xs @ r # ys) r = length xs)"

lemma keysOfArcs_cong: "graphGetNode Z g' = graphGetNode Z g \<Longrightarrow> \<forall>r \<in> set rs. g_arc g' r = g_arc g r \<Longrightarrow> keysOfArcs Z g' rs = keysOfArcs Z g rs"
  by (simp add: keysOfArcs_def)

lemma zeLeaveLoop_ok:
  assumes "continuesBehind env" "cg_inv Z (es_clientsGraph es)" "graphGetNode Z (es_clientsGraph es) sk = Some cur"
    "arcsOf (es_clientsGraph es) cur = ps @ rs"
  shows "\<exists>l g'. zeLeaveLoop env es cur acc rs = Inr (acc @ l, es \<lparr> es_clientsGraph := g' \<rparr>) \<and> cg_inv Z g'
    \<and> graphGetNode Z g' = graphGetNode Z (es_clientsGraph es) \<and> distinct l
    \<and> set l = keysOfArcs Z (es_clientsGraph es) rs - markedClients Z (es_clientsGraph es)
    \<and> (\<forall>m. clientsAround Z g' m = (if m = sk then clientsAround Z (es_clientsGraph es) sk - set l
            else if m \<in> set l then clientsAround Z (es_clientsGraph es) m - {sk} else clientsAround Z (es_clientsGraph es) m))"
  using assms(2-4)
proof (induction rs arbitrary: es ps acc)
  case Nil
  then show ?case
    by (intro exI [of _ "[]"] exI [of _ "es_clientsGraph es"]) simp
next
  case (Cons r rs)
  let ?g = "es_clientsGraph es"
  have heap: "graph_heap ?g"
    by (rule cg_inv_wf [OF Cons.prems(1)])
  obtain n where n: "g_node ?g cur = Some n"
    using cg_node_live [OF Cons.prems(1,2)] by (auto simp: graph_live_def)
  have arcs: "gn_arcs n = ps @ r # rs"
    using Cons.prems(3) arcsOf_node [OF n] by simp
  obtain arc where arc: "g_arc ?g r = Some arc" "graph_live ?g (ga_to arc)"
    using arcsOf_arc [OF heap, of r cur] Cons.prems(3) by auto
  obtain m where m: "g_node ?g (ga_to arc) = Some m" and k: "graphGetNode Z ?g (gn_key m) = Some (ga_to arc)"
    by (rule cg_node_key [OF Cons.prems(1) arc(2)])
  let ?k = "gn_key m" and ?b = "ga_to arc"
  have around: "?k \<in> clientsAround Z ?g sk"
    using keysOfArcs_all [OF Cons.prems(1,2)] Cons.prems(3) arc(1) k by (auto simp: keysOfArcs_def)
  have marked: "gc_around (gn_user_data m) \<longleftrightarrow> ?k \<in> markedClients Z ?g"
    using m markedClients_iff [OF k] by (simp add: cg_around_def)
  have keys: "keysOfArcs Z ?g (r # rs) = insert ?k (keysOfArcs Z ?g rs)"
    by (rule keysOfArcs_Cons [OF Cons.prems(1) arc(1) k])
  show ?case
  proof (cases "gc_around (gn_user_data m)")
    case True
    have "zeLeaveLoop env es cur acc (r # rs) = zeLeaveLoop env es cur acc rs"
      using True arc m by (simp add: derefArc_def derefNode_def)
    moreover have "keysOfArcs Z ?g (r # rs) - markedClients Z ?g = keysOfArcs Z ?g rs - markedClients Z ?g"
      using keys True marked by auto
    ultimately show ?thesis
      using Cons.IH [OF Cons.prems(1,2), of "ps @ [r]" acc] Cons.prems(3) by simp
  next
    case False
    obtain g1 where g1: "graphUnlink ?g cur ?b = Inr (True, g1)" "cg_inv Z g1" "graphGetNode Z g1 = graphGetNode Z ?g"
      "clientsAround Z g1 = (clientsAround Z ?g)(sk := clientsAround Z ?g sk - {?k}, ?k := clientsAround Z ?g ?k - {sk})"
      "markedClients Z g1 = markedClients Z ?g"
      using prox_unlink [OF Cons.prems(1,2) k around] by metis
    have ksk: "?k \<noteq> sk"
      using around clientsAround_irrefl [OF Cons.prems(1)] by blast
    then have ab: "cur \<noteq> ?b"
      using Cons.prems(2) k cg_node_inj [OF Cons.prems(1), of sk cur ?k] by auto
    obtain r' where r': "graphNodeGetArc ?g cur ?b = Inr (Some r')" "r' \<in> set (gn_arcs n)"
      "\<exists>arc'. g_arc ?g r' = Some arc' \<and> ga_to arc' = ?b"
      using graphNodeGetArc_ok(1) [OF heap n, of ?b] around clientsAround_iff [OF Cons.prems(1,2) k] by blast
    have "neighbours ?g cur = mset (map (\<lambda>r. ga_to (the (g_arc ?g r))) (gn_arcs n))"
      using n by (simp add: neighbours_def)
    then have "distinct (map (\<lambda>r. ga_to (the (g_arc ?g r))) (gn_arcs n))"
      by (rule nbrs_simple_distinct [OF cg_inv_wf(5) [OF Cons.prems(1)]])
    then have "inj_on (\<lambda>r. ga_to (the (g_arc ?g r))) (set (gn_arcs n))"
      by (simp add: distinct_map)
    moreover have "ga_to (the (g_arc ?g r')) = ga_to (the (g_arc ?g r))"
      using r'(3) arc(1) by auto
    ultimately have "r' = r"
      by (rule inj_onD) (use r'(2) arcs in simp_all)
    note get = r'(1) [unfolded \<open>r' = r\<close>]
    have notin: "r \<notin> set ps"
      using graph_heap_distinct [OF heap n] arcs by auto
    have arcs1: "arcsOf g1 cur = ps @ rs" "\<forall>x \<in> set (ps @ rs). g_arc g1 x = g_arc ?g x"
      using graphUnlink_arcs [OF heap ab get g1(1)] Cons.prems(3) notin by (simp_all add: remove1_append)
    let ?es1 = "es \<lparr> es_clientsGraph := g1 \<rparr>"
    have "ze_nextAfterRemove env (ps @ r # rs) r = length ps"
      using assms(1) notin by (simp add: continuesBehind_def)
    then have step: "zeLeaveLoop env es cur acc (r # rs) = zeLeaveLoop env ?es1 cur (acc @ [?k]) rs"
      using False arc m get g1(1) arcs1(1) Cons.prems(3)
      by (simp add: derefArc_def derefNode_def eventServerUnlinkClients_def)
    have keys1: "keysOfArcs Z g1 rs = keysOfArcs Z ?g rs"
      by (rule keysOfArcs_cong [OF g1(3)]) (use arcs1(2) in simp)
    obtain l g' where l: "zeLeaveLoop env ?es1 cur (acc @ [?k]) rs = Inr ((acc @ [?k]) @ l, ?es1 \<lparr> es_clientsGraph := g' \<rparr>)"
      "cg_inv Z g'" "graphGetNode Z g' = graphGetNode Z g1" "distinct l"
      "set l = keysOfArcs Z g1 rs - markedClients Z g1"
      "\<forall>m. clientsAround Z g' m = (if m = sk then clientsAround Z g1 sk - set l
            else if m \<in> set l then clientsAround Z g1 m - {sk} else clientsAround Z g1 m)"
      using Cons.IH [of ?es1 ps "acc @ [?k]"] g1(2,3) Cons.prems(2) arcs1(1) by auto
    have "keysOfArcs Z g1 rs \<subseteq> clientsAround Z g1 sk"
      using keysOfArcs_all [OF g1(2), of sk cur] g1(3) Cons.prems(2) arcs1(1) by (auto simp: keysOfArcs_def)
    then have fresh: "?k \<notin> set l"
      using l(5) g1(4) ksk by auto
    show ?thesis
    proof (intro exI conjI)
      show "zeLeaveLoop env es cur acc (r # rs) = Inr (acc @ (?k # l), es \<lparr> es_clientsGraph := g' \<rparr>)"
        using step l(1) by simp
      show "graphGetNode Z g' = graphGetNode Z ?g"
        using l(3) g1(3) by simp
      show "distinct (?k # l)"
        using fresh l(4) by simp
      show "set (?k # l) = keysOfArcs Z ?g (r # rs) - markedClients Z ?g"
        using l(5) keys keys1 g1(5) False marked by auto
      show "\<forall>m. clientsAround Z g' m = (if m = sk then clientsAround Z ?g sk - set (?k # l)
            else if m \<in> set (?k # l) then clientsAround Z ?g m - {sk} else clientsAround Z ?g m)"
        using ksk fresh by (auto simp: l(6) g1(4))
    qed (rule l(2))
  qed
qed

text \<open>The packets about the clients of a list.\<close>

lemma zeSendEach_ok:
  assumes "\<And>m. es_accepts es m" "\<And>k. k \<in> set ks \<Longrightarrow> \<exists>c. ze_currentCommander env k = Some c \<and> build c = Inr [packet k]"
  shows "zeSendEach env build skipSelf es sk ks = Inr (True, es \<lparr> es_router := es_router es @
    map (\<lambda>k. [enc32 ROUTER_WORKER_MULTICAST, packet k, socketSessionGenId sk]) (filter (\<lambda>k. \<not> (skipSelf \<and> k = sk)) ks) \<rparr>)"
  using assms
proof (induction ks arbitrary: es)
  case (Cons k ks)
  obtain c where "ze_currentCommander env k = Some c" "build c = Inr [packet k]"
    using Cons.prems(2) [of k] by auto
  then show ?case
    using Cons.IH [of es] Cons.IH [of "es \<lparr> es_router := es_router es @ [[enc32 ROUTER_WORKER_MULTICAST, packet k, socketSessionGenId sk]] \<rparr>"] Cons.prems
    by (cases skipSelf) (simp_all add: zmsg_first_def eventServerSendToClient_def eventServerSend_def)
qed simp

section \<open>The position update\<close>

abbreviation (input) multicast :: "bytes \<Rightarrow> string list \<Rightarrow> frames" where
  "multicast packet clients \<equiv> enc32 ROUTER_WORKER_MULTICAST # packet # map socketSessionGenId clients"

definition leavePacket :: "u32 \<Rightarrow> bytes" where
  "leavePacket pcId = enc16 ZC_LEAVE @ enc32 0 @ enc32 pcId @ enc16 1"

lemma zoneBuilderLeave_packet: "zoneBuilderLeave pcId [] = [leavePacket pcId]"
  by (simp add: zoneBuilderLeave_def leavePacket_def zmsg_add_def)

lemma zeEnterPhase_ok:
  assumes "zhash Z" "cg_inv Z (es_clientsGraph es)" "graphGetNode Z (es_clientsGraph es) sk = Some cur" "sk \<notin> set rs"
    "\<And>m. es_accepts es m" "zoneBuilderEnterPc commander [] = Inr [enterMsg]"
    "\<And>k. k \<in> set rs \<Longrightarrow> ze_currentCommander env k = Some (com k) \<and> zoneBuilderEnterPc (com k) [] = Inr [enterOf k]"
  obtains l g' where
    "zeEnterPhase Z env es cur sk commander rs
      = Inr (True, es \<lparr> es_clientsGraph := g', es_router := es_router es @
          (if l = [] then [] else multicast enterMsg rs # map (\<lambda>k. multicast (enterOf k) [sk]) l) \<rparr>)"
    "cg_inv Z g'" "keepsNodes Z (es_clientsGraph es) g'"
    "\<And>m. clientsAround Z g' m = (if m = sk then clientsAround Z (es_clientsGraph es) sk \<union> set rs
            else if m \<in> set rs then insert sk (clientsAround Z (es_clientsGraph es) m)
            else clientsAround Z (es_clientsGraph es) m)"
    "markedClients Z g' = markedClients Z (es_clientsGraph es) \<union> set rs"
    "distinct l" "set l = set rs - clientsAround Z (es_clientsGraph es) sk"
proof -
  obtain l g' where c: "zeCompare Z es cur rs [] = Inr (True, l, es \<lparr> es_clientsGraph := g' \<rparr>)" "cg_inv Z g'"
    "keepsNodes Z (es_clientsGraph es) g'"
    "\<forall>m. clientsAround Z g' m = (if m = sk then clientsAround Z (es_clientsGraph es) sk \<union> set rs
            else if m \<in> set rs then insert sk (clientsAround Z (es_clientsGraph es) m)
            else clientsAround Z (es_clientsGraph es) m)"
    "markedClients Z g' = markedClients Z (es_clientsGraph es) \<union> set rs"
    "distinct l" "set l = set rs - clientsAround Z (es_clientsGraph es) sk"
    using zeCompare_ok [OF assms(1-4), of "[]"] by auto
  have sub: "set l \<subseteq> set rs" and notin: "sk \<notin> set l"
    using c(7) assms(4) by auto
  let ?es1 = "es \<lparr> es_clientsGraph := g', es_router := es_router es @ [multicast enterMsg rs] \<rparr>"
  have "zeSendEach env (\<lambda>c. zoneBuilderEnterPc c []) True ?es1 sk l = Inr (True, ?es1 \<lparr> es_router := es_router ?es1 @
      map (\<lambda>k. [enc32 ROUTER_WORKER_MULTICAST, enterOf k, socketSessionGenId sk]) (filter (\<lambda>k. \<not> (True \<and> k = sk)) l) \<rparr>)"
    by (rule zeSendEach_ok) (use assms(5,7) sub in auto)
  moreover have "filter (\<lambda>k. \<not> (True \<and> k = sk)) l = l"
    using notin by (simp add: filter_id_conv) metis
  ultimately have send: "zeSendEach env (\<lambda>c. zoneBuilderEnterPc c []) True ?es1 sk l = Inr (True, es \<lparr> es_clientsGraph := g',
      es_router := es_router es @ multicast enterMsg rs # map (\<lambda>k. multicast (enterOf k) [sk]) l \<rparr>)"
    by simp
  show thesis
  proof (cases "rs = []")
    case True
    then have "l = []" and same: "es \<lparr> es_clientsGraph := g' \<rparr> = es"
      using c(1) by simp_all
    then have "g' = es_clientsGraph es"
      using arg_cong [OF same, of es_clientsGraph] by simp
    show thesis
    proof (rule that [of "[]" "es_clientsGraph es"])
    qed (use True assms(2) c(7) \<open>l = []\<close> in \<open>simp_all add: zeEnterPhase_def\<close>)
  next
    case False
    show thesis
    proof (rule that [of l g'])
      show "zeEnterPhase Z env es cur sk commander rs
        = Inr (True, es \<lparr> es_clientsGraph := g', es_router := es_router es @
          (if l = [] then [] else multicast enterMsg rs # map (\<lambda>k. multicast (enterOf k) [sk]) l) \<rparr>)"
        using False c(1) send assms(5,6)
        by (cases "l = []") (simp_all add: zeEnterPhase_def eventServerSendToClients_def eventServerSend_def)
    qed (use c in auto)
  qed
qed

lemma zeLeavePhase_ok:
  assumes "continuesBehind env" "cg_inv Z (es_clientsGraph es)" "graphGetNode Z (es_clientsGraph es) sk = Some cur"
    "\<And>m. es_accepts es m" "\<And>k. k \<in> clientsAround Z (es_clientsGraph es) sk \<Longrightarrow> ze_currentCommander env k = Some (com k)"
  obtains l g' where
    "zeLeavePhase env es cur sk commander
      = Inr (True, es \<lparr> es_clientsGraph := g', es_router := es_router es @
          (if l = [] then [] else multicast (leavePacket (co_pcId commander)) l
             # map (\<lambda>k. multicast (leavePacket (co_pcId (com k))) [sk]) l) \<rparr>)"
    "cg_inv Z g'" "graphGetNode Z g' = graphGetNode Z (es_clientsGraph es)" "distinct l"
    "set l = clientsAround Z (es_clientsGraph es) sk - markedClients Z (es_clientsGraph es)"
    "\<And>m. clientsAround Z g' m = (if m = sk then clientsAround Z (es_clientsGraph es) sk - set l
            else if m \<in> set l then clientsAround Z (es_clientsGraph es) m - {sk} else clientsAround Z (es_clientsGraph es) m)"
proof -
  obtain l g' where l: "zeLeaveLoop env es cur [] (arcsOf (es_clientsGraph es) cur) = Inr (l, es \<lparr> es_clientsGraph := g' \<rparr>)" "cg_inv Z g'"
    "graphGetNode Z g' = graphGetNode Z (es_clientsGraph es)" "distinct l"
    "set l = keysOfArcs Z (es_clientsGraph es) (arcsOf (es_clientsGraph es) cur) - markedClients Z (es_clientsGraph es)"
    "\<forall>m. clientsAround Z g' m = (if m = sk then clientsAround Z (es_clientsGraph es) sk - set l
            else if m \<in> set l then clientsAround Z (es_clientsGraph es) m - {sk} else clientsAround Z (es_clientsGraph es) m)"
    using zeLeaveLoop_ok [OF assms(1-3), of "[]" "arcsOf (es_clientsGraph es) cur" "[]"] by auto
  have set: "set l = clientsAround Z (es_clientsGraph es) sk - markedClients Z (es_clientsGraph es)"
    using l(5) keysOfArcs_all [OF assms(2,3)] by simp
  let ?es1 = "es \<lparr> es_clientsGraph := g', es_router := es_router es @ [multicast (leavePacket (co_pcId commander)) l] \<rparr>"
  have send: "zeSendEach env (\<lambda>c. Inr (zoneBuilderLeave (co_pcId c) [])) False ?es1 sk l = Inr (True, ?es1 \<lparr> es_router := es_router ?es1 @
      map (\<lambda>k. [enc32 ROUTER_WORKER_MULTICAST, leavePacket (co_pcId (com k)), socketSessionGenId sk]) (filter (\<lambda>k. \<not> (False \<and> k = sk)) l) \<rparr>)"
    by (rule zeSendEach_ok) (use assms(4,5) set in \<open>auto simp: zoneBuilderLeave_packet\<close>)
  show thesis
  proof (rule that [of l g'])
    show "zeLeavePhase env es cur sk commander
      = Inr (True, es \<lparr> es_clientsGraph := g', es_router := es_router es @
          (if l = [] then [] else multicast (leavePacket (co_pcId commander)) l
             # map (\<lambda>k. multicast (leavePacket (co_pcId (com k))) [sk]) l) \<rparr>)"
      using l(1) send assms(4)
      by (cases "l = []") (simp_all add: zeLeavePhase_def eventServerSendToClients_def eventServerSend_def zoneBuilderLeave_packet)
  qed (use l(2-4,6) set in auto)
qed

text \<open>The beginning of an update: the node of the client is there and none of its neighbours is marked.\<close>

lemma zeUnmark_ok:
  assumes "zhash Z" "cg_inv Z (es_clientsGraph es)"
  obtains cur n g1 g2 where
    "eventServerGetClientNode Z es sk = Inr (Some cur, es \<lparr> es_clientsGraph := g1 \<rparr>)" "g_node g1 cur = Some n"
    "zeMarkUnvisited g1 (gn_arcs n) = Inr g2" "cg_inv Z g2" "graphGetNode Z g2 sk = Some cur"
    "clientsAround Z g2 = clientsAround Z (es_clientsGraph es)" "markedClients Z g2 \<inter> clientsAround Z (es_clientsGraph es) sk = {}"
proof -
  obtain cur g1 where g1: "eventServerGetClientNode Z es sk = Inr (Some cur, es \<lparr> es_clientsGraph := g1 \<rparr>)" "cg_inv Z g1"
    "graphGetNode Z g1 sk = Some cur" "clientsAround Z g1 = clientsAround Z (es_clientsGraph es)"
    by (rule prox_getClientNode [OF assms])
  obtain n where n: "g_node g1 cur = Some n"
    using cg_node_live [OF g1(2,3)] by (auto simp: graph_live_def)
  have "\<forall>r \<in> set (gn_arcs n). \<exists>arc. g_arc g1 r = Some arc \<and> graph_live g1 (ga_to arc)"
    using graph_heap_arc [OF cg_inv_wf(2) [OF g1(2)] n] by blast
  then obtain g2 where g2: "zeMarkUnvisited g1 (gn_arcs n) = Inr g2" "cg_inv Z g2" "graphGetNode Z g2 = graphGetNode Z g1"
    "clientsAround Z g2 = clientsAround Z g1" "markedClients Z g2 = markedClients Z g1 - keysOfArcs Z g1 (gn_arcs n)"
    using zeMarkUnvisited_ok [OF g1(2)] by blast
  show thesis
    using g1 n g2 keysOfArcs_all [OF g1(2,3)] by (intro that [of cur g1 n g2]) (auto simp: arcsOf_node [OF n])
qed


end
