(* ===== verification/ZoneBroadcast.thy ===== *)
theory ZoneBroadcast
  imports ZoneUpdate
begin

text \<open>
  What the handlers of the events that do not move a client send, and the departure of a client. The locale
  \<open>around_broadcast\<close> is the contract that five handlers share: ask for the clients around, add the emitter,
  build one packet and send it to all of them.
\<close>

section \<open>The contract of the broadcasting handlers\<close>

locale around_broadcast =
  fixes handler :: "('h, gaddr) zhash_ops \<Rightarrow> 'h EventServer \<Rightarrow> string \<Rightarrow> 'e \<Rightarrow> (bool \<times> 'h EventServer) result"
    and build :: "'e \<Rightarrow> frames result"
  assumes broadcasts: "handler Z es sk e =
    rbind (eventServerGetClientsAround Z es sk) (\<lambda>(ok, clients, es).
    if \<not> ok then Inr (False, es)
    else rbind (build e) (\<lambda>msg. eventServerSendToClients es (clients @ [sk]) msg))"
begin

lemma delivered:
  assumes "zhash Z" "cg_inv Z (es_clientsGraph es)" "\<And>m. es_accepts es m" "build e = Inr (packet # rest)"
  shows "\<exists>ks es'. handler Z es sk e = Inr (True, es') \<and> cg_inv Z (es_clientsGraph es')
    \<and> distinct (ks @ [sk]) \<and> set ks = clientsAround Z (es_clientsGraph es) sk
    \<and> clientsAround Z (es_clientsGraph es') = clientsAround Z (es_clientsGraph es)
    \<and> es_router es' = es_router es @ [multicast packet (ks @ [sk])]"
proof -
  obtain ks g' where g': "eventServerGetClientsAround Z es sk = Inr (True, ks, es \<lparr> es_clientsGraph := g' \<rparr>)"
    "cg_inv Z g'" "distinct ks" "set ks = clientsAround Z (es_clientsGraph es) sk"
    "clientsAround Z g' = clientsAround Z (es_clientsGraph es)" "graphGetNode Z g' sk \<noteq> None"
    by (rule eventServerGetClientsAround_ok [OF assms(1,2), of sk])
  have "sk \<notin> set ks"
    using g'(4) clientsAround_irrefl [OF assms(2)] by simp
  then show ?thesis
    using g' assms(3,4)
    by (intro exI [of _ ks]) (simp add: broadcasts eventServerSendToClients_def eventServerSend_def fun_eq_iff)
qed

end

interpretation restSit: around_broadcast zoneEventHandlerRestSit "\<lambda>pcId. Inr (zoneBuilderRestSit pcId [])"
  by unfold_locales (simp add: zoneEventHandlerRestSit_def cong: if_cong)

interpretation headRotate: around_broadcast "\<lambda>Z es sk (pcId, d). zoneEventHandlerHeadRotate Z es sk pcId d"
    "\<lambda>(pcId, d). Inr (zoneBuilderRotateHead pcId d [])"
  by unfold_locales (simp add: zoneEventHandlerHeadRotate_def cong: if_cong split: prod.split)

interpretation rotate: around_broadcast "\<lambda>Z es sk (pcId, d). zoneEventHandlerRotate Z es sk pcId d"
    "\<lambda>(pcId, d). Inr (zoneBuilderRotate pcId d [])"
  by unfold_locales (simp add: zoneEventHandlerRotate_def cong: if_cong split: prod.split)

interpretation pose: around_broadcast "\<lambda>Z es sk (pcId, i, p, d). zoneEventHandlerPose Z es sk pcId i p d"
    "\<lambda>(pcId, i, p, d). Inr (zoneBuilderPose pcId i p d [])"
  by unfold_locales (simp add: zoneEventHandlerPose_def cong: if_cong split: prod.split)

interpretation chat: around_broadcast "\<lambda>Z es sk (st, c, t). zoneEventHandlerChat Z st es sk c t"
    "\<lambda>(st, c, t). zoneBuilderChat st c (c_str t) []"
  by unfold_locales (simp add: zoneEventHandlerChat_def cong: if_cong split: prod.split)

text \<open>The packet that an event broadcasts, if it is one of these events and the packet can be built.\<close>

fun broadcastPacket :: "Store \<Rightarrow> ('i, 'k) ZoneEvent \<Rightarrow> bytes option" where
  "broadcastPacket st (RestSitEvent pcId) = Some (hd (zoneBuilderRestSit pcId []))"
| "broadcastPacket st (HeadRotateEvent pcId d) = Some (hd (zoneBuilderRotateHead pcId d []))"
| "broadcastPacket st (RotateEvent pcId d) = Some (hd (zoneBuilderRotate pcId d []))"
| "broadcastPacket st (PoseEvent pcId i p d) = Some (hd (zoneBuilderPose pcId i p d []))"
| "broadcastPacket st (ChatEvent c t) =
     (case zoneBuilderChat st c (c_str t) [] of Inr (p # _) \<Rightarrow> Some p | _ \<Rightarrow> None)"
| "broadcastPacket st _ = None"

lemma zoneEvents_reach:
  assumes "zhash Z" "cg_inv Z (es_clientsGraph es)" "\<And>m. es_accepts es m" "broadcastPacket (ze_store env) e = Some packet"
  shows "\<exists>ks es'. zoneEventServerProcess Z env es (eventTypeOf e) sk e = Inr (True, es') \<and> cg_inv Z (es_clientsGraph es')
    \<and> distinct (ks @ [sk]) \<and> set ks = clientsAround Z (es_clientsGraph es) sk
    \<and> clientsAround Z (es_clientsGraph es') = clientsAround Z (es_clientsGraph es)
    \<and> es_router es' = es_router es @ [multicast packet (ks @ [sk])]"
proof (cases e)
  case (RestSitEvent pcId)
  then show ?thesis
    using restSit.delivered [OF assms(1-3), of pcId packet "[]" sk] assms(4)
    by (simp add: zoneEventServerProcess_def zoneBuilderRestSit_def zmsg_add_def)
next
  case (HeadRotateEvent pcId d)
  then show ?thesis
    using headRotate.delivered [OF assms(1-3), of "(pcId, d)" packet "[]" sk] assms(4)
    by (simp add: zoneEventServerProcess_def zoneBuilderRotateHead_def zmsg_add_def)
next
  case (RotateEvent pcId d)
  then show ?thesis
    using rotate.delivered [OF assms(1-3), of "(pcId, d)" packet "[]" sk] assms(4)
    by (simp add: zoneEventServerProcess_def zoneBuilderRotate_def zmsg_add_def)
next
  case (PoseEvent pcId i p d)
  then show ?thesis
    using pose.delivered [OF assms(1-3), of "(pcId, i, p, d)" packet "[]" sk] assms(4)
    by (simp add: zoneEventServerProcess_def zoneBuilderPose_def zmsg_add_def)
next
  case (ChatEvent c t)
  then obtain rest where "zoneBuilderChat (ze_store env) c (c_str t) [] = Inr (packet # rest)"
    using assms(4) by (auto split: sum.splits list.splits)
  then show ?thesis
    using ChatEvent chat.delivered [OF assms(1-3), of "(ze_store env, c, t)" packet rest sk]
    by (simp add: zoneEventServerProcess_def)
qed (use assms(4) in simp_all)

text \<open>C22: an event that shows something of a client (sitting, turning, posing, chatting) reaches the clients that
  see the emitter and the emitter itself, each exactly once, with the packet of the event, and changes no
  one's neighbours.\<close>

theorem zoneEvents_broadcast:
  assumes "zhash Z" "cg_inv Z (es_clientsGraph es)" "\<And>m. es_accepts es m" "broadcastPacket (ze_store env) e = Some packet"
  shows "\<exists>ks es'. zoneEventServerProcess Z env es (eventTypeOf e) sk e = Inr (True, es') \<and> cg_inv Z (es_clientsGraph es')
    \<and> distinct (ks @ [sk]) \<and> set ks = clientsAround Z (es_clientsGraph es) sk
    \<and> clientsAround Z (es_clientsGraph es') = clientsAround Z (es_clientsGraph es)
    \<and> es_router es' = es_router es @ [multicast packet (ks @ [sk])]"
  by (rule zoneEvents_reach [OF assms])

section \<open>Departure\<close>

lemma prox_remove:
  assumes "cg_inv Z g" "graphGetNode Z g k = Some a"
  obtains g' where "graphRemoveNode g a = Inr (True, g')" "cg_inv Z g'" "graphGetNode Z g' = graphGetNode Z g"
    "clientsAround Z g' = (\<lambda>m. if m = k then {} else clientsAround Z g m - {k})"
proof -
  obtain g' where g': "graphRemoveNode g a = Inr (True, g')" "cg_inv Z g'" "graphGetNode Z g' = graphGetNode Z g"
    "neighbours g' = nbrs_remove (neighbours g) a"
    using cg_remove_ok [OF assms(1) cg_node_live [OF assms]] by blast
  have "clientsAround Z g' m = (if m = k then {} else clientsAround Z g m - {k})" for m
  proof (rule set_eqI)
    fix x
    have inj: "graphGetNode Z g l = Some a \<longleftrightarrow> l = k" for l
      using assms(2) cg_node_inj [OF assms, of l] by auto
    show "x \<in> clientsAround Z g' m \<longleftrightarrow> x \<in> (if m = k then {} else clientsAround Z g m - {k})"
      using inj [of m] inj [of x] by (auto simp: clientsAround_def g'(3,4) nbrs_remove_def split: if_splits)
  qed
  then show thesis
    using that [OF g'(1-3)] by (simp add: fun_eq_iff)
qed

text \<open>When a client leaves, every client that saw it is told so, and afterwards it is no one's neighbour and
  has none; the links of the other clients stay. The client that left is told too.\<close>

theorem zoneEventHandlerLeave_correct:
  assumes "zhash Z" "cg_inv Z (es_clientsGraph es)" "\<And>m. es_accepts es m"
  shows "\<exists>ks es'. zoneEventServerProcess Z env es (eventTypeOf (LeaveEvent pcId)) sk (LeaveEvent pcId) = Inr (True, es')
    \<and> cg_inv Z (es_clientsGraph es')
    \<and> clientsAround Z (es_clientsGraph es') = (\<lambda>m. if m = sk then {} else clientsAround Z (es_clientsGraph es) m - {sk})
    \<and> distinct (ks @ [sk]) \<and> set ks = clientsAround Z (es_clientsGraph es) sk
    \<and> es_router es' = es_router es @ [multicast (leavePacket pcId) (ks @ [sk])]"
proof -
  obtain ks g1 where g1: "eventServerGetClientsAround Z es sk = Inr (True, ks, es \<lparr> es_clientsGraph := g1 \<rparr>)"
    "cg_inv Z g1" "distinct ks" "set ks = clientsAround Z (es_clientsGraph es) sk"
    "clientsAround Z g1 = clientsAround Z (es_clientsGraph es)" "graphGetNode Z g1 sk \<noteq> None"
    by (rule eventServerGetClientsAround_ok [OF assms(1,2), of sk])
  obtain a where a: "graphGetNode Z g1 sk = Some a"
    using g1(6) by auto
  obtain g2 where g2: "graphRemoveNode g1 a = Inr (True, g2)" "cg_inv Z g2"
    "clientsAround Z g2 = (\<lambda>m. if m = sk then {} else clientsAround Z g1 m - {sk})"
    by (rule prox_remove [OF g1(2) a])
  have "sk \<notin> set ks"
    using g1(4) clientsAround_irrefl [OF assms(2)] by simp
  moreover have "eventServerRemoveClient Z (es \<lparr> es_clientsGraph := g1 \<rparr>) sk = Inr (True, es \<lparr> es_clientsGraph := g2 \<rparr>)"
    using a g2(1) by (simp add: eventServerRemoveClient_def eventServerGetClientNode_def)
  ultimately show ?thesis
    using g1 g2 assms(3)
    by (intro exI [of _ ks] exI [of _ "es \<lparr> es_clientsGraph := g2, es_router := es_router es @ [multicast (leavePacket pcId) (ks @ [sk])] \<rparr>"])
      (simp add: zoneEventServerProcess_def zoneEventHandlerLeave_def zoneBuilderLeave_packet eventServerSendToClients_def
        eventServerSend_def fun_eq_iff)
qed

end
