(* ===== verification/ZoneEventsWitness.thy ===== *)
theory ZoneEventsWitness
  imports ZoneBroadcast
begin

text \<open>
  A failure in the middle of a position update, and concrete instances of the theorems about the events of a
  zone: a client that walks into the range of another one.
\<close>

section \<open>A client without a game session\<close>

lemma zeSendEach_missing:
  assumes "\<And>m. es_accepts es m" "k0 \<in> set ks" "k0 \<noteq> sk" "ze_currentCommander env k0 = None"
    "\<And>k c. k \<in> set ks \<Longrightarrow> ze_currentCommander env k = Some c \<Longrightarrow> \<exists>p. build c = Inr [p]"
  shows "\<exists>ms. zeSendEach env build skipSelf es sk ks = Inr (False, es \<lparr> es_router := ms \<rparr>)"
  using assms(1,2,5)
proof (induction ks arbitrary: es)
  case (Cons k ks)
  show ?case
  proof (cases "skipSelf \<and> k = sk")
    case True
    have "\<exists>ms. zeSendEach env build skipSelf es sk ks = Inr (False, es \<lparr> es_router := ms \<rparr>)"
      by (rule Cons.IH) (use Cons.prems True assms(3) in auto)
    then show ?thesis
      using True by simp
  next
    case False
    show ?thesis
    proof (cases "ze_currentCommander env k")
      case None
      then show ?thesis
        using False by (intro exI [of _ "es_router es"]) (cases skipSelf; simp)
    next
      case (Some c)
      then have "k0 \<in> set ks"
        using Cons.prems(2) assms(4) by auto
      obtain p where p: "build c = Inr [p]"
        using Cons.prems(3) [OF _ Some] by auto
      let ?es1 = "es \<lparr> es_router := es_router es @ [[enc32 ROUTER_WORKER_MULTICAST, p, socketSessionGenId sk]] \<rparr>"
      have "\<exists>ms. zeSendEach env build skipSelf ?es1 sk ks = Inr (False, ?es1 \<lparr> es_router := ms \<rparr>)"
        by (rule Cons.IH) (use Cons.prems \<open>k0 \<in> set ks\<close> in auto)
      moreover have "zeSendEach env build skipSelf es sk (k # ks) = zeSendEach env build skipSelf ?es1 sk ks"
        using False Some p Cons.prems(1) by (auto simp: zmsg_first_def eventServerSendToClient_def eventServerSend_def)
      ultimately show ?thesis by auto
    qed
  qed
qed simp

text \<open>The update stops at the first client in the range that has no game session in Redis (one that has just
  disconnected). The handler reports a failure, and the clients that went out of range are not even looked at:
  they stay neighbours, besides all the clients in the range, which are linked already.\<close>

theorem zoneEventServerUpdateClientPosition_aborts:
  assumes "zhash Z" "cg_inv Z (es_clientsGraph es)" "\<And>m. es_accepts es m"
    and redis: "ze_clientsWithinRange env (up_mapId ev) (PositionXYZToXZ (up_newPosition ev)) sk = Some rs" "sk \<notin> set rs"
    and enter: "zoneBuilderEnterPc (up_commander ev) [] = Inr [enterMsg]"
      "\<And>k c. k \<in> set rs \<Longrightarrow> ze_currentCommander env k = Some c \<Longrightarrow> \<exists>p. zoneBuilderEnterPc c [] = Inr [p]"
    and missing: "k0 \<in> set rs" "k0 \<notin> clientsAround Z (es_clientsGraph es) sk" "ze_currentCommander env k0 = None"
  shows "\<exists>es'. zoneEventServerUpdateClientPosition Z env es sk ev = Inr (False, Some rs, es') \<and> cg_inv Z (es_clientsGraph es')
    \<and> clientsAround Z (es_clientsGraph es') sk = clientsAround Z (es_clientsGraph es) sk \<union> set rs"
proof -
  let ?old = "clientsAround Z (es_clientsGraph es)"
  obtain cur g1 where g1: "eventServerGetClientNode Z es sk = Inr (Some cur, es \<lparr> es_clientsGraph := g1 \<rparr>)" "cg_inv Z g1"
    "graphGetNode Z g1 sk = Some cur" "keepsNodes Z (es_clientsGraph es) g1" "clientsAround Z g1 = ?old"
    "markedClients Z g1 = markedClients Z (es_clientsGraph es)"
    by (rule prox_getClientNode [OF assms(1,2)])
  obtain n where n: "g_node g1 cur = Some n"
    using cg_node_live [OF g1(2,3)] by (auto simp: graph_live_def)
  have "\<forall>r \<in> set (gn_arcs n). \<exists>arc. g_arc g1 r = Some arc \<and> graph_live g1 (ga_to arc)"
    using graph_heap_arc [OF cg_inv_wf(2) [OF g1(2)] n] by blast
  then obtain g2 where g2: "zeMarkUnvisited g1 (gn_arcs n) = Inr g2" "cg_inv Z g2" "graphGetNode Z g2 = graphGetNode Z g1"
    "clientsAround Z g2 = clientsAround Z g1"
    using zeMarkUnvisited_ok [OF g1(2)] by blast
  let ?es2 = "es \<lparr> es_clientsGraph := g2 \<rparr>"
  have cur2: "graphGetNode Z (es_clientsGraph ?es2) sk = Some cur"
    using g1(3) g2(3) by simp
  obtain l g3 where l: "zeCompare Z ?es2 cur rs [] = Inr (True, l, ?es2 \<lparr> es_clientsGraph := g3 \<rparr>)" "cg_inv Z g3"
    "clientsAround Z g3 sk = ?old sk \<union> set rs" "set l = set rs - ?old sk"
    using zeCompare_ok [OF assms(1) _ cur2 redis(2), of "[]"] g2(2,4) g1(5) by auto
  let ?es3 = "es \<lparr> es_clientsGraph := g3, es_router := es_router es @ [multicast enterMsg rs] \<rparr>"
  have k0: "k0 \<in> set l" "k0 \<noteq> sk"
    using l(4) missing redis(2) by auto
  obtain ms where ms: "zeSendEach env (\<lambda>c. zoneBuilderEnterPc c []) True ?es3 sk l = Inr (False, ?es3 \<lparr> es_router := ms \<rparr>)"
  proof -
    have "\<exists>ms. zeSendEach env (\<lambda>c. zoneBuilderEnterPc c []) True ?es3 sk l = Inr (False, ?es3 \<lparr> es_router := ms \<rparr>)"
      by (rule zeSendEach_missing [OF _ k0 missing(3)]) (use assms(3) enter(2) l(4) in auto)
    then show thesis
      using that by blast
  qed
  have "rs \<noteq> []" "l \<noteq> []"
    using missing(1) k0(1) by auto
  then have "zeEnterPhase Z env ?es2 cur sk (up_commander ev) rs = Inr (False, ?es3 \<lparr> es_router := ms \<rparr>)"
    using l(1) enter(1) ms assms(3) by (simp add: zeEnterPhase_def eventServerSendToClients_def eventServerSend_def)
  then have "zoneEventServerUpdateClientPosition Z env es sk ev = Inr (False, Some rs, ?es3 \<lparr> es_router := ms \<rparr>)"
    unfolding zoneEventServerUpdateClientPosition_def Let_def redis(1)
    using g1(1) n g2(1) by (simp add: derefNode_def)
  then show ?thesis
    using l(2,3) by (intro exI [of _ "?es3 \<lparr> es_router := ms \<rparr>"]) simp
qed

section \<open>Examples\<close>

definition exPc :: "((string \<times> addr) list, (string \<times> nat) list) Commander" where
  "exPc = commanderInit al_ops al_ops"

lemma exPc_enter: "\<exists>p. zoneBuilderEnterPc exPc [] = Inr [p]"
  by (simp add: zoneBuilderEnterPc_def commanderAppearance_def commanderAppearanceCPacketInit_def zmsg_add_def
      exPc_def commanderInit_def)

definition exMove :: "((string \<times> addr) list, (string \<times> nat) list) GameEventUpdatePosition" where
  "exMove = \<lparr> up_mapId = 1, up_commander = exPc, up_newPosition = \<lparr> pos_x = 0, pos_y = 0, pos_z = 0 \<rparr> \<rparr>"

text \<open>Redis finds the client \<open>''B''\<close> around; \<open>known\<close> tells whether it has a game session.\<close>

definition exZoneEnv :: "bool \<Rightarrow> ((string \<times> addr) list, (string \<times> nat) list) ZoneEnv" where
  "exZoneEnv known = \<lparr> ze_clientsWithinRange = (\<lambda>_ _ _. Some [''B'']),
     ze_currentCommander = (\<lambda>k. if known \<and> k = ''B'' then Some exPc else None), ze_store = \<lparr> st_items = Map.empty, st_handles = Map.empty, st_next = 0 \<rparr>,
     ze_nextAfterRemove = (\<lambda>xs r. length (takeWhile (\<lambda>x. x \<noteq> r) xs)) \<rparr>"

lemma exZoneEnv_continues: "continuesBehind (exZoneEnv known)"
proof -
  have "takeWhile (\<lambda>x. x \<noteq> r) (xs @ r # ys) = xs" if "r \<notin> set xs" for xs :: "gaddr list" and r ys
    using that by (induction xs) auto
  then show ?thesis
    by (simp add: continuesBehind_def exZoneEnv_def)
qed

lemma exEventServer_inv: "cg_inv al_ops (es_clientsGraph exEventServer)" "es_accepts exEventServer m"
    "clientsAround al_ops (es_clientsGraph exEventServer) = (\<lambda>_. {})"
  using cg_inv_init [OF al.zhash_axioms]
  by (auto simp: exEventServer_def eventServerInit_def clientsAround_def graphInit_def graphGetNode_def)


theorem zoneEventServerUpdateClientPosition_aborts_witness:
  "\<exists>es'. zoneEventServerUpdateClientPosition al_ops (exZoneEnv False) exEventServer ''A'' exMove = Inr (False, Some [''B''], es')
    \<and> clientsAround al_ops (es_clientsGraph es') ''A'' = {''B''}"
proof -
  obtain p where p: "zoneBuilderEnterPc exPc [] = Inr [p]"
    using exPc_enter by blast
  have "\<exists>es'. zoneEventServerUpdateClientPosition al_ops (exZoneEnv False) exEventServer ''A'' exMove = Inr (False, Some [''B''], es')
    \<and> cg_inv al_ops (es_clientsGraph es')
    \<and> clientsAround al_ops (es_clientsGraph es') ''A'' = clientsAround al_ops (es_clientsGraph exEventServer) ''A'' \<union> set [''B'']"
    by (rule zoneEventServerUpdateClientPosition_aborts [OF al.zhash_axioms exEventServer_inv(1,2), where ?k0.0 = "''B''" and enterMsg = p])
      (use p in \<open>simp_all add: exEventServer_inv exZoneEnv_def exMove_def\<close>)
  then show ?thesis by (auto simp: exEventServer_inv)
qed

theorem zoneEvents_broadcast_witness:
  "\<exists>es'. zoneEventServerProcess al_ops (exZoneEnv True) exEventServer 2 ''A'' (RestSitEvent 7) = Inr (True, es')
    \<and> length (es_router es') = 1"
proof -
  obtain ks es' where "zoneEventServerProcess al_ops (exZoneEnv True) exEventServer (eventTypeOf (RestSitEvent 7)) ''A'' (RestSitEvent 7) = Inr (True, es')"
    "es_router es' = es_router exEventServer @ [multicast (hd (zoneBuilderRestSit 7 [])) (ks @ [''A''])]"
    using zoneEvents_broadcast [OF al.zhash_axioms exEventServer_inv(1,2), of "exZoneEnv True" "RestSitEvent 7" _ "''A''"] by auto
  then show ?thesis
    by (simp add: exEventServer_def eventServerInit_def)
qed

theorem zoneEventHandlerLeave_correct_witness:
  "\<exists>es'. zoneEventServerProcess al_ops (exZoneEnv True) exEventServer 9 ''A'' (LeaveEvent 7) = Inr (True, es')
    \<and> length (es_router es') = 1"
proof -
  obtain ks es' where "zoneEventServerProcess al_ops (exZoneEnv True) exEventServer (eventTypeOf (LeaveEvent 7 :: (_, _) ZoneEvent)) ''A'' (LeaveEvent 7) = Inr (True, es')"
    "es_router es' = es_router exEventServer @ [multicast (leavePacket 7) (ks @ [''A''])]"
    using zoneEventHandlerLeave_correct [OF al.zhash_axioms exEventServer_inv(1,2), of "exZoneEnv True" 7 "''A''"] by blast
  then show ?thesis
    by (simp add: exEventServer_def eventServerInit_def)
qed

end
