(* ===== verification/Worker.thy ===== *)
theory Worker
  imports Crypto Router SocketSession
begin

text \<open>
  \<open>src/common/server/worker.c\<close>: a worker takes the message of a client from the router, splits it into
  packets, decrypts them and calls the handler of each type, which adds its replies to the message that goes
  back. The handlers, the session databases and the key schedule are arguments; the session is whatever the
  handlers work on.
\<close>

section \<open>State\<close>

datatype PacketHandlerState =
    PACKET_HANDLER_ERROR
  | PACKET_HANDLER_OK
  | PACKET_HANDLER_UPDATE_SESSION
  | PACKET_HANDLER_DELETE_SESSION

datatype ServerType = SERVER_TYPE_GLOBAL | SERVER_TYPE_BARRACK | SERVER_TYPE_SOCIAL | SERVER_TYPE_ZONE

text \<open>A handler gets the session, the memory behind the header of its packet, the size of the packet and the
  message with the replies so far.\<close>

type_synonym 's PacketHandler = "'s \<Rightarrow> bytes \<Rightarrow> u64 \<Rightarrow> frames \<Rightarrow> (PacketHandlerState \<times> 's \<times> frames) result"

record 's Worker =
  wo_serverType :: ServerType
  wo_schedule :: BF_KEY
  wo_packetHandlers :: "'s PacketHandler option list"
  wo_packetHandlersCount :: nat
  wo_requestSession :: "string \<Rightarrow> bool"
  wo_sessionObject :: "string \<Rightarrow> 's option"
  wo_updateDb :: "'s \<Rightarrow> bool"
  wo_updateRedis :: "'s \<Rightarrow> bool"
  wo_flushRedis :: "'s \<Rightarrow> bool"

section \<open>One packet\<close>

text \<open>-1 on error, 0 for a plain packet, 1 for an encrypted one, and the size in the header.\<close>

definition workerGetCryptedPacketInfo :: "'s Worker \<Rightarrow> u64 \<Rightarrow> bytes \<Rightarrow> (int \<times> u16) result" where
  "workerGetCryptedPacketInfo self packetSize packet =
     (case wo_serverType self of
        SERVER_TYPE_SOCIAL \<Rightarrow> Inr (0, ucast packetSize)
      | SERVER_TYPE_GLOBAL \<Rightarrow> Inr (-1, 0)
      | _ \<Rightarrow>
          if packetSize < 2 then Inr (-1, 0)
          else rbind (cryptPacketGetHeader packet) (\<lambda>cryptHeader.
            if packetSize - 2 < ucast (crh_plainSize cryptHeader) then Inr (-1, crh_plainSize cryptHeader)
            else Inr (1, crh_plainSize cryptHeader)))"

definition workerHandlePacket ::
    "'s Worker \<Rightarrow> 's \<Rightarrow> bytes \<Rightarrow> u64 \<Rightarrow> bool \<Rightarrow> frames \<Rightarrow> (PacketHandlerState \<times> 's \<times> frames) result" where
  "workerHandlePacket self session packet packetSize isCrypted reply =
     rbind (clientPacketUnwrapHeader packet packetSize isCrypted) (\<lambda>(header, packet, packetSize).
     let type = unat (cph_type header) in
     if wo_packetHandlersCount self < type then Inr (PACKET_HANDLER_ERROR, session, reply)
     else if length (wo_packetHandlers self) \<le> type then Inl OutOfBounds
     else case wo_packetHandlers self ! type of
       None \<Rightarrow> Inr (PACKET_HANDLER_ERROR, session, reply)
     | Some handler \<Rightarrow> handler session packet packetSize reply)"

text \<open>
  The result has the packet too, since it is decrypted in place. \<open>headerAnswer\<close> is the position in the
  message of the frame that an error overwrites.
\<close>

definition workerProcessOneRequest ::
    "'s Worker \<Rightarrow> 's \<Rightarrow> bytes \<Rightarrow> u64 \<Rightarrow> frames \<Rightarrow> nat \<Rightarrow> bool \<Rightarrow> (bool \<times> bytes \<times> 's \<times> frames) result" where
  "workerProcessOneRequest self session packet packetSize msg headerAnswer isCrypted =
     rbind (if isCrypted then cryptoDecryptPacket (wo_schedule self) packet packetSize else Inr (True, packet, packetSize))
       (\<lambda>(ok, plain, plainSize).
     let packet = (if isCrypted then take 2 packet @ plain else packet) in
     if \<not> ok then Inr (False, packet, session, msg)
     else rbind (workerHandlePacket self session plain plainSize isCrypted msg) (\<lambda>(status, session, msg).
       case status of
         PACKET_HANDLER_ERROR \<Rightarrow> Inr (False, packet, session, msg[headerAnswer := enc32 ROUTER_WORKER_ERROR])
       | PACKET_HANDLER_OK \<Rightarrow> Inr (True, packet, session, msg)
       | PACKET_HANDLER_UPDATE_SESSION \<Rightarrow>
           Inr (wo_updateDb self session \<and> wo_updateRedis self session, packet, session, msg)
       | PACKET_HANDLER_DELETE_SESSION \<Rightarrow> Inr (wo_flushRedis self session, packet, session, msg)))"

section \<open>The message of a client\<close>

text \<open>The loop of \<open>workerBuildReply\<close>; \<open>None\<close> when it does not end.\<close>

partial_function (option) workerBuildReplyLoop ::
    "'s Worker \<Rightarrow> bytes \<Rightarrow> u64 \<Rightarrow> 's \<Rightarrow> frames \<Rightarrow> nat \<Rightarrow> (bool \<times> 's \<times> frames) result option" where
  "workerBuildReplyLoop self packet packetSizeRemaining session msg headerAnswer =
     (if packetSizeRemaining = 0 then Some (Inr (True, session, msg))
      else case workerGetCryptedPacketInfo self packetSizeRemaining packet of
        Inl e \<Rightarrow> Some (Inl e)
      | Inr (isCrypted, plainSize) \<Rightarrow>
          if isCrypted = -1 then Some (Inr (False, session, msg))
          else
            let subPacketSize = ucast plainSize + (if isCrypted \<noteq> 0 then 2 else 0) in
            case workerProcessOneRequest self session packet subPacketSize msg headerAnswer (isCrypted \<noteq> 0) of
              Inl e \<Rightarrow> Some (Inl e)
            | Inr (ok, packet, session, msg) \<Rightarrow>
                if \<not> ok then Some (Inr (False, session, msg))
                else workerBuildReplyLoop self (drop (unat subPacketSize) packet) (packetSizeRemaining - subPacketSize)
                  session msg headerAnswer)"

definition workerBuildReply ::
    "'s Worker \<Rightarrow> string \<Rightarrow> bytes \<Rightarrow> u64 \<Rightarrow> frames \<Rightarrow> nat \<Rightarrow> (bool \<times> frames) result option" where
  "workerBuildReply self sessionKey packet packetSize msg headerAnswer =
     (case wo_sessionObject self sessionKey of
        None \<Rightarrow> Some (Inr (False, msg))
      | Some session \<Rightarrow>
          map_option (\<lambda>r. rbind r (\<lambda>(ok, session, msg). Inr (ok, msg)))
            (workerBuildReplyLoop self packet packetSize session msg headerAnswer))"

definition workerProcessClientPacket :: "'s Worker \<Rightarrow> frames \<Rightarrow> (bool \<times> frames) result option" where
  "workerProcessClientPacket self msg =
     (case msg of
        sessionKeyFrame # packetFrame # msg \<Rightarrow>
          let msg = sessionKeyFrame # msg in
          (case socketSessionGenSessionKey sessionKeyFrame of
             Inl e \<Rightarrow> Some (Inl e)
           | Inr sessionKeyStr \<Rightarrow>
               if \<not> wo_requestSession self sessionKeyStr then Some (Inr (False, msg))
               else
                 let msg = enc32 ROUTER_WORKER_NORMAL # msg;
                     headerAnswer = length msg - 1 in
                 workerBuildReply self sessionKeyStr packetFrame (of_nat (length packetFrame)) msg headerAnswer)
      | _ \<Rightarrow> Some (Inl NullDeref))"

text \<open>The message that is sent back to the router, if any.\<close>

definition workerHandlePublicRequest :: "'s Worker \<Rightarrow> frames \<Rightarrow> (int \<times> frames option) result option" where
  "workerHandlePublicRequest self msg =
     (if length msg \<noteq> 2 then Some (Inr (-1, None))
      else map_option (\<lambda>r. rbind r (\<lambda>(_, msg). Inr (0, Some msg))) (workerProcessClientPacket self msg))"

text \<open>A \<open>ROUTER_PING\<close> of the global server is answered with a \<open>ROUTER_PONG\<close>.\<close>

definition workerProcessGlobalPacket :: "frames \<Rightarrow> (bool \<times> frames) result" where
  "workerProcessGlobalPacket msg =
     (case msg of
        [] \<Rightarrow> Inl NullDeref
      | headerFrame # msg \<Rightarrow>
          rbind (frame_read 4 headerFrame) (\<lambda>bs.
          if dec32 bs = ROUTER_PING then Inr (True, msg @ [enc32 ROUTER_PONG]) else Inr (False, msg)))"

definition workerReadyMsg :: "u16 \<Rightarrow> frames" where
  "workerReadyMsg workerId = [enc32 ROUTER_WORKER_READY, enc16 workerId]"

section \<open>Termination\<close>

lemma unat_of_nat_u64: "n < 2 ^ 64 \<Longrightarrow> unat (of_nat n :: u64) = n"
  by (simp add: unsigned_of_nat take_bit_nat_eq_self)

lemma unat_u16_u64: "unat (ucast (x :: u16) :: u64) = unat x"
proof -
  have "unat x < 2 ^ 16"
    using unsigned_less [of x] by simp
  then show ?thesis
    by (simp add: unsigned_ucast_eq take_bit_nat_eq_self)
qed

lemma subPacket_progress:
  fixes remaining :: u64 and plainSize :: u16
  assumes "2 \<le> remaining" "ucast plainSize \<le> remaining - 2"
  shows "unat (remaining - (ucast plainSize + 2)) < unat remaining"
    and "ucast plainSize + 2 \<le> remaining"
proof -
  have r: "unat (remaining - 2) = unat remaining - 2" "2 \<le> unat remaining"
    using assms(1) by (auto simp: unat_sub word_le_nat_alt)
  have p: "unat plainSize \<le> unat remaining - 2"
    using assms(2) by (simp add: word_le_nat_alt unat_u16_u64 r)
  have "unat plainSize < 2 ^ 16"
    using unsigned_less [of plainSize] by simp
  then have s: "unat (ucast plainSize + 2 :: u64) = unat plainSize + 2"
    by (simp add: unat_word_ariths unat_u16_u64)
  then show le: "ucast plainSize + 2 \<le> remaining"
    using p r(2) by (simp add: word_le_nat_alt)
  show "unat (remaining - (ucast plainSize + 2)) < unat remaining"
    using s le r(2) by (simp add: unat_sub)
qed

lemma cryptedInfo_sizes:
  assumes "workerGetCryptedPacketInfo self remaining packet = Inr (isCrypted, plainSize)" "isCrypted \<noteq> -1"
    "wo_serverType self \<in> {SERVER_TYPE_ZONE, SERVER_TYPE_BARRACK}"
  shows "isCrypted = 1" "2 \<le> remaining" "ucast plainSize \<le> remaining - 2"
  using assms by (auto simp: workerGetCryptedPacketInfo_def rbind_eq_Inr_iff not_less split: if_splits)

lemma workerBuildReplyLoop_encrypted:
  assumes "wo_serverType self \<in> {SERVER_TYPE_ZONE, SERVER_TYPE_BARRACK}"
  shows "\<exists>r. workerBuildReplyLoop self packet remaining session msg h = Some r"
proof (induction "unat remaining" arbitrary: packet remaining session msg rule: less_induct)
  case less
  show ?case
  proof (cases "remaining = 0 \<or> (\<exists>e. workerGetCryptedPacketInfo self remaining packet = Inl e)")
    case True
    then show ?thesis
      by (subst workerBuildReplyLoop.simps) auto
  next
    case False
    then obtain c p where info: "workerGetCryptedPacketInfo self remaining packet = Inr (c, p)"
      by (cases "workerGetCryptedPacketInfo self remaining packet") auto
    show ?thesis
    proof (cases "c = -1")
      case True
      then show ?thesis
        using False info by (subst workerBuildReplyLoop.simps) auto
    next
      case c: False
      note sizes = cryptedInfo_sizes [OF info c assms]
      show ?thesis
      proof (cases "workerProcessOneRequest self session packet (ucast p + 2) msg h True")
        case (Inl e)
        then show ?thesis
          using False info c sizes(1) by (subst workerBuildReplyLoop.simps) auto
      next
        case (Inr x)
        obtain ok packet' session' msg' where x: "x = (ok, packet', session', msg')"
          by (cases x) auto
        obtain r where "workerBuildReplyLoop self (drop (unat (ucast p + 2 :: u64)) packet') (remaining - (ucast p + 2)) session' msg' h = Some r"
          using less.hyps [OF subPacket_progress(1) [OF sizes(2,3)]] by blast
        then show ?thesis
          using False info c sizes(1) Inr x by (subst workerBuildReplyLoop.simps) (cases ok; auto simp: Let_def)
      qed
    qed
  qed
qed

section \<open>A message of several packets\<close>

text \<open>What the handlers do with the packets of a message, one after the other: each gets the packet behind its
  header, followed by the packets that are still encrypted. The result is \<open>Some\<close> if all of them succeed.\<close>

fun handleAll :: "'s Worker \<Rightarrow> bytes list \<Rightarrow> 's \<Rightarrow> frames \<Rightarrow> ('s \<times> frames) option" where
  "handleAll self [] session msg = Some (session, msg)"
| "handleAll self (p # ps) session msg =
     (case workerHandlePacket self session (p @ concat (map (clientEncryptPacket (wo_schedule self)) ps)) (of_nat (length p)) True msg of
        Inr (PACKET_HANDLER_OK, session, msg) \<Rightarrow> handleAll self ps session msg
      | _ \<Rightarrow> None)"

lemma length_clientEncryptPacket [simp]: "length (clientEncryptPacket key p) = length p + 2"
  by (simp add: clientEncryptPacket_def length_concat comp_def BF_ecb_encrypt_def sum_list_triv)

lemma dec16_clientEncryptPacket: "dec16 (clientEncryptPacket key p @ rest) = of_nat (length p)"
  by (simp add: clientEncryptPacket_def)

lemma cryptedInfo_encrypted:
  assumes "wo_serverType self \<in> {SERVER_TYPE_ZONE, SERVER_TYPE_BARRACK}" "length p < 2 ^ 16" "length p + 2 + n < 2 ^ 64"
  shows "workerGetCryptedPacketInfo self (of_nat (length p + 2 + n)) (clientEncryptPacket key p @ rest) = Inr (1, of_nat (length p))"
proof -
  have u: "unat (of_nat (length p + 2 + n) :: u64) = length p + 2 + n"
    by (rule unat_of_nat_u64 [OF assms(3)])
  have p: "unat (of_nat (length p) :: u16) = length p"
    using assms(2) by (simp add: unsigned_of_nat take_bit_nat_eq_self)
  have two: "\<not> (of_nat (length p + 2 + n) :: u64) < 2"
    unfolding word_less_nat_alt u by simp
  have "(of_nat (length p + 2 + n) :: u64) - 2 = of_nat (length p + n)"
    by simp
  then have "unat ((of_nat (length p + 2 + n) :: u64) - 2) = length p + n"
    using unat_of_nat_u64 [of "length p + n"] assms(3) by simp
  then have "\<not> (of_nat (length p + 2 + n) :: u64) - 2 < ucast (of_nat (length p) :: u16)"
    unfolding word_less_nat_alt unat_u16_u64 p by simp
  then show ?thesis
    using assms(1) two
    by (auto simp: workerGetCryptedPacketInfo_def cryptPacketGetHeader_def dec16_clientEncryptPacket simp del: of_nat_add)
qed

lemma workerBuildReplyLoop_packets:
  assumes "wo_serverType self \<in> {SERVER_TYPE_ZONE, SERVER_TYPE_BARRACK}" "\<forall>p \<in> set ps. length p < 2 ^ 16"
    "length (concat (map (clientEncryptPacket (wo_schedule self)) ps)) < 2 ^ 64"
    "handleAll self ps session msg = Some (session', msg')"
  shows "workerBuildReplyLoop self (concat (map (clientEncryptPacket (wo_schedule self)) ps))
      (of_nat (length (concat (map (clientEncryptPacket (wo_schedule self)) ps)))) session msg h = Some (Inr (True, session', msg'))"
  using assms(2-4)
proof (induction ps arbitrary: session msg)
  case Nil
  then show ?case
    by (subst workerBuildReplyLoop.simps) simp
next
  case (Cons p ps)
  let ?enc = "clientEncryptPacket (wo_schedule self)"
  let ?rest = "concat (map ?enc ps)"
  have bound: "length p < 2 ^ 16" "length p + 2 + length ?rest < 2 ^ 64"
    using Cons.prems(1,2) by simp_all
  obtain s1 m1 where h1: "workerHandlePacket self session (p @ ?rest) (of_nat (length p)) True msg = Inr (PACKET_HANDLER_OK, s1, m1)"
    "handleAll self ps s1 m1 = Some (session', msg')"
    using Cons.prems(3) by (auto split: sum.splits prod.splits PacketHandlerState.splits)
  have info: "workerGetCryptedPacketInfo self (of_nat (length p + 2 + length ?rest)) (?enc p @ ?rest) = Inr (1, of_nat (length p))"
    by (rule cryptedInfo_encrypted [OF assms(1) bound])
  have sub: "(ucast (of_nat (length p) :: u16) + 2 :: u64) = of_nat (length p + 2)"
  proof -
    have "unat (ucast (of_nat (length p) :: u16) :: u64) = unat (of_nat (length p) :: u64)"
      using bound(1) by (simp add: unat_u16_u64 unsigned_of_nat take_bit_nat_eq_self)
    then have "(ucast (of_nat (length p) :: u16) :: u64) = of_nat (length p)"
      by (simp only: word_unat_eq_iff)
    then show ?thesis
      by simp
  qed
  have one: "workerProcessOneRequest self session (?enc p @ ?rest) (of_nat (length p + 2)) msg h True
      = Inr (True, take 2 (?enc p) @ p @ ?rest, s1, m1)"
    unfolding workerProcessOneRequest_def cryptoDecryptPacket_rest [OF bound(1)]
    by (simp add: h1(1) Let_def del: of_nat_add)
  have u: "unat (of_nat (length p + 2) :: u64) = length p + 2"
    by (rule unat_of_nat_u64) (use bound(2) in simp)
  have drop: "drop (length p + 2) (take 2 (?enc p) @ p @ ?rest) = ?rest"
    by simp
  have rem: "(of_nat (length p + 2 + length ?rest) :: u64) - of_nat (length p + 2) = of_nat (length ?rest)"
    by simp
  have nz: "(of_nat (length p + 2 + length ?rest) :: u64) \<noteq> 0"
    using unat_of_nat_u64 [OF bound(2)] by (metis unsigned_0 add_2_eq_Suc' add_is_0 nat.distinct(1))
  have IH: "workerBuildReplyLoop self ?rest (of_nat (length ?rest)) s1 m1 h = Some (Inr (True, session', msg'))"
    by (rule Cons.IH [OF _ _ h1(2)]) (use Cons.prems(1) bound in simp_all)
  have "workerBuildReplyLoop self (?enc p @ ?rest) (of_nat (length p + 2 + length ?rest)) session msg h
      = workerBuildReplyLoop self ?rest (of_nat (length ?rest)) s1 m1 h"
    by (subst workerBuildReplyLoop.simps)
      (simp only: nz if_False if_True info sum.case prod.case Let_def sub one u drop rem one_neq_zero simp_thms
        one_neq_neg_one)
  then show ?case
    using IH by simp
qed

end
