(* ===== verification/WorkerProps.thy ===== *)
theory WorkerProps
  imports Worker
begin

text \<open>
  The worker together with the cipher of the packets and with the router: what a client gets back for a
  message, when the loop over a message ends, and what becomes of an error.
\<close>

section \<open>Termination\<close>

text \<open>The loop over the packets of an encrypted message ends whatever the bytes are and whatever the handlers
  do, since each packet takes at least the two bytes of its header and never more than what is left.\<close>

theorem workerBuildReply_terminates:
  assumes "wo_serverType self \<in> {SERVER_TYPE_ZONE, SERVER_TYPE_BARRACK}"
  shows "\<exists>r. workerBuildReply self key packet packetSize msg headerAnswer = Some r"
proof (cases "wo_sessionObject self key")
  case (Some session)
  then show ?thesis
    using workerBuildReplyLoop_encrypted [OF assms, of packet packetSize session msg headerAnswer]
    by (auto simp: workerBuildReply_def)
qed (simp add: workerBuildReply_def)

text \<open>The social server takes the size of its plain packets modulo 65536.\<close>

lemma social_loop_stuck:
  assumes "workerBuildReplyLoop self packet remaining session msg headerAnswer = Some r"
  shows "\<not> (wo_serverType self = SERVER_TYPE_SOCIAL \<and> remaining = 0x10000 \<and> 6 \<le> length packet
      \<and> unat (dec16 packet) < length (wo_packetHandlers self) \<and> unat (dec16 packet) \<le> wo_packetHandlersCount self
      \<and> wo_packetHandlers self ! unat (dec16 packet) = Some (\<lambda>s _ _ m. Inr (PACKET_HANDLER_OK, s, m)))"
proof (rule workerBuildReplyLoop.raw_induct [OF _ assms, where P = "\<lambda>self packet remaining session msg headerAnswer r.
    \<not> (wo_serverType self = SERVER_TYPE_SOCIAL \<and> remaining = 0x10000 \<and> 6 \<le> length packet
      \<and> unat (dec16 packet) < length (wo_packetHandlers self) \<and> unat (dec16 packet) \<le> wo_packetHandlersCount self
      \<and> wo_packetHandlers self ! unat (dec16 packet) = Some (\<lambda>s _ _ m. Inr (PACKET_HANDLER_OK, s, m)))"], goal_cases)
  case (1 loop self packet remaining session msg headerAnswer r)
  show ?case
  proof
    assume a: "wo_serverType self = SERVER_TYPE_SOCIAL \<and> remaining = 0x10000 \<and> 6 \<le> length packet
      \<and> unat (dec16 packet) < length (wo_packetHandlers self) \<and> unat (dec16 packet) \<le> wo_packetHandlersCount self
      \<and> wo_packetHandlers self ! unat (dec16 packet) = Some (\<lambda>s _ _ m. Inr (PACKET_HANDLER_OK, s, m))"
    then have "workerProcessOneRequest self session packet 0 msg headerAnswer False = Inr (True, packet, session, msg)"
      by (simp add: workerProcessOneRequest_def workerHandlePacket_def clientPacketUnwrapHeader_def Let_def)
    moreover have "workerGetCryptedPacketInfo self remaining packet = Inr (0, 0)"
      using a by (simp add: workerGetCryptedPacketInfo_def)
    ultimately have "loop self packet remaining session msg headerAnswer = Some r"
      using 1(2) a by simp
    then show False
      using 1(1) a by blast
  qed
qed


section \<open>The answer of a message\<close>

lemma publicRequest_processed:
  assumes "length identity = 5" "socketSessionGenSessionKey identity = Inr key" "wo_requestSession self key"
    "wo_sessionObject self key = Some session" "length packet < 2 ^ 64"
    "workerBuildReplyLoop self packet (of_nat (length packet)) session [enc32 ROUTER_WORKER_NORMAL, identity] 1 = Some (Inr (ok, session', msg))"
  shows "workerHandlePublicRequest self [identity, packet] = Some (Inr (0, Some msg))"
  using assms
  by (simp add: workerHandlePublicRequest_def workerProcessClientPacket_def workerBuildReply_def)

lemma routerBackend_normal:
  "re_frontend env \<Longrightarrow>
   routerBackend env (zmsg_wrap (enc32 ROUTER_WORKER_NORMAL # identity # replies) workerFrame) router
     = rbind (routerWorkerDone workerFrame router) (\<lambda>(result, router). Inr (result, map (\<lambda>r. ToFrontend [identity, r]) replies, router))"
  by (cases replies rule: list.exhaust)
    (auto simp: routerBackend_def routerReplies_def Let_def length_Suc_conv)

text \<open>C6: from the client to the client. When the client sends packets, each encrypted, in one message, the worker
  decrypts them and hands them to their handlers in order; the replies the handlers add go back through the
  router to the identity that sent the message, in order and one by one, and the worker is free again.\<close>

theorem worker_answers_client:
  assumes "wo_serverType self \<in> {SERVER_TYPE_ZONE, SERVER_TYPE_BARRACK}" "\<forall>p \<in> set ps. length p < 2 ^ 16"
    "length (concat (map (clientEncryptPacket (wo_schedule self)) ps)) < 2 ^ 64"
    and identity: "length identity = 5" "socketSessionGenSessionKey identity = Inr key"
    and session: "wo_requestSession self key" "wo_sessionObject self key = Some session"
    and handlers: "handleAll self ps session [enc32 ROUTER_WORKER_NORMAL, identity]
      = Some (session', [enc32 ROUTER_WORKER_NORMAL, identity] @ replies)"
    and "re_frontend env"
  shows "\<exists>answer. workerHandlePublicRequest self [identity, concat (map (clientEncryptPacket (wo_schedule self)) ps)]
        = Some (Inr (0, Some answer))
    \<and> routerBackend env (zmsg_wrap answer workerFrame) router
      = rbind (routerWorkerDone workerFrame router) (\<lambda>(result, router). Inr (result, map (\<lambda>r. ToFrontend [identity, r]) replies, router))"
proof -
  have "workerHandlePublicRequest self [identity, concat (map (clientEncryptPacket (wo_schedule self)) ps)]
      = Some (Inr (0, Some ([enc32 ROUTER_WORKER_NORMAL, identity] @ replies)))"
    by (rule publicRequest_processed [OF identity session assms(3) workerBuildReplyLoop_packets [OF assms(1-3) handlers]])
  then show ?thesis
    using routerBackend_normal [OF assms(9)] by auto
qed


text \<open>The check of the packet type lets the number of the handlers itself pass, one more than the last index:
  a client that sends this type makes the worker read behind the table. Every smaller type is looked up in
  it, every larger one is refused.\<close>

theorem workerHandlePacket_bounds:
  assumes "length (wo_packetHandlers self) = wo_packetHandlersCount self" "10 \<le> length packet"
  shows "(workerHandlePacket self session packet n True reply = Inl OutOfBounds \<and> unat (dec16 packet) = wo_packetHandlersCount self)
    \<or> (unat (dec16 packet) > wo_packetHandlersCount self
        \<and> workerHandlePacket self session packet n True reply = Inr (PACKET_HANDLER_ERROR, session, reply))
    \<or> (unat (dec16 packet) < wo_packetHandlersCount self
        \<and> workerHandlePacket self session packet n True reply
          = (case wo_packetHandlers self ! unat (dec16 packet) of
               None \<Rightarrow> Inr (PACKET_HANDLER_ERROR, session, reply)
             | Some h \<Rightarrow> h session (drop 10 packet) (n - 10) reply))"
  using assms by (cases "unat (dec16 packet)" "wo_packetHandlersCount self" rule: linorder_cases)
    (auto simp: workerHandlePacket_def clientPacketUnwrapHeader_def Let_def)

section \<open>Examples\<close>

text \<open>A server with one type of packet, 1, whose handler answers with the first byte of the packet.\<close>

definition exWorker :: "ServerType \<Rightarrow> nat Worker" where
  "exWorker t = \<lparr> wo_serverType = t, wo_schedule = exampleKey,
     wo_packetHandlers = [None, Some (\<lambda>s packet n reply. Inr (PACKET_HANDLER_OK, s + 1, reply @ [take 1 packet])),
       Some (\<lambda>s _ _ m. Inr (PACKET_HANDLER_OK, s, m))],
     wo_packetHandlersCount = 3, wo_requestSession = (\<lambda>_. True), wo_sessionObject = (\<lambda>_. Some 0),
     wo_updateDb = (\<lambda>_. True), wo_updateRedis = (\<lambda>_. True), wo_flushRedis = (\<lambda>_. True) \<rparr>"

theorem workerBuildReply_terminates_witness:
  "\<exists>r. workerBuildReply (exWorker SERVER_TYPE_ZONE) ''0000000001'' [8, 0, 1] 3 [] 0 = Some r"
  by (rule workerBuildReply_terminates) (simp add: exWorker_def)


theorem worker_answers_client_witness:
  "\<exists>answer. workerHandlePublicRequest (exWorker SERVER_TYPE_ZONE) [[0, 0, 0, 0, 1],
        clientEncryptPacket exampleKey [1, 0, 0, 0, 0, 0, 0, 0, 0, 0, 42] @ clientEncryptPacket exampleKey [1, 0, 0, 0, 0, 0, 0, 0, 0, 0, 43]]
      = Some (Inr (0, Some answer))
    \<and> routerBackend \<lparr> re_frontend = True, re_backend = True, re_monitor = True, re_init = True \<rparr> (zmsg_wrap answer [9]) (routerInit 0)
      = Inr (-1, [ToFrontend [[0, 0, 0, 0, 1], [42]], ToFrontend [[0, 0, 0, 0, 1], [43]]], routerInit 0)"
proof -
  let ?ps = "[[1, 0, 0, 0, 0, 0, 0, 0, 0, 0, 42], [1, 0, 0, 0, 0, 0, 0, 0, 0, 0, 43]] :: bytes list"
  have key: "socketSessionGenSessionKey [0, 0, 0, 0, 1] = Inr ''0000000001''"
    by code_simp
  have handled: "handleAll (exWorker SERVER_TYPE_ZONE) ?ps 0 [enc32 ROUTER_WORKER_NORMAL, [0, 0, 0, 0, 1]]
      = Some (2, [enc32 ROUTER_WORKER_NORMAL, [0, 0, 0, 0, 1]] @ [[42], [43]])"
    by (simp add: exWorker_def workerHandlePacket_def clientPacketUnwrapHeader_def dec16_def Let_def)
  have "\<exists>answer. workerHandlePublicRequest (exWorker SERVER_TYPE_ZONE) [[0, 0, 0, 0, 1],
        concat (map (clientEncryptPacket (wo_schedule (exWorker SERVER_TYPE_ZONE))) ?ps)] = Some (Inr (0, Some answer))
    \<and> routerBackend \<lparr> re_frontend = True, re_backend = True, re_monitor = True, re_init = True \<rparr> (zmsg_wrap answer [9]) (routerInit 0)
      = rbind (routerWorkerDone [9] (routerInit 0))
          (\<lambda>(result, router). Inr (result, map (\<lambda>r. ToFrontend [[0, 0, 0, 0, 1], r]) [[42], [43]], router))"
    by (rule worker_answers_client [OF _ _ _ _ key _ _ handled]) (simp_all add: exWorker_def)
  then show ?thesis
    by (simp add: exWorker_def routerWorkerDone_def routerInit_def)
qed


theorem workerHandlePacket_bounds_witness:
  "workerHandlePacket (exWorker SERVER_TYPE_ZONE) 0 (3 # replicate 9 0) 10 True [] = Inl OutOfBounds"
proof -
  have type: "unat (dec16 (3 # replicate 9 0)) = 3"
    by code_simp
  show ?thesis
    using workerHandlePacket_bounds [of "exWorker SERVER_TYPE_ZONE" "3 # replicate 9 0" 0 10 "[]"]
    unfolding type by (simp add: exWorker_def)
qed

end
