(* ===== verification/Db.thy ===== *)
theory Db
  imports Zhash Zmsg
begin

text \<open>
  \<open>src/common/db/db.c\<close>, \<open>db_client.c\<close> and \<open>db_object.c\<close>: the database of the sessions, a table of objects that one
  thread owns, and its clients, which send it requests and read its answers. An object is its bytes. Both
  sides read keys and headers out of frames that may be shorter than what they read: keys are sent without
  their final null byte and the header of a request is a single byte, as \<open>sizeof (type) != 0\<close> is 1. What then
  counts is the memory behind the data of a frame, which is the argument \<open>behind\<close> of the definitions.
\<close>

section \<open>Tables that can be iterated\<close>

text \<open>\<open>zhash_first\<close> gives some object of the table, and none if it is empty.\<close>

locale zhash_iter = zhash Z for Z :: "('h, 'v) zhash_ops" +
  fixes zhash_first :: "'h \<Rightarrow> 'v option"
  assumes zf_None: "zhash_first h = None \<longleftrightarrow> zhash_lookup Z h = Map.empty"
    and zf_Some: "zhash_first h = Some v \<Longrightarrow> \<exists>k. zhash_lookup Z h k = Some v"
begin

lemma zf_single: "zhash_lookup Z h = [k \<mapsto> v] \<Longrightarrow> zhash_first h = Some v"
proof (cases "zhash_first h")
  case None
  assume "zhash_lookup Z h = [k \<mapsto> v]"
  with None show ?thesis
    using zf_None [of h] by (metis fun_upd_same option.distinct(1))
next
  case (Some w)
  assume "zhash_lookup Z h = [k \<mapsto> v]"
  with zf_Some [OF Some] show ?thesis
    using Some by (auto split: if_splits)
qed

end

definition al_first :: "(string \<times> 'v) list \<Rightarrow> 'v option" where
  "al_first h = (case h of [] \<Rightarrow> None | (_, v) # _ \<Rightarrow> Some v)"

interpretation al_iter: zhash_iter al_ops al_first
proof
  fix h :: "(string \<times> 'a) list"
  show "al_first h = None \<longleftrightarrow> zhash_lookup al_ops h = Map.empty"
    by (cases h) (auto simp: al_first_def fun_eq_iff split: prod.splits)
next
  fix h :: "(string \<times> 'a) list" and v
  show "al_first h = Some v \<Longrightarrow> \<exists>k. zhash_lookup al_ops h k = Some v"
    by (cases h) (auto simp: al_first_def split: prod.splits)
qed

section \<open>Strings and integers in frames\<close>

definition strBytes :: "string \<Rightarrow> bytes" where
  "strBytes s = map (\<lambda>c. of_nat (of_char c)) s"

text \<open>The C string that starts with the data of a frame.\<close>

definition frame_str :: "bytes \<Rightarrow> bytes \<Rightarrow> string result" where
  "frame_str behind frame =
     (if 0 \<in> set (frame @ behind) then Inr (map (\<lambda>b. char_of (unat b)) (takeWhile (\<lambda>b. b \<noteq> 0) (frame @ behind))) else Inl OutOfBounds)"

definition frame_int :: "bytes \<Rightarrow> bytes \<Rightarrow> u32 result" where
  "frame_int behind frame = rbind (frame_read 4 (frame @ behind)) (\<lambda>bs. Inr (dec32 bs))"

text \<open>\<open>zmsg_popstr\<close> copies the frame and ends the copy with a null byte.\<close>

definition frame_popstr :: "bytes \<Rightarrow> string" where
  "frame_popstr frame = map (\<lambda>b. char_of (unat b)) (takeWhile (\<lambda>b. b \<noteq> 0) frame)"

section \<open>The database\<close>

record DbObject =
  ob_data :: bytes
  ob_sharedMemory :: bool

definition dbObjectInit :: "bytes \<Rightarrow> bool \<Rightarrow> DbObject" where
  "dbObjectInit data sharedMemory = \<lparr> ob_data = data, ob_sharedMemory = sharedMemory \<rparr>"

record 'h Db =
  db_hashtable :: 'h
  db_handler :: "(frames \<Rightarrow> frames \<Rightarrow> bool \<times> frames) option"

abbreviation (input) DB_UPDATE_OBJECT :: u32 where "DB_UPDATE_OBJECT \<equiv> 0"
abbreviation (input) DB_UPDATE_ARRAY :: u32 where "DB_UPDATE_ARRAY \<equiv> 1"
abbreviation (input) DB_GET_OBJECT :: u32 where "DB_GET_OBJECT \<equiv> 2"
abbreviation (input) DB_GET_ARRAY :: u32 where "DB_GET_ARRAY \<equiv> 3"
abbreviation (input) DB_REMOVE_OBJECT :: u32 where "DB_REMOVE_OBJECT \<equiv> 4"
abbreviation (input) DB_REMOVE_ARRAY :: u32 where "DB_REMOVE_ARRAY \<equiv> 5"
abbreviation (input) DB_STATUS_SUCCESS :: u32 where "DB_STATUS_SUCCESS \<equiv> 0"
abbreviation (input) DB_STATUS_CANNOT_UPDATE :: u32 where "DB_STATUS_CANNOT_UPDATE \<equiv> 1"
abbreviation (input) DB_STATUS_CANNOT_GET :: u32 where "DB_STATUS_CANNOT_GET \<equiv> 2"
abbreviation (input) DB_STATUS_CANNOT_REMOVE :: u32 where "DB_STATUS_CANNOT_REMOVE \<equiv> 3"

definition dbInit :: "('h, DbObject) zhash_ops \<Rightarrow> 'h Db" where
  "dbInit Z = \<lparr> db_hashtable = zhash_new Z, db_handler = None \<rparr>"

text \<open>The loops over the keys of a request, on the table. An object that exists is overwritten in place: its
  size stays what it was.\<close>

fun dbUpdateLoop :: "('h, DbObject) zhash_ops \<Rightarrow> bytes \<Rightarrow> 'h \<Rightarrow> frames \<Rightarrow> (bool \<times> 'h) result" where
  "dbUpdateLoop Z behind h [] = Inr (True, h)"
| "dbUpdateLoop Z behind h [keyFrame] = Inr (False, h)"
| "dbUpdateLoop Z behind h (keyFrame # objectFrame # msg) =
     rbind (frame_str behind keyFrame) (\<lambda>key.
     case zhash_lookup Z h key of
       None \<Rightarrow> (case zhash_insert Z h key (dbObjectInit objectFrame False) of
           None \<Rightarrow> Inr (False, h)
         | Some h \<Rightarrow> dbUpdateLoop Z behind h msg)
     | Some dbObject \<Rightarrow>
         if length (ob_data dbObject) < length objectFrame then Inl OutOfBounds
         else dbUpdateLoop Z behind (zhash_update Z h key (dbObject
           \<lparr> ob_data := objectFrame @ drop (length objectFrame) (ob_data dbObject) \<rparr>)) msg)"

fun dbRemoveLoop :: "('h, DbObject) zhash_ops \<Rightarrow> bytes \<Rightarrow> 'h \<Rightarrow> frames \<Rightarrow> 'h result" where
  "dbRemoveLoop Z behind h [] = Inr h"
| "dbRemoveLoop Z behind h (keyFrame # msg) =
     rbind (frame_str behind keyFrame) (\<lambda>key. dbRemoveLoop Z behind (zhash_delete Z h key) msg)"

text \<open>\<open>None\<close> if an object does not exist.\<close>

fun dbGetLoop :: "('h, DbObject) zhash_ops \<Rightarrow> bytes \<Rightarrow> 'h \<Rightarrow> frames \<Rightarrow> frames \<Rightarrow> frames option result" where
  "dbGetLoop Z behind h [] out = Inr (Some out)"
| "dbGetLoop Z behind h (keyFrame # msg) out =
     rbind (frame_str behind keyFrame) (\<lambda>key.
     case zhash_lookup Z h key of
       None \<Rightarrow> Inr None
     | Some dbObject \<Rightarrow> dbGetLoop Z behind h msg (out @ [strBytes key, ob_data dbObject]))"

text \<open>On a failure the answer is emptied.\<close>

definition dbUpdateArray ::
    "('h, DbObject) zhash_ops \<Rightarrow> bytes \<Rightarrow> 'h Db \<Rightarrow> frames \<Rightarrow> frames \<Rightarrow> (bool \<times> frames \<times> 'h Db) result" where
  "dbUpdateArray Z behind self msg out =
     rbind (dbUpdateLoop Z behind (db_hashtable self) msg) (\<lambda>(ok, h).
     Inr (ok, if ok then out @ [enc32 DB_STATUS_SUCCESS] else [], self \<lparr> db_hashtable := h \<rparr>))"

definition dbRemoveArray ::
    "('h, DbObject) zhash_ops \<Rightarrow> bytes \<Rightarrow> 'h Db \<Rightarrow> frames \<Rightarrow> frames \<Rightarrow> (bool \<times> frames \<times> 'h Db) result" where
  "dbRemoveArray Z behind self msg out =
     rbind (dbRemoveLoop Z behind (db_hashtable self) msg) (\<lambda>h.
     Inr (True, out @ [enc32 DB_STATUS_SUCCESS], self \<lparr> db_hashtable := h \<rparr>))"

definition dbGetArray ::
    "('h, DbObject) zhash_ops \<Rightarrow> bytes \<Rightarrow> 'h Db \<Rightarrow> frames \<Rightarrow> frames \<Rightarrow> (bool \<times> frames) result" where
  "dbGetArray Z behind self msg out =
     rbind (dbGetLoop Z behind (db_hashtable self) msg (out @ [enc32 DB_STATUS_SUCCESS])) (\<lambda>res. case res of
       None \<Rightarrow> Inr (False, [])
     | Some out \<Rightarrow> Inr (True, out))"

text \<open>One turn of \<open>dbMainLoop\<close>; the loop stops when there is no type frame.\<close>

definition dbHandleRequest :: "('h, DbObject) zhash_ops \<Rightarrow> bytes \<Rightarrow> 'h Db \<Rightarrow> frames \<Rightarrow> (frames option \<times> 'h Db) result" where
  "dbHandleRequest Z behind self msg =
     (case zmsg_pop msg of
        (None, _) \<Rightarrow> Inr (None, self)
      | (Some packetTypeFrame, msg) \<Rightarrow>
          rbind (frame_int behind packetTypeFrame) (\<lambda>packetType.
          if packetType = DB_UPDATE_OBJECT \<or> packetType = DB_UPDATE_ARRAY then
            rbind (dbUpdateArray Z behind self msg []) (\<lambda>(ok, out, self).
            Inr (Some (if ok then out else out @ [enc32 DB_STATUS_CANNOT_UPDATE]), self))
          else if packetType = DB_GET_OBJECT \<or> packetType = DB_GET_ARRAY then
            rbind (dbGetArray Z behind self msg []) (\<lambda>(ok, out).
            Inr (Some (if ok then out else out @ [enc32 DB_STATUS_CANNOT_GET]), self))
          else if packetType = DB_REMOVE_OBJECT \<or> packetType = DB_REMOVE_ARRAY then
            rbind (dbRemoveArray Z behind self msg []) (\<lambda>(ok, out, self).
            Inr (Some (if ok then out else out @ [enc32 DB_STATUS_CANNOT_REMOVE]), self))
          else (case db_handler self of
              None \<Rightarrow> Inr (Some [], self)
            | Some handler \<Rightarrow> Inr (Some (snd (handler msg [])), self))))"

section \<open>The client\<close>

text \<open>\<open>zmsg_addmem (request, PACKET_HEADER (type), sizeof (type) != 0)\<close>\<close>

definition dbClientHeader :: "u32 \<Rightarrow> bytes" where
  "dbClientHeader packetType = take (if (4 :: nat) \<noteq> 0 then 1 else 0) (enc32 packetType)"

text \<open>The index of the loop is not initialised; \<open>keyIdx\<close> is the value it happens to have.\<close>

definition dbClientAddKeysToMessage :: "nat \<Rightarrow> frames \<Rightarrow> string list \<Rightarrow> frames" where
  "dbClientAddKeysToMessage keyIdx request keys = request @ map strBytes (drop keyIdx keys)"

definition dbClientAddObjectToMessage :: "frames \<Rightarrow> string \<Rightarrow> DbObject \<Rightarrow> frames" where
  "dbClientAddObjectToMessage request key object = request @ [strBytes key, ob_data object]"

definition dbClientRequestObjects :: "nat \<Rightarrow> string list \<Rightarrow> frames" where
  "dbClientRequestObjects keyIdx keys = dbClientAddKeysToMessage keyIdx [dbClientHeader DB_GET_ARRAY] keys"

definition dbClientRequestObject :: "nat \<Rightarrow> string \<Rightarrow> frames" where
  "dbClientRequestObject keyIdx key = dbClientRequestObjects keyIdx [key]"

definition dbClientRemoveObjectsRequest :: "nat \<Rightarrow> string list \<Rightarrow> frames" where
  "dbClientRemoveObjectsRequest keyIdx keys = dbClientAddKeysToMessage keyIdx [dbClientHeader DB_REMOVE_ARRAY] keys"

text \<open>The objects in the order of the table; for one object \<open>dbClientUpdateObject\<close> makes a table of its own.\<close>

definition dbClientUpdateObjectsRequest :: "(string \<times> DbObject) list \<Rightarrow> frames" where
  "dbClientUpdateObjectsRequest objects =
     foldl (\<lambda>request (key, object). dbClientAddObjectToMessage request key object) [dbClientHeader DB_UPDATE_ARRAY] objects"

definition dbClientIsSuccess :: "bytes \<Rightarrow> frames \<Rightarrow> (bool \<times> frames) result" where
  "dbClientIsSuccess behind msg =
     (case zmsg_pop msg of
        (None, msg) \<Rightarrow> Inr (False, msg)
      | (Some answerStatusFrame, msg) \<Rightarrow>
          rbind (frame_int behind answerStatusFrame) (\<lambda>answerStatus. Inr (answerStatus = DB_STATUS_SUCCESS, msg)))"

fun dbClientReadObjects :: "('h, DbObject) zhash_ops \<Rightarrow> 'h \<Rightarrow> frames \<Rightarrow> 'h option" where
  "dbClientReadObjects Z out [] = Some out"
| "dbClientReadObjects Z out [keyFrame] = None"
| "dbClientReadObjects Z out (keyFrame # valueFrame # answer) =
     (case zhash_insert Z out (frame_popstr keyFrame) (dbObjectInit valueFrame False) of
        None \<Rightarrow> None
      | Some out \<Rightarrow> dbClientReadObjects Z out answer)"

definition dbClientGetObjects :: "('h, DbObject) zhash_ops \<Rightarrow> bytes \<Rightarrow> frames \<Rightarrow> 'h option result" where
  "dbClientGetObjects Z behind answer =
     rbind (dbClientIsSuccess behind answer) (\<lambda>(ok, answer).
     Inr (if ok then dbClientReadObjects Z (zhash_new Z) answer else None))"

text \<open>The object, which is NULL if the answer has none.\<close>

definition dbClientGetObject ::
    "('h, DbObject) zhash_ops \<Rightarrow> ('h \<Rightarrow> DbObject option) \<Rightarrow> bytes \<Rightarrow> frames \<Rightarrow> (bool \<times> DbObject option) result" where
  "dbClientGetObject Z zhash_first behind answer =
     rbind (dbClientGetObjects Z behind answer) (\<lambda>objects. case objects of
       None \<Rightarrow> Inr (False, None)
     | Some objects \<Rightarrow>
         if zhash_size Z objects \<noteq> 1 \<and> zhash_size Z objects \<noteq> 0 then Inr (False, None)
         else Inr (True, zhash_first objects))"

section \<open>A client and the database\<close>

text \<open>The client sends a request and waits for the answer.\<close>

definition dbExchange ::
    "('h, DbObject) zhash_ops \<Rightarrow> bytes \<Rightarrow> 'h Db \<Rightarrow> frames \<Rightarrow> (frames \<times> 'h Db) result" where
  "dbExchange Z behind db request =
     rbind (dbHandleRequest Z behind db request) (\<lambda>(answer, db). case answer of
       None \<Rightarrow> Inl NullDeref
     | Some answer \<Rightarrow> Inr (answer, db))"

definition dbClientUpdateObject ::
    "('h, DbObject) zhash_ops \<Rightarrow> bytes \<Rightarrow> 'h Db \<Rightarrow> string \<Rightarrow> DbObject \<Rightarrow> (bool \<times> 'h Db) result" where
  "dbClientUpdateObject Z behind db key object =
     rbind (dbExchange Z behind db (dbClientUpdateObjectsRequest [(key, object)])) (\<lambda>(answer, db).
     rbind (dbClientIsSuccess behind answer) (\<lambda>(ok, _). Inr (ok, db)))"

definition dbClientRemoveObject ::
    "('h, DbObject) zhash_ops \<Rightarrow> bytes \<Rightarrow> nat \<Rightarrow> 'h Db \<Rightarrow> string \<Rightarrow> (bool \<times> 'h Db) result" where
  "dbClientRemoveObject Z behind keyIdx db key =
     rbind (dbExchange Z behind db (dbClientRemoveObjectsRequest keyIdx [key])) (\<lambda>(answer, db).
     rbind (dbClientIsSuccess behind answer) (\<lambda>(ok, _). Inr (ok, db)))"

text \<open>\<open>workerGetOrCreateSessionObject\<close> of \<open>src/common/server/worker.c\<close>, after the request for the session;
  \<open>session\<close> is the new session it makes when there is none.\<close>

definition workerGetOrCreateSessionObject ::
    "('h, DbObject) zhash_ops \<Rightarrow> ('h \<Rightarrow> DbObject option) \<Rightarrow> bytes \<Rightarrow> nat \<Rightarrow> 'h Db \<Rightarrow> string \<Rightarrow> bytes \<Rightarrow>
     (DbObject option \<times> 'h Db) result" where
  "workerGetOrCreateSessionObject Z zhash_first behind keyIdx db sessionKey session =
     rbind (dbExchange Z behind db (dbClientRequestObject keyIdx sessionKey)) (\<lambda>(answer, db).
     rbind (dbClientGetObject Z zhash_first behind answer) (\<lambda>(_, object). case object of
       Some object \<Rightarrow> Inr (Some object, db)
     | None \<Rightarrow>
         let object = dbObjectInit session True in
         rbind (dbClientUpdateObject Z behind db sessionKey object) (\<lambda>(ok, db).
         Inr (if ok then Some object else None, db))))"

end
