(* ===== verification/DbProps.thy ===== *)
theory DbProps
  imports Db
begin

text \<open>
  The session database together with its clients: what is stored is what is read, and the three ways in which
  this depends on luck (the memory behind a frame, a loop index that is not initialised, the size of the first
  object that was stored under a key).
\<close>

section \<open>Lemmas\<close>

definition noNul :: "string \<Rightarrow> bool" where
  "noNul s \<longleftrightarrow> CHR 0x00 \<notin> set s"

lemma charOfByte_of_char: "char_of (unat (of_nat (of_char c) :: byte)) = c"
proof -
  have "(of_char c :: nat) < 256"
    by simp
  then show ?thesis
    by (simp add: unsigned_of_nat take_bit_nat_eq_self)
qed

lemma byte_of_char_0: "(of_nat (of_char c) :: byte) = 0 \<longleftrightarrow> c = CHR 0x00"
proof
  assume "(of_nat (of_char c) :: byte) = 0"
  then have "char_of (unat (0 :: byte)) = c"
    using charOfByte_of_char [of c] by simp
  then show "c = CHR 0x00"
    by (simp add: char_of_def)
qed simp

lemma takeWhile_strBytes:
  assumes "noNul s"
  shows "takeWhile (\<lambda>b. b \<noteq> 0) (strBytes s @ 0 # bs) = strBytes s" "takeWhile (\<lambda>b. b \<noteq> 0) (strBytes s) = strBytes s"
  using assms by (induction s) (auto simp: strBytes_def noNul_def byte_of_char_0)

lemma map_char_strBytes [simp]: "map (\<lambda>b. char_of (unat b)) (strBytes s) = s"
  by (induction s) (simp_all add: strBytes_def charOfByte_of_char)

lemma frame_str_strBytes: "noNul s \<Longrightarrow> frame_str (0 # bs) (strBytes s) = Inr s"
  by (simp add: frame_str_def takeWhile_strBytes)

lemma frame_popstr_strBytes: "noNul s \<Longrightarrow> frame_popstr (strBytes s) = s"
  by (simp add: frame_popstr_def takeWhile_strBytes)

lemma frame_int_exact: "frame_int bs (enc32 x) = Inr x"
  by (simp add: frame_int_def frame_read_def)

lemma frame_int_header:
  "frame_int (0 # 0 # 0 # bs) (dbClientHeader DB_UPDATE_ARRAY) = Inr DB_UPDATE_ARRAY"
  "frame_int (0 # 0 # 0 # bs) (dbClientHeader DB_GET_ARRAY) = Inr DB_GET_ARRAY"
  "frame_int (0 # 0 # 0 # bs) (dbClientHeader DB_REMOVE_ARRAY) = Inr DB_REMOVE_ARRAY"
  by (simp_all add: frame_int_def frame_read_def dbClientHeader_def enc32_def dec32_def)

section \<open>Requests\<close>

text \<open>The data that an object has after an update with \<open>data\<close>.\<close>

definition updatedData :: "DbObject option \<Rightarrow> bytes \<Rightarrow> bytes" where
  "updatedData old data = (case old of None \<Rightarrow> data | Some ob \<Rightarrow> data @ drop (length data) (ob_data ob))"

lemma dbClientUpdateObject_ok:
  assumes "zhash Z" "noNul key" "behind = 0 # 0 # 0 # bs"
    "\<And>ob. zhash_lookup Z (db_hashtable db) key = Some ob \<Longrightarrow> length (ob_data object) \<le> length (ob_data ob)"
  obtains db' ob where "dbClientUpdateObject Z behind db key object = Inr (True, db')"
    "zhash_lookup Z (db_hashtable db') = (zhash_lookup Z (db_hashtable db))(key \<mapsto> ob)"
    "ob_data ob = updatedData (zhash_lookup Z (db_hashtable db) key) (ob_data object)"
proof (cases "zhash_lookup Z (db_hashtable db) key")
  case None
  then obtain h where h: "zhash_insert Z (db_hashtable db) key (dbObjectInit (ob_data object) False) = Some h"
    "zhash_lookup Z h = (zhash_lookup Z (db_hashtable db))(key \<mapsto> dbObjectInit (ob_data object) False)"
    using zhash.zh_insert [OF assms(1)] by blast
  show thesis
    by (rule that [of "db \<lparr> db_hashtable := h \<rparr>" "dbObjectInit (ob_data object) False"])
      (use h None assms(2) in \<open>simp_all add: assms(3) dbClientUpdateObject_def dbExchange_def dbHandleRequest_def
        dbClientUpdateObjectsRequest_def dbClientAddObjectToMessage_def frame_int_header dbUpdateArray_def
        frame_str_strBytes dbClientIsSuccess_def frame_int_exact updatedData_def dbObjectInit_def\<close>)
next
  case (Some ob)
  let ?ob = "ob \<lparr> ob_data := ob_data object @ drop (length (ob_data object)) (ob_data ob) \<rparr>"
  have "\<not> length (ob_data ob) < length (ob_data object)"
    using assms(4) [OF Some] by simp
  then show thesis
    by (intro that [of "db \<lparr> db_hashtable := zhash_update Z (db_hashtable db) key ?ob \<rparr>" ?ob])
      (use Some assms(2) zhash.zh_update [OF assms(1)] in \<open>simp_all add: assms(3) dbClientUpdateObject_def dbExchange_def dbHandleRequest_def
        dbClientUpdateObjectsRequest_def dbClientAddObjectToMessage_def frame_int_header dbUpdateArray_def
        frame_str_strBytes dbClientIsSuccess_def frame_int_exact updatedData_def\<close>)
qed

text \<open>The answer to a request for a key that is stored.\<close>

lemma dbExchange_get:
  assumes "noNul key" "behind = 0 # 0 # 0 # bs" "zhash_lookup Z (db_hashtable db) key = Some ob"
  shows "dbExchange Z behind db (dbClientRequestObject 0 key) = Inr ([enc32 DB_STATUS_SUCCESS, strBytes key, ob_data ob], db)"
  using assms(1,3)
  by (simp add: assms(2) dbExchange_def dbHandleRequest_def dbClientRequestObject_def dbClientRequestObjects_def
      dbClientAddKeysToMessage_def frame_int_header dbGetArray_def frame_str_strBytes)

lemma readObject:
  assumes "zhash_iter Z zhash_first" "noNul key"
  shows "dbClientGetObject Z zhash_first behind [enc32 DB_STATUS_SUCCESS, strBytes key, data] = Inr (True, Some (dbObjectInit data False))"
proof -
  have Z: "zhash Z"
    using assms(1) by (simp add: zhash_iter_def)
  obtain h where h: "zhash_insert Z (zhash_new Z) key (dbObjectInit data False) = Some h"
    "zhash_lookup Z h = (zhash_lookup Z (zhash_new Z))(key \<mapsto> dbObjectInit data False)"
    using zhash.zh_insert [OF Z, of "zhash_new Z" key] zhash.zh_new [OF Z] by auto
  then have one: "zhash_lookup Z h = [key \<mapsto> dbObjectInit data False]"
    by (simp add: zhash.zh_new [OF Z])
  then have "zhash_size Z h = 1"
    by (simp add: zhash.zh_size [OF Z])
  then show ?thesis
    using h(1) zhash_iter.zf_single [OF assms(1) one] assms(2)
    by (simp add: dbClientGetObject_def dbClientGetObjects_def dbClientIsSuccess_def frame_int_exact frame_popstr_strBytes)
qed

lemma readNothing:
  assumes "zhash_iter Z zhash_first"
  shows "dbClientGetObject Z zhash_first behind [enc32 DB_STATUS_SUCCESS] = Inr (True, None)"
proof -
  have Z: "zhash Z"
    using assms by (simp add: zhash_iter_def)
  have "zhash_first (zhash_new Z) = None" "zhash_size Z (zhash_new Z) = 0"
    by (simp_all add: zhash_iter.zf_None [OF assms] zhash.zh_new [OF Z] zhash.zh_size_new [OF Z])
  then show ?thesis
    by (simp add: dbClientGetObject_def dbClientGetObjects_def dbClientIsSuccess_def frame_int_exact)
qed

section \<open>Properties\<close>


text \<open>If the loop index does not happen to be 0, the request has no key at all. The database answers with
  success and no object, and the worker takes the client for a new one: it stores a fresh session over the
  one the client has.\<close>

theorem db_index_forgets_session:
  assumes "zhash_iter Z zhash_first" "noNul key" "behind = 0 # 0 # 0 # bs" "0 < keyIdx"
    "zhash_lookup Z (db_hashtable db) key = Some ob" "length (ob_data ob) = length session"
  shows "\<exists>db' ob'. workerGetOrCreateSessionObject Z zhash_first behind keyIdx db key session = Inr (Some (dbObjectInit session True), db')
    \<and> zhash_lookup Z (db_hashtable db') key = Some ob' \<and> ob_data ob' = session"
proof -
  have Z: "zhash Z"
    using assms(1) by (simp add: zhash_iter_def)
  have "dbExchange Z behind db (dbClientRequestObject keyIdx key) = Inr ([enc32 DB_STATUS_SUCCESS], db)"
    using assms(4)
    by (simp add: assms(3) dbExchange_def dbHandleRequest_def dbClientRequestObject_def dbClientRequestObjects_def
        dbClientAddKeysToMessage_def frame_int_header dbGetArray_def)
  moreover obtain db' ob' where "dbClientUpdateObject Z behind db key (dbObjectInit session True) = Inr (True, db')"
    "zhash_lookup Z (db_hashtable db') = (zhash_lookup Z (db_hashtable db))(key \<mapsto> ob')"
    "ob_data ob' = updatedData (zhash_lookup Z (db_hashtable db) key) session"
    using dbClientUpdateObject_ok [OF Z assms(2,3), of db "dbObjectInit session True"] assms(5,6) by (auto simp: dbObjectInit_def)
  ultimately show ?thesis
    using readNothing [OF assms(1)] assms(5,6)
    by (simp add: workerGetOrCreateSessionObject_def updatedData_def Let_def)
qed

text \<open>An update never changes the size of an object that exists. A larger object overflows the memory of
  the old one, and a smaller one leaves the end of the old one in place.\<close>

theorem db_update_keeps_size:
  assumes "zhash Z" "noNul key" "behind = 0 # 0 # 0 # bs" "zhash_lookup Z (db_hashtable db) key = Some ob"
  shows "(length (ob_data ob) < length data \<and> dbClientUpdateObject Z behind db key (dbObjectInit data True) = Inl OutOfBounds)
    \<or> (\<exists>db' ob'. dbClientUpdateObject Z behind db key (dbObjectInit data True) = Inr (True, db')
        \<and> zhash_lookup Z (db_hashtable db') key = Some ob'
        \<and> ob_data ob' = data @ drop (length data) (ob_data ob) \<and> length (ob_data ob') = length (ob_data ob))"
proof (cases "length (ob_data ob) < length data")
  case True
  then show ?thesis
    using assms(2,4)
    by (simp add: assms(3) dbClientUpdateObject_def dbExchange_def dbHandleRequest_def dbClientUpdateObjectsRequest_def
        dbClientAddObjectToMessage_def frame_int_header dbUpdateArray_def frame_str_strBytes dbObjectInit_def)
next
  case False
  then obtain db' ob' where "dbClientUpdateObject Z behind db key (dbObjectInit data True) = Inr (True, db')"
    "zhash_lookup Z (db_hashtable db') = (zhash_lookup Z (db_hashtable db))(key \<mapsto> ob')"
    "ob_data ob' = updatedData (zhash_lookup Z (db_hashtable db) key) data"
    using dbClientUpdateObject_ok [OF assms(1-3), of db "dbObjectInit data True"] assms(4) by (auto simp: dbObjectInit_def)
  then show ?thesis
    using False assms(4) by (auto simp: updatedData_def)
qed

section \<open>Examples\<close>

definition exDb :: "(string \<times> DbObject) list Db" where
  "exDb = \<lparr> db_hashtable = [(''006B8B4567'', dbObjectInit [1, 2, 3] False)], db_handler = None \<rparr>"


theorem db_index_forgets_session_witness:
  "\<exists>db'. workerGetOrCreateSessionObject al_ops al_first [0, 0, 0] 1 exDb ''006B8B4567'' [0, 0, 0] = Inr (Some (dbObjectInit [0, 0, 0] True), db')"
  using db_index_forgets_session [OF al_iter.zhash_iter_axioms, of "''006B8B4567''" "[0, 0, 0]" "[]" 1 exDb "dbObjectInit [1, 2, 3] False" "[0, 0, 0]"]
  by (auto simp: noNul_def exDb_def dbObjectInit_def)

theorem db_update_keeps_size_witness:
  "dbClientUpdateObject al_ops [0, 0, 0] exDb ''006B8B4567'' (dbObjectInit [4, 5, 6, 7] True) = Inl OutOfBounds"
  using db_update_keeps_size [OF al.zhash_axioms, of "''006B8B4567''" "[0, 0, 0]" "[]" exDb "dbObjectInit [1, 2, 3] False" "[4, 5, 6, 7]"]
  by (auto simp: noNul_def exDb_def dbObjectInit_def)

end
