(* ===== verification/Session.thy ===== *)
theory Session
  imports Commander SocketSession Db
begin

text \<open>
  \<open>src/common/session/\<close>: the sessions that the servers keep of a client: the socket session, the account with
  its barrack of commanders, and the commander that is played. Commanders are objects of a store of their own;
  the barrack is an array of pointers to them.
\<close>

section \<open>Pointers to commanders\<close>

text \<open>A pointer may also be made of bytes that are no address.\<close>

datatype CommanderPtr = NullPtr | CommanderAt addr | WildPtr u64

record ('h, 'k) Commanders =
  cs_commanders :: "addr \<Rightarrow> ('h, 'k) Commander option"
  cs_next :: addr

fun derefCommander :: "('h, 'k) Commanders \<Rightarrow> CommanderPtr \<Rightarrow> ('h, 'k) Commander result" where
  "derefCommander cs NullPtr = Inl NullDeref"
| "derefCommander cs (CommanderAt a) = (case cs_commanders cs a of None \<Rightarrow> Inl UseAfterFree | Some c \<Rightarrow> Inr c)"
| "derefCommander cs (WildPtr _) = Inl OutOfBounds"

fun writeCommander :: "('h, 'k) Commanders \<Rightarrow> CommanderPtr \<Rightarrow> ('h, 'k) Commander \<Rightarrow> ('h, 'k) Commanders result" where
  "writeCommander cs NullPtr c = Inl NullDeref"
| "writeCommander cs (CommanderAt a) c =
     (case cs_commanders cs a of
        None \<Rightarrow> Inl UseAfterFree
      | Some _ \<Rightarrow> Inr (cs \<lparr> cs_commanders := (cs_commanders cs)(a \<mapsto> c) \<rparr>))"
| "writeCommander cs (WildPtr _) c = Inl OutOfBounds"

definition allocCommander :: "('h, 'k) Commanders \<Rightarrow> ('h, 'k) Commander \<Rightarrow> CommanderPtr \<times> ('h, 'k) Commanders" where
  "allocCommander cs c =
     (CommanderAt (cs_next cs), cs \<lparr> cs_commanders := (cs_commanders cs)(cs_next cs \<mapsto> c), cs_next := Suc (cs_next cs) \<rparr>)"

definition commanderNew ::
    "('h, addr) zhash_ops \<Rightarrow> ('k, 'v) zhash_ops \<Rightarrow> ('h, 'k) Commanders \<Rightarrow> CommanderPtr \<times> ('h, 'k) Commanders" where
  "commanderNew Z Zs cs = allocCommander cs (commanderInit Z Zs)"

text \<open>The copy shares the inventory and the skills of the source.\<close>

definition commanderDup :: "('h, 'k) Commanders \<Rightarrow> ('h, 'k) Commander \<Rightarrow> CommanderPtr \<times> ('h, 'k) Commanders" where
  "commanderDup cs src = allocCommander cs src"

definition commanderDestroy :: "('h, 'k) Commanders \<Rightarrow> CommanderPtr \<Rightarrow> ('h, 'k) Commanders result" where
  "commanderDestroy cs p =
     (case p of
        NullPtr \<Rightarrow> Inr cs
      | CommanderAt a \<Rightarrow> rbind (derefCommander cs p) (\<lambda>_. Inr (cs \<lparr> cs_commanders := (cs_commanders cs)(a := None) \<rparr>))
      | WildPtr _ \<Rightarrow> Inl OutOfBounds)"

section \<open>The account\<close>

abbreviation (input) ACCOUNT_SESSION_ACCOUNT_NAME_MAXSIZE :: nat where "ACCOUNT_SESSION_ACCOUNT_NAME_MAXSIZE \<equiv> 33"
abbreviation (input) ACCOUNT_SESSION_PRIVILEGES_ADMIN :: u32 where "ACCOUNT_SESSION_PRIVILEGES_ADMIN \<equiv> 0"
abbreviation (input) ACCOUNT_SESSION_PRIVILEGES_PLAYER :: u32 where "ACCOUNT_SESSION_PRIVILEGES_PLAYER \<equiv> 3"

text \<open>\<open>as_commanders\<close> is \<open>None\<close> while there is no array.\<close>

record AccountSession =
  as_accountName :: bytes
  as_sessionKey :: bytes
  as_privilege :: u32
  as_accountId :: u64
  as_isBanned :: bool
  as_timeBanned :: u64
  as_credits :: u32
  as_timeLastLogin :: u64
  as_familyName :: bytes
  as_barrackType :: u32
  as_commanders :: "CommanderPtr list option"
  as_commandersCountMax :: nat

text \<open>The two pointers are read for the whole size of the arrays they are copied to.\<close>

definition accountSessionInit :: "bytes \<Rightarrow> bytes \<Rightarrow> u32 \<Rightarrow> AccountSession result" where
  "accountSessionInit accountName socketId privilege =
     (if length accountName < ACCOUNT_SESSION_ACCOUNT_NAME_MAXSIZE \<or> length socketId < SOCKET_SESSION_ID_SIZE
      then Inl OutOfBounds
      else Inr \<lparr> as_accountName = take ACCOUNT_SESSION_ACCOUNT_NAME_MAXSIZE accountName,
        as_sessionKey = take SOCKET_SESSION_ID_SIZE socketId, as_privilege = privilege, as_accountId = 0,
        as_isBanned = False, as_timeBanned = 0, as_credits = 0, as_timeLastLogin = 0,
        as_familyName = replicate COMMANDER_FAMILY_NAME_SIZE 0, as_barrackType = 0,
        as_commanders = None, as_commandersCountMax = 0 \<rparr>)"

text \<open>The loop that allocates the first commanders; \<open>commandersCount\<close> is what is left.\<close>

fun commandersInitLoop ::
    "('h, addr) zhash_ops \<Rightarrow> ('k, 'v) zhash_ops \<Rightarrow> ('h, 'k) Commanders \<Rightarrow> CommanderPtr list \<Rightarrow> nat \<Rightarrow> nat \<Rightarrow>
     (CommanderPtr list \<times> ('h, 'k) Commanders) result" where
  "commandersInitLoop Z Zs cs commanders i 0 = Inr (commanders, cs)"
| "commandersInitLoop Z Zs cs commanders i (Suc n) =
     (let (c, cs) = commanderNew Z Zs cs in
      if length commanders \<le> i then Inl OutOfBounds
      else commandersInitLoop Z Zs cs (commanders[i := c]) (Suc i) n)"

definition accountSessionCommandersInit ::
    "('h, addr) zhash_ops \<Rightarrow> ('k, 'v) zhash_ops \<Rightarrow> ('h, 'k) Commanders \<Rightarrow> AccountSession \<Rightarrow> nat \<Rightarrow> nat \<Rightarrow>
     (AccountSession \<times> ('h, 'k) Commanders) result" where
  "accountSessionCommandersInit Z Zs cs self commandersCountMax commandersCount =
     rbind (commandersInitLoop Z Zs cs (replicate commandersCountMax NullPtr) 0 commandersCount) (\<lambda>(commanders, cs).
     Inr (self \<lparr> as_commanders := Some commanders \<rparr>, cs))"

text \<open>\<open>self->commanders[i]\<close>\<close>

definition accountCommanderAt :: "AccountSession \<Rightarrow> int \<Rightarrow> CommanderPtr result" where
  "accountCommanderAt self i =
     (case as_commanders self of
        None \<Rightarrow> Inl NullDeref
      | Some cs \<Rightarrow> if i < 0 \<or> int (length cs) \<le> i then Inl OutOfBounds else Inr (cs ! nat i))"

text \<open>\<open>None\<close> is \<open>false\<close>. The index is an \<open>int\<close>, which \<open>commanderIndex >= self->commandersCountMax\<close> turns into a
  \<open>size_t\<close>.\<close>

definition accountSessionGetCommanderByIndex :: "AccountSession \<Rightarrow> int \<Rightarrow> CommanderPtr option result" where
  "accountSessionGetCommanderByIndex self commanderIndex =
     (if commanderIndex < 0 \<or> int (as_commandersCountMax self) \<le> commanderIndex then Inr None
      else rbind (accountCommanderAt self commanderIndex) (\<lambda>c. Inr (if c = NullPtr then None else Some c)))"

definition accountSessionIsCommanderSlotEmpty :: "AccountSession \<Rightarrow> int \<Rightarrow> bool result" where
  "accountSessionIsCommanderSlotEmpty self commanderIndex =
     (if commanderIndex < 0 \<or> int (as_commandersCountMax self) \<le> commanderIndex then Inr False
      else rbind (accountCommanderAt self commanderIndex) (\<lambda>c. Inr (c = NullPtr)))"

text \<open>The slots \<open>0 .. commandersCountMax - 1\<close>.\<close>

definition accountSlots :: "AccountSession \<Rightarrow> CommanderPtr list result" where
  "accountSlots self =
     (if as_commandersCountMax self = 0 then Inr []
      else case as_commanders self of
        None \<Rightarrow> Inl NullDeref
      | Some cs \<Rightarrow> if length cs < as_commandersCountMax self then Inl OutOfBounds
                   else Inr (take (as_commandersCountMax self) cs))"

definition accountSessionGetCommandersCount :: "AccountSession \<Rightarrow> nat result" where
  "accountSessionGetCommandersCount self = rbind (accountSlots self) (\<lambda>cs. Inr (length (filter (\<lambda>c. c \<noteq> NullPtr) cs)))"

section \<open>The sessions of a client\<close>

record Session =
  se_socket :: SocketSession
  se_accountSession :: AccountSession
  se_currentCommander :: CommanderPtr

text \<open>\<open>memcpy (&self->currentCommander, commander, sizeof (self->currentCommander))\<close>: the first eight bytes of
  the commander, which are the first of its name, become the pointer.\<close>

definition commanderSessionInit :: "('h, 'k) Commander \<Rightarrow> CommanderPtr" where
  "commanderSessionInit commander =
     (let p = dec64 (co_commanderName commander @ co_familyName commander) in if p = 0 then NullPtr else WildPtr p)"

text \<open>\<open>rodata\<close> is the memory behind the literal \<open>"undefined"\<close>.\<close>

definition gameSessionInit :: "bytes \<Rightarrow> ('h, 'k) Commander \<Rightarrow> (AccountSession \<times> CommanderPtr) result" where
  "gameSessionInit rodata commander =
     (let undefinedStr = strBytes ''undefined'' @ [0] @ rodata in
      rbind (accountSessionInit undefinedStr undefinedStr ACCOUNT_SESSION_PRIVILEGES_PLAYER) (\<lambda>accountSession.
      Inr (accountSession, commanderSessionInit commander)))"

definition sessionInit ::
    "('h, addr) zhash_ops \<Rightarrow> ('k, 'v) zhash_ops \<Rightarrow> bytes \<Rightarrow> u16 \<Rightarrow> string \<Rightarrow> Session result" where
  "sessionInit Z Zs rodata routerId sessionKey =
     rbind (gameSessionInit rodata (commanderInit Z Zs)) (\<lambda>(accountSession, currentCommander).
     Inr \<lparr> se_socket = socketSessionInit (-1) routerId (-1) sessionKey False,
       se_accountSession = accountSession, se_currentCommander = currentCommander \<rparr>)"

section \<open>Accounts between servers\<close>

text \<open>The sizes of the commanders that exist; the structure has 168 bytes.\<close>

fun commandersSPacketSize :: "('h, 'k) Commanders \<Rightarrow> Store \<Rightarrow> CommanderPtr list \<Rightarrow> nat result" where
  "commandersSPacketSize cs st [] = Inr 0"
| "commandersSPacketSize cs st (p # ps) =
     (if p = NullPtr then commandersSPacketSize cs st ps
      else rbind (derefCommander cs p) (\<lambda>c. rbind (commanderGetSPacketSize c st) (\<lambda>n.
        rbind (commandersSPacketSize cs st ps) (\<lambda>m. Inr (n + m)))))"

definition accountSessionGetSPacketSize :: "('h, 'k) Commanders \<Rightarrow> Store \<Rightarrow> AccountSession \<Rightarrow> nat result" where
  "accountSessionGetSPacketSize cs st self =
     rbind (accountSlots self) (\<lambda>ps. rbind (commandersSPacketSize cs st ps) (\<lambda>n. Inr (168 + n)))"

fun commandersSerialize ::
    "('h, addr) zhash_ops \<Rightarrow> ('h, 'k) Commanders \<Rightarrow> Store \<Rightarrow> CommanderPtr list \<Rightarrow> PacketStream \<Rightarrow> PacketStream result" where
  "commandersSerialize Z cs st [] stream = Inr stream"
| "commandersSerialize Z cs st (p # ps) stream =
     (if p = NullPtr then commandersSerialize Z cs st ps stream
      else rbind (derefCommander cs p) (\<lambda>c. rbind (commanderSerializeSPacket Z c st stream) (commandersSerialize Z cs st ps)))"

definition accountFieldsIn :: "AccountSession \<Rightarrow> PacketStream \<Rightarrow> PacketStream" where
  "accountFieldsIn self stream =
    (let stream = packetStreamAppend stream (take 1 (as_accountName self));
         stream = packetStreamAppend stream (take 1 (as_familyName self));
         stream = packetStreamAppend stream (take 1 (as_sessionKey self));
         stream = packetStreamAppend stream (enc32 (as_privilege self));
         stream = packetStreamAppend stream [if as_isBanned self then 1 else 0];
         stream = packetStreamAppend stream (enc64 (as_timeBanned self));
         stream = packetStreamAppend stream (enc32 (as_credits self));
         stream = packetStreamAppend stream (enc64 (as_timeLastLogin self));
         stream = packetStreamAppend stream (enc32 (as_barrackType self)) in
     packetStreamAppend stream (enc64 (of_nat (as_commandersCountMax self))))"

definition accountSessionSerializeSPacket ::
    "('h, addr) zhash_ops \<Rightarrow> ('h, 'k) Commanders \<Rightarrow> Store \<Rightarrow> AccountSession \<Rightarrow> PacketStream \<Rightarrow> PacketStream result" where
  "accountSessionSerializeSPacket Z cs st self stream =
     rbind (accountSessionGetSPacketSize cs st self) (\<lambda>sz.
     let stream = packetStreamDebugStart stream sz ''accountSessionSerializeSPacket'';
         stream = accountFieldsIn self stream in
     rbind (accountSessionGetCommandersCount self) (\<lambda>commandersCount.
     let stream = packetStreamAppend stream (enc64 (of_nat commandersCount)) in
     rbind (accountSlots self) (\<lambda>ps. commandersSerialize Z cs st ps stream)))"

definition accountFieldsOut :: "AccountSession \<Rightarrow> PacketStream \<Rightarrow> AccountSession \<times> PacketStream" where
  "accountFieldsOut self stream =
    (let (b, stream) = packetStreamOut stream (take 1 (as_accountName self));
         self = self \<lparr> as_accountName := mem_write (as_accountName self) 0 b \<rparr>;
         (b, stream) = packetStreamOut stream (take 1 (as_familyName self));
         self = self \<lparr> as_familyName := mem_write (as_familyName self) 0 b \<rparr>;
         (b, stream) = packetStreamOut stream (take 1 (as_sessionKey self));
         self = self \<lparr> as_sessionKey := mem_write (as_sessionKey self) 0 b \<rparr>;
         (b, stream) = packetStreamOut stream (enc32 (as_privilege self)); self = self \<lparr> as_privilege := dec32 b \<rparr>;
         (b, stream) = packetStreamOut stream [if as_isBanned self then 1 else 0]; self = self \<lparr> as_isBanned := hd b \<noteq> 0 \<rparr>;
         (b, stream) = packetStreamOut stream (enc64 (as_timeBanned self)); self = self \<lparr> as_timeBanned := dec64 b \<rparr>;
         (b, stream) = packetStreamOut stream (enc32 (as_credits self)); self = self \<lparr> as_credits := dec32 b \<rparr>;
         (b, stream) = packetStreamOut stream (enc64 (as_timeLastLogin self)); self = self \<lparr> as_timeLastLogin := dec64 b \<rparr>;
         (b, stream) = packetStreamOut stream (enc32 (as_barrackType self)); self = self \<lparr> as_barrackType := dec32 b \<rparr>;
         (b, stream) = packetStreamOut stream (enc64 (of_nat (as_commandersCountMax self)));
         self = self \<lparr> as_commandersCountMax := unat (dec64 b) \<rparr> in
     (self, stream))"

text \<open>
  \<open>uninitCount\<close> is what the stack has where the count is read to, if the stream is exhausted. The array has room
  for the commanders that follow, but no commander: the pointer that is handed to
  \<open>commanderUnserializeSPacket\<close> is what \<open>malloc\<close> found in the memory.
\<close>

definition accountSessionUnserialize ::
    "('h, 'k) Commanders \<Rightarrow> Store \<Rightarrow> u64 \<Rightarrow> AccountSession \<Rightarrow> PacketStream \<Rightarrow> (bool \<times> AccountSession \<times> PacketStream) result" where
  "accountSessionUnserialize cs st uninitCount self stream =
     rbind (accountSessionGetSPacketSize cs st self) (\<lambda>sz.
     let stream = packetStreamDebugStart stream sz ''accountSessionUnserialize'';
         (self, stream) = accountFieldsOut self stream;
         (b, stream) = packetStreamOut stream (enc64 uninitCount) in
     if dec64 b = 0 then Inr (True, self \<lparr> as_commanders := Some [] \<rparr>, stream)
     else Inl Uninitialised)"

end
