(* ===== verification/RandomGen.thy ===== *)
theory RandomGen
  imports Prelude
begin

text \<open>
  \<open>src/common/utils/random.c\<close>: the generator from which the servers draw the identifiers of commanders. The
  seed is the state of a worker; the results are \<open>int\<close>s that are never negative.
\<close>

definition mixRandom :: "u32 \<Rightarrow> u32 \<Rightarrow> u32 \<Rightarrow> u32" where
  "mixRandom a b c =
    (let a = a - b; a = a - c; a = xor a (drop_bit 13 c);
         b = b - c; b = b - a; b = xor b (push_bit 8 a);
         c = c - a; c = c - b; c = xor c (drop_bit 13 b);
         a = a - b; a = a - c; a = xor a (drop_bit 12 c);
         b = b - c; b = b - a; b = xor b (push_bit 16 a);
         c = c - a; c = c - b; c = xor c (drop_bit 5 b);
         a = a - b; a = a - c; a = xor a (drop_bit 3 c);
         b = b - c; b = b - a; b = xor b (push_bit 10 a);
         c = c - a; c = c - b; c = xor c (drop_bit 15 b) in
     c)"

text \<open>The result and the new seed.\<close>

definition randR :: "u32 \<Rightarrow> u32 \<times> u32" where
  "randR seed =
    (let nxt = seed * 1103515245; nxt = nxt + 12345;
         r = (nxt div 65536) mod 2048;
         nxt = nxt * 1103515245; nxt = nxt + 12345;
         r = push_bit 10 r; r = xor r ((nxt div 65536) mod 1024);
         nxt = nxt * 1103515245; nxt = nxt + 12345;
         r = push_bit 10 r; r = xor r ((nxt div 65536) mod 1024) in
     (r, nxt))"

text \<open>The clock, the microseconds, the process and the thread are arguments.\<close>

definition r1emuSeedRandom :: "u32 \<Rightarrow> u32 \<Rightarrow> u32 \<Rightarrow> u32 \<Rightarrow> u32 \<Rightarrow> u32" where
  "r1emuSeedRandom clock usec pid tid customData = mixRandom clock usec (pid + tid + customData)"

definition r1emuGenerateRandom :: "u32 \<Rightarrow> u32 \<times> u32" where
  "r1emuGenerateRandom seed = randR seed"

definition r1emuGenerateRandom64 :: "u32 \<Rightarrow> u64 \<times> u32" where
  "r1emuGenerateRandom64 seed =
    (let (low, seed) = r1emuGenerateRandom seed;
         (high, seed) = r1emuGenerateRandom seed;
         high = push_bit (4 * 8 - 1) (ucast high :: u64) in
     (or high (ucast low), seed))"

section \<open>The range of the numbers\<close>

lemma take_bit_lt:
  assumes "take_bit n w = (w :: 'a::len word)" "n < LENGTH('a)"
  shows "w < 2 ^ n"
proof -
  have "unat (take_bit n w) < 2 ^ n"
    by (simp only: unsigned_take_bit_eq take_bit_nat_less_exp)
  moreover have "unat (2 ^ n :: 'a word) = 2 ^ n"
    using assms(2) by (transfer, simp add: nat_take_bit_eq)
  ultimately show ?thesis
    using assms(1) by (simp add: word_less_nat_alt)
qed

lemma mod_take_bit: "(w :: u32) mod 2048 = take_bit 11 w" "(w :: u32) mod 1024 = take_bit 10 w"
  by (simp_all add: take_bit_eq_mod)

lemma randR_bits: "take_bit 31 (fst (randR seed)) = fst (randR seed)"
  unfolding randR_def Let_def mod_take_bit fst_conv
  by (intro bit_eqI) (auto simp: bit_simps)

text \<open>The numbers have 31 bits, and a number of 64 bits is made of two of them that do not overlap: the first is
  its lower half, the second its upper one.\<close>

theorem r1emuGenerateRandom_bounds:
  "fst (r1emuGenerateRandom seed) < 2 ^ 31"
  "fst (r1emuGenerateRandom64 seed) < 2 ^ 62"
  "take_bit 31 (fst (r1emuGenerateRandom64 seed)) = ucast (fst (r1emuGenerateRandom seed))"
  "drop_bit 31 (fst (r1emuGenerateRandom64 seed)) = ucast (fst (r1emuGenerateRandom (snd (r1emuGenerateRandom seed))))"
proof -
  let ?low = "fst (randR seed)" and ?high = "fst (randR (snd (randR seed)))"
  have eq: "fst (r1emuGenerateRandom64 seed) = or (push_bit 31 (ucast ?high)) (ucast ?low)"
    by (simp add: r1emuGenerateRandom64_def r1emuGenerateRandom_def Let_def case_prod_unfold)
  have bits: "\<not> bit ?low n" "\<not> bit ?high n" if "31 \<le> n" for n
    using randR_bits by (metis bit_take_bit_iff linorder_not_less that)+
  have high: "n < 33" if "bit ?high n" for n
    using bits(2) [of n] that by (cases "31 \<le> n") auto
  show "fst (r1emuGenerateRandom seed) < 2 ^ 31"
    unfolding r1emuGenerateRandom_def by (rule take_bit_lt [OF randR_bits]) simp
  show "fst (r1emuGenerateRandom64 seed) < 2 ^ 62"
  proof -
    have "n < 62" if "31 \<le> n" "bit ?high (n - 31)" for n
      using bits(2) [of "n - 31"] that by (cases "31 \<le> n - 31") auto
    then show ?thesis
      unfolding eq using bits(1) by (intro take_bit_lt bit_eqI) (auto simp: bit_simps)
  qed
  show "take_bit 31 (fst (r1emuGenerateRandom64 seed)) = ucast (fst (r1emuGenerateRandom seed))"
    unfolding eq r1emuGenerateRandom_def using bits by (intro bit_eqI) (auto simp: bit_simps)
  show "drop_bit 31 (fst (r1emuGenerateRandom64 seed)) = ucast (fst (r1emuGenerateRandom (snd (r1emuGenerateRandom seed))))"
    unfolding eq r1emuGenerateRandom_def using bits(1) high by (intro bit_eqI) (auto simp: bit_simps add.commute less_diff_conv)
qed

end
