(* ===== verification/Handler.thy ===== *)
theory Handler
  imports Session Worker PacketType RandomGen ZoneEvents
begin

text \<open>
  What the packet handlers of the barrack and of the zone server have in common: the state they work on, the
  size check at their beginning, the fields of the packet of the client and the C library functions they use.
\<close>

section \<open>The state of a handler\<close>

text \<open>
  The session of the client, the commanders and the items that exist, the counter of the actor factory, the seed
  of the worker and the counter of \<open>zoneBuilderSkillReady\<close>. \<open>hs_events\<close> are the events that
  \<open>workerDispatchEvent\<close> has sent to the event server, with the key of the emitter.
\<close>

record ('h, 'k) HandlerState =
  hs_session :: Session
  hs_commanders :: "('h, 'k) Commanders"
  hs_items :: Store
  hs_actors :: ActorFactory
  hs_seed :: u32
  hs_skillCounter :: u32
  hs_events :: "(string \<times> ('h, 'k) ZoneEvent) list"

type_synonym ('h, 'k) Handled = "(PacketHandlerState \<times> ('h, 'k) HandlerState \<times> frames) result"

definition workerDispatchEvent :: "string \<Rightarrow> ('h, 'k) ZoneEvent \<Rightarrow> ('h, 'k) HandlerState \<Rightarrow> ('h, 'k) HandlerState" where
  "workerDispatchEvent emitterSk event s = s \<lparr> hs_events := hs_events s @ [(emitterSk, event)] \<rparr>"

definition hs_accountSession :: "('h, 'k) HandlerState \<Rightarrow> AccountSession" where
  "hs_accountSession s = se_accountSession (hs_session s)"

definition setAccountSession :: "AccountSession \<Rightarrow> ('h, 'k) HandlerState \<Rightarrow> ('h, 'k) HandlerState" where
  "setAccountSession a s = s \<lparr> hs_session := (hs_session s) \<lparr> se_accountSession := a \<rparr> \<rparr>"

definition setCurrentCommander :: "CommanderPtr \<Rightarrow> ('h, 'k) HandlerState \<Rightarrow> ('h, 'k) HandlerState" where
  "setCurrentCommander p s = s \<lparr> hs_session := (hs_session s) \<lparr> se_currentCommander := p \<rparr> \<rparr>"

text \<open>\<open>*session->game.commanderSession.currentCommander\<close>, read and written.\<close>

definition currentCommander :: "('h, 'k) HandlerState \<Rightarrow> ('h, 'k) Commander result" where
  "currentCommander s = derefCommander (hs_commanders s) (se_currentCommander (hs_session s))"

definition writeCurrentCommander :: "('h, 'k) HandlerState \<Rightarrow> ('h, 'k) Commander \<Rightarrow> ('h, 'k) HandlerState result" where
  "writeCurrentCommander s c =
     rbind (writeCommander (hs_commanders s) (se_currentCommander (hs_session s)) c) (\<lambda>cs. Inr (s \<lparr> hs_commanders := cs \<rparr>))"

section \<open>The packet of a client\<close>

text \<open>\<open>CHECK_CLIENT_PACKET_SIZE\<close> for a structure of \<open>n\<close> bytes; the handler fails if it does not hold.\<close>

definition checkPacket :: "nat \<Rightarrow> u64 \<Rightarrow> u16 \<Rightarrow> bool" where
  "checkPacket n packetSize type = checkClientPacketSize n packetSize (of_int (pte_size (packetTypeInit ! unat type)))"

definition checked :: "nat \<Rightarrow> u64 \<Rightarrow> u16 \<Rightarrow> ('h, 'k) HandlerState \<Rightarrow> frames \<Rightarrow> ('h, 'k) Handled \<Rightarrow> ('h, 'k) Handled" where
  "checked n packetSize type s reply body =
     (if checkPacket n packetSize type then body else Inr (PACKET_HANDLER_ERROR, s, reply))"

text \<open>A field of the packet: \<open>n\<close> bytes at an offset.\<close>

definition field :: "nat \<Rightarrow> nat \<Rightarrow> bytes \<Rightarrow> bytes result" where
  "field off n packet = (if length packet < off + n then Inl OutOfBounds else Inr (take n (drop off packet)))"

text \<open>\<open>strlen\<close> of a pointer into memory.\<close>

definition c_strlen :: "bytes \<Rightarrow> nat result" where
  "c_strlen mem = (if 0 \<in> set mem then Inr (length (c_str mem)) else Inl OutOfBounds)"

text \<open>\<open>isprint\<close> in the C locale.\<close>

definition c_isprint :: "byte \<Rightarrow> bool" where
  "c_isprint c \<longleftrightarrow> 0x20 \<le> c \<and> c \<le> 0x7E"

section \<open>Lemmas\<close>

named_theorems handler_simps "definitions to evaluate a handler"

declare workerDispatchEvent_def [handler_simps] hs_accountSession_def [handler_simps]
  setAccountSession_def [handler_simps] setCurrentCommander_def [handler_simps]
  currentCommander_def [handler_simps] writeCurrentCommander_def [handler_simps] field_def [handler_simps]

text \<open>The size check for a type whose size in the table fits the structure.\<close>

lemma checkPacket_fits:
  assumes "pte_size (packetTypeInit ! unat type) = int n + 10" "n < 2 ^ 16"
  shows "checkPacket n packetSize type \<longleftrightarrow> n \<le> unat packetSize \<and> unat packetSize \<le> n + 8"
proof -
  have "checkClientPacketSize n packetSize (of_int (int n + 10)) \<longleftrightarrow>
      (int n + 10 = 0 \<or> int n + 10 = int n + 10) \<and> n \<le> unat packetSize \<and> unat packetSize \<le> n + 8"
    by (rule checkClientPacketSize_correct) (use assms(2) in simp_all)
  then show ?thesis
    by (simp add: checkPacket_def assms(1))
qed

text \<open>And for one whose size does not: every packet is refused.\<close>

lemma checkPacket_unfit:
  assumes "pte_size (packetTypeInit ! unat type) = m" "m \<noteq> 0" "m \<noteq> int n + 10" "n < 2 ^ 16" "0 \<le> m" "m < 2 ^ 16"
  shows "\<not> checkPacket n packetSize type"
proof -
  have "checkClientPacketSize n packetSize (of_int m) \<longleftrightarrow>
      (m = 0 \<or> int n + 10 = m) \<and> n \<le> unat packetSize \<and> unat packetSize \<le> n + 8"
    by (rule checkClientPacketSize_correct) (use assms(4-6) in simp_all)
  then show ?thesis
    using assms by (simp add: checkPacket_def)
qed

lemma field_take [simp]: "off + n \<le> length packet \<Longrightarrow> field off n packet = Inr (take n (drop off packet))"
  by (simp add: field_def)

end
