(* ===== verification/MySqlAccount.thy ===== *)
theory MySqlAccount
  imports Handler
begin

text \<open>
  \<open>src/common/mysql/fields/mysql_account_session.c\<close> and \<open>mysql_commander.c\<close>: what the barrack asks the SQL
  database and what it makes of the answers. The database is an argument: it maps the text of a query to the
  rows of its result (\<open>None\<close> is an error). The columns of a row are given after their conversion with \<open>strtol\<close>
  and \<open>strtof\<close>; a missing row is the end of the list. The texts of the queries about commanders are in \<open>MySqlCommander\<close>.
\<close>

section \<open>The account\<close>

record AccountRow =
  ar_account_id :: u64
  ar_is_banned :: bytes
  ar_time_banned :: u64
  ar_credits :: u32
  ar_privilege_level :: u32
  ar_family_name :: bytes
  ar_barrack_type :: u32

definition hexLower :: "byte \<Rightarrow> bytes" where
  "hexLower b = strBytes [hexDigit (unat b div 16), hexDigit (unat b mod 16)]"

text \<open>\<open>"%.02x"\<close> of sixteen bytes, from \<open>src/common/utils/string.c\<close>.\<close>

definition md5BytesToStr :: "bytes \<Rightarrow> bytes result" where
  "md5BytesToStr md5Bytes = (if length md5Bytes < 16 then Inl OutOfBounds else Inr (concat (map hexLower (take 16 md5Bytes))))"

abbreviation (input) MAX_QUERY_SIZE :: nat where "MAX_QUERY_SIZE \<equiv> 4096"

text \<open>\<open>vsnprintf (buf, MAX_QUERY_SIZE - 1, ...)\<close> of the format of the query.\<close>

definition accountQuery :: "bytes \<Rightarrow> bytes \<Rightarrow> bytes" where
  "accountQuery accountName md5Password = take (MAX_QUERY_SIZE - 2)
     (strBytes ''SELECT account_id, is_banned, Unix_Timestamp(time_banned), credits, privilege_level, family_name, barrack_type FROM accounts WHERE account_name = ''
      @ [0x27] @ accountName @ [0x27] @ strBytes '' AND passwd = '' @ [0x27] @ md5Password @ [0x27] @ strBytes '' LIMIT 1'')"

text \<open>
  The account, whether the credentials are good, and whether the query worked. \<open>accountName\<close> and \<open>password\<close> are
  the memory from the two pointers on; fields that are not assigned keep what they had.
\<close>

definition mySqlGetAccountData ::
    "(bytes \<Rightarrow> AccountRow list option) \<Rightarrow> bytes \<Rightarrow> bytes \<Rightarrow> AccountSession \<Rightarrow> bool \<Rightarrow> (bool \<times> AccountSession \<times> bool) result" where
  "mySqlGetAccountData sql accountName password accountSession goodCredentials =
     rbind (md5BytesToStr password) (\<lambda>md5Password.
     rbind (c_strlen accountName) (\<lambda>_.
     case sql (accountQuery (c_str accountName) md5Password) of
       None \<Rightarrow> Inr (False, accountSession, goodCredentials)
     | Some [] \<Rightarrow> Inr (True, accountSession, False)
     | Some (row # _) \<Rightarrow>
         Inr (True, accountSession
           \<lparr> as_accountName := c_strncpy ACCOUNT_SESSION_ACCOUNT_NAME_MAXSIZE (c_str accountName),
             as_accountId := ar_account_id row, as_isBanned := (hd (ar_is_banned row @ [0]) = 0x79),
             as_timeBanned := ar_time_banned row, as_credits := ar_credits row, as_privilege := ar_privilege_level row,
             as_familyName := c_strncpy COMMANDER_FAMILY_NAME_SIZE (ar_family_name row),
             as_barrackType := ar_barrack_type row \<rparr>, True)))"

abbreviation (input) BC_BARRACKNAME_CHANGE_OK :: int where "BC_BARRACKNAME_CHANGE_OK \<equiv> 0"
abbreviation (input) BC_BARRACKNAME_CHANGE_ERROR :: int where "BC_BARRACKNAME_CHANGE_ERROR \<equiv> 1"
abbreviation (input) BC_BARRACKNAME_CHANGE_ALREADYEXIST :: int where "BC_BARRACKNAME_CHANGE_ALREADYEXIST \<equiv> -1"

text \<open>Whether the call of the procedure worked, and the rows of \<open>SELECT @flag\<close>.\<close>

definition mySqlSetFamilyName :: "(u64 \<Rightarrow> bytes \<Rightarrow> bool) \<Rightarrow> int list option \<Rightarrow> u64 \<Rightarrow> bytes \<Rightarrow> int" where
  "mySqlSetFamilyName call flag accountId familyName =
     (if \<not> call accountId familyName then BC_BARRACKNAME_CHANGE_ERROR
      else case flag of
        None \<Rightarrow> BC_BARRACKNAME_CHANGE_ERROR
      | Some [] \<Rightarrow> BC_BARRACKNAME_CHANGE_ERROR
      | Some (status # _) \<Rightarrow> status)"

section \<open>The commanders\<close>

text \<open>\<open>cr_rand\<close> is what \<open>rand\<close> gives for the row; \<open>cr_equipment\<close> are the columns from \<open>eqslot_head_top\<close> on.\<close>

record CommanderRow =
  cr_commander_name :: bytes
  cr_account_id :: u64
  cr_class_id :: u16
  cr_job_id :: u16
  cr_gender :: byte
  cr_level :: u32
  cr_hair_id :: byte
  cr_position :: PositionXYZ
  cr_barrack_position :: PositionXYZ
  cr_exp :: u32
  cr_rand :: u32
  cr_commander_id :: u64
  cr_hp :: u32
  cr_mp :: u16
  cr_map_id :: u16
  cr_equipment :: "u32 list"

type_synonym ItemCreate = "ActorFactory \<Rightarrow> u32 \<Rightarrow> u32 \<Rightarrow> byte \<Rightarrow> (ItemObject option \<times> ActorFactory) result"

text \<open>The loop over the slots; \<open>create\<close> is \<open>itemFactoryCreateEquipable\<close> of the server's factory.\<close>

fun loadEquipment ::
    "ItemCreate \<Rightarrow> Store \<Rightarrow> ActorFactory \<Rightarrow> byte \<Rightarrow> u32 list \<Rightarrow> (addr option list \<times> Store \<times> ActorFactory) result" where
  "loadEquipment create st actors slot [] = Inr ([], st, actors)"
| "loadEquipment create st actors slot (itemId # ids) =
     rbind (create actors itemId 1 slot) (\<lambda>(item, actors).
     let (e, st) = (case item of None \<Rightarrow> (None, st) | Some x \<Rightarrow> (let (a, st) = allocItem st x in (Some a, st))) in
     rbind (loadEquipment create st actors (slot + 1) ids) (\<lambda>(es, st, actors). Inr (e # es, st, actors)))"

definition commanderOfRow ::
    "('h, addr) zhash_ops \<Rightarrow> ('k, 'v) zhash_ops \<Rightarrow> bytes \<Rightarrow> CommanderRow \<Rightarrow> addr option list \<Rightarrow> ('h, 'k) Commander" where
  "commanderOfRow Z Zs familyName row equipment =
     (commanderInit Z Zs)
       \<lparr> co_familyName := c_strncpy COMMANDER_FAMILY_NAME_SIZE familyName,
         co_commanderName := c_strncpy (COMMANDER_NAME_SIZE + 1) (cr_commander_name row),
         co_accountId := cr_account_id row, co_classId := cr_class_id row, co_jobId := cr_job_id row,
         co_gender := cr_gender row, co_level := cr_level row, co_hairId := cr_hair_id row, co_pose := 0,
         co_pos := cr_position row, co_barrackPos := cr_barrack_position row,
         co_currentXP := cr_exp row, co_maxXP := 1337, co_pcId := cr_rand row,
         co_socialInfoId := cr_commander_id row, co_commanderId := cr_commander_id row,
         co_currentHP := cr_hp row, co_maxHP := cr_hp row, co_currentSP := cr_mp row, co_maxSP := cr_mp row,
         co_currentStamina := 25000, co_maxStamina := 25000, co_mapId := cr_map_id row,
         co_inventory := (inventoryInit Z) \<lparr> inv_equippedItems := equipment \<rparr> \<rparr>"

text \<open>A row fills the commander at its position in the array.\<close>

fun mySqlGetCommanders ::
    "('h, addr) zhash_ops \<Rightarrow> ('k, 'v) zhash_ops \<Rightarrow> ItemCreate \<Rightarrow> bytes \<Rightarrow> CommanderPtr list \<Rightarrow> nat \<Rightarrow> CommanderRow list \<Rightarrow>
     ('h, 'k) Commanders \<Rightarrow> Store \<Rightarrow> ActorFactory \<Rightarrow> (('h, 'k) Commanders \<times> Store \<times> ActorFactory) result" where
  "mySqlGetCommanders Z Zs create familyName commanders i [] cs st actors = Inr (cs, st, actors)"
| "mySqlGetCommanders Z Zs create familyName commanders i (row # rows) cs st actors =
     (if length commanders \<le> i then Inl OutOfBounds
      else
        rbind (loadEquipment create st actors 0 (cr_equipment row)) (\<lambda>(equipment, st, actors).
        rbind (writeCommander cs (commanders ! i) (commanderOfRow Z Zs familyName row equipment)) (\<lambda>cs.
        mySqlGetCommanders Z Zs create familyName commanders (Suc i) rows cs st actors)))"

abbreviation (input) COMMANDERS_COUNT_MAX :: nat where "COMMANDERS_COUNT_MAX \<equiv> 5"

text \<open>The result has the account and, in the fourth component, the number of rows.\<close>

definition mySqlLoadAccountCommanders ::
    "('h, addr) zhash_ops \<Rightarrow> ('k, 'v) zhash_ops \<Rightarrow> ItemCreate \<Rightarrow> (u64 \<Rightarrow> CommanderRow list option) \<Rightarrow> AccountSession \<Rightarrow> u64 \<Rightarrow>
     ('h, 'k) HandlerState \<Rightarrow> (bool \<times> AccountSession \<times> nat \<times> ('h, 'k) HandlerState) result" where
  "mySqlLoadAccountCommanders Z Zs create sql accountSession accountId s =
     (case sql accountId of
        None \<Rightarrow> Inr (False, accountSession, 0, s)
      | Some rows \<Rightarrow>
          let accountSession = accountSession \<lparr> as_commandersCountMax := COMMANDERS_COUNT_MAX \<rparr> in
          rbind (accountSessionCommandersInit Z Zs (hs_commanders s) accountSession COMMANDERS_COUNT_MAX (length rows))
            (\<lambda>(accountSession, cs).
          rbind (mySqlGetCommanders Z Zs create (c_str (as_familyName accountSession)) (the (as_commanders accountSession)) 0 rows
              cs (hs_items s) (hs_actors s)) (\<lambda>(cs, st, actors).
          Inr (True, accountSession, length rows,
            s \<lparr> hs_commanders := cs, hs_items := st, hs_actors := actors \<rparr>))))"

text \<open>The ids of the items in the twenty slots, which the queries that write a commander need.\<close>

fun equipmentIds :: "Store \<Rightarrow> addr option list \<Rightarrow> u32 list result" where
  "equipmentIds st [] = Inr []"
| "equipmentIds st (None # es) = Inl NullDeref"
| "equipmentIds st (Some a # es) =
     rbind (derefItem st a) (\<lambda>x. rbind (equipmentIds st es) (\<lambda>ids. Inr (itemGetId (itemBase x) # ids)))"

text \<open>\<open>sql\<close> is the database: the id of the row it inserts, or \<open>None\<close>.\<close>

definition mySqlCommanderInsert ::
    "(('h, 'k) Commander \<Rightarrow> u32 list \<Rightarrow> u64 option) \<Rightarrow> Store \<Rightarrow> ('h, 'k) Commander \<Rightarrow> ('h, 'k) Commander option result" where
  "mySqlCommanderInsert sql st commander =
     rbind (equipmentIds st (inv_equippedItems (co_inventory commander))) (\<lambda>ids.
     Inr (map_option (\<lambda>n. commander \<lparr> co_commanderId := n \<rparr>) (sql commander ids)))"

end
