(* ===== verification/BarrackHandler.thy ===== *)
theory BarrackHandler
  imports MySqlAccount BarrackBuilder
begin

text \<open>
  \<open>src/barrack_server/barrack_handler/barrack_handler.c\<close>: the packets of a client in its barrack, from the login
  to the start of the game. MySQL, Redis, the item factory and zlib are the arguments collected in
  \<open>BarrackEnv\<close>.
\<close>

text \<open>
  The operations of the tables, the queries, the changes in Redis (whether they work), \<open>itemFactoryCreate\<close> and
  \<open>itemFactoryCreateEquipable\<close> of the factory of the server, \<open>deflate\<close>, the identifier of the router, and what
  the stack has where \<open>barrackHandlerLogin\<close> declares its account.
\<close>

record ('h, 'k, 'v) BarrackEnv =
  be_Z :: "('h, addr) zhash_ops"
  be_Zs :: "('k, 'v) zhash_ops"
  be_accounts :: "bytes \<Rightarrow> AccountRow list option"
  be_commanders :: "u64 \<Rightarrow> CommanderRow list option"
  be_setFamilyName :: "u64 \<Rightarrow> bytes \<Rightarrow> bool"
  be_flag :: "int list option"
  be_commanderInsert :: "('h, 'k) Commander \<Rightarrow> u32 list \<Rightarrow> u64 option"
  be_commanderDelete :: "u64 \<Rightarrow> bool"
  be_redisUpdateSession :: "Session \<Rightarrow> bool"
  be_redisMoveGameSession :: "u16 \<times> u16 \<times> u64 \<Rightarrow> u16 \<times> u16 \<times> u64 \<Rightarrow> bool"
  be_itemFactoryCreate :: "ActorFactory \<Rightarrow> u32 \<Rightarrow> u32 \<Rightarrow> (ItemObject option \<times> ActorFactory) result"
  be_itemFactoryCreateEquipable :: ItemCreate
  be_deflate :: "bytes \<Rightarrow> bytes option"
  be_routerId :: u16
  be_stackAccount :: AccountSession

abbreviation (input) CB_LOGIN :: u16 where "CB_LOGIN \<equiv> 3"
abbreviation (input) CB_LOGIN_BY_PASSPORT :: u16 where "CB_LOGIN_BY_PASSPORT \<equiv> 4"
abbreviation (input) CB_LOGOUT :: u16 where "CB_LOGOUT \<equiv> 5"
abbreviation (input) CB_START_BARRACK :: u16 where "CB_START_BARRACK \<equiv> 6"
abbreviation (input) CB_COMMANDER_CREATE :: u16 where "CB_COMMANDER_CREATE \<equiv> 7"
abbreviation (input) CB_COMMANDER_DESTROY :: u16 where "CB_COMMANDER_DESTROY \<equiv> 8"
abbreviation (input) CB_CHECK_CLIENT_INTEGRITY :: u16 where "CB_CHECK_CLIENT_INTEGRITY \<equiv> 9"
abbreviation (input) CB_START_GAME :: u16 where "CB_START_GAME \<equiv> 10"
abbreviation (input) CB_BARRACKNAME_CHANGE :: u16 where "CB_BARRACKNAME_CHANGE \<equiv> 11"
abbreviation (input) CB_COMMANDER_MOVE :: u16 where "CB_COMMANDER_MOVE \<equiv> 12"
abbreviation (input) CB_CURRENT_BARRACK :: u16 where "CB_CURRENT_BARRACK \<equiv> 78"

abbreviation (input) BC_MESSAGE_CUSTOM_MSG :: byte where "BC_MESSAGE_CUSTOM_MSG \<equiv> 0"
abbreviation (input) BC_MESSAGE_USER_PASS_INCORRECT_1 :: byte where "BC_MESSAGE_USER_PASS_INCORRECT_1 \<equiv> 1"
abbreviation (input) BC_MESSAGE_NAME_ALREADY_EXIST :: byte where "BC_MESSAGE_NAME_ALREADY_EXIST \<equiv> 6"
abbreviation (input) BC_MESSAGE_COMMANDER_NAME_TOO_SHORT :: byte where "BC_MESSAGE_COMMANDER_NAME_TOO_SHORT \<equiv> 8"
abbreviation (input) BC_MESSAGE_CREATE_COMMANDER_FAIL :: byte where "BC_MESSAGE_CREATE_COMMANDER_FAIL \<equiv> 10"
abbreviation (input) BC_MESSAGE_ACCOUNT_BLOCKED_2 :: byte where "BC_MESSAGE_ACCOUNT_BLOCKED_2 \<equiv> 21"

section \<open>Login\<close>

definition loginKey :: bytes where
  "loginKey = strBytes ''*0FC621B82495C18DEC8D8D956C82297BEAAAA858''"

definition barrackHandlerLogin ::
    "('h, 'k, 'v) BarrackEnv \<Rightarrow> ('h, 'k) HandlerState \<Rightarrow> bytes \<Rightarrow> u64 \<Rightarrow> frames \<Rightarrow> ('h, 'k) Handled" where
  "barrackHandlerLogin env s packet packetSize reply =
     checked 56 packetSize CB_LOGIN s reply
       (rbind (mySqlGetAccountData (be_accounts env) packet (drop 33 packet) (be_stackAccount env) False)
         (\<lambda>(ok, accountSession, goodCredentials).
        if \<not> ok then Inr (PACKET_HANDLER_ERROR, s, reply)
        else if \<not> goodCredentials then
          Inr (PACKET_HANDLER_OK, s, barrackBuilderMessage BC_MESSAGE_USER_PASS_INCORRECT_1 [] reply)
        else if as_isBanned accountSession then
          Inr (PACKET_HANDLER_OK, s, barrackBuilderMessage BC_MESSAGE_ACCOUNT_BLOCKED_2 [] reply)
        else
          let session = hs_session s;
              socket = (se_socket session) \<lparr> ss_authenticated := True, ss_accountId := as_accountId accountSession \<rparr>;
              s = s \<lparr> hs_session := session \<lparr> se_socket := socket, se_accountSession := accountSession \<rparr> \<rparr> in
          Inr (PACKET_HANDLER_UPDATE_SESSION, s,
            barrackBuilderLoginOk (ss_accountId socket) (c_str (as_accountName accountSession)) loginKey
              (as_privilege accountSession) reply)))"

text \<open>\<open>memset\<close> clears the account before its own name is copied over itself; the name becomes the account id
  in hexadecimal (\<open>"%llX"\<close>).\<close>

definition upperHex :: "nat \<Rightarrow> string" where
  "upperHex n = map (\<lambda>c. case hexValue c of Some d \<Rightarrow> hexDigitUpper d | None \<Rightarrow> c) (fmtHex n)"

definition barrackHandlerLoginByPassport ::
    "('h, 'k, 'v) BarrackEnv \<Rightarrow> ('h, 'k) HandlerState \<Rightarrow> bytes \<Rightarrow> u64 \<Rightarrow> frames \<Rightarrow> ('h, 'k) Handled" where
  "barrackHandlerLoginByPassport env s packet packetSize reply =
     checked 1042 packetSize CB_LOGIN_BY_PASSPORT s reply
       (let (accountId, seed) = r1emuGenerateRandom64 (hs_seed s);
            session = hs_session s;
            socket = (se_socket session) \<lparr> ss_authenticated := True, ss_accountId := accountId \<rparr>;
            sessionKey = c_strncpy SOCKET_SESSION_ID_SIZE (strBytes (ss_sessionKey socket)) in
        rbind (accountSessionInit (replicate ACCOUNT_SESSION_ACCOUNT_NAME_MAXSIZE 0) sessionKey ACCOUNT_SESSION_PRIVILEGES_ADMIN)
          (\<lambda>accountSession.
        let name = strBytes (c_snprintf ACCOUNT_SESSION_ACCOUNT_NAME_MAXSIZE (upperHex (unat accountId)));
            accountSession = accountSession \<lparr> as_accountName := mem_write (as_accountName accountSession) 0 (name @ [0]) \<rparr>;
            s = s \<lparr> hs_seed := seed, hs_session := session \<lparr> se_socket := socket, se_accountSession := accountSession \<rparr> \<rparr> in
        Inr (PACKET_HANDLER_UPDATE_SESSION, s,
          barrackBuilderLoginOk accountId (c_str (as_accountName accountSession)) loginKey (as_privilege accountSession) reply)))"

section \<open>The barrack\<close>

definition commandersOf :: "('h, 'k) Commanders \<Rightarrow> CommanderPtr list \<Rightarrow> ('h, 'k) Commander list result" where
  "commandersOf cs ps = foldr (\<lambda>p r. rbind (derefCommander cs p) (\<lambda>c. rbind r (\<lambda>cl. Inr (c # cl)))) ps (Inr [])"

definition barrackHandlerStartBarrack ::
    "('h, 'k, 'v) BarrackEnv \<Rightarrow> ('h, 'k) HandlerState \<Rightarrow> bytes \<Rightarrow> u64 \<Rightarrow> frames \<Rightarrow> ('h, 'k) Handled" where
  "barrackHandlerStartBarrack env s packet packetSize reply =
     (let accountId = ss_accountId (se_socket (hs_session s)) in
      rbind (mySqlLoadAccountCommanders (be_Z env) (be_Zs env) (be_itemFactoryCreateEquipable env) (be_commanders env)
          (hs_accountSession s) accountId s) (\<lambda>(ok, tmpAccountSession, commandersCount, s).
      if \<not> ok then Inr (PACKET_HANDLER_ERROR, s, reply)
      else
        let s = setAccountSession tmpAccountSession s in
        rbind (commandersOf (hs_commanders s) (take commandersCount (the (as_commanders tmpAccountSession)))) (\<lambda>commanders.
        rbind (barrackBuilderCommanderList (hs_items s) accountId (c_str (as_familyName tmpAccountSession)) (as_credits tmpAccountSession)
            commanders reply) (\<lambda>reply.
        Inr (PACKET_HANDLER_UPDATE_SESSION, s, reply)))))"

definition clientIntegrityFrame :: bytes where
  "clientIntegrityFrame = [0x4F, 0x00, 0xFF, 0xFF, 0xFF, 0xFF, 0x1D, 0x00, 0x04, 0x00, 0x00, 0x00, 0x4B, 0x0A, 0x0F, 0x06,
     0x01, 0x00, 0x10, 0x01, 0x0C, 0x00, 0x00, 0x00, 0x00, 0x00, 0x00, 0x00, 0x00]"

text \<open>The result of \<open>barrackHandlerStartBarrack\<close> is tested as a truth value, which only \<open>PACKET_HANDLER_OK\<close> (0) is not.\<close>

definition barrackHandlerCheckClientIntegrity ::
    "('h, 'k, 'v) BarrackEnv \<Rightarrow> ('h, 'k) HandlerState \<Rightarrow> bytes \<Rightarrow> u64 \<Rightarrow> frames \<Rightarrow> ('h, 'k) Handled" where
  "barrackHandlerCheckClientIntegrity env s packet packetSize reply =
     (let reply = zmsg_add reply clientIntegrityFrame in
      rbind (barrackHandlerStartBarrack env s packet packetSize reply) (\<lambda>(status, s, reply).
      if status = PACKET_HANDLER_OK then Inr (PACKET_HANDLER_ERROR, s, reply)
      else Inr (PACKET_HANDLER_UPDATE_SESSION, s, reply)))"

definition barrackHandlerCurrentBarrack ::
    "('h, 'k, 'v) BarrackEnv \<Rightarrow> ('h, 'k) HandlerState \<Rightarrow> bytes \<Rightarrow> u64 \<Rightarrow> frames \<Rightarrow> ('h, 'k) Handled" where
  "barrackHandlerCurrentBarrack env s packet packetSize reply =
     (let reply = barrackBuilderPetInformation reply in
      rbind (barrackBuilderZoneTraffics (be_deflate env) 1021 reply) (\<lambda>reply. Inr (PACKET_HANDLER_OK, s, reply)))"

definition barrackHandlerLogout ::
    "('h, 'k, 'v) BarrackEnv \<Rightarrow> ('h, 'k) HandlerState \<Rightarrow> bytes \<Rightarrow> u64 \<Rightarrow> frames \<Rightarrow> ('h, 'k) Handled" where
  "barrackHandlerLogout env s packet packetSize reply = Inr (PACKET_HANDLER_OK, s, barrackBuilderLogoutOk reply)"

text \<open>The first part computes the status of the change and the status of the handler; then the reply is built.\<close>

definition barrackNameChange ::
    "('h, 'k, 'v) BarrackEnv \<Rightarrow> ('h, 'k) HandlerState \<Rightarrow> bytes \<Rightarrow> (int \<times> PacketHandlerState \<times> ('h, 'k) HandlerState) result" where
  "barrackNameChange env s packet =
     rbind (c_strlen packet) (\<lambda>barrackNameLen.
     rbind (field 0 64 packet) (\<lambda>barrackName.
     let accountSession = hs_accountSession s in
     if barrackNameLen = 0 then Inr (BC_BARRACKNAME_CHANGE_ERROR, PACKET_HANDLER_ERROR, s)
     else if \<exists>c \<in> set (take barrackNameLen packet). \<not> c_isprint c then Inr (BC_BARRACKNAME_CHANGE_ERROR, PACKET_HANDLER_ERROR, s)
     else if barrackName = as_familyName accountSession then
       Inr (BC_BARRACKNAME_CHANGE_OK, PACKET_HANDLER_UPDATE_SESSION, s)
     else
       let changeStatus = (if mySqlSetFamilyName (be_setFamilyName env) (be_flag env) (as_accountId accountSession) (c_str packet)
                             \<noteq> BC_BARRACKNAME_CHANGE_OK then 1 else 0 :: int) in
       if changeStatus \<noteq> 0 then Inr (changeStatus, PACKET_HANDLER_ERROR, s)
       else Inr (changeStatus, PACKET_HANDLER_UPDATE_SESSION,
         setAccountSession (accountSession \<lparr> as_familyName := c_strncpy COMMANDER_FAMILY_NAME_SIZE (c_str packet) \<rparr>) s)))"

definition barrackHandlerBarrackNameChange ::
    "('h, 'k, 'v) BarrackEnv \<Rightarrow> ('h, 'k) HandlerState \<Rightarrow> bytes \<Rightarrow> u64 \<Rightarrow> frames \<Rightarrow> ('h, 'k) Handled" where
  "barrackHandlerBarrackNameChange env s packet packetSize reply =
     checked 64 packetSize CB_BARRACKNAME_CHANGE s reply
       (rbind (barrackNameChange env s packet) (\<lambda>(changeStatus, status, s).
        let reply = barrackBuilderBarrackNameChange (of_int changeStatus) (c_str (as_familyName (hs_accountSession s))) reply in
        Inr (if changeStatus \<noteq> BC_BARRACKNAME_CHANGE_OK then PACKET_HANDLER_OK else status, s, reply)))"

section \<open>Commanders\<close>

text \<open>\<open>size_t commanderIndex = clientPacket->commanderIndex - 1\<close>, as the \<open>int\<close> it is passed as.\<close>

definition commanderIndexOf :: "bytes \<Rightarrow> int result" where
  "commanderIndexOf packet = rbind (field 0 1 packet) (\<lambda>b. Inr (uint (hd b) - 1))"

text \<open>The position is copied with the size of a \<open>PositionXZ\<close>: the third coordinate stays what it was.\<close>

definition barrackHandlerCommanderMove ::
    "('h, 'k, 'v) BarrackEnv \<Rightarrow> ('h, 'k) HandlerState \<Rightarrow> bytes \<Rightarrow> u64 \<Rightarrow> frames \<Rightarrow> ('h, 'k) Handled" where
  "barrackHandlerCommanderMove env s packet packetSize reply =
     checked 21 packetSize CB_COMMANDER_MOVE s reply
       (rbind (commanderIndexOf packet) (\<lambda>commanderIndex.
        rbind (accountSessionGetCommanderByIndex (hs_accountSession s) commanderIndex) (\<lambda>commander. case commander of
          None \<Rightarrow> Inr (PACKET_HANDLER_ERROR, s, reply)
        | Some p \<Rightarrow>
            let s = setCurrentCommander p s in
            rbind (field 1 8 packet) (\<lambda>position.
            rbind (derefCommander (hs_commanders s) p) (\<lambda>commander.
            let commander = commander \<lparr> co_barrackPos := decXYZ (mem_write (encXYZ (co_barrackPos commander)) 0 position) \<rparr> in
            rbind (writeCommander (hs_commanders s) p commander) (\<lambda>cs.
            rbind (field 0 1 packet) (\<lambda>index.
            Inr (PACKET_HANDLER_UPDATE_SESSION, s \<lparr> hs_commanders := cs \<rparr>,
              barrackBuilderCommanderMoveOk (ss_accountId (se_socket (hs_session s))) (ucast (hd index)) (co_barrackPos commander)
                reply))))))))"

definition deleteProblemMessage :: bytes where
  "deleteProblemMessage = strBytes ''There was a problem while deleting your Character. Please try again.''"

definition barrackHandlerCommanderDestroy ::
    "('h, 'k, 'v) BarrackEnv \<Rightarrow> ('h, 'k) HandlerState \<Rightarrow> bytes \<Rightarrow> u64 \<Rightarrow> frames \<Rightarrow> ('h, 'k) Handled" where
  "barrackHandlerCommanderDestroy env s packet packetSize reply =
     checked 1 packetSize CB_COMMANDER_DESTROY s reply
       (rbind (commanderIndexOf packet) (\<lambda>commanderIndex.
        rbind (accountCommanderAt (hs_accountSession s) commanderIndex) (\<lambda>p.
        if p = NullPtr then Inr (PACKET_HANDLER_ERROR, s, reply)
        else
          rbind (derefCommander (hs_commanders s) p) (\<lambda>commanderToDelete.
          if \<not> be_commanderDelete env (co_commanderId commanderToDelete) then
            Inr (PACKET_HANDLER_OK, s, barrackBuilderMessage BC_MESSAGE_CUSTOM_MSG deleteProblemMessage reply)
          else
            let s = setCurrentCommander NullPtr s;
                accountSession = hs_accountSession s in
            rbind (commanderDestroy (hs_commanders s) p) (\<lambda>cs.
            let accountSession = accountSession
                  \<lparr> as_commanders := Some ((the (as_commanders accountSession))[nat commanderIndex := NullPtr]) \<rparr>;
                s = setAccountSession accountSession (s \<lparr> hs_commanders := cs \<rparr>) in
            Inr (PACKET_HANDLER_UPDATE_SESSION, s, barrackBuilderCommanderDestroy (of_int (commanderIndex + 1)) reply))))))"

text \<open>The equipment of a new commander, the same for the four jobs.\<close>

definition defaultEquipment :: "u16 \<Rightarrow> u32 list" where
  "defaultEquipment jobId = [2, 2, 4, 531101, 6, 7, 10000, 11000, 201101, 9999996, 4, 9, 9, 4, 521101, 9, 9, 9, 9, 10]"

text \<open>The loop over the slots; an item the factory does not make is written through a null pointer.\<close>

fun equipDefaults ::
    "('h, 'k, 'v) BarrackEnv \<Rightarrow> Store \<Rightarrow> ActorFactory \<Rightarrow> byte \<Rightarrow> u32 list \<Rightarrow> (addr option list \<times> Store \<times> ActorFactory) result" where
  "equipDefaults env st actors slot [] = Inr ([], st, actors)"
| "equipDefaults env st actors slot (itemId # ids) =
     rbind (be_itemFactoryCreate env actors itemId 1) (\<lambda>(item, actors). case item of
       None \<Rightarrow> Inl NullDeref
     | Some x \<Rightarrow>
         let (a, st) = allocItem st x in
         rbind (writeSlot st a slot) (\<lambda>st.
         rbind (equipDefaults env st actors (slot + 1) ids) (\<lambda>(es, st, actors). Inr (Some a # es, st, actors))))"

definition commanderClassOf :: "u16 \<Rightarrow> u16 option" where
  "commanderClassOf jobId =
     (if jobId = 1001 then Some 10001
      else if jobId = 3001 then Some 10003
      else if jobId = 2001 then Some 10006
      else if jobId = 4001 then Some 10005
      else None)"

text \<open>The checks of the request; a message for the client if one fails.\<close>

definition commanderCreateCheck :: "bytes \<Rightarrow> (byte option \<times> u16) result" where
  "commanderCreateCheck packet =
     (let name = drop 1 packet in
      rbind (c_strlen name) (\<lambda>commanderNameLen.
      rbind (field 66 2 packet) (\<lambda>jobId.
      rbind (field 68 1 packet) (\<lambda>gender.
      if commanderNameLen = 0 then Inr (Some BC_MESSAGE_COMMANDER_NAME_TOO_SHORT, 0)
      else if \<exists>c \<in> set (take commanderNameLen name). \<not> c_isprint c then Inr (Some BC_MESSAGE_NAME_ALREADY_EXIST, 0)
      else case commanderClassOf (dec16 jobId) of
        None \<Rightarrow> Inr (Some BC_MESSAGE_CREATE_COMMANDER_FAIL, 0)
      | Some classId \<Rightarrow>
          if hd gender = 1 \<or> hd gender = 2 then Inr (None, classId)
          else Inr (Some BC_MESSAGE_CREATE_COMMANDER_FAIL, 0)))))"

text \<open>The commander that is made of a request that passed the checks, without its equipment.\<close>

definition newCommanderOf ::
    "('h, 'k, 'v) BarrackEnv \<Rightarrow> Session \<Rightarrow> u32 \<Rightarrow> u16 \<Rightarrow> bytes \<Rightarrow> ('h, 'k) Commander \<times> u32" where
  "newCommanderOf env session seed classId packet =
     (let (pcId, seed) = r1emuGenerateRandom seed;
          (socialInfoId, seed) = r1emuGenerateRandom64 seed in
      ((commanderInit (be_Z env) (be_Zs env))
        \<lparr> co_mapId := 1021, co_classId := classId, co_jobId := dec16 (drop 66 packet), co_gender := packet ! 68,
          co_commanderName := c_strncpy (COMMANDER_NAME_SIZE + 1) (c_str (drop 1 packet)),
          co_familyName := c_strncpy COMMANDER_FAMILY_NAME_SIZE (c_str (as_familyName (se_accountSession session))),
          co_accountId := ss_accountId (se_socket session), co_hairId := packet ! 81,
          co_pcId := pcId, co_socialInfoId := socialInfoId,
          co_pos := \<lparr> pos_x = 0xC41BC000, pos_y = 0x43820000, pos_z = 0xC4828000 \<rparr>,
          co_dir := \<lparr> xz_x = 0, xz_z = 0 \<rparr> \<rparr>, seed))"

text \<open>The index is read before the size of the packet is checked.\<close>

definition barrackHandlerCommanderCreate ::
    "('h, 'k, 'v) BarrackEnv \<Rightarrow> ('h, 'k) HandlerState \<Rightarrow> bytes \<Rightarrow> u64 \<Rightarrow> frames \<Rightarrow> ('h, 'k) Handled" where
  "barrackHandlerCommanderCreate env s packet packetSize reply =
     rbind (commanderIndexOf packet) (\<lambda>commanderIndex.
     checked 82 packetSize CB_COMMANDER_CREATE s reply
       (rbind (accountSessionIsCommanderSlotEmpty (hs_accountSession s) commanderIndex) (\<lambda>slotEmpty.
        if \<not> slotEmpty then Inr (PACKET_HANDLER_ERROR, s, reply)
        else
        rbind (commanderCreateCheck packet) (\<lambda>(msgType, classId). case msgType of
          Some msgType \<Rightarrow> Inr (PACKET_HANDLER_OK, s, barrackBuilderMessage msgType [] reply)
        | None \<Rightarrow>
            rbind (field 81 1 packet) (\<lambda>_.
            let (newCommander, seed) = newCommanderOf env (hs_session s) (hs_seed s) classId packet in
            rbind (equipDefaults env (hs_items s) (hs_actors s) 0 (defaultEquipment (co_jobId newCommander))) (\<lambda>(equipment, st, actors).
            let newCommander = newCommander
                  \<lparr> co_inventory := (co_inventory newCommander) \<lparr> inv_equippedItems := equipment \<rparr> \<rparr>;
                s = s \<lparr> hs_seed := seed, hs_items := st, hs_actors := actors \<rparr> in
            rbind (mySqlCommanderInsert (be_commanderInsert env) st newCommander) (\<lambda>inserted. case inserted of
              None \<Rightarrow> Inr (PACKET_HANDLER_ERROR, s, reply)
            | Some newCommander \<Rightarrow>
                let (dupCommander, cs) = commanderDup (hs_commanders s) newCommander;
                    accountSession = hs_accountSession s;
                    accountSession = accountSession
                      \<lparr> as_commanders := Some ((the (as_commanders accountSession))[nat commanderIndex := dupCommander]) \<rparr>;
                    s = setAccountSession accountSession (s \<lparr> hs_commanders := cs \<rparr>) in
                rbind (barrackBuilderCommanderCreate newCommander (of_int (commanderIndex + 1)) reply) (\<lambda>reply.
                Inr (PACKET_HANDLER_UPDATE_SESSION, s, reply)))))))))"

section \<open>The start of the game\<close>

definition zoneServerIps :: "u32 list" where
  "zoneServerIps = map dec32 [[127, 0, 0, 1], [46, 105, 97, 46], [192, 168, 33, 10], [37, 187, 102, 130]]"

definition zoneServerPorts :: "u32 list" where
  "zoneServerPorts = [2004, 2005, 2006, 2007]"

definition barrackHandlerStartGame ::
    "('h, 'k, 'v) BarrackEnv \<Rightarrow> ('h, 'k) HandlerState \<Rightarrow> bytes \<Rightarrow> u64 \<Rightarrow> frames \<Rightarrow> ('h, 'k) Handled" where
  "barrackHandlerStartGame env s packet packetSize reply =
     checked 3 packetSize CB_START_GAME s reply
       (rbind (field 0 2 packet) (\<lambda>routerIdBytes.
        rbind (field 2 1 packet) (\<lambda>indexByte.
        let routerId = dec16 routerIdBytes; session = hs_session s; socket = se_socket session in
        rbind (accountCommanderAt (hs_accountSession s) (uint (hd indexByte) - 1)) (\<lambda>p.
        if p = NullPtr then Inr (PACKET_HANDLER_ERROR, s, reply)
        else if length zoneServerIps \<le> unat routerId then Inr (PACKET_HANDLER_ERROR, s, reply)
        else
          let zoneServerIp = zoneServerIps ! unat routerId; zoneServerPort = zoneServerPorts ! unat routerId;
              tmpSession = session \<lparr> se_currentCommander := p \<rparr> in
          if \<not> be_redisUpdateSession env tmpSession then Inr (PACKET_HANDLER_ERROR, s, reply)
          else
            rbind (derefCommander (hs_commanders s) p) (\<lambda>commander.
            if \<not> be_redisMoveGameSession env (ss_routerId socket, ss_mapId socket, ss_accountId socket)
                    (routerId, -1, ss_accountId socket)
            then Inr (PACKET_HANDLER_ERROR, s, reply)
            else
              Inr (PACKET_HANDLER_UPDATE_SESSION, setCurrentCommander p s,
                barrackBuilderStartGameOk (ucast (be_routerId env)) zoneServerIp zoneServerPort (co_mapId commander)
                  (hd indexByte) (co_socialInfoId commander) 0 reply))))))"

section \<open>The table of the handlers\<close>

definition barrackHandlerOf ::
    "('h, 'k, 'v) BarrackEnv \<Rightarrow> nat \<Rightarrow> ('h, 'k) HandlerState PacketHandler option" where
  "barrackHandlerOf env type =
     (if type = unat CB_LOGIN then Some (barrackHandlerLogin env)
      else if type = unat CB_LOGIN_BY_PASSPORT then Some (barrackHandlerLoginByPassport env)
      else if type = unat CB_START_BARRACK then Some (barrackHandlerStartBarrack env)
      else if type = unat CB_CURRENT_BARRACK then Some (barrackHandlerCurrentBarrack env)
      else if type = unat CB_BARRACKNAME_CHANGE then Some (barrackHandlerBarrackNameChange env)
      else if type = unat CB_COMMANDER_CREATE then Some (barrackHandlerCommanderCreate env)
      else if type = unat CB_COMMANDER_DESTROY then Some (barrackHandlerCommanderDestroy env)
      else if type = unat CB_COMMANDER_MOVE then Some (barrackHandlerCommanderMove env)
      else if type = unat CB_START_GAME then Some (barrackHandlerStartGame env)
      else if type = unat CB_LOGOUT then Some (barrackHandlerLogout env)
      else if type = unat CB_CHECK_CLIENT_INTEGRITY then Some (barrackHandlerCheckClientIntegrity env)
      else None)"

definition barrackHandlers :: "('h, 'k, 'v) BarrackEnv \<Rightarrow> ('h, 'k) HandlerState PacketHandler option list" where
  "barrackHandlers env = map (barrackHandlerOf env) [0..<nat PACKET_TYPE_COUNT]"

end
