(* ===== verification/BarrackInv.thy ===== *)
theory BarrackInv
  imports BarrackHandler
begin

text \<open>
  The barrack of a session is an array of pointers to commanders. The invariant: the array has the size the
  session says, its pointers are null or point to different commanders that exist, and so does the pointer to the
  current commander. Starting the barrack establishes it, and every handler but the two logins keeps it.
\<close>

section \<open>The invariant\<close>

definition ptr_ok :: "('h, 'k) Commanders \<Rightarrow> CommanderPtr \<Rightarrow> bool" where
  "ptr_ok cs p \<longleftrightarrow> p = NullPtr \<or> (\<exists>a c. p = CommanderAt a \<and> cs_commanders cs a = Some c)"

definition slots_ok :: "('h, 'k) Commanders \<Rightarrow> CommanderPtr list \<Rightarrow> bool" where
  "slots_ok cs ps \<longleftrightarrow> (\<forall>p \<in> set ps. ptr_ok cs p)
     \<and> (\<forall>i < length ps. \<forall>j < length ps. ps ! i = ps ! j \<longrightarrow> ps ! i \<noteq> NullPtr \<longrightarrow> i = j)"

definition commanders_ok :: "('h, 'k) Commanders \<Rightarrow> bool" where
  "commanders_ok cs \<longleftrightarrow> (\<forall>a c. cs_commanders cs a = Some c \<longrightarrow> a < cs_next cs)"

definition account_ok :: "('h, 'k) Commanders \<Rightarrow> AccountSession \<Rightarrow> bool" where
  "account_ok cs a \<longleftrightarrow> (\<exists>ps. as_commanders a = Some ps \<and> length ps = as_commandersCountMax a \<and> slots_ok cs ps)"

definition barrack_inv :: "('h, 'k) HandlerState \<Rightarrow> bool" where
  "barrack_inv s \<longleftrightarrow> commanders_ok (hs_commanders s) \<and> account_ok (hs_commanders s) (hs_accountSession s)
     \<and> ptr_ok (hs_commanders s) (se_currentCommander (hs_session s))"

section \<open>Operations on commanders\<close>

lemma ptr_ok_Null [simp]: "ptr_ok cs NullPtr"
  by (simp add: ptr_ok_def)

lemma derefCommander_ok: "ptr_ok cs p \<Longrightarrow> p \<noteq> NullPtr \<Longrightarrow> \<exists>c. derefCommander cs p = Inr c"
  by (auto simp: ptr_ok_def)

lemma derefCommander_Inr: "derefCommander cs p = Inr c \<longleftrightarrow> (\<exists>a. p = CommanderAt a \<and> cs_commanders cs a = Some c)"
  by (cases p) (auto split: option.splits)

lemma writeCommander_Inr:
  "writeCommander cs p c = Inr cs' \<longleftrightarrow>
     (\<exists>a c0. p = CommanderAt a \<and> cs_commanders cs a = Some c0 \<and> cs' = cs \<lparr> cs_commanders := (cs_commanders cs)(a \<mapsto> c) \<rparr>)"
  by (cases p) (auto split: option.splits)

text \<open>Writing an existing commander changes no pointer.\<close>

lemma writeCommander_keeps:
  assumes "writeCommander cs p c = Inr cs'"
  shows "ptr_ok cs' q = ptr_ok cs q" "slots_ok cs' ps = slots_ok cs ps" "commanders_ok cs' = commanders_ok cs"
proof -
  obtain a c0 where w: "p = CommanderAt a" "cs_commanders cs a = Some c0" "cs' = cs \<lparr> cs_commanders := (cs_commanders cs)(a \<mapsto> c) \<rparr>"
    using assms by (auto simp: writeCommander_Inr)
  have ptr: "ptr_ok cs' q = ptr_ok cs q" for q
    using w by (auto simp: ptr_ok_def)
  show "ptr_ok cs' q = ptr_ok cs q" "slots_ok cs' ps = slots_ok cs ps"
    by (simp_all add: ptr slots_ok_def)
  show "commanders_ok cs' = commanders_ok cs"
    using w by (auto simp: commanders_ok_def split: if_splits)
qed

lemma allocCommander_keeps:
  assumes "allocCommander cs c = (p, cs')" "commanders_ok cs"
  shows "commanders_ok cs'" "ptr_ok cs' p" "p \<noteq> NullPtr" "ptr_ok cs q \<Longrightarrow> ptr_ok cs' q" "ptr_ok cs q \<Longrightarrow> q \<noteq> p"
    "derefCommander cs' p = Inr c"
proof -
  have a: "p = CommanderAt (cs_next cs)"
    "cs' = cs \<lparr> cs_commanders := (cs_commanders cs)(cs_next cs \<mapsto> c), cs_next := Suc (cs_next cs) \<rparr>"
    using assms(1) by (simp_all add: allocCommander_def)
  have fresh: "cs_commanders cs b = Some d \<Longrightarrow> b < cs_next cs" for b d
    using assms(2) by (simp add: commanders_ok_def)
  show "commanders_ok cs'"
    using a fresh by (auto simp: commanders_ok_def less_SucI)
  show "ptr_ok cs' p" "p \<noteq> NullPtr" "derefCommander cs' p = Inr c"
    using a by (auto simp: ptr_ok_def)
  show "ptr_ok cs q \<Longrightarrow> ptr_ok cs' q" "ptr_ok cs q \<Longrightarrow> q \<noteq> p"
    using a fresh by (auto simp: ptr_ok_def)
qed

lemma slots_ok_alloc:
  assumes "allocCommander cs c = (p, cs')" "commanders_ok cs" "slots_ok cs ps"
  shows "slots_ok cs' (ps[i := p])"
proof -
  note keeps = allocCommander_keeps [OF assms(1,2)]
  have ok: "\<And>q. q \<in> set ps \<Longrightarrow> ptr_ok cs q"
    using assms(3) by (simp add: slots_ok_def)
  have "j = k" if "j < length ps" "k < length ps" "ps[i := p] ! j = ps[i := p] ! k" "ps[i := p] ! j \<noteq> NullPtr" for j k
  proof (cases "j = i \<or> k = i")
    case True
    then show ?thesis
      using that keeps(5) [OF ok] by (metis nth_list_update_eq nth_list_update_neq nth_mem)
  next
    case False
    then show ?thesis
      using that assms(3) by (simp add: slots_ok_def)
  qed
  moreover have "ptr_ok cs' q" if "q \<in> set (ps[i := p])" for q
    using set_update_subset_insert that keeps(2) keeps(4) [OF ok] by fastforce
  ultimately show ?thesis
    unfolding slots_ok_def length_list_update by blast
qed

lemma slots_ok_clear:
  assumes "slots_ok cs ps" "commanderDestroy cs (ps ! i) = Inr cs'" "i < length ps" "ps ! i \<noteq> NullPtr"
  shows "slots_ok cs' (ps[i := NullPtr])"
proof -
  obtain a where a: "ps ! i = CommanderAt a" "cs' = cs \<lparr> cs_commanders := (cs_commanders cs)(a := None) \<rparr>"
    using assms(2,4) by (auto simp: commanderDestroy_def rbind_eq_Inr_iff split: CommanderPtr.splits)
  have "ptr_ok cs' (ps[i := NullPtr] ! j)" if "j < length ps" for j
  proof (cases "j = i \<or> ps ! j = NullPtr")
    case True
    then show ?thesis
      using that by (cases "j = i") simp_all
  next
    case False
    then have "ps ! j \<noteq> ps ! i"
      using assms(1,3,4) that unfolding slots_ok_def by metis
    moreover have "ptr_ok cs (ps ! j)"
      using assms(1) that by (simp add: slots_ok_def)
    ultimately show ?thesis
      using False a by (auto simp: ptr_ok_def)
  qed
  moreover have "j = k" if "j < length ps" "k < length ps" "ps[i := NullPtr] ! j = ps[i := NullPtr] ! k" "ps[i := NullPtr] ! j \<noteq> NullPtr" for j k
    using that assms(1) by (cases "j = i"; cases "k = i") (auto simp: slots_ok_def)
  ultimately show ?thesis
    unfolding slots_ok_def length_list_update by (auto simp: in_set_conv_nth)
qed

section \<open>Loading the barrack\<close>

lemma commandersInitLoop_ok:
  assumes "commandersInitLoop Z Zs cs ps i n = Inr (ps', cs')" "commanders_ok cs" "slots_ok cs ps"
  shows "commanders_ok cs' \<and> slots_ok cs' ps' \<and> length ps' = length ps \<and> (\<forall>q. ptr_ok cs q \<longrightarrow> ptr_ok cs' q)"
  using assms
proof (induction Z Zs cs ps i n rule: commandersInitLoop.induct)
  case (2 Z Zs cs commanders i n)
  obtain c cs1 where alloc: "allocCommander cs (commanderInit Z Zs) = (c, cs1)"
    by fastforce
  note keeps = allocCommander_keeps [OF alloc 2(3)]
  have "commandersInitLoop Z Zs cs1 (commanders[i := c]) (Suc i) n = Inr (ps', cs')" "\<not> length commanders \<le> i"
    using 2(2) alloc by (auto simp: commanderNew_def split: if_splits)
  then have "commanders_ok cs' \<and> slots_ok cs' ps' \<and> length ps' = length (commanders[i := c]) \<and> (\<forall>q. ptr_ok cs1 q \<longrightarrow> ptr_ok cs' q)"
    using 2(1) [of "(c, cs1)"] alloc keeps(1) slots_ok_alloc [OF alloc 2(3,4)] by (simp add: commanderNew_def)
  then show ?case
    using keeps(4) by simp
qed simp

lemma mySqlGetCommanders_ok:
  assumes "mySqlGetCommanders Z Zs create fn ps i rows cs st actors = Inr (cs', st', actors')"
  shows "commanders_ok cs' = commanders_ok cs \<and> (\<forall>qs. slots_ok cs' qs = slots_ok cs qs) \<and> (\<forall>q. ptr_ok cs' q = ptr_ok cs q)"
  using assms
  by (induction Z Zs create fn ps i rows cs st actors rule: mySqlGetCommanders.induct)
    (auto simp: rbind_eq_Inr_iff writeCommander_keeps split: if_splits)

lemma slots_ok_replicate: "slots_ok cs (replicate n NullPtr)"
  by (simp add: slots_ok_def)

lemma mySqlLoadAccountCommanders_ok:
  assumes "mySqlLoadAccountCommanders Z Zs create sql acc accountId s = Inr (True, acc', n, s')" "commanders_ok (hs_commanders s)"
  shows "commanders_ok (hs_commanders s')" "account_ok (hs_commanders s') acc'" "hs_session s' = hs_session s"
    "ptr_ok (hs_commanders s) q \<Longrightarrow> ptr_ok (hs_commanders s') q"
proof -
  obtain rows ps cs1 st actors cs2 where *: "sql accountId = Some rows"
    "commandersInitLoop Z Zs (hs_commanders s) (replicate COMMANDERS_COUNT_MAX NullPtr) 0 (length rows) = Inr (ps, cs1)"
    "mySqlGetCommanders Z Zs create (c_str (as_familyName acc)) ps 0 rows cs1 (hs_items s) (hs_actors s) = Inr (cs2, st, actors)"
    "acc' = acc \<lparr> as_commandersCountMax := COMMANDERS_COUNT_MAX, as_commanders := Some ps \<rparr>"
    "s' = s \<lparr> hs_commanders := cs2, hs_items := st, hs_actors := actors \<rparr>"
    using assms(1) by (auto simp: mySqlLoadAccountCommanders_def accountSessionCommandersInit_def rbind_eq_Inr_iff Let_def
        split: option.splits)
  note init = commandersInitLoop_ok [OF *(2) assms(2) slots_ok_replicate] and get = mySqlGetCommanders_ok [OF *(3)]
  show "commanders_ok (hs_commanders s')" "hs_session s' = hs_session s" "ptr_ok (hs_commanders s) q \<Longrightarrow> ptr_ok (hs_commanders s') q"
    using init get *(5) by auto
  show "account_ok (hs_commanders s') acc'"
    using init get *(4,5) by (auto simp: account_ok_def)
qed

section \<open>The handlers\<close>

lemmas barrack_inv_simps = barrack_inv_def hs_accountSession_def setAccountSession_def setCurrentCommander_def

lemma checked_Inr:
  "checked n packetSize type s reply body = Inr (st, s', r) \<longleftrightarrow>
     (if checkPacket n packetSize type then body = Inr (st, s', r) else st = PACKET_HANDLER_ERROR \<and> s' = s \<and> r = reply)"
  by (auto simp: checked_def)

lemma accountCommanderAt_Inr:
  "accountCommanderAt a i = Inr p \<longleftrightarrow>
     (\<exists>ps. as_commanders a = Some ps \<and> 0 \<le> i \<and> i < int (length ps) \<and> p = ps ! nat i)"
  by (auto simp: accountCommanderAt_def split: option.splits)

lemma accountCommanderAt_ok:
  assumes "account_ok cs a" "accountCommanderAt a i = Inr p"
  shows "ptr_ok cs p"
proof -
  obtain ps where "as_commanders a = Some ps" "0 \<le> i" "i < int (length ps)" "p = ps ! nat i"
    using assms(2) by (auto simp: accountCommanderAt_Inr)
  then show ?thesis
    using assms(1) by (auto simp: account_ok_def slots_ok_def)
qed

lemma accountSessionGetCommanderByIndex_Inr:
  "accountSessionGetCommanderByIndex a i = Inr (Some p) \<Longrightarrow> accountCommanderAt a i = Inr p \<and> p \<noteq> NullPtr"
  by (auto simp: accountSessionGetCommanderByIndex_def rbind_eq_Inr_iff split: if_splits)

lemma accountSessionIsCommanderSlotEmpty_Inr:
  "accountSessionIsCommanderSlotEmpty a i = Inr True \<Longrightarrow> accountCommanderAt a i = Inr NullPtr"
  by (auto simp: accountSessionIsCommanderSlotEmpty_def rbind_eq_Inr_iff split: if_splits)

lemma barrack_inv_StartBarrack:
  assumes "barrack_inv s" "barrackHandlerStartBarrack env s packet packetSize reply = Inr (st, s', r)"
  shows "barrack_inv s'"
proof -
  obtain ok acc n s1 where load: "mySqlLoadAccountCommanders (be_Z env) (be_Zs env) (be_itemFactoryCreateEquipable env)
      (be_commanders env) (hs_accountSession s) (ss_accountId (se_socket (hs_session s))) s = Inr (ok, acc, n, s1)"
    using assms(2) by (auto simp: barrackHandlerStartBarrack_def rbind_eq_Inr_iff Let_def)
  show ?thesis
  proof (cases ok)
    case True
    have c: "commanders_ok (hs_commanders s)" "ptr_ok (hs_commanders s) (se_currentCommander (hs_session s))"
      using assms(1) by (simp_all add: barrack_inv_def)
    have "s' = setAccountSession acc s1"
      using assms(2) load True by (auto simp: barrackHandlerStartBarrack_def rbind_eq_Inr_iff Let_def)
    then show ?thesis
      using mySqlLoadAccountCommanders_ok [OF load [unfolded eqTrueI [OF True]] c(1)] c(2) by (simp add: barrack_inv_simps)
  next
    case False
    then have "s' = s1" "hs_commanders s1 = hs_commanders s \<and> s1 = s"
      using assms(2) load
      by (auto simp: barrackHandlerStartBarrack_def mySqlLoadAccountCommanders_def rbind_eq_Inr_iff Let_def split: option.splits)
    then show ?thesis
      using assms(1) by simp
  qed
qed

lemma barrack_inv_CheckClientIntegrity:
  assumes "barrack_inv s" "barrackHandlerCheckClientIntegrity env s packet packetSize reply = Inr (st, s', r)"
  shows "barrack_inv s'"
  using assms barrack_inv_StartBarrack [OF assms(1)]
  by (auto simp: barrackHandlerCheckClientIntegrity_def rbind_eq_Inr_iff Let_def split: if_splits)

lemma barrack_inv_account:
  assumes "barrack_inv s" "as_commanders a = as_commanders (hs_accountSession s)"
    "as_commandersCountMax a = as_commandersCountMax (hs_accountSession s)"
  shows "barrack_inv (setAccountSession a s)"
  using assms by (simp add: barrack_inv_simps account_ok_def)

lemma barrack_inv_BarrackNameChange:
  assumes "barrack_inv s" "barrackHandlerBarrackNameChange env s packet packetSize reply = Inr (st, s', r)"
  shows "barrack_inv s'"
proof -
  have "barrack_inv s1" if "barrackNameChange env s packet = Inr (c, st1, s1)" for c st1 s1
    using that assms(1) by (auto simp: barrackNameChange_def rbind_eq_Inr_iff Let_def barrack_inv_account split: if_splits)
  then show ?thesis
    using assms by (auto simp: barrackHandlerBarrackNameChange_def checked_Inr rbind_eq_Inr_iff Let_def split: if_splits)
qed

lemma barrack_inv_CommanderMove:
  assumes "barrack_inv s" "barrackHandlerCommanderMove env s packet packetSize reply = Inr (st, s', r)"
  shows "barrack_inv s'"
proof (cases "s' = s")
  case False
  obtain i p c cs where *: "accountSessionGetCommanderByIndex (hs_accountSession s) i = Inr (Some p)"
    "writeCommander (hs_commanders s) p c = Inr cs" "s' = (setCurrentCommander p s) \<lparr> hs_commanders := cs \<rparr>"
    using assms(2) False
    by (auto simp: barrackHandlerCommanderMove_def checked_Inr rbind_eq_Inr_iff Let_def setCurrentCommander_def split: if_splits option.splits)
  have "ptr_ok (hs_commanders s) p"
    using assms(1) *(1) accountSessionGetCommanderByIndex_Inr accountCommanderAt_ok by (metis barrack_inv_def)
  then show ?thesis
    using assms(1) * writeCommander_keeps [OF *(2)] by (simp add: barrack_inv_simps account_ok_def)
qed (use assms(1) in simp)

lemma barrack_inv_CommanderDestroy:
  assumes "barrack_inv s" "barrackHandlerCommanderDestroy env s packet packetSize reply = Inr (st, s', r)"
  shows "barrack_inv s'"
proof (cases "s' = s")
  case False
  obtain i p cs where *: "accountCommanderAt (hs_accountSession s) i = Inr p" "p \<noteq> NullPtr"
    "commanderDestroy (hs_commanders s) p = Inr cs"
    "s' = setAccountSession ((hs_accountSession s) \<lparr> as_commanders := Some ((the (as_commanders (hs_accountSession s)))[nat i := NullPtr]) \<rparr>)
       ((setCurrentCommander NullPtr s) \<lparr> hs_commanders := cs \<rparr>)"
    using assms(2) False
    by (auto simp: barrackHandlerCommanderDestroy_def checked_Inr rbind_eq_Inr_iff Let_def setCurrentCommander_def hs_accountSession_def
        split: if_splits)
  obtain ps where ps: "as_commanders (hs_accountSession s) = Some ps" "0 \<le> i" "i < int (length ps)" "p = ps ! nat i"
    using *(1) by (auto simp: accountCommanderAt_Inr)
  have "length ps = as_commandersCountMax (hs_accountSession s)" "slots_ok (hs_commanders s) ps" "commanders_ok (hs_commanders s)"
    using assms(1) ps(1) by (auto simp: barrack_inv_def account_ok_def)
  moreover have "commanders_ok cs"
    using *(2,3) \<open>commanders_ok (hs_commanders s)\<close>
    by (auto simp: commanderDestroy_def rbind_eq_Inr_iff commanders_ok_def split: CommanderPtr.splits if_splits)
  ultimately show ?thesis
    using * ps slots_ok_clear [of "hs_commanders s" ps "nat i" cs] by (simp add: barrack_inv_simps account_ok_def)
qed (use assms(1) in simp)

text \<open>What the creation of a commander does, when it returns.\<close>

lemma CommanderCreate_cases:
  assumes "barrackHandlerCommanderCreate env s packet packetSize reply = Inr (st, s', r)"
  obtains (refused) "hs_session s' = hs_session s" "hs_commanders s' = hs_commanders s" "st \<noteq> PACKET_HANDLER_UPDATE_SESSION"
  | (created) i classId nc seed es items actors commander p cs where
      "commanderIndexOf packet = Inr i" "accountCommanderAt (hs_accountSession s) i = Inr NullPtr"
      "commanderCreateCheck packet = Inr (None, classId)"
      "newCommanderOf env (hs_session s) (hs_seed s) classId packet = (nc, seed)"
      "equipDefaults env (hs_items s) (hs_actors s) 0 (defaultEquipment (co_jobId nc)) = Inr (es, items, actors)"
      "mySqlCommanderInsert (be_commanderInsert env) items (nc \<lparr> co_inventory := (co_inventory nc) \<lparr> inv_equippedItems := es \<rparr> \<rparr>)
         = Inr (Some commander)"
      "allocCommander (hs_commanders s) commander = (p, cs)" "st = PACKET_HANDLER_UPDATE_SESSION"
      "s' = setAccountSession
         ((hs_accountSession s) \<lparr> as_commanders := Some ((the (as_commanders (hs_accountSession s)))[nat i := p]) \<rparr>)
         (s \<lparr> hs_seed := seed, hs_items := items, hs_actors := actors, hs_commanders := cs \<rparr>)"
proof -
  obtain i where i: "commanderIndexOf packet = Inr i"
    using assms by (auto simp: barrackHandlerCommanderCreate_def rbind_eq_Inr_iff)
  note run = assms [unfolded barrackHandlerCommanderCreate_def i rbind.simps checked_Inr]
  consider (unchanged) "s' = s" "st \<noteq> PACKET_HANDLER_UPDATE_SESSION"
    | (checked) classId where "checkPacket 82 packetSize CB_COMMANDER_CREATE" "accountSessionIsCommanderSlotEmpty (hs_accountSession s) i = Inr True"
        "commanderCreateCheck packet = Inr (None, classId)"
  proof (cases "s' = s \<and> st \<noteq> PACKET_HANDLER_UPDATE_SESSION")
    case False
    then obtain m c where "checkPacket 82 packetSize CB_COMMANDER_CREATE"
      "accountSessionIsCommanderSlotEmpty (hs_accountSession s) i = Inr True" "commanderCreateCheck packet = Inr (m, c)"
      using run by (auto simp: rbind_eq_Inr_iff split: if_splits)
    moreover have "m = None"
      using run False calculation by (cases m) (auto split: if_splits)
    ultimately show ?thesis
      using that(2) by simp
  qed (use that(1) in simp)
  then show ?thesis
  proof cases
    case unchanged
    then show ?thesis
      using refused by simp
  next
    case checked
    obtain nc seed where nc: "newCommanderOf env (hs_session s) (hs_seed s) classId packet = (nc, seed)"
      by fastforce
    obtain es items actors ins where e: "equipDefaults env (hs_items s) (hs_actors s) 0 (defaultEquipment (co_jobId nc)) = Inr (es, items, actors)"
      "mySqlCommanderInsert (be_commanderInsert env) items (nc \<lparr> co_inventory := (co_inventory nc) \<lparr> inv_equippedItems := es \<rparr> \<rparr>) = Inr ins"
      using run checked nc by (auto simp: rbind_eq_Inr_iff Let_def split: if_splits)
    obtain p cs where a: "allocCommander (hs_commanders s) (the ins) = (p, cs)"
      by fastforce
    show ?thesis
    proof (cases ins)
      case None
      then show ?thesis
        using run checked nc e refused by (auto simp: rbind_eq_Inr_iff Let_def split: if_splits)
    next
      case (Some commander)
      then show ?thesis
        using run checked nc e a created [OF i accountSessionIsCommanderSlotEmpty_Inr [OF checked(2)] checked(3) nc e(1) _ a]
        by (auto simp: rbind_eq_Inr_iff Let_def commanderDup_def hs_accountSession_def split: if_splits)
    qed
  qed
qed

lemma barrack_inv_CommanderCreate:
  assumes "barrack_inv s" "barrackHandlerCommanderCreate env s packet packetSize reply = Inr (st, s', r)"
  shows "barrack_inv s'"
  using assms(2)
proof (cases rule: CommanderCreate_cases)
  case refused
  then show ?thesis
    using assms(1) by (simp add: barrack_inv_simps)
next
  case (created i classId nc seed es items actors commander p cs)
  have inv: "commanders_ok (hs_commanders s)" "account_ok (hs_commanders s) (hs_accountSession s)"
      "ptr_ok (hs_commanders s) (se_currentCommander (hs_session s))"
    using assms(1) by (auto simp: barrack_inv_def)
  then obtain ps where ps: "as_commanders (hs_accountSession s) = Some ps"
    "length ps = as_commandersCountMax (hs_accountSession s)" "slots_ok (hs_commanders s) ps"
    by (auto simp: account_ok_def)
  note keeps = allocCommander_keeps [OF created(7) inv(1)]
  show ?thesis
    using created(9) ps(1,2) keeps(1) keeps(4) [OF inv(3)] slots_ok_alloc [OF created(7) inv(1) ps(3), of "nat i"]
    by (simp add: barrack_inv_simps account_ok_def)
qed

lemma barrack_inv_StartGame:
  assumes "barrack_inv s" "barrackHandlerStartGame env s packet packetSize reply = Inr (st, s', r)"
  shows "barrack_inv s'"
proof (cases "s' = s")
  case False
  obtain i p where "accountCommanderAt (hs_accountSession s) i = Inr p" "s' = setCurrentCommander p s"
    using assms(2) False by (auto simp: barrackHandlerStartGame_def checked_Inr rbind_eq_Inr_iff Let_def split: if_splits)
  then show ?thesis
    using assms(1) accountCommanderAt_ok [of "hs_commanders s" "hs_accountSession s" i p] by (simp add: barrack_inv_simps)
qed (use assms(1) in simp)

end
