(* ===== verification/BarrackProps.thy ===== *)
theory BarrackProps
  imports BarrackInv CommanderWitness
begin

text \<open>
  What the barrack server promises of its handlers: the pointers of a session stay valid, the indices a client
  sends are as good as their bounds, a new commander is the one that was asked for, and what the answers of the
  SQL database are turned into.
\<close>

section \<open>Reachable sessions\<close>

text \<open>A request after the login.\<close>

inductive barrack_step :: "('h, 'k, 'v) BarrackEnv \<Rightarrow> ('h, 'k) HandlerState \<Rightarrow> ('h, 'k) HandlerState \<Rightarrow> bool" for env where
  request: "barrack_step env s s'"
    if "barrackHandlerOf env type = Some handler" "type \<noteq> unat CB_LOGIN" "type \<noteq> unat CB_LOGIN_BY_PASSPORT"
      "handler s packet packetSize reply = Inr (status, s', reply')"

lemma barrack_step_inv:
  assumes "barrack_step env s s'" "barrack_inv s"
  shows "barrack_inv s'"
  using assms(1)
proof (cases rule: barrack_step.cases)
  case (request type handler packet packetSize reply status reply')
  have same: "s' = s" if "barrackHandlerCurrentBarrack env s packet packetSize reply = Inr (status, s', reply')
      \<or> barrackHandlerLogout env s packet packetSize reply = Inr (status, s', reply')"
    using that by (auto simp: barrackHandlerCurrentBarrack_def barrackHandlerLogout_def rbind_eq_Inr_iff Let_def)
  show ?thesis
    using request assms(2) barrack_inv_StartBarrack [OF assms(2)] barrack_inv_CheckClientIntegrity [OF assms(2)]
      barrack_inv_BarrackNameChange [OF assms(2)] barrack_inv_CommanderMove [OF assms(2)]
      barrack_inv_CommanderDestroy [OF assms(2)] barrack_inv_CommanderCreate [OF assms(2)]
      barrack_inv_StartGame [OF assms(2)] same
    by (auto simp: barrackHandlerOf_def split: if_splits)
qed

text \<open>Starting the barrack needs no array of commanders yet.\<close>

lemma barrack_inv_start:
  assumes "commanders_ok (hs_commanders s)" "ptr_ok (hs_commanders s) (se_currentCommander (hs_session s))"
    "barrackHandlerStartBarrack env s packet packetSize reply = Inr (PACKET_HANDLER_UPDATE_SESSION, s', reply')"
  shows "barrack_inv s'"
proof -
  obtain acc n s1 where load: "mySqlLoadAccountCommanders (be_Z env) (be_Zs env) (be_itemFactoryCreateEquipable env)
      (be_commanders env) (hs_accountSession s) (ss_accountId (se_socket (hs_session s))) s = Inr (True, acc, n, s1)"
    and "s' = setAccountSession acc s1"
    using assms(3) by (auto simp: barrackHandlerStartBarrack_def rbind_eq_Inr_iff Let_def split: if_splits)
  then show ?thesis
    using mySqlLoadAccountCommanders_ok [OF load assms(1)] assms(2) by (simp add: barrack_inv_simps)
qed


section \<open>Indices of the client\<close>

lemma account_ok_At:
  assumes "account_ok cs a" "0 \<le> i" "i < int (as_commandersCountMax a)"
  obtains p where "accountCommanderAt a i = Inr p" "ptr_ok cs p"
proof -
  obtain ps where "as_commanders a = Some ps" "length ps = as_commandersCountMax a" "slots_ok cs ps"
    using assms(1) by (auto simp: account_ok_def)
  then show ?thesis
    using that [of "ps ! nat i"] assms(2,3) by (auto simp: accountCommanderAt_def slots_ok_def)
qed

lemma accountCommanderAt_outside:
  assumes "account_ok cs a" "i < 0 \<or> int (as_commandersCountMax a) \<le> i"
  shows "accountCommanderAt a i = Inl OutOfBounds"
  using assms by (auto simp: account_ok_def accountCommanderAt_def)

lemma commanderDestroy_ok: "ptr_ok cs p \<Longrightarrow> \<exists>cs'. commanderDestroy cs p = Inr cs'"
  by (auto simp: ptr_ok_def commanderDestroy_def)

text \<open>C25: Deleting a commander is memory safe exactly for the indices from one to the size of the array of
  commanders. The handler does not check the index: zero and what lies beyond the array is read through
  \<open>commanders[commanderIndex]\<close>.\<close>

theorem barrackHandlerCommanderDestroy_bounds:
  assumes "barrack_inv s" "checkPacket 1 packetSize CB_COMMANDER_DESTROY" "packet = index # rest"
  shows "(\<exists>status s' reply'. barrackHandlerCommanderDestroy env s packet packetSize reply = Inr (status, s', reply'))
      \<longleftrightarrow> 1 \<le> unat index \<and> unat index \<le> as_commandersCountMax (hs_accountSession s)"
    (is "?runs \<longleftrightarrow> ?inside")
proof -
  have inv: "account_ok (hs_commanders s) (hs_accountSession s)"
    using assms(1) by (simp add: barrack_inv_def)
  have index: "commanderIndexOf packet = Inr (uint index - 1)"
    using assms(3) by (simp add: commanderIndexOf_def)
  have nat: "?inside \<longleftrightarrow> 0 \<le> uint index - 1 \<and> uint index - 1 < int (as_commandersCountMax (hs_accountSession s))"
  proof -
    have u: "uint index = int (unat index)"
      by simp
    show ?thesis
      unfolding u by linarith
  qed
  show ?thesis
  proof
    assume ?runs
    then show ?inside
      using accountCommanderAt_outside [OF inv, of "uint index - 1"] assms(2) index nat
      by (auto simp: barrackHandlerCommanderDestroy_def checked_def)
  next
    assume ?inside
    then obtain p where p: "accountCommanderAt (hs_accountSession s) (uint index - 1) = Inr p" "ptr_ok (hs_commanders s) p"
      using account_ok_At [OF inv] nat by blast
    show ?runs
    proof (cases "p = NullPtr")
      case False
      obtain c cs where "derefCommander (hs_commanders s) p = Inr c" "commanderDestroy (hs_commanders s) p = Inr cs"
        using derefCommander_ok [OF p(2) False] commanderDestroy_ok [OF p(2)] by blast
      then show ?thesis
        using p False assms(2) index
        by (simp add: barrackHandlerCommanderDestroy_def checked_def Let_def setCurrentCommander_def)
    qed (use p assms(2) index in \<open>simp add: barrackHandlerCommanderDestroy_def checked_def\<close>)
  qed
qed

section \<open>A new commander\<close>

lemma take_c_str: "take (length (c_str m)) m = c_str m"
  unfolding c_str_def by (metis takeWhile_eq_take)

lemma commanderCreateCheck_None:
  assumes "commanderCreateCheck packet = Inr (None, classId)"
  shows "0 \<in> set (drop 1 packet)" "c_str (drop 1 packet) \<noteq> []" "list_all c_isprint (c_str (drop 1 packet))"
    "commanderClassOf (dec16 (drop 66 packet)) = Some classId" "packet ! 68 \<in> {1, 2}"
proof -
  obtain n job gender where r: "c_strlen (drop 1 packet) = Inr n" "field 66 2 packet = Inr job" "field 68 1 packet = Inr gender"
    using assms by (auto simp: commanderCreateCheck_def rbind_eq_Inr_iff Let_def)
  have n: "0 \<in> set (drop 1 packet)" "n = length (c_str (drop 1 packet))"
    using r(1) by (auto simp: c_strlen_def split: if_splits)
  have len: "69 \<le> length packet" and job: "job = take 2 (drop 66 packet)" and gender: "gender = take 1 (drop 68 packet)"
    using r(2,3) by (auto simp: field_def split: if_splits)
  have g: "hd gender = packet ! 68"
    using len gender by (simp add: hd_drop_conv_nth take_Suc)
  have j: "dec16 job = dec16 (drop 66 packet)"
    using len job by simp
  note check = assms [unfolded commanderCreateCheck_def Let_def r rbind.simps j g]
  show "0 \<in> set (drop 1 packet)"
    by (rule n(1))
  show "c_str (drop 1 packet) \<noteq> []"
    using check n(2) by (auto split: if_splits)
  show "list_all c_isprint (c_str (drop 1 packet))"
    using check n(2) take_c_str [of "drop 1 packet"] by (auto simp: list_all_iff split: if_splits)
  show "commanderClassOf (dec16 (drop 66 packet)) = Some classId" "packet ! 68 \<in> {1, 2}"
    using check by (auto split: if_splits option.splits)
qed

lemma allocCommander_deref:
  assumes "allocCommander cs c = (p, cs')" "commanders_ok cs" "ptr_ok cs q"
  shows "derefCommander cs' q = derefCommander cs q"
  using assms by (auto simp: allocCommander_def ptr_ok_def commanders_ok_def)

lemma newCommanderOf_fields:
  assumes "newCommanderOf env session seed classId packet = (c, seed')"
  shows "co_commanderName c = c_strncpy (COMMANDER_NAME_SIZE + 1) (c_str (drop 1 packet))" "co_classId c = classId"
    "co_jobId c = dec16 (drop 66 packet)" "co_gender c = packet ! 68" "co_accountId c = ss_accountId (se_socket session)"
  using assms by (auto simp: newCommanderOf_def Let_def split: prod.splits)

lemma mySqlCommanderInsert_Some:
  "mySqlCommanderInsert sql st c = Inr (Some c') \<Longrightarrow> \<exists>n. c' = c \<lparr> co_commanderId := n \<rparr>"
  by (auto simp: mySqlCommanderInsert_def rbind_eq_Inr_iff)


section \<open>The name of the barrack\<close>

lemma c_str_take: "c_str (take n m) = take n (c_str m)"
  by (induction m arbitrary: n) (auto simp: c_str_def take_Cons split: nat.splits)

lemma c_str_c_strncpy_c_str: "c_str (c_strncpy n (c_str m)) = take n (c_str m)"
proof -
  have "c_str (c_str m @ replicate n 0) = c_str m"
    using c_is_str_c_str [of m] unfolding c_str_def c_is_str_def
    by (subst takeWhile_append2) (auto simp: takeWhile_eq_Nil_iff)
  then show ?thesis
    by (simp only: c_strncpy_def c_str_take)
qed

lemma change_branch:
  assumes "(if A then Inr (0, st1, s)
    else if (if (x::int) \<noteq> 0 then 1 else 0 :: int) \<noteq> 0 then Inr ((if x \<noteq> 0 then 1 else 0 :: int), st2, s)
    else Inr ((if x \<noteq> 0 then 1 else 0 :: int), st1, s1)) = (Inr (c, st, s') :: 'e + int \<times> 'b \<times> 'c)"
  shows "c = 1 \<and> st = st2 \<and> s' = s \<or> A \<and> c = 0 \<and> st = st1 \<and> s' = s \<or> c = 0 \<and> st = st1 \<and> s' = s1"
  using assms by (auto split: if_split_asm)

text \<open>A change of the name of the barrack ends in \<open>OK\<close> or \<open>ERROR\<close>. With \<open>OK\<close> the session has the new name; with
  \<open>ERROR\<close> it is unchanged. The client is never told that a name is already taken: the answer of the database is
  compared before it is assigned, so that the status is the truth value of the comparison.\<close>

theorem barrackNameChange_status:
  assumes "barrackNameChange env s packet = Inr (changeStatus, status, s')"
  shows "changeStatus \<noteq> BC_BARRACKNAME_CHANGE_ALREADYEXIST
    \<and> (changeStatus = BC_BARRACKNAME_CHANGE_OK \<and> status = PACKET_HANDLER_UPDATE_SESSION
         \<and> c_str (as_familyName (hs_accountSession s')) = take COMMANDER_FAMILY_NAME_SIZE (c_str packet)
       \<or> changeStatus = BC_BARRACKNAME_CHANGE_ERROR \<and> status = PACKET_HANDLER_ERROR \<and> s' = s)"
proof -
  note name = c_str_c_strncpy_c_str [of COMMANDER_FAMILY_NAME_SIZE packet]
  let ?a = "hs_accountSession s"
  let ?answer = "mySqlSetFamilyName (be_setFamilyName env) (be_flag env) (as_accountId ?a) (c_str packet)"
  let ?s1 = "setAccountSession (?a \<lparr> as_familyName := c_strncpy COMMANDER_FAMILY_NAME_SIZE (c_str packet) \<rparr>) s"
  obtain n where "c_strlen packet = Inr n" "field 0 64 packet = Inr (take 64 packet)"
    using assms by (auto simp: barrackNameChange_def rbind_eq_Inr_iff field_def split: if_splits)
  note run = assms [unfolded barrackNameChange_def this rbind.simps Let_def]
  consider "changeStatus = 1" "status = PACKET_HANDLER_ERROR" "s' = s"
    | "take 64 packet = as_familyName ?a" "changeStatus = 0" "status = PACKET_HANDLER_UPDATE_SESSION" "s' = s"
    | "changeStatus = 0" "status = PACKET_HANDLER_UPDATE_SESSION" "s' = ?s1"
  proof (cases "n = 0 \<or> (\<exists>c \<in> set (take n packet). \<not> c_isprint c)")
    case True
    then show ?thesis
      using run that(1) by (auto split: if_split_asm)
  next
    case False
    then have "n \<noteq> 0" "\<not> (\<exists>c \<in> set (take n packet). \<not> c_isprint c)"
      by simp_all
    note run = run [unfolded if_not_P [OF this(1)] if_not_P [OF this(2)]]
    show ?thesis
      using change_branch [OF run] that by blast
  qed
  then show ?thesis
  proof cases
    case 2
    have "c_str (as_familyName ?a) = take 64 (c_str packet)"
      unfolding 2(1) [symmetric] by (rule c_str_take)
    then show ?thesis
      using 2 by simp
  next
    case 3
    then show ?thesis
      using name by (simp add: setAccountSession_def hs_accountSession_def)
  qed simp
qed

section \<open>The login\<close>

text \<open>
  What the SQL server does with a comment: after a literal without special bytes, nothing between \<open>--\<close> and the end
  of the line counts.
\<close>

definition sql_plain :: "bytes \<Rightarrow> bool" where
  "sql_plain x \<longleftrightarrow> list_all (\<lambda>b. b \<notin> {0x27, 0x5C, 0x2D, 0x23, 0x2F, 0x0A}) x"

definition sql_comments :: "(bytes \<Rightarrow> 'r) \<Rightarrow> bool" where
  "sql_comments sql \<longleftrightarrow> (\<forall>a n b c. sql_plain a \<and> sql_plain n \<and> 0x0A \<notin> set b \<and> 0x0A \<notin> set c \<longrightarrow>
     sql (a @ [0x27] @ n @ [0x27] @ strBytes ''-- '' @ b) = sql (a @ [0x27] @ n @ [0x27] @ strBytes ''-- '' @ c))"

text \<open>The beginning of the query, up to the name of the account.\<close>

definition accountQueryHead :: bytes where
  "accountQueryHead = strBytes ''SELECT account_id, is_banned, Unix_Timestamp(time_banned), credits, privilege_level, family_name, barrack_type FROM accounts WHERE account_name = ''"

lemma accountQueryHead_plain: "sql_plain accountQueryHead" "length accountQueryHead \<le> 160"
  by (simp_all add: accountQueryHead_def sql_plain_def strBytes_def)

lemma hexLower_no_newline: "0x0A \<notin> set (hexLower b)" "length (hexLower b) = 2"
proof -
  have "list_all (\<lambda>n. (0x0A :: byte) \<noteq> of_nat (of_char (hexDigit n))) [0..<16]"
    by code_simp
  then have "(0x0A :: byte) \<noteq> of_nat (of_char (hexDigit n))" if "n < 16" for n
    using that by (simp add: list_all_iff)
  moreover have "unat b div 16 < 16"
    using unsigned_less [of b, where ?'a = nat] by simp
  ultimately show "0x0A \<notin> set (hexLower b)" "length (hexLower b) = 2"
    by (auto simp: hexLower_def strBytes_def)
qed

lemma md5BytesToStr_props:
  assumes "md5BytesToStr p = Inr md5"
  shows "0x0A \<notin> set md5" "length md5 = 32"
proof -
  have "md5 = concat (map hexLower (take 16 p))" "16 \<le> length p"
    using assms by (auto simp: md5BytesToStr_def split: if_splits)
  moreover have "length (concat (map hexLower xs)) = 2 * length xs" for xs
    by (induction xs) (simp_all add: hexLower_no_newline)
  ultimately show "0x0A \<notin> set md5" "length md5 = 32"
    by (auto simp: hexLower_no_newline)
qed

lemma accountQuery_injected:
  assumes "length n \<le> 28" "0x0A \<notin> set md5" "length md5 = 32"
  shows "\<exists>b. 0x0A \<notin> set b \<and> accountQuery (n @ [0x27] @ strBytes ''-- '') md5
     = accountQueryHead @ [0x27] @ n @ [0x27] @ strBytes ''-- '' @ b"
proof (intro exI conjI)
  let ?b = "[0x27] @ strBytes '' AND passwd = '' @ [0x27] @ md5 @ [0x27] @ strBytes '' LIMIT 1''"
  show "0x0A \<notin> set ?b"
    using assms(2) by (simp add: strBytes_def)
  have "length (accountQueryHead @ [0x27] @ (n @ [0x27] @ strBytes ''-- '') @ ?b) \<le> 4094"
    using accountQueryHead_plain(2) assms(1,3) by (simp add: strBytes_def)
  then show "accountQuery (n @ [0x27] @ strBytes ''-- '') md5 = accountQueryHead @ [0x27] @ n @ [0x27] @ strBytes ''-- '' @ ?b"
    unfolding accountQuery_def accountQueryHead_def [symmetric] by simp
qed

text \<open>The name of the account is put into the SQL query as it is. With a name that ends in an apostrophe and a
  comment, \<open>CB_LOGIN\<close> has the same result whatever the password: the part of the query that compares it is gone.\<close>

theorem barrackHandlerLogin_ignores_password:
  assumes "sql_comments (be_accounts env)" "sql_plain n" "0 \<notin> set n" "length n \<le> 28"
    "length password1 = 16" "length password2 = 16"
    "name = n @ [0x27] @ strBytes ''-- '' @ replicate (29 - length n) 0"
  shows "barrackHandlerLogin env s (name @ password1 @ rest) 56 reply = barrackHandlerLogin env s (name @ password2 @ rest) 56 reply"
proof -
  let ?name = "n @ [0x27] @ strBytes ''-- ''"
  have len: "length name = 33"
    using assms(4,7) by (simp add: strBytes_def)
  have str: "c_str (name @ p) = ?name" "0 \<in> set (name @ p)" for p
  proof -
    obtain k where k: "name = ?name @ 0 # replicate k 0"
      using assms(4,7) by (cases "29 - length n") auto
    moreover have "\<forall>b \<in> set ?name. b \<noteq> 0"
      using assms(3) by (auto simp: strBytes_def)
    ultimately show "c_str (name @ p) = ?name" "0 \<in> set (name @ p)"
      by (simp_all add: c_str_def takeWhile_append2)
  qed
  have "mySqlGetAccountData (be_accounts env) (name @ password1 @ rest) (drop 33 (name @ password1 @ rest)) a False
      = mySqlGetAccountData (be_accounts env) (name @ password2 @ rest) (drop 33 (name @ password2 @ rest)) a False" for a
  proof -
    obtain m1 m2 where m: "md5BytesToStr (password1 @ rest) = Inr m1" "md5BytesToStr (password2 @ rest) = Inr m2"
      using assms(5,6) by (simp add: md5BytesToStr_def)
    obtain b1 b2 where b: "0x0A \<notin> set b1" "accountQuery ?name m1 = accountQueryHead @ [0x27] @ n @ [0x27] @ strBytes ''-- '' @ b1"
      "0x0A \<notin> set b2" "accountQuery ?name m2 = accountQueryHead @ [0x27] @ n @ [0x27] @ strBytes ''-- '' @ b2"
      using accountQuery_injected [OF assms(4) md5BytesToStr_props [OF m(1)]]
        accountQuery_injected [OF assms(4) md5BytesToStr_props [OF m(2)]] by blast
    have "be_accounts env (accountQuery ?name m1) = be_accounts env (accountQuery ?name m2)"
      unfolding b(2,4) using assms(1,2) accountQueryHead_plain(1) b(1,3) unfolding sql_comments_def by blast
    moreover have "c_strlen (name @ p) = Inr (length ?name)" for p
      unfolding c_strlen_def by (simp only: str if_True)
    moreover have "drop 33 (name @ p) = p" for p
      using len by simp
    ultimately show ?thesis
      unfolding mySqlGetAccountData_def by (simp only: m str rbind.simps)
  qed
  then show ?thesis
    by (simp add: barrackHandlerLogin_def)
qed

end
