(* ===== verification/BarrackWitness.thy ===== *)
theory BarrackWitness
  imports BarrackProps
begin

text \<open>The theorems on the barrack at concrete requests.\<close>

definition exAccount :: AccountSession where
  "exAccount = \<lparr> as_accountName = [97] @ replicate 32 0, as_sessionKey = replicate 11 0, as_privilege = 3, as_accountId = 9,
     as_isBanned = False, as_timeBanned = 0, as_credits = 5, as_timeLastLogin = 0, as_familyName = [70] @ replicate 63 0,
     as_barrackType = 0, as_commanders = Some [NullPtr, CommanderAt 0, NullPtr, NullPtr, NullPtr], as_commandersCountMax = 5 \<rparr>"

definition exHandlerState :: "((string \<times> addr) list, (string \<times> nat) list) HandlerState" where
  "exHandlerState = \<lparr> hs_session = \<lparr> se_socket = socketSessionInit 9 1 0 ''key'' True, se_accountSession = exAccount,
       se_currentCommander = NullPtr \<rparr>,
     hs_commanders = \<lparr> cs_commanders = [0 \<mapsto> commanderInit al_ops al_ops], cs_next = 1 \<rparr>,
     hs_items = \<lparr> st_items = \<lambda>_. None, st_handles = \<lambda>_. None, st_next = 0 \<rparr>, hs_actors = \<lparr> af_id = 3 \<rparr>,
     hs_seed = 7, hs_skillCounter = 0, hs_events = [] \<rparr>"

text \<open>A database that reads the name of the account between the first two apostrophes.\<close>

definition exAccounts :: "bytes \<Rightarrow> AccountRow list option" where
  "exAccounts q =
     (if takeWhile (\<lambda>b. b \<noteq> 0x27) (drop 1 (dropWhile (\<lambda>b. b \<noteq> 0x27) q)) = strBytes ''admin''
      then Some [\<lparr> ar_account_id = 9, ar_is_banned = [0x6E], ar_time_banned = 0, ar_credits = 5, ar_privilege_level = 0,
        ar_family_name = strBytes ''F'', ar_barrack_type = 0 \<rparr>]
      else Some [])"

definition exBarrackEnv :: "((string \<times> addr) list, (string \<times> nat) list, nat) BarrackEnv" where
  "exBarrackEnv = \<lparr> be_Z = al_ops, be_Zs = al_ops, be_accounts = exAccounts, be_commanders = (\<lambda>_. Some []),
     be_setFamilyName = (\<lambda>_ _. True), be_flag = Some [0], be_commanderInsert = (\<lambda>_ _. Some 77), be_commanderDelete = (\<lambda>_. True),
     be_redisUpdateSession = (\<lambda>_. True), be_redisMoveGameSession = (\<lambda>_ _. True),
     be_itemFactoryCreate = (\<lambda>actors _ _. Inr (Some (exWeapon 1 EQSLOT_NOSLOT), actors)),
     be_itemFactoryCreateEquipable = (\<lambda>actors _ _ _. Inr (Some (exWeapon 1 EQSLOT_NOSLOT), actors)),
     be_deflate = Some, be_routerId = 1, be_stackAccount = exAccount \<rparr>"

lemmas ex_barrack_simps = exBarrackEnv_def exHandlerState_def exAccount_def hs_accountSession_def setAccountSession_def
  setCurrentCommander_def

lemma exHandlerState_inv: "barrack_inv exHandlerState"
  by (auto simp: barrack_inv_def ex_barrack_simps commanders_ok_def account_ok_def slots_ok_def ptr_ok_def nth_Cons'
      less_Suc_eq numeral_eq_Suc split: if_splits)

lemma checkPacket_barrack:
  "checkPacket 1 1 CB_COMMANDER_DESTROY" "checkPacket 82 82 CB_COMMANDER_CREATE" "checkPacket 64 64 CB_BARRACKNAME_CHANGE"
  "checkPacket 56 56 CB_LOGIN"
  by (subst checkPacket_fits; simp add: packetTypeInit_entries)+

theorem barrackHandlerCommanderDestroy_bounds_witness:
  "\<not> (\<exists>status s' reply'. barrackHandlerCommanderDestroy exBarrackEnv exHandlerState [0] 1 [] = Inr (status, s', reply'))"
proof -
  have "(\<exists>status s' reply'. barrackHandlerCommanderDestroy exBarrackEnv exHandlerState [0] 1 [] = Inr (status, s', reply'))
      \<longleftrightarrow> 1 \<le> unat (0 :: byte) \<and> unat (0 :: byte) \<le> as_commandersCountMax (hs_accountSession exHandlerState)"
    by (rule barrackHandlerCommanderDestroy_bounds [OF exHandlerState_inv checkPacket_barrack(1) refl])
  then show ?thesis
    by simp
qed

lemma sql_comments_exAccounts: "sql_comments exAccounts"
proof -
  have "takeWhile (\<lambda>b. b \<noteq> 0x27) (drop 1 (dropWhile (\<lambda>b. b \<noteq> 0x27) (a @ [0x27] @ n @ [0x27] @ r))) = n"
    if "sql_plain a" "sql_plain n" for a n r :: bytes
  proof -
    have "\<forall>b \<in> set a. b \<noteq> 0x27" "\<forall>b \<in> set n. b \<noteq> 0x27"
      using that by (auto simp: sql_plain_def list_all_iff)
    then show ?thesis
      by (simp add: dropWhile_append2 takeWhile_append2)
  qed
  then show ?thesis
    by (simp add: sql_comments_def exAccounts_def)
qed

theorem barrackHandlerLogin_ignores_password_witness:
  "barrackHandlerLogin exBarrackEnv exHandlerState
      ((strBytes ''admin'' @ [0x27] @ strBytes ''-- '' @ replicate 24 0) @ replicate 16 1 @ replicate 7 0) 56 []
   = barrackHandlerLogin exBarrackEnv exHandlerState
      ((strBytes ''admin'' @ [0x27] @ strBytes ''-- '' @ replicate 24 0) @ replicate 16 2 @ replicate 7 0) 56 []"
  by (rule barrackHandlerLogin_ignores_password [where n = "strBytes ''admin''"])
    (simp_all add: sql_comments_exAccounts exBarrackEnv_def sql_plain_def strBytes_def)

text \<open>A request for another name of the barrack.\<close>

lemma exName_str: "c_str (strBytes ''New'' @ replicate 61 0) = strBytes ''New''"
proof -
  have "c_str (strBytes ''New'' @ 0 # replicate 60 0) = strBytes ''New''"
    by (simp add: c_str_def strBytes_def)
  then show ?thesis
    by (simp add: numeral_eq_Suc)
qed

lemma exName_change:
  "barrackNameChange exBarrackEnv s (strBytes ''New'' @ replicate 61 0) = Inr (0, PACKET_HANDLER_UPDATE_SESSION,
     if strBytes ''New'' @ replicate 61 0 = as_familyName (hs_accountSession s) then s
     else setAccountSession ((hs_accountSession s) \<lparr> as_familyName := c_strncpy COMMANDER_FAMILY_NAME_SIZE (strBytes ''New'') \<rparr>) s)"
proof -
  have len: "c_strlen (strBytes ''New'' @ replicate 61 0) = Inr 3"
    unfolding c_strlen_def exName_str by (simp add: strBytes_def)
  have "field 0 64 (strBytes ''New'' @ replicate 61 0) = Inr (strBytes ''New'' @ replicate 61 0)"
    by (simp add: field_def strBytes_def)
  moreover have "take 3 (strBytes ''New'' @ replicate 61 0) = strBytes ''New''" "\<not> (\<exists>c \<in> set (strBytes ''New''). \<not> c_isprint c)"
    by (simp_all add: strBytes_def c_isprint_def)
  ultimately show ?thesis
    unfolding barrackNameChange_def exName_str
    by (simp only: len rbind.simps Let_def) (simp add: exBarrackEnv_def mySqlSetFamilyName_def)
qed

theorem barrackNameChange_status_witness:
  "\<exists>s'. barrackNameChange exBarrackEnv exHandlerState (strBytes ''New'' @ replicate 61 0) = Inr (0, PACKET_HANDLER_UPDATE_SESSION, s')
    \<and> c_str (as_familyName (hs_accountSession s')) = take COMMANDER_FAMILY_NAME_SIZE (c_str (strBytes ''New'' @ replicate 61 0))"
  using barrackNameChange_status [OF exName_change [of exHandlerState]] exName_change [of exHandlerState] by auto


text \<open>A request for a female archer \<open>Bob\<close> in the first slot.\<close>

definition exCreate :: bytes where
  "exCreate = [1] @ strBytes ''Bob'' @ replicate 62 0 @ enc16 3001 @ [2] @ replicate 12 0 @ [9]"

lemma exCreate_check: "commanderCreateCheck exCreate = Inr (None, 10003)"
proof -
  have str: "c_str (drop 1 exCreate) = strBytes ''Bob''"
  proof -
    have "c_str (strBytes ''Bob'' @ 0 # replicate 61 0 @ enc16 3001 @ [2] @ replicate 12 0 @ [9]) = strBytes ''Bob''"
      by (simp add: c_str_def strBytes_def)
    moreover have "drop 1 exCreate = strBytes ''Bob'' @ 0 # replicate 61 0 @ enc16 3001 @ [2] @ replicate 12 0 @ [9]"
    proof -
      have "replicate 62 (0 :: byte) = 0 # replicate 61 0"
        by (simp add: numeral_eq_Suc)
      then show ?thesis
        by (simp add: exCreate_def)
    qed
    ultimately show ?thesis
      by (simp only:)
  qed
  have "c_strlen (drop 1 exCreate) = Inr 3"
    unfolding c_strlen_def str by (simp add: exCreate_def strBytes_def)
  moreover have "field 66 2 exCreate = Inr (enc16 3001)" "field 68 1 exCreate = Inr [2]" "take 3 (drop 1 exCreate) = strBytes ''Bob''"
    by (simp_all add: exCreate_def field_def strBytes_def enc16_def)
  moreover have "\<not> (\<exists>c \<in> set (strBytes ''Bob''). \<not> c_isprint c)"
    by (simp add: strBytes_def c_isprint_def)
  ultimately show ?thesis
    unfolding commanderCreateCheck_def Let_def by (simp add: commanderClassOf_def)
qed

lemma exCreate_equip:
  "\<exists>es st n. equipDefaults exBarrackEnv (hs_items exHandlerState) (hs_actors exHandlerState) 0 (defaultEquipment jobId)
     = Inr (es, st, hs_actors exHandlerState) \<and> equipmentIds st es = Inr n"
  by (simp add: defaultEquipment_def exBarrackEnv_def exHandlerState_def allocItem_def writeSlot_def derefItem_def
      exWeapon_def exampleWeapon_def itemEquipable_def itemSetEquipable_def Let_def)


end
