(* ===== verification/Dump.thy ===== *)
theory Dump
  imports CFormat Zmsg
begin

text \<open>
  \<open>dumpToMem\<close> of \<open>src/common/utils/utils.c\<close> and \<open>strGetLine\<close> of \<open>src/common/utils/string.c\<close>: bytes out of the
  text of a log, whose lines are a header that ends in \<open>] > \<close> or \<open>]\<close>, bytes in hexadecimal, a bar and the bytes
  as characters. The packets that the servers do not build themselves are sent out of such texts.
\<close>

abbreviation (input) newline :: char where "newline \<equiv> CHR 0x0A"

section \<open>Lines\<close>

text \<open>The loop with the rest of the text; there is no terminator in \<open>dest\<close> if the line does not fit.\<close>

fun strGetLineLoop :: "nat \<Rightarrow> nat \<Rightarrow> string \<Rightarrow> string \<Rightarrow> string option \<times> nat" where
  "strGetLineLoop maxlen i [] dest = (Some dest, i + 1)"
| "strGetLineLoop maxlen i (c # cs) dest =
     (if maxlen \<le> length dest then (None, i)
      else if c = newline then (Some dest, i + 1)
      else strGetLineLoop maxlen (i + 1) cs (dest @ [c]))"

text \<open>\<open>None\<close> is -1.\<close>

definition strGetLine :: "string \<Rightarrow> nat \<Rightarrow> nat \<Rightarrow> (string option \<times> nat) option" where
  "strGetLine str maxlen pos = (if length str \<le> pos then None else Some (strGetLineLoop maxlen pos (drop pos str) []))"

section \<open>C library\<close>

text \<open>\<open>strstr\<close>: the text from the first occurrence on.\<close>

fun strstr :: "string \<Rightarrow> string \<Rightarrow> string option" where
  "strstr [] needle = (if needle = [] then Some [] else None)"
| "strstr (c # cs) needle = (if take (length needle) (c # cs) = needle then Some (c # cs) else strstr cs needle)"

definition c_isspace :: "char \<Rightarrow> bool" where
  "c_isspace c \<longleftrightarrow> c \<in> {CHR 0x20, CHR 0x09, CHR 0x0A, CHR 0x0B, CHR 0x0C, CHR 0x0D}"

text \<open>
  \<open>strtoul (s, &end, 16)\<close> for text with at most eight digits and no sign or \<open>0x\<close>; the result has the value and
  \<open>end\<close>, \<open>None\<close> if there is no number.
\<close>

definition strtoul16 :: "string \<Rightarrow> (nat \<times> string) option" where
  "strtoul16 s =
     (let s = dropWhile c_isspace s; digits = takeWhile (\<lambda>c. hexValue c \<noteq> None) s in
      if digits = [] then None else Some (hexNumber digits, dropWhile (\<lambda>c. hexValue c \<noteq> None) s))"

lemma strtoul16_shorter: "strtoul16 s = Some (n, r) \<Longrightarrow> length r < length s"
proof -
  assume "strtoul16 s = Some (n, r)"
  then have "takeWhile (\<lambda>c. hexValue c \<noteq> None) (dropWhile c_isspace s) \<noteq> []" "r = dropWhile (\<lambda>c. hexValue c \<noteq> None) (dropWhile c_isspace s)"
    by (auto simp: strtoul16_def Let_def split: if_splits)
  then have "length r < length (dropWhile c_isspace s)"
    by (cases "dropWhile c_isspace s") (auto split: if_splits intro: le_imp_less_Suc length_dropWhile_le)
  then show ?thesis
    using length_dropWhile_le [of c_isspace s] by simp
qed

section \<open>The bytes of a line\<close>

text \<open>The loop up to \<open>end\<close>; the text behind it is cut off by the null byte.\<close>

function dumpOctets :: "string \<Rightarrow> bytes" where
  "dumpOctets s =
     (case strtoul16 s of
        None \<Rightarrow> []
      | Some (octet, newPos) \<Rightarrow> of_nat octet # dumpOctets newPos)"
  by pat_completeness auto
termination
  by (relation "measure length") (auto dest: strtoul16_shorter)

declare dumpOctets.simps [simp del]

definition dumpLine :: "string \<Rightarrow> bytes result" where
  "dumpLine buffer =
     (case (case strstr buffer ''] >  '' of Some s \<Rightarrow> Some (drop 5 s) | None \<Rightarrow> map_option (drop 3) (strstr buffer '']  '')) of
        None \<Rightarrow> Inl NullDeref
      | Some strPos \<Rightarrow>
          (case strstr strPos '' | '' of
             None \<Rightarrow> Inl NullDeref
           | Some end' \<Rightarrow> Inr (dumpOctets (take (length strPos - length end') strPos))))"

abbreviation (input) DUMP_BUFFER :: nat where "DUMP_BUFFER \<equiv> 1000"

lemma strGetLineLoop_pos: "strGetLineLoop maxlen i s dest = (Some b, j) \<Longrightarrow> i < j"
  by (induction maxlen i s dest rule: strGetLineLoop.induct) (auto split: if_splits)

text \<open>The loop over the lines, with the bytes written so far.\<close>

function dumpLoop :: "string \<Rightarrow> nat \<Rightarrow> bytes \<Rightarrow> bytes result" where
  "dumpLoop dump dumpPos mem =
     (case strGetLine dump (DUMP_BUFFER - 1) dumpPos of
        None \<Rightarrow> Inr mem
      | Some (None, _) \<Rightarrow> Inl Uninitialised
      | Some (Some buffer, dumpPos) \<Rightarrow>
          rbind (dumpLine buffer) (\<lambda>octets. dumpLoop dump dumpPos (mem @ octets)))"
  by pat_completeness auto
termination
  by (relation "measure (\<lambda>(dump, pos, _). length dump - pos)")
    (auto simp: strGetLine_def dest!: strGetLineLoop_pos split: if_splits)

declare dumpLoop.simps [simp del]

text \<open>
  With no memory of the caller, the bytes are collected in an array on the stack and copied to the heap. With memory
  of the caller they are written there; the flag \<open>isLocal\<close> is not set then, which only decides what the function
  returns and whether \<open>*memSize\<close> changes.
\<close>

definition dumpToHeap :: "string \<Rightarrow> bytes result" where
  "dumpToHeap dump = rbind (dumpLoop dump 0 []) (\<lambda>mem. if 1000000 < length mem then Inl OutOfBounds else Inr mem)"

definition dumpToMem :: "string \<Rightarrow> bytes \<Rightarrow> bytes result" where
  "dumpToMem dump memory =
     rbind (dumpLoop dump 0 []) (\<lambda>mem. if length memory < length mem then Inl OutOfBounds else Inr (mem_write memory 0 mem))"

section \<open>The format of a dump\<close>

record DumpText =
  dt_header :: string
  dt_bytes :: bytes
  dt_padding :: nat
  dt_ascii :: string

definition hexText :: "bytes \<Rightarrow> string" where
  "hexText bs = concat (map (\<lambda>b. CHR 0x20 # fmtByteHex b) bs)"

definition dumpText :: "DumpText \<Rightarrow> string" where
  "dumpText t = dt_header t @ '']  '' @ fmtByteHex (hd (dt_bytes t)) @ hexText (List.tl (dt_bytes t))
     @ replicate (dt_padding t) (CHR 0x20) @ '' | '' @ dt_ascii t"

definition dumpText_ok :: "DumpText \<Rightarrow> bool" where
  "dumpText_ok t \<longleftrightarrow> dt_bytes t \<noteq> [] \<and> strstr (dt_header t @ '']'') ''] '' = None \<and> strstr (dumpText t) ''] >  '' = None
     \<and> newline \<notin> set (dumpText t) \<and> length (dumpText t) < DUMP_BUFFER - 1"

lemma fmtByteHex_props: "b' \<in> set (fmtByteHex b) \<Longrightarrow> hexValue b' \<noteq> None \<and> \<not> c_isspace b' \<and> b' \<noteq> CHR ''|''"
proof -
  have "list_all (\<lambda>n. hexValue (hexDigitUpper n) \<noteq> None \<and> \<not> c_isspace (hexDigitUpper n) \<and> hexDigitUpper n \<noteq> CHR ''|'') [0..<16]"
    by code_simp
  then have "hexValue (hexDigitUpper n) \<noteq> None \<and> \<not> c_isspace (hexDigitUpper n) \<and> hexDigitUpper n \<noteq> CHR ''|''" if "n < 16" for n
    using that by (simp add: list_all_iff)
  moreover have "unat b div 16 < 16"
    using unsigned_less [of b, where ?'a = nat] by simp
  ultimately show "b' \<in> set (fmtByteHex b) \<Longrightarrow> hexValue b' \<noteq> None \<and> \<not> c_isspace b' \<and> b' \<noteq> CHR ''|''"
    by (auto simp: fmtByteHex_def)
qed

lemma hexNumber_fmtByteHex: "hexNumber (fmtByteHex b) = unat b"
proof -
  have "unat b div 16 < 16"
    using unsigned_less [of b, where ?'a = nat] by simp
  then show ?thesis
    by (simp add: fmtByteHex_def hexNumber_def)
qed

text \<open>Blanks, a byte and something that is no digit.\<close>

lemma strtoul16_hex:
  assumes "r = [] \<or> hexValue (hd r) = None" "list_all c_isspace sp"
  shows "strtoul16 (sp @ fmtByteHex b @ r) = Some (unat b, r)"
proof -
  have digits: "takeWhile (\<lambda>c. hexValue c \<noteq> None) (fmtByteHex b @ r) = fmtByteHex b"
    "dropWhile (\<lambda>c. hexValue c \<noteq> None) (fmtByteHex b @ r) = r"
    using fmtByteHex_props [of _ b] assms(1) by (auto simp: takeWhile_append2 dropWhile_append2 takeWhile_eq_Nil_iff dropWhile_eq_self_iff)
  have "dropWhile c_isspace (sp @ fmtByteHex b @ r) = dropWhile c_isspace (fmtByteHex b @ r)"
    using assms(2) by (intro dropWhile_append2) (auto simp: list_all_iff)
  also have "\<dots> = fmtByteHex b @ r"
    using fmtByteHex_props [of _ b] by (auto simp: fmtByteHex_def)
  finally show ?thesis
    unfolding strtoul16_def Let_def by (simp only: digits hexNumber_fmtByteHex) (simp add: fmtByteHex_def)
qed

lemma hexValue_space: "hexValue (CHR 0x20) = None"
  by code_simp

lemma dumpOctets_hexText: "dumpOctets (hexText bs @ replicate n (CHR 0x20)) = bs"
proof (induction bs)
  case Nil
  have "dropWhile c_isspace (replicate n (CHR 0x20)) = []"
    by (simp add: c_isspace_def)
  then show ?case
    by (subst dumpOctets.simps) (simp add: hexText_def strtoul16_def)
next
  case (Cons b bs)
  have "strtoul16 ([CHR 0x20] @ fmtByteHex b @ (hexText bs @ replicate n (CHR 0x20))) = Some (unat b, hexText bs @ replicate n (CHR 0x20))"
    by (rule strtoul16_hex) (cases bs; cases n; simp add: hexText_def hexValue_space c_isspace_def)+
  then show ?case
    using Cons by (subst dumpOctets.simps) (simp add: hexText_def)
qed

section \<open>Reading the format\<close>

lemma strstr_append: "strstr (h @ [c]) [c, d] = None \<Longrightarrow> strstr (h @ [c, d] @ r) [c, d] = Some ([c, d] @ r)"
proof (induction h)
  case (Cons a h)
  then show ?case
    by (cases h) (auto split: if_splits)
qed simp

text \<open>The bracket that is followed by two blanks.\<close>

lemma strstr_header:
  assumes "strstr (h @ '']'') ''] '' = None"
  shows "strstr (h @ '']  '' @ r) '']  '' = Some ('']  '' @ r)"
  using assms
proof (induction h)
  case (Cons a h)
  then show ?case
    by (cases h) (auto split: if_splits)
qed simp

lemma strstr_bar:
  assumes "CHR ''|'' \<notin> set h"
  shows "strstr (h @ '' | '' @ r) '' | '' = Some ('' | '' @ r)"
  using assms
proof (induction h)
  case (Cons a h)
  then show ?case
    by (cases h) auto
qed simp

lemma dumpLine_text:
  assumes "dumpText_ok t"
  shows "dumpLine (dumpText t) = Inr (dt_bytes t)"
proof -
  obtain b bs where bs: "dt_bytes t = b # bs"
    using assms by (cases "dt_bytes t") (auto simp: dumpText_ok_def)
  let ?hex = "fmtByteHex b @ hexText bs @ replicate (dt_padding t) (CHR 0x20)"
  have form: "dumpText t = dt_header t @ '']  '' @ ?hex @ '' | '' @ dt_ascii t"
    by (simp add: dumpText_def bs)
  have header: "strstr (dumpText t) '']  '' = Some ('']  '' @ ?hex @ '' | '' @ dt_ascii t)" "strstr (dumpText t) ''] >  '' = None"
    using assms strstr_header [of "dt_header t"] unfolding form by (auto simp: dumpText_ok_def form)
  have "CHR ''|'' \<notin> set ?hex"
    using fmtByteHex_props by (auto simp: hexText_def)
  then have bar: "strstr (?hex @ '' | '' @ dt_ascii t) '' | '' = Some ('' | '' @ dt_ascii t)"
    by (rule strstr_bar)
  have "strtoul16 ([] @ ?hex) = Some (unat b, hexText bs @ replicate (dt_padding t) (CHR 0x20))"
    by (rule strtoul16_hex) (cases bs; cases "dt_padding t"; simp add: hexText_def hexValue_space)+
  then have "dumpOctets ?hex = b # bs"
    by (subst dumpOctets.simps) (simp add: dumpOctets_hexText)
  moreover have "drop 3 ('']  '' @ ?hex @ '' | '' @ dt_ascii t) = ?hex @ '' | '' @ dt_ascii t"
    by simp
  moreover have "take (length (?hex @ '' | '' @ dt_ascii t) - length ('' | '' @ dt_ascii t)) (?hex @ '' | '' @ dt_ascii t) = ?hex"
    by simp
  ultimately show ?thesis
    unfolding dumpLine_def header option.case option.map bs by (simp only: bar option.case)
qed

lemma strGetLineLoop_line:
  assumes "newline \<notin> set l" "length dest + length l < maxlen"
  shows "strGetLineLoop maxlen i (l @ newline # cs) dest = (Some (dest @ l), i + length l + 1)"
  using assms by (induction l arbitrary: i dest) auto

lemma strGetLine_line:
  assumes "newline \<notin> set l" "length l < maxlen" "drop pos dump = l @ newline # cs"
  shows "strGetLine dump maxlen pos = Some (Some l, pos + length l + 1)"
proof -
  have "\<not> length dump \<le> pos"
    using assms(3) by auto
  then show ?thesis
    using strGetLineLoop_line [of l "[]" maxlen pos cs] assms by (simp add: strGetLine_def)
qed

definition dumpTexts :: "DumpText list \<Rightarrow> string" where
  "dumpTexts ts = concat (map (\<lambda>t. dumpText t @ [newline]) ts)"

lemma dumpLoop_prefix:
  assumes "list_all dumpText_ok ts" "drop pos dump = dumpTexts ts @ r"
  shows "dumpLoop dump pos mem = dumpLoop dump (pos + length (dumpTexts ts)) (mem @ concat (map dt_bytes ts))"
  using assms
proof (induction ts arbitrary: pos mem)
  case Nil
  then show ?case
    by (simp add: dumpTexts_def)
next
  case (Cons t ts)
  have ok: "dumpText_ok t" "list_all dumpText_ok ts" and rest: "drop pos dump = dumpText t @ newline # dumpTexts ts @ r"
    using Cons.prems by (simp_all add: dumpTexts_def)
  have line: "strGetLine dump (DUMP_BUFFER - 1) pos = Some (Some (dumpText t), pos + length (dumpText t) + 1)"
    using ok(1) by (intro strGetLine_line [OF _ _ rest]) (simp_all add: dumpText_ok_def)
  have "drop (pos + length (dumpText t) + 1) dump = drop (length (dumpText t) + 1) (drop pos dump)"
    by (simp add: add.commute add.left_commute)
  also have "\<dots> = dumpTexts ts @ r"
    unfolding rest by simp
  finally have rest': "drop (pos + length (dumpText t) + 1) dump = dumpTexts ts @ r" .
  show ?case
    unfolding dumpLoop.simps [of dump pos] line using Cons.IH [OF ok(2) rest', of "mem @ dt_bytes t"]
    by (simp add: dumpLine_text [OF ok(1)] dumpTexts_def add.assoc)
qed

lemma dumpLoop_end: "length dump \<le> pos \<Longrightarrow> dumpLoop dump pos mem = Inr mem"
  by (subst dumpLoop.simps) (simp add: strGetLine_def)

lemma dumpLoop_texts:
  assumes "list_all dumpText_ok ts"
  shows "dumpLoop (dumpTexts ts) 0 mem = Inr (mem @ concat (map dt_bytes ts))"
  using dumpLoop_prefix [OF assms, of 0 "dumpTexts ts" "[]" mem] by (simp add: dumpLoop_end)

text \<open>A text without a line feed at its end.\<close>

lemma strGetLineLoop_last:
  assumes "newline \<notin> set l" "length dest + length l < maxlen"
  shows "strGetLineLoop maxlen i l dest = (Some (dest @ l), i + length l + 1)"
  using assms by (induction l arbitrary: i dest) auto

lemma dumpLoop_open:
  assumes "list_all dumpText_ok ts" "dumpText_ok t"
  shows "dumpLoop (dumpTexts ts @ dumpText t) 0 mem = Inr (mem @ concat (map dt_bytes ts) @ dt_bytes t)"
proof -
  let ?dump = "dumpTexts ts @ dumpText t" and ?pos = "length (dumpTexts ts)"
  have "strGetLine ?dump (DUMP_BUFFER - 1) ?pos = Some (Some (dumpText t), ?pos + length (dumpText t) + 1)"
    using assms(2) strGetLineLoop_last [of "dumpText t" "[]" "DUMP_BUFFER - 1" ?pos]
    by (auto simp: strGetLine_def dumpText_ok_def dumpText_def)
  then have "dumpLoop ?dump ?pos m = Inr (m @ dt_bytes t)" for m
    by (subst dumpLoop.simps) (simp add: dumpLine_text [OF assms(2)] dumpLoop_end)
  then show ?thesis
    using dumpLoop_prefix [OF assms(1), of 0 ?dump "dumpText t" mem] by simp
qed

lemma dumpToMem_texts:
  assumes "list_all dumpText_ok ts"
  shows "dumpToMem (dumpTexts ts) memory =
    (if length memory < length (concat (map dt_bytes ts)) then Inl OutOfBounds else Inr (mem_write memory 0 (concat (map dt_bytes ts))))"
  using dumpLoop_texts [OF assms, of "[]"] by (simp add: dumpToMem_def)


lemma dumpToHeap_texts:
  assumes "list_all dumpText_ok ts" "length (concat (map dt_bytes ts)) \<le> 1000000"
  shows "dumpToHeap (dumpTexts ts) = Inr (concat (map dt_bytes ts))"
  using dumpLoop_texts [OF assms(1), of "[]"] assms(2) by (simp add: dumpToHeap_def)

lemma dumpToHeap_open:
  assumes "list_all dumpText_ok ts" "dumpText_ok t" "length (concat (map dt_bytes (ts @ [t]))) \<le> 1000000"
  shows "dumpToHeap (dumpTexts ts @ dumpText t) = Inr (concat (map dt_bytes (ts @ [t])))"
  using dumpLoop_open [OF assms(1,2), of "[]"] assms(3) by (simp add: dumpToHeap_def)

text \<open>A row of a dump.\<close>

definition dumpRow :: "string \<Rightarrow> bytes \<Rightarrow> nat \<Rightarrow> string \<Rightarrow> DumpText" where
  "dumpRow header bs padding ascii = \<lparr> dt_header = header, dt_bytes = bs, dt_padding = padding, dt_ascii = ascii \<rparr>"


end
