(* ===== verification/ZoneDumps.thy ===== *)
theory ZoneDumps
  imports ZoneBuilder Dump
begin

text \<open>
  The builders of \<open>src/zone_server/zone_handler/zone_builder.c\<close> that send a packet captured from another server:
  its bytes come from the text of a log, then some fields are overwritten. A row of a text has its header, its
  bytes, the blanks before the bar and the characters behind it.
\<close>

abbreviation (input) ZC_ABILITY_LIST :: u16 where "ZC_ABILITY_LIST \<equiv> 3210"

section \<open>The texts\<close>

definition dumpHeader1 :: string where
  "dumpHeader1 = ''[11:37:20][           ToSClient:                     dbgBuffer''"

definition dumpHeader2 :: string where
  "dumpHeader2 = ''[11:10:23][           ToSClient:                     dbgBuffer''"

definition dumpHeader3 :: string where
  "dumpHeader3 = ''[03:08:45][main.c:56 in CNetUsr__PacketHandler_1''"

definition dumpHeader4 :: string where
  "dumpHeader4 = ''[03:07:53][main.c:56 in CNetUsr__PacketHandler_1''"

definition dumpHeader5 :: string where
  "dumpHeader5 = ''[11:10:22][           ToSClient:                     dbgBuffer''"

definition dumpHeader6 :: string where
  "dumpHeader6 = ''[03:07:36][main.c:56 in CNetUsr__PacketHandler_1''"

definition dumpHeader7 :: string where
  "dumpHeader7 = ''[03:07:52][main.c:56 in CNetUsr__PacketHandler_1''"

definition dumpHeader8 :: string where
  "dumpHeader8 = ''[03:07:40][main.c:30 in writePacketToFile''"

definition zoneBuilderNormalUnk8Texts :: "DumpText list" where
  "zoneBuilderNormalUnk8Texts =
    [dumpRow dumpHeader1 [0x30, 0x0D, 0xFF, 0xFF, 0xFF, 0xFF, 0x59, 0x00, 0x54, 0x00, 0x00, 0x00, 0x36, 0xF8, 0x01, 0x00] 0 ''0.....Y.T...6...'',
     dumpRow dumpHeader1 [0x11, 0x18, 0x27, 0x00, 0x41, 0x9C, 0x00, 0x00, 0x02, 0x00, 0x00, 0x00, 0xBC, 0xBD, 0xA9, 0xC4] 0 ''..'.A...........'',
     dumpRow dumpHeader1 [0x6A, 0x1F, 0x02, 0x43, 0x57, 0x94, 0x34, 0xC3, 0x4C, 0xEF, 0x2E, 0xB4, 0x00, 0x00, 0x80, 0x3F] 0 ''j..CW.4.L......?'',
     dumpRow dumpHeader1 [0x6A, 0x21, 0x22, 0xB4, 0x00, 0x00, 0xA0, 0x41, 0x1A, 0x74, 0x00, 0x00, 0x01, 0x00, 0x00, 0x00] 0 ''j!.....A.t......'',
     dumpRow dumpHeader1 [0x00, 0x00, 0x00, 0x00, 0x00, 0x00, 0x00, 0x00, 0x00, 0x00, 0x00, 0x00, 0x00, 0x00, 0x00, 0x00] 0 ''................'',
     dumpRow dumpHeader1 [0x00, 0x00, 0x00, 0x00, 0x00, 0x00, 0x00, 0x00, 0x00] 21 ''.........'']"

definition zoneBuilderNormalUnk9Texts :: "DumpText list" where
  "zoneBuilderNormalUnk9Texts =
    [dumpRow dumpHeader2 [0x30, 0x0D, 0x2E, 0xD3, 0x5E, 0x00, 0x1D, 0x00, 0x24, 0x01, 0x00, 0x00, 0x5A, 0x73, 0x01, 0x00] 0 ''0...^...$...Zs..'',
     dumpRow dumpHeader2 [0x00, 0x6E, 0x00, 0x00, 0x00, 0xFF, 0xFF, 0xFF, 0xFF, 0x57, 0x04, 0x00, 0x00] 9 ''.n.......W...'']"

definition zoneBuilderNormalUnk10_56Texts :: "DumpText list" where
  "zoneBuilderNormalUnk10_56Texts =
    [dumpRow dumpHeader3 [0x33, 0x0D, 0xFF, 0xFF, 0xFF, 0xFF, 0x59, 0x00, 0x56, 0x00, 0x00, 0x00, 0x00, 0x00, 0x00, 0x00] 0 ''3.....Y.V.......'',
     dumpRow dumpHeader3 [0x11, 0x18, 0x27, 0x00, 0x41, 0x9C, 0x00, 0x00, 0x01, 0x00, 0x00, 0x00, 0x4F, 0xDB, 0x87, 0xC4] 0 ''....A.......O...'',
     dumpRow dumpHeader3 [0x74, 0x76, 0x82, 0x43, 0x14, 0xF4, 0x07, 0xC4, 0xFF, 0xFF, 0x7F, 0x3F, 0xFF, 0x1F, 0xB5, 0xB9] 0 ''...C............'',
     dumpRow dumpHeader3 [0x96, 0x68, 0x26, 0x35, 0x01, 0x00, 0xA0, 0x41, 0x66, 0x68, 0x01, 0x00, 0x01, 0x00, 0x00, 0x00] 0 ''.h&5............'',
     dumpRow dumpHeader3 [0x00, 0x00, 0x00, 0x00, 0x00, 0x00, 0x00, 0x00, 0x00, 0x00, 0x00, 0x00, 0x00, 0x00, 0x00, 0x00] 0 ''................'',
     dumpRow dumpHeader3 [0x00, 0x00, 0x00, 0x00, 0x00, 0x00, 0x00, 0x00, 0x00] 21 ''.........'']"

definition zoneBuilderNormalUnk11_1cTexts :: "DumpText list" where
  "zoneBuilderNormalUnk11_1cTexts =
    [dumpRow dumpHeader4 [0x33, 0x0D, 0x9F, 0x0E, 0x14, 0x03, 0x39, 0x00, 0x1C, 0x00, 0x00, 0x00, 0x00, 0x00, 0x00, 0x00] 0 ''3.....9......_..'',
     dumpRow dumpHeader4 [0x00, 0xA6, 0x9C, 0x77, 0x04, 0x00, 0x00, 0x00, 0x00, 0x6A, 0xE7, 0x1B, 0xC4, 0x74, 0x76, 0x82] 0 ''...w.....j...tv.'',
     dumpRow dumpHeader4 [0x43, 0xBB, 0x0E, 0x80, 0xC4, 0x00, 0x00, 0x00, 0x80, 0xFE, 0xFF, 0x7F, 0xBF, 0x00, 0x00, 0x00] 0 ''C...............'',
     dumpRow dumpHeader4 [0x00, 0x00, 0x00, 0x00, 0x00, 0x00, 0x00, 0x00, 0x00] 21 ''.........'']"

definition zoneBuilderNormalUnk12_60Texts :: "DumpText list" where
  "zoneBuilderNormalUnk12_60Texts =
    [dumpRow dumpHeader4 [0x33, 0x0D, 0x7A, 0x1A, 0x14, 0x03, 0x14, 0x00, 0x60, 0x00, 0x00, 0x00, 0x27, 0x68, 0x01, 0x00] 0 ''3.....9......_..'',
     dumpRow dumpHeader4 [0x01, 0x00, 0x00, 0x00] 36 ''...w.....j...tv.'']"

definition zoneBuilderNormalUnk13_85Texts :: "DumpText list" where
  "zoneBuilderNormalUnk13_85Texts =
    [dumpRow dumpHeader4 [0x33, 0x0D, 0xA6, 0x13, 0x14, 0x03, 0x19, 0x00, 0x85, 0x00, 0x00, 0x00, 0x27, 0x68, 0x01, 0x00] 0 ''3.....9......_..'',
     dumpRow dumpHeader4 [0x66, 0xEA, 0x00, 0x00, 0x01, 0x00, 0x00, 0x00, 0x00] 21 ''...w.....j...tv.'']"

definition zoneBuilderNormalUnk14_4cTexts :: "DumpText list" where
  "zoneBuilderNormalUnk14_4cTexts =
    [dumpRow dumpHeader4 [0x33, 0x0D, 0xA6, 0x13, 0x14, 0x03, 0x19, 0x00, 0x4C, 0x00, 0x00, 0x00, 0x27, 0x68, 0x01, 0x00] 0 ''3.....9......_..'',
     dumpRow dumpHeader4 [0x66, 0xEA, 0x00, 0x00] 36 ''...w.....j...tv.'']"

definition zoneBuilderPartyListTexts :: "DumpText list" where
  "zoneBuilderPartyListTexts =
    [dumpRow dumpHeader5 [0x82, 0x0C, 0xFF, 0xFF, 0xFF, 0xFF, 0x44, 0x01, 0x00, 0x00, 0x34, 0x54, 0xA3, 0x00, 0x00, 0x00] 0 ''......D...4T....'',
     dumpRow dumpHeader5 [0x00, 0x00, 0x16, 0x00, 0x00, 0x00, 0x13, 0x9D, 0x01, 0x00, 0x34, 0x35, 0x34, 0x31, 0x37, 0x39] 0 ''..........454179'',
     dumpRow dumpHeader5 [0x01, 0x30, 0x36, 0x36, 0x35, 0x30, 0x31, 0x33, 0xD1, 0xA8, 0x01, 0x44, 0x00, 0x00, 0x00, 0x00] 0 ''.0665013...D....'',
     dumpRow dumpHeader5 [0xEA, 0xB5, 0xAC, 0xEC, 0x9B, 0x90, 0xEC, 0x9E, 0x90, 0x00, 0x00, 0x00, 0x00, 0x00, 0x00, 0x00] 0 ''................'',
     dumpRow dumpHeader5 [0x00, 0x00, 0x00, 0x00, 0x00, 0x00, 0x00, 0x00, 0x00, 0x00, 0x00, 0x00, 0x00, 0x00, 0x00, 0x00] 0 ''................'',
     dumpRow dumpHeader5 [0x00, 0x00, 0x00, 0x00, 0x00, 0x00, 0x00, 0x00, 0x00, 0x00, 0x00, 0x00, 0x00, 0x00, 0x00, 0x00] 0 ''................'',
     dumpRow dumpHeader5 [0x00, 0x00, 0x00, 0x00, 0x00, 0x00, 0x00, 0x00, 0x00, 0x00, 0x00, 0x00, 0x00, 0x00, 0x00, 0x00] 0 ''................'',
     dumpRow dumpHeader5 [0xF3, 0xD4, 0x56, 0x00, 0x30, 0x35, 0xE3, 0x13, 0x0B, 0x05, 0x04, 0x00, 0x46, 0xCF, 0x01, 0x00] 0 ''..V.05......F...'',
     dumpRow dumpHeader5 [0xEA, 0xB5, 0xAC, 0xEC, 0x9B, 0x90, 0xEC, 0x9E, 0x90, 0x00, 0x00, 0x00, 0x00, 0x00, 0x00, 0x00] 0 ''................'',
     dumpRow dumpHeader5 [0x00, 0x00, 0x00, 0x00, 0x00, 0x00, 0x00, 0x00, 0x00, 0x00, 0x00, 0x00, 0x00, 0x00, 0x00, 0x00] 0 ''................'',
     dumpRow dumpHeader5 [0x00, 0x00, 0x00, 0x00, 0x00, 0x00, 0x00, 0x00, 0x00, 0x00, 0x00, 0x00, 0x00, 0x00, 0x00, 0x00] 0 ''................'',
     dumpRow dumpHeader5 [0x00, 0x00, 0x00, 0x00, 0x00, 0x00, 0x00, 0x00, 0x00, 0x00, 0x00, 0x00, 0x00, 0x00, 0x00, 0x00] 0 ''................'',
     dumpRow dumpHeader5 [0x43, 0x42, 0x54, 0xEC, 0x9A, 0xA9, 0x00, 0x00, 0x00, 0x00, 0x00, 0x00, 0x00, 0x00, 0x00, 0x00] 0 ''CBT.............'',
     dumpRow dumpHeader5 [0x00, 0x00, 0x00, 0x00, 0x00, 0x00, 0x00, 0x00, 0x00, 0x00, 0x00, 0x00, 0x00, 0x00, 0x00, 0x00] 0 ''................'',
     dumpRow dumpHeader5 [0x00, 0x00, 0x00, 0x00, 0x00, 0x00, 0x00, 0x00, 0x00, 0x00, 0x00, 0x00, 0x00, 0x00, 0x00, 0x00] 0 ''................'',
     dumpRow dumpHeader5 [0x00, 0x00, 0x00, 0x00, 0x00, 0x00, 0x00, 0x00, 0x00, 0x00, 0x00, 0x00, 0x00, 0x00, 0x00, 0x00] 0 ''................'',
     dumpRow dumpHeader5 [0x00, 0xDB, 0x1F, 0x00, 0x0C, 0x00, 0x00, 0x00, 0x01, 0x2E, 0x55, 0x00, 0x45, 0x95, 0x09, 0x00] 0 ''..........U.E...'',
     dumpRow dumpHeader5 [0x4A, 0x00, 0x00, 0x00, 0x00, 0x00, 0xB4, 0xC2, 0x00, 0x40, 0xA2, 0x44, 0x00, 0xD0, 0x0A, 0xC5] 0 (''J........@.D....''),
     dumpRow dumpHeader5 [0xEC, 0x01, 0x00, 0x00, 0x24, 0x04, 0x00, 0x00, 0xEC, 0x01, 0x00, 0x00, 0x24, 0x04, 0x00, 0x00] 0 ''....$.......$...'',
     dumpRow dumpHeader5 [0x12, 0x00, 0x84, 0x1B, 0x00, 0x80, 0x9D, 0x46, 0x76, 0x1B, 0x00, 0x68, 0x97, 0x46, 0x85, 0x1B] 0 ''.......Fv..h.F..'',
     dumpRow dumpHeader5 [0x18, 0x72, 0xBE, 0x49] 36 ''.r.I'']"

definition zoneBuilderPartyInfoTexts :: "DumpText list" where
  "zoneBuilderPartyInfoTexts =
    [dumpRow dumpHeader5 [0x81, 0x0C, 0xFF, 0xFF, 0xFF, 0xFF, 0xA4, 0x00, 0x00, 0x00, 0x34, 0x54, 0xA3, 0x00, 0x00, 0x00] 0 ''..........4T....'',
     dumpRow dumpHeader5 [0x00, 0x00, 0x16, 0x00, 0x00, 0x00, 0x13, 0x9D, 0x01, 0x00, 0x34, 0x35, 0x34, 0x31, 0x37, 0x39] 0 ''..........454179'',
     dumpRow dumpHeader5 [0x39, 0x30, 0x36, 0x36, 0x35, 0x30, 0x31, 0x33, 0x34, 0x00, 0x36, 0x00, 0x36, 0x00, 0x35, 0x00] 0 ''906650134.6.6.5.'',
     dumpRow dumpHeader5 [0x30, 0x00, 0x31, 0x00, 0x33, 0x00, 0x34, 0x00, 0x00, 0x00, 0x00, 0x00, 0x00, 0x00, 0x00, 0x00] 0 ''0.1.3.4.........'',
     dumpRow dumpHeader5 [0x00, 0x00, 0x00, 0x00, 0x00, 0x00, 0x00, 0x00, 0x00, 0x00, 0x00, 0x00, 0x00, 0x00, 0x00, 0x00] 0 ''................'',
     dumpRow dumpHeader5 [0x00, 0x00, 0xD1, 0xA8, 0x01, 0x44, 0x00, 0x00, 0x00, 0x00, 0xEA, 0xB5, 0xAC, 0xEC, 0x9B, 0x90] 0 ''.....D..........'',
     dumpRow dumpHeader5 [0xEC, 0x9E, 0x90, 0x00, 0x00, 0x00, 0x00, 0x00, 0x00, 0x00, 0x00, 0x00, 0x00, 0x00, 0x00, 0x00] 0 ''................'',
     dumpRow dumpHeader5 [0x00, 0x00, 0x00, 0x00, 0x00, 0x00, 0x00, 0x00, 0x00, 0x00, 0x00, 0x00, 0x00, 0x00, 0x00, 0x00] 0 ''................'',
     dumpRow dumpHeader5 [0x00, 0x00, 0x00, 0x00, 0x00, 0x00, 0x00, 0x00, 0x00, 0x00, 0x00, 0x00, 0x00, 0x00, 0x00, 0x00] 0 ''................'',
     dumpRow dumpHeader5 [0x00, 0x00, 0x00, 0x00, 0x00, 0x00, 0x00, 0x00, 0x00, 0x00, 0x00, 0x00, 0x00, 0x00, 0x02, 0x00] 0 ''................'',
     dumpRow dumpHeader5 [0x00, 0x00, 0x00, 0x00] 36 ''....'']"

definition zoneBuilderJobPtsTexts :: "DumpText list" where
  "zoneBuilderJobPtsTexts =
    [dumpRow dumpHeader5 [0x18, 0x0D, 0xFF, 0xFF, 0xFF, 0xFF, 0x04, 0x00, 0x01, 0x00] 18 ''..........'']"

definition zoneBuilderNormalUnk7Texts :: "DumpText list" where
  "zoneBuilderNormalUnk7Texts =
    [dumpRow dumpHeader5 [0x30, 0x0D, 0xFF, 0xFF, 0xFF, 0xFF, 0x25, 0x01, 0xE1, 0x00, 0x00, 0x00, 0x00, 0x16, 0x00, 0x00] 0 ''0.....%.........'',
     dumpRow dumpHeader5 [0x00, 0x13, 0x9D, 0x01, 0x00, 0xD1, 0xA8, 0x01, 0x44, 0x00, 0x00, 0x00, 0x00, 0xD1, 0xA8, 0x01] 0 ''........D.......'',
     dumpRow dumpHeader5 [0x44, 0x00, 0x00, 0x00, 0x00, 0xEA, 0xB5, 0xAC, 0xEC, 0x9B, 0x90, 0xEC, 0x9E, 0x90, 0x00, 0x00] 0 ''D...............'',
     dumpRow dumpHeader5 [0x00, 0x00, 0x00, 0x00, 0x00, 0x00, 0x00, 0x00, 0x00, 0x00, 0x00, 0x00, 0x00, 0x00, 0x00, 0x00] 0 ''................'',
     dumpRow dumpHeader5 [0x00, 0x00, 0x00, 0x00, 0x00, 0x00, 0x00, 0x00, 0x00, 0x00, 0x00, 0x00, 0x00, 0x00, 0x00, 0x00] 0 ''................'',
     dumpRow dumpHeader5 [0x00, 0x00, 0x00, 0x00, 0x00, 0x00, 0x00, 0x00, 0x00, 0x00, 0x00, 0x00, 0x00, 0x00, 0x00, 0x00] 0 ''................'',
     dumpRow dumpHeader5 [0x00, 0x00, 0x00, 0x00, 0x00, 0xF3, 0xD4, 0x56, 0x00, 0x30, 0x35, 0xE3, 0x13, 0xFD, 0x03, 0x09] 0 ''.......V.05.....'',
     dumpRow dumpHeader5 [0xB8, 0x5A, 0x73, 0x01, 0x00, 0xEA, 0xB5, 0xAC, 0xEC, 0x9B, 0x90, 0xEC, 0x9E, 0x90, 0x00, 0x00] 0 ''.Zs.............'',
     dumpRow dumpHeader5 [0x00, 0x00, 0x00, 0x00, 0x00, 0x00, 0x00, 0x00, 0x00, 0x00, 0x00, 0x00, 0x00, 0x00, 0x00, 0x00] 0 ''................'',
     dumpRow dumpHeader5 [0x00, 0x00, 0x00, 0x00, 0x00, 0x00, 0x00, 0x00, 0x00, 0x00, 0x00, 0x00, 0x00, 0x00, 0x00, 0x00] 0 ''................'',
     dumpRow dumpHeader5 [0x00, 0x00, 0x00, 0x00, 0x00, 0x00, 0x00, 0x00, 0x00, 0x00, 0x00, 0x00, 0x00, 0x00, 0x00, 0x00] 0 ''................'',
     dumpRow dumpHeader5 [0x00, 0x00, 0x00, 0x00, 0x00, 0x43, 0x42, 0x54, 0x32, 0x00, 0x00, 0x00, 0x00, 0x00, 0x00, 0x00] 0 ''.....CBT2.......'',
     dumpRow dumpHeader5 [0x00, 0x00, 0x00, 0x00, 0x00, 0x00, 0x00, 0x00, 0x00, 0x00, 0x00, 0x00, 0x00, 0x00, 0x00, 0x00] 0 ''................'',
     dumpRow dumpHeader5 [0x00, 0x00, 0x00, 0x00, 0x00, 0x00, 0x00, 0x00, 0x00, 0x00, 0x00, 0x00, 0x00, 0x00, 0x00, 0x00] 0 ''................'',
     dumpRow dumpHeader5 [0x00, 0x00, 0x00, 0x00, 0x00, 0x00, 0x00, 0x00, 0x00, 0x00, 0x00, 0x00, 0x00, 0x00, 0x00, 0x00] 0 ''................'',
     dumpRow dumpHeader5 [0x00, 0x00, 0x00, 0x00, 0x00, 0x00, 0x00, 0x04, 0x00, 0x01, 0x00, 0x00, 0x00, 0x02, 0x33, 0x56] 0 ''..............3V'',
     dumpRow dumpHeader5 [0x00, 0x00, 0x00, 0x00, 0x00, 0x01, 0x00, 0x00, 0x00, 0x00, 0x00, 0x1D, 0xC4, 0x00, 0x00, 0x82] 0 ''................'',
     dumpRow dumpHeader5 [0x43, 0x00, 0x20, 0x80, 0xC4, 0x69, 0x00, 0x00, 0x00, 0x77, 0x00, 0x00, 0x00, 0x69, 0x00, 0x00] 0 ''C. ..i...w...i..'',
     dumpRow dumpHeader5 [0x00, 0x77, 0x00, 0x00, 0x00] 33 ''.w...'']"

definition zoneBuilderNormalUnk6Texts :: "DumpText list" where
  "zoneBuilderNormalUnk6Texts =
    [dumpRow dumpHeader5 [0x30, 0x0D, 0xFF, 0xFF, 0xFF, 0xFF, 0xE9, 0x00, 0xC9, 0x00, 0x00, 0x00, 0x85, 0x07, 0x00, 0x00] 0 ''0...............'',
     dumpRow dumpHeader5 [0x19, 0x51, 0x00, 0x00, 0x43, 0x22, 0x00, 0x00, 0x1C, 0x08, 0x00, 0x00, 0xFF, 0xFF, 0xFF, 0xFF] 0 ''.Q..C...........'',
     dumpRow dumpHeader5 [0x00, 0x00, 0x00, 0x00, 0x00, 0x00, 0x00, 0x00, 0x00, 0x00, 0x00, 0x00, 0x00, 0x00, 0x00, 0x00] 0 ''................'',
     dumpRow dumpHeader5 [0x00, 0x00, 0x00, 0x00, 0x00, 0x00, 0x00, 0x00, 0x00, 0x00, 0x00, 0x00, 0x00, 0x00, 0x00, 0x00] 0 ''................'',
     dumpRow dumpHeader5 [0x00, 0x00, 0x00, 0x00, 0x00, 0x00, 0x00, 0x00, 0x00, 0x00, 0x00, 0x00, 0x00, 0x00, 0x00, 0x00] 0 ''................'',
     dumpRow dumpHeader5 [0x00, 0x00, 0x00, 0x00, 0x00, 0x00, 0x00, 0x00, 0x01, 0x43, 0x42, 0x54, 0x32, 0x00, 0x00, 0x00] 0 ''.........CBT2...'',
     dumpRow dumpHeader5 [0x00, 0x00, 0x00, 0x00, 0x00, 0x00, 0x00, 0x00, 0x00, 0x00, 0x00, 0x00, 0x00, 0x00, 0x00, 0x00] 0 ''................'',
     dumpRow dumpHeader5 [0x00, 0x00, 0x00, 0x00, 0x00, 0x00, 0x00, 0x00, 0x00, 0x00, 0x00, 0x00, 0x00, 0x00, 0x00, 0x00] 0 ''................'',
     dumpRow dumpHeader5 [0x00, 0x00, 0x00, 0x00, 0x00, 0x00, 0x00, 0x00, 0x00, 0x00, 0x00, 0x00, 0x00, 0x00, 0x00, 0x00] 0 ''................'',
     dumpRow dumpHeader5 [0x00, 0x00, 0x00, 0x00, 0x00, 0x00, 0x00, 0x00, 0x00, 0x00, 0x00, 0x00, 0x00, 0x00, 0x00, 0x00] 0 ''................'',
     dumpRow dumpHeader5 [0x00, 0x00, 0x00, 0x00, 0x00, 0x00, 0x00, 0x00, 0x00, 0x00, 0x00, 0x00, 0x00, 0x00, 0x00, 0x00] 0 ''................'',
     dumpRow dumpHeader5 [0x00, 0x00, 0x00, 0x00, 0x00, 0x00, 0x00, 0x00, 0x00, 0x00, 0x00, 0x00, 0x00, 0x00, 0x00, 0x00] 0 ''................'',
     dumpRow dumpHeader5 [0x00, 0x00, 0x00, 0x00, 0x00, 0x00, 0x00, 0x00, 0x00, 0x00, 0x00, 0x00, 0x00, 0x00, 0x00, 0x00] 0 ''................'',
     dumpRow dumpHeader5 [0x00, 0x00, 0x00, 0x00, 0x00, 0x00, 0x00, 0x00, 0x00, 0x00, 0x20, 0x04, 0x00, 0x00, 0x00, 0x00] 0 ''.......... .....'',
     dumpRow dumpHeader5 [0x00, 0x02, 0x33, 0x00, 0x00, 0x00, 0x00, 0x00, 0x00] 21 ''..3......'']"

definition zoneBuilderFactionTexts :: "DumpText list" where
  "zoneBuilderFactionTexts =
    [dumpRow dumpHeader5 [0x6B, 0x0D, 0xFF, 0xFF, 0xFF, 0xFF, 0x48, 0x01, 0x00, 0x00, 0xCE, 0x18, 0x27, 0x00] 6 ''k.....H.....'.'']"

definition zoneBuilderEnterMonsterTexts :: "DumpText list" where
  "zoneBuilderEnterMonsterTexts =
    [dumpRow dumpHeader6 [0xBF, 0x0B, 0xFF, 0xFF, 0xFF, 0xFF, 0x84, 0x00, 0x48, 0x01, 0x00, 0x00, 0x00, 0x40, 0x23, 0xC4] 0 (''........H....@#.''),
     dumpRow dumpHeader6 [0xA7, 0x69, 0x82, 0x43, 0x00, 0x40, 0x6E, 0xC4, 0x46, 0x0B, 0x51, 0x32, 0x00, 0x00, 0x80, 0xBF] 0 (''.i.C.@n.F.Q2....''),
     dumpRow dumpHeader6 [0x02, 0x00, 0x21, 0x00, 0x00, 0x00, 0x21, 0x00, 0x00, 0x00, 0x00, 0x00, 0x00, 0x00, 0x00, 0x00] 0 ''..!...!.........'',
     dumpRow dumpHeader6 [0x30, 0x4E, 0x00, 0x00, 0x58, 0x02, 0x00, 0x00, 0x21, 0x00, 0x00, 0x00, 0x00, 0x00, 0x69, 0x6F] 0 ''0N..X...!.....io'',
     dumpRow dumpHeader6 [0x01, 0x00, 0x00, 0x00, 0x00, 0x00, 0x80, 0x3F, 0x00, 0x00, 0x00, 0x00, 0x08, 0x00, 0x00, 0x00] 0 ''.......?........'',
     dumpRow dumpHeader6 [0x28, 0x00, 0x00, 0x00, 0x06, 0x00, 0x0A, 0x00, 0xEA, 0xB2, 0xBD, 0xEA, 0xB3, 0x84, 0xEB, 0xB3] 0 ''................'',
     dumpRow dumpHeader6 [0x91, 0x00, 0x01, 0x00, 0x00, 0x11, 0x00, 0x53, 0x49, 0x41, 0x55, 0x5F, 0x46, 0x52, 0x4F, 0x4E] 0 ''.......SIAU_FRON'',
     dumpRow dumpHeader6 [0x5F, 0x4E, 0x50, 0x43, 0x5F, 0x30, 0x31, 0x00, 0x01, 0x00, 0x00, 0x01, 0x00, 0x00, 0x07, 0x00] 0 ''_NPC_01.........'',
     dumpRow dumpHeader6 [0x00, 0x00, 0xA0, 0x42] 36 ''...B'']"

definition zoneBuilderSkillAddTexts :: "DumpText list" where
  "zoneBuilderSkillAddTexts =
    [dumpRow dumpHeader7 [0x34, 0x0C, 0xFF, 0xFF, 0xFF, 0xFF, 0xA2, 0x00, 0x01, 0x01, 0x00, 0x00, 0x00, 0x00, 0x00, 0x00] 0 ''4...............'',
     dumpRow dumpHeader7 [0x00, 0x00, 0x8F, 0x72, 0x07, 0x00, 0x46, 0x01, 0x00, 0x00, 0xAA, 0x9C, 0x00, 0x00, 0x78, 0x00] 0 ''...r..F...A...x.'',
     dumpRow dumpHeader7 [0xCC, 0xD1, 0x00, 0x00, 0x00, 0x00, 0x54, 0x49, 0x34, 0xD0, 0xBF, 0x0F, 0x00, 0x00, 0x80, 0x3F] 0 ''......TI4......?'',
     dumpRow dumpHeader7 [0xB4, 0x0F, 0x00, 0xE0, 0xAB, 0x46, 0xB8, 0x0F, 0x00, 0x00, 0x00, 0x00, 0xB7, 0x0F, 0x00, 0x00] 0 ''.....F..........'',
     dumpRow dumpHeader7 [0xC8, 0x42, 0xB5, 0x0F, 0x00, 0x00, 0x00, 0x00, 0xBE, 0x0F, 0x00, 0x00, 0x60, 0x41, 0x09, 0x10] 0 ''.B...........A..'',
     dumpRow dumpHeader7 [0x00, 0x00, 0x40, 0x41, 0x33, 0x10, 0x00, 0x00, 0x00, 0x00, 0x3D, 0x10, 0x00, 0x00, 0x80, 0x40] 0 ''...A3.....=.....'',
     dumpRow dumpHeader7 [0xE4, 0x0F, 0x00, 0x00, 0x7A, 0x43, 0xDE, 0x0F, 0x00, 0x00, 0x80, 0x3F, 0x41, 0x10, 0x00, 0x00] 0 ''....zC......A...'',
     dumpRow dumpHeader7 [0x00, 0x00, 0x16, 0x10, 0x00, 0x00, 0x00, 0x00, 0x06, 0x10, 0x00, 0x00, 0xC8, 0x42, 0x58, 0x10] 0 ''.............BX.'',
     dumpRow dumpHeader7 [0x00, 0x00, 0x00, 0x00, 0xCB, 0x0F, 0x00, 0x00, 0x00, 0x00, 0x57, 0x10, 0x00, 0x00, 0x80, 0x3F] 0 ''..........W.....'',
     dumpRow dumpHeader7 [0xDA, 0x0F, 0x00, 0x00, 0x1C, 0x42, 0x59, 0x10, 0x00, 0x40, 0x9C, 0x45, 0x5A, 0x10, 0x00, 0x00] 0 (''.....BY..@.EZ...''),
     dumpRow dumpHeader7 [0x80, 0x3F] 42 ''..'']"

definition zoneBuilderBuffListTexts :: "DumpText list" where
  "zoneBuilderBuffListTexts =
    [dumpRow dumpHeader5 [0xE2, 0x0B, 0xFF, 0xFF, 0xFF, 0xFF, 0x0D, 0x00, 0x5A, 0x73, 0x01, 0x00, 0x00] 9 ''........Zs...'']"

definition zoneBuilderAddonMsgTexts :: "DumpText list" where
  "zoneBuilderAddonMsgTexts =
    [dumpRow dumpHeader2 [0x4F, 0x0C, 0xFF, 0xFF, 0xFF, 0xFF, 0x1F, 0x00, 0x11, 0x00, 0x00, 0x00, 0x00, 0x00, 0x4B, 0x45] 0 ''O.............KE'',
     dumpRow dumpHeader2 [0x59, 0x42, 0x4F, 0x41, 0x52, 0x44, 0x5F, 0x54, 0x55, 0x54, 0x4F, 0x52, 0x49, 0x41, 0x4C] 3 ''YBOARD_TUTORIAL'']"

definition zoneBuilderNormalUnk5Texts :: "DumpText list" where
  "zoneBuilderNormalUnk5Texts =
    [dumpRow dumpHeader6 [0x33, 0x0D, 0xFF, 0xFF, 0xFF, 0xFF, 0x1D, 0x00, 0x21, 0x01, 0x00, 0x00, 0x8D, 0xFA, 0x0D, 0x00] 0 ''3.......!.......'',
     dumpRow dumpHeader6 [0x7B, 0xA7, 0xCA, 0xC0, 0x60, 0xC3, 0xC8, 0xC0, 0x00, 0x44, 0x20, 0x00, 0x00] 9 ''{...`....D ..'']"

definition zoneBuilderNormalUnk4Texts :: "DumpText list" where
  "zoneBuilderNormalUnk4Texts =
    [dumpRow dumpHeader6 [0x33, 0x0D, 0xFF, 0xFF, 0xFF, 0xFF, 0x2C, 0x00, 0xE6, 0x00, 0x00, 0x00, 0xEE, 0x25, 0x00, 0x00] 0 ''3.....,......%..'',
     dumpRow dumpHeader6 [0x3C, 0x01, 0x00, 0x00, 0x01, 0x00, 0x00, 0x00, 0x01, 0x00, 0x00, 0x00, 0xA1, 0x0F, 0x01, 0x00] 0 ''<...............'',
     dumpRow dumpHeader6 [0x00, 0x00, 0x00, 0x00, 0x80, 0x1D, 0x61, 0x60, 0xE7, 0xD2, 0xD0, 0x01] 12 ''......a`....'']"

definition zoneBuilderNormalUnk3Texts :: "DumpText list" where
  "zoneBuilderNormalUnk3Texts =
    [dumpRow dumpHeader6 [0x33, 0x0D, 0xFF, 0xFF, 0xFF, 0xFF, 0x10, 0x00, 0xD9, 0x00, 0x00, 0x00, 0x00, 0x00, 0x00, 0x00] 0 ''3...............'']"

definition zoneBuilderNormalUnk2Texts :: "DumpText list" where
  "zoneBuilderNormalUnk2Texts =
    [dumpRow dumpHeader6 [0x33, 0x0D, 0xFF, 0xFF, 0xFF, 0xFF, 0x18, 0x00, 0xCA, 0x00, 0x00, 0x00, 0xEE, 0x25, 0x00, 0x00] 0 ''3............%..'',
     dumpRow dumpHeader6 [0x3C, 0x01, 0x00, 0x00, 0x00, 0x00, 0x00, 0x00] 24 ''<.......'']"

definition zoneBuilderNormalUnk1Texts :: "DumpText list" where
  "zoneBuilderNormalUnk1Texts =
    [dumpRow dumpHeader6 [0x33, 0x0D, 0xFF, 0xFF, 0xFF, 0xFF, 0x11, 0x00, 0x97, 0x00, 0x00, 0x00, 0x00, 0x00, 0x00, 0x00] 0 ''3...............'',
     dumpRow dumpHeader6 [0x00] 45 ''.'']"

definition zoneBuilderAbilityListTexts :: "DumpText list" where
  "zoneBuilderAbilityListTexts =
    [dumpRow dumpHeader6 [0x35, 0x0C, 0xFF, 0xFF, 0xFF, 0xFF, 0x0E, 0x00, 0xA6, 0x5F, 0x0B, 0x00, 0x00, 0x00] 6 ''5........_....'']"

definition zoneBuilderSkillListTexts :: "DumpText list" where
  "zoneBuilderSkillListTexts =
    [dumpRow dumpHeader8 [0x33, 0x0C, 0xFF, 0xFF, 0xFF, 0xFF, 0xD2, 0x00, 0xA6, 0x5F, 0x0B, 0x00, 0x07, 0x00, 0x8D, 0xFA] 0 '''',
     dumpRow dumpHeader8 [0xC0, 0x00, 0x63, 0x60, 0x80, 0x80, 0x54, 0x20, 0x55, 0x01, 0x65, 0x83, 0xA8, 0xFD, 0xFC, 0x0C] 0 '''',
     dumpRow dumpHeader8 [0x0C, 0x0D, 0xF6, 0x5B, 0xF8, 0x19, 0x12, 0x5E, 0xB9, 0xED, 0x00, 0xB2, 0x19, 0x18, 0xB6, 0x03] 0 '''',
     dumpRow dumpHeader8 [0xC9, 0x13, 0x4E, 0x5B, 0xC1, 0xEC, 0x7D, 0x20, 0x59, 0x07, 0x4E, 0x01, 0x90, 0xB8, 0xB1, 0x00] 0 '''',
     dumpRow dumpHeader8 [0x43, 0x83, 0xB5, 0xAB, 0x2D, 0x90, 0xED, 0xE0, 0xF0, 0x04, 0x2C, 0x7B, 0x0F, 0x24, 0x6B, 0xEF] 0 '''',
     dumpRow dumpHeader8 [0x08, 0x96, 0x15, 0x03, 0x93, 0x6C, 0x40, 0xF2, 0x84, 0x53, 0x04, 0x98, 0x7D, 0x1A, 0xAC, 0x26] 0 '''',
     dumpRow dumpHeader8 [0x1C, 0xCC, 0xBE, 0x05, 0x66, 0x47, 0x82, 0xD9, 0x51, 0x40, 0xB2, 0xC1, 0x9E, 0x01, 0x0A, 0x32] 0 '''',
     dumpRow dumpHeader8 [0x81, 0x34, 0x56, 0xF7, 0x00, 0xC5, 0x09, 0xBA, 0x87, 0xA1, 0xCA, 0x85, 0xDA, 0xEE, 0xC9, 0xA1] 0 '''',
     dumpRow dumpHeader8 [0xC8, 0x3D, 0x0C, 0x0C, 0xD4, 0x76, 0x4F, 0x3A, 0x2E, 0xF7, 0x24, 0x64, 0xB9, 0x13, 0x0C, 0x1F] 0 '''',
     dumpRow dumpHeader8 [0x07, 0x19, 0x37, 0x6A, 0xBB, 0x47, 0x04, 0x97, 0x7B, 0xB0, 0xC4, 0xD7, 0x03, 0x47, 0x50, 0xFA] 0 '''',
     dumpRow dumpHeader8 [0x49, 0x70, 0x84, 0xA7, 0x1F, 0xA0, 0x1A, 0xD2, 0xDC, 0xF3, 0xC1, 0x91, 0x50, 0xFA, 0x61, 0xC6] 0 '''',
     dumpRow dumpHeader8 [0xE9, 0x9E, 0x69, 0xCE, 0xE8, 0xE1, 0xC3, 0xE3, 0x44, 0xA9, 0x7B, 0x78, 0x9C, 0x08, 0xB9, 0x27] 0 '''',
     dumpRow dumpHeader8 [0x05, 0xA7, 0x7B, 0x30, 0xD3, 0xB3, 0x02, 0xD8, 0x3D, 0x07, 0x28, 0x08, 0x9F, 0x13, 0x38, 0xC3] 0 '''',
     dumpRow dumpHeader8 [0x07, 0x00] 42 '''']"

definition zoneBuilderHelpListTexts :: "DumpText list" where
  "zoneBuilderHelpListTexts =
    [dumpRow dumpHeader6 [0x47, 0x0D, 0xFF, 0xFF, 0xFF, 0xFF, 0x48, 0x00, 0x0C, 0x00, 0x00, 0x00, 0x01, 0x00, 0x00, 0x00] 0 ''G.....H.........'',
     dumpRow dumpHeader6 [0x00, 0x02, 0x00, 0x00, 0x00, 0x00, 0x03, 0x00, 0x00, 0x00, 0x00, 0x04, 0x00, 0x00, 0x00, 0x00] 0 ''................'',
     dumpRow dumpHeader6 [0x09, 0x00, 0x00, 0x00, 0x00, 0x0A, 0x00, 0x00, 0x00, 0x00, 0x0E, 0x00, 0x00, 0x00, 0x00, 0x0F] 0 ''................'',
     dumpRow dumpHeader6 [0x00, 0x00, 0x00, 0x00, 0x1A, 0x00, 0x00, 0x00, 0x00, 0x1C, 0x00, 0x00, 0x00, 0x00, 0x27, 0x00] 0 ''..............'.'',
     dumpRow dumpHeader6 [0x00, 0x00, 0x00, 0x28, 0x00, 0x00, 0x00, 0x00] 24 ''...(....'']"

definition zoneBuilderSessionObjectsTexts :: "DumpText list" where
  "zoneBuilderSessionObjectsTexts =
    [dumpRow dumpHeader6 [0x2B, 0x0C, 0xFF, 0xFF, 0xFF, 0xFF, 0x12, 0x00, 0x00, 0x00, 0x00, 0x00, 0x8D, 0xFA, 0x02, 0x00] 0 ''+...............'',
     dumpRow dumpHeader6 [0x03, 0x00] 42 ''..'']"

section \<open>The builders\<close>

text \<open>A structure of \<open>n\<close> bytes that is filled from the text, and a frame as long as the bytes of the text.\<close>

definition buildDump :: "string \<Rightarrow> nat \<Rightarrow> (bytes \<Rightarrow> bytes) \<Rightarrow> bytes list \<Rightarrow> bytes list result" where
  "buildDump dump n assign replyMsg =
     rbind (dumpToMem dump (replicate n 0)) (\<lambda>replyPacket. Inr (zmsg_add replyMsg (assign replyPacket)))"

definition addDump :: "string \<Rightarrow> (bytes \<Rightarrow> bytes) \<Rightarrow> bytes list \<Rightarrow> bytes list result" where
  "addDump dump assign replyMsg =
     rbind (dumpToHeap dump) (\<lambda>mem. Inr (zmsg_add replyMsg (assign mem)))"

lemmas dump_builder_defs = buildDump_def addDump_def

definition zoneBuilderNormalUnk8 :: "u32 \<Rightarrow> bytes list \<Rightarrow> bytes list result" where
  "zoneBuilderNormalUnk8 targetPcId replyMsg =
     buildDump (dumpTexts zoneBuilderNormalUnk8Texts) 89
       (\<lambda>m. mem_write m 12 (enc32 targetPcId)) replyMsg"

definition zoneBuilderNormalUnk9 :: "u32 \<Rightarrow> bytes list \<Rightarrow> bytes list result" where
  "zoneBuilderNormalUnk9 targetPcId replyMsg =
     buildDump (dumpTexts zoneBuilderNormalUnk9Texts) 29
       (\<lambda>m. mem_write m 12 (enc32 targetPcId)) replyMsg"

definition zoneBuilderNormalUnk10_56 :: "u32 \<Rightarrow> u32 \<Rightarrow> PositionXYZ \<Rightarrow> PositionXZ \<Rightarrow> bool \<Rightarrow> bytes list \<Rightarrow> bytes list result" where
  "zoneBuilderNormalUnk10_56 targetPcId skillId position direction enableSkill replyMsg =
     buildDump (dumpTexts zoneBuilderNormalUnk10_56Texts) 89
       (\<lambda>m. let m = mem_write m 12 (enc32 targetPcId);
          m = mem_write m 16 (enc32 (SWAP_UINT32 0x81202700));
          m = mem_write m 20 (enc32 skillId);
          m = mem_write m 24 (enc32 1);
          m = mem_write m 28 (encXYZ position);
          m = mem_write m 40 (encXZ direction);
          m = mem_write m 48 (enc32 0);
          m = mem_write m 52 (enc32 (SWAP_UINT32 0x0000A041));
          m = mem_write m 56 (enc32 (SWAP_UINT32 0x21680100)) in
        if enableSkill then mem_write m 60 [1] else mem_write (mem_write m 60 [0]) 61 (enc32 1)) replyMsg"

definition zoneBuilderNormalUnk11_1c :: "u32 \<Rightarrow> PositionXYZ \<Rightarrow> PositionXZ \<Rightarrow> bytes list \<Rightarrow> bytes list result" where
  "zoneBuilderNormalUnk11_1c targetPcId position direction replyMsg =
     buildDump (dumpTexts zoneBuilderNormalUnk11_1cTexts) 57
       (\<lambda>m. let m = mem_write m 12 (enc32 targetPcId);
          m = mem_write m 16 [0];
          m = mem_write m 17 (enc32 (SWAP_UINT32 0xA69C7704));
          m = mem_write m 21 (enc32 0);
          m = mem_write m 25 (encXYZ position);
          m = mem_write m 37 (encXZ direction);
          m = mem_write m 45 (enc32 0);
          m = mem_write m 49 (enc32 0) in
        mem_write m 53 (enc32 1)) replyMsg"

definition zoneBuilderNormalUnk12_60 :: "u64 \<Rightarrow> bytes list \<Rightarrow> bytes list result" where
  "zoneBuilderNormalUnk12_60 actorId replyMsg =
     buildDump (dumpTexts zoneBuilderNormalUnk12_60Texts) 20
       (\<lambda>m. let m = mem_write m 12 (enc32 (ucast actorId)) in
        mem_write m 16 (enc32 1)) replyMsg"

definition zoneBuilderNormalUnk13_85 :: "u64 \<Rightarrow> bytes list \<Rightarrow> bytes list result" where
  "zoneBuilderNormalUnk13_85 actorId replyMsg =
     buildDump (dumpTexts zoneBuilderNormalUnk13_85Texts) 29
       (\<lambda>m. let m = mem_write m 12 (enc64 actorId);
          m = mem_write m 20 (enc32 (SWAP_UINT32 0x66EA0000));
          m = mem_write m 24 (enc32 1) in
        mem_write m 28 [0]) replyMsg"

definition zoneBuilderNormalUnk14_4c :: "u32 \<Rightarrow> u32 \<Rightarrow> bytes list \<Rightarrow> bytes list result" where
  "zoneBuilderNormalUnk14_4c pcId skillId replyMsg =
     buildDump (dumpTexts zoneBuilderNormalUnk14_4cTexts) 20
       (\<lambda>m. let m = mem_write m 12 (enc32 pcId) in
        mem_write m 16 (enc32 skillId)) replyMsg"

definition zoneBuilderPartyList :: "bytes list \<Rightarrow> bytes list result" where
  "zoneBuilderPartyList replyMsg =
     addDump (dumpTexts zoneBuilderPartyListTexts)
       (\<lambda>m. m) replyMsg"

definition zoneBuilderPartyInfo :: "bytes list \<Rightarrow> bytes list result" where
  "zoneBuilderPartyInfo replyMsg =
     addDump (dumpTexts zoneBuilderPartyInfoTexts)
       (\<lambda>m. m) replyMsg"

definition zoneBuilderJobPts :: "bytes list \<Rightarrow> bytes list result" where
  "zoneBuilderJobPts replyMsg =
     addDump (dumpTexts (butlast zoneBuilderJobPtsTexts) @ dumpText (List.last zoneBuilderJobPtsTexts))
       (\<lambda>m. m) replyMsg"

definition zoneBuilderNormalUnk7 :: "u64 \<Rightarrow> u32 \<Rightarrow> bytes \<Rightarrow> bytes \<Rightarrow> bytes list \<Rightarrow> bytes list result" where
  "zoneBuilderNormalUnk7 accountId targetPcId familyName commanderName replyMsg =
     buildDump (dumpTexts zoneBuilderNormalUnk7Texts) 0
       (\<lambda>m. m) replyMsg"

definition zoneBuilderNormalUnk6 :: "bytes \<Rightarrow> bytes list \<Rightarrow> bytes list result" where
  "zoneBuilderNormalUnk6 commanderName replyMsg =
     buildDump (dumpTexts zoneBuilderNormalUnk6Texts) 233
       (\<lambda>m. mem_write m 89 (c_strncpy 64 commanderName)) replyMsg"

definition zoneBuilderFaction :: "bytes list \<Rightarrow> bytes list result" where
  "zoneBuilderFaction replyMsg =
     addDump (dumpTexts (butlast zoneBuilderFactionTexts) @ dumpText (List.last zoneBuilderFactionTexts))
       (\<lambda>m. m) replyMsg"

definition zoneBuilderEnterMonster :: "bytes list \<Rightarrow> bytes list result" where
  "zoneBuilderEnterMonster replyMsg =
     addDump (dumpTexts zoneBuilderEnterMonsterTexts)
       (\<lambda>m. m) replyMsg"

definition zoneBuilderSkillAdd :: "u32 \<Rightarrow> bytes list \<Rightarrow> bytes list result" where
  "zoneBuilderSkillAdd skillId replyMsg =
     addDump (dumpTexts zoneBuilderSkillAddTexts)
       (\<lambda>m. mem_write m 26 (enc32 skillId)) replyMsg"

definition zoneBuilderBuffList :: "u32 \<Rightarrow> bytes list \<Rightarrow> bytes list result" where
  "zoneBuilderBuffList targetPcId replyMsg =
     buildDump (dumpTexts zoneBuilderBuffListTexts) 13
       (\<lambda>m. mem_write m 8 (enc32 targetPcId)) replyMsg"

definition zoneBuilderAddonMsg :: "bytes list \<Rightarrow> bytes list result" where
  "zoneBuilderAddonMsg replyMsg =
     addDump (dumpTexts (butlast zoneBuilderAddonMsgTexts) @ dumpText (List.last zoneBuilderAddonMsgTexts))
       (\<lambda>m. m) replyMsg"

definition zoneBuilderNormalUnk5 :: "bytes list \<Rightarrow> bytes list result" where
  "zoneBuilderNormalUnk5 replyMsg =
     addDump (dumpTexts zoneBuilderNormalUnk5Texts)
       (\<lambda>m. m) replyMsg"

definition zoneBuilderNormalUnk4 :: "u64 \<Rightarrow> bytes list \<Rightarrow> bytes list result" where
  "zoneBuilderNormalUnk4 socialInfoId replyMsg =
     addDump (dumpTexts zoneBuilderNormalUnk4Texts)
       (\<lambda>m. mem_write m 12 (enc64 socialInfoId)) replyMsg"

definition zoneBuilderNormalUnk3 :: "bytes list \<Rightarrow> bytes list result" where
  "zoneBuilderNormalUnk3 replyMsg =
     addDump (dumpTexts zoneBuilderNormalUnk3Texts)
       (\<lambda>m. m) replyMsg"

definition zoneBuilderNormalUnk2 :: "bytes list \<Rightarrow> bytes list result" where
  "zoneBuilderNormalUnk2 replyMsg =
     addDump (dumpTexts zoneBuilderNormalUnk2Texts)
       (\<lambda>m. m) replyMsg"

definition zoneBuilderNormalUnk1 :: "bytes list \<Rightarrow> bytes list result" where
  "zoneBuilderNormalUnk1 replyMsg =
     addDump (dumpTexts zoneBuilderNormalUnk1Texts)
       (\<lambda>m. m) replyMsg"

definition zoneBuilderAbilityList :: "u32 \<Rightarrow> bytes list \<Rightarrow> bytes list result" where
  "zoneBuilderAbilityList targetPcId replyMsg =
     buildDump (dumpTexts zoneBuilderAbilityListTexts) 14
       (\<lambda>m. let m = mem_write m 0 (variableSizePacketHeaderInit ZC_ABILITY_LIST 14);
          m = mem_write m 8 (enc32 targetPcId) in
        mem_write m 12 (enc16 0)) replyMsg"

definition zoneBuilderSkillList :: "u32 \<Rightarrow> bytes list \<Rightarrow> bytes list result" where
  "zoneBuilderSkillList targetPcId replyMsg =
     addDump (dumpTexts zoneBuilderSkillListTexts)
       (\<lambda>m. mem_write m 8 (enc32 targetPcId)) replyMsg"

definition zoneBuilderHelpList :: "bytes list \<Rightarrow> bytes list result" where
  "zoneBuilderHelpList replyMsg =
     addDump (dumpTexts zoneBuilderHelpListTexts)
       (\<lambda>m. m) replyMsg"

definition zoneBuilderSessionObjects :: "bytes list \<Rightarrow> bytes list result" where
  "zoneBuilderSessionObjects replyMsg =
     addDump (dumpTexts zoneBuilderSessionObjectsTexts)
       (\<lambda>m. m) replyMsg"

lemmas dump_builders =
  zoneBuilderNormalUnk8_def
  zoneBuilderNormalUnk9_def
  zoneBuilderNormalUnk10_56_def
  zoneBuilderNormalUnk11_1c_def
  zoneBuilderNormalUnk12_60_def
  zoneBuilderNormalUnk13_85_def
  zoneBuilderNormalUnk14_4c_def
  zoneBuilderPartyList_def
  zoneBuilderPartyInfo_def
  zoneBuilderJobPts_def
  zoneBuilderNormalUnk7_def
  zoneBuilderNormalUnk6_def
  zoneBuilderFaction_def
  zoneBuilderEnterMonster_def
  zoneBuilderSkillAdd_def
  zoneBuilderBuffList_def
  zoneBuilderAddonMsg_def
  zoneBuilderNormalUnk5_def
  zoneBuilderNormalUnk4_def
  zoneBuilderNormalUnk3_def
  zoneBuilderNormalUnk2_def
  zoneBuilderNormalUnk1_def
  zoneBuilderAbilityList_def
  zoneBuilderSkillList_def
  zoneBuilderHelpList_def
  zoneBuilderSessionObjects_def

section \<open>The texts are well formed\<close>

lemma zoneBuilderNormalUnk8_text: "list_all dumpText_ok zoneBuilderNormalUnk8Texts"
  by code_simp

lemma zoneBuilderNormalUnk9_text: "list_all dumpText_ok zoneBuilderNormalUnk9Texts"
  by code_simp

lemma zoneBuilderNormalUnk10_56_text: "list_all dumpText_ok zoneBuilderNormalUnk10_56Texts"
  by code_simp

lemma zoneBuilderNormalUnk11_1c_text: "list_all dumpText_ok zoneBuilderNormalUnk11_1cTexts"
  by code_simp

lemma zoneBuilderNormalUnk12_60_text: "list_all dumpText_ok zoneBuilderNormalUnk12_60Texts"
  by code_simp

lemma zoneBuilderNormalUnk13_85_text: "list_all dumpText_ok zoneBuilderNormalUnk13_85Texts"
  by code_simp

lemma zoneBuilderNormalUnk14_4c_text: "list_all dumpText_ok zoneBuilderNormalUnk14_4cTexts"
  by code_simp

lemma zoneBuilderPartyList_text: "list_all dumpText_ok zoneBuilderPartyListTexts"
  by code_simp

lemma zoneBuilderPartyInfo_text: "list_all dumpText_ok zoneBuilderPartyInfoTexts"
  by code_simp

lemma zoneBuilderJobPts_text: "list_all dumpText_ok zoneBuilderJobPtsTexts"
  by code_simp

lemma zoneBuilderNormalUnk7_text: "list_all dumpText_ok zoneBuilderNormalUnk7Texts"
  by code_simp

lemma zoneBuilderNormalUnk6_text: "list_all dumpText_ok zoneBuilderNormalUnk6Texts"
  by code_simp

lemma zoneBuilderFaction_text: "list_all dumpText_ok zoneBuilderFactionTexts"
  by code_simp

lemma zoneBuilderEnterMonster_text: "list_all dumpText_ok zoneBuilderEnterMonsterTexts"
  by code_simp

lemma zoneBuilderSkillAdd_text: "list_all dumpText_ok zoneBuilderSkillAddTexts"
  by code_simp

lemma zoneBuilderBuffList_text: "list_all dumpText_ok zoneBuilderBuffListTexts"
  by code_simp

lemma zoneBuilderAddonMsg_text: "list_all dumpText_ok zoneBuilderAddonMsgTexts"
  by code_simp

lemma zoneBuilderNormalUnk5_text: "list_all dumpText_ok zoneBuilderNormalUnk5Texts"
  by code_simp

lemma zoneBuilderNormalUnk4_text: "list_all dumpText_ok zoneBuilderNormalUnk4Texts"
  by code_simp

lemma zoneBuilderNormalUnk3_text: "list_all dumpText_ok zoneBuilderNormalUnk3Texts"
  by code_simp

lemma zoneBuilderNormalUnk2_text: "list_all dumpText_ok zoneBuilderNormalUnk2Texts"
  by code_simp

lemma zoneBuilderNormalUnk1_text: "list_all dumpText_ok zoneBuilderNormalUnk1Texts"
  by code_simp

lemma zoneBuilderAbilityList_text: "list_all dumpText_ok zoneBuilderAbilityListTexts"
  by code_simp

lemma zoneBuilderSkillList_text: "list_all dumpText_ok zoneBuilderSkillListTexts"
  by code_simp

lemma zoneBuilderHelpList_text: "list_all dumpText_ok zoneBuilderHelpListTexts"
  by code_simp

lemma zoneBuilderSessionObjects_text: "list_all dumpText_ok zoneBuilderSessionObjectsTexts"
  by code_simp

end
