(* ===== verification/ZoneDumpProps.thy ===== *)
theory ZoneDumpProps
  imports ZoneDumps
begin

text \<open>What the captured packets of \<open>ZoneDumps\<close> are for the client of this server.\<close>

section \<open>Frames\<close>

lemma dec16_mem_write: "2 \<le> k \<Longrightarrow> k \<le> length m \<Longrightarrow> dec16 (mem_write m k bs) = dec16 m"
  by (simp add: mem_write_def dec16_def min_def)

lemma dec16_size_mem_write: "8 \<le> k \<Longrightarrow> k \<le> length m \<Longrightarrow> dec16 (drop 6 (mem_write m k bs)) = dec16 (drop 6 m)"
  by (simp add: mem_write_def dec16_def min_def take_drop)

lemma mem_write_whole: "length bs = length m \<Longrightarrow> mem_write m 0 bs = bs"
  by (simp add: mem_write_def)

lemma buildDump_texts:
  assumes "list_all dumpText_ok ts" "length (concat (map dt_bytes ts)) = n"
  shows "buildDump (dumpTexts ts) n assign replyMsg = Inr (replyMsg @ [assign (concat (map dt_bytes ts))])"
  using assms(2) by (simp add: buildDump_def dumpToMem_texts [OF assms(1)] mem_write_whole zmsg_add_def)

lemma addDump_texts:
  assumes "list_all dumpText_ok ts" "length (concat (map dt_bytes ts)) \<le> 1000000"
  shows "addDump (dumpTexts ts) assign replyMsg = Inr (replyMsg @ [assign (concat (map dt_bytes ts))])"
  by (simp add: addDump_def dumpToHeap_texts [OF assms] zmsg_add_def)

lemma addDump_open:
  assumes "list_all dumpText_ok ts" "ts \<noteq> []" "length (concat (map dt_bytes ts)) \<le> 1000000"
  shows "addDump (dumpTexts (butlast ts) @ dumpText (List.last ts)) assign replyMsg = Inr (replyMsg @ [assign (concat (map dt_bytes ts))])"
proof -
  obtain us u where ts: "ts = us @ [u]"
    using assms(2) by (metis append_butlast_last_id)
  show ?thesis
    using assms(1,3) unfolding ts by (simp add: addDump_def zmsg_add_def dumpToHeap_open)
qed

text \<open>A builder adds one frame with a type number, the size that it announces and the size it has.\<close>

definition captured :: "bytes list \<Rightarrow> bytes list result \<Rightarrow> u16 \<Rightarrow> nat \<Rightarrow> nat \<Rightarrow> bool" where
  "captured replyMsg r ptype announced len \<longleftrightarrow>
     (\<exists>frame. r = Inr (replyMsg @ [frame]) \<and> dec16 frame = ptype \<and> unat (dec16 (drop 6 frame)) = announced \<and> length frame = len)"

lemma captured_Inr:
  "captured msg (Inr (msg @ [frame])) ptype announced len \<longleftrightarrow>
     dec16 frame = ptype \<and> unat (dec16 (drop 6 frame)) = announced \<and> length frame = len"
  by (simp add: captured_def)

lemma captured_write:
  assumes "captured msg (Inr (msg @ [m])) ptype announced len" "8 \<le> k" "k + length bs \<le> len"
  shows "captured msg (Inr (msg @ [mem_write m k bs])) ptype announced len"
  using assms by (simp add: captured_Inr dec16_mem_write dec16_size_mem_write)

lemma captured_buildDump:
  assumes "list_all dumpText_ok ts" "length (concat (map dt_bytes ts)) = n"
    "captured msg (Inr (msg @ [assign (concat (map dt_bytes ts))])) ptype announced len"
  shows "captured msg (buildDump (dumpTexts ts) n assign msg) ptype announced len"
  using assms(3) by (simp add: buildDump_texts [OF assms(1,2)])

lemma captured_addDump:
  assumes "list_all dumpText_ok ts" "length (concat (map dt_bytes ts)) \<le> 1000000"
    "captured msg (Inr (msg @ [assign (concat (map dt_bytes ts))])) ptype announced len"
  shows "captured msg (addDump (dumpTexts ts) assign msg) ptype announced len"
  using assms(3) by (simp add: addDump_texts [OF assms(1,2)])

lemma captured_addOpen:
  assumes "list_all dumpText_ok ts" "ts \<noteq> []" "length (concat (map dt_bytes ts)) \<le> 1000000"
    "captured msg (Inr (msg @ [assign (concat (map dt_bytes ts))])) ptype announced len"
  shows "captured msg (addDump (dumpTexts (butlast ts) @ dumpText (List.last ts)) assign msg) ptype announced len"
  using assms(4) by (simp add: addDump_open [OF assms(1-3)])

section \<open>The captured bytes\<close>

lemma NormalUnk8_bytes:
  "captured msg (Inr (msg @ [concat (map dt_bytes zoneBuilderNormalUnk8Texts)])) 3376 89 89" "length (concat (map dt_bytes zoneBuilderNormalUnk8Texts)) = 89"
  by (simp_all add: captured_Inr zoneBuilderNormalUnk8Texts_def dumpRow_def dec16_def)

lemma NormalUnk9_bytes:
  "captured msg (Inr (msg @ [concat (map dt_bytes zoneBuilderNormalUnk9Texts)])) 3376 29 29" "length (concat (map dt_bytes zoneBuilderNormalUnk9Texts)) = 29"
  by (simp_all add: captured_Inr zoneBuilderNormalUnk9Texts_def dumpRow_def dec16_def)

lemma NormalUnk10_56_bytes:
  "captured msg (Inr (msg @ [concat (map dt_bytes zoneBuilderNormalUnk10_56Texts)])) 3379 89 89" "length (concat (map dt_bytes zoneBuilderNormalUnk10_56Texts)) = 89"
  by (simp_all add: captured_Inr zoneBuilderNormalUnk10_56Texts_def dumpRow_def dec16_def)

lemma NormalUnk11_1c_bytes:
  "captured msg (Inr (msg @ [concat (map dt_bytes zoneBuilderNormalUnk11_1cTexts)])) 3379 57 57" "length (concat (map dt_bytes zoneBuilderNormalUnk11_1cTexts)) = 57"
  by (simp_all add: captured_Inr zoneBuilderNormalUnk11_1cTexts_def dumpRow_def dec16_def)

lemma NormalUnk12_60_bytes:
  "captured msg (Inr (msg @ [concat (map dt_bytes zoneBuilderNormalUnk12_60Texts)])) 3379 20 20" "length (concat (map dt_bytes zoneBuilderNormalUnk12_60Texts)) = 20"
  by (simp_all add: captured_Inr zoneBuilderNormalUnk12_60Texts_def dumpRow_def dec16_def)

lemma NormalUnk14_4c_bytes:
  "captured msg (Inr (msg @ [concat (map dt_bytes zoneBuilderNormalUnk14_4cTexts)])) 3379 25 20" "length (concat (map dt_bytes zoneBuilderNormalUnk14_4cTexts)) = 20"
  by (simp_all add: captured_Inr zoneBuilderNormalUnk14_4cTexts_def dumpRow_def dec16_def)

lemma PartyList_bytes:
  "captured msg (Inr (msg @ [concat (map dt_bytes zoneBuilderPartyListTexts)])) 3202 324 324" "length (concat (map dt_bytes zoneBuilderPartyListTexts)) = 324"
  by (simp_all add: captured_Inr zoneBuilderPartyListTexts_def dumpRow_def dec16_def)

lemma PartyInfo_bytes:
  "captured msg (Inr (msg @ [concat (map dt_bytes zoneBuilderPartyInfoTexts)])) 3201 164 164" "length (concat (map dt_bytes zoneBuilderPartyInfoTexts)) = 164"
  by (simp_all add: captured_Inr zoneBuilderPartyInfoTexts_def dumpRow_def dec16_def)

lemma JobPts_bytes:
  "captured msg (Inr (msg @ [concat (map dt_bytes zoneBuilderJobPtsTexts)])) 3352 4 10" "length (concat (map dt_bytes zoneBuilderJobPtsTexts)) = 10"
  by (simp_all add: captured_Inr zoneBuilderJobPtsTexts_def dumpRow_def dec16_def)

lemma NormalUnk6_bytes:
  "captured msg (Inr (msg @ [concat (map dt_bytes zoneBuilderNormalUnk6Texts)])) 3376 233 233" "length (concat (map dt_bytes zoneBuilderNormalUnk6Texts)) = 233"
  by (simp_all add: captured_Inr zoneBuilderNormalUnk6Texts_def dumpRow_def dec16_def)

lemma Faction_bytes:
  "captured msg (Inr (msg @ [concat (map dt_bytes zoneBuilderFactionTexts)])) 3435 328 14" "length (concat (map dt_bytes zoneBuilderFactionTexts)) = 14"
  by (simp_all add: captured_Inr zoneBuilderFactionTexts_def dumpRow_def dec16_def)

lemma EnterMonster_bytes:
  "captured msg (Inr (msg @ [concat (map dt_bytes zoneBuilderEnterMonsterTexts)])) 3007 132 132" "length (concat (map dt_bytes zoneBuilderEnterMonsterTexts)) = 132"
  by (simp_all add: captured_Inr zoneBuilderEnterMonsterTexts_def dumpRow_def dec16_def)

lemma SkillAdd_bytes:
  "captured msg (Inr (msg @ [concat (map dt_bytes zoneBuilderSkillAddTexts)])) 3124 162 162" "length (concat (map dt_bytes zoneBuilderSkillAddTexts)) = 162"
  by (simp_all add: captured_Inr zoneBuilderSkillAddTexts_def dumpRow_def dec16_def)

lemma BuffList_bytes:
  "captured msg (Inr (msg @ [concat (map dt_bytes zoneBuilderBuffListTexts)])) 3042 13 13" "length (concat (map dt_bytes zoneBuilderBuffListTexts)) = 13"
  by (simp_all add: captured_Inr zoneBuilderBuffListTexts_def dumpRow_def dec16_def)

lemma AddonMsg_bytes:
  "captured msg (Inr (msg @ [concat (map dt_bytes zoneBuilderAddonMsgTexts)])) 3151 31 31" "length (concat (map dt_bytes zoneBuilderAddonMsgTexts)) = 31"
  by (simp_all add: captured_Inr zoneBuilderAddonMsgTexts_def dumpRow_def dec16_def)

lemma NormalUnk5_bytes:
  "captured msg (Inr (msg @ [concat (map dt_bytes zoneBuilderNormalUnk5Texts)])) 3379 29 29" "length (concat (map dt_bytes zoneBuilderNormalUnk5Texts)) = 29"
  by (simp_all add: captured_Inr zoneBuilderNormalUnk5Texts_def dumpRow_def dec16_def)

lemma NormalUnk4_bytes:
  "captured msg (Inr (msg @ [concat (map dt_bytes zoneBuilderNormalUnk4Texts)])) 3379 44 44" "length (concat (map dt_bytes zoneBuilderNormalUnk4Texts)) = 44"
  by (simp_all add: captured_Inr zoneBuilderNormalUnk4Texts_def dumpRow_def dec16_def)

lemma NormalUnk3_bytes:
  "captured msg (Inr (msg @ [concat (map dt_bytes zoneBuilderNormalUnk3Texts)])) 3379 16 16" "length (concat (map dt_bytes zoneBuilderNormalUnk3Texts)) = 16"
  by (simp_all add: captured_Inr zoneBuilderNormalUnk3Texts_def dumpRow_def dec16_def)

lemma NormalUnk2_bytes:
  "captured msg (Inr (msg @ [concat (map dt_bytes zoneBuilderNormalUnk2Texts)])) 3379 24 24" "length (concat (map dt_bytes zoneBuilderNormalUnk2Texts)) = 24"
  by (simp_all add: captured_Inr zoneBuilderNormalUnk2Texts_def dumpRow_def dec16_def)

lemma NormalUnk1_bytes:
  "captured msg (Inr (msg @ [concat (map dt_bytes zoneBuilderNormalUnk1Texts)])) 3379 17 17" "length (concat (map dt_bytes zoneBuilderNormalUnk1Texts)) = 17"
  by (simp_all add: captured_Inr zoneBuilderNormalUnk1Texts_def dumpRow_def dec16_def)

lemma SkillList_bytes:
  "captured msg (Inr (msg @ [concat (map dt_bytes zoneBuilderSkillListTexts)])) 3123 210 210" "length (concat (map dt_bytes zoneBuilderSkillListTexts)) = 210"
  by (simp_all add: captured_Inr zoneBuilderSkillListTexts_def dumpRow_def dec16_def)

lemma HelpList_bytes:
  "captured msg (Inr (msg @ [concat (map dt_bytes zoneBuilderHelpListTexts)])) 3399 72 72" "length (concat (map dt_bytes zoneBuilderHelpListTexts)) = 72"
  by (simp_all add: captured_Inr zoneBuilderHelpListTexts_def dumpRow_def dec16_def)

lemma SessionObjects_bytes:
  "captured msg (Inr (msg @ [concat (map dt_bytes zoneBuilderSessionObjectsTexts)])) 3115 18 18" "length (concat (map dt_bytes zoneBuilderSessionObjectsTexts)) = 18"
  by (simp_all add: captured_Inr zoneBuilderSessionObjectsTexts_def dumpRow_def dec16_def)

section \<open>The builders\<close>

lemma captured_NormalUnk8: "captured msg (zoneBuilderNormalUnk8 targetPcId msg) 3376 89 89"
  unfolding zoneBuilderNormalUnk8_def Let_def
  by (rule captured_buildDump [OF zoneBuilderNormalUnk8_text NormalUnk8_bytes(2)]) (intro captured_write NormalUnk8_bytes(1); simp)

lemma captured_NormalUnk9: "captured msg (zoneBuilderNormalUnk9 targetPcId msg) 3376 29 29"
  unfolding zoneBuilderNormalUnk9_def Let_def
  by (rule captured_buildDump [OF zoneBuilderNormalUnk9_text NormalUnk9_bytes(2)]) (intro captured_write NormalUnk9_bytes(1); simp)

lemma captured_NormalUnk10_56: "captured msg (zoneBuilderNormalUnk10_56 targetPcId skillId position direction enableSkill msg) 3379 89 89"
  unfolding zoneBuilderNormalUnk10_56_def Let_def
  by (rule captured_buildDump [OF zoneBuilderNormalUnk10_56_text NormalUnk10_56_bytes(2)]) (cases enableSkill; simp only: if_True if_False; intro captured_write NormalUnk10_56_bytes(1); simp)

lemma captured_NormalUnk11_1c: "captured msg (zoneBuilderNormalUnk11_1c targetPcId position direction msg) 3379 57 57"
  unfolding zoneBuilderNormalUnk11_1c_def Let_def
  by (rule captured_buildDump [OF zoneBuilderNormalUnk11_1c_text NormalUnk11_1c_bytes(2)]) (intro captured_write NormalUnk11_1c_bytes(1); simp)

lemma captured_NormalUnk12_60: "captured msg (zoneBuilderNormalUnk12_60 actorId msg) 3379 20 20"
  unfolding zoneBuilderNormalUnk12_60_def Let_def
  by (rule captured_buildDump [OF zoneBuilderNormalUnk12_60_text NormalUnk12_60_bytes(2)]) (intro captured_write NormalUnk12_60_bytes(1); simp)

lemma captured_NormalUnk14_4c: "captured msg (zoneBuilderNormalUnk14_4c pcId skillId msg) 3379 25 20"
  unfolding zoneBuilderNormalUnk14_4c_def Let_def
  by (rule captured_buildDump [OF zoneBuilderNormalUnk14_4c_text NormalUnk14_4c_bytes(2)]) (intro captured_write NormalUnk14_4c_bytes(1); simp)

lemma captured_PartyList: "captured msg (zoneBuilderPartyList msg) 3202 324 324"
  unfolding zoneBuilderPartyList_def Let_def
  by (rule captured_addDump [OF zoneBuilderPartyList_text], (simp add: PartyList_bytes(2)), (rule PartyList_bytes(1)))

lemma captured_PartyInfo: "captured msg (zoneBuilderPartyInfo msg) 3201 164 164"
  unfolding zoneBuilderPartyInfo_def Let_def
  by (rule captured_addDump [OF zoneBuilderPartyInfo_text], (simp add: PartyInfo_bytes(2)), (rule PartyInfo_bytes(1)))

lemma captured_JobPts: "captured msg (zoneBuilderJobPts msg) 3352 4 10"
  unfolding zoneBuilderJobPts_def Let_def
  by (rule captured_addOpen [OF zoneBuilderJobPts_text], (simp add: zoneBuilderJobPtsTexts_def, simp add: JobPts_bytes(2)), (rule JobPts_bytes(1)))

lemma captured_NormalUnk6: "captured msg (zoneBuilderNormalUnk6 commanderName msg) 3376 233 233"
  unfolding zoneBuilderNormalUnk6_def Let_def
  by (rule captured_buildDump [OF zoneBuilderNormalUnk6_text NormalUnk6_bytes(2)]) (intro captured_write NormalUnk6_bytes(1); simp)

lemma captured_Faction: "captured msg (zoneBuilderFaction msg) 3435 328 14"
  unfolding zoneBuilderFaction_def Let_def
  by (rule captured_addOpen [OF zoneBuilderFaction_text], (simp add: zoneBuilderFactionTexts_def, simp add: Faction_bytes(2)), (rule Faction_bytes(1)))

lemma captured_EnterMonster: "captured msg (zoneBuilderEnterMonster msg) 3007 132 132"
  unfolding zoneBuilderEnterMonster_def Let_def
  by (rule captured_addDump [OF zoneBuilderEnterMonster_text], (simp add: EnterMonster_bytes(2)), (rule EnterMonster_bytes(1)))

lemma captured_SkillAdd: "captured msg (zoneBuilderSkillAdd skillId msg) 3124 162 162"
  unfolding zoneBuilderSkillAdd_def Let_def
  by (rule captured_addDump [OF zoneBuilderSkillAdd_text], (simp add: SkillAdd_bytes(2)), (intro captured_write SkillAdd_bytes(1); simp))

lemma captured_BuffList: "captured msg (zoneBuilderBuffList targetPcId msg) 3042 13 13"
  unfolding zoneBuilderBuffList_def Let_def
  by (rule captured_buildDump [OF zoneBuilderBuffList_text BuffList_bytes(2)]) (intro captured_write BuffList_bytes(1); simp)

lemma captured_AddonMsg: "captured msg (zoneBuilderAddonMsg msg) 3151 31 31"
  unfolding zoneBuilderAddonMsg_def Let_def
  by (rule captured_addOpen [OF zoneBuilderAddonMsg_text], (simp add: zoneBuilderAddonMsgTexts_def, simp add: AddonMsg_bytes(2)), (rule AddonMsg_bytes(1)))

lemma captured_NormalUnk5: "captured msg (zoneBuilderNormalUnk5 msg) 3379 29 29"
  unfolding zoneBuilderNormalUnk5_def Let_def
  by (rule captured_addDump [OF zoneBuilderNormalUnk5_text], (simp add: NormalUnk5_bytes(2)), (rule NormalUnk5_bytes(1)))

lemma captured_NormalUnk4: "captured msg (zoneBuilderNormalUnk4 socialInfoId msg) 3379 44 44"
  unfolding zoneBuilderNormalUnk4_def Let_def
  by (rule captured_addDump [OF zoneBuilderNormalUnk4_text], (simp add: NormalUnk4_bytes(2)), (intro captured_write NormalUnk4_bytes(1); simp))

lemma captured_NormalUnk3: "captured msg (zoneBuilderNormalUnk3 msg) 3379 16 16"
  unfolding zoneBuilderNormalUnk3_def Let_def
  by (rule captured_addDump [OF zoneBuilderNormalUnk3_text], (simp add: NormalUnk3_bytes(2)), (rule NormalUnk3_bytes(1)))

lemma captured_NormalUnk2: "captured msg (zoneBuilderNormalUnk2 msg) 3379 24 24"
  unfolding zoneBuilderNormalUnk2_def Let_def
  by (rule captured_addDump [OF zoneBuilderNormalUnk2_text], (simp add: NormalUnk2_bytes(2)), (rule NormalUnk2_bytes(1)))

lemma captured_NormalUnk1: "captured msg (zoneBuilderNormalUnk1 msg) 3379 17 17"
  unfolding zoneBuilderNormalUnk1_def Let_def
  by (rule captured_addDump [OF zoneBuilderNormalUnk1_text], (simp add: NormalUnk1_bytes(2)), (rule NormalUnk1_bytes(1)))

lemma captured_SkillList: "captured msg (zoneBuilderSkillList targetPcId msg) 3123 210 210"
  unfolding zoneBuilderSkillList_def Let_def
  by (rule captured_addDump [OF zoneBuilderSkillList_text], (simp add: SkillList_bytes(2)), (intro captured_write SkillList_bytes(1); simp))

lemma captured_HelpList: "captured msg (zoneBuilderHelpList msg) 3399 72 72"
  unfolding zoneBuilderHelpList_def Let_def
  by (rule captured_addDump [OF zoneBuilderHelpList_text], (simp add: HelpList_bytes(2)), (rule HelpList_bytes(1)))

lemma captured_SessionObjects: "captured msg (zoneBuilderSessionObjects msg) 3115 18 18"
  unfolding zoneBuilderSessionObjects_def Let_def
  by (rule captured_addDump [OF zoneBuilderSessionObjects_text], (simp add: SessionObjects_bytes(2)), (rule SessionObjects_bytes(1)))

section \<open>Types and sizes\<close>

text \<open>The name that the table of this server has for the number of the packet.\<close>

definition sentAs :: "bytes list \<Rightarrow> bytes list result \<Rightarrow> string \<Rightarrow> bool" where
  "sentAs msg r name \<longleftrightarrow> (\<exists>ptype announced len. captured msg r ptype announced len \<and> pte_name (packetTypeInit ! unat ptype) = name)"

lemma sentAsI: "captured msg r ptype announced len \<Longrightarrow> pte_name (packetTypeInit ! unat ptype) = name \<Longrightarrow> sentAs msg r name"
  by (auto simp: sentAs_def)

text \<open>The captured packets have the numbers that their types had on the server they were captured from. In the
  table of this server these numbers belong to other packets: a skill that is added is sent as a chat message, the
  session objects as a jump, the monster as a change of the zone, and so on.\<close>

theorem zoneBuilder_captured_types:
  "sentAs msg (zoneBuilderSkillAdd skillId msg) ''ZC_CHAT''
   \<and> sentAs msg (zoneBuilderSessionObjects msg) ''ZC_JUMP''
   \<and> sentAs msg (zoneBuilderEnterMonster msg) ''ZC_MOVE_ZONE_OK''
   \<and> sentAs msg (zoneBuilderFaction msg) ''ZC_MOTIONBLUR''
   \<and> sentAs msg (zoneBuilderHelpList msg) ''ZC_WIKI_COUNT_UPDATE''
   \<and> sentAs msg (zoneBuilderSkillList pcId msg) ''ZC_UPDATED_MONSTERAPPEARANCE''
   \<and> sentAs msg (zoneBuilderPartyList msg) ''ZC_ITEM_EQUIP_LIST''
   \<and> sentAs msg (zoneBuilderPartyInfo msg) ''ZC_ITEM_INVENTORY_INDEX_LIST''
   \<and> sentAs msg (zoneBuilderJobPts msg) ''ZC_GIVE_EXP_TO_PC''
   \<and> sentAs msg (zoneBuilderAddonMsg msg) ''ZC_DEAD''
   \<and> sentAs msg (zoneBuilderNormalUnk6 name msg) ''ZC_IES_MODIFY_INFO''
   \<and> sentAs msg (zoneBuilderNormalUnk1 msg) ''ZC_IES_REVISION_DELETE''
   \<and> sentAs msg (zoneBuilderNormalUnk2 msg) ''ZC_IES_REVISION_DELETE''
   \<and> sentAs msg (zoneBuilderNormalUnk3 msg) ''ZC_IES_REVISION_DELETE''
   \<and> sentAs msg (zoneBuilderNormalUnk4 socialInfoId msg) ''ZC_IES_REVISION_DELETE''
   \<and> sentAs msg (zoneBuilderNormalUnk5 msg) ''ZC_IES_REVISION_DELETE''
   \<and> sentAs msg (zoneBuilderNormalUnk10_56 pcId skillId position direction enable msg) ''ZC_IES_REVISION_DELETE''"
  by (intro conjI;
      (rule sentAsI, rule captured_SkillAdd captured_SessionObjects captured_EnterMonster captured_Faction captured_HelpList
        captured_SkillList captured_PartyList captured_PartyInfo captured_JobPts captured_AddonMsg captured_NormalUnk6
        captured_NormalUnk1 captured_NormalUnk2 captured_NormalUnk3 captured_NormalUnk4 captured_NormalUnk5 captured_NormalUnk10_56,
       simp add: packetTypeInit_entries))

lemma NormalUnk13_85_bytes: "concat (map dt_bytes zoneBuilderNormalUnk13_85Texts) =
    [0x33, 0x0D, 0xA6, 0x13, 0x14, 0x03, 25, 0, 0x85, 0, 0, 0, 0x27, 0x68, 1, 0, 0x66, 0xEA, 0, 0, 1, 0, 0, 0, 0]"
  by (simp add: zoneBuilderNormalUnk13_85Texts_def dumpRow_def)

lemma captured_NormalUnk13_85: "captured msg (zoneBuilderNormalUnk13_85 actorId msg) 3379 25 29"
proof -
  let ?m = "[0x33, 0x0D, 0xA6, 0x13, 0x14, 0x03, 25, 0, 0x85, 0, 0, 0, 0x27, 0x68, 1, 0, 0x66, 0xEA, 0, 0, 1, 0, 0, 0, 0, 0, 0, 0, 0] :: bytes"
  have "dumpToMem (dumpTexts zoneBuilderNormalUnk13_85Texts) (replicate 29 0) = Inr ?m"
    unfolding dumpToMem_texts [OF zoneBuilderNormalUnk13_85_text] NormalUnk13_85_bytes by (simp add: mem_write_def) (simp add: numeral_eq_Suc)
  moreover have "captured msg (Inr (msg @ [?m])) 3379 25 29"
    by (simp add: captured_Inr dec16_def)
  ultimately show ?thesis
    unfolding zoneBuilderNormalUnk13_85_def buildDump_def Let_def zmsg_add_def
    by (simp only: rbind.simps) (intro captured_write; simp)
qed

lemma zoneBuilderNormalUnk7_overflow: "zoneBuilderNormalUnk7 accountId pcId familyName commanderName msg = Inl OutOfBounds"
proof -
  have "concat (map dt_bytes zoneBuilderNormalUnk7Texts) \<noteq> []"
    by (simp add: zoneBuilderNormalUnk7Texts_def dumpRow_def)
  then show ?thesis
    unfolding zoneBuilderNormalUnk7_def buildDump_def dumpToMem_texts [OF zoneBuilderNormalUnk7_text] by simp
qed

text \<open>Three packets do not have the size that they announce. \<open>zoneBuilderNormalUnk13_85\<close> has an identifier of
  eight bytes where the captured packet has four and sends 29 bytes instead of 25; \<open>zoneBuilderNormalUnk14_4c\<close>
  announces 25 bytes and sends 20; \<open>zoneBuilderNormalUnk7\<close> writes 293 bytes over an empty structure.\<close>

theorem zoneBuilder_captured_sizes:
  "captured msg (zoneBuilderNormalUnk13_85 actorId msg) 3379 25 29
   \<and> captured msg (zoneBuilderNormalUnk14_4c pcId skillId msg) 3379 25 20
   \<and> zoneBuilderNormalUnk7 accountId pcId familyName commanderName msg = Inl OutOfBounds"
  using captured_NormalUnk13_85 captured_NormalUnk14_4c zoneBuilderNormalUnk7_overflow by blast

end
