(* ===== verification/CText.thy ===== *)
theory CText
  imports Dump
begin

text \<open>
  Numbers in text and the splitting of a text into words: \<open>strtol\<close>, \<open>atoi\<close> and \<open>strtoull (s, NULL, 16)\<close> of the C
  library where \<open>long\<close> has 64 bits, the conversion of an integer to a \<open>float\<close>, and \<open>strSplit\<close> of
  \<open>src/common/utils/string.c\<close>.
\<close>

section \<open>Numbers\<close>

definition decValue :: "char \<Rightarrow> nat option" where
  "decValue c = (let n = (of_char c :: nat) in if 48 \<le> n \<and> n \<le> 57 then Some (n - 48) else None)"

definition decNumber :: "string \<Rightarrow> nat" where
  "decNumber s = foldl (\<lambda>acc c. 10 * acc + the (decValue c)) 0 s"

text \<open>An optional sign in front of a number.\<close>

definition c_sign :: "string \<Rightarrow> bool \<times> string" where
  "c_sign s = (case s of
       [] \<Rightarrow> (False, s)
     | c # cs \<Rightarrow> if c = CHR ''-'' then (True, cs) else if c = CHR ''+'' then (False, cs) else (False, s))"

text \<open>\<open>strtol (s, &end, 10)\<close>: the value and the text from \<open>end\<close> on.\<close>

definition c_strtol :: "string \<Rightarrow> int \<times> string" where
  "c_strtol s =
     (let (neg, t) = c_sign (dropWhile c_isspace s);
          digits = takeWhile (\<lambda>c. decValue c \<noteq> None) t;
          n = int (decNumber digits) in
      if digits = [] then (0, s)
      else (if neg then max (- (2 ^ 63)) (- n) else min (2 ^ 63 - 1) n, dropWhile (\<lambda>c. decValue c \<noteq> None) t))"

text \<open>\<open>atoi\<close>, which glibc computes as \<open>(int) strtol (s, NULL, 10)\<close>.\<close>

definition c_atoi :: "string \<Rightarrow> u32" where
  "c_atoi s = of_int (fst (c_strtol s))"

text \<open>\<open>strtoul\<close> and \<open>strtoull\<close> to the base 16.\<close>

definition hexPrefix :: "string \<Rightarrow> bool" where
  "hexPrefix s \<longleftrightarrow> (case s of z # x # d # _ \<Rightarrow> z = CHR ''0'' \<and> (x = CHR ''x'' \<or> x = CHR ''X'') \<and> hexValue d \<noteq> None | _ \<Rightarrow> False)"

definition c_strtoull16 :: "string \<Rightarrow> u64" where
  "c_strtoull16 s =
     (let (neg, t) = c_sign (dropWhile c_isspace s);
          t = (if hexPrefix t then drop 2 t else t);
          n = hexNumber (takeWhile (\<lambda>c. hexValue c \<noteq> None) t) in
      if 2 ^ 64 \<le> n then -1 else if neg then - of_nat n else of_nat n)"

text \<open>\<open>strtoul\<close> to the base 10.\<close>

definition c_strtoul10 :: "string \<Rightarrow> u64" where
  "c_strtoul10 s =
     (let (neg, t) = c_sign (dropWhile c_isspace s);
          n = decNumber (takeWhile (\<lambda>c. decValue c \<noteq> None) t) in
      if 2 ^ 64 \<le> n then -1 else if neg then - of_nat n else of_nat n)"

text \<open>The binary logarithm, rounded down.\<close>

fun log2 :: "nat \<Rightarrow> nat" where
  "log2 n = (if n < 2 then 0 else Suc (log2 (n div 2)))"

declare log2.simps [simp del]

lemma log2_eval: "n < 2 \<Longrightarrow> log2 n = 0" "2 \<le> n \<Longrightarrow> log2 n = Suc (log2 (n div 2))"
  by (subst log2.simps, simp)+

text \<open>\<open>(float) n\<close> as a bit pattern, rounded to the nearest value and to the even one between two.\<close>

definition floatOfInt :: "int \<Rightarrow> u32" where
  "floatOfInt n =
     (if n = 0 then 0
      else
        let m = nat \<bar>n\<bar>; e = log2 m;
            q = m div 2 ^ (e - 23); r = m mod 2 ^ (e - 23); half = 2 ^ (e - 24);
            mantissa = (if e \<le> 23 then m * 2 ^ (23 - e) else if half < r \<or> half = r \<and> odd q then q + 1 else q) in
        of_nat ((if n < 0 then 2 ^ 31 else 0) + (e + 127) * 2 ^ 23 + mantissa - 2 ^ 23))"

section \<open>Words\<close>

text \<open>\<open>wordCount\<close> and \<open>tabFill\<close> as the loops over the text; \<open>lastchar\<close> is the character before. The pieces are
  copied through a buffer of \<open>strlen (s)\<close> bytes, whose size is the first argument of \<open>tabFill\<close>.\<close>

fun wordCount :: "char \<Rightarrow> char \<Rightarrow> string \<Rightarrow> nat" where
  "wordCount c lastchar [] = 0"
| "wordCount c lastchar (x # s) = (if x \<noteq> c \<and> lastchar = c then 1 else 0) + wordCount c x s"

function tabFill :: "nat \<Rightarrow> char \<Rightarrow> char \<Rightarrow> string \<Rightarrow> string option list \<Rightarrow> nat \<Rightarrow> string option list result" where
  "tabFill bufSize c lastchar [] splitted k = Inr splitted"
| "tabFill bufSize c lastchar (x # s) splitted k =
     (if x \<noteq> c \<and> lastchar = c then
        let buffer = takeWhile (\<lambda>y. y \<noteq> c) (x # s) in
        if bufSize \<le> length buffer \<or> length splitted \<le> k then Inl OutOfBounds
        else tabFill bufSize c lastchar (dropWhile (\<lambda>y. y \<noteq> c) (x # s)) (splitted[k := Some buffer]) (Suc k)
      else tabFill bufSize c x s splitted k)"
  by pat_completeness auto
termination
proof (relation "measure (\<lambda>(bufSize, c, lastchar, s, splitted, k). length s)", simp, goal_cases)
  case (1 bufSize c lastchar x s splitted k buffer)
  then show ?case
    using length_dropWhile_le [of "\<lambda>y. y \<noteq> c" s] by simp
next
  case 2
  then show ?case
    by simp
qed

definition strSplit :: "string \<Rightarrow> char \<Rightarrow> string option list result" where
  "strSplit s c =
     (let i = wordCount c c s in
      rbind (tabFill (length s) c c s (replicate (i + 1) None) 0) (\<lambda>splitted. Inr (splitted[i := None])))"

text \<open>\<open>while (arg[++argc] != NULL);\<close>\<close>

function argCount :: "string option list \<Rightarrow> nat \<Rightarrow> nat result" where
  "argCount arg argc =
     (if length arg \<le> argc + 1 then Inl OutOfBounds
      else if arg ! (argc + 1) = None then Inr (argc + 1)
      else argCount arg (argc + 1))"
  by pat_completeness auto
termination
  by (relation "measure (\<lambda>(arg, argc). length arg - argc)") auto

declare argCount.simps [simp del]

section \<open>What \<open>strSplit\<close> gives\<close>

text \<open>The pieces between the separators, and those that are not empty.\<close>

fun pieces :: "'a \<Rightarrow> 'a list \<Rightarrow> 'a list list" where
  "pieces c [] = [[]]"
| "pieces c (x # s) = (if x = c then [] # pieces c s else (x # hd (pieces c s)) # List.tl (pieces c s))"

definition wordsOf :: "'a \<Rightarrow> 'a list \<Rightarrow> 'a list list" where
  "wordsOf c s = filter (\<lambda>w. w \<noteq> []) (pieces c s)"

lemma pieces_not_Nil [simp]: "pieces c s \<noteq> []"
  by (cases s) auto

lemma pieces_hd_tl:
  "hd (pieces c s) = takeWhile (\<lambda>y. y \<noteq> c) s"
  "List.tl (pieces c s) = (case dropWhile (\<lambda>y. y \<noteq> c) s of [] \<Rightarrow> [] | _ # r \<Rightarrow> pieces c r)"
  by (induction s) auto

lemma wordsOf_Nil [simp]: "wordsOf c [] = []"
  by (simp add: wordsOf_def)

lemma wordsOf_separator [simp]: "wordsOf c (c # s) = wordsOf c s"
  by (simp add: wordsOf_def)

lemma wordsOf_word:
  assumes "x \<noteq> c"
  shows "wordsOf c (x # s) = takeWhile (\<lambda>y. y \<noteq> c) (x # s) # wordsOf c (dropWhile (\<lambda>y. y \<noteq> c) s)"
proof (cases "dropWhile (\<lambda>y. y \<noteq> c) s")
  case Nil
  then show ?thesis
    using assms unfolding wordsOf_def Nil by (simp add: pieces_hd_tl Nil)
next
  case (Cons y r)
  then have "y = c"
    using hd_dropWhile [of "\<lambda>y. y \<noteq> c" s] by simp
  then show ?thesis
    using assms unfolding wordsOf_def Cons by (simp add: pieces_hd_tl Cons)
qed

lemma while_separator:
  assumes "c \<notin> set w"
  shows "takeWhile (\<lambda>y. y \<noteq> c) (w @ c # s) = w" "dropWhile (\<lambda>y. y \<noteq> c) (w @ c # s) = c # s"
  using assms by (induction w) auto

lemma wordsOf_append: "w \<noteq> [] \<Longrightarrow> c \<notin> set w \<Longrightarrow> wordsOf c (w @ c # s) = w # wordsOf c s"
  by (cases w) (auto simp: wordsOf_word while_separator)

lemma wordsOf_single: "w \<noteq> [] \<Longrightarrow> c \<notin> set w \<Longrightarrow> wordsOf c w = [w]"
proof -
  assume w: "w \<noteq> []" "c \<notin> set w"
  then have "takeWhile (\<lambda>y. y \<noteq> c) w = w" "dropWhile (\<lambda>y. y \<noteq> c) w = []"
    by (auto simp: takeWhile_eq_all_conv)
  then show ?thesis
    using w wordsOf_word [of "hd w" c "List.tl w"] by (cases w) (auto simp: dropWhile_eq_Nil_conv [THEN iffD2])
qed

lemma wordCount_inside: "l \<noteq> c \<Longrightarrow> wordCount c l s = wordCount c c (dropWhile (\<lambda>y. y \<noteq> c) s)"
  by (induction s arbitrary: l) auto

lemma wordCount_wordsOf: "wordCount c c s = length (wordsOf c s)"
proof (induction s rule: length_induct)
  case (1 s)
  show ?case
  proof (cases s)
    case (Cons x r)
    have "length (dropWhile (\<lambda>y. y \<noteq> c) r) < length s"
      using length_dropWhile_le [of "\<lambda>y. y \<noteq> c" r] Cons by simp
    then have "wordCount c c (dropWhile (\<lambda>y. y \<noteq> c) r) = length (wordsOf c (dropWhile (\<lambda>y. y \<noteq> c) r))"
      and "wordCount c c r = length (wordsOf c r)"
      using 1 Cons by auto
    then show ?thesis
      using wordsOf_word [of x c r] wordCount_inside [of x c r] by (cases "x = c") (simp_all add: Cons)
  qed simp
qed

lemma tabFill_wordsOf:
  assumes "k + length (wordsOf c s) \<le> length splitted"
  shows "tabFill n c c s splitted k =
    (if list_ex (\<lambda>w. n \<le> length w) (wordsOf c s) then Inl OutOfBounds
     else Inr (take k splitted @ map Some (wordsOf c s) @ drop (k + length (wordsOf c s)) splitted))"
  using assms
proof (induction s arbitrary: splitted k rule: length_induct)
  case (1 s)
  show ?case
  proof (cases s)
    case (Cons x r)
    show ?thesis
    proof (cases "x = c")
      case True
      then show ?thesis
        using 1 Cons by simp
    next
      case False
      let ?r = "dropWhile (\<lambda>y. y \<noteq> c) r" and ?w = "takeWhile (\<lambda>y. y \<noteq> c) (x # r)"
      have words: "wordsOf c s = ?w # wordsOf c ?r"
        using wordsOf_word [OF False] Cons by simp
      have "length ?r < length s"
        using length_dropWhile_le [of "\<lambda>y. y \<noteq> c" r] Cons by simp
      then have IH: "tabFill n c c ?r (splitted[k := Some ?w]) (Suc k) =
          (if list_ex (\<lambda>w. n \<le> length w) (wordsOf c ?r) then Inl OutOfBounds
           else Inr (take (Suc k) (splitted[k := Some ?w]) @ map Some (wordsOf c ?r) @ drop (Suc k + length (wordsOf c ?r)) splitted))"
        using 1 words by simp
      have k: "k < length splitted"
        using "1.prems" words by simp
      have "take (Suc k) (splitted[k := Some ?w]) = take k splitted @ [Some ?w]"
        using k by (simp add: take_Suc_conv_app_nth)
      then show ?thesis
        using IH k False words unfolding Cons by simp
    qed
  qed simp
qed

lemma pieces_short: "w \<in> set (pieces c s) \<Longrightarrow> length w \<le> length s"
proof (induction s arbitrary: w)
  case (Cons x s)
  have "hd (pieces c s) \<in> set (pieces c s)" "set (List.tl (pieces c s)) \<subseteq> set (pieces c s)"
    using list.set_sel(2) [of "pieces c s"] by auto
  then show ?case
    using Cons by (auto split: if_splits dest!: subsetD intro: le_SucI)
qed simp

lemma wordsOf_short: "w \<in> set (wordsOf c s) \<Longrightarrow> length w \<le> length s"
  using pieces_short by (auto simp: wordsOf_def)

lemma wordsOf_long:
  "list_ex (\<lambda>w. length s \<le> length w) (wordsOf c s) \<longleftrightarrow> s \<noteq> [] \<and> c \<notin> set s"
proof (cases s)
  case (Cons x r)
  show ?thesis
  proof (cases "x = c")
    case True
    then show ?thesis
      using wordsOf_short [of _ c r] Cons by (fastforce simp: list_ex_iff not_le intro: le_imp_less_Suc)
  next
    case False
    have "length r \<le> length (takeWhile (\<lambda>y. y \<noteq> c) r) \<Longrightarrow> takeWhile (\<lambda>y. y \<noteq> c) r = r"
      using takeWhile_eq_take [of "\<lambda>y. y \<noteq> c" r] by simp
    then have whole: "length r \<le> length (takeWhile (\<lambda>y. y \<noteq> c) r) \<longleftrightarrow> c \<notin> set r"
      by (metis (mono_tags, lifting) order_refl takeWhile_eq_all_conv)
    have "length (dropWhile (\<lambda>y. y \<noteq> c) r) \<le> length r"
      by (rule length_dropWhile_le)
    then have "\<not> list_ex (\<lambda>w. length s \<le> length w) (wordsOf c (dropWhile (\<lambda>y. y \<noteq> c) r))"
      using wordsOf_short Cons by (fastforce simp: list_ex_iff not_le)
    then show ?thesis
      using whole wordsOf_word [OF False] False Cons by auto
  qed
qed simp

lemma strSplit_words:
  "strSplit s c = (if s \<noteq> [] \<and> c \<notin> set s then Inl OutOfBounds else Inr (map Some (wordsOf c s) @ [None]))"
proof -
  let ?n = "length (wordsOf c s)"
  have "drop ?n (replicate (?n + 1) None) = [None :: string option]"
    unfolding drop_replicate by simp
  then show ?thesis
    using tabFill_wordsOf [of 0 c s "replicate (?n + 1) None" "length s"] wordsOf_long [of s c]
    unfolding strSplit_def Let_def wordCount_wordsOf by (simp add: list_update_append)
qed

text \<open>C27: \<open>strSplit\<close> gives the words of a text, the pieces between separators that are not empty, and NULL behind
  them. A text that is not empty and has no separator is one word, for which the buffer is a byte too small.\<close>

theorem strSplit_correct:
  "strSplit s c = (if s \<noteq> [] \<and> c \<notin> set s then Inl OutOfBounds else Inr (map Some (wordsOf c s) @ [None]))"
  by (rule strSplit_words)

lemma argCount_words: "argc \<le> length ws \<Longrightarrow> argCount (map Some ws @ [None]) argc = (if argc < length ws then Inr (length ws) else Inl OutOfBounds)"
proof (induction "length ws - argc" arbitrary: argc)
  case (Suc n)
  then show ?case
    by (subst argCount.simps) (auto simp: nth_append)
qed (subst argCount.simps, simp)

end
