(* ===== verification/Redis.thy ===== *)
theory Redis
  imports MySqlAccount CText
begin

text \<open>
  \<open>src/common/redis/\<close>: the sessions that the servers share through a Redis server. Every request is a text in the
  language of Redis, made with \<open>snprintf\<close> from the key and the values; the answer is a tree of replies. The server
  and its client library \<open>hiredis\<close> are an argument: a function from the text and the state of the server to
  the reply (\<open>None\<close> is the null pointer) and the next state.
\<close>

section \<open>Requests and replies\<close>

datatype RedisReply = RedisNil | RedisError bytes | RedisStatus bytes | RedisInteger int | RedisString bytes
  | RedisArray "RedisReply list"

text \<open>
  What the functions below use: \<open>redisCommand\<close> of hiredis, \<open>%f\<close> and \<open>strtof\<close> of the C library, the difference of two
  floats, the conversion of a float to \<open>int\<close> and \<open><\<close> on floats, the operations of the tables of a commander and
  \<open>itemFactoryCreate\<close> of the factory of the server.
\<close>

record ('h, 'k, 'v, 'r) RedisEnv =
  rd_run :: "bytes \<Rightarrow> 'r \<Rightarrow> RedisReply option \<times> 'r"
  rd_fmtFloat :: "u32 \<Rightarrow> string"
  rd_strtof :: "string \<Rightarrow> u32"
  rd_fsub :: "u32 \<Rightarrow> u32 \<Rightarrow> u32"
  rd_toInt :: "u32 \<Rightarrow> int"
  rd_less :: "u32 \<Rightarrow> u32 \<Rightarrow> bool"
  rd_Z :: "('h, addr) zhash_ops"
  rd_Zs :: "('k, 'v) zhash_ops"
  rd_create :: "ActorFactory \<Rightarrow> u32 \<Rightarrow> u32 \<Rightarrow> (ItemObject option \<times> ActorFactory) result"

text \<open>The buffer of \<open>redisCommandDbg\<close> has 1 MiB.\<close>

definition redisCommandDbg :: "('h, 'k, 'v, 'r) RedisEnv \<Rightarrow> 'r \<Rightarrow> bytes \<Rightarrow> RedisReply option \<times> 'r" where
  "redisCommandDbg env r text = rd_run env (take (1024 * 1024 - 1) text) r"

definition redisAnyElementIsNull :: "RedisReply list \<Rightarrow> nat option" where
  "redisAnyElementIsNull elements =
     (let i = length (takeWhile (\<lambda>e. e \<noteq> RedisNil) elements) in if i < length elements then Some i else None)"

text \<open>\<open>reply->str\<close>, which is a null pointer in a reply that is no text.\<close>

fun replyStr :: "RedisReply \<Rightarrow> bytes result" where
  "replyStr (RedisString s) = Inr s"
| "replyStr (RedisStatus s) = Inr s"
| "replyStr (RedisError s) = Inr s"
| "replyStr _ = Inl NullDeref"

fun replyStrs :: "RedisReply list \<Rightarrow> bytes list result" where
  "replyStrs [] = Inr []"
| "replyStrs (e # es) = rbind (replyStr e) (\<lambda>s. rbind (replyStrs es) (\<lambda>ss. Inr (s # ss)))"

definition bytesText :: "bytes \<Rightarrow> string" where
  "bytesText bs = map (\<lambda>b. char_of (unat b)) bs"

definition redisNumber :: "bytes \<Rightarrow> u64" where
  "redisNumber s = c_strtoull16 (bytesText (c_str s))"

definition hexOf :: "'a::len word \<Rightarrow> bytes" where
  "hexOf w = strBytes (fmtHex (unat w))"

text \<open>Whether a request that is answered with a status worked, and one that is answered with a number.\<close>

fun redisStatusOk :: "RedisReply option \<Rightarrow> bool" where
  "redisStatusOk (Some (RedisStatus _)) = True"
| "redisStatusOk _ = False"

fun redisIntegerOk :: "RedisReply option \<Rightarrow> bool" where
  "redisIntegerOk (Some (RedisInteger _)) = True"
| "redisIntegerOk _ = False"

definition redisFlushDatabase :: "('h, 'k, 'v, 'r) RedisEnv \<Rightarrow> 'r \<Rightarrow> bool \<times> 'r" where
  "redisFlushDatabase env r = (let (reply, r) = redisCommandDbg env r (strBytes ''FLUSHALL'') in (redisStatusOk reply, r))"

section \<open>Keys and fields\<close>

record RedisGameSessionKey =
  rk_routerId :: u16
  rk_mapId :: u16
  rk_accountId :: u64

record RedisSocketSessionKey =
  rs_routerId :: u16
  rs_sessionKey :: string

definition gameKeyText :: "RedisGameSessionKey \<Rightarrow> bytes" where
  "gameKeyText key = strBytes ''zone'' @ hexOf (rk_routerId key) @ strBytes '':map'' @ hexOf (rk_mapId key) @
     strBytes '':acc'' @ hexOf (rk_accountId key)"

definition socketKeyText :: "RedisSocketSessionKey \<Rightarrow> bytes" where
  "socketKeyText key = strBytes ''zone'' @ hexOf (rs_routerId key) @ strBytes '':socket'' @ strBytes (rs_sessionKey key)"

definition redisAccountSessionsStr :: "string list" where
  "redisAccountSessionsStr =
    [''accountName'', ''sessionKey'', ''privilege'', ''commandersCountMax'']"

definition redisEquipmentStr :: "string list" where
  "redisEquipmentStr =
    [''head_top'', ''head_middle'', ''itemUnk1'', ''body_armor'', ''gloves'', ''boots'', ''helmet'', ''bracelet'',
     ''weapon'', ''shield'', ''costume'', ''itemUnk3'', ''itemUnk4'', ''itemUnk5'', ''leg_armor'', ''itemUnk6'',
     ''itemUnk7'', ''ring_left'', ''ring_right'', ''necklace'']"

definition redisCommanderStr :: "string list" where
  "redisCommanderStr =
    [''mapId'', ''commanderName'', ''familyName'', ''accountId'', ''classId'', ''jobId'', ''gender'', ''level'',
     ''hairId'', ''pose'', ''posX'', ''posY'', ''posZ'', ''barrackPosX'', ''barrackPosY'', ''barrackPosZ'',
     ''currentXP'', ''maxXP'', ''pcId'', ''socialInfoId'', ''commanderId'', ''currentHP'', ''maxHP'', ''currentSP'',
     ''maxSP'', ''currentStamina'', ''maxStamina'']"

definition redisGameSessionsStr :: "string list" where
  "redisGameSessionsStr = redisAccountSessionsStr @ redisCommanderStr @ redisEquipmentStr"

definition redisSocketSessionsStr :: "string list" where
  "redisSocketSessionsStr = [''accountId'', ''routerId'', ''mapId'', ''authenticated'']"

text \<open>Fields behind a key, and fields with their values.\<close>

definition fieldsText :: "string list \<Rightarrow> bytes" where
  "fieldsText fs = concat (map (\<lambda>f. strBytes ('' '' @ f)) fs)"

definition valuesText :: "(string \<times> bytes) list \<Rightarrow> bytes" where
  "valuesText fvs = concat (map (\<lambda>(f, v). strBytes ('' '' @ f @ '' '') @ v) fvs)"

section \<open>The socket session\<close>

definition redisUpdateSocketSession ::
    "('h, 'k, 'v, 'r) RedisEnv \<Rightarrow> 'r \<Rightarrow> RedisSocketSessionKey \<Rightarrow> SocketSession \<Rightarrow> bool \<times> 'r" where
  "redisUpdateSocketSession env r key socketSession =
     (let (reply, r) = redisCommandDbg env r (strBytes ''HMSET '' @ socketKeyText key @ valuesText
           [(''accountId'', hexOf (ss_accountId socketSession)), (''routerId'', hexOf (rs_routerId key)),
            (''mapId'', hexOf (ss_mapId socketSession)),
            (''authenticated'', strBytes (if ss_authenticated socketSession then ''1'' else ''0''))]) in
      (redisStatusOk reply, r))"

text \<open>\<open>None\<close> is \<open>false\<close>. A session that Redis does not know is made and stored.\<close>

definition redisGetSocketSession ::
    "('h, 'k, 'v, 'r) RedisEnv \<Rightarrow> 'r \<Rightarrow> RedisSocketSessionKey \<Rightarrow> (SocketSession option \<times> 'r) result" where
  "redisGetSocketSession env r key =
     (let (reply, r) = redisCommandDbg env r (strBytes ''HMGET '' @ socketKeyText key @ fieldsText redisSocketSessionsStr @ strBytes '' '') in
      case reply of
        Some (RedisArray elements) \<Rightarrow>
          if length elements \<noteq> 4 then Inr (None, r)
          else if redisAnyElementIsNull elements \<noteq> None then
            let socketSession = socketSessionInit (-1) (rs_routerId key) (-1) (rs_sessionKey key) False;
                socketKey = \<lparr> rs_routerId = ss_routerId socketSession, rs_sessionKey = ss_sessionKey socketSession \<rparr>;
                (ok, r) = redisUpdateSocketSession env r socketKey socketSession in
            Inr (if ok then Some socketSession else None, r)
          else rbind (replyStrs elements) (\<lambda>strs.
            Inr (Some \<lparr> ss_accountId = redisNumber (strs ! 0), ss_routerId = ucast (redisNumber (strs ! 1)),
              ss_mapId = ucast (redisNumber (strs ! 2)), ss_sessionKey = rs_sessionKey key,
              ss_authenticated = (redisNumber (strs ! 3) \<noteq> 0) \<rparr>, r))
      | _ \<Rightarrow> Inr (None, r))"

definition redisFlushSocketSession :: "('h, 'k, 'v, 'r) RedisEnv \<Rightarrow> 'r \<Rightarrow> RedisSocketSessionKey \<Rightarrow> bool \<times> 'r" where
  "redisFlushSocketSession env r key =
     (let (reply, r) = redisCommandDbg env r (strBytes ''DEL '' @ socketKeyText key) in (redisIntegerOk reply, r))"

section \<open>The game session\<close>

text \<open>The number of elements is not checked.\<close>

definition redisGetAccountSession ::
    "('h, 'k, 'v, 'r) RedisEnv \<Rightarrow> 'r \<Rightarrow> RedisGameSessionKey \<Rightarrow> AccountSession \<Rightarrow> (bool \<times> AccountSession \<times> 'r) result" where
  "redisGetAccountSession env r key accountSession =
     (let (reply, r) = redisCommandDbg env r (strBytes ''HMGET '' @ gameKeyText key @ fieldsText redisAccountSessionsStr) in
      case reply of
        Some (RedisArray elements) \<Rightarrow>
          if redisAnyElementIsNull elements \<noteq> None then Inr (False, accountSession, r)
          else if length elements < 4 then Inl OutOfBounds
          else rbind (replyStrs (take 4 elements)) (\<lambda>strs.
            Inr (True, accountSession
              \<lparr> as_accountName := c_strncpy ACCOUNT_SESSION_ACCOUNT_NAME_MAXSIZE (c_str (strs ! 0)),
                as_sessionKey := c_strncpy SOCKET_SESSION_ID_SIZE (c_str (strs ! 1)),
                as_privilege := ucast (redisNumber (strs ! 2)),
                as_commandersCountMax := unat (redisNumber (strs ! 3)) \<rparr>, r))
      | _ \<Rightarrow> Inr (False, accountSession, r))"

definition accountSessionZero :: AccountSession where
  "accountSessionZero = \<lparr> as_accountName = replicate ACCOUNT_SESSION_ACCOUNT_NAME_MAXSIZE 0,
     as_sessionKey = replicate SOCKET_SESSION_ID_SIZE 0, as_privilege = 0, as_accountId = 0, as_isBanned = False,
     as_timeBanned = 0, as_credits = 0, as_timeLastLogin = 0, as_familyName = replicate COMMANDER_FAMILY_NAME_SIZE 0,
     as_barrackType = 0, as_commanders = None, as_commandersCountMax = 0 \<rparr>"

text \<open>\<open>strs\<close> are the values of \<open>redisGameSessionsStr\<close>.\<close>

definition accountOfReply :: "bytes list \<Rightarrow> AccountSession" where
  "accountOfReply strs = accountSessionZero
     \<lparr> as_accountName := c_strncpy ACCOUNT_SESSION_ACCOUNT_NAME_MAXSIZE (c_str (strs ! 0)),
       as_sessionKey := c_strncpy SOCKET_SESSION_ID_SIZE (c_str (strs ! 1)),
       as_privilege := ucast (redisNumber (strs ! 2)), as_commandersCountMax := unat (redisNumber (strs ! 3)) \<rparr>"

definition redisFloat :: "('h, 'k, 'v, 'r) RedisEnv \<Rightarrow> bytes \<Rightarrow> u32" where
  "redisFloat env s = rd_strtof env (bytesText (c_str s))"

definition commanderOfReply :: "('h, 'k, 'v, 'r) RedisEnv \<Rightarrow> bytes list \<Rightarrow> ('h, 'k) Commander" where
  "commanderOfReply env strs =
    (let number = (\<lambda>i. redisNumber (strs ! i)); float = (\<lambda>i. redisFloat env (strs ! i)) in
     (commanderInit (rd_Z env) (rd_Zs env))
       \<lparr> co_commanderName := c_strncpy (COMMANDER_NAME_SIZE + 1) (c_str (strs ! 5)),
         co_familyName := c_strncpy COMMANDER_FAMILY_NAME_SIZE (c_str (strs ! 6)),
         co_accountId := number 7, co_classId := ucast (number 8), co_jobId := ucast (number 9),
         co_gender := ucast (number 10), co_level := ucast (number 11), co_hairId := ucast (number 12),
         co_pose := ucast (number 13), co_mapId := ucast (number 4),
         co_pos := \<lparr> pos_x = float 14, pos_y = float 15, pos_z = float 16 \<rparr>,
         co_barrackPos := \<lparr> pos_x = float 17, pos_y = float 18, pos_z = float 19 \<rparr>,
         co_currentXP := ucast (number 20), co_maxXP := ucast (number 21), co_pcId := ucast (number 22),
         co_socialInfoId := number 23, co_commanderId := number 24, co_currentHP := ucast (number 25),
         co_maxHP := ucast (number 26), co_currentSP := ucast (number 27), co_maxSP := ucast (number 28),
         co_currentStamina := ucast (number 29), co_maxStamina := ucast (number 30) \<rparr>)"

text \<open>A new item for every slot, up to the first that cannot be made; whether there was none such.\<close>

fun redisEquipment ::
    "('h, 'k, 'v, 'r) RedisEnv \<Rightarrow> Store \<Rightarrow> ActorFactory \<Rightarrow> bytes list \<Rightarrow> (bool \<times> addr option list \<times> Store \<times> ActorFactory) result" where
  "redisEquipment env st actors [] = Inr (True, [], st, actors)"
| "redisEquipment env st actors (s # strs) =
     rbind (rd_create env actors (ucast (redisNumber s)) 1) (\<lambda>(item, actors). case item of
       None \<Rightarrow> Inr (False, replicate (Suc (length strs)) None, st, actors)
     | Some x \<Rightarrow>
         let (a, st) = allocItem st x in
         rbind (redisEquipment env st actors strs) (\<lambda>(ok, es, st, actors). Inr (ok, Some a # es, st, actors)))"

text \<open>
  The session that is read is the last part of the result: the account and the pointer to the commander. A status
  as answer counts as success, and leaves the session zero.
\<close>

definition redisGetGameSession ::
    "('h, 'k, 'v, 'r) RedisEnv \<Rightarrow> 'r \<Rightarrow> RedisGameSessionKey \<Rightarrow> ('h, 'k) HandlerState \<Rightarrow>
     (bool \<times> ('h, 'k) HandlerState \<times> 'r \<times> AccountSession \<times> CommanderPtr) result" where
  "redisGetGameSession env r key s =
     (let (reply, r) = redisCommandDbg env r (strBytes ''HMGET '' @ gameKeyText key @ fieldsText redisGameSessionsStr) in
      case reply of
        Some (RedisStatus _) \<Rightarrow> Inr (True, s, r, accountSessionZero, NullPtr)
      | Some (RedisArray elements) \<Rightarrow>
          if length elements \<noteq> 51 \<or> redisAnyElementIsNull elements \<noteq> None then Inr (False, s, r, accountSessionZero, NullPtr)
          else
            rbind (replyStrs elements) (\<lambda>strs.
            rbind (redisEquipment env (hs_items s) (hs_actors s) (drop 31 strs)) (\<lambda>(ok, equipment, st, actors).
            let commander = commanderOfReply env strs;
                inventory = (co_inventory commander) \<lparr> inv_equippedItems := equipment \<rparr>;
                (p, cs) = allocCommander (hs_commanders s) (commander \<lparr> co_inventory := inventory \<rparr>) in
            Inr (ok, s \<lparr> hs_commanders := cs, hs_items := st, hs_actors := actors \<rparr>, r, accountOfReply strs, p)))
      | _ \<Rightarrow> Inr (False, s, r, accountSessionZero, NullPtr))"

text \<open>\<open>uninit\<close> is what the session of the caller has where nothing is written.\<close>

definition redisGetGameSessionBySocketId ::
    "('h, 'k, 'v, 'r) RedisEnv \<Rightarrow> 'r \<Rightarrow> u16 \<Rightarrow> string \<Rightarrow> AccountSession \<times> CommanderPtr \<Rightarrow> ('h, 'k) HandlerState \<Rightarrow>
     (bool \<times> ('h, 'k) HandlerState \<times> 'r \<times> AccountSession \<times> CommanderPtr) result" where
  "redisGetGameSessionBySocketId env r routerId sessionKey uninit s =
     rbind (redisGetSocketSession env r \<lparr> rs_routerId = routerId, rs_sessionKey = sessionKey \<rparr>) (\<lambda>(socketSession, r).
     case socketSession of
       None \<Rightarrow> Inr (False, s, r, uninit)
     | Some socketSession \<Rightarrow> redisGetGameSession env r
         \<lparr> rk_routerId = ss_routerId socketSession, rk_mapId = ss_mapId socketSession,
           rk_accountId = ss_accountId socketSession \<rparr> s)"

text \<open>A name as an argument of \<open>%s\<close>; the empty one is replaced by a word.\<close>

definition redisName :: "bytes \<Rightarrow> bytes" where
  "redisName name = (if c_str name = [] then strBytes ''__EMPTY_STRING__'' else c_str name)"

definition accountValues :: "string \<Rightarrow> AccountSession \<Rightarrow> (string \<times> bytes) list" where
  "accountValues socketId account =
     [(''sessionKey'', strBytes socketId), (''accountName'', c_str (as_accountName account)),
      (''privilege'', hexOf (as_privilege account)),
      (''commandersCountMax'', hexOf (of_nat (as_commandersCountMax account) :: u32))]"

definition commanderValues :: "('h, 'k, 'v, 'r) RedisEnv \<Rightarrow> RedisGameSessionKey \<Rightarrow> ('h, 'k) Commander \<Rightarrow> (string \<times> bytes) list" where
  "commanderValues env key commander =
    (let commanderName = co_commanderName commander; familyName = co_familyName commander in
       [(''mapId'', hexOf (co_mapId commander)), (''commanderName'', redisName commanderName),
        (''familyName'', redisName familyName), (''accountId'', hexOf (rk_accountId key)),
        (''classId'', hexOf (co_classId commander)), (''jobId'', hexOf (co_jobId commander)),
        (''gender'', hexOf (co_gender commander)), (''level'', hexOf (co_level commander)),
        (''hairId'', hexOf (co_hairId commander)), (''pose'', hexOf (co_pose commander)),
        (''posX'', strBytes (rd_fmtFloat env (pos_x (co_pos commander)))), (''posY'', strBytes (rd_fmtFloat env (pos_y (co_pos commander)))),
        (''posZ'', strBytes (rd_fmtFloat env (pos_z (co_pos commander)))), (''barrackPosX'', strBytes (rd_fmtFloat env (pos_x (co_barrackPos commander)))),
        (''barrackPosY'', strBytes (rd_fmtFloat env (pos_y (co_barrackPos commander)))), (''barrackPosZ'', strBytes (rd_fmtFloat env (pos_z (co_barrackPos commander)))),
        (''currentXP'', hexOf (co_currentXP commander)), (''maxXP'', hexOf (co_maxXP commander)),
        (''pcId'', hexOf (co_pcId commander)), (''socialInfoId'', hexOf (co_socialInfoId commander)),
        (''commanderId'', hexOf (co_commanderId commander)), (''currentHP'', hexOf (co_currentHP commander)),
        (''maxHP'', hexOf (co_maxHP commander)), (''currentSP'', hexOf (co_currentSP commander)),
        (''maxSP'', hexOf (co_maxSP commander)), (''currentStamina'', hexOf (co_currentStamina commander)),
        (''maxStamina'', hexOf (co_maxStamina commander))])"

definition redisUpdateGameSession ::
    "('h, 'k, 'v, 'r) RedisEnv \<Rightarrow> 'r \<Rightarrow> RedisGameSessionKey \<Rightarrow> string \<Rightarrow> AccountSession \<Rightarrow> CommanderPtr \<Rightarrow>
     ('h, 'k) Commanders \<Rightarrow> Store \<Rightarrow> (bool \<times> 'r) result" where
  "redisUpdateGameSession env r key socketId account p cs st =
     (let hmset = strBytes ''HMSET '' @ gameKeyText key in
      if 0 \<notin> set (as_accountName account) then Inl OutOfBounds
      else
        let (reply0, r) = redisCommandDbg env r (hmset @ valuesText (accountValues socketId account)) in
        if p = NullPtr then Inr (redisStatusOk reply0, r)
        else rbind (derefCommander cs p) (\<lambda>commander.
          if 0 \<notin> set (co_commanderName commander) \<or> 0 \<notin> set (co_familyName commander) then Inl OutOfBounds
          else
            let (reply1, r) = redisCommandDbg env r (hmset @ valuesText (commanderValues env key commander)) in
            rbind (equipmentIds st (inv_equippedItems (co_inventory commander))) (\<lambda>ids.
            let (reply2, r) = redisCommandDbg env r (hmset @ valuesText (zip redisEquipmentStr (map hexOf ids))) in
            Inr (redisStatusOk reply0 \<and> redisStatusOk reply1 \<and> redisStatusOk reply2, r))))"

definition redisMoveGameSession ::
    "('h, 'k, 'v, 'r) RedisEnv \<Rightarrow> 'r \<Rightarrow> RedisGameSessionKey \<Rightarrow> RedisGameSessionKey \<Rightarrow> bool \<times> 'r" where
  "redisMoveGameSession env r source target =
     (let (reply, r) = redisCommandDbg env r (strBytes ''RENAME '' @ gameKeyText source @ strBytes '' '' @ gameKeyText target) in
      (redisStatusOk reply, r))"

definition redisFlushGameSession :: "('h, 'k, 'v, 'r) RedisEnv \<Rightarrow> 'r \<Rightarrow> RedisGameSessionKey \<Rightarrow> bool \<times> 'r" where
  "redisFlushGameSession env r key =
     (let (reply, r) = redisCommandDbg env r (strBytes ''DEL '' @ gameKeyText key) in (redisIntegerOk reply, r))"

section \<open>The whole session\<close>

definition gameKeyOf :: "SocketSession \<Rightarrow> RedisGameSessionKey" where
  "gameKeyOf socket = \<lparr> rk_routerId = ss_routerId socket, rk_mapId = ss_mapId socket, rk_accountId = ss_accountId socket \<rparr>"

definition redisUpdateSession :: "('h, 'k, 'v, 'r) RedisEnv \<Rightarrow> 'r \<Rightarrow> ('h, 'k) HandlerState \<Rightarrow> (bool \<times> 'r) result" where
  "redisUpdateSession env r s =
     (let session = hs_session s; socket = se_socket session;
          (ok, r) = redisUpdateSocketSession env r
            \<lparr> rs_routerId = ss_routerId socket, rs_sessionKey = ss_sessionKey socket \<rparr> socket in
      if \<not> ok then Inr (False, r)
      else redisUpdateGameSession env r (gameKeyOf socket) (ss_sessionKey socket) (se_accountSession session)
        (se_currentCommander session) (hs_commanders s) (hs_items s))"

definition redisFlushSession :: "('h, 'k, 'v, 'r) RedisEnv \<Rightarrow> 'r \<Rightarrow> RedisSocketSessionKey \<Rightarrow> (bool \<times> 'r) result" where
  "redisFlushSession env r socketKey =
     rbind (redisGetSocketSession env r socketKey) (\<lambda>(socketSession, r).
     case socketSession of
       None \<Rightarrow> Inr (False, r)
     | Some socketSession \<Rightarrow>
         let (ok, r) = redisFlushGameSession env r (gameKeyOf socketSession) in
         if \<not> ok then Inr (False, r) else Inr (redisFlushSocketSession env r socketKey))"

section \<open>The clients around\<close>

text \<open>\<open>abs\<close> is the function of the C library for integers: the difference is cut to one and made a float again.\<close>

definition mathIsWithin2DManhattanDistance ::
    "('h, 'k, 'v, 'r) RedisEnv \<Rightarrow> PositionXZ \<Rightarrow> PositionXZ \<Rightarrow> u32 \<Rightarrow> bool" where
  "mathIsWithin2DManhattanDistance env pos1 pos2 distance =
     (let dx = floatOfInt \<bar>rd_toInt env (rd_fsub env (xz_x pos2) (xz_x pos1))\<bar>;
          dz = floatOfInt \<bar>rd_toInt env (rd_fsub env (xz_z pos2) (xz_z pos1))\<bar> in
      rd_less env dx distance \<and> rd_less env dz distance)"

text \<open>The loop over the keys of one page; \<open>None\<close> is the way to \<open>cleanup\<close> with \<open>status = false\<close>.\<close>

fun scanKeys ::
    "('h, 'k, 'v, 'r) RedisEnv \<Rightarrow> PositionXZ \<Rightarrow> u32 \<Rightarrow> string option \<Rightarrow> 'r \<Rightarrow> RedisReply list \<Rightarrow> string list \<Rightarrow>
     (string list option \<times> 'r) result" where
  "scanKeys env center radius ignored r [] clients = Inr (Some clients, r)"
| "scanKeys env center radius ignored r (e # es) clients =
     rbind (replyStr e) (\<lambda>accountKey.
     let (posReply, r) = redisCommandDbg env r (strBytes ''HMGET '' @ c_str accountKey @ fieldsText [''posX'', ''posZ'', ''sessionKey'']) in
     case posReply of
       Some (RedisStatus _) \<Rightarrow> scanKeys env center radius ignored r es clients
     | Some (RedisArray elements) \<Rightarrow>
         if length elements \<noteq> 3 then Inr (None, r)
         else rbind (replyStr (elements ! 0)) (\<lambda>x. rbind (replyStr (elements ! 1)) (\<lambda>z.
           let curPpos = \<lparr> xz_x = redisFloat env x, xz_z = redisFloat env z \<rparr> in
           if mathIsWithin2DManhattanDistance env curPpos center radius then
             rbind (replyStr (elements ! 2)) (\<lambda>socketId.
             let socketId = bytesText (c_str socketId) in
             scanKeys env center radius ignored r es (if ignored = Some socketId then clients else clients @ [socketId]))
           else scanKeys env center radius ignored r es clients))
     | _ \<Rightarrow> Inr (None, r))"

text \<open>One round of the \<open>do\<close> loop: the next iterator and the list. \<open>iterator\<close> is an \<open>int\<close>.\<close>

definition scanPage ::
    "('h, 'k, 'v, 'r) RedisEnv \<Rightarrow> u16 \<Rightarrow> u16 \<Rightarrow> PositionXZ \<Rightarrow> u32 \<Rightarrow> string option \<Rightarrow> 'r \<Rightarrow> u32 \<Rightarrow> string list \<Rightarrow>
     ((u32 \<times> string list) option \<times> 'r) result" where
  "scanPage env routerId mapId center radius ignored r iterator clients =
     (let (reply, r) = redisCommandDbg env r (strBytes (''SCAN '' @ fmtInt (sint iterator) @ '' MATCH zone'') @ hexOf routerId @
          strBytes '':map'' @ hexOf mapId @ strBytes '':acc*'') in
      case reply of
        Some (RedisArray (cursor # keys # _)) \<Rightarrow>
          rbind (replyStr cursor) (\<lambda>cursor.
          rbind (scanKeys env center radius ignored r (case keys of RedisArray es \<Rightarrow> es | _ \<Rightarrow> []) clients) (\<lambda>(found, r).
          Inr (map_option (Pair (ucast (c_strtoul10 (bytesText (c_str cursor))))) found, r)))
      | Some (RedisArray _) \<Rightarrow> Inl OutOfBounds
      | _ \<Rightarrow> Inr (None, r))"

text \<open>The rounds go on until the server gives the iterator 0; if it never does, the result is \<open>None\<close>.\<close>

partial_function (option) scanLoop ::
    "('h, 'k, 'v, 'r) RedisEnv \<Rightarrow> u16 \<Rightarrow> u16 \<Rightarrow> PositionXZ \<Rightarrow> u32 \<Rightarrow> string option \<Rightarrow> 'r \<Rightarrow> u32 \<Rightarrow> string list \<Rightarrow>
     (string list option \<times> 'r) result option" where
  "scanLoop env routerId mapId center radius ignored r iterator clients =
     (case scanPage env routerId mapId center radius ignored r iterator clients of
        Inl e \<Rightarrow> Some (Inl e)
      | Inr (page, r) \<Rightarrow>
          (case page of
             None \<Rightarrow> Some (Inr (None, r))
           | Some (iterator, clients) \<Rightarrow>
               if iterator = 0 then Some (Inr (Some clients, r))
               else scanLoop env routerId mapId center radius ignored r iterator clients))"

definition redisGetClientsWithinDistance ::
    "('h, 'k, 'v, 'r) RedisEnv \<Rightarrow> 'r \<Rightarrow> u16 \<Rightarrow> u16 \<Rightarrow> PositionXZ \<Rightarrow> u32 \<Rightarrow> string option \<Rightarrow> (string list option \<times> 'r) result option" where
  "redisGetClientsWithinDistance env r routerId mapId center radius ignored =
     scanLoop env routerId mapId center radius ignored r 0 []"

end
