(* ===== verification/AdminCmd.thy ===== *)
theory AdminCmd
  imports Redis ZoneDumps
begin

text \<open>
  \<open>src/zone_server/zone_handler/admin_cmd.c\<close>: the commands that an administrator types into the chat. The arguments
  of a command are the memory behind its name: \<open>strtok\<close> overwrites the blank there, and a command without one has
  its arguments behind the end of the buffer.
\<close>

text \<open>
  What the handlers of the zone use: Redis, the table of the commands (its entries stand for the functions), the
  conversions \<open>atof\<close> and \<open>%.0f\<close> of the C library, the memory behind a string literal, the clock, \<open>deflate\<close>, the sum
  and the product of two floats, the commanders in MySQL and \<open>itemFactoryCreateEquipable\<close>.
\<close>

datatype AdminCommand = CmdSpawnPc | CmdJump | CmdAddItem | CmdAddSkill | CmdTest | CmdWhere | CmdChangeCamera
  | CmdSetStamina | CmdSetSP | CmdSetLevel | CmdSetJobPoints | CmdSetSpeed

record ('h, 'k, 'v, 'r, 'c) ZoneHandlerEnv =
  zh_redis :: "('h, 'k, 'v, 'r) RedisEnv"
  zh_Zc :: "('c, AdminCommand) zhash_ops"
  zh_adminCommands :: 'c
  zh_atof :: "string \<Rightarrow> u32"
  zh_fmtFloat0 :: "u32 \<Rightarrow> string"
  zh_fadd :: "u32 \<Rightarrow> u32 \<Rightarrow> u32"
  zh_fmul :: "u32 \<Rightarrow> u32 \<Rightarrow> u32"
  zh_rodata :: bytes
  zh_tv_sec :: u64
  zh_tv_usec :: u64
  zh_deflate :: "bytes \<Rightarrow> bytes option"
  zh_commandersSql :: "u64 \<Rightarrow> CommanderRow list option"
  zh_createEquipable :: ItemCreate
  zh_routerId :: u16

section \<open>The table\<close>

definition adminCommandNames :: "(string \<times> AdminCommand) list" where
  "adminCommandNames = [(''spawn'', CmdSpawnPc), (''jump'', CmdJump), (''additem'', CmdAddItem), (''addskill'', CmdAddSkill),
     (''test'', CmdTest), (''where'', CmdWhere), (''changeCamera'', CmdChangeCamera), (''setStamina'', CmdSetStamina),
     (''setSP'', CmdSetSP), (''setLevel'', CmdSetLevel), (''setJobPoints'', CmdSetJobPoints), (''setSpeed'', CmdSetSpeed)]"

text \<open>The result of \<open>zhash_insert\<close> is ignored.\<close>

definition adminCmdInit :: "('c, AdminCommand) zhash_ops \<Rightarrow> 'c" where
  "adminCmdInit Z = foldl (\<lambda>h (name, f). case zhash_insert Z h name f of None \<Rightarrow> h | Some h \<Rightarrow> h) (zhash_new Z) adminCommandNames"

section \<open>Text in memory\<close>

abbreviation (input) NUL :: char where "NUL \<equiv> CHR 0x00"

text \<open>The C string at the beginning of a piece of memory.\<close>

definition stringAt :: "string \<Rightarrow> string result" where
  "stringAt mem = (if NUL \<in> set mem then Inr (takeWhile (\<lambda>c. c \<noteq> NUL) mem) else Inl OutOfBounds)"

text \<open>\<open>strtol (args, &args, 10)\<close>: the value and the memory from the new \<open>args\<close> on.\<close>

definition strtolAt :: "string \<Rightarrow> (int \<times> string) result" where
  "strtolAt args = rbind (stringAt args) (\<lambda>s. let (v, rest) = c_strtol s in Inr (v, drop (length s - length rest) args))"

text \<open>The name of the command and the memory behind it, after \<open>strtok (command, " ")\<close>.\<close>

definition commandNameOf :: "string \<Rightarrow> string" where
  "commandNameOf command = takeWhile (\<lambda>c. c \<noteq> CHR '' '') (dropWhile (\<lambda>c. c = CHR '' '') command)"

definition commandArgs :: "string \<Rightarrow> string" where
  "commandArgs command =
     (let lead = takeWhile (\<lambda>c. c = CHR '' '') command; name = commandNameOf command;
          behind = drop (length lead + length name) command;
          buffer = lead @ name @ (case behind of [] \<Rightarrow> [NUL] | _ # r \<Rightarrow> NUL # r @ [NUL]) in
      drop (length name + 1) buffer)"

text \<open>The words of the arguments and their number, where the loop over them finds it.\<close>

definition argsOf :: "string \<Rightarrow> (string list \<times> nat) result" where
  "argsOf args = rbind (stringAt args) (\<lambda>s. rbind (strSplit s CHR '' '') (\<lambda>arg. rbind (argCount arg 0) (\<lambda>argc.
     Inr (map the (takeWhile (\<lambda>a. a \<noteq> None) arg), argc))))"

section \<open>The commands\<close>

type_synonym ('h, 'k, 'r) Commanded = "(('h, 'k) HandlerState \<times> 'r \<times> frames) result"

definition adminCmdSetSpeed ::
    "('h, 'k) HandlerState \<Rightarrow> 'r \<Rightarrow> string \<Rightarrow> frames \<Rightarrow> ('h, 'k, 'r) Commanded" where
  "adminCmdSetSpeed s r args reply =
     rbind (strtolAt args) (\<lambda>(speed, args).
     rbind (currentCommander s) (\<lambda>commander.
     Inr (s, r, zoneBuilderMoveSpeed (co_pcId commander) (floatOfInt (sint (of_int speed :: u32))) reply)))"

text \<open>\<open>sessionKey\<close> is an \<open>uint32_t\<close>, of which \<open>socketSessionGenSessionKey\<close> reads five bytes. \<open>gameSessionInit\<close> makes a
  pointer of the first bytes of the commander, and \<open>accountSessionInit\<close> copies 33 bytes from \<open>"DummyPC"\<close>.\<close>

definition adminCmdSpawnPc ::
    "('h, 'k, 'v, 'r, 'c) ZoneHandlerEnv \<Rightarrow> ('h, 'k) HandlerState \<Rightarrow> 'r \<Rightarrow> string \<Rightarrow> frames \<Rightarrow> ('h, 'k, 'r) Commanded" where
  "adminCmdSpawnPc env s r args reply =
     rbind (currentCommander s) (\<lambda>current.
     let redis = zh_redis env;
         (accountId, seed) = r1emuGenerateRandom64 (hs_seed s);
         (socialInfoId, seed) = r1emuGenerateRandom64 seed;
         (pcId, seed) = r1emuGenerateRandom seed;
         (commanderId, seed) = r1emuGenerateRandom64 seed;
         init = commanderInit (rd_Z redis) (rd_Zs redis);
         fakePc = init
           \<lparr> co_pos := co_pos current, co_dir := co_dir current, co_accountId := accountId, co_socialInfoId := socialInfoId,
             co_pcId := pcId, co_commanderId := commanderId,
             co_familyName := mem_write (co_familyName init) 0 (strBytes (c_snprintf 64 (''PcID_'' @ fmtHex (unat pcId))) @ [0]),
             co_commanderName := mem_write (co_commanderName init) 0
               (strBytes (c_snprintf 65 (''AccountID_'' @ fmtHex (unat accountId))) @ [0]) \<rparr>;
         (sessionKey, seed) = r1emuGenerateRandom seed in
     rbind (socketSessionGenSessionKey (enc32 sessionKey)) (\<lambda>_.
     let hex = fmtHex (unat sessionKey); sessionKeyStr = replicate (8 - length hex) CHR ''0'' @ hex;
         fakeSocketSession = socketSessionInit accountId (zh_routerId env) (ss_mapId (se_socket (hs_session s))) sessionKeyStr True;
         (_, r) = redisUpdateSocketSession redis r \<lparr> rs_routerId = zh_routerId env, rs_sessionKey = sessionKeyStr \<rparr> fakeSocketSession in
     rbind (gameSessionInit (zh_rodata env) fakePc) (\<lambda>(_, fakeCommander).
     rbind (accountSessionInit (strBytes ''DummyPC'' @ [0] @ zh_rodata env) (strBytes sessionKeyStr @ replicate 3 0)
         ACCOUNT_SESSION_PRIVILEGES_ADMIN) (\<lambda>fakeAccount.
     rbind (redisUpdateGameSession redis r (gameKeyOf fakeSocketSession) sessionKeyStr fakeAccount fakeCommander (hs_commanders s) (hs_items s))
       (\<lambda>(_, r).
     let event = EnterPcEvent \<lparr> up_mapId = ss_mapId fakeSocketSession, up_commander = fakePc,
           up_newPosition = \<lparr> pos_x = 0, pos_y = 0, pos_z = 0 \<rparr> \<rparr> in
     Inr (workerDispatchEvent sessionKeyStr event (s \<lparr> hs_seed := seed \<rparr>), r, reply))))))"

text \<open>\<open>args++\<close> goes one byte on, whatever is there. The result of \<open>inventoryAddItem\<close> is ignored.\<close>

definition adminCmdAddItem ::
    "('h, 'k, 'v, 'r, 'c) ZoneHandlerEnv \<Rightarrow> ('h, 'k) HandlerState \<Rightarrow> 'r \<Rightarrow> string \<Rightarrow> frames \<Rightarrow> ('h, 'k, 'r) Commanded" where
  "adminCmdAddItem env s r args reply =
     rbind (strtolAt args) (\<lambda>(itemId, args).
     rbind (strtolAt (drop 1 args)) (\<lambda>(amount, args).
     let itemId = of_int itemId :: u32; amount = of_int amount :: u32; amount = (if amount = 0 then 1 else amount) in
     rbind (rd_create (zh_redis env) (hs_actors s) itemId amount) (\<lambda>(newItem, actors).
     let s = s \<lparr> hs_actors := actors \<rparr> in
     case newItem of
       None \<Rightarrow> Inr (s, r, reply)
     | Some item \<Rightarrow>
         let (a, st) = allocItem (hs_items s) item in
         rbind (currentCommander s) (\<lambda>commander.
         rbind (inventoryAddItem (rd_Z (zh_redis env)) (co_inventory commander) st a) (\<lambda>(_, inventory, st).
         rbind (writeCurrentCommander s (commander \<lparr> co_inventory := inventory \<rparr>)) (\<lambda>s.
         rbind (inventoryGetBagIndexByActorId inventory st (itemGetCategory (itemBase item)) (actorGetUId (item_actor (itemBase item))))
           (\<lambda>inventoryIndex.
         Inr (s \<lparr> hs_items := st \<rparr>, r, zoneBuilderItemAdd item (of_int inventoryIndex) 3 reply))))))))"

definition adminCmdAddSkill :: "('h, 'k) HandlerState \<Rightarrow> 'r \<Rightarrow> string \<Rightarrow> frames \<Rightarrow> ('h, 'k, 'r) Commanded" where
  "adminCmdAddSkill s r args reply =
     rbind (strtolAt args) (\<lambda>(skillId, args).
     rbind (strtolAt (drop 1 args)) (\<lambda>(level, args).
     let skillId = of_int skillId :: u32; skillId = (if skillId = 0 then 40001 else skillId) in
     rbind (zoneBuilderSkillAdd skillId reply) (\<lambda>reply. Inr (s, r, reply))))"

definition adminCmdJump ::
    "('h, 'k, 'v, 'r, 'c) ZoneHandlerEnv \<Rightarrow> ('h, 'k) HandlerState \<Rightarrow> 'r \<Rightarrow> string \<Rightarrow> frames \<Rightarrow> ('h, 'k, 'r) Commanded" where
  "adminCmdJump env s r args reply =
     rbind (stringAt args) (\<lambda>line.
     if line = [] then Inr (s, r, reply)
     else rbind (argsOf args) (\<lambda>(arg, argc).
       if argc \<noteq> 3 then Inr (s, r, reply)
       else
         let position = \<lparr> pos_x = zh_atof env (arg ! 0), pos_y = zh_atof env (arg ! 1), pos_z = zh_atof env (arg ! 2) \<rparr> in
         rbind (currentCommander s) (\<lambda>commander.
         rbind (writeCurrentCommander s (commander \<lparr> co_pos := position, co_dir := \<lparr> xz_x = 0, xz_z = 0 \<rparr> \<rparr>)) (\<lambda>s.
         Inr (s, r, zoneBuilderSetPos (co_pcId commander) position reply)))))"

definition adminCmdTestTexts :: "DumpText list" where
  "adminCmdTestTexts =
    [dumpRow ''[03:12:32][main.c:30 in writePacketToFile'' [0xE9, 0x0C, 0x73, 0x2A, 0x86, 0x02, 0x35, 0x00, 0xA2, 0x4E, 0x00, 0x00, 0x02, 0x01, 0x05, 0x00] 0 ''..s*..5..N......'',
     dumpRow ''[03:12:32][main.c:30 in writePacketToFile'' [0x4E, 0x61, 0x6D, 0x65, 0x00, 0x0C, 0x00, 0x44, 0x61, 0x72, 0x6B, 0x48, 0x6F, 0x72, 0x69, 0x7A] 0 ''Name...DarkHoriz'',
     dumpRow ''[03:12:32][main.c:30 in writePacketToFile'' [0x6F, 0x6E, 0x00, 0x04, 0x00, 0x57, 0x68, 0x6F, 0x00, 0x0A, 0x00, 0x4C, 0x6F, 0x74, 0x68, 0x62] 0 ''on...Who...Lothb'',
     dumpRow ''[03:12:32][main.c:30 in writePacketToFile'' [0x72, 0x6F, 0x6F, 0x6B, 0x00] 33 ''rook.'']"

definition adminCmdTest :: "('h, 'k) HandlerState \<Rightarrow> 'r \<Rightarrow> string \<Rightarrow> frames \<Rightarrow> ('h, 'k, 'r) Commanded" where
  "adminCmdTest s r args reply =
     rbind (dumpToHeap (dumpTexts (butlast adminCmdTestTexts) @ dumpText (List.last adminCmdTestTexts))) (\<lambda>memory.
     Inr (s, r, zmsg_add reply memory))"

definition adminCmdWhere ::
    "('h, 'k, 'v, 'r, 'c) ZoneHandlerEnv \<Rightarrow> ('h, 'k) HandlerState \<Rightarrow> 'r \<Rightarrow> string \<Rightarrow> frames \<Rightarrow> ('h, 'k, 'r) Commanded" where
  "adminCmdWhere env s r args reply =
     rbind (currentCommander s) (\<lambda>commander.
     let position = co_pos commander;
         message = c_snprintf 128 (''['' @ fmtDec (unat (co_mapId commander)) @ ''] x = '' @ zh_fmtFloat0 env (pos_x position)
           @ '', y = '' @ zh_fmtFloat0 env (pos_y position) @ '', z = '' @ zh_fmtFloat0 env (pos_z position)) in
     rbind (zoneBuilderChat (hs_items s) commander (strBytes message) reply) (\<lambda>reply. Inr (s, r, reply)))"

text \<open>A coordinate may be \<open>c\<close>, the current one. The position is only used if there are three or five words.\<close>

definition cameraCoordinate ::
    "('h, 'k, 'v, 'r, 'c) ZoneHandlerEnv \<Rightarrow> ('h, 'k) HandlerState \<Rightarrow> (PositionXYZ \<Rightarrow> u32) \<Rightarrow> string \<Rightarrow> u32 result" where
  "cameraCoordinate env s pick arg =
     (if arg = ''c'' then rbind (currentCommander s) (\<lambda>commander. Inr (pick (co_pos commander))) else Inr (zh_atof env arg))"

definition cameraPosition ::
    "('h, 'k, 'v, 'r, 'c) ZoneHandlerEnv \<Rightarrow> ('h, 'k) HandlerState \<Rightarrow> string list \<Rightarrow> PositionXYZ result" where
  "cameraPosition env s arg =
     rbind (cameraCoordinate env s pos_x (arg ! 0)) (\<lambda>x.
     rbind (cameraCoordinate env s pos_y (arg ! 1)) (\<lambda>y.
     rbind (cameraCoordinate env s pos_z (arg ! 2)) (\<lambda>z.
     Inr \<lparr> pos_x = x, pos_y = y, pos_z = z \<rparr>)))"

definition adminCmdChangeCamera ::
    "('h, 'k, 'v, 'r, 'c) ZoneHandlerEnv \<Rightarrow> ('h, 'k) HandlerState \<Rightarrow> 'r \<Rightarrow> string \<Rightarrow> frames \<Rightarrow> ('h, 'k, 'r) Commanded" where
  "adminCmdChangeCamera env s r args reply =
     rbind (stringAt args) (\<lambda>line.
     if line = [] then Inr (s, r, zoneBuilderChangeCamera 0 \<lparr> pos_x = 0, pos_y = 0, pos_z = 0 \<rparr> 0 0 reply)
     else rbind (argsOf args) (\<lambda>(arg, argc).
       rbind (if 3 \<le> argc then cameraPosition env s arg else Inr \<lparr> pos_x = 0, pos_y = 0, pos_z = 0 \<rparr>) (\<lambda>pos.
       if argc = 3 then Inr (s, r, zoneBuilderChangeCamera 1 pos 0x41200000 0x3F333333 reply)
       else if argc = 5 then Inr (s, r, zoneBuilderChangeCamera 1 pos (zh_atof env (arg ! 3)) (zh_atof env (arg ! 4)) reply)
       else rbind (currentCommander s) (\<lambda>commander.
         rbind (zoneBuilderChat (hs_items s) commander
           (strBytes ''Bad usage /changeCamera <x> <y> <z> {<fspd> <ispd>}'') reply) (\<lambda>reply. Inr (s, r, reply))))))"

text \<open>The commands with one or two numbers; \<open>wanted\<close> is how many there must be. Nothing is done without a text or
  with another number of words.\<close>

definition withArgs ::
    "nat \<Rightarrow> ('h, 'k) HandlerState \<Rightarrow> 'r \<Rightarrow> string \<Rightarrow> frames \<Rightarrow> (string list \<Rightarrow> ('h, 'k, 'r) Commanded) \<Rightarrow> ('h, 'k, 'r) Commanded" where
  "withArgs wanted s r args reply body =
     rbind (stringAt args) (\<lambda>line.
     if line = [] then Inr (s, r, reply)
     else rbind (argsOf args) (\<lambda>(arg, argc). if argc \<noteq> wanted then Inr (s, r, reply) else body arg))"

text \<open>\<open>atoi (arg[0]) * 1000\<close> is a product of \<open>int\<close>s.\<close>

definition adminCmdSetStamina :: "('h, 'k) HandlerState \<Rightarrow> 'r \<Rightarrow> string \<Rightarrow> frames \<Rightarrow> ('h, 'k, 'r) Commanded" where
  "adminCmdSetStamina s r args reply =
     withArgs 1 s r args reply (\<lambda>arg.
       let product = sint (c_atoi (arg ! 0)) * 1000; stamina = of_int product in
       if product < - (2 ^ 31) \<or> 2 ^ 31 \<le> product then Inl SignedOverflow
       else rbind (currentCommander s) (\<lambda>commander.
         rbind (writeCurrentCommander s (commander \<lparr> co_currentStamina := stamina \<rparr>)) (\<lambda>s.
         Inr (s, r, zoneBuilderStamina stamina reply))))"

text \<open>The command also heals the commander and shows the effects of a skill.\<close>

definition adminCmdSetSP :: "('h, 'k) HandlerState \<Rightarrow> 'r \<Rightarrow> string \<Rightarrow> frames \<Rightarrow> ('h, 'k, 'r) Commanded" where
  "adminCmdSetSP s r args reply =
     withArgs 1 s r args reply (\<lambda>arg.
       let sp = ucast (c_atoi (arg ! 0)) in
       rbind (currentCommander s) (\<lambda>commander.
       let pcId = co_pcId commander;
           reply = zoneBuilderUpdateSP pcId sp reply;
           commander = commander \<lparr> co_currentSP := sp, co_currentHP := co_currentHP commander + 10 \<rparr>;
           reply = zoneBuilderHealInfo pcId 10 (co_maxHP commander) reply;
           reply = zoneBuilderUpdateAllStatus pcId (co_currentHP commander) (co_maxHP commander) (co_currentSP commander)
             (co_maxSP commander) reply in
       rbind (writeCurrentCommander s commander) (\<lambda>s.
       rbind (zoneBuilderNormalUnk12_60 (ucast (SWAP_UINT32 0x21680100)) reply) (\<lambda>reply.
       rbind (zoneBuilderBuffAdd pcId commander reply) (\<lambda>reply.
       rbind (zoneBuilderNormalUnk10_56 pcId 40001 (co_pos commander) \<lparr> xz_x = 0, xz_z = 0 \<rparr> False reply) (\<lambda>reply.
       Inr (s, r, reply)))))))"

definition adminCmdSetLevel :: "('h, 'k) HandlerState \<Rightarrow> 'r \<Rightarrow> string \<Rightarrow> frames \<Rightarrow> ('h, 'k, 'r) Commanded" where
  "adminCmdSetLevel s r args reply =
     withArgs 1 s r args reply (\<lambda>arg.
       let level = c_atoi (arg ! 0) in
       rbind (currentCommander s) (\<lambda>commander.
       rbind (writeCurrentCommander s (commander \<lparr> co_level := level \<rparr>)) (\<lambda>s.
       Inr (s, r, zoneBuilderPCLevelUp (co_pcId commander) level reply))))"

definition adminCmdSetJobPoints :: "('h, 'k) HandlerState \<Rightarrow> 'r \<Rightarrow> string \<Rightarrow> frames \<Rightarrow> ('h, 'k, 'r) Commanded" where
  "adminCmdSetJobPoints s r args reply =
     withArgs 2 s r args reply (\<lambda>arg.
       Inr (s, r, zoneBuilderJobPoints (ucast (c_atoi (arg ! 0))) (ucast (c_atoi (arg ! 1))) reply))"

section \<open>The dispatch\<close>

definition adminCmdRun ::
    "('h, 'k, 'v, 'r, 'c) ZoneHandlerEnv \<Rightarrow> AdminCommand \<Rightarrow> ('h, 'k) HandlerState \<Rightarrow> 'r \<Rightarrow> string \<Rightarrow> frames \<Rightarrow> ('h, 'k, 'r) Commanded" where
  "adminCmdRun env handler s r args reply = (case handler of
       CmdSpawnPc \<Rightarrow> adminCmdSpawnPc env s r args reply
     | CmdJump \<Rightarrow> adminCmdJump env s r args reply
     | CmdAddItem \<Rightarrow> adminCmdAddItem env s r args reply
     | CmdAddSkill \<Rightarrow> adminCmdAddSkill s r args reply
     | CmdTest \<Rightarrow> adminCmdTest s r args reply
     | CmdWhere \<Rightarrow> adminCmdWhere env s r args reply
     | CmdChangeCamera \<Rightarrow> adminCmdChangeCamera env s r args reply
     | CmdSetStamina \<Rightarrow> adminCmdSetStamina s r args reply
     | CmdSetSP \<Rightarrow> adminCmdSetSP s r args reply
     | CmdSetLevel \<Rightarrow> adminCmdSetLevel s r args reply
     | CmdSetJobPoints \<Rightarrow> adminCmdSetJobPoints s r args reply
     | CmdSetSpeed \<Rightarrow> adminCmdSetSpeed s r args reply)"

text \<open>Whether there was such a command.\<close>

definition adminCmdProcess ::
    "('h, 'k, 'v, 'r, 'c) ZoneHandlerEnv \<Rightarrow> string \<Rightarrow> ('h, 'k) HandlerState \<Rightarrow> 'r \<Rightarrow> frames \<Rightarrow>
     (bool \<times> ('h, 'k) HandlerState \<times> 'r \<times> frames) result" where
  "adminCmdProcess env command s r reply =
     (if commandNameOf command = [] then Inr (False, s, r, reply)
      else case zhash_lookup (zh_Zc env) (zh_adminCommands env) (commandNameOf command) of
        None \<Rightarrow> Inr (False, s, r, reply)
      | Some handler \<Rightarrow> rbind (adminCmdRun env handler s r (commandArgs command) reply) (\<lambda>(s, r, reply). Inr (True, s, r, reply)))"

end
