(* ===== verification/ZoneHandler.thy ===== *)
theory ZoneHandler
  imports AdminCmd
begin

text \<open>
  \<open>src/zone_server/zone_handler/zone_handler.c\<close>: the packets of a client in the game. Most handlers answer with an
  event to the clients around; the others send packets back or change the commander. The debugging macros are
  empty, as in a release.
\<close>

type_synonym ('h, 'k, 'r) ZoneState = "('h, 'k) HandlerState \<times> 'r"
type_synonym ('h, 'k, 'r) ZoneHandled = "(PacketHandlerState \<times> ('h, 'k, 'r) ZoneState \<times> frames) result"

abbreviation (input) CZ_CONNECT :: u16 where "CZ_CONNECT \<equiv> 3001"
abbreviation (input) CZ_GAME_READY :: u16 where "CZ_GAME_READY \<equiv> 3006"
abbreviation (input) CZ_LOGOUT :: u16 where "CZ_LOGOUT \<equiv> 3008"
abbreviation (input) CZ_KEYBOARD_MOVE :: u16 where "CZ_KEYBOARD_MOVE \<equiv> 3166"
abbreviation (input) CZ_JUMP :: u16 where "CZ_JUMP \<equiv> 3168"
abbreviation (input) CZ_DASHRUN :: u16 where "CZ_DASHRUN \<equiv> 3169"
abbreviation (input) CZ_MOVE_STOP :: u16 where "CZ_MOVE_STOP \<equiv> 3172"
abbreviation (input) CZ_REST_SIT :: u16 where "CZ_REST_SIT \<equiv> 3173"
abbreviation (input) CZ_ON_AIR :: u16 where "CZ_ON_AIR \<equiv> 3174"
abbreviation (input) CZ_ON_GROUND :: u16 where "CZ_ON_GROUND \<equiv> 3175"
abbreviation (input) CZ_MOVEMENT_INFO :: u16 where "CZ_MOVEMENT_INFO \<equiv> 3176"
abbreviation (input) CZ_SKILL_GROUND :: u16 where "CZ_SKILL_GROUND \<equiv> 3179"
abbreviation (input) CZ_ROTATE :: u16 where "CZ_ROTATE \<equiv> 3183"
abbreviation (input) CZ_HEAD_ROTATE :: u16 where "CZ_HEAD_ROTATE \<equiv> 3184"
abbreviation (input) CZ_POSE :: u16 where "CZ_POSE \<equiv> 3186"
abbreviation (input) CZ_CHAT :: u16 where "CZ_CHAT \<equiv> 3187"
abbreviation (input) CZ_CHAT_LOG :: u16 where "CZ_CHAT_LOG \<equiv> 3188"
abbreviation (input) CZ_ITEM_DELETE :: u16 where "CZ_ITEM_DELETE \<equiv> 3191"
abbreviation (input) CZ_ITEM_USE :: u16 where "CZ_ITEM_USE \<equiv> 3192"
abbreviation (input) CZ_CAMPINFO :: u16 where "CZ_CAMPINFO \<equiv> 3246"
abbreviation (input) CZ_REQ_NORMAL_TX_NUMARG :: u16 where "CZ_REQ_NORMAL_TX_NUMARG \<equiv> 3305"
abbreviation (input) CZ_DYNAMIC_CASTING_START :: u16 where "CZ_DYNAMIC_CASTING_START \<equiv> 3338"
abbreviation (input) CZ_CHANGE_CONFIG :: u16 where "CZ_CHANGE_CONFIG \<equiv> 3347"
abbreviation (input) CZ_QUICKSLOT_LIST :: u16 where "CZ_QUICKSLOT_LIST \<equiv> 3361"
abbreviation (input) CZ_SWAP_ETC_INV_CHANGE_INDEX :: u16 where "CZ_SWAP_ETC_INV_CHANGE_INDEX \<equiv> 3384"
abbreviation (input) CZ_I_NEED_PARTY :: u16 where "CZ_I_NEED_PARTY \<equiv> 3585"

section \<open>Handlers without a task\<close>

definition zoneHandlerChatLog :: "('h, 'k) HandlerState \<Rightarrow> bytes \<Rightarrow> u64 \<Rightarrow> frames \<Rightarrow> ('h, 'k) Handled" where
  "zoneHandlerChatLog s packet packetSize reply = Inr (PACKET_HANDLER_OK, s, reply)"

definition zoneHandlerItemUse :: "('h, 'k) HandlerState \<Rightarrow> bytes \<Rightarrow> u64 \<Rightarrow> frames \<Rightarrow> ('h, 'k) Handled" where
  "zoneHandlerItemUse s packet packetSize reply = Inr (PACKET_HANDLER_OK, s, reply)"

definition zoneHandlerINeedParty :: "('h, 'k) HandlerState \<Rightarrow> bytes \<Rightarrow> u64 \<Rightarrow> frames \<Rightarrow> ('h, 'k) Handled" where
  "zoneHandlerINeedParty s packet packetSize reply = Inr (PACKET_HANDLER_OK, s, reply)"

definition zoneHandlerMovementInfo :: "('h, 'k) HandlerState \<Rightarrow> bytes \<Rightarrow> u64 \<Rightarrow> frames \<Rightarrow> ('h, 'k) Handled" where
  "zoneHandlerMovementInfo s packet packetSize reply = Inr (PACKET_HANDLER_OK, s, reply)"

definition zoneHandlerCzQuickSlotList :: "('h, 'k) HandlerState \<Rightarrow> bytes \<Rightarrow> u64 \<Rightarrow> frames \<Rightarrow> ('h, 'k) Handled" where
  "zoneHandlerCzQuickSlotList s packet packetSize reply = Inr (PACKET_HANDLER_OK, s, reply)"

definition zoneHandlerChangeConfig :: "('h, 'k) HandlerState \<Rightarrow> bytes \<Rightarrow> u64 \<Rightarrow> frames \<Rightarrow> ('h, 'k) Handled" where
  "zoneHandlerChangeConfig s packet packetSize reply = Inr (PACKET_HANDLER_OK, s, reply)"

definition zoneHandlerOnAir :: "('h, 'k) HandlerState \<Rightarrow> bytes \<Rightarrow> u64 \<Rightarrow> frames \<Rightarrow> ('h, 'k) Handled" where
  "zoneHandlerOnAir s packet packetSize reply = Inr (PACKET_HANDLER_OK, s, reply)"

definition zoneHandlerOnGround :: "('h, 'k) HandlerState \<Rightarrow> bytes \<Rightarrow> u64 \<Rightarrow> frames \<Rightarrow> ('h, 'k) Handled" where
  "zoneHandlerOnGround s packet packetSize reply = Inr (PACKET_HANDLER_OK, s, reply)"

definition zoneHandlerDashRun :: "('h, 'k) HandlerState \<Rightarrow> bytes \<Rightarrow> u64 \<Rightarrow> frames \<Rightarrow> ('h, 'k) Handled" where
  "zoneHandlerDashRun s packet packetSize reply = Inr (PACKET_HANDLER_OK, s, reply)"

section \<open>Movements\<close>

definition positionAt :: "nat \<Rightarrow> bytes \<Rightarrow> PositionXYZ result" where
  "positionAt off packet = rbind (field off 12 packet) (\<lambda>b. Inr (decXYZ b))"

definition directionAt :: "nat \<Rightarrow> bytes \<Rightarrow> PositionXZ result" where
  "directionAt off packet = rbind (field off 8 packet) (\<lambda>b. Inr (decXZ b))"

definition numberAt :: "nat \<Rightarrow> bytes \<Rightarrow> u32 result" where
  "numberAt off packet = rbind (field off 4 packet) (\<lambda>b. Inr (dec32 b))"

definition sessionKeyOf :: "('h, 'k) HandlerState \<Rightarrow> string" where
  "sessionKeyOf s = ss_sessionKey (se_socket (hs_session s))"

text \<open>\<open>.updatePosEvent = { .mapId = ..., .commander = ... }\<close>; the other field is zero.\<close>

definition updatePosEvent :: "('h, 'k) HandlerState \<Rightarrow> ('h, 'k) Commander \<Rightarrow> ('h, 'k) GameEventUpdatePosition" where
  "updatePosEvent s commander = \<lparr> up_mapId = ss_mapId (se_socket (hs_session s)), up_commander = commander,
     up_newPosition = \<lparr> pos_x = 0, pos_y = 0, pos_z = 0 \<rparr> \<rparr>"

definition zoneHandlerRestSit :: "('h, 'k) HandlerState \<Rightarrow> bytes \<Rightarrow> u64 \<Rightarrow> frames \<Rightarrow> ('h, 'k) Handled" where
  "zoneHandlerRestSit s packet packetSize reply =
     checked 0 packetSize CZ_REST_SIT s reply
       (rbind (currentCommander s) (\<lambda>commander.
        Inr (PACKET_HANDLER_OK, workerDispatchEvent (sessionKeyOf s) (RestSitEvent (co_pcId commander)) s, reply)))"

definition zoneHandlerLogout :: "('h, 'k) HandlerState \<Rightarrow> bytes \<Rightarrow> u64 \<Rightarrow> frames \<Rightarrow> ('h, 'k) Handled" where
  "zoneHandlerLogout s packet packetSize reply =
     checked 1 packetSize CZ_LOGOUT s reply
       (let reply = zoneBuilderLogout reply in
        rbind (currentCommander s) (\<lambda>commander.
        Inr (PACKET_HANDLER_OK, workerDispatchEvent (sessionKeyOf s) (LeaveEvent (co_pcId commander)) s, reply)))"

definition zoneHandlerMoveStop :: "('h, 'k) HandlerState \<Rightarrow> bytes \<Rightarrow> u64 \<Rightarrow> frames \<Rightarrow> ('h, 'k) Handled" where
  "zoneHandlerMoveStop s packet packetSize reply =
     checked 25 packetSize CZ_MOVE_STOP s reply
       (rbind (currentCommander s) (\<lambda>commander.
        rbind (positionAt 1 packet) (\<lambda>position.
        rbind (directionAt 13 packet) (\<lambda>direction.
        rbind (numberAt 21 packet) (\<lambda>timestamp.
        let event = MoveStopEvent (updatePosEvent s commander) position direction timestamp in
        Inr (PACKET_HANDLER_OK, workerDispatchEvent (sessionKeyOf s) event s, reply))))))"

definition zoneHandlerKeyboardMove :: "('h, 'k) HandlerState \<Rightarrow> bytes \<Rightarrow> u64 \<Rightarrow> frames \<Rightarrow> ('h, 'k) Handled" where
  "zoneHandlerKeyboardMove s packet packetSize reply =
     checked 31 packetSize CZ_KEYBOARD_MOVE s reply
       (rbind (currentCommander s) (\<lambda>commander.
        rbind (positionAt 1 packet) (\<lambda>position.
        rbind (directionAt 13 packet) (\<lambda>direction.
        rbind (numberAt 27 packet) (\<lambda>timestamp.
        let commander = commander \<lparr> co_pos := position, co_dir := direction \<rparr> in
        rbind (writeCurrentCommander s commander) (\<lambda>s.
        let event = CommanderMoveEvent (updatePosEvent s commander) position direction timestamp in
        Inr (PACKET_HANDLER_UPDATE_SESSION, workerDispatchEvent (sessionKeyOf s) event s, reply)))))))"

definition zoneHandlerJump :: "('h, 'k) HandlerState \<Rightarrow> bytes \<Rightarrow> u64 \<Rightarrow> frames \<Rightarrow> ('h, 'k) Handled" where
  "zoneHandlerJump s packet packetSize reply =
     checked 1 packetSize CZ_JUMP s reply
       (rbind (currentCommander s) (\<lambda>commander.
        let event = JumpEvent (updatePosEvent s commander) 0x43AF0000 in
        Inr (PACKET_HANDLER_OK, workerDispatchEvent (sessionKeyOf s) event s, reply)))"

definition zoneHandlerHeadRotate :: "('h, 'k) HandlerState \<Rightarrow> bytes \<Rightarrow> u64 \<Rightarrow> frames \<Rightarrow> ('h, 'k) Handled" where
  "zoneHandlerHeadRotate s packet packetSize reply =
     checked 8 packetSize CZ_HEAD_ROTATE s reply
       (rbind (currentCommander s) (\<lambda>commander.
        rbind (directionAt 0 packet) (\<lambda>direction.
        let event = HeadRotateEvent (co_pcId commander) direction in
        Inr (PACKET_HANDLER_OK, workerDispatchEvent (sessionKeyOf s) event s, reply))))"

definition zoneHandlerRotate :: "('h, 'k) HandlerState \<Rightarrow> bytes \<Rightarrow> u64 \<Rightarrow> frames \<Rightarrow> ('h, 'k) Handled" where
  "zoneHandlerRotate s packet packetSize reply =
     checked 8 packetSize CZ_ROTATE s reply
       (rbind (currentCommander s) (\<lambda>commander.
        rbind (directionAt 0 packet) (\<lambda>direction.
        let event = RotateEvent (co_pcId commander) direction in
        Inr (PACKET_HANDLER_OK, workerDispatchEvent (sessionKeyOf s) event s, reply))))"

text \<open>The position is the one of the commander, not the one in the packet.\<close>

definition zoneHandlerPose :: "('h, 'k) HandlerState \<Rightarrow> bytes \<Rightarrow> u64 \<Rightarrow> frames \<Rightarrow> ('h, 'k) Handled" where
  "zoneHandlerPose s packet packetSize reply =
     checked 22 packetSize CZ_POSE s reply
       (rbind (currentCommander s) (\<lambda>commander.
        rbind (field 0 2 packet) (\<lambda>poseId.
        rbind (directionAt 14 packet) (\<lambda>direction.
        let event = PoseEvent (co_pcId commander) (dec16 poseId) (co_pos commander) direction in
        Inr (PACKET_HANDLER_OK, workerDispatchEvent (sessionKeyOf s) event s, reply)))))"

definition zoneHandlerCampInfo :: "('h, 'k) HandlerState \<Rightarrow> bytes \<Rightarrow> u64 \<Rightarrow> frames \<Rightarrow> ('h, 'k) Handled" where
  "zoneHandlerCampInfo s packet packetSize reply =
     checked 8 packetSize CZ_CAMPINFO s reply
       (Inr (PACKET_HANDLER_OK, s, zoneBuilderCampInfo (ss_accountId (se_socket (hs_session s))) reply))"

section \<open>Chat\<close>

text \<open>
  The text has as many bytes as the header announces, less 12, as a \<open>size_t\<close>. Its last byte is overwritten, a text
  of an administrator that begins with a slash is a command, and any other text is an event.
\<close>

definition zoneHandlerChat ::
    "('h, 'k, 'v, 'r, 'c) ZoneHandlerEnv \<Rightarrow> ('h, 'k, 'r) ZoneState \<Rightarrow> bytes \<Rightarrow> u64 \<Rightarrow> frames \<Rightarrow> ('h, 'k, 'r) ZoneHandled" where
  "zoneHandlerChat env sr packet packetSize reply =
     rbind (field 0 2 packet) (\<lambda>b.
     let (s, r) = sr; msgSize = (ucast (dec16 b) :: u64) - 10 - 2 in
     if \<not> checkPacket (unat (msgSize + 2)) packetSize CZ_CHAT then Inr (PACKET_HANDLER_ERROR, (s, r), reply)
     else if length packet \<le> unat (msgSize + 1) then Inl OutOfBounds
     else
       let packet = packet[unat (msgSize + 1) := 0] in
       rbind (if as_privilege (hs_accountSession s) \<le> ACCOUNT_SESSION_PRIVILEGES_ADMIN then
           rbind (field 2 1 packet) (\<lambda>c.
           if c = strBytes ''/'' then rbind (stringAt (bytesText (drop 3 packet))) (\<lambda>command. adminCmdProcess env command s r reply)
           else Inr (False, s, r, reply))
         else Inr (False, s, r, reply)) (\<lambda>(done, s, r, reply).
       if done then Inr (PACKET_HANDLER_UPDATE_SESSION, (s, r), reply)
       else
         rbind (currentCommander s) (\<lambda>commander.
         rbind (field 2 (unat msgSize) packet) (\<lambda>chatText.
         let s = workerDispatchEvent (sessionKeyOf s) (ChatEvent commander chatText) s in
         Inr (PACKET_HANDLER_UPDATE_SESSION, (s, r), reply)))))"

section \<open>Skills\<close>

definition zoneHandlerSkillGround ::
    "('h, 'k, 'v, 'r, 'c) ZoneHandlerEnv \<Rightarrow> ('h, 'k) HandlerState \<Rightarrow> bytes \<Rightarrow> u64 \<Rightarrow> frames \<Rightarrow> ('h, 'k) Handled" where
  "zoneHandlerSkillGround env s packet packetSize reply =
     checked 47 packetSize CZ_SKILL_GROUND s reply
       (rbind (currentCommander s) (\<lambda>commander.
        rbind (numberAt 1 packet) (\<lambda>skillId.
        rbind (positionAt 9 packet) (\<lambda>pos1.
        rbind (positionAt 21 packet) (\<lambda>pos2.
        rbind (directionAt 33 packet) (\<lambda>direction.
        let pcId = co_pcId commander in
        rbind (zoneBuilderNormalUnk10_56 pcId skillId pos1 direction False reply) (\<lambda>reply.
        let (counter, reply) = zoneBuilderSkillReady (hs_skillCounter s) pcId skillId pos1 pos2 reply;
            s = s \<lparr> hs_skillCounter := counter \<rparr>;
            step = (\<lambda>x d. zh_fadd env x (zh_fmul env d 0x41A00000));
            skillPos = pos1 \<lparr> pos_x := step (pos_x pos1) (xz_x direction), pos_z := step (pos_z pos1) (xz_z direction) \<rparr> in
        rbind (zoneBuilderNormalUnk10_56 pcId skillId skillPos direction True reply) (\<lambda>reply.
        rbind (zoneBuilderNormalUnk11_1c pcId pos1 direction reply) (\<lambda>reply.
        let reply = zoneBuilderSkillRangeFan pcId pos1 direction reply;
            reply = zoneBuilderSkillMeleeGround pcId skillId pos1 direction reply in
        Inr (PACKET_HANDLER_OK, s, reply))))))))))"

text \<open>The size of the packet is not checked.\<close>

definition zoneHandlerReqNormalTxNumArg :: "('h, 'k) HandlerState \<Rightarrow> bytes \<Rightarrow> u64 \<Rightarrow> frames \<Rightarrow> ('h, 'k) Handled" where
  "zoneHandlerReqNormalTxNumArg s packet packetSize reply =
     (let reply = zoneBuilderJobPoints 4001 1 reply in
      rbind (numberAt 8 packet) (\<lambda>classId.
      rbind (zoneBuilderSkillAdd classId reply) (\<lambda>reply.
      Inr (PACKET_HANDLER_OK, s, reply))))"

text \<open>The two numbers are the bytes of floats, but the cast converts their values.\<close>

definition castingDirection :: PositionXZ where
  "castingDirection = \<lparr> xz_x = floatOfInt (uint (SWAP_UINT32 0xEF04353F)), xz_z = floatOfInt (uint (SWAP_UINT32 0xF70435BF)) \<rparr>"

definition zoneHandlerDynamicCastingStart :: "('h, 'k) HandlerState \<Rightarrow> bytes \<Rightarrow> u64 \<Rightarrow> frames \<Rightarrow> ('h, 'k) Handled" where
  "zoneHandlerDynamicCastingStart s packet packetSize reply =
     rbind (currentCommander s) (\<lambda>commander.
     let pcId = co_pcId commander; pos = co_pos commander; reply = zoneBuilderPcMoveStop pcId pos castingDirection 0 reply in
     rbind (numberAt 0 packet) (\<lambda>skillId.
     rbind (zoneBuilderNormalUnk14_4c pcId skillId reply) (\<lambda>reply.
     let (counter, reply) = zoneBuilderSkillReady (hs_skillCounter s) pcId skillId pos pos reply;
         s = s \<lparr> hs_skillCounter := counter \<rparr> in
     rbind (zoneBuilderNormalUnk11_1c pcId pos castingDirection reply) (\<lambda>reply.
     let reply = zoneBuilderSkillRangeSquare pcId skillId pos pos reply in
     rbind (zoneBuilderNormalUnk10_56 pcId skillId pos castingDirection True reply) (\<lambda>reply.
     rbind (zoneBuilderBuffAdd pcId commander reply) (\<lambda>reply.
     Inr (PACKET_HANDLER_OK, s, reply)))))))"

section \<open>Items\<close>

text \<open>The item is removed, and with it freed, before the packet is made from it.\<close>

definition zoneHandlerItemDelete ::
    "('h, addr) zhash_ops \<Rightarrow> ('h, 'k) HandlerState \<Rightarrow> bytes \<Rightarrow> u64 \<Rightarrow> frames \<Rightarrow> ('h, 'k) Handled" where
  "zoneHandlerItemDelete Z s packet packetSize reply =
     checked 22 packetSize CZ_ITEM_DELETE s reply
       (rbind (currentCommander s) (\<lambda>commander.
        rbind (field 6 8 packet) (\<lambda>itemId.
        rbind (inventoryGetItemByActorId Z (co_inventory commander) (hs_items s) (dec64 itemId)) (\<lambda>item. case item of
          None \<Rightarrow> Inr (PACKET_HANDLER_ERROR, s, reply)
        | Some a \<Rightarrow>
            rbind (inventoryRemoveItem Z (co_inventory commander) (hs_items s) a) (\<lambda>(_, inventory, st).
            rbind (writeCurrentCommander s (commander \<lparr> co_inventory := inventory \<rparr>)) (\<lambda>s.
            rbind (derefItem st a) (\<lambda>x.
            Inr (PACKET_HANDLER_OK, s \<lparr> hs_items := st \<rparr>, zoneBuilderItemRemove x 3 0 reply))))))))"

definition zoneHandlerSwapEtcInvChangeIndex ::
    "('h, addr) zhash_ops \<Rightarrow> ('h, 'k) HandlerState \<Rightarrow> bytes \<Rightarrow> u64 \<Rightarrow> frames \<Rightarrow> ('h, 'k) Handled" where
  "zoneHandlerSwapEtcInvChangeIndex Z s packet packetSize reply =
     checked 25 packetSize CZ_SWAP_ETC_INV_CHANGE_INDEX s reply
       (rbind (numberAt 9 packet) (\<lambda>inventoryIndex1.
        rbind (numberAt 21 packet) (\<lambda>inventoryIndex2.
        if inventoryIndex1 = inventoryIndex2 then Inr (PACKET_HANDLER_ERROR, s, reply)
        else
          rbind (currentCommander s) (\<lambda>commander.
          rbind (field 1 8 packet) (\<lambda>actorId1.
          rbind (field 13 8 packet) (\<lambda>actorId2.
          rbind (inventorySwapItems Z (co_inventory commander) (hs_items s) (dec64 actorId1) (dec64 actorId2)) (\<lambda>(ok, st).
          Inr (if ok then PACKET_HANDLER_OK else PACKET_HANDLER_ERROR, s \<lparr> hs_items := st \<rparr>, reply))))))))"

section \<open>Entering the game\<close>

text \<open>The lists that do not depend on the commander.\<close>

definition gameReadyLists :: "frames \<Rightarrow> frames result" where
  "gameReadyLists reply =
     rbind (zoneBuilderSessionObjects reply) (\<lambda>reply.
     let reply = zoneBuilderOptionList reply;
         reply = zoneBuilderSkillmapList reply;
         reply = zoneBuilderAchievePointList reply;
         reply = zoneBuilderChatMacroList reply;
         reply = zoneBuilderUiInfoList reply;
         reply = zoneBuilderNpcStateList reply in
     rbind (zoneBuilderHelpList reply) (\<lambda>reply.
     let reply = zoneBuilderMyPageMap reply;
         reply = zoneBuilderGuestPageMap reply in
     Inr (zoneBuilderStartInfo reply)))"

definition gameReadyUnknown :: "u64 \<Rightarrow> frames \<Rightarrow> frames result" where
  "gameReadyUnknown socialInfoId reply =
     rbind (zoneBuilderNormalUnk1 reply) (\<lambda>reply.
     rbind (zoneBuilderNormalUnk2 reply) (\<lambda>reply.
     rbind (zoneBuilderNormalUnk3 reply) (\<lambda>reply.
     rbind (zoneBuilderNormalUnk4 socialInfoId reply) (\<lambda>reply.
     zoneBuilderNormalUnk5 reply))))"

text \<open>The size of the packet is not checked.\<close>

definition zoneHandlerGameReady ::
    "('h, 'k, 'v, 'r, 'c) ZoneHandlerEnv \<Rightarrow> ('h, 'k) HandlerState \<Rightarrow> bytes \<Rightarrow> u64 \<Rightarrow> frames \<Rightarrow> ('h, 'k) Handled" where
  "zoneHandlerGameReady env s packet packetSize reply =
     rbind (gameReadyLists reply) (\<lambda>reply.
     rbind (currentCommander s) (\<lambda>commander.
     let inventory = co_inventory commander in
     rbind (zoneBuilderItemEquipList inventory (hs_items s) reply) (\<lambda>reply.
     rbind (zoneBuilderItemInventoryList (rd_Z (zh_redis env)) (zh_deflate env) inventory (hs_items s) reply) (\<lambda>reply.
     rbind (zoneBuilderSkillList (co_pcId commander) reply) (\<lambda>reply.
     rbind (zoneBuilderAbilityList (co_pcId commander) reply) (\<lambda>reply.
     let reply = zoneBuilderCooldownList (co_socialInfoId commander) reply;
         reply = zoneBuilderQuickSlotList reply in
     rbind (gameReadyUnknown (co_socialInfoId commander) reply) (\<lambda>reply.
     let reply = zoneBuilderStartGame 0x3F800000 0 0 0 reply;
         reply = zoneBuilderObjectProperty (co_socialInfoId commander) reply;
         reply = zoneBuilderLoginTime (zh_tv_sec env) (zh_tv_usec env) reply;
         reply = zoneBuilderMyPCEnter (co_pos commander) reply;
         s = workerDispatchEvent (sessionKeyOf s) (EnterPcEvent (updatePosEvent s commander)) s in
     rbind (zoneBuilderEnterMonster reply) (\<lambda>reply.
     rbind (zoneBuilderFaction reply) (\<lambda>reply.
     Inr (PACKET_HANDLER_UPDATE_SESSION, s, zoneBuilderMoveSpeed (co_pcId commander) 0x41F80000 reply))))))))))"

text \<open>
  The second half of a connection: the game session, the socket session and the answer. The socket session is
  changed before the game session is moved.
\<close>

definition zoneConnectSession ::
    "('h, 'k, 'v, 'r, 'c) ZoneHandlerEnv \<Rightarrow> ('h, 'k, 'r) ZoneState \<Rightarrow> u64 \<Rightarrow> frames \<Rightarrow> ('h, 'k, 'r) ZoneHandled" where
  "zoneConnectSession env sr accountId reply =
     (let (s, r) = sr; redis = zh_redis env; accountKey = \<lparr> rk_routerId = zh_routerId env, rk_mapId = -1, rk_accountId = accountId \<rparr> in
      rbind (redisGetGameSession redis r accountKey s) (\<lambda>(ok, s, r, accountSession, currentCommander).
      if \<not> ok then Inr (PACKET_HANDLER_ERROR, (s, r), reply)
      else
        rbind (derefCommander (hs_commanders s) currentCommander) (\<lambda>commander.
        let session = hs_session s;
            socket = socketSessionInit accountId (zh_routerId env) (co_mapId commander) (ss_sessionKey (se_socket session)) True;
            s = s \<lparr> hs_session := session \<lparr> se_socket := socket \<rparr> \<rparr>;
            (ok, r) = redisMoveGameSession redis r (gameKeyOf socket \<lparr> rk_mapId := -1 \<rparr>) (gameKeyOf socket) in
        if \<not> ok then Inr (PACKET_HANDLER_ERROR, (s, r), reply)
        else
          let s = s \<lparr> hs_session := (hs_session s) \<lparr> se_accountSession := accountSession, se_currentCommander := currentCommander \<rparr> \<rparr> in
          rbind (zoneBuilderConnectOk 0 0 commander reply) (\<lambda>reply.
          Inr (PACKET_HANDLER_UPDATE_SESSION, (s, r), reply)))))"

text \<open>
  The commanders that are loaded from MySQL, and the copy of the first one, are overwritten when the game session
  is read from Redis.
\<close>

definition zoneHandlerConnect ::
    "('h, 'k, 'v, 'r, 'c) ZoneHandlerEnv \<Rightarrow> ('h, 'k, 'r) ZoneState \<Rightarrow> bytes \<Rightarrow> u64 \<Rightarrow> frames \<Rightarrow> ('h, 'k, 'r) ZoneHandled" where
  "zoneHandlerConnect env sr packet packetSize reply =
     (let (s, r) = sr; redis = zh_redis env in
      rbind (field 4 8 packet) (\<lambda>b.
      let accountId = dec64 b; accountKey = \<lparr> rk_routerId = zh_routerId env, rk_mapId = -1, rk_accountId = accountId \<rparr> in
      rbind (redisGetAccountSession redis r accountKey accountSessionZero) (\<lambda>(ok, tmpAccountSession, r).
      if \<not> ok then Inr (PACKET_HANDLER_ERROR, (s, r), reply)
      else
        rbind (field 20 ACCOUNT_SESSION_ACCOUNT_NAME_MAXSIZE packet) (\<lambda>accountName.
        if c_str (as_accountName tmpAccountSession) \<noteq> c_str accountName then Inr (PACKET_HANDLER_ERROR, (s, r), reply)
        else
          rbind (mySqlLoadAccountCommanders (rd_Z redis) (rd_Zs redis) (zh_createEquipable env) (zh_commandersSql env) tmpAccountSession
              accountId s) (\<lambda>(ok, tmpAccountSession, commandersCount, s).
          if \<not> ok then Inr (PACKET_HANDLER_ERROR, (s, r), reply)
          else
            rbind (accountCommanderAt tmpAccountSession 0) (\<lambda>first.
            rbind (derefCommander (hs_commanders s) first) (\<lambda>src.
            zoneConnectSession env (s \<lparr> hs_commanders := snd (commanderDup (hs_commanders s) src) \<rparr>, r) accountId reply)))))))"

section \<open>The table\<close>

text \<open>A handler that does not use Redis.\<close>

definition withoutRedis ::
    "(('h, 'k) HandlerState \<Rightarrow> bytes \<Rightarrow> u64 \<Rightarrow> frames \<Rightarrow> ('h, 'k) Handled) \<Rightarrow> ('h, 'k, 'r) ZoneState PacketHandler" where
  "withoutRedis handler sr packet packetSize reply =
     rbind (handler (fst sr) packet packetSize reply) (\<lambda>(status, s, reply). Inr (status, (s, snd sr), reply))"

definition zoneHandlerOf :: "('h, 'k, 'v, 'r, 'c) ZoneHandlerEnv \<Rightarrow> nat \<Rightarrow> ('h, 'k, 'r) ZoneState PacketHandler option" where
  "zoneHandlerOf env type =
     (let Z = rd_Z (zh_redis env) in
      if type = unat CZ_CONNECT then Some (zoneHandlerConnect env)
      else if type = unat CZ_GAME_READY then Some (withoutRedis (zoneHandlerGameReady env))
      else if type = unat CZ_JUMP then Some (withoutRedis zoneHandlerJump)
      else if type = unat CZ_ON_AIR then Some (withoutRedis zoneHandlerOnAir)
      else if type = unat CZ_ON_GROUND then Some (withoutRedis zoneHandlerOnGround)
      else if type = unat CZ_KEYBOARD_MOVE then Some (withoutRedis zoneHandlerKeyboardMove)
      else if type = unat CZ_MOVE_STOP then Some (withoutRedis zoneHandlerMoveStop)
      else if type = unat CZ_MOVEMENT_INFO then Some (withoutRedis zoneHandlerMovementInfo)
      else if type = unat CZ_CAMPINFO then Some (withoutRedis zoneHandlerCampInfo)
      else if type = unat CZ_QUICKSLOT_LIST then Some (withoutRedis zoneHandlerCzQuickSlotList)
      else if type = unat CZ_CHANGE_CONFIG then Some (withoutRedis zoneHandlerChangeConfig)
      else if type = unat CZ_LOGOUT then Some (withoutRedis zoneHandlerLogout)
      else if type = unat CZ_ITEM_USE then Some (withoutRedis zoneHandlerItemUse)
      else if type = unat CZ_I_NEED_PARTY then Some (withoutRedis zoneHandlerINeedParty)
      else if type = unat CZ_SKILL_GROUND then Some (withoutRedis (zoneHandlerSkillGround env))
      else if type = unat CZ_REST_SIT then Some (withoutRedis zoneHandlerRestSit)
      else if type = unat CZ_CHAT then Some (zoneHandlerChat env)
      else if type = unat CZ_CHAT_LOG then Some (withoutRedis zoneHandlerChatLog)
      else if type = unat CZ_HEAD_ROTATE then Some (withoutRedis zoneHandlerHeadRotate)
      else if type = unat CZ_ROTATE then Some (withoutRedis zoneHandlerRotate)
      else if type = unat CZ_POSE then Some (withoutRedis zoneHandlerPose)
      else if type = unat CZ_DASHRUN then Some (withoutRedis zoneHandlerDashRun)
      else if type = unat CZ_ITEM_DELETE then Some (withoutRedis (zoneHandlerItemDelete Z))
      else if type = unat CZ_SWAP_ETC_INV_CHANGE_INDEX then Some (withoutRedis (zoneHandlerSwapEtcInvChangeIndex Z))
      else if type = unat CZ_REQ_NORMAL_TX_NUMARG then Some (withoutRedis zoneHandlerReqNormalTxNumArg)
      else if type = unat CZ_DYNAMIC_CASTING_START then Some (withoutRedis zoneHandlerDynamicCastingStart)
      else None)"

definition zoneHandlers :: "('h, 'k, 'v, 'r, 'c) ZoneHandlerEnv \<Rightarrow> ('h, 'k, 'r) ZoneState PacketHandler option list" where
  "zoneHandlers env = map (zoneHandlerOf env) [0..<nat PACKET_TYPE_COUNT]"

end
