(* ===== verification/ZoneProps.thy ===== *)
theory ZoneProps
  imports ZoneHandler ZoneBroadcast InventoryInv BarrackInv
begin

text \<open>
  What the zone server does with the packets of a client in the game: the pointer to the current commander stays
  valid, a movement and a line of chat reach the state and the clients around, and which packets of a client make
  the server read or write outside of its objects.
\<close>

section \<open>The current commander\<close>

text \<open>In the game the current commander exists.\<close>

definition zone_inv :: "('h, 'k) HandlerState \<Rightarrow> bool" where
  "zone_inv s \<longleftrightarrow> commanders_ok (hs_commanders s) \<and> ptr_ok (hs_commanders s) (se_currentCommander (hs_session s))
     \<and> se_currentCommander (hs_session s) \<noteq> NullPtr"

lemma zone_inv_current: "zone_inv s \<Longrightarrow> \<exists>c. currentCommander s = Inr c"
  using derefCommander_ok by (auto simp: zone_inv_def currentCommander_def)

lemma zone_inv_cong [simp]:
  "zone_inv (workerDispatchEvent k e s) = zone_inv s" "zone_inv (s \<lparr> hs_items := st \<rparr>) = zone_inv s"
  "zone_inv (s \<lparr> hs_skillCounter := n \<rparr>) = zone_inv s" "zone_inv (s \<lparr> hs_actors := f \<rparr>) = zone_inv s"
  "zone_inv (s \<lparr> hs_seed := w \<rparr>) = zone_inv s"
  by (simp_all add: zone_inv_def workerDispatchEvent_def)

lemma zone_inv_write: "writeCurrentCommander s c = Inr s' \<Longrightarrow> zone_inv s' = zone_inv s"
  by (auto simp: zone_inv_def writeCurrentCommander_def rbind_eq_Inr_iff writeCommander_keeps)

text \<open>What a command does to the state.\<close>

lemma adminCmdSpawnPc_stuck: "adminCmdSpawnPc env s r args reply \<noteq> Inr x"
proof -
  have "socketSessionGenSessionKey (enc32 k) = Inl OutOfBounds" for k
    by (simp add: socketSessionGenSessionKey_def)
  then show ?thesis
    by (simp add: adminCmdSpawnPc_def rbind_eq_Inr_iff Let_def split: prod.splits)
qed

lemmas admin_commands = adminCmdJump_def adminCmdAddItem_def adminCmdAddSkill_def adminCmdTest_def
  adminCmdWhere_def adminCmdChangeCamera_def adminCmdSetStamina_def adminCmdSetSP_def adminCmdSetLevel_def
  adminCmdSetJobPoints_def adminCmdSetSpeed_def withArgs_def

lemma adminCmdRun_inv:
  assumes "adminCmdRun env handler s r args reply = Inr (s', r', reply')" "zone_inv s"
  shows "zone_inv s'"
  using assms
  by (cases handler; auto simp: adminCmdRun_def adminCmdSpawnPc_stuck admin_commands rbind_eq_Inr_iff Let_def zone_inv_write allocItem_def
      split: prod.splits if_splits option.splits)

lemma adminCmdProcess_inv:
  assumes "adminCmdProcess env command s r reply = Inr (ok, s', r', reply')" "zone_inv s"
  shows "zone_inv s'"
  using assms adminCmdRun_inv
  by (auto simp: adminCmdProcess_def rbind_eq_Inr_iff split: if_splits option.splits)

lemma zone_inv_Chat:
  assumes "zoneHandlerChat env (s, r) packet packetSize reply = Inr (status, (s', r'), reply')" "zone_inv s"
  shows "zone_inv s'"
  using assms adminCmdProcess_inv
  by (auto simp: zoneHandlerChat_def rbind_eq_Inr_iff Let_def split: if_splits prod.splits)

text \<open>Entering the game: neither the database nor Redis invalidates a pointer, and the new one is read.\<close>

lemma redisGetGameSession_cases:
  assumes "redisGetGameSession env r key s = Inr (ok, s', r', acc, p)"
  obtains (none) "s' = s" "p = NullPtr"
  | (created) c where "allocCommander (hs_commanders s) c = (p, hs_commanders s')" "hs_session s' = hs_session s" "hs_events s' = hs_events s"
proof (cases "s' = s \<and> p = NullPtr")
  case False
  then obtain elements strs q st actors where "redisEquipment env (hs_items s) (hs_actors s) (drop 31 strs) = Inr (ok, q, st, actors)"
    "allocCommander (hs_commanders s) (commanderOfReply env strs
      \<lparr> co_inventory := (co_inventory (commanderOfReply env strs)) \<lparr> inv_equippedItems := q \<rparr> \<rparr>) = (p, hs_commanders s')"
    "hs_session s' = hs_session s" "hs_events s' = hs_events s"
    using assms by (auto simp: redisGetGameSession_def rbind_eq_Inr_iff Let_def case_prod_beta
        split: option.splits RedisReply.splits if_splits)
  then show ?thesis
    using created by blast
qed (use none in simp)

lemma derefCommander_At: "derefCommander cs p = Inr c \<Longrightarrow> ptr_ok cs p \<and> p \<noteq> NullPtr"
  by (cases p) (auto simp: ptr_ok_def split: option.splits)

lemma zone_inv_ConnectSession:
  assumes "zoneConnectSession env (s, r) accountId reply = Inr (status, (s', r'), reply')" "commanders_ok (hs_commanders s)"
  shows "commanders_ok (hs_commanders s')" "zone_inv s \<or> status = PACKET_HANDLER_UPDATE_SESSION \<Longrightarrow> zone_inv s'"
proof -
  obtain r1 key ok s2 r2 acc p where get: "redisGetGameSession (zh_redis env) r1 key s = Inr (ok, s2, r2, acc, p)"
    and cs: "hs_commanders s' = hs_commanders s2"
    and status: "status = PACKET_HANDLER_ERROR \<and> se_currentCommander (hs_session s') = se_currentCommander (hs_session s2)
      \<or> se_currentCommander (hs_session s') = p \<and> (\<exists>c. derefCommander (hs_commanders s2) p = Inr c)"
    using assms(1)
    by (auto simp: zoneConnectSession_def rbind_eq_Inr_iff Let_def case_prod_beta split: if_splits)
  from get have keeps: "commanders_ok (hs_commanders s2) \<and> hs_session s2 = hs_session s
      \<and> (\<forall>q. ptr_ok (hs_commanders s) q \<longrightarrow> ptr_ok (hs_commanders s2) q)"
    by (cases rule: redisGetGameSession_cases) (use assms(2) allocCommander_keeps in \<open>auto dest: allocCommander_keeps\<close>)
  then show "commanders_ok (hs_commanders s')"
    using cs by simp
  show "zone_inv s \<or> status = PACKET_HANDLER_UPDATE_SESSION \<Longrightarrow> zone_inv s'"
    using keeps status cs derefCommander_At by (auto simp: zone_inv_def)
qed

lemma mySqlLoadAccountCommanders_fails:
  "mySqlLoadAccountCommanders Z Zs create sql acc accountId s = Inr (False, acc', n, s') \<Longrightarrow> s' = s"
  by (auto simp: mySqlLoadAccountCommanders_def rbind_eq_Inr_iff Let_def split: option.splits)

lemma zone_inv_Connect:
  assumes "zoneHandlerConnect env (s, r) packet packetSize reply = Inr (status, (s', r'), reply')" "commanders_ok (hs_commanders s)"
  shows "zone_inv s \<or> status = PACKET_HANDLER_UPDATE_SESSION \<Longrightarrow> zone_inv s'"
proof (cases "s' = s \<and> status = PACKET_HANDLER_ERROR")
  case False
  obtain acc accountId acc' n s1 src r1 where
    load: "mySqlLoadAccountCommanders (rd_Z (zh_redis env)) (rd_Zs (zh_redis env)) (zh_createEquipable env) (zh_commandersSql env) acc
      accountId s = Inr (True, acc', n, s1)"
    and rest: "zoneConnectSession env (s1 \<lparr> hs_commanders := snd (commanderDup (hs_commanders s1) src) \<rparr>, r1) accountId reply
      = Inr (status, (s', r'), reply')"
    using assms(1) False
    by (auto simp: zoneHandlerConnect_def rbind_eq_Inr_iff Let_def mySqlLoadAccountCommanders_fails split: if_splits)
  obtain p cs where dup: "commanderDup (hs_commanders s1) src = (p, cs)"
    by fastforce
  note ok = mySqlLoadAccountCommanders_ok [OF load assms(2)]
  note keeps = allocCommander_keeps [OF dup [unfolded commanderDup_def] ok(1)]
  show "zone_inv s \<or> status = PACKET_HANDLER_UPDATE_SESSION \<Longrightarrow> zone_inv s'"
    using zone_inv_ConnectSession [OF rest] dup keeps(1,4) ok(3,4) by (auto simp: zone_inv_def)
qed (use assms in auto)

text \<open>A request of a client, whatever it sends.\<close>

inductive zone_step ::
    "('h, 'k, 'v, 'r, 'c) ZoneHandlerEnv \<Rightarrow> ('h, 'k, 'r) ZoneState \<Rightarrow> ('h, 'k, 'r) ZoneState \<Rightarrow> bool" for env where
  request: "zone_step env sr sr'"
    if "zoneHandlerOf env type = Some handler" "handler sr packet packetSize reply = Inr (status, sr', reply')"

lemmas idle_handlers = zoneHandlerChatLog_def zoneHandlerItemUse_def zoneHandlerINeedParty_def zoneHandlerMovementInfo_def
  zoneHandlerCzQuickSlotList_def zoneHandlerChangeConfig_def zoneHandlerOnAir_def zoneHandlerOnGround_def zoneHandlerDashRun_def

lemmas moving_handlers = zoneHandlerRestSit_def zoneHandlerLogout_def zoneHandlerMoveStop_def zoneHandlerKeyboardMove_def
  zoneHandlerJump_def zoneHandlerHeadRotate_def zoneHandlerRotate_def zoneHandlerPose_def zoneHandlerCampInfo_def

lemmas item_handlers = zoneHandlerItemDelete_def zoneHandlerSwapEtcInvChangeIndex_def

lemmas other_handlers = zoneHandlerSkillGround_def zoneHandlerReqNormalTxNumArg_def zoneHandlerDynamicCastingStart_def
  zoneHandlerGameReady_def

text \<open>The handlers that do not use Redis, one group after the other.\<close>

definition keeps_commander :: "(('h, 'k) HandlerState \<Rightarrow> bytes \<Rightarrow> u64 \<Rightarrow> frames \<Rightarrow> ('h, 'k) Handled) \<Rightarrow> bool" where
  "keeps_commander handler \<longleftrightarrow> (\<forall>s packet packetSize reply status s' reply'.
     handler s packet packetSize reply = Inr (status, s', reply') \<longrightarrow> zone_inv s \<longrightarrow> zone_inv s')"

lemma keeps_commander_withoutRedis:
  "keeps_commander handler \<Longrightarrow> withoutRedis handler (s, r) packet packetSize reply = Inr (status, (s', r'), reply') \<Longrightarrow> zone_inv s \<Longrightarrow> zone_inv s'"
  by (fastforce simp: withoutRedis_def rbind_eq_Inr_iff keeps_commander_def)

lemma idle_keeps:
  "keeps_commander zoneHandlerChatLog" "keeps_commander zoneHandlerItemUse" "keeps_commander zoneHandlerINeedParty"
  "keeps_commander zoneHandlerMovementInfo" "keeps_commander zoneHandlerCzQuickSlotList" "keeps_commander zoneHandlerChangeConfig"
  "keeps_commander zoneHandlerOnAir" "keeps_commander zoneHandlerOnGround" "keeps_commander zoneHandlerDashRun"
  by (simp_all add: keeps_commander_def idle_handlers)

lemma moving_keeps:
  "keeps_commander zoneHandlerRestSit" "keeps_commander zoneHandlerLogout" "keeps_commander zoneHandlerMoveStop"
  "keeps_commander zoneHandlerKeyboardMove" "keeps_commander zoneHandlerJump" "keeps_commander zoneHandlerHeadRotate"
  "keeps_commander zoneHandlerRotate" "keeps_commander zoneHandlerPose" "keeps_commander zoneHandlerCampInfo"
  by (auto simp: keeps_commander_def moving_handlers checked_Inr rbind_eq_Inr_iff Let_def zone_inv_write split: if_splits)

lemma item_keeps:
  "keeps_commander (zoneHandlerItemDelete Z)" "keeps_commander (zoneHandlerSwapEtcInvChangeIndex Z)"
  by (auto simp: keeps_commander_def item_handlers checked_Inr rbind_eq_Inr_iff Let_def zone_inv_write split: if_splits option.splits)

lemma other_keeps:
  "keeps_commander (zoneHandlerSkillGround env)" "keeps_commander zoneHandlerReqNormalTxNumArg"
  "keeps_commander zoneHandlerDynamicCastingStart" "keeps_commander (zoneHandlerGameReady env)"
  by (auto simp: keeps_commander_def other_handlers checked_Inr rbind_eq_Inr_iff Let_def case_prod_beta split: if_splits)

lemma zone_step_inv:
  assumes "zone_step env sr sr'" "zone_inv (fst sr)"
  shows "zone_inv (fst sr')"
  using assms(1)
proof (cases rule: zone_step.cases)
  case (request type handler packet packetSize reply status reply')
  obtain s r s' r' where sr: "sr = (s, r)" "sr' = (s', r')"
    by (cases sr, cases sr') auto
  consider (connect) "handler = zoneHandlerConnect env" | (chat) "handler = zoneHandlerChat env"
    | (other) h where "handler = withoutRedis h" "keeps_commander h"
    using request(1) by (auto simp: zoneHandlerOf_def Let_def idle_keeps moving_keeps item_keeps other_keeps split: if_splits)
  then show ?thesis
  proof cases
    case connect
    then show ?thesis
      using request(2) zone_inv_Connect assms(2) unfolding sr by (fastforce simp: zone_inv_def)
  next
    case chat
    then show ?thesis
      using request(2) zone_inv_Chat assms(2) unfolding sr by fastforce
  next
    case other
    then show ?thesis
      using request(2) keeps_commander_withoutRedis assms(2) unfolding sr by fastforce
  qed
qed

text \<open>C31: Once a client has entered the game, its current commander exists, whatever it sends afterwards: no handler, no
  command of an administrator and no second connection leaves the session with a pointer to nothing.\<close>

theorem zone_commander_valid:
  assumes "commanders_ok (hs_commanders s)"
    "zoneHandlerConnect env (s, r) packet packetSize reply = Inr (PACKET_HANDLER_UPDATE_SESSION, sr1, reply')"
    "(zone_step env)\<^sup>*\<^sup>* sr1 sr2"
  shows "\<exists>c. currentCommander (fst sr2) = Inr c"
proof -
  from assms(3) have "zone_inv (fst sr2)"
  proof (induction rule: rtranclp_induct)
    case base
    then show ?case
      using zone_inv_Connect [of env s r packet packetSize reply _ "fst sr1" "snd sr1"] assms(1,2) by simp
  next
    case (step y z)
    then show ?case
      using zone_step_inv by blast
  qed
  then show ?thesis
    by (rule zone_inv_current)
qed

section \<open>Movement\<close>

lemma writeCurrentCommander_current:
  assumes "currentCommander s = Inr c"
  obtains s' where "writeCurrentCommander s c' = Inr s'" "currentCommander s' = Inr c'" "hs_session s' = hs_session s"
    "hs_items s' = hs_items s" "hs_events s' = hs_events s"
    "\<And>p. p \<noteq> se_currentCommander (hs_session s) \<Longrightarrow> derefCommander (hs_commanders s') p = derefCommander (hs_commanders s) p"
proof -
  obtain a where a: "se_currentCommander (hs_session s) = CommanderAt a" "cs_commanders (hs_commanders s) a = Some c"
    using assms unfolding currentCommander_def
    by (cases "se_currentCommander (hs_session s)") (auto split: option.splits)
  have "derefCommander (hs_commanders s \<lparr> cs_commanders := (cs_commanders (hs_commanders s))(a \<mapsto> c') \<rparr>) p
      = derefCommander (hs_commanders s) p" if "p \<noteq> CommanderAt a" for p
    using that by (cases p) auto
  then show thesis
    using a that [of "s \<lparr> hs_commanders := hs_commanders s \<lparr> cs_commanders := (cs_commanders (hs_commanders s))(a \<mapsto> c') \<rparr> \<rparr>"]
    by (simp add: writeCurrentCommander_def currentCommander_def)
qed

lemma workerDispatchEvent_simps [simp]:
  "currentCommander (workerDispatchEvent k e s) = currentCommander s" "hs_events (workerDispatchEvent k e s) = hs_events s @ [(k, e)]"
  "hs_session (workerDispatchEvent k e s) = hs_session s" "hs_commanders (workerDispatchEvent k e s) = hs_commanders s"
  "hs_items (workerDispatchEvent k e s) = hs_items s"
  by (simp_all add: workerDispatchEvent_def currentCommander_def)

lemma checkPacket_KeyboardMove: "checkPacket 31 packetSize CZ_KEYBOARD_MOVE \<longleftrightarrow> 31 \<le> unat packetSize \<and> unat packetSize \<le> 39"
  by (subst checkPacket_fits; simp add: packetTypeInit_entries)

lemma drop_encXYZ [simp]: "drop 12 (encXYZ p @ m) = m" "drop 8 (encXZ d @ m) = m" "take 12 (encXYZ p @ m) = encXYZ p"
    "take 8 (encXZ d @ m) = encXZ d"
  by simp_all

text \<open>C33: A movement with the keyboard moves the commander to the position and the direction in the packet, leaves the
  other commanders, the items and the session alone, saves the session and sends one event that holds the moved
  commander. A packet that is shorter than the structure or more than a block longer is refused.\<close>

theorem zoneHandlerKeyboardMove_correct:
  assumes "currentCommander s = Inr c"
    "packet = b # encXYZ position @ encXZ direction @ unknown @ enc32 timestamp @ padding" "length unknown = 6"
  shows "if 31 \<le> unat packetSize \<and> unat packetSize \<le> 39
    then \<exists>s'. zoneHandlerKeyboardMove s packet packetSize reply = Inr (PACKET_HANDLER_UPDATE_SESSION, s', reply)
      \<and> currentCommander s' = Inr (c \<lparr> co_pos := position, co_dir := direction \<rparr>)
      \<and> (\<forall>p. p \<noteq> se_currentCommander (hs_session s) \<longrightarrow> derefCommander (hs_commanders s') p = derefCommander (hs_commanders s) p)
      \<and> hs_session s' = hs_session s \<and> hs_items s' = hs_items s
      \<and> hs_events s' = hs_events s @ [(ss_sessionKey (se_socket (hs_session s)),
          CommanderMoveEvent (updatePosEvent s (c \<lparr> co_pos := position, co_dir := direction \<rparr>)) position direction timestamp)]
    else zoneHandlerKeyboardMove s packet packetSize reply = Inr (PACKET_HANDLER_ERROR, s, reply)"
proof (cases "31 \<le> unat packetSize \<and> unat packetSize \<le> 39")
  case True
  let ?c = "c \<lparr> co_pos := position, co_dir := direction \<rparr>"
  obtain s' where s': "writeCurrentCommander s ?c = Inr s'" "currentCommander s' = Inr ?c" "hs_session s' = hs_session s"
    "hs_items s' = hs_items s" "hs_events s' = hs_events s"
    "\<And>p. p \<noteq> se_currentCommander (hs_session s) \<Longrightarrow> derefCommander (hs_commanders s') p = derefCommander (hs_commanders s) p"
    using writeCurrentCommander_current [OF assms(1), of ?c] by metis
  have fields: "positionAt 1 packet = Inr position" "directionAt 13 packet = Inr direction" "numberAt 27 packet = Inr timestamp"
    using assms(3) by (simp_all add: assms(2) positionAt_def directionAt_def numberAt_def field_def)
  show ?thesis
    using True s' assms(1)
    by (simp add: zoneHandlerKeyboardMove_def checked_def checkPacket_KeyboardMove fields fields(1) [unfolded One_nat_def] sessionKeyOf_def updatePosEvent_def)
next
  case False
  then have "\<not> checkPacket 31 packetSize CZ_KEYBOARD_MOVE"
    unfolding checkPacket_KeyboardMove .
  then show ?thesis
    unfolding if_not_P [OF False] by (simp add: zoneHandlerKeyboardMove_def checked_def)
qed

section \<open>Packets that are always refused\<close>

text \<open>No client can pose or cast a skill on the ground: the structures of these two handlers have another size than
  the table of packet types says, so that every packet is refused.\<close>

theorem zoneHandlers_refuse:
  "zoneHandlerPose s packet packetSize reply = Inr (PACKET_HANDLER_ERROR, s, reply)
   \<and> zoneHandlerSkillGround env s packet packetSize reply = Inr (PACKET_HANDLER_ERROR, s, reply)"
proof -
  have "\<not> checkPacket 22 packetSize CZ_POSE"
    by (rule checkPacket_unfit [where m = 34]) (simp_all add: packetTypeInit_entries)
  moreover have "\<not> checkPacket 47 packetSize CZ_SKILL_GROUND"
    by (rule checkPacket_unfit [where m = 61]) (simp_all add: packetTypeInit_entries)
  ultimately show ?thesis
    by (simp add: zoneHandlerPose_def zoneHandlerSkillGround_def checked_def)
qed

section \<open>Items\<close>

text \<open>The size check where the table has no size.\<close>

lemma checkPacket_any:
  assumes "pte_size (packetTypeInit ! unat type) = 0" "n < 2 ^ 16"
  shows "checkPacket n packetSize type \<longleftrightarrow> n \<le> unat packetSize \<and> unat packetSize \<le> n + 8"
  using checkClientPacketSize_correct [of 0 n packetSize] assms by (simp add: checkPacket_def)

lemma inventoryGetItem_None: "inv_wf Z iv st \<Longrightarrow> inv_abs Z iv st uid = None \<Longrightarrow> inventoryGetItemByActorId Z iv st uid = Inr None"
  by (simp add: inv_wf_def inv_abs_None inventoryGetItemByActorId_def)

text \<open>C36: Deleting an item that the commander has makes the server read the freed item: \<open>zoneBuilderItemRemove\<close> gets the
  pointer that \<open>inventoryRemoveItem\<close> has freed. Only for an unknown item is the request refused as it should be.\<close>

theorem zoneHandlerItemDelete_use_after_free:
  assumes "zhash Z" "currentCommander s = Inr c" "inv_wf Z (co_inventory c) (hs_items s)"
    "packet = start @ enc64 itemId @ rest" "length start = 6" "22 \<le> unat packetSize" "unat packetSize \<le> 30"
  shows "zoneHandlerItemDelete Z s packet packetSize reply =
    (case inv_abs Z (co_inventory c) (hs_items s) itemId of
       Some _ \<Rightarrow> Inl UseAfterFree
     | None \<Rightarrow> Inr (PACKET_HANDLER_ERROR, s, reply))"
proof -
  have "checkPacket 22 packetSize CZ_ITEM_DELETE"
    using assms(6,7) by (subst checkPacket_any; simp add: packetTypeInit_entries)
  moreover have "field 6 8 packet = Inr (enc64 itemId)"
    using assms(5) by (simp add: assms(4) field_def)
  ultimately have run: "zoneHandlerItemDelete Z s packet packetSize reply =
      rbind (inventoryGetItemByActorId Z (co_inventory c) (hs_items s) itemId) (\<lambda>item. case item of
          None \<Rightarrow> Inr (PACKET_HANDLER_ERROR, s, reply)
        | Some a \<Rightarrow>
            rbind (inventoryRemoveItem Z (co_inventory c) (hs_items s) a) (\<lambda>(_, inventory, st).
            rbind (writeCurrentCommander s (c \<lparr> co_inventory := inventory \<rparr>)) (\<lambda>s.
            rbind (derefItem st a) (\<lambda>x.
            Inr (PACKET_HANDLER_OK, s \<lparr> hs_items := st \<rparr>, zoneBuilderItemRemove x 3 0 reply)))))"
    using assms(2) by (simp add: zoneHandlerItemDelete_def checked_def cong: option.case_cong)
  show ?thesis
  proof (cases "inv_abs Z (co_inventory c) (hs_items s) itemId")
    case None
    then show ?thesis
      by (simp add: run inventoryGetItem_None [OF assms(3)])
  next
    case (Some x)
    obtain a where a: "inventoryGetItemByActorId Z (co_inventory c) (hs_items s) itemId = Inr (Some a)"
      using inventoryGetItem_wf [of Z "co_inventory c" "hs_items s" itemId x] assms(3) Some by (auto simp: inv_wf_def)
    obtain iv' st' where "inventoryRemoveItem Z (co_inventory c) (hs_items s) a = Inr (True, iv', st')"
      "derefItem st' a = Inl UseAfterFree"
      using inventoryRemoveItem_frees [OF assms(1,3) Some a] by blast
    then show ?thesis
      using a Some writeCurrentCommander_current [OF assms(2), of "c \<lparr> co_inventory := iv' \<rparr>"] by (fastforce simp: run)
  qed
qed

text \<open>A client that exchanges two items makes the server dereference NULL when the commander does not have both of
  them: nothing checks the identifiers in the packet.\<close>

theorem zoneHandlerSwapEtcInvChangeIndex_missing:
  assumes "currentCommander s = Inr c" "inv_wf Z (co_inventory c) (hs_items s)"
    "packet = b # enc64 actorId1 @ enc32 index1 @ enc64 actorId2 @ enc32 index2 @ rest" "index1 \<noteq> index2"
    "25 \<le> unat packetSize" "unat packetSize \<le> 33"
    "inv_abs Z (co_inventory c) (hs_items s) actorId1 = None \<or> inv_abs Z (co_inventory c) (hs_items s) actorId2 = None"
  shows "zoneHandlerSwapEtcInvChangeIndex Z s packet packetSize reply = Inl NullDeref"
proof -
  have "checkPacket 25 packetSize CZ_SWAP_ETC_INV_CHANGE_INDEX"
    using assms(5,6) by (subst checkPacket_fits; simp add: packetTypeInit_entries)
  moreover have "numberAt 9 packet = Inr index1" "numberAt 21 packet = Inr index2"
    "field (Suc 0) 8 packet = Inr (enc64 actorId1)" "field 13 8 packet = Inr (enc64 actorId2)"
    by (simp_all add: assms(3) numberAt_def field_def)
  ultimately show ?thesis
    using assms(1,4) inventorySwapItems_missing [OF assms(2,7)]
    by (simp add: zoneHandlerSwapEtcInvChangeIndex_def checked_def)
qed

section \<open>Chat\<close>

lemma unat_small: "n < 2 ^ 64 \<Longrightarrow> unat (of_nat n :: u64) = n"
  by (simp add: unsigned_of_nat take_bit_nat_eq_self)

lemma checkPacket_beyond: "packetSize < m \<Longrightarrow> \<not> checkPacket (unat m) packetSize type"
  by (simp add: checkPacket_def checkClientPacketSize_def Let_def)

text \<open>The size check of a line of chat, whose structure has the announced size less 10, as a \<open>size_t\<close>.\<close>

lemma chat_checkPacket:
  assumes "unat packetSize < 2 ^ 63"
  shows "checkPacket (unat ((ucast w :: u64) - 10 - 2 + 2)) packetSize CZ_CHAT \<longleftrightarrow>
    10 \<le> unat w \<and> unat w \<le> unat packetSize + 10 \<and> unat packetSize + 2 \<le> unat (w :: u16)"
proof -
  have w: "(ucast w :: u64) = of_nat (unat w)" "unat w < 65536"
    using unsigned_less [of w] by (simp_all add: unsigned_of_nat)
  have size: "pte_size (packetTypeInit ! unat CZ_CHAT) = 0"
    by (simp add: packetTypeInit_entries)
  show ?thesis
  proof (cases "10 \<le> unat w")
    case True
    then have "(ucast w :: u64) - 10 - 2 + 2 = of_nat (unat w - 10)"
      unfolding w(1) by (simp add: of_nat_diff)
    moreover have "unat (of_nat (unat w - 10) :: u64) = unat w - 10"
      by (rule unat_small) (use w(2) in simp)
    ultimately show ?thesis
      using True w(2) checkPacket_any [OF size, of "unat w - 10" packetSize] by auto
  next
    case False
    have "(ucast w :: u64) - 10 - 2 + 2 = of_nat (2 ^ 64 + unat w - 10)"
      unfolding w(1) by (simp add: of_nat_diff)
    moreover have "unat (of_nat (2 ^ 64 + unat w - 10) :: u64) = 2 ^ 64 + unat w - 10"
      by (rule unat_small) (use False in simp)
    moreover have "unat packetSize < 2 ^ 64 + unat w - 10"
      using assms by simp
    ultimately have "packetSize < (ucast w :: u64) - 10 - 2 + 2"
      unfolding word_less_nat_alt by (simp only:)
    then show ?thesis
      using False checkPacket_beyond by blast
  qed
qed

lemma chat_sizes:
  assumes "12 \<le> unat (w :: u16)"
  shows "unat ((ucast w :: u64) - 10 - 2) = unat w - 12" "unat ((ucast w :: u64) - 10 - 2 + 1) = unat w - 11"
proof -
  have w: "(ucast w :: u64) = of_nat (unat w)" "unat w < 65536"
    using unsigned_less [of w] by (simp_all add: unsigned_of_nat)
  have "(ucast w :: u64) - 10 - 2 = of_nat (unat w - 12)"
    unfolding w(1) using assms by (simp add: of_nat_diff)
  moreover have "unat (of_nat (unat w - 12) :: u64) = unat w - 12"
    by (rule unat_small) (use w(2) in simp)
  ultimately show "unat ((ucast w :: u64) - 10 - 2) = unat w - 12"
    by (simp only:)
  have "(ucast w :: u64) - 10 - 2 + 1 = of_nat (unat w - 11)"
    unfolding w(1) using assms by (simp add: of_nat_diff)
  moreover have "unat (of_nat (unat w - 11) :: u64) = unat w - 11"
    by (rule unat_small) (use w(2) in simp)
  ultimately show "unat ((ucast w :: u64) - 10 - 2 + 1) = unat w - 11"
    by (simp only:)
qed

lemma u16_of_unat: "unat (w :: u16) = n \<Longrightarrow> (ucast w :: u64) = of_nat n"
  by (metis of_nat_unat)


text \<open>What the handler does with a line of chat that is no command: the text as it was sent, its last byte cleared.\<close>

lemma zoneHandlerChat_event:
  assumes "currentCommander s = Inr c" "packet = enc16 (of_nat (length said + 13)) @ said @ b # padding"
    "length said + 13 < 2 ^ 16" "length padding \<le> 8" "unat packetSize = length packet"
    "0 < as_privilege (hs_accountSession s) \<or> take 1 (said @ [0]) \<noteq> strBytes ''/''"
  shows "zoneHandlerChat env (s, r) packet packetSize reply = Inr (PACKET_HANDLER_UPDATE_SESSION,
    (workerDispatchEvent (sessionKeyOf s) (ChatEvent c (said @ [0])) s, r), reply)"
proof -
  let ?w = "of_nat (length said + 13) :: u16"
  let ?n = "(ucast ?w :: u64) - 10 - 2"
  have w: "unat ?w = length said + 13"
    using assms(3) unfolding unsigned_of_nat by (subst take_bit_nat_eq_self) simp_all
  have len: "length packet = length said + 3 + length padding"
    by (simp add: assms(2))
  then have "unat packetSize < 2 ^ 63"
    using assms(3-5) by simp
  from chat_checkPacket [OF this, of ?w] have ok: "checkPacket (unat (?n + 2)) packetSize CZ_CHAT"
    using assms(4,5) w len by simp
  have n: "unat ?n = length said + 1" "unat (?n + 1) = length said + 2"
    using chat_sizes [of ?w] w by simp_all
  have start: "field 0 2 packet = Inr (enc16 ?w)"
    by (simp add: assms(2) field_def)
  have packet: "packet[length said + 2 := 0] = enc16 ?w @ said @ 0 # padding"
    by (simp add: assms(2) list_update_append)
  have first: "field 2 1 (enc16 ?w @ said @ 0 # padding) = Inr (take 1 (said @ [0]))"
    by (cases said) (simp_all add: field_def)
  have whole: "field 2 (length said + 1) (enc16 ?w @ said @ 0 # padding) = Inr (said @ [0])"
    by (simp add: field_def)
  have priv: "\<not> as_privilege (hs_accountSession s) \<le> ACCOUNT_SESSION_PRIVILEGES_ADMIN \<or> take 1 (said @ [0]) \<noteq> strBytes ''/''"
    using assms(6) by (auto simp: word_le_nat_alt word_less_nat_alt)
  have body: "zoneHandlerChat env (s, r) packet packetSize reply =
      rbind (if as_privilege (hs_accountSession s) \<le> ACCOUNT_SESSION_PRIVILEGES_ADMIN then
          rbind (field 2 1 (packet[length said + 2 := 0])) (\<lambda>c.
          if c = strBytes ''/'' then rbind (stringAt (bytesText (drop 3 (packet[length said + 2 := 0])))) (\<lambda>command. adminCmdProcess env command s r reply)
          else Inr (False, s, r, reply))
        else Inr (False, s, r, reply)) (\<lambda>(done, s, r, reply).
      if done then Inr (PACKET_HANDLER_UPDATE_SESSION, (s, r), reply)
      else
        rbind (currentCommander s) (\<lambda>commander.
        rbind (field 2 (length said + 1) (packet[length said + 2 := 0])) (\<lambda>chatText.
        let s = workerDispatchEvent (sessionKeyOf s) (ChatEvent commander chatText) s in
        Inr (PACKET_HANDLER_UPDATE_SESSION, (s, r), reply))))"
    unfolding zoneHandlerChat_def start rbind.simps dec_enc' Let_def prod.case n using ok len by (simp cong: if_cong)
  show ?thesis
    unfolding body packet first whole using priv assms(1) by (auto simp: Let_def)
qed


section \<open>Commands of an administrator\<close>

lemma zhash_inserts:
  assumes "zhash Z" "distinct (map fst xs)" "\<forall>k \<in> fst ` set xs. zhash_lookup Z h k = None"
  shows "zhash_lookup Z (foldl (\<lambda>h (k, v). case zhash_insert Z h k v of None \<Rightarrow> h | Some h \<Rightarrow> h) h xs) = zhash_lookup Z h ++ map_of xs"
  using assms(2,3)
proof (induction xs arbitrary: h)
  case (Cons x xs)
  obtain k v where x: "x = (k, v)"
    by fastforce
  obtain h' where h': "zhash_insert Z h k v = Some h'" "zhash_lookup Z h' = (zhash_lookup Z h)(k \<mapsto> v)"
    using zhash.zh_insert [OF assms(1), of h k v] Cons.prems x by auto
  have "\<forall>j \<in> fst ` set xs. zhash_lookup Z h' j = None"
    using Cons.prems x h'(2) by auto
  then have "zhash_lookup Z (foldl (\<lambda>h (k, v). case zhash_insert Z h k v of None \<Rightarrow> h | Some h \<Rightarrow> h) h' xs)
      = zhash_lookup Z h' ++ map_of xs"
    using Cons by simp
  moreover have "map_of xs k = None"
    using Cons.prems x by (auto simp: map_of_eq_None_iff)
  ultimately show ?case
    using h' x by (auto simp: fun_eq_iff map_add_def split: option.splits)
qed simp

lemma adminCmdInit_lookup: "zhash Z \<Longrightarrow> zhash_lookup Z (adminCmdInit Z) = map_of adminCommandNames"
  unfolding adminCmdInit_def by (subst zhash_inserts) (auto simp: zhash.zh_new adminCommandNames_def)

lemma command_parts:
  assumes "name \<noteq> []" "CHR '' '' \<notin> set name"
  shows "commandNameOf (name @ CHR '' '' # args) = name" "commandArgs (name @ CHR '' '' # args) = args @ [NUL]"
proof -
  have lead: "dropWhile (\<lambda>c. c = CHR '' '') (name @ CHR '' '' # args) = name @ CHR '' '' # args"
    "takeWhile (\<lambda>c. c = CHR '' '') (name @ CHR '' '' # args) = []"
    using assms by (cases name; auto)+
  have "takeWhile (\<lambda>c. c \<noteq> CHR '' '') (name @ CHR '' '' # args) = name"
    using assms(2) by (rule while_separator)
  then show name: "commandNameOf (name @ CHR '' '' # args) = name"
    by (simp add: commandNameOf_def lead)
  show "commandArgs (name @ CHR '' '' # args) = args @ [NUL]"
    by (simp add: commandArgs_def name lead Let_def)
qed

lemma adminCmdProcess_runs:
  assumes "zhash (zh_Zc env)" "zh_adminCommands env = adminCmdInit (zh_Zc env)" "map_of adminCommandNames name = Some handler"
    "CHR '' '' \<notin> set name"
  shows "adminCmdProcess env (name @ CHR '' '' # args) s r reply =
    rbind (adminCmdRun env handler s r (args @ [NUL]) reply) (\<lambda>(s, r, reply). Inr (True, s, r, reply))"
proof -
  have "name \<noteq> []"
    using assms(3) by (auto simp: adminCommandNames_def)
  then show ?thesis
    using assms adminCmdInit_lookup [OF assms(1)] command_parts [OF _ assms(4)] by (simp add: adminCmdProcess_def)
qed

text \<open>The number of words that a command sees. A text without a blank, or of blanks alone, is not read within its buffer.\<close>

lemma withArgs_words:
  assumes "NUL \<notin> set args"
  shows "withArgs wanted s r (args @ [NUL]) reply body =
    (if args = [] then Inr (s, r, reply)
     else if CHR '' '' \<notin> set args \<or> wordsOf CHR '' '' args = [] then Inl OutOfBounds
     else if length (wordsOf CHR '' '' args) \<noteq> wanted then Inr (s, r, reply)
     else body (wordsOf CHR '' '' args))"
proof -
  have line: "stringAt (args @ [NUL]) = Inr args"
    using takeWhile_append2 [of args "\<lambda>c. c \<noteq> NUL" "[NUL]"] assms unfolding stringAt_def by fastforce
  have "takeWhile (\<lambda>a. a \<noteq> None) (map Some ws @ [None]) = map Some ws" for ws :: "string list"
    by (induction ws) auto
  then have "map the (takeWhile (\<lambda>a. a \<noteq> None) (map Some ws @ [None])) = ws" for ws :: "string list"
    by (simp add: comp_def)
  then have "argsOf (args @ [NUL]) = (if args \<noteq> [] \<and> CHR '' '' \<notin> set args \<or> wordsOf CHR '' '' args = [] then Inl OutOfBounds
      else Inr (wordsOf CHR '' '' args, length (wordsOf CHR '' '' args)))"
    using argCount_words [of 0 "[]"] unfolding argsOf_def line rbind.simps strSplit_words by (simp add: argCount_words)
  then show ?thesis
    unfolding withArgs_def line by simp
qed

text \<open>\<open>/setLevel\<close> with one word and a blank somewhere sets the level of the commander to the number that the word
  begins with and tells the client; with nothing, or with another number of words, it does nothing. The plain form,
  one number and no blank, makes the server write behind a buffer, because \<open>strSplit\<close> has no room for the end of
  a text that is one word.\<close>

theorem adminCmdSetLevel_correct:
  assumes "zhash (zh_Zc env)" "zh_adminCommands env = adminCmdInit (zh_Zc env)" "currentCommander s = Inr c" "NUL \<notin> set args"
  shows "if args = [] then adminCmdProcess env (''setLevel '' @ args) s r reply = Inr (True, s, r, reply)
    else if CHR '' '' \<notin> set args \<or> wordsOf CHR '' '' args = [] then adminCmdProcess env (''setLevel '' @ args) s r reply = Inl OutOfBounds
    else if length (wordsOf CHR '' '' args) \<noteq> 1 then adminCmdProcess env (''setLevel '' @ args) s r reply = Inr (True, s, r, reply)
    else \<exists>s'. adminCmdProcess env (''setLevel '' @ args) s r reply =
        Inr (True, s', r, zoneBuilderPCLevelUp (co_pcId c) (c_atoi (hd (wordsOf CHR '' '' args))) reply)
      \<and> currentCommander s' = Inr (c \<lparr> co_level := c_atoi (hd (wordsOf CHR '' '' args)) \<rparr>)
      \<and> hs_session s' = hs_session s \<and> hs_items s' = hs_items s \<and> hs_events s' = hs_events s"
proof -
  let ?ws = "wordsOf CHR '' '' args"
  let ?c = "c \<lparr> co_level := c_atoi (?ws ! 0) \<rparr>"
  have "adminCmdProcess env (''setLevel'' @ CHR '' '' # args) s r reply =
      rbind (adminCmdRun env CmdSetLevel s r (args @ [NUL]) reply) (\<lambda>(s, r, reply). Inr (True, s, r, reply))"
    by (rule adminCmdProcess_runs [OF assms(1,2)]) (simp_all add: adminCommandNames_def)
  then have run: "adminCmdProcess env (''setLevel '' @ args) s r reply =
      rbind (adminCmdSetLevel s r (args @ [NUL]) reply) (\<lambda>(s, r, reply). Inr (True, s, r, reply))"
    by (simp add: adminCmdRun_def)
  obtain s' where "writeCurrentCommander s ?c = Inr s'" "currentCommander s' = Inr ?c" "hs_session s' = hs_session s"
    "hs_items s' = hs_items s" "hs_events s' = hs_events s"
    using writeCurrentCommander_current [OF assms(3), of ?c] by metis
  then show ?thesis
    unfolding run adminCmdSetLevel_def withArgs_words [OF assms(4)] using assms(3)
    by (auto simp: Let_def hd_conv_nth)
qed

text \<open>\<open>/spawn\<close> never succeeds: after the random values it reads five bytes of a session key of four bytes.\<close>

theorem adminCmdSpawnPc_undefined: "\<not> (\<exists>result. adminCmdRun env CmdSpawnPc s r args reply = Inr result)"
  by (simp add: adminCmdRun_def adminCmdSpawnPc_stuck)

section \<open>Entering the game\<close>

lemma mySqlLoadAccountCommanders_session:
  "mySqlLoadAccountCommanders Z Zs create sql acc accountId s = Inr (ok, acc', n, s') \<Longrightarrow> hs_session s' = hs_session s \<and> hs_events s' = hs_events s"
  by (auto simp: mySqlLoadAccountCommanders_def rbind_eq_Inr_iff Let_def split: option.splits)

lemma zoneConnectSession_updates:
  assumes "zoneConnectSession env (s, r) accountId reply = Inr (PACKET_HANDLER_UPDATE_SESSION, (s', r'), reply')"
  shows "\<exists>c. currentCommander s' = Inr c \<and> hs_events s' = hs_events s
    \<and> se_socket (hs_session s') = socketSessionInit accountId (zh_routerId env) (co_mapId c) (ss_sessionKey (se_socket (hs_session s))) True"
proof -
  obtain r1 key s2 r2 acc p c where get: "redisGetGameSession (zh_redis env) r1 key s = Inr (True, s2, r2, acc, p)"
    and c: "derefCommander (hs_commanders s2) p = Inr c"
    and s': "currentCommander s' = derefCommander (hs_commanders s2) p" "hs_events s' = hs_events s2"
      "se_socket (hs_session s') = socketSessionInit accountId (zh_routerId env) (co_mapId c) (ss_sessionKey (se_socket (hs_session s2))) True"
    using assms by (auto simp: zoneConnectSession_def rbind_eq_Inr_iff Let_def case_prod_beta currentCommander_def split: if_splits)
  from get have "hs_session s2 = hs_session s \<and> hs_events s2 = hs_events s"
    by (cases rule: redisGetGameSession_cases) auto
  then show ?thesis
    using c s' by auto
qed

text \<open>C32: A client enters the game only if Redis has an account with the identifier in its packet and that account has the
  name in its packet; then the socket session is authenticated for this account, on the map of the commander that the
  game session holds, and no event is sent yet. The name is all that is compared: nothing in the packet is a secret.\<close>

theorem zoneHandlerConnect_authenticated:
  assumes "zoneHandlerConnect env (s, r) packet packetSize reply = Inr (PACKET_HANDLER_UPDATE_SESSION, (s', r'), reply')"
  shows "\<exists>accountId account r1 c. accountId = dec64 (drop 4 packet)
    \<and> redisGetAccountSession (zh_redis env) r \<lparr> rk_routerId = zh_routerId env, rk_mapId = -1, rk_accountId = accountId \<rparr> accountSessionZero
      = Inr (True, account, r1)
    \<and> c_str (as_accountName account) = c_str (take 33 (drop 20 packet)) \<and> currentCommander s' = Inr c \<and> hs_events s' = hs_events s
    \<and> se_socket (hs_session s') = socketSessionInit accountId (zh_routerId env) (co_mapId c) (ss_sessionKey (se_socket (hs_session s))) True"
proof -
  define accountId where "accountId = dec64 (drop 4 packet)"
  obtain account r1 n tmp s1 src where
    account: "redisGetAccountSession (zh_redis env) r \<lparr> rk_routerId = zh_routerId env, rk_mapId = -1, rk_accountId = accountId \<rparr> accountSessionZero
      = Inr (True, account, r1)" "c_str (as_accountName account) = c_str (take 33 (drop 20 packet))"
    and load: "mySqlLoadAccountCommanders (rd_Z (zh_redis env)) (rd_Zs (zh_redis env)) (zh_createEquipable env) (zh_commandersSql env) account
      accountId s = Inr (True, tmp, n, s1)"
    and rest: "zoneConnectSession env (s1 \<lparr> hs_commanders := snd (commanderDup (hs_commanders s1) src) \<rparr>, r1) accountId reply
      = Inr (PACKET_HANDLER_UPDATE_SESSION, (s', r'), reply')"
    using assms by (auto simp: zoneHandlerConnect_def rbind_eq_Inr_iff Let_def field_def accountId_def split: if_splits)
  show ?thesis
    using zoneConnectSession_updates [OF rest] mySqlLoadAccountCommanders_session [OF load] account accountId_def by auto
qed

end
