(* ===== verification/RedisProps.thy ===== *)
theory RedisProps
  imports Redis DbProps
begin

text \<open>
  What the requests of \<open>Redis\<close> mean to the server. The client library cuts a text that has no format character
  into words; the locale \<open>redis_server\<close> states what the documentation of Redis says of the commands, for
  requests that do not fail, and \<open>redisRun\<close> is a server that satisfies it.
\<close>

section \<open>The server\<close>

abbreviation (input) blank :: byte where "blank \<equiv> 0x20"
abbreviation (input) percent :: byte where "percent \<equiv> 0x25"

definition flat :: "('a \<times> 'a) list \<Rightarrow> 'a list" where
  "flat fvs = concat (map (\<lambda>(f, v). [f, v]) fvs)"

definition redisValue :: "bytes option \<Rightarrow> RedisReply" where
  "redisValue v = (case v of None \<Rightarrow> RedisNil | Some v \<Rightarrow> RedisString v)"

locale redis_server =
  fixes run :: "bytes \<Rightarrow> 'r \<Rightarrow> RedisReply option \<times> 'r"
    and hashes :: "'r \<Rightarrow> bytes \<Rightarrow> bytes \<Rightarrow> bytes option"
  assumes hmset: "percent \<notin> set text \<Longrightarrow> wordsOf blank text = strBytes ''HMSET'' # key # flat fvs \<Longrightarrow> fvs \<noteq> [] \<Longrightarrow>
        \<exists>s r'. run text r = (Some (RedisStatus s), r') \<and> hashes r' = (hashes r)(key := hashes r key ++ map_of (rev fvs))"
    and hmget: "percent \<notin> set text \<Longrightarrow> wordsOf blank text = strBytes ''HMGET'' # key # fs \<Longrightarrow> fs \<noteq> [] \<Longrightarrow>
        run text r = (Some (RedisArray (map (\<lambda>f. redisValue (hashes r key f)) fs)), r)"
    and rename: "percent \<notin> set text \<Longrightarrow> wordsOf blank text = [strBytes ''RENAME'', source, target] \<Longrightarrow>
        hashes r source \<noteq> Map.empty \<Longrightarrow> source \<noteq> target \<Longrightarrow>
        \<exists>s r'. run text r = (Some (RedisStatus s), r') \<and> hashes r' = (hashes r)(source := Map.empty, target := hashes r source)"
    and del: "percent \<notin> set text \<Longrightarrow> wordsOf blank text = [strBytes ''DEL'', key] \<Longrightarrow>
        \<exists>n r'. run text r = (Some (RedisInteger n), r') \<and> hashes r' = (hashes r)(key := Map.empty)"

text \<open>A server that keeps the hashes themselves and knows these four commands.\<close>

fun unflat :: "'a list \<Rightarrow> ('a \<times> 'a) list option" where
  "unflat [] = Some []"
| "unflat [f] = None"
| "unflat (f # v # r) = map_option (Cons (f, v)) (unflat r)"

definition redisRun :: "bytes \<Rightarrow> (bytes \<Rightarrow> bytes \<Rightarrow> bytes option) \<Rightarrow> RedisReply option \<times> (bytes \<Rightarrow> bytes \<Rightarrow> bytes option)" where
  "redisRun text h =
     (let refuse = (Some (RedisError (strBytes ''ERR'')), h); ok = RedisStatus (strBytes ''OK'') in
      case wordsOf blank text of
        command # key # args \<Rightarrow>
          if command = strBytes ''HMSET'' \<and> args \<noteq> [] then
            (case unflat args of
               None \<Rightarrow> refuse
             | Some fvs \<Rightarrow> (Some ok, h(key := h key ++ map_of (rev fvs))))
          else if command = strBytes ''HMGET'' \<and> args \<noteq> [] then (Some (RedisArray (map (\<lambda>f. redisValue (h key f)) args)), h)
          else if command = strBytes ''RENAME'' \<and> length args = 1 then (Some ok, h(key := Map.empty, hd args := h key))
          else if command = strBytes ''DEL'' \<and> args = [] then (Some (RedisInteger 1), h(key := Map.empty))
          else refuse
      | _ \<Rightarrow> refuse)"

lemma unflat_flat [simp]: "unflat (flat fvs) = Some fvs"
  by (induction fvs) (auto simp: flat_def)

lemma flat_Nil_iff [simp]: "flat fvs = [] \<longleftrightarrow> fvs = []"
  by (cases fvs) (auto simp: flat_def)

lemma bytesText_strBytes [simp]: "bytesText (strBytes s) = s"
  by (simp add: bytesText_def)

lemma strBytes_inj [simp]: "strBytes s = strBytes t \<longleftrightarrow> s = t"
  by (metis bytesText_strBytes)

interpretation reference: redis_server redisRun "\<lambda>h. h"
  by unfold_locales (auto simp: redisRun_def Let_def)

section \<open>The words of a request\<close>

definition plain :: "bytes \<Rightarrow> bool" where
  "plain w \<longleftrightarrow> w \<noteq> [] \<and> blank \<notin> set w \<and> percent \<notin> set w"

definition plainValues :: "(string \<times> bytes) list \<Rightarrow> bool" where
  "plainValues fvs \<longleftrightarrow> (\<forall>(f, v) \<in> set fvs. plain (strBytes f) \<and> plain v \<and> length f \<le> 20 \<and> length v \<le> 64)"

definition byteFields :: "(string \<times> bytes) list \<Rightarrow> (bytes \<times> bytes) list" where
  "byteFields = map (\<lambda>(f, v). (strBytes f, v))"

lemma byte_of_char: "(of_nat (of_char c) :: byte) = w \<longleftrightarrow> c = char_of (unat w)"
proof
  assume "c = char_of (unat w)"
  moreover have "unat w mod 256 = unat w"
    using unat_byte [of w] by simp
  ultimately show "(of_nat (of_char c) :: byte) = w"
    by simp
qed (use charOfByte_of_char [of c] in auto)

lemma set_strBytes: "w \<in> set (strBytes s) \<longleftrightarrow> char_of (unat w) \<in> set s"
proof (induction s)
  case (Cons c s)
  then show ?case
    using byte_of_char [of c w] by (auto simp: strBytes_def)
qed (simp add: strBytes_def)

lemma char_of_marks: "char_of (32 :: nat) = CHR '' ''" "char_of (37 :: nat) = CHR ''%''"
  by code_simp+

lemma length_strBytes [simp]: "length (strBytes s) = length s"
  by (simp add: strBytes_def)

lemma strBytes_append: "strBytes (s @ t) = strBytes s @ strBytes t"
  by (simp add: strBytes_def)

lemma plain_strBytes: "plain (strBytes s) \<longleftrightarrow> s \<noteq> [] \<and> CHR '' '' \<notin> set s \<and> CHR ''%'' \<notin> set s"
  by (simp add: plain_def set_strBytes char_of_marks) (simp add: strBytes_def)

lemma plain_append: "plain v \<Longrightarrow> plain w \<Longrightarrow> plain (v @ w)"
  by (auto simp: plain_def)

lemma plain_hexOf [simp]: "plain (hexOf w)"
proof -
  have "fmtHex n \<noteq> []" for n
    by (subst fmtHex.simps) simp
  moreover have "hexValue (CHR '' '') = None" "hexValue (CHR ''%'') = None"
    by (simp_all add: hexValue_def)
  ultimately show ?thesis
    using hexValue_fmtHex by (fastforce simp: hexOf_def plain_strBytes)
qed

lemma length_hexOf [simp]:
  fixes w :: "'a::len word"
  assumes "LENGTH('a) \<le> 64"
  shows "length (hexOf w) \<le> 16"
proof -
  have "unat w < 2 ^ LENGTH('a)"
    by (rule unsigned_less)
  also have "\<dots> \<le> (2 ^ 64 :: nat)"
    using assms by (rule power_increasing) simp
  finally have "unat w < 16 ^ Suc 15"
    by simp
  then show ?thesis
    using length_fmtHex [of "unat w" 15] by (simp add: hexOf_def)
qed

lemma plain_gameKeyText [simp]: "plain (gameKeyText key)" "length (gameKeyText key) \<le> 60"
proof -
  have "plain (strBytes ''zone'')" "plain (strBytes '':map'')" "plain (strBytes '':acc'')"
    by (simp_all add: plain_strBytes)
  then show "plain (gameKeyText key)"
    by (simp add: gameKeyText_def plain_append)
  show "length (gameKeyText key) \<le> 60"
    using length_hexOf [of "rk_routerId key"] length_hexOf [of "rk_mapId key"] length_hexOf [of "rk_accountId key"]
    by (simp add: gameKeyText_def del: length_hexOf)
qed

lemma wordsOf_then:
  assumes "plain w" "rest = [] \<or> hd rest = blank"
  shows "wordsOf blank (w @ rest) = w # wordsOf blank rest"
  using assms wordsOf_append [of w blank] wordsOf_single [of w blank] by (cases rest) (auto simp: plain_def)

lemma wordsOf_blanks [simp]: "wordsOf blank (replicate n blank) = []"
  by (induction n) simp_all

lemma wordsOf_fieldsText:
  assumes "\<forall>f \<in> set fs. plain (strBytes f)"
  shows "wordsOf blank (fieldsText fs @ replicate n blank) = map strBytes fs"
    "fieldsText fs @ replicate n blank = [] \<or> hd (fieldsText fs @ replicate n blank) = blank"
  using assms
proof (induction fs)
  case Nil
  show "wordsOf blank (fieldsText [] @ replicate n blank) = map strBytes []"
    "fieldsText [] @ replicate n blank = [] \<or> hd (fieldsText [] @ replicate n blank) = blank"
    by (cases n; simp add: fieldsText_def)+
next
  case (Cons f fs)
  have split: "fieldsText (f # fs) @ replicate n blank = blank # strBytes f @ fieldsText fs @ replicate n blank"
    by (simp add: fieldsText_def strBytes_def)
  {
    case 1
    then show ?case
      using Cons unfolding split by (simp add: wordsOf_then)
  next
    case 2
    then show ?case
      unfolding split by simp
  }
qed

lemma wordsOf_valuesText:
  assumes "plainValues fvs"
  shows "wordsOf blank (valuesText fvs) = flat (byteFields fvs)" "valuesText fvs = [] \<or> hd (valuesText fvs) = blank"
  using assms
proof (induction fvs)
  case (Cons fv fvs)
  obtain f v where fv: "fv = (f, v)"
    by (cases fv)
  have split: "valuesText (fv # fvs) = blank # strBytes f @ blank # v @ valuesText fvs"
    by (simp add: valuesText_def strBytes_def fv)
  {
    case 1
    then show ?case
      using Cons by (simp add: split wordsOf_then plainValues_def flat_def byteFields_def fv [symmetric])
        (simp add: fv split wordsOf_then)
  next
    case 2
    then show ?case
      by (simp add: split)
  }
qed (simp_all add: valuesText_def flat_def byteFields_def)

lemma percent_fieldsText: "\<forall>f \<in> set fs. plain (strBytes f) \<Longrightarrow> percent \<notin> set (fieldsText fs)"
  by (auto simp: fieldsText_def plain_def strBytes_append) (auto simp: strBytes_def)

lemma percent_valuesText: "plainValues fvs \<Longrightarrow> percent \<notin> set (valuesText fvs)"
  by (fastforce simp: valuesText_def plainValues_def plain_def strBytes_append set_strBytes char_of_marks)

lemma length_valuesText: "plainValues fvs \<Longrightarrow> length (valuesText fvs) \<le> 86 * length fvs"
  by (induction fvs) (auto simp: valuesText_def plainValues_def)

lemma length_fieldsText: "\<forall>f \<in> set fs. length f \<le> 20 \<Longrightarrow> length (fieldsText fs) \<le> 21 * length fs"
  by (induction fs) (auto simp: fieldsText_def)

context redis_server
begin

lemma run_values:
  assumes "rd_run env = run" "plain key" "length key \<le> 100" "plainValues fvs" "fvs \<noteq> []" "length fvs \<le> 1000"
  shows "\<exists>s r'. redisCommandDbg env r (strBytes ''HMSET '' @ key @ valuesText fvs) = (Some (RedisStatus s), r')
      \<and> hashes r' = (hashes r)(key := hashes r key ++ map_of (rev (byteFields fvs)))"
proof -
  let ?text = "strBytes ''HMSET '' @ key @ valuesText fvs"
  have form: "?text = strBytes ''HMSET'' @ blank # key @ valuesText fvs"
    by (simp add: strBytes_def)
  have hmset_plain: "plain (strBytes ''HMSET'')"
    by (simp add: plain_strBytes)
  have "percent \<notin> set ?text"
    using percent_valuesText [OF assms(4)] assms(2) hmset_plain unfolding form by (auto simp: plain_def)
  moreover have "wordsOf blank ?text = strBytes ''HMSET'' # key # flat (byteFields fvs)"
    unfolding form using wordsOf_valuesText [OF assms(4)] assms(2) hmset_plain by (simp add: wordsOf_then)
  moreover have "length ?text \<le> 1024 * 1024 - 1"
    using length_valuesText [OF assms(4)] assms(3,6) by simp
  moreover have "byteFields fvs \<noteq> []"
    using assms(5) by (simp add: byteFields_def)
  ultimately show ?thesis
    using hmset [of ?text key "byteFields fvs" r] assms(1) by (simp add: redisCommandDbg_def)
qed

lemma run_fields:
  assumes "rd_run env = run" "plain key" "length key \<le> 100" "fs \<noteq> []" "length fs \<le> 1000" "n \<le> 1000"
    and fs: "\<forall>f \<in> set fs. plain (strBytes f)" "\<forall>f \<in> set fs. length f \<le> 20"
  shows "redisCommandDbg env r (strBytes ''HMGET '' @ key @ fieldsText fs @ replicate n blank)
      = (Some (RedisArray (map (\<lambda>f. redisValue (hashes r key (strBytes f))) fs)), r)"
proof -
  let ?text = "strBytes ''HMGET'' @ blank # key @ fieldsText fs @ replicate n blank"
  have form: "strBytes ''HMGET '' @ key @ fieldsText fs @ replicate n blank = ?text"
    by (simp add: strBytes_def)
  have hmget_plain: "plain (strBytes ''HMGET'')"
    by (simp add: plain_strBytes)
  have "percent \<notin> set ?text"
    using percent_fieldsText [OF fs(1)] assms(2) hmget_plain by (auto simp: plain_def)
  moreover have "wordsOf blank ?text = strBytes ''HMGET'' # key # map strBytes fs"
    using wordsOf_fieldsText [OF fs(1), of n] assms(2) hmget_plain by (simp add: wordsOf_then)
  moreover have "length ?text \<le> 1024 * 1024 - 1"
    using length_fieldsText [OF fs(2)] assms(3,5,6) by simp
  ultimately show ?thesis
    unfolding form using hmget [of ?text key "map strBytes fs" r] assms(1,4) by (simp add: redisCommandDbg_def comp_def)
qed

end

section \<open>Values and fields\<close>

lemma c_str_plainChars: "0 \<notin> set bs \<Longrightarrow> c_str bs = bs"
  by (simp add: c_str_def takeWhile_eq_all_conv) metis

lemma c_str_c_str [simp]: "c_str (c_str bs) = c_str bs"
  by (rule c_str_plainChars) (auto simp: c_str_def dest: set_takeWhileD)

lemma hexOf_no_null [simp]: "0 \<notin> set (hexOf w)"
proof -
  have "hexValue (char_of (0 :: nat)) = None"
    by (simp add: hexValue_def)
  then show ?thesis
    using hexValue_fmtHex by (fastforce simp: hexOf_def set_strBytes)
qed

lemma c_strtoull16_fmtHex:
  assumes "n < 2 ^ 64"
  shows "c_strtoull16 (fmtHex n) = of_nat n"
proof -
  have digit: "hexValue c \<noteq> None \<Longrightarrow> \<not> c_isspace c \<and> c \<noteq> CHR ''-'' \<and> c \<noteq> CHR ''+'' \<and> c \<noteq> CHR ''x'' \<and> c \<noteq> CHR ''X''" for c
    by (auto simp: hexValue_def c_isspace_def)
  have all: "\<forall>c \<in> set (fmtHex n). hexValue c \<noteq> None"
    using hexValue_fmtHex by blast
  obtain c cs where form: "fmtHex n = c # cs"
    by (cases "fmtHex n") (subst (asm) fmtHex.simps, simp split: if_splits)
  have "dropWhile c_isspace (fmtHex n) = fmtHex n" "c_sign (fmtHex n) = (False, fmtHex n)" "\<not> hexPrefix (fmtHex n)"
    using digit all by (auto simp: form c_sign_def hexPrefix_def split: list.splits)
  moreover have "takeWhile (\<lambda>c. hexValue c \<noteq> None) (fmtHex n) = fmtHex n"
    using all by (simp add: takeWhile_eq_all_conv)
  ultimately show ?thesis
    unfolding c_strtoull16_def using assms by (simp only: Let_def prod.case if_False hexNumber_fmtHex) simp
qed

lemma redisNumber_hexOf:
  fixes w :: "'a::len word"
  assumes "LENGTH('a) \<le> 64"
  shows "redisNumber (hexOf w) = ucast w"
proof -
  have "unat w < 2 ^ LENGTH('a)"
    by (rule unsigned_less)
  also have "\<dots> \<le> (2 ^ 64 :: nat)"
    using assms by (rule power_increasing) simp
  finally show ?thesis
    by (simp add: redisNumber_def c_str_plainChars) (simp add: hexOf_def c_strtoull16_fmtHex)
qed

lemma ucast_redisNumber:
  fixes w :: "'a::len word"
  assumes "LENGTH('a) \<le> 64"
  shows "(ucast (redisNumber (hexOf w)) :: 'a word) = w"
  unfolding redisNumber_hexOf [OF assms]
  by (rule bit_word_eqI) (use assms in \<open>auto simp: bit_simps dest: bit_imp_le_length\<close>)

lemma redisNumber_hexOf64: "redisNumber (hexOf (w :: u64)) = w"
  using redisNumber_hexOf [of w] by simp

lemma unat_redisNumber: "unat (redisNumber (hexOf (w :: u32))) = unat w"
proof -
  have "unat w < 2 ^ LENGTH(32)"
    by (rule unsigned_less)
  then show ?thesis
    by (simp add: redisNumber_hexOf unsigned_ucast_eq take_bit_nat_eq_self)
qed

lemma map_of_byteFields:
  assumes "distinct (map fst fvs)" "(f, v) \<in> set fvs"
  shows "map_of (rev (byteFields fvs)) (strBytes f) = Some v"
proof (rule map_of_is_SomeI)
  have "map fst (byteFields fvs) = map strBytes (map fst fvs)"
    by (auto simp: byteFields_def)
  then show "distinct (map fst (rev (byteFields fvs)))"
    using assms(1) by (simp add: rev_map [symmetric] distinct_map inj_on_def del: map_map)
  show "(strBytes f, v) \<in> set (rev (byteFields fvs))"
    using assms(2) by (force simp: byteFields_def)
qed

lemma redisAnyElementIsNull_strings [simp]: "redisAnyElementIsNull (map RedisString vs) = None"
  by (simp add: redisAnyElementIsNull_def takeWhile_eq_all_conv [THEN iffD2])

lemma replyStrs_strings [simp]: "replyStrs (map RedisString vs) = Inr vs"
  by (induction vs) simp_all

lemma redis_fields_distinct: "distinct (redisAccountSessionsStr @ redisCommanderStr @ redisEquipmentStr)"
  by code_simp

lemma redis_fields_plain: "list_all (\<lambda>f. f \<noteq> [] \<and> CHR '' '' \<notin> set f \<and> CHR ''%'' \<notin> set f \<and> length f \<le> 20) redisGameSessionsStr"
  by code_simp

lemma redis_field:
  assumes "f \<in> set redisGameSessionsStr"
  shows "plain (strBytes f)" "length f \<le> 20"
  using redis_fields_plain assms by (auto simp: list_all_iff plain_strBytes)

section \<open>Sessions\<close>

text \<open>What a session must be like so that its texts are single words; \<open>%f\<close> prints at most 47 characters.\<close>

definition account_words :: "string \<Rightarrow> AccountSession \<Rightarrow> bool" where
  "account_words socketId account \<longleftrightarrow> plain (strBytes socketId) \<and> length socketId < SOCKET_SESSION_ID_SIZE
     \<and> CHR 0x00 \<notin> set socketId \<and> 0 \<in> set (as_accountName account)
     \<and> plain (c_str (as_accountName account)) \<and> length (as_accountName account) = ACCOUNT_SESSION_ACCOUNT_NAME_MAXSIZE"

definition float_words :: "('h, 'k, 'v, 'r) RedisEnv \<Rightarrow> bool" where
  "float_words env \<longleftrightarrow> (\<forall>x. plain (strBytes (rd_fmtFloat env x)) \<and> length (rd_fmtFloat env x) \<le> 64
     \<and> CHR 0x00 \<notin> set (rd_fmtFloat env x))"

definition commander_names :: "('h, 'k) Commander \<Rightarrow> bool" where
  "commander_names c \<longleftrightarrow> 0 \<in> set (co_commanderName c) \<and> length (co_commanderName c) = COMMANDER_NAME_SIZE + 1
     \<and> 0 \<in> set (co_familyName c) \<and> length (co_familyName c) = COMMANDER_FAMILY_NAME_SIZE"

definition plain_name :: "bytes \<Rightarrow> bool" where
  "plain_name name \<longleftrightarrow> blank \<notin> set (c_str name) \<and> percent \<notin> set (c_str name)"

lemma c_str_shorter: "0 \<in> set bs \<Longrightarrow> length (c_str bs) < length bs"
  by (induction bs) (auto simp: c_str_def)

lemma plain_redisName: "plain_name name \<Longrightarrow> plain (redisName name)"
proof -
  have "plain (strBytes ''__EMPTY_STRING__'')"
    by (simp add: plain_strBytes)
  then show "plain_name name \<Longrightarrow> plain (redisName name)"
    by (auto simp: redisName_def plain_name_def plain_def)
qed

lemma length_redisName: "0 \<in> set name \<Longrightarrow> length name \<le> 65 \<Longrightarrow> length (redisName name) \<le> 64"
  using c_str_shorter [of name] by (auto simp: redisName_def)

lemma accountValues_plain: "account_words socketId account \<Longrightarrow> plainValues (accountValues socketId account)"
proof -
  assume a: "account_words socketId account"
  have "\<forall>f \<in> set (map fst (accountValues socketId account)). f \<in> set redisGameSessionsStr"
    by (simp add: accountValues_def redisGameSessionsStr_def redisAccountSessionsStr_def)
  moreover have "\<forall>v \<in> set (map snd (accountValues socketId account)). plain v \<and> length v \<le> 64"
    using a c_str_shorter [of "as_accountName account"] length_hexOf [of "as_privilege account"]
      length_hexOf [of "of_nat (as_commandersCountMax account) :: u32"]
    by (auto simp: accountValues_def account_words_def simp del: length_hexOf)
  ultimately show ?thesis
    using redis_field by (fastforce simp: plainValues_def)
qed

lemma hexOf_short: "LENGTH('a) \<le> 64 \<Longrightarrow> length (hexOf (w :: 'a::len word)) \<le> 64"
  by (rule le_trans [OF length_hexOf]) simp_all

lemma fst_commanderValues: "map fst (commanderValues env key c) = redisCommanderStr"
  by (simp add: commanderValues_def redisCommanderStr_def)

lemma length_redisStrs: "length redisCommanderStr = 27" "length redisEquipmentStr = 20" "length redisAccountSessionsStr = 4"
  by (simp_all add: redisCommanderStr_def redisEquipmentStr_def redisAccountSessionsStr_def)

lemma commanderValues_plain:
  assumes "float_words env" "commander_names c" "plain_name (co_commanderName c)" "plain_name (co_familyName c)"
  shows "plainValues (commanderValues env key c)"
proof -
  have "\<forall>v \<in> set (map snd (commanderValues env key c)). plain v \<and> length v \<le> 64"
    using assms plain_redisName length_redisName unfolding commanderValues_def Let_def
    by (simp add: hexOf_short float_words_def commander_names_def)
  moreover have "\<forall>f \<in> set (map fst (commanderValues env key c)). f \<in> set redisGameSessionsStr"
    unfolding fst_commanderValues by (simp add: redisGameSessionsStr_def)
  ultimately show ?thesis
    using redis_field by (fastforce simp: plainValues_def)
qed

lemma equipmentValues_plain: "plainValues (zip redisEquipmentStr (map hexOf (ids :: u32 list)))"
proof -
  have "\<forall>(f, v) \<in> set (zip redisEquipmentStr (map hexOf ids)). f \<in> set redisGameSessionsStr \<and> plain v \<and> length v \<le> 64"
  proof (clarify, goal_cases)
    case (1 f v)
    then have f: "f \<in> set redisEquipmentStr"
      by (rule set_zip_leftD)
    have "v \<in> set (map hexOf ids)"
      using 1 by (rule set_zip_rightD)
    then obtain w :: u32 where "v = hexOf w"
      by auto
    then show ?case
      using f by (simp add: redisGameSessionsStr_def hexOf_short)
  qed
  then show ?thesis
    using redis_field by (fastforce simp: plainValues_def)
qed

lemma valuesText_words:
  "valuesText (xs @ (f, v @ blank # strBytes g @ blank # w) # ys) = valuesText (xs @ (f, v) # (g, w) # ys)"
  by (simp add: valuesText_def strBytes_def)

context redis_server
begin

text \<open>\<open>cvs\<close> is what the server reads where the code writes the values of the commander.\<close>

lemma update_stores:
  assumes run: "rd_run env = run"
    and account: "account_words socketId account"
    and commander: "p \<noteq> NullPtr" "derefCommander cs p = Inr c" "commander_names c"
    and cvs: "valuesText (commanderValues env key c) = valuesText cvs" "plainValues cvs" "cvs \<noteq> []" "length cvs \<le> 100"
    and ids: "equipmentIds st (inv_equippedItems (co_inventory c)) = Inr ids" "length ids = 20"
  shows "\<exists>r'. redisUpdateGameSession env r key socketId account p cs st = Inr (True, r')
    \<and> hashes r' = (hashes r)(gameKeyText key := hashes r (gameKeyText key) ++ map_of (rev (byteFields
        (accountValues socketId account @ cvs @ zip redisEquipmentStr (map hexOf ids)))))"
proof -
  let ?key = "gameKeyText key" and ?evs = "zip redisEquipmentStr (map hexOf ids)"
  have key: "length ?key \<le> 100"
    using plain_gameKeyText(2) [of key] by linarith
  obtain s0 r0 where 0: "redisCommandDbg env r (strBytes ''HMSET '' @ ?key @ valuesText (accountValues socketId account)) = (Some (RedisStatus s0), r0)"
      "hashes r0 = (hashes r)(?key := hashes r ?key ++ map_of (rev (byteFields (accountValues socketId account))))"
    using run_values [OF run plain_gameKeyText(1) key accountValues_plain [OF account], where r = r] by (auto simp: accountValues_def)
  obtain s1 r1 where 1: "redisCommandDbg env r0 (strBytes ''HMSET '' @ ?key @ valuesText (commanderValues env key c)) = (Some (RedisStatus s1), r1)"
      "hashes r1 = (hashes r0)(?key := hashes r0 ?key ++ map_of (rev (byteFields cvs)))"
    using run_values [OF run plain_gameKeyText(1) key cvs(2,3), where r = r0] cvs(4) unfolding cvs(1) by auto
  have "?evs \<noteq> []" "length ?evs \<le> 1000"
    using ids(2) by (auto simp: redisEquipmentStr_def)
  then obtain s2 r2 where 2: "redisCommandDbg env r1 (strBytes ''HMSET '' @ ?key @ valuesText ?evs) = (Some (RedisStatus s2), r2)"
      "hashes r2 = (hashes r1)(?key := hashes r1 ?key ++ map_of (rev (byteFields ?evs)))"
    using run_values [OF run plain_gameKeyText(1) key equipmentValues_plain, where r = r1] by blast
  have "hashes r2 = (hashes r)(?key := hashes r ?key ++ map_of (rev (byteFields (accountValues socketId account @ cvs @ ?evs))))"
    unfolding 2(2) 1(2) 0(2) by (simp add: byteFields_def)
  moreover have "redisUpdateGameSession env r key socketId account p cs st = Inr (True, r2)"
    using account commander ids(1) unfolding redisUpdateGameSession_def
    by (simp add: 0(1) 1(1) 2(1) account_words_def commander_names_def)
  ultimately show ?thesis
    by blast
qed

end

text \<open>The values of a session in the order in which they are read.\<close>

definition sessionValues ::
    "('h, 'k, 'v, 'r) RedisEnv \<Rightarrow> RedisGameSessionKey \<Rightarrow> string \<Rightarrow> AccountSession \<Rightarrow> ('h, 'k) Commander \<Rightarrow> u32 list \<Rightarrow> (string \<times> bytes) list" where
  "sessionValues env key socketId account c ids =
     [(''accountName'', c_str (as_accountName account)), (''sessionKey'', strBytes socketId),
      (''privilege'', hexOf (as_privilege account)),
      (''commandersCountMax'', hexOf (of_nat (as_commandersCountMax account) :: u32))]
     @ commanderValues env key c @ zip redisEquipmentStr (map hexOf ids)"

text \<open>What comes back: the other fields are those of an empty account and of a new commander.\<close>

definition accountReadBack :: "string \<Rightarrow> AccountSession \<Rightarrow> AccountSession" where
  "accountReadBack socketId account = accountSessionZero
     \<lparr> as_accountName := c_strncpy ACCOUNT_SESSION_ACCOUNT_NAME_MAXSIZE (c_str (as_accountName account)),
       as_sessionKey := c_strncpy SOCKET_SESSION_ID_SIZE (strBytes socketId), as_privilege := as_privilege account,
       as_commandersCountMax := unat (of_nat (as_commandersCountMax account) :: u32) \<rparr>"

definition throughText :: "('h, 'k, 'v, 'r) RedisEnv \<Rightarrow> PositionXYZ \<Rightarrow> PositionXYZ" where
  "throughText env p =
     (let float = (\<lambda>x. rd_strtof env (rd_fmtFloat env x)) in
      \<lparr> pos_x = float (pos_x p), pos_y = float (pos_y p), pos_z = float (pos_z p) \<rparr>)"

definition redisReadBack :: "('h, 'k, 'v, 'r) RedisEnv \<Rightarrow> RedisGameSessionKey \<Rightarrow> ('h, 'k) Commander \<Rightarrow> ('h, 'k) Commander" where
  "redisReadBack env key c = c
     \<lparr> co_commanderName := c_strncpy (COMMANDER_NAME_SIZE + 1) (redisName (co_commanderName c)),
       co_familyName := c_strncpy COMMANDER_FAMILY_NAME_SIZE (redisName (co_familyName c)),
       co_accountId := rk_accountId key, co_pos := throughText env (co_pos c),
       co_barrackPos := throughText env (co_barrackPos c), co_dir := co_dir (commanderInit (rd_Z env) (rd_Zs env)),
       co_inventory := inventoryInit (rd_Z env), co_skillsManager := skillsManagerInit (rd_Zs env) \<rparr>"

lemma redisName_ends: "c_str (redisName name) = redisName name"
proof -
  have "0 \<notin> set (strBytes ''__EMPTY_STRING__'')"
    by (simp add: strBytes_def)
  then show ?thesis
    by (simp add: redisName_def c_str_plainChars)
qed

lemma no_null_strBytes: "CHR 0x00 \<notin> set s \<Longrightarrow> 0 \<notin> set (strBytes s)"
  by (simp add: set_strBytes char_of_def)

lemma redisFloat_text: "float_words env \<Longrightarrow> redisFloat env (strBytes (rd_fmtFloat env x)) = rd_strtof env (rd_fmtFloat env x)"
  by (simp add: redisFloat_def float_words_def c_str_plainChars no_null_strBytes)

lemma accountOfReply_sessionValues:
  assumes "account_words socketId account"
  shows "accountOfReply (map snd (sessionValues env key socketId account c ids)) = accountReadBack socketId account"
  using assms unfolding sessionValues_def accountOfReply_def accountReadBack_def
  by (simp add: account_words_def ucast_redisNumber unat_redisNumber c_str_plainChars no_null_strBytes)

lemma commanderOfReply_sessionValues:
  assumes "float_words env"
  shows "commanderOfReply env (map snd (sessionValues env key socketId account c ids)) = redisReadBack env key c"
  unfolding sessionValues_def commanderOfReply_def redisReadBack_def commanderValues_def Let_def throughText_def
  by (cases c) (simp add: ucast_redisNumber redisNumber_hexOf64 redisFloat_text [OF assms] redisName_ends commanderInit_def)

lemma map_fst_sessionValues: "length ids = 20 \<Longrightarrow> map fst (sessionValues env key socketId account c ids) = redisGameSessionsStr"
  by (simp add: sessionValues_def redisGameSessionsStr_def redisAccountSessionsStr_def fst_commanderValues length_redisStrs)

context redis_server
begin

lemma get_session:
  assumes run: "rd_run env = run"
    and fields: "map fst fvs = redisGameSessionsStr"
    and stored: "\<forall>(f, v) \<in> set fvs. hashes r (gameKeyText key) (strBytes f) = Some v"
  shows "redisGetGameSession env r key s =
    rbind (redisEquipment env (hs_items s) (hs_actors s) (drop 31 (map snd fvs))) (\<lambda>(ok, equipment, st, actors).
      let commander = commanderOfReply env (map snd fvs);
          inventory = (co_inventory commander) \<lparr> inv_equippedItems := equipment \<rparr>;
          (p, cs) = allocCommander (hs_commanders s) (commander \<lparr> co_inventory := inventory \<rparr>) in
      Inr (ok, s \<lparr> hs_commanders := cs, hs_items := st, hs_actors := actors \<rparr>, r, accountOfReply (map snd fvs), p))"
proof -
  have key: "length (gameKeyText key) \<le> 100"
    using plain_gameKeyText(2) [of key] by linarith
  have fields_list: "redisGameSessionsStr \<noteq> []" "length redisGameSessionsStr = 51"
    by (simp_all add: redisGameSessionsStr_def length_redisStrs) (simp add: redisAccountSessionsStr_def)
  have "map (\<lambda>f. redisValue (hashes r (gameKeyText key) (strBytes f))) redisGameSessionsStr = map RedisString (map snd fvs)"
    unfolding fields [symmetric] using stored by (auto simp: redisValue_def)
  then have reply: "redisCommandDbg env r (strBytes ''HMGET '' @ gameKeyText key @ fieldsText redisGameSessionsStr)
      = (Some (RedisArray (map RedisString (map snd fvs))), r)"
    using run_fields [OF run plain_gameKeyText(1) key fields_list(1), where r = r and n = 0] fields_list(2) redis_field by simp
  have "length fvs = 51"
    using fields_list(2) fields by (metis length_map)
  then show ?thesis
    unfolding redisGetGameSession_def reply by (simp del: map_map)
qed

lemma stored_values:
  assumes "hashes r' = (hashes r)(k := hashes r k ++ map_of (rev (byteFields fvs)))" "distinct (map fst fvs)" "set fvs' \<subseteq> set fvs"
  shows "\<forall>(f, v) \<in> set fvs'. hashes r' k (strBytes f) = Some v"
  using assms map_of_byteFields [OF assms(2)] by (fastforce simp: map_add_def)

lemma session_roundtrip:
  assumes run: "rd_run env = run" and floats: "float_words env"
    and account: "account_words socketId account"
    and commander: "p \<noteq> NullPtr" "derefCommander cs p = Inr c" "commander_names c"
      "plain_name (co_commanderName c)" "plain_name (co_familyName c)"
    and ids: "equipmentIds st (inv_equippedItems (co_inventory c)) = Inr ids" "length ids = 20"
  shows "\<exists>r'. redisUpdateGameSession env r key socketId account p cs st = Inr (True, r') \<and>
    (\<forall>s. redisGetGameSession env r' key s =
      rbind (redisEquipment env (hs_items s) (hs_actors s) (map hexOf ids)) (\<lambda>(ok, equipment, st, actors).
        let commander = redisReadBack env key c;
            inventory = (co_inventory commander) \<lparr> inv_equippedItems := equipment \<rparr>;
            (q, cs) = allocCommander (hs_commanders s) (commander \<lparr> co_inventory := inventory \<rparr>) in
        Inr (ok, s \<lparr> hs_commanders := cs, hs_items := st, hs_actors := actors \<rparr>, r', accountReadBack socketId account, q)))"
proof -
  let ?evs = "zip redisEquipmentStr (map hexOf ids)" and ?read = "sessionValues env key socketId account c ids"
  let ?all = "accountValues socketId account @ commanderValues env key c @ ?evs"
  have "commanderValues env key c \<noteq> []" "length (commanderValues env key c) \<le> 100"
    using arg_cong [OF fst_commanderValues [of env key c], of length] by (auto simp: length_redisStrs)
  then obtain r' where update: "redisUpdateGameSession env r key socketId account p cs st = Inr (True, r')"
    "hashes r' = (hashes r)(gameKeyText key := hashes r (gameKeyText key) ++ map_of (rev (byteFields ?all)))"
    using update_stores [OF run account commander(1-3) refl commanderValues_plain [OF floats commander(3-5)] _ _ ids, where r = r] by blast
  have "distinct (map fst ?all)"
    using redis_fields_distinct ids(2)
    by (simp add: fst_commanderValues length_redisStrs) (auto simp: accountValues_def redisAccountSessionsStr_def)
  moreover have "set ?read \<subseteq> set ?all"
    by (auto simp: sessionValues_def accountValues_def)
  ultimately have stored: "\<forall>(f, v) \<in> set ?read. hashes r' (gameKeyText key) (strBytes f) = Some v"
    using stored_values [OF update(2)] by blast
  have read: "drop 31 (map snd ?read) = map hexOf ids"
    using ids(2) arg_cong [OF fst_commanderValues [of env key c], of length] by (simp add: sessionValues_def length_redisStrs)
  show ?thesis
    using update(1) get_session [OF run map_fst_sessionValues [OF ids(2)] stored]
    unfolding read accountOfReply_sessionValues [OF account] commanderOfReply_sessionValues [OF floats] by blast
qed

end

lemma map_of_byteFields_None: "f \<notin> fst ` set fvs \<Longrightarrow> map_of (rev (byteFields fvs)) (strBytes f) = None"
  by (force simp: map_of_eq_None_iff byteFields_def)

lemma byteFields_append: "map_of (rev (byteFields (a @ b))) = map_of (rev (byteFields a)) ++ map_of (rev (byteFields b))"
  by (simp add: byteFields_def)

text \<open>The values of a commander whose family name is a name and two more words.\<close>

definition injectedValues ::
    "('h, 'k, 'v, 'r) RedisEnv \<Rightarrow> RedisGameSessionKey \<Rightarrow> ('h, 'k) Commander \<Rightarrow> bytes \<Rightarrow> string \<Rightarrow> bytes \<Rightarrow> (string \<times> bytes) list" where
  "injectedValues env key c name g w =
     take 2 (commanderValues env key c) @ (''familyName'', name) # (g, w) # drop 3 (commanderValues env key c)"

lemma injectedValues_text:
  assumes "redisName (co_familyName c) = name @ blank # strBytes g @ blank # w"
  shows "valuesText (commanderValues env key c) = valuesText (injectedValues env key c name g w)"
proof -
  have "commanderValues env key c = take 2 (commanderValues env key c) @ (''familyName'', redisName (co_familyName c)) # drop 3 (commanderValues env key c)"
    by (simp add: commanderValues_def)
  then show ?thesis
    unfolding injectedValues_def assms using valuesText_words by metis
qed

lemma injectedValues_plain:
  assumes "float_words env" "commander_names c" "plain_name (co_commanderName c)" "plain name" "length name \<le> 64"
    "plain (strBytes g)" "length g \<le> 20" "plain w" "length w \<le> 64"
  shows "plainValues (injectedValues env key c name g w)"
proof -
  let ?d = "c \<lparr> co_familyName := replicate COMMANDER_FAMILY_NAME_SIZE 0 \<rparr>"
  have "plainValues (commanderValues env key ?d)"
    by (rule commanderValues_plain) (use assms in \<open>simp_all add: commander_names_def plain_name_def c_str_def\<close>)
  moreover have "take 2 (commanderValues env key c) = take 2 (commanderValues env key ?d)"
    "drop 3 (commanderValues env key c) = drop 3 (commanderValues env key ?d)"
    by (simp_all add: commanderValues_def)
  moreover have "plain (strBytes ''familyName'')"
    by (simp add: plain_strBytes)
  ultimately show ?thesis
    using assms(4-) unfolding injectedValues_def plainValues_def by (auto dest!: in_set_takeD in_set_dropD)
qed

lemma fst_injectedValues: "map fst (injectedValues env key c name g w)
    = [''mapId'', ''commanderName'', ''familyName'', g] @ drop 3 redisCommanderStr"
  unfolding injectedValues_def map_append list.map fst_conv take_map [symmetric] drop_map [symmetric] fst_commanderValues
  by (simp add: redisCommanderStr_def)

context redis_server
begin

lemma get_account:
  assumes run: "rd_run env = run"
    and stored: "\<forall>(f, v) \<in> set fvs. hashes r (gameKeyText key) (strBytes f) = Some v" "map fst fvs = redisAccountSessionsStr"
  shows "\<exists>a'. redisGetAccountSession env r key a = Inr (True, a', r) \<and> as_privilege a' = ucast (redisNumber (snd (fvs ! 2)))"
proof -
  have key: "length (gameKeyText key) \<le> 100"
    using plain_gameKeyText(2) [of key] by linarith
  have "map (\<lambda>f. redisValue (hashes r (gameKeyText key) (strBytes f))) redisAccountSessionsStr = map RedisString (map snd fvs)"
    unfolding stored(2) [symmetric] using stored(1) by (auto simp: redisValue_def)
  moreover have "redisAccountSessionsStr \<noteq> []" "set redisAccountSessionsStr \<subseteq> set redisGameSessionsStr"
    by (simp_all add: redisAccountSessionsStr_def redisGameSessionsStr_def)
  ultimately have reply: "redisCommandDbg env r (strBytes ''HMGET '' @ gameKeyText key @ fieldsText redisAccountSessionsStr)
      = (Some (RedisArray (map RedisString (map snd fvs))), r)"
    using run_fields [OF run plain_gameKeyText(1) key, of redisAccountSessionsStr 0, where r = r] redis_field
    by (auto simp: length_redisStrs)
  have "length fvs = 4"
    using stored(2) length_redisStrs(3) by (metis length_map)
  then show ?thesis
    unfolding redisGetAccountSession_def reply by (simp add: take_map [symmetric] del: map_map)
qed

lemma privilege_injected:
  assumes run: "rd_run env = run" and floats: "float_words env"
    and account: "account_words socketId account"
    and commander: "p \<noteq> NullPtr" "derefCommander cs p = Inr c" "commander_names c" "plain_name (co_commanderName c)"
    and name: "c_str (co_familyName c) = name @ strBytes '' privilege '' @ w" "plain name" "plain w"
    and ids: "equipmentIds st (inv_equippedItems (co_inventory c)) = Inr ids" "length ids = 20"
  shows "\<exists>r'. redisUpdateGameSession env r key socketId account p cs st = Inr (True, r') \<and>
    (\<forall>a. \<exists>a'. redisGetAccountSession env r' key a = Inr (True, a', r') \<and> as_privilege a' = ucast (redisNumber w))"
proof -
  let ?evs = "zip redisEquipmentStr (map hexOf ids)" and ?cvs = "injectedValues env key c name ''privilege'' w"
  let ?all = "accountValues socketId account @ ?cvs @ ?evs"
  have split: "redisName (co_familyName c) = name @ blank # strBytes ''privilege'' @ blank # w"
    using name(1) by (simp add: redisName_def strBytes_def)
  have short: "length name \<le> 64" "length w \<le> 64"
    using c_str_shorter [of "co_familyName c"] commander(3) by (simp_all add: name(1) commander_names_def)
  have field: "plain (strBytes ''privilege'')"
    by (simp add: plain_strBytes)
  have cvs: "plainValues ?cvs" "?cvs \<noteq> []" "length ?cvs \<le> 100"
    using injectedValues_plain [OF floats commander(3,4) name(2) short(1) field _ name(3) short(2)]
      arg_cong [OF fst_injectedValues [of env key c name "''privilege''" w], of length]
    by (simp_all add: length_redisStrs injectedValues_def)
  obtain r' where update: "redisUpdateGameSession env r key socketId account p cs st = Inr (True, r')"
    "hashes r' = (hashes r)(gameKeyText key := hashes r (gameKeyText key) ++ map_of (rev (byteFields ?all)))"
    using update_stores [OF run account commander(1-3) injectedValues_text [OF split] cvs ids, where r = r] by blast
  have evs: "fst ` set ?evs = set redisEquipmentStr"
    by (simp only: list.set_map [symmetric]) (simp add: ids(2) length_redisStrs)
  have cvs_fields: "fst ` set ?cvs = set ([''mapId'', ''commanderName'', ''familyName'', ''privilege''] @ drop 3 redisCommanderStr)"
    by (simp only: list.set_map [symmetric] fst_injectedValues)
  have "map_of (rev (byteFields ?evs)) (strBytes f) = None" if "f \<in> set redisAccountSessionsStr" for f
    by (rule map_of_byteFields_None, unfold evs) (use that redis_fields_distinct in auto)
  moreover have "map_of (rev (byteFields ?cvs)) (strBytes f) = None" if "f \<in> set redisAccountSessionsStr - {''privilege''}" for f
    by (rule map_of_byteFields_None, unfold cvs_fields) (use that in \<open>auto simp: redisCommanderStr_def redisAccountSessionsStr_def\<close>)
  moreover have "map_of (rev (byteFields ?cvs)) (strBytes ''privilege'') = Some w"
    by (rule map_of_byteFields) (simp add: fst_injectedValues redisCommanderStr_def, simp add: injectedValues_def)
  moreover have "map_of (rev (byteFields (accountValues socketId account))) (strBytes f) = Some v"
    if "(f, v) \<in> set (accountValues socketId account)" for f v
    by (rule map_of_byteFields [OF _ that]) (simp add: accountValues_def)
  ultimately have "\<forall>(f, v) \<in> set [(''accountName'', c_str (as_accountName account)), (''sessionKey'', strBytes socketId), (''privilege'', w),
      (''commandersCountMax'', hexOf (of_nat (as_commandersCountMax account) :: u32))]. hashes r' (gameKeyText key) (strBytes f) = Some v"
    unfolding update(2) byteFields_append by (simp add: accountValues_def redisAccountSessionsStr_def map_add_def)
  from get_account [OF run this] update(1) show ?thesis
    by (auto simp: redisAccountSessionsStr_def)
qed

end

end
