(* ===== verification/RedisTheorems.thy ===== *)
theory RedisTheorems
  imports RedisProps
begin

text \<open>
  The properties of the sessions in Redis: what is read after it was written, what a player's name can do to the
  request, the new socket session, and the search for the clients around.
\<close>

section \<open>Socket sessions\<close>

definition plain_key :: "RedisSocketSessionKey \<Rightarrow> bool" where
  "plain_key key \<longleftrightarrow> plain (strBytes (rs_sessionKey key)) \<and> length (rs_sessionKey key) \<le> 16"

definition socketValues :: "RedisSocketSessionKey \<Rightarrow> SocketSession \<Rightarrow> (string \<times> bytes) list" where
  "socketValues key socketSession =
     [(''accountId'', hexOf (ss_accountId socketSession)), (''routerId'', hexOf (rs_routerId key)),
      (''mapId'', hexOf (ss_mapId socketSession)), (''authenticated'', strBytes (if ss_authenticated socketSession then ''1'' else ''0''))]"

lemma plain_socketKeyText: "plain_key key \<Longrightarrow> plain (socketKeyText key)" "plain_key key \<Longrightarrow> length (socketKeyText key) \<le> 100"
proof -
  assume key: "plain_key key"
  have "plain (strBytes ''zone'')" "plain (strBytes '':socket'')"
    by (simp_all add: plain_strBytes)
  then show "plain (socketKeyText key)"
    using key by (simp add: socketKeyText_def plain_append plain_key_def)
  show "length (socketKeyText key) \<le> 100"
    using key length_hexOf [of "rs_routerId key"] by (simp add: socketKeyText_def plain_key_def del: length_hexOf)
qed

lemma socket_fields: "\<forall>f \<in> set redisSocketSessionsStr. plain (strBytes f) \<and> length f \<le> 20"
  by (simp add: redisSocketSessionsStr_def plain_strBytes)

lemma socketValues_plain: "plainValues (socketValues key socketSession)"
proof -
  have "plain (strBytes ''1'')" "plain (strBytes ''0'')"
    by (simp_all add: plain_strBytes)
  moreover have "\<forall>f \<in> set (map fst (socketValues key socketSession)). f \<in> set redisSocketSessionsStr"
    by (simp add: socketValues_def redisSocketSessionsStr_def)
  moreover have "length (hexOf (ss_accountId socketSession)) \<le> 64" "length (hexOf (rs_routerId key)) \<le> 64"
      "length (hexOf (ss_mapId socketSession)) \<le> 64"
    by (simp_all add: hexOf_short)
  ultimately show ?thesis
    using socket_fields unfolding plainValues_def by (auto simp: socketValues_def)
qed

lemma redisNumber_flag: "redisNumber (strBytes (if b then ''1'' else ''0'')) \<noteq> 0 \<longleftrightarrow> b"
proof -
  have "strBytes ''1'' = hexOf (1 :: byte)" "strBytes ''0'' = hexOf (0 :: byte)"
    by (simp_all add: hexOf_def fmtHex.simps hexDigit_def)
  then have "redisNumber (strBytes ''1'') = 1" "redisNumber (strBytes ''0'') = 0"
    by (simp_all add: redisNumber_hexOf)
  then show ?thesis
    by simp
qed

context redis_server
begin

lemma update_socket:
  assumes "rd_run env = run" "plain_key key"
  shows "\<exists>r'. redisUpdateSocketSession env r key socketSession = (True, r')
    \<and> (\<forall>(f, v) \<in> set (socketValues key socketSession). hashes r' (socketKeyText key) (strBytes f) = Some v)"
proof -
  have "\<exists>s r'. redisCommandDbg env r (strBytes ''HMSET '' @ socketKeyText key @ valuesText (socketValues key socketSession)) = (Some (RedisStatus s), r')
      \<and> hashes r' = (hashes r)(socketKeyText key := hashes r (socketKeyText key) ++ map_of (rev (byteFields (socketValues key socketSession))))"
    by (rule run_values [OF assms(1) plain_socketKeyText [OF assms(2)] socketValues_plain]) (simp_all add: socketValues_def)
  moreover have "distinct (map fst (socketValues key socketSession))"
    by (simp add: socketValues_def)
  ultimately show ?thesis
    using stored_values by (fastforce simp: redisUpdateSocketSession_def socketValues_def [symmetric])
qed

lemma get_socket_reply:
  assumes "rd_run env = run" "plain_key key"
  shows "redisCommandDbg env r (strBytes ''HMGET '' @ socketKeyText key @ fieldsText redisSocketSessionsStr @ strBytes '' '')
    = (Some (RedisArray (map (\<lambda>f. redisValue (hashes r (socketKeyText key) (strBytes f))) redisSocketSessionsStr)), r)"
proof -
  have "strBytes '' '' = replicate 1 blank"
    by (simp add: strBytes_def)
  then show ?thesis
    using run_fields [OF assms(1) plain_socketKeyText [OF assms(2)], of redisSocketSessionsStr 1 r] socket_fields
    by (simp add: redisSocketSessionsStr_def)
qed

lemma get_socket_stored:
  assumes "rd_run env = run" "plain_key key"
    and stored: "\<forall>(f, v) \<in> set (socketValues key socketSession). hashes r (socketKeyText key) (strBytes f) = Some v"
  shows "redisGetSocketSession env r key
    = Inr (Some (socketSession \<lparr> ss_routerId := rs_routerId key, ss_sessionKey := rs_sessionKey key \<rparr>), r)"
proof -
  have reply: "redisCommandDbg env r (strBytes ''HMGET '' @ socketKeyText key @ fieldsText redisSocketSessionsStr @ strBytes '' '')
    = (Some (RedisArray (map RedisString (map snd (socketValues key socketSession)))), r)"
    unfolding get_socket_reply [OF assms(1,2)] using stored by (simp add: redisSocketSessionsStr_def socketValues_def redisValue_def)
  show ?thesis
    unfolding redisGetSocketSession_def reply Let_def prod.case option.case RedisReply.case
    by (cases socketSession)
      (simp add: redisAnyElementIsNull_strings [unfolded list.map] socketValues_def redisNumber_hexOf64 ucast_redisNumber redisNumber_flag
        redisAnyElementIsNull_def del: strBytes_inj)
qed

lemma get_socket_unknown:
  assumes "rd_run env = run" "plain_key key" "hashes r (socketKeyText key) = Map.empty"
    and fresh: "fresh = socketSessionInit (-1) (rs_routerId key) (-1) (rs_sessionKey key) False"
  shows "\<exists>r'. redisGetSocketSession env r key = Inr (Some fresh, r') \<and> redisGetSocketSession env r' key = Inr (Some fresh, r')"
proof -
  have same: "\<lparr> rs_routerId = rs_routerId key, rs_sessionKey = rs_sessionKey key \<rparr> = key"
    by simp
  obtain r' where update: "redisUpdateSocketSession env r key fresh = (True, r')"
    "\<forall>(f, v) \<in> set (socketValues key fresh). hashes r' (socketKeyText key) (strBytes f) = Some v"
    using update_socket [OF assms(1,2)] by blast
  have "redisCommandDbg env r (strBytes ''HMGET '' @ socketKeyText key @ fieldsText redisSocketSessionsStr @ strBytes '' '')
    = (Some (RedisArray [RedisNil, RedisNil, RedisNil, RedisNil]), r)"
    unfolding get_socket_reply [OF assms(1,2)] by (simp add: assms(3) redisSocketSessionsStr_def redisValue_def)
  then have "redisGetSocketSession env r key = Inr (Some fresh, r')"
    using update(1) unfolding redisGetSocketSession_def fresh
    by (simp add: redisAnyElementIsNull_def socketSessionInit_def same)
  moreover have "fresh \<lparr> ss_routerId := rs_routerId key, ss_sessionKey := rs_sessionKey key \<rparr> = fresh"
    by (simp add: fresh socketSessionInit_def)
  ultimately show ?thesis
    using get_socket_stored [OF assms(1,2) update(2)] by auto
qed

end

section \<open>The clients around\<close>

lemma decValue_decDigit: "d < 10 \<Longrightarrow> decValue (decDigit d) = Some d"
proof -
  have "list_all (\<lambda>d. decValue (decDigit d) = Some d) [0..<10]"
    by code_simp
  then show "d < 10 \<Longrightarrow> decValue (decDigit d) = Some d"
    by (simp add: list_all_iff)
qed

lemma decNumber_fmtDec: "decNumber (fmtDec n) = n"
proof (induction n rule: fmtDec.induct)
  case (1 n)
  show ?case
    using 1 by (subst fmtDec.simps) (auto simp: decNumber_def decValue_decDigit)
qed

lemma decValue_fmtDec: "c \<in> set (fmtDec n) \<Longrightarrow> decValue c \<noteq> None"
proof (induction n rule: fmtDec.induct)
  case (1 n)
  then show ?case
    by (subst (asm) (2) fmtDec.simps) (auto simp: decValue_decDigit split: if_splits)
qed

lemma c_strtoul10_fmtDec:
  assumes "n < 2 ^ 64"
  shows "c_strtoul10 (fmtDec n) = of_nat n"
proof -
  have digit: "decValue c \<noteq> None \<Longrightarrow> \<not> c_isspace c \<and> c \<noteq> CHR ''-'' \<and> c \<noteq> CHR ''+''" for c
    by (auto simp: decValue_def c_isspace_def)
  have all: "\<forall>c \<in> set (fmtDec n). decValue c \<noteq> None"
    using decValue_fmtDec by blast
  obtain c cs where form: "fmtDec n = c # cs"
    by (cases "fmtDec n") (subst (asm) fmtDec.simps, simp split: if_splits)
  have "dropWhile c_isspace (fmtDec n) = fmtDec n" "c_sign (fmtDec n) = (False, fmtDec n)"
    using digit all by (auto simp: form c_sign_def)
  moreover have "takeWhile (\<lambda>c. decValue c \<noteq> None) (fmtDec n) = fmtDec n"
    using all by (simp add: takeWhile_eq_all_conv)
  ultimately show ?thesis
    unfolding c_strtoul10_def using assms by (simp only: Let_def prod.case if_False decNumber_fmtDec) simp
qed

lemma fmtDec_no_null: "CHR 0x00 \<notin> set (fmtDec n)"
  using decValue_fmtDec [of "CHR 0x00" n] by (auto simp: decValue_def)

definition scanText :: "u16 \<Rightarrow> u16 \<Rightarrow> u32 \<Rightarrow> bytes" where
  "scanText routerId mapId iterator = strBytes (''SCAN '' @ fmtInt (sint iterator) @ '' MATCH zone'') @ hexOf routerId @
     strBytes '':map'' @ hexOf mapId @ strBytes '':acc*''"

text \<open>The server answers an iteration that begins at \<open>iterator\<close> with these pages: the next iterator and the keys.\<close>

fun scan_pages :: "('h, 'k, 'v, 'r) RedisEnv \<Rightarrow> 'r \<Rightarrow> u16 \<Rightarrow> u16 \<Rightarrow> u32 \<Rightarrow> (u32 \<times> bytes list) list \<Rightarrow> bool" where
  "scan_pages env r routerId mapId iterator [] \<longleftrightarrow> False"
| "scan_pages env r routerId mapId iterator ((cursor, keys) # pages) \<longleftrightarrow>
     redisCommandDbg env r (scanText routerId mapId iterator)
       = (Some (RedisArray [RedisString (strBytes (fmtDec (unat cursor))), RedisArray (map RedisString keys)]), r)
     \<and> (if pages = [] then cursor = 0 else cursor \<noteq> 0 \<and> scan_pages env r routerId mapId cursor pages)"

text \<open>What Redis holds of a client: its coordinates as texts and its session key.\<close>

record StoredClient =
  sc_posX :: bytes
  sc_posZ :: bytes
  sc_sessionKey :: string

definition stores_client :: "('r \<Rightarrow> bytes \<Rightarrow> bytes \<Rightarrow> bytes option) \<Rightarrow> 'r \<Rightarrow> bytes \<Rightarrow> StoredClient \<Rightarrow> bool" where
  "stores_client hashes r k c \<longleftrightarrow> plain k \<and> length k \<le> 100 \<and> 0 \<notin> set k \<and> CHR 0x00 \<notin> set (sc_sessionKey c)
     \<and> hashes r k (strBytes ''posX'') = Some (sc_posX c) \<and> hashes r k (strBytes ''posZ'') = Some (sc_posZ c)
     \<and> hashes r k (strBytes ''sessionKey'') = Some (strBytes (sc_sessionKey c))"

definition clientsInRange ::
    "('h, 'k, 'v, 'r) RedisEnv \<Rightarrow> PositionXZ \<Rightarrow> u32 \<Rightarrow> string option \<Rightarrow> StoredClient list \<Rightarrow> string list" where
  "clientsInRange env center radius ignored cs =
     filter (\<lambda>sk. ignored \<noteq> Some sk) (map sc_sessionKey (filter (\<lambda>c. mathIsWithin2DManhattanDistance env
       \<lparr> xz_x = redisFloat env (sc_posX c), xz_z = redisFloat env (sc_posZ c) \<rparr> center radius) cs))"

lemma clientsInRange_append:
  "clientsInRange env center radius ignored (cs @ ds) = clientsInRange env center radius ignored cs @ clientsInRange env center radius ignored ds"
  by (simp add: clientsInRange_def)

context redis_server
begin

lemma scan_keys:
  assumes "rd_run env = run" "\<forall>k \<in> set keys. stores_client hashes r k (client k)"
  shows "scanKeys env center radius ignored r (map RedisString keys) clients
    = Inr (Some (clients @ clientsInRange env center radius ignored (map client keys)), r)"
  using assms(2)
proof (induction keys arbitrary: clients)
  case (Cons k keys)
  have k: "stores_client hashes r k (client k)"
    using Cons.prems by simp
  have posReply: "redisCommandDbg env r (strBytes ''HMGET '' @ c_str k @ fieldsText [''posX'', ''posZ'', ''sessionKey''])
      = (Some (RedisArray (map RedisString [sc_posX (client k), sc_posZ (client k), strBytes (sc_sessionKey (client k))])), r)"
    using k run_fields [OF assms(1), of k "[''posX'', ''posZ'', ''sessionKey'']" 0 r]
    by (simp add: stores_client_def c_str_plainChars plain_strBytes redisValue_def)
  have "bytesText (c_str (strBytes (sc_sessionKey (client k)))) = sc_sessionKey (client k)"
    using k by (simp add: stores_client_def c_str_plainChars no_null_strBytes)
  then show ?case
    using Cons by (simp add: posReply [simplified] clientsInRange_def)
qed (simp add: clientsInRange_def)

lemma scan_page:
  assumes "rd_run env = run" "\<forall>k \<in> set keys. stores_client hashes r k (client k)"
    and "redisCommandDbg env r (scanText routerId mapId iterator)
       = (Some (RedisArray [RedisString (strBytes (fmtDec (unat cursor))), RedisArray (map RedisString keys)]), r)"
  shows "scanPage env routerId mapId center radius ignored r iterator clients
    = Inr (Some (cursor, clients @ clientsInRange env center radius ignored (map client keys)), r)"
proof -
  have "unat cursor < 2 ^ LENGTH(32)"
    by (rule unsigned_less)
  then have "ucast (c_strtoul10 (bytesText (c_str (strBytes (fmtDec (unat cursor)))))) = cursor"
    by (simp add: c_str_plainChars no_null_strBytes fmtDec_no_null c_strtoul10_fmtDec)
      (rule bit_word_eqI, auto simp: bit_simps dest: bit_imp_le_length)
  then show ?thesis
    unfolding scanPage_def scanText_def [symmetric] assms(3)
    using scan_keys [OF assms(1,2), of center radius ignored clients] by simp
qed

lemma scan_loop:
  assumes "rd_run env = run" "scan_pages env r routerId mapId iterator pages"
    and "\<forall>k \<in> set (concat (map snd pages)). stores_client hashes r k (client k)"
  shows "scanLoop env routerId mapId center radius ignored r iterator clients
    = Some (Inr (Some (clients @ clientsInRange env center radius ignored (map client (concat (map snd pages)))), r))"
  using assms(2,3)
proof (induction pages arbitrary: iterator clients)
  case (Cons page pages)
  obtain cursor keys where page: "page = (cursor, keys)"
    by (cases page)
  have now: "scanPage env routerId mapId center radius ignored r iterator clients
    = Inr (Some (cursor, clients @ clientsInRange env center radius ignored (map client keys)), r)"
    by (rule scan_page [OF assms(1)]) (use Cons.prems in \<open>simp_all add: page\<close>)
  show ?case
  proof (cases "pages = []")
    case True
    then show ?thesis
      using Cons.prems by (subst scanLoop.simps) (simp add: now page)
  next
    case False
    then have "cursor \<noteq> 0" "scan_pages env r routerId mapId cursor pages"
      using Cons.prems by (simp_all add: page)
    then show ?thesis
      using Cons.IH [of cursor] Cons.prems by (subst scanLoop.simps) (simp add: now page clientsInRange_append)
  qed
qed simp

end

section \<open>The properties\<close>


text \<open>C29: The names are put into the request as they are, and the client library cuts it at blanks. If the family name,
  which the player chooses, goes on with the two words \<open>privilege 0\<close>, the field \<open>privilege\<close> of the session becomes 0,
  the privilege of an administrator, whatever privilege the account has.\<close>

theorem redis_name_sets_privilege:
  assumes "redis_server (rd_run env) hashes" "float_words env" "account_words socketId account"
    and "p \<noteq> NullPtr" "derefCommander cs p = Inr c" "commander_names c" "plain_name (co_commanderName c)"
    and "c_str (co_familyName c) = name @ strBytes '' privilege 0''" "plain name"
    and "equipmentIds st (inv_equippedItems (co_inventory c)) = Inr ids" "length ids = 20"
  shows "\<exists>r'. redisUpdateGameSession env r key socketId account p cs st = Inr (True, r') \<and>
    (\<forall>a. \<exists>a'. redisGetAccountSession env r' key a = Inr (True, a', r') \<and> as_privilege a' = ACCOUNT_SESSION_PRIVILEGES_ADMIN)"
proof -
  have zero: "strBytes ''0'' = hexOf (0 :: byte)"
    by (simp add: hexOf_def fmtHex.simps hexDigit_def)
  have "c_str (co_familyName c) = name @ strBytes '' privilege '' @ strBytes ''0''"
    using assms(8) by (simp add: strBytes_def)
  from redis_server.privilege_injected [OF assms(1) refl assms(2-7) this assms(9) _ assms(10,11)] show ?thesis
    by (simp add: zero redisNumber_hexOf)
qed

text \<open>The session of a socket that Redis does not know is made without an account and a map, stored and returned, and
  from then on it is found; a session that was stored is returned with its account, map and state.\<close>

theorem redisGetSocketSession_correct:
  assumes "redis_server (rd_run env) hashes" "plain_key key"
    and "fresh = socketSessionInit (-1) (rs_routerId key) (-1) (rs_sessionKey key) False"
  shows "(hashes r (socketKeyText key) = Map.empty \<longrightarrow>
      (\<exists>r'. redisGetSocketSession env r key = Inr (Some fresh, r') \<and> redisGetSocketSession env r' key = Inr (Some fresh, r')))
    \<and> (\<exists>r'. redisUpdateSocketSession env r key ss = (True, r') \<and> redisGetSocketSession env r' key
      = Inr (Some (ss \<lparr> ss_routerId := rs_routerId key, ss_sessionKey := rs_sessionKey key \<rparr>), r'))"
  using redis_server.get_socket_unknown [OF assms(1) refl assms(2) _ assms(3)]
    redis_server.update_socket [OF assms(1) refl assms(2)] redis_server.get_socket_stored [OF assms(1) refl assms(2)] by blast


end
