(* ===== verification/RedisWitness.thy ===== *)
theory RedisWitness
  imports RedisTheorems InventoryWitness
begin

text \<open>Concrete sessions to which the properties of \<open>RedisTheorems\<close> apply.\<close>

text \<open>A server that answers \<open>SCAN\<close> with two pages and otherwise is the one of \<open>redisRun\<close>.\<close>

definition scanRun :: "bytes \<Rightarrow> bytes \<Rightarrow> bytes \<Rightarrow> (bytes \<Rightarrow> bytes \<Rightarrow> bytes option) \<Rightarrow> RedisReply option \<times> (bytes \<Rightarrow> bytes \<Rightarrow> bytes option)" where
  "scanRun k1 k2 text h =
     (case wordsOf blank text of
        command # cursor # _ \<Rightarrow>
          if command = strBytes ''SCAN'' then
            (Some (if cursor = strBytes ''0'' then RedisArray [RedisString (strBytes ''7''), RedisArray [RedisString k1]]
               else RedisArray [RedisString (strBytes ''0''), RedisArray [RedisString k2]]), h)
          else redisRun text h
      | _ \<Rightarrow> redisRun text h)"

lemma scanRun_server: "redis_server (scanRun k1 k2) (\<lambda>h. h)"
  by unfold_locales (auto simp: scanRun_def redisRun_def Let_def)

definition exRedisEnv ::
    "(bytes \<Rightarrow> 'r \<Rightarrow> RedisReply option \<times> 'r) \<Rightarrow> ((string \<times> addr) list, (string \<times> nat) list, nat, 'r) RedisEnv" where
  "exRedisEnv run = \<lparr> rd_run = run, rd_fmtFloat = (\<lambda>x. fmtHex (unat x)), rd_strtof = (\<lambda>s. ucast (c_strtoull16 s)),
     rd_fsub = (\<lambda>x y. x - y), rd_toInt = sint, rd_less = (<), rd_Z = al_ops, rd_Zs = al_ops,
     rd_create = (\<lambda>actors itemId amount. Inr (Some (exWeapon 1 EQSLOT_NOSLOT), actors)) \<rparr>"

definition exRedisAccount :: AccountSession where
  "exRedisAccount = accountSessionZero \<lparr> as_accountName := c_strncpy 33 (strBytes ''bob''), as_privilege := 3, as_commandersCountMax := 5 \<rparr>"

definition exRedisCommander :: "string \<Rightarrow> ((string \<times> addr) list, (string \<times> nat) list) Commander" where
  "exRedisCommander family = (commanderInit al_ops (al_ops :: (_, nat) zhash_ops))
     \<lparr> co_commanderName := c_strncpy 65 (strBytes ''Bob''), co_familyName := c_strncpy 64 (strBytes family),
       co_inventory := (inventoryInit al_ops) \<lparr> inv_equippedItems := replicate 20 (Some 0) \<rparr> \<rparr>"

definition exRedisCommanders :: "string \<Rightarrow> ((string \<times> addr) list, (string \<times> nat) list) Commanders" where
  "exRedisCommanders family = \<lparr> cs_commanders = [0 \<mapsto> exRedisCommander family], cs_next = 1 \<rparr>"

definition exGameKey :: RedisGameSessionKey where
  "exGameKey = \<lparr> rk_routerId = 1, rk_mapId = -1, rk_accountId = 0xABC \<rparr>"

lemma exRedisEnv_floats: "float_words (exRedisEnv run)"
proof -
  have "plain (strBytes (fmtHex (unat x))) \<and> length (fmtHex (unat x)) \<le> 64 \<and> CHR 0x00 \<notin> set (fmtHex (unat x))" for x :: u32
    using plain_hexOf [of x] hexOf_short [of x] hexValue_fmtHex [of "CHR 0x00" "unat x"]
    by (auto simp: hexOf_def hexValue_def)
  then show ?thesis
    by (simp add: float_words_def exRedisEnv_def)
qed

lemma exRedisAccount_words: "account_words ''0123456789'' exRedisAccount"
proof -
  have "plain (strBytes ''0123456789'')" "plain (strBytes ''bob'')"
    by (simp_all add: plain_strBytes)
  moreover have "c_str (as_accountName exRedisAccount) = strBytes ''bob''"
    by (simp add: exRedisAccount_def c_strncpy_def c_str_def strBytes_def)
  moreover have "0 \<in> set (as_accountName exRedisAccount)" "length (as_accountName exRedisAccount) = 33"
    by (simp_all add: exRedisAccount_def c_strncpy_def)
  ultimately show ?thesis
    by (simp add: account_words_def)
qed

lemma exRedisCommander_names:
  assumes "length family < 64" "CHR 0x00 \<notin> set family"
  shows "commander_names (exRedisCommander family)" "c_str (co_commanderName (exRedisCommander family)) = strBytes ''Bob''"
    "c_str (co_familyName (exRedisCommander family)) = strBytes family"
proof -
  show "commander_names (exRedisCommander family)"
    using assms(1) by (simp add: commander_names_def exRedisCommander_def c_strncpy_def)
  show "c_str (co_commanderName (exRedisCommander family)) = strBytes ''Bob''"
    by (simp add: exRedisCommander_def c_strncpy_def c_str_def strBytes_def)
  have "takeWhile (\<lambda>b. b \<noteq> 0) (strBytes family) = strBytes family"
    using no_null_strBytes [OF assms(2)] by (simp add: takeWhile_eq_all_conv) metis
  then show "c_str (co_familyName (exRedisCommander family)) = strBytes family"
    using assms(1) no_null_strBytes [OF assms(2)]
    by (simp add: exRedisCommander_def c_strncpy_def c_str_def takeWhile_append2)
qed

lemma exRedisCommander_ids:
  "equipmentIds exStore (inv_equippedItems (co_inventory (exRedisCommander family)))
    = Inr (replicate 20 (itemGetId (itemBase (exWeapon 1 EQSLOT_NOSLOT))))"
  by (simp add: exRedisCommander_def numeral_eq_Suc derefItem_def exStore_def)


theorem redis_name_sets_privilege_witness:
  "\<exists>r'. redisUpdateGameSession (exRedisEnv redisRun) (\<lambda>_ _. None) exGameKey ''0123456789'' exRedisAccount (CommanderAt 0)
      (exRedisCommanders ''x privilege 0'') exStore = Inr (True, r') \<and>
    (\<forall>a. \<exists>a'. redisGetAccountSession (exRedisEnv redisRun) r' exGameKey a = Inr (True, a', r')
      \<and> as_privilege a' = ACCOUNT_SESSION_PRIVILEGES_ADMIN)"
proof -
  have names: "plain_name (co_commanderName (exRedisCommander ''x privilege 0''))" "plain (strBytes ''x'')"
    unfolding plain_name_def by (simp_all add: exRedisCommander_names plain_strBytes) (simp_all add: strBytes_def)
  have family: "c_str (co_familyName (exRedisCommander ''x privilege 0'')) = strBytes ''x'' @ strBytes '' privilege 0''"
    by (simp add: exRedisCommander_names strBytes_append [symmetric])
  have server: "redis_server (rd_run (exRedisEnv redisRun)) (\<lambda>h. h)"
    by (simp add: exRedisEnv_def reference.redis_server_axioms)
  show ?thesis
    by (rule redis_name_sets_privilege [OF server exRedisEnv_floats exRedisAccount_words _ _ exRedisCommander_names(1) names(1) family
          names(2) exRedisCommander_ids]) (simp_all add: exRedisCommanders_def)
qed

theorem redisGetSocketSession_correct_witness:
  "\<exists>r'. redisUpdateSocketSession (exRedisEnv redisRun) (\<lambda>_ _. None) \<lparr> rs_routerId = 1, rs_sessionKey = ''0123456789'' \<rparr>
        (socketSessionInit 0xABC 1 1021 ''0123456789'' True) = (True, r')
     \<and> redisGetSocketSession (exRedisEnv redisRun) r' \<lparr> rs_routerId = 1, rs_sessionKey = ''0123456789'' \<rparr>
        = Inr (Some (socketSessionInit 0xABC 1 1021 ''0123456789'' True), r')"
proof -
  have server: "redis_server (rd_run (exRedisEnv redisRun)) (\<lambda>h. h)"
    by (simp add: exRedisEnv_def reference.redis_server_axioms)
  have key: "plain_key \<lparr> rs_routerId = 1, rs_sessionKey = ''0123456789'' \<rparr>"
    by (simp add: plain_key_def plain_strBytes)
  show ?thesis
    using redisGetSocketSession_correct [OF server key refl, of "\<lambda>_ _. None" "socketSessionInit 0xABC 1 1021 ''0123456789'' True"]
    by (simp add: socketSessionInit_def)
qed

definition exScanned :: "bytes \<Rightarrow> StoredClient" where
  "exScanned k = (if k = strBytes ''zone1:map3fd:acca'' then \<lparr> sc_posX = strBytes ''10'', sc_posZ = strBytes ''20'', sc_sessionKey = ''AAAAAAAAAA'' \<rparr>
     else \<lparr> sc_posX = strBytes ''ff00'', sc_posZ = strBytes ''20'', sc_sessionKey = ''BBBBBBBBBB'' \<rparr>)"

definition exScanState :: "bytes \<Rightarrow> bytes \<Rightarrow> bytes option" where
  "exScanState k f = (if f = strBytes ''posX'' then Some (sc_posX (exScanned k)) else if f = strBytes ''posZ'' then Some (sc_posZ (exScanned k))
     else Some (strBytes (sc_sessionKey (exScanned k))))"

lemma exScan_client: "k \<in> {strBytes ''zone1:map3fd:acca'', strBytes ''zone1:map3fd:accb''} \<Longrightarrow> stores_client (\<lambda>h. h) exScanState k (exScanned k)"
proof -
  have "0 \<notin> set (strBytes ''zone1:map3fd:acca'')" "0 \<notin> set (strBytes ''zone1:map3fd:accb'')"
    by (simp_all add: strBytes_def)
  then show "k \<in> {strBytes ''zone1:map3fd:acca'', strBytes ''zone1:map3fd:accb''} \<Longrightarrow> stores_client (\<lambda>h. h) exScanState k (exScanned k)"
    by (auto simp: stores_client_def plain_strBytes exScanState_def exScanned_def)
qed

lemma exScan_texts:
  "scanText 1 0x3FD 0 = strBytes ''SCAN 0 MATCH zone1:map3fd:acc*''" "scanText 1 0x3FD 7 = strBytes ''SCAN 7 MATCH zone1:map3fd:acc*''"
  by (simp_all add: scanText_def hexOf_def fmtHex.simps hexDigit_def fmtInt_def fmtDec.simps decDigit_def strBytes_append [symmetric])

lemma exScan_words:
  "wordsOf blank (strBytes ''SCAN 0 MATCH zone1:map3fd:acc*'') = map strBytes [''SCAN'', ''0'', ''MATCH'', ''zone1:map3fd:acc*'']"
  "wordsOf blank (strBytes ''SCAN 7 MATCH zone1:map3fd:acc*'') = map strBytes [''SCAN'', ''7'', ''MATCH'', ''zone1:map3fd:acc*'']"
proof -
  have words: "wordsOf blank (strBytes (''SCAN '' @ c @ '' MATCH zone1:map3fd:acc*'')) = map strBytes [''SCAN'', c, ''MATCH'', ''zone1:map3fd:acc*'']"
    if "plain (strBytes c)" for c
  proof -
    have "strBytes (''SCAN '' @ c @ '' MATCH zone1:map3fd:acc*'')
        = strBytes ''SCAN'' @ blank # strBytes c @ blank # strBytes ''MATCH'' @ blank # strBytes ''zone1:map3fd:acc*''"
      by (simp add: strBytes_def)
    moreover have "plain (strBytes ''SCAN'')" "plain (strBytes ''MATCH'')" "plain (strBytes ''zone1:map3fd:acc*'')"
      by (simp_all add: plain_strBytes)
    ultimately show ?thesis
      using that by (simp add: wordsOf_append wordsOf_single plain_def)
  qed
  show "wordsOf blank (strBytes ''SCAN 0 MATCH zone1:map3fd:acc*'') = map strBytes [''SCAN'', ''0'', ''MATCH'', ''zone1:map3fd:acc*'']"
    "wordsOf blank (strBytes ''SCAN 7 MATCH zone1:map3fd:acc*'') = map strBytes [''SCAN'', ''7'', ''MATCH'', ''zone1:map3fd:acc*'']"
    using words [of "''0''"] words [of "''7''"] by (simp_all add: plain_strBytes)
qed

lemma exScan_decimals: "fmtDec 7 = ''7''" "fmtDec 0 = ''0''"
  by (simp_all add: fmtDec.simps decDigit_def)


end
