(* ===== verification/ZoneWitness.thy ===== *)
theory ZoneWitness
  imports ZoneProps RedisWitness BarrackWitness ZoneEventsWitness
begin

text \<open>The theorems on the zone server at concrete packets.\<close>

definition exZoneState ::
    "((string \<times> addr) list, (string \<times> nat) list) Commander \<Rightarrow> ((string \<times> addr) list, (string \<times> nat) list) HandlerState" where
  "exZoneState c = exHandlerState
     \<lparr> hs_session := \<lparr> se_socket = socketSessionInit 9 1 1021 ''A'' True, se_accountSession = exAccount, se_currentCommander = CommanderAt 0 \<rparr>,
       hs_commanders := \<lparr> cs_commanders = [0 \<mapsto> c], cs_next = 1 \<rparr>, hs_items := exStore \<rparr>"

definition exZoneCommander :: "((string \<times> addr) list, (string \<times> nat) list) Commander" where
  "exZoneCommander = (commanderInit al_ops (al_ops :: (_, nat) zhash_ops)) \<lparr> co_inventory := exInventory \<rparr>"

lemma exZoneState_current [simp]: "currentCommander (exZoneState c) = Inr c"
  by (simp add: exZoneState_def currentCommander_def)

theorem zoneHandlerKeyboardMove_correct_witness:
  "\<exists>s'. zoneHandlerKeyboardMove (exZoneState exZoneCommander)
      (0 # encXYZ \<lparr> pos_x = 1, pos_y = 2, pos_z = 3 \<rparr> @ encXZ \<lparr> xz_x = 4, xz_z = 5 \<rparr> @ replicate 6 0 @ enc32 77 @ []) 31 []
      = Inr (PACKET_HANDLER_UPDATE_SESSION, s', [])
    \<and> currentCommander s' = Inr (exZoneCommander \<lparr> co_pos := \<lparr> pos_x = 1, pos_y = 2, pos_z = 3 \<rparr>, co_dir := \<lparr> xz_x = 4, xz_z = 5 \<rparr> \<rparr>)"
  using zoneHandlerKeyboardMove_correct [OF exZoneState_current [of exZoneCommander] refl, of "replicate 6 0" 31 0
      "\<lparr> pos_x = 1, pos_y = 2, pos_z = 3 \<rparr>" "\<lparr> xz_x = 4, xz_z = 5 \<rparr>" 77 "[]" "[]"]
  by (simp split: if_splits) blast

theorem zoneHandlerItemDelete_use_after_free_witness:
  "zoneHandlerItemDelete al_ops (exZoneState exZoneCommander) (replicate 6 0 @ enc64 1 @ replicate 8 0) 22 [] = Inl UseAfterFree"
  using zoneHandlerItemDelete_use_after_free [OF al.zhash_axioms exZoneState_current [of exZoneCommander], of "replicate 6 0 @ enc64 1 @ replicate 8 0"
      "replicate 6 0" 1 "replicate 8 0" 22 "[]"]
  by (simp add: exZoneCommander_def exZoneState_def exInventory_wf)

theorem zoneHandlerSwapEtcInvChangeIndex_missing_witness:
  "zoneHandlerSwapEtcInvChangeIndex al_ops (exZoneState exZoneCommander) (0 # enc64 1 @ enc32 0 @ enc64 3 @ enc32 1 @ []) 25 [] = Inl NullDeref"
  by (rule zoneHandlerSwapEtcInvChangeIndex_missing [OF exZoneState_current _ refl])
    (simp_all add: exZoneCommander_def exZoneState_def exInventory_wf)

section \<open>A Redis that knows one account\<close>

text \<open>Every field has the value 1; the name of a request begins with an R only if it is \<open>RENAME\<close>.\<close>

definition exZoneRun :: "bytes \<Rightarrow> unit \<Rightarrow> RedisReply option \<times> unit" where
  "exZoneRun request r =
     (Some (if take 1 request = strBytes ''R'' then RedisStatus (strBytes ''OK'')
        else RedisArray (replicate 51 (RedisString (strBytes ''1'')))), r)"

definition exRow :: CommanderRow where
  "exRow = \<lparr> cr_commander_name = strBytes ''Bob'', cr_account_id = 9, cr_class_id = 10005, cr_job_id = 4001, cr_gender = 2,
     cr_level = 1, cr_hair_id = 1, cr_position = \<lparr> pos_x = 0, pos_y = 0, pos_z = 0 \<rparr>,
     cr_barrack_position = \<lparr> pos_x = 0, pos_y = 0, pos_z = 0 \<rparr>, cr_exp = 0, cr_rand = 5, cr_commander_id = 77, cr_hp = 238,
     cr_mp = 105, cr_map_id = 1021, cr_equipment = replicate 20 2 \<rparr>"

definition exHandlerEnv ::
    "((string \<times> addr) list, (string \<times> nat) list, nat, unit, (string \<times> AdminCommand) list) ZoneHandlerEnv" where
  "exHandlerEnv = \<lparr> zh_redis = exRedisEnv exZoneRun, zh_Zc = al_ops, zh_adminCommands = adminCmdInit al_ops,
     zh_atof = (\<lambda>_. 0), zh_fmtFloat0 = (\<lambda>_. ''0''), zh_fadd = (\<lambda>x y. x), zh_fmul = (\<lambda>x y. x), zh_rodata = replicate 64 0,
     zh_tv_sec = 0, zh_tv_usec = 0, zh_deflate = Some, zh_commandersSql = (\<lambda>_. Some [exRow]),
     zh_createEquipable = (\<lambda>actors _ _ _. Inr (Some (exWeapon 1 EQSLOT_NOSLOT), actors)), zh_routerId = 1 \<rparr>"


theorem adminCmdSetLevel_correct_witness:
  "adminCmdProcess exHandlerEnv ''setLevel 15'' (exZoneState exZoneCommander) () [] = Inl OutOfBounds"
  using adminCmdSetLevel_correct [of exHandlerEnv "exZoneState exZoneCommander" exZoneCommander "''15''" "()" "[]"]
  by (simp add: exHandlerEnv_def al.zhash_axioms)


section \<open>Entering the game\<close>

lemma exZoneRun_HMGET: "redisCommandDbg (exRedisEnv exZoneRun) () (strBytes ''HMGET '' @ request)
    = (Some (RedisArray (replicate 51 (RedisString (strBytes ''1'')))), ())"
proof -
  have "take 1 (take (1024 * 1024 - 1) (strBytes ''HMGET '' @ request)) = [0x48]"
    by (simp add: strBytes_def)
  then show ?thesis
    by (simp add: redisCommandDbg_def exRedisEnv_def exZoneRun_def strBytes_def)
qed

lemma exZoneRun_RENAME: "redisMoveGameSession (exRedisEnv exZoneRun) () source target = (True, ())"
proof -
  have "take 1 (take (1024 * 1024 - 1) (strBytes ''RENAME '' @ request)) = [0x52]" for request
    by (simp add: strBytes_def)
  then show ?thesis
    by (simp add: redisMoveGameSession_def redisCommandDbg_def exRedisEnv_def exZoneRun_def strBytes_def)
qed

lemma redis_replicate:
  "redisAnyElementIsNull (replicate n (RedisString b)) = None" "replyStrs (replicate n (RedisString b)) = Inr (replicate n b)"
  using redisAnyElementIsNull_strings [of "replicate n b"] replyStrs_strings [of "replicate n b"] by (simp_all only: map_replicate)

lemma redisEquipment_all: "\<exists>es st' actors'. redisEquipment (exRedisEnv run) st actors strs = Inr (True, es, st', actors')"
proof (induction strs arbitrary: st actors)
  case (Cons x strs)
  obtain a st1 where "allocItem st (exWeapon 1 EQSLOT_NOSLOT) = (a, st1)"
    by fastforce
  then show ?case
    using Cons.IH [of st1 actors] by (auto simp: exRedisEnv_def)
qed simp

lemma loadEquipment_all:
  "\<exists>es st' actors'. loadEquipment (zh_createEquipable exHandlerEnv) st actors slot ids = Inr (es, st', actors')"
proof (induction ids arbitrary: st actors slot)
  case (Cons x ids)
  obtain a st1 where "allocItem st (exWeapon 1 EQSLOT_NOSLOT) = (a, st1)"
    by fastforce
  then show ?case
    using Cons.IH [of st1 actors "slot + 1"] by (auto simp: exHandlerEnv_def)
qed simp

definition exConnect :: bytes where
  "exConnect = replicate 4 0 @ enc64 9 @ replicate 8 0 @ strBytes ''1'' @ replicate 40 0"

lemma exConnect_runs:
  "\<exists>s' reply'. zoneHandlerConnect exHandlerEnv (exHandlerState, ()) exConnect 61 [] = Inr (PACKET_HANDLER_UPDATE_SESSION, (s', ()), reply')"
proof -
  let ?key = "\<lparr> rk_routerId = 1, rk_mapId = -1, rk_accountId = 9 \<rparr> :: RedisGameSessionKey"
  let ?redis = "exRedisEnv exZoneRun"
  have env: "zh_redis exHandlerEnv = ?redis" "zh_routerId exHandlerEnv = 1" "rd_Z ?redis = al_ops" "rd_Zs ?redis = al_ops"
    "zh_commandersSql exHandlerEnv = (\<lambda>_. Some [exRow])"
    by (simp_all add: exHandlerEnv_def exRedisEnv_def)
  obtain account where account: "redisGetAccountSession ?redis () ?key accountSessionZero = Inr (True, account, ())"
    "as_accountName account = c_strncpy 33 (c_str (strBytes ''1''))" "as_commanders account = None"
    by (simp add: redisGetAccountSession_def exZoneRun_HMGET redis_replicate accountSessionZero_def)
  have name: "c_str (as_accountName account) = c_str (strBytes ''1'' @ replicate 32 0)"
    by (simp add: account c_strncpy_def c_str_def strBytes_def)
  have fields: "field 4 8 exConnect = Inr (enc64 9)" "field 20 33 exConnect = Inr (strBytes ''1'' @ replicate 32 0)"
    by (simp_all add: exConnect_def field_def strBytes_def)
  obtain tmp n s1 src p where load: "mySqlLoadAccountCommanders al_ops al_ops (zh_createEquipable exHandlerEnv)
      (\<lambda>_. Some [exRow]) account 9 exHandlerState = Inr (True, tmp, n, s1)"
    "accountCommanderAt tmp 0 = Inr p" "derefCommander (hs_commanders s1) p = Inr src"
  proof -
    obtain es st' actors' where "loadEquipment (zh_createEquipable exHandlerEnv) (hs_items exHandlerState) (hs_actors exHandlerState) 0 (cr_equipment exRow)
        = Inr (es, st', actors')"
      using loadEquipment_all by blast
    then show thesis
      using that by (simp add: mySqlLoadAccountCommanders_def accountSessionCommandersInit_def commanderNew_def allocCommander_def
          accountCommanderAt_def numeral_eq_Suc)
  qed
  have session: "\<exists>s' reply'. zoneConnectSession exHandlerEnv (s, ()) 9 [] = Inr (PACKET_HANDLER_UPDATE_SESSION, (s', ()), reply')" for s
  proof -
    obtain es st' actors' where equipment: "redisEquipment ?redis (hs_items s) (hs_actors s) (drop 31 (replicate 51 (strBytes ''1'')))
        = Inr (True, es, st', actors')"
      using redisEquipment_all by blast
    obtain c s2 acc where "redisGetGameSession ?redis () ?key s = Inr (True, s2, (), acc, CommanderAt (cs_next (hs_commanders s)))"
      "derefCommander (hs_commanders s2) (CommanderAt (cs_next (hs_commanders s))) = Inr c"
      "length (co_familyName c) = 64" "length (co_commanderName c) = 65"
      using equipment
      by (simp add: redisGetGameSession_def exZoneRun_HMGET redis_replicate allocCommander_def
          commanderOfReply_def c_strncpy_def Let_def)
    then show ?thesis
      by (simp add: zoneConnectSession_def env exZoneRun_RENAME Let_def zoneBuilderConnectOk_def commanderAppearance_def
          commanderAppearanceCPacketInit_def)
  qed
  show ?thesis
    using session load account(1) name fields by (simp add: zoneHandlerConnect_def env Let_def)
qed

theorem zoneHandlerConnect_authenticated_witness:
  "\<exists>s' reply' c. zoneHandlerConnect exHandlerEnv (exHandlerState, ()) exConnect 61 [] = Inr (PACKET_HANDLER_UPDATE_SESSION, (s', ()), reply')
    \<and> currentCommander s' = Inr c \<and> ss_accountId (se_socket (hs_session s')) = 9"
proof -
  obtain s' reply' where run: "zoneHandlerConnect exHandlerEnv (exHandlerState, ()) exConnect 61 [] = Inr (PACKET_HANDLER_UPDATE_SESSION, (s', ()), reply')"
    using exConnect_runs by blast
  have "dec64 (drop 4 exConnect) = 9"
    by (simp add: exConnect_def)
  with zoneHandlerConnect_authenticated [OF run] run show ?thesis
    by (auto simp: socketSessionInit_def)
qed

theorem zone_commander_valid_witness:
  "\<exists>sr1 sr2 reply' c. zoneHandlerConnect exHandlerEnv (exHandlerState, ()) exConnect 61 [] = Inr (PACKET_HANDLER_UPDATE_SESSION, sr1, reply')
    \<and> (zone_step exHandlerEnv)\<^sup>*\<^sup>* sr1 sr2 \<and> sr2 \<noteq> sr1 \<and> currentCommander (fst sr2) = Inr c"
proof -
  obtain s' reply' where run: "zoneHandlerConnect exHandlerEnv (exHandlerState, ()) exConnect 61 [] = Inr (PACKET_HANDLER_UPDATE_SESSION, (s', ()), reply')"
    using exConnect_runs by blast
  have ok: "commanders_ok (hs_commanders exHandlerState)"
    using exHandlerState_inv by (simp add: barrack_inv_def)
  have "zone_inv s'"
    using zone_inv_Connect [OF run ok] by simp
  then obtain c where c: "currentCommander s' = Inr c"
    using zone_inv_current by blast
  let ?s2 = "workerDispatchEvent (sessionKeyOf s') (RestSitEvent (co_pcId c)) s'"
  have "checkPacket 0 0 CZ_REST_SIT"
    by (subst checkPacket_fits; simp add: packetTypeInit_entries)
  then have "withoutRedis zoneHandlerRestSit (s', ()) [] 0 [] = Inr (PACKET_HANDLER_OK, (?s2, ()), [])"
    using c by (simp add: withoutRedis_def zoneHandlerRestSit_def checked_def)
  then have "zone_step exHandlerEnv (s', ()) (?s2, ())"
    by (rule zone_step.request [where type = "unat CZ_REST_SIT", rotated]) (simp add: zoneHandlerOf_def)
  then have step: "(zone_step exHandlerEnv)\<^sup>*\<^sup>* (s', ()) (?s2, ())"
    by (rule r_into_rtranclp)
  moreover have "?s2 \<noteq> s'"
    by (metis append_self_conv list.distinct(1) workerDispatchEvent_simps(2))
  ultimately show ?thesis
    using run zone_commander_valid [OF ok run step] by auto
qed

end
