(* ===== verification/MySqlCommander.thy ===== *)
theory MySqlCommander
  imports Redis
begin

text \<open>
  \<open>src/common/mysql/fields/mysql_commander.c\<close> and \<open>mySqlQuery\<close> of \<open>src/common/mysql/mysql.c\<close>: the text of the queries that
  read and write a commander, and what is made of the rows. A query is built in two steps: the columns with their
  formats are joined to a format, which \<open>vsnprintf\<close> then fills with the values. The source joins with
  \<open>snprintf (query, size, "%s...", query, ...)\<close>; the model appends to the text. The SQL server with its client library is
  an argument: a function from the text and the state of the server to the rows (\<open>None\<close> is an error) and the next state.
\<close>

section \<open>Formats\<close>

text \<open>The arguments as they are passed: a \<open>uint64_t\<close>, an integer of at most 32 bits, a float, a text in memory.\<close>

datatype SqlArg = ArgU64 u64 | ArgInt u32 | ArgFloat u32 | ArgStr bytes

text \<open>The conversion behind a \<open>%\<close>, applied to an argument: the text and the rest of the format. Any other pair of a
  conversion and an argument has no defined meaning.\<close>

definition c_conversion :: "(u32 \<Rightarrow> string) \<Rightarrow> string \<Rightarrow> SqlArg \<Rightarrow> (bytes \<times> string) result" where
  "c_conversion fmtFloat f a =
     (if take 3 f = ''llu'' then (case a of ArgU64 w \<Rightarrow> Inr (strBytes (fmtDec (unat w)), drop 3 f) | _ \<Rightarrow> Inl BadCast)
      else if take 1 f = ''u'' then (case a of ArgInt w \<Rightarrow> Inr (strBytes (fmtDec (unat w)), drop 1 f) | _ \<Rightarrow> Inl BadCast)
      else if take 1 f = ''d'' then (case a of ArgInt w \<Rightarrow> Inr (strBytes (fmtInt (sint w)), drop 1 f) | _ \<Rightarrow> Inl BadCast)
      else if take 1 f = ''f'' then (case a of ArgFloat w \<Rightarrow> Inr (strBytes (fmtFloat w), drop 1 f) | _ \<Rightarrow> Inl BadCast)
      else if take 1 f = ''s'' then (case a of ArgStr s \<Rightarrow> (if 0 \<in> set s then Inr (c_str s, drop 1 f) else Inl OutOfBounds) | _ \<Rightarrow> Inl BadCast)
      else Inl BadCast)"

lemma c_conversion_shorter: "c_conversion fmtFloat f a = Inr (t, f') \<Longrightarrow> length f' \<le> length f"
  by (auto simp: c_conversion_def split: if_splits SqlArg.splits)

function c_vformat :: "(u32 \<Rightarrow> string) \<Rightarrow> string \<Rightarrow> SqlArg list \<Rightarrow> bytes result" where
  "c_vformat fmtFloat [] args = Inr []"
| "c_vformat fmtFloat (c # f) args =
     (if c \<noteq> CHR ''%'' then rbind (c_vformat fmtFloat f args) (\<lambda>text. Inr (strBytes [c] @ text))
      else case args of
        [] \<Rightarrow> Inl OutOfBounds
      | a # args \<Rightarrow> (case c_conversion fmtFloat f a of
            Inl e \<Rightarrow> Inl e
          | Inr (t, f') \<Rightarrow> rbind (c_vformat fmtFloat f' args) (\<lambda>text. Inr (t @ text))))"
  by pat_completeness auto
termination
  by (relation "measure (\<lambda>(_, f, _). length f)") (auto dest: c_conversion_shorter)

section \<open>The server\<close>

text \<open>\<open>mysql_real_query\<close> with \<open>mysql_store_result\<close>, \<open>mysql_insert_id\<close>, \<open>%f\<close> and \<open>strtof\<close> of the C library.\<close>

record 'q SqlEnv =
  sq_run :: "bytes \<Rightarrow> 'q \<Rightarrow> bytes list list option \<times> 'q"
  sq_insert_id :: "'q \<Rightarrow> u64"
  sq_fmtFloat :: "u32 \<Rightarrow> string"
  sq_strtof :: "string \<Rightarrow> u32"

text \<open>\<open>vsnprintf\<close> is told that the buffer has a byte less than \<open>MAX_QUERY_SIZE\<close>.\<close>

definition mySqlQuery :: "'q SqlEnv \<Rightarrow> 'q \<Rightarrow> string \<Rightarrow> SqlArg list \<Rightarrow> (bytes list list option \<times> 'q) result" where
  "mySqlQuery env q query args =
     rbind (c_vformat (sq_fmtFloat env) query args) (\<lambda>text. Inr (sq_run env (take (MAX_QUERY_SIZE - 2) text) q))"

section \<open>The columns\<close>

definition quoted :: "string \<Rightarrow> string" where
  "quoted s = CHR 0x27 # s @ [CHR 0x27]"

text \<open>\<open>mySqlCommanderStrFields\<close> and \<open>mySqlCommanderTypeFields\<close>.\<close>

definition mySqlCommanderFields :: "(string \<times> string) list" where
  "mySqlCommanderFields =
     [(''commander_id'', quoted ''%llu''), (''is_deleted'', quoted ''%c''), (''account_id'', quoted ''%llu''),
      (''commander_name'', quoted ''%s''), (''time_deleted'', ''FROM_UNIXTIME('' @ quoted ''%u'' @ '')''),
      (''level'', quoted ''%u''), (''exp'', quoted ''%u''), (''gender'', quoted ''%u''), (''job_id'', quoted ''%u''),
      (''class_id'', quoted ''%u''), (''hair_id'', quoted ''%u''), (''map_id'', quoted ''%u''),
      (''position_x'', quoted ''%f''), (''position_y'', quoted ''%f''), (''position_z'', quoted ''%f''),
      (''barrack_position_x'', quoted ''%f''), (''barrack_position_y'', quoted ''%f''), (''barrack_position_z'', quoted ''%f''),
      (''hp'', quoted ''%d''), (''mp'', quoted ''%d''),
      (''eqslot_head_top'', quoted ''%u''), (''eqslot_head_middle'', quoted ''%u''), (''eqslot_unknown_1'', quoted ''%u''),
      (''eqslot_body_armor'', quoted ''%u''), (''eqslot_gloves'', quoted ''%u''), (''eqslot_boots'', quoted ''%u''),
      (''eqslot_helmet'', quoted ''%u''), (''eqslot_bracelet'', quoted ''%u''), (''eqslot_weapon'', quoted ''%u''),
      (''eqslot_shield'', quoted ''%u''), (''eqslot_costume'', quoted ''%u''), (''eqslot_unknown_3'', quoted ''%u''),
      (''eqslot_unknown_4'', quoted ''%u''), (''eqslot_unknown_5'', quoted ''%u''), (''eqslot_leg_armor'', quoted ''%u''),
      (''eqslot_unknown_6'', quoted ''%u''), (''eqslot_unknown_7'', quoted ''%u''), (''eqslot_ring_left'', quoted ''%u''),
      (''eqslot_ring_right'', quoted ''%u''), (''eqslot_necklace'', quoted ''%u'')]"

abbreviation (input) MYSQL_COMMANDER_commander_id :: nat where "MYSQL_COMMANDER_commander_id \<equiv> 0"
abbreviation (input) MYSQL_COMMANDER_is_deleted :: nat where "MYSQL_COMMANDER_is_deleted \<equiv> 1"
abbreviation (input) MYSQL_COMMANDER_account_id :: nat where "MYSQL_COMMANDER_account_id \<equiv> 2"
abbreviation (input) MYSQL_COMMANDER_commander_name :: nat where "MYSQL_COMMANDER_commander_name \<equiv> 3"
abbreviation (input) MYSQL_COMMANDER_time_deleted :: nat where "MYSQL_COMMANDER_time_deleted \<equiv> 4"
abbreviation (input) MYSQL_COMMANDER_COUNT :: nat where "MYSQL_COMMANDER_COUNT \<equiv> 40"

text \<open>The loops over the columns. Behind the last one the comma becomes a blank.\<close>

fun selectFields :: "nat \<Rightarrow> (string \<times> string) list \<Rightarrow> string \<Rightarrow> string" where
  "selectFields col [] query = query"
| "selectFields col ((name, format) # cols) query =
     (let query = c_snprintf MAX_QUERY_SIZE (query @ name @ '', '');
          query = (if col = MYSQL_COMMANDER_COUNT - 1 then query[length query - 2 := CHR '' ''] else query) in
      selectFields (Suc col) cols query)"

fun setFields :: "nat \<Rightarrow> (string \<times> string) list \<Rightarrow> string \<Rightarrow> string" where
  "setFields col [] query = query"
| "setFields col ((name, format) # cols) query =
     (if col = MYSQL_COMMANDER_commander_id \<or> col = MYSQL_COMMANDER_is_deleted \<or> col = MYSQL_COMMANDER_time_deleted
      then setFields (Suc col) cols query
      else
        let query = c_snprintf MAX_QUERY_SIZE (query @ name @ '' = '' @ format @ '', '');
            query = (if col = MYSQL_COMMANDER_COUNT - 1 then query[length query - 2 := CHR '' ''] else query) in
        setFields (Suc col) cols query)"

text \<open>\<open>" WHERE %s = %s AND %s = 'n'"\<close> with the name and the format of a column.\<close>

definition whereField :: "nat \<Rightarrow> string" where
  "whereField col =
     '' WHERE '' @ fst (mySqlCommanderFields ! col) @ '' = '' @ snd (mySqlCommanderFields ! col) @ '' AND '' @
     fst (mySqlCommanderFields ! MYSQL_COMMANDER_is_deleted) @ '' = '' @ quoted ''n''"

section \<open>Reading\<close>

definition mySqlRequestCommandersByAccountId :: "'q SqlEnv \<Rightarrow> 'q \<Rightarrow> u64 \<Rightarrow> (bytes list list option \<times> 'q) result" where
  "mySqlRequestCommandersByAccountId env q accountId =
     (let query = selectFields 0 mySqlCommanderFields ''SELECT '';
          query = c_snprintf MAX_QUERY_SIZE (query @ '' FROM commanders '');
          query = c_snprintf MAX_QUERY_SIZE (query @ whereField MYSQL_COMMANDER_account_id) in
      mySqlQuery env q query [ArgU64 accountId])"

text \<open>\<open>strtol\<close> and \<open>strtoll\<close> of a column, cut to the type of the field.\<close>

definition sqlInt :: "bytes \<Rightarrow> 'a::len word" where
  "sqlInt column = of_int (fst (c_strtol (bytesText (c_str column))))"

definition sqlFloat :: "'q SqlEnv \<Rightarrow> bytes \<Rightarrow> u32" where
  "sqlFloat env column = sq_strtof env (bytesText (c_str column))"

text \<open>The columns of a row as \<open>mySqlGetCommanders\<close> converts them; \<open>r\<close> is what \<open>rand\<close> gives.\<close>

definition commanderRowOf :: "'q SqlEnv \<Rightarrow> u32 \<Rightarrow> bytes list \<Rightarrow> CommanderRow result" where
  "commanderRowOf env r row =
     (if length row < MYSQL_COMMANDER_COUNT then Inl OutOfBounds
      else Inr
       \<lparr> cr_commander_name = c_str (row ! MYSQL_COMMANDER_commander_name), cr_account_id = sqlInt (row ! MYSQL_COMMANDER_account_id),
         cr_class_id = sqlInt (row ! 9), cr_job_id = sqlInt (row ! 8), cr_gender = sqlInt (row ! 7), cr_level = sqlInt (row ! 5),
         cr_hair_id = sqlInt (row ! 10),
         cr_position = \<lparr> pos_x = sqlFloat env (row ! 12), pos_y = sqlFloat env (row ! 13), pos_z = sqlFloat env (row ! 14) \<rparr>,
         cr_barrack_position = \<lparr> pos_x = sqlFloat env (row ! 15), pos_y = sqlFloat env (row ! 16), pos_z = sqlFloat env (row ! 17) \<rparr>,
         cr_exp = sqlInt (row ! 6), cr_rand = r, cr_commander_id = sqlInt (row ! MYSQL_COMMANDER_commander_id),
         cr_hp = sqlInt (row ! 18), cr_mp = sqlInt (row ! 19), cr_map_id = sqlInt (row ! 11),
         cr_equipment = map sqlInt (take 20 (drop 20 row)) \<rparr>)"

section \<open>Writing\<close>

text \<open>The values of the columns from \<open>account_id\<close> on; \<open>ids\<close> are those of the items in the slots.\<close>

definition commanderArgs :: "('h, 'k) Commander \<Rightarrow> u32 list \<Rightarrow> SqlArg list" where
  "commanderArgs commander ids =
     [ArgU64 (co_accountId commander), ArgStr (co_commanderName commander), ArgInt (co_level commander),
      ArgInt (co_currentXP commander), ArgInt (ucast (co_gender commander)), ArgInt (ucast (co_jobId commander)),
      ArgInt (ucast (co_classId commander)), ArgInt (ucast (co_hairId commander)), ArgInt (ucast (co_mapId commander)),
      ArgFloat (pos_x (co_pos commander)), ArgFloat (pos_y (co_pos commander)), ArgFloat (pos_z (co_pos commander)),
      ArgFloat (pos_x (co_barrackPos commander)), ArgFloat (pos_y (co_barrackPos commander)), ArgFloat (pos_z (co_barrackPos commander)),
      ArgInt (co_currentHP commander), ArgInt (ucast (co_currentSP commander))] @ map ArgInt ids"

definition mySqlCommanderUpdate ::
    "'q SqlEnv \<Rightarrow> 'q \<Rightarrow> Store \<Rightarrow> u64 \<Rightarrow> ('h, 'k) Commander \<Rightarrow> (bool \<times> 'q) result" where
  "mySqlCommanderUpdate env q st commanderId commander =
     (let query = setFields 0 mySqlCommanderFields ''UPDATE commanders SET '';
          query = c_snprintf MAX_QUERY_SIZE (query @ whereField MYSQL_COMMANDER_commander_id) in
      rbind (equipmentIds st (inv_equippedItems (co_inventory commander))) (\<lambda>ids.
      rbind (mySqlQuery env q query (commanderArgs commander ids @ [ArgU64 commanderId])) (\<lambda>(rows, q).
      Inr (rows \<noteq> None, q))))"

text \<open>The query of \<open>mySqlCommanderInsert\<close>, which gives the id of the new row.\<close>

definition commanderInsertQuery :: "'q SqlEnv \<Rightarrow> 'q \<Rightarrow> ('h, 'k) Commander \<Rightarrow> u32 list \<Rightarrow> (u64 option \<times> 'q) result" where
  "commanderInsertQuery env q commander ids =
     rbind (mySqlQuery env q (setFields 0 mySqlCommanderFields ''INSERT INTO commanders SET '') (commanderArgs commander ids))
       (\<lambda>(rows, q). Inr (map_option (\<lambda>_. sq_insert_id env q) rows, q))"

definition mySqlCommanderInsertRow ::
    "'q SqlEnv \<Rightarrow> 'q \<Rightarrow> Store \<Rightarrow> ('h, 'k) Commander \<Rightarrow> (bool \<times> ('h, 'k) Commander \<times> 'q) result" where
  "mySqlCommanderInsertRow env q st commander =
     rbind (equipmentIds st (inv_equippedItems (co_inventory commander))) (\<lambda>ids.
     rbind (commanderInsertQuery env q commander ids) (\<lambda>(n, q).
     Inr (case n of None \<Rightarrow> (False, commander, q) | Some n \<Rightarrow> (True, commander \<lparr> co_commanderId := n \<rparr>, q))))"

definition mySqlCommanderDelete :: "'q SqlEnv \<Rightarrow> 'q \<Rightarrow> u64 \<Rightarrow> (bool \<times> 'q) result" where
  "mySqlCommanderDelete env q commanderId =
     (let query = c_snprintf MAX_QUERY_SIZE (''DELETE FROM commanders'' @ '' WHERE '' @
            fst (mySqlCommanderFields ! MYSQL_COMMANDER_commander_id) @ '' = '' @ snd (mySqlCommanderFields ! MYSQL_COMMANDER_commander_id)) in
      rbind (mySqlQuery env q query [ArgU64 commanderId]) (\<lambda>(rows, q). Inr (rows \<noteq> None, q)))"

text \<open>
  The row is counted with \<open>%u\<close>, to which the source passes the id of 64 bits: what it prints are the lower 32 bits where
  arguments are passed in registers of 64 bits. The row of the count is read without a look whether there is one.
\<close>

definition mySqlCommanderFlush ::
    "'q SqlEnv \<Rightarrow> 'q \<Rightarrow> Store \<Rightarrow> ('h, 'k) Commander \<Rightarrow> (bool \<times> ('h, 'k) Commander \<times> 'q) result" where
  "mySqlCommanderFlush env q st commander =
     rbind (mySqlQuery env q ''SELECT count(*) FROM commanders WHERE commander_id = %u'' [ArgInt (ucast (co_commanderId commander))])
       (\<lambda>(rows, q). case rows of
          None \<Rightarrow> Inr (False, commander, q)
        | Some [] \<Rightarrow> Inl NullDeref
        | Some ([] # _) \<Rightarrow> Inl OutOfBounds
        | Some ((n # _) # _) \<Rightarrow>
            if c_atoi (bytesText (c_str n)) = 0 then mySqlCommanderInsertRow env q st commander
            else rbind (mySqlCommanderUpdate env q st (co_commanderId commander) commander) (\<lambda>(ok, q). Inr (ok, commander, q)))"

definition mySqlCommanderSessionFlush ::
    "'q SqlEnv \<Rightarrow> 'q \<Rightarrow> CommanderPtr \<Rightarrow> ('h, 'k) HandlerState \<Rightarrow> (bool \<times> ('h, 'k) HandlerState \<times> 'q) result" where
  "mySqlCommanderSessionFlush env q p s =
     rbind (derefCommander (hs_commanders s) p) (\<lambda>commander.
     rbind (mySqlCommanderFlush env q (hs_items s) commander) (\<lambda>(ok, commander, q).
     rbind (writeCommander (hs_commanders s) p commander) (\<lambda>cs.
     Inr (ok, s \<lparr> hs_commanders := cs \<rparr>, q))))"

text \<open>The insertion of \<open>MySqlAccount\<close>, which the barrack uses, with the database as an argument.\<close>

lemma mySqlCommanderInsert_row:
  assumes "\<And>ids. commanderInsertQuery env q commander ids = Inr (sql commander ids, q' ids)"
  shows "mySqlCommanderInsert sql st commander = rbind (mySqlCommanderInsertRow env q st commander) (\<lambda>(ok, commander, q).
           Inr (if ok then Some commander else None))"
  unfolding mySqlCommanderInsert_def mySqlCommanderInsertRow_def
  by (cases "equipmentIds st (inv_equippedItems (co_inventory commander))") (auto simp: assms split: option.splits)

end
