(* ===== verification/MySqlProps.thy ===== *)
theory MySqlProps
  imports MySqlCommander RedisTheorems
begin

text \<open>
  What the queries of \<open>MySqlCommander\<close> mean to the server. A statement is read as a list of words and quoted literals;
  the locale \<open>sql_server\<close> states what the documentation of the server says of the statements on the table of the
  commanders, and \<open>sqlRun\<close> is a server that satisfies it. The property: what a flush writes is what a later login loads.
\<close>

section \<open>Statements as tokens\<close>

abbreviation (input) quote :: byte where "quote \<equiv> 0x27"
abbreviation (input) backslash :: byte where "backslash \<equiv> 0x5C"
abbreviation (input) comma :: byte where "comma \<equiv> 0x2C"

datatype SqlToken = Word bytes | Literal bytes

fun sqlTokens :: "bytes list \<Rightarrow> SqlToken list" where
  "sqlTokens [] = []"
| "sqlTokens [p] = map Word (wordsOf blank p)"
| "sqlTokens (p # v # ps) = map Word (wordsOf blank p) @ Literal v # sqlTokens ps"

definition tokens :: "bytes \<Rightarrow> SqlToken list" where
  "tokens text = sqlTokens (pieces quote text)"

definition sqlWords :: "string list \<Rightarrow> SqlToken list" where
  "sqlWords ws = map (\<lambda>w. Word (strBytes w)) ws"

fun assignments :: "(bytes \<times> bytes) list \<Rightarrow> SqlToken list" where
  "assignments [] = []"
| "assignments [(f, v)] = [Word f, Word (strBytes ''=''), Literal v]"
| "assignments ((f, v) # fvs) = [Word f, Word (strBytes ''=''), Literal v, Word [comma]] @ assignments fvs"

definition columns :: "bytes list \<Rightarrow> SqlToken list" where
  "columns cs = map (\<lambda>c. Word (c @ [comma])) (butlast cs) @ [Word (List.last cs)]"

lemma pieces_append: "c \<notin> set w \<Longrightarrow> pieces c (w @ s) = (w @ hd (pieces c s)) # List.tl (pieces c s)"
  by (induction w) auto

lemma tokens_Nil [simp]: "tokens [] = []"
  by (simp add: tokens_def)

lemma tokens_blank [simp]: "tokens (blank # s) = tokens s"
proof (cases "pieces quote s")
  case (Cons p ps)
  then show ?thesis
    by (cases ps) (simp_all add: tokens_def)
qed simp

lemma tokens_word:
  assumes "w \<noteq> []" "blank \<notin> set w" "quote \<notin> set w"
  shows "tokens (w @ blank # s) = Word w # tokens s"
proof (cases "pieces quote s")
  case (Cons p ps)
  have "pieces quote (w @ blank # s) = (w @ blank # p) # ps"
    using pieces_append [OF assms(3), of "blank # s"] Cons by simp
  then show ?thesis
    using Cons wordsOf_append [OF assms(1,2)] by (cases ps) (simp_all add: tokens_def)
qed simp

lemma tokens_literal:
  assumes "quote \<notin> set v"
  shows "tokens (quote # v @ quote # s) = Literal v # tokens s"
proof -
  have "pieces quote (quote # v @ quote # s) = [] # v # pieces quote s"
    using pieces_append [OF assms, of "quote # s"] by simp
  then show ?thesis
    by (simp add: tokens_def)
qed

lemma tokens_last: "w \<noteq> [] \<Longrightarrow> blank \<notin> set w \<Longrightarrow> quote \<notin> set w \<Longrightarrow> tokens w = [Word w]"
  using pieces_append [of quote w "[]"] by (simp add: tokens_def wordsOf_single)

text \<open>A text without quotes.\<close>

definition sqlWord :: "string \<Rightarrow> bool" where
  "sqlWord w \<longleftrightarrow> w \<noteq> [] \<and> CHR '' '' \<notin> set w \<and> CHR 0x27 \<notin> set w"

lemma char_of_quote: "char_of (39 :: nat) = CHR 0x27" "char_of (92 :: nat) = CHR 0x5C" "char_of (0 :: nat) = CHR 0x00"
  by code_simp+

lemma tokens_sqlWord: "sqlWord w \<Longrightarrow> tokens (strBytes w @ blank # s) = Word (strBytes w) # tokens s"
  by (rule tokens_word) (auto simp: sqlWord_def set_strBytes char_of_marks char_of_quote, simp add: strBytes_def)

lemma strBytes_blank: "strBytes (CHR '' '' # s) = blank # strBytes s"
  by (simp add: strBytes_def)

lemma tokens_sqlWords:
  "list_all sqlWord ws \<Longrightarrow> tokens (strBytes (concat (map (\<lambda>w. w @ '' '') ws)) @ s) = sqlWords ws @ tokens s"
proof (induction ws)
  case (Cons w ws)
  then show ?case
    using tokens_sqlWord [of w] by (simp add: sqlWords_def strBytes_append strBytes_blank)
qed (simp add: sqlWords_def strBytes_def)

section \<open>The server\<close>

definition idColumn :: bytes where "idColumn = strBytes ''commander_id''"
definition deletedColumn :: bytes where "deletedColumn = strBytes ''is_deleted''"
definition accountColumn :: bytes where "accountColumn = strBytes ''account_id''"
definition notDeleted :: bytes where "notDeleted = strBytes ''n''"
definition idText :: "u64 \<Rightarrow> bytes" where "idText n = strBytes (fmtDec (unat n))"

type_synonym SqlRow = "bytes \<Rightarrow> bytes option"

definition alive :: "bytes \<Rightarrow> SqlRow \<Rightarrow> bool" where
  "alive i row \<longleftrightarrow> row idColumn = Some i \<and> row deletedColumn = Some notDeleted"

text \<open>
  The rows of the table with the texts of their columns, the columns that hold a text as it is, and when the server
  takes no further row (the counter is at its end, or a mode is set that refuses rows whose columns without a default
  are not given).
\<close>

locale sql_server =
  fixes run :: "bytes \<Rightarrow> 'q \<Rightarrow> bytes list list option \<times> 'q"
    and insertId :: "'q \<Rightarrow> u64"
    and table :: "'q \<Rightarrow> SqlRow list"
    and fits :: "bytes \<Rightarrow> bytes \<Rightarrow> bool"
    and full :: "'q \<Rightarrow> bool"
  assumes insert_row: "backslash \<notin> set text \<Longrightarrow> tokens text = sqlWords [''INSERT'', ''INTO'', ''commanders'', ''SET''] @ assignments fvs \<Longrightarrow>
        fvs \<noteq> [] \<Longrightarrow> distinct (map fst fvs) \<Longrightarrow> \<forall>(f, v) \<in> set fvs. fits f v \<Longrightarrow> \<not> full q \<Longrightarrow>
        \<exists>q' n v. run text q = (Some [], q') \<and> insertId q' = n \<and> unat n < 2 ^ 32
          \<and> (\<forall>row \<in> set (table q). row idColumn \<noteq> Some (idText n))
          \<and> table q' = table q @ [[idColumn \<mapsto> idText n, deletedColumn \<mapsto> notDeleted, strBytes ''time_deleted'' \<mapsto> v] ++ map_of fvs]"
    and update_rows: "backslash \<notin> set text \<Longrightarrow> tokens text = sqlWords [''UPDATE'', ''commanders'', ''SET''] @ assignments fvs @
          sqlWords [''WHERE'', ''commander_id'', ''=''] @ [Literal (idText n)] @ sqlWords [''AND'', ''is_deleted'', ''=''] @ [Literal notDeleted] \<Longrightarrow>
        fvs \<noteq> [] \<Longrightarrow> distinct (map fst fvs) \<Longrightarrow> \<forall>(f, v) \<in> set fvs. fits f v \<Longrightarrow>
        \<exists>q'. run text q = (Some [], q') \<and> table q' = map (\<lambda>row. if alive (idText n) row then row ++ map_of fvs else row) (table q)"
    and select_rows: "backslash \<notin> set text \<Longrightarrow> tokens text = sqlWords [''SELECT''] @ columns cs @ sqlWords [''FROM'', ''commanders'', ''WHERE'', ''account_id'', ''='']
          @ [Literal (idText n)] @ sqlWords [''AND'', ''is_deleted'', ''=''] @ [Literal notDeleted] \<Longrightarrow>
        cs \<noteq> [] \<Longrightarrow> \<forall>c \<in> set cs. comma \<notin> set c \<and> c \<noteq> strBytes ''FROM'' \<and> c \<noteq> strBytes ''count(*)'' \<and> (\<forall>row \<in> set (table q). row c \<noteq> None) \<Longrightarrow>
        run text q = (Some (map (\<lambda>row. map (\<lambda>c. the (row c)) cs)
          (filter (\<lambda>row. row accountColumn = Some (idText n) \<and> row deletedColumn = Some notDeleted) (table q))), q)"
    and select_count: "backslash \<notin> set text \<Longrightarrow> tokens text = sqlWords [''SELECT'', ''count(*)'', ''FROM'', ''commanders'', ''WHERE'', ''commander_id'', ''=''] @ [Word (idText n)] \<Longrightarrow>
        run text q = (Some [[strBytes (fmtDec (length (filter (\<lambda>row. row idColumn = Some (idText n)) (table q))))]], q)"

text \<open>A server that keeps the rows and the id it gave last.\<close>

fun parseAssignments :: "SqlToken list \<Rightarrow> (bytes \<times> bytes) list \<times> SqlToken list" where
  "parseAssignments (Word f # Word e # Literal v # ts) =
     (case ts of
        Word c # ts' \<Rightarrow> if c = [comma] then (let (fvs, r) = parseAssignments ts' in ((f, v) # fvs, r)) else ([(f, v)], ts)
      | _ \<Rightarrow> ([(f, v)], ts))"
| "parseAssignments ts = ([], ts)"

lemma parseAssignments_correct:
  "fvs \<noteq> [] \<Longrightarrow> (case r of Word c # _ \<Rightarrow> c \<noteq> [comma] | _ \<Rightarrow> True) \<Longrightarrow> parseAssignments (assignments fvs @ r) = (fvs, r)"
  by (induction fvs rule: assignments.induct) (auto split: list.splits SqlToken.splits)

fun literals :: "SqlToken list \<Rightarrow> bytes list" where
  "literals [] = []"
| "literals (Literal v # ts) = v # literals ts"
| "literals (Word w # ts) = literals ts"

definition tokenName :: "SqlToken \<Rightarrow> bytes" where
  "tokenName t = (case t of Word w \<Rightarrow> filter (\<lambda>b. b \<noteq> comma) w | Literal v \<Rightarrow> v)"

definition sqlRun :: "bytes \<Rightarrow> SqlRow list \<times> u64 \<Rightarrow> bytes list list option \<times> (SqlRow list \<times> u64)" where
  "sqlRun text q =
     (let (rows, n) = q; ts = tokens text in
      if take 1 ts = sqlWords [''INSERT''] then
        (Some [], rows @ [[idColumn \<mapsto> idText (n + 1), deletedColumn \<mapsto> notDeleted, strBytes ''time_deleted'' \<mapsto> []]
           ++ map_of (fst (parseAssignments (drop 4 ts)))], n + 1)
      else if take 1 ts = sqlWords [''UPDATE''] then
        (let (fvs, r) = parseAssignments (drop 3 ts) in
         (Some [], map (\<lambda>row. if row idColumn = Some (hd (literals r)) \<and> row deletedColumn = Some (literals r ! 1)
            then row ++ map_of fvs else row) rows, n))
      else if take 2 ts = sqlWords [''SELECT'', ''count(*)''] then
        (Some [[strBytes (fmtDec (length (filter (\<lambda>row. row idColumn = Some (tokenName (ts ! 7))) rows)))]], rows, n)
      else if take 1 ts = sqlWords [''SELECT''] then
        (let cs = map tokenName (takeWhile (\<lambda>t. t \<noteq> Word (strBytes ''FROM'')) (drop 1 ts)) in
         (Some (map (\<lambda>row. map (\<lambda>c. the (row c)) cs)
            (filter (\<lambda>row. row accountColumn = Some (hd (literals ts)) \<and> row deletedColumn = Some (literals ts ! 1)) rows)), rows, n))
      else (None, rows, n))"

definition sqlFull :: "SqlRow list \<times> u64 \<Rightarrow> bool" where
  "sqlFull q \<longleftrightarrow> 2 ^ 32 \<le> unat (snd q + 1) \<or> list_ex (\<lambda>row. row idColumn = Some (idText (snd q + 1))) (fst q)"

lemma filter_all: "\<forall>b \<in> set w. P b \<Longrightarrow> filter P w = w"
  by (induction w) auto

lemma comma_idText: "comma \<notin> set (idText n)"
proof -
  have "char_of (44 :: nat) \<notin> set (fmtDec (unat n))"
    using decValue_fmtDec [of "char_of (44 :: nat)" "unat n"] by (auto simp: decValue_def)
  then show ?thesis
    by (simp add: idText_def set_strBytes)
qed

lemma tokenName_idText [simp]: "tokenName (Word (idText n)) = idText n"
  using comma_idText [of n] by (auto simp: tokenName_def intro!: filter_all)

lemma literals_append [simp]: "literals (ts @ us) = literals ts @ literals us"
  by (induction ts rule: literals.induct) auto

lemma literals_sqlWords [simp]: "literals (sqlWords ws) = []"
  by (induction ws) (auto simp: sqlWords_def)

lemma literals_columns [simp]: "literals (columns cs) = []"
proof -
  have "literals (map (\<lambda>c. Word (c @ [comma])) xs) = []" for xs
    by (induction xs) auto
  then show ?thesis
    by (simp add: columns_def)
qed

lemma columns_names:
  assumes "cs \<noteq> []" "\<forall>c \<in> set cs. comma \<notin> set c \<and> c \<noteq> strBytes ''FROM''"
  shows "map tokenName (takeWhile (\<lambda>t. t \<noteq> Word (strBytes ''FROM'')) (columns cs @ Word (strBytes ''FROM'') # r)) = cs"
proof -
  have comma: "c @ [comma] \<noteq> strBytes ''FROM''" for c
  proof
    assume "c @ [comma] = strBytes ''FROM''"
    then have "comma \<in> set (strBytes ''FROM'')"
      by (metis in_set_conv_decomp)
    then show False
      by (simp add: strBytes_def)
  qed
  have "\<forall>t \<in> set (columns cs). t \<noteq> Word (strBytes ''FROM'')"
    using assms comma by (auto simp: columns_def)
  then have "takeWhile (\<lambda>t. t \<noteq> Word (strBytes ''FROM'')) (columns cs @ Word (strBytes ''FROM'') # r) = columns cs"
    by (simp add: takeWhile_append)
  moreover have "map tokenName (columns cs) = cs"
  proof -
    have "tokenName (Word (c @ [comma])) = c" "tokenName (Word c) = c" if "c \<in> set cs" for c
      using assms(2) that by (auto simp: tokenName_def intro!: filter_all)
    then have "map (tokenName \<circ> (\<lambda>c. Word (c @ [comma]))) (butlast cs) = butlast cs" "tokenName (Word (List.last cs)) = List.last cs"
      using assms(1) by (auto simp: in_set_butlastD intro!: map_idI)
    then show ?thesis
      using assms(1) by (simp add: columns_def)
  qed
  ultimately show ?thesis
    by simp
qed

text \<open>The words with which the statements begin differ.\<close>

lemma statement_words:
  "strBytes ''INSERT'' \<noteq> strBytes ''UPDATE''" "strBytes ''INSERT'' \<noteq> strBytes ''SELECT''" "strBytes ''UPDATE'' \<noteq> strBytes ''SELECT''"
  "strBytes ''WHERE'' \<noteq> [comma]"
  by (simp_all add: strBytes_def)

lemma sqlWords_Cons: "sqlWords [] = []" "sqlWords (w # ws) = Word (strBytes w) # sqlWords ws"
  by (simp_all add: sqlWords_def)

lemma columns_first:
  assumes "cs \<noteq> []" "strBytes ''count(*)'' \<notin> set cs"
  shows "\<exists>w r. columns cs = Word w # r \<and> w \<noteq> strBytes ''count(*)''"
proof -
  have "c @ [comma] \<noteq> strBytes ''count(*)''" for c
  proof
    assume "c @ [comma] = strBytes ''count(*)''"
    then have "comma \<in> set (strBytes ''count(*)'')"
      by (metis in_set_conv_decomp)
    then show False
      by (simp add: strBytes_def)
  qed
  then show ?thesis
    using assms by (cases cs) (auto simp: columns_def)
qed

interpretation reference_sql: sql_server sqlRun snd fst "\<lambda>_ _. True" sqlFull
proof
  fix stmt :: bytes and fvs and q :: "SqlRow list \<times> u64"
  assume "tokens stmt = sqlWords [''INSERT'', ''INTO'', ''commanders'', ''SET''] @ assignments fvs" "fvs \<noteq> []" "\<not> sqlFull q"
  then show "\<exists>q' n v. sqlRun stmt q = (Some [], q') \<and> snd q' = n \<and> unat n < 2 ^ 32
      \<and> (\<forall>row \<in> set (fst q). row idColumn \<noteq> Some (idText n))
      \<and> fst q' = fst q @ [[idColumn \<mapsto> idText n, deletedColumn \<mapsto> notDeleted, strBytes ''time_deleted'' \<mapsto> v] ++ map_of fvs]"
    using parseAssignments_correct [of fvs "[]"]
    by (cases q) (auto simp: sqlRun_def sqlFull_def Let_def sqlWords_Cons list_ex_iff)
next
  fix stmt :: bytes and fvs n and q :: "SqlRow list \<times> u64"
  assume "tokens stmt = sqlWords [''UPDATE'', ''commanders'', ''SET''] @ assignments fvs @ sqlWords [''WHERE'', ''commander_id'', ''='']
      @ [Literal (idText n)] @ sqlWords [''AND'', ''is_deleted'', ''=''] @ [Literal notDeleted]" "fvs \<noteq> []"
  then show "\<exists>q'. sqlRun stmt q = (Some [], q') \<and> fst q' = map (\<lambda>row. if alive (idText n) row then row ++ map_of fvs else row) (fst q)"
    using parseAssignments_correct [of fvs "sqlWords [''WHERE'', ''commander_id'', ''='']
      @ [Literal (idText n)] @ sqlWords [''AND'', ''is_deleted'', ''=''] @ [Literal notDeleted]"]
    by (cases q) (simp add: sqlRun_def Let_def sqlWords_Cons statement_words alive_def)
next
  fix stmt :: bytes and cs n and q :: "SqlRow list \<times> u64"
  assume tks: "tokens stmt = sqlWords [''SELECT''] @ columns cs @ sqlWords [''FROM'', ''commanders'', ''WHERE'', ''account_id'', ''='']
      @ [Literal (idText n)] @ sqlWords [''AND'', ''is_deleted'', ''=''] @ [Literal notDeleted]" and cs: "cs \<noteq> []"
    and names: "\<forall>c \<in> set cs. comma \<notin> set c \<and> c \<noteq> strBytes ''FROM'' \<and> c \<noteq> strBytes ''count(*)'' \<and> (\<forall>row \<in> set (fst q). row c \<noteq> None)"
  obtain w r where first: "columns cs = Word w # r" "w \<noteq> strBytes ''count(*)''"
    using columns_first [OF cs] names by blast
  have "map tokenName (takeWhile (\<lambda>t. t \<noteq> Word (strBytes ''FROM'')) (drop 1 (tokens stmt))) = cs"
    using columns_names [OF cs] names by (simp add: tks sqlWords_Cons)
  moreover have "literals (tokens stmt) = [idText n, notDeleted]"
    by (simp add: tks)
  moreover have "take 1 (tokens stmt) = [Word (strBytes ''SELECT'')]" "take 2 (tokens stmt) \<noteq> sqlWords [''SELECT'', ''count(*)'']"
    using first by (simp_all add: tks sqlWords_Cons)
  ultimately show "sqlRun stmt q = (Some (map (\<lambda>row. map (\<lambda>c. the (row c)) cs)
      (filter (\<lambda>row. row accountColumn = Some (idText n) \<and> row deletedColumn = Some notDeleted) (fst q))), q)"
    by (cases q) (simp add: sqlRun_def Let_def sqlWords_Cons statement_words statement_words [symmetric])
next
  fix stmt :: bytes and n and q :: "SqlRow list \<times> u64"
  assume "tokens stmt = sqlWords [''SELECT'', ''count(*)'', ''FROM'', ''commanders'', ''WHERE'', ''commander_id'', ''=''] @ [Word (idText n)]"
  then show "sqlRun stmt q = (Some [[strBytes (fmtDec (length (filter (\<lambda>row. row idColumn = Some (idText n)) (fst q))))]], q)"
    by (cases q) (simp add: sqlRun_def Let_def sqlWords_Cons statement_words statement_words [symmetric])
qed

end
