(* ===== verification/MySqlTheorems.thy ===== *)
theory MySqlTheorems
  imports MySqlProps
begin

text \<open>
  The texts of the queries of \<open>MySqlCommander\<close> as tokens, and the property of the round trip: what a flush writes is
  what a later login loads.
\<close>

section \<open>Filling a format\<close>

lemma c_vformat_plain:
  "CHR ''%'' \<notin> set p \<Longrightarrow> c_vformat fl (p @ f) args = rbind (c_vformat fl f args) (\<lambda>r. Inr (strBytes p @ r))"
proof (induction p)
  case (Cons c p)
  then have "c \<noteq> CHR ''%''"
    by auto
  then show ?case
    using Cons by (cases "c_vformat fl f args") (simp_all add: strBytes_def)
qed (cases "c_vformat fl f args"; simp add: strBytes_def)

definition converts :: "(u32 \<Rightarrow> string) \<Rightarrow> string \<Rightarrow> SqlArg \<Rightarrow> bytes \<Rightarrow> bool" where
  "converts fl format a t \<longleftrightarrow>
     (\<forall>f args. c_vformat fl (quoted format @ f) (a # args) = rbind (c_vformat fl f args) (\<lambda>r. Inr (quote # t @ quote # r)))"

lemma strBytes_quote: "strBytes [CHR 0x27] = [quote]"
  by code_simp

lemma converts_directive:
  assumes "\<And>f. c_conversion fl (d @ f) a = Inr (t, f)"
  shows "converts fl (CHR ''%'' # d) a t"
  unfolding converts_def
proof (intro allI)
  fix f args
  have "c_vformat fl (CHR 0x27 # f) args = rbind (c_vformat fl f args) (\<lambda>r. Inr (quote # r))"
    using c_vformat_plain [of "[CHR 0x27]" fl f args] strBytes_quote by simp
  then show "c_vformat fl (quoted (CHR ''%'' # d) @ f) (a # args) = rbind (c_vformat fl f args) (\<lambda>r. Inr (quote # t @ quote # r))"
    using assms [of "CHR 0x27 # f"] strBytes_quote
    by (cases "c_vformat fl f args") (simp_all add: quoted_def)
qed

lemma converts_args:
  "converts fl ''%llu'' (ArgU64 n) (idText n)"
  "converts fl ''%u'' (ArgInt w) (strBytes (fmtDec (unat w)))"
  "converts fl ''%d'' (ArgInt w) (strBytes (fmtInt (sint w)))"
  "converts fl ''%f'' (ArgFloat w) (strBytes (fl w))"
  "0 \<in> set s \<Longrightarrow> converts fl ''%s'' (ArgStr s) (c_str s)"
  by (rule converts_directive; simp add: c_conversion_def idText_def)+

text \<open>The list of assignments, as a format and as the text that it becomes.\<close>

fun joined :: "(string \<times> string) list \<Rightarrow> string" where
  "joined [] = []"
| "joined [(n, t)] = n @ '' = '' @ quoted t @ ''  ''"
| "joined ((n, t) # cs) = n @ '' = '' @ quoted t @ '', '' @ joined cs"

fun assigned :: "(string \<times> bytes) list \<Rightarrow> bytes" where
  "assigned [] = []"
| "assigned [(n, v)] = strBytes (n @ '' = '') @ quote # v @ quote # strBytes ''  ''"
| "assigned ((n, v) # fvs) = strBytes (n @ '' = '') @ quote # v @ quote # strBytes '', '' @ assigned fvs"

text \<open>A column with the conversion of its format, an argument and the text that this becomes.\<close>

type_synonym SqlColumn = "string \<times> string \<times> SqlArg \<times> bytes"

definition columnOk :: "(u32 \<Rightarrow> string) \<Rightarrow> SqlColumn \<Rightarrow> bool" where
  "columnOk fl = (\<lambda>(n, d, a, t). converts fl d a t \<and> sqlWord n \<and> CHR ''%'' \<notin> set n)"

definition colFormat :: "SqlColumn \<Rightarrow> string \<times> string" where "colFormat = (\<lambda>(n, d, a, t). (n, d))"
definition colArg :: "SqlColumn \<Rightarrow> SqlArg" where "colArg = (\<lambda>(n, d, a, t). a)"
definition colValue :: "SqlColumn \<Rightarrow> string \<times> bytes" where "colValue = (\<lambda>(n, d, a, t). (n, t))"

lemma c_vformat_joined:
  "\<forall>c \<in> set cs. columnOk fl c \<Longrightarrow>
   c_vformat fl (joined (map colFormat cs) @ f) (map colArg cs @ args) =
     rbind (c_vformat fl f args) (\<lambda>r. Inr (assigned (map colValue cs) @ r))"
proof (induction cs)
  case (Cons c cs)
  obtain n d a t where c: "c = (n, d, a, t)"
    by (cases c)
  have conv: "c_vformat fl (quoted d @ g) (a # as) = rbind (c_vformat fl g as) (\<lambda>r. Inr (quote # t @ quote # r))" for g as
    using Cons.prems unfolding c columnOk_def converts_def by simp
  have name: "CHR ''%'' \<notin> set (n @ '' = '')"
    using Cons.prems unfolding c columnOk_def by simp
  have name': "c_vformat fl (n @ CHR '' '' # CHR ''='' # CHR '' '' # g) as =
      rbind (c_vformat fl g as) (\<lambda>r. Inr (strBytes (n @ '' = '') @ r))" for g as
    using c_vformat_plain [OF name, of fl g as] by simp
  have tail: "c_vformat fl (CHR '','' # CHR '' '' # g) as = rbind (c_vformat fl g as) (\<lambda>r. Inr (strBytes '', '' @ r))"
    "c_vformat fl (CHR '' '' # CHR '' '' # g) as = rbind (c_vformat fl g as) (\<lambda>r. Inr (strBytes ''  '' @ r))" for g as
    using c_vformat_plain [of "'', ''" fl g as] c_vformat_plain [of "''  ''" fl g as] by simp_all
  have IH: "c_vformat fl (joined (map colFormat cs) @ f) (map colArg cs @ args) =
      rbind (c_vformat fl f args) (\<lambda>r. Inr (assigned (map colValue cs) @ r))"
    using Cons by simp
  show ?case
  proof (cases cs)
    case Nil
    show ?thesis
      unfolding c Nil
      by (cases "c_vformat fl f args") (simp_all del: c_vformat.simps add: colFormat_def colArg_def colValue_def name' conv tail)
  next
    case (Cons c' cs')
    have "joined (map colFormat (c # cs)) = n @ '' = '' @ quoted d @ '', '' @ joined (map colFormat cs)"
      "assigned (map colValue (c # cs)) = strBytes (n @ '' = '') @ quote # t @ quote # strBytes '', '' @ assigned (map colValue cs)"
      unfolding c Cons by (simp_all add: colFormat_def colValue_def)
    moreover have "map colArg (c # cs) = a # map colArg cs"
      by (simp add: c colArg_def)
    ultimately show ?thesis
      by (cases "c_vformat fl f args") (simp_all del: c_vformat.simps add: name' conv tail IH)
  qed
qed (cases "c_vformat fl f args"; simp)

lemma tokens_assigned:
  "fvs \<noteq> [] \<Longrightarrow> \<forall>(n, v) \<in> set fvs. sqlWord n \<and> quote \<notin> set v \<Longrightarrow>
   tokens (assigned fvs @ s) = assignments (byteFields fvs) @ tokens s"
proof (induction fvs rule: assigned.induct)
  case (2 n v)
  have "tokens (strBytes (n @ '' = '') @ r) = Word (strBytes n) # Word (strBytes ''='') # tokens r" for r
    using tokens_sqlWords [of "[n, ''='']" r] 2 by (simp add: sqlWords_def sqlWord_def)
  moreover have "tokens (strBytes ''  '' @ s) = tokens s"
    by (simp add: strBytes_def)
  ultimately show ?case
    using 2 by (simp add: tokens_literal byteFields_def)
next
  case (3 n v fv fvs)
  have "tokens (strBytes (n @ '' = '') @ r) = Word (strBytes n) # Word (strBytes ''='') # tokens r" for r
    using tokens_sqlWords [of "[n, ''='']" r] 3 by (simp add: sqlWords_def sqlWord_def)
  moreover have "tokens (strBytes '', '' @ r) = Word [comma] # tokens r" for r
    using tokens_word [of "[comma]" r] by (simp add: strBytes_def)
  ultimately show ?case
    using 3 by (cases fv) (simp add: tokens_literal byteFields_def)
qed simp

section \<open>The formats of the queries\<close>

text \<open>The text of a format without the bound of the buffer.\<close>

fun setText :: "nat \<Rightarrow> (string \<times> string) list \<Rightarrow> string" where
  "setText k [] = []"
| "setText k ((n, t) # cs) =
     (if k = 0 \<or> k = 1 \<or> k = 4 then setText (Suc k) cs
      else n @ '' = '' @ t @ (if k = 39 then ''  '' else '', '') @ setText (Suc k) cs)"

fun selectText :: "nat \<Rightarrow> (string \<times> string) list \<Rightarrow> string" where
  "selectText k [] = []"
| "selectText k ((n, t) # cs) = n @ (if k = 39 then ''  '' else '', '') @ selectText (Suc k) cs"

lemma c_snprintf_short: "length s < n \<Longrightarrow> c_snprintf n s = s"
  by (simp add: c_snprintf_def)

lemma comma_to_blank: "(q @ [CHR '','', CHR '' ''])[length q := CHR '' ''] = q @ ''  ''"
  by simp

lemma setFields_text:
  "length query + 64 * length cs < 4096 \<Longrightarrow> \<forall>(n, t) \<in> set cs. length n + length t \<le> 50 \<Longrightarrow>
   setFields k cs query = query @ setText k cs"
proof (induction k cs query rule: setFields.induct)
  case (2 k n t cs query)
  show ?case
  proof (cases "k = 0 \<or> k = 1 \<or> k = 4")
    case True
    then show ?thesis
      using 2 by simp
  next
    case False
    have "c_snprintf MAX_QUERY_SIZE (query @ n @ '' = '' @ t @ '', '') = query @ n @ '' = '' @ t @ '', ''"
      by (rule c_snprintf_short) (use "2.prems" in simp)
    moreover have "(query @ n @ '' = '' @ t @ '', '')[length (query @ n @ '' = '' @ t @ '', '') - 2 := CHR '' ''] = query @ n @ '' = '' @ t @ ''  ''"
      using comma_to_blank [of "query @ n @ '' = '' @ t"] by simp
    ultimately show ?thesis
      using 2 False by (simp add: Let_def)
  qed
qed simp

lemma selectFields_text:
  "length query + 64 * length cs < 4096 \<Longrightarrow> \<forall>(n, t) \<in> set cs. length n \<le> 50 \<Longrightarrow>
   selectFields k cs query = query @ selectText k cs"
proof (induction k cs query rule: selectFields.induct)
  case (2 k n t cs query)
  have "c_snprintf MAX_QUERY_SIZE (query @ n @ '', '') = query @ n @ '', ''"
    by (rule c_snprintf_short) (use "2.prems" in simp)
  moreover have "(query @ n @ '', '')[length (query @ n @ '', '') - 2 := CHR '' ''] = query @ n @ ''  ''"
    using comma_to_blank [of "query @ n"] by simp
  ultimately show ?case
    using 2 by (simp add: Let_def)
qed simp

definition equipmentNames :: "string list" where
  "equipmentNames = map fst (drop 20 mySqlCommanderFields)"

definition sqlFormats :: "(string \<times> string) list" where
  "sqlFormats =
     [(''account_id'', ''%llu''), (''commander_name'', ''%s''), (''level'', ''%u''), (''exp'', ''%u''), (''gender'', ''%u''), (''job_id'', ''%u''),
      (''class_id'', ''%u''), (''hair_id'', ''%u''), (''map_id'', ''%u''), (''position_x'', ''%f''), (''position_y'', ''%f''), (''position_z'', ''%f''),
      (''barrack_position_x'', ''%f''), (''barrack_position_y'', ''%f''), (''barrack_position_z'', ''%f''), (''hp'', ''%d''), (''mp'', ''%d'')]
     @ map (\<lambda>n. (n, ''%u'')) equipmentNames"

lemma setText_commander: "setText 0 mySqlCommanderFields = joined sqlFormats"
  by code_simp

lemma sqlFormats_short: "length sqlFormats = 37" "\<forall>(n, t) \<in> set sqlFormats. length n \<le> 20 \<and> sqlWord n \<and> CHR ''%'' \<notin> set n \<and> CHR 0x5C \<notin> set n"
  by code_simp+

lemma mySqlCommanderFields_short: "length mySqlCommanderFields = 40" "\<forall>(n, t) \<in> set mySqlCommanderFields. length n + length t \<le> 50"
  by code_simp+

lemma setFields_commander:
  assumes "length query \<le> 40"
  shows "setFields 0 mySqlCommanderFields query = query @ joined sqlFormats"
  using setFields_text [OF _ mySqlCommanderFields_short(2)] assms by (simp add: mySqlCommanderFields_short(1) setText_commander)

lemma selectFields_commander:
  assumes "length query \<le> 40"
  shows "selectFields 0 mySqlCommanderFields query = query @ selectText 0 mySqlCommanderFields"
proof (rule selectFields_text)
  show "\<forall>(n, t) \<in> set mySqlCommanderFields. length n \<le> 50"
    using mySqlCommanderFields_short(2) by fastforce
qed (use assms in \<open>simp add: mySqlCommanderFields_short(1)\<close>)

lemma whereField_texts:
  "whereField MYSQL_COMMANDER_commander_id = '' WHERE commander_id = '' @ quoted ''%llu'' @ '' AND is_deleted = '' @ quoted ''n''"
  "whereField MYSQL_COMMANDER_account_id = '' WHERE account_id = '' @ quoted ''%llu'' @ '' AND is_deleted = '' @ quoted ''n''"
  by code_simp+

lemma fmtDec_chars: "c \<in> set (fmtDec n) \<Longrightarrow> c \<noteq> CHR 0x00 \<and> c \<noteq> CHR 0x27 \<and> c \<noteq> CHR 0x5C \<and> c \<noteq> CHR '' ''"
  using decValue_fmtDec [of c n] by (auto simp: decValue_def)

text \<open>A text that can stand between quotes.\<close>

definition sqlValue :: "bytes \<Rightarrow> bool" where
  "sqlValue v \<longleftrightarrow> 0 \<notin> set v \<and> quote \<notin> set v \<and> backslash \<notin> set v \<and> length v \<le> 64"

lemma sqlValue_strBytes:
  "sqlValue (strBytes s) \<longleftrightarrow> CHR 0x00 \<notin> set s \<and> CHR 0x27 \<notin> set s \<and> CHR 0x5C \<notin> set s \<and> length s \<le> 64"
  by (simp add: sqlValue_def set_strBytes char_of_quote)

lemma sqlValue_fmtDec: "n < 2 ^ 64 \<Longrightarrow> sqlValue (strBytes (fmtDec n))"
  using length_fmtDec [of n 19] fmtDec_chars by (fastforce simp: sqlValue_strBytes)

lemma sqlValue_unat [simp]:
  fixes w :: "'a::len word"
  assumes "LENGTH('a) \<le> 64"
  shows "sqlValue (strBytes (fmtDec (unat w)))"
proof (rule sqlValue_fmtDec)
  have "unat w < 2 ^ LENGTH('a)"
    by (rule unsigned_less)
  also have "\<dots> \<le> 2 ^ 64"
    using assms by (rule power_increasing) simp
  finally show "unat w < 2 ^ 64" .
qed

lemma sqlValue_idText [simp]: "sqlValue (idText n)"
  by (simp add: idText_def)

lemma sqlValue_sint [simp]: "sqlValue (strBytes (fmtInt (sint (w :: u32))))"
proof -
  have "- (2 ^ 31) \<le> sint w" "sint w < 2 ^ 31"
    using sint_ge [of w] sint_less [of w] by simp_all
  then have "sqlValue (strBytes (fmtDec (nat (- sint w))))" "length (fmtDec (nat (- sint w))) \<le> 10" "sqlValue (strBytes (fmtDec (nat (sint w))))"
    using length_fmtDec [of "nat (- sint w)" 9] by (simp_all add: sqlValue_fmtDec nat_less_iff)
  then show ?thesis
    by (simp add: fmtInt_def sqlValue_strBytes)
qed

lemma tokens_where:
  assumes "sqlWord c"
  shows "tokens (strBytes ('' WHERE '' @ c @ '' = '') @ quote # idText n @ quote # strBytes ('' AND is_deleted = '' @ quoted ''n'')) =
    sqlWords [''WHERE'', c, ''=''] @ [Literal (idText n)] @ sqlWords [''AND'', ''is_deleted'', ''=''] @ [Literal notDeleted]"
proof -
  have "tokens (strBytes ('' WHERE '' @ c @ '' = '') @ r) = sqlWords [''WHERE'', c, ''=''] @ tokens r" for r
    using tokens_sqlWords [of "[''WHERE'', c, ''='']" r] assms by (simp add: strBytes_blank sqlWord_def)
  moreover have "tokens (strBytes ('' AND is_deleted = '' @ quoted ''n'')) = sqlWords [''AND'', ''is_deleted'', ''=''] @ [Literal notDeleted]"
  proof -
    have "strBytes (quoted ''n'') = quote # notDeleted @ quote # []" "quote \<notin> set notDeleted"
      by (simp_all add: strBytes_def quoted_def notDeleted_def)
    then have "tokens (strBytes (quoted ''n'')) = [Literal notDeleted]"
      using tokens_literal [of notDeleted "[]"] by simp
    then show ?thesis
      using tokens_sqlWords [of "[''AND'', ''is_deleted'', ''='']" "strBytes (quoted ''n'')"]
      by (simp add: sqlWord_def strBytes_blank strBytes_append [symmetric])
  qed
  moreover have "quote \<notin> set (idText n)"
    using sqlValue_idText [of n] by (simp add: sqlValue_def)
  ultimately show ?thesis
    by (simp add: tokens_literal)
qed

section \<open>The columns of a commander\<close>

definition colU :: "string \<Rightarrow> u32 \<Rightarrow> SqlColumn" where "colU n w = (n, ''%u'', ArgInt w, strBytes (fmtDec (unat w)))"
definition colD :: "string \<Rightarrow> u32 \<Rightarrow> SqlColumn" where "colD n w = (n, ''%d'', ArgInt w, strBytes (fmtInt (sint w)))"
definition colF :: "'q SqlEnv \<Rightarrow> string \<Rightarrow> u32 \<Rightarrow> SqlColumn" where "colF env n w = (n, ''%f'', ArgFloat w, strBytes (sq_fmtFloat env w))"

definition commanderColumns :: "'q SqlEnv \<Rightarrow> ('h, 'k) Commander \<Rightarrow> u32 list \<Rightarrow> SqlColumn list" where
  "commanderColumns env c ids =
     [(''account_id'', ''%llu'', ArgU64 (co_accountId c), idText (co_accountId c)),
      (''commander_name'', ''%s'', ArgStr (co_commanderName c), c_str (co_commanderName c)),
      colU ''level'' (co_level c), colU ''exp'' (co_currentXP c), colU ''gender'' (ucast (co_gender c)), colU ''job_id'' (ucast (co_jobId c)),
      colU ''class_id'' (ucast (co_classId c)), colU ''hair_id'' (ucast (co_hairId c)), colU ''map_id'' (ucast (co_mapId c)),
      colF env ''position_x'' (pos_x (co_pos c)), colF env ''position_y'' (pos_y (co_pos c)), colF env ''position_z'' (pos_z (co_pos c)),
      colF env ''barrack_position_x'' (pos_x (co_barrackPos c)), colF env ''barrack_position_y'' (pos_y (co_barrackPos c)),
      colF env ''barrack_position_z'' (pos_z (co_barrackPos c)),
      colD ''hp'' (co_currentHP c), colD ''mp'' (ucast (co_currentSP c))]
     @ map (\<lambda>(n, i). colU n i) (zip equipmentNames ids)"

text \<open>The columns that are written with their texts.\<close>

definition commanderTexts :: "'q SqlEnv \<Rightarrow> ('h, 'k) Commander \<Rightarrow> u32 list \<Rightarrow> (string \<times> bytes) list" where
  "commanderTexts env c ids = map colValue (commanderColumns env c ids)"

lemma length_equipmentNames [simp]: "length equipmentNames = 20"
  by (simp add: equipmentNames_def mySqlCommanderFields_short)

lemma commanderColumns_format:
  assumes "length ids = 20"
  shows "map colFormat (commanderColumns env c ids) = sqlFormats" "map colArg (commanderColumns env c ids) = commanderArgs c ids"
proof -
  have "map (\<lambda>(n, i). colFormat (colU n i)) (zip equipmentNames ids) = map (\<lambda>n. (n, ''%u'')) (map fst (zip equipmentNames ids))"
    "map (\<lambda>(n, i). colArg (colU n i)) (zip equipmentNames ids) = map ArgInt (map snd (zip equipmentNames ids))"
    unfolding map_map by (rule map_cong; auto simp: colFormat_def colArg_def colU_def)+
  then show "map colFormat (commanderColumns env c ids) = sqlFormats" "map colArg (commanderColumns env c ids) = commanderArgs c ids"
    using assms by (simp_all add: commanderColumns_def sqlFormats_def commanderArgs_def o_def case_prod_unfold colFormat_def colArg_def colU_def colD_def colF_def)
qed

text \<open>A commander that the table can hold: its name needs no escape and every column keeps its text.\<close>

definition storable :: "'q SqlEnv \<Rightarrow> (bytes \<Rightarrow> bytes \<Rightarrow> bool) \<Rightarrow> ('h, 'k) Commander \<Rightarrow> u32 list \<Rightarrow> bool" where
  "storable env fits c ids \<longleftrightarrow> length ids = 20 \<and> 0 \<in> set (co_commanderName c) \<and> sqlValue (c_str (co_commanderName c))
     \<and> (\<forall>(f, v) \<in> set (byteFields (commanderTexts env c ids)). fits f v)"

definition float_values :: "'q SqlEnv \<Rightarrow> bool" where
  "float_values env \<longleftrightarrow> (\<forall>w. sqlValue (strBytes (sq_fmtFloat env w)))"

lemma commanderColumns_ok:
  assumes "storable env fits c ids" "float_values env" "x \<in> set (commanderColumns env c ids)"
  shows "columnOk (sq_fmtFloat env) x" "sqlValue (snd (colValue x))"
proof -
  obtain n d a t where x: "x = (n, d, a, t)"
    by (cases x)
  have "colFormat x \<in> set (map colFormat (commanderColumns env c ids))"
    using assms(3) by simp
  then have "(n, d) \<in> set sqlFormats"
    using assms(1) by (simp only: commanderColumns_format(1) storable_def) (simp add: x colFormat_def)
  then have "sqlWord n \<and> CHR ''%'' \<notin> set n"
    using sqlFormats_short(2) by blast
  moreover have "converts (sq_fmtFloat env) d a t \<and> sqlValue t"
    using assms by (auto simp: x storable_def float_values_def commanderColumns_def colU_def colD_def colF_def converts_args)
  ultimately show "columnOk (sq_fmtFloat env) x" "sqlValue (snd (colValue x))"
    by (simp_all add: x columnOk_def colValue_def)
qed

lemma commanderTexts_names: "length ids = 20 \<Longrightarrow> map fst (commanderTexts env c ids) = map fst sqlFormats"
proof -
  assume "length ids = 20"
  then have "map fst (map colFormat (commanderColumns env c ids)) = map fst sqlFormats"
    by (simp add: commanderColumns_format)
  moreover have "fst \<circ> colFormat = fst \<circ> colValue"
    by (auto simp: colFormat_def colValue_def)
  ultimately show ?thesis
    by (simp add: commanderTexts_def)
qed

lemma commanderTexts_ok:
  assumes "storable env fits c ids" "float_values env" "(n, v) \<in> set (commanderTexts env c ids)"
  shows "sqlWord n" "CHR 0x5C \<notin> set n" "length n \<le> 20" "sqlValue v"
proof -
  have "n \<in> set (map fst sqlFormats)"
    using commanderTexts_names [of ids env c] assms by (metis fst_conv image_eqI list.set_map storable_def)
  then show "sqlWord n" "CHR 0x5C \<notin> set n" "length n \<le> 20"
    using sqlFormats_short(2) by auto
  obtain x where "x \<in> set (commanderColumns env c ids)" "colValue x = (n, v)"
    using assms(3) by (auto simp: commanderTexts_def)
  then show "sqlValue v"
    using commanderColumns_ok(2) [OF assms(1,2)] by fastforce
qed

lemma assigned_short:
  "\<forall>(n, v) \<in> set fvs. length n \<le> 20 \<and> sqlValue v \<Longrightarrow> length (assigned fvs) \<le> 100 * length fvs"
  by (induction fvs rule: assigned.induct) (auto simp: sqlValue_def)

lemma assigned_backslash:
  "\<forall>(n, v) \<in> set fvs. CHR 0x5C \<notin> set n \<and> sqlValue v \<Longrightarrow> backslash \<notin> set (assigned fvs)"
  by (induction fvs rule: assigned.induct) (auto simp: sqlValue_def set_strBytes char_of_quote)

section \<open>The statements\<close>

lemma commanderTexts_assigned:
  assumes "storable env fits c ids" "float_values env"
  shows "length (assigned (commanderTexts env c ids)) \<le> 3700" "backslash \<notin> set (assigned (commanderTexts env c ids))"
    "tokens (assigned (commanderTexts env c ids) @ s) = assignments (byteFields (commanderTexts env c ids)) @ tokens s"
proof -
  let ?fvs = "commanderTexts env c ids"
  note ok = commanderTexts_ok [OF assms]
  have n: "length ?fvs = 37"
    using commanderTexts_names [of ids env c] assms(1) sqlFormats_short(1) by (metis length_map storable_def)
  have "length (assigned ?fvs) \<le> 100 * length ?fvs"
    using ok by (intro assigned_short) auto
  then show "length (assigned ?fvs) \<le> 3700"
    using n by simp
  show "backslash \<notin> set (assigned ?fvs)"
    using ok by (intro assigned_backslash) auto
  have "?fvs \<noteq> []"
    using n by auto
  moreover have "\<forall>(n, v) \<in> set ?fvs. sqlWord n \<and> quote \<notin> set v"
    using ok by (auto simp: sqlValue_def)
  ultimately show "tokens (assigned ?fvs @ s) = assignments (byteFields ?fvs) @ tokens s"
    by (rule tokens_assigned)
qed

text \<open>Filling the format of the assignments behind a keyword.\<close>

lemma c_vformat_commander:
  assumes "storable env fits c ids" "float_values env" "CHR ''%'' \<notin> set p"
  shows "c_vformat (sq_fmtFloat env) (p @ joined sqlFormats @ f) (commanderArgs c ids @ args) =
    rbind (c_vformat (sq_fmtFloat env) f args) (\<lambda>r. Inr (strBytes p @ assigned (commanderTexts env c ids) @ r))"
proof -
  have "length ids = 20"
    using assms(1) by (simp add: storable_def)
  note format = commanderColumns_format [OF this, of env c]
  have "c_vformat (sq_fmtFloat env) (joined sqlFormats @ f) (commanderArgs c ids @ args) =
      rbind (c_vformat (sq_fmtFloat env) f args) (\<lambda>r. Inr (assigned (commanderTexts env c ids) @ r))"
    using c_vformat_joined [of "commanderColumns env c ids" "sq_fmtFloat env" f args, unfolded format] commanderColumns_ok(1) [OF assms(1,2)]
    unfolding commanderTexts_def by blast
  then show ?thesis
    by (cases "c_vformat (sq_fmtFloat env) f args") (simp_all add: c_vformat_plain [OF assms(3)])
qed

lemma insert_statement:
  assumes "storable env fits c ids" "float_values env"
  defines "t \<equiv> strBytes ''INSERT INTO commanders SET '' @ assigned (commanderTexts env c ids)"
  shows "mySqlQuery env q (setFields 0 mySqlCommanderFields ''INSERT INTO commanders SET '') (commanderArgs c ids) = Inr (sq_run env t q)"
    and "tokens t = sqlWords [''INSERT'', ''INTO'', ''commanders'', ''SET''] @ assignments (byteFields (commanderTexts env c ids))"
    and "backslash \<notin> set t"
proof -
  note texts = commanderTexts_assigned [OF assms(1,2)]
  have "setFields 0 mySqlCommanderFields ''INSERT INTO commanders SET '' = ''INSERT INTO commanders SET '' @ joined sqlFormats"
    by (rule setFields_commander) simp
  moreover have "c_vformat (sq_fmtFloat env) (''INSERT INTO commanders SET '' @ joined sqlFormats) (commanderArgs c ids) = Inr t"
    using c_vformat_commander [OF assms(1,2), of "''INSERT INTO commanders SET ''" "[]" "[]"] by (simp del: append_Cons add: t_def)
  moreover have "take (MAX_QUERY_SIZE - 2) t = t"
    using texts(1) by (simp add: t_def)
  ultimately show "mySqlQuery env q (setFields 0 mySqlCommanderFields ''INSERT INTO commanders SET '') (commanderArgs c ids) = Inr (sq_run env t q)"
    by (simp add: mySqlQuery_def)
  show "tokens t = sqlWords [''INSERT'', ''INTO'', ''commanders'', ''SET''] @ assignments (byteFields (commanderTexts env c ids))"
    using tokens_sqlWords [of "[''INSERT'', ''INTO'', ''commanders'', ''SET'']" "assigned (commanderTexts env c ids)"] texts(3) [of "[]"]
    by (simp add: t_def sqlWord_def)
  show "backslash \<notin> set t"
    using texts(2) by (simp add: t_def set_strBytes char_of_quote)
qed

text \<open>The condition behind the assignments, or behind the columns of \<open>SELECT\<close>.\<close>

definition whereText :: "string \<Rightarrow> u64 \<Rightarrow> bytes" where
  "whereText c n = strBytes ('' WHERE '' @ c @ '' = '') @ quote # idText n @ quote # strBytes ('' AND is_deleted = '' @ quoted ''n'')"

lemma c_vformat_where:
  assumes "sqlWord c" "CHR ''%'' \<notin> set c"
  shows "c_vformat fl ('' WHERE '' @ c @ '' = '' @ quoted ''%llu'' @ '' AND is_deleted = '' @ quoted ''n'') [ArgU64 n] = Inr (whereText c n)"
proof -
  have "c_vformat fl ('' AND is_deleted = '' @ quoted ''n'') [] = Inr (strBytes ('' AND is_deleted = '' @ quoted ''n''))"
    using c_vformat_plain [of "'' AND is_deleted = '' @ quoted ''n''" fl "[]" "[]"] by (simp add: quoted_def)
  moreover have "c_vformat fl (quoted ''%llu'' @ g) [ArgU64 n] = rbind (c_vformat fl g []) (\<lambda>r. Inr (quote # idText n @ quote # r))" for g
    using converts_args(1) [of fl n] unfolding converts_def by simp
  moreover have "c_vformat fl ('' WHERE '' @ c @ '' = '' @ g) as = rbind (c_vformat fl g as) (\<lambda>r. Inr (strBytes ('' WHERE '' @ c @ '' = '') @ r))" for g as
    using c_vformat_plain [of "'' WHERE '' @ c @ '' = ''" fl g as] assms(2) by simp
  ultimately show ?thesis
    by (simp del: append_Cons add: whereText_def)
qed

lemma whereText_ok:
  assumes "sqlWord c" "CHR 0x5C \<notin> set c" "length c \<le> 20"
  shows "length (whereText c n) \<le> 140" "backslash \<notin> set (whereText c n)"
    "tokens (whereText c n) = sqlWords [''WHERE'', c, ''=''] @ [Literal (idText n)] @ sqlWords [''AND'', ''is_deleted'', ''=''] @ [Literal notDeleted]"
  using assms sqlValue_idText [of n] tokens_where [OF assms(1)]
  by (simp_all add: whereText_def sqlValue_def set_strBytes char_of_quote quoted_def)

lemma update_statement:
  fixes n :: u64
  assumes "storable env fits c ids" "float_values env"
  defines "t \<equiv> strBytes ''UPDATE commanders SET '' @ assigned (commanderTexts env c ids) @ whereText ''commander_id'' n"
  shows "mySqlQuery env q (c_snprintf MAX_QUERY_SIZE (setFields 0 mySqlCommanderFields ''UPDATE commanders SET '' @ whereField MYSQL_COMMANDER_commander_id))
      (commanderArgs c ids @ [ArgU64 n]) = Inr (sq_run env t q)"
    and "tokens t = sqlWords [''UPDATE'', ''commanders'', ''SET''] @ assignments (byteFields (commanderTexts env c ids)) @
      sqlWords [''WHERE'', ''commander_id'', ''=''] @ [Literal (idText n)] @ sqlWords [''AND'', ''is_deleted'', ''=''] @ [Literal notDeleted]"
    and "backslash \<notin> set t"
proof -
  note texts = commanderTexts_assigned [OF assms(1,2)]
  have col: "sqlWord ''commander_id''" "CHR ''%'' \<notin> set ''commander_id''" "CHR 0x5C \<notin> set ''commander_id''" "length ''commander_id'' \<le> 20"
    by (simp_all add: sqlWord_def)
  note wh = whereText_ok [OF col(1,3,4), of n]
  let ?where = "'' WHERE '' @ ''commander_id'' @ '' = '' @ quoted ''%llu'' @ '' AND is_deleted = '' @ quoted ''n''"
  have "setFields 0 mySqlCommanderFields ''UPDATE commanders SET '' = ''UPDATE commanders SET '' @ joined sqlFormats"
    by (rule setFields_commander) simp
  moreover have "whereField MYSQL_COMMANDER_commander_id = ?where"
    by (simp add: whereField_texts)
  moreover have "length (joined sqlFormats) \<le> 2000"
    by code_simp
  then have "c_snprintf MAX_QUERY_SIZE (''UPDATE commanders SET '' @ joined sqlFormats @ ?where) = ''UPDATE commanders SET '' @ joined sqlFormats @ ?where"
    by (intro c_snprintf_short) (simp add: quoted_def)
  moreover have "c_vformat (sq_fmtFloat env) (''UPDATE commanders SET '' @ joined sqlFormats @ ?where) (commanderArgs c ids @ [ArgU64 n]) = Inr t"
    using c_vformat_commander [OF assms(1,2), of "''UPDATE commanders SET ''" ?where "[ArgU64 n]"] c_vformat_where [OF col(1,2), of "sq_fmtFloat env" n]
    by (simp del: append_Cons add: t_def)
  moreover have "take (MAX_QUERY_SIZE - 2) t = t"
    using texts(1) wh(1) by (simp add: t_def)
  ultimately show "mySqlQuery env q (c_snprintf MAX_QUERY_SIZE (setFields 0 mySqlCommanderFields ''UPDATE commanders SET '' @ whereField MYSQL_COMMANDER_commander_id))
      (commanderArgs c ids @ [ArgU64 n]) = Inr (sq_run env t q)"
    by (simp add: mySqlQuery_def)
  show "tokens t = sqlWords [''UPDATE'', ''commanders'', ''SET''] @ assignments (byteFields (commanderTexts env c ids)) @
      sqlWords [''WHERE'', ''commander_id'', ''=''] @ [Literal (idText n)] @ sqlWords [''AND'', ''is_deleted'', ''=''] @ [Literal notDeleted]"
    using tokens_sqlWords [of "[''UPDATE'', ''commanders'', ''SET'']" "assigned (commanderTexts env c ids) @ whereText ''commander_id'' n"]
      texts(3) [of "whereText ''commander_id'' n"] wh(3)
    by (simp add: t_def sqlWord_def)
  show "backslash \<notin> set t"
    using texts(2) wh(2) by (simp add: t_def set_strBytes char_of_quote)
qed

text \<open>The statement that reads the commanders of an account.\<close>

definition commanderNames :: "string list" where
  "commanderNames = map fst mySqlCommanderFields"

lemma select_format:
  "''SELECT '' @ selectText 0 mySqlCommanderFields @ '' FROM commanders '' =
     concat (map (\<lambda>w. w @ '' '') (''SELECT'' # map (\<lambda>n. n @ '','') (butlast commanderNames) @ [List.last commanderNames])) @
     ''  '' @ concat (map (\<lambda>w. w @ '' '') [''FROM'', ''commanders''])"
  "length (''SELECT '' @ selectText 0 mySqlCommanderFields @ '' FROM commanders '') \<le> 1000"
  "CHR ''%'' \<notin> set (''SELECT '' @ selectText 0 mySqlCommanderFields @ '' FROM commanders '')"
  "CHR 0x5C \<notin> set (''SELECT '' @ selectText 0 mySqlCommanderFields @ '' FROM commanders '')"
  "list_all sqlWord (''SELECT'' # map (\<lambda>n. n @ '','') (butlast commanderNames) @ [List.last commanderNames])"
  by code_simp+

lemma commanderNames_ok:
  "commanderNames \<noteq> []" "length commanderNames = 40" "distinct commanderNames"
  "\<forall>c \<in> set commanderNames. CHR '','' \<notin> set c \<and> c \<noteq> ''FROM'' \<and> c \<noteq> ''count(*)''"
  by code_simp+

lemma columns_commander:
  "sqlWords (map (\<lambda>n. n @ '','') (butlast commanderNames) @ [List.last commanderNames]) = columns (map strBytes commanderNames)"
proof -
  have "strBytes (n @ '','') = strBytes n @ [comma]" for n
    by (simp add: strBytes_def)
  then show ?thesis
    using commanderNames_ok(1) by (simp add: sqlWords_def columns_def map_butlast last_map o_def)
qed

lemma select_statement:
  fixes n :: u64
  defines "t \<equiv> strBytes (''SELECT '' @ selectText 0 mySqlCommanderFields @ '' FROM commanders '') @ whereText ''account_id'' n"
  shows "mySqlRequestCommandersByAccountId env q n = Inr (sq_run env t q)"
    and "tokens t = sqlWords [''SELECT''] @ columns (map strBytes commanderNames) @ sqlWords [''FROM'', ''commanders'', ''WHERE'', ''account_id'', ''='']
      @ [Literal (idText n)] @ sqlWords [''AND'', ''is_deleted'', ''=''] @ [Literal notDeleted]"
    and "backslash \<notin> set t"
proof -
  let ?select = "''SELECT '' @ selectText 0 mySqlCommanderFields @ '' FROM commanders ''"
  have col: "sqlWord ''account_id''" "CHR ''%'' \<notin> set ''account_id''" "CHR 0x5C \<notin> set ''account_id''" "length ''account_id'' \<le> 20"
    by (simp_all add: sqlWord_def)
  note wh = whereText_ok [OF col(1,3,4), of n]
  let ?where = "'' WHERE '' @ ''account_id'' @ '' = '' @ quoted ''%llu'' @ '' AND is_deleted = '' @ quoted ''n''"
  have "selectFields 0 mySqlCommanderFields ''SELECT '' = ''SELECT '' @ selectText 0 mySqlCommanderFields"
    by (rule selectFields_commander) simp
  moreover have "whereField MYSQL_COMMANDER_account_id = ?where"
    by (simp add: whereField_texts)
  moreover have "c_snprintf MAX_QUERY_SIZE ?select = ?select" "c_snprintf MAX_QUERY_SIZE (?select @ ?where) = ?select @ ?where"
    using select_format(2) by (intro c_snprintf_short; simp add: quoted_def)+
  moreover have "c_vformat (sq_fmtFloat env) (?select @ ?where) [ArgU64 n] = Inr t"
    by (simp only: c_vformat_plain [OF select_format(3)] c_vformat_where [OF col(1,2)] t_def rbind.simps)
  moreover have "take (MAX_QUERY_SIZE - 2) t = t"
    using select_format(2) wh(1) by (simp add: t_def)
  ultimately show "mySqlRequestCommandersByAccountId env q n = Inr (sq_run env t q)"
    unfolding mySqlRequestCommandersByAccountId_def mySqlQuery_def Let_def by (simp only: append_assoc rbind.simps)
  show "tokens t = sqlWords [''SELECT''] @ columns (map strBytes commanderNames) @ sqlWords [''FROM'', ''commanders'', ''WHERE'', ''account_id'', ''='']
      @ [Literal (idText n)] @ sqlWords [''AND'', ''is_deleted'', ''=''] @ [Literal notDeleted]"
  proof -
    let ?ws = "''SELECT'' # map (\<lambda>n. n @ '','') (butlast commanderNames) @ [List.last commanderNames]"
    have "tokens t = sqlWords ?ws @ tokens (strBytes (''  '' @ concat (map (\<lambda>w. w @ '' '') [''FROM'', ''commanders''])) @ whereText ''account_id'' n)"
      unfolding t_def select_format(1) strBytes_append append_assoc by (rule tokens_sqlWords [OF select_format(5)])
    also have "\<dots> = sqlWords ?ws @ sqlWords [''FROM'', ''commanders''] @ tokens (whereText ''account_id'' n)"
      using tokens_sqlWords [of "[''FROM'', ''commanders'']"] by (simp add: strBytes_blank sqlWord_def)
    also have "sqlWords ?ws = sqlWords [''SELECT''] @ columns (map strBytes commanderNames)"
      unfolding columns_commander [symmetric] by (simp add: sqlWords_def)
    finally show ?thesis
      unfolding wh(3) by (simp add: sqlWords_def)
  qed
  show "backslash \<notin> set t"
    using wh(2) select_format(4) unfolding t_def set_append Un_iff set_strBytes by (simp add: char_of_quote)
qed

lemma count_statement:
  fixes n :: u64
  assumes "unat n < 2 ^ 32"
  defines "t \<equiv> strBytes ''SELECT count(*) FROM commanders WHERE commander_id = '' @ idText n"
  shows "mySqlQuery env q ''SELECT count(*) FROM commanders WHERE commander_id = %u'' [ArgInt (ucast n)] = Inr (sq_run env t q)"
    and "tokens t = sqlWords [''SELECT'', ''count(*)'', ''FROM'', ''commanders'', ''WHERE'', ''commander_id'', ''=''] @ [Word (idText n)]"
    and "backslash \<notin> set t"
proof -
  have "unat (ucast n :: u32) = unat n"
    using assms(1) by (simp add: unsigned_ucast_eq take_bit_nat_eq_self)
  then have "c_vformat (sq_fmtFloat env) ''%u'' [ArgInt (ucast n)] = Inr (idText n)"
    by (simp add: c_conversion_def idText_def)
  then have "c_vformat (sq_fmtFloat env) (''SELECT count(*) FROM commanders WHERE commander_id = '' @ ''%u'') [ArgInt (ucast n)] = Inr t"
    using c_vformat_plain [of "''SELECT count(*) FROM commanders WHERE commander_id = ''" "sq_fmtFloat env" "''%u''" "[ArgInt (ucast n)]"]
    by (simp del: append_Cons c_vformat.simps add: t_def)
  moreover have "take (MAX_QUERY_SIZE - 2) t = t"
    using sqlValue_idText [of n] by (simp add: t_def sqlValue_def)
  ultimately show "mySqlQuery env q ''SELECT count(*) FROM commanders WHERE commander_id = %u'' [ArgInt (ucast n)] = Inr (sq_run env t q)"
    by (simp add: mySqlQuery_def del: c_vformat.simps)
  have "fmtDec (unat n) \<noteq> []"
    by (subst fmtDec.simps) simp
  then have "idText n \<noteq> []"
    by (simp add: idText_def strBytes_def)
  moreover have "blank \<notin> set (idText n)" "quote \<notin> set (idText n)"
    using fmtDec_chars [of _ "unat n"] by (auto simp: idText_def set_strBytes char_of_marks char_of_quote)
  ultimately show "tokens t = sqlWords [''SELECT'', ''count(*)'', ''FROM'', ''commanders'', ''WHERE'', ''commander_id'', ''=''] @ [Word (idText n)]"
    using tokens_sqlWords [of "[''SELECT'', ''count(*)'', ''FROM'', ''commanders'', ''WHERE'', ''commander_id'', ''='']" "idText n"]
    by (simp add: t_def sqlWord_def tokens_last)
  show "backslash \<notin> set t"
    using sqlValue_idText [of n] by (simp add: t_def set_strBytes char_of_quote sqlValue_def)
qed

section \<open>Numbers read back\<close>

lemma c_strtol_digits:
  assumes "n < 2 ^ 63"
  shows "c_strtol (fmtDec n) = (int n, [])" "c_strtol (CHR ''-'' # fmtDec n) = (- int n, [])"
proof -
  have digit: "decValue c \<noteq> None \<Longrightarrow> \<not> c_isspace c \<and> c \<noteq> CHR ''-'' \<and> c \<noteq> CHR ''+''" for c
    by (auto simp: decValue_def c_isspace_def)
  have all: "\<forall>c \<in> set (fmtDec n). decValue c \<noteq> None"
    using decValue_fmtDec by blast
  obtain c cs where form: "fmtDec n = c # cs"
    by (cases "fmtDec n") (subst (asm) fmtDec.simps, simp split: if_splits)
  have "dropWhile c_isspace (fmtDec n) = fmtDec n" "c_sign (fmtDec n) = (False, fmtDec n)"
    using digit all by (auto simp: form c_sign_def)
  moreover have "dropWhile c_isspace (CHR ''-'' # fmtDec n) = CHR ''-'' # fmtDec n" "c_sign (CHR ''-'' # fmtDec n) = (True, fmtDec n)"
    by (simp_all add: c_sign_def c_isspace_def)
  moreover have "takeWhile (\<lambda>c. decValue c \<noteq> None) (fmtDec n) = fmtDec n" "dropWhile (\<lambda>c. decValue c \<noteq> None) (fmtDec n) = []"
    using all by (simp_all add: takeWhile_eq_all_conv)
  moreover have "fmtDec n \<noteq> []"
    by (simp add: form)
  moreover have "int n < 2 ^ 63"
    using assms by simp
  ultimately show "c_strtol (fmtDec n) = (int n, [])" "c_strtol (CHR ''-'' # fmtDec n) = (- int n, [])"
    unfolding c_strtol_def by (simp_all only: Let_def prod.case if_False if_True decNumber_fmtDec) simp_all
qed

lemma sqlValue_c_str: "sqlValue v \<Longrightarrow> c_str v = v"
  by (metis (mono_tags, lifting) c_str_def sqlValue_def takeWhile_eq_all_conv)

lemma sqlInt_dec:
  assumes "n < 2 ^ 63"
  shows "sqlInt (strBytes (fmtDec n)) = of_int (int n)"
proof -
  have "sqlValue (strBytes (fmtDec n))"
    using assms by (intro sqlValue_fmtDec) simp
  then show ?thesis
    by (simp add: sqlInt_def sqlValue_c_str c_strtol_digits [OF assms])
qed

lemma sqlInt_id: "unat n < 2 ^ 63 \<Longrightarrow> sqlInt (idText n) = n"
  unfolding idText_def by (subst sqlInt_dec) simp_all

lemma sqlInt_word:
  fixes w :: "'a::len word"
  assumes "LENGTH('a) \<le> 32"
  shows "(sqlInt (strBytes (fmtDec (unat w))) :: 'a word) = w"
proof -
  have "unat w < 2 ^ LENGTH('a)"
    by (rule unsigned_less)
  also have "\<dots> \<le> 2 ^ 32"
    using assms by (rule power_increasing) simp
  finally have "unat w < 2 ^ 63"
    by simp
  then show ?thesis
    by (subst sqlInt_dec) simp_all
qed

lemma sqlInt_signed: "(sqlInt (strBytes (fmtInt (sint (w :: u32)))) :: 'a::len word) = of_int (sint w)"
proof -
  have "- (2 ^ 31) \<le> sint w" "sint w < 2 ^ 31"
    using sint_ge [of w] sint_less [of w] by simp_all
  then have "fst (c_strtol (fmtInt (sint w))) = sint w"
    using c_strtol_digits [of "nat (- sint w)"] c_strtol_digits [of "nat (sint w)"] by (simp add: fmtInt_def nat_less_iff)
  then show ?thesis
    using sqlValue_sint [of w] by (simp add: sqlInt_def sqlValue_c_str)
qed

lemma unat_ucast_small:
  fixes w :: "'a::len word"
  assumes "LENGTH('a) \<le> 32"
  shows "unat (ucast w :: u32) = unat w"
proof -
  have "unat w < 2 ^ LENGTH('a)"
    by (rule unsigned_less)
  also have "\<dots> \<le> 2 ^ 32"
    using assms by (rule power_increasing) simp
  finally show ?thesis
    by (simp add: unsigned_ucast_eq take_bit_nat_eq_self)
qed

section \<open>Loading what is stored\<close>

definition stores :: "'q SqlEnv \<Rightarrow> ('h, 'k) Commander \<Rightarrow> u32 list \<Rightarrow> u64 \<Rightarrow> SqlRow \<Rightarrow> bool" where
  "stores env c ids n row \<longleftrightarrow> alive (idText n) row \<and> (\<forall>(f, v) \<in> set (byteFields (commanderTexts env c ids)). row f = Some v)"

text \<open>What the login makes of the row: the position as its text reads, and all else as it was.\<close>

definition commanderRowFor :: "'q SqlEnv \<Rightarrow> ('h, 'k) Commander \<Rightarrow> u32 list \<Rightarrow> u64 \<Rightarrow> u32 \<Rightarrow> CommanderRow" where
  "commanderRowFor env c ids n r =
     (let reread = (\<lambda>p. \<lparr> pos_x = sq_strtof env (sq_fmtFloat env (pos_x p)), pos_y = sq_strtof env (sq_fmtFloat env (pos_y p)),
                          pos_z = sq_strtof env (sq_fmtFloat env (pos_z p)) \<rparr>) in
      \<lparr> cr_commander_name = c_str (co_commanderName c), cr_account_id = co_accountId c, cr_class_id = co_classId c,
        cr_job_id = co_jobId c, cr_gender = co_gender c, cr_level = co_level c, cr_hair_id = co_hairId c,
        cr_position = reread (co_pos c), cr_barrack_position = reread (co_barrackPos c), cr_exp = co_currentXP c, cr_rand = r,
        cr_commander_id = n, cr_hp = co_currentHP c, cr_mp = co_currentSP c, cr_map_id = co_mapId c, cr_equipment = ids \<rparr>)"

lemma stores_columns:
  assumes "stores env c ids n row" "length ids = 20"
  shows "row (strBytes ''account_id'') = Some (idText (co_accountId c))" "row (strBytes ''commander_name'') = Some (c_str (co_commanderName c))"
    "map (\<lambda>x. row (strBytes x)) [''level'', ''exp'', ''gender'', ''job_id'', ''class_id'', ''hair_id'', ''map_id''] =
       map (\<lambda>w. Some (strBytes (fmtDec (unat (w :: u32))))) [co_level c, co_currentXP c, ucast (co_gender c), ucast (co_jobId c),
         ucast (co_classId c), ucast (co_hairId c), ucast (co_mapId c)]"
    "map (\<lambda>x. row (strBytes x)) [''position_x'', ''position_y'', ''position_z'', ''barrack_position_x'', ''barrack_position_y'', ''barrack_position_z''] =
       map (\<lambda>w. Some (strBytes (sq_fmtFloat env w))) [pos_x (co_pos c), pos_y (co_pos c), pos_z (co_pos c),
         pos_x (co_barrackPos c), pos_y (co_barrackPos c), pos_z (co_barrackPos c)]"
    "map (\<lambda>x. row (strBytes x)) [''hp'', ''mp''] = map (\<lambda>w. Some (strBytes (fmtInt (sint (w :: u32))))) [co_currentHP c, ucast (co_currentSP c)]"
    "map (\<lambda>x. row (strBytes x)) equipmentNames = map (\<lambda>w. Some (strBytes (fmtDec (unat w)))) ids"
proof -
  have row: "(f, v) \<in> set (commanderTexts env c ids) \<Longrightarrow> row (strBytes f) = Some v" for f v
    using assms(1) by (force simp: stores_def byteFields_def)
  note texts = commanderTexts_def commanderColumns_def colValue_def colU_def colD_def colF_def
  show "row (strBytes ''account_id'') = Some (idText (co_accountId c))" "row (strBytes ''commander_name'') = Some (c_str (co_commanderName c))"
    by (rule row, simp add: texts)+
  show "map (\<lambda>x. row (strBytes x)) [''level'', ''exp'', ''gender'', ''job_id'', ''class_id'', ''hair_id'', ''map_id''] =
       map (\<lambda>w. Some (strBytes (fmtDec (unat (w :: u32))))) [co_level c, co_currentXP c, ucast (co_gender c), ucast (co_jobId c),
         ucast (co_classId c), ucast (co_hairId c), ucast (co_mapId c)]"
    by (simp only: list.map list.inject; intro conjI; (rule refl | (rule row, simp add: texts)))
  show "map (\<lambda>x. row (strBytes x)) [''position_x'', ''position_y'', ''position_z'', ''barrack_position_x'', ''barrack_position_y'', ''barrack_position_z''] =
       map (\<lambda>w. Some (strBytes (sq_fmtFloat env w))) [pos_x (co_pos c), pos_y (co_pos c), pos_z (co_pos c),
         pos_x (co_barrackPos c), pos_y (co_barrackPos c), pos_z (co_barrackPos c)]"
    by (simp only: list.map list.inject; intro conjI; (rule refl | (rule row, simp add: texts)))
  show "map (\<lambda>x. row (strBytes x)) [''hp'', ''mp''] = map (\<lambda>w. Some (strBytes (fmtInt (sint (w :: u32))))) [co_currentHP c, ucast (co_currentSP c)]"
    by (simp only: list.map list.inject; intro conjI; (rule refl | (rule row, simp add: texts)))
  show "map (\<lambda>x. row (strBytes x)) equipmentNames = map (\<lambda>w. Some (strBytes (fmtDec (unat w)))) ids"
  proof (rule nth_equalityI)
    fix i
    assume "i < length (map (\<lambda>x. row (strBytes x)) equipmentNames)"
    then have i: "i < 20"
      by simp
    then have "(equipmentNames ! i, ids ! i) \<in> set (zip equipmentNames ids)"
      using assms(2) by (metis length_equipmentNames length_zip min.idem nth_mem nth_zip)
    then have "colU (equipmentNames ! i) (ids ! i) \<in> set (map (\<lambda>(n, i). colU n i) (zip equipmentNames ids))"
      by force
    then have "colU (equipmentNames ! i) (ids ! i) \<in> set (commanderColumns env c ids)"
      unfolding commanderColumns_def set_append by (rule UnI2)
    then have "colValue (colU (equipmentNames ! i) (ids ! i)) \<in> set (commanderTexts env c ids)"
      unfolding commanderTexts_def set_map by (rule imageI)
    then have "row (strBytes (equipmentNames ! i)) = Some (strBytes (fmtDec (unat (ids ! i))))"
      by (intro row) (simp add: colValue_def colU_def)
    then show "map (\<lambda>x. row (strBytes x)) equipmentNames ! i = map (\<lambda>w. Some (strBytes (fmtDec (unat w)))) ids ! i"
      using i assms(2) by simp
  qed (simp add: assms(2))
qed

text \<open>The columns as \<open>SELECT\<close> gives them.\<close>

definition rowColumns :: "SqlRow \<Rightarrow> bytes list" where
  "rowColumns row = map (\<lambda>x. the (row x)) (map strBytes commanderNames)"

lemma commanderNames_list:
  "commanderNames = [''commander_id'', ''is_deleted'', ''account_id'', ''commander_name'', ''time_deleted''] @
     [''level'', ''exp'', ''gender'', ''job_id'', ''class_id'', ''hair_id'', ''map_id''] @
     [''position_x'', ''position_y'', ''position_z'', ''barrack_position_x'', ''barrack_position_y'', ''barrack_position_z''] @
     [''hp'', ''mp''] @ equipmentNames"
  by code_simp

lemma rowColumns_stores:
  assumes "stores env c ids n row" "length ids = 20"
  shows "rowColumns row = [idText n, notDeleted, idText (co_accountId c), c_str (co_commanderName c), the (row (strBytes ''time_deleted''))] @
     map (\<lambda>w. strBytes (fmtDec (unat (w :: u32)))) [co_level c, co_currentXP c, ucast (co_gender c), ucast (co_jobId c),
         ucast (co_classId c), ucast (co_hairId c), ucast (co_mapId c)] @
     map (\<lambda>w. strBytes (sq_fmtFloat env w)) [pos_x (co_pos c), pos_y (co_pos c), pos_z (co_pos c),
         pos_x (co_barrackPos c), pos_y (co_barrackPos c), pos_z (co_barrackPos c)] @
     map (\<lambda>w. strBytes (fmtInt (sint (w :: u32)))) [co_currentHP c, ucast (co_currentSP c)] @
     map (\<lambda>w. strBytes (fmtDec (unat w))) ids"
proof -
  note cols = stores_columns [OF assms]
  have the_map: "map (\<lambda>x. row (strBytes x)) xs = map (\<lambda>w. Some (f w)) ws \<Longrightarrow> map (\<lambda>x. the (row (strBytes x))) xs = map f ws" for xs ws and f :: "'z \<Rightarrow> bytes"
    by (drule arg_cong [where f = "map the"]) (simp add: o_def)
  have "row (strBytes ''commander_id'') = Some (idText n)" "row (strBytes ''is_deleted'') = Some notDeleted"
    using assms(1) by (simp_all add: stores_def alive_def idColumn_def deletedColumn_def)
  then show ?thesis
    unfolding rowColumns_def map_map o_def commanderNames_list map_append the_map [OF cols(3)] the_map [OF cols(4)] the_map [OF cols(5)] the_map [OF cols(6)]
    by (simp add: cols(1,2))
qed

lemma commanderRowOf_stores:
  assumes "stores env c ids n row" "length ids = 20" "unat n < 2 ^ 63" "unat (co_accountId c) < 2 ^ 63"
    and "sqlValue (c_str (co_commanderName c))" "float_values env"
  shows "commanderRowOf env r (rowColumns row) = Inr (commanderRowFor env c ids n r)"
proof -
  have narrow: "sqlInt (strBytes (fmtDec (unat (ucast w :: u32)))) = w" if "LENGTH('z) \<le> 32" for w :: "'z::len word"
    using that by (simp add: unat_ucast_small sqlInt_word)
  have sp: "sint (ucast (co_currentSP c) :: u32) = int (unat (co_currentSP c))"
  proof -
    have "uint (co_currentSP c) < 2 ^ LENGTH(16)"
      by (rule unsigned_less)
    then have "uint (co_currentSP c) < 2 ^ 31" "uint (co_currentSP c) < 2 ^ 32"
      by simp_all
    moreover from this(2) have "uint (ucast (co_currentSP c) :: u32) = uint (co_currentSP c)"
      by (simp add: unsigned_ucast_eq take_bit_int_eq_self)
    moreover have "- (2 ^ 31) \<le> uint (co_currentSP c)"
      by (rule order_trans [of _ 0]) simp_all
    ultimately show ?thesis
      using signed_take_bit_int_eq_self [of 31 "uint (co_currentSP c)"] by (simp add: sint_uint)
  qed
  have "(of_int (sint (ucast (co_currentSP c) :: u32)) :: u16) = co_currentSP c"
    unfolding sp by simp
  then have mp: "scast (ucast (co_currentSP c) :: u32) = co_currentSP c"
    by simp
  have float: "sqlFloat env (strBytes (sq_fmtFloat env w)) = sq_strtof env (sq_fmtFloat env w)" for w
    using assms(6) by (simp add: sqlFloat_def float_values_def sqlValue_c_str)
  have ids: "map (sqlInt \<circ> (\<lambda>w :: u32. strBytes (fmtDec (unat w)))) ids = ids"
    by (rule map_idI) (simp add: sqlInt_word)
  show ?thesis
    unfolding commanderRowOf_def rowColumns_stores [OF assms(1,2)] commanderRowFor_def Let_def
    by (simp add: assms(2) sqlValue_c_str [OF assms(5)] sqlInt_id [OF assms(3)] sqlInt_id [OF assms(4)] sqlInt_word narrow mp sqlInt_signed float ids)
qed

section \<open>The round trip\<close>

locale commander_sql = sql_server "sq_run env" "sq_insert_id env" table fits full
  for env :: "'q SqlEnv" and table :: "'q \<Rightarrow> SqlRow list" and fits :: "bytes \<Rightarrow> bytes \<Rightarrow> bool" and full :: "'q \<Rightarrow> bool" +
  assumes floats: "float_values env"

text \<open>Every row has all columns, and the ids are a key.\<close>

definition sqlTable_wf :: "SqlRow list \<Rightarrow> bool" where
  "sqlTable_wf rows \<longleftrightarrow> distinct (map (\<lambda>row. row idColumn) rows) \<and> (\<forall>row \<in> set rows. \<forall>x \<in> set commanderNames. row (strBytes x) \<noteq> None)"

definition others :: "u64 \<Rightarrow> SqlRow list \<Rightarrow> SqlRow list" where
  "others n rows = filter (\<lambda>row. row idColumn \<noteq> Some (idText n)) rows"

lemma map_of_texts:
  assumes "length ids = 20"
  shows "distinct (map fst (byteFields (commanderTexts env c ids)))" "commanderTexts env c ids \<noteq> []"
    "fst ` set (byteFields (commanderTexts env c ids)) = strBytes ` (fst ` set sqlFormats)"
proof -
  have fst: "map fst (byteFields (commanderTexts env c ids)) = map strBytes (map fst sqlFormats)"
    unfolding commanderTexts_names [OF assms, of env c, symmetric] by (simp add: byteFields_def o_def case_prod_beta)
  have "distinct (map fst sqlFormats)"
    by code_simp
  then show "distinct (map fst (byteFields (commanderTexts env c ids)))"
    unfolding fst by (simp add: distinct_map inj_on_def)
  show "commanderTexts env c ids \<noteq> []"
    using commanderTexts_names [OF assms, of env c] sqlFormats_short(1) by force
  show "fst ` set (byteFields (commanderTexts env c ids)) = strBytes ` (fst ` set sqlFormats)"
    using arg_cong [OF fst, of set] by (simp add: image_image)
qed

lemma fixed_columns:
  "strBytes ''commander_id'' \<notin> strBytes ` (fst ` set sqlFormats)" "strBytes ''is_deleted'' \<notin> strBytes ` (fst ` set sqlFormats)"
  "set commanderNames = {''commander_id'', ''is_deleted'', ''time_deleted''} \<union> fst ` set sqlFormats"
proof -
  have "''commander_id'' \<notin> set (map fst sqlFormats)" "''is_deleted'' \<notin> set (map fst sqlFormats)"
    by code_simp+
  moreover have "strBytes x \<in> strBytes ` A \<longleftrightarrow> x \<in> A" for x A
    by auto
  ultimately show "strBytes ''commander_id'' \<notin> strBytes ` (fst ` set sqlFormats)" "strBytes ''is_deleted'' \<notin> strBytes ` (fst ` set sqlFormats)"
    by simp_all
  have "set commanderNames = {''commander_id'', ''is_deleted'', ''time_deleted''} \<union> set (map fst sqlFormats)"
    by code_simp
  then show "set commanderNames = {''commander_id'', ''is_deleted'', ''time_deleted''} \<union> fst ` set sqlFormats"
    by simp
qed

text \<open>A row with the texts of a commander written over it.\<close>

lemma stores_written:
  assumes "length ids = 20" "alive (idText n) row"
  shows "stores env c ids n (row ++ map_of (byteFields (commanderTexts env c ids)))"
    and "row (strBytes ''time_deleted'') \<noteq> None \<Longrightarrow> \<forall>x \<in> set commanderNames. (row ++ map_of (byteFields (commanderTexts env c ids))) (strBytes x) \<noteq> None"
proof -
  let ?fvs = "byteFields (commanderTexts env c ids)"
  have keep: "map_of ?fvs idColumn = None" "map_of ?fvs deletedColumn = None"
    using fixed_columns map_of_texts(3) [OF assms(1), of env c] by (simp_all add: map_of_eq_None_iff idColumn_def deletedColumn_def)
  have "map_of ?fvs f = Some v" if "(f, v) \<in> set ?fvs" for f v
    using map_of_is_SomeI [OF map_of_texts(1) [OF assms(1)] that] .
  then show "stores env c ids n (row ++ map_of ?fvs)"
    using assms(2) keep by (auto simp: stores_def alive_def map_add_def)
  assume td: "row (strBytes ''time_deleted'') \<noteq> None"
  show "\<forall>x \<in> set commanderNames. (row ++ map_of ?fvs) (strBytes x) \<noteq> None"
  proof
    fix x
    assume "x \<in> set commanderNames"
    then consider "x \<in> fst ` set sqlFormats" | "x \<in> {''commander_id'', ''is_deleted'', ''time_deleted''}"
      using fixed_columns(3) by blast
    then show "(row ++ map_of ?fvs) (strBytes x) \<noteq> None"
    proof cases
      case 1
      then have "strBytes x \<in> fst ` set ?fvs"
        unfolding map_of_texts(3) [OF assms(1)] by (rule imageI)
      then show ?thesis
        by (simp add: map_of_eq_None_iff)
    next
      case 2
      then have "row (strBytes x) \<noteq> None"
        using assms(2) td by (auto simp: alive_def idColumn_def deletedColumn_def)
      then show ?thesis
        by simp
    qed
  qed
qed

end
