(* ===== verification/MySqlFlush.thy ===== *)
theory MySqlFlush
  imports MySqlTheorems
begin

text \<open>
  What \<open>mySqlCommanderFlush\<close> leaves in the table of the commanders, and what the login reads from it. The lemmas hold of
  any server that satisfies the contract \<open>commander_sql\<close>; the server of \<open>MySqlProps\<close> with the texts of integers
  for floats does.
\<close>

section \<open>Writing\<close>

lemma filter_single:
  "distinct (map f xs) \<Longrightarrow> length (filter (\<lambda>x. f x = y) xs) = (if \<exists>x \<in> set xs. f x = y then 1 else 0)"
proof (induction xs)
  case (Cons x xs)
  then have "f z \<noteq> f x" if "z \<in> set xs" for z
    using that by (metis distinct.simps(2) image_eqI list.set_map list.simps(9))
  then show ?case
    using Cons by auto
qed simp

lemma c_atoi_single: "c_atoi (bytesText (c_str (strBytes (fmtDec (if b then 1 else 0))))) = 0 \<longleftrightarrow> \<not> b"
proof -
  have "c_str (strBytes (fmtDec n)) = strBytes (fmtDec n)" if "n < 2 ^ 64" for n
    using sqlValue_c_str [OF sqlValue_fmtDec [OF that]] .
  then show ?thesis
    using c_strtol_digits(1) [of 1] c_strtol_digits(1) [of 0] by (simp add: c_atoi_def)
qed

context commander_sql
begin

lemma insert_commander:
  assumes "storable env fits c ids" "\<not> full q"
  shows "\<exists>n q'. commanderInsertQuery env q c ids = Inr (Some n, q') \<and> unat n < 2 ^ 32
    \<and> (\<exists>row. stores env c ids n row \<and> table q' = table q @ [row] \<and> (\<forall>x \<in> set commanderNames. row (strBytes x) \<noteq> None))
    \<and> others n (table q) = table q"
proof -
  let ?fvs = "byteFields (commanderTexts env c ids)"
  have ids: "length ids = 20"
    using assms(1) by (simp add: storable_def)
  note st = insert_statement [OF assms(1) floats]
  have "?fvs \<noteq> []" "distinct (map fst ?fvs)" "\<forall>(f, v) \<in> set ?fvs. fits f v"
    using map_of_texts [OF ids, of env c] assms(1) by (simp_all add: storable_def byteFields_def)
  then obtain q' n v where run: "sq_run env (strBytes ''INSERT INTO commanders SET '' @ assigned (commanderTexts env c ids)) q = (Some [], q')"
    and n: "sq_insert_id env q' = n" "unat n < 2 ^ 32" "\<forall>row \<in> set (table q). row idColumn \<noteq> Some (idText n)"
    and table: "table q' = table q @ [[idColumn \<mapsto> idText n, deletedColumn \<mapsto> notDeleted, strBytes ''time_deleted'' \<mapsto> v] ++ map_of ?fvs]"
    using insert_row [OF st(3,2) _ _ _ assms(2)] by blast
  define row where "row = [idColumn \<mapsto> idText n, deletedColumn \<mapsto> notDeleted, strBytes ''time_deleted'' \<mapsto> v]"
  have row: "alive (idText n) row" "row (strBytes ''time_deleted'') \<noteq> None"
    by (simp_all add: row_def alive_def idColumn_def deletedColumn_def)
  note stores_written [OF ids row(1), of env c]
  moreover note this(2) [OF row(2)]
  moreover have "others n (table q) = table q"
    using n(3) unfolding others_def by (rule filter_all)
  moreover have "commanderInsertQuery env q c ids = Inr (Some n, q')"
    by (simp add: commanderInsertQuery_def st(1) run n(1))
  ultimately show ?thesis
    using n(2) table unfolding row_def by blast
qed

lemma update_commander:
  assumes "storable env fits c ids" "equipmentIds st (inv_equippedItems (co_inventory c)) = Inr ids"
  shows "\<exists>q'. mySqlCommanderUpdate env q st n c = Inr (True, q')
    \<and> table q' = map (\<lambda>row. if alive (idText n) row then row ++ map_of (byteFields (commanderTexts env c ids)) else row) (table q)"
proof -
  have ids: "length ids = 20"
    using assms(1) by (simp add: storable_def)
  note st = update_statement [OF assms(1) floats]
  have "byteFields (commanderTexts env c ids) \<noteq> []" "distinct (map fst (byteFields (commanderTexts env c ids)))"
    "\<forall>(f, v) \<in> set (byteFields (commanderTexts env c ids)). fits f v"
    using map_of_texts [OF ids, of env c] assms(1) by (simp_all add: storable_def byteFields_def)
  then obtain q' where "sq_run env (strBytes ''UPDATE commanders SET '' @ assigned (commanderTexts env c ids) @ whereText ''commander_id'' n) q = (Some [], q')"
    "table q' = map (\<lambda>row. if alive (idText n) row then row ++ map_of (byteFields (commanderTexts env c ids)) else row) (table q)"
    using update_rows [OF st(3,2)] by blast
  moreover from this(1) have "mySqlCommanderUpdate env q st n c = Inr (True, q')"
    by (simp add: mySqlCommanderUpdate_def Let_def assms(2) st(1))
  ultimately show ?thesis
    by blast
qed

lemma flush_commander:
  assumes "equipmentIds st (inv_equippedItems (co_inventory c)) = Inr ids" "storable env fits c ids"
    and "unat (co_commanderId c) < 2 ^ 32" "sqlTable_wf (table q)"
    and "\<forall>row \<in> set (table q). row idColumn = Some (idText (co_commanderId c)) \<longrightarrow> row deletedColumn = Some notDeleted"
    and "\<not> full q"
  shows "\<exists>n q'. mySqlCommanderFlush env q st c = Inr (True, c \<lparr> co_commanderId := n \<rparr>, q') \<and> unat n < 2 ^ 32
    \<and> (\<exists>row \<in> set (table q'). stores env c ids n row) \<and> others n (table q') = others n (table q)
    \<and> (\<forall>row \<in> set (table q'). \<forall>x \<in> set commanderNames. row (strBytes x) \<noteq> None)"
proof -
  let ?n = "co_commanderId c" and ?fvs = "byteFields (commanderTexts env c ids)"
  have ids: "length ids = 20"
    using assms(2) by (simp add: storable_def)
  have complete: "\<And>row x. row \<in> set (table q) \<Longrightarrow> x \<in> set commanderNames \<Longrightarrow> row (strBytes x) \<noteq> None"
    using assms(4) by (simp add: sqlTable_wf_def)
  let ?present = "\<exists>row \<in> set (table q). row idColumn = Some (idText ?n)"
  have "length (filter (\<lambda>row. row idColumn = Some (idText ?n)) (table q)) = (if ?present then 1 else 0)"
    using assms(4) by (intro filter_single) (simp add: sqlTable_wf_def)
  then have "mySqlQuery env q ''SELECT count(*) FROM commanders WHERE commander_id = %u'' [ArgInt (ucast ?n)] =
      Inr (Some [[strBytes (fmtDec (if ?present then 1 else 0))]], q)"
    using select_count [OF count_statement(3,2) [OF assms(3)], of q] by (simp only: count_statement(1) [OF assms(3)])
  then have flush: "mySqlCommanderFlush env q st c =
      (if ?present then rbind (mySqlCommanderUpdate env q st ?n c) (\<lambda>(ok, q). Inr (ok, c, q)) else mySqlCommanderInsertRow env q st c)"
    using c_atoi_single [of ?present] by (simp add: mySqlCommanderFlush_def)
  show ?thesis
  proof (cases ?present)
    case False
    then show ?thesis
      using insert_commander [OF assms(2,6)] complete unfolding flush
      by (fastforce simp: mySqlCommanderInsertRow_def assms(1) others_def stores_def alive_def)
  next
    case True
    obtain q' where update: "mySqlCommanderUpdate env q st ?n c = Inr (True, q')"
      and table: "table q' = map (\<lambda>row. if alive (idText ?n) row then row ++ map_of ?fvs else row) (table q)"
      using update_commander [OF assms(2,1)] by blast
    obtain row where row: "row \<in> set (table q)" "alive (idText ?n) row"
      using True assms(5) by (auto simp: alive_def)
    have id_kept: "(row ++ map_of ?fvs) idColumn = row idColumn" for row
      using fixed_columns(1) map_of_texts(3) [OF ids, of env c] by (simp add: map_add_def map_of_eq_None_iff [THEN iffD2] idColumn_def)
    have "stores env c ids ?n (row ++ map_of ?fvs)" "row ++ map_of ?fvs \<in> set (table q')"
      using stores_written(1) [OF ids row(2)] row by (force simp: table)+
    moreover have "others ?n (table q') = others ?n (table q)"
    proof -
      have "others ?n (map (\<lambda>row. if alive (idText ?n) row then row ++ map_of ?fvs else row) rows) = others ?n rows" for rows
        by (induction rows) (auto simp: others_def alive_def id_kept)
      then show ?thesis
        by (simp add: table)
    qed
    moreover have "\<forall>row \<in> set (table q'). \<forall>x \<in> set commanderNames. row (strBytes x) \<noteq> None"
    proof (intro ballI)
      fix r x
      assume "r \<in> set (table q')" "x \<in> set commanderNames"
      then obtain row where "row \<in> set (table q)" "r = row \<or> r = row ++ map_of ?fvs" "row (strBytes x) \<noteq> None"
        using complete by (auto simp: table)
      then show "r (strBytes x) \<noteq> None"
        by (metis map_add_None)
    qed
    moreover have "mySqlCommanderFlush env q st c = Inr (True, c \<lparr> co_commanderId := ?n \<rparr>, q')"
      using True unfolding flush update by simp
    ultimately show ?thesis
      using assms(3) by blast
  qed
qed

section \<open>Reading\<close>

lemma request_commander:
  assumes "\<forall>row \<in> set (table q). \<forall>x \<in> set commanderNames. row (strBytes x) \<noteq> None"
    and "row \<in> set (table q)" "stores env c ids n row" "length ids = 20"
  shows "\<exists>rows. mySqlRequestCommandersByAccountId env q (co_accountId c) = Inr (Some rows, q) \<and> rowColumns row \<in> set rows"
proof -
  let ?cs = "map strBytes commanderNames"
  have cs: "\<forall>x \<in> set ?cs. comma \<notin> set x \<and> x \<noteq> strBytes ''FROM'' \<and> x \<noteq> strBytes ''count(*)'' \<and> (\<forall>row \<in> set (table q). row x \<noteq> None)"
  proof -
    have "char_of (44 :: nat) = CHR '',''"
      by code_simp
    then show ?thesis
      using commanderNames_ok(4) assms(1) by (simp add: set_strBytes)
  qed
  have account: "row accountColumn = Some (idText (co_accountId c))" "row deletedColumn = Some notDeleted"
    using stores_columns(1) [OF assms(3,4)] assms(3) by (simp_all add: accountColumn_def stores_def alive_def)
  show ?thesis
    using select_rows [OF select_statement(3,2) _ cs] commanderNames_ok(1) account assms(2)
    by (force simp: select_statement(1) rowColumns_def)
qed

lemma flush_request:
  assumes "equipmentIds st (inv_equippedItems (co_inventory c)) = Inr ids" "storable env fits c ids"
    and "unat (co_commanderId c) < 2 ^ 32" "unat (co_accountId c) < 2 ^ 63" "sqlTable_wf (table q)"
    and "\<forall>row \<in> set (table q). row idColumn = Some (idText (co_commanderId c)) \<longrightarrow> row deletedColumn = Some notDeleted"
    and "\<not> full q"
  shows "\<exists>n q' rows. mySqlCommanderFlush env q st c = Inr (True, c \<lparr> co_commanderId := n \<rparr>, q')
    \<and> others n (table q') = others n (table q)
    \<and> mySqlRequestCommandersByAccountId env q' (co_accountId c) = Inr (Some rows, q')
    \<and> (\<exists>row \<in> set rows. \<forall>r. commanderRowOf env r row = Inr (commanderRowFor env c ids n r))"
proof -
  have c: "length ids = 20" "sqlValue (c_str (co_commanderName c))"
    using assms(2) by (simp_all add: storable_def)
  obtain n q' row where flushed: "mySqlCommanderFlush env q st c = Inr (True, c \<lparr> co_commanderId := n \<rparr>, q')"
      "others n (table q') = others n (table q)"
    and row: "row \<in> set (table q')" "stores env c ids n row" "unat n < 2 ^ 32"
    and complete: "\<forall>row \<in> set (table q'). \<forall>x \<in> set commanderNames. row (strBytes x) \<noteq> None"
    using flush_commander [OF assms(1-3,5-7)] by blast
  obtain rows where rows: "mySqlRequestCommandersByAccountId env q' (co_accountId c) = Inr (Some rows, q')" "rowColumns row \<in> set rows"
    using request_commander [OF complete row(1,2) c(1)] by blast
  have "commanderRowOf env r (rowColumns row) = Inr (commanderRowFor env c ids n r)" for r
    using row(3) by (intro commanderRowOf_stores [OF row(2) c(1) _ assms(4) c(2) floats]) simp
  then show ?thesis
    using flushed rows by blast
qed

end

section \<open>The round trip\<close>


end
