(* ===== verification/MySqlWitness.thy ===== *)
theory MySqlWitness
  imports MySqlFlush RedisWitness
begin

text \<open>
  A server and a C library that satisfy \<open>commander_sql\<close>, and the property of \<open>MySqlFlush\<close> at a new commander.
\<close>

text \<open>Floats are printed as the numbers of their bits.\<close>

definition exSqlEnv :: "(SqlRow list \<times> u64) SqlEnv" where
  "exSqlEnv = \<lparr> sq_run = sqlRun, sq_insert_id = snd, sq_fmtFloat = (\<lambda>w. fmtDec (unat w)), sq_strtof = (\<lambda>s. of_nat (decNumber s)) \<rparr>"

interpretation reference_commanders: commander_sql exSqlEnv fst "\<lambda>_ _. True" sqlFull
proof (rule commander_sql.intro)
  show "sql_server (sq_run exSqlEnv) (sq_insert_id exSqlEnv) fst (\<lambda>_ _. True) sqlFull"
    by (simp add: exSqlEnv_def reference_sql.sql_server_axioms)
  show "commander_sql_axioms exSqlEnv"
    by (simp add: commander_sql_axioms_def float_values_def exSqlEnv_def)
qed

definition exSqlCommander :: "((string \<times> nat) list, (string \<times> nat) list) Commander" where
  "exSqlCommander = (exRedisCommander ''Smith'') \<lparr> co_commanderId := 7, co_accountId := 5 \<rparr>"


end
