(* ===== verification/Monitor.thy ===== *)
theory Monitor
  imports Router RedisTheorems
begin

text \<open>
  \<open>src/common/server/router_monitor.c\<close>: the actor that knows which client has which file descriptor. It hears from the
  socket monitor of ZeroMQ that a connection is accepted or closed, and from the router, with each message of a client, the
  descriptor and the identity of the client. When a connection is closed it calls the handler of the server with the key of
  the session. The state is the hash table from the text of the descriptor to the identity. A value of the table is a
  pointer to a frame, which is NULL if the router's message has no third frame.
\<close>

section \<open>The handlers of the reactor\<close>

abbreviation (input) ROUTER_MONITOR_FDKEY_SIZE :: nat where "ROUTER_MONITOR_FDKEY_SIZE \<equiv> 17"

text \<open>
  What the actor works with: the operations of the table, what the C library prints for \<open>%I64d\<close>, the memory behind a
  frame, and the handler of the server, whose state is \<open>'s\<close>.
\<close>

record ('h, 's) MonitorEnv =
  me_Z :: "('h, bytes option) zhash_ops"
  me_fmtI64d :: "u64 \<Rightarrow> string"
  me_behind :: bytes
  me_disconnectHandler :: "(string \<Rightarrow> 's \<Rightarrow> (bool \<times> 's) result) option"

definition routerMonitorGenKey :: "(u64 \<Rightarrow> string) \<Rightarrow> u64 \<Rightarrow> string" where
  "routerMonitorGenKey fmtI64d fd = c_snprintf ROUTER_MONITOR_FDKEY_SIZE (fmtI64d fd)"

text \<open>\<open>zhash_lookup\<close> where NULL is a value too.\<close>

definition monitorLookup :: "('h, bytes option) zhash_ops \<Rightarrow> 'h \<Rightarrow> string \<Rightarrow> bytes option" where
  "monitorLookup Z h fdClientKey = (case zhash_lookup Z h fdClientKey of None \<Rightarrow> None | Some clientFrame \<Rightarrow> clientFrame)"

text \<open>\<open>strtoull (zframe_data (fdFrame), NULL, 10)\<close>; there is no frame behind the last one.\<close>

definition monitorFd :: "('h, 's) MonitorEnv \<Rightarrow> frames \<Rightarrow> u64 result" where
  "monitorFd env msg = (case msg of [] \<Rightarrow> Inl NullDeref | fdFrame # _ \<Rightarrow>
     rbind (frame_str (me_behind env) fdFrame) (\<lambda>s. Inr (c_strtoul10 s)))"

definition routerMonitorProcess :: "('h, 's) MonitorEnv \<Rightarrow> frames option \<Rightarrow> 'h \<times> 's \<Rightarrow> (int \<times> 'h \<times> 's) result" where
  "routerMonitorProcess env msg = (\<lambda>(connected, s).
     case msg of
       None \<Rightarrow> Inr (0, connected, s)
     | Some [] \<Rightarrow> Inr (-1, connected, s)
     | Some (header # msg) \<Rightarrow>
         if header = strBytes ''ACCEPTED'' then
           rbind (monitorFd env msg) (\<lambda>fdClient.
           case monitorLookup (me_Z env) connected (routerMonitorGenKey (me_fmtI64d env) fdClient) of
             Some clientFrame \<Rightarrow> rbind (socketSessionGenSessionKey clientFrame) (\<lambda>sessionKey. Inr (0, connected, s))
           | None \<Rightarrow> Inr (0, connected, s))
         else if header = strBytes ''DISCONNECTED'' then
           rbind (monitorFd env msg) (\<lambda>fdClient.
           let fdClientKey = routerMonitorGenKey (me_fmtI64d env) fdClient in
           case monitorLookup (me_Z env) connected fdClientKey of
             None \<Rightarrow> Inr (0, connected, s)
           | Some clientFrame \<Rightarrow>
               rbind (socketSessionGenSessionKey clientFrame) (\<lambda>sessionKeyStr.
               rbind (case me_disconnectHandler env of
                   None \<Rightarrow> Inr (True, s)
                 | Some disconnectHandler \<Rightarrow> disconnectHandler sessionKeyStr s) (\<lambda>(ok, s).
               Inr (0, zhash_delete (me_Z env) connected fdClientKey, s))))
         else Inr (0, connected, s))"

definition routerMonitorSubscribe :: "('h, 's) MonitorEnv \<Rightarrow> frames option \<Rightarrow> 'h \<times> 's \<Rightarrow> (int \<times> 'h \<times> 's) result" where
  "routerMonitorSubscribe env msg = (\<lambda>(connected, s).
     case msg of
       None \<Rightarrow> Inr (0, connected, s)
     | Some [] \<Rightarrow> Inr (-1, connected, s)
     | Some (header # msg) \<Rightarrow>
         rbind (frame_read 4 header) (\<lambda>packetHeader.
         if dec32 packetHeader \<noteq> ROUTER_MONITOR_ADD_FD then Inr (0, connected, s)
         else case msg of
           [] \<Rightarrow> Inl NullDeref
         | fdFrame # msg \<Rightarrow>
             rbind (frame_read 8 fdFrame) (\<lambda>fd.
             let fdClientKey = routerMonitorGenKey (me_fmtI64d env) (dec64 fd);
                 identity = (case msg of [] \<Rightarrow> None | identity # _ \<Rightarrow> Some identity) in
             case monitorLookup (me_Z env) connected fdClientKey of
               None \<Rightarrow> (case zhash_insert (me_Z env) connected fdClientKey identity of
                   None \<Rightarrow> Inr (-1, connected, s)
                 | Some connected \<Rightarrow> Inr (0, connected, s))
             | Some clientFrame \<Rightarrow>
                 if identity \<noteq> Some clientFrame then Inr (-1, connected, s) else Inr (0, connected, s))))"

text \<open>\<open>routerMonitorInit\<close> and the reactor, which ends with the first handler that fails.\<close>

datatype MonitorInput = FromSocket "frames option" | FromRouter "frames option"

definition routerMonitorInit :: "('h, 's) MonitorEnv \<Rightarrow> 's \<Rightarrow> 'h \<times> 's" where
  "routerMonitorInit env s = (zhash_new (me_Z env), s)"

fun routerMonitorStart :: "('h, 's) MonitorEnv \<Rightarrow> MonitorInput list \<Rightarrow> 'h \<times> 's \<Rightarrow> (bool \<times> 'h \<times> 's) result" where
  "routerMonitorStart env [] self = Inr (True, self)"
| "routerMonitorStart env (i # inputs) self =
     rbind (case i of FromSocket msg \<Rightarrow> routerMonitorProcess env msg self | FromRouter msg \<Rightarrow> routerMonitorSubscribe env msg self)
       (\<lambda>(status, self). if status = -1 then Inr (False, self) else routerMonitorStart env inputs self)"

section \<open>What the monitor promises\<close>

text \<open>
  The life of the clients: a connection is accepted, the client of a connection sends a message, the connection is closed.
\<close>

datatype ClientEvent = Accepted u64 | Message u64 bytes | Disconnected u64

primrec clientFd :: "ClientEvent \<Rightarrow> u64" where
  "clientFd (Accepted fd) = fd"
| "clientFd (Message fd identity) = fd"
| "clientFd (Disconnected fd) = fd"

primrec clientInput :: "ClientEvent \<Rightarrow> MonitorInput" where
  "clientInput (Accepted fd) = FromSocket (Some [strBytes ''ACCEPTED'', strBytes (fmtDec (unat fd)), strBytes ''tcp''])"
| "clientInput (Message fd identity) = FromRouter (case routerInformMonitor identity fd of ToMonitor msg \<Rightarrow> Some msg | _ \<Rightarrow> None)"
| "clientInput (Disconnected fd) = FromSocket (Some [strBytes ''DISCONNECTED'', strBytes (fmtDec (unat fd)), strBytes ''tcp''])"

text \<open>The table as a map from descriptors to identities. A descriptor whose client changes ends the monitor.\<close>

fun clientsRun :: "(string \<Rightarrow> 's \<Rightarrow> (bool \<times> 's) result) option \<Rightarrow> ClientEvent list \<Rightarrow> (u64 \<Rightarrow> bytes option) \<times> 's \<Rightarrow>
     (bool \<times> (u64 \<Rightarrow> bytes option) \<times> 's) result" where
  "clientsRun handler [] (m, s) = Inr (True, m, s)"
| "clientsRun handler (Accepted fd # es) (m, s) = clientsRun handler es (m, s)"
| "clientsRun handler (Message fd i # es) (m, s) =
     (if m fd = None \<or> m fd = Some i then clientsRun handler es (m(fd \<mapsto> i), s) else Inr (False, m, s))"
| "clientsRun handler (Disconnected fd # es) (m, s) =
     (case m fd of
        None \<Rightarrow> clientsRun handler es (m, s)
      | Some i \<Rightarrow>
          rbind (case handler of None \<Rightarrow> Inr (True, s) | Some f \<Rightarrow> f (concat (map fmtByteHex i)) s) (\<lambda>(ok, s).
          clientsRun handler es (m(fd := None), s)))"

section \<open>The keys\<close>

text \<open>\<open>%I64d\<close> where it is the conversion of a 64-bit integer, as in the library of Windows.\<close>

definition i64dWindows :: "u64 \<Rightarrow> string" where
  "i64dWindows w = fmtInt (sint w)"

text \<open>In the GNU library \<open>I\<close> is a flag that does not matter here, 64 is the width and \<open>d\<close> converts an \<open>int\<close>.\<close>

definition i64dGnu :: "u64 \<Rightarrow> string" where
  "i64dGnu w = (let text = fmtInt (sint (ucast w :: u32)) in replicate (64 - length text) (CHR '' '') @ text)"

lemma fmtDec_inj: "fmtDec n = fmtDec m \<longleftrightarrow> n = m"
  by (metis decNumber_fmtDec)

definition small_fds :: "u64 set" where
  "small_fds = {fd. unat fd < 10 ^ 16}"

lemma windows_key: "fd \<in> small_fds \<Longrightarrow> routerMonitorGenKey i64dWindows fd = fmtDec (unat fd)"
proof -
  assume fd: "fd \<in> small_fds"
  then have "uint fd < int (10 ^ 16)"
    unfolding small_fds_def mem_Collect_eq unat_eq_nat_uint by (subst (asm) nat_less_iff) simp_all
  then have "uint fd < 2 ^ 63"
    by simp
  moreover have "- (2 ^ 63) \<le> uint fd"
    by (rule order_trans [of _ 0]) simp_all
  ultimately have "sint fd = int (unat fd)"
    using signed_take_bit_int_eq_self [of 63 "uint fd"] by (simp add: sint_uint)
  moreover have "length (fmtDec (unat fd)) \<le> 16"
    using length_fmtDec [of "unat fd" 15] fd by (simp add: small_fds_def)
  ultimately show ?thesis
    by (simp add: routerMonitorGenKey_def i64dWindows_def fmtInt_def c_snprintf_def)
qed

lemma gnu_key: "routerMonitorGenKey i64dGnu fd = replicate 16 (CHR '' '')"
proof -
  let ?w = "ucast fd :: u32"
  have "- (2 ^ 31) \<le> sint ?w" "sint ?w < 2 ^ 31"
    using sint_ge [of ?w] sint_less [of ?w] by simp_all
  then have "length (fmtDec (nat (- sint ?w))) \<le> 10" "length (fmtDec (nat (sint ?w))) \<le> 10"
    using length_fmtDec [of "nat (- sint ?w)" 9] length_fmtDec [of "nat (sint ?w)" 9] by (simp_all add: nat_less_iff)
  then have "length (fmtInt (sint ?w)) \<le> 11"
    by (simp add: fmtInt_def)
  then show ?thesis
    by (simp add: routerMonitorGenKey_def i64dGnu_def c_snprintf_def Let_def)
qed

section \<open>The refinement\<close>

text \<open>An implementation whose keys tell the descriptors apart.\<close>

locale monitor_table = zhash "me_Z env"
  for env :: "('h, 's) MonitorEnv" and fds :: "u64 set" +
  assumes keys: "inj_on (routerMonitorGenKey (me_fmtI64d env)) fds"
    and behind: "\<exists>bs. me_behind env = 0 # bs"
begin

definition clients :: "'h \<Rightarrow> (u64 \<Rightarrow> bytes option) \<Rightarrow> bool" where
  "clients h m \<longleftrightarrow> (\<forall>fd \<in> fds. zhash_lookup (me_Z env) h (routerMonitorGenKey (me_fmtI64d env) fd) = map_option Some (m fd)) \<and>
     (\<forall>fd i. m fd = Some i \<longrightarrow> length i = 5)"

lemma clients_lookup: "clients h m \<Longrightarrow> fd \<in> fds \<Longrightarrow> monitorLookup (me_Z env) h (routerMonitorGenKey (me_fmtI64d env) fd) = m fd"
  by (cases "m fd") (auto simp: clients_def monitorLookup_def)

lemma clients_update:
  assumes "clients h m" "fd \<in> fds"
    and "zhash_lookup (me_Z env) h' = (zhash_lookup (me_Z env) h)(routerMonitorGenKey (me_fmtI64d env) fd := map_option Some v)"
    and "\<And>i. v = Some i \<Longrightarrow> length i = 5"
  shows "clients h' (m(fd := v))"
  using assms keys by (auto simp: clients_def inj_on_def)

lemma fd_frame: "monitorFd env (strBytes (fmtDec (unat fd)) # r) = Inr fd"
proof -
  obtain bs where "me_behind env = 0 # bs"
    using behind by blast
  moreover have "noNul (fmtDec (unat fd))"
    using fmtDec_no_null by (simp add: noNul_def)
  moreover have "unat fd < 2 ^ 64"
    using unsigned_less [of fd] by simp
  ultimately show ?thesis
    by (simp add: monitorFd_def frame_str_strBytes c_strtoul10_fmtDec)
qed

lemma headers: "strBytes ''ACCEPTED'' \<noteq> strBytes ''DISCONNECTED''"
  by (simp add: strBytes_def)

definition known :: "ClientEvent \<Rightarrow> bool" where
  "known e \<longleftrightarrow> clientFd e \<in> fds \<and> (\<forall>fd i. e = Message fd i \<longrightarrow> length i = 5)"

definition agrees :: "ClientEvent list \<Rightarrow> 'h \<Rightarrow> (u64 \<Rightarrow> bytes option) \<Rightarrow> 's \<Rightarrow> bool" where
  "agrees es h m s \<longleftrightarrow> (case clientsRun (me_disconnectHandler env) es (m, s) of
      Inl e \<Rightarrow> routerMonitorStart env (map clientInput es) (h, s) = Inl e
    | Inr (ok, m', s') \<Rightarrow> \<exists>h'. routerMonitorStart env (map clientInput es) (h, s) = Inr (ok, h', s') \<and> clients h' m')"

lemma agrees_step:
  assumes "agrees es h' m' s'" "clientsRun (me_disconnectHandler env) (e # es) (m, s) = clientsRun (me_disconnectHandler env) es (m', s')"
    and "routerMonitorStart env (map clientInput (e # es)) (h, s) = routerMonitorStart env (map clientInput es) (h', s')"
  shows "agrees (e # es) h m s"
  using assms by (simp only: agrees_def)

lemma run_correct:
  assumes "clients h m" "\<forall>e \<in> set es. known e"
  shows "agrees es h m s"
  using assms
proof (induction es arbitrary: h m s)
  case (Cons e es h m s)
  have fd: "clientFd e \<in> fds"
    using Cons.prems by (simp add: known_def)
  note look = clients_lookup [OF Cons.prems(1) fd]
  have IH: "clients h m \<Longrightarrow> agrees es h m s" for h m s
    using Cons by simp
  show ?case
  proof (cases e)
    case (Accepted a)
    have "routerMonitorProcess env (Some [strBytes ''ACCEPTED'', strBytes (fmtDec (unat a)), strBytes ''tcp'']) (h, s) = Inr (0, h, s)"
      using look Cons.prems(1) unfolding clients_def
      by (auto simp: routerMonitorProcess_def fd_frame Accepted sessionKey_full split: option.splits)
    then show ?thesis
      by (intro agrees_step [OF IH [OF Cons.prems(1)]]) (simp_all add: Accepted)
  next
    case (Message a i)
    note message = Message routerInformMonitor_def routerMonitorSubscribe_def Let_def
    show ?thesis
    proof (cases "m a")
      case None
      then obtain h' where h': "zhash_insert (me_Z env) h (routerMonitorGenKey (me_fmtI64d env) a) (Some i) = Some h'"
        "zhash_lookup (me_Z env) h' = (zhash_lookup (me_Z env) h)(routerMonitorGenKey (me_fmtI64d env) a \<mapsto> Some i)"
        using zh_insert [of h "routerMonitorGenKey (me_fmtI64d env) a" "Some i"] Cons.prems(1) fd by (auto simp: clients_def Message)
      then have "clients h' (m(a \<mapsto> i))"
        using Cons.prems fd by (intro clients_update [of h m a h' "Some i"]) (auto simp: Message known_def)
      then show ?thesis
        using look None h'(1) by (intro agrees_step [OF IH]) (simp_all add: message)
    next
      case (Some j)
      show ?thesis
      proof (cases "i = j")
        case True
        then show ?thesis
          using look Some by (intro agrees_step [OF IH [OF Cons.prems(1)]]) (simp_all add: message fun_upd_idem)
      next
        case False
        then show ?thesis
          using look Some Cons.prems(1) by (simp add: agrees_def message)
      qed
    qed
  next
    case (Disconnected a)
    note disconnected = Disconnected routerMonitorProcess_def Let_def fd_frame headers [symmetric]
    show ?thesis
    proof (cases "m a")
      case None
      then show ?thesis
        using look by (intro agrees_step [OF IH [OF Cons.prems(1)]]) (simp_all add: disconnected)
    next
      case (Some i)
      let ?h = "zhash_delete (me_Z env) h (routerMonitorGenKey (me_fmtI64d env) a)"
      let ?call = "case me_disconnectHandler env of None \<Rightarrow> Inr (True, s) | Some f \<Rightarrow> f (concat (map fmtByteHex i)) s"
      have deleted: "clients ?h (m(a := None))"
        using Cons.prems(1) fd by (intro clients_update [of h m a ?h None]) (auto simp: zh_delete Disconnected)
      have i: "length i = 5"
        using Some Cons.prems(1) by (auto simp: clients_def)
      show ?thesis
      proof (cases ?call)
        case (Inl u)
        then show ?thesis
          using look Some by (simp add: agrees_def disconnected sessionKey_full [OF i])
      next
        case (Inr r)
        then show ?thesis
          using look Some by (intro agrees_step [where s' = "snd r", OF IH [OF deleted]]) (cases r; simp add: disconnected sessionKey_full [OF i])+
      qed
    qed
  qed
qed (simp add: agrees_def)

end

text \<open>A table of CZMQ as an association list, and a handler that writes down the keys.\<close>

definition exMonitorEnv :: "(u64 \<Rightarrow> string) \<Rightarrow> ((string \<times> bytes option) list, string list) MonitorEnv" where
  "exMonitorEnv fmtI64d = \<lparr> me_Z = al_ops, me_fmtI64d = fmtI64d, me_behind = [0], me_disconnectHandler = Some (\<lambda>k s. Inr (True, s @ [k])) \<rparr>"

lemma windows_keys_inj: "inj_on (routerMonitorGenKey i64dWindows) small_fds"
  by (rule inj_onI) (simp add: windows_key fmtDec_inj word_unat_eq_iff)

lemma windows_table:
  "zhash (me_Z env) \<Longrightarrow> me_fmtI64d env = i64dWindows \<Longrightarrow> \<exists>bs. me_behind env = 0 # bs \<Longrightarrow> monitor_table env small_fds"
  by (simp add: monitor_table_def monitor_table_axioms_def windows_keys_inj)

interpretation reference_monitor: monitor_table "exMonitorEnv i64dWindows" small_fds
  by (rule windows_table) (simp_all add: exMonitorEnv_def al.zhash_axioms)

section \<open>Properties\<close>





text \<open>Where \<open>I\<close> is a flag and 64 a width, as in the GNU library, the text of every descriptor begins with more blanks than
  the key has characters: all keys are the same, and the first message of a second client ends the monitor, whatever the
  descriptors are.\<close>

theorem routerMonitor_gnu_one_client:
  assumes "zhash (me_Z env)" "me_fmtI64d env = i64dGnu" "i \<noteq> j"
  shows "\<exists>h. routerMonitorStart env (map clientInput [Message fd i, Message fd' j]) (routerMonitorInit env s) = Inr (False, h, s)"
proof -
  let ?k = "replicate 16 (CHR '' '')"
  obtain h where h: "zhash_insert (me_Z env) (zhash_new (me_Z env)) ?k (Some i) = Some h"
    "zhash_lookup (me_Z env) h = (zhash_lookup (me_Z env) (zhash_new (me_Z env)))(?k \<mapsto> Some i)"
    using zhash.zh_insert [OF assms(1), of "zhash_new (me_Z env)" ?k "Some i"] zhash.zh_new [OF assms(1)] by auto
  have "routerMonitorSubscribe env (Some [enc32 ROUTER_MONITOR_ADD_FD, enc64 fd, i]) (zhash_new (me_Z env), s) = Inr (0, h, s)"
    using h(1) by (simp add: routerMonitorSubscribe_def Let_def assms(2) gnu_key monitorLookup_def zhash.zh_new [OF assms(1)])
  moreover have "routerMonitorSubscribe env (Some [enc32 ROUTER_MONITOR_ADD_FD, enc64 fd', j]) (h, s) = Inr (-1, h, s)"
    using assms(3) by (simp add: routerMonitorSubscribe_def Let_def assms(2) gnu_key monitorLookup_def h(2))
  ultimately show ?thesis
    by (simp add: routerInformMonitor_def routerMonitorInit_def)
qed

theorem routerMonitor_gnu_one_client_witness:
  "\<exists>h. routerMonitorStart (exMonitorEnv i64dGnu) (map clientInput [Message 7 [1, 2, 3, 4, 5], Message 8 [1, 2, 3, 4, 6]])
    (routerMonitorInit (exMonitorEnv i64dGnu) []) = Inr (False, h, [])"
  by (rule routerMonitor_gnu_one_client) (simp_all add: exMonitorEnv_def al.zhash_axioms)

end
