(* ===== verification/Disconnect.thy ===== *)
theory Disconnect
  imports MySqlWitness Monitor
begin

text \<open>
  What the servers do when a client disconnects (\<open>zone_event_server.c\<close>, \<open>barrack_event_server.c\<close>, \<open>social_event_server.c\<close>):
  the functions that the router monitor is given as its handlers. Their state is the memory of the process, the state of the
  Redis server and the one of the SQL server. Beside them the rest of the social server, which has one packet handler and no event.
\<close>

section \<open>The handlers\<close>

type_synonym ('h, 'k, 'r, 'q) ServerState = "('h, 'k) HandlerState \<times> 'r \<times> 'q"

text \<open>\<open>uninit\<close> is what the game session on the stack holds where it is not written.\<close>

definition zoneEventServerOnDisconnect ::
    "('h, 'k, 'v, 'r) RedisEnv \<Rightarrow> 'q SqlEnv \<Rightarrow> AccountSession \<times> CommanderPtr \<Rightarrow> u16 \<Rightarrow> string \<Rightarrow> ('h, 'k, 'r, 'q) ServerState \<Rightarrow>
     (bool \<times> ('h, 'k, 'r, 'q) ServerState) result" where
  "zoneEventServerOnDisconnect redis mysql uninit routerId sessionKeyStr = (\<lambda>(s, r, q).
     rbind (redisGetGameSessionBySocketId redis r routerId sessionKeyStr uninit s) (\<lambda>(ok, s, r, account, currentCommander).
     if \<not> ok then Inr (False, s, r, q)
     else
       rbind (derefCommander (hs_commanders s) currentCommander) (\<lambda>commander.
       let s = workerDispatchEvent sessionKeyStr (LeaveEvent (co_pcId commander)) s in
       rbind (mySqlCommanderSessionFlush mysql q currentCommander s) (\<lambda>(flushed, s, q).
       rbind (redisFlushSession redis r \<lparr> rs_routerId = routerId, rs_sessionKey = sessionKeyStr \<rparr>) (\<lambda>(ok, r).
       Inr (ok, s, r, q))))))"

definition barrackEventServerOnDisconnect ::
    "('h, 'k, 'v, 'r) RedisEnv \<Rightarrow> 'q SqlEnv \<Rightarrow> AccountSession \<times> CommanderPtr \<Rightarrow> u16 \<Rightarrow> string \<Rightarrow> ('h, 'k, 'r, 'q) ServerState \<Rightarrow>
     (bool \<times> ('h, 'k, 'r, 'q) ServerState) result" where
  "barrackEventServerOnDisconnect redis mysql uninit routerId sessionKeyStr = (\<lambda>(s, r, q).
     rbind (redisGetGameSessionBySocketId redis r routerId sessionKeyStr uninit s) (\<lambda>(ok, s, r, account, currentCommander).
     if \<not> ok then Inr (False, s, r, q)
     else
       rbind (mySqlCommanderSessionFlush mysql q currentCommander s) (\<lambda>(flushed, s, q).
       rbind (redisFlushSession redis r \<lparr> rs_routerId = routerId, rs_sessionKey = sessionKeyStr \<rparr>) (\<lambda>(ok, r).
       Inr (ok, s, r, q)))))"

definition socialEventServerOnDisconnect ::
    "('h, 'k, 'v, 'r) RedisEnv \<Rightarrow> u16 \<Rightarrow> string \<Rightarrow> ('h, 'k, 'r, 'q) ServerState \<Rightarrow> (bool \<times> ('h, 'k, 'r, 'q) ServerState) result" where
  "socialEventServerOnDisconnect redis routerId sessionKeyStr = (\<lambda>(s, r, q).
     rbind (redisFlushSession redis r \<lparr> rs_routerId = routerId, rs_sessionKey = sessionKeyStr \<rparr>) (\<lambda>(ok, r). Inr (ok, s, r, q)))"

section \<open>Servers without events\<close>

abbreviation (input) EVENT_TYPE_BARRACK_START :: u32 where "EVENT_TYPE_BARRACK_START \<equiv> 12"
abbreviation (input) EVENT_TYPE_BARRACK_END :: u32 where "EVENT_TYPE_BARRACK_END \<equiv> 13"
abbreviation (input) EVENT_TYPE_SOCIAL_START :: u32 where "EVENT_TYPE_SOCIAL_START \<equiv> 14"
abbreviation (input) EVENT_TYPE_SOCIAL_END :: u32 where "EVENT_TYPE_SOCIAL_END \<equiv> 15"

text \<open>The tables of the event handlers have no entry, only null pointers up to the last type.\<close>

definition barrackEventServerProcess :: "'s \<Rightarrow> u32 \<Rightarrow> bytes \<Rightarrow> (bool \<times> 's) result" where
  "barrackEventServerProcess self type eventData =
     (if type \<le> EVENT_TYPE_BARRACK_START \<or> EVENT_TYPE_BARRACK_END \<le> type then Inr (False, self) else Inr (False, self))"

definition socialEventServerProcess :: "'s \<Rightarrow> u32 \<Rightarrow> bytes \<Rightarrow> (bool \<times> 's) result" where
  "socialEventServerProcess self type eventData =
     (if type \<le> EVENT_TYPE_SOCIAL_START \<or> EVENT_TYPE_SOCIAL_END \<le> type then Inr (False, self) else Inr (False, self))"

section \<open>The social server\<close>

abbreviation (input) CS_LOGIN :: u16 where "CS_LOGIN \<equiv> 2901"

text \<open>The packet: the name of the account (33 bytes), a hash (17 bytes) and the id of the account.\<close>

definition socialHandlerLogin :: "('h, 'k) HandlerState \<Rightarrow> bytes \<Rightarrow> u64 \<Rightarrow> frames \<Rightarrow> ('h, 'k) Handled" where
  "socialHandlerLogin s packet packetSize reply =
     checked 58 packetSize CS_LOGIN s reply
       (rbind (field 50 8 packet) (\<lambda>accountId.
        let session = hs_session s;
            socket = (se_socket session) \<lparr> ss_accountId := dec64 accountId \<rparr>;
            sessionKey = c_strncpy SOCKET_SESSION_ID_SIZE (strBytes (ss_sessionKey socket)) in
        rbind (accountSessionInit packet sessionKey ACCOUNT_SESSION_PRIVILEGES_ADMIN) (\<lambda>accountSession.
        Inr (PACKET_HANDLER_UPDATE_SESSION,
          s \<lparr> hs_session := session \<lparr> se_socket := socket \<lparr> ss_authenticated := True \<rparr>, se_accountSession := accountSession \<rparr> \<rparr>, reply))))"

definition socialHandlers :: "('h, 'k) HandlerState PacketHandler option list" where
  "socialHandlers = map (\<lambda>type. if type = unat CS_LOGIN then Some socialHandlerLogin else None) [0..<nat PACKET_TYPE_COUNT]"

section \<open>Deleting a session\<close>

context redis_server
begin

lemma run_del:
  assumes "rd_run env = run" "plain key" "length key \<le> 100"
  shows "\<exists>n r'. redisCommandDbg env r (strBytes ''DEL '' @ key) = (Some (RedisInteger n), r') \<and> hashes r' = (hashes r)(key := Map.empty)"
proof -
  have request: "strBytes ''DEL '' @ key = strBytes ''DEL'' @ blank # key"
    by (simp add: strBytes_def)
  have "plain (strBytes ''DEL'')"
    by (simp add: plain_strBytes)
  then have "wordsOf blank (strBytes ''DEL '' @ key) = [strBytes ''DEL'', key]" "percent \<notin> set (strBytes ''DEL '' @ key)"
    using assms(2) unfolding request by (simp_all add: plain_def wordsOf_append wordsOf_single)
  moreover have "take (1024 * 1024 - 1) (strBytes ''DEL '' @ key) = strBytes ''DEL '' @ key"
    using assms(3) by simp
  ultimately show ?thesis
    using del [of "strBytes ''DEL '' @ key" key r] by (simp add: redisCommandDbg_def assms(1))
qed

lemma flush_session:
  assumes run: "rd_run env = run" "plain_key key"
    and stored: "\<forall>(f, v) \<in> set (socketValues key socketSession). hashes r (socketKeyText key) (strBytes f) = Some v"
  shows "\<exists>r'. redisFlushSession env r key = Inr (True, r') \<and>
    hashes r' = (hashes r)(gameKeyText (gameKeyOf (socketSession \<lparr> ss_routerId := rs_routerId key \<rparr>)) := Map.empty, socketKeyText key := Map.empty)"
proof -
  let ?game = "gameKeyText (gameKeyOf (socketSession \<lparr> ss_routerId := rs_routerId key \<rparr>))"
  have "plain ?game"
    by (rule plain_gameKeyText(1))
  moreover have "length ?game \<le> 100"
    using plain_gameKeyText(2) [of "gameKeyOf (socketSession \<lparr> ss_routerId := rs_routerId key \<rparr>)"] by linarith
  ultimately obtain n r1 where 1: "redisCommandDbg env r (strBytes ''DEL '' @ ?game) = (Some (RedisInteger n), r1)" "hashes r1 = (hashes r)(?game := Map.empty)"
    using run_del [OF run(1)] by blast
  obtain m r2 where 2: "redisCommandDbg env r1 (strBytes ''DEL '' @ socketKeyText key) = (Some (RedisInteger m), r2)"
    "hashes r2 = (hashes r1)(socketKeyText key := Map.empty)"
    using run_del [OF run(1) plain_socketKeyText [OF run(2)]] by blast
  have "gameKeyOf (socketSession \<lparr> ss_routerId := rs_routerId key, ss_sessionKey := rs_sessionKey key \<rparr>)
      = gameKeyOf (socketSession \<lparr> ss_routerId := rs_routerId key \<rparr>)"
    by (simp add: gameKeyOf_def)
  then show ?thesis
    using 1 2 by (simp add: redisFlushSession_def get_socket_stored [OF run stored] redisFlushGameSession_def redisFlushSocketSession_def)
qed

end

text \<open>Reading a session leaves the events.\<close>

lemma redisGetGameSession_events:
  "redisGetGameSession env r key s = Inr (ok, s', x) \<Longrightarrow> hs_events s' = hs_events s"
  by (auto simp: redisGetGameSession_def Let_def rbind_eq_Inr_iff case_prod_beta
      split: option.splits RedisReply.splits if_splits)

section \<open>Properties\<close>


text \<open>The structure of the packet of \<open>CS_LOGIN\<close> has 58 bytes, but the table of the packet types gives it 54 behind its
  header: the size check refuses every packet, and nobody can log in to the social server, whose only handler this is.\<close>

theorem socialHandlerLogin_refuses:
  "socialHandlerLogin s packet packetSize reply = Inr (PACKET_HANDLER_ERROR, s, reply)"
proof -
  have "pte_size (packetTypeInit ! unat CS_LOGIN) = 64"
    by (simp add: packetTypeInit_entries)
  then have "\<not> checkPacket 58 packetSize CS_LOGIN"
    by (rule checkPacket_unfit) simp_all
  then show ?thesis
    by (simp add: socialHandlerLogin_def checked_def)
qed

end
