(* ===== verification/DisconnectWitness.thy ===== *)
theory DisconnectWitness
  imports Disconnect BarrackWitness
begin

text \<open>A client to which the property of \<open>Disconnect\<close> applies: every field of its session has the text \<open>1\<close>.\<close>

definition exGoneKey :: RedisSocketSessionKey where
  "exGoneKey = \<lparr> rs_routerId = 1, rs_sessionKey = ''0123456789'' \<rparr>"

definition exGoneSocket :: SocketSession where
  "exGoneSocket = \<lparr> ss_accountId = 1, ss_routerId = 1, ss_mapId = 1, ss_sessionKey = ''0123456789'', ss_authenticated = True \<rparr>"

definition exGoneHashes :: "bytes \<Rightarrow> bytes \<Rightarrow> bytes option" where
  "exGoneHashes k f = Some (strBytes ''1'')"

lemma hexOf_one: "hexOf (1 :: u64) = strBytes ''1''" "hexOf (1 :: u16) = strBytes ''1''"
  by (simp_all add: hexOf_def fmtHex.simps hexDigit_def)

lemma redisNumber_one: "redisNumber (strBytes ''1'') = 1"
  using redisNumber_hexOf64 [of 1] by (simp add: hexOf_one)

lemma redisEquipment_loaded:
  "\<exists>es st' actors'. redisEquipment (exRedisEnv run) st actors strs = Inr (True, es, st', actors')
    \<and> equipmentIds st' es = Inr (replicate (length strs) (itemGetId (itemBase (exWeapon 1 EQSLOT_NOSLOT))))
    \<and> (\<forall>a < st_next st. st_items st' a = st_items st a) \<and> st_next st \<le> st_next st'"
proof (induction strs arbitrary: st actors)
  case (Cons x strs)
  let ?st = "st \<lparr> st_items := (st_items st)(st_next st \<mapsto> exWeapon 1 EQSLOT_NOSLOT), st_next := Suc (st_next st) \<rparr>"
  obtain es st' actors' where IH: "redisEquipment (exRedisEnv run) ?st actors strs = Inr (True, es, st', actors')"
    "equipmentIds st' es = Inr (replicate (length strs) (itemGetId (itemBase (exWeapon 1 EQSLOT_NOSLOT))))"
    "\<forall>a < Suc (st_next st). st_items st' a = st_items ?st a" "Suc (st_next st) \<le> st_next st'"
    using Cons.IH [of ?st actors] by auto
  have "redisEquipment (exRedisEnv run) st actors (x # strs) = Inr (True, Some (st_next st) # es, st', actors')"
    using IH(1) by (simp add: exRedisEnv_def allocItem_def)
  moreover have "derefItem st' (st_next st) = Inr (exWeapon 1 EQSLOT_NOSLOT)"
    using IH(3) by (simp add: derefItem_def)
  moreover have "\<forall>a < st_next st. st_items st' a = st_items st a"
    using IH(3) by simp
  ultimately show ?case
    using IH(2,4) by auto
qed simp


end
