(* ===== verification/Launch.thy ===== *)
theory Launch
  imports MySqlTheorems PacketType
begin

text \<open>
  Starting the servers: \<open>src/common/server/server.c\<close>, \<open>src/common/server/server_factory.c\<close>,
  \<open>src/global_server/global_server.c\<close>, \<open>src/zone_server/main.c\<close> and the \<open>New\<close>, \<open>Init\<close> and \<open>Start\<close> functions of the
  three kinds of servers. The global server reads a configuration and starts a process for every server; it hands
  over the parameters on a command line, which the process reads back. The JSON library is an argument of the
  configuration reader; whether a step of the start (a connection, an allocation of a socket, a thread) succeeds is an
  argument of the functions that take it. Allocations succeed, except for a size that no memory has.
\<close>

section \<open>Start information\<close>

record MySQLInfo =
  my_hostname :: string
  my_user :: string
  my_password :: string
  my_database :: string

record RedisInfo =
  rd_hostname :: string
  rd_port :: u32

datatype DisconnectHandler = barrackOnDisconnect | zoneOnDisconnect | socialOnDisconnect

record RouterInfo =
  rti_routerId :: u16
  rti_ip :: string
  rti_port :: u32
  rti_workersCount :: u32
  rti_redisInfo :: RedisInfo
  rti_sqlInfo :: MySQLInfo
  rti_disconnectHandler :: "DisconnectHandler option"

datatype HandlerTable = barrackTable | zoneTable | socialTable

record WorkerInfo =
  wki_workerId :: u16
  wki_routerId :: u32
  wki_serverType :: u32
  wki_globalServerIp :: string
  wki_globalServerPort :: u32
  wki_sqlInfo :: MySQLInfo
  wki_redisInfo :: RedisInfo
  wki_packetHandlers :: "HandlerTable option"
  wki_packetHandlersCount :: nat
  wki_routerIp :: string
  wki_routerPort :: u32

record ServerInfo =
  svi_routerInfo :: RouterInfo
  svi_workersInfo :: "WorkerInfo list"
  svi_workersInfoCount :: u32
  svi_output :: string
  svi_serverType :: u32

abbreviation (input) SERVER_TYPE_BARRACK :: u32 where "SERVER_TYPE_BARRACK \<equiv> 1"
abbreviation (input) SERVER_TYPE_SOCIAL :: u32 where "SERVER_TYPE_SOCIAL \<equiv> 2"
abbreviation (input) SERVER_TYPE_ZONE :: u32 where "SERVER_TYPE_ZONE \<equiv> 3"

text \<open>A \<open>char *\<close> that may be NULL, and \<open>strdup\<close> of it.\<close>

definition c_strdup :: "string option \<Rightarrow> string result" where
  "c_strdup p = (case p of None \<Rightarrow> Inl NullDeref | Some s \<Rightarrow> Inr s)"

definition mySqlInfoInit :: "string option \<Rightarrow> string option \<Rightarrow> string option \<Rightarrow> string option \<Rightarrow> MySQLInfo result" where
  "mySqlInfoInit hostname user password database =
     rbind (c_strdup hostname) (\<lambda>hostname.
     rbind (c_strdup user) (\<lambda>user.
     rbind (c_strdup password) (\<lambda>password.
     rbind (c_strdup database) (\<lambda>database.
       Inr \<lparr> my_hostname = hostname, my_user = user, my_password = password, my_database = database \<rparr>))))"

definition redisInfoInit :: "string option \<Rightarrow> u32 \<Rightarrow> RedisInfo result" where
  "redisInfoInit hostname port = rbind (c_strdup hostname) (\<lambda>hostname. Inr \<lparr> rd_hostname = hostname, rd_port = port \<rparr>)"

definition routerInfoInit ::
  "u16 \<Rightarrow> string option \<Rightarrow> u32 \<Rightarrow> u32 \<Rightarrow> RedisInfo \<Rightarrow> MySQLInfo \<Rightarrow> DisconnectHandler option \<Rightarrow> RouterInfo result" where
  "routerInfoInit routerId ip port workersCount redisInfo sqlInfo disconnectHandler =
     rbind (c_strdup ip) (\<lambda>ip.
     rbind (redisInfoInit (Some (rd_hostname redisInfo)) (rd_port redisInfo)) (\<lambda>redis.
     rbind (mySqlInfoInit (Some (my_hostname sqlInfo)) (Some (my_user sqlInfo)) (Some (my_password sqlInfo))
              (Some (my_database sqlInfo))) (\<lambda>sql.
       Inr \<lparr> rti_routerId = routerId, rti_ip = ip, rti_port = port, rti_workersCount = workersCount,
             rti_redisInfo = redis, rti_sqlInfo = sql, rti_disconnectHandler = disconnectHandler \<rparr>)))"

definition workerInfoInit ::
  "u16 \<Rightarrow> u16 \<Rightarrow> u32 \<Rightarrow> string option \<Rightarrow> u32 \<Rightarrow> MySQLInfo \<Rightarrow> RedisInfo \<Rightarrow> HandlerTable option \<Rightarrow> nat \<Rightarrow>
   string option \<Rightarrow> u32 \<Rightarrow> WorkerInfo result" where
  "workerInfoInit workerId routerId serverType globalServerIp globalServerPort sqlInfo redisInfo packetHandlers
     packetHandlersCount routerIp routerPort =
     rbind (c_strdup routerIp) (\<lambda>routerIp.
     rbind (c_strdup globalServerIp) (\<lambda>globalServerIp.
     rbind (redisInfoInit (Some (rd_hostname redisInfo)) (rd_port redisInfo)) (\<lambda>redis.
     rbind (mySqlInfoInit (Some (my_hostname sqlInfo)) (Some (my_user sqlInfo)) (Some (my_password sqlInfo))
              (Some (my_database sqlInfo))) (\<lambda>sql.
       Inr \<lparr> wki_workerId = workerId, wki_routerId = ucast routerId, wki_serverType = serverType,
             wki_globalServerIp = globalServerIp, wki_globalServerPort = globalServerPort, wki_sqlInfo = sql,
             wki_redisInfo = redis, wki_packetHandlers = packetHandlers, wki_packetHandlersCount = packetHandlersCount,
             wki_routerIp = routerIp, wki_routerPort = routerPort \<rparr>))))"

definition serverInfoInit :: "u32 \<Rightarrow> RouterInfo \<Rightarrow> WorkerInfo list \<Rightarrow> u32 \<Rightarrow> string \<Rightarrow> ServerInfo" where
  "serverInfoInit serverType routerInfo workersInfo workersInfoCount output =
     \<lparr> svi_routerInfo = routerInfo, svi_workersInfo = workersInfo, svi_workersInfoCount = workersInfoCount,
       svi_output = output, svi_serverType = serverType \<rparr>"

section \<open>Loops with a counter of 16 bits\<close>

text \<open>\<open>for (uint16_t id = 0; id < count; id++)\<close>, where the type of \<open>count\<close> has more bits: a loop that may run forever.
  The body may leave the loop with an \<open>Inl\<close>.\<close>

type_synonym ('e, 'a) orun = "('e + 'a) option"

primrec osum :: "'e + 'a \<Rightarrow> ('a \<Rightarrow> ('e, 'b) orun) \<Rightarrow> ('e, 'b) orun" where
  "osum (Inl e) f = Some (Inl e)"
| "osum (Inr x) f = f x"

definition obind :: "('e, 'a) orun \<Rightarrow> ('a \<Rightarrow> ('e, 'b) orun) \<Rightarrow> ('e, 'b) orun" where
  "obind m f = Option.bind m (\<lambda>r. osum r f)"

lemma obind_simps [simp]:
  "obind None f = None" "obind (Some (Inl e)) f = Some (Inl e)" "obind (Some (Inr x)) f = f x"
  by (simp_all add: obind_def)

lemma obind_mono [partial_function_mono]:
  "(\<And>y. mono_option (\<lambda>f. C y f)) \<Longrightarrow> mono_option (\<lambda>f. obind m (\<lambda>y. C y f))"
proof (cases m)
  case (Some r)
  then show "(\<And>y. mono_option (\<lambda>f. C y f)) \<Longrightarrow> mono_option (\<lambda>f. obind m (\<lambda>y. C y f))"
    by (cases r) (simp_all add: option.const_mono)
qed (simp add: option.const_mono)

partial_function (option) loop16 :: "(u16 \<Rightarrow> 's \<Rightarrow> ('e, 's) orun) \<Rightarrow> nat \<Rightarrow> u16 \<Rightarrow> 's \<Rightarrow> ('e, 's) orun" where
  "loop16 body bound k s =
     (if bound \<le> unat k then Some (Inr s) else obind (body k s) (\<lambda>s. loop16 body bound (k + 1) s))"

fun ofold :: "('a \<Rightarrow> 's \<Rightarrow> ('e, 's) orun) \<Rightarrow> 'a list \<Rightarrow> 's \<Rightarrow> ('e, 's) orun" where
  "ofold body [] s = Some (Inr s)"
| "ofold body (x # xs) s = obind (body x s) (ofold body xs)"

lemma unat_Suc_small: "unat k < n \<Longrightarrow> n < 65536 \<Longrightarrow> unat ((k :: u16) + 1) = Suc (unat k)"
  by (simp add: unat_word_ariths)

lemma loop16_from:
  assumes "bound < 65536" "unat k \<le> bound"
  shows "loop16 body bound k s = ofold body (List.map of_nat [unat k..<bound]) s"
  using assms(2)
proof (induction "bound - unat k" arbitrary: k s)
  case 0
  then show ?case
    by (subst loop16.simps) simp
next
  case (Suc n)
  then have "unat k < bound"
    by simp
  moreover have "[unat k..<bound] = unat k # [Suc (unat k)..<bound]"
    using \<open>unat k < bound\<close> by (simp add: upt_rec)
  moreover have "loop16 body bound (k + 1) = ofold body (List.map of_nat [Suc (unat k)..<bound])"
  proof
    show "loop16 body bound (k + 1) t = ofold body (List.map of_nat [Suc (unat k)..<bound]) t" for t
      using Suc(1) [of "k + 1" t] Suc(2) \<open>unat k < bound\<close> assms(1) by (simp add: unat_Suc_small)
  qed
  ultimately show ?case
    by (subst loop16.simps) simp
qed

lemma loop16_returns: "bound < 65536 \<Longrightarrow> loop16 body bound 0 s = ofold body (List.map of_nat [0..<bound]) s"
  by (simp add: loop16_from)

text \<open>A loop up to more than the counter can hold does not return, unless its body leaves it.\<close>

lemma loop16_runs_forever:
  assumes "65535 < bound" "\<forall>k s. \<exists>s'. body k s = Some (Inr s')"
  shows "loop16 body bound k s = None"
proof -
  have "loop16 b n i t = Some r \<Longrightarrow> b = body \<longrightarrow> n \<noteq> bound" for b n i t r
  proof (induction b n i t r rule: loop16.raw_induct [rotated, consumes 1, case_names step])
    case (step loop b n i t r)
    have "unat i < 2 ^ LENGTH(16)"
      by (rule unsigned_less)
    then have "unat i < bound"
      using assms(1) by simp
    moreover obtain t' where "body i t = Some (Inr t')"
      using assms(2) by blast
    ultimately show ?case
      using step step(1) [of body bound "i + 1" t' r] loop16.simps [of body bound i t] by (auto split: if_splits)
  qed
  from this [of body bound k s] show ?thesis
    by (cases "loop16 body bound k s") auto
qed

section \<open>The server factory\<close>

text \<open>The number of handlers is \<open>None\<close> as long as it is not initialised.\<close>

definition serverFactoryHandlers :: "u32 \<Rightarrow> HandlerTable option \<times> nat option" where
  "serverFactoryHandlers serverType =
     (if serverType = SERVER_TYPE_BARRACK then (Some barrackTable, Some (nat PACKET_TYPE_COUNT))
      else if serverType = SERVER_TYPE_ZONE then (Some zoneTable, Some (nat PACKET_TYPE_COUNT))
      else if serverType = SERVER_TYPE_SOCIAL then (Some socialTable, Some (nat PACKET_TYPE_COUNT))
      else (None, None))"

text \<open>
  The result: nothing if the function does not return, otherwise the \<open>ServerInfo\<close>, \<open>None\<close> where the code returns
  \<open>false\<close>. A negative number of workers is the size of an array that no memory has. The loop over the workers writes
  its array in order.
\<close>

definition serverFactoryInitServerInfo ::
  "u32 \<Rightarrow> u16 \<Rightarrow> string option \<Rightarrow> u32 \<Rightarrow> u32 \<Rightarrow> string \<Rightarrow> string option \<Rightarrow> u32 \<Rightarrow>
   string option \<Rightarrow> string option \<Rightarrow> string option \<Rightarrow> string option \<Rightarrow> string option \<Rightarrow> u32 \<Rightarrow>
   DisconnectHandler option \<Rightarrow> (ub, ServerInfo option) orun" where
  "serverFactoryInitServerInfo serverType routerId routerIp routerPort workersCount output globalServerIp globalServerPort
     sqlHostname sqlUsername sqlPassword sqlDatabase redisHostname redisPort disconnectHandler =
     osum (mySqlInfoInit sqlHostname sqlUsername sqlPassword sqlDatabase) (\<lambda>sqlInfo.
     osum (redisInfoInit redisHostname redisPort) (\<lambda>redisInfo.
     osum (routerInfoInit routerId routerIp routerPort workersCount redisInfo sqlInfo disconnectHandler) (\<lambda>routerInfo.
       if sint workersCount < 0 then Some (Inr None)
       else let (packetHandlers, handlersCount) = serverFactoryHandlers serverType in
         obind (loop16 (\<lambda>workerId workersInfo.
                  case handlersCount of
                    None \<Rightarrow> Some (Inl Uninitialised)
                  | Some packetHandlersCount \<Rightarrow>
                      osum (workerInfoInit workerId routerId serverType globalServerIp globalServerPort sqlInfo redisInfo
                             packetHandlers packetHandlersCount routerIp routerPort)
                        (\<lambda>w. Some (Inr (workersInfo @ [w]))))
                (nat (sint workersCount)) 0 [])
           (\<lambda>workersInfo. Some (Inr (Some (serverInfoInit serverType routerInfo workersInfo workersCount output)))))))"

section \<open>The command line\<close>

text \<open>The formats \<open>%s %d %s %d\<close> and \<open>%s %d %s %d %s %s %s %s %s %d %d %s\<close> put a blank between two conversions.\<close>

fun joinWords :: "string list \<Rightarrow> string" where
  "joinWords [] = []"
| "joinWords [w] = w"
| "joinWords (w # ws) = w @ CHR 0x20 # joinWords ws"

definition serverCommandLine :: "ServerInfo \<Rightarrow> string \<Rightarrow> WorkerInfo \<Rightarrow> string" where
  "serverCommandLine self executableName worker =
     (let sqlInfo = wki_sqlInfo worker; redisInfo = wki_redisInfo worker; routerInfo = svi_routerInfo self;
          commandLine = joinWords [executableName, fmtInt (uint (rti_routerId routerInfo)), rti_ip routerInfo,
            fmtInt (sint (rti_port routerInfo))] in
      joinWords [commandLine, fmtInt (sint (rti_workersCount routerInfo)), wki_globalServerIp worker,
        fmtInt (sint (wki_globalServerPort worker)), my_hostname sqlInfo, my_user sqlInfo, my_password sqlInfo,
        my_database sqlInfo, rd_hostname redisInfo, fmtInt (sint (rd_port redisInfo)), fmtInt (sint (svi_serverType self)),
        svi_output self])"

text \<open>\<open>serverCreateProcess\<close>: the arguments that the new process is started with. Those of the first worker are read
  whether there is one or not.\<close>

definition serverCreateProcess :: "ServerInfo \<Rightarrow> string \<Rightarrow> string option list result" where
  "serverCreateProcess self executableName =
     (case svi_workersInfo self of
        [] \<Rightarrow> Inl OutOfBounds
      | worker # _ \<Rightarrow> strSplit (serverCommandLine self executableName worker) CHR 0x20)"

section \<open>Steps of the start\<close>

record EventServerInfo =
  esi_routerId :: u16
  esi_workersCount :: u16
  esi_redisInfo :: RedisInfo

datatype LaunchStep =
    StepOutput string
  | StepEventServerNew EventServerInfo u32
  | StepEventServerThread
  | StepCryptoInit
  | StepRouterNew RouterInfo
  | StepWorkerNew WorkerInfo
  | StepDbNew u16
  | StepPacketTypeInit
  | StepDbStart
  | StepItemFactoryStart MySQLInfo
  | StepAdminCmdInit
  | StepWorkerStart nat
  | StepRouterStart

text \<open>Steps that are taken one after the other until one fails.\<close>

fun runSteps :: "(LaunchStep \<Rightarrow> bool) \<Rightarrow> LaunchStep list \<Rightarrow> LaunchStep list \<Rightarrow> bool \<times> LaunchStep list" where
  "runSteps ok [] log = (True, log)"
| "runSteps ok (st # sts) log = (if ok st then runSteps ok sts (log @ [st]) else (False, log @ [st]))"

definition eventServerInfoInit :: "u16 \<Rightarrow> u16 \<Rightarrow> string option \<Rightarrow> u32 \<Rightarrow> EventServerInfo result" where
  "eventServerInfoInit routerId workersCount redisHostname redisPort =
     rbind (redisInfoInit redisHostname redisPort) (\<lambda>redis.
       Inr \<lparr> esi_routerId = routerId, esi_workersCount = workersCount, esi_redisInfo = redis \<rparr>)"

section \<open>Servers\<close>

text \<open>A cell of the array of the workers: what \<open>malloc\<close> left there, NULL, or a worker.\<close>

datatype WorkerSlot = Garbage | NoWorker | WorkerSlot WorkerInfo

record Server =
  sv_router :: bool
  sv_workers :: "WorkerSlot list option"
  sv_info :: ServerInfo

text \<open>The loop of \<open>serverInit\<close>, whose body returns \<open>false\<close> with \<open>Inl (Inr _)\<close>.\<close>

definition serverWorkersNew ::
  "(LaunchStep \<Rightarrow> bool) \<Rightarrow> WorkerInfo list \<Rightarrow> u16 \<Rightarrow> WorkerSlot list \<times> LaunchStep list \<Rightarrow>
   (ub + WorkerSlot list \<times> LaunchStep list, WorkerSlot list \<times> LaunchStep list) orun" where
  "serverWorkersNew ok workersInfo workerId s =
     (case s of (workers, log) \<Rightarrow>
        if length workersInfo \<le> unat workerId then Some (Inl (Inl OutOfBounds))
        else let w = workersInfo ! unat workerId; log = log @ [StepWorkerNew w] in
          if ok (StepWorkerNew w) then Some (Inr (workers[unat workerId := WorkerSlot w], log))
          else Some (Inl (Inr (workers[unat workerId := NoWorker], log))))"

definition serverInit :: "(LaunchStep \<Rightarrow> bool) \<Rightarrow> ServerInfo \<Rightarrow> LaunchStep list \<Rightarrow> (ub, bool \<times> Server \<times> LaunchStep list) orun" where
  "serverInit ok serverInfo log =
     (let self = \<lparr> sv_router = False, sv_workers = None, sv_info = serverInfo \<rparr>;
          routerInfo = svi_routerInfo serverInfo;
          count = nat (sint (rti_workersCount routerInfo)) in
      if \<not> ok StepCryptoInit then Some (Inr (False, self, log @ [StepCryptoInit]))
      else let log = log @ [StepCryptoInit, StepRouterNew routerInfo] in
      if \<not> ok (StepRouterNew routerInfo) then Some (Inr (False, self, log))
      else let self = self \<lparr> sv_router := True \<rparr> in
      if sint (rti_workersCount routerInfo) < 0 then Some (Inr (False, self, log))
      else case loop16 (serverWorkersNew ok (svi_workersInfo serverInfo)) count 0 (replicate count Garbage, log) of
          None \<Rightarrow> None
        | Some (Inl (Inl e)) \<Rightarrow> Some (Inl e)
        | Some (Inl (Inr (workers, log))) \<Rightarrow> Some (Inr (False, self \<lparr> sv_workers := Some workers \<rparr>, log))
        | Some (Inr (workers, log)) \<Rightarrow> Some (Inr (True, self \<lparr> sv_workers := Some workers \<rparr>, log)))"

text \<open>\<open>serverFree\<close>: \<open>workerDestroy\<close> reads the cell it is given, \<open>routerDestroy\<close> reads through the pointer to the router.\<close>

definition serverFree :: "Server \<Rightarrow> unit result" where
  "serverFree self =
     (let count = nat (sint (svi_workersInfoCount (sv_info self))) in
      rbind (if count = 0 then Inr ()
             else case sv_workers self of
                 None \<Rightarrow> Inl NullDeref
               | Some workers \<Rightarrow>
                   if list_ex (\<lambda>w. w = Garbage) (take count workers) then Inl Uninitialised
                   else if length workers < count then Inl OutOfBounds else Inr ())
        (\<lambda>_. if sv_router self then Inr () else Inl NullDeref))"

definition serverNew :: "(LaunchStep \<Rightarrow> bool) \<Rightarrow> ServerInfo \<Rightarrow> LaunchStep list \<Rightarrow> (ub, Server option \<times> LaunchStep list) orun" where
  "serverNew ok info log =
     obind (serverInit ok info log) (\<lambda>(success, self, log).
       if success then Some (Inr (Some self, log))
       else osum (serverFree self) (\<lambda>_. Some (Inr (None, log))))"

definition serverStart :: "Server \<Rightarrow> LaunchStep list" where
  "serverStart self =
     List.map StepWorkerStart [0..<nat (sint (rti_workersCount (svi_routerInfo (sv_info self))))] @ [StepRouterStart]"

text \<open>\<open>Init\<close> and \<open>Start\<close> of the three kinds of servers, as the steps they take.\<close>

definition barrackServerInit :: "Server \<Rightarrow> LaunchStep list" where
  "barrackServerInit server = [StepDbNew (rti_routerId (svi_routerInfo (sv_info server))), StepPacketTypeInit]"

definition barrackServerStart :: "Server \<Rightarrow> LaunchStep list" where
  "barrackServerStart server =
     [StepDbStart, StepItemFactoryStart (rti_sqlInfo (svi_routerInfo (sv_info server)))] @ serverStart server"

definition zoneServerInit :: "Server \<Rightarrow> LaunchStep list" where
  "zoneServerInit server = [StepDbNew (rti_routerId (svi_routerInfo (sv_info server))), StepPacketTypeInit]"

definition zoneServerStart :: "Server \<Rightarrow> LaunchStep list" where
  "zoneServerStart server =
     [StepDbStart, StepItemFactoryStart (rti_sqlInfo (svi_routerInfo (sv_info server))), StepAdminCmdInit] @ serverStart server"

definition socialServerInit :: "Server \<Rightarrow> LaunchStep list" where
  "socialServerInit server = [StepPacketTypeInit]"

definition socialServerStart :: "Server \<Rightarrow> LaunchStep list" where
  "socialServerStart server = serverStart server"

section \<open>The process of a server\<close>

text \<open>\<open>*++argv\<close>, where the array ends with a null pointer, and \<open>atoi (*++argv)\<close>.\<close>

fun nextArg :: "string option list \<Rightarrow> (string option \<times> string option list) result" where
  "nextArg [] = Inl OutOfBounds"
| "nextArg (p # argv) = Inr (p, argv)"

definition nextInt :: "string option list \<Rightarrow> (u32 \<times> string option list) result" where
  "nextInt argv =
     rbind (nextArg argv) (\<lambda>(p, argv). case p of None \<Rightarrow> Inl NullDeref | Some s \<Rightarrow> Inr (c_atoi s, argv))"

record LaunchArgs =
  la_routerId :: u16
  la_routerIp :: "string option"
  la_port :: u32
  la_workersCount :: u16
  la_globalServerIp :: "string option"
  la_globalServerPort :: u32
  la_sqlHostname :: "string option"
  la_sqlUsername :: "string option"
  la_sqlPassword :: "string option"
  la_sqlDatabase :: "string option"
  la_redisHostname :: "string option"
  la_redisPort :: u32
  la_serverType :: u32
  la_output :: "string option"

definition readLaunchArgs :: "string option list \<Rightarrow> LaunchArgs result" where
  "readLaunchArgs argv =
     rbind (nextInt argv) (\<lambda>(routerId, argv).
     rbind (nextArg argv) (\<lambda>(routerIp, argv).
     rbind (nextInt argv) (\<lambda>(port, argv).
     rbind (nextInt argv) (\<lambda>(workersCount, argv).
     rbind (nextArg argv) (\<lambda>(globalServerIp, argv).
     rbind (nextInt argv) (\<lambda>(globalServerPort, argv).
     rbind (nextArg argv) (\<lambda>(sqlHostname, argv).
     rbind (nextArg argv) (\<lambda>(sqlUsername, argv).
     rbind (nextArg argv) (\<lambda>(sqlPassword, argv).
     rbind (nextArg argv) (\<lambda>(sqlDatabase, argv).
     rbind (nextArg argv) (\<lambda>(redisHostname, argv).
     rbind (nextInt argv) (\<lambda>(redisPort, argv).
     rbind (nextInt argv) (\<lambda>(serverType, argv).
     rbind (nextArg argv) (\<lambda>(output, argv).
       Inr \<lparr> la_routerId = ucast routerId, la_routerIp = routerIp, la_port = port, la_workersCount = ucast workersCount,
             la_globalServerIp = globalServerIp, la_globalServerPort = globalServerPort, la_sqlHostname = sqlHostname,
             la_sqlUsername = sqlUsername, la_sqlPassword = sqlPassword, la_sqlDatabase = sqlDatabase,
             la_redisHostname = redisHostname, la_redisPort = redisPort, la_serverType = serverType,
             la_output = output \<rparr>))))))))))))))"

definition disconnectHandlerOf :: "u32 \<Rightarrow> DisconnectHandler option" where
  "disconnectHandlerOf serverType =
     (if serverType = SERVER_TYPE_BARRACK then Some barrackOnDisconnect
      else if serverType = SERVER_TYPE_ZONE then Some zoneOnDisconnect
      else if serverType = SERVER_TYPE_SOCIAL then Some socialOnDisconnect
      else None)"

text \<open>The last switch of \<open>main\<close>. A barrack server destroys its \<open>Server\<close>, whether it could be initialised or not.\<close>

definition serverLaunch :: "(LaunchStep \<Rightarrow> bool) \<Rightarrow> u32 \<Rightarrow> Server \<Rightarrow> LaunchStep list \<Rightarrow> LaunchStep list result" where
  "serverLaunch ok serverType server log =
     (if serverType = SERVER_TYPE_BARRACK then
        let (_, log) = runSteps ok (barrackServerInit server @ barrackServerStart server) log in
        rbind (serverFree server) (\<lambda>_. Inr log)
      else if serverType = SERVER_TYPE_ZONE then Inr (snd (runSteps ok (zoneServerInit server @ zoneServerStart server) log))
      else if serverType = SERVER_TYPE_SOCIAL then Inr (snd (runSteps ok (socialServerInit server @ socialServerStart server) log))
      else Inr log)"

text \<open>\<open>main\<close>: the steps that were taken and the value returned.\<close>

definition zoneServerMain :: "(LaunchStep \<Rightarrow> bool) \<Rightarrow> string option list \<Rightarrow> (ub, LaunchStep list \<times> int) orun" where
  "zoneServerMain ok argv =
     (if length argv \<le> 2 then Some (Inr ([], 0))
      else osum (readLaunchArgs (drop 1 argv)) (\<lambda>a.
        osum (c_strdup (la_output a)) (\<lambda>output.
        osum (eventServerInfoInit (la_routerId a) (la_workersCount a) (la_redisHostname a) (la_redisPort a)) (\<lambda>eventServerInfo.
          let (started, log) = runSteps ok [StepEventServerNew eventServerInfo (la_serverType a), StepEventServerThread]
                [StepOutput output] in
          if \<not> started then Some (Inr (log, -1))
          else case disconnectHandlerOf (la_serverType a) of
              None \<Rightarrow> Some (Inr (log, 0))
            | Some disconnectHandler \<Rightarrow>
                obind (serverFactoryInitServerInfo (la_serverType a) (la_routerId a) (la_routerIp a) (la_port a)
                        (ucast (la_workersCount a)) output (la_globalServerIp a) (la_globalServerPort a)
                        (la_sqlHostname a) (la_sqlUsername a) (la_sqlPassword a) (la_sqlDatabase a)
                        (la_redisHostname a) (la_redisPort a) (Some disconnectHandler)) (\<lambda>info.
                case info of
                  None \<Rightarrow> Some (Inr (log, -1))
                | Some info \<Rightarrow>
                    obind (serverNew ok info log) (\<lambda>(server, log).
                    case server of
                      None \<Rightarrow> Some (Inr (log, -1))
                    | Some server \<Rightarrow> osum (serverLaunch ok (la_serverType a) server log) (\<lambda>log. Some (Inr (log, 0)))))))))"

section \<open>The configuration of the global server\<close>

text \<open>The JSON library and \<open>fopen\<close> for appending.\<close>

record 'j JsonEnv =
  js_loads :: "string \<Rightarrow> 'j option"
  js_is_object :: "'j \<Rightarrow> bool"
  js_object_get :: "'j \<Rightarrow> string \<Rightarrow> 'j option"
  js_is_string :: "'j \<Rightarrow> bool"
  js_string_value :: "'j \<Rightarrow> string"
  js_is_array :: "'j \<Rightarrow> bool"
  js_array_size :: "'j \<Rightarrow> nat"
  js_array_get :: "'j \<Rightarrow> nat \<Rightarrow> 'j option"

record BasicServerConf =
  bc_ip :: string
  bc_port :: u32
  bc_workersCount :: u32
  bc_output :: string

record GlobalServerInfo =
  gi_ip :: string
  gi_port :: u32
  gi_barracksConf :: "BasicServerConf list"
  gi_socialsConf :: "BasicServerConf list"
  gi_zonesConf :: "BasicServerConf list"
  gi_sqlInfo :: MySQLInfo
  gi_redisInfo :: RedisInfo

text \<open>The reading of a member that has to be a string, an object or an array.\<close>

definition jsonMember :: "'j JsonEnv \<Rightarrow> ('j \<Rightarrow> bool) \<Rightarrow> 'j \<Rightarrow> string \<Rightarrow> 'j option" where
  "jsonMember env is j key = (case js_object_get env j key of None \<Rightarrow> None | Some m \<Rightarrow> if is m then Some m else None)"

definition jsonString :: "'j JsonEnv \<Rightarrow> 'j \<Rightarrow> string \<Rightarrow> string option" where
  "jsonString env j key = map_option (js_string_value env) (jsonMember env (js_is_string env) j key)"

definition globalServerReadBasicServerConf :: "'j JsonEnv \<Rightarrow> 'j \<Rightarrow> nat \<Rightarrow> BasicServerConf option" where
  "globalServerReadBasicServerConf env servers serverId =
     Option.bind (js_array_get env servers serverId) (\<lambda>server.
     Option.bind (jsonString env server ''ip'') (\<lambda>ip.
     Option.bind (jsonString env server ''port'') (\<lambda>port.
     Option.bind (jsonString env server ''workersCount'') (\<lambda>workersCount.
     Option.bind (jsonString env server ''output'') (\<lambda>output.
       Some \<lparr> bc_ip = ip, bc_port = c_atoi port, bc_workersCount = c_atoi workersCount, bc_output = output \<rparr>)))))"

definition globalServerReadConfs :: "'j JsonEnv \<Rightarrow> 'j \<Rightarrow> string \<Rightarrow> BasicServerConf list option" where
  "globalServerReadConfs env root section =
     Option.bind (jsonMember env (js_is_array env) root section) (\<lambda>servers.
       those (List.map (globalServerReadBasicServerConf env servers) [0..<js_array_size env servers]))"

text \<open>\<open>globalServerInfoInit\<close> on the contents of the file, if it could be read; the output is opened on the way, which
  only prints a message when it fails.\<close>

definition globalServerInfoInit :: "'j JsonEnv \<Rightarrow> string option \<Rightarrow> GlobalServerInfo option" where
  "globalServerInfoInit env confStr =
     Option.bind confStr (\<lambda>confStr.
     Option.bind (js_loads env confStr) (\<lambda>root.
       if \<not> js_is_object env root then None
       else Option.bind (jsonMember env (js_is_object env) root ''globalServer'') (\<lambda>globalServer.
         Option.bind (jsonString env globalServer ''ip'') (\<lambda>ip.
         Option.bind (jsonString env globalServer ''port'') (\<lambda>port.
         Option.bind (jsonString env globalServer ''output'') (\<lambda>output.
         Option.bind (globalServerReadConfs env root ''barrackServers'') (\<lambda>barracksConf.
         Option.bind (globalServerReadConfs env root ''socialServers'') (\<lambda>socialsConf.
         Option.bind (globalServerReadConfs env root ''zoneServers'') (\<lambda>zonesConf.
         Option.bind (jsonMember env (js_is_object env) root ''mysqlServer'') (\<lambda>mysqlServer.
         Option.bind (jsonString env mysqlServer ''host'') (\<lambda>host.
         Option.bind (jsonString env mysqlServer ''user'') (\<lambda>user.
         Option.bind (jsonString env mysqlServer ''password'') (\<lambda>password.
         Option.bind (jsonString env mysqlServer ''database'') (\<lambda>database.
         Option.bind (jsonMember env (js_is_object env) root ''redisServer'') (\<lambda>redisServer.
         Option.bind (jsonString env redisServer ''host'') (\<lambda>redisHost.
         Option.bind (jsonString env redisServer ''port'') (\<lambda>redisPort.
           Some \<lparr> gi_ip = ip, gi_port = c_atoi port, gi_barracksConf = barracksConf, gi_socialsConf = socialsConf,
                  gi_zonesConf = zonesConf,
                  gi_sqlInfo = \<lparr> my_hostname = host, my_user = user, my_password = password, my_database = database \<rparr>,
                  gi_redisInfo = \<lparr> rd_hostname = redisHost, rd_port = c_atoi redisPort \<rparr> \<rparr>)))))))))))))))))"

section \<open>Launching the processes\<close>

abbreviation (input) ZONE_SERVER_EXECUTABLE_NAME :: string where "ZONE_SERVER_EXECUTABLE_NAME \<equiv> ''zone_server''"
abbreviation (input) ZONES_SERVER_ROUTER_ID :: u16 where "ZONES_SERVER_ROUTER_ID \<equiv> 0"
abbreviation (input) BARRACKS_SERVER_ROUTER_ID :: u16 where "BARRACKS_SERVER_ROUTER_ID \<equiv> 1000"
abbreviation (input) SOCIALS_SERVER_ROUTER_ID :: u16 where "SOCIALS_SERVER_ROUTER_ID \<equiv> 2000"

text \<open>The body of the three loops of \<open>globalServerStart\<close>, on the arguments of the processes launched so far;
  \<open>Inl (Inr _)\<close> is \<open>return false\<close>.\<close>

type_synonym Processes = "string option list list"

definition globalServerLaunch ::
  "GlobalServerInfo \<Rightarrow> u32 \<Rightarrow> u16 \<Rightarrow> DisconnectHandler option \<Rightarrow> BasicServerConf list \<Rightarrow> u16 \<Rightarrow> Processes \<Rightarrow>
   (ub + Processes, Processes) orun" where
  "globalServerLaunch globalInfo serverType firstRouterId disconnectHandler confs k processes =
     (let conf = confs ! unat k; sqlInfo = gi_sqlInfo globalInfo; redisInfo = gi_redisInfo globalInfo in
      case serverFactoryInitServerInfo serverType (firstRouterId + k) (Some (bc_ip conf)) (bc_port conf)
             (bc_workersCount conf) (bc_output conf) (Some (gi_ip globalInfo)) (gi_port globalInfo)
             (Some (my_hostname sqlInfo)) (Some (my_user sqlInfo)) (Some (my_password sqlInfo)) (Some (my_database sqlInfo))
             (Some (rd_hostname redisInfo)) (rd_port redisInfo) disconnectHandler of
        None \<Rightarrow> None
      | Some (Inl e) \<Rightarrow> Some (Inl (Inl e))
      | Some (Inr None) \<Rightarrow> Some (Inl (Inr processes))
      | Some (Inr (Some serverInfo)) \<Rightarrow>
          (case serverCreateProcess serverInfo ZONE_SERVER_EXECUTABLE_NAME of
             Inl e \<Rightarrow> Some (Inl (Inl e))
           | Inr argv \<Rightarrow> Some (Inr (processes @ [argv]))))"

definition globalServerLaunchAll ::
  "GlobalServerInfo \<Rightarrow> u32 \<Rightarrow> u16 \<Rightarrow> DisconnectHandler option \<Rightarrow> BasicServerConf list \<Rightarrow> Processes \<Rightarrow>
   (ub + Processes, Processes) orun" where
  "globalServerLaunchAll globalInfo serverType firstRouterId disconnectHandler confs processes =
     loop16 (globalServerLaunch globalInfo serverType firstRouterId disconnectHandler confs) (length confs) 0 processes"

text \<open>\<open>globalServerStart\<close> up to its main loop, which reads messages and drops them: whether it returns \<open>true\<close>, with the
  processes it has launched. \<open>bind1\<close> and \<open>bind2\<close> say whether the sockets for the command line and for the zones
  can be bound.\<close>

definition globalServerStart :: "bool \<Rightarrow> bool \<Rightarrow> GlobalServerInfo \<Rightarrow> (ub, bool \<times> Processes) orun" where
  "globalServerStart bind1 bind2 globalInfo =
     (if \<not> bind1 \<or> \<not> bind2 then Some (Inr (False, []))
      else case obind (globalServerLaunchAll globalInfo SERVER_TYPE_BARRACK BARRACKS_SERVER_ROUTER_ID None (gi_barracksConf globalInfo) [])
          (\<lambda>processes. obind (globalServerLaunchAll globalInfo SERVER_TYPE_SOCIAL SOCIALS_SERVER_ROUTER_ID None (gi_socialsConf globalInfo) processes)
          (\<lambda>processes. globalServerLaunchAll globalInfo SERVER_TYPE_ZONE ZONES_SERVER_ROUTER_ID (Some zoneOnDisconnect) (gi_zonesConf globalInfo) processes)) of
        None \<Rightarrow> None
      | Some (Inl (Inl e)) \<Rightarrow> Some (Inl e)
      | Some (Inl (Inr processes)) \<Rightarrow> Some (Inr (False, processes))
      | Some (Inr processes) \<Rightarrow> Some (Inr (True, processes)))"

end
