(* ===== verification/LaunchProps.thy ===== *)
theory LaunchProps
  imports Launch
begin

text \<open>
  What the configuration of the global server becomes: the processes it launches and the steps each of them takes, and
  what goes wrong on the way.
\<close>

section \<open>Words of the command line\<close>

definition plainWord :: "string \<Rightarrow> bool" where
  "plainWord w \<longleftrightarrow> w \<noteq> [] \<and> CHR 0x20 \<notin> set w"

lemma joinWords_nested: "ws \<noteq> [] \<Longrightarrow> joinWords (joinWords ws # vs) = joinWords (ws @ vs)"
proof (induction ws rule: joinWords.induct)
  case (2 w)
  then show ?case
    by (cases vs) simp_all
next
  case (3 w w' ws)
  then have "joinWords (joinWords (w' # ws) # vs) = joinWords ((w' # ws) @ vs)"
    by simp
  then show ?case
    by (cases vs) simp_all
qed simp

lemma joinWords_blank: "CHR 0x20 \<in> set (joinWords (w # w' # ws))"
  by simp

lemma wordsOf_joinWords: "wordsOf CHR 0x20 (joinWords ws) = filter (\<lambda>w. w \<noteq> []) ws" if "list_all (\<lambda>w. CHR 0x20 \<notin> set w) ws"
  using that
proof (induction ws rule: joinWords.induct)
  case (2 w)
  then show ?case
    by (cases "w = []") (simp_all add: wordsOf_single)
next
  case (3 w w' ws)
  then show ?case
    by (cases "w = []") (simp_all add: wordsOf_append)
qed simp

lemma fmtDec_nonempty: "fmtDec n \<noteq> []"
  by (subst fmtDec.simps) simp

lemma plainWord_fmtInt: "plainWord (fmtInt i)"
  using decValue_fmtDec [of "CHR 0x20"] by (auto simp: plainWord_def fmtInt_def fmtDec_nonempty decValue_def)

lemma strtol_fmtInt: "- (2 ^ 63) < i \<Longrightarrow> i < 2 ^ 63 \<Longrightarrow> fst (c_strtol (fmtInt i)) = i"
  using c_strtol_digits [of "nat (- i)"] c_strtol_digits [of "nat i"] by (simp add: fmtInt_def nat_less_iff)

lemma c_atoi_sint [simp]: "c_atoi (fmtInt (sint (w :: u32))) = w"
proof -
  have "- (2 ^ 31) \<le> sint w" "sint w < 2 ^ 31"
    using sint_ge [of w] sint_less [of w] by simp_all
  then show ?thesis
    by (simp add: c_atoi_def strtol_fmtInt)
qed

lemma c_atoi_uint [simp]: "c_atoi (fmtInt (uint (w :: u16))) = ucast w"
proof -
  have "- (2 ^ 63) < uint w"
    by (rule less_le_trans [OF _ uint_ge_0]) simp
  then have "fst (c_strtol (fmtInt (uint w))) = uint w"
    using uint_lt2p [of w] by (intro strtol_fmtInt) simp_all
  then show ?thesis
    by (simp add: c_atoi_def)
qed

section \<open>What the processes are told\<close>

text \<open>The start information of a server as its configuration says it.\<close>

definition workerInfoOf :: "GlobalServerInfo \<Rightarrow> u32 \<Rightarrow> u16 \<Rightarrow> BasicServerConf \<Rightarrow> u16 \<Rightarrow> WorkerInfo" where
  "workerInfoOf gi serverType routerId conf workerId =
     \<lparr> wki_workerId = workerId, wki_routerId = ucast routerId, wki_serverType = serverType, wki_globalServerIp = gi_ip gi,
       wki_globalServerPort = gi_port gi, wki_sqlInfo = gi_sqlInfo gi, wki_redisInfo = gi_redisInfo gi,
       wki_packetHandlers = fst (serverFactoryHandlers serverType), wki_packetHandlersCount = nat PACKET_TYPE_COUNT,
       wki_routerIp = bc_ip conf, wki_routerPort = bc_port conf \<rparr>"

definition serverInfoOf :: "GlobalServerInfo \<Rightarrow> u32 \<Rightarrow> u16 \<Rightarrow> DisconnectHandler option \<Rightarrow> BasicServerConf \<Rightarrow> ServerInfo" where
  "serverInfoOf gi serverType routerId disconnectHandler conf =
     \<lparr> svi_routerInfo = \<lparr> rti_routerId = routerId, rti_ip = bc_ip conf, rti_port = bc_port conf,
         rti_workersCount = bc_workersCount conf, rti_redisInfo = gi_redisInfo gi, rti_sqlInfo = gi_sqlInfo gi,
         rti_disconnectHandler = disconnectHandler \<rparr>,
       svi_workersInfo = List.map (\<lambda>k. workerInfoOf gi serverType routerId conf (of_nat k)) [0..<unat (bc_workersCount conf)],
       svi_workersInfoCount = bc_workersCount conf, svi_output = bc_output conf, svi_serverType = serverType \<rparr>"

definition serverTypeOk :: "u32 \<Rightarrow> bool" where
  "serverTypeOk serverType \<longleftrightarrow> serverType = SERVER_TYPE_BARRACK \<or> serverType = SERVER_TYPE_SOCIAL \<or> serverType = SERVER_TYPE_ZONE"

definition confOk :: "BasicServerConf \<Rightarrow> bool" where
  "confOk conf \<longleftrightarrow> plainWord (bc_ip conf) \<and> plainWord (bc_output conf) \<and> 0 < unat (bc_workersCount conf) \<and> unat (bc_workersCount conf) < 65536"

definition globalOk :: "GlobalServerInfo \<Rightarrow> bool" where
  "globalOk gi \<longleftrightarrow> plainWord (gi_ip gi) \<and> plainWord (my_hostname (gi_sqlInfo gi)) \<and> plainWord (my_user (gi_sqlInfo gi)) \<and>
     plainWord (my_password (gi_sqlInfo gi)) \<and> plainWord (my_database (gi_sqlInfo gi)) \<and> plainWord (rd_hostname (gi_redisInfo gi))"

lemma infoInit_simps [simp]:
  "c_strdup (Some s) = Inr s"
  "mySqlInfoInit (Some h) (Some u) (Some p) (Some d) = Inr \<lparr> my_hostname = h, my_user = u, my_password = p, my_database = d \<rparr>"
  "redisInfoInit (Some h) port = Inr \<lparr> rd_hostname = h, rd_port = port \<rparr>"
  by (simp_all add: c_strdup_def mySqlInfoInit_def redisInfoInit_def)

lemma info_eta [simp]:
  "\<lparr> my_hostname = my_hostname m, my_user = my_user m, my_password = my_password m, my_database = my_database m \<rparr> = m"
  "\<lparr> rd_hostname = rd_hostname r, rd_port = rd_port r \<rparr> = r"
  by simp_all

lemma sint_small:
  assumes "unat (w :: u32) < 65536"
  shows "sint w = int (unat w)"
proof -
  have "uint w < 2 ^ 31"
    using assms unfolding unat_eq_nat_uint by (subst (asm) nat_less_iff) simp_all
  moreover have "- (2 ^ 31) \<le> uint w"
    by (rule order_trans [of _ 0]) simp_all
  ultimately show ?thesis
    using signed_take_bit_int_eq_self [of 31 "uint w"] by (simp add: sint_uint)
qed

lemma ofold_append: "(\<And>x acc. x \<in> set xs \<Longrightarrow> body x acc = Some (Inr (acc @ [f x]))) \<Longrightarrow> ofold body xs acc = Some (Inr (acc @ List.map f xs))"
  by (induction xs arbitrary: acc) simp_all

lemma ofold_map: "ofold body (List.map f xs) = ofold (body \<circ> f) xs"
proof (induction xs)
  case (Cons x xs)
  then show ?case
    by (intro ext) simp
qed (intro ext, simp)

lemma serverFactory_correct:
  assumes "serverTypeOk serverType" "unat (bc_workersCount conf) < 65536"
  shows "serverFactoryInitServerInfo serverType routerId (Some (bc_ip conf)) (bc_port conf) (bc_workersCount conf) (bc_output conf)
     (Some (gi_ip gi)) (gi_port gi) (Some (my_hostname (gi_sqlInfo gi))) (Some (my_user (gi_sqlInfo gi)))
     (Some (my_password (gi_sqlInfo gi))) (Some (my_database (gi_sqlInfo gi)))
     (Some (rd_hostname (gi_redisInfo gi))) (rd_port (gi_redisInfo gi)) disconnectHandler =
   Some (Inr (Some (serverInfoOf gi serverType routerId disconnectHandler conf)))"
proof -
  obtain table where handlers: "serverFactoryHandlers serverType = (table, Some (nat PACKET_TYPE_COUNT))"
    using assms(1) by (auto simp: serverFactoryHandlers_def serverTypeOk_def)
  have fold: "ofold (\<lambda>workerId workersInfo. osum (workerInfoInit workerId routerId serverType (Some (gi_ip gi)) (gi_port gi)
        (gi_sqlInfo gi) (gi_redisInfo gi) table (nat PACKET_TYPE_COUNT)
        (Some (bc_ip conf)) (bc_port conf)) (\<lambda>w. Some (Inr (workersInfo @ [w])))) ks [] =
     Some (Inr ([] @ List.map (workerInfoOf gi serverType routerId conf) ks))" for ks
    by (rule ofold_append) (simp add: workerInfoInit_def workerInfoOf_def handlers)
  have router: "routerInfoInit routerId (Some (bc_ip conf)) (bc_port conf) (bc_workersCount conf) (gi_redisInfo gi) (gi_sqlInfo gi) disconnectHandler =
     Inr (svi_routerInfo (serverInfoOf gi serverType routerId disconnectHandler conf))"
    by (simp add: routerInfoInit_def serverInfoOf_def)
  have "sint (bc_workersCount conf) = int (unat (bc_workersCount conf))"
    using assms(2) by (rule sint_small)
  then show ?thesis
    unfolding serverFactoryInitServerInfo_def
    by (simp add: router handlers loop16_returns [OF assms(2)] fold case_prod_beta del: upt_Suc)
      (simp add: serverInfoOf_def serverInfoInit_def comp_def)
qed

text \<open>The words of the command line.\<close>

definition launchWords :: "GlobalServerInfo \<Rightarrow> u32 \<Rightarrow> u16 \<Rightarrow> BasicServerConf \<Rightarrow> string list" where
  "launchWords gi serverType routerId conf =
     [ZONE_SERVER_EXECUTABLE_NAME, fmtInt (uint routerId), bc_ip conf, fmtInt (sint (bc_port conf)),
      fmtInt (sint (bc_workersCount conf)), gi_ip gi, fmtInt (sint (gi_port gi)), my_hostname (gi_sqlInfo gi),
      my_user (gi_sqlInfo gi), my_password (gi_sqlInfo gi), my_database (gi_sqlInfo gi), rd_hostname (gi_redisInfo gi),
      fmtInt (sint (rd_port (gi_redisInfo gi))), fmtInt (sint serverType), bc_output conf]"

lemma serverCommandLine_words:
  "serverCommandLine (serverInfoOf gi serverType routerId disconnectHandler conf) ZONE_SERVER_EXECUTABLE_NAME
     (workerInfoOf gi serverType routerId conf k) = joinWords (launchWords gi serverType routerId conf)"
  unfolding serverCommandLine_def Let_def by (subst joinWords_nested) (simp_all add: serverInfoOf_def workerInfoOf_def launchWords_def)

lemma serverCreateProcess_words:
  assumes "list_all (\<lambda>w. CHR 0x20 \<notin> set w) (launchWords gi serverType routerId conf)" "0 < unat (bc_workersCount conf)"
  shows "serverCreateProcess (serverInfoOf gi serverType routerId disconnectHandler conf) ZONE_SERVER_EXECUTABLE_NAME =
    Inr (List.map Some (filter (\<lambda>w. w \<noteq> []) (launchWords gi serverType routerId conf)) @ [None])"
proof -
  let ?words = "launchWords gi serverType routerId conf"
  have "svi_workersInfo (serverInfoOf gi serverType routerId disconnectHandler conf) =
      workerInfoOf gi serverType routerId conf 0 # List.map (\<lambda>k. workerInfoOf gi serverType routerId conf (of_nat k)) [1..<unat (bc_workersCount conf)]"
    using assms(2) by (simp add: serverInfoOf_def upt_rec [of 0])
  moreover have "CHR 0x20 \<in> set (joinWords ?words)"
    unfolding launchWords_def by (rule joinWords_blank)
  ultimately show ?thesis
    by (auto simp: serverCreateProcess_def serverCommandLine_words strSplit_words wordsOf_joinWords [OF assms(1)])
qed

definition launchArgv :: "GlobalServerInfo \<Rightarrow> u32 \<Rightarrow> u16 \<Rightarrow> BasicServerConf \<Rightarrow> string option list" where
  "launchArgv gi serverType routerId conf = List.map Some (launchWords gi serverType routerId conf) @ [None]"

lemma launchWords_plain:
  assumes "globalOk gi" "confOk conf"
  shows "list_all plainWord (launchWords gi serverType routerId conf)"
  using assms plainWord_fmtInt by (simp add: launchWords_def globalOk_def confOk_def plainWord_def [of "ZONE_SERVER_EXECUTABLE_NAME"])

lemma plainWords:
  assumes "list_all plainWord ws"
  shows "list_all (\<lambda>w. CHR 0x20 \<notin> set w) ws" "filter (\<lambda>w. w \<noteq> []) ws = ws"
  using assms by (auto simp: list_all_iff plainWord_def filter_id_conv)

lemma globalServerLaunch_correct:
  assumes "globalOk gi" "serverTypeOk serverType" "unat k < length confs" "confOk (confs ! unat k)"
  shows "globalServerLaunch gi serverType first disconnectHandler confs k processes =
    Some (Inr (processes @ [launchArgv gi serverType (first + k) (confs ! unat k)]))"
  using assms serverFactory_correct serverCreateProcess_words plainWords [OF launchWords_plain [OF assms(1,4)]]
  by (simp add: globalServerLaunch_def launchArgv_def confOk_def)

lemma globalServerLaunchAll_correct:
  assumes "globalOk gi" "serverTypeOk serverType" "list_all confOk confs" "length confs < 65536"
  shows "globalServerLaunchAll gi serverType first disconnectHandler confs processes =
    Some (Inr (processes @ List.map (\<lambda>k. launchArgv gi serverType (first + of_nat k) (confs ! k)) [0..<length confs]))"
proof -
  have "globalServerLaunch gi serverType first disconnectHandler confs (of_nat k) ps =
      Some (Inr (ps @ [launchArgv gi serverType (first + of_nat k) (confs ! k)]))" if "k < length confs" for k ps
  proof -
    have "unat (of_nat k :: u16) = k"
      using that assms(4) by (simp add: unsigned_of_nat take_bit_nat_eq_self)
    then show ?thesis
      using globalServerLaunch_correct [of gi serverType "of_nat k" confs] that assms by (simp add: list_all_length)
  qed
  then have "ofold (globalServerLaunch gi serverType first disconnectHandler confs \<circ> of_nat) ks processes =
      Some (Inr (processes @ List.map (\<lambda>k. launchArgv gi serverType (first + of_nat k) (confs ! k)) ks))"
    if "set ks \<subseteq> {..<length confs}" for ks
    using that by (intro ofold_append) auto
  then show ?thesis
    using assms(4) by (auto simp: globalServerLaunchAll_def loop16_returns ofold_map lessThan_atLeast0 simp del: upt_Suc)
qed

section \<open>What a process does\<close>

text \<open>The loop over the workers: it stops at the first that cannot be created.\<close>

lemma serverWorkersNew_step:
  assumes "length pre < 65536"
  shows "serverWorkersNew ok (pre @ w # suf) (of_nat (length pre)) (List.map WorkerSlot pre @ replicate (Suc (length suf)) Garbage, log) =
    (if ok (StepWorkerNew w) then Some (Inr (List.map WorkerSlot (pre @ [w]) @ replicate (length suf) Garbage, log @ [StepWorkerNew w]))
     else Some (Inl (Inr (List.map WorkerSlot pre @ NoWorker # replicate (length suf) Garbage, log @ [StepWorkerNew w]))))"
proof -
  have "unat (of_nat (length pre) :: u16) = length pre"
    using assms by (simp add: unsigned_of_nat take_bit_nat_eq_self)
  then show ?thesis
    by (simp add: serverWorkersNew_def Let_def list_update_append nth_append)
qed

lemma serverWorkersNew_fold:
  assumes "length pre + length suf < 65536"
  shows "ofold (serverWorkersNew ok (pre @ suf)) (List.map of_nat [length pre..<length pre + length suf])
      (List.map WorkerSlot pre @ replicate (length suf) Garbage, log) =
    (case dropWhile (\<lambda>w. ok (StepWorkerNew w)) suf of
       [] \<Rightarrow> Some (Inr (List.map WorkerSlot (pre @ suf), log @ List.map StepWorkerNew suf))
     | w # bad \<Rightarrow> let good = takeWhile (\<lambda>w. ok (StepWorkerNew w)) suf in
         Some (Inl (Inr (List.map WorkerSlot (pre @ good) @ NoWorker # replicate (length bad) Garbage,
           log @ List.map StepWorkerNew (good @ [w])))))"
  using assms
proof (induction suf arbitrary: pre log)
  case (Cons w suf)
  have ks: "[length pre..<length pre + length (w # suf)] = length pre # [length (pre @ [w])..<length (pre @ [w]) + length suf]"
    by (simp add: upt_conv_Cons del: upt_Suc)
  have step: "length pre < 65536" "length (pre @ [w]) + length suf < 65536"
    using Cons.prems by simp_all
  note IH = Cons.IH [OF step(2)]
  have body: "ofold (serverWorkersNew ok (pre @ w # suf)) (List.map of_nat [length pre..<length pre + length (w # suf)])
      (List.map WorkerSlot pre @ replicate (length (w # suf)) Garbage, log) =
    (if ok (StepWorkerNew w)
     then ofold (serverWorkersNew ok ((pre @ [w]) @ suf)) (List.map of_nat [length (pre @ [w])..<length (pre @ [w]) + length suf])
       (List.map WorkerSlot (pre @ [w]) @ replicate (length suf) Garbage, log @ [StepWorkerNew w])
     else Some (Inl (Inr (List.map WorkerSlot pre @ NoWorker # replicate (length suf) Garbage, log @ [StepWorkerNew w]))))"
    unfolding ks list.map(2) ofold.simps unfolding length_Cons serverWorkersNew_step [OF step(1)] by (simp del: upt_Suc)
  show ?case
    unfolding body IH by (simp add: Let_def split: list.split) (metis dropWhile_eq_Nil_conv list.distinct(1))
qed simp

text \<open>The start information of a server whose array of workers has the size that it says.\<close>

definition serverInfo_wf :: "ServerInfo \<Rightarrow> bool" where
  "serverInfo_wf info \<longleftrightarrow> length (svi_workersInfo info) < 65536 \<and>
     sint (rti_workersCount (svi_routerInfo info)) = int (length (svi_workersInfo info)) \<and>
     sint (svi_workersInfoCount info) = int (length (svi_workersInfo info))"

definition workersOk :: "(LaunchStep \<Rightarrow> bool) \<Rightarrow> WorkerInfo list \<Rightarrow> bool" where
  "workersOk ok workers \<longleftrightarrow> list_all (\<lambda>w. ok (StepWorkerNew w)) workers"

definition serverOf :: "ServerInfo \<Rightarrow> Server" where
  "serverOf info = \<lparr> sv_router = True, sv_workers = Some (List.map WorkerSlot (svi_workersInfo info)), sv_info = info \<rparr>"

lemma serverNew_outcome:
  assumes "serverInfo_wf info"
  shows "serverNew ok info log =
    (if \<not> (ok StepCryptoInit \<and> ok (StepRouterNew (svi_routerInfo info))) then Some (Inl NullDeref)
     else case dropWhile (\<lambda>w. ok (StepWorkerNew w)) (svi_workersInfo info) of
       [] \<Rightarrow> Some (Inr (Some (serverOf info),
              log @ [StepCryptoInit, StepRouterNew (svi_routerInfo info)] @ List.map StepWorkerNew (svi_workersInfo info)))
     | w # bad \<Rightarrow>
         if bad = [] then Some (Inr (None,
              log @ [StepCryptoInit, StepRouterNew (svi_routerInfo info)] @ List.map StepWorkerNew (svi_workersInfo info)))
         else Some (Inl Uninitialised))"
proof -
  obtain ws where info: "svi_workersInfo info = ws"
    by simp
  note fold = serverWorkersNew_fold [where pre = "[]" and suf = ws, simplified]
  have n: "length ws < 65536" "sint (rti_workersCount (svi_routerInfo info)) = int (length ws)" "sint (svi_workersInfoCount info) = int (length ws)"
    using assms by (simp_all add: serverInfo_wf_def info)
  have free: "serverFree \<lparr> sv_router = False, sv_workers = None, sv_info = info \<rparr> = Inl NullDeref"
    by (simp add: serverFree_def Let_def)
  show ?thesis
  proof (cases "ok StepCryptoInit \<and> ok (StepRouterNew (svi_routerInfo info))")
    case started: True
    show ?thesis
    proof (cases "dropWhile (\<lambda>w. ok (StepWorkerNew w)) ws")
      case Nil
      then show ?thesis
        using started by (simp add: serverNew_def serverInit_def Let_def info n loop16_returns fold serverOf_def del: upt_Suc dropWhile_eq_Nil_conv)
    next
      case (Cons w bad)
      define good where "good = takeWhile (\<lambda>w. ok (StepWorkerNew w)) ws"
      have ws: "ws = good @ w # bad"
        using takeWhile_dropWhile_id [of "\<lambda>w. ok (StepWorkerNew w)" ws] Cons by (simp add: good_def)
      have loop: "loop16 (serverWorkersNew ok ws) (length ws) 0 (replicate (length ws) Garbage, l) =
          Some (Inl (Inr (List.map WorkerSlot good @ NoWorker # replicate (length bad) Garbage, l @ List.map StepWorkerNew (good @ [w]))))" for l
        using Cons n(1) by (simp add: loop16_returns fold good_def Let_def del: upt_Suc)
      show ?thesis
        using started Cons by (simp add: serverNew_def serverInit_def Let_def info n loop serverFree_def list_ex_iff) (auto simp: ws)
    qed
  qed (auto simp: serverNew_def serverInit_def Let_def free)
qed

text \<open>The steps of a process when none fails, but for the opening of the output, which may.\<close>

definition launchSteps :: "GlobalServerInfo \<Rightarrow> u32 \<Rightarrow> u16 \<Rightarrow> BasicServerConf \<Rightarrow> LaunchStep list" where
  "launchSteps gi serverType routerId conf =
     (let info = serverInfoOf gi serverType routerId (disconnectHandlerOf serverType) conf;
          tables = [StepDbNew routerId, StepPacketTypeInit, StepDbStart, StepItemFactoryStart (gi_sqlInfo gi)] in
      [StepEventServerNew \<lparr> esi_routerId = routerId, esi_workersCount = ucast (bc_workersCount conf), esi_redisInfo = gi_redisInfo gi \<rparr> serverType,
       StepEventServerThread, StepCryptoInit, StepRouterNew (svi_routerInfo info)] @ List.map StepWorkerNew (svi_workersInfo info) @
      (if serverType = SERVER_TYPE_BARRACK then tables
       else if serverType = SERVER_TYPE_ZONE then tables @ [StepAdminCmdInit] else [StepPacketTypeInit]) @
      List.map StepWorkerStart [0..<unat (bc_workersCount conf)] @ [StepRouterStart])"

definition untilFailure :: "(LaunchStep \<Rightarrow> bool) \<Rightarrow> LaunchStep list \<Rightarrow> LaunchStep list" where
  "untilFailure ok sts = takeWhile ok sts @ take 1 (dropWhile ok sts)"

lemma untilFailure_simps [simp]:
  "untilFailure ok [] = []" "untilFailure ok (st # sts) = st # (if ok st then untilFailure ok sts else [])"
  by (simp_all add: untilFailure_def)

lemma runSteps_untilFailure: "runSteps ok sts log = (list_all ok sts, log @ untilFailure ok sts)"
  by (induction sts arbitrary: log) simp_all

lemma untilFailure_append: "untilFailure ok (xs @ ys) = (if list_all ok xs then xs @ untilFailure ok ys else untilFailure ok xs)"
  by (induction xs) simp_all

lemma untilFailure_all: "list_all ok xs \<Longrightarrow> untilFailure ok xs = xs"
  by (induction xs) simp_all

lemma ucast_narrow: "unat (w :: u32) < 65536 \<Longrightarrow> ucast (ucast w :: u16) = w"
  by (rule unsigned_word_eqI [where ?'a = nat]) (simp add: unsigned_ucast_eq unsigned_take_bit_eq take_bit_nat_eq_self)

lemma ucast_wide [simp]: "ucast (ucast (w :: u16) :: u32) = w"
  by (rule ucast_up_ucast_id) (simp add: is_up)

lemma readLaunchArgs_launchArgv:
  "readLaunchArgs (drop 1 (launchArgv gi serverType routerId conf)) =
     Inr \<lparr> la_routerId = routerId, la_routerIp = Some (bc_ip conf), la_port = bc_port conf, la_workersCount = ucast (bc_workersCount conf),
       la_globalServerIp = Some (gi_ip gi), la_globalServerPort = gi_port gi, la_sqlHostname = Some (my_hostname (gi_sqlInfo gi)),
       la_sqlUsername = Some (my_user (gi_sqlInfo gi)), la_sqlPassword = Some (my_password (gi_sqlInfo gi)),
       la_sqlDatabase = Some (my_database (gi_sqlInfo gi)), la_redisHostname = Some (rd_hostname (gi_redisInfo gi)),
       la_redisPort = rd_port (gi_redisInfo gi), la_serverType = serverType, la_output = Some (bc_output conf) \<rparr>"
  by (simp add: readLaunchArgs_def launchArgv_def launchWords_def nextInt_def)

lemma serverInfoOf_wf: "unat (bc_workersCount conf) < 65536 \<Longrightarrow> serverInfo_wf (serverInfoOf gi serverType routerId disconnectHandler conf)"
  by (simp add: serverInfo_wf_def serverInfoOf_def sint_small)

lemma disconnectHandlerOf_ok: "serverTypeOk serverType \<Longrightarrow> \<exists>h. disconnectHandlerOf serverType = Some h"
  by (auto simp: serverTypeOk_def disconnectHandlerOf_def)

lemma zoneServerMain_launchArgv:
  assumes "serverTypeOk serverType" "unat (bc_workersCount conf) < 65536"
  shows "zoneServerMain ok (launchArgv gi serverType routerId conf) =
    (let (started, log) = runSteps ok (take 2 (launchSteps gi serverType routerId conf)) [StepOutput (bc_output conf)] in
     if \<not> started then Some (Inr (log, -1))
     else obind (serverNew ok (serverInfoOf gi serverType routerId (disconnectHandlerOf serverType) conf) log) (\<lambda>(server, log).
       case server of
         None \<Rightarrow> Some (Inr (log, -1))
       | Some server \<Rightarrow> osum (serverLaunch ok serverType server log) (\<lambda>log. Some (Inr (log, 0)))))"
proof -
  obtain h where h: "disconnectHandlerOf serverType = Some h"
    using disconnectHandlerOf_ok [OF assms(1)] by blast
  have size: "\<not> length (launchArgv gi serverType routerId conf) \<le> 2"
    by (simp add: launchArgv_def launchWords_def)
  show ?thesis
    unfolding zoneServerMain_def readLaunchArgs_launchArgv if_not_P [OF size]
    by (simp add: h eventServerInfoInit_def ucast_narrow [OF assms(2)] serverFactory_correct [OF assms(1,2)] launchSteps_def Let_def
        split: prod.splits cong: option.case_cong)
qed

text \<open>The steps of \<open>serverLaunch\<close>.\<close>

definition launchTail :: "u32 \<Rightarrow> Server \<Rightarrow> LaunchStep list" where
  "launchTail serverType server =
     (if serverType = SERVER_TYPE_BARRACK then barrackServerInit server @ barrackServerStart server
      else if serverType = SERVER_TYPE_ZONE then zoneServerInit server @ zoneServerStart server
      else socialServerInit server @ socialServerStart server)"

lemma serverFree_serverOf: "serverInfo_wf info \<Longrightarrow> serverFree (serverOf info) = Inr ()"
  by (auto simp: serverFree_def serverOf_def serverInfo_wf_def list_ex_iff Let_def)

lemma serverLaunch_steps:
  assumes "serverTypeOk serverType" "serverInfo_wf info"
  shows "serverLaunch ok serverType (serverOf info) log = Inr (log @ untilFailure ok (launchTail serverType (serverOf info)))"
  using assms(1) by (auto simp: serverTypeOk_def serverLaunch_def launchTail_def runSteps_untilFailure serverFree_serverOf [OF assms(2)])

lemma launchSteps_parts:
  assumes "serverTypeOk serverType" "unat (bc_workersCount conf) < 65536"
  defines "info \<equiv> \<lambda>gi routerId. serverInfoOf gi serverType routerId (disconnectHandlerOf serverType) conf"
  shows "launchSteps gi serverType routerId conf =
     take 2 (launchSteps gi serverType routerId conf) @ [StepCryptoInit, StepRouterNew (svi_routerInfo (info gi routerId))] @
     List.map StepWorkerNew (svi_workersInfo (info gi routerId)) @ launchTail serverType (serverOf (info gi routerId))"
  using assms(1) sint_small [OF assms(2)]
  by (auto simp: serverTypeOk_def info_def launchSteps_def launchTail_def Let_def serverOf_def barrackServerInit_def barrackServerStart_def
      zoneServerInit_def zoneServerStart_def socialServerInit_def socialServerStart_def serverStart_def serverInfoOf_def)

lemma list_all_dropWhile: "dropWhile P xs = [] \<longleftrightarrow> list_all P xs"
  by (simp add: dropWhile_eq_Nil_conv list_all_iff)

lemma untilFailure_last:
  assumes "dropWhile ok xs = [x]"
  shows "untilFailure ok (xs @ ys) = xs" "\<not> list_all ok xs"
proof -
  have "takeWhile ok xs @ [x] = xs"
    using takeWhile_dropWhile_id [of ok xs] assms by simp
  moreover show "\<not> list_all ok xs"
    using assms by (simp add: list_all_dropWhile [symmetric])
  ultimately show "untilFailure ok (xs @ ys) = xs"
    using assms by (simp add: untilFailure_append) (simp add: untilFailure_def)
qed

lemma zoneServerMain_exact:
  assumes "serverTypeOk serverType" "unat (bc_workersCount conf) < 65536"
  shows "zoneServerMain ok (launchArgv gi serverType routerId conf) =
    (let steps = launchSteps gi serverType routerId conf;
         info = serverInfoOf gi serverType routerId (disconnectHandlerOf serverType) conf;
         log = StepOutput (bc_output conf) # untilFailure ok steps in
     if \<not> list_all ok (take 2 steps) then Some (Inr (log, -1))
     else if \<not> (ok StepCryptoInit \<and> ok (StepRouterNew (svi_routerInfo info))) then Some (Inl NullDeref)
     else case dropWhile (\<lambda>w. ok (StepWorkerNew w)) (svi_workersInfo info) of
         [] \<Rightarrow> Some (Inr (log, 0))
       | w # bad \<Rightarrow> if bad = [] then Some (Inr (log, -1)) else Some (Inl Uninitialised))"
proof -
  let ?info = "serverInfoOf gi serverType routerId (disconnectHandlerOf serverType) conf"
  obtain first where first: "take 2 (launchSteps gi serverType routerId conf) = first"
    by simp
  let ?new = "[StepCryptoInit, StepRouterNew (svi_routerInfo ?info)]" and ?workers = "List.map StepWorkerNew (svi_workersInfo ?info)"
  let ?tail = "launchTail serverType (serverOf ?info)"
  note wf = serverInfoOf_wf [OF assms(2)]
  have steps: "launchSteps gi serverType routerId conf = first @ ?new @ ?workers @ ?tail"
    using launchSteps_parts [OF assms, of gi routerId] unfolding first .
  have log: "untilFailure ok (launchSteps gi serverType routerId conf) = untilFailure ok (first @ ?new @ ?workers @ ?tail)"
    by (rule arg_cong [OF steps])
  have workers: "dropWhile ok ?workers = List.map StepWorkerNew (dropWhile (\<lambda>w. ok (StepWorkerNew w)) (svi_workersInfo ?info))"
    by (simp add: dropWhile_map comp_def)
  show ?thesis
  proof (cases "dropWhile (\<lambda>w. ok (StepWorkerNew w)) (svi_workersInfo ?info)")
    case Nil
    then have "list_all ok ?workers"
      using workers by (simp add: list_all_dropWhile [symmetric])
    then show ?thesis
      using Nil by (simp add: zoneServerMain_launchArgv [OF assms] Let_def log first runSteps_untilFailure serverNew_outcome [OF wf] untilFailure_append
          serverLaunch_steps [OF assms(1) wf] untilFailure_all del: dropWhile_eq_Nil_conv)
  next
    case (Cons w bad)
    show ?thesis
    proof (cases "bad = []")
      case True
      then have "dropWhile ok ?workers = [StepWorkerNew w]"
        using Cons workers by simp
      note last = untilFailure_last [OF this]
      show ?thesis
        using Cons True by (simp add: zoneServerMain_launchArgv [OF assms] Let_def log first runSteps_untilFailure serverNew_outcome [OF wf]
            untilFailure_append last last(1) [where ys = "[]", simplified] untilFailure_all del: dropWhile_eq_Nil_conv)
    next
      case False
      then show ?thesis
        using Cons by (simp add: zoneServerMain_launchArgv [OF assms] Let_def log first runSteps_untilFailure serverNew_outcome [OF wf] untilFailure_append del: dropWhile_eq_Nil_conv)
    qed
  qed
qed

end
