(* ===== verification/LaunchTheorems.thy ===== *)
theory LaunchTheorems
  imports LaunchProps
begin

text \<open>
  The properties of the start of the servers: the processes that a configuration becomes, the order of the steps in a
  process, the configurations that are not served, and the reading of the configuration.
\<close>

section \<open>From the configuration to the running servers\<close>

text \<open>The servers of a configuration in the order of their launch: kind, router and entry.\<close>

definition configuredServers :: "GlobalServerInfo \<Rightarrow> (u32 \<times> u16 \<times> BasicServerConf) list" where
  "configuredServers gi =
     List.map (\<lambda>k. (SERVER_TYPE_BARRACK, BARRACKS_SERVER_ROUTER_ID + of_nat k, gi_barracksConf gi ! k)) [0..<length (gi_barracksConf gi)] @
     List.map (\<lambda>k. (SERVER_TYPE_SOCIAL, SOCIALS_SERVER_ROUTER_ID + of_nat k, gi_socialsConf gi ! k)) [0..<length (gi_socialsConf gi)] @
     List.map (\<lambda>k. (SERVER_TYPE_ZONE, ZONES_SERVER_ROUTER_ID + of_nat k, gi_zonesConf gi ! k)) [0..<length (gi_zonesConf gi)]"

definition configurationOk :: "GlobalServerInfo \<Rightarrow> bool" where
  "configurationOk gi \<longleftrightarrow> globalOk gi \<and>
     list_all confOk (gi_barracksConf gi) \<and> length (gi_barracksConf gi) < 65536 \<and>
     list_all confOk (gi_socialsConf gi) \<and> length (gi_socialsConf gi) < 65536 \<and>
     list_all confOk (gi_zonesConf gi) \<and> length (gi_zonesConf gi) < 65536"

lemma serverTypes_ok [simp]: "serverTypeOk SERVER_TYPE_BARRACK" "serverTypeOk SERVER_TYPE_SOCIAL" "serverTypeOk SERVER_TYPE_ZONE"
  by (simp_all add: serverTypeOk_def)

lemma globalServerStart_argvs:
  assumes "configurationOk gi"
  shows "globalServerStart True True gi = Some (Inr (True, List.map (\<lambda>(serverType, routerId, conf). launchArgv gi serverType routerId conf) (configuredServers gi)))"
  using assms by (simp add: globalServerStart_def configurationOk_def globalServerLaunchAll_correct configuredServers_def comp_def del: upt_Suc)

lemma configuredServers_ok:
  assumes "configurationOk gi" "(serverType, routerId, conf) \<in> set (configuredServers gi)"
  shows "serverTypeOk serverType" "confOk conf"
  using assms by (auto simp: configurationOk_def configuredServers_def list_all_length)

lemma zoneServerMain_all:
  assumes "serverTypeOk serverType" "confOk conf"
  shows "zoneServerMain (\<lambda>_. True) (launchArgv gi serverType routerId conf) =
    Some (Inr (StepOutput (bc_output conf) # launchSteps gi serverType routerId conf, 0))"
proof -
  have all: "list_all (\<lambda>_. True) xs" for xs :: "LaunchStep list"
    by (simp add: list_all_iff)
  have none: "dropWhile (\<lambda>_. True) ws = []" for ws :: "WorkerInfo list"
    by (simp add: dropWhile_eq_Nil_conv)
  show ?thesis
    using assms by (simp add: all none zoneServerMain_exact confOk_def Let_def untilFailure_all)
qed

text \<open>C2: A configuration whose texts are words and whose numbers of workers are between 1 and 65535 is served: the global
  server launches one process for each of its servers, barracks first, then the social servers and the zones, and
  each process, from its command line alone, takes the steps of its server with the parameters of the configuration.\<close>

theorem globalServerStart_launches:
  assumes "configurationOk gi"
  shows "\<exists>argvs. globalServerStart True True gi = Some (Inr (True, argvs)) \<and>
    List.map (zoneServerMain (\<lambda>_. True)) argvs =
    List.map (\<lambda>(serverType, routerId, conf). Some (Inr (StepOutput (bc_output conf) # launchSteps gi serverType routerId conf, 0)))
      (configuredServers gi)"
proof (intro exI conjI)
  show "globalServerStart True True gi =
      Some (Inr (True, List.map (\<lambda>(serverType, routerId, conf). launchArgv gi serverType routerId conf) (configuredServers gi)))"
    by (rule globalServerStart_argvs [OF assms])
qed (use zoneServerMain_all configuredServers_ok [OF assms] in auto)

text \<open>C38: A process takes the steps of its server in order up to the first that fails. There are two exceptions: a server without
  a router is destroyed through a null pointer, and one of whose workers a worker that is not the last cannot be
  created is destroyed through pointers that were never set.\<close>

theorem zoneServerMain_correct:
  assumes "serverTypeOk serverType" "unat (bc_workersCount conf) < 65536"
  shows "zoneServerMain ok (launchArgv gi serverType routerId conf) =
    (let steps = launchSteps gi serverType routerId conf;
         info = serverInfoOf gi serverType routerId (disconnectHandlerOf serverType) conf;
         log = StepOutput (bc_output conf) # untilFailure ok steps in
     if \<not> list_all ok (take 2 steps) then Some (Inr (log, -1))
     else if \<not> (ok StepCryptoInit \<and> ok (StepRouterNew (svi_routerInfo info))) then Some (Inl NullDeref)
     else case dropWhile (\<lambda>w. ok (StepWorkerNew w)) (svi_workersInfo info) of
         [] \<Rightarrow> Some (Inr (log, 0))
       | w # bad \<Rightarrow> if bad = [] then Some (Inr (log, -1)) else Some (Inl Uninitialised))"
  using assms by (rule zoneServerMain_exact)

section \<open>Configurations that are not served\<close>

lemma launchWords_blanks:
  assumes "list_all plainWord ws" "launchWords gi serverType routerId conf = xs @ [] # ys" "ws = xs @ ys"
  shows "list_all (\<lambda>w. CHR 0x20 \<notin> set w) (launchWords gi serverType routerId conf)"
    and "filter (\<lambda>w. w \<noteq> []) (launchWords gi serverType routerId conf) = ws"
  using assms plainWords [of ws] by auto

text \<open>C39: An empty password of the database, which MySQL allows, is no word of the command line. The process then finds the
  words after it one place too early, and reads the name of its output through the null pointer that ends them.\<close>

theorem empty_password_crashes:
  assumes "globalOk (gi \<lparr> gi_sqlInfo := (gi_sqlInfo gi) \<lparr> my_password := ''x'' \<rparr> \<rparr>)" "my_password (gi_sqlInfo gi) = []"
    and "serverTypeOk serverType" "unat k < length confs" "confOk (confs ! unat k)"
  shows "\<exists>argv. globalServerLaunch gi serverType first disconnectHandler confs k processes = Some (Inr (processes @ [argv])) \<and>
    zoneServerMain ok argv = Some (Inl NullDeref)"
proof -
  define conf where "conf = confs ! unat k"
  define before where "before = take 9 (launchWords gi serverType (first + k) conf)"
  define after where "after = drop 10 (launchWords gi serverType (first + k) conf)"
  have words: "launchWords gi serverType (first + k) conf = before @ [] # after"
    using assms(2) by (simp add: launchWords_def before_def after_def)
  have "list_all plainWord (before @ after)"
    using assms plainWord_fmtInt by (simp add: before_def after_def launchWords_def globalOk_def confOk_def conf_def plainWord_def [of "ZONE_SERVER_EXECUTABLE_NAME"])
  note blanks = launchWords_blanks [OF this words refl]
  have "serverCreateProcess (serverInfoOf gi serverType (first + k) disconnectHandler conf) ZONE_SERVER_EXECUTABLE_NAME =
      Inr (List.map Some (before @ after) @ [None])"
    using serverCreateProcess_words [OF blanks(1)] blanks(2) assms(5) by (simp add: confOk_def conf_def)
  then have "globalServerLaunch gi serverType first disconnectHandler confs k processes =
      Some (Inr (processes @ [List.map Some (before @ after) @ [None]]))"
    using assms(3-5) serverFactory_correct by (simp add: globalServerLaunch_def confOk_def conf_def Let_def)
  moreover have "zoneServerMain ok (List.map Some (before @ after) @ [None]) = Some (Inl NullDeref)"
    by (simp add: before_def after_def launchWords_def zoneServerMain_def readLaunchArgs_def nextInt_def c_strdup_def)
  ultimately show ?thesis
    by blast
qed

text \<open>A number of workers that the counter of the workers cannot reach keeps the factory in its loop.\<close>

lemma serverFactory_runs_forever:
  assumes "serverTypeOk serverType" "65535 < sint (bc_workersCount conf)"
  shows "serverFactoryInitServerInfo serverType routerId (Some (bc_ip conf)) (bc_port conf) (bc_workersCount conf) (bc_output conf)
     (Some (gi_ip gi)) (gi_port gi) (Some (my_hostname (gi_sqlInfo gi))) (Some (my_user (gi_sqlInfo gi)))
     (Some (my_password (gi_sqlInfo gi))) (Some (my_database (gi_sqlInfo gi)))
     (Some (rd_hostname (gi_redisInfo gi))) (rd_port (gi_redisInfo gi)) disconnectHandler = None"
proof -
  obtain table where handlers: "serverFactoryHandlers serverType = (table, Some (nat PACKET_TYPE_COUNT))"
    using assms(1) by (auto simp: serverFactoryHandlers_def serverTypeOk_def)
  have "65535 < nat (sint (bc_workersCount conf))"
    using assms(2) by simp
  then have "loop16 (\<lambda>workerId workersInfo. osum (workerInfoInit workerId routerId serverType (Some (gi_ip gi)) (gi_port gi)
        (gi_sqlInfo gi) (gi_redisInfo gi) table (nat PACKET_TYPE_COUNT) (Some (bc_ip conf)) (bc_port conf))
        (\<lambda>w. Some (Inr (workersInfo @ [w])))) (nat (sint (bc_workersCount conf))) 0 [] = None"
    by (rule loop16_runs_forever) (simp add: workerInfoInit_def)
  then show ?thesis
    unfolding serverFactoryInitServerInfo_def using assms(2) by (simp add: routerInfoInit_def handlers)
qed

lemma serverFactory_negative:
  assumes "sint (bc_workersCount conf) < 0"
  shows "serverFactoryInitServerInfo serverType routerId (Some (bc_ip conf)) (bc_port conf) (bc_workersCount conf) (bc_output conf)
     (Some (gi_ip gi)) (gi_port gi) (Some (my_hostname (gi_sqlInfo gi))) (Some (my_user (gi_sqlInfo gi)))
     (Some (my_password (gi_sqlInfo gi))) (Some (my_database (gi_sqlInfo gi)))
     (Some (rd_hostname (gi_redisInfo gi))) (rd_port (gi_redisInfo gi)) disconnectHandler = Some (Inr None)"
  unfolding serverFactoryInitServerInfo_def using assms by (simp add: routerInfoInit_def)

text \<open>What becomes of a number of workers: a negative one stops the global server; with none it reads the parameters of
  the process from an array without elements; with more than 65535 it never comes back from the loop that fills the
  array; otherwise the process is launched.\<close>

theorem globalServerLaunch_workersCount:
  assumes "globalOk gi" "serverTypeOk serverType" "unat k < length confs"
    and "plainWord (bc_ip (confs ! unat k))" "plainWord (bc_output (confs ! unat k))"
  shows "globalServerLaunch gi serverType first disconnectHandler confs k processes =
    (let n = sint (bc_workersCount (confs ! unat k)) in
     if n < 0 then Some (Inl (Inr processes))
     else if n = 0 then Some (Inl (Inl OutOfBounds))
     else if 65535 < n then None
     else Some (Inr (processes @ [launchArgv gi serverType (first + k) (confs ! unat k)])))"
proof -
  define conf where "conf = confs ! unat k"
  have small: "unat (bc_workersCount conf) < 65536 \<and> (0 < unat (bc_workersCount conf) \<longleftrightarrow> sint (bc_workersCount conf) \<noteq> 0)"
    if "\<not> sint (bc_workersCount conf) < 0" "\<not> 65535 < sint (bc_workersCount conf)"
  proof -
    have "uint (bc_workersCount conf) = take_bit 32 (sint (bc_workersCount conf))"
      using uint_sint [of "bc_workersCount conf"] by simp
    also have "\<dots> = sint (bc_workersCount conf)"
      using that by (simp add: take_bit_int_eq_self)
    finally have "unat (bc_workersCount conf) = nat (sint (bc_workersCount conf))"
      by (simp add: unat_eq_nat_uint)
    then show ?thesis
      using that by auto
  qed
  have step: "globalServerLaunch gi serverType first disconnectHandler confs k processes =
      (case serverFactoryInitServerInfo serverType (first + k) (Some (bc_ip conf)) (bc_port conf) (bc_workersCount conf) (bc_output conf)
         (Some (gi_ip gi)) (gi_port gi) (Some (my_hostname (gi_sqlInfo gi))) (Some (my_user (gi_sqlInfo gi)))
         (Some (my_password (gi_sqlInfo gi))) (Some (my_database (gi_sqlInfo gi)))
         (Some (rd_hostname (gi_redisInfo gi))) (rd_port (gi_redisInfo gi)) disconnectHandler of
        None \<Rightarrow> None
      | Some (Inl e) \<Rightarrow> Some (Inl (Inl e))
      | Some (Inr None) \<Rightarrow> Some (Inl (Inr processes))
      | Some (Inr (Some serverInfo)) \<Rightarrow>
          (case serverCreateProcess serverInfo ZONE_SERVER_EXECUTABLE_NAME of
             Inl e \<Rightarrow> Some (Inl (Inl e))
           | Inr argv \<Rightarrow> Some (Inr (processes @ [argv]))))"
    by (simp add: globalServerLaunch_def conf_def Let_def)
  consider "sint (bc_workersCount conf) < 0" | "sint (bc_workersCount conf) = 0" | "65535 < sint (bc_workersCount conf)"
    | "0 < sint (bc_workersCount conf)" "\<not> 65535 < sint (bc_workersCount conf)"
    by linarith
  then show ?thesis
  proof cases
    case 1
    then show ?thesis
      unfolding step by (simp add: serverFactory_negative conf_def [symmetric])
  next
    case 2
    then have "unat (bc_workersCount conf) = 0"
      using small by auto
    then have "bc_workersCount conf = 0"
      by (simp add: unsigned_eq_0_iff)
    then show ?thesis
      unfolding step conf_def [symmetric]
      using assms(2) serverFactory_correct [of serverType conf] by (simp add: serverCreateProcess_def serverInfoOf_def)
  next
    case 3
    then show ?thesis
      unfolding step using assms(2) by (simp add: serverFactory_runs_forever conf_def [symmetric])
  next
    case 4
    then have "confOk conf"
      using small assms(4,5) by (simp add: confOk_def conf_def)
    then show ?thesis
      using 4 globalServerLaunch_correct [OF assms(1-3)] by (simp add: conf_def Let_def)
  qed
qed

end
