(* ===== verification/LaunchConfig.thy ===== *)
theory LaunchConfig
  imports LaunchTheorems
begin

text \<open>
  The configuration of the global server as a tree: the locale \<open>json_library\<close> states what the documentation of the JSON
  library says of its functions, in terms of the value that a handle stands for; a library whose handles are the values
  satisfies it. At the end the properties of the start at a concrete configuration.
\<close>

section \<open>The JSON library\<close>

datatype JsonValue = JObject "(string \<times> JsonValue) list" | JArray "JsonValue list" | JString string | JOther

fun jMember :: "JsonValue \<Rightarrow> string \<Rightarrow> JsonValue option" where
  "jMember (JObject ms) key = map_of ms key"
| "jMember _ key = None"

fun jElement :: "JsonValue \<Rightarrow> nat \<Rightarrow> JsonValue option" where
  "jElement (JArray xs) k = (if k < length xs then Some (xs ! k) else None)"
| "jElement _ k = None"

fun jString :: "JsonValue \<Rightarrow> string" where
  "jString (JString s) = s"
| "jString _ = []"

fun jSize :: "JsonValue \<Rightarrow> nat" where
  "jSize (JArray xs) = length xs"
| "jSize _ = 0"

definition jIsObject :: "JsonValue \<Rightarrow> bool" where "jIsObject j \<longleftrightarrow> (case j of JObject _ \<Rightarrow> True | _ \<Rightarrow> False)"
definition jIsArray :: "JsonValue \<Rightarrow> bool" where "jIsArray j \<longleftrightarrow> (case j of JArray _ \<Rightarrow> True | _ \<Rightarrow> False)"
definition jIsString :: "JsonValue \<Rightarrow> bool" where "jIsString j \<longleftrightarrow> (case j of JString _ \<Rightarrow> True | _ \<Rightarrow> False)"

lemmas json_values [simp] = jIsObject_def jIsArray_def jIsString_def

locale json_library =
  fixes env :: "'j JsonEnv" and view :: "'j \<Rightarrow> JsonValue"
  assumes is_object: "js_is_object env j = jIsObject (view j)"
    and is_array: "js_is_array env j = jIsArray (view j)"
    and is_string: "js_is_string env j = jIsString (view j)"
    and object_get: "map_option view (js_object_get env j key) = jMember (view j) key"
    and array_get: "map_option view (js_array_get env j k) = jElement (view j) k"
    and array_size: "jIsArray (view j) \<Longrightarrow> js_array_size env j = jSize (view j)"
    and string_value: "jIsString (view j) \<Longrightarrow> js_string_value env j = jString (view j)"

text \<open>The members of the configuration, as values.\<close>

definition valueString :: "JsonValue \<Rightarrow> string \<Rightarrow> string option" where
  "valueString v key = (case jMember v key of Some (JString s) \<Rightarrow> Some s | _ \<Rightarrow> None)"

definition confOf :: "JsonValue \<Rightarrow> BasicServerConf option" where
  "confOf v =
     Option.bind (valueString v ''ip'') (\<lambda>ip.
     Option.bind (valueString v ''port'') (\<lambda>port.
     Option.bind (valueString v ''workersCount'') (\<lambda>workersCount.
     Option.bind (valueString v ''output'') (\<lambda>output.
       Some \<lparr> bc_ip = ip, bc_port = c_atoi port, bc_workersCount = c_atoi workersCount, bc_output = output \<rparr>))))"

context json_library
begin

lemma member_view:
  "jsonMember env (js_is_object env) j key = Some m \<Longrightarrow> jMember (view j) key = Some (view m)"
  "jMember (view j) key = Some v \<Longrightarrow> jIsObject v \<Longrightarrow> \<exists>m. jsonMember env (js_is_object env) j key = Some m \<and> view m = v"
  "jMember (view j) key = Some v \<Longrightarrow> jIsArray v \<Longrightarrow> \<exists>m. jsonMember env (js_is_array env) j key = Some m \<and> view m = v"
  using object_get [of j key] by (auto simp: jsonMember_def is_object is_array split: option.splits if_splits)

lemma string_view: "jsonString env j key = valueString (view j) key"
proof (cases "js_object_get env j key")
  case (Some m)
  then have "jMember (view j) key = Some (view m)"
    using object_get [of j key] by simp
  then show ?thesis
    using Some string_value [of m] by (cases "view m") (simp_all add: jsonString_def jsonMember_def valueString_def is_string)
next
  case None
  then show ?thesis
    using object_get [of j key] by (simp add: jsonString_def jsonMember_def valueString_def)
qed

lemma conf_view: "jElement (view j) k = Some v \<Longrightarrow> globalServerReadBasicServerConf env j k = confOf v"
  using array_get [of j k] by (auto simp: globalServerReadBasicServerConf_def confOf_def string_view)

lemma those_map: "(\<And>x. x \<in> set xs \<Longrightarrow> f x = Some (g x)) \<Longrightarrow> those (List.map f xs) = Some (List.map g xs)"
  by (induction xs) simp_all

lemma confs_view:
  assumes "jMember (view root) section = Some (JArray vs)" "\<forall>k<length vs. confOf (vs ! k) = Some (confs ! k)" "length vs = length confs"
  shows "globalServerReadConfs env root section = Some confs"
proof -
  obtain m where m: "jsonMember env (js_is_array env) root section = Some m" "view m = JArray vs"
    using member_view(3) [OF assms(1)] by auto
  have "those (List.map (globalServerReadBasicServerConf env m) [0..<length vs]) = Some (List.map ((!) confs) [0..<length vs])"
    using assms(2) by (intro those_map) (simp add: conf_view m)
  then show ?thesis
    using m array_size [of m] by (simp add: globalServerReadConfs_def assms(3) map_nth)
qed

end

text \<open>A library whose handles are the values, with a parser that knows one text.\<close>

definition valueEnv :: "JsonValue \<Rightarrow> JsonValue JsonEnv" where
  "valueEnv v = \<lparr> js_loads = (\<lambda>_. Some v), js_is_object = jIsObject, js_object_get = jMember, js_is_string = jIsString,
     js_string_value = jString, js_is_array = jIsArray, js_array_size = jSize, js_array_get = jElement \<rparr>"

interpretation value_library: json_library "valueEnv v" "\<lambda>j. j" for v
  by unfold_locales (simp_all add: valueEnv_def option.map_ident)

section \<open>Reading what was configured\<close>

definition confValue :: "BasicServerConf \<Rightarrow> JsonValue" where
  "confValue conf = JObject
     [(''ip'', JString (bc_ip conf)), (''port'', JString (fmtInt (sint (bc_port conf)))),
      (''workersCount'', JString (fmtInt (sint (bc_workersCount conf)))), (''output'', JString (bc_output conf))]"

definition configuration :: "GlobalServerInfo \<Rightarrow> string \<Rightarrow> JsonValue" where
  "configuration gi output = JObject
     [(''globalServer'', JObject [(''ip'', JString (gi_ip gi)), (''port'', JString (fmtInt (sint (gi_port gi)))), (''output'', JString output)]),
      (''barrackServers'', JArray (List.map confValue (gi_barracksConf gi))),
      (''socialServers'', JArray (List.map confValue (gi_socialsConf gi))),
      (''zoneServers'', JArray (List.map confValue (gi_zonesConf gi))),
      (''mysqlServer'', JObject [(''host'', JString (my_hostname (gi_sqlInfo gi))), (''user'', JString (my_user (gi_sqlInfo gi))),
         (''password'', JString (my_password (gi_sqlInfo gi))), (''database'', JString (my_database (gi_sqlInfo gi)))]),
      (''redisServer'', JObject [(''host'', JString (rd_hostname (gi_redisInfo gi))), (''port'', JString (fmtInt (sint (rd_port (gi_redisInfo gi)))))])]"

lemma confOf_confValue: "confOf (confValue conf) = Some conf"
  by (simp add: confOf_def confValue_def valueString_def)

context json_library
begin

lemma confs_read:
  "jMember (view root) section = Some (JArray (List.map confValue confs)) \<Longrightarrow> globalServerReadConfs env root section = Some confs"
  by (erule confs_view) (simp_all add: confOf_confValue)

lemma configuration_read:
  assumes "js_loads env confStr = Some root" "view root = configuration gi output"
  shows "globalServerInfoInit env (Some confStr) = Some gi"
proof -
  have members:
    "jMember (view root) ''globalServer'' = Some (JObject [(''ip'', JString (gi_ip gi)), (''port'', JString (fmtInt (sint (gi_port gi)))), (''output'', JString output)])"
    "jMember (view root) ''mysqlServer'' = Some (JObject [(''host'', JString (my_hostname (gi_sqlInfo gi))), (''user'', JString (my_user (gi_sqlInfo gi))),
         (''password'', JString (my_password (gi_sqlInfo gi))), (''database'', JString (my_database (gi_sqlInfo gi)))])"
    "jMember (view root) ''redisServer'' = Some (JObject [(''host'', JString (rd_hostname (gi_redisInfo gi))), (''port'', JString (fmtInt (sint (rd_port (gi_redisInfo gi)))))])"
    by (simp_all add: assms(2) configuration_def)
  have confs:
    "globalServerReadConfs env root ''barrackServers'' = Some (gi_barracksConf gi)"
    "globalServerReadConfs env root ''socialServers'' = Some (gi_socialsConf gi)"
    "globalServerReadConfs env root ''zoneServers'' = Some (gi_zonesConf gi)"
    by (rule confs_read; simp add: assms(2) configuration_def)+
  obtain globalServer where g: "jsonMember env (js_is_object env) root ''globalServer'' = Some globalServer"
      "view globalServer = JObject [(''ip'', JString (gi_ip gi)), (''port'', JString (fmtInt (sint (gi_port gi)))), (''output'', JString output)]"
    using member_view(2) [OF members(1)] by auto
  obtain mysqlServer where m: "jsonMember env (js_is_object env) root ''mysqlServer'' = Some mysqlServer"
      "view mysqlServer = JObject [(''host'', JString (my_hostname (gi_sqlInfo gi))), (''user'', JString (my_user (gi_sqlInfo gi))),
         (''password'', JString (my_password (gi_sqlInfo gi))), (''database'', JString (my_database (gi_sqlInfo gi)))]"
    using member_view(2) [OF members(2)] by auto
  obtain redisServer where r: "jsonMember env (js_is_object env) root ''redisServer'' = Some redisServer"
      "view redisServer = JObject [(''host'', JString (rd_hostname (gi_redisInfo gi))), (''port'', JString (fmtInt (sint (rd_port (gi_redisInfo gi)))))]"
    using member_view(2) [OF members(3)] by auto
  have "js_is_object env root"
    by (simp add: is_object assms(2) configuration_def)
  then show ?thesis
    by (simp add: globalServerInfoInit_def assms(1) g m r confs string_view valueString_def)
qed

end

text \<open>C40: A configuration that is written as the source of the server expects it, numbers as strings of decimal digits, is read
  back as it was meant.\<close>

theorem globalServerInfoInit_roundtrip:
  assumes "json_library env view" "js_loads env confStr = Some root" "view root = configuration gi output"
  shows "globalServerInfoInit env (Some confStr) = Some gi"
  using assms by (rule json_library.configuration_read)

section \<open>At a concrete configuration\<close>

definition exConf :: "u32 \<Rightarrow> BasicServerConf" where
  "exConf port = \<lparr> bc_ip = ''127.0.0.1'', bc_port = port, bc_workersCount = 2, bc_output = ''stdout'' \<rparr>"

definition exGlobal :: GlobalServerInfo where
  "exGlobal = \<lparr> gi_ip = ''127.0.0.1'', gi_port = 2003, gi_barracksConf = [exConf 2000], gi_socialsConf = [exConf 1337],
     gi_zonesConf = [exConf 2004, exConf 2005],
     gi_sqlInfo = \<lparr> my_hostname = ''localhost'', my_user = ''r1emu'', my_password = ''r1emu'', my_database = ''r1emu'' \<rparr>,
     gi_redisInfo = \<lparr> rd_hostname = ''localhost'', rd_port = 6379 \<rparr> \<rparr>"

lemma exGlobal_ok: "configurationOk exGlobal" "globalOk exGlobal" "confOk (exConf port)"
  by (simp_all add: configurationOk_def globalOk_def confOk_def exGlobal_def exConf_def plainWord_def)

theorem globalServerInfoInit_roundtrip_witness:
  "globalServerInfoInit (valueEnv (configuration exGlobal ''stdout'')) (Some ''{}'') = Some exGlobal"
  by (rule globalServerInfoInit_roundtrip [OF value_library.json_library_axioms]) (simp_all add: valueEnv_def)

theorem globalServerStart_launches_witness:
  "\<exists>argvs. globalServerStart True True exGlobal = Some (Inr (True, argvs)) \<and> length argvs = 4"
proof -
  obtain argvs where argvs: "globalServerStart True True exGlobal = Some (Inr (True, argvs))"
      "List.map (zoneServerMain (\<lambda>_. True)) argvs =
       List.map (\<lambda>(serverType, routerId, conf). Some (Inr (StepOutput (bc_output conf) # launchSteps exGlobal serverType routerId conf, 0)))
         (configuredServers exGlobal)"
    using globalServerStart_launches [OF exGlobal_ok(1)] by blast
  have "length argvs = length (configuredServers exGlobal)"
    using arg_cong [OF argvs(2), of length] by simp
  then show ?thesis
    using argvs(1) by (simp add: configuredServers_def exGlobal_def)
qed

theorem zoneServerMain_correct_witness:
  "zoneServerMain (\<lambda>st. st \<noteq> StepDbStart) (launchArgv exGlobal SERVER_TYPE_ZONE 1 (exConf 2005)) =
    Some (Inr (StepOutput ''stdout'' # take 9 (launchSteps exGlobal SERVER_TYPE_ZONE 1 (exConf 2005)), 0))"
  using zoneServerMain_correct [of SERVER_TYPE_ZONE "exConf 2005" "\<lambda>st. st \<noteq> StepDbStart" exGlobal 1]
  by (simp add: launchSteps_def Let_def serverInfoOf_def exConf_def upt_rec)

theorem empty_password_crashes_witness:
  "\<exists>argv. globalServerLaunch (exGlobal \<lparr> gi_sqlInfo := (gi_sqlInfo exGlobal) \<lparr> my_password := [] \<rparr> \<rparr>) SERVER_TYPE_ZONE 0 None [exConf 2004] 0 [] = Some (Inr [argv]) \<and>
    zoneServerMain (\<lambda>_. True) argv = Some (Inl NullDeref)"
  using empty_password_crashes [of "exGlobal \<lparr> gi_sqlInfo := (gi_sqlInfo exGlobal) \<lparr> my_password := [] \<rparr> \<rparr>" SERVER_TYPE_ZONE 0 "[exConf 2004]" 0 None "[]" "\<lambda>_. True"]
  by (simp add: globalOk_def exGlobal_def plainWord_def exGlobal_ok(3))

theorem globalServerLaunch_workersCount_witness:
  "globalServerLaunch exGlobal SERVER_TYPE_ZONE 0 None [(exConf 2004) \<lparr> bc_workersCount := 65536 \<rparr>] 0 [] = None"
  using globalServerLaunch_workersCount [of exGlobal SERVER_TYPE_ZONE 0 "[(exConf 2004) \<lparr> bc_workersCount := 65536 \<rparr>]" 0 None "[]"]
  by (simp add: exGlobal_ok(2) exConf_def plainWord_def)

end
