(* ===== verification/Spec2Isabelle.thy ===== *)
theory Spec2Isabelle
  imports InventoryWitness CryptoTables CommanderWitness ZonePackets BarrackBuilder RouterOrder ZoneEventsWitness WorkerProps DbProps BarrackWitness ZoneDumpProps ZoneWitness DisconnectWitness LaunchConfig
begin

text \<open>
  R1EMU is a server for an online game, written in C (\<open>src/src\<close> of the repository). A \<^emph>\<open>global server\<close> reads a
  configuration and starts a process for every \<^emph>\<open>barrack\<close>, \<^emph>\<open>social\<close> and \<^emph>\<open>zone\<close> server. Each process has a router,
  which speaks to the clients, some workers, which answer their packets, an event server, which tells a client of
  what the clients around it do, a table of sessions, and a monitor that hears of closed connections. What the
  processes share is in Redis (sessions) and in MySQL (accounts, commanders, catalogues). This library models
  these parts function by function and proves what makes them correct.

  \<^bold>\<open>Conventions.\<close> A definition has the name of the function it translates; a record has the fields of the structure with a
  short prefix. Integers are words of their width, floats are bit patterns. A result of type \<open>'a result\<close> is
  \<open>Inl e\<close> where the code has undefined behaviour: an access outside of an object, an object that is not initialised, a
  null or dangling pointer. Objects that the code shares through pointers live in explicit stores (inventory, graph,
  commanders). A loop that may not return is \<open>None\<close> in a \<open>partial_function\<close>: \<open>workerBuildReplyLoop\<close>, \<open>scanLoop\<close> and
  \<open>loop16\<close>; every other loop is a total function, and there is no fuel in the model.
  Debugging macros are empty, as in a release build; \<open>long\<close> has 64 bits; allocations succeed.
  Libraries are arguments of the definitions with their documented behaviour as a locale: CZMQ hash tables
  (\<open>zhash\<close>, with \<open>zhash_iter\<close>), a Redis server (\<open>redis_server\<close>), a SQL server (\<open>sql_server\<close>, \<open>commander_sql\<close>), a JSON
  library (\<open>json_library\<close>). Each is interpreted on an executable reference (\<open>al_ops\<close>, \<open>redisRun\<close>, \<open>sqlRun\<close>, \<open>valueEnv\<close>),
  with which the witnesses evaluate. Deflation, the clock and floating point arithmetic are plain arguments.

  \<^bold>\<open>Foundations.\<close>
  \<^item> \<open>Prelude\<close>: bytes, little-endian layout, C strings, results. \<open>CFormat\<close>, \<open>CText\<close>: the parts of \<open>snprintf\<close>, \<open>strtol\<close> and
    \<open>strtoull\<close> in use, and \<open>strSplit\<close> of \<open>common/utils/string.c\<close>. \<open>Dump\<close>: \<open>dumpToMem\<close> of \<open>common/utils/utils.c\<close>.
    \<open>RandomGen\<close>: \<open>common/utils/random.c\<close>. \<open>Zhash\<close>, \<open>Zmsg\<close>: hash tables and messages of CZMQ.
  \<^item> \<open>PacketStream\<close>, \<open>Packet\<close>, \<open>PacketType\<close>: \<open>common/packet\<close>. The locale \<open>ps_serializer\<close> is the contract of a serializer,
    interpreted on actors, properties, items and each of the item classes. \<open>PacketBuild\<close>: what the packet builders share.
  \<^item> \<open>Blowfish\<close>, \<open>Crypto\<close>, \<open>CryptoTables\<close>: \<open>common/crypto\<close>. The locale \<open>block_cipher\<close> gives the round trips of the
    modes of operation; what a client encrypts the server decrypts.

  \<^bold>\<open>Items and commanders.\<close>
  \<^item> \<open>Property\<close>, \<open>Actor\<close>, \<open>Item\<close>, \<open>ItemKinds\<close>, \<open>ItemObject\<close>, \<open>ItemFactory\<close>, \<open>StaticData\<close>: \<open>common/property\<close>,
    \<open>common/actor\<close> and \<open>common/static_data\<close>. An item that is serialized is read back.
  \<^item> \<open>Inventory\<close>, \<open>InventoryInv\<close>, \<open>InventorySer\<close>, \<open>InventoryWitness\<close>: \<open>common/commander/inventory.c\<close> over a store of items
    and handles. The invariant \<open>inv_wf\<close> ties the table, the bags and the slots together; each operation keeps it and has its
    effect on the abstract view \<open>inv_abs\<close>, or is shown to break it.
  \<^item> \<open>Commander\<close>, \<open>CommanderWitness\<close>: \<open>common/commander/commander.c\<close>. \<open>Session\<close>, \<open>SocketSession\<close>: \<open>common/session\<close>.

  \<^bold>\<open>Servers.\<close>
  \<^item> \<open>Router\<close>, \<open>RouterInv\<close>, \<open>RouterOrder\<close>: \<open>common/server/router.c\<close>. A step relation gives the states that clients and workers can
    bring about; the invariant (no worker is lost or ready twice, a busy worker has a client) holds in all of
    them; packets of one client can nevertheless be reordered.
  \<^item> \<open>Monitor\<close>: \<open>common/server/router_monitor.c\<close>, a refinement of a map from descriptors to clients (locale \<open>monitor_table\<close>).
  \<^item> \<open>Worker\<close>, \<open>WorkerProps\<close>, \<open>Handler\<close>: \<open>common/server/worker.c\<close>. The answer to a message, composed with cipher and router.
  \<^item> \<open>Db\<close>, \<open>DbProps\<close>: \<open>common/db\<close>, the session table and the protocol of its clients, with the memory behind frames explicit.
  \<^item> \<open>Graph\<close>, \<open>EventServer\<close>, \<open>Proximity\<close>: \<open>common/graph\<close> and \<open>common/server/event_server.c\<close>. The graph refines the multiset of
    the neighbours of each client. \<open>ZoneEvents\<close>, \<open>ZoneUpdate\<close>, \<open>ZoneBroadcast\<close>, \<open>ZoneEventsWitness\<close>: the events of
    a zone (\<open>zone_event_server.c\<close>, \<open>zone_event_handler.c\<close>); the locale \<open>around_broadcast\<close> is shared by five handlers.
  \<^item> \<open>Disconnect\<close>, \<open>DisconnectWitness\<close>: what a server does when a client disconnects, and the social server. A leaving commander is
    in MySQL as the next login reads it and gone from Redis.
  \<^item> \<open>Launch\<close>, \<open>LaunchProps\<close>, \<open>LaunchTheorems\<close>, \<open>LaunchConfig\<close>: \<open>global_server.c\<close>, \<open>server_factory.c\<close>, \<open>server.c\<close> and
    \<open>zone_server/main.c\<close>. From the configuration to the steps of each process; the failures on the way.

  \<^bold>\<open>Packets of the game.\<close>
  \<^item> \<open>BarrackBuilder\<close>, \<open>BarrackHandler\<close>, \<open>BarrackInv\<close>, \<open>BarrackProps\<close>, \<open>BarrackWitness\<close>: \<open>barrack_server/barrack_handler\<close>. Handlers
    keep the array of pointers to commanders valid; which indices of a client they trust.
  \<^item> \<open>ZoneBuilder\<close>, \<open>ZoneDumps\<close>, \<open>ZonePackets\<close>, \<open>ZoneDumpProps\<close>: the packets of \<open>zone_builder.c\<close>, built or replayed, with their sizes.
    \<open>ZoneHandler\<close>, \<open>AdminCmd\<close>, \<open>ZoneProps\<close>, \<open>ZoneWitness\<close>: \<open>zone_handler.c\<close> and \<open>admin_cmd.c\<close>.

  \<^bold>\<open>Databases.\<close>
  \<^item> \<open>Redis\<close>, \<open>RedisProps\<close>, \<open>RedisTheorems\<close>, \<open>RedisWitness\<close>: \<open>common/redis\<close>, down to the text of each request. What is written
    is read back; the search for clients around ends and is complete; what a name can do to a request.
  \<^item> \<open>MySqlAccount\<close>, \<open>MySqlCommander\<close>, \<open>MySqlProps\<close>, \<open>MySqlTheorems\<close>, \<open>MySqlFlush\<close>, \<open>MySqlWitness\<close>: \<open>common/mysql/fields\<close>. The
    statements as words and literals, and the round trip of a flush and a login.

  \<^bold>\<open>Not modelled\<close>, and why: opening sockets and connections and the reactors that call the handlers (calls of libraries only); the
  main loop of the global server, which drops what it receives; print functions, destructors that only free, and the
  dump of structures (no effect on the state); the copying of the 137 columns of the catalogue, of which the
  servers read two; the crash handler and the Windows variants; \<open>item_attribute.c\<close>, whose header does not exist,
  and the constructors of NPCs, skills and game events, which no server uses; the headers of third parties in \<open>src/include\<close>.
\<close>

end
